(* ===== verification/Prelude.thy ===== *)
theory Prelude
  imports Main "HOL-Library.AList" "HOL-Library.Multiset"
begin

text \<open>
  The vocabulary every other theory shares.

  A Go \<open>map[K]V\<close> is an association list with distinct keys. \<open>map_of\<close> is the lookup
  (\<open>None\<close> is the missing key, which for a map of pointers is also Go's \<open>nil\<close>),
  \<open>AList.update\<close> the assignment \<open>m[k] = v\<close> and \<open>length\<close> is \<open>len(m)\<close>. The order of the
  list stands for the order in which \<open>range\<close> happens to visit the entries: Go leaves it
  open, so where the code sorts what it collected the theorems show that the result is the
  same for every permutation of the list.
\<close>

named_theorems gomap_simps "lookups and updates of Go maps"
named_theorems model_defs "definitions that a proof by evaluation unfolds"

type_synonym ('k, 'v) gomap = "('k \<times> 'v) list"

abbreviation gm_get :: "('k, 'v) gomap \<Rightarrow> 'k \<Rightarrow> 'v option" where
  "gm_get \<equiv> map_of"

abbreviation gm_put :: "'k \<Rightarrow> 'v \<Rightarrow> ('k, 'v) gomap \<Rightarrow> ('k, 'v) gomap" where
  "gm_put \<equiv> AList.update"

definition gm_ok :: "('k, 'v) gomap \<Rightarrow> bool" where
  "gm_ok m \<longleftrightarrow> distinct (map fst m)"

text \<open>\<open>m[k]\<close> on a map of integers: a missing key reads as the zero value.\<close>

definition gm_int :: "('k, int) gomap \<Rightarrow> 'k \<Rightarrow> int" where
  "gm_int m k = (case map_of m k of None \<Rightarrow> 0 | Some v \<Rightarrow> v)"

text \<open>\<open>delete(m, k)\<close>.\<close>

abbreviation gm_del :: "'k \<Rightarrow> ('k, 'v) gomap \<Rightarrow> ('k, 'v) gomap" where
  "gm_del \<equiv> AList.delete"

text \<open>A \<open>time.Time\<close> (\<open>time.Now\<close> is an argument of the operations that call it) and a
  \<open>time.Duration\<close>, both in nanoseconds; \<open>t.Sub(u)\<close> is \<open>t - u\<close>.\<close>

type_synonym gotime = int
type_synonym duration = int

definition second :: duration where "second = 1000000000"

text \<open>Arithmetic on \<open>int64\<close> wraps around (used where a product may be large).\<close>

definition wrap64 :: "int \<Rightarrow> int" where
  "wrap64 x = (x + 2 ^ 63) mod 2 ^ 64 - 2 ^ 63"

subsection \<open>Maps\<close>

lemma gm_ok_empty [simp, intro]: "gm_ok []"
  by (simp add: gm_ok_def)

lemma gm_ok_put [simp, intro]: "gm_ok m \<Longrightarrow> gm_ok (gm_put k v m)"
  by (simp add: gm_ok_def distinct_update)

lemma gm_ok_del [simp, intro]: "gm_ok m \<Longrightarrow> gm_ok (gm_del k m)"
  by (simp add: gm_ok_def distinct_delete)

lemma gm_ok_Cons: "gm_ok ((k, v) # m) \<longleftrightarrow> k \<notin> fst ` set m \<and> gm_ok m"
  by (simp add: gm_ok_def)

lemma gm_get_put [gomap_simps]: "gm_get (gm_put k v m) = (gm_get m)(k \<mapsto> v)"
  by (rule update_conv')

lemma gm_get_put_same [simp]: "gm_get (gm_put k v m) k = Some v"
  by (simp add: gm_get_put)

lemma gm_get_put_other: "k \<noteq> k' \<Longrightarrow> gm_get (gm_put k v m) k' = gm_get m k'"
  by (simp add: gm_get_put)

lemma gm_keys_put [gomap_simps]: "fst ` set (gm_put k v m) = insert k (fst ` set m)"
  by (metis dom_map_of_conv_image_fst dom_fun_upd gm_get_put option.distinct(1))

lemma gm_in_iff: "gm_ok m \<Longrightarrow> (k, v) \<in> set m \<longleftrightarrow> gm_get m k = Some v"
  by (auto simp: gm_ok_def)

lemma gm_in_get: "gm_ok m \<Longrightarrow> (k, v) \<in> set m \<Longrightarrow> gm_get m k = Some v"
  by (simp add: gm_in_iff)

lemma gm_get_in: "gm_get m k = Some v \<Longrightarrow> (k, v) \<in> set m"
  by (rule map_of_SomeD)

lemma gm_none_iff: "gm_get m k = None \<longleftrightarrow> k \<notin> fst ` set m"
  by (rule map_of_eq_None_iff)

lemma length_put_new: "gm_get m k = None \<Longrightarrow> length (gm_put k v m) = Suc (length m)"
  by (induction m) (auto split: if_splits)

lemma length_put_old: "gm_get m k \<noteq> None \<Longrightarrow> length (gm_put k v m) = length m"
  by (induction m) (auto split: if_splits)

lemma length_put:
  "length (gm_put k v m) = (if gm_get m k = None then Suc (length m) else length m)"
  by (simp add: length_put_new length_put_old)

lemma length_put_le: "length (gm_put k v m) \<le> Suc (length m)"
  by (simp add: length_put)

lemma set_put_subset: "set (gm_put k v m) \<subseteq> insert (k, v) (set m)"
  by (induction m) auto

lemma put_in_iff:
  "gm_ok m \<Longrightarrow> (k', v') \<in> set (gm_put k v m) \<longleftrightarrow>
     (if k' = k then v' = v else (k', v') \<in> set m)"
  by (auto simp: gm_in_iff gm_get_put)

text \<open>Applying a function to every value leaves the keys alone (a loop that writes
  through the pointers of a map).\<close>

definition gm_map :: "('k \<Rightarrow> 'v \<Rightarrow> 'w) \<Rightarrow> ('k, 'v) gomap \<Rightarrow> ('k, 'w) gomap" where
  "gm_map f m = map (\<lambda>(k, v). (k, f k v)) m"

lemma gm_map_Nil [simp]: "gm_map f [] = []"
  by (simp add: gm_map_def)

lemma gm_map_Cons [simp]: "gm_map f ((k, v) # m) = (k, f k v) # gm_map f m"
  by (simp add: gm_map_def)

lemma fst_gm_map [simp]: "map fst (gm_map f m) = map fst m"
  by (induction m) auto

lemma length_gm_map [simp]: "length (gm_map f m) = length m"
  by (simp add: gm_map_def)

lemma gm_keys_map [simp]: "fst ` set (gm_map f m) = fst ` set m"
  by (metis fst_gm_map list.set_map)

lemma gm_ok_map [simp]: "gm_ok (gm_map f m) = gm_ok m"
  by (simp add: gm_ok_def)

lemma gm_get_map [gomap_simps]: "gm_get (gm_map f m) k = map_option (f k) (gm_get m k)"
  by (induction m) auto

text \<open>Two lists with the same lookups are the same Go map visited in two orders.\<close>

lemma gm_perm: "gm_ok m \<Longrightarrow> gm_ok m' \<Longrightarrow> gm_get m = gm_get m' \<Longrightarrow> mset m = mset m'"
proof -
  assume ok: "gm_ok m" "gm_ok m'" and eq: "gm_get m = gm_get m'"
  have "set m = set m'"
    using ok eq by (auto simp: gm_in_iff)
  moreover have "distinct m" "distinct m'"
    using ok by (auto simp: gm_ok_def distinct_map)
  ultimately show ?thesis
    by (simp add: set_eq_iff_mset_eq_distinct)
qed

lemma gm_perm_ok: "gm_ok m \<Longrightarrow> mset m = mset m' \<Longrightarrow> gm_ok m'"
  unfolding gm_ok_def by (metis mset_eq_imp_distinct_iff mset_map)

lemma gm_perm_get: "gm_ok m \<Longrightarrow> mset m = mset m' \<Longrightarrow> gm_get m = gm_get m'"
  by (metis gm_ok_def gm_perm_ok map_of_inject_set mset_eq_setD)

subsection \<open>Counting\<close>

definition count_if :: "('a \<Rightarrow> bool) \<Rightarrow> 'a list \<Rightarrow> int" where
  "count_if P xs = int (length (filter P xs))"

lemma count_if_Nil [simp]: "count_if P [] = 0"
  by (simp add: count_if_def)

lemma count_if_Cons [simp]: "count_if P (x # xs) = (if P x then 1 else 0) + count_if P xs"
  by (simp add: count_if_def)

lemma count_if_nonneg [simp]: "0 \<le> count_if P xs"
  by (simp add: count_if_def)

lemma count_if_perm: "mset xs = mset ys \<Longrightarrow> count_if P xs = count_if P ys"
  by (metis count_if_def mset_filter size_mset)

lemma count_if_pos: "0 < count_if P xs \<longleftrightarrow> (\<exists>x \<in> set xs. P x)"
  by (auto simp: count_if_def filter_empty_conv)

end
