(* ===== verification/Go_Sort.thy ===== *)
theory Go_Sort
  imports Prelude
begin

text \<open>
  Go's \<open>sort.Slice\<close>, \<open>sort.SliceStable\<close> and \<open>sort.Strings\<close>. A sort is insertion by
  the comparison the code passes (\<open>less(i, j)\<close> of the source, on elements). \<open>sort.Slice\<close>
  promises no order among elements that the comparison does not separate; the interface
  \<open>comparator\<close> states when that cannot happen, and inside it the sorted list is shown to
  be the same for every order of the input.
\<close>

fun insert_by :: "('a \<Rightarrow> 'a \<Rightarrow> bool) \<Rightarrow> 'a \<Rightarrow> 'a list \<Rightarrow> 'a list" where
  "insert_by lt x [] = [x]"
| "insert_by lt x (y # ys) = (if lt y x then y # insert_by lt x ys else x # y # ys)"

definition sort_slice :: "('a \<Rightarrow> 'a \<Rightarrow> bool) \<Rightarrow> 'a list \<Rightarrow> 'a list" where
  "sort_slice lt xs = foldr (insert_by lt) xs []"

lemma sort_slice_Nil [simp]: "sort_slice lt [] = []"
  by (simp add: sort_slice_def)

lemma sort_slice_Cons [simp]: "sort_slice lt (x # xs) = insert_by lt x (sort_slice lt xs)"
  by (simp add: sort_slice_def)

lemma mset_insert_by [simp]: "mset (insert_by lt x xs) = add_mset x (mset xs)"
  by (induction xs) auto

lemma mset_sort_slice [simp]: "mset (sort_slice lt xs) = mset xs"
  by (induction xs) auto

lemma set_sort_slice [simp]: "set (sort_slice lt xs) = set xs"
  by (metis mset_sort_slice set_mset_mset)

lemma length_sort_slice [simp]: "length (sort_slice lt xs) = length xs"
  by (metis mset_sort_slice size_mset)

lemma sort_slice_eq_Nil [simp]: "sort_slice lt xs = [] \<longleftrightarrow> xs = []"
  by (metis length_0_conv length_sort_slice)

lemma insert_by_map:
  "(\<And>a b. lt' (f a) (f b) = lt a b) \<Longrightarrow> insert_by lt' (f x) (map f xs) = map f (insert_by lt x xs)"
  by (induction xs) auto

lemma sort_slice_map:
  "(\<And>a b. lt' (f a) (f b) = lt a b) \<Longrightarrow> sort_slice lt' (map f xs) = map f (sort_slice lt xs)"
  by (induction xs) (simp_all add: insert_by_map)

text \<open>For a comparison that is a strict weak order, the first element is one that no other precedes,
  and the order of the result agrees with the comparison.\<close>

definition weak_order :: "('a \<Rightarrow> 'a \<Rightarrow> bool) \<Rightarrow> bool" where
  "weak_order lt \<longleftrightarrow> (\<forall>x y. lt x y \<longrightarrow> \<not> lt y x) \<and> (\<forall>x y z. \<not> lt x y \<longrightarrow> \<not> lt y z \<longrightarrow> \<not> lt x z)"

lemma weak_order_key: "weak_order (\<lambda>a b. (f a :: 'b :: linorder) > f b)"
  by (auto simp: weak_order_def)

lemma weak_orderD:
  "weak_order lt \<Longrightarrow> lt x y \<Longrightarrow> \<not> lt y x"
  "weak_order lt \<Longrightarrow> \<not> lt x y \<Longrightarrow> \<not> lt y z \<Longrightarrow> \<not> lt x z"
  unfolding weak_order_def by blast+

lemma insert_by_sorted:
  assumes w: "weak_order lt"
  shows "sorted_wrt (\<lambda>x y. \<not> lt y x) ys \<Longrightarrow> sorted_wrt (\<lambda>x y. \<not> lt y x) (insert_by lt x ys)"
proof (induction ys)
  case (Cons y ys)
  show ?case
  proof (cases "lt y x")
    case True
    have "set (insert_by lt x ys) = insert x (set ys)"
      by (metis mset_insert_by set_mset_add_mset_insert set_mset_mset)
    then show ?thesis using True Cons weak_orderD(1) [OF w True] by simp
  next
    case False
    have "\<not> lt z x" if "z \<in> set ys" for z
      using weak_orderD(2) [OF w _ False] Cons.prems that by simp
    then show ?thesis using False Cons.prems by simp
  qed
qed simp

lemma sort_slice_sorted: "weak_order lt \<Longrightarrow> sorted_wrt (\<lambda>x y. \<not> lt y x) (sort_slice lt xs)"
  by (induction xs) (simp_all add: insert_by_sorted)

lemma sort_slice_min:
  assumes w: "weak_order lt" and x: "x \<in> set xs"
  shows "\<not> lt x (hd (sort_slice lt xs))"
proof (cases "sort_slice lt xs")
  case Nil
  then show ?thesis using x by (metis list.distinct(1) list.set_cases sort_slice_eq_Nil)
next
  case (Cons h t)
  then have "x = h \<or> x \<in> set t" using x by (metis set_ConsD set_sort_slice)
  then show ?thesis
    using sort_slice_sorted [OF w, of xs] weak_orderD(1) [OF w, of h h] Cons by auto
qed

text \<open>
  A comparison that is a strict order and separates any two elements with different keys.
  On a list whose keys are distinct it is then a total order.
\<close>

locale comparator =
  fixes lt :: "'a \<Rightarrow> 'a \<Rightarrow> bool"
    and key :: "'a \<Rightarrow> 'k"
  assumes lt_irrefl: "\<not> lt x x"
    and lt_trans: "lt x y \<Longrightarrow> lt y z \<Longrightarrow> lt x z"
    and lt_total: "key x \<noteq> key y \<Longrightarrow> lt x y \<or> lt y x"
begin

lemma lt_asym: "lt x y \<Longrightarrow> \<not> lt y x"
  using lt_irrefl lt_trans by blast

definition srt :: "'a list \<Rightarrow> bool" where
  "srt xs \<longleftrightarrow> sorted_wrt (\<lambda>x y. lt x y \<or> key x = key y) xs"

definition dk :: "'a list \<Rightarrow> bool" where
  "dk xs \<longleftrightarrow> distinct (map key xs)"

lemma dk_perm: "mset xs = mset ys \<Longrightarrow> dk xs = dk ys"
  unfolding dk_def by (metis mset_eq_imp_distinct_iff mset_map)

lemma strict_insert_by:
  "sorted_wrt lt ys \<Longrightarrow> \<forall>y \<in> set ys. key x \<noteq> key y \<Longrightarrow> sorted_wrt lt (insert_by lt x ys)"
proof (induction ys)
  case Nil
  then show ?case by simp
next
  case (Cons y ys)
  have "lt x y" if "\<not> lt y x"
    using that Cons.prems(2) lt_total by auto
  moreover have "set (insert_by lt x ys) = insert x (set ys)"
    by (metis mset_insert_by set_mset_add_mset_insert set_mset_mset)
  ultimately show ?case
    using Cons by (auto intro: lt_trans)
qed

lemma strict_sort_slice: "dk xs \<Longrightarrow> sorted_wrt lt (sort_slice lt xs)"
  by (induction xs) (auto simp: dk_def intro!: strict_insert_by)

lemma strict_unique:
  "sorted_wrt lt xs \<Longrightarrow> sorted_wrt lt ys \<Longrightarrow> mset xs = mset ys \<Longrightarrow> xs = ys"
proof (induction xs arbitrary: ys)
  case Nil
  then show ?case by simp
next
  case (Cons x xs)
  from Cons.prems(3) obtain y ys' where ys: "ys = y # ys'"
    by (cases ys) auto
  have "x = y"
  proof (rule ccontr)
    assume "x \<noteq> y"
    have "x \<in> set ys'" "y \<in> set xs"
      using Cons.prems(3) \<open>x \<noteq> y\<close> ys
      by (metis list.set_intros(1) mset_eq_setD set_ConsD)+
    then have "lt y x" "lt x y"
      using Cons.prems(1,2) ys by auto
    then show False using lt_asym by blast
  qed
  then show ?case
    using Cons ys by auto
qed

text \<open>The result does not depend on the order in which the elements were collected.\<close>

lemma sort_slice_perm:
  "dk xs \<Longrightarrow> mset xs = mset ys \<Longrightarrow> sort_slice lt xs = sort_slice lt ys"
  by (rule strict_unique) (auto simp: strict_sort_slice dk_perm [of xs ys])

lemma sort_slice_hd:
  assumes "dk xs" "sort_slice lt xs = t # ts"
  shows "t \<in> set xs \<and> (\<forall>x \<in> set xs. x = t \<or> lt t x)"
proof -
  have "set xs = insert t (set ts)"
    using assms(2) by (metis list.simps(15) set_sort_slice)
  moreover have "sorted_wrt lt (t # ts)"
    using strict_sort_slice [OF assms(1)] assms(2) by simp
  ultimately show ?thesis by auto
qed

lemma sort_slice_best:
  assumes "dk xs" "t \<in> set xs" "\<forall>x \<in> set xs. x = t \<or> lt t x"
  shows "\<exists>ts. sort_slice lt xs = t # ts"
proof (cases "sort_slice lt xs")
  case Nil
  with assms(2) show ?thesis by simp
next
  case (Cons u us)
  have "u \<in> set xs" "t = u \<or> lt u t"
    using sort_slice_hd [OF assms(1) Cons] assms(2) by auto
  with assms(3) have "u = t"
    using lt_asym by metis
  with Cons show ?thesis by simp
qed

end

text \<open>\<open>sort.Strings\<close> is the same routine at the string order.\<close>

definition sort_strings :: "('a :: linorder) list \<Rightarrow> 'a list" where
  "sort_strings xs = sort xs"

end
