(* ===== verification/Go_Strings.thy ===== *)
theory Go_Strings
  imports Complex_Main Prelude "HOL-Library.List_Lexorder" "HOL-Library.Char_ord" "HOL-Library.Sublist"
begin

text \<open>
  Go strings are byte sequences, here lists of 8-bit characters; \<open><\<close> on them is Go's
  byte-wise order. This theory holds the routines of \<open>strings\<close>, \<open>strconv\<close> and \<open>fmt\<close> that
  the modelled code calls: \<open>TrimSpace\<close> and \<open>Fields\<close> over the white space of Unicode in its
  UTF-8 encoding, \<open>Join\<close>, \<open>Contains\<close>, and the decimal rendering \<open>%d\<close>, which the code
  uses to make identifiers and which is shown to be injective.

  Messages for people (\<open>fmt.Sprintf\<close>, \<open>fmt.Errorf\<close>) stay unrendered: a message is its
  format string with the arguments it was given. No modelled branch reads the text of a
  message; \<open>errors.As\<close>, which the code does call, looks through \<open>%w\<close> arguments.
\<close>

subsection \<open>White space\<close>

text \<open>\<open>unicode.IsSpace\<close>: tab, line feed, vertical tab, form feed, carriage return, space,
  U+0085, U+00A0, U+1680, U+2000 to U+200A, U+2028, U+2029, U+202F, U+205F, U+3000.\<close>

definition space_runes :: "string list" where
  "space_runes =
     [[CHR 0x09], [CHR 0x0A], [CHR 0x0B], [CHR 0x0C], [CHR 0x0D], [CHR 0x20],
      [CHR 0xC2, CHR 0x85], [CHR 0xC2, CHR 0xA0], [CHR 0xE1, CHR 0x9A, CHR 0x80],
      [CHR 0xE2, CHR 0x80, CHR 0x80], [CHR 0xE2, CHR 0x80, CHR 0x81],
      [CHR 0xE2, CHR 0x80, CHR 0x82], [CHR 0xE2, CHR 0x80, CHR 0x83],
      [CHR 0xE2, CHR 0x80, CHR 0x84], [CHR 0xE2, CHR 0x80, CHR 0x85],
      [CHR 0xE2, CHR 0x80, CHR 0x86], [CHR 0xE2, CHR 0x80, CHR 0x87],
      [CHR 0xE2, CHR 0x80, CHR 0x88], [CHR 0xE2, CHR 0x80, CHR 0x89],
      [CHR 0xE2, CHR 0x80, CHR 0x8A], [CHR 0xE2, CHR 0x80, CHR 0xA8],
      [CHR 0xE2, CHR 0x80, CHR 0xA9], [CHR 0xE2, CHR 0x80, CHR 0xAF],
      [CHR 0xE2, CHR 0x81, CHR 0x9F], [CHR 0xE3, CHR 0x80, CHR 0x80]]"

fun strip_one :: "string list \<Rightarrow> string \<Rightarrow> string option" where
  "strip_one [] s = None"
| "strip_one (r # rs) s =
     (if r \<noteq> [] \<and> prefix r s then Some (drop (length r) s) else strip_one rs s)"

lemma strip_one_length: "strip_one rs s = Some t \<Longrightarrow> length t < length s"
proof (induction rs)
  case Nil
  then show ?case by simp
next
  case (Cons r rs)
  show ?case
  proof (cases "r \<noteq> [] \<and> prefix r s")
    case True
    then have "t = drop (length r) s" "0 < length r" "length r \<le> length s"
      using Cons.prems by (auto dest: prefix_length_le)
    then show ?thesis using True by (cases s) auto
  next
    case False
    then show ?thesis using Cons by auto
  qed
qed

function trim_by :: "string list \<Rightarrow> string \<Rightarrow> string" where
  "trim_by rs s = (case strip_one rs s of None \<Rightarrow> s | Some t \<Rightarrow> trim_by rs t)"
  by pat_completeness auto
termination
  by (relation "measure (\<lambda>(rs, s). length s)") (auto dest: strip_one_length)

declare trim_by.simps [simp del]

definition trim_left :: "string \<Rightarrow> string" where
  "trim_left s = trim_by space_runes s"

definition trim_right :: "string \<Rightarrow> string" where
  "trim_right s = rev (trim_by (map rev space_runes) (rev s))"

text \<open>\<open>strings.TrimSpace\<close>.\<close>

definition trim_space :: "string \<Rightarrow> string" where
  "trim_space s = trim_right (trim_left s)"

text \<open>\<open>strings.TrimSpace(s) == ""\<close>.\<close>

definition blank :: "string \<Rightarrow> bool" where
  "blank s \<longleftrightarrow> trim_space s = []"

text \<open>\<open>strings.Fields\<close>.\<close>

function fields_from :: "string \<Rightarrow> string \<Rightarrow> string list" where
  "fields_from cur s =
     (if s = [] then (if cur = [] then [] else [rev cur])
      else case strip_one space_runes s of
        Some t \<Rightarrow> (if cur = [] then [] else [rev cur]) @ fields_from [] t
      | None \<Rightarrow> fields_from (hd s # cur) (tl s))"
  by pat_completeness auto
termination
  by (relation "measure (\<lambda>(cur, s). length s)") (auto dest: strip_one_length)

declare fields_from.simps [simp del]

definition str_fields :: "string \<Rightarrow> string list" where
  "str_fields s = fields_from [] s"

text \<open>\<open>strings.Join\<close>.\<close>

fun join :: "string \<Rightarrow> string list \<Rightarrow> string" where
  "join sep [] = []"
| "join sep [x] = x"
| "join sep (x # y # ys) = x @ sep @ join sep (y # ys)"

text \<open>\<open>strings.Contains\<close>, the needle first.\<close>

fun contains :: "string \<Rightarrow> string \<Rightarrow> bool" where
  "contains sub [] = (sub = [])"
| "contains sub (c # cs) = (prefix sub (c # cs) \<or> contains sub cs)"

lemma strip_one_None_iff:
  "strip_one rs s = None \<longleftrightarrow> (\<forall>r \<in> set rs. r = [] \<or> \<not> prefix r s)"
  by (induction rs) auto

lemma trim_by_done: "strip_one rs (trim_by rs s) = None"
proof (induction rs s rule: trim_by.induct)
  case (1 rs s)
  then show ?case
    by (cases "strip_one rs s") (simp_all add: trim_by.simps [of rs s])
qed

lemma trim_by_stable: "strip_one rs s = None \<Longrightarrow> trim_by rs s = s"
  by (simp add: trim_by.simps)

lemma trim_by_suffix: "suffix (trim_by rs s) s"
proof (induction rs s rule: trim_by.induct)
  case (1 rs s)
  show ?case
  proof (cases "strip_one rs s")
    case None
    then show ?thesis by (simp add: trim_by.simps [of rs s])
  next
    case (Some t)
    have "suffix t s"
      using Some by (induction rs) (auto simp: suffix_drop split: if_splits)
    then have "suffix (trim_by rs t) s"
      using 1 [OF Some] suffix_order.trans by blast
    with Some show ?thesis
      by (simp add: trim_by.simps [of rs s])
  qed
qed

lemma prefix_mono_left: "prefix r t \<Longrightarrow> prefix t s \<Longrightarrow> prefix r s"
  by (rule prefix_order.trans)

text \<open>Trimming twice is trimming once, so a trimmed label is its own trimmed form.\<close>

lemma trim_right_prefix: "prefix (trim_right s) s"
  unfolding trim_right_def using trim_by_suffix [of "map rev space_runes" "rev s"]
  by (simp add: suffix_to_prefix)

lemma trim_space_idem [simp]: "trim_space (trim_space s) = trim_space s"
proof -
  let ?l = "trim_left s" and ?t = "trim_space s"
  have "strip_one space_runes ?l = None"
    by (simp add: trim_left_def trim_by_done)
  moreover have "prefix ?t ?l"
    by (simp add: trim_space_def trim_right_prefix)
  ultimately have "strip_one space_runes ?t = None"
    by (meson prefix_mono_left strip_one_None_iff)
  then have "trim_left ?t = ?t"
    by (simp add: trim_left_def trim_by_stable)
  moreover have "trim_right (trim_right ?l) = trim_right ?l"
    by (simp add: trim_right_def trim_by_stable trim_by_done)
  ultimately show ?thesis
    by (simp add: trim_space_def)
qed

lemma trim_space_blank [simp]: "blank (trim_space s) = blank s"
  by (simp add: blank_def)

subsection \<open>Decimal numbers\<close>

definition digit_char :: "nat \<Rightarrow> char" where
  "digit_char d = char_of (48 + d)"

fun nat_digits :: "nat \<Rightarrow> string" where
  "nat_digits n = (if n < 10 then [digit_char n] else nat_digits (n div 10) @ [digit_char (n mod 10)])"

declare nat_digits.simps [simp del]

text \<open>\<open>fmt.Sprintf("%d", i)\<close>.\<close>

definition itoa :: "int \<Rightarrow> string" where
  "itoa i = (if i < 0 then CHR 0x2D # nat_digits (nat (- i)) else nat_digits (nat i))"

definition char_digit :: "char \<Rightarrow> nat" where
  "char_digit c = of_char c - 48"

definition read_nat :: "string \<Rightarrow> nat" where
  "read_nat s = foldl (\<lambda>a c. 10 * a + char_digit c) 0 s"

lemma char_digit_char: "d < 10 \<Longrightarrow> char_digit (digit_char d) = d"
  by (simp add: char_digit_def digit_char_def)

lemma read_nat_digits: "read_nat (nat_digits n) = n"
proof (induction n rule: nat_digits.induct)
  case (1 n)
  show ?case
  proof (cases "n < 10")
    case True
    then show ?thesis
      by (simp add: nat_digits.simps [of n] read_nat_def char_digit_char)
  next
    case False
    then show ?thesis
      using 1 by (simp add: nat_digits.simps [of n] read_nat_def char_digit_char)
  qed
qed

lemma nat_digits_inject: "nat_digits m = nat_digits n \<longleftrightarrow> m = n"
  by (metis read_nat_digits)

lemma digit_char_ne: "d < 10 \<Longrightarrow> digit_char d \<noteq> CHR 0x2D"
proof
  assume d: "d < 10" and "digit_char d = CHR 0x2D"
  then have "(of_char (digit_char d) :: nat) = of_char (CHR 0x2D)" by simp
  with d show False by (simp add: digit_char_def)
qed

lemma nat_digits_hd: "\<exists>d ds. d < 10 \<and> nat_digits n = digit_char d # ds"
proof (induction n rule: nat_digits.induct)
  case (1 n)
  then show ?case
    by (cases "n < 10") (auto simp: nat_digits.simps [of n])
qed

lemma itoa_inject [simp]: "itoa i = itoa j \<longleftrightarrow> i = j"
proof -
  have "CHR 0x2D # xs \<noteq> nat_digits n" for xs n
    using nat_digits_hd [of n] digit_char_ne by (metis list.inject)
  then show ?thesis
    by (auto simp: itoa_def nat_digits_inject split: if_splits) (metis)+
qed

subsection \<open>Messages and errors\<close>

datatype msg =
    Txt string
  | Fmt string "marg list"
  | Cat "msg list"
and marg =
    AStr string
  | AInt int
  | AFlt rat
  | AMsg msg
  | AList "msg list"
  | AErr goerr      \<comment> \<open>\<open>%v\<close>\<close>
  | AWrap goerr     \<comment> \<open>\<open>%w\<close>\<close>
and goerr =
    GraphResourceLimitError string int int
  | Errorf string "marg list"
  | ExtError string

text \<open>\<open>errors.As(err, &limitErr)\<close>.\<close>

fun as_limit :: "goerr \<Rightarrow> bool" and as_limit_args :: "marg list \<Rightarrow> bool" where
  "as_limit (GraphResourceLimitError r l a) = True"
| "as_limit (Errorf f as) = as_limit_args as"
| "as_limit (ExtError s) = False"
| "as_limit_args [] = False"
| "as_limit_args (AWrap e # as) = (as_limit e \<or> as_limit_args as)"
| "as_limit_args (a # as) = as_limit_args as"

end
