(* ===== verification/Go_Float.thy ===== *)
theory Go_Float
  imports Prelude "HOL-Library.Log_Nat"
begin

text \<open>
  Go's \<open>float64\<close> on finite values: a value is a rational, and every arithmetic operation
  rounds its exact result to the nearest number with a 53-bit significand, ties to even,
  with subnormals below \<open>2^-1022\<close>. Overflow to an infinity and NaN are not represented:
  the modelled code computes with scores, weights, shares and counts of moderate size, read
  from JSON (which has neither), from the configuration and from lengths.

  The lemmas give what the proofs need of rounding: it is monotone, it fixes 0, 1 and every
  representable number, and so it keeps an exact result within representable bounds.
\<close>

type_synonym f64 = rat

definition pow2 :: "int \<Rightarrow> rat" where
  "pow2 k = (if 0 \<le> k then 2 ^ nat k else 1 / 2 ^ nat (- k))"

lemma pow2_pos [simp]: "0 < pow2 k"
  by (simp add: pow2_def)

lemma pow2_nonneg [simp]: "0 \<le> pow2 k"
  by (simp add: less_imp_le)

lemma pow2_ne0 [simp]: "pow2 k \<noteq> 0"
  using pow2_pos [of k] by linarith

lemma pow2_0 [simp]: "pow2 0 = 1"
  by (simp add: pow2_def)

lemma pow2_Suc: "pow2 (k + 1) = 2 * pow2 k"
proof (cases "0 \<le> k")
  case True
  then show ?thesis by (simp add: pow2_def nat_add_distrib)
next
  case False
  show ?thesis
  proof (cases "k = -1")
    case True
    then show ?thesis by (simp add: pow2_def)
  next
    case neg: False
    then have "nat (- k) = Suc (nat (- (k + 1)))"
      using False by simp
    with False neg show ?thesis by (simp add: pow2_def)
  qed
qed

lemma pow2_add_nat: "pow2 (k + int n) = 2 ^ n * pow2 k"
proof (induction n)
  case 0
  then show ?case by simp
next
  case (Suc n)
  have "pow2 (k + int (Suc n)) = pow2 ((k + int n) + 1)"
    by (simp add: ac_simps)
  then show ?case using Suc by (simp add: pow2_Suc)
qed

lemma pow2_mult_le: "j \<le> k \<Longrightarrow> pow2 k = of_int (2 ^ nat (k - j)) * pow2 j"
  using pow2_add_nat [of j "nat (k - j)"] by simp

lemma pow2_mono: "j \<le> k \<Longrightarrow> pow2 j \<le> pow2 k"
proof -
  assume "j \<le> k"
  then have "pow2 k = 2 ^ nat (k - j) * pow2 j"
    using pow2_mult_le [of j k] by simp
  moreover have "(1 :: rat) \<le> 2 ^ nat (k - j)" by simp
  ultimately show ?thesis
    using mult_right_mono [of 1 "2 ^ nat (k - j)" "pow2 j"] by simp
qed

lemma pow2_minus: "pow2 (- k) = 1 / pow2 k"
  by (cases "k = 0") (auto simp: pow2_def)

lemma pow2_add: "pow2 (j + k) = pow2 j * pow2 k"
proof (cases "0 \<le> k")
  case True
  then show ?thesis
    using pow2_add_nat [of j "nat k"] by (simp add: pow2_def)
next
  case False
  have "pow2 (j + k + int (nat (- k))) = 2 ^ nat (- k) * pow2 (j + k)"
    by (rule pow2_add_nat)
  then have j: "pow2 j = 2 ^ nat (- k) * pow2 (j + k)"
    using False by simp
  have "pow2 k = 1 / 2 ^ nat (- k)"
    using False by (simp add: pow2_def)
  with j show ?thesis by simp
qed

text \<open>The exponent of a positive rational: \<open>2^e \<le> x < 2^(e+1)\<close>.\<close>

definition rat_exp :: "rat \<Rightarrow> int" where
  "rat_exp x =
     (let (p, q) = quotient_of x; k = bitlen p - bitlen q
      in if pow2 k \<le> x then k else k - 1)"

lemma bitlen_pow2: "0 < p \<Longrightarrow> pow2 (bitlen p - 1) \<le> of_int p \<and> of_int p < pow2 (bitlen p)"
proof -
  assume p: "0 < p"
  have b: "0 < bitlen p" using p by (metis bitlen_eq_zero_iff bitlen_nonneg leD order_le_less)
  from bitlen_bounds [OF p]
  have "(of_int (2 ^ nat (bitlen p - 1)) :: rat) \<le> of_int p" "of_int p < (of_int (2 ^ nat (bitlen p)) :: rat)"
    by (simp_all only: of_int_le_iff of_int_less_iff)
  with b show ?thesis by (simp add: pow2_def)
qed

lemma rat_exp_bounds:
  assumes "0 < x"
  shows "pow2 (rat_exp x) \<le> x" "x < pow2 (rat_exp x + 1)"
proof -
  obtain p q where pq: "quotient_of x = (p, q)" by fastforce
  have q: "0 < q" using pq by (rule quotient_of_denom_pos)
  have x: "x = of_int p / of_int q" using pq by (rule quotient_of_div)
  have p: "0 < p" using assms x q by (simp add: zero_less_divide_iff)
  let ?a = "bitlen p" and ?b = "bitlen q"
  have P: "pow2 (?a - 1) \<le> of_int p" "of_int p < pow2 ?a"
    and Q: "pow2 (?b - 1) \<le> of_int q" "of_int q < pow2 ?b"
    using bitlen_pow2 p q by auto
  have xq: "x * of_int q = of_int p" using q x by simp
  have "pow2 (?a - ?b - 1) * of_int q \<le> pow2 (?a - ?b - 1) * pow2 ?b"
    using Q by (simp add: mult_left_mono)
  also have "\<dots> = pow2 (?a - 1)" by (simp add: pow2_add [symmetric])
  finally have lo: "pow2 (?a - ?b - 1) \<le> x"
    using P xq q by (smt (verit) mult_le_cancel_right of_int_0_less_iff order_trans)
  have "pow2 ?a = pow2 (?a - ?b + 1) * pow2 (?b - 1)" by (simp add: pow2_add [symmetric])
  also have "\<dots> \<le> pow2 (?a - ?b + 1) * of_int q"
    using Q by (simp add: mult_left_mono)
  finally have hi: "x < pow2 (?a - ?b + 1)"
    using P xq q by (smt (verit) mult_less_cancel_right_pos of_int_0_less_iff less_le_trans)
  show "pow2 (rat_exp x) \<le> x" "x < pow2 (rat_exp x + 1)"
    using lo hi by (auto simp: rat_exp_def pq Let_def)
qed

lemma pow2_strict_mono_iff: "pow2 j < pow2 k \<longleftrightarrow> j < k"
proof
  show "j < k" if "pow2 j < pow2 k"
    using that pow2_mono [of k j] by (meson leD linorder_le_less_linear)
  show "pow2 j < pow2 k" if "j < k"
  proof -
    have "pow2 j < pow2 (j + 1)" by (simp add: pow2_Suc)
    also have "\<dots> \<le> pow2 k" using that by (intro pow2_mono) simp
    finally show ?thesis .
  qed
qed

lemma rat_exp_mono: "0 < x \<Longrightarrow> x \<le> y \<Longrightarrow> rat_exp x \<le> rat_exp y"
proof -
  assume "0 < x" "x \<le> y"
  then have "pow2 (rat_exp x) < pow2 (rat_exp y + 1)"
    using rat_exp_bounds [of x] rat_exp_bounds [of y] by linarith
  then show ?thesis by (simp add: pow2_strict_mono_iff)
qed

text \<open>Rounding to the nearest integer, ties to even.\<close>

definition round_even :: "rat \<Rightarrow> int" where
  "round_even x =
     (let f = \<lfloor>x\<rfloor>; d = x - of_int f
      in if d < 1 / 2 then f else if 1 / 2 < d then f + 1 else if even f then f else f + 1)"

lemma round_even_int [simp]: "round_even (of_int z) = z"
  by (simp add: round_even_def)

lemma round_even_bounds: "\<lfloor>x\<rfloor> \<le> round_even x" "round_even x \<le> \<lceil>x\<rceil>"
proof -
  show "\<lfloor>x\<rfloor> \<le> round_even x" by (simp add: round_even_def Let_def)
  show "round_even x \<le> \<lceil>x\<rceil>"
  proof (cases "x = of_int \<lfloor>x\<rfloor>")
    case True
    then show ?thesis by (metis ceiling_of_int order_refl round_even_int)
  next
    case False
    then have "of_int \<lfloor>x\<rfloor> < x" by (metis of_int_floor_le order_le_less)
    then have "\<lfloor>x\<rfloor> + 1 \<le> \<lceil>x\<rceil>" by linarith
    then show ?thesis by (auto simp: round_even_def Let_def)
  qed
qed

lemma round_even_mono: "x \<le> y \<Longrightarrow> round_even x \<le> round_even y"
proof -
  assume xy: "x \<le> y"
  show ?thesis
  proof (cases "\<lfloor>x\<rfloor> = \<lfloor>y\<rfloor>")
    case True
    with xy show ?thesis by (auto simp: round_even_def Let_def)
  next
    case False
    with xy have "\<lfloor>x\<rfloor> + 1 \<le> \<lfloor>y\<rfloor>" using floor_mono [OF xy] by linarith
    moreover have "round_even x \<le> \<lfloor>x\<rfloor> + 1" by (auto simp: round_even_def Let_def)
    ultimately show ?thesis using round_even_bounds(1) [of y] by linarith
  qed
qed

text \<open>The unit in the last place, and rounding to \<open>float64\<close>.\<close>

definition ulp :: "rat \<Rightarrow> rat" where
  "ulp x = pow2 (max (rat_exp x - 52) (-1074))"

definition rnd_pos :: "rat \<Rightarrow> rat" where
  "rnd_pos x = of_int (round_even (x / ulp x)) * ulp x"

definition rnd :: "rat \<Rightarrow> f64" where
  "rnd x = (if x = 0 then 0 else if x < 0 then - rnd_pos (- x) else rnd_pos x)"

lemma ulp_pos [simp]: "0 < ulp x"
  by (simp add: ulp_def)

lemma ulp_nonneg [simp]: "0 \<le> ulp x"
  by (simp add: less_imp_le)

lemma rnd_pos_nonneg: "0 < x \<Longrightarrow> 0 \<le> rnd_pos x"
proof -
  assume "0 < x"
  then have "0 \<le> x / ulp x" by (intro divide_nonneg_pos) auto
  then have "0 \<le> \<lfloor>x / ulp x\<rfloor>" by simp
  then have "0 \<le> round_even (x / ulp x)"
    using round_even_bounds(1) order_trans by blast
  then have "(0 :: rat) \<le> of_int (round_even (x / ulp x))" by simp
  then show ?thesis unfolding rnd_pos_def by (intro mult_nonneg_nonneg) auto
qed

text \<open>A multiple of the unit bounds the rounded value as it bounds the exact one.\<close>

lemma rnd_pos_le_mult:
  assumes "x \<le> of_int z * ulp x"
  shows "rnd_pos x \<le> of_int z * ulp x"
proof -
  have "x / ulp x \<le> of_int z" using assms by (simp add: divide_le_eq)
  then have "round_even (x / ulp x) \<le> z"
    using round_even_mono by (metis round_even_int)
  then show ?thesis by (simp add: rnd_pos_def mult_right_mono)
qed

lemma rnd_pos_ge_mult:
  assumes "of_int z * ulp x \<le> x"
  shows "of_int z * ulp x \<le> rnd_pos x"
proof -
  have "of_int z \<le> x / ulp x" using assms by (simp add: le_divide_eq)
  then have "z \<le> round_even (x / ulp x)"
    using round_even_mono by (metis round_even_int)
  then show ?thesis by (simp add: rnd_pos_def mult_right_mono)
qed

lemma rnd_pos_mono:
  assumes "0 < x" "x \<le> y"
  shows "rnd_pos x \<le> rnd_pos y"
proof (cases "ulp x = ulp y")
  case True
  have "round_even (x / ulp x) \<le> round_even (y / ulp x)"
    using assms by (intro round_even_mono divide_right_mono) auto
  with True show ?thesis by (simp add: rnd_pos_def mult_right_mono)
next
  case False
  let ?ex = "rat_exp x" and ?ey = "rat_exp y"
  have "?ex \<noteq> ?ey" using False by (auto simp: ulp_def)
  then have e: "?ex < ?ey" using rat_exp_mono [OF assms] by simp
  have ey: "ulp y = pow2 (?ey - 52)"
    using e False by (auto simp: ulp_def max_def split: if_splits)
  have "max (?ex - 52) (-1074) \<le> ?ey"
    using e ey False by (auto simp: ulp_def max_def split: if_splits)
  then have mult: "pow2 ?ey = of_int (2 ^ nat (?ey - max (?ex - 52) (-1074))) * ulp x"
    unfolding ulp_def by (rule pow2_mult_le)
  have "x \<le> pow2 ?ey"
    using rat_exp_bounds(2) [OF assms(1)] pow2_mono [of "?ex + 1" ?ey] e by linarith
  then have "rnd_pos x \<le> pow2 ?ey"
    using rnd_pos_le_mult mult by metis
  also have "pow2 ?ey = of_int (2 ^ 52) * ulp y"
    using pow2_mult_le [of "?ey - 52" ?ey] ey by simp
  also have "\<dots> \<le> rnd_pos y"
    using rat_exp_bounds(1) [of y] assms \<open>pow2 ?ey = of_int (2 ^ 52) * ulp y\<close>
    by (intro rnd_pos_ge_mult) auto
  finally show ?thesis .
qed

lemma rnd_0 [simp]: "rnd 0 = 0"
  by (simp add: rnd_def)

lemma rnd_minus: "rnd (- x) = - rnd x"
  by (simp add: rnd_def)

lemma rnd_nonneg: "0 \<le> x \<Longrightarrow> 0 \<le> rnd x"
  by (auto simp: rnd_def rnd_pos_nonneg)

lemma rnd_nonpos: "x \<le> 0 \<Longrightarrow> rnd x \<le> 0"
  using rnd_nonneg [of "- x"] by (simp add: rnd_minus)

lemma rnd_mono: "x \<le> y \<Longrightarrow> rnd x \<le> rnd y"
proof -
  assume xy: "x \<le> y"
  consider "0 < x" | "y < 0" | "x \<le> 0" "0 \<le> y" using xy by linarith
  then show ?thesis
  proof cases
    case 1
    then show ?thesis using xy rnd_pos_mono [of x y] by (simp add: rnd_def)
  next
    case 2
    then show ?thesis using xy rnd_pos_mono [of "- y" "- x"] by (simp add: rnd_def)
  next
    case 3
    then show ?thesis using rnd_nonpos [of x] rnd_nonneg [of y] by linarith
  qed
qed

text \<open>Representable numbers are fixed points.\<close>

definition representable :: "rat \<Rightarrow> bool" where
  "representable x \<longleftrightarrow> rnd x = x"

lemma rnd_pos_exact:
  assumes "0 < m" "m < 2 ^ 53" "-1074 \<le> e" "x = of_int m * pow2 e"
  shows "rnd_pos x = x"
proof -
  have x: "0 < x" using assms by simp
  have "x < of_int (2 ^ 53) * pow2 e"
    using assms(2,4) by (metis mult_less_cancel_right_pos of_int_less_iff pow2_pos)
  also have "\<dots> = pow2 (e + 53)" using pow2_add_nat [of e 53] by simp
  finally have "pow2 (rat_exp x) < pow2 (e + 53)"
    using rat_exp_bounds(1) [OF x] by linarith
  then have "max (rat_exp x - 52) (-1074) \<le> e"
    using assms(3) by (simp add: pow2_strict_mono_iff)
  then have "pow2 e = of_int (2 ^ nat (e - max (rat_exp x - 52) (-1074))) * ulp x"
    unfolding ulp_def by (rule pow2_mult_le)
  then have "x = of_int (m * 2 ^ nat (e - max (rat_exp x - 52) (-1074))) * ulp x"
    using assms(4) by simp
  then show ?thesis
    by (metis nle_le rnd_pos_ge_mult rnd_pos_le_mult)
qed

lemma rnd_of_int: "\<bar>z\<bar> < 2 ^ 53 \<Longrightarrow> rnd (of_int z) = of_int z"
proof -
  assume z: "\<bar>z\<bar> < 2 ^ 53"
  consider "z = 0" | "0 < z" | "z < 0" by linarith
  then show ?thesis
  proof cases
    case 1
    then show ?thesis by simp
  next
    case 2
    then show ?thesis
      using rnd_pos_exact [of z 0 "of_int z"] z by (simp add: rnd_def)
  next
    case 3
    then show ?thesis
      using rnd_pos_exact [of "- z" 0 "of_int (- z)"] z by (simp add: rnd_def)
  qed
qed

lemma rnd_1 [simp]: "rnd 1 = 1"
  using rnd_of_int [of 1] by simp

lemma rnd_le_1: "x \<le> 1 \<Longrightarrow> rnd x \<le> 1"
  using rnd_mono [of x 1] by simp

lemma rnd_unit: "0 \<le> x \<Longrightarrow> x \<le> 1 \<Longrightarrow> 0 \<le> rnd x \<and> rnd x \<le> 1"
  by (simp add: rnd_nonneg rnd_le_1)

lemma rnd_le_rep: "representable b \<Longrightarrow> x \<le> b \<Longrightarrow> rnd x \<le> b"
  unfolding representable_def by (metis rnd_mono)

lemma rnd_ge_rep: "representable b \<Longrightarrow> b \<le> x \<Longrightarrow> b \<le> rnd x"
  unfolding representable_def by (metis rnd_mono)

subsection \<open>The operations\<close>

definition fadd :: "f64 \<Rightarrow> f64 \<Rightarrow> f64" where "fadd x y = rnd (x + y)"

definition fsub :: "f64 \<Rightarrow> f64 \<Rightarrow> f64" where "fsub x y = rnd (x - y)"

definition fmul :: "f64 \<Rightarrow> f64 \<Rightarrow> f64" where "fmul x y = rnd (x * y)"

definition fdiv :: "f64 \<Rightarrow> f64 \<Rightarrow> f64" where "fdiv x y = rnd (x / y)"

lemma fmul_unit: "0 \<le> x \<Longrightarrow> x \<le> 1 \<Longrightarrow> 0 \<le> y \<Longrightarrow> y \<le> 1 \<Longrightarrow> 0 \<le> fmul x y \<and> fmul x y \<le> 1"
  unfolding fmul_def by (intro rnd_unit) (auto intro: mult_le_one)

lemma fsub_unit: "0 \<le> x \<Longrightarrow> x \<le> 1 \<Longrightarrow> 0 \<le> fsub 1 x \<and> fsub 1 x \<le> 1"
  unfolding fsub_def by (intro rnd_unit) auto

lemma fmul_0 [simp]: "fmul 0 x = 0" "fmul x 0 = 0"
  by (simp_all add: fmul_def)

lemma fmul_nonneg: "0 \<le> x \<Longrightarrow> 0 \<le> y \<Longrightarrow> 0 \<le> fmul x y"
  by (simp add: fmul_def rnd_nonneg)

lemma fmul_mono: "0 \<le> x \<Longrightarrow> x \<le> x' \<Longrightarrow> 0 \<le> y \<Longrightarrow> y \<le> y' \<Longrightarrow> fmul x y \<le> fmul x' y'"
  unfolding fmul_def by (intro rnd_mono mult_mono) auto

lemma fadd_mono: "x \<le> x' \<Longrightarrow> y \<le> y' \<Longrightarrow> fadd x y \<le> fadd x' y'"
  unfolding fadd_def by (intro rnd_mono add_mono)

lemma fsub_mono: "x \<le> x' \<Longrightarrow> y' \<le> y \<Longrightarrow> fsub x y \<le> fsub x' y'"
  unfolding fsub_def by (intro rnd_mono diff_mono)

end
