(* ===== verification/Belief_Types.thy ===== *)
theory Belief_Types
  imports Go_Sort Go_Strings Go_Float
begin

text \<open>
  The data of the belief engine (\<open>internal/ai/belief/types.go\<close>): nodes, edges, the
  frontier, snapshots, deltas and the resource policy. A Go string type with constants is a
  datatype of those constants and a constructor for any other string. Pointers to optional
  data (\<open>*EvidenceSource\<close>, \<open>*time.Time\<close>) and the attribute map, which may be \<open>nil\<close>, are
  options. A \<open>time.Time\<close> is the number of nanoseconds since Go's zero time, so \<open>IsZero\<close>
  is being 0.

  The record \<open>gort\<close> holds what the code takes from the Go library and the model does not
  define: the rendering of an attribute by \<open>%v\<close>, the SHA-256 digest of a node's and an
  edge's JSON, the length of the history's JSON, and Unicode lower-casing and case folding.
\<close>

datatype node_type = NodeSignal | NodeEvidence | NodeHypothesis | OtherNodeType string

datatype edge_type = EdgeSupport | EdgeRefute | EdgeRefines | EdgeCausal | OtherEdgeType string

datatype node_status = StatusActive | StatusRetracted | StatusSuperseded | OtherStatus string

record evidence_source =
  es_SourceType :: string
  es_SourceID :: string
  es_ToolName :: string
  es_RetrievalQuery :: string
  es_Timestamp :: gotime
  es_SummarySnippet :: string
  es_ArtifactRef :: string
  es_Relation :: string
  es_TargetHypothesisID :: string
  es_Strength :: f64

text \<open>The dynamic types the code stores in an attribute map.\<close>

datatype attr_val =
    VStr string
  | VNum f64
  | VBool bool
  | VTime gotime
  | VStrs "string list"
  | VContribs "(string \<times> string \<times> f64) list"
  | VMsg msg

type_synonym attrs = "(string, attr_val) gomap"

record node =
  n_ID :: string
  n_Type :: node_type
  n_Label :: string
  n_Score :: f64
  n_Status :: node_status
  n_Level :: int
  n_Attrs :: "attrs option"
  n_Source :: "evidence_source option"
  n_RetractedBy :: string
  n_SupersededBy :: string
  n_RetractedAt :: "gotime option"
  n_StepID :: string

record edge =
  e_Src :: string
  e_Dst :: string
  e_Type :: edge_type
  e_Status :: node_status
  e_Confidence :: f64
  e_DerivationType :: string
  e_ExtractorVersion :: string
  e_StepID :: string
  e_RetractedBy :: string
  e_RetractedAt :: "gotime option"

record frontier =
  f_NodeID :: string
  f_Label :: string
  f_Why :: string
  f_Score :: f64
  f_Level :: int
  f_Supports :: int
  f_Refutes :: int

record level_node =
  ln_NodeID :: string
  ln_Confidence :: f64

record graph_snapshot =
  gs_StepID :: string
  gs_Timestamp :: gotime
  gs_Action :: string
  gs_Nodes :: "(string, node) gomap"
  gs_Edges :: "(string, edge) gomap"

record graph_delta =
  gd_StepID :: string
  gd_Timestamp :: gotime
  gd_Action :: string
  gd_UpsertNodes :: "(string, node) gomap"
  gd_UpsertEdges :: "(string, edge) gomap"

record graph_policy =
  CheckpointInterval :: int
  MaxNodes :: int
  MaxEdges :: int
  MaxDepth :: int
  MaxSnapshots :: int
  MaxDeltas :: int

record graph_resource_stats =
  st_Nodes :: int
  st_Edges :: int
  st_Depth :: int
  st_Snapshots :: int
  st_Deltas :: int
  st_HistoryBytes :: int

record graph_update_result =
  Committed :: bool
  upd_Error :: "goerr option"

text \<open>What the code relies on of the Go library; see the head of this theory.\<close>

record 'h gort =
  rt_fmtv :: "attr_val \<Rightarrow> string"
  rt_hash_node :: "node \<Rightarrow> 'h"
  rt_hash_edge :: "edge \<Rightarrow> 'h"
  rt_hist_bytes :: "graph_snapshot list \<Rightarrow> graph_delta list \<Rightarrow> int"
  rt_lower :: "string \<Rightarrow> string"
  rt_fold :: "string \<Rightarrow> string"

text \<open>\<open>BeliefGraph\<close> (\<open>graph.go\<close>), without its lock: a model function is one critical
  section.\<close>

record 'h belief_graph =
  Nodes :: "(string, node) gomap"
  Edges :: "(string, edge) gomap"
  StartSignalID :: string
  Belief :: msg
  LevelNodes :: "(int, level_node list) gomap"
  Snapshots :: "graph_snapshot list"
  Deltas :: "graph_delta list"
  CurrentStep :: int
  Policy :: graph_policy
  lastCheckpointStep :: int
  recordedNodeHashes :: "(string, 'h) gomap"
  recordedEdgeHashes :: "(string, 'h) gomap"
  recordingDisabled :: bool
  limitErr :: "goerr option"

datatype fsm_state = StateDrilling | StateReporting | StateDone

record fsm_decision =
  fd_Action :: string
  fd_Reason :: msg

record fsm_transition =
  ft_From :: fsm_state
  ft_To :: fsm_state
  ft_FromLevel :: int
  ft_ToLevel :: int
  ft_Reason :: msg
  ft_StepID :: string

record fsm_thresholds =
  th_GapDelta :: f64
  th_MinSupport :: int
  th_MaxSteps :: int

text \<open>A node that is an active hypothesis: the guard of every ranking in the engine.\<close>

abbreviation active_hypothesis :: "node \<Rightarrow> bool" where
  "active_hypothesis n \<equiv> n_Type n = NodeHypothesis \<and> n_Status n = StatusActive"

definition step_id :: "int \<Rightarrow> string" where
  "step_id k = ''step-'' @ itoa k"

definition node_id :: "int \<Rightarrow> string" where
  "node_id k = ''node-'' @ itoa k"

lemma node_id_inject [simp]: "node_id i = node_id j \<longleftrightarrow> i = j"
  by (simp add: node_id_def)

lemma node_id_not_Nil [simp]: "node_id i \<noteq> []"
  by (simp add: node_id_def)

end
