(* ===== verification/Belief_Graph.thy ===== *)
theory Belief_Graph
  imports Belief_Types
begin

text \<open>
  The operations of \<open>BeliefGraph\<close> (\<open>internal/ai/belief/graph.go\<close>), in the order of the
  file. An operation takes the graph and returns the new one (with its result, if it has
  one); \<open>rt\<close> is the Go library (\<open>gort\<close>) and \<open>now\<close> the clock reading of the call. The
  nodes and edges of the source are pointers that live in one map each and are never shared
  with a snapshot (which copies them deeply), so writing through a pointer is an update of
  the map.
\<close>

subsection \<open>Construction\<close>

definition normalizeGraphPolicy :: "graph_policy \<Rightarrow> graph_policy" where
  "normalizeGraphPolicy policy =
     (let p1 = (if CheckpointInterval policy \<le> 0 then policy\<lparr>CheckpointInterval := 10\<rparr> else policy);
          p2 = (if MaxNodes p1 \<le> 0 then p1\<lparr>MaxNodes := 256\<rparr> else p1);
          p3 = (if MaxEdges p2 \<le> 0 then p2\<lparr>MaxEdges := 512\<rparr> else p2);
          p4 = (if MaxDepth p3 \<le> 0 then p3\<lparr>MaxDepth := 4\<rparr> else p3);
          p5 = (if MaxSnapshots p4 \<le> 0 then p4\<lparr>MaxSnapshots := 32\<rparr> else p4)
      in if MaxDeltas p5 \<le> 0 then p5\<lparr>MaxDeltas := CheckpointInterval p5\<rparr> else p5)"

definition NewBeliefGraphWithPolicy :: "graph_policy \<Rightarrow> 'h belief_graph" where
  "NewBeliefGraphWithPolicy policy =
     \<lparr>Nodes = [], Edges = [], StartSignalID = [], Belief = Txt [], LevelNodes = [],
      Snapshots = [], Deltas = [], CurrentStep = 0, Policy = normalizeGraphPolicy policy,
      lastCheckpointStep = 0, recordedNodeHashes = [], recordedEdgeHashes = [],
      recordingDisabled = False, limitErr = None\<rparr>"

definition NewBeliefGraph :: "'h belief_graph" where
  "NewBeliefGraph =
     NewBeliefGraphWithPolicy
       \<lparr>CheckpointInterval = 0, MaxNodes = 0, MaxEdges = 0, MaxDepth = 0, MaxSnapshots = 0, MaxDeltas = 0\<rparr>"

definition edgeKey :: "string \<Rightarrow> string \<Rightarrow> string" where
  "edgeKey src dst = src @ ''->'' @ dst"

text \<open>The assertion \<open>v.(string)\<close>; a message is a string too, which the model keeps
  unrendered and which no key read here holds.\<close>

definition safeWhy :: "'h gort \<Rightarrow> attrs option \<Rightarrow> string" where
  "safeWhy rt attrs =
     (case attrs of
        None \<Rightarrow> []
      | Some m \<Rightarrow>
          (case gm_get m ''why'' of
             None \<Rightarrow> []
           | Some v \<Rightarrow> (case v of VStr s \<Rightarrow> s | _ \<Rightarrow> rt_fmtv rt v)))"

subsection \<open>Ranking and level lists\<close>

text \<open>The comparison of every ranking: higher score first, smaller ID at equal scores.\<close>

definition nodeRankLess :: "node \<Rightarrow> node \<Rightarrow> bool" where
  "nodeRankLess a b =
     (if n_Score a = n_Score b then n_ID a < n_ID b else n_Score b < n_Score a)"

definition levelNodeLess :: "level_node \<Rightarrow> level_node \<Rightarrow> bool" where
  "levelNodeLess a b =
     (if ln_Confidence a = ln_Confidence b then ln_NodeID a < ln_NodeID b
      else ln_Confidence b < ln_Confidence a)"

definition levelNodeOf :: "node \<Rightarrow> level_node" where
  "levelNodeOf n = \<lparr>ln_NodeID = n_ID n, ln_Confidence = n_Score n\<rparr>"

fun collectLevels :: "(int, level_node list) gomap \<Rightarrow> node list \<Rightarrow> (int, level_node list) gomap" where
  "collectLevels acc [] = acc"
| "collectLevels acc (n # ns) =
     (if active_hypothesis n
      then collectLevels
             (gm_put (n_Level n)
                ((case gm_get acc (n_Level n) of None \<Rightarrow> [] | Some l \<Rightarrow> l) @ [levelNodeOf n]) acc) ns
      else collectLevels acc ns)"

definition updateLevelNodesInternal :: "'h belief_graph \<Rightarrow> 'h belief_graph" where
  "updateLevelNodesInternal g =
     g\<lparr>LevelNodes := gm_map (\<lambda>_ l. sort_slice levelNodeLess l) (collectLevels [] (map snd (Nodes g)))\<rparr>"

subsection \<open>Recording\<close>

definition refreshRecordedHashesInternal :: "'h gort \<Rightarrow> 'h belief_graph \<Rightarrow> 'h belief_graph" where
  "refreshRecordedHashesInternal rt g =
     g\<lparr>recordedNodeHashes := gm_map (\<lambda>_. rt_hash_node rt) (Nodes g),
       recordedEdgeHashes := gm_map (\<lambda>_. rt_hash_edge rt) (Edges g)\<rparr>"

definition takeSnapshotInternal :: "'h gort \<Rightarrow> gotime \<Rightarrow> string \<Rightarrow> 'h belief_graph \<Rightarrow> 'h belief_graph" where
  "takeSnapshotInternal rt now action g =
     (let snap = \<lparr>gs_StepID = step_id (CurrentStep g), gs_Timestamp = now, gs_Action = action,
                  gs_Nodes = Nodes g, gs_Edges = Edges g\<rparr>
      in refreshRecordedHashesInternal rt
           (g\<lparr>Snapshots := Snapshots g @ [snap], Deltas := [], lastCheckpointStep := CurrentStep g\<rparr>))"

definition checkpointDue :: "'h belief_graph \<Rightarrow> int \<Rightarrow> bool" where
  "checkpointDue g step \<longleftrightarrow>
     lastCheckpointStep g = 0 \<or> step - lastCheckpointStep g \<ge> CheckpointInterval (Policy g)"

definition changedSince :: "(string, 'h) gomap \<Rightarrow> ('v \<Rightarrow> 'h) \<Rightarrow> (string, 'v) gomap \<Rightarrow> (string, 'v) gomap" where
  "changedSince recorded hash m = filter (\<lambda>(k, v). gm_get recorded k \<noteq> Some (hash v)) m"

definition recordMutationInternal :: "'h gort \<Rightarrow> gotime \<Rightarrow> string \<Rightarrow> 'h belief_graph \<Rightarrow> 'h belief_graph" where
  "recordMutationInternal rt now action g =
     (if recordingDisabled g \<or> limitErr g \<noteq> None then g
      else if checkpointDue g (CurrentStep g) then
        (if int (length (Snapshots g)) \<ge> MaxSnapshots (Policy g)
         then g\<lparr>limitErr := Some (GraphResourceLimitError ''snapshots''
                  (MaxSnapshots (Policy g)) (int (length (Snapshots g)) + 1))\<rparr>
         else takeSnapshotInternal rt now action g)
      else if int (length (Deltas g)) \<ge> MaxDeltas (Policy g)
        then g\<lparr>limitErr := Some (GraphResourceLimitError ''deltas''
                 (MaxDeltas (Policy g)) (int (length (Deltas g)) + 1))\<rparr>
      else
        (let delta = \<lparr>gd_StepID = step_id (CurrentStep g), gd_Timestamp = now, gd_Action = action,
                      gd_UpsertNodes = changedSince (recordedNodeHashes g) (rt_hash_node rt) (Nodes g),
                      gd_UpsertEdges = changedSince (recordedEdgeHashes g) (rt_hash_edge rt) (Edges g)\<rparr>
         in refreshRecordedHashesInternal rt (g\<lparr>Deltas := Deltas g @ [delta]\<rparr>)))"

definition preflightRecordInternal :: "'h belief_graph \<Rightarrow> int \<Rightarrow> goerr option" where
  "preflightRecordInternal g nextStep =
     (if nextStep = CurrentStep g then None
      else if checkpointDue g nextStep \<and> int (length (Snapshots g)) \<ge> MaxSnapshots (Policy g)
      then Some (GraphResourceLimitError ''snapshots''
             (MaxSnapshots (Policy g)) (int (length (Snapshots g)) + 1))
      else if \<not> checkpointDue g nextStep \<and> int (length (Deltas g)) \<ge> MaxDeltas (Policy g)
      then Some (GraphResourceLimitError ''deltas''
             (MaxDeltas (Policy g)) (int (length (Deltas g)) + 1))
      else None)"

text \<open>The boolean says whether the mutation may go on.\<close>

definition prepareMutationInternal :: "int \<Rightarrow> 'h belief_graph \<Rightarrow> bool \<times> 'h belief_graph" where
  "prepareMutationInternal nextStep g =
     (if limitErr g \<noteq> None then (False, g)
      else if recordingDisabled g then (True, g)
      else case preflightRecordInternal g nextStep of
        Some err \<Rightarrow> (False, g\<lparr>limitErr := Some err\<rparr>)
      | None \<Rightarrow> (True, g))"

subsection \<open>Mutations\<close>

definition addNodeInternal ::
    "'h gort \<Rightarrow> gotime \<Rightarrow> node_type \<Rightarrow> string \<Rightarrow> f64 \<Rightarrow> int \<Rightarrow> attrs option \<Rightarrow> evidence_source option
     \<Rightarrow> 'h belief_graph \<Rightarrow> string \<times> 'h belief_graph" where
  "addNodeInternal rt now nodeType label score level attrs source g =
     (if limitErr g \<noteq> None then ([], g)
      else if int (length (Nodes g)) + 1 > MaxNodes (Policy g)
      then ([], g\<lparr>limitErr := Some (GraphResourceLimitError ''nodes''
                   (MaxNodes (Policy g)) (int (length (Nodes g)) + 1))\<rparr>)
      else if level > MaxDepth (Policy g)
      then ([], g\<lparr>limitErr := Some (GraphResourceLimitError ''depth'' (MaxDepth (Policy g)) level)\<rparr>)
      else case prepareMutationInternal (CurrentStep g + 1) g of
        (False, g1) \<Rightarrow> ([], g1)
      | (True, g1) \<Rightarrow>
          (let step = CurrentStep g1 + 1;
               nodeID = node_id step;
               n = \<lparr>n_ID = nodeID, n_Type = nodeType, n_Label = label, n_Score = score,
                    n_Status = StatusActive, n_Level = level,
                    n_Attrs = Some (case attrs of None \<Rightarrow> [] | Some m \<Rightarrow> m), n_Source = source,
                    n_RetractedBy = [], n_SupersededBy = [], n_RetractedAt = None,
                    n_StepID = step_id step\<rparr>;
               g2 = g1\<lparr>CurrentStep := step, Nodes := gm_put nodeID n (Nodes g1)\<rparr>
           in (nodeID, recordMutationInternal rt now ''add_node'' (updateLevelNodesInternal g2))))"

text \<open>\<open>m[k] = v\<close> on an attribute map that is made first when it is \<open>nil\<close>.\<close>

definition setAttr :: "string \<Rightarrow> attr_val \<Rightarrow> node \<Rightarrow> node" where
  "setAttr k v n = n\<lparr>n_Attrs := Some (gm_put k v (case n_Attrs n of None \<Rightarrow> [] | Some m \<Rightarrow> m))\<rparr>"

definition updateNodeInternal ::
    "'h gort \<Rightarrow> gotime \<Rightarrow> string \<Rightarrow> f64 \<Rightarrow> string \<Rightarrow> 'h belief_graph \<Rightarrow> 'h belief_graph" where
  "updateNodeInternal rt now nodeID newScore newWhy g =
     (case gm_get (Nodes g) nodeID of
        None \<Rightarrow> g
      | Some n \<Rightarrow>
          (case prepareMutationInternal (CurrentStep g + 1) g of
             (False, g1) \<Rightarrow> g1
           | (True, g1) \<Rightarrow>
               (let n' = setAttr ''updated_at'' (VTime now)
                           (setAttr ''why'' (VStr newWhy) (n\<lparr>n_Score := newScore\<rparr>));
                    g2 = g1\<lparr>CurrentStep := CurrentStep g1 + 1, Nodes := gm_put nodeID n' (Nodes g1)\<rparr>
                in recordMutationInternal rt now ''update_node'' (updateLevelNodesInternal g2))))"

definition addEdgeInternal ::
    "'h gort \<Rightarrow> gotime \<Rightarrow> string \<Rightarrow> string \<Rightarrow> edge_type \<Rightarrow> f64 \<Rightarrow> string \<Rightarrow> 'h belief_graph \<Rightarrow> 'h belief_graph" where
  "addEdgeInternal rt now src dst edgeType confidence derivationType g =
     (if limitErr g \<noteq> None then g
      else if gm_get (Nodes g) src = None then g
      else if gm_get (Nodes g) dst = None then g
      else if gm_get (Edges g) (edgeKey src dst) = None
              \<and> int (length (Edges g)) + 1 > MaxEdges (Policy g)
      then g\<lparr>limitErr := Some (GraphResourceLimitError ''edges''
               (MaxEdges (Policy g)) (int (length (Edges g)) + 1))\<rparr>
      else case prepareMutationInternal (CurrentStep g + 1) g of
        (False, g1) \<Rightarrow> g1
      | (True, g1) \<Rightarrow>
          (let step = CurrentStep g1 + 1;
               e = \<lparr>e_Src = src, e_Dst = dst, e_Type = edgeType, e_Status = StatusActive,
                    e_Confidence = confidence, e_DerivationType = derivationType,
                    e_ExtractorVersion = ''v1.0'', e_StepID = step_id step,
                    e_RetractedBy = [], e_RetractedAt = None\<rparr>
           in recordMutationInternal rt now ''add_edge''
                (g1\<lparr>CurrentStep := step, Edges := gm_put (edgeKey src dst) e (Edges g1)\<rparr>)))"

definition retractEdge :: "string \<Rightarrow> string \<Rightarrow> gotime \<Rightarrow> edge \<Rightarrow> edge" where
  "retractEdge nodeID retractedBy now e =
     (if (e_Src e = nodeID \<or> e_Dst e = nodeID) \<and> e_Status e = StatusActive
      then e\<lparr>e_Status := StatusRetracted, e_RetractedBy := retractedBy, e_RetractedAt := Some now\<rparr>
      else e)"

definition retractNodeInternal ::
    "'h gort \<Rightarrow> gotime \<Rightarrow> string \<Rightarrow> string \<Rightarrow> msg \<Rightarrow> 'h belief_graph \<Rightarrow> 'h belief_graph" where
  "retractNodeInternal rt now nodeID retractedBy reason g =
     (case gm_get (Nodes g) nodeID of
        None \<Rightarrow> g
      | Some n \<Rightarrow>
          (case prepareMutationInternal (CurrentStep g + 1) g of
             (False, g1) \<Rightarrow> g1
           | (True, g1) \<Rightarrow>
               (let n' = setAttr ''retract_reason'' (VMsg reason)
                           (n\<lparr>n_Status := StatusRetracted, n_RetractedBy := retractedBy,
                              n_RetractedAt := Some now\<rparr>);
                    g2 = g1\<lparr>CurrentStep := CurrentStep g1 + 1, Nodes := gm_put nodeID n' (Nodes g1),
                            Edges := gm_map (\<lambda>_. retractEdge nodeID retractedBy now) (Edges g1)\<rparr>
                in recordMutationInternal rt now ''retract_node'' (updateLevelNodesInternal g2))))"

definition SupersedeNode ::
    "'h gort \<Rightarrow> gotime \<Rightarrow> string \<Rightarrow> string \<Rightarrow> msg \<Rightarrow> 'h belief_graph \<Rightarrow> 'h belief_graph" where
  "SupersedeNode rt now oldNodeID newNodeID reason g =
     (case gm_get (Nodes g) oldNodeID of
        None \<Rightarrow> g
      | Some n \<Rightarrow>
          (case prepareMutationInternal (CurrentStep g + 1) g of
             (False, g1) \<Rightarrow> g1
           | (True, g1) \<Rightarrow>
               (let n' = setAttr ''supersede_reason'' (VMsg reason)
                           (n\<lparr>n_Status := StatusSuperseded, n_SupersededBy := newNodeID\<rparr>);
                    g2 = g1\<lparr>CurrentStep := CurrentStep g1 + 1, Nodes := gm_put oldNodeID n' (Nodes g1)\<rparr>
                in recordMutationInternal rt now ''supersede_node'' (updateLevelNodesInternal g2))))"

subsection \<open>Queries\<close>

definition hypothesesAt :: "int \<Rightarrow> 'h belief_graph \<Rightarrow> node list" where
  "hypothesesAt level g = filter (\<lambda>n. active_hypothesis n \<and> n_Level n = level) (map snd (Nodes g))"

definition activeEdgesInto :: "edge_type \<Rightarrow> string \<Rightarrow> 'h belief_graph \<Rightarrow> int" where
  "activeEdgesInto t nodeID g =
     count_if (\<lambda>e. e_Dst e = nodeID \<and> e_Status e = StatusActive \<and> e_Type e = t) (map snd (Edges g))"

definition extractFrontierInternal :: "'h gort \<Rightarrow> int \<Rightarrow> 'h belief_graph \<Rightarrow> frontier option" where
  "extractFrontierInternal rt level g =
     (case sort_slice nodeRankLess (hypothesesAt level g) of
        [] \<Rightarrow> None
      | best # _ \<Rightarrow>
          Some \<lparr>f_NodeID = n_ID best, f_Label = n_Label best, f_Why = safeWhy rt (n_Attrs best),
                f_Score = n_Score best, f_Level = n_Level best,
                f_Supports = activeEdgesInto EdgeSupport (n_ID best) g,
                f_Refutes = activeEdgesInto EdgeRefute (n_ID best) g\<rparr>)"

definition getActiveNodeCopiesInternal :: "'h belief_graph \<Rightarrow> node list" where
  "getActiveNodeCopiesInternal g = filter (\<lambda>n. n_Status n = StatusActive) (map snd (Nodes g))"

definition GetActiveHypothesisCopies :: "int \<Rightarrow> 'h belief_graph \<Rightarrow> node list" where
  "GetActiveHypothesisCopies level g = sort_slice nodeRankLess (hypothesesAt level g)"

definition GetActiveRefinesParentCopies :: "string \<Rightarrow> 'h belief_graph \<Rightarrow> node list" where
  "GetActiveRefinesParentCopies nodeID g =
     sort_slice (\<lambda>a b. n_ID a < n_ID b)
       (List.map_filter (\<lambda>e.
          if e_Dst e \<noteq> nodeID \<or> e_Type e \<noteq> EdgeRefines \<or> e_Status e \<noteq> StatusActive then None
          else case gm_get (Nodes g) (e_Src e) of
            None \<Rightarrow> None
          | Some p \<Rightarrow> if active_hypothesis p then Some p else None)
        (map snd (Edges g)))"

definition getActiveEdgeCopies :: "'h belief_graph \<Rightarrow> edge list" where
  "getActiveEdgeCopies g = filter (\<lambda>e. e_Status e = StatusActive) (map snd (Edges g))"

definition generateBeliefTextInternal :: "'h belief_graph \<Rightarrow> 'h belief_graph" where
  "generateBeliefTextInternal g =
     (let typeText = (\<lambda>t. case t of NodeSignal \<Rightarrow> ''Signal'' | NodeEvidence \<Rightarrow> ''Evidence''
                          | NodeHypothesis \<Rightarrow> ''Hypothesis'' | OtherNodeType s \<Rightarrow> s);
          parts = map (\<lambda>n. Fmt ''%s: %s (score=%.2f)''
                            [AStr (typeText (n_Type n)), AStr (n_Label n), AFlt (n_Score n)])
                    (getActiveNodeCopiesInternal g)
      in if parts \<noteq> []
         then g\<lparr>Belief := Fmt ''Current belief state: %d active nodes. %v'' [AInt (int (length parts)), AList parts]\<rparr>
         else g\<lparr>Belief := Txt ''No active nodes in belief graph.''\<rparr>)"

definition HasNode :: "string \<Rightarrow> 'h belief_graph \<Rightarrow> bool" where
  "HasNode nodeID g \<longleftrightarrow> gm_get (Nodes g) nodeID \<noteq> None"

definition IsHighestConfInLevel :: "string \<Rightarrow> 'h belief_graph \<Rightarrow> bool" where
  "IsHighestConfInLevel nodeID g =
     (case gm_get (Nodes g) nodeID of
        None \<Rightarrow> False
      | Some n \<Rightarrow>
          if n_Type n \<noteq> NodeHypothesis \<or> n_Status n \<noteq> StatusActive then False
          else case gm_get (LevelNodes g) (n_Level n) of
            None \<Rightarrow> False
          | Some [] \<Rightarrow> False
          | Some (l # _) \<Rightarrow> ln_NodeID l = nodeID)"

subsection \<open>Resources\<close>

definition resourceStatsInternal :: "'h gort \<Rightarrow> 'h belief_graph \<Rightarrow> graph_resource_stats" where
  "resourceStatsInternal rt g =
     \<lparr>st_Nodes = int (length (Nodes g)), st_Edges = int (length (Edges g)),
      st_Depth = foldl (\<lambda>depth n. if n_Level n > depth then n_Level n else depth) 0 (map snd (Nodes g)),
      st_Snapshots = int (length (Snapshots g)), st_Deltas = int (length (Deltas g)),
      st_HistoryBytes = rt_hist_bytes rt (Snapshots g) (Deltas g)\<rparr>"

fun firstExceeded :: "(string \<times> int \<times> int) list \<Rightarrow> goerr option" where
  "firstExceeded [] = None"
| "firstExceeded ((name, actual, limit) # checks) =
     (if actual > limit then Some (GraphResourceLimitError name limit actual) else firstExceeded checks)"

definition validateResourceLimitsInternal :: "'h gort \<Rightarrow> 'h belief_graph \<Rightarrow> goerr option" where
  "validateResourceLimitsInternal rt g =
     (let stats = resourceStatsInternal rt g; p = Policy g
      in firstExceeded
           [(''nodes'', st_Nodes stats, MaxNodes p), (''edges'', st_Edges stats, MaxEdges p),
            (''depth'', st_Depth stats, MaxDepth p), (''snapshots'', st_Snapshots stats, MaxSnapshots p),
            (''deltas'', st_Deltas stats, MaxDeltas p)])"

definition ValidateResources :: "'h gort \<Rightarrow> 'h belief_graph \<Rightarrow> goerr option" where
  "ValidateResources rt g =
     (case limitErr g of Some err \<Rightarrow> Some err | None \<Rightarrow> validateResourceLimitsInternal rt g)"

record graph_dict =
  gdict_nodes :: "(string, node) gomap"
  gdict_edges :: "(string \<times> string \<times> edge_type) list"
  gdict_start_signal_id :: string
  gdict_belief :: msg
  gdict_resource_stats :: graph_resource_stats

definition toDictInternal :: "'h gort \<Rightarrow> 'h belief_graph \<Rightarrow> graph_dict" where
  "toDictInternal rt g =
     \<lparr>gdict_nodes = Nodes g,
      gdict_edges = map (\<lambda>(_, e). (e_Src e, e_Dst e, e_Type e)) (Edges g),
      gdict_start_signal_id = StartSignalID g, gdict_belief = Belief g,
      gdict_resource_stats = resourceStatsInternal rt g\<rparr>"

subsection \<open>Copy-on-write updates\<close>

definition deepCopy :: "'h belief_graph \<Rightarrow> 'h belief_graph" where
  "deepCopy g =
     \<lparr>Nodes = Nodes g, Edges = Edges g, StartSignalID = StartSignalID g, Belief = Belief g,
      LevelNodes = [], Snapshots = [], Deltas = [], CurrentStep = CurrentStep g, Policy = Policy g,
      lastCheckpointStep = 0, recordedNodeHashes = [], recordedEdgeHashes = [],
      recordingDisabled = True, limitErr = None\<rparr>"

definition refused :: "goerr \<Rightarrow> graph_update_result" where
  "refused err = \<lparr>Committed = False, upd_Error = Some err\<rparr>"

text \<open>The part of \<open>UpdateCopyOnWrite\<close> that runs outside the lock, after the callback: what
  the copy may not have become.\<close>

definition cowCheck :: "'h gort \<Rightarrow> goerr option \<times> 'h belief_graph \<Rightarrow> goerr option" where
  "cowCheck rt r =
     (case fst r of
        Some err \<Rightarrow> Some err
      | None \<Rightarrow>
          (case limitErr (snd r) of
             Some err \<Rightarrow> Some err
           | None \<Rightarrow> validateResourceLimitsInternal rt (snd r)))"

text \<open>The critical section at the end of \<open>UpdateCopyOnWrite\<close>.\<close>

definition cowCommit ::
    "'h gort \<Rightarrow> gotime \<Rightarrow> int \<Rightarrow> 'h belief_graph \<Rightarrow> 'h belief_graph \<Rightarrow> graph_update_result \<times> 'h belief_graph" where
  "cowCommit rt now originalStep cp g =
     (if CurrentStep g \<noteq> originalStep
      then (refused (Errorf ''belief graph changed during copy-on-write update'' []), g)
      else case preflightRecordInternal g (CurrentStep cp) of
        Some err \<Rightarrow> (refused err, g)
      | None \<Rightarrow>
          (let g1 = g\<lparr>Nodes := Nodes cp, Edges := Edges cp, StartSignalID := StartSignalID cp,
                      Belief := Belief cp, CurrentStep := CurrentStep cp\<rparr>;
               g2 = recordMutationInternal rt now ''copy_on_write_update'' (updateLevelNodesInternal g1)
           in case limitErr g2 of
                Some err \<Rightarrow> (refused err, g2)
              | None \<Rightarrow> (\<lparr>Committed = True, upd_Error = None\<rparr>, g2)))"

definition UpdateCopyOnWrite ::
    "'h gort \<Rightarrow> gotime \<Rightarrow> ('h belief_graph \<Rightarrow> goerr option \<times> 'h belief_graph) \<Rightarrow> 'h belief_graph
     \<Rightarrow> graph_update_result \<times> 'h belief_graph" where
  "UpdateCopyOnWrite rt now fn g =
     (let r = fn (deepCopy g)
      in case cowCheck rt r of
           Some err \<Rightarrow> (refused err, g)
         | None \<Rightarrow> cowCommit rt now (CurrentStep g) (snd r) g)"

subsection \<open>The public entry points\<close>

text \<open>\<open>AddSignal\<close>, \<open>AddEvidence\<close> and \<open>AddHypothesis\<close> and their \<open>Copy\<close> variants (which skip the
  lock, for use on a private copy) fix arguments of \<open>addNodeInternal\<close>.\<close>

definition AddSignal :: "'h gort \<Rightarrow> gotime \<Rightarrow> string \<Rightarrow> 'h belief_graph \<Rightarrow> string \<times> 'h belief_graph" where
  "AddSignal rt now label = addNodeInternal rt now NodeSignal label 1 0 None None"

definition AddEvidence ::
    "'h gort \<Rightarrow> gotime \<Rightarrow> string \<Rightarrow> evidence_source option \<Rightarrow> 'h belief_graph \<Rightarrow> string \<times> 'h belief_graph" where
  "AddEvidence rt now label source = addNodeInternal rt now NodeEvidence label 1 0 None source"

definition AddHypothesis ::
    "'h gort \<Rightarrow> gotime \<Rightarrow> string \<Rightarrow> f64 \<Rightarrow> int \<Rightarrow> string \<Rightarrow> 'h belief_graph \<Rightarrow> string \<times> 'h belief_graph" where
  "AddHypothesis rt now label score level why =
     addNodeInternal rt now NodeHypothesis label score level (Some [(''why'', VStr why)]) None"

end
