(* ===== verification/Belief_Invariants.thy ===== *)
theory Belief_Invariants
  imports Belief_Graph
begin

text \<open>
  What every operation of the belief graph does to it, as one step relation. \<open>mutation\<close> has
  a rule per kind of effect (nothing, a refusal that only sets the limit error, a new node, a
  write to a node and its edges, an edge, the belief text); each operation of
  \<open>Belief_Graph\<close> is shown to be such a step, so an invariant is proved once per rule and
  holds for all of them. \<open>copy_step\<close> adds what the callbacks of \<open>UpdateCopyOnWrite\<close> write
  directly through the pointers of their private copy, and \<open>reachable\<close> closes the initial
  graph under operations and copy-on-write updates.
\<close>

subsection \<open>Frames of the recording routines\<close>

lemma updateLevel_frame [simp]:
  "Nodes (updateLevelNodesInternal g) = Nodes g" "Edges (updateLevelNodesInternal g) = Edges g"
  "StartSignalID (updateLevelNodesInternal g) = StartSignalID g"
  "Belief (updateLevelNodesInternal g) = Belief g"
  "Snapshots (updateLevelNodesInternal g) = Snapshots g"
  "Deltas (updateLevelNodesInternal g) = Deltas g"
  "CurrentStep (updateLevelNodesInternal g) = CurrentStep g"
  "Policy (updateLevelNodesInternal g) = Policy g"
  "lastCheckpointStep (updateLevelNodesInternal g) = lastCheckpointStep g"
  "recordedNodeHashes (updateLevelNodesInternal g) = recordedNodeHashes g"
  "recordedEdgeHashes (updateLevelNodesInternal g) = recordedEdgeHashes g"
  "recordingDisabled (updateLevelNodesInternal g) = recordingDisabled g"
  "limitErr (updateLevelNodesInternal g) = limitErr g"
  by (simp_all add: updateLevelNodesInternal_def)

lemma updateLevel_upd [simp]:
  "updateLevelNodesInternal (g\<lparr>limitErr := e\<rparr>) = (updateLevelNodesInternal g)\<lparr>limitErr := e\<rparr>"
  by (simp add: updateLevelNodesInternal_def)

lemma record_frame [simp]:
  "Nodes (recordMutationInternal rt now a g) = Nodes g"
  "Edges (recordMutationInternal rt now a g) = Edges g"
  "StartSignalID (recordMutationInternal rt now a g) = StartSignalID g"
  "Belief (recordMutationInternal rt now a g) = Belief g"
  "LevelNodes (recordMutationInternal rt now a g) = LevelNodes g"
  "CurrentStep (recordMutationInternal rt now a g) = CurrentStep g"
  "Policy (recordMutationInternal rt now a g) = Policy g"
  "recordingDisabled (recordMutationInternal rt now a g) = recordingDisabled g"
  by (simp_all add: recordMutationInternal_def takeSnapshotInternal_def
        refreshRecordedHashesInternal_def Let_def)

lemma record_disabled [simp]:
  "recordingDisabled g \<Longrightarrow> recordMutationInternal rt now a g = g"
  by (simp add: recordMutationInternal_def)

lemma record_limited [simp]:
  "limitErr g = Some e \<Longrightarrow> recordMutationInternal rt now a g = g"
  by (simp add: recordMutationInternal_def)

lemma checkpointDue_cong:
  "lastCheckpointStep g' = lastCheckpointStep g \<Longrightarrow> Policy g' = Policy g \<Longrightarrow>
   checkpointDue g' s = checkpointDue g s"
  by (simp add: checkpointDue_def)

text \<open>A mutation may go on: what \<open>prepareMutationInternal\<close> answers.\<close>

definition ready :: "'h belief_graph \<Rightarrow> bool" where
  "ready g \<longleftrightarrow> limitErr g = None \<and>
     (recordingDisabled g \<or> preflightRecordInternal g (CurrentStep g + 1) = None)"

lemma prepare_cases:
  "prepareMutationInternal (CurrentStep g + 1) g =
     (if ready g then (True, g)
      else (False, if limitErr g = None
                   then g\<lparr>limitErr := preflightRecordInternal g (CurrentStep g + 1)\<rparr> else g))"
  by (auto simp: prepareMutationInternal_def ready_def split: option.splits)

text \<open>The preflight asks what the recording will ask, so a mutation that was let through is
  recorded.\<close>

lemma ready_recorded:
  assumes "ready g" "\<not> recordingDisabled g"
    and "CurrentStep g' = CurrentStep g + 1" "Policy g' = Policy g" "Snapshots g' = Snapshots g"
      "Deltas g' = Deltas g" "lastCheckpointStep g' = lastCheckpointStep g"
      "recordingDisabled g' = recordingDisabled g" "limitErr g' = limitErr g"
  shows "limitErr (recordMutationInternal rt now a g') = None"
  using assms checkpointDue_cong [of g' g]
  by (auto simp: ready_def recordMutationInternal_def preflightRecordInternal_def
        takeSnapshotInternal_def refreshRecordedHashesInternal_def Let_def split: if_splits)

subsection \<open>The step relation\<close>

inductive mutation :: "'h gort \<Rightarrow> 'h belief_graph \<Rightarrow> 'h belief_graph \<Rightarrow> bool" for rt where
  skip: "mutation rt g g"
| refuse: "limitErr g = None \<Longrightarrow> mutation rt g (g\<lparr>limitErr := Some err\<rparr>)"
| node_new:
    "ready g \<Longrightarrow> int (length (Nodes g)) + 1 \<le> MaxNodes (Policy g) \<Longrightarrow> n_Level n \<le> MaxDepth (Policy g) \<Longrightarrow>
     n_ID n = node_id (CurrentStep g + 1) \<Longrightarrow> n_Attrs n \<noteq> None \<Longrightarrow>
     mutation rt g (recordMutationInternal rt now a (updateLevelNodesInternal
       (g\<lparr>CurrentStep := CurrentStep g + 1, Nodes := gm_put (n_ID n) n (Nodes g)\<rparr>)))"
| node_write:
    "ready g \<Longrightarrow> gm_get (Nodes g) k = Some n \<Longrightarrow> n_ID n' = n_ID n \<Longrightarrow> n_Level n' = n_Level n \<Longrightarrow> n_Attrs n' \<noteq> None \<Longrightarrow>
     (\<And>e. e_Src (f e) = e_Src e \<and> e_Dst (f e) = e_Dst e) \<Longrightarrow>
     mutation rt g (recordMutationInternal rt now a (updateLevelNodesInternal
       (g\<lparr>CurrentStep := CurrentStep g + 1, Nodes := gm_put k n' (Nodes g),
          Edges := gm_map (\<lambda>_. f) (Edges g)\<rparr>)))"
| edge_put:
    "ready g \<Longrightarrow> gm_get (Nodes g) (e_Src e) \<noteq> None \<Longrightarrow> gm_get (Nodes g) (e_Dst e) \<noteq> None \<Longrightarrow>
     gm_get (Edges g) (edgeKey (e_Src e) (e_Dst e)) \<noteq> None \<or> int (length (Edges g)) + 1 \<le> MaxEdges (Policy g) \<Longrightarrow>
     mutation rt g (recordMutationInternal rt now a
       (g\<lparr>CurrentStep := CurrentStep g + 1, Edges := gm_put (edgeKey (e_Src e) (e_Dst e)) e (Edges g)\<rparr>))"
| belief_text: "mutation rt g (g\<lparr>Belief := m\<rparr>)"

lemma gm_map_id [simp]: "gm_map (\<lambda>_ e. e) m = m"
  by (induction m) auto

lemma setAttr_frame [simp]:
  "n_ID (setAttr k v n) = n_ID n" "n_Type (setAttr k v n) = n_Type n"
  "n_Label (setAttr k v n) = n_Label n" "n_Score (setAttr k v n) = n_Score n"
  "n_Status (setAttr k v n) = n_Status n" "n_Level (setAttr k v n) = n_Level n"
  "n_Source (setAttr k v n) = n_Source n" "n_Attrs (setAttr k v n) \<noteq> None"
  by (simp_all add: setAttr_def)

lemma refuse_prepare:
  "\<not> ready g \<Longrightarrow> mutation rt g (snd (prepareMutationInternal (CurrentStep g + 1) g))"
  by (auto simp: prepare_cases ready_def intro: mutation.intros)

lemma addNode_mutation: "mutation rt g (snd (addNodeInternal rt now t l s lv ats src g))"
proof (cases "ready g \<and> int (length (Nodes g)) + 1 \<le> MaxNodes (Policy g) \<and> lv \<le> MaxDepth (Policy g)")
  case True
  let ?n = "\<lparr>n_ID = node_id (CurrentStep g + 1), n_Type = t, n_Label = l, n_Score = s,
     n_Status = StatusActive, n_Level = lv, n_Attrs = Some (case ats of None \<Rightarrow> [] | Some m \<Rightarrow> m),
     n_Source = src, n_RetractedBy = [], n_SupersededBy = [], n_RetractedAt = None,
     n_StepID = step_id (CurrentStep g + 1)\<rparr>"
  have "limitErr g = None" using True by (simp add: ready_def)
  with True show ?thesis
    using mutation.node_new [of g ?n rt now "''add_node''"]
    by (simp add: addNodeInternal_def prepare_cases Let_def)
next
  case False
  then show ?thesis
    using refuse_prepare [of g rt]
    by (cases "limitErr g")
       (auto simp: addNodeInternal_def prepare_cases Let_def intro: mutation.intros split: if_splits)
qed

lemma write_mutation:
  assumes "gm_get (Nodes g) k = Some n" "n_ID n' = n_ID n" "n_Level n' = n_Level n" "n_Attrs n' \<noteq> None"
    and "\<And>e. e_Src (f e) = e_Src e \<and> e_Dst (f e) = e_Dst e"
  shows "mutation rt g (case prepareMutationInternal (CurrentStep g + 1) g of
      (False, g1) \<Rightarrow> g1
    | (True, g1) \<Rightarrow> recordMutationInternal rt now a (updateLevelNodesInternal
        (g1\<lparr>CurrentStep := CurrentStep g1 + 1, Nodes := gm_put k n' (Nodes g1),
           Edges := gm_map (\<lambda>_. f) (Edges g1)\<rparr>)))"
  using mutation.node_write [OF _ assms, of rt now a] refuse_prepare [of g rt]
  by (auto simp: prepare_cases split: if_splits)

lemma updateNode_mutation: "mutation rt g (updateNodeInternal rt now k s w g)"
proof (cases "gm_get (Nodes g) k")
  case None
  then show ?thesis by (simp add: updateNodeInternal_def mutation.skip)
next
  case (Some n)
  then show ?thesis
    using write_mutation [OF Some, of "setAttr ''updated_at'' (VTime now)
        (setAttr ''why'' (VStr w) (n\<lparr>n_Score := s\<rparr>))" "\<lambda>e. e" rt now "''update_node''"]
    by (cases "ready g") (simp_all add: updateNodeInternal_def prepare_cases Let_def)
qed

lemma retractEdge_frame [simp]:
  "e_Src (retractEdge k b t e) = e_Src e" "e_Dst (retractEdge k b t e) = e_Dst e"
  "e_Type (retractEdge k b t e) = e_Type e" "e_Confidence (retractEdge k b t e) = e_Confidence e"
  by (simp_all add: retractEdge_def)

lemma retractNode_mutation: "mutation rt g (retractNodeInternal rt now k b r g)"
proof (cases "gm_get (Nodes g) k")
  case None
  then show ?thesis by (simp add: retractNodeInternal_def mutation.skip)
next
  case (Some n)
  then show ?thesis
    using write_mutation [OF Some, of "setAttr ''retract_reason'' (VMsg r)
        (n\<lparr>n_Status := StatusRetracted, n_RetractedBy := b, n_RetractedAt := Some now\<rparr>)"
        "retractEdge k b now" rt now "''retract_node''"]
    by (cases "ready g") (simp_all add: retractNodeInternal_def prepare_cases Let_def)
qed

lemma supersede_mutation: "mutation rt g (SupersedeNode rt now k k' r g)"
proof (cases "gm_get (Nodes g) k")
  case None
  then show ?thesis by (simp add: SupersedeNode_def mutation.skip)
next
  case (Some n)
  then show ?thesis
    using write_mutation [OF Some, of "setAttr ''supersede_reason'' (VMsg r)
        (n\<lparr>n_Status := StatusSuperseded, n_SupersededBy := k'\<rparr>)" "\<lambda>e. e" rt now "''supersede_node''"]
    by (cases "ready g") (simp_all add: SupersedeNode_def prepare_cases Let_def)
qed

lemma addEdge_mutation: "mutation rt g (addEdgeInternal rt now src dst t c d g)"
proof (cases "ready g \<and> gm_get (Nodes g) src \<noteq> None \<and> gm_get (Nodes g) dst \<noteq> None \<and>
    (gm_get (Edges g) (edgeKey src dst) \<noteq> None \<or> int (length (Edges g)) + 1 \<le> MaxEdges (Policy g))")
  case True
  let ?e = "\<lparr>e_Src = src, e_Dst = dst, e_Type = t, e_Status = StatusActive, e_Confidence = c,
     e_DerivationType = d, e_ExtractorVersion = ''v1.0'', e_StepID = step_id (CurrentStep g + 1),
     e_RetractedBy = [], e_RetractedAt = None\<rparr>"
  have "limitErr g = None" using True by (simp add: ready_def)
  moreover have "\<not> (gm_get (Edges g) (edgeKey src dst) = None \<and>
      MaxEdges (Policy g) < int (length (Edges g)) + 1)"
    using True by auto
  ultimately have "addEdgeInternal rt now src dst t c d g = recordMutationInternal rt now ''add_edge''
      (g\<lparr>CurrentStep := CurrentStep g + 1, Edges := gm_put (edgeKey src dst) ?e (Edges g)\<rparr>)"
    using True by (auto simp: addEdgeInternal_def prepare_cases Let_def)
  then show ?thesis
    using True mutation.edge_put [of g ?e rt now "''add_edge''"] by simp
next
  case False
  then show ?thesis
    using refuse_prepare [of g rt]
    by (cases "limitErr g")
       (auto simp: addEdgeInternal_def prepare_cases Let_def intro: mutation.intros split: if_splits)
qed

lemma beliefText_mutation: "mutation rt g (generateBeliefTextInternal g)"
  by (auto simp: generateBeliefTextInternal_def Let_def intro: mutation.intros)

lemmas operation_mutation =
  addNode_mutation updateNode_mutation retractNode_mutation supersede_mutation
  addEdge_mutation beliefText_mutation

subsection \<open>Well-formed graphs\<close>

text \<open>Every node has an attribute map and sits under its own ID, which is \<open>node-j\<close> for a step
  \<open>j\<close> already taken (so the next ID is fresh), and every edge sits under the key of its end points, which exist.\<close>

definition graph_wf :: "'h belief_graph \<Rightarrow> bool" where
  "graph_wf g \<longleftrightarrow> gm_ok (Nodes g) \<and> gm_ok (Edges g) \<and> 0 \<le> CurrentStep g \<and>
     (\<forall>k n. gm_get (Nodes g) k = Some n \<longrightarrow>
        n_ID n = k \<and> n_Attrs n \<noteq> None \<and> (\<exists>j. 1 \<le> j \<and> j \<le> CurrentStep g \<and> k = node_id j)) \<and>
     (\<forall>k e. gm_get (Edges g) k = Some e \<longrightarrow>
        k = edgeKey (e_Src e) (e_Dst e) \<and> gm_get (Nodes g) (e_Src e) \<noteq> None \<and>
        gm_get (Nodes g) (e_Dst e) \<noteq> None)"

lemma graph_wf_cong:
  "Nodes g' = Nodes g \<Longrightarrow> Edges g' = Edges g \<Longrightarrow> CurrentStep g' = CurrentStep g \<Longrightarrow>
   graph_wf g' = graph_wf g"
  by (simp add: graph_wf_def)

lemma graph_wf_record [simp]:
  "graph_wf (recordMutationInternal rt now a g) = graph_wf g"
  "graph_wf (updateLevelNodesInternal g) = graph_wf g"
  by (simp_all add: graph_wf_def)

lemma graph_wf_new [simp]: "graph_wf (NewBeliefGraphWithPolicy p)"
  by (simp add: graph_wf_def NewBeliefGraphWithPolicy_def)

lemma graph_wf_okD: "graph_wf g \<Longrightarrow> gm_ok (Nodes g)" "graph_wf g \<Longrightarrow> gm_ok (Edges g)"
  by (simp_all add: graph_wf_def)

lemma graph_wf_ID: "graph_wf g \<Longrightarrow> gm_get (Nodes g) k = Some n \<Longrightarrow> n_ID n = k"
  by (simp add: graph_wf_def)

lemma graph_wf_attrs: "graph_wf g \<Longrightarrow> gm_get (Nodes g) k = Some n \<Longrightarrow> n_Attrs n \<noteq> None"
  by (simp add: graph_wf_def)

lemma graph_wf_edge:
  "graph_wf g \<Longrightarrow> gm_get (Edges g) k = Some e \<Longrightarrow>
   k = edgeKey (e_Src e) (e_Dst e) \<and> gm_get (Nodes g) (e_Src e) \<noteq> None \<and> gm_get (Nodes g) (e_Dst e) \<noteq> None"
  by (simp add: graph_wf_def)

lemma node_id_fresh: "graph_wf g \<Longrightarrow> CurrentStep g < j \<Longrightarrow> gm_get (Nodes g) (node_id j) = None"
  by (cases "gm_get (Nodes g) (node_id j)") (fastforce simp: graph_wf_def)+

lemma graph_wf_distinct_IDs: "graph_wf g \<Longrightarrow> distinct (map n_ID (map snd (Nodes g)))"
proof -
  assume wf: "graph_wf g"
  have "map (n_ID \<circ> snd) (Nodes g) = map fst (Nodes g)"
    using wf by (intro map_cong) (auto simp: graph_wf_def dest: gm_in_get)
  then show ?thesis
    unfolding map_map using wf by (metis graph_wf_def gm_ok_def)
qed

lemma graph_wf_step: "graph_wf g \<Longrightarrow> CurrentStep g \<le> s \<Longrightarrow> graph_wf (g\<lparr>CurrentStep := s\<rparr>)"
  unfolding graph_wf_def by simp (meson order_trans)

lemma graph_wf_put_node:
  assumes "graph_wf g" "n_ID n = k" "n_Attrs n \<noteq> None" "k = node_id j" "1 \<le> j" "j \<le> s" "CurrentStep g \<le> s"
  shows "graph_wf (g\<lparr>CurrentStep := s, Nodes := gm_put k n (Nodes g)\<rparr>)"
  using assms unfolding graph_wf_def
  by (simp add: gm_get_put) (smt (verit))

lemma graph_wf_map_edges:
  assumes "graph_wf g" "\<And>e. e_Src (f e) = e_Src e \<and> e_Dst (f e) = e_Dst e"
  shows "graph_wf (g\<lparr>Edges := gm_map (\<lambda>_. f) (Edges g)\<rparr>)"
  using assms unfolding graph_wf_def by (auto simp: gm_get_map)

lemma graph_wf_put_edge:
  assumes "graph_wf g" "gm_get (Nodes g) (e_Src e) \<noteq> None" "gm_get (Nodes g) (e_Dst e) \<noteq> None"
    and "CurrentStep g \<le> s"
  shows "graph_wf (g\<lparr>CurrentStep := s, Edges := gm_put (edgeKey (e_Src e) (e_Dst e)) e (Edges g)\<rparr>)"
  using assms unfolding graph_wf_def
  by (simp add: gm_get_put) (smt (verit))

lemma graph_wf_write:
  assumes "graph_wf g" "gm_get (Nodes g) k = Some n" "n_ID n' = n_ID n" "n_Attrs n' \<noteq> None"
  shows "graph_wf (g\<lparr>Nodes := gm_put k n' (Nodes g)\<rparr>)"
proof -
  have "n_ID n = k \<and> (\<exists>j. 1 \<le> j \<and> j \<le> CurrentStep g \<and> k = node_id j)"
    using assms(1,2) unfolding graph_wf_def by blast
  then obtain j where "1 \<le> j" "j \<le> CurrentStep g" "k = node_id j" "n_ID n' = k"
    using assms(3) by auto
  then have "graph_wf (g\<lparr>CurrentStep := CurrentStep g, Nodes := gm_put k n' (Nodes g)\<rparr>)"
    using assms(4) by (intro graph_wf_put_node [OF assms(1)]) auto
  then show ?thesis by simp
qed

lemma mutation_wf: "mutation rt g g' \<Longrightarrow> graph_wf g \<Longrightarrow> graph_wf g'"
proof (induction rule: mutation.induct)
  case (node_new g n now a)
  then have "graph_wf (g\<lparr>CurrentStep := CurrentStep g + 1, Nodes := gm_put (n_ID n) n (Nodes g)\<rparr>)"
    by (intro graph_wf_put_node [where j = "CurrentStep g + 1"]) (auto simp: graph_wf_def)
  then show ?case by simp
next
  case (node_write g k n n' f now a)
  then have "graph_wf (g\<lparr>Nodes := gm_put k n' (Nodes g)\<rparr>)"
    by (intro graph_wf_write) auto
  from graph_wf_map_edges [OF this node_write.hyps(6)]
  have "graph_wf (g\<lparr>Nodes := gm_put k n' (Nodes g), Edges := gm_map (\<lambda>_. f) (Edges g)\<rparr>)"
    by simp
  from graph_wf_step [OF this, of "CurrentStep g + 1"]
  have "graph_wf (g\<lparr>CurrentStep := CurrentStep g + 1, Nodes := gm_put k n' (Nodes g),
      Edges := gm_map (\<lambda>_. f) (Edges g)\<rparr>)"
    by (simp add: graph_wf_def)
  then show ?case by simp
next
  case (edge_put g e now a)
  then have "graph_wf (g\<lparr>CurrentStep := CurrentStep g + 1,
      Edges := gm_put (edgeKey (e_Src e) (e_Dst e)) e (Edges g)\<rparr>)"
    by (intro graph_wf_put_edge) auto
  then show ?case by simp
qed (auto simp: graph_wf_def)

lemma mutation_step: "mutation rt g g' \<Longrightarrow> CurrentStep g \<le> CurrentStep g'"
  by (induction rule: mutation.induct) auto

lemma mutation_policy: "mutation rt g g' \<Longrightarrow> Policy g' = Policy g"
  by (induction rule: mutation.induct) auto

lemma mutation_disabled: "mutation rt g g' \<Longrightarrow> recordingDisabled g' = recordingDisabled g"
  by (induction rule: mutation.induct) auto

text \<open>Nothing is ever deleted.\<close>

definition kept :: "'h belief_graph \<Rightarrow> 'h belief_graph \<Rightarrow> bool" where
  "kept g h \<longleftrightarrow> dom (gm_get (Nodes g)) \<subseteq> dom (gm_get (Nodes h)) \<and>
     dom (gm_get (Edges g)) \<subseteq> dom (gm_get (Edges h))"

lemma kept_refl [simp]: "kept g g"
  by (simp add: kept_def)

lemma kept_trans: "kept g h \<Longrightarrow> kept h k \<Longrightarrow> kept g k"
  unfolding kept_def by (meson order_trans)

lemma kept_node: "kept g h \<Longrightarrow> gm_get (Nodes g) k = Some n \<Longrightarrow> \<exists>m. gm_get (Nodes h) k = Some m"
  unfolding kept_def by blast

lemma mutation_kept: "mutation rt g g' \<Longrightarrow> kept g g'"
  by (induction rule: mutation.induct) (auto simp: kept_def gm_get_put gm_get_map dom_def)

text \<open>A mutation that does not advance the step counter wrote no node and no edge.\<close>

lemma mutation_same_step:
  "mutation rt g g' \<Longrightarrow> CurrentStep g' = CurrentStep g \<Longrightarrow> Nodes g' = Nodes g \<and> Edges g' = Edges g"
  by (induction rule: mutation.induct) auto

subsection \<open>Resource limits\<close>

definition policy_ok :: "graph_policy \<Rightarrow> bool" where
  "policy_ok p \<longleftrightarrow> 0 < CheckpointInterval p \<and> 0 < MaxNodes p \<and> 0 < MaxEdges p \<and> 0 < MaxDepth p \<and>
     0 < MaxSnapshots p \<and> 0 < MaxDeltas p"

definition within_limits :: "'h belief_graph \<Rightarrow> bool" where
  "within_limits g \<longleftrightarrow> policy_ok (Policy g) \<and>
     int (length (Nodes g)) \<le> MaxNodes (Policy g) \<and> int (length (Edges g)) \<le> MaxEdges (Policy g) \<and>
     (\<forall>k n. gm_get (Nodes g) k = Some n \<longrightarrow> n_Level n \<le> MaxDepth (Policy g)) \<and>
     int (length (Snapshots g)) \<le> MaxSnapshots (Policy g) \<and> int (length (Deltas g)) \<le> MaxDeltas (Policy g)"

lemma policy_ok_normalized [simp]: "policy_ok (normalizeGraphPolicy p)"
  by (simp add: policy_ok_def normalizeGraphPolicy_def Let_def)

lemma within_limits_new [simp]: "within_limits (NewBeliefGraphWithPolicy p)"
  using policy_ok_normalized [of p]
  by (simp add: within_limits_def NewBeliefGraphWithPolicy_def policy_ok_def)

lemma within_limits_record:
  assumes "policy_ok (Policy g)"
    and "int (length (Nodes g)) \<le> MaxNodes (Policy g)" "int (length (Edges g)) \<le> MaxEdges (Policy g)"
    and "\<And>k n. gm_get (Nodes g) k = Some n \<Longrightarrow> n_Level n \<le> MaxDepth (Policy g)"
    and "int (length (Snapshots g)) \<le> MaxSnapshots (Policy g)" "int (length (Deltas g)) \<le> MaxDeltas (Policy g)"
  shows "within_limits (recordMutationInternal rt now a g)"
  using assms
  by (auto simp: within_limits_def policy_ok_def recordMutationInternal_def takeSnapshotInternal_def
        refreshRecordedHashesInternal_def Let_def)

lemma mutation_limits: "mutation rt g g' \<Longrightarrow> within_limits g \<Longrightarrow> within_limits g'"
proof (induction rule: mutation.induct)
  case (node_new g n now a)
  then show ?case
    by (intro within_limits_record) (auto simp: within_limits_def length_put gm_get_put split: if_splits)
next
  case (node_write g k n n' f now a)
  then show ?case
    by (intro within_limits_record) (auto simp: within_limits_def length_put gm_get_put split: if_splits)
next
  case (edge_put g e now a)
  then show ?case
    by (intro within_limits_record) (auto simp: within_limits_def length_put split: if_splits)
qed (auto simp: within_limits_def)

subsection \<open>Level lists\<close>

text \<open>The cached ranking is the one that recomputing would give.\<close>

definition levels_ok :: "'h belief_graph \<Rightarrow> bool" where
  "levels_ok g \<longleftrightarrow> LevelNodes g = LevelNodes (updateLevelNodesInternal g)"

lemma levels_cong: "Nodes g' = Nodes g \<Longrightarrow> LevelNodes (updateLevelNodesInternal g') = LevelNodes (updateLevelNodesInternal g)"
  by (simp add: updateLevelNodesInternal_def)

lemma levels_ok_update [simp]: "levels_ok (updateLevelNodesInternal g)"
  unfolding levels_ok_def by (rule levels_cong [symmetric]) simp

lemma levels_ok_record [simp]: "levels_ok (recordMutationInternal rt now a g) = levels_ok g"
  unfolding levels_ok_def using levels_cong [of "recordMutationInternal rt now a g" g] by simp

lemma levels_ok_new [simp]: "levels_ok (NewBeliefGraphWithPolicy p)"
  by (simp add: levels_ok_def NewBeliefGraphWithPolicy_def updateLevelNodesInternal_def)

lemma mutation_levels: "mutation rt g g' \<Longrightarrow> levels_ok g \<Longrightarrow> levels_ok g'"
  by (induction rule: mutation.induct) (simp_all, simp_all add: levels_ok_def updateLevelNodesInternal_def)

end
