(* ===== verification/Belief_History.thy ===== *)
theory Belief_History
  imports Belief_Invariants
begin

text \<open>
  Copy-on-write updates and the recorded history. \<open>reachable\<close> closes the initial graph under
  the operations and under \<open>UpdateCopyOnWrite\<close> with callbacks that work on their private
  copy; the invariants of \<open>Belief_Invariants\<close> hold in every reachable graph. The history is
  shown to be faithful: laying the deltas over the last snapshot gives back every node and
  edge of the live graph, up to the digest the code compares by.
\<close>

subsection \<open>What callbacks do to a copy\<close>

inductive copy_step :: "'h gort \<Rightarrow> 'h belief_graph \<Rightarrow> 'h belief_graph \<Rightarrow> bool" for rt where
  op: "mutation rt g g' \<Longrightarrow> copy_step rt g g'"
| pointer_write:
    "gm_get (Nodes g) k = Some n \<Longrightarrow> n_ID n' = n_ID n \<Longrightarrow> n_Level n' = n_Level n \<Longrightarrow> n_Attrs n' \<noteq> None \<Longrightarrow>
     copy_step rt g (g\<lparr>Nodes := gm_put k n' (Nodes g)\<rparr>)"
| start_signal: "copy_step rt g (g\<lparr>StartSignalID := s\<rparr>)"

definition copy_steps :: "'h gort \<Rightarrow> 'h belief_graph \<Rightarrow> 'h belief_graph \<Rightarrow> bool" where
  "copy_steps rt = (copy_step rt)\<^sup>*\<^sup>*"

lemma copy_steps_refl [simp, intro]: "copy_steps rt g g"
  by (simp add: copy_steps_def)

lemma copy_steps_trans: "copy_steps rt g h \<Longrightarrow> copy_steps rt h k \<Longrightarrow> copy_steps rt g k"
  unfolding copy_steps_def by (rule rtranclp_trans)

lemma copy_steps_step: "copy_steps rt g h \<Longrightarrow> copy_step rt h k \<Longrightarrow> copy_steps rt g k"
  unfolding copy_steps_def by (rule rtranclp.rtrancl_into_rtrancl)

lemma copy_steps_op: "copy_steps rt g h \<Longrightarrow> mutation rt h k \<Longrightarrow> copy_steps rt g k"
  by (auto intro: copy_steps_step copy_step.op)

lemma copy_steps_write:
  "copy_steps rt g h \<Longrightarrow> gm_get (Nodes h) k = Some n \<Longrightarrow> n_ID n' = n_ID n \<Longrightarrow> n_Level n' = n_Level n \<Longrightarrow> n_Attrs n' \<noteq> None \<Longrightarrow>
   copy_steps rt g (h\<lparr>Nodes := gm_put k n' (Nodes h)\<rparr>)"
  by (rule copy_steps_step) (auto intro: copy_step.pointer_write)

lemma copy_step_facts:
  assumes "copy_step rt g h"
  shows "(graph_wf g \<longrightarrow> graph_wf h) \<and> CurrentStep g \<le> CurrentStep h \<and> Policy h = Policy g \<and>
    recordingDisabled h = recordingDisabled g \<and> kept g h"
  using assms
proof (induction rule: copy_step.induct)
  case (op g g')
  then show ?case
    by (auto simp: mutation_wf mutation_step mutation_policy mutation_disabled mutation_kept)
next
  case (pointer_write g k n n')
  then show ?case by (auto simp: graph_wf_write gm_get_put kept_def)
qed (auto simp: graph_wf_def kept_def)

lemma copy_steps_facts:
  assumes "copy_steps rt g h"
  shows "(graph_wf g \<longrightarrow> graph_wf h) \<and> CurrentStep g \<le> CurrentStep h \<and> Policy h = Policy g \<and>
    recordingDisabled h = recordingDisabled g \<and> kept g h"
  using assms unfolding copy_steps_def
proof (induction rule: rtranclp.induct)
  case (rtrancl_refl g)
  then show ?case by simp
next
  case (rtrancl_into_rtrancl g h k)
  with copy_step_facts [of rt h k] show ?case by (auto intro: kept_trans)
qed

lemma deepCopy_facts [simp]:
  "Nodes (deepCopy g) = Nodes g" "Edges (deepCopy g) = Edges g" "CurrentStep (deepCopy g) = CurrentStep g"
  "Policy (deepCopy g) = Policy g" "recordingDisabled (deepCopy g)" "limitErr (deepCopy g) = None"
  "StartSignalID (deepCopy g) = StartSignalID g" "Belief (deepCopy g) = Belief g"
  "Snapshots (deepCopy g) = []" "Deltas (deepCopy g) = []"
  by (simp_all add: deepCopy_def)

lemma graph_wf_deepCopy [simp]: "graph_wf (deepCopy g) = graph_wf g"
  by (rule graph_wf_cong) simp_all

subsection \<open>Reachable graphs\<close>

inductive reachable :: "'h gort \<Rightarrow> graph_policy \<Rightarrow> 'h belief_graph \<Rightarrow> bool" for rt p where
  start: "reachable rt p (NewBeliefGraphWithPolicy p)"
| operation: "reachable rt p g \<Longrightarrow> mutation rt g g' \<Longrightarrow> reachable rt p g'"
| copy_on_write:
    "reachable rt p g \<Longrightarrow> copy_steps rt (deepCopy g) cp \<Longrightarrow> cowCheck rt (None, cp) = None \<Longrightarrow>
     reachable rt p (snd (cowCommit rt now (CurrentStep g) cp g))"

lemma UpdateCopyOnWrite_reachable:
  assumes "reachable rt p g" "copy_steps rt (deepCopy g) (snd (fn (deepCopy g)))"
  shows "reachable rt p (snd (UpdateCopyOnWrite rt now fn g))"
proof (cases "cowCheck rt (fn (deepCopy g))")
  case (Some err)
  with assms(1) show ?thesis by (simp add: UpdateCopyOnWrite_def Let_def refused_def)
next
  case None
  then have "cowCheck rt (None, snd (fn (deepCopy g))) = None"
    by (auto simp: cowCheck_def split: option.splits)
  from reachable.copy_on_write [OF assms this, of now] None show ?thesis
    by (simp add: UpdateCopyOnWrite_def Let_def)
qed

text \<open>The two ways a commit can end.\<close>

definition cowApplied :: "'h gort \<Rightarrow> gotime \<Rightarrow> 'h belief_graph \<Rightarrow> 'h belief_graph \<Rightarrow> 'h belief_graph" where
  "cowApplied rt now cp g =
     recordMutationInternal rt now ''copy_on_write_update'' (updateLevelNodesInternal
       (g\<lparr>Nodes := Nodes cp, Edges := Edges cp, StartSignalID := StartSignalID cp,
          Belief := Belief cp, CurrentStep := CurrentStep cp\<rparr>))"

lemma cowCommit_cases:
  "snd (cowCommit rt now s cp g) =
     (if CurrentStep g = s \<and> preflightRecordInternal g (CurrentStep cp) = None
      then cowApplied rt now cp g else g)"
  by (auto simp: cowCommit_def cowApplied_def refused_def Let_def split: option.splits)

lemma cowCommit_committed:
  "Committed (fst (cowCommit rt now s cp g)) \<longleftrightarrow>
     CurrentStep g = s \<and> preflightRecordInternal g (CurrentStep cp) = None \<and>
     limitErr (cowApplied rt now cp g) = None"
  by (auto simp: cowCommit_def cowApplied_def refused_def Let_def split: option.splits)

text \<open>\<open>cowCheck\<close> is the resource validation of the copy.\<close>

lemma firstExceeded_None: "firstExceeded checks = None \<longleftrightarrow> (\<forall>(name, actual, limit) \<in> set checks. actual \<le> limit)"
  by (induction checks rule: firstExceeded.induct) auto

lemma depth_fold_ge: "d \<le> foldl (\<lambda>d n. if n_Level n > d then n_Level n else d) d ns"
proof (induction ns arbitrary: d)
  case Nil
  then show ?case by simp
next
  case (Cons n ns)
  have "d \<le> (if n_Level n > d then n_Level n else d)" by simp
  also note Cons.IH
  finally show ?case by simp
qed

lemma depth_fold_member:
  "n \<in> set ns \<Longrightarrow> n_Level n \<le> foldl (\<lambda>d n. if n_Level n > d then n_Level n else d) d ns"
proof (induction ns arbitrary: d)
  case Nil
  then show ?case by simp
next
  case (Cons m ns)
  show ?case
  proof (cases "n = m")
    case True
    have "n_Level m \<le> (if n_Level m > d then n_Level m else d)" by simp
    also note depth_fold_ge [of _ ns]
    finally show ?thesis using True by simp
  next
    case False
    with Cons show ?thesis by simp
  qed
qed

lemma cowCheck_limits:
  assumes "cowCheck rt (None, cp) = None"
  shows "int (length (Nodes cp)) \<le> MaxNodes (Policy cp)" "int (length (Edges cp)) \<le> MaxEdges (Policy cp)"
    "gm_get (Nodes cp) k = Some n \<Longrightarrow> n_Level n \<le> MaxDepth (Policy cp)" "limitErr cp = None"
proof -
  from assms have v: "validateResourceLimitsInternal rt cp = None" and l: "limitErr cp = None"
    by (auto simp: cowCheck_def split: option.splits)
  show "limitErr cp = None" by (rule l)
  show "int (length (Nodes cp)) \<le> MaxNodes (Policy cp)" "int (length (Edges cp)) \<le> MaxEdges (Policy cp)"
    using v by (auto simp: validateResourceLimitsInternal_def resourceStatsInternal_def firstExceeded_None Let_def
          simp del: firstExceeded.simps)
  show "n_Level n \<le> MaxDepth (Policy cp)" if "gm_get (Nodes cp) k = Some n"
  proof -
    have "n \<in> set (map snd (Nodes cp))"
      using that by (force dest: gm_get_in)
    from depth_fold_member [OF this, of 0] v show ?thesis
      by (auto simp: validateResourceLimitsInternal_def resourceStatsInternal_def firstExceeded_None Let_def
          simp del: firstExceeded.simps)
  qed
qed

lemma reachable_policy: "reachable rt p g \<Longrightarrow> Policy g = normalizeGraphPolicy p \<and> \<not> recordingDisabled g"
proof (induction rule: reachable.induct)
  case start
  then show ?case by (simp add: NewBeliefGraphWithPolicy_def)
next
  case (operation g g')
  then show ?case by (simp add: mutation_policy mutation_disabled)
next
  case (copy_on_write g cp now)
  then show ?case by (auto simp: cowCommit_cases cowApplied_def)
qed

lemma reachable_wf: "reachable rt p g \<Longrightarrow> graph_wf g"
proof (induction rule: reachable.induct)
  case start
  then show ?case by simp
next
  case (operation g g')
  then show ?case by (simp add: mutation_wf)
next
  case (copy_on_write g cp now)
  then have "graph_wf cp" using copy_steps_facts by fastforce
  then have "graph_wf (g\<lparr>Nodes := Nodes cp, Edges := Edges cp, StartSignalID := StartSignalID cp,
      Belief := Belief cp, CurrentStep := CurrentStep cp\<rparr>)"
    by (simp add: graph_wf_def)
  with copy_on_write show ?case by (simp add: cowCommit_cases cowApplied_def)
qed

lemma reachable_limits: "reachable rt p g \<Longrightarrow> within_limits g"
proof (induction rule: reachable.induct)
  case start
  then show ?case by simp
next
  case (operation g g')
  then show ?case by (simp add: mutation_limits)
next
  case (copy_on_write g cp now)
  have "Policy cp = Policy g" using copy_steps_facts [OF copy_on_write.hyps(2)] by simp
  then have "within_limits (cowApplied rt now cp g)"
    unfolding cowApplied_def
    using copy_on_write.IH cowCheck_limits [OF copy_on_write.hyps(3)]
    by (intro within_limits_record) (auto simp: within_limits_def)
  with copy_on_write.IH show ?case by (simp add: cowCommit_cases)
qed

lemma reachable_levels: "reachable rt p g \<Longrightarrow> levels_ok g"
proof (induction rule: reachable.induct)
  case start
  then show ?case by simp
next
  case (operation g g')
  then show ?case by (simp add: mutation_levels)
next
  case (copy_on_write g cp now)
  then show ?case by (simp add: cowCommit_cases cowApplied_def)
qed

subsection \<open>Replaying the history\<close>

definition lastSnapshotNodes :: "'h belief_graph \<Rightarrow> string \<rightharpoonup> node" where
  "lastSnapshotNodes g = (if Snapshots g = [] then Map.empty else map_of (gs_Nodes (last (Snapshots g))))"

definition lastSnapshotEdges :: "'h belief_graph \<Rightarrow> string \<rightharpoonup> edge" where
  "lastSnapshotEdges g = (if Snapshots g = [] then Map.empty else map_of (gs_Edges (last (Snapshots g))))"

definition replayNodes :: "'h belief_graph \<Rightarrow> string \<rightharpoonup> node" where
  "replayNodes g = foldl (\<lambda>m d. m ++ map_of (gd_UpsertNodes d)) (lastSnapshotNodes g) (Deltas g)"

definition replayEdges :: "'h belief_graph \<Rightarrow> string \<rightharpoonup> edge" where
  "replayEdges g = foldl (\<lambda>m d. m ++ map_of (gd_UpsertEdges d)) (lastSnapshotEdges g) (Deltas g)"

text \<open>Equal lookups up to a digest.\<close>

definition same_digest :: "('v \<Rightarrow> 'h) \<Rightarrow> (string \<rightharpoonup> 'v) \<Rightarrow> (string \<rightharpoonup> 'v) \<Rightarrow> bool" where
  "same_digest h m m' \<longleftrightarrow> (\<forall>k. map_option h (m k) = map_option h (m' k))"

lemma same_digest_inj: "inj h \<Longrightarrow> same_digest h m m' \<Longrightarrow> m = m'"
  unfolding same_digest_def by (metis ext inj_eq option.inj_map)

lemma same_digest_dom: "same_digest h m m' \<Longrightarrow> dom m = dom m'"
  unfolding same_digest_def dom_def by (metis map_option_is_None)

lemma same_digestD: "same_digest h m m' \<Longrightarrow> map_option h (m k) = map_option h (m' k)"
  by (simp add: same_digest_def)

lemma map_of_filter_gm:
  "gm_ok m \<Longrightarrow> map_of (filter P m) k = (case map_of m k of None \<Rightarrow> None | Some v \<Rightarrow> if P (k, v) then Some v else None)"
proof (induction m)
  case Nil
  then show ?case by simp
next
  case (Cons kv m)
  then have "fst kv \<notin> fst ` set m" and ok: "gm_ok m"
    by (cases kv; simp add: gm_ok_Cons)+
  then have "map_of (filter P m) (fst kv) = None"
    by (auto simp: map_of_eq_None_iff)
  with Cons ok show ?case by (cases kv) (auto split: option.splits)
qed

text \<open>A delta holds what the recorded digests miss, so laying it over the old state gives
  the new one.\<close>

lemma overlay_changed:
  assumes "gm_ok new" "dom old \<subseteq> dom (map_of new)"
    and "\<And>k. map_of recorded k = map_option h (old k)"
  shows "same_digest h (old ++ map_of (changedSince recorded h new)) (map_of new)"
  unfolding same_digest_def
proof
  fix k
  show "map_option h ((old ++ map_of (changedSince recorded h new)) k) = map_option h (map_of new k)"
    using assms(2) assms(3) [of k]
    by (cases "map_of new k"; cases "old k")
       (auto simp: changedSince_def map_of_filter_gm [OF assms(1)] map_add_def dom_def)
qed

definition history_ok :: "'h gort \<Rightarrow> 'h belief_graph \<Rightarrow> bool" where
  "history_ok rt g \<longleftrightarrow>
     (if Snapshots g = [] then Deltas g = [] \<and> lastCheckpointStep g = 0
      else same_digest (rt_hash_node rt) (replayNodes g) (map_of (Nodes g)) \<and>
           same_digest (rt_hash_edge rt) (replayEdges g) (map_of (Edges g)) \<and>
           (\<forall>k. gm_get (recordedNodeHashes g) k = map_option (rt_hash_node rt) (gm_get (Nodes g) k)) \<and>
           (\<forall>k. gm_get (recordedEdgeHashes g) k = map_option (rt_hash_edge rt) (gm_get (Edges g) k)))"

text \<open>Recording after a change that deletes nothing keeps the history faithful.\<close>

lemma record_history:
  assumes hist: "history_ok rt g"
    and same: "Snapshots g' = Snapshots g" "Deltas g' = Deltas g" "lastCheckpointStep g' = lastCheckpointStep g"
      "recordedNodeHashes g' = recordedNodeHashes g" "recordedEdgeHashes g' = recordedEdgeHashes g"
      "recordingDisabled g' = recordingDisabled g"
    and ok: "gm_ok (Nodes g')" "gm_ok (Edges g')"
    and kept: "kept g g'"
    and live: "\<not> recordingDisabled g" "limitErr (recordMutationInternal rt now a g') = None"
  shows "history_ok rt (recordMutationInternal rt now a g')"
proof (cases "checkpointDue g' (CurrentStep g')")
  case True
  then have "recordMutationInternal rt now a g' = takeSnapshotInternal rt now a g'"
    using live same by (auto simp: recordMutationInternal_def split: if_splits)
  then show ?thesis
    by (simp add: history_ok_def takeSnapshotInternal_def refreshRecordedHashesInternal_def Let_def
        replayNodes_def replayEdges_def lastSnapshotNodes_def lastSnapshotEdges_def same_digest_def gm_get_map)
next
  case False
  then have "lastCheckpointStep g \<noteq> 0"
    using same by (simp add: checkpointDue_def)
  then have "Snapshots g \<noteq> []" using hist by (auto simp: history_ok_def)
  then have H: "same_digest (rt_hash_node rt) (replayNodes g) (map_of (Nodes g))"
      "same_digest (rt_hash_edge rt) (replayEdges g) (map_of (Edges g))"
      "\<And>k. gm_get (recordedNodeHashes g) k = map_option (rt_hash_node rt) (gm_get (Nodes g) k)"
      "\<And>k. gm_get (recordedEdgeHashes g) k = map_option (rt_hash_edge rt) (gm_get (Edges g) k)"
    using hist by (auto simp: history_ok_def)
  have N: "same_digest (rt_hash_node rt)
      (replayNodes g ++ map_of (changedSince (recordedNodeHashes g) (rt_hash_node rt) (Nodes g'))) (map_of (Nodes g'))"
  proof (rule overlay_changed [OF ok(1)])
    show "dom (replayNodes g) \<subseteq> dom (map_of (Nodes g'))"
      using kept same_digest_dom [OF H(1)] by (simp add: kept_def)
    show "gm_get (recordedNodeHashes g) k = map_option (rt_hash_node rt) (replayNodes g k)" for k
      using H(3) [of k] same_digestD [OF H(1), of k] by simp
  qed
  have E: "same_digest (rt_hash_edge rt)
      (replayEdges g ++ map_of (changedSince (recordedEdgeHashes g) (rt_hash_edge rt) (Edges g'))) (map_of (Edges g'))"
  proof (rule overlay_changed [OF ok(2)])
    show "dom (replayEdges g) \<subseteq> dom (map_of (Edges g'))"
      using kept same_digest_dom [OF H(2)] by (simp add: kept_def)
    show "gm_get (recordedEdgeHashes g) k = map_option (rt_hash_edge rt) (replayEdges g k)" for k
      using H(4) [of k] same_digestD [OF H(2), of k] by simp
  qed
  show ?thesis
    using False live same N E \<open>Snapshots g \<noteq> []\<close>
    by (auto simp: recordMutationInternal_def history_ok_def refreshRecordedHashesInternal_def Let_def
        replayNodes_def replayEdges_def lastSnapshotNodes_def lastSnapshotEdges_def gm_get_map split: if_splits)
qed

lemma reachable_history:
  "reachable rt p g \<Longrightarrow> limitErr g = None \<Longrightarrow> history_ok rt g"
proof (induction rule: reachable.induct)
  case start
  then show ?case by (simp add: history_ok_def NewBeliefGraphWithPolicy_def)
next
  case (operation g g')
  have live: "\<not> recordingDisabled g" using operation.hyps(1) reachable_policy by blast
  have wf: "graph_wf g'" "kept g g'"
    using operation.hyps reachable_wf mutation_wf mutation_kept by blast+
  from operation.hyps(2) operation.prems operation.IH wf live show ?case
  proof (induction rule: mutation.induct)
    case (node_new g n now a)
    then show ?case
      by (intro record_history [of rt g]) (auto simp: ready_def kept_def dest: graph_wf_okD)
  next
    case (node_write g k n n' f now a)
    then show ?case
      by (intro record_history [of rt g]) (auto simp: ready_def kept_def dest: graph_wf_okD)
  next
    case (edge_put g e now a)
    then show ?case
      by (intro record_history [of rt g]) (auto simp: ready_def kept_def dest: graph_wf_okD)
  qed (auto simp: history_ok_def replayNodes_def replayEdges_def lastSnapshotNodes_def lastSnapshotEdges_def)
next
  case (copy_on_write g cp now)
  show ?case
  proof (cases "preflightRecordInternal g (CurrentStep cp) = None")
    case False
    with copy_on_write show ?thesis by (auto simp: cowCommit_cases)
  next
    case True
    then have lim: "limitErr (cowApplied rt now cp g) = None"
      using copy_on_write.prems by (simp add: cowCommit_cases)
    then have "limitErr g = None"
      by (cases "limitErr g") (auto simp: cowApplied_def)
    moreover have "graph_wf cp" "kept (deepCopy g) cp"
      using copy_steps_facts [OF copy_on_write.hyps(2)] reachable_wf [OF copy_on_write.hyps(1)] by auto
    ultimately have "history_ok rt (cowApplied rt now cp g)"
      using lim copy_on_write.IH reachable_policy [OF copy_on_write.hyps(1)] unfolding cowApplied_def
      by (intro record_history [of rt g]) (auto simp: kept_def dest: graph_wf_okD)
    with True show ?thesis by (simp add: cowCommit_cases)
  qed
qed

end
