(* ===== verification/Belief_Ranking.thy ===== *)
theory Belief_Ranking
  imports Belief_History
begin

text \<open>
  Ranking of hypotheses. The comparison of the source (higher score, then smaller ID) is a
  \<open>comparator\<close>, so every ranking is the same for every order in which Go visits the node
  map; the frontier is the best active hypothesis of its level, and the cached level lists
  and the direct scan agree on it.
\<close>

interpretation node_rank: comparator nodeRankLess n_ID
  by unfold_locales (auto simp: nodeRankLess_def split: if_splits)

interpretation level_rank: comparator levelNodeLess ln_NodeID
  by unfold_locales (auto simp: levelNodeLess_def split: if_splits)

interpretation id_order: comparator "\<lambda>a b. n_ID a < n_ID b" n_ID
  by unfold_locales auto

lemma levelNodeLess_of [simp]: "levelNodeLess (levelNodeOf a) (levelNodeOf b) = nodeRankLess a b"
  by (simp add: levelNodeLess_def levelNodeOf_def nodeRankLess_def)

lemma sort_levelNodeOf:
  "sort_slice levelNodeLess (map levelNodeOf ns) = map levelNodeOf (sort_slice nodeRankLess ns)"
  by (rule sort_slice_map) simp

lemma hypotheses_dk: "graph_wf g \<Longrightarrow> node_rank.dk (hypothesesAt level g)"
  unfolding node_rank.dk_def hypothesesAt_def
  by (rule distinct_map_filter) (rule graph_wf_distinct_IDs)

lemma hypothesesAt_iff:
  "graph_wf g \<Longrightarrow> n \<in> set (hypothesesAt level g) \<longleftrightarrow>
     gm_get (Nodes g) (n_ID n) = Some n \<and> active_hypothesis n \<and> n_Level n = level"
proof
  assume wf: "graph_wf g"
  assume "n \<in> set (hypothesesAt level g)"
  then obtain k where "(k, n) \<in> set (Nodes g)" and h: "active_hypothesis n \<and> n_Level n = level"
    by (auto simp: hypothesesAt_def)
  then have "gm_get (Nodes g) k = Some n"
    using graph_wf_okD(1) [OF wf] gm_in_get by metis
  with h show "gm_get (Nodes g) (n_ID n) = Some n \<and> active_hypothesis n \<and> n_Level n = level"
    using graph_wf_ID [OF wf] by auto
next
  assume "gm_get (Nodes g) (n_ID n) = Some n \<and> active_hypothesis n \<and> n_Level n = level"
  then show "n \<in> set (hypothesesAt level g)"
    by (force simp: hypothesesAt_def dest: gm_get_in)
qed

lemma hypothesesAt_perm:
  "mset (Nodes g) = mset (Nodes g') \<Longrightarrow> mset (hypothesesAt level g) = mset (hypothesesAt level g')"
  by (simp add: hypothesesAt_def)

lemma activeEdgesInto_perm:
  "mset (Edges g) = mset (Edges g') \<Longrightarrow> activeEdgesInto t k g = activeEdgesInto t k g'"
  unfolding activeEdgesInto_def by (rule count_if_perm) simp

lemma ranking_perm:
  "graph_wf g \<Longrightarrow> mset (Nodes g) = mset (Nodes g') \<Longrightarrow>
   sort_slice nodeRankLess (hypothesesAt level g) = sort_slice nodeRankLess (hypothesesAt level g')"
  by (rule node_rank.sort_slice_perm) (auto intro: hypotheses_dk hypothesesAt_perm)

text \<open>The graph's node \<open>n\<close> is the best active hypothesis of its level.\<close>

definition best_at :: "int \<Rightarrow> 'h belief_graph \<Rightarrow> node \<Rightarrow> bool" where
  "best_at level g n \<longleftrightarrow> n \<in> set (hypothesesAt level g) \<and>
     (\<forall>m \<in> set (hypothesesAt level g). m = n \<or> nodeRankLess n m)"

lemma best_atD:
  "graph_wf g \<Longrightarrow> best_at level g n \<Longrightarrow>
     gm_get (Nodes g) (n_ID n) = Some n \<and> active_hypothesis n \<and> n_Level n = level"
  by (simp add: best_at_def hypothesesAt_iff)

lemma ranking_best:
  assumes "graph_wf g"
  shows "(\<exists>ns. sort_slice nodeRankLess (hypothesesAt level g) = n # ns) \<longleftrightarrow> best_at level g n"
  using node_rank.sort_slice_hd [OF hypotheses_dk [OF assms]]
    node_rank.sort_slice_best [OF hypotheses_dk [OF assms]]
  unfolding best_at_def by blast

lemma extractFrontier_Some:
  assumes "graph_wf g"
  shows "extractFrontierInternal rt level g = Some f \<longleftrightarrow>
    (\<exists>n. best_at level g n \<and>
       f = \<lparr>f_NodeID = n_ID n, f_Label = n_Label n, f_Why = safeWhy rt (n_Attrs n), f_Score = n_Score n,
            f_Level = n_Level n, f_Supports = activeEdgesInto EdgeSupport (n_ID n) g,
            f_Refutes = activeEdgesInto EdgeRefute (n_ID n) g\<rparr>)"
proof (cases "sort_slice nodeRankLess (hypothesesAt level g)")
  case Nil
  then have "\<not> best_at level g n" for n
    using ranking_best [OF assms, of level n] by simp
  with Nil show ?thesis by (simp add: extractFrontierInternal_def)
next
  case (Cons b bs)
  then have "best_at level g n \<longleftrightarrow> n = b" for n
    using ranking_best [OF assms, of level n] by auto
  with Cons show ?thesis by (auto simp: extractFrontierInternal_def)
qed

lemma extractFrontier_None: "extractFrontierInternal rt level g = None \<longleftrightarrow> hypothesesAt level g = []"
  by (auto simp: extractFrontierInternal_def split: list.splits)

lemma frontier_node:
  assumes "graph_wf g" "extractFrontierInternal rt level g = Some f"
  shows "\<exists>n. gm_get (Nodes g) (f_NodeID f) = Some n \<and> active_hypothesis n \<and> n_Level n = level \<and>
    f_Level f = level \<and> f_Score f = n_Score n \<and> f_Label f = n_Label n"
  using assms by (auto simp: extractFrontier_Some best_at_def hypothesesAt_iff)

subsection \<open>The level lists\<close>

lemma collectLevels_get:
  "gm_get (collectLevels acc ns) l =
     (case map levelNodeOf (filter (\<lambda>n. active_hypothesis n \<and> n_Level n = l) ns) of
        [] \<Rightarrow> gm_get acc l
      | new \<Rightarrow> Some ((case gm_get acc l of None \<Rightarrow> [] | Some old \<Rightarrow> old) @ new))"
proof (induction ns arbitrary: acc)
  case Nil
  then show ?case by simp
next
  case (Cons n ns)
  show ?case
    by (cases "active_hypothesis n"; cases "n_Level n = l")
       (auto simp: Cons.IH gm_get_put split: list.splits option.splits)
qed

lemma levelNodes_get:
  "levels_ok g \<Longrightarrow> gm_get (LevelNodes g) l =
     (if hypothesesAt l g = [] then None
      else Some (map levelNodeOf (sort_slice nodeRankLess (hypothesesAt l g))))"
  unfolding levels_ok_def
  by (simp add: updateLevelNodesInternal_def gm_get_map collectLevels_get hypothesesAt_def
      sort_levelNodeOf [symmetric] split: list.splits)

lemma IsHighest_iff:
  "IsHighestConfInLevel k g \<longleftrightarrow>
     (\<exists>n l ls. gm_get (Nodes g) k = Some n \<and> active_hypothesis n \<and>
        gm_get (LevelNodes g) (n_Level n) = Some (l # ls) \<and> ln_NodeID l = k)"
proof (cases "gm_get (Nodes g) k")
  case None
  then show ?thesis by (simp add: IsHighestConfInLevel_def)
next
  case (Some n)
  then show ?thesis
    by (cases "gm_get (LevelNodes g) (n_Level n)")
       (auto simp: IsHighestConfInLevel_def split: list.splits)
qed

lemma levelNodes_first:
  assumes "graph_wf g" "levels_ok g"
  shows "(\<exists>ls. gm_get (LevelNodes g) l = Some (f # ls)) \<longleftrightarrow> (\<exists>n. best_at l g n \<and> f = levelNodeOf n)"
proof (cases "sort_slice nodeRankLess (hypothesesAt l g)")
  case Nil
  then have "hypothesesAt l g = []" by simp
  then show ?thesis
    by (simp add: levelNodes_get [OF assms(2)] best_at_def)
next
  case (Cons b bs)
  then have ne: "hypothesesAt l g \<noteq> []" by auto
  have "best_at l g n \<longleftrightarrow> n = b" for n
    using ranking_best [OF assms(1), of l n] Cons by auto
  with Cons ne show ?thesis
    by (auto simp: levelNodes_get [OF assms(2)])
qed

lemma IsHighest_best:
  assumes "graph_wf g" "levels_ok g"
  shows "IsHighestConfInLevel k g \<longleftrightarrow> (\<exists>n. n_ID n = k \<and> best_at (n_Level n) g n)"
proof
  assume "IsHighestConfInLevel k g"
  then obtain n l ls where n: "gm_get (Nodes g) k = Some n"
    and l: "gm_get (LevelNodes g) (n_Level n) = Some (l # ls)" "ln_NodeID l = k"
    unfolding IsHighest_iff by blast
  then obtain m where best: "best_at (n_Level n) g m" and "l = levelNodeOf m"
    using levelNodes_first [OF assms] by blast
  then have m: "n_ID m = k" using l(2) by (simp add: levelNodeOf_def)
  have "m = n" using best_atD [OF assms(1) best] n m by simp
  with best m show "\<exists>n. n_ID n = k \<and> best_at (n_Level n) g n" by blast
next
  assume "\<exists>n. n_ID n = k \<and> best_at (n_Level n) g n"
  then obtain n where k: "n_ID n = k" and best: "best_at (n_Level n) g n" by blast
  obtain ls where "gm_get (LevelNodes g) (n_Level n) = Some (levelNodeOf n # ls)"
    using levelNodes_first [OF assms] best by blast
  with best_atD [OF assms(1) best] k show "IsHighestConfInLevel k g"
    unfolding IsHighest_iff by (auto simp: levelNodeOf_def)
qed

end
