(* ===== verification/Belief_Fsm.thy ===== *)
theory Belief_Fsm
  imports Belief_Ranking
begin

text \<open>
  \<open>BeliefFSM\<close> (\<open>internal/ai/belief/fsm.go\<close>): the controller that walks the levels of the
  graph. \<open>gap\<close> indexes its list, so it is an option (\<open>None\<close> is the index panic) and so is
  \<open>Decide\<close>; it is shown never to panic. The recorded history of transitions is shown to
  be a path from the initial state to the current one.
\<close>

record belief_fsm =
  State :: fsm_state
  CurrentLevel :: int
  LevelSteps :: "(int, int) gomap"
  Thresholds :: fsm_thresholds
  History :: "fsm_transition list"
  TotalSteps :: int

definition NewBeliefFSM :: "fsm_thresholds \<Rightarrow> belief_fsm" where
  "NewBeliefFSM thresholds =
     \<lparr>State = StateDrilling, CurrentLevel = 1, LevelSteps = [(1, 0)], Thresholds = thresholds,
      History = [], TotalSteps = 0\<rparr>"

definition IsFinalState :: "belief_fsm \<Rightarrow> bool" where
  "IsFinalState f \<longleftrightarrow> State f = StateDone"

definition TickStep :: "int \<Rightarrow> belief_fsm \<Rightarrow> belief_fsm" where
  "TickStep k f =
     f\<lparr>TotalSteps := TotalSteps f + k,
       LevelSteps := gm_put (CurrentLevel f) (gm_int (LevelSteps f) (CurrentLevel f) + k) (LevelSteps f)\<rparr>"

definition topHypos :: "'h belief_graph \<Rightarrow> int \<Rightarrow> level_node list" where
  "topHypos g level =
     sort_slice levelNodeLess
       (map levelNodeOf (filter (\<lambda>n. active_hypothesis n \<and> n_Level n = level) (map snd (Nodes g))))"

fun gap :: "level_node list \<Rightarrow> f64 option" where
  "gap [] = None"
| "gap [c] = Some (ln_Confidence c)"
| "gap (c # d # cs) = Some (fsub (ln_Confidence c) (ln_Confidence d))"

definition countSupport :: "'h belief_graph \<Rightarrow> string \<Rightarrow> int" where
  "countSupport g nodeID =
     count_if (\<lambda>e. e_Dst e = nodeID \<and> e_Type e = EdgeSupport \<and> e_Status e = StatusActive) (map snd (Edges g))"

definition fsmDecide :: "'h belief_graph \<Rightarrow> belief_fsm \<Rightarrow> fsm_decision option" where
  "fsmDecide g f =
     (if State f = StateDone then Some \<lparr>fd_Action = ''done'', fd_Reason = Txt ''already done''\<rparr>
      else case topHypos g (CurrentLevel f) of
        [] \<Rightarrow> Some \<lparr>fd_Action = ''report'', fd_Reason = Txt ''no candidates''\<rparr>
      | c # cs \<Rightarrow>
          (case gap (c # cs) of
             None \<Rightarrow> None
           | Some gp \<Rightarrow>
               (let sup = countSupport g (ln_NodeID c);
                    steps = gm_int (LevelSteps f) (CurrentLevel f)
                in if gp \<ge> th_GapDelta (Thresholds f) \<and> sup \<ge> th_MinSupport (Thresholds f)
                   then Some \<lparr>fd_Action = ''report'', fd_Reason = Fmt ''gap=%.2f sup=%d'' [AFlt gp, AInt sup]\<rparr>
                   else if steps \<ge> th_MaxSteps (Thresholds f)
                   then Some \<lparr>fd_Action = ''report'', fd_Reason = Fmt ''max steps %d'' [AInt steps]\<rparr>
                   else Some \<lparr>fd_Action = ''continue'', fd_Reason = Txt ''conditions not met''\<rparr>)))"

definition transitionTo :: "fsm_state \<Rightarrow> int \<Rightarrow> int \<Rightarrow> msg \<Rightarrow> belief_fsm \<Rightarrow> belief_fsm" where
  "transitionTo s fromLevel toLevel reason f =
     f\<lparr>History := History f @
         [\<lparr>ft_From = State f, ft_To = s, ft_FromLevel = fromLevel, ft_ToLevel = toLevel,
           ft_Reason = reason, ft_StepID = step_id (TotalSteps f)\<rparr>],
       State := s\<rparr>"

definition TransitionTo :: "fsm_state \<Rightarrow> msg \<Rightarrow> belief_fsm \<Rightarrow> belief_fsm" where
  "TransitionTo s reason f = transitionTo s (CurrentLevel f) (CurrentLevel f) reason f"

definition DrillDown :: "msg \<Rightarrow> belief_fsm \<Rightarrow> belief_fsm" where
  "DrillDown reason f =
     (let fromLevel = CurrentLevel f;
          f1 = f\<lparr>CurrentLevel := fromLevel + 1, LevelSteps := gm_put (fromLevel + 1) 0 (LevelSteps f)\<rparr>
      in transitionTo StateDrilling fromLevel (CurrentLevel f1) reason f1)"

fun stateNumber :: "fsm_state \<Rightarrow> int" where
  "stateNumber StateDrilling = 0"
| "stateNumber StateReporting = 1"
| "stateNumber StateDone = 2"

definition BacktrackTo :: "int \<Rightarrow> msg \<Rightarrow> belief_fsm \<Rightarrow> goerr option \<times> belief_fsm" where
  "BacktrackTo level reason f =
     (if State f \<noteq> StateDrilling
      then (Some (Errorf ''cannot backtrack from state %d'' [AInt (stateNumber (State f))]), f)
      else if level < 1 \<or> level \<ge> CurrentLevel f
      then (Some (Errorf ''backtrack level must be within [1,%d)'' [AInt (CurrentLevel f)]), f)
      else
        (let fromLevel = CurrentLevel f;
             f1 = f\<lparr>CurrentLevel := level,
                    LevelSteps := (if gm_get (LevelSteps f) level = None then gm_put level 0 (LevelSteps f)
                                   else LevelSteps f)\<rparr>
         in (None, transitionTo StateDrilling fromLevel (CurrentLevel f1) reason f1)))"

definition MarkDone :: "msg \<Rightarrow> belief_fsm \<Rightarrow> belief_fsm" where
  "MarkDone reason f = TransitionTo StateDone reason f"

subsection \<open>Runs of the controller\<close>

inductive fsm_reachable :: "fsm_thresholds \<Rightarrow> belief_fsm \<Rightarrow> bool" for th where
  new: "fsm_reachable th (NewBeliefFSM th)"
| tick: "fsm_reachable th f \<Longrightarrow> 0 \<le> k \<Longrightarrow> fsm_reachable th (TickStep k f)"
| transition: "fsm_reachable th f \<Longrightarrow> fsm_reachable th (TransitionTo s r f)"
| drill: "fsm_reachable th f \<Longrightarrow> fsm_reachable th (DrillDown r f)"
| backtrack: "fsm_reachable th f \<Longrightarrow> fsm_reachable th (snd (BacktrackTo l r f))"

lemma MarkDone_reachable: "fsm_reachable th f \<Longrightarrow> fsm_reachable th (MarkDone r f)"
  by (simp add: MarkDone_def fsm_reachable.transition)

text \<open>Following the history from a state and a level: \<open>None\<close> where it does not connect.\<close>

fun follow :: "fsm_state \<times> int \<Rightarrow> fsm_transition list \<Rightarrow> (fsm_state \<times> int) option" where
  "follow p [] = Some p"
| "follow (s, l) (t # ts) =
     (if ft_From t = s \<and> ft_FromLevel t = l then follow (ft_To t, ft_ToLevel t) ts else None)"

lemma follow_snoc:
  "follow p (ts @ [t]) =
     (case follow p ts of None \<Rightarrow> None
      | Some (s, l) \<Rightarrow> if ft_From t = s \<and> ft_FromLevel t = l then Some (ft_To t, ft_ToLevel t) else None)"
  by (induction p ts rule: follow.induct) auto

definition fsm_ok :: "belief_fsm \<Rightarrow> bool" where
  "fsm_ok f \<longleftrightarrow> 1 \<le> CurrentLevel f \<and> follow (StateDrilling, 1) (History f) = Some (State f, CurrentLevel f) \<and>
     gm_get (LevelSteps f) (CurrentLevel f) \<noteq> None \<and> gm_ok (LevelSteps f) \<and>
     (\<forall>l k. gm_get (LevelSteps f) l = Some k \<longrightarrow> 1 \<le> l \<and> 0 \<le> k \<and> k \<le> TotalSteps f)"

lemma fsm_ok_transition:
  assumes "fsm_ok f" shows "fsm_ok (TransitionTo s r f)"
  using assms by (simp add: fsm_ok_def TransitionTo_def transitionTo_def follow_snoc)

lemma fsm_ok_drill: "fsm_ok f \<Longrightarrow> fsm_ok (DrillDown r f)"
  by (auto simp: fsm_ok_def DrillDown_def transitionTo_def follow_snoc gm_get_put Let_def)
     (meson order_trans)+

lemma fsm_ok_tick: "fsm_ok f \<Longrightarrow> 0 \<le> k \<Longrightarrow> fsm_ok (TickStep k f)"
  by (fastforce simp: fsm_ok_def TickStep_def gm_get_put gm_int_def split: option.splits)

lemma fsm_ok_backtrack: "fsm_ok f \<Longrightarrow> fsm_ok (snd (BacktrackTo l r f))"
  by (auto simp: fsm_ok_def BacktrackTo_def transitionTo_def follow_snoc gm_get_put Let_def)
     (meson order_trans)+

lemma fsm_reachable_ok: "fsm_reachable th f \<Longrightarrow> fsm_ok f"
proof (induction rule: fsm_reachable.induct)
  case new
  then show ?case by (simp add: fsm_ok_def NewBeliefFSM_def gm_ok_def)
qed (simp_all add: fsm_ok_tick fsm_ok_transition fsm_ok_drill fsm_ok_backtrack)

subsection \<open>Deciding\<close>

lemma topHypos_ranking: "topHypos g level = map levelNodeOf (sort_slice nodeRankLess (hypothesesAt level g))"
  by (simp add: topHypos_def hypothesesAt_def sort_levelNodeOf [symmetric] comp_def)

lemma countSupport_eq: "countSupport g k = activeEdgesInto EdgeSupport k g"
  unfolding countSupport_def activeEdgesInto_def by (rule arg_cong [where f = "\<lambda>P. count_if P _"]) auto

lemma gap_Some: "cs \<noteq> [] \<Longrightarrow> \<exists>x. gap cs = Some x"
  by (induction cs rule: gap.induct) auto

end
