(* ===== verification/Belief_Properties.thy ===== *)
theory Belief_Properties
  imports Belief_Fsm
begin

text \<open>
  The properties of the belief engine, over every graph the operations can build
  (\<open>reachable\<close>), and a small graph on which the ones with a hypothesis are evaluated.
\<close>

subsection \<open>A graph to evaluate on\<close>

definition demo_rt :: "(node + edge) gort" where
  "demo_rt = \<lparr>rt_fmtv = (\<lambda>_. []), rt_hash_node = Inl, rt_hash_edge = Inr,
     rt_hist_bytes = (\<lambda>ss ds. int (length ss) + int (length ds)), rt_lower = (\<lambda>s. s), rt_fold = (\<lambda>s. s)\<rparr>"

definition demo_policy :: graph_policy where
  "demo_policy = \<lparr>CheckpointInterval = 3, MaxNodes = 5, MaxEdges = 5, MaxDepth = 2, MaxSnapshots = 2, MaxDeltas = 2\<rparr>"

definition demo_nodes :: "(node + edge) belief_graph" where
  "demo_nodes =
     (let g1 = snd (AddSignal demo_rt 1 ''s'' (NewBeliefGraphWithPolicy demo_policy));
          g2 = snd (AddHypothesis demo_rt 2 ''a'' (1/2) 1 ''w'' g1)
      in snd (AddHypothesis demo_rt 3 ''b'' (1/4) 1 ''w'' g2))"

definition demo_graph :: "(node + edge) belief_graph" where
  "demo_graph =
     addEdgeInternal demo_rt 5 ''node-4'' ''node-2'' EdgeSupport (1/2) ''d''
       (snd (AddEvidence demo_rt 4 ''e'' None demo_nodes))"

lemma op_reachable:
  "reachable rt p g \<Longrightarrow> reachable rt p (snd (addNodeInternal rt now t l s lv ats src g))"
  "reachable rt p g \<Longrightarrow> reachable rt p (updateNodeInternal rt now k s w g)"
  "reachable rt p g \<Longrightarrow> reachable rt p (retractNodeInternal rt now k b r g)"
  "reachable rt p g \<Longrightarrow> reachable rt p (addEdgeInternal rt now k k' et c d g)"
  by (blast intro: reachable.operation operation_mutation)+

lemma demo_nodes_reachable: "reachable demo_rt demo_policy demo_nodes"
  unfolding demo_nodes_def Let_def AddSignal_def AddHypothesis_def
  by (intro op_reachable reachable.start)

lemma demo_reachable: "reachable demo_rt demo_policy demo_graph"
  unfolding demo_graph_def AddEvidence_def
  by (intro op_reachable demo_nodes_reachable)

text \<open>The two graphs, evaluated once.\<close>

definition demo_node :: "int \<Rightarrow> node_type \<Rightarrow> string \<Rightarrow> f64 \<Rightarrow> int \<Rightarrow> attrs \<Rightarrow> node" where
  "demo_node j t l s lv ats =
     \<lparr>n_ID = node_id j, n_Type = t, n_Label = l, n_Score = s, n_Status = StatusActive, n_Level = lv,
      n_Attrs = Some ats, n_Source = None, n_RetractedBy = [], n_SupersededBy = [], n_RetractedAt = None,
      n_StepID = step_id j\<rparr>"

definition demo_node_list :: "node list" where
  "demo_node_list =
     [demo_node 1 NodeSignal ''s'' 1 0 [], demo_node 2 NodeHypothesis ''a'' (1/2) 1 [(''why'', VStr ''w'')],
      demo_node 3 NodeHypothesis ''b'' (1/4) 1 [(''why'', VStr ''w'')], demo_node 4 NodeEvidence ''e'' 1 0 []]"

definition demo_edge :: edge where
  "demo_edge = \<lparr>e_Src = ''node-4'', e_Dst = ''node-2'', e_Type = EdgeSupport, e_Status = StatusActive,
     e_Confidence = 1/2, e_DerivationType = ''d'', e_ExtractorVersion = ''v1.0'', e_StepID = ''step-5'',
     e_RetractedBy = [], e_RetractedAt = None\<rparr>"

definition demo_levels :: "(int, level_node list) gomap" where
  "demo_levels = [(1, [\<lparr>ln_NodeID = ''node-2'', ln_Confidence = 1/2\<rparr>, \<lparr>ln_NodeID = ''node-3'', ln_Confidence = 1/4\<rparr>])]"

definition keyed :: "node list \<Rightarrow> (string, node) gomap" where
  "keyed ns = map (\<lambda>n. (n_ID n, n)) ns"

lemma demo_nodes_eq:
  "demo_nodes =
     \<lparr>Nodes = keyed (take 3 demo_node_list), Edges = [], StartSignalID = [], Belief = Txt [],
      LevelNodes = demo_levels,
      Snapshots = [\<lparr>gs_StepID = ''step-1'', gs_Timestamp = 1, gs_Action = ''add_node'',
                    gs_Nodes = keyed (take 1 demo_node_list), gs_Edges = []\<rparr>],
      Deltas = [\<lparr>gd_StepID = ''step-2'', gd_Timestamp = 2, gd_Action = ''add_node'',
                 gd_UpsertNodes = keyed [demo_node_list ! 1], gd_UpsertEdges = []\<rparr>,
                \<lparr>gd_StepID = ''step-3'', gd_Timestamp = 3, gd_Action = ''add_node'',
                 gd_UpsertNodes = keyed [demo_node_list ! 2], gd_UpsertEdges = []\<rparr>],
      CurrentStep = 3, Policy = demo_policy, lastCheckpointStep = 1,
      recordedNodeHashes = map (\<lambda>n. (n_ID n, Inl n)) (take 3 demo_node_list),
      recordedEdgeHashes = [], recordingDisabled = False, limitErr = None\<rparr>"
  by code_simp

lemma demo_graph_eq:
  "demo_graph =
     \<lparr>Nodes = keyed demo_node_list, Edges = [(''node-4->node-2'', demo_edge)], StartSignalID = [],
      Belief = Txt [], LevelNodes = demo_levels,
      Snapshots = [\<lparr>gs_StepID = ''step-1'', gs_Timestamp = 1, gs_Action = ''add_node'',
                    gs_Nodes = keyed (take 1 demo_node_list), gs_Edges = []\<rparr>,
                   \<lparr>gs_StepID = ''step-4'', gs_Timestamp = 4, gs_Action = ''add_node'',
                    gs_Nodes = keyed demo_node_list, gs_Edges = []\<rparr>],
      Deltas = [\<lparr>gd_StepID = ''step-5'', gd_Timestamp = 5, gd_Action = ''add_edge'',
                 gd_UpsertNodes = [], gd_UpsertEdges = [(''node-4->node-2'', demo_edge)]\<rparr>],
      CurrentStep = 5, Policy = demo_policy, lastCheckpointStep = 4,
      recordedNodeHashes = map (\<lambda>n. (n_ID n, Inl n)) demo_node_list,
      recordedEdgeHashes = [(''node-4->node-2'', Inr demo_edge)],
      recordingDisabled = False, limitErr = None\<rparr>"
  unfolding demo_graph_def demo_nodes_eq by code_simp

lemma demo_limit: "limitErr demo_graph = None" "limitErr demo_nodes = None"
  by (simp_all add: demo_graph_eq demo_nodes_eq)

subsection \<open>Ranking\<close>

lemma best_at_scores:
  assumes "graph_wf g" "best_at level g n" "gm_get (Nodes g) k = Some m" "active_hypothesis m" "n_Level m = level"
  shows "n_Score m < n_Score n \<or> n_Score m = n_Score n \<and> n_ID n \<le> n_ID m"
proof -
  have "m \<in> set (hypothesesAt level g)"
    using assms graph_wf_ID [OF assms(1,3)] by (simp add: hypothesesAt_iff)
  then have "m = n \<or> nodeRankLess n m" using assms(2) by (simp add: best_at_def)
  then show ?thesis by (auto simp: nodeRankLess_def split: if_splits)
qed

lemma best_at_unique: "graph_wf g \<Longrightarrow> best_at level g n \<Longrightarrow> best_at level g m \<Longrightarrow> n = m"
  using ranking_best [of g level n] ranking_best [of g level m] by auto

text \<open>C35: in every graph the engine can build, \<open>ExtractFrontier\<close> returns nothing exactly when
  the level has no active hypothesis, and otherwise the active hypothesis of the level with
  the highest score (the smallest ID among equals), with that node's label and score and
  the numbers of active support and refute edges that point at it.\<close>

theorem frontier_is_best:
  assumes "reachable rt p g"
  shows "case extractFrontierInternal rt level g of
      None \<Rightarrow> \<not> (\<exists>k m. gm_get (Nodes g) k = Some m \<and> active_hypothesis m \<and> n_Level m = level)
    | Some f \<Rightarrow> \<exists>n. gm_get (Nodes g) (f_NodeID f) = Some n \<and> active_hypothesis n \<and> n_Level n = level \<and>
        f_Label f = n_Label n \<and> f_Score f = n_Score n \<and> f_Level f = level \<and>
        (\<forall>k m. gm_get (Nodes g) k = Some m \<and> active_hypothesis m \<and> n_Level m = level \<longrightarrow>
           n_Score m < n_Score n \<or> n_Score m = n_Score n \<and> n_ID n \<le> n_ID m) \<and>
        f_Supports f = count_if (\<lambda>e. e_Dst e = n_ID n \<and> e_Status e = StatusActive \<and> e_Type e = EdgeSupport) (map snd (Edges g)) \<and>
        f_Refutes f = count_if (\<lambda>e. e_Dst e = n_ID n \<and> e_Status e = StatusActive \<and> e_Type e = EdgeRefute) (map snd (Edges g))"
proof (cases "extractFrontierInternal rt level g")
  case None
  then have "hypothesesAt level g = []" by (simp add: extractFrontier_None)
  then have "\<not> (gm_get (Nodes g) k = Some m \<and> active_hypothesis m \<and> n_Level m = level)" for k m
    using hypothesesAt_iff [OF reachable_wf [OF assms], of m level] graph_wf_ID [OF reachable_wf [OF assms]]
    by auto
  with None show ?thesis by simp
next
  case (Some f)
  have wf: "graph_wf g" by (rule reachable_wf [OF assms])
  obtain n where best: "best_at level g n"
    and f: "f = \<lparr>f_NodeID = n_ID n, f_Label = n_Label n, f_Why = safeWhy rt (n_Attrs n), f_Score = n_Score n,
            f_Level = n_Level n, f_Supports = activeEdgesInto EdgeSupport (n_ID n) g,
            f_Refutes = activeEdgesInto EdgeRefute (n_ID n) g\<rparr>"
    using Some extractFrontier_Some [OF wf] by blast
  note n = best_atD [OF wf best]
  show ?thesis
    using Some n f best_at_scores [OF wf best] by (auto simp: activeEdgesInto_def)
qed

theorem frontier_is_best_witness:
  "\<exists>n. gm_get (Nodes demo_graph) ''node-2'' = Some n \<and> active_hypothesis n \<and> n_Level n = 1"
proof -
  have "map_option f_NodeID (extractFrontierInternal demo_rt 1 demo_graph) = Some ''node-2''" unfolding demo_graph_eq by code_simp
  with frontier_is_best [OF demo_reachable, of 1] show ?thesis by (auto split: option.splits)
qed

text \<open>Go visits a map in a random order, and the frontier does not depend on it: two graphs
  with the same entries in any order have the same frontier.\<close>

theorem frontier_map_order:
  assumes "reachable rt p g" "mset (Nodes g') = mset (Nodes g)" "mset (Edges g') = mset (Edges g)"
  shows "extractFrontierInternal rt level g' = extractFrontierInternal rt level g"
  using ranking_perm [OF reachable_wf [OF assms(1)] assms(2) [symmetric], of level]
    activeEdgesInto_perm [OF assms(3)]
  by (simp add: extractFrontierInternal_def split: list.splits)

theorem frontier_map_order_witness:
  "extractFrontierInternal demo_rt 1 (demo_graph\<lparr>Nodes := rev (Nodes demo_graph), Edges := rev (Edges demo_graph)\<rparr>) =
   extractFrontierInternal demo_rt 1 demo_graph"
  by (rule frontier_map_order [OF demo_reachable]) simp_all

text \<open>the cached level lists agree with the direct scan: \<open>IsHighestConfInLevel\<close> holds of a
  node exactly when the frontier of that node's level is the node.\<close>

theorem highest_is_frontier:
  assumes "reachable rt p g" "gm_get (Nodes g) k = Some n"
  shows "IsHighestConfInLevel k g \<longleftrightarrow>
    (\<exists>f. extractFrontierInternal rt (n_Level n) g = Some f \<and> f_NodeID f = k)"
proof -
  have wf: "graph_wf g" by (rule reachable_wf [OF assms(1)])
  have lv: "n_Level m = n_Level n" if "best_at l g m" "n_ID m = k" for m l
    using best_atD [OF wf that(1)] that(2) assms(2) by simp
  show ?thesis
    unfolding IsHighest_best [OF wf reachable_levels [OF assms(1)]] extractFrontier_Some [OF wf]
    using lv by fastforce
qed

theorem highest_is_frontier_witness:
  "IsHighestConfInLevel ''node-2'' demo_graph \<longleftrightarrow>
    (\<exists>f. extractFrontierInternal demo_rt 1 demo_graph = Some f \<and> f_NodeID f = ''node-2'')"
proof -
  obtain n where "gm_get (Nodes demo_graph) ''node-2'' = Some n \<and> n_Level n = 1"
  proof -
    have "map_option n_Level (gm_get (Nodes demo_graph) ''node-2'') = Some 1" unfolding demo_graph_eq by code_simp
    then show ?thesis using that by auto
  qed
  with highest_is_frontier [OF demo_reachable, of "''node-2''" n] show ?thesis by simp
qed

subsection \<open>Well-formedness, limits and history\<close>

text \<open>every graph the operations and the copy-on-write updates can build keeps each node
  under its own ID, which names a step already taken, and each edge under the key of two
  existing nodes, and it never exceeds the limits of its normalised policy.\<close>

theorem graphs_well_formed:
  assumes "reachable rt p g"
  shows "(\<forall>k n. gm_get (Nodes g) k = Some n \<longrightarrow>
            n_ID n = k \<and> n_Level n \<le> MaxDepth (Policy g) \<and> (\<exists>j. 1 \<le> j \<and> j \<le> CurrentStep g \<and> k = node_id j)) \<and>
    (\<forall>k e. gm_get (Edges g) k = Some e \<longrightarrow>
       k = edgeKey (e_Src e) (e_Dst e) \<and> HasNode (e_Src e) g \<and> HasNode (e_Dst e) g) \<and>
    distinct (map fst (Nodes g)) \<and> distinct (map fst (Edges g)) \<and>
    Policy g = normalizeGraphPolicy p \<and>
    int (length (Nodes g)) \<le> MaxNodes (Policy g) \<and> int (length (Edges g)) \<le> MaxEdges (Policy g) \<and>
    int (length (Snapshots g)) \<le> MaxSnapshots (Policy g) \<and> int (length (Deltas g)) \<le> MaxDeltas (Policy g)"
proof -
  have lim: "within_limits g" by (rule reachable_limits [OF assms])
  show ?thesis
    using reachable_wf [OF assms] reachable_policy [OF assms] lim
    unfolding graph_wf_def within_limits_def gm_ok_def HasNode_def by meson
qed

theorem graphs_well_formed_witness:
  "int (length (Nodes demo_graph)) \<le> MaxNodes (Policy demo_graph) \<and> distinct (map fst (Nodes demo_graph))"
  using graphs_well_formed [OF demo_reachable] by blast

text \<open>C16: the recorded history is faithful. While no limit has been hit, laying the deltas in
  order over the last snapshot has the digest of every live node and edge, and where the
  digest is injective it gives back the live graph itself.\<close>

theorem history_replays:
  assumes "reachable rt p g" "limitErr g = None" "Snapshots g \<noteq> []"
  shows "same_digest (rt_hash_node rt) (replayNodes g) (gm_get (Nodes g)) \<and>
    same_digest (rt_hash_edge rt) (replayEdges g) (gm_get (Edges g)) \<and>
    (inj (rt_hash_node rt) \<longrightarrow> replayNodes g = gm_get (Nodes g)) \<and>
    (inj (rt_hash_edge rt) \<longrightarrow> replayEdges g = gm_get (Edges g))"
  using reachable_history [OF assms(1,2)] assms(3) by (auto simp: history_ok_def dest: same_digest_inj)

theorem history_replays_witness:
  "replayNodes demo_graph = gm_get (Nodes demo_graph) \<and> replayEdges demo_graph = gm_get (Edges demo_graph)"
proof -
  have "Snapshots demo_graph \<noteq> []" by (simp add: demo_graph_eq)
  then have "(inj (rt_hash_node demo_rt) \<longrightarrow> replayNodes demo_graph = gm_get (Nodes demo_graph)) \<and>
      (inj (rt_hash_edge demo_rt) \<longrightarrow> replayEdges demo_graph = gm_get (Edges demo_graph))"
    using history_replays [OF demo_reachable demo_limit(1)] by blast
  then show ?thesis by (simp add: demo_rt_def inj_def)
qed

text \<open>\<open>AddNode\<close> answers the empty ID exactly when it refuses, and then it changes neither
  nodes nor edges and leaves the limit error; otherwise the ID is new, the node is stored
  active under it with the arguments given, everything else stays, and the change is
  recorded without a limit error.\<close>

theorem add_node_result:
  assumes "reachable rt p g" "addNodeInternal rt now t label score level ats src g = (k, g')"
  shows "if k = [] then Nodes g' = Nodes g \<and> Edges g' = Edges g \<and> CurrentStep g' = CurrentStep g \<and> limitErr g' \<noteq> None
    else \<not> HasNode k g \<and> Edges g' = Edges g \<and> CurrentStep g' = CurrentStep g + 1 \<and> limitErr g' = None \<and>
      (\<exists>n. gm_get (Nodes g') = (gm_get (Nodes g))(k \<mapsto> n) \<and> n_ID n = k \<and> n_Type n = t \<and> n_Label n = label \<and>
         n_Score n = score \<and> n_Level n = level \<and> n_Status n = StatusActive \<and> n_Source n = src)"
proof (cases "limitErr g = None \<and> \<not> int (length (Nodes g)) + 1 > MaxNodes (Policy g) \<and>
    \<not> level > MaxDepth (Policy g) \<and> ready g")
  case True
  then have k: "k = node_id (CurrentStep g + 1)"
    using assms(2) by (simp add: addNodeInternal_def prepare_cases Let_def)
  have fresh: "gm_get (Nodes g) k = None"
    unfolding k by (rule node_id_fresh [OF reachable_wf [OF assms(1)]]) simp
  have live: "\<not> recordingDisabled g" using reachable_policy [OF assms(1)] by simp
  have "limitErr g' = None"
    using True assms(2) ready_recorded [of g _ rt now "''add_node''", OF _ live]
    by (auto simp: addNodeInternal_def prepare_cases Let_def)
  then show ?thesis
    using True assms(2) fresh k
    by (auto simp: addNodeInternal_def prepare_cases Let_def HasNode_def gm_get_put)
next
  case False
  then show ?thesis
    using assms(2)
    by (cases "limitErr g")
      (auto simp: addNodeInternal_def prepare_cases ready_def Let_def split: if_splits)
qed

theorem add_node_result_witness:
  "\<exists>k g'. addNodeInternal demo_rt 9 NodeSignal ''x'' 1 0 None None demo_graph = (k, g') \<and> k = ''node-6'' \<and>
     \<not> HasNode k demo_graph \<and> limitErr g' = None"
proof -
  obtain k g' where r: "addNodeInternal demo_rt 9 NodeSignal ''x'' 1 0 None None demo_graph = (k, g')"
    by (cases "addNodeInternal demo_rt 9 NodeSignal ''x'' 1 0 None None demo_graph")
  have "fst (addNodeInternal demo_rt 9 NodeSignal ''x'' 1 0 None None demo_graph) = ''node-6''" unfolding demo_graph_eq by code_simp
  then have k: "k = ''node-6''" using r by simp
  with add_node_result [OF demo_reachable r] r show ?thesis by auto
qed

lemma retractEdge_active [simp]:
  "e_Status (retractEdge k b t e) = StatusActive \<longleftrightarrow> e_Status e = StatusActive \<and> e_Src e \<noteq> k \<and> e_Dst e \<noteq> k"
  by (simp add: retractEdge_def)

lemma retractEdge_other [simp]: "e_Src e \<noteq> k \<Longrightarrow> e_Dst e \<noteq> k \<Longrightarrow> retractEdge k b t e = e"
  by (simp add: retractEdge_def)

text \<open>C33: after \<open>RetractNode\<close> of a node, when the retraction was not refused, the node is
  retracted, no active edge starts or ends at it, every edge elsewhere is as it was, and
  the node no longer is the frontier of its level.\<close>

theorem retract_isolates:
  assumes "reachable rt p g" "gm_get (Nodes g) k = Some n"
    and "g' = retractNodeInternal rt now k who reason g" "limitErr g' = None"
  shows "(\<exists>n'. gm_get (Nodes g') k = Some n' \<and> n_Status n' = StatusRetracted) \<and>
    (\<forall>ek e. gm_get (Edges g') ek = Some e \<and> e_Status e = StatusActive \<longrightarrow> e_Src e \<noteq> k \<and> e_Dst e \<noteq> k) \<and>
    (\<forall>ek e. gm_get (Edges g) ek = Some e \<and> e_Src e \<noteq> k \<and> e_Dst e \<noteq> k \<longrightarrow> gm_get (Edges g') ek = Some e) \<and>
    (\<forall>k'. k' \<noteq> k \<longrightarrow> gm_get (Nodes g') k' = gm_get (Nodes g) k') \<and>
    \<not> IsHighestConfInLevel k g'"
proof -
  have "ready g"
    using assms(2-4) by (auto simp: retractNodeInternal_def prepare_cases ready_def split: if_splits)
  then have N: "gm_get (Nodes g') = (gm_get (Nodes g))(k \<mapsto> setAttr ''retract_reason'' (VMsg reason)
        (n\<lparr>n_Status := StatusRetracted, n_RetractedBy := who, n_RetractedAt := Some now\<rparr>))"
    and E: "gm_get (Edges g') = (\<lambda>ek. map_option (retractEdge k who now) (gm_get (Edges g) ek))"
    using assms(2,3) by (simp_all add: retractNodeInternal_def prepare_cases Let_def gm_get_put gm_get_map fun_eq_iff)
  then show ?thesis
    by (auto simp: IsHighest_iff)
qed

theorem retract_isolates_witness:
  "\<not> IsHighestConfInLevel ''node-2'' (retractNodeInternal demo_rt 9 ''node-2'' ''u'' (Txt ''r'') demo_graph)"
proof -
  have "\<exists>n. gm_get (Nodes demo_graph) ''node-2'' = Some n"
  proof -
    have "gm_get (Nodes demo_graph) ''node-2'' \<noteq> None" unfolding demo_graph_eq by code_simp
    then show ?thesis by auto
  qed
  then obtain n where n: "gm_get (Nodes demo_graph) ''node-2'' = Some n" ..
  have "limitErr (retractNodeInternal demo_rt 9 ''node-2'' ''u'' (Txt ''r'') demo_graph) = None" unfolding demo_graph_eq by code_simp
  from retract_isolates [OF demo_reachable n refl this] show ?thesis by blast
qed

subsection \<open>Copy-on-write updates and the step counter\<close>

lemma mutations_step: "(mutation rt)\<^sup>*\<^sup>* g h \<Longrightarrow> CurrentStep g \<le> CurrentStep h"
  by (induction rule: rtranclp.induct) (auto dest: mutation_step)

lemma mutations_same_step:
  "(mutation rt)\<^sup>*\<^sup>* g h \<Longrightarrow> CurrentStep h = CurrentStep g \<Longrightarrow> Nodes h = Nodes g \<and> Edges h = Edges g"
proof (induction rule: rtranclp.induct)
  case (rtrancl_refl g)
  then show ?case by simp
next
  case (rtrancl_into_rtrancl g h k)
  then have "CurrentStep h = CurrentStep g"
    using mutations_step [OF rtrancl_into_rtrancl.hyps(1)] mutation_step [OF rtrancl_into_rtrancl.hyps(2)] by simp
  with rtrancl_into_rtrancl show ?case using mutation_same_step by metis
qed

text \<open>C4: no direct operation is lost to a copy-on-write update. Whatever sequence of operations
  ran between the copy and the commit, a commit that reports success happens only when none
  of them wrote a node or an edge, and it installs exactly the copy.\<close>

theorem cow_no_lost_update:
  assumes "(mutation rt)\<^sup>*\<^sup>* g h" "Committed (fst (cowCommit rt now (CurrentStep g) cp h))"
  shows "Nodes h = Nodes g \<and> Edges h = Edges g \<and>
    Nodes (snd (cowCommit rt now (CurrentStep g) cp h)) = Nodes cp \<and>
    Edges (snd (cowCommit rt now (CurrentStep g) cp h)) = Edges cp \<and>
    limitErr (snd (cowCommit rt now (CurrentStep g) cp h)) = None"
  using mutations_same_step [OF assms(1)] assms(2)
  by (simp add: cowCommit_committed cowCommit_cases) (simp add: cowApplied_def)

theorem cow_no_lost_update_witness:
  "limitErr (snd (cowCommit demo_rt 9 (CurrentStep demo_graph)
     (snd (AddSignal demo_rt 9 ''x'' (deepCopy demo_graph))) demo_graph)) = None"
proof -
  have "Committed (fst (cowCommit demo_rt 9 (CurrentStep demo_graph)
     (snd (AddSignal demo_rt 9 ''x'' (deepCopy demo_graph))) demo_graph))" unfolding demo_graph_eq by code_simp
  from cow_no_lost_update [OF rtranclp.rtrancl_refl this] show ?thesis by blast
qed

text \<open>an update whose callback returns an error, hits a limit in its copy, or leaves a copy
  outside the policy is refused with that error and the graph is untouched.\<close>

theorem cow_failure_untouched:
  assumes "fn (deepCopy g) = (r, cp)"
    and "r \<noteq> None \<or> limitErr cp \<noteq> None \<or> validateResourceLimitsInternal rt cp \<noteq> None"
  shows "\<exists>err. UpdateCopyOnWrite rt now fn g = (\<lparr>Committed = False, upd_Error = Some err\<rparr>, g) \<and>
    (r = Some err \<or> r = None \<and> (limitErr cp = Some err \<or>
       limitErr cp = None \<and> validateResourceLimitsInternal rt cp = Some err))"
  using assms by (auto simp: UpdateCopyOnWrite_def cowCheck_def refused_def Let_def split: option.splits)

theorem cow_failure_untouched_witness:
  "\<exists>err. UpdateCopyOnWrite demo_rt 9 (\<lambda>cp. (Some (Errorf ''x'' []), cp)) demo_graph =
     (\<lparr>Committed = False, upd_Error = Some err\<rparr>, demo_graph)"
  using cow_failure_untouched [of "\<lambda>cp. (Some (Errorf ''x'' []), cp)" demo_graph "Some (Errorf ''x'' [])"
      "deepCopy demo_graph" demo_rt 9] by auto

text \<open>A callback that writes through a pointer of the copy and takes no step.\<close>

definition write_through :: "'h belief_graph \<Rightarrow> goerr option \<times> 'h belief_graph" where
  "write_through cp =
     (None, case gm_get (Nodes cp) ''node-1'' of
              None \<Rightarrow> cp
            | Some n \<Rightarrow> cp\<lparr>Nodes := gm_put ''node-1'' (n\<lparr>n_Label := ''z''\<rparr>) (Nodes cp)\<rparr>)"

text \<open>a copy-on-write update is not atomic when the recording itself hits a limit. The
  preflight is skipped when the callback takes no step, so with the deltas full such an
  update is reported as refused although its nodes have replaced the graph's.\<close>

theorem cow_refused_but_applied:
  "\<exists>(g :: (node + edge) belief_graph) g'. reachable demo_rt demo_policy g \<and> limitErr g = None \<and>
     UpdateCopyOnWrite demo_rt 9 write_through g =
       (refused (GraphResourceLimitError ''deltas'' 2 3), g') \<and>
     map_option n_Label (gm_get (Nodes g) ''node-1'') = Some ''s'' \<and>
     map_option n_Label (gm_get (Nodes g') ''node-1'') = Some ''z''"
proof (intro exI conjI)
  show "reachable demo_rt demo_policy demo_nodes" by (rule demo_nodes_reachable)
  show "limitErr demo_nodes = None" by (rule demo_limit)
  show "UpdateCopyOnWrite demo_rt 9 write_through demo_nodes =
      (refused (GraphResourceLimitError ''deltas'' 2 3), snd (UpdateCopyOnWrite demo_rt 9 write_through demo_nodes))"
    by (intro prod_eqI) (simp_all add: demo_nodes_eq, code_simp)
  show "map_option n_Label (gm_get (Nodes demo_nodes) ''node-1'') = Some ''s''" unfolding demo_nodes_eq by code_simp
  show "map_option n_Label (gm_get (Nodes (snd (UpdateCopyOnWrite demo_rt 9 write_through demo_nodes))) ''node-1'') =
      Some ''z''" unfolding demo_nodes_eq by code_simp
qed

text \<open>The budget of a graph that only direct operations change: checkpoints fall due every
  \<open>CheckpointInterval\<close> steps and their number is bounded.\<close>

definition step_budget :: "'h belief_graph \<Rightarrow> bool" where
  "step_budget g \<longleftrightarrow> within_limits g \<and> \<not> recordingDisabled g \<and>
     (if Snapshots g = [] then CurrentStep g = 0 \<and> lastCheckpointStep g = 0
      else lastCheckpointStep g = 1 + (int (length (Snapshots g)) - 1) * CheckpointInterval (Policy g) \<and>
        lastCheckpointStep g \<le> CurrentStep g \<and> CurrentStep g < lastCheckpointStep g + CheckpointInterval (Policy g))"

lemma step_budget_cap:
  "step_budget g \<Longrightarrow> CurrentStep g \<le> MaxSnapshots (Policy g) * CheckpointInterval (Policy g)"
proof -
  assume b: "step_budget g"
  then have p: "0 < CheckpointInterval (Policy g)" "int (length (Snapshots g)) \<le> MaxSnapshots (Policy g)"
      "0 < MaxSnapshots (Policy g)"
    by (auto simp: step_budget_def within_limits_def policy_ok_def)
  have "int (length (Snapshots g)) * CheckpointInterval (Policy g) \<le> MaxSnapshots (Policy g) * CheckpointInterval (Policy g)"
    using p by (intro mult_right_mono) auto
  moreover have "lastCheckpointStep g + CheckpointInterval (Policy g) =
      1 + int (length (Snapshots g)) * CheckpointInterval (Policy g)" if "Snapshots g \<noteq> []"
    using b that by (simp add: step_budget_def left_diff_distrib)
  moreover have "0 \<le> MaxSnapshots (Policy g) * CheckpointInterval (Policy g)"
    using p by simp
  ultimately show ?thesis
    using b unfolding step_budget_def by (cases "Snapshots g = []"; simp; linarith)
qed

lemma step_budget_started: "step_budget g \<Longrightarrow> Snapshots g \<noteq> [] \<Longrightarrow> 1 \<le> lastCheckpointStep g"
proof -
  assume b: "step_budget g" and "Snapshots g \<noteq> []"
  then have "0 \<le> (int (length (Snapshots g)) - 1) * CheckpointInterval (Policy g)"
    by (intro mult_nonneg_nonneg) (auto simp: step_budget_def within_limits_def policy_ok_def Suc_le_eq)
  with b \<open>Snapshots g \<noteq> []\<close> show ?thesis by (simp add: step_budget_def)
qed

lemma step_budget_record:
  assumes b: "step_budget g" and r: "ready g" and w: "within_limits (recordMutationInternal rt now a g')"
    and same: "CurrentStep g' = CurrentStep g + 1" "Policy g' = Policy g" "Snapshots g' = Snapshots g"
      "Deltas g' = Deltas g" "lastCheckpointStep g' = lastCheckpointStep g"
      "recordingDisabled g' = recordingDisabled g" "limitErr g' = limitErr g"
  shows "step_budget (recordMutationInternal rt now a g')"
proof -
  have p: "0 < CheckpointInterval (Policy g)"
    using b by (auto simp: step_budget_def within_limits_def policy_ok_def)
  have live: "\<not> recordingDisabled g" "limitErr g = None"
    using b r by (auto simp: step_budget_def ready_def)
  have due: "checkpointDue g' (CurrentStep g') \<longleftrightarrow>
      Snapshots g = [] \<or> CurrentStep g + 1 = lastCheckpointStep g + CheckpointInterval (Policy g)"
  proof (cases "Snapshots g = []")
    case True
    with b same show ?thesis by (simp add: step_budget_def checkpointDue_def)
  next
    case False
    then have "1 \<le> lastCheckpointStep g" "CurrentStep g < lastCheckpointStep g + CheckpointInterval (Policy g)"
      using b step_budget_started [OF b] by (simp_all add: step_budget_def)
    with False same show ?thesis unfolding checkpointDue_def by auto
  qed
  have cap: "lastCheckpointStep g + CheckpointInterval (Policy g) =
      1 + int (length (Snapshots g)) * CheckpointInterval (Policy g)" if "Snapshots g \<noteq> []"
    using b that by (simp add: step_budget_def left_diff_distrib)
  have "limitErr (recordMutationInternal rt now a g') = None"
    using ready_recorded [OF r live(1) same] .
  then have "(if checkpointDue g' (CurrentStep g')
      then recordMutationInternal rt now a g' = takeSnapshotInternal rt now a g'
      else Snapshots (recordMutationInternal rt now a g') = Snapshots g \<and>
        lastCheckpointStep (recordMutationInternal rt now a g') = lastCheckpointStep g)"
    using live same by (auto simp: recordMutationInternal_def refreshRecordedHashesInternal_def Let_def split: if_splits)
  then show ?thesis
    using b p w same live due cap
    by (cases "Snapshots g = []")
      (auto simp: step_budget_def takeSnapshotInternal_def refreshRecordedHashesInternal_def Let_def split: if_splits)
qed

lemma step_budget_mutation: "mutation rt g g' \<Longrightarrow> step_budget g \<Longrightarrow> step_budget g'"
proof -
  assume m: "mutation rt g g'" and b: "step_budget g"
  then have w: "within_limits g'" using mutation_limits by (auto simp: step_budget_def)
  from m b w show ?thesis
  proof (induction rule: mutation.induct)
    case (node_new g n now a)
    then show ?case by (intro step_budget_record [of g]) auto
  next
    case (node_write g k n n' f now a)
    then show ?case by (intro step_budget_record [of g]) auto
  next
    case (edge_put g e now a)
    then show ?case by (intro step_budget_record [of g]) auto
  qed (auto simp: step_budget_def)
qed

text \<open>under direct operations a graph takes at most \<open>MaxSnapshots * CheckpointInterval\<close>
  steps (320 with the default policy): the steps of a graph are bounded by its history.\<close>

theorem direct_step_cap:
  assumes "(mutation rt)\<^sup>*\<^sup>* (NewBeliefGraphWithPolicy p) g"
  shows "CurrentStep g \<le> MaxSnapshots (normalizeGraphPolicy p) * CheckpointInterval (normalizeGraphPolicy p)"
proof -
  have "step_budget g \<and> Policy g = normalizeGraphPolicy p"
    using assms
  proof (induction rule: rtranclp_induct)
    case base
    then show ?case
      using within_limits_new [of p] by (simp add: step_budget_def NewBeliefGraphWithPolicy_def)
  next
    case (step g h)
    then show ?case by (auto simp: step_budget_mutation mutation_policy)
  qed
  then show ?thesis using step_budget_cap [of g] by simp
qed

theorem direct_step_cap_witness:
  "CurrentStep (snd (AddSignal demo_rt 1 ''s'' (NewBeliefGraphWithPolicy demo_policy))) \<le> 6"
proof -
  have "(mutation demo_rt)\<^sup>*\<^sup>* (NewBeliefGraphWithPolicy demo_policy)
      (snd (AddSignal demo_rt 1 ''s'' (NewBeliefGraphWithPolicy demo_policy)))"
    unfolding AddSignal_def by (intro r_into_rtranclp addNode_mutation)
  from direct_step_cap [OF this] show ?thesis
    by (simp add: demo_policy_def normalizeGraphPolicy_def)
qed

subsection \<open>The controller\<close>

text \<open>the transition history of the controller is a path from drilling at level 1 to its
  present state and level, the level is at least 1, and every level it keeps a step count
  for is at least 1 with a count between 0 and the total.\<close>

theorem fsm_history_is_path:
  assumes "fsm_reachable th f"
  shows "follow (StateDrilling, 1) (History f) = Some (State f, CurrentLevel f) \<and> 1 \<le> CurrentLevel f \<and>
    (\<forall>l k. gm_get (LevelSteps f) l = Some k \<longrightarrow> 1 \<le> l \<and> 0 \<le> k \<and> k \<le> TotalSteps f)"
  using fsm_reachable_ok [OF assms] by (auto simp: fsm_ok_def)

definition demo_thresholds :: fsm_thresholds where
  "demo_thresholds = \<lparr>th_GapDelta = 1/4, th_MinSupport = 1, th_MaxSteps = 3\<rparr>"

definition demo_fsm :: belief_fsm where
  "demo_fsm = DrillDown (Txt ''x'') (TickStep 2 (NewBeliefFSM demo_thresholds))"

lemma demo_fsm_reachable: "fsm_reachable demo_thresholds demo_fsm"
  unfolding demo_fsm_def by (intro fsm_reachable.intros) simp

theorem fsm_history_is_path_witness:
  "follow (StateDrilling, 1) (History demo_fsm) = Some (StateDrilling, 2)"
proof -
  have "State demo_fsm = StateDrilling \<and> CurrentLevel demo_fsm = 2" by code_simp
  with fsm_history_is_path [OF demo_fsm_reachable] show ?thesis by simp
qed

text \<open>The lead of the best hypothesis over the next one of its level (its score when there is
  no other).\<close>

definition lead :: "node list \<Rightarrow> f64" where
  "lead ns = (case ns of n # m # _ \<Rightarrow> fsub (n_Score n) (n_Score m) | [n] \<Rightarrow> n_Score n | [] \<Rightarrow> 0)"

lemma gap_lead: "ns \<noteq> [] \<Longrightarrow> gap (map levelNodeOf ns) = Some (lead ns)"
proof (cases ns)
  case (Cons n ms)
  then show ?thesis by (cases ms) (auto simp: lead_def levelNodeOf_def)
qed simp

text \<open>\<open>Decide\<close> never runs off its candidate list. Before the controller is done it says
  "report" when the current level has no frontier, when the frontier leads by the threshold
  and has the support it needs, or when the level's steps are used up, and "continue"
  otherwise.\<close>

theorem fsm_decide_spec:
  assumes "reachable rt p g" "State f \<noteq> StateDone"
  shows "\<exists>d. fsmDecide g f = Some d \<and>
    fd_Action d =
      (case extractFrontierInternal rt (CurrentLevel f) g of
         None \<Rightarrow> ''report''
       | Some fr \<Rightarrow>
           if lead (GetActiveHypothesisCopies (CurrentLevel f) g) \<ge> th_GapDelta (Thresholds f) \<and>
              f_Supports fr \<ge> th_MinSupport (Thresholds f)
           then ''report''
           else if gm_int (LevelSteps f) (CurrentLevel f) \<ge> th_MaxSteps (Thresholds f)
           then ''report'' else ''continue'')"
proof (cases "sort_slice nodeRankLess (hypothesesAt (CurrentLevel f) g)")
  case Nil
  then show ?thesis
    using assms by (simp add: fsmDecide_def topHypos_ranking extractFrontierInternal_def)
next
  case (Cons n ns)
  have "gap (levelNodeOf n # map levelNodeOf ns) = Some (lead (n # ns))"
    using gap_lead [of "n # ns"] by simp
  with Cons show ?thesis
    using assms by (simp add: fsmDecide_def topHypos_ranking extractFrontierInternal_def
        GetActiveHypothesisCopies_def countSupport_eq Let_def levelNodeOf_def)
qed

theorem fsm_decide_spec_witness:
  "\<exists>d. fsmDecide demo_graph (NewBeliefFSM demo_thresholds) = Some d \<and> fd_Action d = ''report''"
proof -
  have "State (NewBeliefFSM demo_thresholds) \<noteq> StateDone" by (simp add: NewBeliefFSM_def)
  note fsm_decide_spec [OF demo_reachable this]
  moreover have "map_option fd_Action (fsmDecide demo_graph (NewBeliefFSM demo_thresholds)) = Some ''report''"
    unfolding demo_graph_eq by code_simp
  ultimately show ?thesis by auto
qed

text \<open>\<open>BacktrackTo\<close> succeeds exactly when the controller is drilling and the level lies
  below the current one and at least at 1; then the level becomes the current one with the
  step count it had before, and otherwise nothing changes.\<close>

theorem fsm_backtrack:
  "(case BacktrackTo level reason f of
      (None, f') \<Rightarrow> State f = StateDrilling \<and> 1 \<le> level \<and> level < CurrentLevel f \<and> State f' = StateDrilling \<and>
        CurrentLevel f' = level \<and> gm_int (LevelSteps f') level = gm_int (LevelSteps f) level \<and>
        length (History f') = length (History f) + 1
    | (Some err, f') \<Rightarrow> f' = f \<and> \<not> (State f = StateDrilling \<and> 1 \<le> level \<and> level < CurrentLevel f))"
  by (auto simp: BacktrackTo_def transitionTo_def gm_int_def Let_def)

lemma nat_digits_no_gt: "CHR 0x3E \<notin> set (nat_digits n)"
proof (induction n rule: nat_digits.induct)
  case (1 n)
  have no: "CHR 0x3E \<noteq> digit_char d" if "d < 10" for d
  proof
    assume "CHR 0x3E = digit_char d"
    then have "(of_char (digit_char d) :: nat) = of_char (CHR 0x3E)" by simp
    with that show False by (simp add: digit_char_def)
  qed
  show ?case
    using 1 no [of n] no [of "n mod 10"] by (cases "n < 10") (simp_all add: nat_digits.simps [of n])
qed

lemma edgeKey_source:
  "takeWhile (\<lambda>ch. ch \<noteq> CHR 0x3E) (edgeKey (node_id j) k) = node_id j @ [CHR 0x2D]"
proof -
  have "edgeKey (node_id j) k = (node_id j @ [CHR 0x2D]) @ CHR 0x3E # k"
    by (simp add: edgeKey_def)
  moreover have "ch \<noteq> CHR 0x3E" if "ch \<in> set (node_id j @ [CHR 0x2D])" for ch
    using that nat_digits_no_gt by (auto simp: node_id_def itoa_def split: if_splits)
  ultimately show ?thesis by (simp only: takeWhile_append2) simp
qed

text \<open>two edges between different pairs of nodes never share a key: the key of an edge
  between generated IDs determines both ends.\<close>

theorem edge_key_injective:
  "edgeKey (node_id a) (node_id b) = edgeKey (node_id c) (node_id d) \<longleftrightarrow> a = c \<and> b = d"
proof
  assume eq: "edgeKey (node_id a) (node_id b) = edgeKey (node_id c) (node_id d)"
  then have "node_id a @ [CHR 0x2D] = node_id c @ [CHR 0x2D]" using edgeKey_source by metis
  then have "a = c" by simp
  with eq show "a = c \<and> b = d" by (simp add: edgeKey_def)
qed simp

end
