(* ===== verification/Gos_Text.thy ===== *)
theory Gos_Text
  imports Go_Strings
begin

text \<open>
  The Chinese text of the engine (labels of hypotheses, reasons, gaps and actions), as the
  UTF-8 bytes of the source's literals.
\<close>

definition t_resource_exhausted :: string where \<comment> \<open>resource exhaustion\<close>
  "t_resource_exhausted =
     [CHR 0xE8, CHR 0xB5, CHR 0x84, CHR 0xE6, CHR 0xBA, CHR 0x90, CHR 0xE8, CHR 0x80, CHR 0x97, CHR
      0xE5, CHR 0xB0, CHR 0xBD]"

definition t_cpu_saturation :: string where \<comment> \<open>CPU saturation\<close>
  "t_cpu_saturation =
     ''CPU '' @ [CHR 0xE9, CHR 0xA5, CHR 0xB1, CHR 0xE5, CHR 0x92, CHR 0x8C]"

definition t_cpu_why :: string where \<comment> \<open>check CPU usage, load and throttling\<close>
  "t_cpu_why =
     [CHR 0xE9, CHR 0xAA, CHR 0x8C, CHR 0xE8, CHR 0xAF, CHR 0x81] @ '' CPU '' @ [CHR 0xE4, CHR 0xBD,
      CHR 0xBF, CHR 0xE7, CHR 0x94, CHR 0xA8, CHR 0xE7, CHR 0x8E, CHR 0x87, CHR 0xE3, CHR 0x80, CHR
      0x81, CHR 0xE8, CHR 0xB4, CHR 0x9F, CHR 0xE8, CHR 0xBD, CHR 0xBD, CHR 0xE5, CHR 0x92, CHR
      0x8C, CHR 0xE8, CHR 0x8A, CHR 0x82, CHR 0xE6, CHR 0xB5, CHR 0x81, CHR 0xE7, CHR 0x8A, CHR
      0xB6, CHR 0xE6, CHR 0x80, CHR 0x81]"

definition t_memory_pressure :: string where \<comment> \<open>memory pressure\<close>
  "t_memory_pressure =
     [CHR 0xE5, CHR 0x86, CHR 0x85, CHR 0xE5, CHR 0xAD, CHR 0x98, CHR 0xE5, CHR 0x8E, CHR 0x8B, CHR
      0xE5, CHR 0x8A, CHR 0x9B]"

definition t_memory_why :: string where \<comment> \<open>check memory use, swapping and OOM events\<close>
  "t_memory_why =
     [CHR 0xE9, CHR 0xAA, CHR 0x8C, CHR 0xE8, CHR 0xAF, CHR 0x81, CHR 0xE5, CHR 0x86, CHR 0x85, CHR
      0xE5, CHR 0xAD, CHR 0x98, CHR 0xE4, CHR 0xBD, CHR 0xBF, CHR 0xE7, CHR 0x94, CHR 0xA8, CHR
      0xE3, CHR 0x80, CHR 0x81, CHR 0xE4, CHR 0xBA, CHR 0xA4, CHR 0xE6, CHR 0x8D, CHR 0xA2, CHR
      0xE5, CHR 0x92, CHR 0x8C] @ '' OOM '' @ [CHR 0xE4, CHR 0xBA, CHR 0x8B, CHR 0xE4, CHR 0xBB, CHR
      0xB6]"

definition t_disk_saturation :: string where \<comment> \<open>disk IO saturation\<close>
  "t_disk_saturation =
     [CHR 0xE7, CHR 0xA3, CHR 0x81, CHR 0xE7, CHR 0x9B, CHR 0x98] @ '' IO '' @ [CHR 0xE9, CHR 0xA5,
      CHR 0xB1, CHR 0xE5, CHR 0x92, CHR 0x8C]"

definition t_disk_why :: string where \<comment> \<open>check IO wait, throughput and disk capacity\<close>
  "t_disk_why =
     [CHR 0xE9, CHR 0xAA, CHR 0x8C, CHR 0xE8, CHR 0xAF, CHR 0x81] @ '' IO '' @ [CHR 0xE7, CHR 0xAD,
      CHR 0x89, CHR 0xE5, CHR 0xBE, CHR 0x85, CHR 0xE3, CHR 0x80, CHR 0x81, CHR 0xE5, CHR 0x90, CHR
      0x9E, CHR 0xE5, CHR 0x90, CHR 0x90, CHR 0xE5, CHR 0x92, CHR 0x8C, CHR 0xE7, CHR 0xA3, CHR
      0x81, CHR 0xE7, CHR 0x9B, CHR 0x98, CHR 0xE5, CHR 0xAE, CHR 0xB9, CHR 0xE9, CHR 0x87, CHR
      0x8F]"

definition t_network_problem :: string where \<comment> \<open>network problem\<close>
  "t_network_problem =
     [CHR 0xE7, CHR 0xBD, CHR 0x91, CHR 0xE7, CHR 0xBB, CHR 0x9C, CHR 0xE9, CHR 0x97, CHR 0xAE, CHR
      0xE9, CHR 0xA2, CHR 0x98]"

definition t_latency_rise :: string where \<comment> \<open>network latency rises\<close>
  "t_latency_rise =
     [CHR 0xE7, CHR 0xBD, CHR 0x91, CHR 0xE7, CHR 0xBB, CHR 0x9C, CHR 0xE5, CHR 0xBB, CHR 0xB6, CHR
      0xE8, CHR 0xBF, CHR 0x9F, CHR 0xE5, CHR 0x8D, CHR 0x87, CHR 0xE9, CHR 0xAB, CHR 0x98]"

definition t_latency_why :: string where \<comment> \<open>check link latency and cross-zone RTT\<close>
  "t_latency_why =
     [CHR 0xE9, CHR 0xAA, CHR 0x8C, CHR 0xE8, CHR 0xAF, CHR 0x81, CHR 0xE9, CHR 0x93, CHR 0xBE, CHR
      0xE8, CHR 0xB7, CHR 0xAF, CHR 0xE5, CHR 0xBB, CHR 0xB6, CHR 0xE8, CHR 0xBF, CHR 0x9F, CHR
      0xE5, CHR 0x92, CHR 0x8C, CHR 0xE8, CHR 0xB7, CHR 0xA8, CHR 0xE5, CHR 0x8C, CHR 0xBA] @
      '' RTT''"

definition t_packet_loss :: string where \<comment> \<open>packet loss\<close>
  "t_packet_loss =
     [CHR 0xE7, CHR 0xBD, CHR 0x91, CHR 0xE7, CHR 0xBB, CHR 0x9C, CHR 0xE4, CHR 0xB8, CHR 0xA2, CHR
      0xE5, CHR 0x8C, CHR 0x85]"

definition t_packet_why :: string where \<comment> \<open>check retransmissions, loss rate and interface errors\<close>
  "t_packet_why =
     [CHR 0xE9, CHR 0xAA, CHR 0x8C, CHR 0xE8, CHR 0xAF, CHR 0x81, CHR 0xE9, CHR 0x87, CHR 0x8D, CHR
      0xE4, CHR 0xBC, CHR 0xA0, CHR 0xE3, CHR 0x80, CHR 0x81, CHR 0xE4, CHR 0xB8, CHR 0xA2, CHR
      0xE5, CHR 0x8C, CHR 0x85, CHR 0xE7, CHR 0x8E, CHR 0x87, CHR 0xE5, CHR 0x92, CHR 0x8C, CHR
      0xE6, CHR 0x8E, CHR 0xA5, CHR 0xE5, CHR 0x8F, CHR 0xA3, CHR 0xE9, CHR 0x94, CHR 0x99, CHR
      0xE8, CHR 0xAF, CHR 0xAF]"

definition t_dns_failure :: string where \<comment> \<open>DNS resolution anomaly\<close>
  "t_dns_failure =
     ''DNS '' @ [CHR 0xE8, CHR 0xA7, CHR 0xA3, CHR 0xE6, CHR 0x9E, CHR 0x90, CHR 0xE5, CHR 0xBC, CHR
      0x82, CHR 0xE5, CHR 0xB8, CHR 0xB8]"

definition t_dns_why :: string where \<comment> \<open>check DNS latency, failure rate and answers\<close>
  "t_dns_why =
     [CHR 0xE9, CHR 0xAA, CHR 0x8C, CHR 0xE8, CHR 0xAF, CHR 0x81] @ '' DNS '' @ [CHR 0xE5, CHR 0xBB,
      CHR 0xB6, CHR 0xE8, CHR 0xBF, CHR 0x9F, CHR 0xE3, CHR 0x80, CHR 0x81, CHR 0xE5, CHR 0xA4, CHR
      0xB1, CHR 0xE8, CHR 0xB4, CHR 0xA5, CHR 0xE7, CHR 0x8E, CHR 0x87, CHR 0xE5, CHR 0x92, CHR
      0x8C, CHR 0xE8, CHR 0xA7, CHR 0xA3, CHR 0xE6, CHR 0x9E, CHR 0x90, CHR 0xE7, CHR 0xBB, CHR
      0x93, CHR 0xE6, CHR 0x9E, CHR 0x9C]"

definition t_config_error :: string where \<comment> \<open>configuration error\<close>
  "t_config_error =
     [CHR 0xE9, CHR 0x85, CHR 0x8D, CHR 0xE7, CHR 0xBD, CHR 0xAE, CHR 0xE9, CHR 0x94, CHR 0x99, CHR
      0xE8, CHR 0xAF, CHR 0xAF]"

definition t_app_config :: string where \<comment> \<open>inconsistent application configuration\<close>
  "t_app_config =
     [CHR 0xE5, CHR 0xBA, CHR 0x94, CHR 0xE7, CHR 0x94, CHR 0xA8, CHR 0xE9, CHR 0x85, CHR 0x8D, CHR
      0xE7, CHR 0xBD, CHR 0xAE, CHR 0xE4, CHR 0xB8, CHR 0x8D, CHR 0xE4, CHR 0xB8, CHR 0x80, CHR
      0xE8, CHR 0x87, CHR 0xB4]"

definition t_app_config_why :: string where \<comment> \<open>compare the configuration with recent changes\<close>
  "t_app_config_why =
     [CHR 0xE6, CHR 0xA0, CHR 0xB8, CHR 0xE5, CHR 0xAF, CHR 0xB9, CHR 0xE5, CHR 0xBD, CHR 0x93, CHR
      0xE5, CHR 0x89, CHR 0x8D, CHR 0xE9, CHR 0x85, CHR 0x8D, CHR 0xE7, CHR 0xBD, CHR 0xAE, CHR
      0xE4, CHR 0xB8, CHR 0x8E, CHR 0xE6, CHR 0x9C, CHR 0x80, CHR 0xE8, CHR 0xBF, CHR 0x91, CHR
      0xE5, CHR 0x8F, CHR 0x98, CHR 0xE6, CHR 0x9B, CHR 0xB4]"

definition t_dep_config :: string where \<comment> \<open>wrong dependency address\<close>
  "t_dep_config =
     [CHR 0xE4, CHR 0xBE, CHR 0x9D, CHR 0xE8, CHR 0xB5, CHR 0x96, CHR 0xE5, CHR 0x9C, CHR 0xB0, CHR
      0xE5, CHR 0x9D, CHR 0x80, CHR 0xE9, CHR 0x85, CHR 0x8D, CHR 0xE7, CHR 0xBD, CHR 0xAE, CHR
      0xE9, CHR 0x94, CHR 0x99, CHR 0xE8, CHR 0xAF, CHR 0xAF]"

definition t_dep_config_why :: string where \<comment> \<open>check endpoints, credential references and environment variables\<close>
  "t_dep_config_why =
     [CHR 0xE6, CHR 0xA0, CHR 0xB8, CHR 0xE5, CHR 0xAF, CHR 0xB9, CHR 0xE4, CHR 0xBE, CHR 0x9D, CHR
      0xE8, CHR 0xB5, CHR 0x96, CHR 0xE7, CHR 0xAB, CHR 0xAF, CHR 0xE7, CHR 0x82, CHR 0xB9, CHR
      0xE3, CHR 0x80, CHR 0x81, CHR 0xE5, CHR 0x87, CHR 0xAD, CHR 0xE6, CHR 0x8D, CHR 0xAE, CHR
      0xE5, CHR 0xBC, CHR 0x95, CHR 0xE7, CHR 0x94, CHR 0xA8, CHR 0xE5, CHR 0x92, CHR 0x8C, CHR
      0xE7, CHR 0x8E, CHR 0xAF, CHR 0xE5, CHR 0xA2, CHR 0x83, CHR 0xE5, CHR 0x8F, CHR 0x98, CHR
      0xE9, CHR 0x87, CHR 0x8F]"

definition t_release_param :: string where \<comment> \<open>wrong release parameter\<close>
  "t_release_param =
     [CHR 0xE5, CHR 0x8F, CHR 0x91, CHR 0xE5, CHR 0xB8, CHR 0x83, CHR 0xE5, CHR 0x8F, CHR 0x82, CHR
      0xE6, CHR 0x95, CHR 0xB0, CHR 0xE9, CHR 0x94, CHR 0x99, CHR 0xE8, CHR 0xAF, CHR 0xAF]"

definition t_release_param_why :: string where \<comment> \<open>check the release manifest and run parameters\<close>
  "t_release_param_why =
     [CHR 0xE6, CHR 0xA0, CHR 0xB8, CHR 0xE5, CHR 0xAF, CHR 0xB9, CHR 0xE5, CHR 0x8F, CHR 0x91, CHR
      0xE5, CHR 0xB8, CHR 0x83, CHR 0xE6, CHR 0xB8, CHR 0x85, CHR 0xE5, CHR 0x8D, CHR 0x95, CHR
      0xE5, CHR 0x92, CHR 0x8C, CHR 0xE8, CHR 0xBF, CHR 0x90, CHR 0xE8, CHR 0xA1, CHR 0x8C, CHR
      0xE5, CHR 0x8F, CHR 0x82, CHR 0xE6, CHR 0x95, CHR 0xB0]"

definition t_expert :: string where \<comment> \<open>expert\<close>
  "t_expert =
     [CHR 0xE4, CHR 0xB8, CHR 0x93, CHR 0xE5, CHR 0xAE, CHR 0xB6]"

definition t_network :: string where \<comment> \<open>network\<close>
  "t_network =
     [CHR 0xE7, CHR 0xBD, CHR 0x91, CHR 0xE7, CHR 0xBB, CHR 0x9C]"

definition t_database :: string where \<comment> \<open>database\<close>
  "t_database =
     [CHR 0xE6, CHR 0x95, CHR 0xB0, CHR 0xE6, CHR 0x8D, CHR 0xAE, CHR 0xE5, CHR 0xBA, CHR 0x93]"

definition t_high_load_why :: string where \<comment> \<open>high load may cause failures\<close>
  "t_high_load_why =
     [CHR 0xE9, CHR 0xAB, CHR 0x98, CHR 0xE8, CHR 0xB4, CHR 0x9F, CHR 0xE8, CHR 0xBD, CHR 0xBD, CHR
      0xE5, CHR 0x8F, CHR 0xAF, CHR 0xE8, CHR 0x83, CHR 0xBD, CHR 0xE5, CHR 0xAF, CHR 0xBC, CHR
      0xE8, CHR 0x87, CHR 0xB4, CHR 0xE6, CHR 0x9C, CHR 0x8D, CHR 0xE5, CHR 0x8A, CHR 0xA1, CHR
      0xE5, CHR 0xBC, CHR 0x82, CHR 0xE5, CHR 0xB8, CHR 0xB8]"

definition t_network_why :: string where \<comment> \<open>latency or loss may cause timeouts\<close>
  "t_network_why =
     [CHR 0xE7, CHR 0xBD, CHR 0x91, CHR 0xE7, CHR 0xBB, CHR 0x9C, CHR 0xE5, CHR 0xBB, CHR 0xB6, CHR
      0xE8, CHR 0xBF, CHR 0x9F, CHR 0xE6, CHR 0x88, CHR 0x96, CHR 0xE4, CHR 0xB8, CHR 0xA2, CHR
      0xE5, CHR 0x8C, CHR 0x85, CHR 0xE5, CHR 0x8F, CHR 0xAF, CHR 0xE8, CHR 0x83, CHR 0xBD, CHR
      0xE5, CHR 0xAF, CHR 0xBC, CHR 0xE8, CHR 0x87, CHR 0xB4, CHR 0xE8, CHR 0xB6, CHR 0x85, CHR
      0xE6, CHR 0x97, CHR 0xB6]"

definition t_config_why :: string where \<comment> \<open>configuration changes may cause failures\<close>
  "t_config_why =
     [CHR 0xE9, CHR 0x85, CHR 0x8D, CHR 0xE7, CHR 0xBD, CHR 0xAE, CHR 0xE5, CHR 0x8F, CHR 0x98, CHR
      0xE6, CHR 0x9B, CHR 0xB4, CHR 0xE5, CHR 0x8F, CHR 0xAF, CHR 0xE8, CHR 0x83, CHR 0xBD, CHR
      0xE5, CHR 0xAF, CHR 0xBC, CHR 0xE8, CHR 0x87, CHR 0xB4, CHR 0xE6, CHR 0x9C, CHR 0x8D, CHR
      0xE5, CHR 0x8A, CHR 0xA1, CHR 0xE5, CHR 0xBC, CHR 0x82, CHR 0xE5, CHR 0xB8, CHR 0xB8]"

definition t_stop_evidence :: string where \<comment> \<open>verifiable supporting or refuting evidence obtained\<close>
  "t_stop_evidence =
     [CHR 0xE8, CHR 0x8E, CHR 0xB7, CHR 0xE5, CHR 0xBE, CHR 0x97, CHR 0xE5, CHR 0x8F, CHR 0xAF, CHR
      0xE9, CHR 0xAA, CHR 0x8C, CHR 0xE8, CHR 0xAF, CHR 0x81, CHR 0xE7, CHR 0x9A, CHR 0x84, CHR
      0xE6, CHR 0x94, CHR 0xAF, CHR 0xE6, CHR 0x8C, CHR 0x81, CHR 0xE6, CHR 0x88, CHR 0x96, CHR
      0xE5, CHR 0x8F, CHR 0x8D, CHR 0xE9, CHR 0xA9, CHR 0xB3, CHR 0xE8, CHR 0xAF, CHR 0x81, CHR
      0xE6, CHR 0x8D, CHR 0xAE]"

definition t_stop_budget :: string where \<comment> \<open>authorised tools failed or budget used up\<close>
  "t_stop_budget =
     [CHR 0xE6, CHR 0x8E, CHR 0x88, CHR 0xE6, CHR 0x9D, CHR 0x83, CHR 0xE5, CHR 0xB7, CHR 0xA5, CHR
      0xE5, CHR 0x85, CHR 0xB7, CHR 0xE5, CHR 0xA4, CHR 0xB1, CHR 0xE8, CHR 0xB4, CHR 0xA5, CHR
      0xE6, CHR 0x88, CHR 0x96, CHR 0xE9, CHR 0xA2, CHR 0x84, CHR 0xE7, CHR 0xAE, CHR 0x97, CHR
      0xE8, CHR 0x80, CHR 0x97, CHR 0xE5, CHR 0xB0, CHR 0xBD]"

definition t_missing_support :: string where \<comment> \<open>at least one source-backed support evidence\<close>
  "t_missing_support =
     [CHR 0xE8, CHR 0x87, CHR 0xB3, CHR 0xE5, CHR 0xB0, CHR 0x91, CHR 0xE4, CHR 0xB8, CHR 0x80, CHR
      0xE6, CHR 0x9D, CHR 0xA1] @ '' source-backed support evidence''"

definition t_missing_refute :: string where \<comment> \<open>conflicting evidence that may refute the hypothesis\<close>
  "t_missing_refute =
     [CHR 0xE5, CHR 0x8F, CHR 0xAF, CHR 0xE8, CHR 0x83, CHR 0xBD, CHR 0xE5, CHR 0x8F, CHR 0x8D, CHR
      0xE9, CHR 0xA9, CHR 0xB3, CHR 0xE5, CHR 0xBD, CHR 0x93, CHR 0xE5, CHR 0x89, CHR 0x8D, CHR
      0xE5, CHR 0x81, CHR 0x87, CHR 0xE8, CHR 0xAE, CHR 0xBE, CHR 0xE7, CHR 0x9A, CHR 0x84, CHR
      0xE5, CHR 0x86, CHR 0xB2, CHR 0xE7, CHR 0xAA, CHR 0x81, CHR 0xE8, CHR 0xAF, CHR 0x81, CHR
      0xE6, CHR 0x8D, CHR 0xAE]"

definition t_expect_network :: string where \<comment> \<open>latency, loss, DNS or call-chain evidence\<close>
  "t_expect_network =
     [CHR 0xE5, CHR 0xBB, CHR 0xB6, CHR 0xE8, CHR 0xBF, CHR 0x9F, CHR 0xE3, CHR 0x80, CHR 0x81, CHR
      0xE4, CHR 0xB8, CHR 0xA2, CHR 0xE5, CHR 0x8C, CHR 0x85, CHR 0xE3, CHR 0x80, CHR 0x81] @
      ''DNS '' @ [CHR 0xE6, CHR 0x88, CHR 0x96, CHR 0xE8, CHR 0xB0, CHR 0x83, CHR 0xE7, CHR 0x94,
      CHR 0xA8, CHR 0xE9, CHR 0x93, CHR 0xBE, CHR 0xE4, CHR 0xBC, CHR 0xA0, CHR 0xE6, CHR 0x92, CHR
      0xAD, CHR 0xE8, CHR 0xAF, CHR 0x81, CHR 0xE6, CHR 0x8D, CHR 0xAE]"

definition t_expect_database :: string where \<comment> \<open>connections, slow queries, storage or cache state\<close>
  "t_expect_database =
     [CHR 0xE6, CHR 0x95, CHR 0xB0, CHR 0xE6, CHR 0x8D, CHR 0xAE, CHR 0xE5, CHR 0xBA, CHR 0x93, CHR
      0xE8, CHR 0xBF, CHR 0x9E, CHR 0xE6, CHR 0x8E, CHR 0xA5, CHR 0xE3, CHR 0x80, CHR 0x81, CHR
      0xE6, CHR 0x85, CHR 0xA2, CHR 0xE6, CHR 0x9F, CHR 0xA5, CHR 0xE8, CHR 0xAF, CHR 0xA2, CHR
      0xE3, CHR 0x80, CHR 0x81, CHR 0xE5, CHR 0xAD, CHR 0x98, CHR 0xE5, CHR 0x82, CHR 0xA8, CHR
      0xE6, CHR 0x88, CHR 0x96, CHR 0xE7, CHR 0xBC, CHR 0x93, CHR 0xE5, CHR 0xAD, CHR 0x98, CHR
      0xE7, CHR 0x8A, CHR 0xB6, CHR 0xE6, CHR 0x80, CHR 0x81, CHR 0xE8, CHR 0xAF, CHR 0x81, CHR
      0xE6, CHR 0x8D, CHR 0xAE]"

definition t_expect_linux :: string where \<comment> \<open>CPU, memory, disk, pod state or application errors\<close>
  "t_expect_linux =
     ''CPU'' @ [CHR 0xE3, CHR 0x80, CHR 0x81, CHR 0xE5, CHR 0x86, CHR 0x85, CHR 0xE5, CHR 0xAD, CHR
      0x98, CHR 0xE3, CHR 0x80, CHR 0x81, CHR 0xE7, CHR 0xA3, CHR 0x81, CHR 0xE7, CHR 0x9B, CHR
      0x98, CHR 0xE3, CHR 0x80, CHR 0x81] @ ''Pod '' @ [CHR 0xE7, CHR 0x8A, CHR 0xB6, CHR 0xE6, CHR
      0x80, CHR 0x81, CHR 0xE6, CHR 0x88, CHR 0x96, CHR 0xE5, CHR 0xBA, CHR 0x94, CHR 0xE7, CHR
      0x94, CHR 0xA8, CHR 0xE9, CHR 0x94, CHR 0x99, CHR 0xE8, CHR 0xAF, CHR 0xAF, CHR 0xE8, CHR
      0xAF, CHR 0x81, CHR 0xE6, CHR 0x8D, CHR 0xAE]"

definition t_no_root_cause :: string where \<comment> \<open>no verifiable root cause candidate yet\<close>
  "t_no_root_cause =
     [CHR 0xE5, CHR 0xB0, CHR 0x9A, CHR 0xE6, CHR 0x9C, CHR 0xAA, CHR 0xE5, CHR 0xBD, CHR 0xA2, CHR
      0xE6, CHR 0x88, CHR 0x90, CHR 0xE5, CHR 0x8F, CHR 0xAF, CHR 0xE9, CHR 0xAA, CHR 0x8C, CHR
      0xE8, CHR 0xAF, CHR 0x81, CHR 0xE7, CHR 0x9A, CHR 0x84, CHR 0xE6, CHR 0xA0, CHR 0xB9, CHR
      0xE5, CHR 0x9B, CHR 0xA0, CHR 0xE5, CHR 0x80, CHR 0x99, CHR 0xE9, CHR 0x80, CHR 0x89]"

definition t_no_frontier :: string where \<comment> \<open>no frontier available\<close>
  "t_no_frontier =
     [CHR 0xE6, CHR 0xB2, CHR 0xA1, CHR 0xE6, CHR 0x9C, CHR 0x89, CHR 0xE5, CHR 0x8F, CHR 0xAF, CHR
      0xE7, CHR 0x94, CHR 0xA8] @ '' frontier''"

definition t_conflict_gap :: string where \<comment> \<open>refuting evidence reaches the threshold; resolve the conflict first\<close>
  "t_conflict_gap =
     [CHR 0xE5, CHR 0xAD, CHR 0x98, CHR 0xE5, CHR 0x9C, CHR 0xA8, CHR 0xE8, CHR 0xBE, CHR 0xBE, CHR
      0xE5, CHR 0x88, CHR 0xB0, CHR 0xE9, CHR 0x98, CHR 0x88, CHR 0xE5, CHR 0x80, CHR 0xBC, CHR
      0xE7, CHR 0x9A, CHR 0x84, CHR 0xE5, CHR 0x8F, CHR 0x8D, CHR 0xE9, CHR 0xA9, CHR 0xB3, CHR
      0xE8, CHR 0xAF, CHR 0x81, CHR 0xE6, CHR 0x8D, CHR 0xAE, CHR 0xEF, CHR 0xBC, CHR 0x8C, CHR
      0xE9, CHR 0x9C, CHR 0x80, CHR 0xE5, CHR 0x85, CHR 0x88, CHR 0xE8, CHR 0xA7, CHR 0xA3, CHR
      0xE5, CHR 0x86, CHR 0xB3, CHR 0xE8, CHR 0xAF, CHR 0x81, CHR 0xE6, CHR 0x8D, CHR 0xAE, CHR
      0xE5, CHR 0x86, CHR 0xB2, CHR 0xE7, CHR 0xAA, CHR 0x81]"

definition t_root_cause_prefix :: string where \<comment> \<open>root cause candidate:\<close>
  "t_root_cause_prefix =
     [CHR 0xE6, CHR 0xA0, CHR 0xB9, CHR 0xE5, CHR 0x9B, CHR 0xA0, CHR 0xE5, CHR 0x80, CHR 0x99, CHR
      0xE9, CHR 0x80, CHR 0x89, CHR 0xEF, CHR 0xBC, CHR 0x9A]"

definition t_best_prefix :: string where \<comment> \<open>current best candidate:\<close>
  "t_best_prefix =
     [CHR 0xE5, CHR 0xBD, CHR 0x93, CHR 0xE5, CHR 0x89, CHR 0x8D, CHR 0xE6, CHR 0x9C, CHR 0x80, CHR
      0xE4, CHR 0xBC, CHR 0x98, CHR 0xE5, CHR 0x80, CHR 0x99, CHR 0xE9, CHR 0x80, CHR 0x89, CHR
      0xEF, CHR 0xBC, CHR 0x9A]"

definition t_best_suffix :: string where \<comment> \<open>(still to be verified)\<close>
  "t_best_suffix =
     [CHR 0xEF, CHR 0xBC, CHR 0x88, CHR 0xE4, CHR 0xBB, CHR 0x8D, CHR 0xE9, CHR 0x9C, CHR 0x80, CHR
      0xE9, CHR 0xAA, CHR 0x8C, CHR 0xE8, CHR 0xAF, CHR 0x81, CHR 0xEF, CHR 0xBC, CHR 0x89]"

definition t_candidate_prefix :: string where \<comment> \<open>current candidate:\<close>
  "t_candidate_prefix =
     [CHR 0xE5, CHR 0xBD, CHR 0x93, CHR 0xE5, CHR 0x89, CHR 0x8D, CHR 0xE5, CHR 0x80, CHR 0x99, CHR
      0xE9, CHR 0x80, CHR 0x89, CHR 0xEF, CHR 0xBC, CHR 0x9A]"

definition t_candidate_suffix :: string where \<comment> \<open>(evidence insufficient, cannot be confirmed)\<close>
  "t_candidate_suffix =
     [CHR 0xEF, CHR 0xBC, CHR 0x88, CHR 0xE8, CHR 0xAF, CHR 0x81, CHR 0xE6, CHR 0x8D, CHR 0xAE, CHR
      0xE4, CHR 0xB8, CHR 0x8D, CHR 0xE8, CHR 0xB6, CHR 0xB3, CHR 0xEF, CHR 0xBC, CHR 0x8C, CHR
      0xE4, CHR 0xB8, CHR 0x8D, CHR 0xE8, CHR 0x83, CHR 0xBD, CHR 0xE7, CHR 0xA1, CHR 0xAE, CHR
      0xE8, CHR 0xAE, CHR 0xA4, CHR 0xE4, CHR 0xB8, CHR 0xBA, CHR 0xE6, CHR 0xA0, CHR 0xB9, CHR
      0xE5, CHR 0x9B, CHR 0xA0, CHR 0xEF, CHR 0xBC, CHR 0x89]"

definition t_action_evidence :: string where \<comment> \<open>add metrics, logs or traces tied to the candidate\<close>
  "t_action_evidence =
     [CHR 0xE8, CHR 0xA1, CHR 0xA5, CHR 0xE5, CHR 0x85, CHR 0x85, CHR 0xE4, CHR 0xB8, CHR 0x8E, CHR
      0xE5, CHR 0xBD, CHR 0x93, CHR 0xE5, CHR 0x89, CHR 0x8D, CHR 0xE5, CHR 0x80, CHR 0x99, CHR
      0xE9, CHR 0x80, CHR 0x89, CHR 0xE7, CHR 0x9B, CHR 0xB4, CHR 0xE6, CHR 0x8E, CHR 0xA5, CHR
      0xE5, CHR 0x85, CHR 0xB3, CHR 0xE8, CHR 0x81, CHR 0x94, CHR 0xE7, CHR 0x9A, CHR 0x84, CHR
      0xE6, CHR 0x8C, CHR 0x87, CHR 0xE6, CHR 0xA0, CHR 0x87, CHR 0xE3, CHR 0x80, CHR 0x81, CHR
      0xE6, CHR 0x97, CHR 0xA5, CHR 0xE5, CHR 0xBF, CHR 0x97, CHR 0xE6, CHR 0x88, CHR 0x96, CHR
      0xE8, CHR 0xB0, CHR 0x83, CHR 0xE7, CHR 0x94, CHR 0xA8, CHR 0xE9, CHR 0x93, CHR 0xBE, CHR
      0xE8, CHR 0xAF, CHR 0x81, CHR 0xE6, CHR 0x8D, CHR 0xAE]"

definition t_action_conflict :: string where \<comment> \<open>review window, entity and source of the refuting evidence\<close>
  "t_action_conflict =
     [CHR 0xE5, CHR 0xA4, CHR 0x8D, CHR 0xE6, CHR 0xA0, CHR 0xB8, CHR 0xE5, CHR 0x8F, CHR 0x8D, CHR
      0xE9, CHR 0xA9, CHR 0xB3, CHR 0xE8, CHR 0xAF, CHR 0x81, CHR 0xE6, CHR 0x8D, CHR 0xAE, CHR
      0xE7, CHR 0x9A, CHR 0x84, CHR 0xE6, CHR 0x97, CHR 0xB6, CHR 0xE9, CHR 0x97, CHR 0xB4, CHR
      0xE7, CHR 0xAA, CHR 0x97, CHR 0xE3, CHR 0x80, CHR 0x81, CHR 0xE5, CHR 0xAE, CHR 0x9E, CHR
      0xE4, CHR 0xBD, CHR 0x93, CHR 0xE5, CHR 0x92, CHR 0x8C, CHR 0xE6, CHR 0x9D, CHR 0xA5, CHR
      0xE6, CHR 0xBA, CHR 0x90, CHR 0xEF, CHR 0xBC, CHR 0x8C, CHR 0xE5, CHR 0xB9, CHR 0xB6, CHR
      0xE9, CHR 0x87, CHR 0x8D, CHR 0xE6, CHR 0x96, CHR 0xB0, CHR 0xE8, CHR 0xAF, CHR 0x84, CHR
      0xE4, CHR 0xBC, CHR 0xB0, CHR 0xE5, CHR 0xBD, CHR 0x93, CHR 0xE5, CHR 0x89, CHR 0x8D, CHR
      0xE5, CHR 0x80, CHR 0x99, CHR 0xE9, CHR 0x80, CHR 0x89]"

definition t_action_repair :: string where \<comment> \<open>repair or retry the failed tools\<close>
  "t_action_repair =
     [CHR 0xE4, CHR 0xBF, CHR 0xAE, CHR 0xE5, CHR 0xA4, CHR 0x8D, CHR 0xE6, CHR 0x88, CHR 0x96, CHR
      0xE9, CHR 0x87, CHR 0x8D, CHR 0xE8, CHR 0xAF, CHR 0x95, CHR 0xE5, CHR 0xA4, CHR 0xB1, CHR
      0xE8, CHR 0xB4, CHR 0xA5, CHR 0xE7, CHR 0x9A, CHR 0x84, CHR 0xE6, CHR 0x8E, CHR 0x88, CHR
      0xE6, CHR 0x9D, CHR 0x83, CHR 0xE5, CHR 0xB7, CHR 0xA5, CHR 0xE5, CHR 0x85, CHR 0xB7, CHR
      0xE5, CHR 0x90, CHR 0x8E, CHR 0xE9, CHR 0x87, CHR 0x8D, CHR 0xE6, CHR 0x96, CHR 0xB0, CHR
      0xE6, CHR 0x89, CHR 0xA7, CHR 0xE8, CHR 0xA1, CHR 0x8C, CHR 0xE5, CHR 0x8F, CHR 0x97, CHR
      0xE5, CHR 0xBD, CHR 0xB1, CHR 0xE5, CHR 0x93, CHR 0x8D, CHR 0xE7, CHR 0x9A, CHR 0x84, CHR
      0xE5, CHR 0x8F, CHR 0x96, CHR 0xE8, CHR 0xAF, CHR 0x81, CHR 0xE6, CHR 0xAD, CHR 0xA5, CHR
      0xE9, CHR 0xAA, CHR 0xA4]"

definition t_action_review :: string where \<comment> \<open>have the on-call engineer check sources and impact\<close>
  "t_action_review =
     [CHR 0xE5, CHR 0x9C, CHR 0xA8, CHR 0xE6, CHR 0x89, CHR 0xA7, CHR 0xE8, CHR 0xA1, CHR 0x8C, CHR
      0xE5, CHR 0x8F, CHR 0x98, CHR 0xE6, CHR 0x9B, CHR 0xB4, CHR 0xE5, CHR 0x89, CHR 0x8D, CHR
      0xE7, CHR 0x94, CHR 0xB1, CHR 0xE5, CHR 0x80, CHR 0xBC, CHR 0xE7, CHR 0x8F, CHR 0xAD, CHR
      0xE4, CHR 0xBA, CHR 0xBA, CHR 0xE5, CHR 0x91, CHR 0x98, CHR 0xE6, CHR 0xA0, CHR 0xB8, CHR
      0xE5, CHR 0xAF, CHR 0xB9, CHR 0xE8, CHR 0xAF, CHR 0x81, CHR 0xE6, CHR 0x8D, CHR 0xAE, CHR
      0xE6, CHR 0x9D, CHR 0xA5, CHR 0xE6, CHR 0xBA, CHR 0x90, CHR 0xE4, CHR 0xB8, CHR 0x8E, CHR
      0xE5, CHR 0xBD, CHR 0xB1, CHR 0xE5, CHR 0x93, CHR 0x8D, CHR 0xE8, CHR 0x8C, CHR 0x83, CHR
      0xE5, CHR 0x9B, CHR 0xB4]"

definition t_weak_info :: string where \<comment> \<open>insufficient information\<close>
  "t_weak_info =
     [CHR 0xE4, CHR 0xBF, CHR 0xA1, CHR 0xE6, CHR 0x81, CHR 0xAF, CHR 0xE4, CHR 0xB8, CHR 0x8D, CHR
      0xE8, CHR 0xB6, CHR 0xB3, CHR 0xEF, CHR 0xBC, CHR 0x8C, CHR 0xE6, CHR 0x97, CHR 0xA0, CHR
      0xE6, CHR 0xB3, CHR 0x95, CHR 0xE5, CHR 0xAE, CHR 0x8C, CHR 0xE6, CHR 0x88, CHR 0x90, CHR
      0xE5, CHR 0x88, CHR 0x86, CHR 0xE6, CHR 0x9E, CHR 0x90]"

definition t_weak_degraded :: string where \<comment> \<open>diagnosis degraded\<close>
  "t_weak_degraded =
     [CHR 0xE8, CHR 0xAF, CHR 0x8A, CHR 0xE6, CHR 0x96, CHR 0xAD, CHR 0xE9, CHR 0x99, CHR 0x8D, CHR
      0xE7, CHR 0xBA, CHR 0xA7]"

definition t_f_support_gap :: string where \<comment> \<open>only %d direct supports, at least %d needed\<close>
  "t_f_support_gap =
     [CHR 0xE5, CHR 0xBD, CHR 0x93, CHR 0xE5, CHR 0x89, CHR 0x8D, CHR 0xE5, CHR 0x80, CHR 0x99, CHR
      0xE9, CHR 0x80, CHR 0x89, CHR 0xE4, CHR 0xBB, CHR 0x85, CHR 0xE6, CHR 0x9C, CHR 0x89] @
      '' %d '' @ [CHR 0xE6, CHR 0x9D, CHR 0xA1, CHR 0xE7, CHR 0x9B, CHR 0xB4, CHR 0xE6, CHR 0x8E,
      CHR 0xA5, CHR 0xE6, CHR 0x94, CHR 0xAF, CHR 0xE6, CHR 0x8C, CHR 0x81, CHR 0xE8, CHR 0xAF, CHR
      0x81, CHR 0xE6, CHR 0x8D, CHR 0xAE, CHR 0xEF, CHR 0xBC, CHR 0x8C, CHR 0xE9, CHR 0x9C, CHR
      0x80, CHR 0xE8, CHR 0xA6, CHR 0x81, CHR 0xE8, CHR 0x87, CHR 0xB3, CHR 0xE5, CHR 0xB0, CHR
      0x91] @ '' %d '' @ [CHR 0xE6, CHR 0x9D, CHR 0xA1]"

definition t_f_confidence_gap :: string where \<comment> \<open>graph confidence %.2f below threshold %.2f\<close>
  "t_f_confidence_gap =
     [CHR 0xE5, CHR 0x9B, CHR 0xBE, CHR 0xE8, CHR 0x81, CHR 0x9A, CHR 0xE5, CHR 0x90, CHR 0x88, CHR
      0xE7, CHR 0xBD, CHR 0xAE, CHR 0xE4, CHR 0xBF, CHR 0xA1, CHR 0xE5, CHR 0xBA, CHR 0xA6] @
      '' %.2f '' @ [CHR 0xE4, CHR 0xBD, CHR 0x8E, CHR 0xE4, CHR 0xBA, CHR 0x8E, CHR 0xE6, CHR 0x8A,
      CHR 0xA5, CHR 0xE5, CHR 0x91, CHR 0x8A, CHR 0xE9, CHR 0x98, CHR 0x88, CHR 0xE5, CHR 0x80, CHR
      0xBC] @ '' %.2f''"

definition t_f_expert_gap :: string where \<comment> \<open>%d degraded and %d failed experts\<close>
  "t_f_expert_gap =
     [CHR 0xE4, CHR 0xB8, CHR 0x93, CHR 0xE5, CHR 0xAE, CHR 0xB6, CHR 0xE6, CHR 0x89, CHR 0xA7, CHR
      0xE8, CHR 0xA1, CHR 0x8C, CHR 0xE5, CHR 0xAD, CHR 0x98, CHR 0xE5, CHR 0x9C, CHR 0xA8] @
      '' %d '' @ [CHR 0xE4, CHR 0xB8, CHR 0xAA, CHR 0xE9, CHR 0x99, CHR 0x8D, CHR 0xE7, CHR 0xBA,
      CHR 0xA7, CHR 0xE3, CHR 0x80, CHR 0x81] @ ''%d '' @ [CHR 0xE4, CHR 0xB8, CHR 0xAA, CHR 0xE5,
      CHR 0xA4, CHR 0xB1, CHR 0xE8, CHR 0xB4, CHR 0xA5]"

definition t_f_conflict :: string where \<comment> \<open>refuting evidence of strength at least %.2f\<close>
  "t_f_conflict =
     [CHR 0xE5, CHR 0xAD, CHR 0x98, CHR 0xE5, CHR 0x9C, CHR 0xA8, CHR 0xE5, CHR 0xBC, CHR 0xBA, CHR
      0xE5, CHR 0xBA, CHR 0xA6, CHR 0xE4, CHR 0xB8, CHR 0x8D, CHR 0xE4, CHR 0xBD, CHR 0x8E, CHR
      0xE4, CHR 0xBA, CHR 0x8E] @ '' %.2f '' @ [CHR 0xE7, CHR 0x9A, CHR 0x84, CHR 0xE6, CHR 0x9C,
      CHR 0x89, CHR 0xE6, CHR 0x95, CHR 0x88, CHR 0xE5, CHR 0x8F, CHR 0x8D, CHR 0xE9, CHR 0xA9, CHR
      0xB3, CHR 0xE8, CHR 0xAF, CHR 0x81, CHR 0xE6, CHR 0x8D, CHR 0xAE]"

definition t_s_conclusion :: string where \<comment> \<open>heading: conclusion\<close>
  "t_s_conclusion =
     ''## '' @ [CHR 0xE7, CHR 0xBB, CHR 0x93, CHR 0xE8, CHR 0xAE, CHR 0xBA, CHR 0x0A, CHR 0x0A]"

definition t_s_node :: string where \<comment> \<open>(graph node: %s)\<close>
  "t_s_node =
     [CHR 0xEF, CHR 0xBC, CHR 0x88] @ ''graph node: '' @ [CHR 0x60] @ ''%s'' @ [CHR 0x60, CHR 0xEF,
      CHR 0xBC, CHR 0x89]"

definition t_s_rationale :: string where \<comment> \<open>diagnostic rationale:\<close>
  "t_s_rationale =
     [CHR 0x0A, CHR 0x0A, CHR 0xE8, CHR 0xAF, CHR 0x8A, CHR 0xE6, CHR 0x96, CHR 0xAD, CHR 0xE4, CHR
      0xBE, CHR 0x9D, CHR 0xE6, CHR 0x8D, CHR 0xAE, CHR 0xEF, CHR 0xBC, CHR 0x9A]"

definition t_s_confidence :: string where \<comment> \<open>heading: graph confidence\<close>
  "t_s_confidence =
     [CHR 0x0A, CHR 0x0A] @ ''## '' @ [CHR 0xE5, CHR 0x9B, CHR 0xBE, CHR 0xE8, CHR 0x81, CHR 0x9A,
      CHR 0xE5, CHR 0x90, CHR 0x88, CHR 0xE7, CHR 0xBD, CHR 0xAE, CHR 0xE4, CHR 0xBF, CHR 0xA1, CHR
      0xE5, CHR 0xBA, CHR 0xA6, CHR 0x0A, CHR 0x0A] @ ''%.0f%%'' @ [CHR 0x0A]"

definition t_s_support :: string where \<comment> \<open>supporting evidence\<close>
  "t_s_support =
     [CHR 0xE6, CHR 0x94, CHR 0xAF, CHR 0xE6, CHR 0x8C, CHR 0x81, CHR 0xE8, CHR 0xAF, CHR 0x81, CHR
      0xE6, CHR 0x8D, CHR 0xAE]"

definition t_s_refute :: string where \<comment> \<open>refuting and conflicting evidence\<close>
  "t_s_refute =
     [CHR 0xE5, CHR 0x8F, CHR 0x8D, CHR 0xE9, CHR 0xA9, CHR 0xB3, CHR 0xE4, CHR 0xB8, CHR 0x8E, CHR
      0xE5, CHR 0x86, CHR 0xB2, CHR 0xE7, CHR 0xAA, CHR 0x81, CHR 0xE8, CHR 0xAF, CHR 0x81, CHR
      0xE6, CHR 0x8D, CHR 0xAE]"

definition t_s_neutral :: string where \<comment> \<open>undecided observations\<close>
  "t_s_neutral =
     [CHR 0xE5, CHR 0xBE, CHR 0x85, CHR 0xE5, CHR 0x88, CHR 0xA4, CHR 0xE5, CHR 0xAE, CHR 0x9A, CHR
      0xE8, CHR 0xA7, CHR 0x82, CHR 0xE6, CHR 0xB5, CHR 0x8B]"

definition t_s_gaps :: string where \<comment> \<open>heading: unresolved gaps\<close>
  "t_s_gaps =
     [CHR 0x0A] @ ''## '' @ [CHR 0xE6, CHR 0x9C, CHR 0xAA, CHR 0xE8, CHR 0xA7, CHR 0xA3, CHR 0xE5,
      CHR 0x86, CHR 0xB3, CHR 0xE7, CHR 0xBC, CHR 0xBA, CHR 0xE5, CHR 0x8F, CHR 0xA3, CHR 0x0A, CHR
      0x0A]"

definition t_s_no_gaps :: string where \<comment> \<open>no critical gap\<close>
  "t_s_no_gaps =
     [CHR 0xE6, CHR 0x97, CHR 0xA0, CHR 0xE5, CHR 0x85, CHR 0xB3, CHR 0xE9, CHR 0x94, CHR 0xAE, CHR
      0xE7, CHR 0xBC, CHR 0xBA, CHR 0xE5, CHR 0x8F, CHR 0xA3]"

definition t_s_next :: string where \<comment> \<open>heading: next actions\<close>
  "t_s_next =
     [CHR 0x0A] @ ''## '' @ [CHR 0xE5, CHR 0xBB, CHR 0xBA, CHR 0xE8, CHR 0xAE, CHR 0xAE, CHR 0xE4,
      CHR 0xB8, CHR 0x8B, CHR 0xE4, CHR 0xB8, CHR 0x80, CHR 0xE6, CHR 0xAD, CHR 0xA5, CHR 0x0A, CHR
      0x0A]"

definition t_s_review :: string where \<comment> \<open>to be reviewed by the on-call engineer\<close>
  "t_s_review =
     [CHR 0xE7, CHR 0x94, CHR 0xB1, CHR 0xE5, CHR 0x80, CHR 0xBC, CHR 0xE7, CHR 0x8F, CHR 0xAD, CHR
      0xE4, CHR 0xBA, CHR 0xBA, CHR 0xE5, CHR 0x91, CHR 0x98, CHR 0xE5, CHR 0xA4, CHR 0x8D, CHR
      0xE6, CHR 0xA0, CHR 0xB8]"

definition t_s_none :: string where \<comment> \<open>- none\<close>
  "t_s_none =
     ''- '' @ [CHR 0xE6, CHR 0x97, CHR 0xA0, CHR 0x0A]"

definition t_s_dash :: string where \<comment> \<open>an em dash\<close>
  "t_s_dash =
     '' '' @ [CHR 0xE2, CHR 0x80, CHR 0x94] @ '' ''"

definition t_s_item :: string where \<comment> \<open>one item of evidence\<close>
  "t_s_item =
     ''- '' @ [CHR 0x60] @ ''%s'' @ [CHR 0x60] @ '' / '' @ [CHR 0x60] @ ''%s:%s'' @ [CHR 0x60] @
      '' '' @ [CHR 0xE2, CHR 0x86, CHR 0x92] @ '' '' @ [CHR 0x60] @ ''%s'' @ [CHR 0x60, CHR 0xEF,
      CHR 0xBC, CHR 0x8C] @ ''strength=%.2f'' @ [CHR 0xEF, CHR 0xBC, CHR 0x9A] @ ''%s'' @ [CHR 0x0A]"

definition t_s_ellipsis :: string where \<comment> \<open>an ellipsis\<close>
  "t_s_ellipsis =
     [CHR 0xE2, CHR 0x80, CHR 0xA6]"

definition t_degraded_prefix :: string where \<comment> \<open>execution degraded:\<close>
  "t_degraded_prefix =
     [CHR 0xE6, CHR 0x89, CHR 0xA7, CHR 0xE8, CHR 0xA1, CHR 0x8C, CHR 0xE9, CHR 0x99, CHR 0x8D, CHR
      0xE7, CHR 0xBA, CHR 0xA7, CHR 0xEF, CHR 0xBC, CHR 0x9A]"

definition t_degraded_head :: string where \<comment> \<open>not enough usable evidence; missing evidence:\<close>
  "t_degraded_head =
     ''GoS '' @ [CHR 0xE6, CHR 0x9C, CHR 0xAA, CHR 0xE8, CHR 0x8E, CHR 0xB7, CHR 0xE5, CHR 0xBE, CHR
      0x97, CHR 0xE8, CHR 0xB6, CHR 0xB3, CHR 0xE5, CHR 0xA4, CHR 0x9F, CHR 0xE5, CHR 0x8F, CHR
      0xAF, CHR 0xE7, CHR 0x94, CHR 0xA8, CHR 0xE8, CHR 0xAF, CHR 0x81, CHR 0xE6, CHR 0x8D, CHR
      0xAE, CHR 0xEF, CHR 0xBC, CHR 0x8C, CHR 0xE6, CHR 0x97, CHR 0xA0, CHR 0xE6, CHR 0xB3, CHR
      0x95, CHR 0xE5, CHR 0xBD, CHR 0xA2, CHR 0xE6, CHR 0x88, CHR 0x90, CHR 0xE5, CHR 0x8F, CHR
      0xAF, CHR 0xE4, CHR 0xBF, CHR 0xA1, CHR 0xE6, CHR 0xA0, CHR 0xB9, CHR 0xE5, CHR 0x9B, CHR
      0xA0, CHR 0xE3, CHR 0x80, CHR 0x82, CHR 0x0A, CHR 0x0A, CHR 0xE7, CHR 0xBC, CHR 0xBA, CHR
      0xE5, CHR 0xB0, CHR 0x91, CHR 0xE6, CHR 0x88, CHR 0x96, CHR 0xE4, CHR 0xB8, CHR 0x8D, CHR
      0xE5, CHR 0x8F, CHR 0xAF, CHR 0xE7, CHR 0x94, CHR 0xA8, CHR 0xE7, CHR 0x9A, CHR 0x84, CHR
      0xE8, CHR 0xAF, CHR 0x81, CHR 0xE6, CHR 0x8D, CHR 0xAE, CHR 0xEF, CHR 0xBC, CHR 0x9A, CHR
      0x0A]"

definition t_degraded_next :: string where \<comment> \<open>next steps: add service, window, logs, metrics\<close>
  "t_degraded_next =
     [CHR 0x0A, CHR 0xE4, CHR 0xB8, CHR 0x8B, CHR 0xE4, CHR 0xB8, CHR 0x80, CHR 0xE6, CHR 0xAD, CHR
      0xA5, CHR 0xE5, CHR 0xBB, CHR 0xBA, CHR 0xE8, CHR 0xAE, CHR 0xAE, CHR 0xEF, CHR 0xBC, CHR
      0x9A, CHR 0x0A] @ ''- '' @ [CHR 0xE8, CHR 0xA1, CHR 0xA5, CHR 0xE5, CHR 0x85, CHR 0x85, CHR
      0xE6, CHR 0x9C, CHR 0x8D, CHR 0xE5, CHR 0x8A, CHR 0xA1, CHR 0xE5, CHR 0x90, CHR 0x8D, CHR
      0xE3, CHR 0x80, CHR 0x81, CHR 0xE5, CHR 0x91, CHR 0x8A, CHR 0xE8, CHR 0xAD, CHR 0xA6, CHR
      0xE6, CHR 0x97, CHR 0xB6, CHR 0xE9, CHR 0x97, CHR 0xB4, CHR 0xE7, CHR 0xAA, CHR 0x97, CHR
      0xE3, CHR 0x80, CHR 0x81, CHR 0xE5, CHR 0x85, CHR 0xB3, CHR 0xE9, CHR 0x94, CHR 0xAE, CHR
      0xE6, CHR 0x97, CHR 0xA5, CHR 0xE5, CHR 0xBF, CHR 0x97, CHR 0xE7, CHR 0x89, CHR 0x87, CHR
      0xE6, CHR 0xAE, CHR 0xB5, CHR 0xE5, CHR 0x92, CHR 0x8C, CHR 0xE6, CHR 0x8C, CHR 0x87, CHR
      0xE6, CHR 0xA0, CHR 0x87, CHR 0xE5, CHR 0xBF, CHR 0xAB, CHR 0xE7, CHR 0x85, CHR 0xA7, CHR
      0xE3, CHR 0x80, CHR 0x82, CHR 0x0A]"

definition t_degraded_docs :: string where \<comment> \<open>check the knowledge base\<close>
  "t_degraded_docs =
     ''- '' @ [CHR 0xE7, CHR 0xA1, CHR 0xAE, CHR 0xE8, CHR 0xAE, CHR 0xA4, CHR 0xE7, CHR 0x9F, CHR
      0xA5, CHR 0xE8, CHR 0xAF, CHR 0x86, CHR 0xE5, CHR 0xBA, CHR 0x93] @ '' collection '' @ [CHR
      0xE5, CHR 0xB7, CHR 0xB2, CHR 0xE5, CHR 0xAF, CHR 0xBC, CHR 0xE5, CHR 0x85, CHR 0xA5] @
      '' runbook/'' @ [CHR 0xE5, CHR 0x8E, CHR 0x86, CHR 0xE5, CHR 0x8F, CHR 0xB2, CHR 0xE6, CHR
      0xA1, CHR 0x88, CHR 0xE4, CHR 0xBE, CHR 0x8B, CHR 0xEF, CHR 0xBC, CHR 0x8C, CHR 0xE5, CHR
      0xB9, CHR 0xB6, CHR 0xE6, CHR 0xA3, CHR 0x80, CHR 0xE6, CHR 0x9F, CHR 0xA5] @
      '' Milvus schema '' @ [CHR 0xE4, CHR 0xB8, CHR 0x8E, CHR 0xE6, CHR 0x96, CHR 0x87, CHR 0xE6,
      CHR 0xA1, CHR 0xA3, CHR 0xE6, CHR 0x95, CHR 0xB0, CHR 0xE3, CHR 0x80, CHR 0x82, CHR 0x0A]"

definition t_degraded_retry :: string where \<comment> \<open>check the log service and retry\<close>
  "t_degraded_retry =
     ''- '' @ [CHR 0xE7, CHR 0xA1, CHR 0xAE, CHR 0xE8, CHR 0xAE, CHR 0xA4, CHR 0xE6, CHR 0x97, CHR
      0xA5, CHR 0xE5, CHR 0xBF, CHR 0x97] @ '' MCP '' @ [CHR 0x60] @ ''/healthz'' @ [CHR 0x60] @
      '' '' @ [CHR 0xE5, CHR 0x92, CHR 0x8C] @ '' '' @ [CHR 0x60] @ ''/tools/query_logs'' @ [CHR
      0x60] @ '' '' @ [CHR 0xE5, CHR 0x8F, CHR 0xAF, CHR 0xE7, CHR 0x94, CHR 0xA8, CHR 0xE5, CHR
      0x90, CHR 0x8E, CHR 0xE9, CHR 0x87, CHR 0x8D, CHR 0xE8, CHR 0xAF, CHR 0x95, CHR 0xE3, CHR
      0x80, CHR 0x82]"

end
