(* ===== verification/Gos_Config.thy ===== *)
theory Gos_Config
  imports Gos_Text Belief_Types
begin

text \<open>
  The configuration of the GoS engine (\<open>internal/ai/agent/gos_engine/config.go\<close>) and the data
  its experts return (\<open>internal/ai/agent/experts/registry.go\<close>). The two callbacks of
  \<open>Config\<close> are not fields here: the event emitter only reports, and the structured
  generator is an argument of the operations that call it. A decimal constant of the source
  is the binary64 value nearest to it.
\<close>

record plan_budget =
  b_LLMCalls :: int
  b_ToolCalls :: int
  b_RAGCalls :: int
  b_TimeoutMs :: int
  b_MaxRetrievalSteps :: int
  b_MaxOutputTokens :: int

definition zero_budget :: plan_budget where
  "zero_budget = \<lparr>b_LLMCalls = 0, b_ToolCalls = 0, b_RAGCalls = 0, b_TimeoutMs = 0, b_MaxRetrievalSteps = 0,
     b_MaxOutputTokens = 0\<rparr>"

record fsm_config =
  fc_GapDelta :: f64
  fc_MinSupport :: int
  fc_MaxSteps :: int
  fc_MinConfidence :: f64

record confidence_config =
  cc_SupportWeight :: f64
  cc_RefuteWeight :: f64
  cc_Deduplicate :: bool

record graph_config =
  gc_CheckpointInterval :: int
  gc_MaxNodes :: int
  gc_MaxEdges :: int
  gc_MaxDepth :: int
  gc_MaxSnapshots :: int
  gc_MaxDeltas :: int

record refinement_candidate =
  rc_Label :: string
  rc_Score :: f64
  rc_Why :: string
  rc_Actionable :: bool

record refinement_rule =
  rr_Parent :: string
  rr_Children :: "refinement_candidate list"

record state_conversion_config =
  sc_Enabled :: bool
  sc_MaxDepth :: int
  sc_TieEpsilon :: f64
  sc_RefinementRules :: "refinement_rule list"

record structured_cognition_config =
  sg_Enabled :: bool
  sg_CallTimeoutMs :: int
  sg_MaxHypotheses :: int
  sg_MaxObservations :: int
  sg_MaxPlanItems :: int
  sg_PlanBudget :: plan_budget

record execution_config =
  ec_MaxConcurrentExperts :: int
  ec_NoProgressRoundLimit :: int

record report_config =
  rp_ConflictStrengthThreshold :: f64
  rp_MaxEvidenceItems :: int
  rp_EvidenceSnippetMaxChars :: int
  rp_MaxNextActions :: int

record expert_config =
  xc_Name :: string
  xc_Description :: string
  xc_Tools :: "string list"
  xc_MaxRetrievalSteps :: int
  xc_Budget :: plan_budget

record gos_config =
  c_Enabled :: bool
  c_ModelPath :: string
  c_Temperature :: f64
  c_MaxTokens :: int
  c_EvidenceMaxChars :: int
  c_SessionMaxSteps :: int
  c_MaxRetrievalSteps :: int
  c_CallTimeoutMs :: int
  c_FSM :: fsm_config
  c_Confidence :: confidence_config
  c_Graph :: graph_config
  c_StateConversion :: state_conversion_config
  c_StructuredCognition :: structured_cognition_config
  c_Execution :: execution_config
  c_Report :: report_config
  c_Experts :: "expert_config list"
  c_HeadAgent :: string

definition candidate_of :: "string \<Rightarrow> rat \<Rightarrow> string \<Rightarrow> refinement_candidate" where
  "candidate_of label score why =
     \<lparr>rc_Label = label, rc_Score = rnd score, rc_Why = why, rc_Actionable = True\<rparr>"

definition default_expert :: "string \<Rightarrow> string \<Rightarrow> expert_config" where
  "default_expert name description =
     \<lparr>xc_Name = name, xc_Description = description,
      xc_Tools = [''query_logs'', ''query_prometheus_instant'', ''query_prometheus_alerts'', ''query_internal_docs''],
      xc_MaxRetrievalSteps = 3,
      xc_Budget = \<lparr>b_LLMCalls = 3, b_ToolCalls = 2, b_RAGCalls = 1, b_TimeoutMs = 30000,
                   b_MaxRetrievalSteps = 2, b_MaxOutputTokens = 1024\<rparr>\<rparr>"

definition DefaultConfig :: gos_config where
  "DefaultConfig =
     \<lparr>c_Enabled = False, c_ModelPath = ''chat_model_fast'', c_Temperature = rnd (8/10), c_MaxTokens = 4096,
      c_EvidenceMaxChars = 8192, c_SessionMaxSteps = 5, c_MaxRetrievalSteps = 3, c_CallTimeoutMs = 30000,
      c_FSM = \<lparr>fc_GapDelta = rnd (3/10), fc_MinSupport = 2, fc_MaxSteps = 3, fc_MinConfidence = rnd (7/10)\<rparr>,
      c_Confidence = \<lparr>cc_SupportWeight = rnd (25/100), cc_RefuteWeight = rnd (35/100), cc_Deduplicate = True\<rparr>,
      c_Graph = \<lparr>gc_CheckpointInterval = 10, gc_MaxNodes = 256, gc_MaxEdges = 512, gc_MaxDepth = 4,
                 gc_MaxSnapshots = 32, gc_MaxDeltas = 10\<rparr>,
      c_StateConversion =
        \<lparr>sc_Enabled = False, sc_MaxDepth = 2, sc_TieEpsilon = rnd (1/100),
         sc_RefinementRules =
           [\<lparr>rr_Parent = t_resource_exhausted,
             rr_Children = [candidate_of t_cpu_saturation (6/10) t_cpu_why,
                            candidate_of t_memory_pressure (3/10) t_memory_why,
                            candidate_of t_disk_saturation (1/10) t_disk_why]\<rparr>,
            \<lparr>rr_Parent = t_network_problem,
             rr_Children = [candidate_of t_latency_rise (5/10) t_latency_why,
                            candidate_of t_packet_loss (3/10) t_packet_why,
                            candidate_of t_dns_failure (2/10) t_dns_why]\<rparr>,
            \<lparr>rr_Parent = t_config_error,
             rr_Children = [candidate_of t_app_config (5/10) t_app_config_why,
                            candidate_of t_dep_config (3/10) t_dep_config_why,
                            candidate_of t_release_param (2/10) t_release_param_why]\<rparr>]\<rparr>,
      c_StructuredCognition =
        \<lparr>sg_Enabled = False, sg_CallTimeoutMs = 30000, sg_MaxHypotheses = 4, sg_MaxObservations = 8,
         sg_MaxPlanItems = 2,
         sg_PlanBudget = \<lparr>b_LLMCalls = 3, b_ToolCalls = 2, b_RAGCalls = 1, b_TimeoutMs = 30000,
                          b_MaxRetrievalSteps = 2, b_MaxOutputTokens = 1024\<rparr>\<rparr>,
      c_Execution = \<lparr>ec_MaxConcurrentExperts = 3, ec_NoProgressRoundLimit = 2\<rparr>,
      c_Report = \<lparr>rp_ConflictStrengthThreshold = rnd (5/10), rp_MaxEvidenceItems = 8,
                  rp_EvidenceSnippetMaxChars = 512, rp_MaxNextActions = 3\<rparr>,
      c_Experts = [default_expert ''linux_sre'' (''Linux SRE '' @ t_expert),
                   default_expert ''network_sre'' (t_network @ '' SRE '' @ t_expert),
                   default_expert ''database_sre'' (t_database @ '' SRE '' @ t_expert)],
      c_HeadAgent = ''sre_commander''\<rparr>"

definition ToFSMThresholds :: "gos_config \<Rightarrow> fsm_thresholds" where
  "ToFSMThresholds c =
     \<lparr>th_GapDelta = fc_GapDelta (c_FSM c), th_MinSupport = fc_MinSupport (c_FSM c),
      th_MaxSteps = fc_MaxSteps (c_FSM c)\<rparr>"

definition ToGraphPolicy :: "gos_config \<Rightarrow> graph_policy" where
  "ToGraphPolicy c =
     \<lparr>CheckpointInterval = gc_CheckpointInterval (c_Graph c), MaxNodes = gc_MaxNodes (c_Graph c),
      MaxEdges = gc_MaxEdges (c_Graph c), MaxDepth = gc_MaxDepth (c_Graph c),
      MaxSnapshots = gc_MaxSnapshots (c_Graph c), MaxDeltas = gc_MaxDeltas (c_Graph c)\<rparr>"

fun firstNotPositive :: "(string \<times> int) list \<Rightarrow> goerr option" where
  "firstNotPositive [] = None"
| "firstNotPositive ((name, v) # rest) =
     (if v \<le> 0 then Some (Errorf ''aiops.gos.graph.%s must be positive'' [AStr name]) else firstNotPositive rest)"

definition ValidateGraphConfig :: "gos_config option \<Rightarrow> goerr option" where
  "ValidateGraphConfig cfg =
     (case cfg of
        None \<Rightarrow> Some (Errorf ''GoS config is required'' [])
      | Some c \<Rightarrow>
          (case firstNotPositive
                  [(''checkpoint_interval'', gc_CheckpointInterval (c_Graph c)),
                   (''max_nodes'', gc_MaxNodes (c_Graph c)), (''max_edges'', gc_MaxEdges (c_Graph c)),
                   (''max_depth'', gc_MaxDepth (c_Graph c)), (''max_snapshots'', gc_MaxSnapshots (c_Graph c)),
                   (''max_deltas'', gc_MaxDeltas (c_Graph c))] of
             Some err \<Rightarrow> Some err
           | None \<Rightarrow>
               if sc_Enabled (c_StateConversion c) \<and> gc_MaxDepth (c_Graph c) < sc_MaxDepth (c_StateConversion c)
               then Some (Errorf ''aiops.gos.graph.max_depth must be >= state_conversion.max_depth'' [])
               else None))"

subsection \<open>What experts return\<close>

text \<open>\<open>EvidenceRelation\<close> is a string the model's output may set to anything; these are its three
  constants.\<close>

definition relation_support :: string where "relation_support = ''support''"
definition relation_refute :: string where "relation_refute = ''refute''"
definition relation_neutral :: string where "relation_neutral = ''neutral''"

record evidence_item =
  ev_SourceType :: string
  ev_SourceID :: string
  ev_Title :: string
  ev_Snippet :: string
  ev_Score :: f64
  ev_Relation :: string
  ev_TargetHypothesisID :: string
  ev_Strength :: f64
  ev_ToolName :: string
  ev_ArtifactRef :: string
  ev_ObservationTime :: gotime

record hypothesis_refinement =
  hr_Label :: string
  hr_Score :: f64
  hr_Why :: string
  hr_Actionable :: bool

record tool_error =
  te_ToolName :: string
  te_Action :: string
  te_Error :: string

record expert_analysis =
  xa_ExpertName :: string
  xa_Analysis :: string
  xa_Evidence :: "evidence_item list"
  xa_Refinements :: "hypothesis_refinement list"
  xa_CurrentHypothesisActionable :: "bool option"
  xa_Confidence :: f64
  xa_Status :: string
  xa_DegradationReason :: string
  xa_ToolErrors :: "tool_error list"
  xa_ToolCalls :: int
  xa_RAGCalls :: int
  xa_LLMCalls :: int

lemma relations_distinct [simp]:
  "relation_support \<noteq> relation_refute" "relation_refute \<noteq> relation_support"
  "relation_support \<noteq> relation_neutral" "relation_neutral \<noteq> relation_support"
  "relation_refute \<noteq> relation_neutral" "relation_neutral \<noteq> relation_refute"
  by (simp_all add: relation_support_def relation_refute_def relation_neutral_def)

lemma firstNotPositive_None: "firstNotPositive cs = None \<longleftrightarrow> (\<forall>(name, v) \<in> set cs. 0 < v)"
  by (induction cs rule: firstNotPositive.induct) auto

text \<open>A configuration that passes the check reaches the graph unchanged: normalising the policy
  replaces nothing.\<close>

lemma valid_config_policy:
  "ValidateGraphConfig (Some c) = None \<Longrightarrow>
   0 < gc_CheckpointInterval (c_Graph c) \<and> 0 < gc_MaxNodes (c_Graph c) \<and> 0 < gc_MaxEdges (c_Graph c) \<and>
   0 < gc_MaxDepth (c_Graph c) \<and> 0 < gc_MaxSnapshots (c_Graph c) \<and> 0 < gc_MaxDeltas (c_Graph c) \<and>
   (sc_Enabled (c_StateConversion c) \<longrightarrow> sc_MaxDepth (c_StateConversion c) \<le> gc_MaxDepth (c_Graph c))"
  by (auto simp: ValidateGraphConfig_def firstNotPositive_None simp del: firstNotPositive.simps
      split: option.splits if_splits)

subsection \<open>Small instances\<close>

text \<open>Concrete inputs of the witnesses: a runtime without hashing, a unit budget and a configuration whose numbers are
  short fractions, so that they evaluate quickly.\<close>

definition demo_plan_rt :: "unit gort" where
  "demo_plan_rt = \<lparr>rt_fmtv = (\<lambda>_. []), rt_hash_node = (\<lambda>_. ()), rt_hash_edge = (\<lambda>_. ()), rt_hist_bytes = (\<lambda>_ _. 0),
     rt_lower = (\<lambda>s. s), rt_fold = (\<lambda>s. s)\<rparr>"

definition demo_budget_unit :: plan_budget where
  "demo_budget_unit = \<lparr>b_LLMCalls = 1, b_ToolCalls = 1, b_RAGCalls = 1, b_TimeoutMs = 1, b_MaxRetrievalSteps = 1,
     b_MaxOutputTokens = 1\<rparr>"

definition demo_small :: gos_config where
  "demo_small =
     \<lparr>c_Enabled = True, c_ModelPath = [], c_Temperature = 0, c_MaxTokens = 1, c_EvidenceMaxChars = 1,
      c_SessionMaxSteps = 2, c_MaxRetrievalSteps = 1, c_CallTimeoutMs = 1,
      c_FSM = \<lparr>fc_GapDelta = 0, fc_MinSupport = 1, fc_MaxSteps = 1, fc_MinConfidence = 1/2\<rparr>,
      c_Confidence = \<lparr>cc_SupportWeight = 1/4, cc_RefuteWeight = 1/4, cc_Deduplicate = True\<rparr>,
      c_Graph = \<lparr>gc_CheckpointInterval = 10, gc_MaxNodes = 20, gc_MaxEdges = 20, gc_MaxDepth = 4,
                 gc_MaxSnapshots = 10, gc_MaxDeltas = 10\<rparr>,
      c_StateConversion = \<lparr>sc_Enabled = False, sc_MaxDepth = 1, sc_TieEpsilon = 0, sc_RefinementRules = []\<rparr>,
      c_StructuredCognition = \<lparr>sg_Enabled = False, sg_CallTimeoutMs = 1, sg_MaxHypotheses = 3, sg_MaxObservations = 1,
                               sg_MaxPlanItems = 1, sg_PlanBudget = demo_budget_unit\<rparr>,
      c_Execution = \<lparr>ec_MaxConcurrentExperts = 1, ec_NoProgressRoundLimit = 0\<rparr>,
      c_Report = \<lparr>rp_ConflictStrengthThreshold = 1/2, rp_MaxEvidenceItems = 2, rp_EvidenceSnippetMaxChars = 9,
                  rp_MaxNextActions = 2\<rparr>,
      c_Experts = [], c_HeadAgent = []\<rparr>"

end
