(* ===== verification/Gos_Validate.thy ===== *)
theory Gos_Validate
  imports Gos_Config Belief_Fsm
begin

text \<open>
  \<open>validateBeliefGraph\<close> (\<open>gos_engine/evidence_update.go\<close>): the check every update of the
  engine ends with. The functions follow the source's three loops; \<open>graph_valid\<close> says what a
  valid graph is, and \<open>validate_valid\<close> shows that the loops accept exactly the valid graphs.
\<close>

definition clamp01 :: "f64 \<Rightarrow> f64" where
  "clamp01 value = (if value < 0 then 0 else if value > 1 then 1 else value)"

text \<open>The type assertions \<open>v, _ := m[k].(string)\<close>, \<open>.(bool)\<close> and \<open>.(float64)\<close>, which a missing
  key and a \<open>nil\<close> map fail too.\<close>

definition attr_string :: "attrs \<Rightarrow> string \<Rightarrow> string" where
  "attr_string m k = (case gm_get m k of Some (VStr s) \<Rightarrow> s | _ \<Rightarrow> [])"

definition attr_bool :: "attrs \<Rightarrow> string \<Rightarrow> bool" where
  "attr_bool m k = (case gm_get m k of Some (VBool b) \<Rightarrow> b | _ \<Rightarrow> False)"

definition attr_float :: "attrs \<Rightarrow> string \<Rightarrow> f64 option" where
  "attr_float m k = (case gm_get m k of Some (VNum x) \<Rightarrow> Some x | _ \<Rightarrow> None)"

definition provenanceKey :: "string \<Rightarrow> string \<Rightarrow> string \<Rightarrow> string" where
  "provenanceKey sourceType sourceID target =
     join [CHR 0x1F] [trim_space sourceType, trim_space sourceID, trim_space target]"

definition known_status :: "node_status \<Rightarrow> bool" where
  "known_status s \<longleftrightarrow> s = StatusActive \<or> s = StatusRetracted \<or> s = StatusSuperseded"

subsection \<open>The nodes\<close>

definition relationStrengthError :: "string \<Rightarrow> evidence_source \<Rightarrow> goerr option" where
  "relationStrengthError nodeID s =
     (if es_Relation s = relation_support \<or> es_Relation s = relation_refute
      then (if es_Strength s \<le> 0 \<or> es_Strength s > 1
            then Some (Errorf ''evidence node %q has invalid support/refute strength'' [AStr nodeID]) else None)
      else if es_Relation s = relation_neutral
      then (if es_Strength s < 0 \<or> es_Strength s > 1
            then Some (Errorf ''evidence node %q has invalid neutral strength'' [AStr nodeID]) else None)
      else Some (Errorf ''evidence node %q has invalid relation %q'' [AStr nodeID, AStr (es_Relation s)]))"

definition validateEvidenceNode ::
    "'h belief_graph \<Rightarrow> (string, string) gomap \<Rightarrow> string \<Rightarrow> node \<Rightarrow> goerr option" where
  "validateEvidenceNode g dedupKeys nodeID n =
     (case n_Source n of
        None \<Rightarrow> Some (Errorf ''evidence node %q has no source provenance'' [AStr nodeID])
      | Some s \<Rightarrow>
          if blank (es_SourceType s) \<or> blank (es_SourceID s)
          then Some (Errorf ''evidence node %q has no source provenance'' [AStr nodeID])
          else if es_Timestamp s = 0
          then Some (Errorf ''evidence node %q has no observation time'' [AStr nodeID])
          else case relationStrengthError nodeID s of
            Some err \<Rightarrow> Some err
          | None \<Rightarrow>
             (case gm_get (Nodes g) (es_TargetHypothesisID s) of
                None \<Rightarrow> Some (Errorf ''evidence node %q has invalid target hypothesis %q''
                          [AStr nodeID, AStr (es_TargetHypothesisID s)])
              | Some target \<Rightarrow>
                  if n_Type target \<noteq> NodeHypothesis
                  then Some (Errorf ''evidence node %q has invalid target hypothesis %q''
                          [AStr nodeID, AStr (es_TargetHypothesisID s)])
                  else if n_Status n = StatusActive \<and> n_Status target \<noteq> StatusActive
                  then Some (Errorf ''active evidence node %q targets inactive hypothesis %q''
                          [AStr nodeID, AStr (n_ID target)])
                  else case n_Attrs n of
                    None \<Rightarrow> Some (Errorf ''evidence node %q has no attributes'' [AStr nodeID])
                  | Some m \<Rightarrow>
                      if attr_string m ''relation'' \<noteq> es_Relation s
                         \<or> attr_string m ''target_hypothesis_id'' \<noteq> es_TargetHypothesisID s
                         \<or> attr_float m ''strength'' \<noteq> Some (es_Strength s)
                      then Some (Errorf ''evidence node %q attributes do not match provenance'' [AStr nodeID])
                      else if blank (attr_string m ''dedup_key'')
                      then Some (Errorf ''evidence node %q has no dedup key'' [AStr nodeID])
                      else case gm_get dedupKeys (attr_string m ''dedup_key'') of
                        Some existingID \<Rightarrow>
                          Some (Errorf ''evidence nodes %q and %q share dedup key'' [AStr existingID, AStr nodeID])
                      | None \<Rightarrow>
                          if attr_string m ''dedup_key'' \<noteq>
                             provenanceKey (es_SourceType s) (es_SourceID s) (es_TargetHypothesisID s)
                          then Some (Errorf ''evidence node %q dedup key does not match provenance'' [AStr nodeID])
                          else None))"

definition validateNode ::
    "'h belief_graph \<Rightarrow> (string, string) gomap \<Rightarrow> string \<Rightarrow> node \<Rightarrow> goerr option" where
  "validateNode g dedupKeys nodeID n =
     (if n_ID n \<noteq> nodeID
      then Some (Errorf ''node map key %q does not match id %q'' [AStr nodeID, AStr (n_ID n)])
      else case n_Type n of
        OtherNodeType t \<Rightarrow> Some (Errorf ''node %q has invalid type %q'' [AStr nodeID, AStr t])
      | _ \<Rightarrow>
          if n_Score n < 0 \<or> n_Score n > 1
          then Some (Errorf ''node %q score must be within [0,1]'' [AStr nodeID])
          else case n_Status n of
            OtherStatus t \<Rightarrow> Some (Errorf ''node %q has invalid status %q'' [AStr nodeID, AStr t])
          | _ \<Rightarrow> if n_Type n \<noteq> NodeEvidence then None else validateEvidenceNode g dedupKeys nodeID n)"

definition nodeDedupKey :: "node \<Rightarrow> string" where
  "nodeDedupKey n = (case n_Attrs n of None \<Rightarrow> [] | Some m \<Rightarrow> attr_string m ''dedup_key'')"

fun validateNodes ::
    "'h belief_graph \<Rightarrow> (string, string) gomap \<Rightarrow> (string \<times> node) list \<Rightarrow> goerr option" where
  "validateNodes g dedupKeys [] = None"
| "validateNodes g dedupKeys ((nodeID, n) # rest) =
     (case validateNode g dedupKeys nodeID n of
        Some err \<Rightarrow> Some err
      | None \<Rightarrow>
          validateNodes g
            (if n_Type n = NodeEvidence then gm_put (nodeDedupKey n) nodeID dedupKeys else dedupKeys) rest)"

subsection \<open>The edges\<close>

definition edgeTypeName :: "edge_type \<Rightarrow> string" where
  "edgeTypeName t = (case t of EdgeSupport \<Rightarrow> ''support'' | EdgeRefute \<Rightarrow> ''refute'' | EdgeRefines \<Rightarrow> ''refines''
     | EdgeCausal \<Rightarrow> ''causal'' | OtherEdgeType s \<Rightarrow> s)"

definition evidenceEdgeError :: "edge \<Rightarrow> node \<Rightarrow> node \<Rightarrow> goerr option" where
  "evidenceEdgeError e source target =
     (let name = AStr (edgeTypeName (e_Type e));
          expected = (if e_Type e = EdgeRefute then relation_refute else relation_support)
      in if n_Type source \<noteq> NodeEvidence \<or> n_Type target \<noteq> NodeHypothesis
         then Some (Errorf ''%s edge must connect evidence to hypothesis'' [name])
         else case n_Source source of
           None \<Rightarrow> Some (Errorf ''%s edge target does not match evidence provenance'' [name])
         | Some s \<Rightarrow>
             if es_TargetHypothesisID s \<noteq> n_ID target
             then Some (Errorf ''%s edge target does not match evidence provenance'' [name])
             else if es_Relation s \<noteq> expected
             then Some (Errorf ''%s edge does not match evidence relation %q'' [name, AStr (es_Relation s)])
             else if e_Confidence e \<noteq> es_Strength s
             then Some (Errorf ''%s edge confidence does not match evidence strength'' [name])
             else None)"

definition refinesEdgeError :: "node \<Rightarrow> node \<Rightarrow> goerr option" where
  "refinesEdgeError source target =
     (if n_Type target \<noteq> NodeHypothesis then Some (Errorf ''refines edge must target hypothesis'' [])
      else case n_Type source of
        NodeSignal \<Rightarrow>
          if n_Level target \<noteq> 1 then Some (Errorf ''signal refines edge must target level 1 hypothesis'' []) else None
      | NodeHypothesis \<Rightarrow>
          if n_Level target \<noteq> n_Level source + 1
          then Some (Errorf ''hypothesis refines edge must advance exactly one level'' []) else None
      | _ \<Rightarrow> Some (Errorf ''refines edge must start from signal or hypothesis'' []))"

definition validateEdge :: "'h belief_graph \<Rightarrow> edge \<Rightarrow> goerr option" where
  "validateEdge g e =
     (let ends = [AStr (e_Src e), AStr (e_Dst e)];
          status = (case e_Status e of
                      OtherStatus t \<Rightarrow> Some (Errorf ''edge %q -> %q has invalid status %q'' (ends @ [AStr t]))
                    | _ \<Rightarrow> None)
      in case (gm_get (Nodes g) (e_Src e), gm_get (Nodes g) (e_Dst e)) of
           (Some source, Some target) \<Rightarrow>
             if e_Confidence e < 0 \<or> e_Confidence e > 1
             then Some (Errorf ''edge %q -> %q confidence must be within [0,1]'' ends)
             else (case e_Type e of
                 EdgeSupport \<Rightarrow> (case evidenceEdgeError e source target of Some err \<Rightarrow> Some err | None \<Rightarrow> status)
               | EdgeRefute \<Rightarrow> (case evidenceEdgeError e source target of Some err \<Rightarrow> Some err | None \<Rightarrow> status)
               | EdgeRefines \<Rightarrow> (case refinesEdgeError source target of Some err \<Rightarrow> Some err | None \<Rightarrow> status)
               | EdgeCausal \<Rightarrow> status
               | OtherEdgeType t \<Rightarrow> Some (Errorf ''edge %q -> %q has invalid type %q'' (ends @ [AStr t])))
         | _ \<Rightarrow> Some (Errorf ''edge %q -> %q has missing endpoint'' ends))"

text \<open>The edge loop gives the error, or the number of active support and refute edges of each
  evidence node (under the node's \<open>ID\<close>).\<close>

fun validateEdges ::
    "'h belief_graph \<Rightarrow> (string, int) gomap \<Rightarrow> edge list \<Rightarrow> goerr + (string, int) gomap" where
  "validateEdges g activeEvidenceEdges [] = Inr activeEvidenceEdges"
| "validateEdges g activeEvidenceEdges (e # es) =
     (case validateEdge g e of
        Some err \<Rightarrow> Inl err
      | None \<Rightarrow>
          validateEdges g
            (if (e_Type e = EdgeSupport \<or> e_Type e = EdgeRefute) \<and> e_Status e = StatusActive
             then (case gm_get (Nodes g) (e_Src e) of
                     None \<Rightarrow> activeEvidenceEdges
                   | Some source \<Rightarrow>
                       gm_put (n_ID source) (gm_int activeEvidenceEdges (n_ID source) + 1) activeEvidenceEdges)
             else activeEvidenceEdges) es)"

text \<open>The last loop. Its \<open>node.Source\<close> is never \<open>nil\<close>: the first loop refuses evidence without
  a source.\<close>

fun validateRelationEdges :: "(string, int) gomap \<Rightarrow> (string \<times> node) list \<Rightarrow> goerr option" where
  "validateRelationEdges counts [] = None"
| "validateRelationEdges counts ((nodeID, n) # rest) =
     (if n_Type n \<noteq> NodeEvidence \<or> n_Status n \<noteq> StatusActive then validateRelationEdges counts rest
      else case n_Source n of
        None \<Rightarrow> validateRelationEdges counts rest
      | Some s \<Rightarrow>
          if (es_Relation s = relation_support \<or> es_Relation s = relation_refute) \<and> gm_int counts nodeID \<noteq> 1
          then Some (Errorf ''active %s evidence node %q must have exactly one active relation edge''
                 [AStr (es_Relation s), AStr nodeID])
          else if es_Relation s = relation_neutral \<and> gm_int counts nodeID \<noteq> 0
          then Some (Errorf ''neutral evidence node %q cannot have support/refute edge'' [AStr nodeID])
          else validateRelationEdges counts rest)"

definition validateBeliefGraph :: "'h belief_graph \<Rightarrow> goerr option" where
  "validateBeliefGraph g =
     (case validateNodes g [] (Nodes g) of
        Some err \<Rightarrow> Some err
      | None \<Rightarrow>
          (case validateEdges g [] (map snd (Edges g)) of
             Inl err \<Rightarrow> Some err
           | Inr counts \<Rightarrow> validateRelationEdges counts (Nodes g)))"

subsection \<open>What a valid graph is\<close>

definition relation_strength_ok :: "evidence_source \<Rightarrow> bool" where
  "relation_strength_ok s \<longleftrightarrow>
     (es_Relation s = relation_support \<or> es_Relation s = relation_refute) \<and> 0 < es_Strength s \<and> es_Strength s \<le> 1 \<or>
     es_Relation s = relation_neutral \<and> 0 \<le> es_Strength s \<and> es_Strength s \<le> 1"

definition target_ok :: "'h belief_graph \<Rightarrow> node \<Rightarrow> string \<Rightarrow> bool" where
  "target_ok g n k =
     (case gm_get (Nodes g) k of
        None \<Rightarrow> False
      | Some t \<Rightarrow> n_Type t = NodeHypothesis \<and> (n_Status n = StatusActive \<longrightarrow> n_Status t = StatusActive))"

definition provenance_ok :: "attrs \<Rightarrow> evidence_source \<Rightarrow> bool" where
  "provenance_ok m s \<longleftrightarrow>
     \<not> blank (es_SourceType s) \<and> \<not> blank (es_SourceID s) \<and> es_Timestamp s \<noteq> 0 \<and>
     attr_string m ''relation'' = es_Relation s \<and>
     attr_string m ''target_hypothesis_id'' = es_TargetHypothesisID s \<and>
     attr_float m ''strength'' = Some (es_Strength s) \<and>
     attr_string m ''dedup_key'' = provenanceKey (es_SourceType s) (es_SourceID s) (es_TargetHypothesisID s) \<and>
     \<not> blank (attr_string m ''dedup_key'')"

definition evidence_ok :: "'h belief_graph \<Rightarrow> node \<Rightarrow> bool" where
  "evidence_ok g n =
     (case (n_Source n, n_Attrs n) of
        (Some s, Some m) \<Rightarrow> relation_strength_ok s \<and> target_ok g n (es_TargetHypothesisID s) \<and> provenance_ok m s
      | _ \<Rightarrow> False)"

definition node_ok :: "'h belief_graph \<Rightarrow> string \<Rightarrow> node \<Rightarrow> bool" where
  "node_ok g k n \<longleftrightarrow> n_ID n = k \<and> n_Type n \<in> {NodeSignal, NodeEvidence, NodeHypothesis} \<and>
     0 \<le> n_Score n \<and> n_Score n \<le> 1 \<and> known_status (n_Status n) \<and> (n_Type n = NodeEvidence \<longrightarrow> evidence_ok g n)"

definition evidence_edge_ok :: "edge \<Rightarrow> node \<Rightarrow> node \<Rightarrow> bool" where
  "evidence_edge_ok e source target \<longleftrightarrow> n_Type source = NodeEvidence \<and> n_Type target = NodeHypothesis \<and>
     (case n_Source source of
        None \<Rightarrow> False
      | Some s \<Rightarrow> es_TargetHypothesisID s = n_ID target \<and> e_Confidence e = es_Strength s \<and>
          es_Relation s = (if e_Type e = EdgeRefute then relation_refute else relation_support))"

definition refines_edge_ok :: "node \<Rightarrow> node \<Rightarrow> bool" where
  "refines_edge_ok source target \<longleftrightarrow> n_Type target = NodeHypothesis \<and>
     (n_Type source = NodeSignal \<and> n_Level target = 1 \<or>
      n_Type source = NodeHypothesis \<and> n_Level target = n_Level source + 1)"

definition edge_ok :: "'h belief_graph \<Rightarrow> edge \<Rightarrow> bool" where
  "edge_ok g e =
     (case (gm_get (Nodes g) (e_Src e), gm_get (Nodes g) (e_Dst e)) of
        (Some source, Some target) \<Rightarrow>
          0 \<le> e_Confidence e \<and> e_Confidence e \<le> 1 \<and> known_status (e_Status e) \<and>
          (case e_Type e of
             EdgeSupport \<Rightarrow> evidence_edge_ok e source target
           | EdgeRefute \<Rightarrow> evidence_edge_ok e source target
           | EdgeRefines \<Rightarrow> refines_edge_ok source target
           | EdgeCausal \<Rightarrow> True
           | OtherEdgeType t \<Rightarrow> False)
      | _ \<Rightarrow> False)"

definition active_evidence_edge :: "string \<Rightarrow> edge \<Rightarrow> bool" where
  "active_evidence_edge k e \<longleftrightarrow>
     e_Src e = k \<and> (e_Type e = EdgeSupport \<or> e_Type e = EdgeRefute) \<and> e_Status e = StatusActive"

text \<open>The active relation edges an active evidence node must have: one, or none if neutral.\<close>

definition relation_edges_ok :: "edge list \<Rightarrow> string \<Rightarrow> node \<Rightarrow> bool" where
  "relation_edges_ok es k n \<longleftrightarrow>
     (n_Type n = NodeEvidence \<and> n_Status n = StatusActive \<longrightarrow>
        (case n_Source n of
           None \<Rightarrow> True
         | Some s \<Rightarrow>
             if es_Relation s = relation_neutral then count_if (active_evidence_edge k) es = 0
             else if es_Relation s = relation_support \<or> es_Relation s = relation_refute
             then count_if (active_evidence_edge k) es = 1 else True))"

definition evidence_keys :: "(string \<times> node) list \<Rightarrow> string list" where
  "evidence_keys ns = map (\<lambda>kn. nodeDedupKey (snd kn)) (filter (\<lambda>kn. n_Type (snd kn) = NodeEvidence) ns)"

definition graph_valid :: "'h belief_graph \<Rightarrow> bool" where
  "graph_valid g \<longleftrightarrow>
     (\<forall>(k, n) \<in> set (Nodes g). node_ok g k n \<and> relation_edges_ok (map snd (Edges g)) k n) \<and>
     (\<forall>(k, e) \<in> set (Edges g). edge_ok g e) \<and> distinct (evidence_keys (Nodes g))"

subsection \<open>The loops accept the valid graphs\<close>

lemma relationStrength_None: "relationStrengthError k s = None \<longleftrightarrow> relation_strength_ok s"
  by (auto simp: relationStrengthError_def relation_strength_ok_def)

lemma validateEvidenceNode_None:
  "validateEvidenceNode g seen k n = None \<longleftrightarrow> evidence_ok g n \<and> gm_get seen (nodeDedupKey n) = None"
proof (cases "n_Source n")
  case None
  then show ?thesis by (simp add: validateEvidenceNode_def evidence_ok_def)
next
  case (Some s)
  show ?thesis
  proof (cases "n_Attrs n")
    case None
    with Some show ?thesis
      by (simp add: validateEvidenceNode_def evidence_ok_def split: option.splits)
  next
    case attrs: (Some m)
    show ?thesis
      using Some attrs relationStrength_None [of k s]
      by (cases "gm_get (Nodes g) (es_TargetHypothesisID s)"; cases "relationStrengthError k s";
          cases "gm_get seen (nodeDedupKey n)")
        (auto simp: validateEvidenceNode_def evidence_ok_def provenance_ok_def target_ok_def nodeDedupKey_def)
  qed
qed

lemma validateNode_None:
  "validateNode g seen k n = None \<longleftrightarrow>
     node_ok g k n \<and> (n_Type n = NodeEvidence \<longrightarrow> gm_get seen (nodeDedupKey n) = None)"
  by (cases "n_Type n"; cases "n_Status n")
    (auto simp: validateNode_def node_ok_def known_status_def validateEvidenceNode_None)

lemma evidence_keys_Cons:
  "evidence_keys ((k, n) # ns) =
     (if n_Type n = NodeEvidence then nodeDedupKey n # evidence_keys ns else evidence_keys ns)"
  by (simp add: evidence_keys_def)

lemma validateNodes_None:
  "validateNodes g seen ns = None \<longleftrightarrow>
     (\<forall>(k, n) \<in> set ns. node_ok g k n) \<and> distinct (evidence_keys ns) \<and>
     (\<forall>key \<in> set (evidence_keys ns). gm_get seen key = None)"
proof (induction g seen ns rule: validateNodes.induct)
  case (1 g seen)
  then show ?case by (simp add: evidence_keys_def)
next
  case (2 g seen k n rest)
  show ?case
  proof (cases "validateNode g seen k n")
    case None
    let ?seen = "if n_Type n = NodeEvidence then gm_put (nodeDedupKey n) k seen else seen"
    have step: "validateNodes g seen ((k, n) # rest) = validateNodes g ?seen rest" using None by simp
    have "node_ok g k n \<and> (n_Type n = NodeEvidence \<longrightarrow> gm_get seen (nodeDedupKey n) = None)"
      using None unfolding validateNode_None .
    then show ?thesis
      unfolding step 2 [OF None] by (auto simp: evidence_keys_Cons gm_get_put split: if_splits)
  next
    case (Some err)
    then show ?thesis
      using validateNode_None [of g seen k n] by (auto simp: evidence_keys_Cons)
  qed
qed

lemma evidenceEdge_None:
  "e_Type e = EdgeSupport \<or> e_Type e = EdgeRefute \<Longrightarrow>
   evidenceEdgeError e source target = None \<longleftrightarrow> evidence_edge_ok e source target"
  by (cases "n_Source source") (auto simp: evidenceEdgeError_def evidence_edge_ok_def Let_def)

lemma refinesEdge_None: "refinesEdgeError source target = None \<longleftrightarrow> refines_edge_ok source target"
  by (cases "n_Type source") (auto simp: refinesEdgeError_def refines_edge_ok_def)

lemma validateEdge_None: "validateEdge g e = None \<longleftrightarrow> edge_ok g e"
proof (cases "gm_get (Nodes g) (e_Src e)"; cases "gm_get (Nodes g) (e_Dst e)")
  fix source target
  assume ends: "gm_get (Nodes g) (e_Src e) = Some source" "gm_get (Nodes g) (e_Dst e) = Some target"
  have "evidenceEdgeError e source target = None \<longleftrightarrow> evidence_edge_ok e source target"
    if "e_Type e = EdgeSupport \<or> e_Type e = EdgeRefute"
    using evidenceEdge_None that .
  with ends show ?thesis
    using refinesEdge_None [of source target]
    by (cases "e_Type e"; cases "e_Status e")
      (auto simp: validateEdge_def edge_ok_def known_status_def Let_def split: option.splits)
qed (simp_all add: validateEdge_def edge_ok_def Let_def)

lemma validateEdges_Inr: "(\<exists>counts. validateEdges g acc es = Inr counts) \<longleftrightarrow> (\<forall>e \<in> set es. edge_ok g e)"
proof (induction es arbitrary: acc)
  case Nil
  then show ?case by simp
next
  case (Cons e es)
  then show ?case
    using validateEdge_None [of g e] by (cases "validateEdge g e") simp_all
qed

lemma validateEdges_counts:
  assumes "\<And>k n. gm_get (Nodes g) k = Some n \<Longrightarrow> n_ID n = k"
  shows "validateEdges g acc es = Inr counts \<Longrightarrow>
    gm_int counts k = gm_int acc k + count_if (active_evidence_edge k) es"
proof (induction es arbitrary: acc)
  case Nil
  then show ?case by simp
next
  case (Cons e es)
  then have None: "validateEdge g e = None" by (cases "validateEdge g e") simp_all
  then have "edge_ok g e" unfolding validateEdge_None .
  then obtain source where source: "gm_get (Nodes g) (e_Src e) = Some source"
    by (auto simp: edge_ok_def split: option.splits)
  then have "n_ID source = e_Src e" by (rule assms)
  then show ?case
    using Cons.IH Cons.prems None source
    by (force simp: active_evidence_edge_def gm_int_def gm_get_put split: if_splits)
qed

lemma validateRelationEdges_None:
  "validateRelationEdges counts ns = None \<longleftrightarrow>
     (\<forall>(k, n) \<in> set ns. n_Type n = NodeEvidence \<and> n_Status n = StatusActive \<longrightarrow>
        (case n_Source n of
           None \<Rightarrow> True
         | Some s \<Rightarrow>
             if es_Relation s = relation_neutral then gm_int counts k = 0
             else if es_Relation s = relation_support \<or> es_Relation s = relation_refute
             then gm_int counts k = 1 else True))"
proof (induction counts ns rule: validateRelationEdges.induct)
  case (1 counts)
  then show ?case by simp
next
  case (2 counts k n rest)
  show ?case
    by (cases "n_Source n"; cases "n_Type n = NodeEvidence \<and> n_Status n = StatusActive")
      (auto simp: 2)
qed

lemma validate_valid_iff: "validateBeliefGraph g = None \<longleftrightarrow> graph_valid g"
proof (cases "validateNodes g [] (Nodes g)")
  case (Some err)
  then show ?thesis
    using validateNodes_None [of g "[]" "Nodes g"]
    by (auto simp: validateBeliefGraph_def graph_valid_def)
next
  case None
  have nodes: "(\<forall>(k, n) \<in> set (Nodes g). node_ok g k n) \<and> distinct (evidence_keys (Nodes g))"
    using None validateNodes_None [of g "[]" "Nodes g"] by blast
  then have ids: "n_ID n = k" if "gm_get (Nodes g) k = Some n" for k n
    using that by (force simp: node_ok_def dest: gm_get_in)
  show ?thesis
  proof (cases "validateEdges g [] (map snd (Edges g))")
    case (Inl err)
    then have "\<not> (\<forall>e \<in> set (map snd (Edges g)). edge_ok g e)"
      using validateEdges_Inr [of g "[]" "map snd (Edges g)"] by simp
    with None Inl show ?thesis
      by (force simp: validateBeliefGraph_def graph_valid_def)
  next
    case (Inr counts)
    then have "\<forall>e \<in> set (map snd (Edges g)). edge_ok g e"
      using validateEdges_Inr [of g "[]" "map snd (Edges g)"] by blast
    then have edges: "\<forall>(k, e) \<in> set (Edges g). edge_ok g e" by auto
    have counts: "gm_int counts k = count_if (active_evidence_edge k) (map snd (Edges g))" for k
      using validateEdges_counts [OF ids Inr, of k] by (simp add: gm_int_def)
    have "validateBeliefGraph g = validateRelationEdges counts (Nodes g)"
      using None Inr by (simp add: validateBeliefGraph_def)
    also have "\<dots> = None \<longleftrightarrow> (\<forall>(k, n) \<in> set (Nodes g). relation_edges_ok (map snd (Edges g)) k n)"
      unfolding validateRelationEdges_None counts relation_edges_ok_def ..
    also have "\<dots> \<longleftrightarrow> graph_valid g"
      using nodes edges unfolding graph_valid_def by fast
    finally show ?thesis .
  qed
qed

end
