(* ===== verification/Gos_Client.thy ===== *)
theory Gos_Client
  imports Gos_Validate
begin

text \<open>
  The contract between the belief graph and the parts of the engine that change it by
  copy-on-write (ingest, refinement, backtracking): a callback that does to its private copy
  only what a copy allows, and that succeeds only with a graph the validation accepts.
  The interface \<open>graph_client\<close> states it and shows what follows for the shared graph.
\<close>

lemma graph_valid_cong:
  assumes "Nodes g' = Nodes g" "Edges g' = Edges g"
  shows "graph_valid g' \<longleftrightarrow> graph_valid g"
proof -
  have "node_ok g' k n = node_ok g k n" for k n
    using assms by (simp add: node_ok_def evidence_ok_def target_ok_def cong: option.case_cong)
  moreover have "edge_ok g' e = edge_ok g e" for e
    using assms by (simp add: edge_ok_def)
  ultimately show ?thesis using assms by (simp add: graph_valid_def)
qed

text \<open>A committed copy-on-write update whose callback ends with the validation leaves a valid
  graph: the contract the three clients of \<open>UpdateCopyOnWrite\<close> in the engine share.\<close>

lemma cow_valid:
  assumes "Committed (fst (UpdateCopyOnWrite rt now fn g))"
    and "\<And>cp. fn (deepCopy g) = (None, cp) \<Longrightarrow> validateBeliefGraph cp = None"
  shows "graph_valid (snd (UpdateCopyOnWrite rt now fn g))"
proof -
  obtain r cp where fn: "fn (deepCopy g) = (r, cp)" by (cases "fn (deepCopy g)")
  have none: "cowCheck rt (r, cp) = None"
    using assms(1) fn by (auto simp: UpdateCopyOnWrite_def refused_def Let_def split: option.splits)
  then have "r = None" by (auto simp: cowCheck_def split: option.splits)
  then have "graph_valid cp" using assms(2) fn validate_valid_iff by blast
  moreover have "Committed (fst (cowCommit rt now (CurrentStep g) cp g))"
    using assms(1) fn none by (simp add: UpdateCopyOnWrite_def Let_def)
  then have "snd (UpdateCopyOnWrite rt now fn g) = cowApplied rt now cp g"
    using fn none by (simp add: UpdateCopyOnWrite_def Let_def cowCommit_committed cowCommit_cases)
  ultimately show ?thesis
    using graph_valid_cong [of "cowApplied rt now cp g" cp] by (simp add: cowApplied_def)
qed

text \<open>A committed update installs the copy of a callback that reported no error.\<close>

lemma committed_copy:
  assumes "UpdateCopyOnWrite rt now fn g = (res, g')" "Committed res"
  shows "\<exists>cp. fn (deepCopy g) = (None, cp) \<and> limitErr cp = None \<and> Nodes g' = Nodes cp \<and> Edges g' = Edges cp"
proof -
  obtain r cp where fn: "fn (deepCopy g) = (r, cp)" by (cases "fn (deepCopy g)")
  have none: "cowCheck rt (r, cp) = None"
    using assms fn by (auto simp: UpdateCopyOnWrite_def refused_def Let_def split: option.splits)
  then have "r = None" "limitErr cp = None" by (auto simp: cowCheck_def split: option.splits)
  moreover have "Committed (fst (cowCommit rt now (CurrentStep g) cp g))" "g' = snd (cowCommit rt now (CurrentStep g) cp g)"
    using assms fn none by (simp_all add: UpdateCopyOnWrite_def Let_def)
  then have "Nodes g' = Nodes cp" "Edges g' = Edges cp"
    by (simp_all add: cowCommit_committed cowCommit_cases cowApplied_def)
  ultimately show ?thesis using fn by blast
qed

locale graph_client =
  fixes rt :: "'h gort"
    and callback :: "'h belief_graph \<Rightarrow> goerr option \<times> 'h belief_graph"
  assumes client_steps: "graph_wf cp \<Longrightarrow> copy_steps rt cp (snd (callback cp))"
    and client_valid: "callback cp = (None, cp') \<Longrightarrow> validateBeliefGraph cp' = None"
begin

lemma stays_reachable:
  "reachable rt p g \<Longrightarrow> reachable rt p (snd (UpdateCopyOnWrite rt now callback g))"
  by (rule UpdateCopyOnWrite_reachable, assumption, rule client_steps, drule reachable_wf, simp)

lemma commits_valid:
  "Committed (fst (UpdateCopyOnWrite rt now callback g)) \<Longrightarrow>
   graph_valid (snd (UpdateCopyOnWrite rt now callback g))"
  by (rule cow_valid) (auto intro: client_valid)

lemma keeps_valid:
  assumes "graph_valid g"
  shows "graph_valid (snd (UpdateCopyOnWrite rt now callback g))"
proof -
  obtain r cp where fn: "callback (deepCopy g) = (r, cp)" by (cases "callback (deepCopy g)")
  show ?thesis
  proof (cases "cowCheck rt (r, cp)")
    case (Some err)
    with fn assms show ?thesis by (simp add: UpdateCopyOnWrite_def Let_def)
  next
    case None
    then have "callback (deepCopy g) = (None, cp)" using fn by (auto simp: cowCheck_def split: option.splits)
    then have "graph_valid cp" using client_valid validate_valid_iff by blast
    then have "graph_valid (cowApplied rt now cp g)"
      using graph_valid_cong [of "cowApplied rt now cp g" cp] by (simp add: cowApplied_def)
    with fn None assms show ?thesis by (simp add: UpdateCopyOnWrite_def Let_def cowCommit_cases)
  qed
qed

lemma keeps_nodes:
  assumes "reachable rt p g"
  shows "kept g (snd (UpdateCopyOnWrite rt now callback g))"
proof -
  have "kept (deepCopy g) (snd (callback (deepCopy g)))"
    using client_steps [of "deepCopy g"] reachable_wf [OF assms] copy_steps_facts by force
  then have "kept g (cowApplied rt now (snd (callback (deepCopy g))) g)"
    by (simp add: kept_def cowApplied_def)
  then show ?thesis
    by (auto simp: UpdateCopyOnWrite_def Let_def cowCommit_cases split: option.splits)
qed

end

end
