(* ===== verification/Gos_Converter.thy ===== *)
theory Gos_Converter
  imports Gos_Client
begin

text \<open>
  \<open>StateConverter\<close> (\<open>gos_engine/state_converter.go\<close>): deciding from the graph whether to go on,
  refine the frontier, backtrack, report or degrade, and applying the decision to graph and
  controller. The checks for \<open>nil\<close> arguments are left out: a converter, graph and controller
  are arguments here.
\<close>

datatype decision_action =
    DecisionContinue | DecisionRefine | DecisionBacktrack | DecisionReport | DecisionDegraded
  | OtherAction string

record conversion_budget =
  cb_UsedSteps :: int
  cb_MaxSteps :: int

record state_decision =
  sd_Action :: decision_action
  sd_ReasonCode :: string
  sd_Reason :: msg
  sd_FromLevel :: int
  sd_ToLevel :: int
  sd_FrontierID :: string
  sd_BranchRootID :: string
  sd_Candidates :: "refinement_candidate list"

definition decision ::
    "decision_action \<Rightarrow> string \<Rightarrow> msg \<Rightarrow> int \<Rightarrow> int \<Rightarrow> string \<Rightarrow> state_decision" where
  "decision a code reason fromLevel toLevel frontierID =
     \<lparr>sd_Action = a, sd_ReasonCode = code, sd_Reason = reason, sd_FromLevel = fromLevel, sd_ToLevel = toLevel,
      sd_FrontierID = frontierID, sd_BranchRootID = [], sd_Candidates = []\<rparr>"

definition degraded :: "belief_fsm \<Rightarrow> string \<Rightarrow> msg \<Rightarrow> string \<Rightarrow> state_decision" where
  "degraded f code reason frontierID =
     decision DecisionDegraded code reason (CurrentLevel f) (CurrentLevel f) frontierID"

subsection \<open>Checking the inputs\<close>

fun checkChildren :: "string \<Rightarrow> string list \<Rightarrow> refinement_candidate list \<Rightarrow> goerr option" where
  "checkChildren parent seen [] = None"
| "checkChildren parent seen (c # cs) =
     (let label = trim_space (rc_Label c)
      in if label = [] \<or> rc_Score c < 0 \<or> rc_Score c > 1
         then Some (Errorf ''refinement child label and score are invalid for %q'' [AStr parent])
         else if label \<in> set seen then Some (Errorf ''duplicate refinement child %q'' [AStr label])
         else checkChildren parent (label # seen) cs)"

fun checkRules :: "string list \<Rightarrow> refinement_rule list \<Rightarrow> goerr option" where
  "checkRules parents [] = None"
| "checkRules parents (r # rs) =
     (let parent = trim_space (rr_Parent r)
      in if parent = [] \<or> rr_Children r = []
         then Some (Errorf ''refinement rule parent and children are required'' [])
         else if parent \<in> set parents then Some (Errorf ''duplicate refinement rule parent %q'' [AStr parent])
         else case checkChildren (rr_Parent r) [] (rr_Children r) of
           Some err \<Rightarrow> Some err
         | None \<Rightarrow> checkRules (parent # parents) rs)"

definition validateInputs ::
    "gos_config \<Rightarrow> 'h belief_graph \<Rightarrow> belief_fsm \<Rightarrow> conversion_budget \<Rightarrow> goerr option" where
  "validateInputs cfg g f budget =
     (if IsFinalState f then Some (Errorf ''fsm is already final'' [])
      else if cb_MaxSteps budget \<le> 0 \<or> cb_UsedSteps budget < 0
      then Some (Errorf ''invalid conversion budget'' [])
      else if sc_MaxDepth (c_StateConversion cfg) < 1
      then Some (Errorf ''state_conversion.max_depth must be positive'' [])
      else if sc_TieEpsilon (c_StateConversion cfg) < 0 \<or> sc_TieEpsilon (c_StateConversion cfg) > 1
      then Some (Errorf ''state_conversion.tie_epsilon must be within [0,1]'' [])
      else if fc_GapDelta (c_FSM cfg) < 0 \<or> fc_GapDelta (c_FSM cfg) > 1
              \<or> fc_MinConfidence (c_FSM cfg) < 0 \<or> fc_MinConfidence (c_FSM cfg) > 1
      then Some (Errorf ''fsm gap_delta and min_confidence must be within [0,1]'' [])
      else if fc_MinSupport (c_FSM cfg) < 0 \<or> fc_MaxSteps (c_FSM cfg) \<le> 0
      then Some (Errorf ''fsm min_support and max_steps are invalid'' [])
      else case checkRules [] (sc_RefinementRules (c_StateConversion cfg)) of
        Some err \<Rightarrow> Some err
      | None \<Rightarrow> validateBeliefGraph g)"

subsection \<open>What the decision reads\<close>

definition supportLead :: "'h belief_graph \<Rightarrow> node list \<Rightarrow> string \<Rightarrow> int" where
  "supportLead g candidates frontierID =
     (if length candidates < 2 then 0
      else
        (let supports = (\<lambda>k. count_if (\<lambda>e. e_Type e = EdgeSupport \<and> e_Dst e = k) (getActiveEdgeCopies g));
             maxCompeting =
               foldl (\<lambda>m c. if n_ID c \<noteq> frontierID \<and> supports (n_ID c) > m then supports (n_ID c) else m)
                 0 candidates
         in supports frontierID - maxCompeting))"

text \<open>The walk up the ancestors of \<open>current\<close>, from the level below the controller's.\<close>

fun walkAncestors ::
    "'h gort \<Rightarrow> 'h belief_graph \<Rightarrow> int \<Rightarrow> string \<Rightarrow> nat \<Rightarrow> node \<Rightarrow> goerr + state_decision option" where
  "walkAncestors rt g fromLevel frontierID 0 current = Inr None"
| "walkAncestors rt g fromLevel frontierID (Suc l) current =
     (case GetActiveRefinesParentCopies (n_ID current) g of
        [parent] \<Rightarrow>
          if n_Level parent \<noteq> int (Suc l)
          then Inl (Errorf ''hypothesis %q parent level is %d, expected %d''
                 [AStr (n_ID current), AInt (n_Level parent), AInt (int (Suc l))])
          else (case extractFrontierInternal rt (int (Suc l)) g of
              None \<Rightarrow> Inl (Errorf ''no active frontier at ancestor level %d'' [AInt (int (Suc l))])
            | Some best \<Rightarrow>
                if f_NodeID best \<noteq> n_ID parent
                then Inr (Some
                       ((decision DecisionBacktrack ''ancestor_no_longer_best''
                          (Fmt ''ancestor %q is no longer the best hypothesis at level %d''
                             [AStr (n_Label parent), AInt (int (Suc l))])
                          fromLevel (int (Suc l)) frontierID)\<lparr>sd_BranchRootID := n_ID parent\<rparr>))
                else walkAncestors rt g fromLevel frontierID l parent)
      | _ \<Rightarrow> Inl (Errorf ''hypothesis %q must have exactly one active refines parent'' [AStr (n_ID current)]))"

definition checkBacktrack ::
    "'h gort \<Rightarrow> 'h belief_graph \<Rightarrow> belief_fsm \<Rightarrow> frontier \<Rightarrow> goerr + state_decision option" where
  "checkBacktrack rt g f fr =
     (case gm_get (Nodes g) (f_NodeID fr) of
        None \<Rightarrow> Inl (Errorf ''frontier %q is not an active hypothesis'' [AStr (f_NodeID fr)])
      | Some current \<Rightarrow>
          if \<not> active_hypothesis current
          then Inl (Errorf ''frontier %q is not an active hypothesis'' [AStr (f_NodeID fr)])
          else walkAncestors rt g (CurrentLevel f) (f_NodeID fr) (nat (CurrentLevel f - 1)) current)"

definition checkGranularity :: "'h belief_graph \<Rightarrow> frontier \<Rightarrow> bool" where
  "checkGranularity g fr =
     (case gm_get (Nodes g) (f_NodeID fr) of
        None \<Rightarrow> False
      | Some n \<Rightarrow> (case n_Attrs n of None \<Rightarrow> False | Some m \<Rightarrow> attr_bool m ''actionable''))"

definition findRefinementRule :: "'h gort \<Rightarrow> gos_config \<Rightarrow> string \<Rightarrow> refinement_rule option" where
  "findRefinementRule rt cfg parent =
     find (\<lambda>r. rt_fold rt (trim_space (rr_Parent r)) = rt_fold rt (trim_space parent))
       (sc_RefinementRules (c_StateConversion cfg))"

definition activeRefinesChildren :: "'h belief_graph \<Rightarrow> string \<Rightarrow> int \<Rightarrow> node list" where
  "activeRefinesChildren g parentID level =
     sort_slice (\<lambda>a b. n_Label a < n_Label b)
       (List.map_filter (\<lambda>e.
          if e_Src e \<noteq> parentID \<or> e_Type e \<noteq> EdgeRefines \<or> e_Status e \<noteq> StatusActive then None
          else case gm_get (Nodes g) (e_Dst e) of
            None \<Rightarrow> None
          | Some child \<Rightarrow> if active_hypothesis child \<and> n_Level child = level then Some child else None)
        (map snd (Edges g)))"

definition refinementCandidatesFromNodes :: "node list \<Rightarrow> refinement_candidate list" where
  "refinementCandidatesFromNodes ns =
     map (\<lambda>n. \<lparr>rc_Label = n_Label n, rc_Score = n_Score n,
               rc_Why = (case n_Attrs n of None \<Rightarrow> [] | Some m \<Rightarrow> attr_string m ''why''),
               rc_Actionable = (case n_Attrs n of None \<Rightarrow> False | Some m \<Rightarrow> attr_bool m ''actionable'')\<rparr>) ns"

definition sameCandidateLabels :: "node list \<Rightarrow> refinement_candidate list \<Rightarrow> bool" where
  "sameCandidateLabels ns candidates \<longleftrightarrow>
     length ns = length candidates \<and>
     map n_Label ns = sort_strings (map (\<lambda>c. trim_space (rc_Label c)) candidates)"

subsection \<open>Deciding\<close>

text \<open>The four readings of the candidates that \<open>Decide\<close> branches on.\<close>

definition candidateGap :: "node list \<Rightarrow> f64" where
  "candidateGap candidates =
     (case candidates of a # b # _ \<Rightarrow> fsub (n_Score a) (n_Score b) | _ \<Rightarrow> 1)"

definition candidatesTied :: "gos_config \<Rightarrow> node list \<Rightarrow> bool" where
  "candidatesTied cfg candidates \<longleftrightarrow>
     length candidates > 1 \<and> candidateGap candidates \<le> sc_TieEpsilon (c_StateConversion cfg)"

definition frontierSufficient :: "gos_config \<Rightarrow> frontier \<Rightarrow> bool" where
  "frontierSufficient cfg fr \<longleftrightarrow>
     f_Score fr \<ge> fc_MinConfidence (c_FSM cfg) \<and> f_Supports fr \<ge> fc_MinSupport (c_FSM cfg)"

definition frontierAmbiguous :: "gos_config \<Rightarrow> 'h belief_graph \<Rightarrow> node list \<Rightarrow> frontier \<Rightarrow> bool" where
  "frontierAmbiguous cfg g candidates fr \<longleftrightarrow>
     candidatesTied cfg candidates \<or>
     length candidates > 1 \<and> candidateGap candidates < fc_GapDelta (c_FSM cfg) \<and>
     \<not> (\<not> candidatesTied cfg candidates \<and> frontierSufficient cfg fr \<and>
        supportLead g candidates (f_NodeID fr) \<ge> fc_MinSupport (c_FSM cfg))"

definition decideRefine :: "'h gort \<Rightarrow> gos_config \<Rightarrow> 'h belief_graph \<Rightarrow> belief_fsm \<Rightarrow> frontier \<Rightarrow> state_decision" where
  "decideRefine rt cfg g f fr =
     (let level = CurrentLevel f
      in if level \<ge> sc_MaxDepth (c_StateConversion cfg)
         then degraded f ''max_depth_without_actionable_root_cause''
                (Fmt ''level %d reached max depth without actionable granularity'' [AInt level]) (f_NodeID fr)
         else
           (let existing = activeRefinesChildren g (f_NodeID fr) (level + 1)
            in if existing \<noteq> []
               then (decision DecisionRefine ''validated_graph_proposal''
                       (Txt ''validated graph proposal already contains active refinement candidates'')
                       level (level + 1) (f_NodeID fr))\<lparr>sd_Candidates := refinementCandidatesFromNodes existing\<rparr>
               else case findRefinementRule rt cfg (f_Label fr) of
                 None \<Rightarrow>
                   degraded f ''no_refinement_rule'' (Fmt ''no refinement rule for %q'' [AStr (f_Label fr)]) (f_NodeID fr)
               | Some rule \<Rightarrow>
                   (decision DecisionRefine ''coarse_hypothesis''
                      (Txt ''frontier is supported but requires a more actionable hypothesis'')
                      level (level + 1) (f_NodeID fr))\<lparr>sd_Candidates := rr_Children rule\<rparr>))"

definition decideFrontier ::
    "'h gort \<Rightarrow> gos_config \<Rightarrow> 'h belief_graph \<Rightarrow> belief_fsm \<Rightarrow> conversion_budget \<Rightarrow> node list \<Rightarrow> frontier
     \<Rightarrow> state_decision" where
  "decideFrontier rt cfg g f budget candidates fr =
     (let level = CurrentLevel f;
          gap = candidateGap candidates;
          sufficient = frontierSufficient cfg fr;
          ambiguous = frontierAmbiguous cfg g candidates fr;
          granular = checkGranularity g fr;
          steps = gm_int (LevelSteps f) level
      in if sufficient \<and> granular \<and> \<not> ambiguous
         then decision DecisionReport ''actionable_root_cause''
                (Txt ''frontier is evidence-backed and actionable'') level level (f_NodeID fr)
         else if cb_UsedSteps budget \<ge> cb_MaxSteps budget
         then degraded f ''budget_exhausted''
                (Fmt ''step budget %d exhausted'' [AInt (cb_MaxSteps budget)]) (f_NodeID fr)
         else if ambiguous
         then (let reasonCode = (if candidatesTied cfg candidates then ''score_tie'' else ''ambiguous_frontier'')
               in if steps \<ge> fc_MaxSteps (c_FSM cfg)
                  then degraded f reasonCode
                         (Fmt ''candidate gap %.4f remains below %.4f'' [AFlt gap, AFlt (fc_GapDelta (c_FSM cfg))])
                         (f_NodeID fr)
                  else decision DecisionContinue reasonCode
                         (Fmt ''candidate gap %.4f is below %.4f'' [AFlt gap, AFlt (fc_GapDelta (c_FSM cfg))])
                         level level (f_NodeID fr))
         else if sufficient \<and> \<not> granular then decideRefine rt cfg g f fr
         else if steps \<ge> fc_MaxSteps (c_FSM cfg)
         then degraded f ''level_step_limit''
                (Fmt ''level %d exhausted %d steps without sufficient evidence''
                   [AInt level, AInt (fc_MaxSteps (c_FSM cfg))]) (f_NodeID fr)
         else decision DecisionContinue ''insufficient_evidence'' (Txt ''frontier needs more evidence'')
                level level (f_NodeID fr))"

definition Decide ::
    "'h gort \<Rightarrow> gos_config \<Rightarrow> 'h belief_graph \<Rightarrow> belief_fsm \<Rightarrow> conversion_budget \<Rightarrow> state_decision" where
  "Decide rt cfg g f budget =
     (case validateInputs cfg g f budget of
        Some err \<Rightarrow> degraded f ''invalid_state_conversion_input'' (Fmt ''%v'' [AErr err]) []
      | None \<Rightarrow>
          (let level = CurrentLevel f; candidates = GetActiveHypothesisCopies level g
           in if candidates = []
              then degraded f ''no_candidates'' (Fmt ''no active hypotheses at level %d'' [AInt level]) []
              else case extractFrontierInternal rt level g of
                None \<Rightarrow> degraded f ''no_frontier'' (Fmt ''cannot select frontier at level %d'' [AInt level]) []
              | Some fr \<Rightarrow>
                  (case checkBacktrack rt g f fr of
                     Inl err \<Rightarrow> degraded f ''invalid_refines_ancestry'' (Fmt ''%v'' [AErr err]) (f_NodeID fr)
                   | Inr (Some backtrack) \<Rightarrow>
                       if cb_UsedSteps budget \<ge> cb_MaxSteps budget
                       then degraded f ''budget_exhausted''
                              (Txt ''budget exhausted before invalid branch could be re-evaluated'') (f_NodeID fr)
                       else backtrack
                   | Inr None \<Rightarrow> decideFrontier rt cfg g f budget candidates fr)))"

subsection \<open>Applying\<close>

definition actionName :: "decision_action \<Rightarrow> string" where
  "actionName a = (case a of DecisionContinue \<Rightarrow> ''continue'' | DecisionRefine \<Rightarrow> ''refine''
     | DecisionBacktrack \<Rightarrow> ''backtrack'' | DecisionReport \<Rightarrow> ''report'' | DecisionDegraded \<Rightarrow> ''degraded''
     | OtherAction s \<Rightarrow> s)"

definition validateDecision :: "belief_fsm \<Rightarrow> state_decision \<Rightarrow> goerr option" where
  "validateDecision f d =
     (if IsFinalState f then Some (Errorf ''cannot apply decision to final or nil fsm'' [])
      else if sd_FromLevel d \<noteq> CurrentLevel f
      then Some (Errorf ''stale decision from level %d, current level is %d''
             [AInt (sd_FromLevel d), AInt (CurrentLevel f)])
      else if sd_Action d \<in> {DecisionContinue, DecisionReport, DecisionDegraded}
      then (if sd_ToLevel d \<noteq> sd_FromLevel d
            then Some (Errorf ''%s decision cannot change level'' [AStr (actionName (sd_Action d))]) else None)
      else if sd_Action d = DecisionRefine
      then (if State f \<noteq> StateDrilling
            then Some (Errorf ''cannot refine from fsm state %d'' [AInt (stateNumber (State f))])
            else if sd_ToLevel d \<noteq> sd_FromLevel d + 1 \<or> sd_FrontierID d = [] \<or> sd_Candidates d = []
            then Some (Errorf ''invalid refine transition'' []) else None)
      else if sd_Action d = DecisionBacktrack
      then (if State f \<noteq> StateDrilling
            then Some (Errorf ''cannot backtrack from fsm state %d'' [AInt (stateNumber (State f))])
            else if sd_ToLevel d < 1 \<or> sd_ToLevel d \<ge> sd_FromLevel d \<or> sd_BranchRootID d = []
            then Some (Errorf ''invalid backtrack transition'' []) else None)
      else Some (Errorf ''unknown state decision %q'' [AStr (actionName (sd_Action d))]))"

text \<open>The refinement of the copy; the list is \<open>childIDs\<close>.\<close>

definition addCandidate ::
    "'h gort \<Rightarrow> gotime \<Rightarrow> state_decision \<Rightarrow> 'h belief_graph \<times> string list \<Rightarrow> refinement_candidate
     \<Rightarrow> 'h belief_graph \<times> string list" where
  "addCandidate rt now d st c =
     (let (childID, cp1) =
            addNodeInternal rt now NodeHypothesis (trim_space (rc_Label c)) (rc_Score c) (sd_ToLevel d)
              (Some [(''why'', VStr (rc_Why c)), (''actionable'', VBool (rc_Actionable c)),
                     (''refined_from'', VStr (sd_FrontierID d))]) None (fst st);
          cp2 = addEdgeInternal rt now (sd_FrontierID d) childID EdgeRefines (rc_Score c) ''state_converter_v1'' cp1
      in (cp2, snd st @ [childID]))"

definition refineCopy ::
    "'h gort \<Rightarrow> gotime \<Rightarrow> state_decision \<Rightarrow> 'h belief_graph \<Rightarrow> (goerr option \<times> 'h belief_graph) \<times> string list" where
  "refineCopy rt now d cp =
     (case gm_get (Nodes cp) (sd_FrontierID d) of
        None \<Rightarrow> ((Some (Errorf ''refine parent %q is invalid'' [AStr (sd_FrontierID d)]), cp), [])
      | Some parent \<Rightarrow>
          if \<not> active_hypothesis parent \<or> n_Level parent \<noteq> sd_FromLevel d
          then ((Some (Errorf ''refine parent %q is invalid'' [AStr (sd_FrontierID d)]), cp), [])
          else
            (let existing = activeRefinesChildren cp (sd_FrontierID d) (sd_ToLevel d)
             in if existing \<noteq> []
                then (if \<not> sameCandidateLabels existing (sd_Candidates d)
                      then ((Some (Errorf ''existing refinement children do not match decision'' []), cp), [])
                      else ((validateBeliefGraph cp, cp), map n_ID existing))
                else
                  (let (cp', childIDs) = foldl (addCandidate rt now d) (cp, []) (sd_Candidates d)
                   in ((validateBeliefGraph cp', cp'), childIDs))))"

definition wrapResult :: "string \<Rightarrow> graph_update_result \<Rightarrow> goerr" where
  "wrapResult fmt res = Errorf fmt (case upd_Error res of None \<Rightarrow> [] | Some err \<Rightarrow> [AWrap err])"

definition refineHypothesis ::
    "'h gort \<Rightarrow> gotime \<Rightarrow> state_decision \<Rightarrow> 'h belief_graph \<Rightarrow> belief_fsm
     \<Rightarrow> goerr option \<times> 'h belief_graph \<times> belief_fsm" where
  "refineHypothesis rt now d g f =
     (let childIDs = snd (refineCopy rt now d (deepCopy g));
          (result, g') = UpdateCopyOnWrite rt now (\<lambda>cp. fst (refineCopy rt now d cp)) g
      in if \<not> Committed result then (Some (wrapResult ''refine graph update failed: %w'' result), g', f)
         else if childIDs = [] \<or> extractFrontierInternal rt (sd_ToLevel d) g' = None
         then (Some (Errorf ''refine committed without an active level %d frontier'' [AInt (sd_ToLevel d)]), g', f)
         else (None, g', DrillDown (sd_Reason d) f))"

text \<open>The breadth-first search of \<open>descendantSubgraphIDs\<close>: one round of its loop over the
  edges, and the loop over the queue, which ends because a node joins the queue only when
  it joins the descendants.\<close>

fun scanChildren ::
    "'h belief_graph \<Rightarrow> int \<Rightarrow> string \<Rightarrow> edge list \<Rightarrow> string list \<times> string list \<Rightarrow> string list \<times> string list" where
  "scanChildren g level current [] st = st"
| "scanChildren g level current (e # es) st =
     scanChildren g level current es
       (if e_Src e \<noteq> current \<or> e_Type e \<noteq> EdgeRefines \<or> e_Status e \<noteq> StatusActive then st
        else case gm_get (Nodes g) (e_Dst e) of
          None \<Rightarrow> st
        | Some child \<Rightarrow>
            if \<not> active_hypothesis child \<or> n_Level child \<le> level \<or> n_ID child \<in> set (fst st) then st
            else (n_ID child # fst st, snd st @ [n_ID child]))"

definition graph_ids :: "'h belief_graph \<Rightarrow> string set" where
  "graph_ids g = n_ID ` snd ` set (Nodes g)"

lemma scanChildren_measure:
  "card (graph_ids g - set (fst (scanChildren g level current es st))) +
     length (snd (scanChildren g level current es st)) =
   card (graph_ids g - set (fst st)) + length (snd st)"
proof (induction es arbitrary: st)
  case Nil
  then show ?case by simp
next
  case (Cons e es)
  show ?case
  proof (cases "\<exists>child. gm_get (Nodes g) (e_Dst e) = Some child \<and> e_Src e = current \<and> e_Type e = EdgeRefines \<and>
      e_Status e = StatusActive \<and> active_hypothesis child \<and> \<not> n_Level child \<le> level \<and> n_ID child \<notin> set (fst st)")
    case False
    then have "scanChildren g level current (e # es) st = scanChildren g level current es st"
      by (auto split: option.splits)
    then show ?thesis using Cons.IH by simp
  next
    case True
    then obtain child where c: "gm_get (Nodes g) (e_Dst e) = Some child" "n_ID child \<notin> set (fst st)"
      and step: "scanChildren g level current (e # es) st =
        scanChildren g level current es (n_ID child # fst st, snd st @ [n_ID child])" by auto
    have "n_ID child \<in> graph_ids g - set (fst st)"
      using c by (force simp: graph_ids_def dest: gm_get_in)
    moreover have "finite (graph_ids g)" by (simp add: graph_ids_def)
    ultimately have "card (graph_ids g - set (fst st)) = Suc (card (graph_ids g - insert (n_ID child) (set (fst st))))"
      by (metis card_Suc_Diff1 finite_Diff Diff_insert)
    with step Cons.IH show ?thesis by simp
  qed
qed

function descend :: "'h belief_graph \<Rightarrow> int \<Rightarrow> string list \<Rightarrow> string list \<Rightarrow> string list" where
  "descend g level descendants [] = descendants"
| "descend g level descendants (current # queue) =
     (let st = scanChildren g level current (map snd (Edges g)) (descendants, queue)
      in descend g level (fst st) (snd st))"
  by pat_completeness auto
termination
proof (relation "measure (\<lambda>(g, level, ds, q). card (graph_ids g - set ds) + length q)")
  show "wf (measure (\<lambda>(g :: 'h belief_graph, level :: int, ds, q). card (graph_ids g - set ds) + length q))"
    by simp
next
  fix g :: "'h belief_graph" and level ds current q st
  assume "st = scanChildren g level current (map snd (Edges g)) (ds, q)"
  then show "((g, level, fst st, snd st), g, level, ds, current # q)
      \<in> measure (\<lambda>(g, level, ds, q). card (graph_ids g - set ds) + length q)"
    using scanChildren_measure [of g level current "map snd (Edges g)" "(ds, q)"] by (simp add: case_prod_unfold)
qed

definition descendantSubgraphIDs :: "'h belief_graph \<Rightarrow> string \<Rightarrow> int \<Rightarrow> string list" where
  "descendantSubgraphIDs g branchRootID targetLevel =
     (let hypotheses = descend g targetLevel [] [branchRootID];
          all = foldl (\<lambda>ds n.
                  if n_Type n \<noteq> NodeEvidence \<or> n_Status n \<noteq> StatusActive then ds
                  else case n_Source n of
                    None \<Rightarrow> ds
                  | Some s \<Rightarrow> if es_TargetHypothesisID s \<in> set ds then List.insert (n_ID n) ds else ds)
                hypotheses (map snd (Nodes g))
      in sort_strings all)"

definition backtrackCopy ::
    "'h gort \<Rightarrow> gotime \<Rightarrow> state_decision \<Rightarrow> 'h belief_graph \<Rightarrow> goerr option \<times> 'h belief_graph" where
  "backtrackCopy rt now d cp =
     (case gm_get (Nodes cp) (sd_BranchRootID d) of
        None \<Rightarrow> (Some (Errorf ''backtrack branch root %q is invalid'' [AStr (sd_BranchRootID d)]), cp)
      | Some branch \<Rightarrow>
          if n_Type branch \<noteq> NodeHypothesis \<or> n_Level branch \<noteq> sd_ToLevel d
          then (Some (Errorf ''backtrack branch root %q is invalid'' [AStr (sd_BranchRootID d)]), cp)
          else
            (let ids = descendantSubgraphIDs cp (sd_BranchRootID d) (sd_ToLevel d)
             in if ids = []
                then (Some (Errorf ''backtrack branch %q has no active descendants'' [AStr (sd_BranchRootID d)]), cp)
                else
                  (let cp' = foldl (\<lambda>c k. retractNodeInternal rt now k ''state_converter'' (sd_Reason d) c) cp ids
                   in (validateBeliefGraph cp', cp'))))"

definition backtrack ::
    "'h gort \<Rightarrow> gotime \<Rightarrow> state_decision \<Rightarrow> 'h belief_graph \<Rightarrow> belief_fsm
     \<Rightarrow> goerr option \<times> 'h belief_graph \<times> belief_fsm" where
  "backtrack rt now d g f =
     (let (result, g') = UpdateCopyOnWrite rt now (backtrackCopy rt now d) g
      in if \<not> Committed result then (Some (wrapResult ''backtrack graph update failed: %w'' result), g', f)
         else
           (let (err, f') = BacktrackTo (sd_ToLevel d) (sd_Reason d) f
            in (err, g', f')))"

definition Apply ::
    "'h gort \<Rightarrow> gotime \<Rightarrow> state_decision \<Rightarrow> 'h belief_graph \<Rightarrow> belief_fsm
     \<Rightarrow> goerr option \<times> 'h belief_graph \<times> belief_fsm" where
  "Apply rt now d g f =
     (case validateDecision f d of
        Some err \<Rightarrow> (Some err, g, f)
      | None \<Rightarrow>
          (case sd_Action d of
             DecisionContinue \<Rightarrow> (None, g, f)
           | DecisionRefine \<Rightarrow> refineHypothesis rt now d g f
           | DecisionBacktrack \<Rightarrow> backtrack rt now d g f
           | DecisionReport \<Rightarrow> (None, g, MarkDone (Cat [Txt (sd_ReasonCode d), Txt '': '', sd_Reason d]) f)
           | DecisionDegraded \<Rightarrow> (None, g, MarkDone (Cat [Txt (sd_ReasonCode d), Txt '': '', sd_Reason d]) f)
           | OtherAction a \<Rightarrow> (Some (Errorf ''unsupported state decision %q'' [AStr a]), g, f)))"

end
