(* ===== verification/Gos_Evidence.thy ===== *)
theory Gos_Evidence
  imports Gos_Client
begin

text \<open>
  Attaching the experts' findings to the graph (\<open>gos_engine/evidence_update.go\<close>). An
  operation that can panic (a \<open>nil\<close> dereference or a write to a \<open>nil\<close> map) returns an option
  with \<open>None\<close> for the panic. The callback of \<open>UpdateCopyOnWrite\<close> works on the private copy
  it is given; \<open>updateGraph\<close> runs it there first, so that a panic is the panic of the whole.
\<close>

subsection \<open>Confidence\<close>

record confidence_contribution =
  cn_supportProduct :: f64
  cn_refuteProduct :: f64
  cn_evidenceKeys :: "string list"
  cn_details :: "(string \<times> string \<times> f64) list"

record analysis_candidate =
  ac_text :: string
  ac_confidence :: f64

record graph_proposal =
  gp_ExpertName :: string
  gp_Analysis :: string
  gp_Confidence :: f64
  gp_Evidence :: "evidence_item list"
  gp_Refinements :: "hypothesis_refinement list"
  gp_CurrentHypothesisActionable :: "bool option"

definition newConfidenceContribution :: confidence_contribution where
  "newConfidenceContribution =
     \<lparr>cn_supportProduct = 1, cn_refuteProduct = 1, cn_evidenceKeys = [], cn_details = []\<rparr>"

definition contribution_add ::
    "string \<Rightarrow> f64 \<Rightarrow> string \<Rightarrow> confidence_contribution \<Rightarrow> confidence_contribution" where
  "contribution_add relation strength evidenceKey c =
     (let c1 = (if relation = relation_support
                then c\<lparr>cn_supportProduct := fmul (cn_supportProduct c) (fsub 1 strength)\<rparr>
                else if relation = relation_refute
                then c\<lparr>cn_refuteProduct := fmul (cn_refuteProduct c) (fsub 1 strength)\<rparr>
                else c)
      in c1\<lparr>cn_evidenceKeys := cn_evidenceKeys c1 @ [evidenceKey],
            cn_details := cn_details c1 @ [(evidenceKey, relation, strength)]\<rparr>)"

definition supportStrength :: "confidence_contribution \<Rightarrow> f64" where
  "supportStrength c = fsub 1 (cn_supportProduct c)"

definition refuteStrength :: "confidence_contribution \<Rightarrow> f64" where
  "refuteStrength c = fsub 1 (cn_refuteProduct c)"

definition aggregateConfidence :: "gos_config \<Rightarrow> f64 \<Rightarrow> confidence_contribution \<Rightarrow> f64" where
  "aggregateConfidence cfg current0 c =
     (let current = clamp01 current0;
          supportDelta = fmul (fmul (cc_SupportWeight (c_Confidence cfg)) (supportStrength c)) (fsub 1 current);
          refuteDelta = fmul (fmul (cc_RefuteWeight (c_Confidence cfg)) (refuteStrength c)) current
      in clamp01 (fsub (fadd current supportDelta) refuteDelta))"

definition validateConfidenceConfig :: "gos_config option \<Rightarrow> goerr option" where
  "validateConfidenceConfig cfg =
     (case cfg of
        None \<Rightarrow> Some (Errorf ''gos confidence config is required'' [])
      | Some c \<Rightarrow>
          if cc_SupportWeight (c_Confidence c) < 0 \<or> cc_SupportWeight (c_Confidence c) > 1
          then Some (Errorf ''support_weight must be within [0,1]'' [])
          else if cc_RefuteWeight (c_Confidence c) < 0 \<or> cc_RefuteWeight (c_Confidence c) > 1
          then Some (Errorf ''refute_weight must be within [0,1]'' [])
          else None)"

subsection \<open>Checking proposals\<close>

definition evidenceDedupKey :: "evidence_item \<Rightarrow> string" where
  "evidenceDedupKey ev =
     join [CHR 0x1F] [trim_space (ev_SourceType ev), trim_space (ev_SourceID ev),
                      trim_space (ev_TargetHypothesisID ev)]"

definition evidenceExists :: "'h belief_graph \<Rightarrow> string \<Rightarrow> bool" where
  "evidenceExists g dedupKey \<longleftrightarrow>
     list_ex (\<lambda>n. n_Type n = NodeEvidence \<and>
        (case n_Attrs n of None \<Rightarrow> False | Some m \<Rightarrow> attr_string m ''dedup_key'' = dedupKey)) (map snd (Nodes g))"

definition validateEvidence :: "evidence_item \<Rightarrow> 'h belief_graph \<Rightarrow> goerr option" where
  "validateEvidence ev g =
     (if blank (ev_SourceType ev) \<or> blank (ev_SourceID ev)
      then Some (Errorf ''source_type and source_id are required'' [])
      else if blank (ev_TargetHypothesisID ev)
      then Some (Errorf ''target_hypothesis_id is required'' [])
      else if \<not> (case gm_get (Nodes g) (ev_TargetHypothesisID ev) of
                   None \<Rightarrow> False | Some t \<Rightarrow> active_hypothesis t)
      then Some (Errorf ''target hypothesis %q is missing or inactive'' [AStr (ev_TargetHypothesisID ev)])
      else if ev_Relation ev = relation_support \<or> ev_Relation ev = relation_refute
      then (if ev_Strength ev \<le> 0 \<or> ev_Strength ev > 1
            then Some (Errorf ''support/refute strength must be within (0,1]'' [])
            else if ev_Score ev < 0 \<or> ev_Score ev > 1
            then Some (Errorf ''score must be within [0,1]'' []) else None)
      else if ev_Relation ev = relation_neutral
      then (if ev_Strength ev < 0 \<or> ev_Strength ev > 1
            then Some (Errorf ''neutral strength must be within [0,1]'' [])
            else if ev_Score ev < 0 \<or> ev_Score ev > 1
            then Some (Errorf ''score must be within [0,1]'' []) else None)
      else Some (Errorf ''unsupported relation %q'' [AStr (ev_Relation ev)]))"

definition proposalHasSupportingEvidence :: "string \<Rightarrow> evidence_item list \<Rightarrow> bool" where
  "proposalHasSupportingEvidence targetID proposed \<longleftrightarrow>
     list_ex (\<lambda>ev. ev_TargetHypothesisID ev = targetID \<and> ev_Relation ev = relation_support \<and>
        \<not> blank (ev_SourceType ev) \<and> \<not> blank (ev_SourceID ev)) proposed"

definition proposalHasSourceBackedEvidence :: "'h belief_graph \<Rightarrow> string \<Rightarrow> evidence_item list \<Rightarrow> bool" where
  "proposalHasSourceBackedEvidence g targetID proposed \<longleftrightarrow>
     list_ex (\<lambda>ev. ev_TargetHypothesisID ev = targetID \<and> ev_Relation ev \<noteq> relation_neutral \<and>
        \<not> blank (ev_SourceType ev) \<and> \<not> blank (ev_SourceID ev)) proposed \<or>
     list_ex (\<lambda>n. n_Type n = NodeEvidence \<and> n_Status n = StatusActive \<and>
        (case n_Source n of
           None \<Rightarrow> False
         | Some s \<Rightarrow> es_TargetHypothesisID s = targetID \<and> es_Relation s \<noteq> relation_neutral \<and>
             \<not> blank (es_SourceType s) \<and> \<not> blank (es_SourceID s))) (map snd (Nodes g))"

definition normalizeHypothesisLabel :: "'h gort \<Rightarrow> string \<Rightarrow> string" where
  "normalizeHypothesisLabel rt label = rt_lower rt (join '' '' (str_fields label))"

text \<open>\<open>activeAncestorLabels\<close> is a depth-first search with the sets \<open>visiting\<close> (the stack) and
  \<open>visited\<close>. The fuel bounds the depth of the recursion and \<open>None\<close> is running out of it,
  which \<open>ancestors_enough\<close> excludes for the fuel used here.\<close>

record visit_state =
  vs_labels :: "string list"
  vs_visiting :: "string list"
  vs_visited :: "string list"

fun visit :: "'h gort \<Rightarrow> 'h belief_graph \<Rightarrow> nat \<Rightarrow> string \<Rightarrow> visit_state \<Rightarrow> (goerr + visit_state) option"
  and visitParents ::
    "'h gort \<Rightarrow> 'h belief_graph \<Rightarrow> nat \<Rightarrow> string \<Rightarrow> edge list \<Rightarrow> visit_state \<Rightarrow> (goerr + visit_state) option"
where
  "visit rt g 0 nodeID st = None"
| "visit rt g (Suc fuel) nodeID st =
     (if nodeID \<in> set (vs_visiting st)
      then Some (Inl (Errorf ''active refines graph contains cycle at %q'' [AStr nodeID]))
      else if nodeID \<in> set (vs_visited st) then Some (Inr st)
      else case gm_get (Nodes g) nodeID of
        None \<Rightarrow> Some (Inl (Errorf ''active refinement ancestor %q is missing or inactive'' [AStr nodeID]))
      | Some n \<Rightarrow>
          if \<not> active_hypothesis n
          then Some (Inl (Errorf ''active refinement ancestor %q is missing or inactive'' [AStr nodeID]))
          else
            (case visitParents rt g fuel nodeID (map snd (Edges g))
                    (st\<lparr>vs_visiting := nodeID # vs_visiting st,
                        vs_labels := normalizeHypothesisLabel rt (n_Label n) # vs_labels st\<rparr>) of
               None \<Rightarrow> None
             | Some (Inl err) \<Rightarrow> Some (Inl err)
             | Some (Inr st') \<Rightarrow>
                 Some (Inr (st'\<lparr>vs_visiting := filter (\<lambda>k. k \<noteq> nodeID) (vs_visiting st'),
                                vs_visited := nodeID # vs_visited st'\<rparr>))))"
| "visitParents rt g fuel nodeID [] st = Some (Inr st)"
| "visitParents rt g fuel nodeID (e # es) st =
     (if e_Dst e = nodeID \<and> e_Type e = EdgeRefines \<and> e_Status e = StatusActive
      then (case gm_get (Nodes g) (e_Src e) of
              None \<Rightarrow> visitParents rt g fuel nodeID es st
            | Some parent \<Rightarrow>
                if n_Type parent = NodeHypothesis
                then (case visit rt g fuel (n_ID parent) st of
                        None \<Rightarrow> None
                      | Some (Inl err) \<Rightarrow> Some (Inl err)
                      | Some (Inr st') \<Rightarrow> visitParents rt g fuel nodeID es st')
                else visitParents rt g fuel nodeID es st)
      else visitParents rt g fuel nodeID es st)"

definition activeAncestorLabels :: "'h gort \<Rightarrow> 'h belief_graph \<Rightarrow> string \<Rightarrow> (goerr + string list) option" where
  "activeAncestorLabels rt g startID =
     map_option (map_sum id vs_labels)
       (visit rt g (length (Nodes g) + 1) startID \<lparr>vs_labels = [], vs_visiting = [], vs_visited = []\<rparr>)"

definition activeRefinementChildLabels :: "'h gort \<Rightarrow> 'h belief_graph \<Rightarrow> string \<Rightarrow> string list" where
  "activeRefinementChildLabels rt g parentID =
     List.map_filter (\<lambda>e.
        if e_Src e \<noteq> parentID \<or> e_Type e \<noteq> EdgeRefines \<or> e_Status e \<noteq> StatusActive then None
        else case gm_get (Nodes g) (e_Dst e) of
          None \<Rightarrow> None
        | Some child \<Rightarrow>
            if active_hypothesis child then Some (normalizeHypothesisLabel rt (n_Label child)) else None)
      (map snd (Edges g))"

text \<open>The refinements of one proposal: the labels proposed so far are threaded through.\<close>

fun checkRefinements ::
    "'h gort \<Rightarrow> string \<Rightarrow> string list \<Rightarrow> string list \<Rightarrow> string list \<Rightarrow> hypothesis_refinement list
     \<Rightarrow> goerr + string list" where
  "checkRefinements rt expert ancestors children proposed [] = Inr proposed"
| "checkRefinements rt expert ancestors children proposed (r # rs) =
     (let label = trim_space (hr_Label r); why = trim_space (hr_Why r); key = normalizeHypothesisLabel rt label
      in if label = [] \<or> why = []
         then Inl (Errorf ''expert %s refinement label and why are required'' [AStr expert])
         else if hr_Score r \<le> 0 \<or> hr_Score r > 1
         then Inl (Errorf ''expert %s refinement score must be within (0,1]'' [AStr expert])
         else if key = []
         then Inl (Errorf ''expert %s refinement label is invalid'' [AStr expert])
         else if key \<in> set ancestors
         then Inl (Errorf ''expert %s refinement %q repeats an active ancestor and would create a semantic refines cycle''
                [AStr expert, AStr label])
         else if key \<in> set children
         then Inl (Errorf ''expert %s refinement %q already exists under frontier'' [AStr expert, AStr label])
         else if key \<in> set proposed
         then Inl (Errorf ''refinement label %q is duplicated across proposals'' [AStr label])
         else checkRefinements rt expert ancestors children (key # proposed) rs)"

text \<open>The evidence of one proposal, with the check of the promotion inside the loop, as in the
  source.\<close>

fun checkEvidence :: "'h belief_graph \<Rightarrow> string \<Rightarrow> graph_proposal \<Rightarrow> evidence_item list \<Rightarrow> goerr option" where
  "checkEvidence g parentID p [] = None"
| "checkEvidence g parentID p (ev # evs) =
     (case validateEvidence ev g of
        Some err \<Rightarrow> Some (Errorf ''expert %s evidence invalid: %w'' [AStr (gp_ExpertName p), AWrap err])
      | None \<Rightarrow>
          if gp_CurrentHypothesisActionable p = Some True
             \<and> \<not> proposalHasSupportingEvidence parentID (gp_Evidence p)
          then Some (Errorf ''expert %s actionable promotion has no source-backed support evidence for frontier %q''
                 [AStr (gp_ExpertName p), AStr parentID])
          else checkEvidence g parentID p evs)"

fun checkProposals ::
    "'h gort \<Rightarrow> gos_config \<Rightarrow> 'h belief_graph \<Rightarrow> node \<Rightarrow> string list \<Rightarrow> string list \<Rightarrow> string list
     \<Rightarrow> graph_proposal list \<Rightarrow> goerr + string list" where
  "checkProposals rt cfg g parent ancestors children proposed [] = Inr proposed"
| "checkProposals rt cfg g parent ancestors children proposed (p # ps) =
     (if gp_Confidence p < 0 \<or> gp_Confidence p > 1
      then Inl (Errorf ''expert %s confidence must be within [0,1]'' [AStr (gp_ExpertName p)])
      else case checkEvidence g (n_ID parent) p (gp_Evidence p) of
        Some err \<Rightarrow> Inl err
      | None \<Rightarrow>
          if gp_Refinements p = [] then checkProposals rt cfg g parent ancestors children proposed ps
          else if blank (gp_ExpertName p)
          then Inl (Errorf ''refinement proposal requires expert_name'' [])
          else if n_Level parent \<ge> sc_MaxDepth (c_StateConversion cfg)
          then Inl (Errorf ''frontier level %d reached max refinement depth %d''
                 [AInt (n_Level parent), AInt (sc_MaxDepth (c_StateConversion cfg))])
          else if \<not> proposalHasSourceBackedEvidence g (n_ID parent) (gp_Evidence p)
          then Inl (Errorf ''expert %s refinement has no source-backed evidence for frontier %q''
                 [AStr (gp_ExpertName p), AStr (n_ID parent)])
          else case checkRefinements rt (gp_ExpertName p) ancestors children proposed (gp_Refinements p) of
            Inl err \<Rightarrow> Inl err
          | Inr proposed' \<Rightarrow> checkProposals rt cfg g parent ancestors children proposed' ps)"

text \<open>\<open>refinementCount\<close> is the number of labels that were recorded. The option is the fuel of the
  ancestor search.\<close>

definition validateGraphProposals ::
    "'h gort \<Rightarrow> gos_config \<Rightarrow> 'h belief_graph \<Rightarrow> frontier \<Rightarrow> graph_proposal list \<Rightarrow> goerr option option" where
  "validateGraphProposals rt cfg g f proposals =
     (let inactive = Some (Some (Errorf ''frontier hypothesis %q is missing or inactive'' [AStr (f_NodeID f)]))
      in case gm_get (Nodes g) (f_NodeID f) of
           None \<Rightarrow> inactive
         | Some parent \<Rightarrow>
             if \<not> active_hypothesis parent then inactive
             else case activeAncestorLabels rt g (n_ID parent) of
               None \<Rightarrow> None
             | Some (Inl err) \<Rightarrow> Some (Some err)
             | Some (Inr ancestors) \<Rightarrow>
                 (case checkProposals rt cfg g parent ancestors
                         (activeRefinementChildLabels rt g (n_ID parent)) [] proposals of
                    Inl err \<Rightarrow> Some (Some err)
                  | Inr proposed \<Rightarrow>
                      if int (length proposed) > sg_MaxHypotheses (c_StructuredCognition cfg)
                      then Some (Some (Errorf ''graph proposal contains %d refinements, exceeds max_hypotheses %d''
                             [AInt (int (length proposed)), AInt (sg_MaxHypotheses (c_StructuredCognition cfg))]))
                      else Some None))"

subsection \<open>Applying proposals\<close>

text \<open>What the loop over the proposals carries: the copy, the contributions per target, and the
  best analysis per target.\<close>

record 'h update_state =
  us_graph :: "'h belief_graph"
  us_contributions :: "(string, confidence_contribution) gomap"
  us_best :: "(string, analysis_candidate) gomap"

definition evidenceSourceOf :: "gotime \<Rightarrow> evidence_item \<Rightarrow> evidence_source" where
  "evidenceSourceOf now ev =
     \<lparr>es_SourceType = ev_SourceType ev, es_SourceID = ev_SourceID ev, es_ToolName = ev_ToolName ev,
      es_RetrievalQuery = [],
      es_Timestamp = (if ev_ObservationTime ev = 0 then now else ev_ObservationTime ev),
      es_SummarySnippet = ev_Snippet ev, es_ArtifactRef = ev_ArtifactRef ev,
      es_Relation = ev_Relation ev, es_TargetHypothesisID = ev_TargetHypothesisID ev,
      es_Strength = ev_Strength ev\<rparr>"

definition evidenceScore :: "evidence_item \<Rightarrow> f64" where
  "evidenceScore ev = (if ev_Score ev = 0 then ev_Strength ev else ev_Score ev)"

definition evidenceAttrs :: "evidence_item \<Rightarrow> attrs" where
  "evidenceAttrs ev =
     [(''score'', VNum (evidenceScore ev)), (''relation'', VStr (ev_Relation ev)),
      (''target_hypothesis_id'', VStr (ev_TargetHypothesisID ev)), (''strength'', VNum (ev_Strength ev)),
      (''dedup_key'', VStr (evidenceDedupKey ev))]"

text \<open>One item of evidence; the list is \<open>acceptedTargets\<close>.\<close>

definition attachEvidence ::
    "'h gort \<Rightarrow> gotime \<Rightarrow> gos_config \<Rightarrow> evidence_item \<Rightarrow> 'h update_state \<times> string list
     \<Rightarrow> 'h update_state \<times> string list" where
  "attachEvidence rt now cfg ev st =
     (let us = fst st; target = ev_TargetHypothesisID ev; dedupKey = evidenceDedupKey ev
      in if cc_Deduplicate (c_Confidence cfg) \<and> evidenceExists (us_graph us) dedupKey then st
         else
           (let (evidenceID, cp1) =
                  addNodeInternal rt now NodeEvidence (ev_Title ev) (evidenceScore ev) 0
                    (Some (evidenceAttrs ev)) (Some (evidenceSourceOf now ev)) (us_graph us);
                contribution =
                  (case gm_get (us_contributions us) target of
                     None \<Rightarrow> newConfidenceContribution | Some c \<Rightarrow> c);
                contributions =
                  gm_put target (contribution_add (ev_Relation ev) (ev_Strength ev) dedupKey contribution)
                    (us_contributions us);
                cp2 = (if ev_Relation ev = relation_neutral then cp1
                       else addEdgeInternal rt now evidenceID target
                              (if ev_Relation ev = relation_refute then EdgeRefute else EdgeSupport)
                              (ev_Strength ev) ''expert_evidence_v1'' cp1)
            in (us\<lparr>us_graph := cp2, us_contributions := contributions\<rparr>, List.insert target (snd st))))"

definition rememberAnalysis ::
    "graph_proposal \<Rightarrow> string \<Rightarrow> (string, analysis_candidate) gomap \<Rightarrow> (string, analysis_candidate) gomap" where
  "rememberAnalysis p target best =
     (let current = (case gm_get best target of None \<Rightarrow> \<lparr>ac_text = [], ac_confidence = 0\<rparr> | Some a \<Rightarrow> a)
      in if \<not> blank (gp_Analysis p) \<and> gp_Confidence p > ac_confidence current
         then gm_put target \<lparr>ac_text = gp_Analysis p, ac_confidence = gp_Confidence p\<rparr> best
         else best)"

definition attachRefinement ::
    "'h gort \<Rightarrow> gotime \<Rightarrow> string \<Rightarrow> string \<Rightarrow> hypothesis_refinement \<Rightarrow> 'h belief_graph \<Rightarrow> 'h belief_graph option" where
  "attachRefinement rt now frontierID expert r cp =
     (case gm_get (Nodes cp) frontierID of
        None \<Rightarrow> None
      | Some parent \<Rightarrow>
          (let (childID, cp1) =
                 addNodeInternal rt now NodeHypothesis (trim_space (hr_Label r)) (hr_Score r) (n_Level parent + 1)
                   (Some [(''why'', VStr (trim_space (hr_Why r))), (''actionable'', VBool (hr_Actionable r)),
                          (''proposal_expert'', VStr expert),
                          (''semantic_type'', VStr ''hypothesis_refinement'')]) None cp
           in Some (addEdgeInternal rt now frontierID childID EdgeRefines (hr_Score r)
                      ''expert_graph_proposal_v1'' cp1)))"

fun attachRefinements ::
    "'h gort \<Rightarrow> gotime \<Rightarrow> string \<Rightarrow> string \<Rightarrow> hypothesis_refinement list \<Rightarrow> 'h belief_graph \<Rightarrow> 'h belief_graph option" where
  "attachRefinements rt now frontierID expert [] cp = Some cp"
| "attachRefinements rt now frontierID expert (r # rs) cp =
     (case attachRefinement rt now frontierID expert r cp of
        None \<Rightarrow> None | Some cp' \<Rightarrow> attachRefinements rt now frontierID expert rs cp')"

text \<open>\<open>parent.Attrs[...] = ...\<close> panics on a missing parent and on a \<open>nil\<close> map.\<close>

definition promoteFrontier :: "string \<Rightarrow> 'h belief_graph \<Rightarrow> 'h belief_graph option" where
  "promoteFrontier frontierID cp =
     (case gm_get (Nodes cp) frontierID of
        None \<Rightarrow> None
      | Some parent \<Rightarrow>
          (case n_Attrs parent of
             None \<Rightarrow> None
           | Some _ \<Rightarrow>
               Some (cp\<lparr>Nodes := gm_put frontierID
                       (setAttr ''actionable_source'' (VStr ''expert_support_evidence_v1'')
                          (setAttr ''actionable'' (VBool True) parent)) (Nodes cp)\<rparr>)))"

definition applyProposal ::
    "'h gort \<Rightarrow> gotime \<Rightarrow> gos_config \<Rightarrow> string \<Rightarrow> graph_proposal \<Rightarrow> 'h update_state \<Rightarrow> 'h update_state option" where
  "applyProposal rt now cfg frontierID p us0 =
     (let (us1, accepted) = foldl (\<lambda>st ev. attachEvidence rt now cfg ev st) (us0, []) (gp_Evidence p);
          best = foldl (\<lambda>b target. rememberAnalysis p target b) (us_best us1) accepted
      in case attachRefinements rt now frontierID (gp_ExpertName p) (gp_Refinements p) (us_graph us1) of
           None \<Rightarrow> None
         | Some cp \<Rightarrow>
             (case (if gp_CurrentHypothesisActionable p = Some True then promoteFrontier frontierID cp
                    else Some cp) of
                None \<Rightarrow> None
              | Some cp' \<Rightarrow> Some (us1\<lparr>us_graph := cp', us_best := best\<rparr>)))"

fun applyProposals ::
    "'h gort \<Rightarrow> gotime \<Rightarrow> gos_config \<Rightarrow> string \<Rightarrow> graph_proposal list \<Rightarrow> 'h update_state \<Rightarrow> 'h update_state option" where
  "applyProposals rt now cfg frontierID [] us = Some us"
| "applyProposals rt now cfg frontierID (p # ps) us =
     (case applyProposal rt now cfg frontierID p us of
        None \<Rightarrow> None | Some us' \<Rightarrow> applyProposals rt now cfg frontierID ps us')"

definition writeConfidence ::
    "gos_config \<Rightarrow> confidence_contribution \<Rightarrow> analysis_candidate option \<Rightarrow> node \<Rightarrow> node" where
  "writeConfidence cfg c best n =
     (let before = n_Score n; after = aggregateConfidence cfg before c;
          n1 = setAttr ''confidence_contributions'' (VContribs (cn_details c))
                 (setAttr ''evidence_keys'' (VStrs (cn_evidenceKeys c))
                   (setAttr ''refute_strength'' (VNum (refuteStrength c))
                     (setAttr ''support_strength'' (VNum (supportStrength c))
                       (setAttr ''confidence_formula'' (VStr ''bounded-linear-v1'')
                         (setAttr ''confidence_before'' (VNum before)
                           (setAttr ''confidence'' (VNum after) (n\<lparr>n_Score := after\<rparr>)))))))
      in case best of
           None \<Rightarrow> n1
         | Some b \<Rightarrow> if blank (ac_text b) then n1
             else setAttr ''why'' (VStr (ac_text b)) (setAttr ''analysis'' (VStr (ac_text b)) n1))"

fun updateTargets ::
    "gos_config \<Rightarrow> 'h update_state \<Rightarrow> string list \<Rightarrow> 'h belief_graph \<Rightarrow> goerr option \<times> 'h belief_graph" where
  "updateTargets cfg us [] cp = (None, cp)"
| "updateTargets cfg us (target # ts) cp =
     (case (gm_get (Nodes cp) target, gm_get (us_contributions us) target) of
        (Some n, Some c) \<Rightarrow>
          updateTargets cfg us ts
            (cp\<lparr>Nodes := gm_put target (writeConfidence cfg c (gm_get (us_best us) target) n) (Nodes cp)\<rparr>)
      | _ \<Rightarrow> (Some (Errorf ''target hypothesis %q disappeared during update'' [AStr target]), cp))"

text \<open>The callback of \<open>updateGraph\<close>, on the private copy.\<close>

definition updateCallback ::
    "'h gort \<Rightarrow> gotime \<Rightarrow> gos_config \<Rightarrow> frontier \<Rightarrow> graph_proposal list \<Rightarrow> 'h belief_graph
     \<Rightarrow> (goerr option \<times> 'h belief_graph) option" where
  "updateCallback rt now cfg f proposals cp =
     (case validateBeliefGraph cp of
        Some err \<Rightarrow> Some (Some (Errorf ''graph invalid before proposal: %w'' [AWrap err]), cp)
      | None \<Rightarrow>
          (case validateGraphProposals rt cfg cp f proposals of
             None \<Rightarrow> None
           | Some (Some err) \<Rightarrow> Some (Some err, cp)
           | Some None \<Rightarrow>
               (case applyProposals rt now cfg (f_NodeID f) proposals
                       \<lparr>us_graph = cp, us_contributions = [], us_best = []\<rparr> of
                  None \<Rightarrow> None
                | Some us \<Rightarrow>
                    (case updateTargets cfg us (sort_strings (map fst (us_contributions us))) (us_graph us) of
                       (Some err, cp') \<Rightarrow> Some (Some err, cp')
                     | (None, cp') \<Rightarrow> Some (validateBeliefGraph cp', cp')))))"

definition graphProposals :: "gos_config \<Rightarrow> expert_analysis option list \<Rightarrow> graph_proposal list" where
  "graphProposals cfg analyses =
     sort_slice (\<lambda>a b. gp_ExpertName a < gp_ExpertName b)
       (List.map_filter (map_option (\<lambda>a.
          \<lparr>gp_ExpertName = xa_ExpertName a, gp_Analysis = xa_Analysis a, gp_Confidence = xa_Confidence a,
           gp_Evidence = xa_Evidence a,
           gp_Refinements = (if sg_Enabled (c_StructuredCognition cfg) then xa_Refinements a else []),
           gp_CurrentHypothesisActionable = xa_CurrentHypothesisActionable a\<rparr>)) analyses)"

definition updateGraph ::
    "'h gort \<Rightarrow> gotime \<Rightarrow> gos_config \<Rightarrow> goerr option \<Rightarrow> expert_analysis option list \<Rightarrow> frontier option
     \<Rightarrow> 'h belief_graph \<Rightarrow> (graph_update_result \<times> 'h belief_graph) option" where
  "updateGraph rt now cfg ctxErr analyses frontier g =
     (case ctxErr of
        Some err \<Rightarrow> Some (refused err, g)
      | None \<Rightarrow>
          (case frontier of
             None \<Rightarrow> Some (refused (Errorf ''graph and frontier are required'' []), g)
           | Some f \<Rightarrow>
               if blank (f_NodeID f) then Some (refused (Errorf ''graph and frontier are required'' []), g)
               else case validateConfidenceConfig (Some cfg) of
                 Some err \<Rightarrow> Some (refused err, g)
               | None \<Rightarrow>
                   map_option (\<lambda>r. UpdateCopyOnWrite rt now (\<lambda>_. r) g)
                     (updateCallback rt now cfg f (graphProposals cfg analyses) (deepCopy g))))"

end
