(* ===== verification/Gos_Evidence_Facts.thy ===== *)
theory Gos_Evidence_Facts
  imports Gos_Evidence
begin

text \<open>
  Facts about evidence updates: the ancestor search never runs out of fuel, the callback
  never panics on a graph the engine can build and does to its copy only what
  \<open>copy_step\<close> allows, and the confidence formula stays in the unit interval and moves in
  the direction of the evidence.
\<close>

subsection \<open>The ancestor search ends\<close>

lemma visit_fuel:
  "card (dom (gm_get (Nodes g)) - set (vs_visiting st)) < fuel \<Longrightarrow>
     visit rt g fuel k st \<noteq> None \<and>
     (\<forall>st'. visit rt g fuel k st = Some (Inr st') \<longrightarrow> set (vs_visiting st') = set (vs_visiting st))"
  "card (dom (gm_get (Nodes g)) - set (vs_visiting st)) < fuel \<Longrightarrow>
     visitParents rt g fuel k es st \<noteq> None \<and>
     (\<forall>st'. visitParents rt g fuel k es st = Some (Inr st') \<longrightarrow> set (vs_visiting st') = set (vs_visiting st))"
proof (induction rt g fuel k st and rt g fuel k es st rule: visit_visitParents.induct)
  case (1 rt g nodeID st)
  then show ?case by simp
next
  case (2 rt g fuel nodeID st)
  let ?D = "dom (gm_get (Nodes g))" and ?V = "set (vs_visiting st)"
  show ?case
  proof (cases "nodeID \<in> ?V \<or> nodeID \<in> set (vs_visited st) \<or> gm_get (Nodes g) nodeID = None")
    case True
    then show ?thesis by auto
  next
    case False
    then obtain n where n: "gm_get (Nodes g) nodeID = Some n" by auto
    show ?thesis
    proof (cases "active_hypothesis n")
      case inactive: False
      with n show ?thesis by auto
    next
      case True
      let ?st = "st\<lparr>vs_visiting := nodeID # vs_visiting st,
                    vs_labels := normalizeHypothesisLabel rt (n_Label n) # vs_labels st\<rparr>"
      have "nodeID \<in> ?D - ?V" using False n by auto
      then have "card (?D - ?V) = Suc (card (?D - insert nodeID ?V))"
        by (metis card_Suc_Diff1 finite_Diff finite_dom_map_of insert_Diff1 Diff_insert)
      then have "card (?D - set (vs_visiting ?st)) < fuel"
        using 2(2) by simp
      moreover have "nodeID \<notin> ?V" "nodeID \<notin> set (vs_visited st)" "\<not> \<not> active_hypothesis n"
        using False True by blast+
      ultimately have "visitParents rt g fuel nodeID (map snd (Edges g)) ?st \<noteq> None \<and>
         (\<forall>st'. visitParents rt g fuel nodeID (map snd (Edges g)) ?st = Some (Inr st') \<longrightarrow>
            set (vs_visiting st') = set (vs_visiting ?st))"
        using 2(1) n by blast
      then have ok: "visitParents rt g fuel nodeID (map snd (Edges g)) ?st \<noteq> None \<and>
         (\<forall>st'. visitParents rt g fuel nodeID (map snd (Edges g)) ?st = Some (Inr st') \<longrightarrow>
            set (vs_visiting st') = insert nodeID ?V)"
        by simp
      have diff: "{k \<in> insert nodeID ?V. k \<noteq> nodeID} = ?V" using False by auto
      obtain r where r: "visitParents rt g fuel nodeID (map snd (Edges g)) ?st = Some r"
        using ok by auto
      show ?thesis
      proof (cases r)
        case (Inl err)
        then show ?thesis using False n True r by simp
      next
        case (Inr st')
        then have "set (vs_visiting st') = insert nodeID ?V" using ok r by simp
        then show ?thesis using False n True r Inr diff by simp
      qed
    qed
  qed
next
  case (3 rt g fuel nodeID st)
  then show ?case by simp
next
  case (4 rt g fuel nodeID e es st)
  show ?case
  proof (cases "e_Dst e = nodeID \<and> e_Type e = EdgeRefines \<and> e_Status e = StatusActive")
    case False
    have skip: "visitParents rt g fuel nodeID (e # es) st = visitParents rt g fuel nodeID es st"
      by (simp only: visitParents.simps False if_False)
    show ?thesis unfolding skip by (rule 4(5) [OF False 4(6)])
  next
    case refines: True
    show ?thesis
    proof (cases "\<exists>p. gm_get (Nodes g) (e_Src e) = Some p \<and> n_Type p = NodeHypothesis")
      case False
      show ?thesis
      proof (cases "gm_get (Nodes g) (e_Src e)")
        case None
        with 4(1) [OF refines None] 4(6) refines show ?thesis by simp
      next
        case (Some p)
        then have "n_Type p \<noteq> NodeHypothesis" using False by blast
        with 4(4) [OF refines Some] 4(6) refines Some show ?thesis by simp
      qed
    next
      case True
      then obtain p where p: "gm_get (Nodes g) (e_Src e) = Some p" "n_Type p = NodeHypothesis" by auto
      have IH: "visit rt g fuel (n_ID p) st \<noteq> None \<and>
          (\<forall>st'. visit rt g fuel (n_ID p) st = Some (Inr st') \<longrightarrow> set (vs_visiting st') = set (vs_visiting st))"
        using 4(2) [OF refines p] 4(6) .
      then obtain r where r: "visit rt g fuel (n_ID p) st = Some r" by auto
      show ?thesis
      proof (cases r)
        case (Inl err)
        then show ?thesis using refines p r by simp
      next
        case (Inr st')
        then have "set (vs_visiting st') = set (vs_visiting st)" using IH r by simp
        with 4(3) [OF refines p r Inr] 4(6) show ?thesis
          using refines p r Inr by simp
      qed
    qed
  qed
qed

lemma ancestors_enough: "activeAncestorLabels rt g k \<noteq> None"
proof -
  have "card (dom (gm_get (Nodes g))) \<le> length (Nodes g)"
    unfolding dom_map_of_conv_image_fst by (metis card_image_le card_length finite_set image_image length_map list.set_map)
  then show ?thesis
    using visit_fuel(1) [of g "\<lparr>vs_labels = [], vs_visiting = [], vs_visited = []\<rparr>" "length (Nodes g) + 1" rt k]
    by (simp add: activeAncestorLabels_def)
qed

lemma validateGraphProposals_total: "validateGraphProposals rt cfg g f ps \<noteq> None"
proof (cases "gm_get (Nodes g) (f_NodeID f)")
  case None
  then show ?thesis by (simp add: validateGraphProposals_def)
next
  case (Some n)
  obtain r where "activeAncestorLabels rt g (n_ID n) = Some r"
    using ancestors_enough [of rt g "n_ID n"] by auto
  with Some show ?thesis
    by (cases r) (simp_all add: validateGraphProposals_def split: sum.splits)
qed

lemma validateGraphProposals_frontier:
  "validateGraphProposals rt cfg g f ps = Some None \<Longrightarrow>
   \<exists>n. gm_get (Nodes g) (f_NodeID f) = Some n \<and> active_hypothesis n"
  by (auto simp: validateGraphProposals_def Let_def split: option.splits if_splits)

subsection \<open>The callback stays within the steps of a copy\<close>

lemma copy_steps_kept: "copy_steps rt g h \<Longrightarrow> gm_get (Nodes g) k \<noteq> None \<Longrightarrow> gm_get (Nodes h) k \<noteq> None"
  using copy_steps_facts [of rt g h] kept_node [of g h k] by force

lemma attachEvidence_steps:
  "copy_steps rt (us_graph (fst st)) (us_graph (fst (attachEvidence rt now cfg ev st)))"
proof -
  obtain k cp where add: "addNodeInternal rt now NodeEvidence (ev_Title ev) (evidenceScore ev) 0
      (Some (evidenceAttrs ev)) (Some (evidenceSourceOf now ev)) (us_graph (fst st)) = (k, cp)"
    by (cases "addNodeInternal rt now NodeEvidence (ev_Title ev) (evidenceScore ev) 0
      (Some (evidenceAttrs ev)) (Some (evidenceSourceOf now ev)) (us_graph (fst st))")
  have "mutation rt (us_graph (fst st)) cp"
    using addNode_mutation [of rt "us_graph (fst st)" now NodeEvidence "ev_Title ev" "evidenceScore ev" 0
        "Some (evidenceAttrs ev)" "Some (evidenceSourceOf now ev)"] add by simp
  then have "copy_steps rt (us_graph (fst st)) cp"
    by (auto intro: copy_steps_op)
  moreover from this have "copy_steps rt (us_graph (fst st)) (addEdgeInternal rt now k (ev_TargetHypothesisID ev)
      t (ev_Strength ev) ''expert_evidence_v1'' cp)" for t
    by (rule copy_steps_op) (rule addEdge_mutation)
  ultimately show ?thesis
    using add by (simp add: attachEvidence_def Let_def)
qed

lemma attachEvidences_steps:
  "copy_steps rt (us_graph (fst st)) (us_graph (fst (foldl (\<lambda>st ev. attachEvidence rt now cfg ev st) st evs)))"
proof (induction evs arbitrary: st)
  case Nil
  then show ?case by simp
next
  case (Cons ev evs)
  show ?case
    using copy_steps_trans [OF attachEvidence_steps Cons.IH] by simp
qed

lemma attachRefinement_steps:
  assumes "gm_get (Nodes cp) f \<noteq> None"
  shows "\<exists>cp'. attachRefinement rt now f x r cp = Some cp' \<and> copy_steps rt cp cp'"
proof -
  obtain parent where p: "gm_get (Nodes cp) f = Some parent" using assms by auto
  let ?add = "addNodeInternal rt now NodeHypothesis (trim_space (hr_Label r)) (hr_Score r) (n_Level parent + 1)
       (Some [(''why'', VStr (trim_space (hr_Why r))), (''actionable'', VBool (hr_Actionable r)),
              (''proposal_expert'', VStr x), (''semantic_type'', VStr ''hypothesis_refinement'')]) None cp"
  obtain k cp1 where add: "?add = (k, cp1)" by (cases ?add)
  have "copy_steps rt cp cp1"
    using copy_steps_op [OF copy_steps_refl addNode_mutation, of rt cp now NodeHypothesis] add by (metis snd_conv)
  then have "copy_steps rt cp (addEdgeInternal rt now f k EdgeRefines (hr_Score r) ''expert_graph_proposal_v1'' cp1)"
    by (rule copy_steps_op) (rule addEdge_mutation)
  then show ?thesis using p add by (simp add: attachRefinement_def)
qed

lemma attachRefinements_steps:
  "gm_get (Nodes cp) f \<noteq> None \<Longrightarrow> \<exists>cp'. attachRefinements rt now f x rs cp = Some cp' \<and> copy_steps rt cp cp'"
proof (induction rs arbitrary: cp)
  case Nil
  then show ?case by simp
next
  case (Cons r rs)
  obtain cp1 where cp1: "attachRefinement rt now f x r cp = Some cp1" "copy_steps rt cp cp1"
    using attachRefinement_steps [OF Cons.prems] by blast
  with Cons.IH [OF copy_steps_kept [OF cp1(2) Cons.prems]] show ?case
    by (auto intro: copy_steps_trans)
qed

lemma promote_steps:
  assumes "graph_wf cp" "gm_get (Nodes cp) f \<noteq> None"
  shows "\<exists>cp'. promoteFrontier f cp = Some cp' \<and> copy_steps rt cp cp'"
proof -
  obtain n where n: "gm_get (Nodes cp) f = Some n" using assms by auto
  moreover obtain m where "n_Attrs n = Some m"
    using graph_wf_attrs [OF assms(1) n] by auto
  ultimately show ?thesis
    using copy_steps_write [OF copy_steps_refl n, where n' = "setAttr ''actionable_source'' (VStr ''expert_support_evidence_v1'')
        (setAttr ''actionable'' (VBool True) n)"]
    by (simp add: promoteFrontier_def)
qed

lemma applyProposal_steps:
  assumes "graph_wf (us_graph us)" "gm_get (Nodes (us_graph us)) f \<noteq> None"
  shows "\<exists>us'. applyProposal rt now cfg f p us = Some us' \<and> copy_steps rt (us_graph us) (us_graph us')"
proof -
  obtain us1 acc where st: "foldl (\<lambda>st ev. attachEvidence rt now cfg ev st) (us, []) (gp_Evidence p) = (us1, acc)"
    by (cases "foldl (\<lambda>st ev. attachEvidence rt now cfg ev st) (us, []) (gp_Evidence p)")
  have s1: "copy_steps rt (us_graph us) (us_graph us1)"
    using attachEvidences_steps [of rt "(us, [])" now cfg "gp_Evidence p"] st by simp
  obtain cp where cp: "attachRefinements rt now f (gp_ExpertName p) (gp_Refinements p) (us_graph us1) = Some cp"
      "copy_steps rt (us_graph us1) cp"
    using attachRefinements_steps [OF copy_steps_kept [OF s1 assms(2)]] by blast
  have s2: "copy_steps rt (us_graph us) cp" using copy_steps_trans [OF s1 cp(2)] .
  have "graph_wf cp" using copy_steps_facts [OF s2] assms(1) by simp
  then obtain cp' where "promoteFrontier f cp = Some cp'" "copy_steps rt cp cp'"
    using promote_steps copy_steps_kept [OF s2 assms(2)] by blast
  with st cp(1) s2 show ?thesis
    by (auto simp: applyProposal_def intro: copy_steps_trans)
qed

lemma applyProposals_steps:
  "graph_wf (us_graph us) \<Longrightarrow> gm_get (Nodes (us_graph us)) f \<noteq> None \<Longrightarrow>
   \<exists>us'. applyProposals rt now cfg f ps us = Some us' \<and> copy_steps rt (us_graph us) (us_graph us')"
proof (induction ps arbitrary: us)
  case Nil
  then show ?case by simp
next
  case (Cons p ps)
  obtain us1 where us1: "applyProposal rt now cfg f p us = Some us1" "copy_steps rt (us_graph us) (us_graph us1)"
    using applyProposal_steps [OF Cons.prems] by blast
  have "graph_wf (us_graph us1)" using copy_steps_facts [OF us1(2)] Cons.prems(1) by simp
  from Cons.IH [OF this copy_steps_kept [OF us1(2) Cons.prems(2)]] us1 show ?case
    by (auto intro: copy_steps_trans)
qed

lemma writeConfidence_frame [simp]:
  "n_ID (writeConfidence cfg c b n) = n_ID n" "n_Level (writeConfidence cfg c b n) = n_Level n"
  "n_Type (writeConfidence cfg c b n) = n_Type n" "n_Status (writeConfidence cfg c b n) = n_Status n"
  "n_Label (writeConfidence cfg c b n) = n_Label n" "n_Source (writeConfidence cfg c b n) = n_Source n"
  "n_Score (writeConfidence cfg c b n) = aggregateConfidence cfg (n_Score n) c"
  by (simp_all add: writeConfidence_def Let_def split: option.splits)

lemma writeConfidence_attrs [simp]: "n_Attrs (writeConfidence cfg c b n) \<noteq> None"
  by (cases b) (simp_all add: writeConfidence_def Let_def setAttr_def)

lemma updateTargets_steps: "copy_steps rt cp (snd (updateTargets cfg us ts cp))"
proof (induction cfg us ts cp rule: updateTargets.induct)
  case (1 cfg us cp)
  then show ?case by simp
next
  case (2 cfg us target ts cp)
  show ?case
  proof (cases "gm_get (Nodes cp) target"; cases "gm_get (us_contributions us) target")
    fix n c
    assume n: "gm_get (Nodes cp) target = Some n" and c: "gm_get (us_contributions us) target = Some c"
    have "copy_steps rt cp
        (cp\<lparr>Nodes := gm_put target (writeConfidence cfg c (gm_get (us_best us) target) n) (Nodes cp)\<rparr>)"
      by (rule copy_steps_write [OF copy_steps_refl n]) simp_all
    with 2 [OF refl n c] n c show ?thesis by (auto intro: copy_steps_trans)
  qed simp_all
qed

lemma updateCallback_steps:
  assumes "graph_wf cp"
  shows "\<exists>r cp'. updateCallback rt now cfg f ps cp = Some (r, cp') \<and> copy_steps rt cp cp' \<and>
    (r = None \<longrightarrow> validateBeliefGraph cp' = None)"
proof (cases "validateBeliefGraph cp")
  case (Some err)
  then show ?thesis by (auto simp: updateCallback_def)
next
  case valid: None
  obtain v where v: "validateGraphProposals rt cfg cp f ps = Some v"
    using validateGraphProposals_total by blast
  show ?thesis
  proof (cases v)
    case (Some err)
    with valid v show ?thesis by (auto simp: updateCallback_def)
  next
    case None
    let ?us = "\<lparr>us_graph = cp, us_contributions = [], us_best = []\<rparr>"
    have "gm_get (Nodes cp) (f_NodeID f) \<noteq> None"
      using validateGraphProposals_frontier v None by blast
    then obtain us where us: "applyProposals rt now cfg (f_NodeID f) ps ?us = Some us" "copy_steps rt cp (us_graph us)"
      using applyProposals_steps [of ?us "f_NodeID f" rt now cfg ps] assms by auto
    let ?ts = "sort_strings (map fst (us_contributions us))"
    have "copy_steps rt cp (snd (updateTargets cfg us ?ts (us_graph us)))"
      using copy_steps_trans [OF us(2) updateTargets_steps] .
    with valid v None us(1) show ?thesis
      by (cases "updateTargets cfg us ?ts (us_graph us)")
        (auto simp: updateCallback_def split: option.splits)
  qed
qed

lemma updateGraph_cases:
  assumes "graph_wf g"
  obtains (early) err where "updateGraph rt now cfg ctxErr analyses frontier g = Some (refused err, g)"
  | (update) r cp where
      "updateGraph rt now cfg ctxErr analyses frontier g = Some (UpdateCopyOnWrite rt now (\<lambda>_. (r, cp)) g)"
      "copy_steps rt (deepCopy g) cp" "r = None \<longrightarrow> validateBeliefGraph cp = None"
proof (cases "ctxErr = None \<and> validateConfidenceConfig (Some cfg) = None \<and>
    (\<exists>f. frontier = Some f \<and> \<not> blank (f_NodeID f))")
  case False
  then have "\<exists>err. updateGraph rt now cfg ctxErr analyses frontier g = Some (refused err, g)"
    by (auto simp: updateGraph_def split: option.splits)
  then show ?thesis using early by blast
next
  case True
  then obtain f where f: "frontier = Some f" "\<not> blank (f_NodeID f)" by blast
  obtain r cp where "updateCallback rt now cfg f (graphProposals cfg analyses) (deepCopy g) = Some (r, cp)"
      "copy_steps rt (deepCopy g) cp" "r = None \<longrightarrow> validateBeliefGraph cp = None"
    using updateCallback_steps [of "deepCopy g" rt now cfg f "graphProposals cfg analyses"] assms by auto
  with True f show ?thesis using update by (simp add: updateGraph_def)
qed

lemma updateGraph_reachable:
  assumes "reachable rt p g"
  shows "\<exists>res g'. updateGraph rt now cfg ctxErr analyses frontier g = Some (res, g') \<and> reachable rt p g' \<and>
    (Committed res \<longrightarrow> graph_valid g')"
  using reachable_wf [OF assms]
proof (cases rule: updateGraph_cases [where rt = rt and now = now and cfg = cfg and ctxErr = ctxErr
      and analyses = analyses and frontier = frontier])
  case (early err)
  with assms show ?thesis by (simp add: refused_def)
next
  case (update r cp)
  obtain res g' where u: "UpdateCopyOnWrite rt now (\<lambda>_. (r, cp)) g = (res, g')"
    by (cases "UpdateCopyOnWrite rt now (\<lambda>_. (r, cp)) g")
  have "reachable rt p g'"
    using UpdateCopyOnWrite_reachable [OF assms, of "\<lambda>_. (r, cp)" now] update(2) u by simp
  moreover have "Committed res \<longrightarrow> graph_valid g'"
    using cow_valid [of rt now "\<lambda>_. (r, cp)" g] update(3) u by auto
  ultimately show ?thesis using update(1) u by simp
qed

subsection \<open>Evidence is attached once\<close>

lemma mutation_limit_back: "mutation rt g g' \<Longrightarrow> limitErr g' = None \<Longrightarrow> limitErr g = None"
  by (induction rule: mutation.induct) (auto simp: ready_def)

lemma evidenceExists_iff:
  "graph_wf g \<Longrightarrow> evidenceExists g key \<longleftrightarrow>
     (\<exists>k n m. gm_get (Nodes g) k = Some n \<and> n_Type n = NodeEvidence \<and> n_Attrs n = Some m \<and>
        attr_string m ''dedup_key'' = key)"
proof -
  assume "graph_wf g"
  then have "gm_ok (Nodes g)" by (rule graph_wf_okD)
  then have mem: "n \<in> set (map snd (Nodes g)) \<longleftrightarrow> (\<exists>k. gm_get (Nodes g) k = Some n)" for n
    by (force simp: gm_in_iff [symmetric])
  have asr: "(case n_Attrs n of None \<Rightarrow> False | Some m \<Rightarrow> attr_string m ''dedup_key'' = key) \<longleftrightarrow>
      (\<exists>m. n_Attrs n = Some m \<and> attr_string m ''dedup_key'' = key)" for n
    by (cases "n_Attrs n") simp_all
  have "evidenceExists g key \<longleftrightarrow> (\<exists>n. (\<exists>k. gm_get (Nodes g) k = Some n) \<and> n_Type n = NodeEvidence \<and>
      (\<exists>m. n_Attrs n = Some m \<and> attr_string m ''dedup_key'' = key))"
    unfolding evidenceExists_def list_ex_iff Bex_def mem asr ..
  then show ?thesis by blast
qed

definition keeps_keys :: "'h belief_graph \<Rightarrow> 'h belief_graph \<Rightarrow> bool" where
  "keeps_keys g h \<longleftrightarrow> (\<forall>key. evidenceExists g key \<longrightarrow> evidenceExists h key)"

lemma keeps_keys_refl [simp]: "keeps_keys g g"
  by (simp add: keeps_keys_def)

lemma keeps_keys_trans: "keeps_keys g h \<Longrightarrow> keeps_keys h k \<Longrightarrow> keeps_keys g k"
  by (simp add: keeps_keys_def)

lemma keeps_keys_same: "Nodes h = Nodes g \<Longrightarrow> keeps_keys g h"
  by (simp add: keeps_keys_def evidenceExists_def)

lemma attr_string_put: "k \<noteq> k' \<Longrightarrow> attr_string (gm_put k v m) k' = attr_string m k'"
  by (simp add: attr_string_def gm_get_put)

definition same_key :: "node \<Rightarrow> node \<Rightarrow> bool" where
  "same_key n n' \<longleftrightarrow> n_Type n' = n_Type n \<and>
     (\<forall>m. n_Attrs n = Some m \<longrightarrow>
        (\<exists>m'. n_Attrs n' = Some m' \<and> attr_string m' ''dedup_key'' = attr_string m ''dedup_key''))"

lemma same_key_refl: "same_key n n"
  by (simp add: same_key_def)

lemma same_key_setAttr: "same_key n n' \<Longrightarrow> k \<noteq> ''dedup_key'' \<Longrightarrow> same_key n (setAttr k v n')"
  by (fastforce simp: same_key_def setAttr_def attr_string_put)

lemma same_key_score: "same_key n (n\<lparr>n_Score := s\<rparr>)"
  by (simp add: same_key_def)

lemma keeps_keys_put:
  assumes "graph_wf g" "graph_wf (g\<lparr>Nodes := gm_put k n' (Nodes g)\<rparr>)"
    and "\<And>n. gm_get (Nodes g) k = Some n \<Longrightarrow> same_key n n'"
  shows "keeps_keys g (g\<lparr>Nodes := gm_put k n' (Nodes g)\<rparr>)"
  unfolding keeps_keys_def evidenceExists_iff [OF assms(1)] evidenceExists_iff [OF assms(2)]
proof (intro allI impI)
  fix key
  assume "\<exists>j n m. gm_get (Nodes g) j = Some n \<and> n_Type n = NodeEvidence \<and> n_Attrs n = Some m \<and>
      attr_string m ''dedup_key'' = key"
  then obtain j n m where n: "gm_get (Nodes g) j = Some n" "n_Type n = NodeEvidence" "n_Attrs n = Some m"
      "attr_string m ''dedup_key'' = key" by blast
  show "\<exists>j n m. gm_get (Nodes (g\<lparr>Nodes := gm_put k n' (Nodes g)\<rparr>)) j = Some n \<and> n_Type n = NodeEvidence \<and>
      n_Attrs n = Some m \<and> attr_string m ''dedup_key'' = key"
  proof (cases "j = k")
    case True
    with n(1) have "same_key n n'" using assms(3) by simp
    with n obtain m' where "n_Type n' = NodeEvidence" "n_Attrs n' = Some m'" "attr_string m' ''dedup_key'' = key"
      by (auto simp: same_key_def)
    then show ?thesis by (auto simp: gm_get_put)
  next
    case False
    with n show ?thesis by (auto simp: gm_get_put)
  qed
qed

lemma keeps_keys_write:
  "graph_wf g \<Longrightarrow> gm_get (Nodes g) k = Some n \<Longrightarrow> same_key n n' \<Longrightarrow> n_ID n' = n_ID n \<Longrightarrow> n_Attrs n' \<noteq> None \<Longrightarrow>
   keeps_keys g (g\<lparr>Nodes := gm_put k n' (Nodes g)\<rparr>)"
  by (rule keeps_keys_put) (auto intro: graph_wf_write)

lemma addNode_graph:
  "snd (addNodeInternal rt now t l s lv ats src g) = g' \<Longrightarrow> limitErr g' = None \<Longrightarrow>
   gm_get (Nodes g') =
     (gm_get (Nodes g))(node_id (CurrentStep g + 1) \<mapsto>
        \<lparr>n_ID = node_id (CurrentStep g + 1), n_Type = t, n_Label = l, n_Score = s, n_Status = StatusActive,
         n_Level = lv, n_Attrs = Some (case ats of None \<Rightarrow> [] | Some m \<Rightarrow> m), n_Source = src,
         n_RetractedBy = [], n_SupersededBy = [], n_RetractedAt = None,
         n_StepID = step_id (CurrentStep g + 1)\<rparr>)"
  by (auto simp: addNodeInternal_def prepare_cases ready_def Let_def gm_get_put split: if_splits)

lemma addNode_refused: "limitErr (snd (addNodeInternal rt now t l s lv ats src g)) \<noteq> None \<Longrightarrow>
   recordingDisabled g \<Longrightarrow> Nodes (snd (addNodeInternal rt now t l s lv ats src g)) = Nodes g"
  by (auto simp: addNodeInternal_def prepare_cases ready_def Let_def split: if_splits)

lemma addNode_keeps_keys:
  assumes "graph_wf g" "recordingDisabled g"
  shows "keeps_keys g (snd (addNodeInternal rt now t l s lv ats src g))"
proof (cases "limitErr (snd (addNodeInternal rt now t l s lv ats src g))")
  case (Some e)
  then show ?thesis using addNode_refused [OF _ assms(2)] by (intro keeps_keys_same) auto
next
  case None
  let ?g = "snd (addNodeInternal rt now t l s lv ats src g)"
  have wf: "graph_wf ?g" using mutation_wf [OF addNode_mutation assms(1)] .
  have fresh: "gm_get (Nodes g) (node_id (CurrentStep g + 1)) = None"
    by (rule node_id_fresh [OF assms(1)]) simp
  have same: "gm_get (Nodes ?g) k = Some n" if "gm_get (Nodes g) k = Some n" for k n
    using that fresh addNode_graph [OF refl None] by auto
  show ?thesis
    unfolding keeps_keys_def evidenceExists_iff [OF assms(1)] evidenceExists_iff [OF wf] using same by blast
qed

lemma addEdge_nodes [simp]: "Nodes (addEdgeInternal rt now src dst t c d g) = Nodes g"
  by (auto simp: addEdgeInternal_def prepare_cases Let_def split: option.splits)

lemma addNode_evidence:
  assumes "graph_wf g" "limitErr (snd (addNodeInternal rt now NodeEvidence l s lv (Some m) src g)) = None"
    and "attr_string m ''dedup_key'' = key"
  shows "evidenceExists (snd (addNodeInternal rt now NodeEvidence l s lv (Some m) src g)) key"
  unfolding evidenceExists_iff [OF mutation_wf [OF addNode_mutation assms(1)]]
  using addNode_graph [OF refl assms(2)] assms(3) by force

text \<open>The copy of the update: well formed and not recorded.\<close>

definition private_copy :: "'h belief_graph \<Rightarrow> bool" where
  "private_copy g \<longleftrightarrow> graph_wf g \<and> recordingDisabled g"

lemma private_copy_steps: "copy_steps rt g h \<Longrightarrow> private_copy g \<Longrightarrow> private_copy h"
  using copy_steps_facts [of rt g h] by (simp add: private_copy_def)

lemma copy_step_limit_back: "copy_step rt g h \<Longrightarrow> limitErr h = None \<Longrightarrow> limitErr g = None"
  by (induction rule: copy_step.induct) (auto dest: mutation_limit_back)

lemma copy_steps_limit_back: "copy_steps rt g h \<Longrightarrow> limitErr h = None \<Longrightarrow> limitErr g = None"
  unfolding copy_steps_def by (induction rule: rtranclp.induct) (auto dest: copy_step_limit_back)

lemma attachEvidence_keys:
  assumes "private_copy (us_graph (fst st))"
  shows "keeps_keys (us_graph (fst st)) (us_graph (fst (attachEvidence rt now cfg ev st)))"
    and "limitErr (us_graph (fst (attachEvidence rt now cfg ev st))) = None \<Longrightarrow>
      evidenceExists (us_graph (fst (attachEvidence rt now cfg ev st))) (evidenceDedupKey ev)"
proof -
  let ?g = "us_graph (fst st)"
  let ?add = "addNodeInternal rt now NodeEvidence (ev_Title ev) (evidenceScore ev) 0
      (Some (evidenceAttrs ev)) (Some (evidenceSourceOf now ev)) ?g"
  obtain k cp where add: "?add = (k, cp)" by (cases ?add)
  have cp: "cp = snd ?add" using add by simp
  have key: "attr_string (evidenceAttrs ev) ''dedup_key'' = evidenceDedupKey ev"
    by (simp add: evidenceAttrs_def attr_string_def)
  have kk: "keeps_keys ?g cp"
    unfolding cp using assms by (intro addNode_keeps_keys) (simp_all add: private_copy_def)
  have edge: "evidenceExists (addEdgeInternal rt now s d t c x cp) = evidenceExists cp" for s d t c x
    by (simp add: evidenceExists_def fun_eq_iff)
  show "keeps_keys ?g (us_graph (fst (attachEvidence rt now cfg ev st)))"
    using add kk edge by (auto simp: attachEvidence_def Let_def keeps_keys_def)
  assume lim: "limitErr (us_graph (fst (attachEvidence rt now cfg ev st))) = None"
  show "evidenceExists (us_graph (fst (attachEvidence rt now cfg ev st))) (evidenceDedupKey ev)"
  proof (cases "cc_Deduplicate (c_Confidence cfg) \<and> evidenceExists ?g (evidenceDedupKey ev)")
    case True
    then show ?thesis by (simp add: attachEvidence_def Let_def)
  next
    case False
    then have "limitErr cp = None"
      using lim add mutation_limit_back [OF addEdge_mutation]
      by (auto simp: attachEvidence_def Let_def split: if_splits)
    then have "evidenceExists cp (evidenceDedupKey ev)"
      unfolding cp using assms key by (intro addNode_evidence) (simp_all add: private_copy_def)
    with False add edge show ?thesis
      by (auto simp: attachEvidence_def Let_def)
  qed
qed

lemma attachEvidences_keys:
  "private_copy (us_graph (fst st)) \<Longrightarrow>
   limitErr (us_graph (fst (foldl (\<lambda>st ev. attachEvidence rt now cfg ev st) st evs))) = None \<Longrightarrow>
   keeps_keys (us_graph (fst st)) (us_graph (fst (foldl (\<lambda>st ev. attachEvidence rt now cfg ev st) st evs))) \<and>
   (\<forall>ev \<in> set evs. evidenceExists (us_graph (fst (foldl (\<lambda>st ev. attachEvidence rt now cfg ev st) st evs)))
      (evidenceDedupKey ev))"
proof (induction evs arbitrary: st)
  case Nil
  then show ?case by simp
next
  case (Cons ev evs)
  let ?st = "attachEvidence rt now cfg ev st"
  have pc: "private_copy (us_graph (fst ?st))"
    using private_copy_steps [OF attachEvidence_steps Cons.prems(1)] .
  have lim: "limitErr (us_graph (fst ?st)) = None"
    using copy_steps_limit_back [OF attachEvidences_steps] Cons.prems(2) by simp
  show ?case
    using Cons.IH [OF pc] Cons.prems(2) attachEvidence_keys(1) [OF Cons.prems(1)]
      attachEvidence_keys(2) [OF Cons.prems(1) lim]
    by (auto simp: keeps_keys_def)
qed

lemma attachRefinement_keys:
  assumes "private_copy cp" "attachRefinement rt now f x r cp = Some cp'"
  shows "keeps_keys cp cp'"
proof -
  obtain parent where p: "gm_get (Nodes cp) f = Some parent"
    using assms(2) by (auto simp: attachRefinement_def split: option.splits)
  let ?add = "addNodeInternal rt now NodeHypothesis (trim_space (hr_Label r)) (hr_Score r) (n_Level parent + 1)
       (Some [(''why'', VStr (trim_space (hr_Why r))), (''actionable'', VBool (hr_Actionable r)),
              (''proposal_expert'', VStr x), (''semantic_type'', VStr ''hypothesis_refinement'')]) None cp"
  obtain k cp1 where add: "?add = (k, cp1)" by (cases ?add)
  have "keeps_keys cp cp1"
    using addNode_keeps_keys [of cp rt now NodeHypothesis] assms(1) add unfolding private_copy_def by (metis snd_conv)
  then show ?thesis
    using assms(2) p add by (auto simp: attachRefinement_def keeps_keys_def evidenceExists_def)
qed

lemma attachRefinements_keys:
  "private_copy cp \<Longrightarrow> attachRefinements rt now f x rs cp = Some cp' \<Longrightarrow> keeps_keys cp cp'"
proof (induction rs arbitrary: cp)
  case Nil
  then show ?case by simp
next
  case (Cons r rs)
  then obtain cp1 where cp1: "attachRefinement rt now f x r cp = Some cp1"
      "attachRefinements rt now f x rs cp1 = Some cp'"
    by (auto split: option.splits)
  have "gm_get (Nodes cp) f \<noteq> None"
    using cp1(1) by (auto simp: attachRefinement_def split: option.splits)
  then have "copy_steps rt cp cp1"
    using attachRefinement_steps [of cp f rt now x r] cp1(1) by auto
  then have "private_copy cp1" using private_copy_steps Cons.prems(1) by blast
  with Cons.IH cp1(2) attachRefinement_keys [OF Cons.prems(1) cp1(1)] show ?case
    using keeps_keys_trans by blast
qed

lemma promote_keys:
  assumes "private_copy cp" "promoteFrontier f cp = Some cp'"
  shows "keeps_keys cp cp'"
proof -
  obtain n where n: "gm_get (Nodes cp) f = Some n"
    and cp': "cp' = cp\<lparr>Nodes := gm_put f (setAttr ''actionable_source'' (VStr ''expert_support_evidence_v1'')
        (setAttr ''actionable'' (VBool True) n)) (Nodes cp)\<rparr>"
    using assms(2) by (auto simp: promoteFrontier_def split: option.splits)
  show ?thesis
    unfolding cp' using assms(1) n
    by (intro keeps_keys_write [OF _ n] same_key_setAttr same_key_refl) (simp_all add: private_copy_def)
qed

lemma applyProposal_keys:
  assumes "private_copy (us_graph us)" "gm_get (Nodes (us_graph us)) f \<noteq> None"
    and "applyProposal rt now cfg f p us = Some us'" "limitErr (us_graph us') = None"
  shows "keeps_keys (us_graph us) (us_graph us') \<and>
    (\<forall>ev \<in> set (gp_Evidence p). evidenceExists (us_graph us') (evidenceDedupKey ev))"
proof -
  obtain us1 acc where st: "foldl (\<lambda>st ev. attachEvidence rt now cfg ev st) (us, []) (gp_Evidence p) = (us1, acc)"
    by (cases "foldl (\<lambda>st ev. attachEvidence rt now cfg ev st) (us, []) (gp_Evidence p)")
  then obtain cp where cp: "attachRefinements rt now f (gp_ExpertName p) (gp_Refinements p) (us_graph us1) = Some cp"
    and us': "us_graph us' = cp \<or> promoteFrontier f cp = Some (us_graph us')"
    using assms(3) by (auto simp: applyProposal_def split: option.splits if_splits)
  have s1: "copy_steps rt (us_graph us) (us_graph us1)"
    using attachEvidences_steps [of rt "(us, [])" now cfg "gp_Evidence p"] st by simp
  then have pc1: "private_copy (us_graph us1)" using private_copy_steps assms(1) by blast
  have s2: "copy_steps rt (us_graph us1) cp"
    using attachRefinements_steps [OF copy_steps_kept [OF s1 assms(2)], of rt now "gp_ExpertName p" "gp_Refinements p"]
      cp by auto
  then have pc2: "private_copy cp" using private_copy_steps pc1 by blast
  have k3: "keeps_keys cp (us_graph us')" using us' promote_keys [OF pc2] by auto
  have "copy_steps rt cp (us_graph us')"
  proof (cases "us_graph us' = cp")
    case True
    then show ?thesis by simp
  next
    case False
    then have pr: "promoteFrontier f cp = Some (us_graph us')" using us' by blast
    then have "gm_get (Nodes cp) f \<noteq> None" by (auto simp: promoteFrontier_def split: option.splits)
    with promote_steps [of cp f rt] pc2 pr show ?thesis by (auto simp: private_copy_def)
  qed
  then have "limitErr (us_graph us1) = None"
    using copy_steps_limit_back s2 assms(4) by blast
  then have "keeps_keys (us_graph us) (us_graph us1) \<and>
      (\<forall>ev \<in> set (gp_Evidence p). evidenceExists (us_graph us1) (evidenceDedupKey ev))"
    using attachEvidences_keys [of "(us, [])" rt now cfg "gp_Evidence p"] assms(1) st by simp
  then show ?thesis
    using attachRefinements_keys [OF pc1 cp] k3 by (auto simp: keeps_keys_def)
qed

lemma applyProposals_keys:
  "private_copy (us_graph us) \<Longrightarrow> gm_get (Nodes (us_graph us)) f \<noteq> None \<Longrightarrow>
   applyProposals rt now cfg f ps us = Some us' \<Longrightarrow> limitErr (us_graph us') = None \<Longrightarrow>
   keeps_keys (us_graph us) (us_graph us') \<and>
   (\<forall>p \<in> set ps. \<forall>ev \<in> set (gp_Evidence p). evidenceExists (us_graph us') (evidenceDedupKey ev))"
proof (induction ps arbitrary: us)
  case Nil
  then show ?case by simp
next
  case (Cons p ps)
  then obtain us1 where us1: "applyProposal rt now cfg f p us = Some us1"
      "applyProposals rt now cfg f ps us1 = Some us'"
    by (auto split: option.splits)
  have s1: "copy_steps rt (us_graph us) (us_graph us1)"
    using applyProposal_steps [of us f rt now cfg p] Cons.prems(1,2) us1(1) by (auto simp: private_copy_def)
  then have pc: "private_copy (us_graph us1)" using private_copy_steps Cons.prems(1) by blast
  have node: "gm_get (Nodes (us_graph us1)) f \<noteq> None" by (rule copy_steps_kept [OF s1 Cons.prems(2)])
  have "copy_steps rt (us_graph us1) (us_graph us')"
    using applyProposals_steps [of us1 f rt now cfg ps] pc node us1(2) by (auto simp: private_copy_def)
  then have lim: "limitErr (us_graph us1) = None" using copy_steps_limit_back Cons.prems(4) by blast
  show ?case
    using Cons.IH [OF pc node us1(2) Cons.prems(4)] applyProposal_keys [OF Cons.prems(1,2) us1(1) lim]
    by (auto simp: keeps_keys_def)
qed

lemma same_key_writeConfidence: "same_key n (writeConfidence cfg c b n)"
proof (cases b)
  case None
  then show ?thesis
    unfolding writeConfidence_def Let_def
    by (simp, intro same_key_setAttr same_key_score) simp_all
next
  case (Some a)
  then show ?thesis
    unfolding writeConfidence_def Let_def
    by (simp, intro conjI impI same_key_setAttr same_key_score) simp_all
qed

lemma updateTargets_keys: "private_copy cp \<Longrightarrow> keeps_keys cp (snd (updateTargets cfg us ts cp))"
proof (induction cfg us ts cp rule: updateTargets.induct)
  case (1 cfg us cp)
  then show ?case by simp
next
  case (2 cfg us target ts cp)
  show ?case
  proof (cases "gm_get (Nodes cp) target"; cases "gm_get (us_contributions us) target")
    fix n c
    assume n: "gm_get (Nodes cp) target = Some n" and c: "gm_get (us_contributions us) target = Some c"
    let ?cp = "cp\<lparr>Nodes := gm_put target (writeConfidence cfg c (gm_get (us_best us) target) n) (Nodes cp)\<rparr>"
    have "copy_steps undefined cp ?cp"
      by (rule copy_steps_write [OF copy_steps_refl n]) simp_all
    then have pc: "private_copy ?cp" using private_copy_steps 2(2) by blast
    have "keeps_keys cp ?cp"
      using 2(2) by (intro keeps_keys_write [OF _ n] same_key_writeConfidence) (simp_all add: private_copy_def)
    then have "keeps_keys cp (snd (updateTargets cfg us ts ?cp))"
      using 2(1) [OF refl n c pc] keeps_keys_trans by blast
    with n c show ?thesis by simp
  qed simp_all
qed

lemma updateCallback_keys:
  assumes "private_copy cp" "updateCallback rt now cfg f ps cp = Some (None, cp')" "limitErr cp' = None"
  shows "keeps_keys cp cp' \<and> (\<forall>p \<in> set ps. \<forall>ev \<in> set (gp_Evidence p). evidenceExists cp' (evidenceDedupKey ev))"
proof -
  let ?us = "\<lparr>us_graph = cp, us_contributions = [], us_best = []\<rparr>"
  obtain us where v: "validateGraphProposals rt cfg cp f ps = Some None"
    and us: "applyProposals rt now cfg (f_NodeID f) ps ?us = Some us"
    and cp': "updateTargets cfg us (sort_strings (map fst (us_contributions us))) (us_graph us) = (None, cp')"
    using assms(2) by (auto simp: updateCallback_def split: option.splits prod.splits)
  have f: "gm_get (Nodes cp) (f_NodeID f) \<noteq> None"
    using validateGraphProposals_frontier [OF v] by auto
  have "copy_steps rt cp (us_graph us)"
    using applyProposals_steps [of ?us "f_NodeID f" rt now cfg ps] assms(1) f us by (auto simp: private_copy_def)
  then have pc: "private_copy (us_graph us)" using private_copy_steps assms(1) by blast
  have "copy_steps rt (us_graph us) cp'"
    using updateTargets_steps [of rt "us_graph us" cfg us "sort_strings (map fst (us_contributions us))"] cp' by simp
  then have lim: "limitErr (us_graph us) = None" using copy_steps_limit_back assms(3) by blast
  have "keeps_keys (us_graph us) cp'"
    using updateTargets_keys [OF pc, of cfg us "sort_strings (map fst (us_contributions us))"] cp' by simp
  then show ?thesis
    using applyProposals_keys [of ?us "f_NodeID f" rt now cfg ps us] assms(1) f us lim by (auto simp: keeps_keys_def)
qed

text \<open>Evidence that is already attached contributes nothing.\<close>

definition only_evidence :: "graph_proposal \<Rightarrow> bool" where
  "only_evidence p \<longleftrightarrow> gp_Refinements p = [] \<and> gp_CurrentHypothesisActionable p \<noteq> Some True"

lemma attachEvidences_known:
  "cc_Deduplicate (c_Confidence cfg) \<Longrightarrow> \<forall>ev \<in> set evs. evidenceExists (us_graph us) (evidenceDedupKey ev) \<Longrightarrow>
   foldl (\<lambda>st ev. attachEvidence rt now cfg ev st) (us, acc) evs = (us, acc)"
  by (induction evs) (simp_all add: attachEvidence_def)

lemma applyProposals_known:
  "cc_Deduplicate (c_Confidence cfg) \<Longrightarrow> \<forall>p \<in> set ps. only_evidence p \<Longrightarrow>
   \<forall>p \<in> set ps. \<forall>ev \<in> set (gp_Evidence p). evidenceExists (us_graph us) (evidenceDedupKey ev) \<Longrightarrow>
   applyProposals rt now cfg f ps us = Some us"
proof (induction ps)
  case Nil
  then show ?case by simp
next
  case (Cons p ps)
  have "applyProposal rt now cfg f p us = Some us"
    using Cons.prems attachEvidences_known [of cfg "gp_Evidence p" us rt now "[]"]
    by (simp add: applyProposal_def only_evidence_def)
  with Cons show ?case by simp
qed

lemma updateCallback_known:
  assumes "cc_Deduplicate (c_Confidence cfg)" "\<forall>p \<in> set ps. only_evidence p"
    and "\<forall>p \<in> set ps. \<forall>ev \<in> set (gp_Evidence p). evidenceExists cp (evidenceDedupKey ev)"
    and "updateCallback rt now cfg f ps cp = Some (r, cp')"
  shows "cp' = cp"
  using assms(4) applyProposals_known [of cfg ps "\<lparr>us_graph = cp, us_contributions = [], us_best = []\<rparr>" rt now "f_NodeID f"]
    assms(1-3)
  by (auto simp: updateCallback_def sort_strings_def split: option.splits)

lemma graphProposals_set:
  "set (graphProposals cfg analyses) =
     (\<lambda>a. \<lparr>gp_ExpertName = xa_ExpertName a, gp_Analysis = xa_Analysis a, gp_Confidence = xa_Confidence a,
           gp_Evidence = xa_Evidence a,
           gp_Refinements = (if sg_Enabled (c_StructuredCognition cfg) then xa_Refinements a else []),
           gp_CurrentHypothesisActionable = xa_CurrentHypothesisActionable a\<rparr>) ` {a. Some a \<in> set analyses}"
  by (induction analyses) (auto simp: graphProposals_def List.map_filter_simps split: option.splits)

subsection \<open>Confidence\<close>

definition contribution_ok :: "confidence_contribution \<Rightarrow> bool" where
  "contribution_ok c \<longleftrightarrow> 0 \<le> cn_supportProduct c \<and> cn_supportProduct c \<le> 1 \<and>
     0 \<le> cn_refuteProduct c \<and> cn_refuteProduct c \<le> 1"

lemma contribution_new_ok [simp]: "contribution_ok newConfidenceContribution"
  by (simp add: contribution_ok_def newConfidenceContribution_def)

lemma contribution_add_ok:
  "contribution_ok c \<Longrightarrow> 0 \<le> s \<Longrightarrow> s \<le> 1 \<Longrightarrow> contribution_ok (contribution_add r s k c)"
  using fsub_unit [of s] fmul_unit [of "cn_supportProduct c" "fsub 1 s"] fmul_unit [of "cn_refuteProduct c" "fsub 1 s"]
  by (simp add: contribution_ok_def contribution_add_def Let_def)

lemma contribution_add_other:
  "r \<noteq> relation_refute \<Longrightarrow> cn_refuteProduct (contribution_add r s k c) = cn_refuteProduct c"
  "r \<noteq> relation_support \<Longrightarrow> cn_supportProduct (contribution_add r s k c) = cn_supportProduct c"
  by (simp_all add: contribution_add_def Let_def)

text \<open>The contribution of a list of evidence (relation, strength and key of each).\<close>

definition contribution_of :: "(string \<times> f64 \<times> string) list \<Rightarrow> confidence_contribution" where
  "contribution_of es = foldl (\<lambda>c (r, s, k). contribution_add r s k c) newConfidenceContribution es"

lemma contribution_of_snoc: "contribution_of (es @ [(r, s, k)]) = contribution_add r s k (contribution_of es)"
  by (simp add: contribution_of_def)

lemma contribution_of_ok: "\<forall>(r, s, k) \<in> set es. 0 \<le> s \<and> s \<le> 1 \<Longrightarrow> contribution_ok (contribution_of es)"
proof (induction es rule: rev_induct)
  case Nil
  then show ?case by (simp add: contribution_of_def)
next
  case (snoc e es)
  then show ?case by (cases e) (auto simp: contribution_of_snoc intro: contribution_add_ok)
qed

lemma contribution_of_unrefuted:
  "\<forall>(r, s, k) \<in> set es. r \<noteq> relation_refute \<Longrightarrow> cn_refuteProduct (contribution_of es) = 1"
proof (induction es rule: rev_induct)
  case Nil
  then show ?case by (simp add: contribution_of_def newConfidenceContribution_def)
next
  case (snoc e es)
  then show ?case by (cases e) (auto simp: contribution_of_snoc contribution_add_other)
qed

lemma contribution_of_unsupported:
  "\<forall>(r, s, k) \<in> set es. r \<noteq> relation_support \<Longrightarrow> cn_supportProduct (contribution_of es) = 1"
proof (induction es rule: rev_induct)
  case Nil
  then show ?case by (simp add: contribution_of_def newConfidenceContribution_def)
next
  case (snoc e es)
  then show ?case by (cases e) (auto simp: contribution_of_snoc contribution_add_other)
qed

lemma clamp01_unit [simp]: "0 \<le> clamp01 x" "clamp01 x \<le> 1"
  by (simp_all add: clamp01_def)

lemma clamp01_id: "0 \<le> x \<Longrightarrow> x \<le> 1 \<Longrightarrow> clamp01 x = x"
  by (simp add: clamp01_def)

lemma clamp01_mono: "x \<le> y \<Longrightarrow> clamp01 x \<le> clamp01 y"
  by (simp add: clamp01_def)

lemma strength_unit: "contribution_ok c \<Longrightarrow> 0 \<le> supportStrength c" "contribution_ok c \<Longrightarrow> 0 \<le> refuteStrength c"
  using fsub_unit [of "cn_supportProduct c"] fsub_unit [of "cn_refuteProduct c"]
  by (simp_all add: contribution_ok_def supportStrength_def refuteStrength_def)

lemma aggregate_up:
  assumes "representable x" "0 \<le> x" "x \<le> 1" "contribution_ok c" "cn_refuteProduct c = 1"
    and "validateConfidenceConfig (Some cfg) = None"
  shows "x \<le> aggregateConfidence cfg x c"
proof -
  have w: "0 \<le> cc_SupportWeight (c_Confidence cfg)"
    using assms(6) by (auto simp: validateConfidenceConfig_def split: if_splits)
  have r: "refuteStrength c = 0" using assms(5) by (simp add: refuteStrength_def fsub_def)
  have d: "0 \<le> fmul (fmul (cc_SupportWeight (c_Confidence cfg)) (supportStrength c)) (fsub 1 x)"
    using w strength_unit(1) [OF assms(4)] fsub_unit [OF assms(2,3)] by (intro fmul_nonneg) auto
  have "x = rnd x" using assms(1) by (simp add: representable_def)
  also have "rnd x \<le> fadd x (fmul (fmul (cc_SupportWeight (c_Confidence cfg)) (supportStrength c)) (fsub 1 x))"
    unfolding fadd_def using d by (intro rnd_mono) simp
  finally have "rnd x \<le> rnd (fadd x (fmul (fmul (cc_SupportWeight (c_Confidence cfg)) (supportStrength c)) (fsub 1 x)))"
    by (rule rnd_mono)
  then have "x \<le> fsub (fadd x (fmul (fmul (cc_SupportWeight (c_Confidence cfg)) (supportStrength c)) (fsub 1 x))) 0"
    using assms(1) by (simp add: fsub_def representable_def)
  from clamp01_mono [OF this] show ?thesis
    using assms(2,3) r by (simp add: aggregateConfidence_def Let_def clamp01_id)
qed

lemma aggregate_down:
  assumes "representable x" "0 \<le> x" "x \<le> 1" "contribution_ok c" "cn_supportProduct c = 1"
    and "validateConfidenceConfig (Some cfg) = None"
  shows "aggregateConfidence cfg x c \<le> x"
proof -
  have w: "0 \<le> cc_RefuteWeight (c_Confidence cfg)"
    using assms(6) by (auto simp: validateConfidenceConfig_def split: if_splits)
  have s: "supportStrength c = 0" using assms(5) by (simp add: supportStrength_def fsub_def)
  have d: "0 \<le> fmul (fmul (cc_RefuteWeight (c_Confidence cfg)) (refuteStrength c)) x"
    using w strength_unit(2) [OF assms(4)] assms(2) by (intro fmul_nonneg) auto
  have x: "fadd x 0 = x" using assms(1) by (simp add: fadd_def representable_def)
  have "fsub x (fmul (fmul (cc_RefuteWeight (c_Confidence cfg)) (refuteStrength c)) x) \<le> rnd x"
    unfolding fsub_def using d by (intro rnd_mono) simp
  also have "rnd x = x" using assms(1) by (simp add: representable_def)
  finally show ?thesis
    using clamp01_mono [of _ x] assms(2,3) s x by (simp add: aggregateConfidence_def Let_def clamp01_id)
qed

end
