(* ===== verification/Gos_Converter_Facts.thy ===== *)
theory Gos_Converter_Facts
  imports Gos_Converter Gos_Evidence_Facts
begin

text \<open>
  Facts about the converter: what the search for descendants finds, that the callbacks of
  refinement and backtracking are clients of the graph in the sense of \<open>graph_client\<close>, and
  what they leave behind.
\<close>

subsection \<open>The descendants of a branch\<close>

text \<open>One active \<open>refines\<close> edge down to an active hypothesis below the target level.\<close>

definition refines_step :: "'h belief_graph \<Rightarrow> int \<Rightarrow> string \<Rightarrow> string \<Rightarrow> bool" where
  "refines_step g level a b \<longleftrightarrow>
     (\<exists>e \<in> set (map snd (Edges g)). e_Src e = a \<and> e_Type e = EdgeRefines \<and> e_Status e = StatusActive \<and>
        (\<exists>child. gm_get (Nodes g) (e_Dst e) = Some child \<and> active_hypothesis child \<and> level < n_Level child \<and>
           n_ID child = b))"

lemma scanChildren_shape:
  "\<exists>new. fst (scanChildren g level current es st) = rev new @ fst st \<and>
     snd (scanChildren g level current es st) = snd st @ new"
proof (induction es arbitrary: st)
  case Nil
  then show ?case by simp
next
  case (Cons e es)
  have "scanChildren g level current (e # es) st = scanChildren g level current es st \<or>
      (\<exists>k. scanChildren g level current (e # es) st = scanChildren g level current es (k # fst st, snd st @ [k]))"
    by (cases "gm_get (Nodes g) (e_Dst e)") auto
  then obtain st' where st': "scanChildren g level current (e # es) st = scanChildren g level current es st'"
      "st' = st \<or> (\<exists>k. st' = (k # fst st, snd st @ [k]))" by blast
  from st'(2) Cons.IH [of st'] show ?case
    unfolding st'(1) by fastforce
qed

lemma scanChildren_found:
  "set (fst (scanChildren g level current es st)) = set (fst st) \<union>
     {b. \<exists>e \<in> set es. e_Src e = current \<and> e_Type e = EdgeRefines \<and> e_Status e = StatusActive \<and>
        (\<exists>child. gm_get (Nodes g) (e_Dst e) = Some child \<and> active_hypothesis child \<and> level < n_Level child \<and>
           n_ID child = b)}"
proof (induction es arbitrary: st)
  case Nil
  then show ?case by simp
next
  case (Cons e es)
  let ?P = "\<lambda>child. gm_get (Nodes g) (e_Dst e) = Some child \<and> e_Src e = current \<and> e_Type e = EdgeRefines \<and>
      e_Status e = StatusActive \<and> active_hypothesis child \<and> level < n_Level child"
  have "(\<exists>child. ?P child \<and> scanChildren g level current (e # es) st =
        scanChildren g level current es (n_ID child # fst st, snd st @ [n_ID child])) \<or>
      (\<forall>child. ?P child \<longrightarrow> n_ID child \<in> set (fst st)) \<and>
        scanChildren g level current (e # es) st = scanChildren g level current es st"
    by (auto simp: not_le split: option.splits)
  then show ?case
  proof
    assume "\<exists>child. ?P child \<and> scanChildren g level current (e # es) st =
        scanChildren g level current es (n_ID child # fst st, snd st @ [n_ID child])"
    then obtain child where c: "?P child" "scanChildren g level current (e # es) st =
        scanChildren g level current es (n_ID child # fst st, snd st @ [n_ID child])" by blast
    show ?thesis unfolding c(2) Cons.IH using c(1) by auto
  next
    assume c: "(\<forall>child. ?P child \<longrightarrow> n_ID child \<in> set (fst st)) \<and>
        scanChildren g level current (e # es) st = scanChildren g level current es st"
    show ?thesis unfolding c [THEN conjunct2] Cons.IH using c [THEN conjunct1] by auto
  qed
qed

lemma scanChildren_step:
  obtains new where
    "set (fst (scanChildren g level current (map snd (Edges g)) (ds, q))) = set ds \<union> set new"
    "set (snd (scanChildren g level current (map snd (Edges g)) (ds, q))) = set q \<union> set new"
    "set ds \<union> set new = set ds \<union> {b. refines_step g level current b}"
proof -
  obtain new where new: "fst (scanChildren g level current (map snd (Edges g)) (ds, q)) = rev new @ ds"
      "snd (scanChildren g level current (map snd (Edges g)) (ds, q)) = q @ new"
    using scanChildren_shape [of g level current "map snd (Edges g)" "(ds, q)"] by auto
  moreover have "set (fst (scanChildren g level current (map snd (Edges g)) (ds, q))) =
      set ds \<union> {b. refines_step g level current b}"
    unfolding scanChildren_found refines_step_def by simp
  ultimately show ?thesis using that [of new] by auto
qed

lemma descend_sound:
  "set ds \<subseteq> R \<Longrightarrow> (\<And>x b. x \<in> set q \<union> R \<Longrightarrow> refines_step g level x b \<Longrightarrow> b \<in> R) \<Longrightarrow> set (descend g level ds q) \<subseteq> R"
proof (induction g level ds q rule: descend.induct)
  case (1 g level ds)
  then show ?case by simp
next
  case (2 g level ds current q)
  let ?st = "scanChildren g level current (map snd (Edges g)) (ds, q)"
  obtain new where new: "set (fst ?st) = set ds \<union> set new" "set (snd ?st) = set q \<union> set new"
      "set ds \<union> set new = set ds \<union> {b. refines_step g level current b}"
    by (rule scanChildren_step)
  have "{b. refines_step g level current b} \<subseteq> R" using 2(3) by auto
  then have R: "set ds \<union> set new \<subseteq> R" using 2(2) new(3) by auto
  have "set (descend g level (fst ?st) (snd ?st)) \<subseteq> R"
  proof (rule 2(1) [OF refl])
    show "set (fst ?st) \<subseteq> R" using R new(1) by simp
    show "b \<in> R" if "x \<in> set (snd ?st) \<union> R" "refines_step g level x b" for x b
      using 2(3) [of x b] that new(2) R by auto
  qed
  then show ?case by (simp add: Let_def)
qed

lemma descend_complete:
  "(\<And>x b. x \<in> set ds \<union> C \<Longrightarrow> x \<notin> set q \<Longrightarrow> refines_step g level x b \<Longrightarrow> b \<in> set ds) \<Longrightarrow>
   set ds \<subseteq> set (descend g level ds q) \<and>
   (\<forall>x b. x \<in> set (descend g level ds q) \<union> C \<longrightarrow> refines_step g level x b \<longrightarrow> b \<in> set (descend g level ds q))"
proof (induction g level ds q rule: descend.induct)
  case (1 g level ds)
  then show ?case by simp
next
  case (2 g level ds current q)
  let ?st = "scanChildren g level current (map snd (Edges g)) (ds, q)"
  obtain new where new: "set (fst ?st) = set ds \<union> set new" "set (snd ?st) = set q \<union> set new"
      "set ds \<union> set new = set ds \<union> {b. refines_step g level current b}"
    by (rule scanChildren_step)
  have "b \<in> set (fst ?st)" if x: "x \<in> set (fst ?st) \<union> C" "x \<notin> set (snd ?st)" and st: "refines_step g level x b" for x b
  proof (cases "x = current")
    case True
    with st new(1,3) show ?thesis by auto
  next
    case False
    then have "x \<in> set ds \<union> C" "x \<notin> set (current # q)" using x new by auto
    then have "b \<in> set ds" using 2(2) [of x b] st by blast
    with new(1) show ?thesis by simp
  qed
  then have "set (fst ?st) \<subseteq> set (descend g level (fst ?st) (snd ?st)) \<and>
     (\<forall>x b. x \<in> set (descend g level (fst ?st) (snd ?st)) \<union> C \<longrightarrow> refines_step g level x b \<longrightarrow>
        b \<in> set (descend g level (fst ?st) (snd ?st)))"
    by (rule 2(1) [OF refl])
  then show ?case using new(1) by (simp add: Let_def)
qed

lemma descend_root: "set (descend g level [] [r]) = {b. (refines_step g level)\<^sup>+\<^sup>+ r b}"
proof
  show "set (descend g level [] [r]) \<subseteq> {b. (refines_step g level)\<^sup>+\<^sup>+ r b}"
    by (rule descend_sound) (auto intro: tranclp.trancl_into_trancl)
  have closed: "\<forall>x b. x \<in> set (descend g level [] [r]) \<union> {r} \<longrightarrow> refines_step g level x b \<longrightarrow>
      b \<in> set (descend g level [] [r])"
    using descend_complete [of "[]" "{r}" "[r]" g level] by simp
  have "b \<in> set (descend g level [] [r])" if "(refines_step g level)\<^sup>+\<^sup>+ r b" for b
    using that by (induction rule: tranclp_induct) (use closed in blast)+
  then show "{b. (refines_step g level)\<^sup>+\<^sup>+ r b} \<subseteq> set (descend g level [] [r])" by blast
qed

lemma evidence_fold_mono:
  "set ds \<subseteq> set (foldl (\<lambda>ds n.
      if n_Type n \<noteq> NodeEvidence \<or> n_Status n \<noteq> StatusActive then ds
      else case n_Source n of
        None \<Rightarrow> ds
      | Some s \<Rightarrow> if es_TargetHypothesisID s \<in> set ds then List.insert (n_ID n) ds else ds) ds ns)"
proof (induction ns arbitrary: ds)
  case Nil
  then show ?case by simp
next
  case (Cons n ns)
  show ?case
    by (simp split: option.splits) (use Cons.IH in \<open>fastforce\<close>)
qed

lemma descendants_hypotheses:
  assumes "(refines_step g level)\<^sup>+\<^sup>+ r b"
  shows "b \<in> set (descendantSubgraphIDs g r level)"
proof -
  have "b \<in> set (descend g level [] [r])" using assms unfolding descend_root by simp
  then show ?thesis
    using evidence_fold_mono [of "descend g level [] [r]" "map snd (Nodes g)"]
    unfolding descendantSubgraphIDs_def Let_def sort_strings_def set_sort by blast
qed

subsection \<open>The converter's callbacks are clients of the graph\<close>

lemma addCandidate_steps: "copy_steps rt (fst st) (fst (addCandidate rt now d st c))"
proof -
  let ?add = "addNodeInternal rt now NodeHypothesis (trim_space (rc_Label c)) (rc_Score c) (sd_ToLevel d)
      (Some [(''why'', VStr (rc_Why c)), (''actionable'', VBool (rc_Actionable c)),
             (''refined_from'', VStr (sd_FrontierID d))]) None (fst st)"
  obtain k cp where add: "?add = (k, cp)" by (cases ?add)
  have "copy_steps rt (fst st) cp"
    using copy_steps_op [OF copy_steps_refl addNode_mutation, of rt "fst st" now NodeHypothesis] add by (metis snd_conv)
  then have "copy_steps rt (fst st) (addEdgeInternal rt now (sd_FrontierID d) k EdgeRefines (rc_Score c)
      ''state_converter_v1'' cp)"
    by (rule copy_steps_op) (rule addEdge_mutation)
  then show ?thesis using add by (simp add: addCandidate_def)
qed

lemma addCandidates_steps: "copy_steps rt (fst st) (fst (foldl (addCandidate rt now d) st cs))"
proof (induction cs arbitrary: st)
  case Nil
  then show ?case by simp
next
  case (Cons c cs)
  show ?case using copy_steps_trans [OF addCandidate_steps Cons.IH] by simp
qed

lemma retracts_steps: "copy_steps rt cp (foldl (\<lambda>c k. retractNodeInternal rt now k b r c) cp ids)"
proof (induction ids arbitrary: cp)
  case Nil
  then show ?case by simp
next
  case (Cons k ids)
  have "copy_steps rt cp (retractNodeInternal rt now k b r cp)"
    by (rule copy_steps_op [OF copy_steps_refl retractNode_mutation])
  with Cons.IH show ?case by (auto intro: copy_steps_trans)
qed

interpretation refinement: graph_client rt "\<lambda>cp. fst (refineCopy rt now d cp)" for rt now d
proof
  show "copy_steps rt cp (snd (fst (refineCopy rt now d cp)))" for cp :: "'a belief_graph"
    using addCandidates_steps [of rt "(cp, [])" now d "sd_Candidates d"]
    by (auto simp: refineCopy_def Let_def case_prod_unfold split: option.splits)
  show "validateBeliefGraph cp' = None" if "fst (refineCopy rt now d cp) = (None, cp')" for cp cp' :: "'a belief_graph"
    using that by (auto simp: refineCopy_def Let_def case_prod_unfold split: option.splits if_splits)
qed

interpretation backtracking: graph_client rt "backtrackCopy rt now d" for rt now d
proof
  show "copy_steps rt cp (snd (backtrackCopy rt now d cp))" for cp :: "'a belief_graph"
    using retracts_steps by (auto simp: backtrackCopy_def Let_def split: option.splits)
  show "validateBeliefGraph cp' = None" if "backtrackCopy rt now d cp = (None, cp')" for cp cp' :: "'a belief_graph"
    using that by (auto simp: backtrackCopy_def Let_def split: option.splits if_splits)
qed

subsection \<open>What a retraction leaves\<close>

definition retracted :: "string \<Rightarrow> 'h belief_graph \<Rightarrow> bool" where
  "retracted k g \<longleftrightarrow> (\<forall>n. gm_get (Nodes g) k = Some n \<longrightarrow> n_Status n = StatusRetracted)"

lemma retract_node_get:
  assumes "limitErr (retractNodeInternal rt now k b r g) = None"
  shows "gm_get (Nodes (retractNodeInternal rt now k b r g)) j =
    (if j = k then map_option (\<lambda>n. setAttr ''retract_reason'' (VMsg r)
        (n\<lparr>n_Status := StatusRetracted, n_RetractedBy := b, n_RetractedAt := Some now\<rparr>)) (gm_get (Nodes g) k)
     else gm_get (Nodes g) j)"
  using assms
  by (cases "gm_get (Nodes g) k")
     (auto simp: retractNodeInternal_def prepare_cases ready_def Let_def gm_get_put split: if_splits)

lemma retract_edge_get:
  assumes "limitErr (retractNodeInternal rt now k b r g) = None" "gm_get (Nodes g) k \<noteq> None"
  shows "gm_get (Edges (retractNodeInternal rt now k b r g)) j =
    map_option (retractEdge k b now) (gm_get (Edges g) j)"
  using assms
  by (auto simp: retractNodeInternal_def prepare_cases ready_def Let_def gm_get_map split: if_splits)

text \<open>Retracting a list of existing nodes: those are retracted with no active edge at them, the
  others and the edges between others are as before.\<close>

lemma retracts_effect:
  assumes "limitErr (foldl (\<lambda>c k. retractNodeInternal rt now k b r c) cp ids) = None"
    and "\<forall>k \<in> set ids. gm_get (Nodes cp) k \<noteq> None"
  shows "(\<forall>k \<in> set ids. retracted k (foldl (\<lambda>c k. retractNodeInternal rt now k b r c) cp ids)) \<and>
    (\<forall>k. k \<notin> set ids \<longrightarrow>
       gm_get (Nodes (foldl (\<lambda>c k. retractNodeInternal rt now k b r c) cp ids)) k = gm_get (Nodes cp) k) \<and>
    (\<forall>j. gm_get (Edges (foldl (\<lambda>c k. retractNodeInternal rt now k b r c) cp ids)) j =
       map_option (\<lambda>e. foldl (\<lambda>e k. retractEdge k b now e) e ids) (gm_get (Edges cp) j))"
  using assms
proof (induction ids arbitrary: cp)
  case Nil
  then show ?case by (simp add: option.map_ident)
next
  case (Cons k ids)
  let ?cp = "retractNodeInternal rt now k b r cp"
  have lim: "limitErr ?cp = None"
    using copy_steps_limit_back [OF retracts_steps] Cons.prems(1) by simp
  have keep: "gm_get (Nodes ?cp) j \<noteq> None \<longleftrightarrow> gm_get (Nodes cp) j \<noteq> None" for j
    using retract_node_get [OF lim, of j] by auto
  have IH: "(\<forall>j \<in> set ids. retracted j (foldl (\<lambda>c k. retractNodeInternal rt now k b r c) ?cp ids)) \<and>
    (\<forall>j. j \<notin> set ids \<longrightarrow>
       gm_get (Nodes (foldl (\<lambda>c k. retractNodeInternal rt now k b r c) ?cp ids)) j = gm_get (Nodes ?cp) j) \<and>
    (\<forall>j. gm_get (Edges (foldl (\<lambda>c k. retractNodeInternal rt now k b r c) ?cp ids)) j =
       map_option (\<lambda>e. foldl (\<lambda>e k. retractEdge k b now e) e ids) (gm_get (Edges ?cp) j))"
    using Cons.IH [of ?cp] Cons.prems keep by auto
  have "retracted k (foldl (\<lambda>c k. retractNodeInternal rt now k b r c) ?cp ids)"
  proof (cases "k \<in> set ids")
    case True
    with IH show ?thesis by blast
  next
    case False
    with IH have "gm_get (Nodes (foldl (\<lambda>c k. retractNodeInternal rt now k b r c) ?cp ids)) k = gm_get (Nodes ?cp) k"
      by blast
    then show ?thesis unfolding retracted_def retract_node_get [OF lim] by auto
  qed
  moreover have "gm_get (Edges ?cp) j = map_option (retractEdge k b now) (gm_get (Edges cp) j)" for j
    using retract_edge_get [OF lim] Cons.prems(2) by simp
  ultimately show ?case
    using IH retract_node_get [OF lim] by (simp add: option.map_comp comp_def)
qed

lemma retractEdges_active:
  "e_Status (foldl (\<lambda>e k. retractEdge k b t e) e ids) = StatusActive \<longleftrightarrow>
     e_Status e = StatusActive \<and> e_Src e \<notin> set ids \<and> e_Dst e \<notin> set ids"
proof (induction ids arbitrary: e)
  case Nil
  then show ?case by simp
next
  case (Cons k ids)
  have "e_Status (retractEdge k b t e) = StatusActive \<longleftrightarrow> e_Status e = StatusActive \<and> e_Src e \<noteq> k \<and> e_Dst e \<noteq> k"
    by (simp add: retractEdge_def)
  with Cons.IH [of "retractEdge k b t e"] show ?case by auto
qed

lemma retractEdges_ends [simp]:
  "e_Src (foldl (\<lambda>e k. retractEdge k b t e) e ids) = e_Src e"
  "e_Dst (foldl (\<lambda>e k. retractEdge k b t e) e ids) = e_Dst e"
  by (induction ids arbitrary: e) simp_all

text \<open>Every ID the search returns is that of a node.\<close>

lemma evidence_fold_ids:
  "set ds \<subseteq> R \<Longrightarrow> n_ID ` set ns \<subseteq> R \<Longrightarrow>
   set (foldl (\<lambda>ds n.
      if n_Type n \<noteq> NodeEvidence \<or> n_Status n \<noteq> StatusActive then ds
      else case n_Source n of
        None \<Rightarrow> ds
      | Some s \<Rightarrow> if es_TargetHypothesisID s \<in> set ds then List.insert (n_ID n) ds else ds) ds ns) \<subseteq> R"
proof (induction ns arbitrary: ds)
  case Nil
  then show ?case by simp
next
  case (Cons n ns)
  then show ?case by (simp split: option.splits)
qed

lemma descendants_exist:
  assumes "graph_wf g" "k \<in> set (descendantSubgraphIDs g r level)"
  shows "gm_get (Nodes g) k \<noteq> None"
proof -
  have ids: "gm_get (Nodes g) j \<noteq> None" if j: "j \<in> graph_ids g" for j
  proof -
    obtain k n where "(k, n) \<in> set (Nodes g)" "n_ID n = j" using j by (force simp: graph_ids_def)
    then show ?thesis
      using gm_in_get [OF graph_wf_okD(1) [OF assms(1)]] graph_wf_ID [OF assms(1)] by fastforce
  qed
  have "b \<in> graph_ids g" if "(refines_step g level)\<^sup>+\<^sup>+ r b" for b
    using that by (induction rule: tranclp_induct) (force simp: refines_step_def graph_ids_def dest: gm_get_in)+
  then have "set (descend g level [] [r]) \<subseteq> graph_ids g" unfolding descend_root by blast
  moreover have "n_ID ` set (map snd (Nodes g)) \<subseteq> graph_ids g" by (simp add: graph_ids_def)
  ultimately have "set (descendantSubgraphIDs g r level) \<subseteq> graph_ids g"
    unfolding descendantSubgraphIDs_def Let_def sort_strings_def set_sort by (rule evidence_fold_ids)
  with assms(2) ids show ?thesis by blast
qed

subsection \<open>What a refinement leaves\<close>

definition has_child :: "'h belief_graph \<Rightarrow> string \<Rightarrow> int \<Rightarrow> string \<Rightarrow> bool" where
  "has_child g parent level label \<longleftrightarrow>
     (\<exists>k n e. gm_get (Nodes g) k = Some n \<and> active_hypothesis n \<and> n_Level n = level \<and> n_Label n = label \<and>
        gm_get (Edges g) (edgeKey parent k) = Some e \<and> e_Type e = EdgeRefines \<and> e_Status e = StatusActive \<and>
        e_Src e = parent \<and> e_Dst e = k)"

lemma has_child_cong: "Nodes g' = Nodes g \<Longrightarrow> Edges g' = Edges g \<Longrightarrow> has_child g' p l x = has_child g p l x"
  by (simp add: has_child_def)

lemma addNode_edges [simp]: "Edges (snd (addNodeInternal rt now t l s lv ats src g)) = Edges g"
  by (auto simp: addNodeInternal_def prepare_cases Let_def split: if_splits)

lemma addNode_step:
  "limitErr (snd (addNodeInternal rt now t l s lv ats src g)) = None \<Longrightarrow>
   fst (addNodeInternal rt now t l s lv ats src g) = node_id (CurrentStep g + 1) \<and>
   CurrentStep (snd (addNodeInternal rt now t l s lv ats src g)) = CurrentStep g + 1"
  by (auto simp: addNodeInternal_def prepare_cases ready_def Let_def split: if_splits)

lemma addEdge_get:
  assumes "limitErr (addEdgeInternal rt now src dst t c x g) = None"
    and "gm_get (Nodes g) src \<noteq> None" "gm_get (Nodes g) dst \<noteq> None"
  shows "\<exists>e. gm_get (Edges (addEdgeInternal rt now src dst t c x g)) = (gm_get (Edges g))(edgeKey src dst \<mapsto> e) \<and>
    e_Src e = src \<and> e_Dst e = dst \<and> e_Type e = t \<and> e_Status e = StatusActive"
  using assms
  by (auto simp: addEdgeInternal_def prepare_cases ready_def Let_def gm_get_put split: if_splits)

lemma addCandidate_child:
  assumes wf: "graph_wf (fst st)" and parent: "gm_get (Nodes (fst st)) (sd_FrontierID d) \<noteq> None"
    and lim: "limitErr (fst (addCandidate rt now d st c)) = None"
  shows "has_child (fst (addCandidate rt now d st c)) (sd_FrontierID d) (sd_ToLevel d) (trim_space (rc_Label c)) \<and>
    (\<forall>label. has_child (fst st) (sd_FrontierID d) (sd_ToLevel d) label \<longrightarrow>
       has_child (fst (addCandidate rt now d st c)) (sd_FrontierID d) (sd_ToLevel d) label) \<and>
    snd (addCandidate rt now d st c) \<noteq> []"
proof -
  let ?add = "addNodeInternal rt now NodeHypothesis (trim_space (rc_Label c)) (rc_Score c) (sd_ToLevel d)
      (Some [(''why'', VStr (rc_Why c)), (''actionable'', VBool (rc_Actionable c)),
             (''refined_from'', VStr (sd_FrontierID d))]) None (fst st)"
  let ?k = "node_id (CurrentStep (fst st) + 1)"
  have step: "addCandidate rt now d st c =
      (addEdgeInternal rt now (sd_FrontierID d) (fst ?add) EdgeRefines (rc_Score c) ''state_converter_v1'' (snd ?add),
       snd st @ [fst ?add])"
    by (simp add: addCandidate_def case_prod_unfold Let_def)
  have lim1: "limitErr (snd ?add) = None"
    using lim unfolding step fst_conv by (rule mutation_limit_back [OF addEdge_mutation])
  have k: "fst ?add = ?k" using addNode_step [OF lim1] by simp
  have fresh: "gm_get (Nodes (fst st)) ?k = None" by (rule node_id_fresh [OF wf]) simp
  note N = addNode_graph [OF refl lim1]
  have p: "gm_get (Nodes (snd ?add)) (sd_FrontierID d) \<noteq> None" using N parent by simp
  have c: "gm_get (Nodes (snd ?add)) ?k \<noteq> None" using N by simp
  obtain e where e: "gm_get (Edges (fst (addCandidate rt now d st c))) =
        (gm_get (Edges (fst st)))(edgeKey (sd_FrontierID d) ?k \<mapsto> e)"
      "e_Src e = sd_FrontierID d" "e_Dst e = ?k" "e_Type e = EdgeRefines" "e_Status e = StatusActive"
    using addEdge_get [of rt now "sd_FrontierID d" ?k EdgeRefines "rc_Score c" "''state_converter_v1''" "snd ?add"]
      lim p c unfolding step k by auto
  have nodes: "Nodes (fst (addCandidate rt now d st c)) = Nodes (snd ?add)" unfolding step by simp
  have "has_child (fst (addCandidate rt now d st c)) (sd_FrontierID d) (sd_ToLevel d) (trim_space (rc_Label c))"
    unfolding has_child_def nodes N e(1) using e(2-5) by fastforce
  moreover have "has_child (fst (addCandidate rt now d st c)) (sd_FrontierID d) (sd_ToLevel d) label"
    if h: "has_child (fst st) (sd_FrontierID d) (sd_ToLevel d) label" for label
  proof -
    obtain j n e' where j: "gm_get (Nodes (fst st)) j = Some n" "active_hypothesis n" "n_Level n = sd_ToLevel d"
        "n_Label n = label" "gm_get (Edges (fst st)) (edgeKey (sd_FrontierID d) j) = Some e'"
        "e_Type e' = EdgeRefines" "e_Status e' = StatusActive" "e_Src e' = sd_FrontierID d" "e_Dst e' = j"
      using h unfolding has_child_def by blast
    then have "j \<noteq> ?k" using fresh by auto
    then have "edgeKey (sd_FrontierID d) j \<noteq> edgeKey (sd_FrontierID d) ?k" by (simp add: edgeKey_def)
    with j \<open>j \<noteq> ?k\<close> show ?thesis
      unfolding has_child_def nodes N e(1) by (intro exI [of _ j] exI [of _ n] exI [of _ e']) simp
  qed
  ultimately show ?thesis unfolding step by simp
qed

lemma addCandidates_children:
  "graph_wf (fst st) \<Longrightarrow> gm_get (Nodes (fst st)) (sd_FrontierID d) \<noteq> None \<Longrightarrow>
   limitErr (fst (foldl (addCandidate rt now d) st cs)) = None \<Longrightarrow>
   (\<forall>c \<in> set cs. has_child (fst (foldl (addCandidate rt now d) st cs)) (sd_FrontierID d) (sd_ToLevel d)
      (trim_space (rc_Label c))) \<and>
   (\<forall>label. has_child (fst st) (sd_FrontierID d) (sd_ToLevel d) label \<longrightarrow>
      has_child (fst (foldl (addCandidate rt now d) st cs)) (sd_FrontierID d) (sd_ToLevel d) label)"
proof (induction cs arbitrary: st)
  case Nil
  then show ?case by simp
next
  case (Cons c cs)
  let ?st = "addCandidate rt now d st c"
  have s: "copy_steps rt (fst st) (fst ?st)" by (rule addCandidate_steps)
  have wf: "graph_wf (fst ?st)" using copy_steps_facts [OF s] Cons.prems(1) by simp
  have p: "gm_get (Nodes (fst ?st)) (sd_FrontierID d) \<noteq> None" by (rule copy_steps_kept [OF s Cons.prems(2)])
  have lim: "limitErr (fst ?st) = None"
    using copy_steps_limit_back [OF addCandidates_steps] Cons.prems(3) by simp
  show ?case
    using Cons.IH [OF wf p] Cons.prems(3) addCandidate_child [OF Cons.prems(1,2) lim] by auto
qed

lemma in_map_filter: "x \<in> set (List.map_filter f xs) \<longleftrightarrow> (\<exists>e \<in> set xs. f e = Some x)"
  by (force simp: List.map_filter_def)

lemma existing_children:
  assumes "graph_wf g" "n \<in> set (activeRefinesChildren g parent level)"
  shows "has_child g parent level (n_Label n)"
proof -
  obtain e where e: "e \<in> set (map snd (Edges g))" "e_Src e = parent" "e_Type e = EdgeRefines"
      "e_Status e = StatusActive" "gm_get (Nodes g) (e_Dst e) = Some n" "active_hypothesis n" "n_Level n = level"
    using assms(2)
    by (auto simp: activeRefinesChildren_def in_map_filter split: if_splits option.splits)
  then obtain j where "gm_get (Edges g) j = Some e"
    using gm_in_get [OF graph_wf_okD(2) [OF assms(1)]] by fastforce
  then have "gm_get (Edges g) (edgeKey parent (e_Dst e)) = Some e"
    using graph_wf_edge [OF assms(1)] e(2) by metis
  with e show ?thesis unfolding has_child_def by blast
qed

lemma refineCopy_children:
  assumes "graph_wf cp" "fst (refineCopy rt now d cp) = (None, cp')" "limitErr cp' = None"
    and "c \<in> set (sd_Candidates d)"
  shows "has_child cp' (sd_FrontierID d) (sd_ToLevel d) (trim_space (rc_Label c))"
proof -
  obtain parent where p: "gm_get (Nodes cp) (sd_FrontierID d) = Some parent"
      "active_hypothesis parent" "n_Level parent = sd_FromLevel d"
    using assms(2) by (auto simp: refineCopy_def split: option.splits if_splits)
  let ?ex = "activeRefinesChildren cp (sd_FrontierID d) (sd_ToLevel d)"
  show ?thesis
  proof (cases "?ex = []")
    case True
    then have "cp' = fst (foldl (addCandidate rt now d) (cp, []) (sd_Candidates d))"
      using assms(2) p by (simp add: refineCopy_def case_prod_unfold Let_def)
    then show ?thesis
      using addCandidates_children [of "(cp, [])" d rt now "sd_Candidates d"] assms p(1) by simp
  next
    case False
    then have cp': "cp' = cp" and same: "sameCandidateLabels ?ex (sd_Candidates d)"
      using assms(2) p by (auto simp: refineCopy_def Let_def split: if_splits)
    have "trim_space (rc_Label c) \<in> set (map n_Label ?ex)"
      using same assms(4) by (auto simp: sameCandidateLabels_def sort_strings_def)
    then obtain n where "n \<in> set ?ex" "n_Label n = trim_space (rc_Label c)" by auto
    with existing_children [OF assms(1)] cp' show ?thesis by metis
  qed
qed

subsection \<open>What decisions look like\<close>

lemma checkRules_children: "checkRules ps rs = None \<Longrightarrow> r \<in> set rs \<Longrightarrow> rr_Children r \<noteq> []"
  by (induction ps rs rule: checkRules.induct) (auto simp: Let_def split: if_splits option.splits)

lemma parents_ids:
  assumes "graph_wf g" "parent \<in> set (GetActiveRefinesParentCopies k g)"
  shows "n_ID parent \<noteq> []"
proof -
  obtain j where "gm_get (Nodes g) j = Some parent"
    using assms(2) by (auto simp: GetActiveRefinesParentCopies_def List.map_filter_def split: if_splits option.splits)
  then show ?thesis using assms(1) by (fastforce simp: graph_wf_def node_id_def)
qed

lemma walkAncestors_decision:
  "graph_wf g \<Longrightarrow> walkAncestors rt g lv fid l current = Inr (Some d) \<Longrightarrow>
    sd_Action d = DecisionBacktrack \<and> sd_FromLevel d = lv \<and> 1 \<le> sd_ToLevel d \<and> sd_ToLevel d \<le> int l \<and>
    sd_BranchRootID d \<noteq> []"
proof (induction rt g lv fid l current rule: walkAncestors.induct)
  case (1 rt g lv fid current)
  then show ?case by simp
next
  case (2 rt g lv fid l current)
  obtain parent best where one: "GetActiveRefinesParentCopies (n_ID current) g = [parent]"
      "n_Level parent = int (Suc l)" "extractFrontierInternal rt (int (Suc l)) g = Some best"
    using 2(3) by (auto split: list.splits if_splits option.splits)
  have "parent \<in> set (GetActiveRefinesParentCopies (n_ID current) g)" using one(1) by simp
  then have id: "n_ID parent \<noteq> []" by (rule parents_ids [OF 2(2)])
  show ?case
  proof (cases "f_NodeID best = n_ID parent")
    case True
    then have "walkAncestors rt g lv fid l parent = Inr (Some d)"
      using 2(3) one by (simp del: of_nat_Suc)
    then show ?thesis using 2(1) [OF one(1) refl _ one(3) _ 2(2)] one(2) True by force
  next
    case False
    then have "d = (decision DecisionBacktrack ''ancestor_no_longer_best''
                          (Fmt ''ancestor %q is no longer the best hypothesis at level %d''
                             [AStr (n_Label parent), AInt (int (Suc l))])
                          lv (int (Suc l)) fid)\<lparr>sd_BranchRootID := n_ID parent\<rparr>"
      using 2(3) one by (simp del: of_nat_Suc)
    then show ?thesis using id by (simp add: decision_def)
  qed
qed

subsection \<open>The cases of a decision\<close>

lemma degraded_fields [simp]:
  "sd_Action (degraded f c r k) = DecisionDegraded" "sd_FromLevel (degraded f c r k) = CurrentLevel f"
  "sd_ToLevel (degraded f c r k) = CurrentLevel f" "sd_FrontierID (degraded f c r k) = k"
  by (simp_all add: degraded_def decision_def)

lemma decision_fields [simp]:
  "sd_Action (decision a c r l l' k) = a" "sd_FromLevel (decision a c r l l' k) = l"
  "sd_ToLevel (decision a c r l l' k) = l'" "sd_FrontierID (decision a c r l l' k) = k"
  by (simp_all add: decision_def)

lemma Decide_cases:
  obtains (degraded) "sd_Action (Decide rt cfg g f b) = DecisionDegraded"
      "sd_FromLevel (Decide rt cfg g f b) = CurrentLevel f" "sd_ToLevel (Decide rt cfg g f b) = CurrentLevel f"
  | (lost) fr where "extractFrontierInternal rt (CurrentLevel f) g = Some fr"
      "checkBacktrack rt g f fr = Inr (Some (Decide rt cfg g f b))" "cb_UsedSteps b < cb_MaxSteps b"
  | (frontier) fr where "validateInputs cfg g f b = None"
      "extractFrontierInternal rt (CurrentLevel f) g = Some fr" "checkBacktrack rt g f fr = Inr None"
      "Decide rt cfg g f b =
         decideFrontier rt cfg g f b (GetActiveHypothesisCopies (CurrentLevel f) g) fr"
proof (cases "validateInputs cfg g f b")
  case (Some err)
  then show thesis by (intro degraded) (simp_all add: Decide_def)
next
  case valid: None
  show thesis
  proof (cases "extractFrontierInternal rt (CurrentLevel f) g")
    case None
    with valid show thesis by (intro degraded) (simp_all add: Decide_def Let_def)
  next
    case (Some fr)
    then have ne: "GetActiveHypothesisCopies (CurrentLevel f) g \<noteq> []"
      by (auto simp: extractFrontierInternal_def GetActiveHypothesisCopies_def)
    note D = Decide_def Let_def option.case sum.case valid Some if_not_P [OF ne]
    show thesis
    proof (cases "checkBacktrack rt g f fr")
      case (Inl err)
      then show thesis by (intro degraded) (simp_all add: D)
    next
      case (Inr r)
      show thesis
      proof (cases r)
        case None
        show thesis by (rule frontier [OF valid Some]) (simp_all add: D Inr None)
      next
        case hit: (Some d)
        show thesis
        proof (cases "cb_UsedSteps b < cb_MaxSteps b")
          case True
          then have "Decide rt cfg g f b = d" by (simp add: D Inr hit)
          then show thesis using lost [OF Some _ True] Inr hit by simp
        next
          case False
          then show thesis by (intro degraded) (simp_all add: D Inr hit)
        qed
      qed
    qed
  qed
qed

lemma decideFrontier_cases:
  obtains (report) "sd_Action (decideFrontier rt cfg g f b cs fr) = DecisionReport"
      "frontierSufficient cfg fr" "checkGranularity g fr" "\<not> frontierAmbiguous cfg g cs fr"
  | (go_on) "sd_Action (decideFrontier rt cfg g f b cs fr) = DecisionContinue" "cb_UsedSteps b < cb_MaxSteps b"
      "gm_int (LevelSteps f) (CurrentLevel f) < fc_MaxSteps (c_FSM cfg)"
  | (stop) "sd_Action (decideFrontier rt cfg g f b cs fr) = DecisionDegraded"
  | (refine) "decideFrontier rt cfg g f b cs fr = decideRefine rt cfg g f fr"
      "sd_Action (decideRefine rt cfg g f fr) = DecisionRefine" "cb_UsedSteps b < cb_MaxSteps b"
      "frontierSufficient cfg fr" "\<not> checkGranularity g fr" "\<not> frontierAmbiguous cfg g cs fr"
      "CurrentLevel f < sc_MaxDepth (c_StateConversion cfg)"
proof -
  have "sd_Action (decideRefine rt cfg g f fr) = DecisionDegraded \<or>
      sd_Action (decideRefine rt cfg g f fr) = DecisionRefine \<and> CurrentLevel f < sc_MaxDepth (c_StateConversion cfg)"
    by (auto simp: decideRefine_def Let_def split: option.splits)
  then show thesis
    using that by (fastforce simp: decideFrontier_def Let_def not_le split: if_splits)
qed

lemma decideFrontier_levels:
  "sd_FromLevel (decideFrontier rt cfg g f b cs fr) = CurrentLevel f"
  "sd_FrontierID (decideFrontier rt cfg g f b cs fr) = f_NodeID fr"
  "sd_Action (decideFrontier rt cfg g f b cs fr) \<noteq> DecisionRefine \<Longrightarrow>
     sd_ToLevel (decideFrontier rt cfg g f b cs fr) = CurrentLevel f"
  by (auto simp: decideFrontier_def decideRefine_def Let_def split: option.splits if_splits)

lemma decideRefine_candidates:
  assumes "sd_Action (decideRefine rt cfg g f fr) = DecisionRefine"
    and "checkRules [] (sc_RefinementRules (c_StateConversion cfg)) = None"
  shows "sd_Candidates (decideRefine rt cfg g f fr) \<noteq> [] \<and>
    sd_ToLevel (decideRefine rt cfg g f fr) = CurrentLevel f + 1"
proof (cases "activeRefinesChildren g (f_NodeID fr) (CurrentLevel f + 1) = []")
  case True
  then obtain rule where "findRefinementRule rt cfg (f_Label fr) = Some rule"
      "decideRefine rt cfg g f fr =
         (decision DecisionRefine ''coarse_hypothesis''
            (Txt ''frontier is supported but requires a more actionable hypothesis'')
            (CurrentLevel f) (CurrentLevel f + 1) (f_NodeID fr))\<lparr>sd_Candidates := rr_Children rule\<rparr>"
    using assms(1) by (auto simp: decideRefine_def Let_def split: option.splits if_splits)
  moreover from this(1) have "rule \<in> set (sc_RefinementRules (c_StateConversion cfg))"
    by (auto simp: findRefinementRule_def find_Some_iff)
  ultimately show ?thesis using checkRules_children [OF assms(2)] by simp
next
  case False
  then show ?thesis
    using assms(1) by (auto simp: decideRefine_def Let_def refinementCandidatesFromNodes_def split: if_splits)
qed

lemma validateInputs_None:
  "validateInputs cfg g f b = None \<Longrightarrow>
     checkRules [] (sc_RefinementRules (c_StateConversion cfg)) = None \<and> graph_valid g \<and> \<not> IsFinalState f"
  by (auto simp: validateInputs_def validate_valid_iff split: if_splits option.splits)

text \<open>A backtrack decision names an ancestor of the frontier that lost its level.\<close>

lemma refines_parent:
  assumes "graph_wf g" "parent \<in> set (GetActiveRefinesParentCopies (n_ID current) g)"
    and "gm_get (Nodes g) (n_ID current) = Some current" "active_hypothesis current" "level < n_Level current"
  shows "refines_step g level (n_ID parent) (n_ID current) \<and> gm_get (Nodes g) (n_ID parent) = Some parent \<and>
    active_hypothesis parent"
proof -
  obtain e where e: "e \<in> set (map snd (Edges g))" "e_Dst e = n_ID current" "e_Type e = EdgeRefines"
      "e_Status e = StatusActive" "gm_get (Nodes g) (e_Src e) = Some parent" "active_hypothesis parent"
    using assms(2) by (auto simp: GetActiveRefinesParentCopies_def in_map_filter split: if_splits option.splits)
  with graph_wf_ID [OF assms(1)] have "e_Src e = n_ID parent" by metis
  with e assms(3-5) show ?thesis unfolding refines_step_def by metis
qed

lemma refines_step_mono: "l' \<le> l \<Longrightarrow> refines_step g l a b \<Longrightarrow> refines_step g l' a b"
  unfolding refines_step_def by (meson order.strict_trans1)

lemma refines_path_mono: "(refines_step g l)\<^sup>+\<^sup>+ a b \<Longrightarrow> l' \<le> l \<Longrightarrow> (refines_step g l')\<^sup>+\<^sup>+ a b"
  by (induction rule: tranclp_induct) (blast intro: refines_step_mono tranclp.intros)+

lemma walkAncestors_path:
  "graph_wf g \<Longrightarrow> walkAncestors rt g lv fid l current = Inr (Some d) \<Longrightarrow>
   gm_get (Nodes g) (n_ID current) = Some current \<Longrightarrow> active_hypothesis current \<Longrightarrow> n_Level current = int (Suc l) \<Longrightarrow>
   (refines_step g (sd_ToLevel d))\<^sup>+\<^sup>+ (sd_BranchRootID d) (n_ID current) \<and> sd_FrontierID d = fid \<and>
   (\<exists>n best. gm_get (Nodes g) (sd_BranchRootID d) = Some n \<and> active_hypothesis n \<and> n_Level n = sd_ToLevel d \<and>
      extractFrontierInternal rt (sd_ToLevel d) g = Some best \<and> f_NodeID best \<noteq> sd_BranchRootID d)"
proof (induction rt g lv fid l current rule: walkAncestors.induct)
  case (1 rt g lv fid current)
  then show ?case by simp
next
  case (2 rt g lv fid l current)
  obtain parent best where one: "GetActiveRefinesParentCopies (n_ID current) g = [parent]"
      "n_Level parent = int (Suc l)" "extractFrontierInternal rt (int (Suc l)) g = Some best"
    using 2(3) by (auto split: list.splits if_splits option.splits)
  have p: "refines_step g (int (Suc l)) (n_ID parent) (n_ID current)"
      "gm_get (Nodes g) (n_ID parent) = Some parent" "active_hypothesis parent"
    using refines_parent [OF 2(2), of parent current "int (Suc l)"] one(1) 2(4-6) by auto
  show ?case
  proof (cases "f_NodeID best = n_ID parent")
    case True
    then have w: "walkAncestors rt g lv fid l parent = Inr (Some d)"
      using 2(3) one by (simp del: of_nat_Suc)
    have IH: "(refines_step g (sd_ToLevel d))\<^sup>+\<^sup>+ (sd_BranchRootID d) (n_ID parent) \<and> sd_FrontierID d = fid \<and>
       (\<exists>n best. gm_get (Nodes g) (sd_BranchRootID d) = Some n \<and> active_hypothesis n \<and> n_Level n = sd_ToLevel d \<and>
          extractFrontierInternal rt (sd_ToLevel d) g = Some best \<and> f_NodeID best \<noteq> sd_BranchRootID d)"
      using 2(1) [OF one(1) refl _ one(3) _ 2(2) w p(2,3)] one(2) True by simp
    have "sd_ToLevel d \<le> int l" using walkAncestors_decision [OF 2(2) w] by simp
    then have "refines_step g (sd_ToLevel d) (n_ID parent) (n_ID current)"
      using refines_step_mono [OF _ p(1)] by simp
    with IH show ?thesis by (meson tranclp.trancl_into_trancl)
  next
    case False
    then have "d = (decision DecisionBacktrack ''ancestor_no_longer_best''
                          (Fmt ''ancestor %q is no longer the best hypothesis at level %d''
                             [AStr (n_Label parent), AInt (int (Suc l))])
                          lv (int (Suc l)) fid)\<lparr>sd_BranchRootID := n_ID parent\<rparr>"
      using 2(3) one by (simp del: of_nat_Suc)
    then have "sd_ToLevel d = int (Suc l)" "sd_BranchRootID d = n_ID parent" "sd_FrontierID d = fid" by simp_all
    with p one False show ?thesis by (auto simp del: of_nat_Suc)
  qed
qed

lemma checkBacktrack_lost:
  assumes wf: "graph_wf g" and fr: "extractFrontierInternal rt (CurrentLevel f) g = Some fr"
    and d: "checkBacktrack rt g f fr = Inr (Some d)"
  shows "sd_Action d = DecisionBacktrack \<and> sd_FromLevel d = CurrentLevel f \<and> 1 \<le> sd_ToLevel d \<and>
    sd_ToLevel d < CurrentLevel f \<and> sd_BranchRootID d \<noteq> [] \<and> sd_FrontierID d = f_NodeID fr \<and>
    (refines_step g (sd_ToLevel d))\<^sup>+\<^sup>+ (sd_BranchRootID d) (f_NodeID fr) \<and>
    (\<exists>n best. gm_get (Nodes g) (sd_BranchRootID d) = Some n \<and> active_hypothesis n \<and> n_Level n = sd_ToLevel d \<and>
       extractFrontierInternal rt (sd_ToLevel d) g = Some best \<and> f_NodeID best \<noteq> sd_BranchRootID d)"
proof -
  obtain n where n: "gm_get (Nodes g) (f_NodeID fr) = Some n" "active_hypothesis n" "n_Level n = CurrentLevel f"
    using frontier_node [OF wf fr] by blast
  have id: "n_ID n = f_NodeID fr" by (rule graph_wf_ID [OF wf n(1)])
  have w: "walkAncestors rt g (CurrentLevel f) (f_NodeID fr) (nat (CurrentLevel f - 1)) n = Inr (Some d)"
    using d n by (simp add: checkBacktrack_def)
  note D = walkAncestors_decision [OF wf w]
  then have l: "1 < CurrentLevel f" by linarith
  then have "n_Level n = int (Suc (nat (CurrentLevel f - 1)))" using n(3) by simp
  with walkAncestors_path [OF wf w] n id D l show ?thesis by auto
qed

subsection \<open>What applying a decision keeps\<close>

text \<open>A refinement or backtrack leads to a reachable graph, whatever its outcome.\<close>

lemma Apply_graph:
  "fst (snd (Apply rt now d g f)) =
     (if validateDecision f d \<noteq> None then g
      else case sd_Action d of
        DecisionRefine \<Rightarrow> snd (UpdateCopyOnWrite rt now (\<lambda>cp. fst (refineCopy rt now d cp)) g)
      | DecisionBacktrack \<Rightarrow> snd (UpdateCopyOnWrite rt now (backtrackCopy rt now d) g)
      | _ \<Rightarrow> g)"
  by (auto simp: Apply_def refineHypothesis_def backtrack_def case_prod_unfold Let_def
      split: option.splits decision_action.splits)

lemma Apply_reachable:
  "reachable rt p g \<Longrightarrow> reachable rt p (fst (snd (Apply rt now d g f)))"
  unfolding Apply_graph
  by (auto intro: refinement.stays_reachable backtracking.stays_reachable split: decision_action.splits)

lemma Apply_valid:
  "graph_valid g \<Longrightarrow> graph_valid (fst (snd (Apply rt now d g f)))"
  unfolding Apply_graph
  by (auto intro: refinement.keeps_valid backtracking.keeps_valid split: decision_action.splits)

lemma Apply_controller:
  "snd (snd (Apply rt now d g f)) = f \<or> snd (snd (Apply rt now d g f)) = DrillDown (sd_Reason d) f \<or>
   snd (snd (Apply rt now d g f)) = snd (BacktrackTo (sd_ToLevel d) (sd_Reason d) f) \<or>
   (\<exists>r. snd (snd (Apply rt now d g f)) = MarkDone r f)"
  by (auto simp: Apply_def refineHypothesis_def backtrack_def case_prod_unfold Let_def
      split: option.splits decision_action.splits)

lemma Apply_controller_reachable: "fsm_reachable th f \<Longrightarrow> fsm_reachable th (snd (snd (Apply rt now d g f)))"
  using Apply_controller [of rt now d g f] MarkDone_reachable
  by (auto intro: fsm_reachable.intros)

end
