(* ===== verification/Gos_Evidence_Properties.thy ===== *)
theory Gos_Evidence_Properties
  imports Gos_Evidence_Facts Belief_Properties
begin

text \<open>
  The properties of evidence updates and of the validation they end with, and a small case
  (a signal with one hypothesis) on which they are evaluated.
\<close>

definition demo_case :: "(node + edge) belief_graph" where
  "demo_case =
     addEdgeInternal demo_rt 3 ''node-1'' ''node-2'' EdgeRefines (1/2) ''d''
       (snd (AddHypothesis demo_rt 2 ''h'' (1/2) 1 ''w''
          (snd (AddSignal demo_rt 1 ''s'' (NewBeliefGraphWithPolicy (ToGraphPolicy DefaultConfig))))))"

lemma demo_case_reachable: "reachable demo_rt (ToGraphPolicy DefaultConfig) demo_case"
  unfolding demo_case_def AddSignal_def AddHypothesis_def
  by (intro op_reachable reachable.start)

definition demo_hypothesis :: node where
  "demo_hypothesis = demo_node 2 NodeHypothesis ''h'' (1/2) 1 [(''why'', VStr ''w'')]"

definition demo_refines :: edge where
  "demo_refines = \<lparr>e_Src = ''node-1'', e_Dst = ''node-2'', e_Type = EdgeRefines, e_Status = StatusActive,
     e_Confidence = 1/2, e_DerivationType = ''d'', e_ExtractorVersion = ''v1.0'', e_StepID = ''step-3'',
     e_RetractedBy = [], e_RetractedAt = None\<rparr>"

lemma demo_case_eq:
  "demo_case =
     \<lparr>Nodes = keyed [demo_node 1 NodeSignal ''s'' 1 0 [], demo_hypothesis],
      Edges = [(''node-1->node-2'', demo_refines)], StartSignalID = [], Belief = Txt [],
      LevelNodes = [(1, [\<lparr>ln_NodeID = ''node-2'', ln_Confidence = 1/2\<rparr>])],
      Snapshots = [\<lparr>gs_StepID = ''step-1'', gs_Timestamp = 1, gs_Action = ''add_node'',
                    gs_Nodes = keyed [demo_node 1 NodeSignal ''s'' 1 0 []], gs_Edges = []\<rparr>],
      Deltas = [\<lparr>gd_StepID = ''step-2'', gd_Timestamp = 2, gd_Action = ''add_node'',
                 gd_UpsertNodes = keyed [demo_hypothesis], gd_UpsertEdges = []\<rparr>,
                \<lparr>gd_StepID = ''step-3'', gd_Timestamp = 3, gd_Action = ''add_edge'',
                 gd_UpsertNodes = [], gd_UpsertEdges = [(''node-1->node-2'', demo_refines)]\<rparr>],
      CurrentStep = 3, Policy = ToGraphPolicy DefaultConfig, lastCheckpointStep = 1,
      recordedNodeHashes = [(''node-1'', Inl (demo_node 1 NodeSignal ''s'' 1 0 [])), (''node-2'', Inl demo_hypothesis)],
      recordedEdgeHashes = [(''node-1->node-2'', Inr demo_refines)], recordingDisabled = False, limitErr = None\<rparr>"
  by code_simp

definition demo_frontier :: frontier where
  "demo_frontier = \<lparr>f_NodeID = ''node-2'', f_Label = ''h'', f_Why = ''w'', f_Score = 1/2, f_Level = 1,
     f_Supports = 0, f_Refutes = 0\<rparr>"

definition demo_evidence :: evidence_item where
  "demo_evidence = \<lparr>ev_SourceType = ''log'', ev_SourceID = ''l1'', ev_Title = ''t'', ev_Snippet = [], ev_Score = 0,
     ev_Relation = relation_support, ev_TargetHypothesisID = ''node-2'', ev_Strength = 1/2, ev_ToolName = [],
     ev_ArtifactRef = [], ev_ObservationTime = 5\<rparr>"

definition demo_analysis :: "evidence_item list \<Rightarrow> bool option \<Rightarrow> expert_analysis" where
  "demo_analysis evs actionable =
     \<lparr>xa_ExpertName = ''x'', xa_Analysis = [], xa_Evidence = evs, xa_Refinements = [],
      xa_CurrentHypothesisActionable = actionable, xa_Confidence = 1/2, xa_Status = ''succeeded'',
      xa_DegradationReason = [], xa_ToolErrors = [], xa_ToolCalls = 0, xa_RAGCalls = 0, xa_LLMCalls = 0\<rparr>"

definition demo_update :: "expert_analysis \<Rightarrow> (graph_update_result \<times> (node + edge) belief_graph) option" where
  "demo_update a = updateGraph demo_rt 9 DefaultConfig None [Some a] (Some demo_frontier) demo_case"

lemma demo_update_evidence:
  "\<exists>res g'. demo_update (demo_analysis [demo_evidence] None) = Some (res, g') \<and> Committed res"
proof -
  have "map_option (\<lambda>r. Committed (fst r)) (demo_update (demo_analysis [demo_evidence] None)) = Some True"
    unfolding demo_update_def demo_case_eq by code_simp
  then show ?thesis by (auto simp: map_option_case split: option.splits)
qed

text \<open>the validation accepts exactly the valid graphs: nodes under their own IDs with known
  types and statuses and scores in the unit interval, evidence with matching provenance,
  an existing (and, when active, active) target and a dedup key of its own, edges between
  existing nodes that agree with the evidence they come from or advance one level, and one
  active relation edge per active evidence, none for neutral evidence.\<close>

theorem validation_spec: "validateBeliefGraph g = None \<longleftrightarrow> graph_valid g"
  by (rule validate_valid_iff)

text \<open>on every graph the engine can build an evidence update ends without a panic, whatever
  the experts returned; it deletes no node or edge, the new graph is again one the engine
  can build, and if the update is committed the new graph is valid.\<close>

theorem update_graph_sound:
  assumes "reachable rt p g"
  shows "\<exists>res g'. updateGraph rt now cfg ctxErr analyses frontier g = Some (res, g') \<and> reachable rt p g' \<and>
    dom (gm_get (Nodes g)) \<subseteq> dom (gm_get (Nodes g')) \<and> dom (gm_get (Edges g)) \<subseteq> dom (gm_get (Edges g')) \<and>
    (Committed res \<longrightarrow> validateBeliefGraph g' = None)"
proof -
  obtain res g' where u: "updateGraph rt now cfg ctxErr analyses frontier g = Some (res, g')"
      "reachable rt p g'" "Committed res \<longrightarrow> graph_valid g'"
    using updateGraph_reachable [OF assms] by blast
  have "kept g g'"
    using reachable_wf [OF assms]
  proof (cases rule: updateGraph_cases [where rt = rt and now = now and cfg = cfg and ctxErr = ctxErr
        and analyses = analyses and frontier = frontier])
    case (early err)
    with u(1) show ?thesis by simp
  next
    case (update r cp)
    then have "kept g cp" using copy_steps_facts [OF update(2)] by (simp add: kept_def)
    then have "kept g (cowApplied rt now cp g)" by (simp add: kept_def cowApplied_def)
    then have "kept g (snd (UpdateCopyOnWrite rt now (\<lambda>_. (r, cp)) g))"
      by (auto simp: UpdateCopyOnWrite_def Let_def cowCommit_cases split: option.splits)
    with update(1) u(1) show ?thesis by (metis option.inject snd_conv)
  qed
  with u show ?thesis by (auto simp: kept_def validate_valid_iff)
qed

theorem update_graph_sound_witness:
  "\<exists>g'. demo_update (demo_analysis [demo_evidence] None) = Some (\<lparr>Committed = True, upd_Error = None\<rparr>, g') \<and>
     validateBeliefGraph g' = None"
proof -
  obtain res g' where u: "demo_update (demo_analysis [demo_evidence] None) = Some (res, g')" "Committed res"
    using demo_update_evidence by blast
  have v: "validateBeliefGraph g' = None"
    using update_graph_sound [OF demo_case_reachable, of 9 DefaultConfig None
        "[Some (demo_analysis [demo_evidence] None)]" "Some demo_frontier"] u by (auto simp: demo_update_def)
  have "res = \<lparr>Committed = True, upd_Error = None\<rparr>"
    using u by (auto simp: demo_update_def updateGraph_def UpdateCopyOnWrite_def cowCommit_def refused_def Let_def
        split: option.splits if_splits)
  with u v show ?thesis by blast
qed

text \<open>An update of evidence on the way, whatever it proposes and whether or not it is committed, and any number of
  them. None of them loses the key of a piece of evidence.\<close>

definition evidence_update :: "'h gort \<Rightarrow> 'h belief_graph \<Rightarrow> 'h belief_graph \<Rightarrow> bool" where
  "evidence_update rt g h \<longleftrightarrow>
     (\<exists>now cfg ctxErr analyses frontier res. updateGraph rt now cfg ctxErr analyses frontier g = Some (res, h))"

lemma updateGraph_keys:
  assumes "reachable rt p g" "updateGraph rt now cfg ctxErr analyses frontier g = Some (res, g1)"
  shows "keeps_keys g g1"
    and "Committed res \<Longrightarrow> Some a \<in> set analyses \<Longrightarrow> ev \<in> set (xa_Evidence a) \<Longrightarrow> evidenceExists g1 (evidenceDedupKey ev)"
proof -
  have both: "keeps_keys g g1 \<and> (Committed res \<longrightarrow> (\<forall>q \<in> set (graphProposals cfg analyses). \<forall>ev \<in> set (gp_Evidence q).
      evidenceExists g1 (evidenceDedupKey ev)))"
  proof (cases "g1 = g \<and> \<not> Committed res")
    case False
    then obtain f r cp where cb: "updateCallback rt now cfg f (graphProposals cfg analyses) (deepCopy g) = Some (r, cp)"
      and u: "UpdateCopyOnWrite rt now (\<lambda>_. (r, cp)) g = (res, g1)"
      using assms(2) by (auto simp: updateGraph_def refused_def split: option.splits if_splits)
    have none: "cowCheck rt (r, cp) = None"
      using u False by (auto simp: UpdateCopyOnWrite_def refused_def Let_def split: option.splits)
    then have "r = None" "limitErr cp = None" by (auto simp: cowCheck_def split: option.splits)
    then have keys: "keeps_keys (deepCopy g) cp"
        "\<forall>q \<in> set (graphProposals cfg analyses). \<forall>ev \<in> set (gp_Evidence q). evidenceExists cp (evidenceDedupKey ev)"
      using updateCallback_keys [of "deepCopy g" rt now cfg f "graphProposals cfg analyses" cp] cb reachable_wf [OF assms(1)]
      by (simp_all add: private_copy_def)
    have c: "res = fst (cowCommit rt now (CurrentStep g) cp g)" "g1 = snd (cowCommit rt now (CurrentStep g) cp g)"
      using u none by (simp_all add: UpdateCopyOnWrite_def Let_def)
    have "Nodes g1 = Nodes cp \<or> \<not> Committed res \<and> Nodes g1 = Nodes g"
      using c by (simp add: cowCommit_committed cowCommit_cases cowApplied_def split: option.splits)
    then consider "Nodes g1 = Nodes cp" | "\<not> Committed res" "Nodes g1 = Nodes g" by blast
    then show ?thesis
    proof cases
      case 1
      then have "evidenceExists g1 = evidenceExists cp" by (simp add: evidenceExists_def fun_eq_iff)
      moreover have "evidenceExists (deepCopy g) = evidenceExists g" by (simp add: evidenceExists_def fun_eq_iff)
      ultimately show ?thesis using keys by (simp add: keeps_keys_def)
    next
      case 2
      then show ?thesis by (simp add: keeps_keys_same)
    qed
  qed simp
  then show "keeps_keys g g1" by simp
  show "evidenceExists g1 (evidenceDedupKey ev)" if "Committed res" "Some a \<in> set analyses" "ev \<in> set (xa_Evidence a)"
    using both that by (force simp: graphProposals_set)
qed

lemma evidence_updates_keys:
  assumes "(evidence_update rt)\<^sup>*\<^sup>* g h" "reachable rt p g"
  shows "keeps_keys g h \<and> reachable rt p h"
  using assms(1)
proof (induction rule: rtranclp_induct)
  case (step h k)
  then obtain now cfg ctxErr analyses frontier res where
    u: "updateGraph rt now cfg ctxErr analyses frontier h = Some (res, k)" and r: "reachable rt p h"
    by (auto simp: evidence_update_def)
  have "reachable rt p k" using updateGraph_reachable [OF r, of now cfg ctxErr analyses frontier] u by auto
  with step updateGraph_keys(1) [OF r u] show ?case using keeps_keys_trans by blast
qed (simp add: assms(2))

text \<open>C20: evidence is counted once. After a committed update with the evidence, and any number of other updates of
  evidence in between, delivering evidence of the same analyses again in an update that proposes nothing else, with
  deduplication on, changes no node and no edge: no score moves and nothing is attached twice.\<close>

theorem evidence_counted_once:
  assumes "reachable rt p g"
    and "updateGraph rt now cfg ctxErr analyses frontier g = Some (res, g1)" "Committed res"
    and "(evidence_update rt)\<^sup>*\<^sup>* g1 h"
    and "cc_Deduplicate (c_Confidence cfg2)"
    and "\<forall>a. Some a \<in> set again \<longrightarrow> xa_Refinements a = [] \<and> xa_CurrentHypothesisActionable a \<noteq> Some True \<and>
      (\<forall>ev \<in> set (xa_Evidence a). \<exists>b. Some b \<in> set analyses \<and> ev \<in> set (xa_Evidence b))"
    and "updateGraph rt now2 cfg2 ctxErr2 again frontier2 h = Some (res2, g2)"
  shows "Nodes g2 = Nodes h \<and> Edges g2 = Edges h"
proof -
  have r1: "reachable rt p g1" using updateGraph_reachable [OF assms(1), of now cfg ctxErr analyses frontier] assms(2) by auto
  have "evidenceExists h (evidenceDedupKey ev)" if "Some b \<in> set analyses" "ev \<in> set (xa_Evidence b)" for b ev
    using updateGraph_keys(2) [OF assms(1-3) that] evidence_updates_keys [OF assms(4) r1] by (simp add: keeps_keys_def)
  moreover have "evidenceExists (deepCopy h) = evidenceExists h" by (simp add: evidenceExists_def fun_eq_iff)
  ultimately have again: "\<forall>q \<in> set (graphProposals cfg2 again). only_evidence q \<and>
      (\<forall>ev \<in> set (gp_Evidence q). evidenceExists (deepCopy h) (evidenceDedupKey ev))"
    using assms(6) by (fastforce simp: graphProposals_set only_evidence_def)
  show ?thesis
  proof (cases "updateGraph rt now2 cfg2 ctxErr2 again frontier2 h = Some (res2, h)")
    case True
    with assms(7) show ?thesis by simp
  next
    case False
    then obtain f2 r2 cp2 where
        "updateCallback rt now2 cfg2 f2 (graphProposals cfg2 again) (deepCopy h) = Some (r2, cp2)"
      and u2: "UpdateCopyOnWrite rt now2 (\<lambda>_. (r2, cp2)) h = (res2, g2)"
      using assms(7) by (auto simp: updateGraph_def split: option.splits if_splits)
    then have "cp2 = deepCopy h"
      using updateCallback_known [of cfg2 "graphProposals cfg2 again" "deepCopy h"] assms(5) again by blast
    then have "g2 = h \<or> Nodes g2 = Nodes h \<and> Edges g2 = Edges h"
      using u2 cowCommit_cases [of rt now2 "CurrentStep h" cp2 h]
      by (auto simp: UpdateCopyOnWrite_def Let_def cowApplied_def split: option.splits if_splits
          dest!: arg_cong [where f = snd])
    then show ?thesis by auto
  qed
qed

theorem evidence_counted_once_witness:
  "\<exists>res g1 res2 g2 res3 g3. demo_update (demo_analysis [demo_evidence] None) = Some (res, g1) \<and>
     updateGraph demo_rt 11 DefaultConfig None [Some (demo_analysis [demo_evidence] None)] (Some demo_frontier) g1 =
       Some (res2, g2) \<and>
     updateGraph demo_rt 12 DefaultConfig None [Some (demo_analysis [demo_evidence] None)] (Some demo_frontier) g2 =
       Some (res3, g3) \<and> Nodes g3 = Nodes g2"
proof -
  obtain res g1 where u: "demo_update (demo_analysis [demo_evidence] None) = Some (res, g1)" "Committed res"
    using demo_update_evidence by blast
  obtain q g1' where "updateGraph demo_rt 9 DefaultConfig None [Some (demo_analysis [demo_evidence] None)]
      (Some demo_frontier) demo_case = Some (q, g1')" "reachable demo_rt (ToGraphPolicy DefaultConfig) g1'"
    using updateGraph_reachable [OF demo_case_reachable] by blast
  then have r1: "reachable demo_rt (ToGraphPolicy DefaultConfig) g1"
    using u(1) by (simp add: demo_update_def)
  obtain res2 g2 where u2: "updateGraph demo_rt 11 DefaultConfig None [Some (demo_analysis [demo_evidence] None)]
      (Some demo_frontier) g1 = Some (res2, g2)" "reachable demo_rt (ToGraphPolicy DefaultConfig) g2"
    using updateGraph_reachable [OF r1] by blast
  have between: "(evidence_update demo_rt)\<^sup>*\<^sup>* g1 g2"
    using u2(1) unfolding evidence_update_def by (intro r_into_rtranclp) blast
  obtain res3 g3 where u3: "updateGraph demo_rt 12 DefaultConfig None [Some (demo_analysis [demo_evidence] None)]
      (Some demo_frontier) g2 = Some (res3, g3)"
    using updateGraph_reachable [OF u2(2)] by blast
  have "cc_Deduplicate (c_Confidence DefaultConfig)" by (simp add: DefaultConfig_def)
  from evidence_counted_once [OF demo_case_reachable u(1) [unfolded demo_update_def] u(2) between(1) this _ u3] u u2 u3
  show ?thesis by (auto simp: demo_analysis_def)
qed

text \<open>with a valid configuration the confidence formula maps a score in the unit interval
  and evidence strengths in the unit interval to a score in the unit interval, in binary64
  arithmetic; without refuting evidence the score never falls, and without supporting
  evidence it never rises.\<close>

theorem confidence_moves_with_evidence:
  assumes "validateConfidenceConfig (Some cfg) = None" "representable x" "0 \<le> x" "x \<le> 1"
    and "\<forall>(relation, strength, key) \<in> set es. 0 \<le> strength \<and> strength \<le> 1"
  shows "0 \<le> aggregateConfidence cfg x (contribution_of es) \<and> aggregateConfidence cfg x (contribution_of es) \<le> 1 \<and>
    ((\<forall>(relation, strength, key) \<in> set es. relation \<noteq> relation_refute) \<longrightarrow>
       x \<le> aggregateConfidence cfg x (contribution_of es)) \<and>
    ((\<forall>(relation, strength, key) \<in> set es. relation \<noteq> relation_support) \<longrightarrow>
       aggregateConfidence cfg x (contribution_of es) \<le> x)"
  using aggregate_up [OF assms(2-4) contribution_of_ok [OF assms(5)] contribution_of_unrefuted assms(1)]
    aggregate_down [OF assms(2-4) contribution_of_ok [OF assms(5)] contribution_of_unsupported assms(1)]
  by (auto simp: aggregateConfidence_def Let_def)

theorem confidence_moves_with_evidence_witness:
  "1/2 \<le> aggregateConfidence DefaultConfig (1/2) (contribution_of [(relation_support, 1/2, ''k'')])"
proof -
  have v: "validateConfidenceConfig (Some DefaultConfig) = None" by code_simp
  have r: "representable (1/2)" unfolding representable_def by code_simp
  show ?thesis
    using confidence_moves_with_evidence [OF v r, of "[(relation_support, 1/2, ''k'')]"] by simp
qed

text \<open>the guard of the promotion to an actionable root cause sits inside the loop over the
  evidence, so it does not run for a proposal without evidence: an analysis with no evidence
  at all that claims the hypothesis actionable is committed, and the frontier, which has no
  supporting evidence, is marked actionable "by expert support evidence".\<close>

theorem promotion_without_evidence:
  "\<exists>g'. reachable demo_rt (ToGraphPolicy DefaultConfig) demo_case \<and>
     updateGraph demo_rt 9 DefaultConfig None [Some (demo_analysis [] (Some True))] (Some demo_frontier) demo_case =
       Some (\<lparr>Committed = True, upd_Error = None\<rparr>, g') \<and>
     activeEdgesInto EdgeSupport ''node-2'' g' = 0 \<and>
     map_option n_Attrs (gm_get (Nodes g') ''node-2'') =
       Some (Some [(''why'', VStr ''w''), (''actionable'', VBool True),
                   (''actionable_source'', VStr ''expert_support_evidence_v1'')])"
proof -
  have "map_option (\<lambda>(res, g'). (res, activeEdgesInto EdgeSupport ''node-2'' g',
        map_option n_Attrs (gm_get (Nodes g') ''node-2'')))
      (updateGraph demo_rt 9 DefaultConfig None [Some (demo_analysis [] (Some True))] (Some demo_frontier) demo_case) =
    Some (\<lparr>Committed = True, upd_Error = None\<rparr>, 0,
      Some (Some [(''why'', VStr ''w''), (''actionable'', VBool True),
                  (''actionable_source'', VStr ''expert_support_evidence_v1'')]))"
    unfolding demo_case_eq by code_simp
  then obtain g' where g': "updateGraph demo_rt 9 DefaultConfig None [Some (demo_analysis [] (Some True))]
        (Some demo_frontier) demo_case = Some (\<lparr>Committed = True, upd_Error = None\<rparr>, g')"
      "activeEdgesInto EdgeSupport ''node-2'' g' = 0"
      "map_option n_Attrs (gm_get (Nodes g') ''node-2'') =
        Some (Some [(''why'', VStr ''w''), (''actionable'', VBool True),
                    (''actionable_source'', VStr ''expert_support_evidence_v1'')])"
    unfolding map_option_eq_Some by (auto simp del: map_option_eq_Some)
  show ?thesis by (rule exI [of _ g'], intro conjI demo_case_reachable g')
qed

end
