(* ===== verification/Gos_Converter_Properties.thy ===== *)
theory Gos_Converter_Properties
  imports Gos_Converter_Facts Gos_Evidence_Properties
begin

text \<open>
  The properties of the state converter: what its decisions guarantee and what applying them
  does to the graph and to the controller.
\<close>

subsection \<open>What decisions guarantee\<close>

text \<open>C21: on every graph the engine can build and every drilling controller, what \<open>Decide\<close>
  decides is what \<open>validateDecision\<close> lets pass: a decision never goes stale, jumps levels,
  or lacks its frontier, candidates or branch root.\<close>

theorem decision_accepted:
  assumes "reachable rt p g" "fsm_reachable th f" "State f = StateDrilling"
  shows "validateDecision f (Decide rt cfg g f b) = None"
proof -
  have fin: "\<not> IsFinalState f" using assms(3) by (simp add: IsFinalState_def)
  note wf = reachable_wf [OF assms(1)]
  show ?thesis
  proof (cases rule: Decide_cases [of rt cfg g f b])
    case degraded
    with fin show ?thesis by (simp add: validateDecision_def)
  next
    case (lost fr)
    from checkBacktrack_lost [OF wf lost(1,2)] fin assms(3) show ?thesis by (simp add: validateDecision_def)
  next
    case (frontier fr)
    let ?d = "decideFrontier rt cfg g f b (GetActiveHypothesisCopies (CurrentLevel f) g) fr"
    have fid: "f_NodeID fr \<noteq> []"
      using frontier_node [OF wf frontier(2)] wf by (fastforce simp: graph_wf_def node_id_def)
    show ?thesis
    proof (cases "sd_Action ?d = DecisionRefine")
      case True
      then have r: "?d = decideRefine rt cfg g f fr" "sd_Action (decideRefine rt cfg g f fr) = DecisionRefine"
        by (cases rule: decideFrontier_cases [of rt cfg g f b "GetActiveHypothesisCopies (CurrentLevel f) g" fr]; simp)+
      have "checkRules [] (sc_RefinementRules (c_StateConversion cfg)) = None"
        using validateInputs_None [OF frontier(1)] by simp
      with decideRefine_candidates [OF r(2)] r frontier(4) fid fin assms(3) True
        decideFrontier_levels(1,2) [of rt cfg g f b "GetActiveHypothesisCopies (CurrentLevel f) g" fr]
      show ?thesis by (simp add: validateDecision_def)
    next
      case False
      then have "sd_Action ?d \<in> {DecisionContinue, DecisionReport, DecisionDegraded}"
        by (cases rule: decideFrontier_cases [of rt cfg g f b "GetActiveHypothesisCopies (CurrentLevel f) g" fr]) auto
      with False decideFrontier_levels [of rt cfg g f b "GetActiveHypothesisCopies (CurrentLevel f) g" fr]
        frontier(4) fin show ?thesis by (simp add: validateDecision_def)
    qed
  qed
qed

definition demo_budget :: conversion_budget where
  "demo_budget = \<lparr>cb_UsedSteps = 0, cb_MaxSteps = 5\<rparr>"

definition demo_controller :: belief_fsm where
  "demo_controller = NewBeliefFSM (ToFSMThresholds DefaultConfig)"

lemma demo_controller_reachable: "fsm_reachable (ToFSMThresholds DefaultConfig) demo_controller"
  unfolding demo_controller_def by (rule fsm_reachable.new)

lemma demo_controller_state [simp]: "State demo_controller = StateDrilling" "CurrentLevel demo_controller = 1"
  by (simp_all add: demo_controller_def NewBeliefFSM_def)

theorem decision_accepted_witness:
  "validateDecision demo_controller (Decide demo_rt DefaultConfig demo_case demo_controller demo_budget) = None"
  by (rule decision_accepted [OF demo_case_reachable demo_controller_reachable]) simp

text \<open>a decision to report is sound: the frontier of the current level has the configured
  confidence and supporting evidence, is marked actionable, leads every other hypothesis of
  the level by more than the tie margin, and by the full gap unless it leads in supports by
  the required number.\<close>

theorem report_sound:
  assumes "reachable rt p g" "sd_Action (Decide rt cfg g f b) = DecisionReport"
  shows "\<exists>fr. extractFrontierInternal rt (CurrentLevel f) g = Some fr \<and>
    sd_FrontierID (Decide rt cfg g f b) = f_NodeID fr \<and>
    f_Score fr \<ge> fc_MinConfidence (c_FSM cfg) \<and> f_Supports fr \<ge> fc_MinSupport (c_FSM cfg) \<and>
    checkGranularity g fr \<and>
    (\<forall>m \<in> set (hypothesesAt (CurrentLevel f) g). n_ID m \<noteq> f_NodeID fr \<longrightarrow>
       fsub (f_Score fr) (n_Score m) > sc_TieEpsilon (c_StateConversion cfg) \<and>
       (fsub (f_Score fr) (n_Score m) \<ge> fc_GapDelta (c_FSM cfg) \<or>
        supportLead g (GetActiveHypothesisCopies (CurrentLevel f) g) (f_NodeID fr) \<ge> fc_MinSupport (c_FSM cfg)))"
proof (cases rule: Decide_cases [of rt cfg g f b])
  case (frontier fr)
  let ?cs = "GetActiveHypothesisCopies (CurrentLevel f) g"
  note wf = reachable_wf [OF assms(1)]
  have ok: "frontierSufficient cfg fr" "checkGranularity g fr" "\<not> frontierAmbiguous cfg g ?cs fr"
    using assms(2) frontier(4)
    by (cases rule: decideFrontier_cases [of rt cfg g f b ?cs fr]; simp)+
  obtain n ns where ns: "?cs = n # ns" and fr: "f_Score fr = n_Score n" "f_NodeID fr = n_ID n"
    using frontier(2) by (auto simp: extractFrontierInternal_def GetActiveHypothesisCopies_def split: list.splits)
  have sorted: "sorted_wrt nodeRankLess ?cs"
    unfolding GetActiveHypothesisCopies_def by (rule node_rank.strict_sort_slice [OF hypotheses_dk [OF wf]])
  have lead: "candidateGap ?cs \<le> fsub (f_Score fr) (n_Score m) \<and> length ?cs > 1"
    if m: "m \<in> set (hypothesesAt (CurrentLevel f) g)" "n_ID m \<noteq> f_NodeID fr" for m
  proof -
    have "m \<in> set ?cs" using m(1) by (simp add: GetActiveHypothesisCopies_def)
    then have "m \<in> set ns" using ns m(2) fr by auto
    then obtain k ks where k: "ns = k # ks" by (cases ns) auto
    then have "m = k \<or> nodeRankLess k m" using \<open>m \<in> set ns\<close> sorted ns by auto
    then have "n_Score m \<le> n_Score k" by (auto simp: nodeRankLess_def split: if_splits)
    then show ?thesis using ns k fr by (simp add: candidateGap_def fsub_mono)
  qed
  have "\<not> candidatesTied cfg ?cs"
    "\<not> (length ?cs > 1 \<and> candidateGap ?cs < fc_GapDelta (c_FSM cfg) \<and>
        \<not> supportLead g ?cs (f_NodeID fr) \<ge> fc_MinSupport (c_FSM cfg))"
    using ok by (auto simp: frontierAmbiguous_def)
  then have "fsub (f_Score fr) (n_Score m) > sc_TieEpsilon (c_StateConversion cfg) \<and>
       (fsub (f_Score fr) (n_Score m) \<ge> fc_GapDelta (c_FSM cfg) \<or>
        supportLead g ?cs (f_NodeID fr) \<ge> fc_MinSupport (c_FSM cfg))"
    if "m \<in> set (hypothesesAt (CurrentLevel f) g)" "n_ID m \<noteq> f_NodeID fr" for m
    using lead [OF that] by (auto simp: candidatesTied_def)
  then show ?thesis
    using frontier(2,4) ok decideFrontier_levels(2) by (auto simp: frontierSufficient_def)
next
  case (lost fr)
  with assms show ?thesis
    using checkBacktrack_lost [OF reachable_wf [OF assms(1)] lost(1,2)] by simp
qed (use assms in simp)

text \<open>a decision respects the budgets: it goes on only with run steps left, continues on a
  level only below the level's step limit, and refines only above the maximal depth.\<close>

theorem decide_bounds:
  assumes "reachable rt p g"
  shows "(sd_Action (Decide rt cfg g f b) \<in> {DecisionReport, DecisionDegraded} \<or>
      cb_UsedSteps b < cb_MaxSteps b \<and>
      (case sd_Action (Decide rt cfg g f b) of
         DecisionContinue \<Rightarrow> gm_int (LevelSteps f) (CurrentLevel f) < fc_MaxSteps (c_FSM cfg)
       | DecisionRefine \<Rightarrow> CurrentLevel f < sc_MaxDepth (c_StateConversion cfg)
       | DecisionBacktrack \<Rightarrow> 1 \<le> sd_ToLevel (Decide rt cfg g f b) \<and>
           sd_ToLevel (Decide rt cfg g f b) < CurrentLevel f
       | _ \<Rightarrow> False))"
proof (cases rule: Decide_cases [of rt cfg g f b])
  case (frontier fr)
  then show ?thesis
    by (cases rule: decideFrontier_cases [of rt cfg g f b "GetActiveHypothesisCopies (CurrentLevel f) g" fr])
       auto
next
  case (lost fr)
  with checkBacktrack_lost [OF reachable_wf [OF assms(1)] lost(1,2)] show ?thesis by simp
qed simp

theorem decide_bounds_witness:
  "sd_Action (Decide demo_rt DefaultConfig demo_case demo_controller demo_budget) = DecisionContinue \<and>
   gm_int (LevelSteps demo_controller) 1 < fc_MaxSteps (c_FSM DefaultConfig)"
proof -
  have c: "sd_Action (Decide demo_rt DefaultConfig demo_case demo_controller demo_budget) = DecisionContinue"
    unfolding demo_case_eq by code_simp
  with decide_bounds [OF demo_case_reachable, of DefaultConfig demo_controller demo_budget] show ?thesis by simp
qed

subsection \<open>What applying a decision does\<close>

lemma scanChildren_cong: "Nodes g' = Nodes g \<Longrightarrow> scanChildren g' l c es st = scanChildren g l c es st"
  by (induction es arbitrary: st) simp_all

lemma descend_cong: "Nodes g' = Nodes g \<Longrightarrow> Edges g' = Edges g \<Longrightarrow> descend g' l ds q = descend g l ds q"
proof (induction g l ds q rule: descend.induct)
  case (1 g l ds)
  then show ?case by simp
next
  case (2 g l ds c q)
  have "descend g' l ds (c # q) =
      descend g' l (fst (scanChildren g l c (map snd (Edges g)) (ds, q))) (snd (scanChildren g l c (map snd (Edges g)) (ds, q)))"
    by (simp only: descend.simps Let_def scanChildren_cong [OF 2(2)] 2(3))
  also have "\<dots> = descend g l ds (c # q)"
    unfolding 2(1) [OF refl 2(2,3)] by (simp only: descend.simps Let_def)
  finally show ?case .
qed

lemma descendants_copy [simp]: "descendantSubgraphIDs (deepCopy g) r l = descendantSubgraphIDs g r l"
proof -
  have "descend (deepCopy g) l [] [r] = descend g l [] [r]" by (rule descend_cong) simp_all
  then show ?thesis unfolding descendantSubgraphIDs_def by (simp only: deepCopy_facts)
qed

lemma backtrack_committed:
  assumes "graph_wf g" "Apply rt now d g f = (None, g', f')" "sd_Action d = DecisionBacktrack"
  shows "Committed (fst (UpdateCopyOnWrite rt now (backtrackCopy rt now d) g)) \<and>
    g' = snd (UpdateCopyOnWrite rt now (backtrackCopy rt now d) g) \<and>
    BacktrackTo (sd_ToLevel d) (sd_Reason d) f = (None, f')"
  using assms(2,3) by (auto simp: Apply_def backtrack_def case_prod_unfold wrapResult_def Let_def
      intro: prod_eqI split: option.splits if_splits)

lemma backtrack_copy:
  assumes wf: "graph_wf g" and cp: "backtrackCopy rt now d (deepCopy g) = (None, cp)" and lim: "limitErr cp = None"
  shows "(\<forall>k \<in> set (descendantSubgraphIDs g (sd_BranchRootID d) (sd_ToLevel d)).
      retracted k cp \<and> (\<forall>e \<in> set (map snd (Edges cp)). e_Status e = StatusActive \<longrightarrow> e_Src e \<noteq> k \<and> e_Dst e \<noteq> k)) \<and>
    (\<forall>k. k \<notin> set (descendantSubgraphIDs g (sd_BranchRootID d) (sd_ToLevel d)) \<longrightarrow>
      gm_get (Nodes cp) k = gm_get (Nodes g) k)"
proof -
  let ?ids = "descendantSubgraphIDs g (sd_BranchRootID d) (sd_ToLevel d)"
  let ?run = "foldl (\<lambda>c k. retractNodeInternal rt now k ''state_converter'' (sd_Reason d) c) (deepCopy g) ?ids"
  have cp_eq: "cp = ?run"
    using cp by (auto simp: backtrackCopy_def Let_def split: option.splits if_splits)
  have ex: "\<forall>k \<in> set ?ids. gm_get (Nodes (deepCopy g)) k \<noteq> None"
    using descendants_exist [OF wf] by simp
  note E = retracts_effect [OF lim [unfolded cp_eq] ex, folded cp_eq]
  have wf_cp: "gm_ok (Edges cp)"
  proof -
    have "copy_steps rt (deepCopy g) cp" unfolding cp_eq by (rule retracts_steps)
    then show ?thesis using copy_steps_facts [of rt "deepCopy g" cp] wf by (simp add: graph_wf_okD)
  qed
  have "e_Src e \<notin> set ?ids \<and> e_Dst e \<notin> set ?ids"
    if e: "e \<in> set (map snd (Edges cp))" "e_Status e = StatusActive" for e
  proof -
    obtain j where "gm_get (Edges cp) j = Some e" using gm_in_get [OF wf_cp] e(1) by fastforce
    then obtain e' where "e = foldl (\<lambda>e k. retractEdge k ''state_converter'' now e) e' ?ids"
      using E by (auto simp: map_option_case split: option.splits)
    then show ?thesis using e(2) retractEdges_active [of "''state_converter''" now e' ?ids] by simp
  qed
  with E show ?thesis by auto
qed

lemma backtrack_copy_retracts:
  assumes "reachable rt p g" "Apply rt now d g f = (None, g', f')" "sd_Action d = DecisionBacktrack"
    and "(refines_step g (sd_ToLevel d))\<^sup>+\<^sup>+ (sd_BranchRootID d) k"
  shows "(\<exists>n. gm_get (Nodes g') k = Some n \<and> n_Status n = StatusRetracted) \<and>
    (\<forall>e \<in> set (map snd (Edges g')). e_Status e = StatusActive \<longrightarrow> e_Src e \<noteq> k \<and> e_Dst e \<noteq> k)"
proof -
  note wf = reachable_wf [OF assms(1)]
  have c: "Committed (fst (UpdateCopyOnWrite rt now (backtrackCopy rt now d) g))"
    and g': "g' = snd (UpdateCopyOnWrite rt now (backtrackCopy rt now d) g)"
    using backtrack_committed [OF wf assms(2,3)] by auto
  obtain cp where cp: "backtrackCopy rt now d (deepCopy g) = (None, cp)" "limitErr cp = None"
      "Nodes g' = Nodes cp" "Edges g' = Edges cp"
    using committed_copy [of rt now "backtrackCopy rt now d" g] c g' by (metis prod.collapse)
  have k: "k \<in> set (descendantSubgraphIDs g (sd_BranchRootID d) (sd_ToLevel d))"
    by (rule descendants_hypotheses [OF assms(4)])
  have "gm_get (Nodes g) k \<noteq> None" by (rule descendants_exist [OF wf k])
  moreover have "kept g g'" unfolding g' by (rule backtracking.keeps_nodes [OF assms(1)])
  ultimately have "gm_get (Nodes g') k \<noteq> None" unfolding kept_def by blast
  with backtrack_copy [OF wf cp(1,2)] k show ?thesis unfolding cp(3,4) retracted_def by blast
qed

text \<open>a backtrack that succeeds takes the controller down to the target level, which is a level
  it has passed, and retracts everything the abandoned branch had grown: every hypothesis
  refined from the branch root, over any number of levels, ends retracted with no active edge
  at it; the nodes outside the branch are untouched, and the graph is valid.\<close>

theorem backtrack_effect:
  assumes "reachable rt p g" "Apply rt now d g f = (None, g', f')" "sd_Action d = DecisionBacktrack"
  shows "CurrentLevel f' = sd_ToLevel d \<and> 1 \<le> sd_ToLevel d \<and> sd_ToLevel d < CurrentLevel f \<and>
    validateBeliefGraph g' = None \<and>
    (\<forall>k. (refines_step g (sd_ToLevel d))\<^sup>+\<^sup>+ (sd_BranchRootID d) k \<longrightarrow>
       (\<exists>n. gm_get (Nodes g') k = Some n \<and> n_Status n = StatusRetracted) \<and>
       (\<forall>e \<in> set (map snd (Edges g')). e_Status e = StatusActive \<longrightarrow> e_Src e \<noteq> k \<and> e_Dst e \<noteq> k)) \<and>
    (\<forall>k. k \<notin> set (descendantSubgraphIDs g (sd_BranchRootID d) (sd_ToLevel d)) \<longrightarrow>
       gm_get (Nodes g') k = gm_get (Nodes g) k)"
proof -
  note wf = reachable_wf [OF assms(1)]
  have c: "Committed (fst (UpdateCopyOnWrite rt now (backtrackCopy rt now d) g))"
    and g': "g' = snd (UpdateCopyOnWrite rt now (backtrackCopy rt now d) g)"
    and b: "BacktrackTo (sd_ToLevel d) (sd_Reason d) f = (None, f')"
    using backtrack_committed [OF wf assms(2,3)] by auto
  have f': "CurrentLevel f' = sd_ToLevel d \<and> 1 \<le> sd_ToLevel d \<and> sd_ToLevel d < CurrentLevel f"
    using b by (auto simp: BacktrackTo_def transitionTo_def Let_def split: if_splits)
  have v: "graph_valid g'" unfolding g' by (rule backtracking.commits_valid [OF c])
  obtain cp where cp: "backtrackCopy rt now d (deepCopy g) = (None, cp)" "limitErr cp = None" "Nodes g' = Nodes cp"
    using committed_copy [of rt now "backtrackCopy rt now d" g] c g' by (metis prod.collapse)
  have "\<forall>k. k \<notin> set (descendantSubgraphIDs g (sd_BranchRootID d) (sd_ToLevel d)) \<longrightarrow>
       gm_get (Nodes g') k = gm_get (Nodes g) k"
    using backtrack_copy [OF wf cp(1,2)] cp(3) by simp
  with f' v backtrack_copy_retracts [OF assms] show ?thesis by (auto simp: validate_valid_iff)
qed

definition demo_refine :: state_decision where
  "demo_refine = (decision DecisionRefine ''r'' (Txt []) 1 2 ''node-2'')
     \<lparr>sd_Candidates := [\<lparr>rc_Label = ''c'', rc_Score = 1/2, rc_Why = ''w'', rc_Actionable = True\<rparr>]\<rparr>"

definition demo_backtrack :: state_decision where
  "demo_backtrack = (decision DecisionBacktrack ''b'' (Txt []) 2 1 ''node-4'')\<lparr>sd_BranchRootID := ''node-2''\<rparr>"

lemma refines_step_code [code]:
  "refines_step g level a b \<longleftrightarrow>
     (\<exists>e \<in> set (map snd (Edges g)). e_Src e = a \<and> e_Type e = EdgeRefines \<and> e_Status e = StatusActive \<and>
        (case gm_get (Nodes g) (e_Dst e) of
           None \<Rightarrow> False
         | Some child \<Rightarrow> active_hypothesis child \<and> level < n_Level child \<and> n_ID child = b))"
  unfolding refines_step_def by (rule bex_cong [OF refl]) (auto split: option.splits)

lemma demo_refine_run:
  "\<exists>g' f'. Apply demo_rt 5 demo_refine demo_case demo_controller = (None, g', f') \<and>
     fst (Apply demo_rt 6 demo_backtrack g' f') = None \<and> refines_step g' 1 ''node-2'' ''node-4''"
proof -
  have "(let (r, g', f') = Apply demo_rt 5 demo_refine demo_case demo_controller
     in r = None \<and> fst (Apply demo_rt 6 demo_backtrack g' f') = None \<and> refines_step g' 1 ''node-2'' ''node-4'')"
    unfolding demo_case_eq by code_simp
  then show ?thesis by (cases "Apply demo_rt 5 demo_refine demo_case demo_controller") auto
qed

theorem backtrack_effect_witness:
  "\<exists>g' f' g'' f''. Apply demo_rt 5 demo_refine demo_case demo_controller = (None, g', f') \<and>
     Apply demo_rt 6 demo_backtrack g' f' = (None, g'', f'') \<and> CurrentLevel f'' = 1 \<and>
     (\<exists>n. gm_get (Nodes g'') ''node-4'' = Some n \<and> n_Status n = StatusRetracted)"
proof -
  obtain g' f' where r: "Apply demo_rt 5 demo_refine demo_case demo_controller = (None, g', f')"
      "fst (Apply demo_rt 6 demo_backtrack g' f') = None" "refines_step g' 1 ''node-2'' ''node-4''"
    using demo_refine_run by blast
  obtain g'' f'' where b: "Apply demo_rt 6 demo_backtrack g' f' = (None, g'', f'')"
    using r(2) by (metis prod.collapse)
  have reach: "reachable demo_rt (ToGraphPolicy DefaultConfig) g'"
    using Apply_reachable [OF demo_case_reachable, of 5 demo_refine demo_controller] r(1) by simp
  have "sd_Action demo_backtrack = DecisionBacktrack" "sd_ToLevel demo_backtrack = 1"
      "sd_BranchRootID demo_backtrack = ''node-2''"
    by (simp_all add: demo_backtrack_def)
  note E = backtrack_effect [OF reach b this(1), unfolded this(2,3)]
  have "(refines_step g' 1)\<^sup>+\<^sup>+ ''node-2'' ''node-4''" using r(3) by (rule tranclp.r_into_trancl)
  then show ?thesis using r(1) b E by blast
qed

text \<open>when \<open>Decide\<close> backtracks, the branch root is an ancestor of the current frontier, an
  active hypothesis of the target level that is no longer the best there, and applying the
  decision retracts that frontier.\<close>

theorem backtrack_decision_sound:
  assumes "reachable rt p g" "sd_Action (Decide rt cfg g f b) = DecisionBacktrack"
  shows "\<exists>fr root best. extractFrontierInternal rt (CurrentLevel f) g = Some fr \<and>
    gm_get (Nodes g) (sd_BranchRootID (Decide rt cfg g f b)) = Some root \<and> active_hypothesis root \<and>
    n_Level root = sd_ToLevel (Decide rt cfg g f b) \<and>
    extractFrontierInternal rt (n_Level root) g = Some best \<and> f_NodeID best \<noteq> n_ID root \<and>
    (\<forall>now g' f'. Apply rt now (Decide rt cfg g f b) g f = (None, g', f') \<longrightarrow>
       (\<exists>n. gm_get (Nodes g') (f_NodeID fr) = Some n \<and> n_Status n = StatusRetracted))"
proof (cases rule: Decide_cases [of rt cfg g f b])
  case (lost fr)
  note wf = reachable_wf [OF assms(1)]
  note L = checkBacktrack_lost [OF wf lost(1,2)]
  obtain root best where root: "gm_get (Nodes g) (sd_BranchRootID (Decide rt cfg g f b)) = Some root"
      "active_hypothesis root" "n_Level root = sd_ToLevel (Decide rt cfg g f b)"
      "extractFrontierInternal rt (n_Level root) g = Some best"
      "f_NodeID best \<noteq> sd_BranchRootID (Decide rt cfg g f b)"
    using L by auto
  have "\<exists>n. gm_get (Nodes g') (f_NodeID fr) = Some n \<and> n_Status n = StatusRetracted"
    if "Apply rt now (Decide rt cfg g f b) g f = (None, g', f')" for now g' f'
    using backtrack_copy_retracts [OF assms(1) that assms(2)] L by blast
  with lost(1) root graph_wf_ID [OF wf root(1)] show ?thesis
    by (intro exI [of _ fr] exI [of _ root] exI [of _ best]) auto
next
  case (frontier fr)
  then show ?thesis
    using assms(2) by (cases rule: decideFrontier_cases [of rt cfg g f b "GetActiveHypothesisCopies (CurrentLevel f) g" fr]) auto
qed (use assms in simp)

text \<open>A ranking that its parent node has lost: \<open>node-2\<close> carries the frontier \<open>node-4\<close>, and \<open>node-6\<close>
  is better at level 1.\<close>

definition demo_lost :: "(node + edge) belief_graph" where
  "demo_lost =
     snd (AddHypothesis demo_rt 6 ''h2'' 1 1 ''w'' (fst (snd (Apply demo_rt 5 demo_refine demo_case demo_controller))))"

definition demo_deep :: belief_fsm where
  "demo_deep = snd (snd (Apply demo_rt 5 demo_refine demo_case demo_controller))"

lemma demo_lost_reachable: "reachable demo_rt (ToGraphPolicy DefaultConfig) demo_lost"
  unfolding demo_lost_def AddHypothesis_def by (intro op_reachable Apply_reachable demo_case_reachable)

lemma demo_lost_run:
  "sd_Action (Decide demo_rt DefaultConfig demo_lost demo_deep demo_budget) = DecisionBacktrack \<and>
   fst (Apply demo_rt 7 (Decide demo_rt DefaultConfig demo_lost demo_deep demo_budget) demo_lost demo_deep) = None \<and>
   map_option f_NodeID (extractFrontierInternal demo_rt (CurrentLevel demo_deep) demo_lost) = Some ''node-4''"
proof -
  have "(case Apply demo_rt 5 demo_refine demo_case demo_controller of (r, g1, f1) \<Rightarrow>
      case AddHypothesis demo_rt 6 ''h2'' 1 1 ''w'' g1 of (k, g2) \<Rightarrow>
      case (Decide demo_rt DefaultConfig g2 f1 demo_budget, ()) of (d, u) \<Rightarrow>
        sd_Action d = DecisionBacktrack \<and> fst (Apply demo_rt 7 d g2 f1) = None \<and>
        map_option f_NodeID (extractFrontierInternal demo_rt (CurrentLevel f1) g2) = Some ''node-4'')"
    unfolding demo_case_eq by code_simp
  then show ?thesis by (simp only: demo_lost_def demo_deep_def case_prod_unfold fst_conv snd_conv)
qed

theorem backtrack_decision_sound_witness:
  "\<exists>g' f'. Apply demo_rt 7 (Decide demo_rt DefaultConfig demo_lost demo_deep demo_budget) demo_lost demo_deep =
       (None, g', f') \<and>
     (\<exists>n. gm_get (Nodes g') ''node-4'' = Some n \<and> n_Status n = StatusRetracted)"
proof -
  let ?d = "Decide demo_rt DefaultConfig demo_lost demo_deep demo_budget"
  obtain g' f' where a: "Apply demo_rt 7 ?d demo_lost demo_deep = (None, g', f')"
    using demo_lost_run by (metis prod.collapse)
  have "sd_Action ?d = DecisionBacktrack" using demo_lost_run by simp
  then obtain fr where fr: "extractFrontierInternal demo_rt (CurrentLevel demo_deep) demo_lost = Some fr"
      "\<exists>n. gm_get (Nodes g') (f_NodeID fr) = Some n \<and> n_Status n = StatusRetracted"
    using backtrack_decision_sound [OF demo_lost_reachable] a by blast
  then have "f_NodeID fr = ''node-4''" using demo_lost_run by simp
  with fr(2) a show ?thesis by auto
qed

definition demo_lenient :: gos_config where
  "demo_lenient = DefaultConfig\<lparr>c_FSM := \<lparr>fc_GapDelta = 0, fc_MinSupport = 0, fc_MaxSteps = 3, fc_MinConfidence = 1/2\<rparr>\<rparr>"

theorem report_sound_witness:
  "\<exists>g f fr. reachable demo_rt (ToGraphPolicy DefaultConfig) g \<and>
     sd_Action (Decide demo_rt demo_lenient g f demo_budget) = DecisionReport \<and>
     extractFrontierInternal demo_rt (CurrentLevel f) g = Some fr \<and> checkGranularity g fr \<and> 1/2 \<le> f_Score fr"
proof -
  let ?r = "Apply demo_rt 5 demo_refine demo_case demo_controller"
  have "(case ?r of (r, g1, f1) \<Rightarrow> sd_Action (Decide demo_rt demo_lenient g1 f1 demo_budget) = DecisionReport)"
    unfolding demo_case_eq by code_simp
  then have d: "sd_Action (Decide demo_rt demo_lenient (fst (snd ?r)) (snd (snd ?r)) demo_budget) = DecisionReport"
    by (simp only: case_prod_unfold)
  have r: "reachable demo_rt (ToGraphPolicy DefaultConfig) (fst (snd ?r))"
    by (rule Apply_reachable [OF demo_case_reachable])
  have "fc_MinConfidence (c_FSM demo_lenient) = 1/2" by (simp add: demo_lenient_def)
  with report_sound [OF r d] r d show ?thesis by metis
qed

text \<open>a refinement that succeeds takes the controller one level down, to a level with a
  frontier and no steps used, and gives the refined hypothesis every child the decision lists,
  as an active hypothesis of the new level under an active edge; no node is lost and the graph is
  valid.\<close>

theorem refine_effect:
  assumes "reachable rt p g" "Apply rt now d g f = (None, g', f')" "sd_Action d = DecisionRefine"
  shows "CurrentLevel f' = CurrentLevel f + 1 \<and> gm_int (LevelSteps f') (CurrentLevel f') = 0 \<and>
    extractFrontierInternal rt (CurrentLevel f') g' \<noteq> None \<and>
    (\<forall>c \<in> set (sd_Candidates d). has_child g' (sd_FrontierID d) (CurrentLevel f') (trim_space (rc_Label c))) \<and>
    dom (gm_get (Nodes g)) \<subseteq> dom (gm_get (Nodes g')) \<and> validateBeliefGraph g' = None"
proof -
  let ?cb = "\<lambda>cp. fst (refineCopy rt now d cp)"
  have vd: "validateDecision f d = None" using assms(2) by (auto simp: Apply_def split: option.splits)
  then have lv: "sd_FromLevel d = CurrentLevel f" "sd_ToLevel d = CurrentLevel f + 1"
    using assms(3) by (auto simp: validateDecision_def split: if_splits)
  have c: "Committed (fst (UpdateCopyOnWrite rt now ?cb g))" and g': "g' = snd (UpdateCopyOnWrite rt now ?cb g)"
    and f': "f' = DrillDown (sd_Reason d) f" and fr: "extractFrontierInternal rt (sd_ToLevel d) g' \<noteq> None"
    using assms(2,3) vd
    by (auto simp: Apply_def refineHypothesis_def case_prod_unfold wrapResult_def Let_def split: if_splits)
  have "CurrentLevel f' = CurrentLevel f + 1 \<and> gm_int (LevelSteps f') (CurrentLevel f') = 0"
    unfolding f' by (simp add: DrillDown_def transitionTo_def gm_int_def Let_def)
  moreover obtain cp where cp: "?cb (deepCopy g) = (None, cp)" "limitErr cp = None" "Nodes g' = Nodes cp" "Edges g' = Edges cp"
    using committed_copy [of rt now ?cb g] c g' by (metis prod.collapse)
  have "has_child g' (sd_FrontierID d) (sd_ToLevel d) (trim_space (rc_Label ca))" if "ca \<in> set (sd_Candidates d)" for ca
    using refineCopy_children [of "deepCopy g" rt now d cp ca] reachable_wf [OF assms(1)] cp(1,2) that
      has_child_cong [OF cp(3,4)] by simp
  moreover have "kept g g'" unfolding g' by (rule refinement.keeps_nodes [OF assms(1)])
  moreover have "graph_valid g'" unfolding g' by (rule refinement.commits_valid [OF c])
  ultimately show ?thesis using fr lv by (auto simp: kept_def validate_valid_iff)
qed

theorem refine_effect_witness:
  "\<exists>g' f'. Apply demo_rt 5 demo_refine demo_case demo_controller = (None, g', f') \<and>
     CurrentLevel f' = 2 \<and> has_child g' ''node-2'' 2 ''c''"
proof -
  obtain g' f' where r: "Apply demo_rt 5 demo_refine demo_case demo_controller = (None, g', f')"
    using demo_refine_run by blast
  have "sd_Action demo_refine = DecisionRefine" by (simp add: demo_refine_def)
  note E = refine_effect [OF demo_case_reachable r this]
  moreover have "\<lparr>rc_Label = ''c'', rc_Score = 1/2, rc_Why = ''w'', rc_Actionable = True\<rparr> \<in> set (sd_Candidates demo_refine)"
      "sd_FrontierID demo_refine = ''node-2''" "trim_space ''c'' = ''c''"
    by (simp_all add: demo_refine_def trim_space_def) code_simp
  ultimately have "has_child g' ''node-2'' (CurrentLevel f') ''c''" by (metis refinement_candidate.select_convs(1))
  with E r show ?thesis by auto
qed

text \<open>applying any decision keeps graph and controller in what the engine can reach and a
  valid graph valid. A failure leaves the controller where it was; continuing changes nothing,
  and reporting and degrading end the controller and leave the graph alone.\<close>

theorem apply_sound:
  assumes "reachable rt p g" "fsm_reachable th f" "Apply rt now d g f = (err, g', f')"
  shows "reachable rt p g' \<and> fsm_reachable th f' \<and>
    (validateBeliefGraph g = None \<longrightarrow> validateBeliefGraph g' = None) \<and> (err \<noteq> None \<longrightarrow> f' = f) \<and>
    (sd_Action d = DecisionContinue \<longrightarrow> g' = g \<and> f' = f) \<and>
    (sd_Action d \<in> {DecisionReport, DecisionDegraded} \<longrightarrow> g' = g \<and> (err = None \<longrightarrow> State f' = StateDone))"
proof -
  have "f' = f" if "err \<noteq> None"
    using assms(3) that
    by (auto simp: Apply_def refineHypothesis_def backtrack_def BacktrackTo_def case_prod_unfold wrapResult_def Let_def
        split: option.splits decision_action.splits if_splits)
  moreover have "sd_Action d \<in> {DecisionReport, DecisionDegraded} \<Longrightarrow> g' = g \<and> (err = None \<longrightarrow> State f' = StateDone)"
    using assms(3) by (auto simp: Apply_def MarkDone_def TransitionTo_def transitionTo_def split: option.splits)
  moreover have "sd_Action d = DecisionContinue \<Longrightarrow> g' = g \<and> f' = f"
    using assms(3) by (auto simp: Apply_def split: option.splits)
  ultimately show ?thesis
    using Apply_reachable [OF assms(1), of now d f] Apply_controller_reachable [OF assms(2), of rt now d g]
      Apply_valid [of g rt now d f] assms(3) by (simp add: validate_valid_iff)
qed

theorem apply_sound_witness:
  "validateBeliefGraph (fst (snd (Apply demo_rt 5 demo_refine demo_case demo_controller))) = None"
proof -
  have "validateBeliefGraph demo_case = None" unfolding demo_case_eq by code_simp
  moreover obtain e g' f' where r: "Apply demo_rt 5 demo_refine demo_case demo_controller = (e, g', f')"
    by (metis prod.collapse)
  ultimately show ?thesis
    using apply_sound [OF demo_case_reachable demo_controller_reachable r] by simp
qed

end
