(* ===== verification/Go_Format.thy ===== *)
theory Go_Format
  imports Go_Strings Go_Float
begin

text \<open>
  The parts of \<open>fmt\<close> and of the conversion between strings and runes whose result the code goes
  on to compare, cut or join: \<open>%.nf\<close>, \<open>Sprintf\<close> on rendered arguments, and \<open>[]rune(s)\<close>, here
  the list of the UTF-8 encodings of the runes of \<open>s\<close>.
\<close>

subsection \<open>Numbers\<close>

definition pad_zeros :: "nat \<Rightarrow> string \<Rightarrow> string" where
  "pad_zeros w s = replicate (w - length s) (CHR 0x30) @ s"

text \<open>\<open>fmt.Sprintf("%.nf", x)\<close>: the decimal nearest to the exact value, ties to even.\<close>

definition fmt_fixed :: "nat \<Rightarrow> f64 \<Rightarrow> string" where
  "fmt_fixed n x =
     (let digits = pad_zeros (n + 1) (nat_digits (nat (round_even (\<bar>x\<bar> * 10 ^ n))));
          whole = take (length digits - n) digits;
          sign = (if x < 0 then [CHR 0x2D] else [])
      in if n = 0 then sign @ whole else sign @ whole @ [CHR 0x2E] @ drop (length digits - n) digits)"

text \<open>\<open>fmt.Sprintf\<close> with the arguments rendered: each verb is replaced by the text of its
  argument, \<open>%%\<close> by a percent sign. A verb ends at its letter.\<close>

definition verb_letter :: "char \<Rightarrow> bool" where
  "verb_letter c \<longleftrightarrow> c \<in> {CHR 0x64, CHR 0x66, CHR 0x71, CHR 0x73, CHR 0x76, CHR 0x77}"

fun sprintf :: "string \<Rightarrow> string list \<Rightarrow> string" and sprintf_verb :: "string \<Rightarrow> string list \<Rightarrow> string" where
  "sprintf [] args = []"
| "sprintf (c # cs) args = (if c = CHR 0x25 then sprintf_verb cs args else c # sprintf cs args)"
| "sprintf_verb [] args = ''%!(NOVERB)''"
| "sprintf_verb (c # cs) args =
     (if c = CHR 0x25 then c # sprintf cs args
      else if verb_letter c
      then (case args of [] \<Rightarrow> ''%!'' @ [c] @ ''(MISSING)'' @ sprintf cs [] | a # rest \<Rightarrow> a @ sprintf cs rest)
      else sprintf_verb cs args)"

subsection \<open>Runes\<close>

definition byte :: "char \<Rightarrow> nat" where
  "byte c = of_char c"

definition tail_byte :: "char \<Rightarrow> bool" where
  "tail_byte c \<longleftrightarrow> 0x80 \<le> byte c \<and> byte c \<le> 0xBF"

text \<open>The length of the encoded rune at the head of the string, 0 where the bytes there are no
  encoding: the table of \<open>unicode/utf8\<close>.\<close>

fun rune_length :: "string \<Rightarrow> nat" where
  "rune_length [] = 0"
| "rune_length (a # s) =
     (if byte a < 0x80 then 1
      else if 0xC2 \<le> byte a \<and> byte a \<le> 0xDF
      then (case s of b # _ \<Rightarrow> if tail_byte b then 2 else 0 | _ \<Rightarrow> 0)
      else if 0xE0 \<le> byte a \<and> byte a \<le> 0xEF
      then (case s of b # c # _ \<Rightarrow>
              if tail_byte b \<and> tail_byte c \<and> (byte a = 0xE0 \<longrightarrow> 0xA0 \<le> byte b) \<and>
                 (byte a = 0xED \<longrightarrow> byte b \<le> 0x9F) then 3 else 0
            | _ \<Rightarrow> 0)
      else if 0xF0 \<le> byte a \<and> byte a \<le> 0xF4
      then (case s of b # c # d # _ \<Rightarrow>
              if tail_byte b \<and> tail_byte c \<and> tail_byte d \<and> (byte a = 0xF0 \<longrightarrow> 0x90 \<le> byte b) \<and>
                 (byte a = 0xF4 \<longrightarrow> byte b \<le> 0x8F) then 4 else 0
            | _ \<Rightarrow> 0)
      else 0)"

text \<open>\<open>[]rune(s)\<close>: a byte that starts no rune reads as U+FFFD.\<close>

function runes :: "string \<Rightarrow> string list" where
  "runes s =
     (if s = [] then []
      else if rune_length s = 0 then [CHR 0xEF, CHR 0xBF, CHR 0xBD] # runes (tl s)
      else take (rune_length s) s # runes (drop (rune_length s) s))"
  by pat_completeness auto
termination
  by (relation "measure length") auto

declare runes.simps [simp del]

lemma runes_Nil [simp]: "runes [] = []"
  by (simp add: runes.simps)

text \<open>The code point of an encoded rune.\<close>

fun rune_value :: "string \<Rightarrow> nat" where
  "rune_value [a] = byte a"
| "rune_value [a, b] = (byte a mod 32) * 64 + byte b mod 64"
| "rune_value [a, b, c] = ((byte a mod 16) * 64 + byte b mod 64) * 64 + byte c mod 64"
| "rune_value [a, b, c, d] = (((byte a mod 8) * 64 + byte b mod 64) * 64 + byte c mod 64) * 64 + byte d mod 64"
| "rune_value r = 0"

fun valid_utf8 :: "nat \<Rightarrow> string \<Rightarrow> bool" where
  "valid_utf8 0 s = (s = [])"
| "valid_utf8 (Suc n) s = (s = [] \<or> 0 < rune_length s \<and> valid_utf8 n (drop (rune_length s) s))"

text \<open>Decoding and encoding again changes no text that is UTF-8.\<close>

lemma concat_runes: "valid_utf8 n s \<Longrightarrow> concat (runes s) = s"
proof (induction n arbitrary: s)
  case 0
  then show ?case by simp
next
  case (Suc n)
  show ?case
  proof (cases "s = []")
    case False
    with Suc.prems have "0 < rune_length s" "valid_utf8 n (drop (rune_length s) s)" by simp_all
    then show ?thesis using Suc.IH False by (subst runes.simps) simp
  qed simp
qed

lemma runes_ascii: "byte a < 0x80 \<Longrightarrow> runes (a # s) = [a] # runes s"
  by (subst runes.simps) simp

lemma length_runes: "length (runes s) \<le> length s"
proof (induction s rule: runes.induct)
  case (1 s)
  show ?case
  proof (cases "s = []")
    case False
    then show ?thesis
      using 1 by (subst runes.simps) (auto simp: Suc_le_eq intro: le_less_trans)
  qed simp
qed

end
