(* ===== verification/Gos_Report.thy ===== *)
theory Gos_Report
  imports Gos_Config Belief_Ranking Gos_Validate Go_Format
begin

text \<open>
  The evidence report (\<open>gos_engine/report.go\<close>), all of it but the logging: the choice of the
  frontier, the scope of hypotheses above it, the evidence for that scope in its order, what
  of it is shown, the conflicts, the verdict and the rendered text. A Go map used as a set is
  the list of its members.
\<close>

subsection \<open>Counters of a run\<close>

text \<open>
  The counters of a run (\<open>RunStats\<close> and \<open>graphProgress\<close> of \<open>gos_engine/engine.go\<close>, and the
  operations on them in \<open>observability.go\<close>). The pointers are never nil where the engine
  passes them. What only leaves the process (the metrics export, the version hashes and the
  \<open>observability\<close> payload) is left out.
\<close>

record run_stats =
  rs_LLMCalls :: int
  rs_ToolCalls :: int
  rs_RAGCalls :: int
  rs_Steps :: int
  rs_ExpertDegraded :: int
  rs_ExpertFailed :: int
  rs_NoProgressRounds :: int
  rs_RemainingBudget :: plan_budget
  rs_PhaseLatencyMs :: "(string, int) gomap"
  rs_FrontierChanges :: int
  rs_BacktrackCount :: int
  rs_NewEvidenceCount :: int
  rs_ConfidenceDelta :: f64
  rs_Graph :: graph_resource_stats
  rs_FailureCategories :: "(string, int) gomap"

definition newRunStats :: run_stats where
  "newRunStats =
     \<lparr>rs_LLMCalls = 0, rs_ToolCalls = 0, rs_RAGCalls = 0, rs_Steps = 0, rs_ExpertDegraded = 0, rs_ExpertFailed = 0,
      rs_NoProgressRounds = 0, rs_RemainingBudget = zero_budget, rs_PhaseLatencyMs = [], rs_FrontierChanges = 0,
      rs_BacktrackCount = 0, rs_NewEvidenceCount = 0, rs_ConfidenceDelta = 0,
      rs_Graph = \<lparr>st_Nodes = 0, st_Edges = 0, st_Depth = 0, st_Snapshots = 0, st_Deltas = 0, st_HistoryBytes = 0\<rparr>,
      rs_FailureCategories = []\<rparr>"

text \<open>\<open>m[k] += n\<close> on a map of integers.\<close>

definition gm_add :: "'k \<Rightarrow> int \<Rightarrow> ('k, int) gomap \<Rightarrow> ('k, int) gomap" where
  "gm_add k n m = gm_put k (gm_int m k + n) m"

definition addFailureCategories :: "(string, int) gomap \<Rightarrow> run_stats \<Rightarrow> run_stats" where
  "addFailureCategories categories s =
     s\<lparr>rs_FailureCategories := foldl (\<lambda>m (category, count). gm_add category count m) (rs_FailureCategories s) categories\<rparr>"

text \<open>\<open>Duration.Milliseconds\<close>: the quotient of nanoseconds, towards zero.\<close>

definition milliseconds :: "int \<Rightarrow> int" where
  "milliseconds d = (if d < 0 then - ((- d) div 1000000) else d div 1000000)"

definition addPhaseLatency :: "string \<Rightarrow> int \<Rightarrow> run_stats \<Rightarrow> run_stats" where
  "addPhaseLatency phase elapsed s =
     s\<lparr>rs_PhaseLatencyMs := gm_add phase (milliseconds elapsed) (rs_PhaseLatencyMs s)\<rparr>"

subsection \<open>Progress of the graph\<close>

record graph_progress =
  gp_activeNodes :: int
  gp_activeEvidence :: int
  gp_frontierID :: string
  gp_frontierScore :: f64
  gp_supports :: int
  gp_refutes :: int

definition captureGraphProgress :: "'h belief_graph \<Rightarrow> frontier option \<Rightarrow> graph_progress" where
  "captureGraphProgress g frontier =
     (let active = getActiveNodeCopiesInternal g;
          progress = \<lparr>gp_activeNodes = int (length active),
            gp_activeEvidence = count_if (\<lambda>n. n_Type n = NodeEvidence) active,
            gp_frontierID = [], gp_frontierScore = 0, gp_supports = 0, gp_refutes = 0\<rparr>
      in case frontier of
           None \<Rightarrow> progress
         | Some f \<Rightarrow> progress\<lparr>gp_frontierID := f_NodeID f, gp_frontierScore := f_Score f,
                              gp_supports := f_Supports f, gp_refutes := f_Refutes f\<rparr>)"

definition progressedFrom :: "graph_progress \<Rightarrow> graph_progress \<Rightarrow> bool" where
  "progressedFrom p before \<longleftrightarrow>
     gp_activeNodes p > gp_activeNodes before \<or> gp_activeEvidence p > gp_activeEvidence before \<or>
     gp_frontierID p \<noteq> gp_frontierID before \<or> gp_frontierScore p \<noteq> gp_frontierScore before \<or>
     gp_supports p \<noteq> gp_supports before \<or> gp_refutes p \<noteq> gp_refutes before"

definition observeProgress :: "graph_progress \<Rightarrow> graph_progress \<Rightarrow> run_stats \<Rightarrow> run_stats" where
  "observeProgress before after s =
     (let changed = gp_frontierID after \<noteq> [] \<and> gp_frontierID before \<noteq> [] \<and> gp_frontierID after \<noteq> gp_frontierID before;
          added = gp_activeEvidence after - gp_activeEvidence before
      in s\<lparr>rs_FrontierChanges := (if changed then rs_FrontierChanges s + 1 else rs_FrontierChanges s),
           rs_NewEvidenceCount := (if added > 0 then rs_NewEvidenceCount s + added else rs_NewEvidenceCount s),
           rs_ConfidenceDelta := fadd (rs_ConfidenceDelta s) (fsub (gp_frontierScore after) (gp_frontierScore before))\<rparr>)"

definition observeGraph :: "'h gort \<Rightarrow> 'h belief_graph \<Rightarrow> run_stats \<Rightarrow> run_stats" where
  "observeGraph rt g s =
     (let current = resourceStatsInternal rt g; seen = rs_Graph s
      in s\<lparr>rs_Graph :=
             \<lparr>st_Nodes = max (st_Nodes current) (st_Nodes seen), st_Edges = max (st_Edges current) (st_Edges seen),
              st_Depth = max (st_Depth current) (st_Depth seen), st_Snapshots = max (st_Snapshots current) (st_Snapshots seen),
              st_Deltas = max (st_Deltas current) (st_Deltas seen),
              st_HistoryBytes = max (st_HistoryBytes current) (st_HistoryBytes seen)\<rparr>\<rparr>)"

text \<open>The reason a failure is filed under: a resource limit of the graph has its own.\<close>

definition graphFailureReason :: "string \<Rightarrow> goerr option \<Rightarrow> string" where
  "graphFailureReason fallback err =
     (case err of Some e \<Rightarrow> if as_limit e then ''graph_resource_limit'' else fallback | None \<Rightarrow> fallback)"

lemma gm_int_put [gomap_simps]: "gm_int (gm_put k v m) k' = (if k' = k then v else gm_int m k')"
  by (simp add: gm_int_def gm_get_put)

lemma gm_int_add [gomap_simps]: "gm_int (gm_add k n m) k' = gm_int m k' + (if k' = k then n else 0)"
  by (simp add: gm_add_def gm_int_put)

subsection \<open>The report\<close>

record report_conclusion =
  rn_Text :: string
  rn_HypothesisID :: string
  rn_Rationale :: string

record report_evidence =
  re_NodeID :: string
  re_EdgeRef :: string
  re_Relation :: string
  re_Strength :: f64
  re_TargetHypothesisID :: string
  re_SourceType :: string
  re_SourceID :: string
  re_ToolName :: string
  re_ArtifactRef :: string
  re_Title :: string
  re_Snippet :: string

record report_conflict =
  rf_TargetHypothesisID :: string
  rf_SupportNodeIDs :: "string list"
  rf_RefuteNodeIDs :: "string list"
  rf_Reason :: string

record evidence_report =
  er_Conclusion :: report_conclusion
  er_Confidence :: f64
  er_SupportingEvidence :: "report_evidence list"
  er_RefutingEvidence :: "report_evidence list"
  er_NeutralEvidence :: "report_evidence list"
  er_Conflicts :: "report_conflict list"
  er_UnresolvedGaps :: "string list"
  er_NextActions :: "string list"
  er_ReasonCodes :: "string list"
  er_Sufficient :: bool

text \<open>\<open>protocol.EvidenceItem\<close>, what a task result carries.\<close>

record protocol_evidence =
  pe_SourceType :: string
  pe_SourceID :: string
  pe_Title :: string
  pe_Snippet :: string
  pe_Score :: f64
  pe_URI :: string

subsection \<open>Strings\<close>

text \<open>\<open>appendUniqueStrings\<close>; its map \<open>seen\<close> always holds exactly the values.\<close>

definition appendUnique :: "string list \<Rightarrow> string \<Rightarrow> string list" where
  "appendUnique values addition =
     (let value = trim_space addition
      in if value = [] \<or> value \<in> set values then values else values @ [value])"

definition appendUniqueStrings :: "string list \<Rightarrow> string list \<Rightarrow> string list" where
  "appendUniqueStrings values additions = foldl appendUnique values additions"

definition compactReportText :: "string \<Rightarrow> int \<Rightarrow> string" where
  "compactReportText value maxChars =
     (let v = join '' '' (str_fields value)
      in if v = [] \<or> maxChars \<le> 0 then v
         else let rs = runes v
              in if int (length rs) \<le> maxChars then v
                 else concat (take (nat maxChars) rs) @ t_s_ellipsis)"

subsection \<open>The scope\<close>

text \<open>The loop \<open>for current := level; current >= 0; current--\<close>, from a level that is a number of
  levels above the last one.\<close>

fun frontierBelow :: "'h gort \<Rightarrow> 'h belief_graph \<Rightarrow> nat \<Rightarrow> frontier option" where
  "frontierBelow rt g 0 = extractFrontierInternal rt 0 g"
| "frontierBelow rt g (Suc k) =
     (case extractFrontierInternal rt (int (Suc k)) g of Some f \<Rightarrow> Some f | None \<Rightarrow> frontierBelow rt g k)"

definition selectReportFrontier :: "'h gort \<Rightarrow> 'h belief_graph \<Rightarrow> belief_fsm option \<Rightarrow> frontier option" where
  "selectReportFrontier rt g fsm =
     (let level = (case fsm of Some f \<Rightarrow> CurrentLevel f | None \<Rightarrow> 0)
      in if level < 0 then None else frontierBelow rt g (nat level))"

definition byID :: "node list \<Rightarrow> (string, node) gomap" where
  "byID ns = foldl (\<lambda>m n. gm_put (n_ID n) n m) [] ns"

text \<open>One edge of the inner loop, on the IDs and \<open>changed\<close>.\<close>

definition pathStep :: "(string, node) gomap \<Rightarrow> string list \<times> bool \<Rightarrow> edge \<Rightarrow> string list \<times> bool" where
  "pathStep m st e =
     (if e_Type e \<noteq> EdgeRefines then st
      else if e_Dst e \<notin> set (fst st) then st
      else case gm_get m (e_Src e) of
        None \<Rightarrow> st
      | Some parent \<Rightarrow>
          if n_Type parent \<noteq> NodeHypothesis \<or> n_Status parent \<noteq> StatusActive then st
          else if n_ID parent \<in> set (fst st) then st else (fst st @ [n_ID parent], True))"

definition pathPass :: "(string, node) gomap \<Rightarrow> edge list \<Rightarrow> string list \<Rightarrow> string list \<times> bool" where
  "pathPass m es ids = foldl (pathStep m) (ids, False) es"

text \<open>What a pass does to the IDs that are left, for the termination of the outer loop.\<close>

definition paths_left :: "(string, node) gomap \<Rightarrow> string list \<Rightarrow> string set" where
  "paths_left m ids = n_ID ` snd ` set m - set ids"

lemma finite_paths_left [simp]: "finite (paths_left m ids)"
  by (simp add: paths_left_def)

lemma pathStep_left:
  "paths_left m (fst (pathStep m st e)) \<subseteq> paths_left m (fst st) \<and>
   (snd (pathStep m st e) \<longrightarrow> snd st \<or> paths_left m (fst (pathStep m st e)) \<subset> paths_left m (fst st))"
proof -
  have "n_ID p \<in> n_ID ` snd ` set m" if "gm_get m k = Some p" for k p
    using gm_get_in [OF that] by force
  then show ?thesis
    by (auto simp: pathStep_def paths_left_def split: option.splits if_splits)
qed

lemma pathFold_left:
  "paths_left m (fst (foldl (pathStep m) st es)) \<subseteq> paths_left m (fst st) \<and>
   (snd (foldl (pathStep m) st es) \<longrightarrow> snd st \<or> paths_left m (fst (foldl (pathStep m) st es)) \<subset> paths_left m (fst st))"
proof (induction es arbitrary: st)
  case Nil
  then show ?case by simp
next
  case (Cons e es)
  show ?case using Cons.IH [of "pathStep m st e"] pathStep_left [of m st e] by auto
qed

function pathClosure :: "(string, node) gomap \<Rightarrow> edge list \<Rightarrow> string list \<Rightarrow> string list" where
  "pathClosure m es ids =
     (let r = pathPass m es ids in if snd r then pathClosure m es (fst r) else fst r)"
  by pat_completeness auto
termination
proof (relation "measure (\<lambda>(m, es, ids). card (paths_left m ids))", simp)
  fix m es ids r
  assume "r = pathPass m es ids" "snd r"
  then have "paths_left m (fst r) \<subset> paths_left m ids"
    using pathFold_left [of m "(ids, False)" es] by (simp add: pathPass_def)
  then show "((m, es, fst r), m, es, ids) \<in> measure (\<lambda>(m, es, ids). card (paths_left m ids))"
    by (simp add: psubset_card_mono)
qed

declare pathClosure.simps [simp del]

definition activeHypothesisPathIDs :: "'h belief_graph \<Rightarrow> frontier option \<Rightarrow> string list" where
  "activeHypothesisPathIDs g frontier =
     (case frontier of
        None \<Rightarrow> []
      | Some f \<Rightarrow> pathClosure (byID (getActiveNodeCopiesInternal g)) (getActiveEdgeCopies g) [f_NodeID f])"

definition reportHypothesisScopeIDs :: "'h belief_graph \<Rightarrow> frontier option \<Rightarrow> string list" where
  "reportHypothesisScopeIDs g frontier = activeHypothesisPathIDs g frontier"

subsection \<open>The evidence\<close>

definition reportRelationPriority :: "string \<Rightarrow> int" where
  "reportRelationPriority relation =
     (if relation = relation_support then 0 else if relation = relation_refute then 1 else 2)"

definition reportLess :: "report_evidence \<Rightarrow> report_evidence \<Rightarrow> bool" where
  "reportLess a b =
     (if reportRelationPriority (re_Relation a) \<noteq> reportRelationPriority (re_Relation b)
      then reportRelationPriority (re_Relation a) < reportRelationPriority (re_Relation b)
      else if re_Strength a \<noteq> re_Strength b then re_Strength a > re_Strength b
      else if re_SourceID a \<noteq> re_SourceID b then re_SourceID a < re_SourceID b
      else re_NodeID a < re_NodeID b)"

definition reportItem :: "node \<Rightarrow> evidence_source \<Rightarrow> report_evidence" where
  "reportItem n src =
     \<lparr>re_NodeID = n_ID n,
      re_EdgeRef = (if es_Relation src = relation_support \<or> es_Relation src = relation_refute
                    then edgeKey (n_ID n) (es_TargetHypothesisID src) else []),
      re_Relation = es_Relation src, re_Strength = es_Strength src,
      re_TargetHypothesisID = es_TargetHypothesisID src, re_SourceType = es_SourceType src,
      re_SourceID = es_SourceID src, re_ToolName = es_ToolName src, re_ArtifactRef = es_ArtifactRef src,
      re_Title = n_Label n, re_Snippet = es_SummarySnippet src\<rparr>"

definition evidenceFor :: "string list \<Rightarrow> node \<Rightarrow> report_evidence option" where
  "evidenceFor targetIDs n =
     (if n_Type n \<noteq> NodeEvidence then None
      else case n_Source n of
        None \<Rightarrow> None
      | Some src \<Rightarrow> if es_TargetHypothesisID src \<notin> set targetIDs then None else Some (reportItem n src))"

definition reportEvidenceForTargets :: "'h belief_graph \<Rightarrow> string list \<Rightarrow> report_evidence list" where
  "reportEvidenceForTargets g targetIDs =
     (if targetIDs = [] then []
      else sort_slice reportLess (List.map_filter (evidenceFor targetIDs) (getActiveNodeCopiesInternal g)))"

definition splitReportEvidence ::
    "report_evidence list \<Rightarrow> report_evidence list \<times> report_evidence list \<times> report_evidence list" where
  "splitReportEvidence items =
     (filter (\<lambda>i. re_Relation i = relation_support) items,
      filter (\<lambda>i. re_Relation i = relation_refute) items,
      filter (\<lambda>i. re_Relation i \<noteq> relation_support \<and> re_Relation i \<noteq> relation_refute) items)"

text \<open>The first of every group, then the rest in order, up to the limit. \<open>seen\<close> holds the IDs of
  what is selected.\<close>

definition selectFirst :: "int \<Rightarrow> report_evidence list \<Rightarrow> report_evidence list \<Rightarrow> report_evidence list" where
  "selectFirst limit selected grp =
     (case grp of
        [] \<Rightarrow> selected
      | item # _ \<Rightarrow> if int (length selected) \<ge> limit then selected else selected @ [item])"

definition selectMore :: "int \<Rightarrow> report_evidence list \<Rightarrow> report_evidence \<Rightarrow> report_evidence list" where
  "selectMore limit selected item =
     (if int (length selected) \<ge> limit \<or> re_NodeID item \<in> re_NodeID ` set selected then selected
      else selected @ [item])"

definition selectReportEvidence ::
    "report_evidence list \<Rightarrow> report_evidence list \<Rightarrow> report_evidence list \<Rightarrow> int \<Rightarrow> report_evidence list" where
  "selectReportEvidence supports refutes neutral limit =
     (let groups = [supports, refutes, neutral]
      in foldl (selectMore limit) (foldl (selectFirst limit) [] groups) (concat groups))"

subsection \<open>Conflicts and actions\<close>

definition addToTarget :: "(string, string list) gomap \<Rightarrow> report_evidence \<Rightarrow> (string, string list) gomap" where
  "addToTarget m item =
     gm_put (re_TargetHypothesisID item)
       ((case gm_get m (re_TargetHypothesisID item) of None \<Rightarrow> [] | Some ids \<Rightarrow> ids) @ [re_NodeID item]) m"

definition groupByTarget :: "report_evidence list \<Rightarrow> (string, string list) gomap" where
  "groupByTarget items = foldl addToTarget [] items"

definition conflictThreshold :: "f64 \<Rightarrow> f64" where
  "conflictThreshold threshold = (if threshold \<le> 0 \<or> threshold > 1 then 1/2 else threshold)"

definition conflictOn ::
    "f64 \<Rightarrow> (string, string list) gomap \<Rightarrow> (string, string list) gomap \<Rightarrow> string \<Rightarrow> report_conflict" where
  "conflictOn threshold supportBy refuteBy target =
     \<lparr>rf_TargetHypothesisID = target,
      rf_SupportNodeIDs = (case gm_get supportBy target of None \<Rightarrow> [] | Some ids \<Rightarrow> ids),
      rf_RefuteNodeIDs = (case gm_get refuteBy target of None \<Rightarrow> [] | Some ids \<Rightarrow> ids),
      rf_Reason = sprintf t_f_conflict [fmt_fixed 2 threshold]\<rparr>"

definition buildReportConflicts :: "report_evidence list \<Rightarrow> report_evidence list \<Rightarrow> f64 \<Rightarrow> report_conflict list" where
  "buildReportConflicts supports refutes threshold0 =
     (let threshold = conflictThreshold threshold0;
          supportBy = groupByTarget supports;
          refuteBy = groupByTarget (filter (\<lambda>i. re_Strength i \<ge> threshold) refutes)
      in map (conflictOn threshold supportBy refuteBy) (sort_strings (map fst refuteBy)))"

definition at_least_one :: "int \<Rightarrow> int" where
  "at_least_one k = (if k \<le> 0 then 1 else k)"

definition reportNextActions :: "gos_config \<Rightarrow> string list \<Rightarrow> string list" where
  "reportNextActions cfg codes =
     (let actions =
            (if ''insufficient_source_backed_support'' \<in> set codes \<or> ''low_graph_confidence'' \<in> set codes
             then [t_action_evidence] else []) @
            (if ''critical_evidence_conflict'' \<in> set codes then [t_action_conflict] else []) @
            (if ''partial_expert_failure'' \<in> set codes then [t_action_repair] else []);
          actions' = (if actions = [] then [t_action_review] else actions)
      in take (nat (at_least_one (rp_MaxNextActions (c_Report cfg)))) actions')"

subsection \<open>The verdict\<close>

text \<open>The four checks, each with its gap and its code. The arguments are the results of what comes
  before them in \<open>buildEvidenceReport\<close>.\<close>

definition weakSupport :: "gos_config \<Rightarrow> int \<Rightarrow> bool" where
  "weakSupport cfg direct \<longleftrightarrow> direct < (if fc_MinSupport (c_FSM cfg) < 1 then 1 else fc_MinSupport (c_FSM cfg))"

definition supportGap :: "gos_config \<Rightarrow> int \<Rightarrow> string" where
  "supportGap cfg direct =
     sprintf t_f_support_gap
       [itoa direct, itoa (if fc_MinSupport (c_FSM cfg) < 1 then 1 else fc_MinSupport (c_FSM cfg))]"

definition lowConfidence :: "gos_config \<Rightarrow> frontier option \<Rightarrow> f64 \<Rightarrow> bool" where
  "lowConfidence cfg frontier confidence \<longleftrightarrow> frontier \<noteq> None \<and> confidence < fc_MinConfidence (c_FSM cfg)"

definition expertTrouble :: "run_stats \<Rightarrow> bool" where
  "expertTrouble stats \<longleftrightarrow> rs_ExpertDegraded stats > 0 \<or> rs_ExpertFailed stats > 0"

definition reportFindings ::
    "gos_config \<Rightarrow> frontier option \<Rightarrow> run_stats \<Rightarrow> int \<Rightarrow> f64 \<Rightarrow> report_conflict list \<Rightarrow> (bool \<times> string \<times> string) list" where
  "reportFindings cfg frontier stats direct confidence conflicts =
     [(weakSupport cfg direct, supportGap cfg direct, ''insufficient_source_backed_support''),
      (lowConfidence cfg frontier confidence,
       sprintf t_f_confidence_gap [fmt_fixed 2 confidence, fmt_fixed 2 (fc_MinConfidence (c_FSM cfg))],
       ''low_graph_confidence''),
      (conflicts \<noteq> [], t_conflict_gap, ''critical_evidence_conflict''),
      (expertTrouble stats,
       sprintf t_f_expert_gap [itoa (rs_ExpertDegraded stats), itoa (rs_ExpertFailed stats)],
       ''partial_expert_failure'')]"

text \<open>The gaps and the codes, from what the missing frontier has left in them.\<close>

definition addFinding :: "string list \<times> string list \<Rightarrow> bool \<times> string \<times> string \<Rightarrow> string list \<times> string list" where
  "addFinding st f =
     (if fst f then (appendUnique (fst st) (fst (snd f)), appendUnique (snd st) (snd (snd f))) else st)"

definition directSupports :: "frontier option \<Rightarrow> report_evidence list \<Rightarrow> int" where
  "directSupports frontier supports =
     (case frontier of
        None \<Rightarrow> 0
      | Some f \<Rightarrow> count_if (\<lambda>i. re_TargetHypothesisID i = f_NodeID f \<and> re_Strength i > 0) supports)"

definition conclusionText :: "frontier option \<Rightarrow> bool \<Rightarrow> int \<Rightarrow> string" where
  "conclusionText frontier sufficient direct =
     (case frontier of
        None \<Rightarrow> t_no_root_cause
      | Some f \<Rightarrow> if sufficient then t_root_cause_prefix @ f_Label f
                 else if direct > 0 then t_best_prefix @ f_Label f @ t_best_suffix
                 else t_candidate_prefix @ f_Label f @ t_candidate_suffix)"

definition compactItem :: "gos_config \<Rightarrow> report_evidence \<Rightarrow> report_evidence" where
  "compactItem cfg i = i\<lparr>re_Snippet := compactReportText (re_Snippet i) (rp_EvidenceSnippetMaxChars (c_Report cfg))\<rparr>"

definition reportConclusion :: "gos_config \<Rightarrow> frontier option \<Rightarrow> bool \<Rightarrow> int \<Rightarrow> report_conclusion" where
  "reportConclusion cfg frontier sufficient direct =
     \<lparr>rn_Text = conclusionText frontier sufficient direct,
      rn_HypothesisID = (case frontier of None \<Rightarrow> [] | Some f \<Rightarrow> f_NodeID f),
      rn_Rationale =
        (case frontier of None \<Rightarrow> [] | Some f \<Rightarrow> compactReportText (f_Why f) (rp_EvidenceSnippetMaxChars (c_Report cfg)))\<rparr>"

definition buildEvidenceReport ::
    "gos_config \<Rightarrow> 'h belief_graph \<Rightarrow> frontier option \<Rightarrow> run_stats \<Rightarrow> string list \<Rightarrow> evidence_report" where
  "buildEvidenceReport cfg g frontier stats additionalGaps =
     (let confidence = (case frontier of None \<Rightarrow> 0 | Some f \<Rightarrow> clamp01 (f_Score f));
          start = (case frontier of None \<Rightarrow> (appendUnique [] t_no_frontier, [''no_frontier'']) | Some _ \<Rightarrow> ([], []));
          (allSupports, allRefutes, allNeutral) =
            splitReportEvidence (reportEvidenceForTargets g (reportHypothesisScopeIDs g frontier));
          selected = map (compactItem cfg)
            (selectReportEvidence allSupports allRefutes allNeutral (at_least_one (rp_MaxEvidenceItems (c_Report cfg))));
          (supports, refutes, neutral) = splitReportEvidence selected;
          direct = directSupports frontier allSupports;
          conflicts = buildReportConflicts allSupports allRefutes (rp_ConflictStrengthThreshold (c_Report cfg));
          (gaps, codes) = foldl addFinding start (reportFindings cfg frontier stats direct confidence conflicts);
          sufficient = (frontier \<noteq> None \<and> \<not> weakSupport cfg direct \<and> confidence \<ge> fc_MinConfidence (c_FSM cfg) \<and>
                        conflicts = [] \<and> rs_ExpertDegraded stats = 0 \<and> rs_ExpertFailed stats = 0)
      in \<lparr>er_Conclusion = reportConclusion cfg frontier sufficient direct, er_Confidence = confidence,
          er_SupportingEvidence = supports, er_RefutingEvidence = refutes, er_NeutralEvidence = neutral,
          er_Conflicts = conflicts, er_UnresolvedGaps = appendUniqueStrings gaps additionalGaps,
          er_NextActions = reportNextActions cfg codes, er_ReasonCodes = codes, er_Sufficient = sufficient\<rparr>)"

subsection \<open>The text\<close>

definition reportLine :: "report_evidence \<Rightarrow> string" where
  "reportLine i =
     (let detail = (if re_Snippet i \<noteq> [] \<and> re_Snippet i \<noteq> re_Title i
                    then re_Title i @ t_s_dash @ re_Snippet i else re_Title i)
      in sprintf t_s_item
           [re_NodeID i, re_SourceType i, re_SourceID i, re_TargetHypothesisID i, fmt_fixed 2 (re_Strength i), detail])"

definition writeReportEvidenceSection :: "string \<Rightarrow> report_evidence list \<Rightarrow> string" where
  "writeReportEvidenceSection title items =
     [CHR 0x0A] @ ''## '' @ title @ [CHR 0x0A, CHR 0x0A] @
     (if items = [] then t_s_none else concat (map reportLine items))"

definition writeStringList :: "string list \<Rightarrow> string \<Rightarrow> string" where
  "writeStringList items emptyText =
     (if items = [] then ''- '' @ emptyText @ [CHR 0x0A] else concat (map (\<lambda>i. ''- '' @ i @ [CHR 0x0A]) items))"

definition formatEvidenceReport :: "evidence_report \<Rightarrow> string" where
  "formatEvidenceReport r =
     (let c = er_Conclusion r
      in trim_space
        (t_s_conclusion @ rn_Text c @
         (if rn_HypothesisID c \<noteq> [] then sprintf t_s_node [rn_HypothesisID c] else []) @
         (if rn_Rationale c \<noteq> [] then t_s_rationale @ rn_Rationale c else []) @
         sprintf t_s_confidence [fmt_fixed 0 (fmul (er_Confidence r) 100)] @
         writeReportEvidenceSection t_s_support (er_SupportingEvidence r) @
         writeReportEvidenceSection t_s_refute (er_RefutingEvidence r) @
         writeReportEvidenceSection t_s_neutral (er_NeutralEvidence r) @
         t_s_gaps @ writeStringList (er_UnresolvedGaps r) t_s_no_gaps @
         t_s_next @ writeStringList (er_NextActions r) t_s_review))"

definition protocolItem :: "report_evidence \<Rightarrow> protocol_evidence" where
  "protocolItem i =
     \<lparr>pe_SourceType = re_SourceType i, pe_SourceID = re_SourceID i, pe_Title = re_Title i, pe_Snippet = re_Snippet i,
      pe_Score = re_Strength i, pe_URI = re_ArtifactRef i\<rparr>"

definition protocolEvidence :: "evidence_report \<Rightarrow> protocol_evidence list" where
  "protocolEvidence r = map protocolItem (er_SupportingEvidence r @ er_RefutingEvidence r @ er_NeutralEvidence r)"

end
