(* ===== verification/Gos_Json.thy ===== *)
theory Gos_Json
  imports Go_Strings
begin

text \<open>
  The reading of a model's answer (\<open>gos_engine/structured_json.go\<close>): cutting the one JSON object
  out of the text and decoding it strictly, and filling a prompt template. The JSON decoder
  of the standard library is an argument: applied to the object it fails or returns the value and
  whether a second call would find something other than the end of the input. The cut is
  characterised by a grammar of texts with balanced braces outside of string literals.
\<close>

abbreviation lbrace :: char where "lbrace \<equiv> CHR 0x7B"
abbreviation rbrace :: char where "rbrace \<equiv> CHR 0x7D"
abbreviation dquote :: char where "dquote \<equiv> CHR 0x22"
abbreviation backslash :: char where "backslash \<equiv> CHR 0x5C"

text \<open>The loop over the bytes from the first brace on; \<open>read\<close> is what it has passed, reversed.\<close>

fun scanObject :: "int \<Rightarrow> bool \<Rightarrow> bool \<Rightarrow> string \<Rightarrow> string \<Rightarrow> goerr + string" where
  "scanObject depth inString escaped read [] = Inl (Errorf ''unterminated JSON object'' [])"
| "scanObject depth inString escaped read (c # rest) =
     (if inString then
        (if escaped then scanObject depth True False (c # read) rest
         else if c = backslash then scanObject depth True True (c # read) rest
         else if c = dquote then scanObject depth False False (c # read) rest
         else scanObject depth True False (c # read) rest)
      else if c = dquote then scanObject depth True escaped (c # read) rest
      else if c = lbrace then scanObject (depth + 1) False escaped (c # read) rest
      else if c = rbrace then
        (if depth - 1 = 0
         then (if lbrace \<in> set rest then Inl (Errorf ''expected exactly one JSON object'' [])
               else Inr (rev (c # read)))
         else if depth - 1 < 0 then Inl (Errorf ''invalid JSON object'' [])
         else scanObject (depth - 1) False escaped (c # read) rest)
      else scanObject depth False escaped (c # read) rest)"

definition extractSingleJSONObject :: "string \<Rightarrow> goerr + string" where
  "extractSingleJSONObject raw =
     (let object = dropWhile (\<lambda>c. c \<noteq> lbrace) (trim_space raw)
      in if object = [] then Inl (Errorf ''JSON object is required'' [])
         else scanObject 0 False False [] object)"

definition decodeStrictJSONObject :: "(string \<Rightarrow> goerr + 'a \<times> bool) \<Rightarrow> string \<Rightarrow> goerr + 'a" where
  "decodeStrictJSONObject decode raw =
     (case extractSingleJSONObject raw of
        Inl err \<Rightarrow> Inl err
      | Inr object \<Rightarrow>
          (case decode object of
             Inl err \<Rightarrow> Inl err
           | Inr (target, more) \<Rightarrow>
               if more then Inl (Errorf ''expected exactly one JSON object'' []) else Inr target))"

text \<open>\<open>strings.ReplaceAll\<close> for a needle that is not empty, from left to right.\<close>

function replaceAll :: "string \<Rightarrow> string \<Rightarrow> string \<Rightarrow> string" where
  "replaceAll old new s =
     (if s = [] then []
      else if old \<noteq> [] \<and> prefix old s then new @ replaceAll old new (drop (length old) s)
      else hd s # replaceAll old new (tl s))"
  by pat_completeness auto
termination by (relation "measure (\<lambda>(old, new, s). length s)") auto

declare replaceAll.simps [simp del]

definition renderStructuredPrompt :: "string \<Rightarrow> string \<times> string \<Rightarrow> string" where
  "renderStructuredPrompt template kv = replaceAll (''{{'' @ fst kv @ ''}}'') (snd kv) template"

subsection \<open>The texts the extraction accepts\<close>

inductive string_tail :: "string \<Rightarrow> bool" where
  close: "string_tail [dquote]"
| char: "c \<noteq> dquote \<Longrightarrow> c \<noteq> backslash \<Longrightarrow> string_tail s \<Longrightarrow> string_tail (c # s)"
| escape: "string_tail s \<Longrightarrow> string_tail (backslash # c # s)"

inductive brace_object :: "string \<Rightarrow> bool" and brace_body :: "string \<Rightarrow> bool" where
  braces: "brace_body b \<Longrightarrow> brace_object (lbrace # b @ [rbrace])"
| empty: "brace_body []"
| plain: "c \<notin> {lbrace, rbrace, dquote} \<Longrightarrow> brace_body b \<Longrightarrow> brace_body (c # b)"
| literal: "string_tail s \<Longrightarrow> brace_body b \<Longrightarrow> brace_body (dquote # s @ b)"
| nested: "brace_object ob \<Longrightarrow> brace_body b \<Longrightarrow> brace_body (ob @ b)"

lemma scan_literal:
  "string_tail s \<Longrightarrow> scanObject d True False read (s @ rest) = scanObject d False False (rev s @ read) rest"
  by (induction s arbitrary: read rule: string_tail.induct) simp_all

lemma scan_object_body:
  "brace_object ob \<Longrightarrow> 1 \<le> d \<Longrightarrow> scanObject d False False read (ob @ rest) = scanObject d False False (rev ob @ read) rest"
  "brace_body b \<Longrightarrow> 1 \<le> d \<Longrightarrow> scanObject d False False read (b @ rest) = scanObject d False False (rev b @ read) rest"
proof (induction arbitrary: d read rest and d read rest rule: brace_object_brace_body.inducts)
  case (braces b)
  then show ?case by simp
next
  case (literal s b)
  then show ?case by (simp add: scan_literal)
qed simp_all

lemma scan_complete:
  assumes "brace_object ob" "lbrace \<notin> set post"
  shows "scanObject 0 False False [] (ob @ post) = Inr ob"
  using assms(1)
proof (cases rule: brace_object.cases)
  case (braces b)
  then show ?thesis using scan_object_body(2) [OF braces(2), of 1] assms(2) by simp
qed

text \<open>\<open>closes d s\<close>: the text \<open>s\<close> closes \<open>d\<close> open braces.\<close>

fun closes :: "nat \<Rightarrow> string \<Rightarrow> bool" where
  "closes 0 s = (s = [])"
| "closes (Suc d) s = (\<exists>b t. s = b @ rbrace # t \<and> brace_body b \<and> closes d t)"

lemma closes_cons:
  assumes "closes (Suc d) s" "\<And>b. brace_body b \<Longrightarrow> brace_body (p @ b)"
  shows "closes (Suc d) (p @ s)"
proof -
  obtain b t where "s = b @ rbrace # t" "brace_body b" "closes d t" using assms(1) by auto
  then have "p @ s = (p @ b) @ rbrace # t \<and> brace_body (p @ b) \<and> closes d t" using assms(2) by simp
  then show ?thesis unfolding closes.simps by blast
qed

lemma closes_nested: "closes (Suc (Suc d)) s \<Longrightarrow> closes (Suc d) (lbrace # s)"
proof -
  assume "closes (Suc (Suc d)) s"
  then obtain b b' t where s: "s = b @ rbrace # b' @ rbrace # t" "brace_body b" "brace_body b'" "closes d t"
    by auto
  have "brace_body ((lbrace # b @ [rbrace]) @ b')"
    by (rule nested [OF braces [OF s(2)] s(3)])
  moreover have "lbrace # s = ((lbrace # b @ [rbrace]) @ b') @ rbrace # t" using s(1) by simp
  ultimately show ?thesis unfolding closes.simps using s(4) by blast
qed

text \<open>What is left of the text in a state of the scan: inside a literal, the rest of the literal
  first.\<close>

definition rest_ok :: "bool \<Rightarrow> bool \<Rightarrow> nat \<Rightarrow> string \<Rightarrow> bool" where
  "rest_ok inString escaped d t =
     (if inString then \<exists>u v. t = u @ v \<and> closes d v \<and>
        (if escaped then \<exists>c w. u = c # w \<and> string_tail w else string_tail u)
      else closes d t)"

lemma rest_ok_literal:
  "rest_ok True False d t \<Longrightarrow> c \<noteq> dquote \<Longrightarrow> c \<noteq> backslash \<Longrightarrow> rest_ok True False d (c # t)"
  unfolding rest_ok_def by simp (metis string_tail.char append_Cons)

lemma rest_ok_escape: "rest_ok True True d t \<Longrightarrow> rest_ok True False d (backslash # t)"
  unfolding rest_ok_def by simp (metis string_tail.escape append_Cons)

lemma rest_ok_escaped: "rest_ok True False d t \<Longrightarrow> rest_ok True True d (c # t)"
  unfolding rest_ok_def by simp (metis append_Cons)

lemma rest_ok_close: "rest_ok False False d t \<Longrightarrow> rest_ok True False d (dquote # t)"
  unfolding rest_ok_def by simp (metis string_tail.close append_Cons append_Nil)

lemma rest_ok_open: "rest_ok True False (Suc d) t \<Longrightarrow> rest_ok False False (Suc d) (dquote # t)"
proof -
  assume "rest_ok True False (Suc d) t"
  then obtain u v where t: "t = u @ v" "closes (Suc d) v" "string_tail u" by (auto simp: rest_ok_def)
  then have "closes (Suc d) ((dquote # u) @ v)" by (intro closes_cons) (auto intro: literal)
  with t(1) show ?thesis by (simp add: rest_ok_def del: closes.simps)
qed

lemma rest_ok_plain:
  "rest_ok False False (Suc d) t \<Longrightarrow> c \<notin> {lbrace, rbrace, dquote} \<Longrightarrow> rest_ok False False (Suc d) (c # t)"
  using closes_cons [of d t "[c]"] plain by (simp add: rest_ok_def del: closes.simps)

lemma rest_ok_rbrace: "rest_ok False False d t \<Longrightarrow> rest_ok False False (Suc d) (rbrace # t)"
proof -
  assume "rest_ok False False d t"
  then have "rbrace # t = [] @ rbrace # t \<and> brace_body [] \<and> closes d t" by (simp add: rest_ok_def empty)
  then show ?thesis unfolding rest_ok_def if_False closes.simps by blast
qed

definition cut :: "string \<Rightarrow> string \<Rightarrow> string \<Rightarrow> (string \<Rightarrow> bool) \<Rightarrow> bool" where
  "cut out read s P \<longleftrightarrow> (\<exists>t post. s = t @ post \<and> out = rev read @ t \<and> lbrace \<notin> set post \<and> P t)"

lemma cut_step: "cut out (c # read) s P \<Longrightarrow> (\<And>t. P t \<Longrightarrow> Q (c # t)) \<Longrightarrow> cut out read (c # s) Q"
proof -
  assume "cut out (c # read) s P" and Q: "\<And>t. P t \<Longrightarrow> Q (c # t)"
  then obtain t post where "s = t @ post" "out = rev (c # read) @ t" "lbrace \<notin> set post" "P t"
    unfolding cut_def by blast
  then have "c # s = (c # t) @ post \<and> out = rev read @ (c # t) \<and> lbrace \<notin> set post \<and> Q (c # t)"
    using Q by simp
  then show ?thesis unfolding cut_def by blast
qed

lemma scan_sound:
  "scanObject d inString escaped read s = Inr out \<Longrightarrow> 1 \<le> d \<Longrightarrow> (escaped \<longrightarrow> inString) \<Longrightarrow>
   cut out read s (rest_ok inString escaped (nat d))"
proof (induction d inString escaped read s rule: scanObject.induct)
  case (1 d inString escaped read)
  then show ?case by simp
next
  case (2 d inString escaped read c s)
  obtain k where k: "nat d = Suc k" using 2(10) by (cases "nat d") auto
  show ?case
  proof (cases inString)
    case True
    consider "escaped" | "\<not> escaped" "c = backslash" | "\<not> escaped" "c = dquote"
      | "\<not> escaped" "c \<noteq> backslash" "c \<noteq> dquote" by blast
    then show ?thesis
    proof cases
      case 1
      have "cut out (c # read) s (rest_ok True False (nat d))" using 2(1) [OF True 1] 2(9,10) True 1 by simp
      then have "cut out read (c # s) (rest_ok True True (nat d))" by (rule cut_step) (rule rest_ok_escaped)
      then show ?thesis using True 1 by simp
    next
      case a: 2
      have "cut out (c # read) s (rest_ok True True (nat d))" using 2(2) [OF True a] 2(9,10) True a by simp
      then have "cut out read (c # s) (rest_ok True False (nat d))"
        unfolding a(2) by (rule cut_step) (rule rest_ok_escape)
      then show ?thesis using True a by simp
    next
      case 3
      have "cut out (c # read) s (rest_ok False False (nat d))"
        using 2(3) [OF True 3(1) _ 3(2)] 2(9,10) True 3 by simp
      then have "cut out read (c # s) (rest_ok True False (nat d))"
        unfolding 3(2) by (rule cut_step) (rule rest_ok_close)
      then show ?thesis using True 3 by simp
    next
      case 4
      have "cut out (c # read) s (rest_ok True False (nat d))" using 2(4) [OF True 4] 2(9,10) True 4 by simp
      then have "cut out read (c # s) (rest_ok True False (nat d))"
        by (rule cut_step) (rule rest_ok_literal [OF _ 4(3,2)])
      then show ?thesis using True 4 by simp
    qed
  next
    case False
    then have e: "\<not> escaped" using 2(11) by simp
    have goal: "cut out read (c # s) (rest_ok False False (Suc k)) \<Longrightarrow> ?thesis" using False e k by simp
    consider "c = dquote" | "c = lbrace" | "c = rbrace" "d = 1" | "c = rbrace" "d \<noteq> 1"
      | "c \<notin> {lbrace, rbrace, dquote}" by blast
    then show ?thesis
    proof cases
      case 1
      have "cut out (c # read) s (rest_ok True False (Suc k))" using 2(5) [OF False 1] 2(9,10) False e k 1 by simp
      then show ?thesis unfolding 1 by (intro goal [unfolded 1], rule cut_step) (rule rest_ok_open)
    next
      case a: 2
      have "cut out (c # read) s (rest_ok False False (Suc (Suc k)))"
        using 2(6) [OF False _ a] 2(9,10) False e k a by (simp add: nat_add_distrib)
      then show ?thesis
        unfolding a by (intro goal [unfolded a], rule cut_step)
          (simp add: rest_ok_def closes_nested del: closes.simps)
    next
      case 3
      then have "lbrace \<notin> set s" "out = rev read @ [c]" using 2(9) False by (auto split: if_splits)
      moreover have "rest_ok False False (Suc 0) (rbrace # [])"
        by (rule rest_ok_rbrace) (simp add: rest_ok_def)
      ultimately show ?thesis
        unfolding cut_def using False e 3 by (intro exI [of _ "[c]"] exI [of _ s]) simp
    next
      case 4
      have "k \<noteq> 0" using 4(2) 2(10) k by auto
      then have "cut out (c # read) s (rest_ok False False k)"
        using 2(7) [OF False _ _ 4(1)] 2(9,10) False e k 4 by (auto simp: nat_diff_distrib)
      then show ?thesis unfolding 4(1) by (intro goal [unfolded 4(1)], rule cut_step) (rule rest_ok_rbrace)
    next
      case 5
      have "cut out (c # read) s (rest_ok False False (Suc k))"
        using 2(8) [OF False] 2(9,10) False e k 5 by auto
      then show ?thesis by (intro goal, rule cut_step) (rule rest_ok_plain [OF _ 5])
    qed
  qed
qed

text \<open>The cut of the whole text.\<close>

lemma extract_iff:
  "extractSingleJSONObject raw = Inr ob \<longleftrightarrow>
     (\<exists>pre post. trim_space raw = pre @ ob @ post \<and> lbrace \<notin> set pre \<and> lbrace \<notin> set post \<and> brace_object ob)"
proof
  let ?s = "trim_space raw"
  let ?ob = "dropWhile (\<lambda>c. c \<noteq> lbrace) ?s" and ?pre = "takeWhile (\<lambda>c. c \<noteq> lbrace) ?s"
  assume ex: "extractSingleJSONObject raw = Inr ob"
  then have ne: "?ob \<noteq> []" by (auto simp: extractSingleJSONObject_def Let_def split: if_splits)
  have "hd ?ob = lbrace" using hd_dropWhile [OF ne] by simp
  with ne obtain s where s: "?ob = lbrace # s" by (cases ?ob) auto
  have "scanObject 0 False False [] ?ob = Inr ob"
    using ex ne by (simp only: extractSingleJSONObject_def Let_def if_False)
  then have "scanObject 1 False False [lbrace] s = Inr ob" unfolding s by simp
  then have "cut ob [lbrace] s (rest_ok False False (nat 1))" by (rule scan_sound) simp_all
  then obtain t post where t: "s = t @ post" "ob = lbrace # t" "lbrace \<notin> set post" "closes 1 t"
    by (auto simp: cut_def rest_ok_def)
  from t(4) obtain b where "t = b @ [rbrace]" "brace_body b" by auto
  then have "brace_object ob" using t(2) braces by simp
  moreover have "?s = ?pre @ ob @ post" using s t(1,2) by (metis append_Cons takeWhile_dropWhile_id)
  moreover have "lbrace \<notin> set ?pre" by (auto dest: set_takeWhileD)
  ultimately show "\<exists>pre post. ?s = pre @ ob @ post \<and> lbrace \<notin> set pre \<and> lbrace \<notin> set post \<and> brace_object ob"
    using t(3) by blast
next
  assume "\<exists>pre post. trim_space raw = pre @ ob @ post \<and> lbrace \<notin> set pre \<and> lbrace \<notin> set post \<and> brace_object ob"
  then obtain pre post where t: "trim_space raw = pre @ ob @ post" "lbrace \<notin> set pre" "lbrace \<notin> set post"
      "brace_object ob" by blast
  obtain b where ob: "ob = lbrace # b" using t(4) by (cases rule: brace_object.cases) auto
  have "\<And>x. x \<in> set pre \<Longrightarrow> x \<noteq> lbrace" using t(2) by blast
  then have "dropWhile (\<lambda>c. c \<noteq> lbrace) (pre @ ob @ post) = dropWhile (\<lambda>c. c \<noteq> lbrace) (ob @ post)"
    by (rule dropWhile_append2)
  then have "dropWhile (\<lambda>c. c \<noteq> lbrace) (trim_space raw) = ob @ post" unfolding t(1) ob by simp
  moreover have "ob @ post \<noteq> []" using ob by simp
  ultimately show "extractSingleJSONObject raw = Inr ob"
    unfolding extractSingleJSONObject_def Let_def by (simp only: if_False scan_complete [OF t(4,3)])
qed

end
