(* ===== verification/Gos_Planner.thy ===== *)
theory Gos_Planner
  imports Gos_Config Gos_Json Belief_Ranking
begin

text \<open>
  The planner (\<open>gos_engine/planner.go\<close>): budgets, the contract a plan proposed by the model has to
  meet, and the deterministic plan it falls back to. A Go set of strings
  (\<open>map[string]struct{}\<close>) is the list of its members. The outside world is the record
  \<open>plan_io\<close>: what the context reports before and after the model call, the call itself
  (\<open>None\<close> when no generator is configured), the JSON encoder and decoder and the prompt template.
  The logger is left out.
\<close>

record plan_item =
  pi_ExpertName :: string
  pi_TargetHypothesisID :: string
  pi_Reason :: string
  pi_ExpectedEvidence :: "string list"
  pi_AllowedTools :: "string list"
  pi_StopConditions :: "string list"
  pi_Budget :: plan_budget
  pi_FallbackReason :: string

record planning_history =
  ph_CalledGoalKeys :: "string list"
  ph_FailedTools :: "string list"
  ph_RemainingBudget :: plan_budget
  ph_StructuredGenerationDisabled :: bool

record 'h planning_context =
  pc_Frontier :: "frontier option"
  pc_Graph :: "'h belief_graph option"
  pc_CalledGoalKeys :: "string list"
  pc_FailedTools :: "string list"
  pc_RemainingBudget :: plan_budget
  pc_StructuredGenerationDisabled :: bool

record plan_outcome =
  po_Items :: "plan_item list"
  po_Mode :: string
  po_FallbackReason :: string
  po_FallbackDetail :: msg
  po_LLMCalls :: int

record planner =
  p_experts :: "string list"
  p_cfg :: gos_config

subsection \<open>Budgets\<close>

definition normalizeBudgetValue :: "int \<Rightarrow> int \<Rightarrow> int \<Rightarrow> int" where
  "normalizeBudgetValue requested fallback limit =
     (let r = (if requested \<le> 0 then fallback else requested)
      in if r \<le> 0 \<or> r > limit then limit else r)"

definition normalizePlanBudget :: "plan_budget \<Rightarrow> plan_budget \<Rightarrow> plan_budget \<Rightarrow> plan_budget" where
  "normalizePlanBudget requested fallback limit =
     \<lparr>b_LLMCalls = normalizeBudgetValue (b_LLMCalls requested) (b_LLMCalls fallback) (b_LLMCalls limit),
      b_ToolCalls = normalizeBudgetValue (b_ToolCalls requested) (b_ToolCalls fallback) (b_ToolCalls limit),
      b_RAGCalls = normalizeBudgetValue (b_RAGCalls requested) (b_RAGCalls fallback) (b_RAGCalls limit),
      b_TimeoutMs = normalizeBudgetValue (b_TimeoutMs requested) (b_TimeoutMs fallback) (b_TimeoutMs limit),
      b_MaxRetrievalSteps =
        normalizeBudgetValue (b_MaxRetrievalSteps requested) (b_MaxRetrievalSteps fallback) (b_MaxRetrievalSteps limit),
      b_MaxOutputTokens =
        normalizeBudgetValue (b_MaxOutputTokens requested) (b_MaxOutputTokens fallback) (b_MaxOutputTokens limit)\<rparr>"

definition positivePlanBudget :: "plan_budget \<Rightarrow> bool" where
  "positivePlanBudget b \<longleftrightarrow> b_LLMCalls b > 0 \<and> b_ToolCalls b > 0 \<and> b_RAGCalls b > 0 \<and> b_TimeoutMs b > 0 \<and>
     b_MaxRetrievalSteps b > 0 \<and> b_MaxOutputTokens b > 0"

definition addPlanBudgets :: "plan_budget \<Rightarrow> plan_budget \<Rightarrow> plan_budget" where
  "addPlanBudgets l r =
     \<lparr>b_LLMCalls = b_LLMCalls l + b_LLMCalls r, b_ToolCalls = b_ToolCalls l + b_ToolCalls r,
      b_RAGCalls = b_RAGCalls l + b_RAGCalls r, b_TimeoutMs = b_TimeoutMs l + b_TimeoutMs r,
      b_MaxRetrievalSteps = b_MaxRetrievalSteps l + b_MaxRetrievalSteps r,
      b_MaxOutputTokens = b_MaxOutputTokens l + b_MaxOutputTokens r\<rparr>"

definition exceedsPlanBudget :: "plan_budget \<Rightarrow> plan_budget \<Rightarrow> bool" where
  "exceedsPlanBudget u r \<longleftrightarrow> b_LLMCalls u > b_LLMCalls r \<or> b_ToolCalls u > b_ToolCalls r \<or>
     b_RAGCalls u > b_RAGCalls r \<or> b_TimeoutMs u > b_TimeoutMs r \<or>
     b_MaxRetrievalSteps u > b_MaxRetrievalSteps r \<or> b_MaxOutputTokens u > b_MaxOutputTokens r"

definition scalePlanBudget :: "plan_budget \<Rightarrow> int \<Rightarrow> plan_budget" where
  "scalePlanBudget b factor =
     (let k = (if factor \<le> 0 then 1 else factor)
      in \<lparr>b_LLMCalls = b_LLMCalls b * k, b_ToolCalls = b_ToolCalls b * k, b_RAGCalls = b_RAGCalls b * k,
          b_TimeoutMs = b_TimeoutMs b * k, b_MaxRetrievalSteps = b_MaxRetrievalSteps b * k,
          b_MaxOutputTokens = b_MaxOutputTokens b * k\<rparr>)"

definition subtractPlanBudget :: "plan_budget \<Rightarrow> plan_budget \<Rightarrow> plan_budget \<times> goerr option" where
  "subtractPlanBudget r u =
     (if exceedsPlanBudget u r
      then (zero_budget, Some (Errorf ''plan exceeds remaining session budget'' []))
      else (\<lparr>b_LLMCalls = b_LLMCalls r - b_LLMCalls u, b_ToolCalls = b_ToolCalls r - b_ToolCalls u,
             b_RAGCalls = b_RAGCalls r - b_RAGCalls u, b_TimeoutMs = b_TimeoutMs r - b_TimeoutMs u,
             b_MaxRetrievalSteps = b_MaxRetrievalSteps r - b_MaxRetrievalSteps u,
             b_MaxOutputTokens = b_MaxOutputTokens r - b_MaxOutputTokens u\<rparr>, None))"

subsection \<open>Helpers\<close>

definition NewPlanningHistory :: planning_history where
  "NewPlanningHistory =
     \<lparr>ph_CalledGoalKeys = [], ph_FailedTools = [], ph_RemainingBudget = zero_budget,
      ph_StructuredGenerationDisabled = False\<rparr>"

fun nonEmptyFrom :: "string list \<Rightarrow> string list \<Rightarrow> string list" where
  "nonEmptyFrom seen [] = []"
| "nonEmptyFrom seen (v # vs) =
     (let value = trim_space v
      in if value = [] \<or> value \<in> set seen then nonEmptyFrom seen vs
         else value # nonEmptyFrom (value # seen) vs)"

definition nonEmptyStrings :: "string list \<Rightarrow> string list" where
  "nonEmptyStrings values = nonEmptyFrom [] values"

definition filterFailedTools :: "string list \<Rightarrow> string list \<Rightarrow> string list" where
  "filterFailedTools tools failed = filter (\<lambda>t. t \<notin> set failed) tools"

definition sortedSetKeys :: "string list \<Rightarrow> string list" where
  "sortedSetKeys values = sort_strings (remdups values)"

definition sortedExpertNames :: "planner \<Rightarrow> string list" where
  "sortedExpertNames p = sort_strings (remdups (p_experts p))"

definition expertTools :: "planner \<Rightarrow> string \<Rightarrow> string list" where
  "expertTools p name =
     (case find (\<lambda>x. xc_Name x = name) (c_Experts (p_cfg p)) of
        Some x \<Rightarrow> xc_Tools x
      | None \<Rightarrow> [''query_logs'', ''query_internal_docs''])"

definition expertBudget :: "planner \<Rightarrow> string \<Rightarrow> plan_budget" where
  "expertBudget p name =
     (case find (\<lambda>x. xc_Name x = name \<and> positivePlanBudget (xc_Budget x)) (c_Experts (p_cfg p)) of
        Some x \<Rightarrow> xc_Budget x
      | None \<Rightarrow> sg_PlanBudget (c_StructuredCognition (p_cfg p)))"

definition planGoalKey :: "'h gort \<Rightarrow> plan_item \<Rightarrow> string" where
  "planGoalKey rt item =
     rt_lower rt (trim_space (pi_TargetHypothesisID item) @ [CHR 0x1F] @ trim_space (pi_ExpertName item) @ [CHR 0x1F] @
       join [CHR 0x1E] (sort_strings (nonEmptyStrings (pi_ExpectedEvidence item))))"

definition containsAny :: "string list \<Rightarrow> string \<Rightarrow> bool" where
  "containsAny needles text \<longleftrightarrow> (\<exists>w \<in> set needles. contains w text)"

definition pickExpert :: "'h gort \<Rightarrow> frontier \<Rightarrow> string" where
  "pickExpert rt fr =
     (let text = rt_lower rt (f_Label fr @ '' '' @ f_Why fr)
      in if containsAny [t_network, ''network'', ''latency'', ''timeout''] text then ''network_sre''
         else if containsAny [t_database, ''mysql'', ''redis'', ''cache'', ''kafka'', ''tidb'', ''tikv''] text
         then ''database_sre''
         else ''linux_sre'')"

definition expectedEvidence :: "'h gort \<Rightarrow> frontier option \<Rightarrow> string \<Rightarrow> string list" where
  "expectedEvidence rt fr expertName =
     (let text = rt_lower rt expertName @
            (case fr of None \<Rightarrow> [] | Some f \<Rightarrow> '' '' @ rt_lower rt (f_Label f @ '' '' @ f_Why f))
      in if containsAny [''network'', t_network, ''latency'', ''timeout''] text then [t_expect_network]
         else if containsAny [''database'', t_database, ''mysql'', ''redis'', ''tidb'', ''tikv''] text
         then [t_expect_database]
         else [t_expect_linux])"

definition inferMissingEvidence :: "'h gort \<Rightarrow> frontier option \<Rightarrow> string list" where
  "inferMissingEvidence rt fr =
     (case fr of
        None \<Rightarrow> [''frontier evidence'']
      | Some f \<Rightarrow>
          nonEmptyStrings
            (expectedEvidence rt fr [] @ (if f_Supports f = 0 then [t_missing_support] else []) @
             (if f_Refutes f = 0 then [t_missing_refute] else [])))"

subsection \<open>What the model is shown\<close>

record graph_summary =
  gsum_id :: string
  gsum_type :: node_type
  gsum_label :: string
  gsum_score :: f64
  gsum_level :: int

definition activeGraphSummary :: "'h belief_graph option \<Rightarrow> graph_summary list" where
  "activeGraphSummary graph =
     (case graph of
        None \<Rightarrow> []
      | Some g \<Rightarrow>
          map (\<lambda>n. \<lparr>gsum_id = n_ID n, gsum_type = n_Type n, gsum_label = n_Label n, gsum_score = n_Score n,
                    gsum_level = n_Level n\<rparr>)
            (sort_slice (\<lambda>a b. n_ID a < n_ID b) (getActiveNodeCopiesInternal g)))"

record planner_expert_context =
  pec_Name :: string
  pec_Tools :: "string list"
  pec_Budget :: plan_budget

definition plannerExperts :: "planner \<Rightarrow> planner_expert_context list" where
  "plannerExperts p =
     map (\<lambda>name. \<lparr>pec_Name = name, pec_Tools = expertTools p name, pec_Budget = expertBudget p name\<rparr>)
       (sort_strings (remdups (p_experts p)))"

record plan_view =
  pv_Frontier :: "frontier option"
  pv_ActiveGraph :: "graph_summary list"
  pv_MissingEvidence :: "string list"
  pv_CalledGoalKeys :: "string list"
  pv_FailedTools :: "string list"
  pv_Experts :: "planner_expert_context list"
  pv_RemainingBudget :: plan_budget
  pv_MaxPlanItems :: int

record plan_io =
  io_ctxErr :: "goerr option"
  io_ctxErrAfter :: "goerr option"
  io_marshal :: "plan_view \<Rightarrow> goerr + string"
  io_template :: string
  io_generate :: "(string \<Rightarrow> goerr + string) option"
  io_decode :: "string \<Rightarrow> goerr + plan_item list \<times> bool"

definition buildStructuredPrompt :: "'h gort \<Rightarrow> plan_io \<Rightarrow> planner \<Rightarrow> 'h planning_context \<Rightarrow> goerr + string" where
  "buildStructuredPrompt rt io p planning =
     (case io_marshal io
             \<lparr>pv_Frontier = pc_Frontier planning, pv_ActiveGraph = activeGraphSummary (pc_Graph planning),
              pv_MissingEvidence = inferMissingEvidence rt (pc_Frontier planning),
              pv_CalledGoalKeys = sortedSetKeys (pc_CalledGoalKeys planning),
              pv_FailedTools = sortedSetKeys (pc_FailedTools planning), pv_Experts = plannerExperts p,
              pv_RemainingBudget = pc_RemainingBudget planning,
              pv_MaxPlanItems = sg_MaxPlanItems (c_StructuredCognition (p_cfg p))\<rparr> of
        Inl err \<Rightarrow> Inl (Errorf ''marshal planning context: %w'' [AWrap err])
      | Inr raw \<Rightarrow> Inr (renderStructuredPrompt (io_template io) (''planning_context'', raw)))"

subsection \<open>The contract of a proposed plan\<close>

definition normalizePlanBudgets :: "planner \<Rightarrow> plan_item list \<Rightarrow> plan_item list" where
  "normalizePlanBudgets p items =
     map (\<lambda>item. if pi_ExpertName item \<notin> set (p_experts p) then item
                 else item\<lparr>pi_Budget := normalizePlanBudget (pi_Budget item)
                        (sg_PlanBudget (c_StructuredCognition (p_cfg p))) (expertBudget p (pi_ExpertName item))\<rparr>)
       items"

fun checkTools :: "string list \<Rightarrow> string list \<Rightarrow> int \<Rightarrow> string list \<Rightarrow> goerr option" where
  "checkTools authorized failed index [] = None"
| "checkTools authorized failed index (tool # tools) =
     (if tool \<notin> set authorized then Some (Errorf ''plan item %d tool %q is not authorized'' [AInt index, AStr tool])
      else if tool \<in> set failed then Some (Errorf ''plan item %d reuses failed tool %q'' [AInt index, AStr tool])
      else checkTools authorized failed index tools)"

text \<open>The checks of one item before its goal key.\<close>

definition checkItem :: "planner \<Rightarrow> 'h planning_context \<Rightarrow> int \<Rightarrow> plan_item \<Rightarrow> goerr option" where
  "checkItem p planning index item =
     (if pi_ExpertName item \<notin> set (p_experts p)
      then Some (Errorf ''plan item %d references unknown expert %q'' [AInt index, AStr (pi_ExpertName item)])
      else if trim_space (pi_Reason item) = [] \<or> nonEmptyStrings (pi_ExpectedEvidence item) = [] \<or>
              nonEmptyStrings (pi_AllowedTools item) = [] \<or> nonEmptyStrings (pi_StopConditions item) = []
      then Some (Errorf ''plan item %d requires reason, expected evidence, allowed tools and stop conditions'' [AInt index])
      else if \<not> positivePlanBudget (pi_Budget item)
      then Some (Errorf ''plan item %d budget must be positive'' [AInt index])
      else if exceedsPlanBudget (pi_Budget item) (expertBudget p (pi_ExpertName item))
      then Some (Errorf ''plan item %d exceeds expert %q budget'' [AInt index, AStr (pi_ExpertName item)])
      else checkTools (expertTools p (pi_ExpertName item)) (pc_FailedTools planning) index (pi_AllowedTools item))"

text \<open>The loop of \<open>validatePlan\<close>: index, budget used and goals seen so far; \<open>Inr\<close> is the budget used.\<close>

fun checkItems ::
    "'h gort \<Rightarrow> planner \<Rightarrow> 'h planning_context \<Rightarrow> frontier \<Rightarrow> int \<Rightarrow> plan_budget \<Rightarrow> string list \<Rightarrow> plan_item list
     \<Rightarrow> goerr + plan_budget" where
  "checkItems rt p planning fr index used seen [] = Inr used"
| "checkItems rt p planning fr index used seen (item # items) =
     (case checkItem p planning index item of
        Some err \<Rightarrow> Inl err
      | None \<Rightarrow>
          (let goalKey = planGoalKey rt (item\<lparr>pi_TargetHypothesisID := f_NodeID fr\<rparr>)
           in if goalKey \<in> set (pc_CalledGoalKeys planning)
              then Inl (Errorf ''plan item %d repeats an existing evidence goal'' [AInt index])
              else if goalKey \<in> set seen then Inl (Errorf ''plan contains duplicate evidence goal'' [])
              else checkItems rt p planning fr (index + 1) (addPlanBudgets used (pi_Budget item)) (goalKey # seen) items))"

definition validatePlan ::
    "'h gort \<Rightarrow> planner \<Rightarrow> 'h planning_context \<Rightarrow> frontier \<Rightarrow> plan_item list \<Rightarrow> goerr option" where
  "validatePlan rt p planning fr items =
     (let maxItems = sg_MaxPlanItems (c_StructuredCognition (p_cfg p))
      in if maxItems \<le> 0 \<or> items = [] \<or> int (length items) > maxItems
         then Some (Errorf ''plan must contain 1..%d items'' [AInt maxItems])
         else case checkItems rt p planning fr 0 zero_budget [] items of
           Inl err \<Rightarrow> Some err
         | Inr used \<Rightarrow>
             if exceedsPlanBudget used (pc_RemainingBudget planning)
             then Some (Errorf ''plan exceeds remaining budget'' []) else None)"

subsection \<open>The fallback plan\<close>

definition fallbackItem ::
    "'h gort \<Rightarrow> planner \<Rightarrow> 'h planning_context \<Rightarrow> frontier \<Rightarrow> string \<Rightarrow> string \<Rightarrow> plan_item" where
  "fallbackItem rt p planning fr reason name =
     \<lparr>pi_ExpertName = name, pi_TargetHypothesisID = f_NodeID fr, pi_Reason = ''deterministic_frontier_match'',
      pi_ExpectedEvidence = expectedEvidence rt (Some fr) name,
      pi_AllowedTools = filterFailedTools (expertTools p name) (pc_FailedTools planning),
      pi_StopConditions = [t_stop_evidence, t_stop_budget],
      pi_Budget = expertBudget p name, pi_FallbackReason = reason\<rparr>"

definition fallbackNames :: "'h gort \<Rightarrow> planner \<Rightarrow> frontier \<Rightarrow> string list" where
  "fallbackNames rt p fr =
     (let preferred = pickExpert rt fr
      in (if preferred \<in> set (p_experts p) then [preferred] else []) @
         filter (\<lambda>name. name \<noteq> preferred) (sortedExpertNames p))"

definition fallbackUsable ::
    "'h gort \<Rightarrow> planner \<Rightarrow> 'h planning_context \<Rightarrow> frontier \<Rightarrow> string \<Rightarrow> string \<Rightarrow> bool" where
  "fallbackUsable rt p planning fr reason name \<longleftrightarrow>
     filterFailedTools (expertTools p name) (pc_FailedTools planning) \<noteq> [] \<and>
     \<not> exceedsPlanBudget (expertBudget p name) (pc_RemainingBudget planning) \<and>
     planGoalKey rt (fallbackItem rt p planning fr reason name) \<notin> set (pc_CalledGoalKeys planning)"

definition fallbackPlan ::
    "'h gort \<Rightarrow> planner \<Rightarrow> 'h planning_context \<Rightarrow> frontier \<Rightarrow> string \<Rightarrow> goerr + plan_item" where
  "fallbackPlan rt p planning fr reason =
     (case find (fallbackUsable rt p planning fr reason) (fallbackNames rt p fr) of
        Some name \<Rightarrow> Inr (fallbackItem rt p planning fr reason name)
      | None \<Rightarrow> Inl (Errorf ''no expert has a new evidence goal with an available authorized tool'' []))"

subsection \<open>Planning\<close>

definition no_outcome :: plan_outcome where
  "no_outcome = \<lparr>po_Items = [], po_Mode = [], po_FallbackReason = [], po_FallbackDetail = Txt [], po_LLMCalls = 0\<rparr>"

text \<open>The structured part: the outcome so far and the error that ends planning at once.\<close>

definition structuredPlan ::
    "'h gort \<Rightarrow> plan_io \<Rightarrow> planner \<Rightarrow> 'h planning_context \<Rightarrow> frontier \<Rightarrow> plan_outcome \<times> goerr option" where
  "structuredPlan rt io p planning fr =
     (let start = no_outcome\<lparr>po_Mode := ''rule_fallback''\<rparr>
      in if pc_StructuredGenerationDisabled planning
         then (start\<lparr>po_FallbackReason := ''structured_generation_disabled''\<rparr>, None)
         else case io_generate io of
           None \<Rightarrow> (start\<lparr>po_FallbackReason := ''structured_generator_unavailable''\<rparr>, None)
         | Some generate \<Rightarrow>
             (case buildStructuredPrompt rt io p planning of
                Inl err \<Rightarrow> (no_outcome, Some err)
              | Inr prompt \<Rightarrow>
                  (let called = start\<lparr>po_LLMCalls := 1\<rparr>
                   in case io_ctxErrAfter io of
                        Some err \<Rightarrow> (called, Some err)
                      | None \<Rightarrow>
                          (case generate prompt of
                             Inl err \<Rightarrow>
                               (called\<lparr>po_FallbackReason := ''structured_generation_failed'',
                                       po_FallbackDetail := Fmt ''%v'' [AErr err]\<rparr>, None)
                           | Inr raw \<Rightarrow>
                               (case decodeStrictJSONObject (io_decode io) raw of
                                  Inl err \<Rightarrow>
                                    (called\<lparr>po_FallbackReason := ''structured_schema_invalid'',
                                            po_FallbackDetail := Fmt ''%v'' [AErr err]\<rparr>, None)
                                | Inr proposed \<Rightarrow>
                                    (let items = normalizePlanBudgets p proposed
                                     in case validatePlan rt p planning fr items of
                                          Some err \<Rightarrow>
                                            (called\<lparr>po_FallbackReason := ''structured_contract_invalid'',
                                                    po_FallbackDetail := Fmt ''%v'' [AErr err]\<rparr>, None)
                                        | None \<Rightarrow>
                                            (called\<lparr>po_Items := map (\<lambda>item. item\<lparr>pi_TargetHypothesisID := f_NodeID fr\<rparr>) items,
                                                    po_Mode := ''structured''\<rparr>, None)))))))"

definition PlanWithContext ::
    "'h gort \<Rightarrow> plan_io \<Rightarrow> planner \<Rightarrow> 'h planning_context \<Rightarrow> plan_outcome \<times> goerr option" where
  "PlanWithContext rt io p planning0 =
     (case io_ctxErr io of
        Some err \<Rightarrow> (no_outcome, Some err)
      | None \<Rightarrow>
          if p_experts p = [] then (no_outcome, None)
          else case pc_Frontier planning0 of
            None \<Rightarrow> (no_outcome, Some (Errorf ''frontier is required'' []))
          | Some fr \<Rightarrow>
              if trim_space (f_NodeID fr) = [] then (no_outcome, Some (Errorf ''frontier is required'' []))
              else
                (let cog = c_StructuredCognition (p_cfg p);
                     planning = (if pc_RemainingBudget planning0 = zero_budget
                       then planning0\<lparr>pc_RemainingBudget := scalePlanBudget (sg_PlanBudget cog) (sg_MaxPlanItems cog)\<rparr>
                       else planning0);
                     (outcome, failure) =
                       (if sg_Enabled cog then structuredPlan rt io p planning fr
                        else (no_outcome\<lparr>po_Mode := ''rules''\<rparr>, None))
                 in case failure of
                      Some err \<Rightarrow> (outcome, Some err)
                    | None \<Rightarrow>
                        if po_Items outcome \<noteq> [] then (outcome, None)
                        else case fallbackPlan rt p planning fr (po_FallbackReason outcome) of
                          Inl err \<Rightarrow> (outcome, Some err)
                        | Inr item \<Rightarrow> (outcome\<lparr>po_Items := [item]\<rparr>, None)))"

definition Plan :: "'h gort \<Rightarrow> plan_io \<Rightarrow> planner \<Rightarrow> frontier option \<Rightarrow> plan_item list \<times> goerr option" where
  "Plan rt io p fr =
     (let cog = c_StructuredCognition (p_cfg p);
          r = PlanWithContext rt io p
                \<lparr>pc_Frontier = fr, pc_Graph = None, pc_CalledGoalKeys = [], pc_FailedTools = [],
                 pc_RemainingBudget = scalePlanBudget (sg_PlanBudget cog) (sg_MaxPlanItems cog),
                 pc_StructuredGenerationDisabled = False\<rparr>
      in (po_Items (fst r), snd r))"

end
