(* ===== verification/Gos_Act.thy ===== *)
theory Gos_Act
  imports Gos_Report Gos_Planner Gos_Evidence
begin

text \<open>
  Acting (\<open>gos_engine/engine.go\<close>): the view of the graph an expert is given, the calls of the
  experts of a plan, and what is made of failures. An expert is a parameter: the function it
  computes from its task, the round and its place in the plan, with a panic as a result. The
  experts of a plan run at the same time; each writes its own slot and the counters are sums
  taken under a lock, so the model takes them one after the other.
\<close>

record execution_budget =
  xb_LLMCalls :: int
  xb_ToolCalls :: int
  xb_RAGCalls :: int
  xb_Timeout :: int
  xb_MaxRetrievalSteps :: int
  xb_MaxOutputTokens :: int

record 'h expert_task =
  xt_Frontier :: frontier
  xt_Graph :: "'h belief_graph"
  xt_ExpectedEvidence :: "string list"
  xt_AllowedTools :: "string list"
  xt_StopConditions :: "string list"
  xt_Budget :: execution_budget

datatype expert_run = ExpertPanic string | ExpertReturn "expert_analysis option"

text \<open>An expert of the registry, with or without the interface of planned experts. The numbers are
  the round and the index in the plan.\<close>

datatype 'h expert_agent =
    PlannedAgent "nat \<Rightarrow> nat \<Rightarrow> 'h expert_task \<Rightarrow> expert_run"
  | PlainAgent "nat \<Rightarrow> nat \<Rightarrow> frontier \<Rightarrow> 'h belief_graph \<Rightarrow> expert_run"

record 'h gos_engine =
  e_cfg :: gos_config
  e_experts :: "(string, 'h expert_agent) gomap"

record act_result =
  ar_Analyses :: "expert_analysis option list"
  ar_DegradedCount :: int
  ar_FailedCount :: int

subsection \<open>The view of an expert\<close>

text \<open>One edge and one node of a pass, on the included IDs and \<open>changed\<close>.\<close>

definition viewEdge :: "string list \<times> bool \<Rightarrow> edge \<Rightarrow> string list \<times> bool" where
  "viewEdge st e =
     (if e_Dst e \<in> set (fst st) \<and> (e_Type e = EdgeRefines \<or> e_Type e = EdgeCausal) \<and> e_Src e \<notin> set (fst st)
      then (fst st @ [e_Src e], True) else st)"

definition viewNode :: "string list \<times> bool \<Rightarrow> node \<Rightarrow> string list \<times> bool" where
  "viewNode st n =
     (case n_Source n of
        None \<Rightarrow> st
      | Some src \<Rightarrow>
          if n_Type n = NodeEvidence \<and> es_TargetHypothesisID src \<in> set (fst st) \<and> n_ID n \<notin> set (fst st)
          then (fst st @ [n_ID n], True) else st)"

definition viewPass :: "node list \<Rightarrow> edge list \<Rightarrow> string list \<Rightarrow> string list \<times> bool" where
  "viewPass ns es ids = foldl viewNode (foldl viewEdge (ids, False) es) ns"

definition view_left :: "node list \<Rightarrow> edge list \<Rightarrow> string list \<Rightarrow> string set" where
  "view_left ns es ids = n_ID ` set ns \<union> e_Src ` set es - set ids"

definition shrinks :: "string set \<Rightarrow> string list \<times> bool \<Rightarrow> string list \<times> bool \<Rightarrow> bool" where
  "shrinks U st st' \<longleftrightarrow> U - set (fst st') \<subseteq> U - set (fst st) \<and>
     (snd st' \<longrightarrow> snd st \<or> U - set (fst st') \<subset> U - set (fst st))"

lemma shrinks_refl: "shrinks U st st"
  by (simp add: shrinks_def)

lemma shrinks_trans: "shrinks U a b \<Longrightarrow> shrinks U b c \<Longrightarrow> shrinks U a c"
  unfolding shrinks_def by blast

lemma shrinks_fold: "(\<And>st x. x \<in> set xs \<Longrightarrow> shrinks U st (f st x)) \<Longrightarrow> shrinks U st (foldl f st xs)"
proof (induction xs arbitrary: st)
  case Nil
  show ?case by (simp add: shrinks_refl)
next
  case (Cons x xs)
  have "shrinks U st (f st x)" using Cons.prems by simp
  moreover have "shrinks U (f st x) (foldl f (f st x) xs)" using Cons.prems by (intro Cons.IH) simp
  ultimately show ?case using shrinks_trans by simp
qed

lemma viewPass_shrinks: "shrinks (n_ID ` set ns \<union> e_Src ` set es) (ids, False) (viewPass ns es ids)"
proof -
  have "shrinks (n_ID ` set ns \<union> e_Src ` set es) st (viewEdge st e)" if "e \<in> set es" for st e
    using that by (auto simp: shrinks_def viewEdge_def)
  moreover have "shrinks (n_ID ` set ns \<union> e_Src ` set es) st (viewNode st n)" if "n \<in> set ns" for st n
    using that by (auto simp: shrinks_def viewNode_def split: option.splits)
  ultimately show ?thesis
    unfolding viewPass_def by (intro shrinks_trans [OF shrinks_fold shrinks_fold])
qed

function viewClosure :: "node list \<Rightarrow> edge list \<Rightarrow> string list \<Rightarrow> string list" where
  "viewClosure ns es ids = (let r = viewPass ns es ids in if snd r then viewClosure ns es (fst r) else fst r)"
  by pat_completeness auto
termination
proof (relation "measure (\<lambda>(ns, es, ids). card (view_left ns es ids))", simp)
  fix ns es ids r
  assume "r = viewPass ns es ids" "snd r"
  then have "view_left ns es (fst r) \<subset> view_left ns es ids"
    using viewPass_shrinks [of ns es ids] by (simp add: shrinks_def view_left_def)
  moreover have "finite (view_left ns es ids)" by (simp add: view_left_def)
  ultimately show "((ns, es, fst r), ns, es, ids) \<in> measure (\<lambda>(ns, es, ids). card (view_left ns es ids))"
    by (simp add: psubset_card_mono)
qed

declare viewClosure.simps [simp del]

definition buildExpertGraphView :: "'h belief_graph \<Rightarrow> frontier \<Rightarrow> 'h belief_graph" where
  "buildExpertGraphView g f =
     (let ns = getActiveNodeCopiesInternal g; es = getActiveEdgeCopies g; m = byID ns;
          start = f_NodeID f # (if StartSignalID g \<noteq> [] then [StartSignalID g] else []);
          included = remdups (viewClosure ns es start);
          viewNodes = List.map_filter (\<lambda>k. map_option (Pair k) (gm_get m k)) included;
          viewEdges = foldl (\<lambda>em e. gm_put (edgeKey (e_Src e) (e_Dst e)) e em) []
            (filter (\<lambda>e. gm_get viewNodes (e_Src e) \<noteq> None \<and> gm_get viewNodes (e_Dst e) \<noteq> None) es)
      in NewBeliefGraph\<lparr>Nodes := viewNodes, Edges := viewEdges,
           StartSignalID := (if gm_get viewNodes (StartSignalID g) \<noteq> None then StartSignalID g else []),
           Belief := Belief g, CurrentStep := CurrentStep g\<rparr>)"

subsection \<open>Calling the experts\<close>

definition toExpertExecutionBudget :: "plan_budget \<Rightarrow> execution_budget" where
  "toExpertExecutionBudget b =
     \<lparr>xb_LLMCalls = b_LLMCalls b, xb_ToolCalls = b_ToolCalls b, xb_RAGCalls = b_RAGCalls b,
      xb_Timeout = b_TimeoutMs b * 1000000, xb_MaxRetrievalSteps = b_MaxRetrievalSteps b,
      xb_MaxOutputTokens = b_MaxOutputTokens b\<rparr>"

definition expertTask :: "plan_item \<Rightarrow> frontier \<Rightarrow> 'h belief_graph \<Rightarrow> 'h expert_task" where
  "expertTask item f g =
     \<lparr>xt_Frontier = f, xt_Graph = buildExpertGraphView g f, xt_ExpectedEvidence = pi_ExpectedEvidence item,
      xt_AllowedTools = pi_AllowedTools item, xt_StopConditions = pi_StopConditions item,
      xt_Budget = toExpertExecutionBudget (pi_Budget item)\<rparr>"

definition failedAnalysis :: "string \<Rightarrow> string \<Rightarrow> tool_error list \<Rightarrow> expert_analysis" where
  "failedAnalysis name reason errors =
     \<lparr>xa_ExpertName = name, xa_Analysis = [], xa_Evidence = [], xa_Refinements = [],
      xa_CurrentHypothesisActionable = None, xa_Confidence = 0, xa_Status = ''failed'',
      xa_DegradationReason = reason, xa_ToolErrors = errors, xa_ToolCalls = 0, xa_RAGCalls = 0, xa_LLMCalls = 0\<rparr>"

definition runExpertSafely ::
    "nat \<Rightarrow> nat \<Rightarrow> 'h expert_agent \<Rightarrow> plan_item \<Rightarrow> frontier \<Rightarrow> 'h belief_graph \<Rightarrow> expert_analysis option" where
  "runExpertSafely r i agent item f g =
     (case (case agent of PlannedAgent run \<Rightarrow> run r i (expertTask item f g) | PlainAgent run \<Rightarrow> run r i f g) of
        ExpertPanic v \<Rightarrow>
          Some (failedAnalysis (pi_ExpertName item) ''expert_panic_recovered''
            [\<lparr>te_ToolName = ''expert'', te_Action = ''panic_recovery'', te_Error = ''expert panic recovered: '' @ v\<rparr>])
      | ExpertReturn analysis \<Rightarrow> analysis)"

text \<open>The goroutine of one item: its analysis, and whether its calls are counted. \<open>cancelled\<close> is whether
  the context has been cancelled when the expert has returned.\<close>

definition actItem ::
    "'h gos_engine \<Rightarrow> (nat \<Rightarrow> nat \<Rightarrow> bool) \<Rightarrow> nat \<Rightarrow> frontier \<Rightarrow> 'h belief_graph \<Rightarrow> nat \<times> plan_item
     \<Rightarrow> expert_analysis \<times> bool" where
  "actItem e cancelled r f g ip =
     (case gm_get (e_experts e) (pi_ExpertName (snd ip)) of
        None \<Rightarrow> (failedAnalysis (pi_ExpertName (snd ip)) ''expert_not_found'' [], False)
      | Some agent \<Rightarrow>
          (let a = (case runExpertSafely r (fst ip) agent (snd ip) f g of
                      None \<Rightarrow> failedAnalysis (pi_ExpertName (snd ip)) ''expert_nil_result'' []
                    | Some a \<Rightarrow> a)
           in (if cancelled r (fst ip) \<and> xa_Status a \<noteq> ''failed''
               then a\<lparr>xa_Status := ''degraded'', xa_DegradationReason := ''context_cancelled''\<rparr> else a, True)))"

definition countCalls :: "run_stats \<Rightarrow> expert_analysis \<times> bool \<Rightarrow> run_stats" where
  "countCalls s ac =
     (if snd ac
      then s\<lparr>rs_LLMCalls := rs_LLMCalls s + xa_LLMCalls (fst ac), rs_ToolCalls := rs_ToolCalls s + xa_ToolCalls (fst ac),
             rs_RAGCalls := rs_RAGCalls s + xa_RAGCalls (fst ac)\<rparr>
      else s)"

definition hasUsablePartialEvidence :: "expert_analysis option list \<Rightarrow> bool" where
  "hasUsablePartialEvidence analyses \<longleftrightarrow>
     list_ex (\<lambda>oa. case oa of None \<Rightarrow> False
        | Some a \<Rightarrow> list_ex (\<lambda>ev. trim_space (ev_SourceType ev) \<noteq> [] \<and> trim_space (ev_SourceID ev) \<noteq> []) (xa_Evidence a)) analyses"

definition act ::
    "'h gos_engine \<Rightarrow> (nat \<Rightarrow> nat \<Rightarrow> bool) \<Rightarrow> nat \<Rightarrow> plan_item list \<Rightarrow> frontier \<Rightarrow> 'h belief_graph \<Rightarrow> run_stats
     \<Rightarrow> act_result \<times> goerr option \<times> run_stats" where
  "act e cancelled r plan f g stats =
     (let done = map (actItem e cancelled r f g) (enumerate 0 plan);
          analyses = map fst done;
          degradedCount = count_if (\<lambda>a. xa_Status a = ''degraded'') analyses;
          failedCount = count_if (\<lambda>a. xa_Status a = ''failed'') analyses;
          result = \<lparr>ar_Analyses = map Some analyses, ar_DegradedCount = degradedCount, ar_FailedCount = failedCount\<rparr>;
          useless = (failedCount = int (length plan) \<or>
            failedCount + degradedCount = int (length plan) \<and> \<not> hasUsablePartialEvidence (map Some analyses))
      in (result,
          if useless then Some (Errorf ''all experts failed or degraded (%d failed, %d degraded)''
                             [AInt failedCount, AInt degradedCount]) else None,
          foldl countCalls stats done))"

subsection \<open>Failures\<close>

definition categorizeToolError :: "'h gort \<Rightarrow> (string, int) gomap \<Rightarrow> tool_error \<Rightarrow> (string, int) gomap" where
  "categorizeToolError rt m te =
     (if te_Action te = ''evidence_assessment'' then gm_add ''structured_protocol'' 1 m
      else if te_Action te = ''content'' \<or> te_Action te = ''decision''
      then (let t = rt_lower rt (te_Error te)
            in if contains ''timeout'' t \<or> contains ''eof'' t \<or> contains ''circuit breaker'' t \<or>
                  contains ''service temporarily unavailable'' t
               then gm_add ''model_service'' 1 m else m)
      else m)"

definition allToolErrors :: "act_result option \<Rightarrow> tool_error list" where
  "allToolErrors actRes =
     (case actRes of None \<Rightarrow> []
      | Some ar \<Rightarrow> concat (map (\<lambda>oa. case oa of None \<Rightarrow> [] | Some a \<Rightarrow> xa_ToolErrors a) (ar_Analyses ar)))"

definition categorizeAnalysisFailureCategories :: "'h gort \<Rightarrow> act_result option \<Rightarrow> (string, int) gomap" where
  "categorizeAnalysisFailureCategories rt actRes = foldl (categorizeToolError rt) [] (allToolErrors actRes)"

definition categorizeFailureCategories :: "string \<Rightarrow> run_stats \<Rightarrow> (string, int) gomap" where
  "categorizeFailureCategories reason stats =
     (if prefix ''no_progress_loop'' reason then gm_add ''graph_no_progress'' 1 (rs_FailureCategories stats)
      else rs_FailureCategories stats)"

definition isWeakDegradedText :: "string \<Rightarrow> bool" where
  "isWeakDegradedText text =
     (let t = trim_space text
      in t = [] \<or> t = t_weak_info \<or> t = t_weak_degraded \<or> length (runes t) < 8)"

text \<open>\<open>compactStrings\<close>; its map \<open>seen\<close> always holds exactly what has been collected.\<close>

fun compactFrom :: "string list \<Rightarrow> int \<Rightarrow> string list \<Rightarrow> string list" where
  "compactFrom out limit [] = out"
| "compactFrom out limit (item # items) =
     (let cleaned = join '' '' (str_fields (trim_space item))
      in if cleaned = [] \<or> cleaned \<in> set out then compactFrom out limit items
         else if int (length out) + 1 \<ge> limit then out @ [cleaned]
         else compactFrom (out @ [cleaned]) limit items)"

definition compactStrings :: "string list \<Rightarrow> int \<Rightarrow> string list" where
  "compactStrings items limit = compactFrom [] limit items"

definition toolGap :: "tool_error \<Rightarrow> string list" where
  "toolGap te =
     (let item = trim_space (te_ToolName te @ '' '' @ te_Action te @ '': '' @ te_Error te)
      in if item = [] then [] else [item])"

text \<open>The loop over the analyses: a text that is good enough ends it.\<close>

fun summaryOf :: "string list \<Rightarrow> expert_analysis option list \<Rightarrow> (string \<times> f64) + string list" where
  "summaryOf gaps [] = Inr gaps"
| "summaryOf gaps (None # rest) = summaryOf gaps rest"
| "summaryOf gaps (Some a # rest) =
     (let text = trim_space (xa_Analysis a)
      in if text \<noteq> [] \<and> \<not> isWeakDegradedText text then Inl (text, xa_Confidence a)
         else summaryOf (gaps @ concat (map toolGap (xa_ToolErrors a))) rest)"

text \<open>\<open>%v\<close> of an error, which may be nil; the text of an error value is the function it is given.\<close>

definition errString :: "(goerr \<Rightarrow> string) \<Rightarrow> goerr option \<Rightarrow> string" where
  "errString errText err = (case err of None \<Rightarrow> ''<nil>'' | Some e \<Rightarrow> errText e)"

definition degradedSummary ::
    "(goerr \<Rightarrow> string) \<Rightarrow> string \<Rightarrow> goerr option \<Rightarrow> act_result option \<Rightarrow> string \<times> f64" where
  "degradedSummary errText reason err actRes =
     (case summaryOf [] (case actRes of None \<Rightarrow> [] | Some ar \<Rightarrow> ar_Analyses ar) of
        Inl r \<Rightarrow> r
      | Inr gaps0 \<Rightarrow>
          (let gaps = (if gaps0 = [] then [reason @ '': '' @ errString errText err] else gaps0)
           in (t_degraded_head @
               concat (map (\<lambda>gap. ''- '' @ gap @ [CHR 0x0A]) (compactStrings gaps 4)) @
               t_degraded_next @ t_degraded_docs @ t_degraded_retry, 0)))"

end
