(* ===== verification/Gos_Ingestor.thy ===== *)
theory Gos_Ingestor
  imports Gos_Client Gos_Json
begin

text \<open>
  Ingest (\<open>gos_engine/ingestor.go\<close>): the first graph of a diagnosis, from the hypotheses a model
  proposes or from the three rules of the fallback. The logger is left out; the outside world is
  the record \<open>ingest_io\<close>, as for the planner. Following the nil pointer of a proposal without
  \<open>actionable\<close> is \<open>None\<close>, and is shown not to happen.
\<close>

record observation_proposal =
  op_Label :: string
  op_SourceType :: string
  op_SourceID :: string

record hypothesis_proposal =
  hp_Label :: string
  hp_Score :: f64
  hp_Why :: string
  hp_Actionable :: "bool option"

record ingest_proposal =
  ip_Signal :: string
  ip_Observations :: "observation_proposal list"
  ip_Hypotheses :: "hypothesis_proposal list"

record ingest_outcome =
  io_Mode :: string
  io_FallbackReason :: string
  io_LLMCalls :: int
  io_ObservationCount :: int
  io_HypothesisCount :: int

record ingest_io =
  ii_ctxErr :: "goerr option"
  ii_ctxErrAfter :: "goerr option"
  ii_template :: string
  ii_generate :: "(string \<Rightarrow> goerr + string) option"
  ii_decode :: "string \<Rightarrow> goerr + ingest_proposal \<times> bool"

definition fallbackHypothesis :: "string \<Rightarrow> rat \<Rightarrow> string \<Rightarrow> hypothesis_proposal" where
  "fallbackHypothesis label score why =
     \<lparr>hp_Label = label, hp_Score = rnd score, hp_Why = why, hp_Actionable = Some False\<rparr>"

definition fallbackIngestProposal :: "string \<Rightarrow> ingest_proposal" where
  "fallbackIngestProposal symptom =
     \<lparr>ip_Signal = symptom, ip_Observations = [],
      ip_Hypotheses =
        [fallbackHypothesis t_resource_exhausted (6/10) t_high_load_why,
         fallbackHypothesis t_network_problem (3/10) t_network_why,
         fallbackHypothesis t_config_error (1/10) t_config_why]\<rparr>"

subsection \<open>The contract of a proposal\<close>

fun checkObservations :: "'h gort \<Rightarrow> string list \<Rightarrow> observation_proposal list \<Rightarrow> goerr option" where
  "checkObservations rt seen [] = None"
| "checkObservations rt seen (ob # obs) =
     (let label = trim_space (op_Label ob); key = rt_lower rt label
      in if label = [] \<or> trim_space (op_SourceType ob) = [] \<or> trim_space (op_SourceID ob) = []
         then Some (Errorf ''observation label and source provenance are required'' [])
         else if op_SourceType ob \<notin> {''user_input'', ''alert'', ''change'', ''telemetry''}
         then Some (Errorf ''unsupported observation source_type %q'' [AStr (op_SourceType ob)])
         else if key \<in> set seen then Some (Errorf ''duplicate observation %q'' [AStr label])
         else checkObservations rt (key # seen) obs)"

fun checkHypotheses :: "'h gort \<Rightarrow> string list \<Rightarrow> hypothesis_proposal list \<Rightarrow> goerr option" where
  "checkHypotheses rt seen [] = None"
| "checkHypotheses rt seen (h # hs) =
     (let label = trim_space (hp_Label h); key = rt_lower rt label
      in if label = [] \<or> trim_space (hp_Why h) = [] \<or> hp_Actionable h = None
         then Some (Errorf ''hypothesis label, why and actionable are required'' [])
         else if hp_Score h \<le> 0 \<or> hp_Score h > 1
         then Some (Errorf ''hypothesis score must be within (0,1]'' [])
         else if key \<in> set seen then Some (Errorf ''duplicate hypothesis %q'' [AStr label])
         else checkHypotheses rt (key # seen) hs)"

definition validateIngestProposal ::
    "'h gort \<Rightarrow> ingest_proposal \<Rightarrow> structured_cognition_config \<Rightarrow> goerr option" where
  "validateIngestProposal rt proposal cfg =
     (if trim_space (ip_Signal proposal) = [] then Some (Errorf ''signal is required'' [])
      else if sg_MaxObservations cfg \<le> 0 \<or> sg_MaxHypotheses cfg \<le> 0
      then Some (Errorf ''structured cognition ingest limits must be positive'' [])
      else if int (length (ip_Observations proposal)) > sg_MaxObservations cfg
      then Some (Errorf ''observations exceed configured limit'' [])
      else if ip_Hypotheses proposal = [] \<or> int (length (ip_Hypotheses proposal)) > sg_MaxHypotheses cfg
      then Some (Errorf ''hypotheses must contain 1..%d items'' [AInt (sg_MaxHypotheses cfg)])
      else case checkObservations rt [] (ip_Observations proposal) of
        Some err \<Rightarrow> Some err
      | None \<Rightarrow> checkHypotheses rt [] (ip_Hypotheses proposal))"

subsection \<open>Applying a proposal\<close>

text \<open>The graph and the observation IDs collected so far.\<close>

definition addObservation ::
    "'h gort \<Rightarrow> gotime \<Rightarrow> string \<Rightarrow> 'h belief_graph \<times> string list \<Rightarrow> observation_proposal
     \<Rightarrow> 'h belief_graph \<times> string list" where
  "addObservation rt now signalID st ob =
     (let (observationID, g1) =
            addNodeInternal rt now NodeSignal (trim_space (op_Label ob)) 1 0
              (Some [(''semantic_type'', VStr ''observation''), (''source_type'', VStr (trim_space (op_SourceType ob))),
                     (''source_id'', VStr (trim_space (op_SourceID ob)))]) None (fst st);
          g2 = addEdgeInternal rt now signalID observationID EdgeCausal 1 ''structured_ingest_v1'' g1
      in (g2, snd st @ [observationID]))"

definition addHypothesis ::
    "'h gort \<Rightarrow> gotime \<Rightarrow> string list \<Rightarrow> 'h belief_graph \<Rightarrow> hypothesis_proposal \<Rightarrow> bool \<Rightarrow> 'h belief_graph" where
  "addHypothesis rt now parents g h actionable =
     (let (hypothesisID, g1) =
            addNodeInternal rt now NodeHypothesis (trim_space (hp_Label h)) (hp_Score h) 1
              (Some [(''why'', VStr (trim_space (hp_Why h))), (''actionable'', VBool actionable)]) None g
      in foldl (\<lambda>g parentID. addEdgeInternal rt now parentID hypothesisID EdgeRefines (hp_Score h) ''structured_ingest_v1'' g)
           g1 parents)"

fun addHypotheses ::
    "'h gort \<Rightarrow> gotime \<Rightarrow> string list \<Rightarrow> hypothesis_proposal list \<Rightarrow> 'h belief_graph \<Rightarrow> 'h belief_graph option" where
  "addHypotheses rt now parents [] g = Some g"
| "addHypotheses rt now parents (h # hs) g =
     (case hp_Actionable h of
        None \<Rightarrow> None
      | Some actionable \<Rightarrow> addHypotheses rt now parents hs (addHypothesis rt now parents g h actionable))"

definition signalAttrs :: "ingest_outcome \<Rightarrow> attrs" where
  "signalAttrs outcome =
     [(''semantic_type'', VStr ''signal''), (''ingest_mode'', VStr (io_Mode outcome))] @
     (if io_FallbackReason outcome \<noteq> [] then [(''fallback_reason'', VStr (io_FallbackReason outcome))] else [])"

text \<open>What is added to the empty graph, before the validation.\<close>

definition addSignalNode :: "'h gort \<Rightarrow> gotime \<Rightarrow> ingest_proposal \<Rightarrow> ingest_outcome \<Rightarrow> 'h belief_graph \<Rightarrow> 'h belief_graph \<times> string" where
  "addSignalNode rt now proposal outcome g =
     (let (signalID, g1) =
            addNodeInternal rt now NodeSignal (trim_space (ip_Signal proposal)) 1 0 (Some (signalAttrs outcome)) None g
      in (g1\<lparr>StartSignalID := signalID\<rparr>, signalID))"

definition buildIngest ::
    "'h gort \<Rightarrow> gotime \<Rightarrow> ingest_proposal \<Rightarrow> ingest_outcome \<Rightarrow> 'h belief_graph \<Rightarrow> 'h belief_graph option" where
  "buildIngest rt now proposal outcome g =
     (let (g1, signalID) = addSignalNode rt now proposal outcome g;
          (g2, observationIDs) = foldl (addObservation rt now signalID) (g1, []) (ip_Observations proposal);
          parents = (if observationIDs = [] then [signalID] else observationIDs)
      in addHypotheses rt now parents (ip_Hypotheses proposal) g2)"

definition applyIngestProposal ::
    "'h gort \<Rightarrow> gotime \<Rightarrow> ingest_proposal \<Rightarrow> ingest_outcome \<Rightarrow> 'h belief_graph
     \<Rightarrow> (goerr option \<times> 'h belief_graph) option" where
  "applyIngestProposal rt now proposal outcome g =
     (if Nodes g \<noteq> [] \<or> Edges g \<noteq> [] \<or> StartSignalID g \<noteq> []
      then Some (Some (Errorf ''ingest requires an empty graph'' []), g)
      else map_option (\<lambda>g3. (validateBeliefGraph g3, g3)) (buildIngest rt now proposal outcome g))"

subsection \<open>Ingest\<close>

definition ruleOutcome :: "string \<Rightarrow> string \<Rightarrow> int \<Rightarrow> ingest_outcome" where
  "ruleOutcome mode reason calls =
     \<lparr>io_Mode = mode, io_FallbackReason = reason, io_LLMCalls = calls, io_ObservationCount = 0, io_HypothesisCount = 0\<rparr>"

text \<open>Choosing the proposal: \<open>Inl\<close> is the return with an error after the model call.\<close>

definition chooseProposal ::
    "'h gort \<Rightarrow> ingest_io \<Rightarrow> gos_config \<Rightarrow> string \<Rightarrow> (ingest_outcome \<times> goerr) + (ingest_proposal \<times> ingest_outcome)" where
  "chooseProposal rt io cfg symptom =
     (let fallback = fallbackIngestProposal symptom; cog = c_StructuredCognition cfg
      in if \<not> sg_Enabled cog then Inr (fallback, ruleOutcome ''rules'' [] 0)
         else case ii_generate io of
           None \<Rightarrow> Inr (fallback, ruleOutcome ''rule_fallback'' ''structured_generator_unavailable'' 0)
         | Some generate \<Rightarrow>
             (case ii_ctxErrAfter io of
                Some err \<Rightarrow> Inl (ruleOutcome ''rule_fallback'' [] 1, err)
              | None \<Rightarrow>
                  (case generate (renderStructuredPrompt (ii_template io) (''symptom'', symptom)) of
                     Inl err \<Rightarrow> Inr (fallback, ruleOutcome ''rule_fallback'' ''structured_generation_failed'' 1)
                   | Inr raw \<Rightarrow>
                       (case decodeStrictJSONObject (ii_decode io) raw of
                          Inl err \<Rightarrow> Inr (fallback, ruleOutcome ''rule_fallback'' ''structured_schema_invalid'' 1)
                        | Inr structured \<Rightarrow>
                            if validateIngestProposal rt structured cog \<noteq> None
                            then Inr (fallback, ruleOutcome ''rule_fallback'' ''structured_contract_invalid'' 1)
                            else Inr (structured, ruleOutcome ''structured'' [] 1)))))"

definition IngestWithOutcome ::
    "'h gort \<Rightarrow> gotime \<Rightarrow> ingest_io \<Rightarrow> gos_config \<Rightarrow> string \<Rightarrow> 'h belief_graph
     \<Rightarrow> (ingest_outcome \<times> goerr option \<times> 'h belief_graph) option" where
  "IngestWithOutcome rt now io cfg symptom g =
     (let none = ruleOutcome [] [] 0
      in case ii_ctxErr io of
           Some err \<Rightarrow> Some (none, Some err, g)
         | None \<Rightarrow>
             if trim_space symptom = [] then Some (none, Some (Errorf ''symptom is required'' []), g)
             else case chooseProposal rt io cfg symptom of
               Inl (outcome, err) \<Rightarrow> Some (outcome, Some err, g)
             | Inr (proposal, outcome) \<Rightarrow>
                 map_option (\<lambda>r.
                     let (result, g') = UpdateCopyOnWrite rt now (\<lambda>_. r) g
                     in if \<not> Committed result
                        then (outcome, Some (Errorf ''apply ingest proposal: %w''
                                (case upd_Error result of None \<Rightarrow> [] | Some err \<Rightarrow> [AWrap err])), g')
                        else (outcome\<lparr>io_ObservationCount := int (length (ip_Observations proposal)),
                                      io_HypothesisCount := int (length (ip_Hypotheses proposal))\<rparr>, None, g'))
                   (applyIngestProposal rt now proposal outcome (deepCopy g)))"

definition Ingest ::
    "'h gort \<Rightarrow> gotime \<Rightarrow> ingest_io \<Rightarrow> gos_config \<Rightarrow> string \<Rightarrow> 'h belief_graph
     \<Rightarrow> (goerr option \<times> 'h belief_graph) option" where
  "Ingest rt now io cfg symptom g = map_option snd (IngestWithOutcome rt now io cfg symptom g)"

subsection \<open>Ingest is a client of the graph\<close>

lemma addObservation_steps: "copy_steps rt (fst st) (fst (addObservation rt now sid st ob))"
  unfolding addObservation_def Let_def case_prod_unfold fst_conv
  by (rule copy_steps_op [OF copy_steps_op [OF copy_steps_refl addNode_mutation] addEdge_mutation])

lemma addObservations_steps: "copy_steps rt (fst st) (fst (foldl (addObservation rt now sid) st obs))"
proof (induction obs arbitrary: st)
  case Nil
  then show ?case by simp
next
  case (Cons ob obs)
  show ?case using copy_steps_trans [OF addObservation_steps Cons.IH] by simp
qed

lemma addEdges_steps:
  "copy_steps rt g (foldl (\<lambda>g k. addEdgeInternal rt now k h t c d g) g parents)"
  by (induction parents arbitrary: g)
    (auto intro: copy_steps_trans copy_steps_op [OF copy_steps_refl addEdge_mutation])

lemma addHypothesis_steps: "copy_steps rt g (addHypothesis rt now parents g h a)"
  unfolding addHypothesis_def Let_def case_prod_unfold
  by (rule copy_steps_trans [OF copy_steps_op [OF copy_steps_refl addNode_mutation] addEdges_steps])

lemma addHypotheses_steps: "addHypotheses rt now parents hs g = Some g' \<Longrightarrow> copy_steps rt g g'"
proof (induction hs arbitrary: g)
  case Nil
  then show ?case by simp
next
  case (Cons h hs)
  then show ?case by (auto intro: copy_steps_trans addHypothesis_steps split: option.splits)
qed

lemma addHypotheses_total:
  "(\<forall>h \<in> set hs. hp_Actionable h \<noteq> None) \<Longrightarrow> addHypotheses rt now parents hs g \<noteq> None"
  by (induction hs arbitrary: g) auto

definition ingestCallback ::
    "'h gort \<Rightarrow> gotime \<Rightarrow> ingest_proposal \<Rightarrow> ingest_outcome \<Rightarrow> 'h belief_graph \<Rightarrow> goerr option \<times> 'h belief_graph" where
  "ingestCallback rt now proposal outcome cp =
     (case applyIngestProposal rt now proposal outcome cp of Some r \<Rightarrow> r | None \<Rightarrow> (Some (ExtError ''panic''), cp))"

lemma addSignalNode_steps: "copy_steps rt g (fst (addSignalNode rt now proposal outcome g))"
  unfolding addSignalNode_def Let_def case_prod_unfold fst_conv
  by (rule copy_steps_step [OF copy_steps_op [OF copy_steps_refl addNode_mutation] copy_step.start_signal])

lemma buildIngest_steps:
  assumes "buildIngest rt now proposal outcome g = Some g'"
  shows "copy_steps rt g g'"
proof -
  define s where "s = addSignalNode rt now proposal outcome g"
  define ob where "ob = foldl (addObservation rt now (snd s)) (fst s, []) (ip_Observations proposal)"
  have "copy_steps rt g (fst s)" unfolding s_def by (rule addSignalNode_steps)
  moreover have "copy_steps rt (fst s) (fst ob)"
    using addObservations_steps [of rt "(fst s, [])"] by (simp add: ob_def)
  moreover have "addHypotheses rt now (if snd ob = [] then [snd s] else snd ob) (ip_Hypotheses proposal) (fst ob) = Some g'"
    using assms by (simp only: buildIngest_def case_prod_unfold Let_def s_def ob_def)
  ultimately show ?thesis by (meson addHypotheses_steps copy_steps_trans)
qed

lemma applyIngest_cases:
  "applyIngestProposal rt now proposal outcome cp = Some (r, cp') \<Longrightarrow>
   copy_steps rt cp cp' \<and> (r = None \<longrightarrow> validateBeliefGraph cp' = None)"
  by (auto simp: applyIngestProposal_def dest: buildIngest_steps split: if_splits)

interpretation ingest: graph_client rt "ingestCallback rt now proposal outcome" for rt now proposal outcome
proof
  show "copy_steps rt cp (snd (ingestCallback rt now proposal outcome cp))" for cp :: "'a belief_graph"
    using applyIngest_cases [of rt now proposal outcome cp]
    by (cases "applyIngestProposal rt now proposal outcome cp") (auto simp: ingestCallback_def)
  show "validateBeliefGraph cp' = None" if "ingestCallback rt now proposal outcome cp = (None, cp')"
    for cp cp' :: "'a belief_graph"
    using that applyIngest_cases [of rt now proposal outcome cp None cp']
    by (auto simp: ingestCallback_def split: option.splits)
qed

end
