(* ===== verification/Gos_Engine.thy ===== *)
theory Gos_Engine
  imports Gos_Act Gos_Converter_Facts Gos_Ingestor
begin

text \<open>
  The engine (\<open>gos_engine/engine.go\<close>): one run of a diagnosis, from the symptom to the result.
  A round of the loop is the function \<open>runRound\<close>, made of its phases; \<open>runLoop\<close> repeats it, and
  its termination is proved here. The outside world is the record \<open>engine_io\<close>: what the model
  calls of ingest and of the planner answer in each round, when the context is cancelled, the
  clock and the text of an error value. The events the engine emits are left out, and so are the
  fields of a result that only name or date it. A panic is \<open>None\<close> in the operations that can have
  one, and the deferred \<open>recover\<close> turns it into a degraded result.
\<close>

record engine_io =
  ei_ingest :: ingest_io
  ei_plan :: "nat \<Rightarrow> plan_io"
  ei_cancelled :: "nat \<Rightarrow> nat \<Rightarrow> bool"
  ei_ctxErr :: "nat \<Rightarrow> goerr option"
  ei_now :: "nat \<Rightarrow> string \<Rightarrow> gotime"
  ei_elapsed :: "nat \<Rightarrow> string \<Rightarrow> int"
  ei_errText :: "goerr \<Rightarrow> string"

record 'h run_state =
  s_graph :: "'h belief_graph"
  s_fsm :: belief_fsm
  s_stats :: run_stats
  s_history :: planning_history
  s_noProgress :: int
  s_round :: nat

datatype result_status = ResultSucceeded | ResultDegraded

record 'h run_result =
  rr_Status :: result_status
  rr_Summary :: string
  rr_Confidence :: f64
  rr_DegradationReason :: string
  rr_Evidence :: "protocol_evidence list"
  rr_NextActions :: "string list"
  rr_Graph :: "'h belief_graph"
  rr_Fsm :: belief_fsm
  rr_GraphValid :: bool
  rr_Frontier :: "frontier option"
  rr_ErrorPhase :: string
  rr_FailureCategories :: "(string, int) gomap"
  rr_Report :: evidence_report
  rr_Stats :: run_stats

text \<open>How a round ends: with another round, with the report, or with \<open>degradedResult\<close>, whose
  arguments are the reason, the error, what the experts have returned and whether the graph has
  been updated with it.\<close>

datatype 'h round_end =
    Again "'h run_state"
  | Finish "'h run_state"
  | Degrade "'h run_state" string "goerr option" "act_result option" bool

definition panicked :: "'h run_state \<Rightarrow> 'h round_end" where
  "panicked s = Degrade s ''panic_recovered'' (Some (Errorf ''GoS recovered panic: %v'' [])) None False"

definition currentFrontier :: "'h gort \<Rightarrow> 'h run_state \<Rightarrow> frontier option" where
  "currentFrontier rt s = extractFrontierInternal rt (CurrentLevel (s_fsm s)) (s_graph s)"

definition shouldReport :: "gos_config \<Rightarrow> frontier \<Rightarrow> bool" where
  "shouldReport cfg f \<longleftrightarrow> f_Score f \<ge> fc_MinConfidence (c_FSM cfg) \<and> f_Supports f \<ge> fc_MinSupport (c_FSM cfg)"

definition latency :: "engine_io \<Rightarrow> nat \<Rightarrow> string \<Rightarrow> run_stats \<Rightarrow> run_stats" where
  "latency io r phase stats = addPhaseLatency phase (ei_elapsed io r phase) stats"

subsection \<open>Planning\<close>

definition planningContext :: "'h run_state \<Rightarrow> frontier \<Rightarrow> 'h planning_context" where
  "planningContext s f =
     \<lparr>pc_Frontier = Some f, pc_Graph = Some (s_graph s), pc_CalledGoalKeys = ph_CalledGoalKeys (s_history s),
      pc_FailedTools = ph_FailedTools (s_history s), pc_RemainingBudget = ph_RemainingBudget (s_history s),
      pc_StructuredGenerationDisabled = ph_StructuredGenerationDisabled (s_history s)\<rparr>"

definition enginePlanner :: "'h gos_engine \<Rightarrow> planner" where
  "enginePlanner e = \<lparr>p_experts = map fst (e_experts e), p_cfg = e_cfg e\<rparr>"

text \<open>\<open>GoSEngine.plan\<close>, with the history it writes to.\<close>

definition enginePlan ::
    "'h gort \<Rightarrow> engine_io \<Rightarrow> 'h gos_engine \<Rightarrow> 'h run_state \<Rightarrow> frontier
     \<Rightarrow> (plan_outcome \<times> goerr option) \<times> planning_history" where
  "enginePlan rt io e s f =
     (let oe = PlanWithContext rt (ei_plan io (s_round s)) (enginePlanner e) (planningContext s f)
      in (oe, if po_FallbackReason (fst oe) = ''structured_generation_failed''
              then (s_history s)\<lparr>ph_StructuredGenerationDisabled := True\<rparr> else s_history s))"

definition planTotal :: "plan_item list \<Rightarrow> plan_budget" where
  "planTotal items = foldl (\<lambda>b item. addPlanBudgets b (pi_Budget item)) zero_budget items"

text \<open>The plan of a round and its reservation: \<open>Inl\<close> is the early return.\<close>

definition planPhase ::
    "'h gort \<Rightarrow> engine_io \<Rightarrow> 'h gos_engine \<Rightarrow> 'h run_state \<Rightarrow> frontier
     \<Rightarrow> 'h round_end + (plan_item list \<times> 'h run_state)" where
  "planPhase rt io e s f =
     (let ((outcome, err), history) = enginePlan rt io e s f;
          stats = latency io (s_round s) ''plan'' (s_stats s);
          s1 = s\<lparr>s_history := history, s_stats := stats\<lparr>rs_LLMCalls := rs_LLMCalls stats + po_LLMCalls outcome\<rparr>\<rparr>
      in case err of
           Some er \<Rightarrow> Inl (Degrade s1 ''plan_failed'' (Some er) None False)
         | None \<Rightarrow>
             (let (remaining, short) = subtractPlanBudget (ph_RemainingBudget history) (planTotal (po_Items outcome))
              in case short of
                   Some er \<Rightarrow> Inl (Degrade s1 ''plan_budget_failed'' (Some er) None False)
                 | None \<Rightarrow>
                     Inr (po_Items outcome,
                       s1\<lparr>s_history := history\<lparr>ph_RemainingBudget := remaining,
                            ph_CalledGoalKeys := foldl (\<lambda>ks item. List.insert (planGoalKey rt item) ks)
                              (ph_CalledGoalKeys history) (po_Items outcome)\<rparr>,
                          s_stats := (s_stats s1)\<lparr>rs_RemainingBudget := remaining\<rparr>\<rparr>)))"

subsection \<open>Acting and updating\<close>

definition failedTools :: "string list \<Rightarrow> act_result \<Rightarrow> string list" where
  "failedTools known ar =
     foldl (\<lambda>ts te. if trim_space (te_ToolName te) \<noteq> [] then List.insert (te_ToolName te) ts else ts)
       known (allToolErrors (Some ar))"

text \<open>\<open>act\<close> never returns a nil result: its goroutines return no error.\<close>

definition actPhase ::
    "'h gort \<Rightarrow> engine_io \<Rightarrow> 'h gos_engine \<Rightarrow> 'h run_state \<Rightarrow> frontier \<Rightarrow> plan_item list
     \<Rightarrow> act_result \<times> goerr option \<times> 'h run_state" where
  "actPhase rt io e s f plan =
     (let (ar, err, stats0) = act e (ei_cancelled io) (s_round s) plan f (s_graph s) (s_stats s);
          stats = latency io (s_round s) ''act'' stats0
      in (ar, err, s\<lparr>s_stats := addFailureCategories (categorizeAnalysisFailureCategories rt (Some ar))
            (stats\<lparr>rs_ExpertDegraded := rs_ExpertDegraded stats + ar_DegradedCount ar,
                   rs_ExpertFailed := rs_ExpertFailed stats + ar_FailedCount ar\<rparr>)\<rparr>))"

definition updatePhase ::
    "'h gort \<Rightarrow> engine_io \<Rightarrow> 'h gos_engine \<Rightarrow> 'h run_state \<Rightarrow> frontier \<Rightarrow> act_result
     \<Rightarrow> 'h round_end + 'h run_state" where
  "updatePhase rt io e s f ar =
     (if ar_Analyses ar = [] then Inr s
      else
        (let s1 = s\<lparr>s_history := (s_history s)\<lparr>ph_FailedTools := failedTools (ph_FailedTools (s_history s)) ar\<rparr>\<rparr>
         in case updateGraph rt (ei_now io (s_round s) ''update'') (e_cfg e) (ei_ctxErr io (s_round s)) (ar_Analyses ar)
                   (Some f) (s_graph s) of
              None \<Rightarrow> Inl (panicked s1)
            | Some (result, g') \<Rightarrow>
                (let s2 = s1\<lparr>s_graph := g', s_stats := latency io (s_round s) ''update'' (s_stats s)\<rparr>
                 in if \<not> Committed result
                    then Inl (Degrade s2 (graphFailureReason ''update_failed'' (upd_Error result)) (upd_Error result) (Some ar) False)
                    else Inr s2)))"

subsection \<open>Progress\<close>

definition progressPhase ::
    "'h gort \<Rightarrow> 'h gos_engine \<Rightarrow> graph_progress \<Rightarrow> act_result \<Rightarrow> 'h run_state \<Rightarrow> 'h round_end + 'h run_state" where
  "progressPhase rt e before ar s =
     (let after = captureGraphProgress (s_graph s) (currentFrontier rt s);
          stats = observeGraph rt (s_graph s) (observeProgress before after (s_stats s));
          limit = ec_NoProgressRoundLimit (c_Execution (e_cfg e));
          rounds = s_noProgress s + 1
      in if progressedFrom after before
         then Inr (s\<lparr>s_noProgress := 0, s_stats := stats\<lparr>rs_NoProgressRounds := 0\<rparr>\<rparr>)
         else
           (let s1 = s\<lparr>s_noProgress := rounds, s_stats := stats\<lparr>rs_NoProgressRounds := rounds\<rparr>\<rparr>
            in if limit > 0 \<and> rounds \<ge> limit
               then Inl (Degrade s1 ''no_progress_loop''
                      (Some (Errorf ''no graph progress for %d consecutive rounds'' [AInt rounds])) (Some ar) True)
               else Inr s1))"

definition tickPhase :: "'h run_state \<Rightarrow> 'h run_state" where
  "tickPhase s =
     s\<lparr>s_graph := generateBeliefTextInternal (s_graph s), s_fsm := TickStep 1 (s_fsm s),
       s_stats := (s_stats s)\<lparr>rs_Steps := rs_Steps (s_stats s) + 1\<rparr>\<rparr>"

subsection \<open>Deciding\<close>

definition convertPhase :: "'h gort \<Rightarrow> engine_io \<Rightarrow> 'h gos_engine \<Rightarrow> 'h run_state \<Rightarrow> 'h round_end" where
  "convertPhase rt io e s =
     (let d = Decide rt (e_cfg e) (s_graph s) (s_fsm s)
                \<lparr>cb_UsedSteps = rs_Steps (s_stats s), cb_MaxSteps = c_SessionMaxSteps (e_cfg e)\<rparr>;
          (err, g', f') = Apply rt (ei_now io (s_round s) ''apply'') d (s_graph s) (s_fsm s);
          stats = latency io (s_round s) ''state_conversion'' (s_stats s);
          s1 = s\<lparr>s_graph := g', s_fsm := f', s_stats := stats\<rparr>
      in case err of
           Some er \<Rightarrow> Degrade s1 (graphFailureReason ''state_conversion_failed'' (Some er)) (Some er) None True
         | None \<Rightarrow>
             (case sd_Action d of
                DecisionReport \<Rightarrow> Finish s1
              | DecisionDegraded \<Rightarrow> Degrade s1 (sd_ReasonCode d) (Some (Errorf ''%s'' [AMsg (sd_Reason d)])) None True
              | DecisionContinue \<Rightarrow> Again s1
              | DecisionRefine \<Rightarrow> Again s1
              | DecisionBacktrack \<Rightarrow> Again (s1\<lparr>s_stats := stats\<lparr>rs_BacktrackCount := rs_BacktrackCount stats + 1\<rparr>\<rparr>)
              | OtherAction a \<Rightarrow> Degrade s1 ''unknown_state_decision'' (Some (Errorf ''unsupported action %q'' [AStr a])) None True))"

definition stepLimit :: "'h gos_engine \<Rightarrow> 'h run_state \<Rightarrow> 'h round_end" where
  "stepLimit e s =
     (if TotalSteps (s_fsm s) \<ge> c_SessionMaxSteps (e_cfg e)
      then Finish (s\<lparr>s_fsm := MarkDone (Txt ''max steps'') (s_fsm s)\<rparr>) else Again s)"

definition fsmPhase :: "'h gort \<Rightarrow> 'h gos_engine \<Rightarrow> 'h run_state \<Rightarrow> 'h round_end" where
  "fsmPhase rt e s =
     (case fsmDecide (s_graph s) (s_fsm s) of
        None \<Rightarrow> panicked s
      | Some d \<Rightarrow>
          if fd_Action d = ''report''
          then (if (case currentFrontier rt s of Some f \<Rightarrow> shouldReport (e_cfg e) f | None \<Rightarrow> False)
                then Finish (s\<lparr>s_fsm := MarkDone (Txt ''sufficient granularity'') (s_fsm s)\<rparr>)
                else stepLimit e (s\<lparr>s_fsm := DrillDown (Fmt ''drill to level %d'' [AInt (CurrentLevel (s_fsm s) + 1)]) (s_fsm s)\<rparr>))
          else if fd_Action d = ''done'' then Finish s
          else stepLimit e s)"

definition decidePhase :: "'h gort \<Rightarrow> engine_io \<Rightarrow> 'h gos_engine \<Rightarrow> 'h run_state \<Rightarrow> 'h round_end" where
  "decidePhase rt io e s =
     (if sc_Enabled (c_StateConversion (e_cfg e)) then convertPhase rt io e s else fsmPhase rt e s)"

subsection \<open>The loop\<close>

text \<open>From acting to the end of a round: the update, the error of \<open>act\<close>, progress, decision.\<close>

definition afterPlan ::
    "'h gort \<Rightarrow> engine_io \<Rightarrow> 'h gos_engine \<Rightarrow> graph_progress \<Rightarrow> frontier \<Rightarrow> plan_item list \<Rightarrow> 'h run_state
     \<Rightarrow> 'h round_end" where
  "afterPlan rt io e before f plan s =
     (let (ar, err, s1) = actPhase rt io e s f plan
      in case updatePhase rt io e s1 f ar of
           Inl r \<Rightarrow> r
         | Inr s2 \<Rightarrow>
             (case err of
                Some er \<Rightarrow> Degrade s2 ''act_failed'' (Some er) (Some ar) (ar_Analyses ar \<noteq> [])
              | None \<Rightarrow>
                  (case progressPhase rt e before ar s2 of
                     Inl r \<Rightarrow> r
                   | Inr s3 \<Rightarrow> decidePhase rt io e (tickPhase s3))))"

definition runRound :: "'h gort \<Rightarrow> engine_io \<Rightarrow> 'h gos_engine \<Rightarrow> 'h run_state \<Rightarrow> 'h round_end" where
  "runRound rt io e s =
     (if IsFinalState (s_fsm s) then Finish s
      else case currentFrontier rt s of
        None \<Rightarrow> Finish (s\<lparr>s_fsm := MarkDone (Txt ''no frontier'') (s_fsm s)\<rparr>)
      | Some f \<Rightarrow>
          (case planPhase rt io e s f of
             Inl r \<Rightarrow> r
           | Inr (plan, s1) \<Rightarrow> afterPlan rt io e (captureGraphProgress (s_graph s) (Some f)) f plan s1))"

definition next_round :: "'h run_state \<Rightarrow> 'h run_state" where
  "next_round s = s\<lparr>s_round := s_round s + 1\<rparr>"

text \<open>What the rounds count up to the limit of the session: the steps of the statistics under state
  conversion, those of the controller otherwise.\<close>

definition steps_of :: "'h gos_engine \<Rightarrow> 'h run_state \<Rightarrow> int" where
  "steps_of e s = (if sc_Enabled (c_StateConversion (e_cfg e)) then rs_Steps (s_stats s) else TotalSteps (s_fsm s))"

lemma planPhase_same:
  "planPhase rt io e s f = Inr (plan, s') \<Longrightarrow>
   s_graph s' = s_graph s \<and> s_fsm s' = s_fsm s \<and> s_noProgress s' = s_noProgress s \<and> s_round s' = s_round s \<and>
   rs_Steps (s_stats s') = rs_Steps (s_stats s)"
  by (auto simp: planPhase_def case_prod_unfold Let_def latency_def addPhaseLatency_def split: option.splits)

lemma countCalls_same:
  "rs_Steps (foldl countCalls s xs) = rs_Steps s \<and> rs_ExpertDegraded (foldl countCalls s xs) = rs_ExpertDegraded s \<and>
   rs_ExpertFailed (foldl countCalls s xs) = rs_ExpertFailed s \<and>
   rs_RemainingBudget (foldl countCalls s xs) = rs_RemainingBudget s"
  by (induction xs arbitrary: s) (auto simp: countCalls_def)

lemma actPhase_same:
  "actPhase rt io e s f plan = (ar, err, s') \<Longrightarrow>
   s_graph s' = s_graph s \<and> s_fsm s' = s_fsm s \<and> s_noProgress s' = s_noProgress s \<and> s_round s' = s_round s \<and>
   s_history s' = s_history s \<and> rs_Steps (s_stats s') = rs_Steps (s_stats s)"
  by (auto simp: actPhase_def act_def case_prod_unfold Let_def latency_def addPhaseLatency_def addFailureCategories_def
      countCalls_same)

lemma updatePhase_same:
  "updatePhase rt io e s f ar = Inr s' \<Longrightarrow>
   s_fsm s' = s_fsm s \<and> s_noProgress s' = s_noProgress s \<and> s_round s' = s_round s \<and>
   rs_Steps (s_stats s') = rs_Steps (s_stats s)"
  by (auto simp: updatePhase_def Let_def latency_def addPhaseLatency_def split: if_splits option.splits)

lemma progressPhase_same:
  "progressPhase rt e before ar s = Inr s' \<Longrightarrow>
   s_graph s' = s_graph s \<and> s_fsm s' = s_fsm s \<and> s_history s' = s_history s \<and> s_round s' = s_round s \<and>
   rs_Steps (s_stats s') = rs_Steps (s_stats s)"
  by (auto simp: progressPhase_def Let_def observeGraph_def observeProgress_def split: if_splits)

lemma tickPhase_same:
  "s_history (tickPhase s) = s_history s" "s_round (tickPhase s) = s_round s"
  "s_noProgress (tickPhase s) = s_noProgress s"
  "rs_Steps (s_stats (tickPhase s)) = rs_Steps (s_stats s) + 1" "TotalSteps (s_fsm (tickPhase s)) = TotalSteps (s_fsm s) + 1"
  by (simp_all add: tickPhase_def TickStep_def)

lemma Decide_budget:
  "sd_Action (Decide rt cfg g f b) \<in> {DecisionReport, DecisionDegraded} \<or> cb_UsedSteps b < cb_MaxSteps b"
proof (cases rule: Decide_cases [of rt cfg g f b])
  case (frontier fr)
  show ?thesis
    by (cases rule: decideFrontier_cases [of rt cfg g f b "GetActiveHypothesisCopies (CurrentLevel f) g" fr])
      (use frontier in simp_all)
qed simp_all

lemma convertPhase_again:
  assumes "convertPhase rt io e s = Again s'"
  shows "rs_Steps (s_stats s') = rs_Steps (s_stats s) \<and> rs_Steps (s_stats s) < c_SessionMaxSteps (e_cfg e)"
proof -
  have "rs_Steps (s_stats s') = rs_Steps (s_stats s) \<and>
      sd_Action (Decide rt (e_cfg e) (s_graph s) (s_fsm s)
        \<lparr>cb_UsedSteps = rs_Steps (s_stats s), cb_MaxSteps = c_SessionMaxSteps (e_cfg e)\<rparr>) \<notin> {DecisionReport, DecisionDegraded}"
    using assms by (auto simp: convertPhase_def case_prod_unfold Let_def latency_def addPhaseLatency_def
        split: option.splits decision_action.splits)
  with Decide_budget [of rt "e_cfg e" "s_graph s" "s_fsm s"
      "\<lparr>cb_UsedSteps = rs_Steps (s_stats s), cb_MaxSteps = c_SessionMaxSteps (e_cfg e)\<rparr>"]
  show ?thesis by simp
qed

lemma DrillDown_steps [simp]: "TotalSteps (DrillDown r f) = TotalSteps f"
  by (simp add: DrillDown_def transitionTo_def Let_def)

lemma fsmPhase_again:
  "fsmPhase rt e s = Again s' \<Longrightarrow>
   TotalSteps (s_fsm s') = TotalSteps (s_fsm s) \<and> TotalSteps (s_fsm s) < c_SessionMaxSteps (e_cfg e) \<and>
   s_stats s' = s_stats s"
  by (auto simp: fsmPhase_def stepLimit_def panicked_def split: option.splits if_splits)

lemma decidePhase_again:
  assumes "decidePhase rt io e s = Again s'"
  shows "steps_of e s' = steps_of e s \<and> steps_of e s < c_SessionMaxSteps (e_cfg e)"
proof (cases "sc_Enabled (c_StateConversion (e_cfg e))")
  case True
  then have "convertPhase rt io e s = Again s'" using assms by (simp add: decidePhase_def)
  from convertPhase_again [OF this] True show ?thesis by (simp add: steps_of_def)
next
  case False
  then have "fsmPhase rt e s = Again s'" using assms by (simp add: decidePhase_def)
  from fsmPhase_again [OF this] False show ?thesis by (simp add: steps_of_def)
qed

text \<open>The path of a round that goes on, phase by phase.\<close>

lemma runRound_again:
  assumes "runRound rt io e s = Again s'"
  obtains f plan s1 ar s2 s3 s4 where
    "\<not> IsFinalState (s_fsm s)" "currentFrontier rt s = Some f" "planPhase rt io e s f = Inr (plan, s1)"
    "actPhase rt io e s1 f plan = (ar, None, s2)" "updatePhase rt io e s2 f ar = Inr s3"
    "progressPhase rt e (captureGraphProgress (s_graph s) (Some f)) ar s3 = Inr s4"
    "decidePhase rt io e (tickPhase s4) = Again s'"
proof -
  obtain f where f: "\<not> IsFinalState (s_fsm s)" "currentFrontier rt s = Some f"
    using assms by (auto simp: runRound_def split: if_splits option.splits)
  have no_plan: "planPhase rt io e s f \<noteq> Inl (Again x)" for x
    by (auto simp: planPhase_def case_prod_unfold Let_def split: option.splits)
  obtain plan s1 where p: "planPhase rt io e s f = Inr (plan, s1)"
      "afterPlan rt io e (captureGraphProgress (s_graph s) (Some f)) f plan s1 = Again s'"
    using assms f no_plan by (auto simp: runRound_def split: sum.splits)
  obtain ar err s2 where a: "actPhase rt io e s1 f plan = (ar, err, s2)" by (cases "actPhase rt io e s1 f plan")
  have no_update: "updatePhase rt io e s2 f ar \<noteq> Inl (Again x)" for x
    by (auto simp: updatePhase_def panicked_def Let_def split: option.splits if_splits)
  obtain s3 where u: "updatePhase rt io e s2 f ar = Inr s3"
    using p(2) a no_update by (auto simp: afterPlan_def split: sum.splits)
  have no_progress: "progressPhase rt e b ar s3 \<noteq> Inl (Again x)" for b x
    by (auto simp: progressPhase_def Let_def split: if_splits)
  obtain s4 where "err = None" "progressPhase rt e (captureGraphProgress (s_graph s) (Some f)) ar s3 = Inr s4"
      "decidePhase rt io e (tickPhase s4) = Again s'"
    using p(2) a u no_progress by (auto simp: afterPlan_def split: sum.splits option.splits)
  with that f p(1) a u show thesis by blast
qed

lemma runRound_steps:
  assumes "runRound rt io e s = Again s'"
  shows "steps_of e s' = steps_of e s + 1 \<and> steps_of e s' < c_SessionMaxSteps (e_cfg e)"
proof -
  obtain f plan s1 ar s2 s3 s4 where r: "planPhase rt io e s f = Inr (plan, s1)"
    "actPhase rt io e s1 f plan = (ar, None, s2)" "updatePhase rt io e s2 f ar = Inr s3"
    "progressPhase rt e (captureGraphProgress (s_graph s) (Some f)) ar s3 = Inr s4"
    "decidePhase rt io e (tickPhase s4) = Again s'"
    by (rule runRound_again [OF assms])
  have "steps_of e (tickPhase s4) = steps_of e s + 1"
    using planPhase_same [OF r(1)] actPhase_same [OF r(2)] updatePhase_same [OF r(3)] progressPhase_same [OF r(4)]
    by (simp add: steps_of_def tickPhase_same)
  with decidePhase_again [OF r(5)] show ?thesis by simp
qed

lemma steps_next [simp]: "steps_of e (next_round s) = steps_of e s"
  by (simp add: steps_of_def next_round_def)

function runLoop :: "'h gort \<Rightarrow> engine_io \<Rightarrow> 'h gos_engine \<Rightarrow> 'h run_state \<Rightarrow> 'h round_end" where
  "runLoop rt io e s =
     (case runRound rt io e s of
        Again s' \<Rightarrow> runLoop rt io e (next_round s')
      | Finish s' \<Rightarrow> Finish s'
      | Degrade s' reason err actRes updated \<Rightarrow> Degrade s' reason err actRes updated)"
  by pat_completeness auto
termination
  by (relation "measure (\<lambda>(rt, io, e, s). nat (c_SessionMaxSteps (e_cfg e) - steps_of e s))")
    (auto dest: runRound_steps)

declare runLoop.simps [simp del]

subsection \<open>Results\<close>

text \<open>\<open>degradedResult\<close>: with analyses that are not in the graph yet, one more update is tried; a panic of
  that update leaves the graph alone here, where the process would end.\<close>

definition retryUpdate ::
    "'h gort \<Rightarrow> engine_io \<Rightarrow> 'h gos_engine \<Rightarrow> 'h run_state \<Rightarrow> act_result option \<Rightarrow> bool \<Rightarrow> 'h belief_graph" where
  "retryUpdate rt io e s actRes alreadyUpdated =
     (case actRes of
        None \<Rightarrow> s_graph s
      | Some ar \<Rightarrow>
          if alreadyUpdated \<or> ar_Analyses ar = [] then s_graph s
          else case currentFrontier rt s of
            None \<Rightarrow> s_graph s
          | Some f \<Rightarrow>
              (case updateGraph rt (ei_now io (s_round s) ''retry'') (e_cfg e) None (ar_Analyses ar) (Some f) (s_graph s) of
                 None \<Rightarrow> s_graph s
               | Some (result, g') \<Rightarrow> g'))"

definition degradedResult ::
    "'h gort \<Rightarrow> engine_io \<Rightarrow> 'h gos_engine \<Rightarrow> 'h run_state \<Rightarrow> string \<Rightarrow> goerr option \<Rightarrow> act_result option \<Rightarrow> bool
     \<Rightarrow> 'h run_result" where
  "degradedResult rt io e s reason err actRes alreadyUpdated =
     (let g = retryUpdate rt io e s actRes alreadyUpdated;
          detail = fst (degradedSummary (ei_errText io) reason err actRes);
          frontier = selectReportFrontier rt g (Some (s_fsm s));
          report = buildEvidenceReport (e_cfg e) g frontier (s_stats s) [t_degraded_prefix @ detail]
      in \<lparr>rr_Status = ResultDegraded, rr_Summary = formatEvidenceReport report, rr_Confidence = er_Confidence report,
          rr_DegradationReason = reason @ '': '' @ errString (ei_errText io) err, rr_Evidence = protocolEvidence report,
          rr_NextActions = er_NextActions report, rr_Graph = g, rr_Fsm = s_fsm s,
          rr_GraphValid = (validateBeliefGraph g = None), rr_Frontier = None, rr_ErrorPhase = reason,
          rr_FailureCategories = categorizeFailureCategories reason (s_stats s), rr_Report = report,
          rr_Stats = observeGraph rt g (s_stats s)\<rparr>)"

definition generateReport :: "'h gort \<Rightarrow> engine_io \<Rightarrow> 'h gos_engine \<Rightarrow> 'h run_state \<Rightarrow> 'h run_result" where
  "generateReport rt io e s =
     (let s1 = s\<lparr>s_stats := latency io (s_round s) ''report'' (s_stats s)\<rparr>; g = s_graph s
      in case validateBeliefGraph g of
           Some err \<Rightarrow> degradedResult rt io e s1 ''graph_invalid'' (Some err) None True
         | None \<Rightarrow>
             (case selectReportFrontier rt g (Some (s_fsm s)) of
                None \<Rightarrow> degradedResult rt io e s1 ''no_frontier'' (Some (Errorf ''no frontier found'' [])) None False
              | Some f \<Rightarrow>
                  (let report = buildEvidenceReport (e_cfg e) g (Some f) (s_stats s) []
                   in \<lparr>rr_Status = (if er_Sufficient report then ResultSucceeded else ResultDegraded),
                       rr_Summary = formatEvidenceReport report, rr_Confidence = er_Confidence report,
                       rr_DegradationReason = (if er_Sufficient report then []
                         else ''evidence_report_insufficient: '' @ join '','' (er_ReasonCodes report)),
                       rr_Evidence = protocolEvidence report, rr_NextActions = er_NextActions report, rr_Graph = g,
                       rr_Fsm = s_fsm s, rr_GraphValid = True, rr_Frontier = Some f, rr_ErrorPhase = [],
                       rr_FailureCategories = [], rr_Report = report, rr_Stats = observeGraph rt g (s_stats s1)\<rparr>)))"

subsection \<open>A run\<close>

definition sessionBudget :: "gos_config \<Rightarrow> plan_budget" where
  "sessionBudget cfg =
     (let factor = c_SessionMaxSteps cfg * sg_MaxPlanItems (c_StructuredCognition cfg)
      in scalePlanBudget (sg_PlanBudget (c_StructuredCognition cfg)) (if factor \<le> 0 then 1 else factor))"

definition startState :: "'h gos_engine \<Rightarrow> 'h run_state" where
  "startState e =
     \<lparr>s_graph = NewBeliefGraphWithPolicy (ToGraphPolicy (e_cfg e)), s_fsm = NewBeliefFSM (ToFSMThresholds (e_cfg e)),
      s_stats = newRunStats\<lparr>rs_RemainingBudget := sessionBudget (e_cfg e)\<rparr>,
      s_history = NewPlanningHistory\<lparr>ph_RemainingBudget := sessionBudget (e_cfg e)\<rparr>,
      s_noProgress = 0, s_round = 0\<rparr>"

text \<open>The ingest of a run: \<open>Inl\<close> is the early return.\<close>

definition ingestPhase ::
    "'h gort \<Rightarrow> engine_io \<Rightarrow> 'h gos_engine \<Rightarrow> string \<Rightarrow> 'h run_state \<Rightarrow> 'h round_end + 'h run_state" where
  "ingestPhase rt io e symptom s =
     (case IngestWithOutcome rt (ei_now io 0 ''ingest'') (ei_ingest io) (e_cfg e) symptom (s_graph s) of
        None \<Rightarrow> Inl (panicked s)
      | Some (outcome, err, g') \<Rightarrow>
          (let stats = latency io 0 ''ingest'' (s_stats s);
               s1 = s\<lparr>s_graph := g', s_stats := stats\<lparr>rs_LLMCalls := rs_LLMCalls stats + io_LLMCalls outcome\<rparr>\<rparr>
           in case err of
                Some er \<Rightarrow> Inl (Degrade s1 (graphFailureReason ''ingest_failed'' (Some er)) (Some er) None False)
              | None \<Rightarrow> Inr (s1\<lparr>s_stats := observeGraph rt g' (s_stats s1)\<rparr>)))"

definition runToEnd :: "'h gort \<Rightarrow> engine_io \<Rightarrow> 'h gos_engine \<Rightarrow> string \<Rightarrow> 'h round_end" where
  "runToEnd rt io e symptom =
     (let start = startState e
      in case ValidateGraphConfig (Some (e_cfg e)) of
           Some err \<Rightarrow> Degrade (start\<lparr>s_stats := newRunStats\<rparr>) ''graph_config_invalid'' (Some err) None False
         | None \<Rightarrow>
             (case ingestPhase rt io e symptom start of
                Inl r \<Rightarrow> r
              | Inr s \<Rightarrow> runLoop rt io e s))"

definition Run :: "'h gort \<Rightarrow> engine_io \<Rightarrow> 'h gos_engine \<Rightarrow> string \<Rightarrow> 'h run_result" where
  "Run rt io e symptom =
     (case runToEnd rt io e symptom of
        Degrade s reason err actRes updated \<Rightarrow> degradedResult rt io e s reason err actRes updated
      | Finish s \<Rightarrow> generateReport rt io e s
      | Again s \<Rightarrow> generateReport rt io e s)"

end
