(* ===== verification/Gos_Report_Properties.thy ===== *)
theory Gos_Report_Properties
  imports Gos_Report Belief_Properties
begin

text \<open>
  What the report says: its scope is the chain of hypotheses above the frontier, its evidence
  does not depend on the order of a Go map, nothing that matters is cut, every conflict is
  named, and it is called sufficient exactly when no reason speaks against it.
\<close>

subsection \<open>The scope\<close>

lemma byID_get:
  "gm_get (foldl (\<lambda>m n. gm_put (n_ID n) n m) m ns) k =
     (case filter (\<lambda>n. n_ID n = k) ns of [] \<Rightarrow> gm_get m k | _ \<Rightarrow> Some (last (filter (\<lambda>n. n_ID n = k) ns)))"
proof (induction ns arbitrary: m)
  case Nil
  then show ?case by simp
next
  case (Cons n ns)
  show ?case
    by (cases "filter (\<lambda>n. n_ID n = k) ns") (auto simp: Cons.IH gm_get_put)
qed

lemma byID_Some: "gm_get (byID ns) k = Some n \<Longrightarrow> n \<in> set ns \<and> n_ID n = k"
proof -
  assume "gm_get (byID ns) k = Some n"
  then have "filter (\<lambda>n. n_ID n = k) ns \<noteq> []" "n = last (filter (\<lambda>n. n_ID n = k) ns)"
    by (auto simp: byID_def byID_get split: list.splits)
  then have "n \<in> set (filter (\<lambda>n. n_ID n = k) ns)" by (metis last_in_set)
  then show ?thesis by simp
qed

lemma byID_unique: "distinct (map n_ID ns) \<Longrightarrow> n \<in> set ns \<Longrightarrow> gm_get (byID ns) (n_ID n) = Some n"
proof -
  assume d: "distinct (map n_ID ns)" "n \<in> set ns"
  then have ne: "filter (\<lambda>m. n_ID m = n_ID n) ns \<noteq> []" by (auto simp: filter_empty_conv)
  then have "last (filter (\<lambda>m. n_ID m = n_ID n) ns) \<in> set (filter (\<lambda>m. n_ID m = n_ID n) ns)"
    by (rule last_in_set)
  then have "last (filter (\<lambda>m. n_ID m = n_ID n) ns) = n"
    using d by (auto simp: distinct_map inj_on_def)
  with ne show ?thesis by (auto simp: byID_def byID_get split: list.splits)
qed

text \<open>The edges the loop follows, upwards.\<close>

definition up_edge :: "(string, node) gomap \<Rightarrow> edge list \<Rightarrow> string \<Rightarrow> string \<Rightarrow> bool" where
  "up_edge m es child parent \<longleftrightarrow>
     (\<exists>e \<in> set es. \<exists>p. e_Type e = EdgeRefines \<and> e_Dst e = child \<and> gm_get m (e_Src e) = Some p \<and>
        active_hypothesis p \<and> n_ID p = parent)"

lemma pathStep_cases:
  assumes "e \<in> set es"
  obtains "pathStep m st e = st"
  | k k' where "k \<in> set (fst st)" "up_edge m es k k'" "k' \<notin> set (fst st)" "pathStep m st e = (fst st @ [k'], True)"
proof (cases "\<exists>p. e_Type e = EdgeRefines \<and> e_Dst e \<in> set (fst st) \<and> gm_get m (e_Src e) = Some p \<and>
    active_hypothesis p \<and> n_ID p \<notin> set (fst st)")
  case True
  then obtain p where p: "e_Type e = EdgeRefines" "e_Dst e \<in> set (fst st)" "gm_get m (e_Src e) = Some p"
      "active_hypothesis p" "n_ID p \<notin> set (fst st)" by blast
  then have "up_edge m es (e_Dst e) (n_ID p)" using assms unfolding up_edge_def by blast
  with p show thesis by (intro that(2)) (simp_all add: pathStep_def)
next
  case False
  then have "pathStep m st e = st" by (simp add: pathStep_def split: option.split)
  then show thesis by (rule that(1))
qed

lemma pathStep_sound:
  assumes "distinct (fst st)" "e \<in> set es" "\<forall>k \<in> set (fst st). (up_edge m es)\<^sup>*\<^sup>* r0 k"
  shows "distinct (fst (pathStep m st e)) \<and> set (fst st) \<subseteq> set (fst (pathStep m st e)) \<and>
   (\<forall>k \<in> set (fst (pathStep m st e)). (up_edge m es)\<^sup>*\<^sup>* r0 k)"
  using assms(2)
proof (cases rule: pathStep_cases [where m = m and st = st])
  case 1
  with assms show ?thesis by simp
next
  case (2 k k')
  have "(up_edge m es)\<^sup>*\<^sup>* r0 k'" using assms(3) 2(1,2) by (meson rtranclp.rtrancl_into_rtrancl)
  with 2 assms show ?thesis by auto
qed

lemma pathFold_sound:
  "distinct (fst st) \<Longrightarrow> set es' \<subseteq> set es \<Longrightarrow> \<forall>k \<in> set (fst st). (up_edge m es)\<^sup>*\<^sup>* r0 k \<Longrightarrow>
   distinct (fst (foldl (pathStep m) st es')) \<and> set (fst st) \<subseteq> set (fst (foldl (pathStep m) st es')) \<and>
   (\<forall>k \<in> set (fst (foldl (pathStep m) st es')). (up_edge m es)\<^sup>*\<^sup>* r0 k)"
proof (induction es' arbitrary: st)
  case Nil
  then show ?case by simp
next
  case (Cons e es')
  then have "e \<in> set es" by simp
  from pathStep_sound [OF Cons.prems(1) this Cons.prems(3)] Cons.IH [of "pathStep m st e"] Cons.prems(2)
  show ?case by auto
qed

lemma pathStep_same: "\<not> snd (pathStep m st e) \<Longrightarrow> pathStep m st e = st"
  by (auto simp: pathStep_def split: option.splits if_splits)

lemma pathStep_snd: "snd st \<Longrightarrow> snd (pathStep m st e)"
  by (auto simp: pathStep_def split: option.splits)

lemma pathFold_snd: "snd st \<Longrightarrow> snd (foldl (pathStep m) st es)"
  by (induction es arbitrary: st) (auto simp: pathStep_snd)

text \<open>A pass that changes nothing has found every parent.\<close>

lemma pathFold_closed:
  "\<not> snd (foldl (pathStep m) st es) \<Longrightarrow>
   foldl (pathStep m) st es = st \<and> (\<forall>k k'. k \<in> set (fst st) \<longrightarrow> up_edge m es k k' \<longrightarrow> k' \<in> set (fst st))"
proof (induction es arbitrary: st)
  case Nil
  then show ?case by (simp add: up_edge_def)
next
  case (Cons e es)
  have prem: "\<not> snd (foldl (pathStep m) (pathStep m st e) es)"
    using Cons.prems unfolding foldl_Cons .
  then have "\<not> snd (pathStep m st e)" using pathFold_snd by blast
  then have same: "pathStep m st e = st" by (rule pathStep_same)
  have "\<not> snd (foldl (pathStep m) st es)" using prem unfolding same .
  from Cons.IH [OF this] have IH: "foldl (pathStep m) st es = st"
      "\<forall>k k'. k \<in> set (fst st) \<longrightarrow> up_edge m es k k' \<longrightarrow> k' \<in> set (fst st)"
    by blast+
  have new: "n_ID p \<in> set (fst st)"
    if "e_Type e = EdgeRefines" "e_Dst e \<in> set (fst st)" "gm_get m (e_Src e) = Some p" "active_hypothesis p" for p
  proof (rule ccontr)
    assume "n_ID p \<notin> set (fst st)"
    with that have "pathStep m st e = (fst st @ [n_ID p], True)" by (simp add: pathStep_def)
    with same have "length (fst st) = length (fst st @ [n_ID p])" by (metis fst_conv)
    then show False by simp
  qed
  have "k' \<in> set (fst st)" if "k \<in> set (fst st)" "up_edge m (e # es) k k'" for k k'
  proof -
    from that(2) consider "up_edge m es k k'"
      | p where "e_Type e = EdgeRefines" "e_Dst e = k" "gm_get m (e_Src e) = Some p" "active_hypothesis p" "n_ID p = k'"
      by (auto simp: up_edge_def)
    then show ?thesis using IH(2) that(1) new by cases blast+
  qed
  with same IH(1) show ?case by (simp only: foldl_Cons) blast
qed

lemma pathClosure_spec:
  "distinct ids \<Longrightarrow> r0 \<in> set ids \<Longrightarrow> \<forall>k \<in> set ids. (up_edge m es)\<^sup>*\<^sup>* r0 k \<Longrightarrow>
   distinct (pathClosure m es ids) \<and> set (pathClosure m es ids) = {k. (up_edge m es)\<^sup>*\<^sup>* r0 k}"
proof (induction m es ids rule: pathClosure.induct)
  case (1 m es ids)
  let ?r = "pathPass m es ids"
  have sound: "distinct (fst ?r) \<and> set ids \<subseteq> set (fst ?r) \<and> (\<forall>k \<in> set (fst ?r). (up_edge m es)\<^sup>*\<^sup>* r0 k)"
    using pathFold_sound [of "(ids, False)" es es m r0] 1 by (simp add: pathPass_def)
  show ?case
  proof (cases "snd ?r")
    case True
    with sound 1(1) [OF refl True] 1(3) show ?thesis by (subst (1 2) pathClosure.simps) (auto simp: Let_def)
  next
    case False
    then have c: "fst ?r = ids" "\<forall>k k'. k \<in> set ids \<longrightarrow> up_edge m es k k' \<longrightarrow> k' \<in> set ids"
      using pathFold_closed [of m "(ids, False)" es] by (simp_all add: pathPass_def)
    have "k \<in> set ids" if "(up_edge m es)\<^sup>*\<^sup>* r0 k" for k
      using that by induction (use 1(3) c(2) in auto)
    with False c sound show ?thesis by (subst (1 2) pathClosure.simps) (auto simp: Let_def)
  qed
qed

definition refines_parent :: "'h belief_graph \<Rightarrow> string \<Rightarrow> string \<Rightarrow> bool" where
  "refines_parent g child parent \<longleftrightarrow>
     (\<exists>k e p. gm_get (Edges g) k = Some e \<and> e_Status e = StatusActive \<and> e_Type e = EdgeRefines \<and>
        e_Src e = parent \<and> e_Dst e = child \<and> gm_get (Nodes g) parent = Some p \<and> active_hypothesis p)"

lemma active_IDs: "graph_wf g \<Longrightarrow> distinct (map n_ID (getActiveNodeCopiesInternal g))"
proof -
  assume wf: "graph_wf g"
  have "map n_ID (map snd (Nodes g)) = map fst (Nodes g)"
    using graph_wf_ID [OF wf] gm_in_get [OF graph_wf_okD(1) [OF wf]] by auto
  then have "distinct (map n_ID (map snd (Nodes g)))"
    using graph_wf_okD(1) [OF wf] unfolding gm_ok_def by (rule ssubst)
  then show ?thesis by (simp add: getActiveNodeCopiesInternal_def distinct_map_filter)
qed

lemma active_byID:
  assumes "graph_wf g"
  shows "gm_get (byID (getActiveNodeCopiesInternal g)) k = Some n \<longleftrightarrow>
    gm_get (Nodes g) k = Some n \<and> n_Status n = StatusActive"
proof
  assume "gm_get (byID (getActiveNodeCopiesInternal g)) k = Some n"
  from byID_Some [OF this] obtain k' where "n_ID n = k" "(k', n) \<in> set (Nodes g)" "n_Status n = StatusActive"
    by (auto simp: getActiveNodeCopiesInternal_def)
  with graph_wf_ID [OF assms] gm_in_get [OF graph_wf_okD(1) [OF assms]]
  show "gm_get (Nodes g) k = Some n \<and> n_Status n = StatusActive" by metis
next
  assume n: "gm_get (Nodes g) k = Some n \<and> n_Status n = StatusActive"
  then have "n \<in> set (getActiveNodeCopiesInternal g)" "n_ID n = k"
    using graph_wf_ID [OF assms] by (force simp: getActiveNodeCopiesInternal_def dest: gm_get_in)+
  with byID_unique [OF active_IDs [OF assms]] show "gm_get (byID (getActiveNodeCopiesInternal g)) k = Some n" by metis
qed

lemma up_edge_refines:
  assumes "graph_wf g"
  shows "up_edge (byID (getActiveNodeCopiesInternal g)) (getActiveEdgeCopies g) = refines_parent g"
proof (intro ext)
  fix child parent
  have edges: "e \<in> set (getActiveEdgeCopies g) \<longleftrightarrow> (\<exists>k. gm_get (Edges g) k = Some e) \<and> e_Status e = StatusActive" for e
    using gm_in_get [OF graph_wf_okD(2) [OF assms]] by (force simp: getActiveEdgeCopies_def dest: gm_get_in)
  show "up_edge (byID (getActiveNodeCopiesInternal g)) (getActiveEdgeCopies g) child parent = refines_parent g child parent"
  proof
    assume "up_edge (byID (getActiveNodeCopiesInternal g)) (getActiveEdgeCopies g) child parent"
    then obtain e p where "e \<in> set (getActiveEdgeCopies g)" "e_Type e = EdgeRefines" "e_Dst e = child"
        "gm_get (byID (getActiveNodeCopiesInternal g)) (e_Src e) = Some p" "active_hypothesis p" "n_ID p = parent"
      unfolding up_edge_def by blast
    moreover from this have "gm_get (Nodes g) (e_Src e) = Some p" "e_Src e = parent"
      using active_byID [OF assms] graph_wf_ID [OF assms] by metis+
    ultimately show "refines_parent g child parent" unfolding refines_parent_def edges by metis
  next
    assume "refines_parent g child parent"
    then obtain k e p where "gm_get (Edges g) k = Some e" "e_Status e = StatusActive" "e_Type e = EdgeRefines"
        "e_Src e = parent" "e_Dst e = child" and p: "gm_get (Nodes g) parent = Some p" "active_hypothesis p"
      unfolding refines_parent_def by blast
    moreover have "gm_get (byID (getActiveNodeCopiesInternal g)) parent = Some p" "n_ID p = parent"
      using p active_byID [OF assms] graph_wf_ID [OF assms] by blast+
    ultimately show "up_edge (byID (getActiveNodeCopiesInternal g)) (getActiveEdgeCopies g) child parent"
      unfolding up_edge_def Bex_def edges by blast
  qed
qed

lemma scope_set:
  assumes "graph_wf g"
  shows "distinct (activeHypothesisPathIDs g (Some f)) \<and>
    set (activeHypothesisPathIDs g (Some f)) = {k. (refines_parent g)\<^sup>*\<^sup>* (f_NodeID f) k}"
proof -
  have "activeHypothesisPathIDs g (Some f) =
      pathClosure (byID (getActiveNodeCopiesInternal g)) (getActiveEdgeCopies g) [f_NodeID f]"
    by (simp only: activeHypothesisPathIDs_def option.case)
  moreover have "distinct [f_NodeID f]" "f_NodeID f \<in> set [f_NodeID f]" by simp_all
  moreover have "\<forall>k \<in> set [f_NodeID f]. (up_edge (byID (getActiveNodeCopiesInternal g)) (getActiveEdgeCopies g))\<^sup>*\<^sup>* (f_NodeID f) k"
    by simp
  ultimately show ?thesis using pathClosure_spec up_edge_refines [OF assms] by metis
qed

text \<open>the loop that collects the scope of a report ends, and what it collects is, once each, the
  frontier and every active hypothesis above it: those reached upwards along active refinement
  edges, in any number of steps and whatever the order in which the edges are visited.\<close>

theorem report_scope:
  assumes "graph_wf g"
  shows "distinct (activeHypothesisPathIDs g (Some f)) \<and>
    set (activeHypothesisPathIDs g (Some f)) = {k. (refines_parent g)\<^sup>*\<^sup>* (f_NodeID f) k}"
  by (rule scope_set [OF assms])

definition demo_report_frontier :: frontier where
  "demo_report_frontier = \<lparr>f_NodeID = ''node-2'', f_Label = ''a'', f_Why = ''w'', f_Score = 1/2, f_Level = 1,
     f_Supports = 1, f_Refutes = 0\<rparr>"

theorem report_scope_witness:
  "distinct (activeHypothesisPathIDs demo_graph (Some demo_report_frontier)) \<and>
    set (activeHypothesisPathIDs demo_graph (Some demo_report_frontier)) =
      {k. (refines_parent demo_graph)\<^sup>*\<^sup>* ''node-2'' k}"
  using report_scope [OF reachable_wf [OF demo_reachable], of demo_report_frontier] by (simp add: demo_report_frontier_def)

subsection \<open>The evidence\<close>

text \<open>The order of the report separates any two items of different nodes.\<close>

interpretation report: comparator reportLess re_NodeID
proof
  show "\<not> reportLess x x" for x by (simp add: reportLess_def)
  show "reportLess x z" if "reportLess x y" "reportLess y z" for x y z
    using that unfolding reportLess_def by (auto split: if_splits dest: order_less_trans)
  show "reportLess x y \<or> reportLess y x" if "re_NodeID x \<noteq> re_NodeID y" for x y
    using that unfolding reportLess_def by (cases "re_NodeID x < re_NodeID y") auto
qed

lemma evidenceFor_ID: "evidenceFor ids n = Some i \<Longrightarrow> re_NodeID i = n_ID n"
  by (auto simp: evidenceFor_def reportItem_def split: if_splits option.splits)

lemma map_filter_dk: "distinct (map n_ID ns) \<Longrightarrow> report.dk (List.map_filter (evidenceFor ids) ns)"
proof (induction ns)
  case Nil
  then show ?case by (simp add: report.dk_def)
next
  case (Cons n ns)
  have "re_NodeID i \<noteq> re_NodeID j" if "evidenceFor ids n = Some i" "j \<in> set (List.map_filter (evidenceFor ids) ns)" for i j
    using that Cons.prems evidenceFor_ID by (auto simp: map_filter_def)
  with Cons show ?case by (cases "evidenceFor ids n") (force simp: report.dk_def map_filter_simps)+
qed

lemma mset_map_filter: "mset (List.map_filter f xs) = image_mset the (filter_mset (\<lambda>x. x \<noteq> None) (image_mset f (mset xs)))"
  by (induction xs) (auto simp: map_filter_simps)

text \<open>the list of evidence does not depend on the order in which Go visits the nodes: any graph with
  the same nodes, listed in another order, gives the same evidence in the same order.\<close>

theorem report_evidence_order:
  assumes "graph_wf g" "mset (Nodes g') = mset (Nodes g)"
  shows "reportEvidenceForTargets g' ids = reportEvidenceForTargets g ids"
proof -
  have m: "mset (getActiveNodeCopiesInternal g') = mset (getActiveNodeCopiesInternal g)"
    by (simp only: getActiveNodeCopiesInternal_def mset_filter mset_map assms(2))
  have "sort_slice reportLess (List.map_filter (evidenceFor ids) (getActiveNodeCopiesInternal g)) =
      sort_slice reportLess (List.map_filter (evidenceFor ids) (getActiveNodeCopiesInternal g'))"
    by (rule report.sort_slice_perm [OF map_filter_dk [OF active_IDs [OF assms(1)]]]) (simp add: mset_map_filter m)
  then show ?thesis by (simp add: reportEvidenceForTargets_def)
qed

theorem report_evidence_order_witness:
  "reportEvidenceForTargets (demo_graph\<lparr>Nodes := rev (Nodes demo_graph)\<rparr>) [''node-2''] =
   reportEvidenceForTargets demo_graph [''node-2'']"
  by (rule report_evidence_order [OF reachable_wf [OF demo_reachable]]) simp

subsection \<open>What is shown\<close>

definition shown_ok :: "int \<Rightarrow> report_evidence list \<Rightarrow> report_evidence list \<Rightarrow> bool" where
  "shown_ok limit items sel \<longleftrightarrow>
     set sel \<subseteq> set items \<and> report.dk sel \<and> int (length sel) \<le> limit"

lemma selectMore_ok:
  "shown_ok limit items sel \<Longrightarrow> item \<in> set items \<Longrightarrow> shown_ok limit items (selectMore limit sel item)"
  by (auto simp: shown_ok_def selectMore_def report.dk_def)

lemma selectMore_grows: "set sel \<subseteq> set (foldl (selectMore limit) sel xs)"
proof (induction xs arbitrary: sel)
  case (Cons x xs)
  have "set sel \<subseteq> set (selectMore limit sel x)" by (auto simp: selectMore_def)
  with Cons show ?case by force
qed simp

lemma selectMore_fold:
  "shown_ok limit items sel \<Longrightarrow> set xs \<subseteq> set items \<Longrightarrow> shown_ok limit items (foldl (selectMore limit) sel xs)"
  by (induction xs arbitrary: sel) (auto intro: selectMore_ok)

lemma selectMore_full: "int (length sel) \<ge> limit \<Longrightarrow> foldl (selectMore limit) sel xs = sel"
  by (induction xs) (simp_all add: selectMore_def)

text \<open>While a place is free, an item is left out only if its node is shown already.\<close>

lemma selectMore_complete:
  "int (length (foldl (selectMore limit) sel xs)) < limit \<Longrightarrow>
   re_NodeID ` set xs \<subseteq> re_NodeID ` set (foldl (selectMore limit) sel xs)"
proof (induction xs arbitrary: sel)
  case (Cons x xs)
  show ?case
  proof (cases "int (length sel) \<ge> limit")
    case True
    with Cons.prems selectMore_full [of limit sel "x # xs"] show ?thesis by simp
  next
    case False
    then have "re_NodeID x \<in> re_NodeID ` set (selectMore limit sel x)" by (auto simp: selectMore_def)
    then have "re_NodeID x \<in> re_NodeID ` set (foldl (selectMore limit) (selectMore limit sel x) xs)"
      using selectMore_grows by blast
    with Cons show ?thesis by simp
  qed
qed simp

lemma selectFirst_all:
  "0 < limit \<Longrightarrow> selectFirst limit (selectFirst limit (selectFirst limit [] a) b) c =
     take (nat limit) (take 1 a @ take 1 b @ take 1 c)"
  by (cases a; cases b; cases c) (auto simp: selectFirst_def take_Cons' nat_eq_iff)

text \<open>the evidence a report shows is taken from what there is, names no node twice and stays in the
  limit. If it stays below the limit, nothing is left out; and however long the list of support is,
  a limit of at least two always shows the strongest refutation, and a limit of at least three
  the strongest undecided observation as well.\<close>

theorem shown_evidence:
  assumes "report.dk (supports @ refutes @ neutral)" "0 < limit"
  shows "shown_ok limit (supports @ refutes @ neutral) (selectReportEvidence supports refutes neutral limit) \<and>
    (int (length (selectReportEvidence supports refutes neutral limit)) < limit \<longrightarrow>
       set (selectReportEvidence supports refutes neutral limit) = set (supports @ refutes @ neutral)) \<and>
    (refutes \<noteq> [] \<and> 2 \<le> limit \<longrightarrow> hd refutes \<in> set (selectReportEvidence supports refutes neutral limit)) \<and>
    (neutral \<noteq> [] \<and> 3 \<le> limit \<longrightarrow> hd neutral \<in> set (selectReportEvidence supports refutes neutral limit))"
proof -
  let ?items = "supports @ refutes @ neutral" and ?sel = "selectReportEvidence supports refutes neutral limit"
  define start where "start = take (nat limit) (take 1 supports @ take 1 refutes @ take 1 neutral)"
  have sel: "?sel = foldl (selectMore limit) start ?items"
    by (simp add: selectReportEvidence_def start_def Let_def selectFirst_all [OF assms(2)])
  have "set (take 1 supports @ take 1 refutes @ take 1 neutral) \<subseteq> set ?items"
    by (auto dest: in_set_takeD)
  then have "set start \<subseteq> set ?items" unfolding start_def using set_take_subset by (rule subset_trans [rotated])
  moreover have "distinct (map re_NodeID (take 1 supports @ take 1 refutes @ take 1 neutral))"
    using assms(1) unfolding report.dk_def by (cases supports; cases refutes; cases neutral) simp_all
  then have "report.dk start" unfolding start_def report.dk_def take_map [symmetric] by (rule distinct_take)
  moreover have "int (length start) \<le> limit"
  proof -
    have "length start \<le> nat limit" by (simp only: start_def length_take min.cobounded2)
    then show ?thesis using assms(2) by (simp add: zle_int [symmetric])
  qed
  ultimately have "shown_ok limit ?items start" unfolding shown_ok_def by blast
  then have ok: "shown_ok limit ?items ?sel" unfolding sel by (rule selectMore_fold) simp
  have grows: "set start \<subseteq> set ?sel" unfolding sel by (rule selectMore_grows)
  have full: "set ?items \<subseteq> set ?sel" if "int (length ?sel) < limit"
  proof
    fix i assume i: "i \<in> set ?items"
    have "re_NodeID ` set ?items \<subseteq> re_NodeID ` set ?sel"
      using that unfolding sel by (rule selectMore_complete)
    then obtain j where j: "j \<in> set ?sel" "re_NodeID j = re_NodeID i" using i by force
    have "j \<in> set ?items" using ok j(1) unfolding shown_ok_def by blast
    moreover have "inj_on re_NodeID (set ?items)" using assms(1) unfolding report.dk_def distinct_map by blast
    ultimately have "j = i" using i j(2) by (simp only: inj_on_eq_iff)
    with j(1) show "i \<in> set ?sel" by simp
  qed
  have refuted: "hd refutes \<in> set ?sel" if "refutes \<noteq> []" "2 \<le> limit"
  proof -
    have "2 \<le> nat limit" using \<open>2 \<le> limit\<close> by simp
    then obtain k where "nat limit = Suc (Suc k)" using le_Suc_ex [of 2 "nat limit"] by (auto simp: numeral_2_eq_2)
    then have "hd refutes \<in> set start"
      using \<open>refutes \<noteq> []\<close> unfolding start_def by (cases supports; cases refutes) auto
    with grows show ?thesis by blast
  qed
  have undecided: "hd neutral \<in> set ?sel" if "neutral \<noteq> []" "3 \<le> limit"
  proof -
    have "3 \<le> nat limit" using \<open>3 \<le> limit\<close> by simp
    then obtain k where "nat limit = Suc (Suc (Suc k))" using le_Suc_ex [of 3 "nat limit"] by (auto simp: numeral_3_eq_3)
    then have "hd neutral \<in> set start"
      using \<open>neutral \<noteq> []\<close> unfolding start_def by (cases supports; cases refutes; cases neutral) auto
    with grows show ?thesis by blast
  qed
  have "set ?sel \<subseteq> set ?items" using ok by (simp only: shown_ok_def)
  with ok full refuted undecided show ?thesis by (intro conjI impI equalityI) simp_all
qed

definition demo_item :: "string \<Rightarrow> string \<Rightarrow> f64 \<Rightarrow> report_evidence" where
  "demo_item k relation strength =
     \<lparr>re_NodeID = k, re_EdgeRef = [], re_Relation = relation, re_Strength = strength, re_TargetHypothesisID = ''node-2'',
      re_SourceType = ''log'', re_SourceID = k, re_ToolName = [], re_ArtifactRef = [], re_Title = k, re_Snippet = []\<rparr>"

theorem shown_evidence_witness:
  "demo_item ''c'' relation_refute (1/2) \<in>
     set (selectReportEvidence [demo_item ''a'' relation_support 1, demo_item ''b'' relation_support 1]
            [demo_item ''c'' relation_refute (1/2)] [] 2)"
proof -
  have "report.dk ([demo_item ''a'' relation_support 1, demo_item ''b'' relation_support 1] @
      [demo_item ''c'' relation_refute (1/2)] @ [])"
    by (simp add: report.dk_def demo_item_def)
  from shown_evidence [OF this, of 2] show ?thesis by simp
qed

subsection \<open>Conflicts\<close>

definition strong_refutes :: "f64 \<Rightarrow> report_evidence list \<Rightarrow> report_evidence list" where
  "strong_refutes threshold refutes = filter (\<lambda>i. re_Strength i \<ge> conflictThreshold threshold) refutes"

definition ids_for :: "string \<Rightarrow> report_evidence list \<Rightarrow> string list" where
  "ids_for target items = map re_NodeID (filter (\<lambda>i. re_TargetHypothesisID i = target) items)"

lemma group_ok: "gm_ok (groupByTarget items)"
  by (induction items rule: rev_induct) (auto simp: groupByTarget_def addToTarget_def)

lemma group_get:
  "gm_get (groupByTarget items) t =
     (if t \<in> re_TargetHypothesisID ` set items then Some (ids_for t items) else None)"
proof (induction items rule: rev_induct)
  case Nil
  then show ?case by (simp add: groupByTarget_def)
next
  case (snoc x xs)
  have none: "ids_for t xs = []" if "t \<notin> re_TargetHypothesisID ` set xs" for t
    using that by (auto simp: ids_for_def filter_empty_conv)
  have "groupByTarget (xs @ [x]) = addToTarget (groupByTarget xs) x" by (simp add: groupByTarget_def)
  moreover have "ids_for t (xs @ [x]) = ids_for t xs @ (if re_TargetHypothesisID x = t then [re_NodeID x] else [])"
    by (simp add: ids_for_def)
  ultimately show ?case
    using snoc none [of t] by (cases "re_TargetHypothesisID x = t") (auto simp: addToTarget_def gm_get_put)
qed

lemma group_keys: "set (map fst (groupByTarget items)) = re_TargetHypothesisID ` set items"
proof -
  have "k \<in> fst ` set (groupByTarget items) \<longleftrightarrow> k \<in> re_TargetHypothesisID ` set items" for k
    using gm_none_iff [of "groupByTarget items" k] group_get [of items k] by (auto split: if_splits)
  then show ?thesis by auto
qed

lemma sort_distinct: "distinct (xs :: string list) \<Longrightarrow> sort_strings xs = sorted_list_of_set (set xs)"
  by (simp add: sort_strings_def sorted_list_of_set_sort_remdups distinct_remdups_id)

lemma conflicts_eq:
  "buildReportConflicts supports refutes threshold =
     map (\<lambda>t. \<lparr>rf_TargetHypothesisID = t, rf_SupportNodeIDs = ids_for t supports,
                rf_RefuteNodeIDs = ids_for t (strong_refutes threshold refutes),
                rf_Reason = sprintf t_f_conflict [fmt_fixed 2 (conflictThreshold threshold)]\<rparr>)
       (sorted_list_of_set (re_TargetHypothesisID ` set (strong_refutes threshold refutes)))"
proof -
  let ?strong = "strong_refutes threshold refutes"
  have none: "ids_for t xs = []" if "t \<notin> re_TargetHypothesisID ` set xs" for t xs
    using that by (auto simp: ids_for_def filter_empty_conv)
  have "distinct (map fst (groupByTarget ?strong))"
    using group_ok [of ?strong] by (simp add: gm_ok_def)
  then have keys: "sort_strings (map fst (groupByTarget ?strong)) =
      sorted_list_of_set (re_TargetHypothesisID ` set ?strong)"
    using sort_distinct group_keys by metis
  have "conflictOn (conflictThreshold threshold) (groupByTarget supports) (groupByTarget ?strong) t =
      \<lparr>rf_TargetHypothesisID = t, rf_SupportNodeIDs = ids_for t supports, rf_RefuteNodeIDs = ids_for t ?strong,
       rf_Reason = sprintf t_f_conflict [fmt_fixed 2 (conflictThreshold threshold)]\<rparr>" for t
    using none by (simp add: conflictOn_def group_get del: sprintf.simps)
  then show ?thesis
    by (simp add: buildReportConflicts_def Let_def keys flip: strong_refutes_def)
qed

text \<open>the conflicts of a report are, in the order of their targets and once for each, the hypotheses
  that a refutation of at least the threshold speaks against, with all of those refutations and
  all the support on the other side; a threshold outside of \<open>(0,1]\<close> counts as one half.\<close>

theorem conflicts_spec:
  "buildReportConflicts supports refutes threshold =
     map (\<lambda>t. \<lparr>rf_TargetHypothesisID = t, rf_SupportNodeIDs = ids_for t supports,
                rf_RefuteNodeIDs = ids_for t (strong_refutes threshold refutes),
                rf_Reason = sprintf t_f_conflict [fmt_fixed 2 (conflictThreshold threshold)]\<rparr>)
       (sorted_list_of_set (re_TargetHypothesisID ` set (strong_refutes threshold refutes)))"
  by (rule conflicts_eq)

lemma conflicts_empty: "buildReportConflicts supports refutes threshold = [] \<longleftrightarrow> strong_refutes threshold refutes = []"
proof -
  let ?xs = "sorted_list_of_set (re_TargetHypothesisID ` set (strong_refutes threshold refutes))"
  have "set ?xs = re_TargetHypothesisID ` set (strong_refutes threshold refutes)" by simp
  then have "?xs = [] \<longleftrightarrow> strong_refutes threshold refutes = []" by (metis image_is_empty set_empty)
  then show ?thesis by (simp only: conflicts_eq map_is_Nil_conv)
qed

subsection \<open>The verdict\<close>

lemma count_map_filter: "count_if P (List.map_filter f xs) = count_if (\<lambda>x. case f x of None \<Rightarrow> False | Some y \<Rightarrow> P y) xs"
  by (induction xs) (auto simp: map_filter_simps split: option.splits)

lemma count_filter: "count_if P (filter Q xs) = count_if (\<lambda>x. Q x \<and> P x) xs"
  by (induction xs) auto

lemma count_cong: "(\<And>x. x \<in> set xs \<Longrightarrow> P x = Q x) \<Longrightarrow> count_if P xs = count_if Q xs"
  by (induction xs) auto

text \<open>An active evidence node, its relation, its target and its strength.\<close>

definition speaks :: "string \<Rightarrow> string \<Rightarrow> node \<Rightarrow> f64 \<Rightarrow> bool" where
  "speaks relation target n strength \<longleftrightarrow>
     n_Type n = NodeEvidence \<and> n_Status n = StatusActive \<and>
     (\<exists>src. n_Source n = Some src \<and> es_Relation src = relation \<and> es_TargetHypothesisID src = target \<and>
        es_Strength src = strength)"

lemma scope_start: "graph_wf g \<Longrightarrow> f_NodeID f \<in> set (activeHypothesisPathIDs g (Some f))"
  using scope_set by auto

lemma direct_count:
  assumes "graph_wf g"
  shows "directSupports (Some f) (fst (splitReportEvidence
      (reportEvidenceForTargets g (reportHypothesisScopeIDs g (Some f))))) =
    count_if (\<lambda>n. \<exists>x > 0. speaks relation_support (f_NodeID f) n x) (map snd (Nodes g))"
proof -
  let ?ids = "activeHypothesisPathIDs g (Some f)"
  have "f_NodeID f \<in> set ?ids" by (rule scope_start [OF assms])
  then have "?ids \<noteq> []" by auto
  have "count_if P (sort_slice reportLess xs) = count_if P xs" for P xs
    by (rule count_if_perm) simp
  then have "directSupports (Some f) (fst (splitReportEvidence (reportEvidenceForTargets g ?ids))) =
      count_if (\<lambda>n. n_Status n = StatusActive \<and> (case evidenceFor ?ids n of None \<Rightarrow> False | Some i \<Rightarrow>
         re_Relation i = relation_support \<and> re_TargetHypothesisID i = f_NodeID f \<and> re_Strength i > 0)) (map snd (Nodes g))"
    using \<open>?ids \<noteq> []\<close>
    by (simp add: directSupports_def splitReportEvidence_def reportEvidenceForTargets_def count_filter count_map_filter
        getActiveNodeCopiesInternal_def conj_assoc)
  also have "\<dots> = count_if (\<lambda>n. \<exists>x > 0. speaks relation_support (f_NodeID f) n x) (map snd (Nodes g))"
    by (rule count_cong) (use \<open>f_NodeID f \<in> set ?ids\<close> in
      \<open>auto simp: evidenceFor_def reportItem_def speaks_def split: option.splits\<close>)
  finally show ?thesis by (simp add: reportHypothesisScopeIDs_def)
qed

lemma refutes_set:
  assumes "ids \<noteq> []"
  shows "i \<in> set (fst (snd (splitReportEvidence (reportEvidenceForTargets g ids)))) \<longleftrightarrow>
    (\<exists>n \<in> set (map snd (Nodes g)). n_Status n = StatusActive \<and> evidenceFor ids n = Some i \<and> re_Relation i = relation_refute)"
  using assms by (auto simp: splitReportEvidence_def reportEvidenceForTargets_def map_filter_def getActiveNodeCopiesInternal_def
      image_iff)

lemma evidenceFor_refute:
  "(\<exists>i. evidenceFor ids n = Some i \<and> re_Relation i = relation_refute \<and> Q (re_Strength i)) \<and> n_Status n = StatusActive \<longleftrightarrow>
   (\<exists>k \<in> set ids. \<exists>x. speaks relation_refute k n x \<and> Q x)"
  by (auto simp: evidenceFor_def reportItem_def speaks_def split: option.splits)

lemma addFinding_codes:
  "\<forall>f \<in> set fs. trim_space (snd (snd f)) \<noteq> [] \<Longrightarrow>
   snd (foldl addFinding st fs) = [] \<longleftrightarrow> snd st = [] \<and> (\<forall>f \<in> set fs. \<not> fst f)"
  by (induction fs arbitrary: st) (auto simp: addFinding_def appendUnique_def Let_def)

lemma codes_trimmed:
  "trim_space ''insufficient_source_backed_support'' \<noteq> []" "trim_space ''low_graph_confidence'' \<noteq> []"
  "trim_space ''critical_evidence_conflict'' \<noteq> []" "trim_space ''partial_expert_failure'' \<noteq> []"
  by code_simp+

text \<open>What the report is decided on, as projections of the definition.\<close>

definition reportConfidence :: "frontier option \<Rightarrow> f64" where
  "reportConfidence frontier = (case frontier of None \<Rightarrow> 0 | Some f \<Rightarrow> clamp01 (f_Score f))"

definition scopeSplit :: "'h belief_graph \<Rightarrow> frontier option \<Rightarrow>
    report_evidence list \<times> report_evidence list \<times> report_evidence list" where
  "scopeSplit g frontier = splitReportEvidence (reportEvidenceForTargets g (reportHypothesisScopeIDs g frontier))"

definition scopeConflicts :: "gos_config \<Rightarrow> 'h belief_graph \<Rightarrow> frontier option \<Rightarrow> report_conflict list" where
  "scopeConflicts cfg g frontier =
     buildReportConflicts (fst (scopeSplit g frontier)) (fst (snd (scopeSplit g frontier)))
       (rp_ConflictStrengthThreshold (c_Report cfg))"

lemma report_sufficient:
  "er_Sufficient (buildEvidenceReport cfg g frontier stats extra) \<longleftrightarrow>
     frontier \<noteq> None \<and> \<not> weakSupport cfg (directSupports frontier (fst (scopeSplit g frontier))) \<and>
     reportConfidence frontier \<ge> fc_MinConfidence (c_FSM cfg) \<and> scopeConflicts cfg g frontier = [] \<and>
     rs_ExpertDegraded stats = 0 \<and> rs_ExpertFailed stats = 0"
  unfolding buildEvidenceReport_def Let_def case_prod_unfold evidence_report.simps reportConfidence_def scopeSplit_def
    scopeConflicts_def by (rule refl)

lemma report_codes:
  "er_ReasonCodes (buildEvidenceReport cfg g frontier stats extra) =
     snd (foldl addFinding
       (case frontier of None \<Rightarrow> (appendUnique [] t_no_frontier, [''no_frontier'']) | Some _ \<Rightarrow> ([], []))
       (reportFindings cfg frontier stats (directSupports frontier (fst (scopeSplit g frontier)))
          (reportConfidence frontier) (scopeConflicts cfg g frontier)))"
  unfolding buildEvidenceReport_def Let_def case_prod_unfold evidence_report.simps reportConfidence_def scopeSplit_def
    scopeConflicts_def by (rule refl)

lemma report_codes_empty:
  "er_ReasonCodes (buildEvidenceReport cfg g frontier stats extra) = [] \<longleftrightarrow>
     frontier \<noteq> None \<and> \<not> weakSupport cfg (directSupports frontier (fst (scopeSplit g frontier))) \<and>
     \<not> lowConfidence cfg frontier (reportConfidence frontier) \<and> scopeConflicts cfg g frontier = [] \<and> \<not> expertTrouble stats"
proof -
  have "\<forall>f \<in> set (reportFindings cfg frontier stats d c cs). trim_space (snd (snd f)) \<noteq> []" for d c cs
    by (simp add: reportFindings_def codes_trimmed)
  from addFinding_codes [OF this] show ?thesis
    unfolding report_codes by (cases frontier) (auto simp: reportFindings_def)
qed

definition strongly_refuted :: "'h belief_graph \<Rightarrow> frontier \<Rightarrow> f64 \<Rightarrow> bool" where
  "strongly_refuted g f threshold \<longleftrightarrow>
     (\<exists>k. (refines_parent g)\<^sup>*\<^sup>* (f_NodeID f) k \<and>
        (\<exists>n \<in> set (map snd (Nodes g)). \<exists>x. speaks relation_refute k n x \<and> threshold \<le> x))"

lemma scopeConflicts_empty:
  assumes "graph_wf g"
  shows "scopeConflicts cfg g (Some f) = [] \<longleftrightarrow>
    \<not> strongly_refuted g f (conflictThreshold (rp_ConflictStrengthThreshold (c_Report cfg)))"
proof -
  let ?ids = "activeHypothesisPathIDs g (Some f)"
  let ?t = "conflictThreshold (rp_ConflictStrengthThreshold (c_Report cfg))"
  have ne: "?ids \<noteq> []" using scope_start [OF assms, of f] by auto
  have "scopeConflicts cfg g (Some f) = [] \<longleftrightarrow>
      \<not> (\<exists>i. i \<in> set (fst (snd (splitReportEvidence (reportEvidenceForTargets g ?ids)))) \<and> ?t \<le> re_Strength i)"
    unfolding scopeConflicts_def conflicts_empty scopeSplit_def reportHypothesisScopeIDs_def strong_refutes_def
      filter_empty_conv by blast
  also have "\<dots> \<longleftrightarrow> \<not> (\<exists>n \<in> set (map snd (Nodes g)). \<exists>k \<in> set ?ids. \<exists>x. speaks relation_refute k n x \<and> ?t \<le> x)"
    unfolding refutes_set [OF ne] evidenceFor_refute [symmetric] by blast
  also have "\<dots> \<longleftrightarrow> \<not> strongly_refuted g f ?t"
    using scope_set [OF assms, of f] unfolding strongly_refuted_def by blast
  finally show ?thesis .
qed

lemma weak_iff: "\<not> weakSupport cfg d \<longleftrightarrow> max 1 (fc_MinSupport (c_FSM cfg)) \<le> d"
  by (auto simp: weakSupport_def)

lemma verdict:
  assumes "graph_wf g"
  shows "er_Sufficient (buildEvidenceReport cfg g frontier stats extra) \<longleftrightarrow>
    (\<exists>f. frontier = Some f \<and>
       max 1 (fc_MinSupport (c_FSM cfg)) \<le>
         count_if (\<lambda>n. \<exists>x > 0. speaks relation_support (f_NodeID f) n x) (map snd (Nodes g)) \<and>
       fc_MinConfidence (c_FSM cfg) \<le> clamp01 (f_Score f) \<and>
       \<not> strongly_refuted g f (conflictThreshold (rp_ConflictStrengthThreshold (c_Report cfg))) \<and>
       rs_ExpertDegraded stats = 0 \<and> rs_ExpertFailed stats = 0)"
proof (cases frontier)
  case None
  then show ?thesis by (simp only: report_sufficient) simp
next
  case (Some f)
  show ?thesis
    unfolding report_sufficient Some weak_iff scopeConflicts_empty [OF assms] scopeSplit_def direct_count [OF assms]
      reportConfidence_def by simp
qed

lemma report_actions: "er_NextActions (buildEvidenceReport cfg g frontier stats extra) \<noteq> []"
proof -
  have "reportNextActions cfg codes \<noteq> []" for codes
    by (simp add: reportNextActions_def at_least_one_def Let_def)
  then show ?thesis
    unfolding buildEvidenceReport_def Let_def case_prod_unfold evidence_report.simps by blast
qed

lemma report_confidence:
  "er_Confidence (buildEvidenceReport cfg g frontier stats extra) = reportConfidence frontier"
  "0 \<le> reportConfidence frontier" "reportConfidence frontier \<le> 1"
  unfolding buildEvidenceReport_def Let_def case_prod_unfold evidence_report.simps reportConfidence_def
  by (rule refl) (simp_all add: clamp01_def split: option.split)

text \<open>a report on a well-formed graph is called sufficient exactly when no reason is given against it,
  and exactly when there is a frontier that as many active evidence nodes as the configuration
  asks for, and at least one, support directly and with a positive strength, whose score reaches
  the confidence asked for, when no active evidence refutes it or a hypothesis above it with a
  strength of the threshold or more, and no expert was degraded or failed. Whatever the
  verdict, there is a next action.\<close>

theorem report_verdict:
  assumes "graph_wf g" "0 \<le> rs_ExpertDegraded stats" "0 \<le> rs_ExpertFailed stats"
  shows "(er_Sufficient (buildEvidenceReport cfg g frontier stats extra) \<longleftrightarrow>
      er_ReasonCodes (buildEvidenceReport cfg g frontier stats extra) = []) \<and>
    (er_Sufficient (buildEvidenceReport cfg g frontier stats extra) \<longleftrightarrow>
    (\<exists>f. frontier = Some f \<and>
       max 1 (fc_MinSupport (c_FSM cfg)) \<le>
         count_if (\<lambda>n. \<exists>x > 0. speaks relation_support (f_NodeID f) n x) (map snd (Nodes g)) \<and>
       fc_MinConfidence (c_FSM cfg) \<le> clamp01 (f_Score f) \<and>
       \<not> strongly_refuted g f (conflictThreshold (rp_ConflictStrengthThreshold (c_Report cfg))) \<and>
       rs_ExpertDegraded stats = 0 \<and> rs_ExpertFailed stats = 0)) \<and>
    er_NextActions (buildEvidenceReport cfg g frontier stats extra) \<noteq> []"
proof (intro conjI)
  show "er_Sufficient (buildEvidenceReport cfg g frontier stats extra) \<longleftrightarrow>
      er_ReasonCodes (buildEvidenceReport cfg g frontier stats extra) = []"
    unfolding report_sufficient report_codes_empty lowConfidence_def expertTrouble_def using assms(2,3) by auto
  show "er_NextActions (buildEvidenceReport cfg g frontier stats extra) \<noteq> []" by (rule report_actions)
qed (rule verdict [OF assms(1)])

theorem report_verdict_witness:
  "\<not> er_Sufficient (buildEvidenceReport demo_small demo_graph None newRunStats []) \<and>
   er_NextActions (buildEvidenceReport demo_small demo_graph None newRunStats []) \<noteq> []"
proof -
  have start: "graph_wf demo_graph" "0 \<le> rs_ExpertDegraded newRunStats" "0 \<le> rs_ExpertFailed newRunStats"
    by (rule reachable_wf [OF demo_reachable]) (simp_all add: newRunStats_def)
  note v = report_verdict [OF start, of demo_small None "[]"]
  from conjunct1 [OF conjunct2 [OF v]]
  have "\<not> er_Sufficient (buildEvidenceReport demo_small demo_graph None newRunStats [])" by simp
  with v show ?thesis by blast
qed

end
