(* ===== verification/Gos_Planner_Properties.thy ===== *)
theory Gos_Planner_Properties
  imports Gos_Planner
begin

text \<open>
  The properties of the planner and of the reading of a model's answer: whatever the model
  says, a plan obeys the contract.
\<close>

subsection \<open>Budgets\<close>

lemmas budget_defs = normalizePlanBudget_def addPlanBudgets_def exceedsPlanBudget_def scalePlanBudget_def
  subtractPlanBudget_def positivePlanBudget_def zero_budget_def

definition plan_total :: "plan_item list \<Rightarrow> plan_budget" where
  "plan_total items = foldl addPlanBudgets zero_budget (map pi_Budget items)"

lemma add_zero_budget [simp]: "addPlanBudgets zero_budget b = b" "addPlanBudgets b zero_budget = b"
  by (simp_all add: budget_defs)

lemma normalize_value: "0 < l \<Longrightarrow> 0 < normalizeBudgetValue r f l \<and> normalizeBudgetValue r f l \<le> l"
  by (simp add: normalizeBudgetValue_def Let_def)

text \<open>\<open>subtract\<close> undoes \<open>add\<close>: nothing of a budget is lost or made up.\<close>

lemma subtract_spec:
  "subtractPlanBudget r u = (r', None) \<longleftrightarrow> \<not> exceedsPlanBudget u r \<and> addPlanBudgets r' u = r"
  by (auto simp: budget_defs)

subsection \<open>What the checks establish\<close>

lemma nonEmptyFrom_Nil: "nonEmptyFrom seen vs \<noteq> [] \<Longrightarrow> \<exists>v \<in> set vs. trim_space v \<noteq> []"
  by (induction seen vs rule: nonEmptyFrom.induct) (auto simp: Let_def split: if_splits)

lemma checkTools_None:
  "checkTools authorized failed index tools = None \<longleftrightarrow> set tools \<subseteq> set authorized \<and> set tools \<inter> set failed = {}"
  by (induction tools) auto

definition item_ok :: "planner \<Rightarrow> 'h planning_context \<Rightarrow> plan_item \<Rightarrow> bool" where
  "item_ok p planning item \<longleftrightarrow> pi_ExpertName item \<in> set (p_experts p) \<and> pi_AllowedTools item \<noteq> [] \<and>
     set (pi_AllowedTools item) \<subseteq> set (expertTools p (pi_ExpertName item)) \<and>
     set (pi_AllowedTools item) \<inter> set (pc_FailedTools planning) = {} \<and>
     \<not> exceedsPlanBudget (pi_Budget item) (expertBudget p (pi_ExpertName item))"

lemma checkItem_ok: "checkItem p planning index item = None \<Longrightarrow> item_ok p planning item"
  using nonEmptyFrom_Nil [of "[]" "pi_AllowedTools item"]
  by (auto simp: checkItem_def item_ok_def checkTools_None nonEmptyStrings_def split: if_splits)

abbreviation aimed :: "frontier \<Rightarrow> plan_item \<Rightarrow> plan_item" where
  "aimed fr item \<equiv> item\<lparr>pi_TargetHypothesisID := f_NodeID fr\<rparr>"

lemma checkItems_ok:
  "checkItems rt p planning fr index used seen items = Inr spent \<Longrightarrow>
   (\<forall>item \<in> set items. item_ok p planning item) \<and>
   distinct (map (\<lambda>item. planGoalKey rt (aimed fr item)) items) \<and>
   (\<forall>item \<in> set items. planGoalKey rt (aimed fr item) \<notin> set (pc_CalledGoalKeys planning) \<union> set seen) \<and>
   spent = foldl addPlanBudgets used (map pi_Budget items)"
proof (induction items arbitrary: index used seen)
  case Nil
  then show ?case by simp
next
  case (Cons item items)
  let ?k = "planGoalKey rt (aimed fr item)"
  have c: "checkItem p planning index item = None" "?k \<notin> set (pc_CalledGoalKeys planning)" "?k \<notin> set seen"
    and rest: "checkItems rt p planning fr (index + 1) (addPlanBudgets used (pi_Budget item)) (?k # seen) items = Inr spent"
    using Cons.prems by (auto simp: Let_def split: option.splits if_splits)
  from Cons.IH [OF rest] checkItem_ok [OF c(1)] c(2,3) show ?case by auto
qed

text \<open>The contract of a plan: what the engine may rely on.\<close>

definition plan_ok :: "'h gort \<Rightarrow> planner \<Rightarrow> 'h planning_context \<Rightarrow> plan_budget \<Rightarrow> frontier \<Rightarrow> plan_item list \<Rightarrow> bool" where
  "plan_ok rt p planning remaining fr items \<longleftrightarrow> items \<noteq> [] \<and>
     (\<forall>item \<in> set items. item_ok p planning item \<and> pi_TargetHypothesisID item = f_NodeID fr \<and>
        planGoalKey rt item \<notin> set (pc_CalledGoalKeys planning)) \<and>
     distinct (map (planGoalKey rt) items) \<and> \<not> exceedsPlanBudget (plan_total items) remaining"

lemma validatePlan_ok:
  assumes "validatePlan rt p planning fr items = None"
  shows "plan_ok rt p planning (pc_RemainingBudget planning) fr (map (aimed fr) items)"
proof -
  obtain spent where c: "checkItems rt p planning fr 0 zero_budget [] items = Inr spent" "items \<noteq> []"
      "\<not> exceedsPlanBudget spent (pc_RemainingBudget planning)"
    using assms by (auto simp: validatePlan_def Let_def split: sum.splits if_splits)
  have "map pi_Budget (map (aimed fr) items) = map pi_Budget items" by simp
  with c checkItems_ok [OF c(1)] show ?thesis
    by (auto simp: plan_ok_def plan_total_def item_ok_def comp_def)
qed

lemma find_SomeD: "find P xs = Some x \<Longrightarrow> x \<in> set xs \<and> P x"
  by (auto simp: find_Some_iff)

lemma fallback_ok:
  assumes "fallbackPlan rt p planning fr reason = Inr item"
  shows "plan_ok rt p planning (pc_RemainingBudget planning) fr [item]"
proof -
  obtain name where n: "name \<in> set (fallbackNames rt p fr)" "item = fallbackItem rt p planning fr reason name"
      "filterFailedTools (expertTools p name) (pc_FailedTools planning) \<noteq> []"
      "\<not> exceedsPlanBudget (expertBudget p name) (pc_RemainingBudget planning)"
      "planGoalKey rt item \<notin> set (pc_CalledGoalKeys planning)"
    using assms by (auto simp: fallbackPlan_def fallbackUsable_def dest!: find_SomeD split: option.splits)
  have "name \<in> set (p_experts p)"
    using n(1) by (auto simp: fallbackNames_def Let_def sortedExpertNames_def sort_strings_def split: if_splits)
  moreover have "\<not> exceedsPlanBudget b b" for b by (simp add: exceedsPlanBudget_def)
  ultimately show ?thesis
    using n by (auto simp: plan_ok_def item_ok_def fallbackItem_def plan_total_def filterFailedTools_def)
qed

definition effective_budget :: "planner \<Rightarrow> 'h planning_context \<Rightarrow> plan_budget" where
  "effective_budget p planning =
     (if pc_RemainingBudget planning = zero_budget
      then scalePlanBudget (sg_PlanBudget (c_StructuredCognition (p_cfg p))) (sg_MaxPlanItems (c_StructuredCognition (p_cfg p)))
      else pc_RemainingBudget planning)"

lemma structuredPlan_ok:
  assumes "structuredPlan rt io p planning fr = (outcome, None)" "po_Items outcome \<noteq> []"
  shows "plan_ok rt p planning (pc_RemainingBudget planning) fr (po_Items outcome)"
proof -
  obtain items where "validatePlan rt p planning fr items = None" "po_Items outcome = map (aimed fr) items"
    using assms
    by (auto simp: structuredPlan_def no_outcome_def Let_def split: if_splits option.splits sum.splits)
  with validatePlan_ok show ?thesis by metis
qed

lemma plan_ok_cong:
  "pc_FailedTools q = pc_FailedTools q' \<Longrightarrow> pc_CalledGoalKeys q = pc_CalledGoalKeys q' \<Longrightarrow>
   plan_ok rt p q b fr items = plan_ok rt p q' b fr items"
  by (simp add: plan_ok_def item_ok_def)

lemma PlanWithContext_cases:
  assumes "PlanWithContext rt io p planning = (outcome, None)" "p_experts p \<noteq> []"
  obtains fr planning' where "pc_Frontier planning = Some fr" "trim_space (f_NodeID fr) \<noteq> []"
    "planning' = planning\<lparr>pc_RemainingBudget := effective_budget p planning\<rparr>"
    "(structuredPlan rt io p planning' fr = (outcome, None) \<and> po_Items outcome \<noteq> []) \<or>
     (\<exists>reason item. fallbackPlan rt p planning' fr reason = Inr item \<and> po_Items outcome = [item])"
proof -
  obtain fr where fr: "pc_Frontier planning = Some fr" "trim_space (f_NodeID fr) \<noteq> []" and io: "io_ctxErr io = None"
    using assms by (auto simp: PlanWithContext_def split: option.splits if_splits)
  define planning' where "planning' = planning\<lparr>pc_RemainingBudget := effective_budget p planning\<rparr>"
  have p': "(if pc_RemainingBudget planning = zero_budget
       then planning\<lparr>pc_RemainingBudget := scalePlanBudget (sg_PlanBudget (c_StructuredCognition (p_cfg p)))
              (sg_MaxPlanItems (c_StructuredCognition (p_cfg p)))\<rparr>
       else planning) = planning'"
    by (simp add: planning'_def effective_budget_def)
  define s where "s = (if sg_Enabled (c_StructuredCognition (p_cfg p)) then structuredPlan rt io p planning' fr
      else (no_outcome\<lparr>po_Mode := ''rules''\<rparr>, None))"
  have run: "(case snd s of
        Some err \<Rightarrow> (fst s, Some err)
      | None \<Rightarrow> if po_Items (fst s) \<noteq> [] then (fst s, None)
          else case fallbackPlan rt p planning' fr (po_FallbackReason (fst s)) of
            Inl err \<Rightarrow> (fst s, Some err)
          | Inr item \<Rightarrow> ((fst s)\<lparr>po_Items := [item]\<rparr>, None)) = (outcome, None)"
    using assms fr io by (simp only: PlanWithContext_def option.case if_False Let_def p' s_def case_prod_unfold)
  then have s: "snd s = None" by (cases "snd s") auto
  show thesis
  proof (cases "po_Items (fst s) = []")
    case True
    then have "\<exists>reason item. fallbackPlan rt p planning' fr reason = Inr item \<and> po_Items outcome = [item]"
      using run s by (auto split: sum.splits)
    then show thesis using that [OF fr planning'_def] by blast
  next
    case False
    then have "fst s = outcome" using run s by simp
    with s have "s = (outcome, None)" by (metis prod.collapse)
    moreover from this False have "sg_Enabled (c_StructuredCognition (p_cfg p))"
      by (auto simp: s_def no_outcome_def split: if_splits)
    ultimately show thesis using that [OF fr planning'_def] False \<open>fst s = outcome\<close> by (simp add: s_def)
  qed
qed

subsection \<open>Properties\<close>

text \<open>the JSON object that is cut out of a model's answer is exactly the one object of the text:
  the cut succeeds with an object if and only if the trimmed text is that object, with braces
  balanced outside of string literals, surrounded by text without an opening brace.\<close>

theorem json_extraction_spec:
  "extractSingleJSONObject raw = Inr ob \<longleftrightarrow>
     (\<exists>pre post. trim_space raw = pre @ ob @ post \<and> lbrace \<notin> set pre \<and> lbrace \<notin> set post \<and> brace_object ob)"
  by (rule extract_iff)

lemma plan_contract_facts:
  assumes "PlanWithContext rt io p planning = (outcome, None)" "p_experts p \<noteq> []"
  shows "\<exists>fr. pc_Frontier planning = Some fr \<and>
    plan_ok rt p planning (effective_budget p planning) fr (po_Items outcome)"
proof -
  obtain fr planning' where fr: "pc_Frontier planning = Some fr"
    and p': "planning' = planning\<lparr>pc_RemainingBudget := effective_budget p planning\<rparr>"
    and c: "(structuredPlan rt io p planning' fr = (outcome, None) \<and> po_Items outcome \<noteq> []) \<or>
     (\<exists>reason item. fallbackPlan rt p planning' fr reason = Inr item \<and> po_Items outcome = [item])"
    using PlanWithContext_cases [OF assms] by metis
  have "plan_ok rt p planning' (pc_RemainingBudget planning') fr (po_Items outcome)"
    using c structuredPlan_ok fallback_ok by metis
  moreover have "plan_ok rt p planning' b fr items = plan_ok rt p planning b fr items" for b items
    by (rule plan_ok_cong) (simp_all add: p')
  ultimately show ?thesis using fr by (simp add: p')
qed

text \<open>C18: whatever the model answers, a plan that is returned obeys the contract. A planner with no expert returns
  an empty plan. Any other plan is not empty, every item names a registered expert and only tools of that expert
  that have not failed, stays in the expert's budget, aims at the frontier with an evidence goal that was not
  called before and that no other item has, and all items together stay in the remaining budget (or, where that is
  all zero, in the one it is refilled with).\<close>

theorem plan_contract:
  assumes "PlanWithContext rt io p planning = (outcome, None)"
  shows "if p_experts p = [] then po_Items outcome = []
    else \<exists>fr. pc_Frontier planning = Some fr \<and> plan_ok rt p planning (effective_budget p planning) fr (po_Items outcome)"
proof (cases "p_experts p = []")
  case True
  with assms show ?thesis by (auto simp: PlanWithContext_def no_outcome_def split: option.splits)
qed (use plan_contract_facts [OF assms] in simp)

definition demo_plan_frontier :: frontier where
  "demo_plan_frontier = \<lparr>f_NodeID = ''node-2'', f_Label = ''redis timeout'', f_Why = ''w'', f_Score = 1/2, f_Level = 1,
     f_Supports = 0, f_Refutes = 0\<rparr>"

definition demo_planner :: planner where
  "demo_planner = \<lparr>p_experts = [''linux_sre'', ''network_sre''], p_cfg = demo_small\<rparr>"

definition demo_plan_io :: plan_io where
  "demo_plan_io = \<lparr>io_ctxErr = None, io_ctxErrAfter = None, io_marshal = (\<lambda>_. Inr []), io_template = [],
     io_generate = None, io_decode = (\<lambda>_. Inl (ExtError []))\<rparr>"

definition demo_planning :: "plan_budget \<Rightarrow> unit planning_context" where
  "demo_planning b = \<lparr>pc_Frontier = Some demo_plan_frontier, pc_Graph = None, pc_CalledGoalKeys = [],
     pc_FailedTools = [''query_logs''], pc_RemainingBudget = b, pc_StructuredGenerationDisabled = False\<rparr>"

lemma demo_fallback:
  "\<exists>item. fallbackPlan demo_plan_rt demo_planner (demo_planning demo_budget_unit) demo_plan_frontier [] = Inr item \<and>
     pi_ExpertName item = ''network_sre'' \<and> pi_Budget item = demo_budget_unit"
proof -
  have "case_sum (\<lambda>err. False) (\<lambda>item. pi_ExpertName item = ''network_sre'' \<and> pi_Budget item = demo_budget_unit)
      (fallbackPlan demo_plan_rt demo_planner (demo_planning demo_budget_unit) demo_plan_frontier [])"
    by code_simp
  then show ?thesis by (auto split: sum.splits)
qed

lemma demo_plan_run:
  obtains outcome where
    "PlanWithContext demo_plan_rt demo_plan_io demo_planner (demo_planning zero_budget) = (outcome, None)"
    "po_Items outcome \<noteq> []" "positivePlanBudget (plan_total (po_Items outcome))"
proof -
  have refill: "(demo_planning zero_budget)\<lparr>pc_RemainingBudget := scalePlanBudget demo_budget_unit 1\<rparr> =
      demo_planning demo_budget_unit"
    by (simp add: demo_planning_def scalePlanBudget_def demo_budget_unit_def)
  have cfg: "sg_Enabled (c_StructuredCognition demo_small) = False" "sg_MaxPlanItems (c_StructuredCognition demo_small) = 1"
      "sg_PlanBudget (c_StructuredCognition demo_small) = demo_budget_unit"
    by (simp_all add: demo_small_def)
  have fr: "trim_space (f_NodeID demo_plan_frontier) \<noteq> []" by code_simp
  have start: "io_ctxErr demo_plan_io = None" "pc_Frontier (demo_planning zero_budget) = Some demo_plan_frontier"
      "pc_RemainingBudget (demo_planning zero_budget) = zero_budget" "p_experts demo_planner \<noteq> []" "p_cfg demo_planner = demo_small"
    by (simp_all add: demo_plan_io_def demo_planning_def demo_planner_def)
  obtain item where item: "fallbackPlan demo_plan_rt demo_planner (demo_planning demo_budget_unit) demo_plan_frontier [] = Inr item"
      "pi_ExpertName item = ''network_sre''" "pi_Budget item = demo_budget_unit"
    using demo_fallback by blast
  have "PlanWithContext demo_plan_rt demo_plan_io demo_planner (demo_planning zero_budget) =
      (no_outcome\<lparr>po_Mode := ''rules'', po_Items := [item]\<rparr>, None)"
    using fr item(1) by (simp add: PlanWithContext_def start cfg refill Let_def no_outcome_def)
  then show thesis
    by (rule that) (simp_all add: plan_total_def item(3), simp add: positivePlanBudget_def demo_budget_unit_def)
qed

theorem plan_contract_witness:
  "\<exists>outcome. PlanWithContext demo_plan_rt demo_plan_io demo_planner (demo_planning zero_budget) = (outcome, None) \<and>
     plan_ok demo_plan_rt demo_planner (demo_planning zero_budget)
       (effective_budget demo_planner (demo_planning zero_budget)) demo_plan_frontier (po_Items outcome)"
proof -
  obtain outcome where o: "PlanWithContext demo_plan_rt demo_plan_io demo_planner (demo_planning zero_budget) = (outcome, None)"
    by (rule demo_plan_run)
  have "p_experts demo_planner \<noteq> []" "pc_Frontier (demo_planning zero_budget) = Some demo_plan_frontier"
    by (simp_all add: demo_planner_def demo_planning_def)
  with o plan_contract [OF o] show ?thesis by simp
qed

text \<open>a session budget used up to exactly zero in every field reads as one that was never set:
  the planner refills it and plans, and the reservation the engine then makes against what
  really remains fails.\<close>

theorem zero_budget_refilled:
  "\<exists>outcome. PlanWithContext demo_plan_rt demo_plan_io demo_planner (demo_planning zero_budget) = (outcome, None) \<and>
     po_Items outcome \<noteq> [] \<and> snd (subtractPlanBudget zero_budget (plan_total (po_Items outcome))) \<noteq> None"
proof -
  obtain outcome where o: "PlanWithContext demo_plan_rt demo_plan_io demo_planner (demo_planning zero_budget) = (outcome, None)"
      "po_Items outcome \<noteq> []" "positivePlanBudget (plan_total (po_Items outcome))"
    by (rule demo_plan_run)
  have "exceedsPlanBudget (plan_total (po_Items outcome)) zero_budget"
    using o(3) by (simp add: positivePlanBudget_def exceedsPlanBudget_def zero_budget_def)
  then have "snd (subtractPlanBudget zero_budget (plan_total (po_Items outcome))) \<noteq> None"
    by (simp add: subtractPlanBudget_def)
  with o(1,2) show ?thesis by blast
qed

end
