(* ===== verification/Gos_Ingestor_Properties.thy ===== *)
theory Gos_Ingestor_Properties
  imports Gos_Ingestor Gos_Evidence_Facts
begin

text \<open>
  What ingest leaves: a valid graph with every accepted hypothesis, or the graph it was given.
\<close>

lemma checkHypotheses_actionable:
  "checkHypotheses rt seen hs = None \<Longrightarrow> \<forall>h \<in> set hs. hp_Actionable h \<noteq> None"
  by (induction rt seen hs rule: checkHypotheses.induct) (auto simp: Let_def split: if_splits)

text \<open>The proposal that is applied can be applied.\<close>

lemma chooseProposal_ok:
  assumes "chooseProposal rt io cfg symptom = Inr (proposal, outcome)"
  shows "ip_Hypotheses proposal \<noteq> [] \<and> (\<forall>h \<in> set (ip_Hypotheses proposal). hp_Actionable h \<noteq> None)"
proof -
  have "proposal = fallbackIngestProposal symptom \<or>
      validateIngestProposal rt proposal (c_StructuredCognition cfg) = None"
    using assms by (auto simp: chooseProposal_def Let_def split: if_splits option.splits sum.splits)
  then show ?thesis
  proof
    assume "validateIngestProposal rt proposal (c_StructuredCognition cfg) = None"
    then show ?thesis
      using checkHypotheses_actionable [of rt "[]" "ip_Hypotheses proposal"]
      by (auto simp: validateIngestProposal_def split: if_splits option.splits)
  qed (simp add: fallbackIngestProposal_def fallbackHypothesis_def del: not_None_eq)
qed

lemma addEdges_nodes [simp]:
  "Nodes (foldl (\<lambda>g k. addEdgeInternal rt now k h t c d g) g parents) = Nodes g"
  by (induction parents arbitrary: g) simp_all

definition has_hypothesis :: "'h belief_graph \<Rightarrow> hypothesis_proposal \<Rightarrow> bool" where
  "has_hypothesis g h \<longleftrightarrow> (\<exists>k n. gm_get (Nodes g) k = Some n \<and> active_hypothesis n \<and> n_Level n = 1 \<and>
     n_Label n = trim_space (hp_Label h) \<and> n_Score n = hp_Score h)"

lemma addHypothesis_node:
  assumes "graph_wf g" "limitErr (addHypothesis rt now parents g h a) = None"
  shows "has_hypothesis (addHypothesis rt now parents g h a) h \<and>
    (\<forall>k n. gm_get (Nodes g) k = Some n \<longrightarrow> gm_get (Nodes (addHypothesis rt now parents g h a)) k = Some n)"
proof -
  let ?add = "addNodeInternal rt now NodeHypothesis (trim_space (hp_Label h)) (hp_Score h) 1
      (Some [(''why'', VStr (trim_space (hp_Why h))), (''actionable'', VBool a)]) None g"
  have nodes: "Nodes (addHypothesis rt now parents g h a) = Nodes (snd ?add)"
    by (simp add: addHypothesis_def case_prod_unfold Let_def)
  have "limitErr (snd ?add) = None"
    using copy_steps_limit_back [OF addEdges_steps] assms(2)
    unfolding addHypothesis_def case_prod_unfold Let_def by blast
  note N = addNode_graph [OF refl this]
  have "gm_get (Nodes g) (node_id (CurrentStep g + 1)) = None" by (rule node_id_fresh [OF assms(1)]) simp
  then show ?thesis unfolding has_hypothesis_def nodes N by auto
qed

lemma has_hypothesis_mono:
  "has_hypothesis g h \<Longrightarrow> \<forall>k n. gm_get (Nodes g) k = Some n \<longrightarrow> gm_get (Nodes g') k = Some n \<Longrightarrow> has_hypothesis g' h"
  unfolding has_hypothesis_def by blast

lemma addHypotheses_nodes:
  "graph_wf g \<Longrightarrow> addHypotheses rt now parents hs g = Some g' \<Longrightarrow> limitErr g' = None \<Longrightarrow>
   (\<forall>h \<in> set hs. has_hypothesis g' h) \<and> (\<forall>k n. gm_get (Nodes g) k = Some n \<longrightarrow> gm_get (Nodes g') k = Some n)"
proof (induction hs arbitrary: g)
  case Nil
  then show ?case by simp
next
  case (Cons h hs)
  then obtain a where a: "addHypotheses rt now parents hs (addHypothesis rt now parents g h a) = Some g'"
    by (auto split: option.splits)
  let ?g = "addHypothesis rt now parents g h a"
  have s: "copy_steps rt g ?g" by (rule addHypothesis_steps)
  have lim: "limitErr ?g = None" by (rule copy_steps_limit_back [OF addHypotheses_steps [OF a] Cons.prems(3)])
  have wf: "graph_wf ?g" using copy_steps_facts [OF s] Cons.prems(1) by simp
  note IH = Cons.IH [OF wf a Cons.prems(3)] and N = addHypothesis_node [OF Cons.prems(1) lim]
  have "has_hypothesis g' h" using has_hypothesis_mono [of ?g h g'] IH N by blast
  with IH N show ?case by auto
qed

lemma buildIngest_nodes:
  assumes "graph_wf g" "buildIngest rt now proposal outcome g = Some g'" "limitErr g' = None"
  shows "\<forall>h \<in> set (ip_Hypotheses proposal). has_hypothesis g' h"
proof -
  define s where "s = addSignalNode rt now proposal outcome g"
  define ob where "ob = foldl (addObservation rt now (snd s)) (fst s, []) (ip_Observations proposal)"
  have "copy_steps rt g (fst s)" unfolding s_def by (rule addSignalNode_steps)
  moreover have "copy_steps rt (fst s) (fst ob)"
    using addObservations_steps [of rt "(fst s, [])"] by (simp add: ob_def)
  ultimately have "graph_wf (fst ob)" using copy_steps_facts assms(1) by blast
  moreover have "addHypotheses rt now (if snd ob = [] then [snd s] else snd ob) (ip_Hypotheses proposal) (fst ob) = Some g'"
    using assms(2) by (simp only: buildIngest_def case_prod_unfold Let_def s_def ob_def)
  ultimately show ?thesis using addHypotheses_nodes assms(3) by blast
qed

lemma ingest_committed:
  assumes "Committed (fst (UpdateCopyOnWrite rt now (ingestCallback rt now proposal outcome) g))" "graph_wf g"
  shows "\<exists>cp. Nodes g = [] \<and> Edges g = [] \<and> StartSignalID g = [] \<and>
    buildIngest rt now proposal outcome (deepCopy g) = Some cp \<and> limitErr cp = None \<and>
    Nodes (snd (UpdateCopyOnWrite rt now (ingestCallback rt now proposal outcome) g)) = Nodes cp"
proof -
  let ?u = "UpdateCopyOnWrite rt now (ingestCallback rt now proposal outcome) g"
  obtain cp where cp: "ingestCallback rt now proposal outcome (deepCopy g) = (None, cp)" "limitErr cp = None"
      "Nodes (snd ?u) = Nodes cp"
    using committed_copy [of rt now "ingestCallback rt now proposal outcome" g "fst ?u" "snd ?u"] assms(1) by auto
  then have "applyIngestProposal rt now proposal outcome (deepCopy g) = Some (None, cp)"
    by (auto simp: ingestCallback_def split: option.splits)
  with cp show ?thesis by (auto simp: applyIngestProposal_def split: if_splits)
qed

lemma ingest_facts:
  assumes "reachable rt p g"
  shows "\<exists>outcome err g'. IngestWithOutcome rt now io cfg symptom g = Some (outcome, err, g') \<and> reachable rt p g' \<and>
    (err = None \<longrightarrow> Nodes g = [] \<and> Edges g = [] \<and> validateBeliefGraph g' = None \<and>
       extractFrontierInternal rt 1 g' \<noteq> None \<and>
       (\<exists>proposal o0. chooseProposal rt io cfg symptom = Inr (proposal, o0) \<and> ip_Hypotheses proposal \<noteq> [] \<and>
          (\<forall>h \<in> set (ip_Hypotheses proposal). has_hypothesis g' h))) \<and>
    ((\<exists>e. ii_ctxErr io = Some e) \<or> trim_space symptom = [] \<longrightarrow> err \<noteq> None \<and> g' = g)"
proof (cases "ii_ctxErr io = None \<and> trim_space symptom \<noteq> [] \<and> (\<exists>r. chooseProposal rt io cfg symptom = Inr r)")
  case False
  with assms show ?thesis
    by (auto simp: IngestWithOutcome_def Let_def split: option.splits sum.splits)
next
  case True
  then obtain proposal o0 where ch: "chooseProposal rt io cfg symptom = Inr (proposal, o0)" by auto
  note wf = reachable_wf [OF assms] and ok = chooseProposal_ok [OF ch]
  let ?u = "UpdateCopyOnWrite rt now (ingestCallback rt now proposal o0) g"
  have "buildIngest rt now proposal o0 (deepCopy g) \<noteq> None"
    unfolding buildIngest_def case_prod_unfold Let_def by (rule addHypotheses_total) (simp add: ok del: not_None_eq)
  then have "applyIngestProposal rt now proposal o0 (deepCopy g) \<noteq> None"
    by (simp add: applyIngestProposal_def del: not_None_eq)
  then obtain r where r: "applyIngestProposal rt now proposal o0 (deepCopy g) = Some r" by blast
  have same: "UpdateCopyOnWrite rt now (\<lambda>_. r) g = ?u"
    using r by (simp add: UpdateCopyOnWrite_def ingestCallback_def)
  have run: "\<exists>outcome err. IngestWithOutcome rt now io cfg symptom g = Some (outcome, err, snd ?u) \<and>
      (err = None \<longleftrightarrow> Committed (fst ?u))"
    using True ch r by (simp add: IngestWithOutcome_def same case_prod_unfold Let_def)
  have hyps: "(\<forall>h \<in> set (ip_Hypotheses proposal). has_hypothesis (snd ?u) h) \<and> Nodes g = [] \<and> Edges g = [] \<and>
      graph_valid (snd ?u)" if c: "Committed (fst ?u)"
  proof -
    obtain cp where cp: "Nodes g = []" "Edges g = []" "buildIngest rt now proposal o0 (deepCopy g) = Some cp"
        "limitErr cp = None" "Nodes (snd ?u) = Nodes cp"
      using ingest_committed [OF c wf] by blast
    have "\<forall>h \<in> set (ip_Hypotheses proposal). has_hypothesis cp h"
      by (rule buildIngest_nodes [OF _ cp(3,4)]) (simp add: wf)
    then show ?thesis using cp ingest.commits_valid [OF c] by (simp add: has_hypothesis_def)
  qed
  have reach: "reachable rt p (snd ?u)" by (rule ingest.stays_reachable [OF assms])
  have "extractFrontierInternal rt 1 (snd ?u) \<noteq> None" if c: "Committed (fst ?u)"
  proof -
    obtain h where "h \<in> set (ip_Hypotheses proposal)" using ok by (cases "ip_Hypotheses proposal") auto
    then obtain k n where "gm_get (Nodes (snd ?u)) k = Some n" "active_hypothesis n" "n_Level n = 1"
      using hyps [OF c] unfolding has_hypothesis_def by blast
    then have "n \<in> set (hypothesesAt 1 (snd ?u))"
      by (force simp: hypothesesAt_def dest: gm_get_in)
    then show ?thesis unfolding extractFrontier_None by auto
  qed
  with run hyps reach ch ok True show ?thesis by (metis validate_valid_iff option.distinct(1))
qed

text \<open>ingest never panics and leaves a graph the engine can build. When it succeeds the graph was
  empty before, and is now valid and holds every hypothesis of the proposal that was chosen, of
  which there is at least one, as an active hypothesis of level 1: the engine finds a frontier.
  When it fails before the update the graph is untouched.\<close>

theorem ingest_sound:
  assumes "reachable rt p g"
  shows "\<exists>outcome err g'. IngestWithOutcome rt now io cfg symptom g = Some (outcome, err, g') \<and> reachable rt p g' \<and>
    (err = None \<longrightarrow> Nodes g = [] \<and> Edges g = [] \<and> validateBeliefGraph g' = None \<and>
       extractFrontierInternal rt 1 g' \<noteq> None \<and>
       (\<exists>proposal o0. chooseProposal rt io cfg symptom = Inr (proposal, o0) \<and> ip_Hypotheses proposal \<noteq> [] \<and>
          (\<forall>h \<in> set (ip_Hypotheses proposal). has_hypothesis g' h))) \<and>
    ((\<exists>e. ii_ctxErr io = Some e) \<or> trim_space symptom = [] \<longrightarrow> err \<noteq> None \<and> g' = g)"
  by (rule ingest_facts [OF assms])

definition demo_proposal :: ingest_proposal where
  "demo_proposal = \<lparr>ip_Signal = ''s'', ip_Observations = [],
     ip_Hypotheses = [\<lparr>hp_Label = ''a'', hp_Score = 1/2, hp_Why = ''w'', hp_Actionable = Some True\<rparr>]\<rparr>"

definition demo_ingest_io :: ingest_io where
  "demo_ingest_io = \<lparr>ii_ctxErr = None, ii_ctxErrAfter = None, ii_template = [], ii_generate = Some (\<lambda>_. Inr [lbrace, rbrace]),
     ii_decode = (\<lambda>_. Inr (demo_proposal, False))\<rparr>"

definition demo_ingest_config :: gos_config where
  "demo_ingest_config = demo_small\<lparr>c_StructuredCognition := (c_StructuredCognition demo_small)\<lparr>sg_Enabled := True\<rparr>\<rparr>"

definition demo_empty :: "unit belief_graph" where
  "demo_empty = NewBeliefGraphWithPolicy \<lparr>CheckpointInterval = 3, MaxNodes = 5, MaxEdges = 5, MaxDepth = 2,
     MaxSnapshots = 2, MaxDeltas = 2\<rparr>"

lemma demo_ingest:
  obtains outcome g' where
    "IngestWithOutcome demo_plan_rt 1 demo_ingest_io demo_ingest_config ''s'' demo_empty = Some (outcome, None, g')"
    "length (Nodes g') = 2"
proof -
  have "case IngestWithOutcome demo_plan_rt 1 demo_ingest_io demo_ingest_config ''s'' demo_empty of
      None \<Rightarrow> False | Some (outcome, err, g') \<Rightarrow> err = None \<and> length (Nodes g') = 2"
    by code_simp
  then show thesis using that by (auto split: option.splits)
qed

theorem ingest_sound_witness:
  "\<exists>outcome g'. IngestWithOutcome demo_plan_rt 1 demo_ingest_io demo_ingest_config ''s'' demo_empty = Some (outcome, None, g') \<and>
     length (Nodes g') = 2 \<and> validateBeliefGraph g' = None \<and> extractFrontierInternal demo_plan_rt 1 g' \<noteq> None"
proof -
  obtain outcome g' where r:
    "IngestWithOutcome demo_plan_rt 1 demo_ingest_io demo_ingest_config ''s'' demo_empty = Some (outcome, None, g')"
    "length (Nodes g') = 2" by (rule demo_ingest)
  have "reachable demo_plan_rt \<lparr>CheckpointInterval = 3, MaxNodes = 5, MaxEdges = 5, MaxDepth = 2, MaxSnapshots = 2, MaxDeltas = 2\<rparr>
      demo_empty"
    unfolding demo_empty_def by (rule reachable.start)
  from ingest_sound [OF this, of 1 demo_ingest_io demo_ingest_config "''s''"] r show ?thesis by simp
qed

end
