(* ===== verification/Gos_Engine_Properties.thy ===== *)
theory Gos_Engine_Properties
  imports Gos_Engine Gos_Report_Properties Gos_Planner_Properties Gos_Ingestor_Properties
begin

text \<open>
  What a run of the engine guarantees, whatever the models, the experts and the clock do: how
  many rounds it takes, what it spends, that it never plans the same goal twice, what state it
  leaves the graph in, and what stands behind a result that is called successful.
\<close>

subsection \<open>The rounds of a run\<close>

text \<open>A run of the loop from a state: the state before the next round, and the plans of the rounds so
  far.\<close>

inductive rounds ::
    "'h gort \<Rightarrow> engine_io \<Rightarrow> 'h gos_engine \<Rightarrow> 'h run_state \<Rightarrow> 'h run_state \<Rightarrow> plan_item list list \<Rightarrow> bool"
  for rt io e s0 where
  start: "rounds rt io e s0 s0 []"
| go_on: "rounds rt io e s0 s ps \<Longrightarrow> currentFrontier rt s = Some f \<Longrightarrow> planPhase rt io e s f = Inr (plan, s1) \<Longrightarrow>
    runRound rt io e s = Again s' \<Longrightarrow> rounds rt io e s0 (next_round s') (ps @ [plan])"

lemma rounds_first:
  assumes "rounds rt io e (next_round s') s ps"
    and "currentFrontier rt s0 = Some f" "planPhase rt io e s0 f = Inr (plan, s1)" "runRound rt io e s0 = Again s'"
  shows "rounds rt io e s0 s (plan # ps)"
  using assms(1)
proof induction
  case start
  show ?case using rounds.go_on [OF rounds.start assms(2-4)] by simp
next
  case (go_on s ps f plan' s1 s'')
  show ?case using rounds.go_on [OF go_on.IH go_on.hyps(2-4)] by simp
qed

text \<open>The loop ends, and it ends with the round after some rounds that went on.\<close>

lemma runLoop_rounds:
  "\<exists>s ps. rounds rt io e s0 s ps \<and> runRound rt io e s = runLoop rt io e s0 \<and> (\<forall>s'. runLoop rt io e s0 \<noteq> Again s')"
proof (induction rt io e s0 rule: runLoop.induct)
  case (1 rt io e s0)
  show ?case
  proof (cases "runRound rt io e s0")
    case (Again s')
    obtain f plan s1 ar s2 s3 s4 where r: "currentFrontier rt s0 = Some f" "planPhase rt io e s0 f = Inr (plan, s1)"
      by (rule runRound_again [OF Again])
    obtain s ps where "rounds rt io e (next_round s') s ps" "runRound rt io e s = runLoop rt io e (next_round s')"
        "\<forall>s''. runLoop rt io e (next_round s') \<noteq> Again s''"
      using 1 [OF Again] by blast
    moreover have "runLoop rt io e s0 = runLoop rt io e (next_round s')"
      by (simp add: runLoop.simps [of rt io e s0] Again)
    ultimately show ?thesis using rounds_first [OF _ r Again] by metis
  next
    case (Finish s')
    have "runLoop rt io e s0 = Finish s'" by (simp add: runLoop.simps [of rt io e s0] Finish)
    then show ?thesis using rounds.start [of rt io e s0] Finish by auto
  next
    case (Degrade s' r er ar u)
    have "runLoop rt io e s0 = Degrade s' r er ar u" by (simp add: runLoop.simps [of rt io e s0] Degrade)
    then show ?thesis using rounds.start [of rt io e s0] Degrade by auto
  qed
qed

subsection \<open>Steps\<close>

lemma decidePhase_steps:
  assumes "decidePhase rt io e s = Again s'"
  shows "rs_Steps (s_stats s') = rs_Steps (s_stats s) \<and> TotalSteps (s_fsm s') = TotalSteps (s_fsm s) \<and>
    s_history s' = s_history s"
proof (cases "sc_Enabled (c_StateConversion (e_cfg e))")
  case True
  let ?d = "Decide rt (e_cfg e) (s_graph s) (s_fsm s)
    \<lparr>cb_UsedSteps = rs_Steps (s_stats s), cb_MaxSteps = c_SessionMaxSteps (e_cfg e)\<rparr>"
  from True assms have c: "convertPhase rt io e s = Again s'" by (simp add: decidePhase_def)
  have "s_fsm s' = snd (snd (Apply rt (ei_now io (s_round s) ''apply'') ?d (s_graph s) (s_fsm s))) \<and> s_history s' = s_history s"
    using c by (auto simp: convertPhase_def case_prod_unfold Let_def split: option.splits decision_action.splits)
  moreover have "TotalSteps (snd (snd (Apply rt now d g f))) = TotalSteps f" for now d g f
  proof -
    have "TotalSteps (MarkDone r f) = TotalSteps f" "TotalSteps (snd (BacktrackTo l r f)) = TotalSteps f" for l r
      by (simp_all add: MarkDone_def TransitionTo_def transitionTo_def BacktrackTo_def Let_def)
    then show ?thesis using Apply_controller [of rt now d g f] DrillDown_steps by metis
  qed
  ultimately show ?thesis using convertPhase_again [OF c] by simp
next
  case False
  then have "fsmPhase rt e s = Again s'" using assms by (simp add: decidePhase_def)
  moreover from this have "s_history s' = s_history s"
    by (auto simp: fsmPhase_def stepLimit_def panicked_def split: option.splits if_splits)
  ultimately show ?thesis using fsmPhase_again [of rt e s s'] by simp
qed

lemma round_counts:
  assumes "runRound rt io e s = Again s'"
  shows "rs_Steps (s_stats s') = rs_Steps (s_stats s) + 1 \<and> TotalSteps (s_fsm s') = TotalSteps (s_fsm s) + 1"
proof -
  obtain f plan s1 ar s2 s3 s4 where r: "planPhase rt io e s f = Inr (plan, s1)"
    "actPhase rt io e s1 f plan = (ar, None, s2)" "updatePhase rt io e s2 f ar = Inr s3"
    "progressPhase rt e (captureGraphProgress (s_graph s) (Some f)) ar s3 = Inr s4"
    "decidePhase rt io e (tickPhase s4) = Again s'"
    by (rule runRound_again [OF assms])
  show ?thesis
    using planPhase_same [OF r(1)] actPhase_same [OF r(2)] updatePhase_same [OF r(3)] progressPhase_same [OF r(4)]
      decidePhase_steps [OF r(5)] by (simp add: tickPhase_same)
qed

lemma rounds_counts:
  assumes "rounds rt io e s0 s ps" "rs_Steps (s_stats s0) = TotalSteps (s_fsm s0)"
  shows "rs_Steps (s_stats s) = rs_Steps (s_stats s0) + int (length ps) \<and> TotalSteps (s_fsm s) = rs_Steps (s_stats s) \<and>
    (ps \<noteq> [] \<longrightarrow> rs_Steps (s_stats s) < c_SessionMaxSteps (e_cfg e))"
  using assms
proof (induction rule: rounds.induct)
  case start
  then show ?case by simp
next
  case (go_on s ps f plan s1 s')
  have "steps_of e s' = rs_Steps (s_stats s')"
    using round_counts [OF go_on.hyps(4)] go_on.IH go_on.prems by (simp add: steps_of_def)
  with round_counts [OF go_on.hyps(4)] runRound_steps [OF go_on.hyps(4)] go_on.IH go_on.prems show ?case
    by (simp add: next_round_def)
qed

text \<open>The steps a run reports, however its last round ends.\<close>

definition end_steps :: "'h round_end \<Rightarrow> int" where
  "end_steps r = (case r of Again s \<Rightarrow> rs_Steps (s_stats s) | Finish s \<Rightarrow> rs_Steps (s_stats s)
     | Degrade s reason err ar u \<Rightarrow> rs_Steps (s_stats s))"

lemma decidePhase_end: "end_steps (decidePhase rt io e s) = rs_Steps (s_stats s)"
  by (auto simp: decidePhase_def convertPhase_def fsmPhase_def stepLimit_def panicked_def case_prod_unfold Let_def
      end_steps_def latency_def addPhaseLatency_def split: option.splits decision_action.splits)

lemma planPhase_end: "planPhase rt io e s f = Inl r \<Longrightarrow> end_steps r = rs_Steps (s_stats s)"
  by (auto simp: planPhase_def case_prod_unfold Let_def latency_def addPhaseLatency_def end_steps_def split: option.splits)

lemma updatePhase_end: "updatePhase rt io e s f ar = Inl r \<Longrightarrow> end_steps r = rs_Steps (s_stats s)"
  by (auto simp: updatePhase_def panicked_def Let_def latency_def addPhaseLatency_def end_steps_def
      split: if_splits option.splits)

lemma progressPhase_end: "progressPhase rt e before ar s = Inl r \<Longrightarrow> end_steps r = rs_Steps (s_stats s)"
  by (auto simp: progressPhase_def Let_def observeGraph_def observeProgress_def end_steps_def split: if_splits)

lemma afterPlan_end: "end_steps (afterPlan rt io e before f plan s) \<in> {rs_Steps (s_stats s), rs_Steps (s_stats s) + 1}"
proof -
  obtain ar err s1 where a: "actPhase rt io e s f plan = (ar, err, s1)" by (cases "actPhase rt io e s f plan")
  note A = actPhase_same [OF a]
  show ?thesis
  proof (cases "updatePhase rt io e s1 f ar")
    case (Inl r)
    with a A updatePhase_end [OF Inl] show ?thesis by (simp add: afterPlan_def)
  next
    case (Inr s2)
    note U = updatePhase_same [OF Inr]
    show ?thesis
    proof (cases err)
      case (Some er)
      with a A U Inr show ?thesis by (simp add: afterPlan_def end_steps_def)
    next
      case None
      show ?thesis
      proof (cases "progressPhase rt e before ar s2")
        case (Inl r)
        with a A U Inr None progressPhase_end [OF Inl] show ?thesis by (simp add: afterPlan_def)
      next
        case p: (Inr s3)
        with a A U Inr None progressPhase_same [OF p] show ?thesis
          by (simp add: afterPlan_def decidePhase_end tickPhase_same)
      qed
    qed
  qed
qed

lemma runRound_end: "end_steps (runRound rt io e s) \<in> {rs_Steps (s_stats s), rs_Steps (s_stats s) + 1}"
proof (cases "IsFinalState (s_fsm s) \<or> currentFrontier rt s = None")
  case True
  then show ?thesis by (auto simp: runRound_def end_steps_def)
next
  case False
  then obtain f where f: "\<not> IsFinalState (s_fsm s)" "currentFrontier rt s = Some f" by blast
  show ?thesis
  proof (cases "planPhase rt io e s f")
    case (Inl r)
    with f planPhase_end [OF Inl] show ?thesis by (simp add: runRound_def)
  next
    case (Inr ps)
    obtain plan s1 where "ps = (plan, s1)" by (cases ps)
    with f Inr planPhase_same [of rt io e s f plan s1]
      afterPlan_end [of rt io e "captureGraphProgress (s_graph s) (Some f)" f plan s1]
    show ?thesis by (simp add: runRound_def)
  qed
qed

lemma runLoop_end:
  assumes "rs_Steps (s_stats s0) = 0" "TotalSteps (s_fsm s0) = 0"
  shows "end_steps (runLoop rt io e s0) \<le> max 1 (c_SessionMaxSteps (e_cfg e))"
proof -
  obtain s ps where r: "rounds rt io e s0 s ps" "runRound rt io e s = runLoop rt io e s0"
    using runLoop_rounds by blast
  have "rs_Steps (s_stats s) \<le> max 0 (c_SessionMaxSteps (e_cfg e) - 1)"
    using rounds_counts [OF r(1)] assms by (cases "ps = []") auto
  moreover have "end_steps (runLoop rt io e s0) \<le> rs_Steps (s_stats s) + 1"
    using runRound_end [of rt io e s] r(2) by auto
  ultimately show ?thesis by linarith
qed

subsection \<open>Plans\<close>

lemma planTotal_eq: "planTotal items = plan_total items"
proof -
  have "foldl (\<lambda>b item. addPlanBudgets b (pi_Budget item)) b items = foldl addPlanBudgets b (map pi_Budget items)" for b
    by (induction items arbitrary: b) simp_all
  then show ?thesis by (simp add: planTotal_def plan_total_def)
qed

lemma add_budget_zero [simp]: "addPlanBudgets b zero_budget = b" "addPlanBudgets zero_budget b = b"
  by (simp_all add: addPlanBudgets_def zero_budget_def)

lemma add_budget_assoc: "addPlanBudgets (addPlanBudgets a b) c = addPlanBudgets a (addPlanBudgets b c)"
  by (simp add: addPlanBudgets_def)

lemma add_budget_commute: "addPlanBudgets a b = addPlanBudgets b a"
  by (simp add: addPlanBudgets_def)

lemma planTotal_append: "planTotal (xs @ ys) = addPlanBudgets (planTotal xs) (planTotal ys)"
proof -
  have "foldl (\<lambda>b item. addPlanBudgets b (pi_Budget item)) a ys =
      addPlanBudgets a (foldl (\<lambda>b item. addPlanBudgets b (pi_Budget item)) zero_budget ys)" for a
  proof (induction ys rule: rev_induct)
    case Nil
    then show ?case by simp
  next
    case (snoc y ys)
    then show ?case by (simp add: add_budget_assoc)
  qed
  then show ?thesis unfolding planTotal_def foldl_append .
qed

lemma insert_keys: "set (foldl (\<lambda>ks item. List.insert (planGoalKey rt item) ks) ks items) = set ks \<union> planGoalKey rt ` set items"
  by (induction items arbitrary: ks) auto

text \<open>What a plan that is reserved guarantees.\<close>

lemma planPhase_ok:
  assumes "planPhase rt io e s f = Inr (plan, s1)"
  shows "addPlanBudgets (ph_RemainingBudget (s_history s1)) (planTotal plan) = ph_RemainingBudget (s_history s) \<and>
    \<not> exceedsPlanBudget (planTotal plan) (ph_RemainingBudget (s_history s)) \<and>
    set (ph_CalledGoalKeys (s_history s1)) = set (ph_CalledGoalKeys (s_history s)) \<union> planGoalKey rt ` set plan \<and>
    distinct (map (planGoalKey rt) plan) \<and> planGoalKey rt ` set plan \<inter> set (ph_CalledGoalKeys (s_history s)) = {} \<and>
    (\<forall>item \<in> set plan. item_ok (enginePlanner e) (planningContext s f) item \<and> pi_TargetHypothesisID item = f_NodeID f) \<and>
    rs_RemainingBudget (s_stats s1) = ph_RemainingBudget (s_history s1)"
proof -
  let ?p = "PlanWithContext rt (ei_plan io (s_round s)) (enginePlanner e) (planningContext s f)"
  obtain outcome where o: "?p = (outcome, None)" "plan = po_Items outcome"
      "subtractPlanBudget (ph_RemainingBudget (s_history s)) (planTotal plan) = (ph_RemainingBudget (s_history s1), None)"
      "ph_CalledGoalKeys (s_history s1) =
         foldl (\<lambda>ks item. List.insert (planGoalKey rt item) ks) (ph_CalledGoalKeys (s_history s)) plan"
      "rs_RemainingBudget (s_stats s1) = ph_RemainingBudget (s_history s1)"
    using assms
    by (cases ?p; cases "snd ?p") (auto simp: planPhase_def enginePlan_def case_prod_unfold Let_def prod_eq_iff
        split: option.splits if_splits)
  have plan: "distinct (map (planGoalKey rt) plan) \<and> planGoalKey rt ` set plan \<inter> set (ph_CalledGoalKeys (s_history s)) = {} \<and>
    (\<forall>item \<in> set plan. item_ok (enginePlanner e) (planningContext s f) item \<and> pi_TargetHypothesisID item = f_NodeID f)"
  proof (cases "p_experts (enginePlanner e) = []")
    case True
    with o(1,2) have "plan = []" by (auto simp: PlanWithContext_def no_outcome_def split: option.splits)
    then show ?thesis by simp
  next
    case False
    from plan_contract_facts [OF o(1) this] show ?thesis
      by (auto simp: plan_ok_def o(2) planningContext_def)
  qed
  have "\<not> exceedsPlanBudget (planTotal plan) (ph_RemainingBudget (s_history s)) \<and>
      addPlanBudgets (ph_RemainingBudget (s_history s1)) (planTotal plan) = ph_RemainingBudget (s_history s)"
    using o(3) unfolding subtract_spec .
  with plan o(4,5) show ?thesis by (simp add: insert_keys)
qed

lemma updatePhase_history:
  "updatePhase rt io e s f ar = Inr s' \<Longrightarrow>
   ph_CalledGoalKeys (s_history s') = ph_CalledGoalKeys (s_history s) \<and>
   ph_RemainingBudget (s_history s') = ph_RemainingBudget (s_history s)"
  by (auto simp: updatePhase_def Let_def split: if_splits option.splits)

lemma round_history:
  assumes "runRound rt io e s = Again s'" "currentFrontier rt s = Some f" "planPhase rt io e s f = Inr (plan, s1)"
  shows "ph_CalledGoalKeys (s_history s') = ph_CalledGoalKeys (s_history s1) \<and>
    ph_RemainingBudget (s_history s') = ph_RemainingBudget (s_history s1)"
proof -
  obtain f' plan' s1' ar s2 s3 s4 where r: "currentFrontier rt s = Some f'" "planPhase rt io e s f' = Inr (plan', s1')"
    "actPhase rt io e s1' f' plan' = (ar, None, s2)" "updatePhase rt io e s2 f' ar = Inr s3"
    "progressPhase rt e (captureGraphProgress (s_graph s) (Some f')) ar s3 = Inr s4"
    "decidePhase rt io e (tickPhase s4) = Again s'"
    by (rule runRound_again [OF assms(1)])
  have "s1' = s1" using r(1,2) assms(2,3) by simp
  then show ?thesis
    using actPhase_same [OF r(3)] updatePhase_history [OF r(4)] progressPhase_same [OF r(5)] decidePhase_steps [OF r(6)]
    by (simp add: tickPhase_same)
qed

lemma rounds_plans:
  assumes "rounds rt io e s0 s ps" "ph_CalledGoalKeys (s_history s0) = []"
  shows "addPlanBudgets (ph_RemainingBudget (s_history s)) (planTotal (concat ps)) = ph_RemainingBudget (s_history s0) \<and>
    set (ph_CalledGoalKeys (s_history s)) = planGoalKey rt ` set (concat ps) \<and> distinct (map (planGoalKey rt) (concat ps))"
  using assms
proof (induction rule: rounds.induct)
  case start
  then show ?case by (simp add: planTotal_def)
next
  case (go_on s ps f plan s1 s')
  note IH = go_on.IH [OF go_on.prems] and P = planPhase_ok [OF go_on.hyps(3)]
  note H = round_history [OF go_on.hyps(4,2,3)]
  have "addPlanBudgets (ph_RemainingBudget (s_history s1)) (planTotal (concat ps @ plan)) = ph_RemainingBudget (s_history s0)"
    using IH P unfolding planTotal_append by (metis add_budget_assoc add_budget_commute)
  moreover have "distinct (map (planGoalKey rt) (concat ps @ plan))"
    unfolding map_append distinct_append set_map using IH P by blast
  ultimately show ?case using IH P H by (auto simp: next_round_def)
qed

subsection \<open>The graph, the controller and the counters\<close>

definition run_reach :: "'h gort \<Rightarrow> 'h gos_engine \<Rightarrow> 'h run_state \<Rightarrow> bool" where
  "run_reach rt e s \<longleftrightarrow> reachable rt (ToGraphPolicy (e_cfg e)) (s_graph s) \<and>
     fsm_reachable (ToFSMThresholds (e_cfg e)) (s_fsm s)"

definition run_inv :: "'h gort \<Rightarrow> 'h gos_engine \<Rightarrow> 'h run_state \<Rightarrow> bool" where
  "run_inv rt e s \<longleftrightarrow> run_reach rt e s \<and> graph_valid (s_graph s) \<and>
     0 \<le> rs_ExpertDegraded (s_stats s) \<and> 0 \<le> rs_ExpertFailed (s_stats s)"

definition end_inv :: "'h gort \<Rightarrow> 'h gos_engine \<Rightarrow> 'h round_end \<Rightarrow> bool" where
  "end_inv rt e r = (case r of Again s \<Rightarrow> run_inv rt e s | Finish s \<Rightarrow> run_inv rt e s
     | Degrade s reason err ar u \<Rightarrow> run_reach rt e s)"

lemma end_inv_simps [simp]:
  "end_inv rt e (Again s) = run_inv rt e s" "end_inv rt e (Finish s) = run_inv rt e s"
  "end_inv rt e (Degrade s reason err ar u) = run_reach rt e s" "end_inv rt e (panicked s) = run_reach rt e s"
  by (simp_all add: end_inv_def panicked_def)

lemma run_inv_cong:
  "run_inv rt e s \<Longrightarrow> s_graph s' = s_graph s \<Longrightarrow> s_fsm s' = s_fsm s \<Longrightarrow>
   rs_ExpertDegraded (s_stats s') = rs_ExpertDegraded (s_stats s) \<Longrightarrow>
   rs_ExpertFailed (s_stats s') = rs_ExpertFailed (s_stats s) \<Longrightarrow> run_inv rt e s'"
  by (simp add: run_inv_def run_reach_def)

lemma run_inv_reach: "run_inv rt e s \<Longrightarrow> run_reach rt e s"
  by (simp add: run_inv_def)

lemma run_reach_cong:
  "run_reach rt e s \<Longrightarrow> s_graph s' = s_graph s \<Longrightarrow> s_fsm s' = s_fsm s \<Longrightarrow> run_reach rt e s'"
  by (simp add: run_reach_def)

lemma beliefText_valid [simp]: "graph_valid (generateBeliefTextInternal g) = graph_valid g"
  by (rule graph_valid_cong) (simp_all add: generateBeliefTextInternal_def Let_def)

lemma tickPhase_inv: "run_inv rt e s \<Longrightarrow> run_inv rt e (tickPhase s)"
  unfolding run_inv_def run_reach_def tickPhase_def
  by (auto intro: reachable.operation beliefText_mutation fsm_reachable.tick)

lemma stepLimit_inv: "run_inv rt e s \<Longrightarrow> end_inv rt e (stepLimit e s)"
  by (simp add: stepLimit_def end_inv_def run_inv_def run_reach_def MarkDone_reachable)

lemma fsmPhase_inv:
  assumes "run_inv rt e s"
  shows "end_inv rt e (fsmPhase rt e s)"
proof -
  have "run_inv rt e (s\<lparr>s_fsm := MarkDone r (s_fsm s)\<rparr>)" "run_inv rt e (s\<lparr>s_fsm := DrillDown r (s_fsm s)\<rparr>)" for r
    using assms by (simp_all add: run_inv_def run_reach_def MarkDone_reachable fsm_reachable.drill)
  then show ?thesis
    using assms run_inv_reach [OF assms] by (simp add: fsmPhase_def stepLimit_inv split: option.split)
qed

lemma convertPhase_inv:
  assumes "run_inv rt e s"
  shows "end_inv rt e (convertPhase rt io e s)"
proof -
  let ?d = "Decide rt (e_cfg e) (s_graph s) (s_fsm s)
    \<lparr>cb_UsedSteps = rs_Steps (s_stats s), cb_MaxSteps = c_SessionMaxSteps (e_cfg e)\<rparr>"
  let ?a = "Apply rt (ei_now io (s_round s) ''apply'') ?d (s_graph s) (s_fsm s)"
  have "run_inv rt e (s\<lparr>s_graph := fst (snd ?a), s_fsm := snd (snd ?a)\<rparr>)"
    using assms by (simp add: run_inv_def run_reach_def Apply_reachable Apply_valid Apply_controller_reachable)
  from run_inv_cong [OF this] run_inv_reach [OF run_inv_cong [OF this]] show ?thesis
    by (auto simp: convertPhase_def case_prod_unfold Let_def latency_def addPhaseLatency_def
        split: option.splits decision_action.splits)
qed

lemma decidePhase_inv: "run_inv rt e s \<Longrightarrow> end_inv rt e (decidePhase rt io e s)"
  by (simp add: decidePhase_def convertPhase_inv fsmPhase_inv)

lemma planPhase_inv:
  assumes "run_inv rt e s"
  shows "(case planPhase rt io e s f of Inl r \<Rightarrow> end_inv rt e r | Inr (plan, s1) \<Rightarrow> run_inv rt e s1)"
  using run_inv_cong [OF assms] run_reach_cong [OF run_inv_reach [OF assms]]
  by (auto simp: planPhase_def case_prod_unfold Let_def latency_def addPhaseLatency_def split: option.split)

lemma actPhase_inv:
  assumes "run_inv rt e s" "actPhase rt io e s f plan = (ar, err, s')"
  shows "run_inv rt e s'"
proof -
  have "rs_ExpertDegraded (s_stats s') = rs_ExpertDegraded (s_stats s) + ar_DegradedCount ar"
    "rs_ExpertFailed (s_stats s') = rs_ExpertFailed (s_stats s) + ar_FailedCount ar"
    "0 \<le> ar_DegradedCount ar" "0 \<le> ar_FailedCount ar"
    using assms(2) by (auto simp: actPhase_def act_def case_prod_unfold Let_def latency_def addPhaseLatency_def
        addFailureCategories_def countCalls_same)
  then show ?thesis
    using assms(1) actPhase_same [OF assms(2)] by (simp add: run_inv_def run_reach_def)
qed

lemma updatePhase_inv:
  assumes "run_inv rt e s"
  shows "(case updatePhase rt io e s f ar of Inl r \<Rightarrow> end_inv rt e r | Inr s1 \<Rightarrow> run_inv rt e s1)"
proof -
  have "reachable rt (ToGraphPolicy (e_cfg e)) (s_graph s)" using assms by (simp add: run_inv_def run_reach_def)
  from updateGraph_reachable [OF this, of "ei_now io (s_round s) ''update''" "e_cfg e" "ei_ctxErr io (s_round s)"
      "ar_Analyses ar" "Some f"]
  obtain res g' where "updateGraph rt (ei_now io (s_round s) ''update'') (e_cfg e) (ei_ctxErr io (s_round s)) (ar_Analyses ar)
      (Some f) (s_graph s) = Some (res, g')" "reachable rt (ToGraphPolicy (e_cfg e)) g'" "Committed res \<longrightarrow> graph_valid g'"
    by blast
  with assms show ?thesis
    by (simp add: updatePhase_def Let_def run_inv_def run_reach_def latency_def addPhaseLatency_def)
qed

lemma progressPhase_inv:
  assumes "run_inv rt e s"
  shows "(case progressPhase rt e before ar s of Inl r \<Rightarrow> end_inv rt e r | Inr s1 \<Rightarrow> run_inv rt e s1)"
  using run_inv_cong [OF assms] run_reach_cong [OF run_inv_reach [OF assms]]
  by (simp add: progressPhase_def Let_def observeGraph_def observeProgress_def)

lemma afterPlan_inv:
  assumes "run_inv rt e s"
  shows "end_inv rt e (afterPlan rt io e before f plan s)"
proof -
  obtain ar err s1 where a: "actPhase rt io e s f plan = (ar, err, s1)" by (cases "actPhase rt io e s f plan")
  have i1: "run_inv rt e s1" by (rule actPhase_inv [OF assms a])
  show ?thesis
  proof (cases "updatePhase rt io e s1 f ar")
    case (Inl r)
    with a updatePhase_inv [OF i1, of io f ar] show ?thesis by (simp add: afterPlan_def)
  next
    case u: (Inr s2)
    have i2: "run_inv rt e s2" using updatePhase_inv [OF i1, of io f ar] u by simp
    have i3: "case progressPhase rt e before ar s2 of Inl r \<Rightarrow> end_inv rt e r | Inr s1 \<Rightarrow> run_inv rt e s1"
      by (rule progressPhase_inv [OF i2])
    then show ?thesis
      using a u run_inv_reach [OF i2] decidePhase_inv [OF tickPhase_inv]
      by (cases "progressPhase rt e before ar s2") (auto simp: afterPlan_def split: option.split)
  qed
qed

lemma runRound_inv:
  assumes "run_inv rt e s"
  shows "end_inv rt e (runRound rt io e s)"
proof (cases "currentFrontier rt s")
  case None
  with assms show ?thesis by (simp add: runRound_def run_inv_def run_reach_def MarkDone_reachable)
next
  case (Some f)
  with assms planPhase_inv [OF assms, of io f] afterPlan_inv show ?thesis
    by (auto simp: runRound_def split: sum.splits prod.splits)
qed

lemma next_round_inv [simp]: "run_inv rt e (next_round s) = run_inv rt e s"
  by (simp add: run_inv_def run_reach_def next_round_def)

lemma rounds_inv: "rounds rt io e s0 s ps \<Longrightarrow> run_inv rt e s0 \<Longrightarrow> run_inv rt e s"
proof (induction rule: rounds.induct)
  case (go_on s ps f plan s1 s')
  then show ?case using runRound_inv [of rt e s io] by simp
qed simp

lemma runLoop_inv: "run_inv rt e s0 \<Longrightarrow> end_inv rt e (runLoop rt io e s0)"
  using runLoop_rounds [of rt io e s0] rounds_inv runRound_inv by metis

lemma startState_reach: "run_reach rt e (startState e)"
  by (simp add: run_reach_def startState_def reachable.start fsm_reachable.new)

lemma ingestPhase_inv:
  "(case ingestPhase rt io e symptom (startState e) of Inl r \<Rightarrow> end_inv rt e r \<and> (\<forall>s. r \<noteq> Again s) \<and> end_steps r = 0
    | Inr s \<Rightarrow> run_inv rt e s \<and> rs_Steps (s_stats s) = 0 \<and> TotalSteps (s_fsm s) = 0 \<and>
        s_history s = s_history (startState e))"
proof -
  have r: "reachable rt (ToGraphPolicy (e_cfg e)) (s_graph (startState e))"
    by (simp add: startState_def reachable.start)
  from ingest_facts [OF r, of "ei_now io 0 ''ingest''" "ei_ingest io" "e_cfg e" symptom]
  obtain outcome err g' where i: "IngestWithOutcome rt (ei_now io 0 ''ingest'') (ei_ingest io) (e_cfg e) symptom
      (s_graph (startState e)) = Some (outcome, err, g')" "reachable rt (ToGraphPolicy (e_cfg e)) g'"
      "err = None \<longrightarrow> graph_valid g'"
    using validate_valid_iff by blast
  have s: "rs_ExpertDegraded (s_stats (startState e)) = 0" "rs_ExpertFailed (s_stats (startState e)) = 0"
      "rs_Steps (s_stats (startState e)) = 0" "TotalSteps (s_fsm (startState e)) = 0"
      "fsm_reachable (ToFSMThresholds (e_cfg e)) (s_fsm (startState e))"
    by (simp_all add: startState_def newRunStats_def NewBeliefFSM_def fsm_reachable.new [unfolded NewBeliefFSM_def])
  show ?thesis
    using i(2,3) s by (cases err)
      (simp_all add: ingestPhase_def i(1) Let_def run_inv_def run_reach_def latency_def addPhaseLatency_def observeGraph_def
        end_steps_def)
qed

lemma runToEnd_inv:
  "end_inv rt e (runToEnd rt io e symptom) \<and> (\<forall>s. runToEnd rt io e symptom \<noteq> Again s) \<and>
   end_steps (runToEnd rt io e symptom) \<le> max 1 (c_SessionMaxSteps (e_cfg e))"
proof (cases "ValidateGraphConfig (Some (e_cfg e))")
  case (Some err)
  then show ?thesis
    using startState_reach [of rt e]
    by (simp add: runToEnd_def Let_def end_steps_def newRunStats_def run_reach_def max_def)
next
  case None
  show ?thesis
  proof (cases "ingestPhase rt io e symptom (startState e)")
    case (Inl r)
    with None ingestPhase_inv [of rt e io symptom] show ?thesis by (simp add: runToEnd_def Let_def)
  next
    case (Inr s)
    have i: "run_inv rt e s" "rs_Steps (s_stats s) = 0" "TotalSteps (s_fsm s) = 0"
      using ingestPhase_inv [of rt e io symptom] Inr by simp_all
    have "\<forall>s'. runLoop rt io e s \<noteq> Again s'" using runLoop_rounds by blast
    with None Inr runLoop_inv [OF i(1)] runLoop_end [OF i(2,3)] show ?thesis by (simp add: runToEnd_def Let_def)
  qed
qed

subsection \<open>The experts that failed\<close>

text \<open>How the experts of a round end, one status for every item of its plan, and what the statistics count of them.\<close>

definition round_statuses ::
    "engine_io \<Rightarrow> 'h gos_engine \<Rightarrow> 'h run_state \<Rightarrow> frontier \<Rightarrow> plan_item list \<Rightarrow> string list" where
  "round_statuses io e s f plan =
     map (\<lambda>ip. xa_Status (fst (actItem e (ei_cancelled io) (s_round s) f (s_graph s) ip))) (enumerate 0 plan)"

definition trouble :: "run_stats \<Rightarrow> int \<times> int" where
  "trouble st = (rs_ExpertDegraded st, rs_ExpertFailed st)"

definition more_trouble :: "string list \<Rightarrow> int \<times> int \<Rightarrow> int \<times> int" where
  "more_trouble statuses t =
     (fst t + count_if (\<lambda>x. x = ''degraded'') statuses, snd t + count_if (\<lambda>x. x = ''failed'') statuses)"

definition end_stats :: "'h round_end \<Rightarrow> run_stats" where
  "end_stats r = (case r of Again s \<Rightarrow> s_stats s | Finish s \<Rightarrow> s_stats s | Degrade s reason err ar u \<Rightarrow> s_stats s)"

lemma decidePhase_trouble: "trouble (end_stats (decidePhase rt io e s)) = trouble (s_stats s)"
  by (auto simp: decidePhase_def convertPhase_def fsmPhase_def stepLimit_def panicked_def case_prod_unfold Let_def
      end_stats_def trouble_def latency_def addPhaseLatency_def split: option.splits decision_action.splits)

lemma planPhase_trouble:
  "planPhase rt io e s f = Inl r \<Longrightarrow> trouble (end_stats r) = trouble (s_stats s)"
  "planPhase rt io e s f = Inr (plan, s1) \<Longrightarrow> trouble (s_stats s1) = trouble (s_stats s)"
  by (auto simp: planPhase_def case_prod_unfold Let_def latency_def addPhaseLatency_def end_stats_def trouble_def
      split: option.splits)

lemma actPhase_trouble:
  assumes "actPhase rt io e s f plan = (ar, err, s')"
  shows "trouble (s_stats s') = more_trouble (round_statuses io e s f plan) (trouble (s_stats s))"
  using assms by (auto simp: actPhase_def act_def case_prod_unfold Let_def latency_def addPhaseLatency_def
      addFailureCategories_def countCalls_same trouble_def more_trouble_def round_statuses_def count_if_def filter_map comp_def)

lemma updatePhase_trouble:
  "updatePhase rt io e s f ar = Inl r \<Longrightarrow> trouble (end_stats r) = trouble (s_stats s)"
  "updatePhase rt io e s f ar = Inr s1 \<Longrightarrow> trouble (s_stats s1) = trouble (s_stats s)"
  by (auto simp: updatePhase_def panicked_def Let_def latency_def addPhaseLatency_def end_stats_def trouble_def
      split: if_splits option.splits)

lemma progressPhase_trouble:
  "progressPhase rt e before ar s = Inl r \<Longrightarrow> trouble (end_stats r) = trouble (s_stats s)"
  "progressPhase rt e before ar s = Inr s1 \<Longrightarrow> trouble (s_stats s1) = trouble (s_stats s)"
  by (auto simp: progressPhase_def Let_def observeGraph_def observeProgress_def end_stats_def trouble_def split: if_splits)

lemma tickPhase_trouble: "trouble (s_stats (tickPhase s)) = trouble (s_stats s)"
  by (simp add: tickPhase_def trouble_def)

lemma afterPlan_trouble:
  "trouble (end_stats (afterPlan rt io e before f plan s)) = more_trouble (round_statuses io e s f plan) (trouble (s_stats s))"
proof -
  obtain ar err s1 where a: "actPhase rt io e s f plan = (ar, err, s1)" by (cases "actPhase rt io e s f plan")
  have "trouble (end_stats (afterPlan rt io e before f plan s)) = trouble (s_stats s1)"
  proof (cases "updatePhase rt io e s1 f ar")
    case (Inl r)
    with a updatePhase_trouble(1) [OF Inl] show ?thesis by (simp add: afterPlan_def)
  next
    case (Inr s2)
    note U = updatePhase_trouble(2) [OF Inr]
    show ?thesis
    proof (cases err)
      case (Some er)
      with a U Inr show ?thesis by (simp add: afterPlan_def end_stats_def)
    next
      case None
      with a U Inr progressPhase_trouble [of rt e before ar s2] show ?thesis
        by (cases "progressPhase rt e before ar s2") (simp_all add: afterPlan_def decidePhase_trouble tickPhase_trouble)
    qed
  qed
  with actPhase_trouble [OF a] show ?thesis by simp
qed

text \<open>A round that acts adds its experts to the counters; any other leaves the counters alone.\<close>

lemma round_trouble:
  assumes "\<not> IsFinalState (s_fsm s)" "currentFrontier rt s = Some f" "planPhase rt io e s f = Inr (plan, s1)"
  shows "trouble (end_stats (runRound rt io e s)) = more_trouble (round_statuses io e s f plan) (trouble (s_stats s))"
proof -
  have "round_statuses io e s1 f plan = round_statuses io e s f plan"
    using planPhase_same [OF assms(3)] by (simp add: round_statuses_def)
  then show ?thesis
    using assms planPhase_trouble(2) [OF assms(3)] by (simp add: runRound_def afterPlan_trouble)
qed

definition no_more :: "int \<times> int \<Rightarrow> int \<times> int \<Rightarrow> bool" where
  "no_more a b \<longleftrightarrow> fst a \<le> fst b \<and> snd a \<le> snd b"

lemma round_no_more: "no_more (trouble (s_stats s)) (trouble (end_stats (runRound rt io e s)))"
proof (cases "IsFinalState (s_fsm s) \<or> currentFrontier rt s = None")
  case True
  then show ?thesis by (auto simp: runRound_def end_stats_def no_more_def trouble_def)
next
  case False
  then obtain f where f: "\<not> IsFinalState (s_fsm s)" "currentFrontier rt s = Some f" by blast
  show ?thesis
  proof (cases "planPhase rt io e s f")
    case (Inl r)
    with f planPhase_trouble(1) [OF Inl] show ?thesis by (simp add: runRound_def no_more_def)
  next
    case (Inr p)
    then have "planPhase rt io e s f = Inr (fst p, snd p)" by simp
    from round_trouble [OF f this] show ?thesis by (simp add: no_more_def more_trouble_def)
  qed
qed

lemma loop_no_more: "no_more (trouble (s_stats s)) (trouble (end_stats (runLoop rt io e s)))"
proof (induction rt io e s rule: runLoop.induct)
  case (1 rt io e s)
  note R = round_no_more [of s rt io e]
  show ?case
  proof (cases "runRound rt io e s")
    case (Again s')
    have "trouble (s_stats (next_round s')) = trouble (end_stats (runRound rt io e s))"
      by (simp add: Again end_stats_def next_round_def)
    with 1 [OF Again] R show ?thesis by (auto simp: runLoop.simps [of rt io e s] Again no_more_def)
  qed (use R in \<open>simp_all add: runLoop.simps [of rt io e s]\<close>)
qed

lemma rounds_loop: "rounds rt io e s0 s ps \<Longrightarrow> runLoop rt io e s = runLoop rt io e s0"
proof (induction rule: rounds.induct)
  case (go_on s ps f plan s1 s')
  then show ?case by (simp add: runLoop.simps [of rt io e s])
qed simp

text \<open>If the counters of a run are 0 in the end, none of the experts of its rounds has been degraded or has failed.\<close>

lemma all_succeeded:
  assumes start: "run_inv rt e s0" and "rounds rt io e s0 s ps" "trouble (end_stats (runLoop rt io e s0)) = (0, 0)"
    and act: "\<not> IsFinalState (s_fsm s)" "currentFrontier rt s = Some f" "planPhase rt io e s f = Inr (plan, s1)"
  shows "''degraded'' \<notin> set (round_statuses io e s f plan) \<and> ''failed'' \<notin> set (round_statuses io e s f plan)"
proof -
  let ?n = "\<lambda>v. count_if (\<lambda>t. t = v) (round_statuses io e s f plan)"
  have z: "trouble (end_stats (runLoop rt io e s)) = (0, 0)" using rounds_loop [OF assms(2)] assms(3) by simp
  have "no_more (trouble (end_stats (runRound rt io e s))) (trouble (end_stats (runLoop rt io e s)))"
  proof (cases "runRound rt io e s")
    case (Again s')
    then show ?thesis using loop_no_more [of "next_round s'" rt io e]
      by (simp add: runLoop.simps [of rt io e s] end_stats_def next_round_def)
  qed (simp_all add: runLoop.simps [of rt io e s] no_more_def)
  with z round_trouble [OF act] rounds_inv [OF assms(2) start] have "?n ''degraded'' \<le> 0" "?n ''failed'' \<le> 0"
    by (auto simp: no_more_def trouble_def more_trouble_def run_inv_def)
  then show ?thesis by (auto simp: count_if_def filter_empty_conv)
qed

subsection \<open>Results\<close>

lemma degraded_facts:
  assumes "run_reach rt e s"
  shows "reachable rt (ToGraphPolicy (e_cfg e)) (rr_Graph (degradedResult rt io e s reason err actRes u)) \<and>
    rr_Fsm (degradedResult rt io e s reason err actRes u) = s_fsm s \<and>
    rr_Status (degradedResult rt io e s reason err actRes u) = ResultDegraded \<and>
    rs_Steps (rr_Stats (degradedResult rt io e s reason err actRes u)) = rs_Steps (s_stats s) \<and>
    rr_NextActions (degradedResult rt io e s reason err actRes u) \<noteq> [] \<and>
    0 \<le> rr_Confidence (degradedResult rt io e s reason err actRes u) \<and>
    rr_Confidence (degradedResult rt io e s reason err actRes u) \<le> 1"
proof -
  have g: "reachable rt (ToGraphPolicy (e_cfg e)) (s_graph s)" using assms by (simp add: run_reach_def)
  have "reachable rt (ToGraphPolicy (e_cfg e)) (retryUpdate rt io e s actRes u)"
  proof -
    have "\<exists>res g'. updateGraph rt now (e_cfg e) None analyses (Some f) (s_graph s) = Some (res, g') \<and>
        reachable rt (ToGraphPolicy (e_cfg e)) g'" for now analyses f
      using updateGraph_reachable [OF g] by blast
    then show ?thesis using g unfolding retryUpdate_def
      by (auto split: option.split) (metis option.inject prod.inject)+
  qed
  then show ?thesis
    by (simp add: degradedResult_def Let_def observeGraph_def report_actions report_confidence)
qed

lemma report_facts:
  assumes "run_inv rt e s"
  shows "reachable rt (ToGraphPolicy (e_cfg e)) (rr_Graph (generateReport rt io e s)) \<and>
    rr_Fsm (generateReport rt io e s) = s_fsm s \<and>
    rs_Steps (rr_Stats (generateReport rt io e s)) = rs_Steps (s_stats s) \<and>
    rr_NextActions (generateReport rt io e s) \<noteq> [] \<and>
    0 \<le> rr_Confidence (generateReport rt io e s) \<and> rr_Confidence (generateReport rt io e s) \<le> 1"
proof (cases "validateBeliefGraph (s_graph s) = None \<and> selectReportFrontier rt (s_graph s) (Some (s_fsm s)) \<noteq> None")
  case True
  then obtain f where "validateBeliefGraph (s_graph s) = None" "selectReportFrontier rt (s_graph s) (Some (s_fsm s)) = Some f"
    by blast
  with assms show ?thesis
    by (simp add: generateReport_def Let_def observeGraph_def latency_def addPhaseLatency_def run_inv_def run_reach_def
        report_actions report_confidence)
next
  case False
  define s1 where "s1 = s\<lparr>s_stats := latency io (s_round s) ''report'' (s_stats s)\<rparr>"
  have "\<exists>reason err u. generateReport rt io e s = degradedResult rt io e s1 reason err None u"
  proof (cases "validateBeliefGraph (s_graph s)")
    case None
    then have "selectReportFrontier rt (s_graph s) (Some (s_fsm s)) = None" using False by simp
    with None show ?thesis unfolding generateReport_def Let_def s1_def by auto
  next
    case (Some err)
    then show ?thesis unfolding generateReport_def Let_def s1_def by auto
  qed
  then obtain reason err u where g: "generateReport rt io e s = degradedResult rt io e s1 reason err None u" by blast
  have "run_reach rt e s1" using assms by (simp add: run_inv_def run_reach_def s1_def)
  from degraded_facts [OF this, of io reason err None u]
  have "reachable rt (ToGraphPolicy (e_cfg e)) (rr_Graph (generateReport rt io e s)) \<and>
    rr_Fsm (generateReport rt io e s) = s_fsm s1 \<and>
    rs_Steps (rr_Stats (generateReport rt io e s)) = rs_Steps (s_stats s1) \<and>
    rr_NextActions (generateReport rt io e s) \<noteq> [] \<and>
    0 \<le> rr_Confidence (generateReport rt io e s) \<and> rr_Confidence (generateReport rt io e s) \<le> 1"
    unfolding g by blast
  then show ?thesis by (simp add: s1_def latency_def addPhaseLatency_def)
qed

text \<open>C3: every run comes to an end after at most as many rounds as the session allows, and at least one
  is always allowed. Whatever the models, the experts and the clock do, the graph it hands over
  is one that the graph's operations can build under the configured limits, the controller one
  its transitions can reach, the confidence lies between 0 and 1 and there is a next action.\<close>

theorem run_bounded:
  "rs_Steps (rr_Stats (Run rt io e symptom)) \<le> max 1 (c_SessionMaxSteps (e_cfg e)) \<and>
   reachable rt (ToGraphPolicy (e_cfg e)) (rr_Graph (Run rt io e symptom)) \<and>
   fsm_reachable (ToFSMThresholds (e_cfg e)) (rr_Fsm (Run rt io e symptom)) \<and>
   0 \<le> rr_Confidence (Run rt io e symptom) \<and> rr_Confidence (Run rt io e symptom) \<le> 1 \<and>
   rr_NextActions (Run rt io e symptom) \<noteq> []"
proof -
  note E = runToEnd_inv [of rt e io symptom]
  show ?thesis
  proof (cases "runToEnd rt io e symptom")
    case (Again s)
    with E show ?thesis by simp
  next
    case (Finish s)
    with E report_facts [of rt e s io] show ?thesis by (simp add: Run_def end_steps_def run_inv_def run_reach_def)
  next
    case (Degrade s reason err ar u)
    with E degraded_facts [of rt e s io reason err ar u] show ?thesis
      by (simp add: Run_def end_steps_def run_reach_def)
  qed
qed

subsection \<open>A run to evaluate\<close>

text \<open>One expert, which returns one supporting piece of evidence; the run reports after its first round.\<close>

definition demo_run_evidence :: evidence_item where
  "demo_run_evidence = \<lparr>ev_SourceType = ''log'', ev_SourceID = ''l1'', ev_Title = ''t'', ev_Snippet = [], ev_Score = 0,
     ev_Relation = relation_support, ev_TargetHypothesisID = ''node-2'', ev_Strength = 1/2, ev_ToolName = [],
     ev_ArtifactRef = [], ev_ObservationTime = 5\<rparr>"

definition demo_answer :: expert_analysis where
  "demo_answer =
     \<lparr>xa_ExpertName = ''linux_sre'', xa_Analysis = [], xa_Evidence = [demo_run_evidence], xa_Refinements = [],
      xa_CurrentHypothesisActionable = None, xa_Confidence = 1/2, xa_Status = ''succeeded'',
      xa_DegradationReason = [], xa_ToolErrors = [], xa_ToolCalls = 0, xa_RAGCalls = 0, xa_LLMCalls = 0\<rparr>"

definition demo_expert :: "nat \<Rightarrow> nat \<Rightarrow> unit expert_task \<Rightarrow> expert_run" where
  "demo_expert r i t = ExpertReturn (Some demo_answer)"

definition demo_engine :: "unit gos_engine" where
  "demo_engine = \<lparr>e_cfg = demo_ingest_config, e_experts = [(''linux_sre'', PlannedAgent demo_expert)]\<rparr>"

definition demo_plan_answers :: "nat \<Rightarrow> plan_io" where
  "demo_plan_answers r = demo_plan_io"

definition demo_not_cancelled :: "nat \<Rightarrow> nat \<Rightarrow> bool" where
  "demo_not_cancelled r i = False"

definition demo_no_error :: "nat \<Rightarrow> goerr option" where
  "demo_no_error r = None"

definition demo_clock :: "nat \<Rightarrow> string \<Rightarrow> int" where
  "demo_clock r p = 7"

definition demo_text :: "goerr \<Rightarrow> string" where
  "demo_text e = []"

definition demo_world :: engine_io where
  "demo_world = \<lparr>ei_ingest = demo_ingest_io, ei_plan = demo_plan_answers, ei_cancelled = demo_not_cancelled, ei_ctxErr = demo_no_error,
     ei_now = demo_clock, ei_elapsed = demo_clock, ei_errText = demo_text\<rparr>"


definition good_end :: "unit run_state \<Rightarrow> bool" where
  "good_end s \<longleftrightarrow>
     validateBeliefGraph (s_graph s) = None \<and>
     (case selectReportFrontier demo_plan_rt (s_graph s) (Some (s_fsm s)) of
        None \<Rightarrow> False
      | Some f \<Rightarrow>
          \<not> weakSupport demo_ingest_config (directSupports (Some f) (fst (scopeSplit (s_graph s) (Some f)))) \<and>
          reportConfidence (Some f) \<ge> fc_MinConfidence (c_FSM demo_ingest_config) \<and>
          scopeConflicts demo_ingest_config (s_graph s) (Some f) = [] \<and>
          rs_ExpertDegraded (s_stats s) = 0 \<and> rs_ExpertFailed (s_stats s) = 0)"

definition good_plan :: "unit run_state \<Rightarrow> frontier option \<Rightarrow> bool" where
  "good_plan s frontier \<longleftrightarrow>
     (case frontier of
        None \<Rightarrow> False
      | Some f \<Rightarrow> (case planPhase demo_plan_rt demo_world demo_engine s f of Inl _ \<Rightarrow> False | Inr p \<Rightarrow> length (fst p) = 1))"

definition good_round :: "unit round_end + unit run_state \<Rightarrow> bool" where
  "good_round r \<longleftrightarrow>
     (case r of
        Inl _ \<Rightarrow> False
      | Inr s0 \<Rightarrow> good_plan s0 (currentFrontier demo_plan_rt s0) \<and>
          (case runRound demo_plan_rt demo_world demo_engine s0 of Finish s \<Rightarrow> good_end s | _ \<Rightarrow> False))"

lemma demo_round: "good_round (ingestPhase demo_plan_rt demo_world demo_engine ''s'' (startState demo_engine))"
  by code_simp

lemma demo_rounds:
  obtains s0 s f plan s1 where
    "ingestPhase demo_plan_rt demo_world demo_engine ''s'' (startState demo_engine) = Inr s0"
    "runRound demo_plan_rt demo_world demo_engine s0 = Finish s" "good_end s"
    "currentFrontier demo_plan_rt s0 = Some f" "planPhase demo_plan_rt demo_world demo_engine s0 f = Inr (plan, s1)"
    "length plan = 1"
proof -
  obtain s0 s where r: "ingestPhase demo_plan_rt demo_world demo_engine ''s'' (startState demo_engine) = Inr s0"
    "runRound demo_plan_rt demo_world demo_engine s0 = Finish s" "good_end s"
    "good_plan s0 (currentFrontier demo_plan_rt s0)"
    using demo_round by (auto simp: good_round_def split: sum.splits round_end.splits)
  then obtain f where f: "currentFrontier demo_plan_rt s0 = Some f" by (auto simp: good_plan_def split: option.splits)
  show thesis
  proof (cases "planPhase demo_plan_rt demo_world demo_engine s0 f")
    case (Inl e)
    with r(4) f show thesis by (simp add: good_plan_def)
  next
    case (Inr p)
    with r f that [of s0 s f "fst p" "snd p"] show thesis by (simp add: good_plan_def)
  qed
qed

lemma demo_success: "rr_Status (Run demo_plan_rt demo_world demo_engine ''s'') = ResultSucceeded"
proof -
  obtain s0 s where r: "ingestPhase demo_plan_rt demo_world demo_engine ''s'' (startState demo_engine) = Inr s0"
    "runRound demo_plan_rt demo_world demo_engine s0 = Finish s" and good: "good_end s"
    by (rule demo_rounds)
  have cfg: "e_cfg demo_engine = demo_ingest_config" by (simp add: demo_engine_def)
  have "ValidateGraphConfig (Some (e_cfg demo_engine)) = None" by code_simp
  moreover have "runLoop demo_plan_rt demo_world demo_engine s0 = Finish s"
    by (simp add: runLoop.simps [of demo_plan_rt demo_world demo_engine s0] r(2))
  ultimately have run: "Run demo_plan_rt demo_world demo_engine ''s'' = generateReport demo_plan_rt demo_world demo_engine s"
    using r(1) by (simp add: Run_def runToEnd_def)
  from good obtain f where f: "validateBeliefGraph (s_graph s) = None"
      "selectReportFrontier demo_plan_rt (s_graph s) (Some (s_fsm s)) = Some f"
      "er_Sufficient (buildEvidenceReport demo_ingest_config (s_graph s) (Some f) (s_stats s) [])"
    by (auto simp: good_end_def report_sufficient split: option.splits)
  then show ?thesis unfolding run by (simp add: generateReport_def cfg Let_def)
qed

text \<open>C1: a result that is called successful is one. The graph is valid; the frontier it names is the
  best hypothesis of some level; at least as many active evidence nodes as configured, and never
  none, support it directly; its score reaches the configured confidence; no active evidence of
  the threshold strength speaks against it or a hypothesis above it; and in no round of the run
  that has acted was an expert of its plan degraded or failed.\<close>

theorem run_success_sound:
  assumes "rr_Status (Run rt io e symptom) = ResultSucceeded"
  shows "validateBeliefGraph (rr_Graph (Run rt io e symptom)) = None \<and>
    rs_ExpertDegraded (rr_Stats (Run rt io e symptom)) = 0 \<and> rs_ExpertFailed (rr_Stats (Run rt io e symptom)) = 0 \<and>
    (\<forall>s0 s ps f plan s1. ingestPhase rt io e symptom (startState e) = Inr s0 \<and> rounds rt io e s0 s ps \<and>
       \<not> IsFinalState (s_fsm s) \<and> currentFrontier rt s = Some f \<and> planPhase rt io e s f = Inr (plan, s1) \<longrightarrow>
       ''degraded'' \<notin> set (round_statuses io e s f plan) \<and> ''failed'' \<notin> set (round_statuses io e s f plan)) \<and>
    (\<exists>f. rr_Frontier (Run rt io e symptom) = Some f \<and>
       (\<exists>level. extractFrontierInternal rt level (rr_Graph (Run rt io e symptom)) = Some f) \<and>
       max 1 (fc_MinSupport (c_FSM (e_cfg e))) \<le>
         count_if (\<lambda>n. \<exists>x > 0. speaks relation_support (f_NodeID f) n x) (map snd (Nodes (rr_Graph (Run rt io e symptom)))) \<and>
       fc_MinConfidence (c_FSM (e_cfg e)) \<le> clamp01 (f_Score f) \<and>
       \<not> strongly_refuted (rr_Graph (Run rt io e symptom)) f
           (conflictThreshold (rp_ConflictStrengthThreshold (c_Report (e_cfg e)))))"
proof -
  note E = runToEnd_inv [of rt e io symptom]
  have no: "rr_Status (degradedResult rt io e s reason err ar u) = ResultDegraded" for s reason err ar u
    by (simp add: degradedResult_def Let_def)
  obtain s where s: "runToEnd rt io e symptom = Finish s" "run_inv rt e s"
    using assms E no by (cases "runToEnd rt io e symptom") (auto simp: Run_def)
  then have R: "Run rt io e symptom = generateReport rt io e s" by (simp add: Run_def)
  obtain f where f: "validateBeliefGraph (s_graph s) = None" "selectReportFrontier rt (s_graph s) (Some (s_fsm s)) = Some f"
    using assms no unfolding R by (auto simp: generateReport_def Let_def split: option.splits)
  have suff: "er_Sufficient (buildEvidenceReport (e_cfg e) (s_graph s) (Some f) (s_stats s) [])"
    using assms f unfolding R by (auto simp: generateReport_def Let_def split: if_splits)
  have level: "\<exists>level. extractFrontierInternal rt level g = Some f" if "frontierBelow rt g k = Some f" for g k
    using that by (induction k) (auto split: option.splits)
  have wf: "graph_wf (s_graph s)" using s(2) reachable_wf by (auto simp: run_inv_def run_reach_def)
  from suff have "\<exists>f'. Some f = Some f' \<and>
       max 1 (fc_MinSupport (c_FSM (e_cfg e))) \<le>
         count_if (\<lambda>n. \<exists>x > 0. speaks relation_support (f_NodeID f') n x) (map snd (Nodes (s_graph s))) \<and>
       fc_MinConfidence (c_FSM (e_cfg e)) \<le> clamp01 (f_Score f') \<and>
       \<not> strongly_refuted (s_graph s) f' (conflictThreshold (rp_ConflictStrengthThreshold (c_Report (e_cfg e)))) \<and>
       rs_ExpertDegraded (s_stats s) = 0 \<and> rs_ExpertFailed (s_stats s) = 0"
    unfolding verdict [OF wf] .
  moreover have "rr_Graph (Run rt io e symptom) = s_graph s" "rr_Frontier (Run rt io e symptom) = Some f"
      "rs_ExpertDegraded (rr_Stats (Run rt io e symptom)) = rs_ExpertDegraded (s_stats s)"
      "rs_ExpertFailed (rr_Stats (Run rt io e symptom)) = rs_ExpertFailed (s_stats s)"
    using f unfolding R by (simp_all add: generateReport_def Let_def observeGraph_def latency_def addPhaseLatency_def)
  moreover have "\<exists>level. extractFrontierInternal rt level (s_graph s) = Some f"
    using f(2) level by (auto simp: selectReportFrontier_def Let_def split: if_splits)
  moreover have "''degraded'' \<notin> set (round_statuses io e s' f' plan) \<and> ''failed'' \<notin> set (round_statuses io e s' f' plan)"
    if z: "rs_ExpertDegraded (s_stats s) = 0 \<and> rs_ExpertFailed (s_stats s) = 0"
      and r: "ingestPhase rt io e symptom (startState e) = Inr s0" "rounds rt io e s0 s' ps"
      and a: "\<not> IsFinalState (s_fsm s')" "currentFrontier rt s' = Some f'" "planPhase rt io e s' f' = Inr (plan, s1)"
    for s0 s' ps f' plan s1
  proof (rule all_succeeded [OF _ r(2) _ a])
    show "run_inv rt e s0" using ingestPhase_inv [of rt e io symptom] r(1) by simp
    have "runLoop rt io e s0 = Finish s" using s(1) r(1) by (auto simp: runToEnd_def Let_def split: option.splits)
    with z show "trouble (end_stats (runLoop rt io e s0)) = (0, 0)" by (simp add: end_stats_def trouble_def)
  qed
  ultimately show ?thesis using f(1) by auto
qed

theorem run_success_sound_witness:
  "validateBeliefGraph (rr_Graph (Run demo_plan_rt demo_world demo_engine ''s'')) = None \<and>
   (\<exists>f. rr_Frontier (Run demo_plan_rt demo_world demo_engine ''s'') = Some f \<and> 1/2 \<le> clamp01 (f_Score f))"
proof -
  have "fc_MinConfidence (c_FSM (e_cfg demo_engine)) = 1/2"
    by (simp add: demo_engine_def demo_ingest_config_def demo_small_def)
  with run_success_sound [OF demo_success] show ?thesis by auto
qed

text \<open>C2: over all rounds of a run, no evidence goal is planned twice, every item names a registered
  expert and tools of that expert that have not failed before, and what is reserved adds up: the
  budgets of all items and what remains make exactly the budget of the session.\<close>

theorem run_plans_sound:
  assumes "ingestPhase rt io e symptom (startState e) = Inr s0" "rounds rt io e s0 s ps"
    and "currentFrontier rt s = Some f" "planPhase rt io e s f = Inr (plan, s1)"
  shows "distinct (map (planGoalKey rt) (concat ps @ plan)) \<and>
    addPlanBudgets (rs_RemainingBudget (s_stats s1)) (planTotal (concat ps @ plan)) = sessionBudget (e_cfg e) \<and>
    (\<forall>item \<in> set plan. item_ok (enginePlanner e) (planningContext s f) item \<and> pi_TargetHypothesisID item = f_NodeID f) \<and>
    int (length ps) \<le> max 0 (c_SessionMaxSteps (e_cfg e) - 1)"
proof -
  have s0: "s_history s0 = s_history (startState e)" "rs_Steps (s_stats s0) = 0" "TotalSteps (s_fsm s0) = 0"
    using ingestPhase_inv [of rt e io symptom] assms(1) by simp_all
  have start: "ph_CalledGoalKeys (s_history s0) = []" "ph_RemainingBudget (s_history s0) = sessionBudget (e_cfg e)"
    using s0(1) by (simp_all add: startState_def NewPlanningHistory_def)
  note H = rounds_plans [OF assms(2) start(1)] and P = planPhase_ok [OF assms(4)]
  have "addPlanBudgets (ph_RemainingBudget (s_history s1)) (planTotal (concat ps @ plan)) = sessionBudget (e_cfg e)"
    using H P unfolding planTotal_append start(2) by (metis add_budget_assoc add_budget_commute)
  moreover have "distinct (map (planGoalKey rt) (concat ps @ plan))"
    unfolding map_append distinct_append set_map using H P by blast
  moreover have "int (length ps) \<le> max 0 (c_SessionMaxSteps (e_cfg e) - 1)"
    using rounds_counts [OF assms(2)] s0(2,3) by (cases "ps = []") auto
  ultimately show ?thesis using P by simp
qed

theorem run_plans_sound_witness:
  "\<exists>s0 f plan s1. planPhase demo_plan_rt demo_world demo_engine s0 f = Inr (plan, s1) \<and> length plan = 1 \<and>
     addPlanBudgets (rs_RemainingBudget (s_stats s1)) (planTotal plan) = sessionBudget (e_cfg demo_engine)"
proof -
  obtain s0 f plan s1 where
    r: "ingestPhase demo_plan_rt demo_world demo_engine ''s'' (startState demo_engine) = Inr s0"
      "currentFrontier demo_plan_rt s0 = Some f" "planPhase demo_plan_rt demo_world demo_engine s0 f = Inr (plan, s1)"
      "length plan = 1"
    by (rule demo_rounds)
  have "rounds demo_plan_rt demo_world demo_engine s0 s0 []" by (rule rounds.start)
  from run_plans_sound [OF r(1) this r(2,3)] r show ?thesis by auto
qed

end
