(* ===== verification/Svc_Breaker.thy ===== *)
theory Svc_Breaker
  imports Go_Strings
begin

text \<open>
  utility/resilience/resilience.go: the circuit breakers and the retrying call that every request to a
  language model goes through (models/instrumented_chat_model.go).

  A breaker is a record, one function per critical section of its mutex, with the clock as an argument. The
  registry of breakers is a map by name. \<open>Execute\<close> takes what it does not control as the record \<open>call_io\<close>:
  the answer of every attempt, the error of the context before every retry, whether a sleep was
  interrupted, and the clock at the two critical sections. The metrics are left out: nothing reads them.
\<close>

subsection \<open>The breaker\<close>

datatype circuit_state = StateClosed | StateOpen | StateHalfOpen

record circuit_breaker =
  cb_name :: string
  cb_state :: circuit_state
  cb_failures :: int
  cb_successes :: int
  cb_threshold :: int
  cb_halfOpenMax :: int
  cb_resetTimeout :: duration
  cb_lastFailureTime :: gotime

definition NewCircuitBreaker :: "int \<Rightarrow> duration \<Rightarrow> circuit_breaker" where
  "NewCircuitBreaker threshold resetTimeout =
     \<lparr>cb_name = [], cb_state = StateClosed, cb_failures = 0, cb_successes = 0, cb_threshold = threshold,
      cb_halfOpenMax = 2, cb_resetTimeout = resetTimeout, cb_lastFailureTime = 0\<rparr>"

definition cbAllow :: "gotime \<Rightarrow> circuit_breaker \<Rightarrow> bool \<times> circuit_breaker" where
  "cbAllow now cb =
     (case cb_state cb of
        StateClosed \<Rightarrow> (True, cb)
      | StateOpen \<Rightarrow>
          if now - cb_lastFailureTime cb > cb_resetTimeout cb
          then (True, cb\<lparr>cb_state := StateHalfOpen, cb_successes := 0\<rparr>)
          else (False, cb)
      | StateHalfOpen \<Rightarrow> (True, cb))"

definition RecordSuccess :: "circuit_breaker \<Rightarrow> circuit_breaker" where
  "RecordSuccess cb =
     (case cb_state cb of
        StateHalfOpen \<Rightarrow>
          (let cb1 = cb\<lparr>cb_successes := cb_successes cb + 1\<rparr>
           in if cb_successes cb1 \<ge> cb_halfOpenMax cb1
              then cb1\<lparr>cb_state := StateClosed, cb_failures := 0\<rparr> else cb1)
      | StateClosed \<Rightarrow> cb\<lparr>cb_failures := 0\<rparr>
      | StateOpen \<Rightarrow> cb)"

definition RecordFailure :: "gotime \<Rightarrow> circuit_breaker \<Rightarrow> circuit_breaker" where
  "RecordFailure now cb =
     (let cb1 = cb\<lparr>cb_failures := cb_failures cb + 1, cb_lastFailureTime := now\<rparr>
      in case cb_state cb1 of
           StateClosed \<Rightarrow> if cb_failures cb1 \<ge> cb_threshold cb1 then cb1\<lparr>cb_state := StateOpen\<rparr> else cb1
         | StateHalfOpen \<Rightarrow> cb1\<lparr>cb_state := StateOpen\<rparr>
         | StateOpen \<Rightarrow> cb1)"

type_synonym breakers = "(string, circuit_breaker) gomap"

definition GetBreaker :: "string \<Rightarrow> breakers \<Rightarrow> circuit_breaker \<times> breakers" where
  "GetBreaker name bs =
     (case gm_get bs name of
        Some cb \<Rightarrow> (cb, bs)
      | None \<Rightarrow>
          (let cb = (NewCircuitBreaker 5 (30 * second))\<lparr>cb_name := name\<rparr>
           in (cb, gm_put name cb bs)))"

subsection \<open>The retrying call\<close>

record call_option =
  co_Timeout :: duration
  co_MaxRetries :: int
  co_RetryDelay :: duration
  co_Name :: string

definition DefaultCallOption :: call_option where
  "DefaultCallOption = \<lparr>co_Timeout = 30 * second, co_MaxRetries = 2, co_RetryDelay = second, co_Name = ''unknown''\<rparr>"

definition normalizeCallOption :: "call_option \<Rightarrow> call_option" where
  "normalizeCallOption opt =
     (let o1 = (if co_Timeout opt \<le> 0 then opt\<lparr>co_Timeout := co_Timeout DefaultCallOption\<rparr> else opt);
          o2 = (if co_MaxRetries o1 < 0 then o1\<lparr>co_MaxRetries := co_MaxRetries DefaultCallOption\<rparr> else o1);
          o3 = (if co_RetryDelay o2 \<le> 0 then o2\<lparr>co_RetryDelay := co_RetryDelay DefaultCallOption\<rparr> else o2)
      in if co_Name o3 = [] then o3\<lparr>co_Name := co_Name DefaultCallOption\<rparr> else o3)"

text \<open>\<open>io_call n d\<close> is the answer of attempt \<open>n\<close> under a context with timeout \<open>d\<close>, \<open>io_ctxErr n\<close> the
  error of the context when attempt \<open>n\<close> is about to sleep, \<open>io_wake n d\<close> whether the timer of a sleep of
  \<open>d\<close> ended before the context did, and \<open>io_doneErr n\<close> the context's error if not.\<close>

record 'a call_io =
  io_allowAt :: gotime
  io_failedAt :: gotime
  io_call :: "int \<Rightarrow> duration \<Rightarrow> goerr + 'a"
  io_ctxErr :: "int \<Rightarrow> goerr option"
  io_wake :: "int \<Rightarrow> duration \<Rightarrow> bool"
  io_doneErr :: "int \<Rightarrow> goerr"

definition sleepWithContext :: "'a call_io \<Rightarrow> int \<Rightarrow> duration \<Rightarrow> bool" where
  "sleepWithContext io attempt delay = (if delay \<le> 0 then True else io_wake io attempt delay)"

text \<open>How the loop over the attempts ends: with a result, with the context's error, or with every attempt
  failed. The list is the attempts it made, in order.\<close>

datatype 'a loop_end = Done 'a | Cancelled goerr | Failed "goerr option"

function attempts :: "'a call_io \<Rightarrow> call_option \<Rightarrow> int \<Rightarrow> goerr option \<Rightarrow> 'a loop_end \<times> int list" where
  "attempts io opt attempt lastErr =
     (if attempt > co_MaxRetries opt then (Failed lastErr, [])
      else case (if attempt > 0 then io_ctxErr io attempt else None) of
        Some err \<Rightarrow> (Cancelled err, [])
      | None \<Rightarrow>
          if attempt > 0 \<and> \<not> sleepWithContext io attempt (wrap64 (co_RetryDelay opt * attempt))
          then (Cancelled (io_doneErr io attempt), [])
          else case io_call io attempt (co_Timeout opt) of
            Inr result \<Rightarrow> (Done result, [attempt])
          | Inl err \<Rightarrow> map_prod id (Cons attempt) (attempts io opt (attempt + 1) (Some err)))"
  by pat_completeness auto
termination
  by (relation "measure (\<lambda>(io, opt, attempt, lastErr). nat (co_MaxRetries opt + 1 - attempt))") auto

declare attempts.simps [simp del]

definition breakerOpenErr :: "string \<Rightarrow> goerr" where
  "breakerOpenErr name =
     Errorf ''[%s] %w, service temporarily unavailable'' [AStr name, AWrap (Errorf ''circuit breaker open'' [])]"

definition allFailedErr :: "call_option \<Rightarrow> goerr option \<Rightarrow> goerr" where
  "allFailedErr opt lastErr =
     Errorf ''[%s] all %d attempts failed, last error: %w''
       ([AStr (co_Name opt), AInt (co_MaxRetries opt + 1)] @ (case lastErr of None \<Rightarrow> [] | Some e \<Rightarrow> [AWrap e]))"

text \<open>The third component is the list of the attempts in which the call was made.\<close>

definition Execute ::
    "'a call_io \<Rightarrow> call_option \<Rightarrow> breakers \<Rightarrow> (goerr + 'a) \<times> breakers \<times> int list" where
  "Execute io opt0 bs =
     (let opt = normalizeCallOption opt0;
          (cb, bs1) = GetBreaker (co_Name opt) bs;
          (allowed, cb1) = cbAllow (io_allowAt io) cb;
          bs2 = gm_put (co_Name opt) cb1 bs1
      in if \<not> allowed then (Inl (breakerOpenErr (co_Name opt)), bs2, [])
         else case attempts io opt 0 None of
           (Done result, made) \<Rightarrow> (Inr result, gm_put (co_Name opt) (RecordSuccess cb1) bs2, made)
         | (Cancelled err, made) \<Rightarrow> (Inl err, bs2, made)
         | (Failed lastErr, made) \<Rightarrow>
             (Inl (allFailedErr opt lastErr), gm_put (co_Name opt) (RecordFailure (io_failedAt io) cb1) bs2, made))"

definition ExecuteVoid :: "unit call_io \<Rightarrow> call_option \<Rightarrow> breakers \<Rightarrow> goerr option \<times> breakers \<times> int list" where
  "ExecuteVoid io opt bs =
     (case Execute io opt bs of (r, bs', made) \<Rightarrow> (case r of Inl e \<Rightarrow> Some e | Inr u \<Rightarrow> None, bs', made))"

definition breakerMetricValue :: "circuit_state \<Rightarrow> int" where
  "breakerMetricValue s = (case s of StateOpen \<Rightarrow> 1 | StateHalfOpen \<Rightarrow> 2 | StateClosed \<Rightarrow> 0)"

subsection \<open>Interleavings\<close>

text \<open>Concurrent calls of \<open>Execute\<close> on one breaker are interleavings of its critical sections.\<close>

datatype cb_event = EvAllow gotime | EvSuccess | EvFailure gotime

fun cbStep :: "circuit_breaker \<Rightarrow> cb_event \<Rightarrow> circuit_breaker" where
  "cbStep cb (EvAllow now) = snd (cbAllow now cb)"
| "cbStep cb EvSuccess = RecordSuccess cb"
| "cbStep cb (EvFailure now) = RecordFailure now cb"

abbreviation cbRun :: "circuit_breaker \<Rightarrow> cb_event list \<Rightarrow> circuit_breaker" where
  "cbRun \<equiv> foldl cbStep"

definition no_failure :: "cb_event list \<Rightarrow> bool" where
  "no_failure evs \<longleftrightarrow> list_all (\<lambda>ev. case ev of EvFailure t \<Rightarrow> False | _ \<Rightarrow> True) evs"

lemma halfOpenMax_kept [simp]: "cb_halfOpenMax (cbStep cb ev) = cb_halfOpenMax cb"
  by (cases ev) (auto simp: cbAllow_def RecordSuccess_def RecordFailure_def Let_def split: circuit_state.splits)

lemma closed_stays: "no_failure evs \<Longrightarrow> cb_state cb = StateClosed \<Longrightarrow> cb_state (cbRun cb evs) = StateClosed"
proof (induction evs arbitrary: cb)
  case (Cons ev evs)
  then show ?case by (cases ev) (auto simp: no_failure_def cbAllow_def RecordSuccess_def)
qed simp

lemma half_open_closes:
  assumes "no_failure evs" "cb_state cb = StateHalfOpen"
    and "cb_halfOpenMax cb - cb_successes cb \<le> count_if (\<lambda>ev. ev = EvSuccess) evs"
    and "cb_successes cb < cb_halfOpenMax cb"
  shows "cb_state (cbRun cb evs) = StateClosed"
  using assms
proof (induction evs arbitrary: cb)
  case Nil
  then show ?case by simp
next
  case (Cons ev evs)
  have rest: "no_failure evs"
    using Cons.prems(1) by (simp add: no_failure_def)
  show ?case
  proof (cases ev)
    case (EvAllow t)
    with Cons.prems have "cbStep cb ev = cb" by (simp add: cbAllow_def)
    with Cons EvAllow rest show ?thesis by simp
  next
    case EvSuccess
    show ?thesis
    proof (cases "cb_successes cb + 1 \<ge> cb_halfOpenMax cb")
      case True
      with Cons.prems EvSuccess have "cb_state (cbStep cb ev) = StateClosed"
        by (simp add: RecordSuccess_def)
      with rest show ?thesis by (simp add: closed_stays)
    next
      case False
      with Cons.prems EvSuccess have "cbStep cb ev = cb\<lparr>cb_successes := cb_successes cb + 1\<rparr>"
        by (simp add: RecordSuccess_def)
      with Cons EvSuccess rest False show ?thesis by simp
    qed
  next
    case (EvFailure t)
    with Cons.prems show ?thesis by (simp add: no_failure_def)
  qed
qed

subsection \<open>A run of failures\<close>

definition is_failure :: "bool \<times> gotime \<Rightarrow> bool" where
  "is_failure o1 \<longleftrightarrow> \<not> fst o1"

definition record_outcome :: "circuit_breaker \<Rightarrow> bool \<times> gotime \<Rightarrow> circuit_breaker" where
  "record_outcome cb o1 = (if fst o1 then RecordSuccess cb else RecordFailure (snd o1) cb)"

definition streak :: "(bool \<times> gotime) list \<Rightarrow> nat" where
  "streak os = length (takeWhile is_failure (rev os))"

definition failures_in_a_row :: "nat \<Rightarrow> (bool \<times> gotime) list \<Rightarrow> bool" where
  "failures_in_a_row n os \<longleftrightarrow> (\<exists>pre fs post. os = pre @ fs @ post \<and> length fs = n \<and> list_all is_failure fs)"

lemma streak_snoc: "streak (os @ [o1]) = (if is_failure o1 then Suc (streak os) else 0)"
  by (simp add: streak_def)

lemma streak_suffix: "n \<le> streak os \<longleftrightarrow> (\<exists>pre fs. os = pre @ fs \<and> length fs = n \<and> list_all is_failure fs)"
proof (induction os arbitrary: n rule: rev_induct)
  case Nil
  show ?case by (auto simp: streak_def)
next
  case (snoc x xs)
  show ?case
  proof (cases n)
    case 0
    then show ?thesis by simp
  next
    case (Suc m)
    have "(\<exists>pre fs. xs @ [x] = pre @ fs \<and> length fs = n \<and> list_all is_failure fs) \<longleftrightarrow>
        is_failure x \<and> (\<exists>pre fs. xs = pre @ fs \<and> length fs = m \<and> list_all is_failure fs)"
      (is "?L \<longleftrightarrow> ?R")
    proof
      assume ?L
      then obtain pre fs where fs: "xs @ [x] = pre @ fs" "length fs = n" "list_all is_failure fs" by blast
      then obtain gs where "fs = gs @ [x]" "xs = pre @ gs"
        using Suc by (cases fs rule: rev_cases) auto
      with fs Suc show ?R by auto
    next
      assume ?R
      then obtain pre fs where "xs = pre @ fs" "length fs = m" "list_all is_failure fs" "is_failure x" by blast
      with Suc have "xs @ [x] = pre @ (fs @ [x]) \<and> length (fs @ [x]) = n \<and> list_all is_failure (fs @ [x])" by simp
      then show ?L by blast
    qed
    with snoc [of m] Suc show ?thesis by (auto simp: streak_snoc)
  qed
qed

lemma failures_in_a_row_snoc:
  "failures_in_a_row n (os @ [o1]) \<longleftrightarrow> failures_in_a_row n os \<or> n \<le> streak (os @ [o1])"
proof
  assume "failures_in_a_row n (os @ [o1])"
  then obtain pre fs post where s: "os @ [o1] = pre @ fs @ post" "length fs = n" "list_all is_failure fs"
    by (auto simp: failures_in_a_row_def)
  show "failures_in_a_row n os \<or> n \<le> streak (os @ [o1])"
  proof (cases post rule: rev_cases)
    case Nil
    with s show ?thesis by (auto simp: streak_suffix)
  next
    case (snoc ys y)
    with s have "os = pre @ fs @ ys" by simp
    with s show ?thesis by (auto simp: failures_in_a_row_def)
  qed
next
  assume "failures_in_a_row n os \<or> n \<le> streak (os @ [o1])"
  then show "failures_in_a_row n (os @ [o1])"
  proof
    assume "failures_in_a_row n os"
    then obtain pre fs post where "os = pre @ fs @ post" "length fs = n" "list_all is_failure fs"
      by (auto simp: failures_in_a_row_def)
    then have "os @ [o1] = pre @ fs @ (post @ [o1]) \<and> length fs = n \<and> list_all is_failure fs" by simp
    then show ?thesis unfolding failures_in_a_row_def by blast
  next
    assume "n \<le> streak (os @ [o1])"
    then obtain pre fs where "os @ [o1] = pre @ fs @ [] \<and> length fs = n \<and> list_all is_failure fs"
      by (auto simp: streak_suffix)
    then show ?thesis unfolding failures_in_a_row_def by blast
  qed
qed

lemma record_open: "cb_state cb = StateOpen \<Longrightarrow> cb_state (record_outcome cb o1) = StateOpen"
  by (simp add: record_outcome_def RecordSuccess_def RecordFailure_def Let_def)

lemma record_closed_failure:
  assumes "cb_state cb = StateClosed" "is_failure o1"
  shows "cb_threshold (record_outcome cb o1) = cb_threshold cb \<and>
    cb_failures (record_outcome cb o1) = cb_failures cb + 1 \<and>
    cb_state (record_outcome cb o1) = (if cb_threshold cb \<le> cb_failures cb + 1 then StateOpen else StateClosed)"
  using assms by (simp add: record_outcome_def RecordFailure_def is_failure_def Let_def)

lemma record_closed_success:
  assumes "cb_state cb = StateClosed" "\<not> is_failure o1"
  shows "cb_threshold (record_outcome cb o1) = cb_threshold cb \<and>
    cb_failures (record_outcome cb o1) = 0 \<and> cb_state (record_outcome cb o1) = StateClosed"
  using assms by (simp add: record_outcome_def RecordSuccess_def is_failure_def)

definition outcomes_ok :: "int \<Rightarrow> (bool \<times> gotime) list \<Rightarrow> circuit_breaker \<Rightarrow> bool" where
  "outcomes_ok threshold os cb \<longleftrightarrow>
     (if failures_in_a_row (nat (max 1 threshold)) os then cb_state cb = StateOpen
      else cb_state cb = StateClosed \<and> cb_failures cb = int (streak os) \<and>
        streak os < nat (max 1 threshold) \<and> cb_threshold cb = threshold)"

lemma outcomes_ok_step:
  assumes "outcomes_ok threshold os cb"
  shows "outcomes_ok threshold (os @ [o1]) (record_outcome cb o1)"
proof (cases "failures_in_a_row (nat (max 1 threshold)) os")
  case True
  with assms show ?thesis
    by (simp add: outcomes_ok_def failures_in_a_row_snoc record_open)
next
  case False
  with assms have cb: "cb_state cb = StateClosed" "cb_failures cb = int (streak os)"
    "streak os < nat (max 1 threshold)" "cb_threshold cb = threshold"
    by (auto simp: outcomes_ok_def)
  show ?thesis
  proof (cases "is_failure o1")
    case True
    have "nat (max 1 threshold) \<le> streak (os @ [o1]) \<longleftrightarrow> threshold \<le> int (streak os) + 1"
      using True by (auto simp: streak_snoc)
    with record_closed_failure [OF cb(1) True] cb True False show ?thesis
      by (auto simp: outcomes_ok_def failures_in_a_row_snoc streak_snoc)
  next
    case ok: False
    have "\<not> nat (max 1 threshold) \<le> streak (os @ [o1])"
      using ok by (simp add: streak_snoc)
    with record_closed_success [OF cb(1) ok] cb ok False show ?thesis
      by (simp add: outcomes_ok_def failures_in_a_row_snoc streak_snoc)
  qed
qed

lemma outcomes_inv: "outcomes_ok threshold os (foldl record_outcome (NewCircuitBreaker threshold r) os)"
proof (induction os rule: rev_induct)
  case Nil
  have "\<not> failures_in_a_row (nat (max 1 threshold)) []"
    by (simp add: failures_in_a_row_def)
  then show ?case
    by (simp add: outcomes_ok_def NewCircuitBreaker_def streak_def)
next
  case (snoc x xs)
  then show ?case by (simp add: outcomes_ok_step)
qed

subsection \<open>The attempts of a call\<close>

definition all_failed :: "'a call_io \<Rightarrow> call_option \<Rightarrow> int list \<Rightarrow> bool" where
  "all_failed io opt ns \<longleftrightarrow> list_all (\<lambda>n. isl (io_call io n (co_Timeout opt))) ns"

definition consecutive :: "int \<Rightarrow> int list \<Rightarrow> bool" where
  "consecutive a ns \<longleftrightarrow> ns = [a..a + int (length ns) - 1]"

definition attempts_ok :: "'a call_io \<Rightarrow> call_option \<Rightarrow> int \<Rightarrow> goerr option \<Rightarrow> 'a loop_end \<Rightarrow> int list \<Rightarrow> bool" where
  "attempts_ok io opt a lastErr e made \<longleftrightarrow>
     consecutive a made \<and> all_failed io opt (butlast made) \<and>
     (case e of
        Done r \<Rightarrow> made \<noteq> [] \<and> last made \<le> co_MaxRetries opt \<and> io_call io (last made) (co_Timeout opt) = Inr r
      | Cancelled err \<Rightarrow> all_failed io opt made \<and> a + int (length made) \<le> co_MaxRetries opt
      | Failed err \<Rightarrow> all_failed io opt made \<and> a + int (length made) = max a (co_MaxRetries opt + 1) \<and>
          (if made = [] then err = lastErr
           else map_option Inl err = Some (io_call io (last made) (co_Timeout opt))))"

lemma upto_Cons: "a \<le> b \<Longrightarrow> [a..b] = a # [a + 1..b]"
  by (rule upto_rec1)

lemma consecutive_Nil [simp]: "consecutive a []"
  by (simp add: consecutive_def)

lemma consecutive_single [simp]: "consecutive a [a]"
  by (simp add: consecutive_def)

lemma consecutive_Cons: "consecutive (a + 1) ns \<Longrightarrow> consecutive a (a # ns)"
  by (simp add: consecutive_def upto_Cons add.commute add.left_commute)

lemma consecutive_last: "consecutive a ns \<Longrightarrow> ns \<noteq> [] \<Longrightarrow> last ns = a + int (length ns) - 1"
proof -
  assume c: "consecutive a ns" "ns \<noteq> []"
  have "[a..a + int (length ns) - 1] = [a..a + int (length ns) - 1 - 1] @ [a + int (length ns) - 1]"
    using c(2) by (intro upto_rec2) (simp add: Suc_le_eq)
  with c(1) show ?thesis
    unfolding consecutive_def by (metis last_snoc)
qed

lemma attempts_spec: "attempts_ok io opt a lastErr (fst (attempts io opt a lastErr)) (snd (attempts io opt a lastErr))"
proof (induction io opt a lastErr rule: attempts.induct)
  case (1 io opt a lastErr)
  let ?ctx = "if a > 0 then io_ctxErr io a else None"
  let ?slept = "\<not> (a > 0 \<and> \<not> sleepWithContext io a (wrap64 (co_RetryDelay opt * a)))"
  consider (stop) "a > co_MaxRetries opt" | (ctx) err where "a \<le> co_MaxRetries opt" "?ctx = Some err"
    | (woken) "a \<le> co_MaxRetries opt" "?ctx = None" "\<not> ?slept"
    | (fine) r where "a \<le> co_MaxRetries opt" "?ctx = None" "?slept" "io_call io a (co_Timeout opt) = Inr r"
    | (bad) err where "a \<le> co_MaxRetries opt" "?ctx = None" "?slept" "io_call io a (co_Timeout opt) = Inl err"
    by (cases "a > co_MaxRetries opt"; cases ?ctx; cases ?slept; cases "io_call io a (co_Timeout opt)") fastforce+
  then show ?case
  proof cases
    case stop
    then show ?thesis by (simp add: attempts.simps [of io opt a] attempts_ok_def all_failed_def)
  next
    case ctx
    then show ?thesis by (simp add: attempts.simps [of io opt a] attempts_ok_def all_failed_def)
  next
    case woken
    then show ?thesis by (simp add: attempts.simps [of io opt a] attempts_ok_def all_failed_def)
  next
    case fine
    then show ?thesis by (simp add: attempts.simps [of io opt a] attempts_ok_def all_failed_def)
  next
    case bad
    define e where "e = fst (attempts io opt (a + 1) (Some err))"
    define made where "made = snd (attempts io opt (a + 1) (Some err))"
    have IH: "attempts_ok io opt (a + 1) (Some err) e made"
      unfolding e_def made_def using 1 bad by simp
    have eq: "attempts io opt a lastErr = (e, a # made)"
      using bad by (simp add: attempts.simps [of io opt a] e_def made_def map_prod_def split_beta)
    have "consecutive a (a # made)"
      using IH by (simp add: attempts_ok_def consecutive_Cons)
    with IH bad show ?thesis
      unfolding eq by (cases "made = []") (auto simp: attempts_ok_def all_failed_def split: loop_end.splits)
  qed
qed

lemma normalized:
  "0 \<le> co_MaxRetries (normalizeCallOption opt) \<and> 0 < co_Timeout (normalizeCallOption opt) \<and>
   co_Name (normalizeCallOption opt) \<noteq> []"
  by (simp add: normalizeCallOption_def DefaultCallOption_def second_def Let_def)

definition breaker_of :: "call_option \<Rightarrow> breakers \<Rightarrow> circuit_breaker" where
  "breaker_of opt bs = fst (GetBreaker (co_Name opt) bs)"

text \<open>What a call reports to its breaker, read off the attempts it made.\<close>

definition reported :: "'a call_io \<Rightarrow> call_option \<Rightarrow> int list \<Rightarrow> circuit_breaker \<Rightarrow> circuit_breaker" where
  "reported io opt made cb =
     (if made = [] then cb
      else if \<not> isl (io_call io (last made) (co_Timeout opt)) then RecordSuccess cb
      else if int (length made) = co_MaxRetries opt + 1 then RecordFailure (io_failedAt io) cb
      else cb)"

lemma execute_refused:
  assumes "\<not> fst (cbAllow (io_allowAt io) (breaker_of (normalizeCallOption opt0) bs))"
  shows "fst (Execute io opt0 bs) = Inl (breakerOpenErr (co_Name (normalizeCallOption opt0))) \<and>
    snd (snd (Execute io opt0 bs)) = [] \<and>
    gm_get (fst (snd (Execute io opt0 bs))) = gm_get bs"
proof -
  let ?n = "co_Name (normalizeCallOption opt0)"
  let ?cb = "breaker_of (normalizeCallOption opt0) bs"
  have same: "snd (cbAllow (io_allowAt io) ?cb) = ?cb"
    using assms by (auto simp: cbAllow_def split: circuit_state.splits)
  have known: "gm_get bs ?n = Some ?cb"
  proof (rule ccontr)
    assume "gm_get bs ?n \<noteq> Some ?cb"
    then have "cb_state ?cb = StateClosed"
      by (auto simp: breaker_of_def GetBreaker_def NewCircuitBreaker_def Let_def split: option.splits)
    with assms show False by (simp add: cbAllow_def)
  qed
  have "snd (GetBreaker ?n bs) = bs"
    using known by (simp add: GetBreaker_def)
  with assms same known show ?thesis
    by (simp add: Execute_def Let_def split_beta breaker_of_def gm_get_put fun_upd_idem)
qed

lemma execute_allowed:
  assumes "fst (cbAllow (io_allowAt io) (breaker_of opt bs))" "opt = normalizeCallOption opt0"
    and "Execute io opt0 bs = (r, bs', made)"
  shows "consecutive 0 made \<and> int (length made) \<le> co_MaxRetries opt + 1 \<and> all_failed io opt (butlast made) \<and>
    (\<forall>x. r = Inr x \<longleftrightarrow> made \<noteq> [] \<and> io_call io (last made) (co_Timeout opt) = Inr x) \<and>
    gm_get bs' = (gm_get bs)(co_Name opt \<mapsto> reported io opt made (snd (cbAllow (io_allowAt io) (breaker_of opt bs))))"
proof -
  let ?e = "fst (attempts io opt 0 None)"
  let ?m = "snd (attempts io opt 0 None)"
  let ?cb1 = "snd (cbAllow (io_allowAt io) (breaker_of opt bs))"
  have ok: "attempts_ok io opt 0 None ?e ?m"
    by (rule attempts_spec)
  have n: "0 \<le> co_MaxRetries opt"
    using assms(2) normalized by simp
  have base: "gm_get (gm_put n c (snd (GetBreaker n bs))) = (gm_get bs)(n \<mapsto> c)" for n c
    by (auto simp: GetBreaker_def gm_get_put Let_def split: option.splits)
  have made: "made = ?m"
    using assms by (auto simp: Execute_def Let_def split_beta breaker_of_def split: loop_end.splits)
  show ?thesis
  proof (cases ?e)
    case (Done x)
    have res: "r = Inr x \<and> gm_get bs' = (gm_get bs)(co_Name opt \<mapsto> RecordSuccess ?cb1)"
      using assms Done by (auto simp: Execute_def Let_def split_beta breaker_of_def base)
    have m: "consecutive 0 ?m" "all_failed io opt (butlast ?m)" "?m \<noteq> []" "last ?m \<le> co_MaxRetries opt"
      "io_call io (last ?m) (co_Timeout opt) = Inr x"
      using ok Done by (auto simp: attempts_ok_def)
    have "last ?m = int (length ?m) - 1"
      using consecutive_last [OF m(1,3)] by simp
    with m res made show ?thesis by (auto simp: reported_def)
  next
    case (Cancelled err)
    have res: "r = Inl err \<and> gm_get bs' = (gm_get bs)(co_Name opt \<mapsto> ?cb1)"
      using assms Cancelled by (auto simp: Execute_def Let_def split_beta breaker_of_def base)
    have m: "consecutive 0 ?m" "all_failed io opt (butlast ?m)" "all_failed io opt ?m" "int (length ?m) \<le> co_MaxRetries opt"
      using ok Cancelled by (auto simp: attempts_ok_def)
    have "?m \<noteq> [] \<longrightarrow> isl (io_call io (last ?m) (co_Timeout opt))"
      using m(3) by (auto simp: all_failed_def list_all_iff)
    with m res made show ?thesis by (auto simp: reported_def)
  next
    case (Failed err)
    have res: "isl r \<and> gm_get bs' = (gm_get bs)(co_Name opt \<mapsto> RecordFailure (io_failedAt io) ?cb1)"
      using assms Failed by (auto simp: Execute_def Let_def split_beta breaker_of_def base)
    have m: "consecutive 0 ?m" "all_failed io opt (butlast ?m)" "all_failed io opt ?m"
      "int (length ?m) = co_MaxRetries opt + 1"
      using ok Failed n by (auto simp: attempts_ok_def)
    have ne: "?m \<noteq> []" using m(4) n by auto
    have "isl (io_call io (last ?m) (co_Timeout opt))"
      using m(3) ne by (auto simp: all_failed_def list_all_iff)
    with m res ne made show ?thesis by (auto simp: reported_def)
  qed
qed

subsection \<open>Properties\<close>

text \<open>A breaker that only receives outcomes is open exactly if its threshold of failures (at least one)
  occurred in a row at some time; single failures between successes never open it.\<close>

theorem breaker_trips:
  "cb_state (foldl record_outcome (NewCircuitBreaker threshold r) os) =
     (if failures_in_a_row (nat (max 1 threshold)) os then StateOpen else StateClosed)"
  using outcomes_inv [of threshold os r] by (simp add: outcomes_ok_def split: if_splits)

text \<open>An open breaker recovers: once its reset timeout has passed it admits a call, and after two
  successes, interleaved with any other calls but no failure, it is closed.\<close>

theorem breaker_recovers:
  assumes "cb = cbRun (NewCircuitBreaker threshold r) past" "cb_state cb = StateOpen"
    and "cb_resetTimeout cb < now - cb_lastFailureTime cb"
    and "no_failure evs" "2 \<le> count_if (\<lambda>ev. ev = EvSuccess) evs"
  shows "fst (cbAllow now cb) \<and> cb_state (cbRun cb (EvAllow now # evs)) = StateClosed"
proof -
  have "cb_halfOpenMax (cbRun c past) = cb_halfOpenMax c" for c
    by (induction past arbitrary: c) auto
  then have two: "cb_halfOpenMax cb = 2"
    using assms(1) by (simp add: NewCircuitBreaker_def)
  have allow: "cbAllow now cb = (True, cb\<lparr>cb_state := StateHalfOpen, cb_successes := 0\<rparr>)"
    using assms by (simp add: cbAllow_def)
  have "cb_state (cbRun (cb\<lparr>cb_state := StateHalfOpen, cb_successes := 0\<rparr>) evs) = StateClosed"
    by (rule half_open_closes) (use assms two in auto)
  with allow show ?thesis by simp
qed

theorem breaker_recovers_witness:
  "fst (cbAllow 40 (cbRun (NewCircuitBreaker 1 20) [EvFailure 10])) \<and>
   cb_state (cbRun (cbRun (NewCircuitBreaker 1 20) [EvFailure 10]) (EvAllow 40 # [EvSuccess, EvAllow 41, EvSuccess])) = StateClosed"
  by (rule breaker_recovers [OF refl, of 1 20 "[EvFailure 10]"])
    (simp_all add: NewCircuitBreaker_def RecordFailure_def Let_def no_failure_def)

text \<open>C34: A call through an open breaker that has not cooled down is refused without an attempt and changes
  no breaker. Otherwise the attempts are numbered from 0 without a gap, at most one more than the
  retries, none follows a success; the call succeeds exactly if its last attempt did, and only its own
  breaker changes: a success, a failure of all attempts, or nothing if the context ended it.\<close>

theorem execute_contract:
  assumes "Execute io opt0 bs = (r, bs', made)" "opt = normalizeCallOption opt0"
  shows "if fst (cbAllow (io_allowAt io) (breaker_of opt bs))
    then consecutive 0 made \<and> int (length made) \<le> co_MaxRetries opt + 1 \<and> all_failed io opt (butlast made) \<and>
      (\<forall>x. r = Inr x \<longleftrightarrow> made \<noteq> [] \<and> io_call io (last made) (co_Timeout opt) = Inr x) \<and>
      gm_get bs' = (gm_get bs)(co_Name opt \<mapsto>
        reported io opt made (snd (cbAllow (io_allowAt io) (breaker_of opt bs))))
    else r = Inl (breakerOpenErr (co_Name opt)) \<and> made = [] \<and> gm_get bs' = gm_get bs"
proof (cases "fst (cbAllow (io_allowAt io) (breaker_of opt bs))")
  case True
  then show ?thesis
    using execute_allowed [OF True assms(2,1)] by simp
next
  case False
  then show ?thesis
    using execute_refused [of io opt0 bs] assms by simp
qed

definition demo_io :: "int call_io" where
  "demo_io = \<lparr>io_allowAt = 0, io_failedAt = 5, io_call = (\<lambda>n d. if n < 1 then Inl (Errorf ''down'' []) else Inr n),
     io_ctxErr = (\<lambda>n. None), io_wake = (\<lambda>n d. True), io_doneErr = (\<lambda>n. Errorf ''done'' [])\<rparr>"

definition demo_opt :: call_option where
  "demo_opt = \<lparr>co_Timeout = 1, co_MaxRetries = 1, co_RetryDelay = 1, co_Name = ''m''\<rparr>"

theorem execute_contract_witness:
  "consecutive 0 [0, 1] \<and> gm_get [(''m'', NewCircuitBreaker 5 (30 * second)\<lparr>cb_name := ''m''\<rparr>)] ''m'' =
     Some (reported demo_io demo_opt [0, 1] (NewCircuitBreaker 5 (30 * second)\<lparr>cb_name := ''m''\<rparr>))"
proof -
  have n: "normalizeCallOption demo_opt = demo_opt"
    by (simp add: normalizeCallOption_def demo_opt_def Let_def)
  have run: "Execute demo_io demo_opt [] =
      (Inr 1, [(''m'', NewCircuitBreaker 5 (30 * second)\<lparr>cb_name := ''m''\<rparr>)], [0, 1])"
    by (simp add: Execute_def n) (simp add: demo_opt_def demo_io_def attempts.simps GetBreaker_def Let_def
      cbAllow_def NewCircuitBreaker_def sleepWithContext_def RecordSuccess_def)
  have b: "breaker_of demo_opt [] = NewCircuitBreaker 5 (30 * second)\<lparr>cb_name := ''m''\<rparr>"
    by (simp add: breaker_of_def GetBreaker_def demo_opt_def Let_def)
  show ?thesis
    using execute_contract [OF run refl] unfolding n b
    by (simp add: cbAllow_def NewCircuitBreaker_def demo_opt_def)
qed

end
