(* ===== verification/Svc_Dedup.thy ===== *)
theory Svc_Dedup
  imports Go_Strings
begin

text \<open>
  internal/infra/rabbitmq/ttl_set.go and deduper.go: the sets with which the queue consumers recognise a
  message they have already taken.

  A \<open>TTLSet\<close> is a record, one function per critical section, with the clock as an argument. Redis is a
  parameter: \<open>redis_io\<close> gives the answer of \<open>SET key 1 NX EX seconds\<close> (\<open>None\<close> for an error) and the effect
  of \<open>DEL key\<close> on a state of any type, and no law is assumed of them. A deduper is a datatype with one
  constructor per implementation of the interface; a nil part of a composite is \<open>None\<close>. All parts of one
  claim read one clock value.

  The contract the consumers rely on is the locale \<open>dedup\<close>: a key that was claimed is held, and refused, for
  the time to live, as long as there is room. \<open>dedup_exact\<close> adds that nothing else is refused. Without
  any law on the room, the set answers as the list of the latest claims does.
\<close>

subsection \<open>TTLSet\<close>

record ttl_set =
  ts_items :: "(string, gotime) gomap"
  ts_ttl :: duration
  ts_maxEntries :: int

definition NewTTLSet :: "duration \<Rightarrow> int \<Rightarrow> ttl_set" where
  "NewTTLSet ttl maxEntries = \<lparr>ts_items = [], ts_ttl = ttl, ts_maxEntries = maxEntries\<rparr>"

definition pruneExpiredLocked :: "gotime \<Rightarrow> ttl_set \<Rightarrow> ttl_set" where
  "pruneExpiredLocked now s = s\<lparr>ts_items := filter (\<lambda>(key, expireAt). \<not> expireAt < now) (ts_items s)\<rparr>"

definition ttlHas :: "gotime \<Rightarrow> string \<Rightarrow> ttl_set \<Rightarrow> bool \<times> ttl_set" where
  "ttlHas now key s =
     (let s1 = pruneExpiredLocked now s
      in case gm_get (ts_items s1) key of
           None \<Rightarrow> (False, s1)
         | Some expireAt \<Rightarrow>
             if expireAt < now then (False, s1\<lparr>ts_items := gm_del key (ts_items s1)\<rparr>) else (True, s1))"

text \<open>\<open>Mark\<close> deletes whichever entry the iteration visits first.\<close>

definition deleteFirst :: "('k, 'v) gomap \<Rightarrow> ('k, 'v) gomap" where
  "deleteFirst m = (case m of [] \<Rightarrow> [] | (existing, v) # rest \<Rightarrow> gm_del existing m)"

definition ttlMark :: "gotime \<Rightarrow> string \<Rightarrow> ttl_set \<Rightarrow> ttl_set" where
  "ttlMark now key s =
     (if blank key then s
      else
        (let s1 = pruneExpiredLocked now s;
             items = (if int (length (ts_items s1)) \<ge> ts_maxEntries s1 then deleteFirst (ts_items s1) else ts_items s1)
         in s1\<lparr>ts_items := gm_put key (now + ts_ttl s1) items\<rparr>))"

definition olderEntry :: "(string \<times> gotime) option \<Rightarrow> string \<times> gotime \<Rightarrow> (string \<times> gotime) option" where
  "olderEntry acc e =
     (case acc of None \<Rightarrow> Some e | Some (oldestKey, oldestAt) \<Rightarrow> if snd e < oldestAt then Some e else acc)"

definition evictOldestLocked :: "ttl_set \<Rightarrow> ttl_set" where
  "evictOldestLocked s =
     (case foldl olderEntry None (ts_items s) of
        None \<Rightarrow> s
      | Some (oldestKey, t) \<Rightarrow>
          if oldestKey \<noteq> [] then s\<lparr>ts_items := gm_del oldestKey (ts_items s)\<rparr> else s)"

definition ttlClaim :: "gotime \<Rightarrow> string \<Rightarrow> ttl_set \<Rightarrow> bool \<times> ttl_set" where
  "ttlClaim now key s =
     (if blank key then (True, s)
      else
        (let s1 = pruneExpiredLocked now s
         in if (case gm_get (ts_items s1) key of None \<Rightarrow> False | Some expireAt \<Rightarrow> now < expireAt)
            then (False, s1)
            else
              (let s2 = (if ts_maxEntries s1 > 0 \<and> int (length (ts_items s1)) \<ge> ts_maxEntries s1
                         then evictOldestLocked s1 else s1)
               in (True, s2\<lparr>ts_items := gm_put key (now + ts_ttl s2) (ts_items s2)\<rparr>))))"

definition ttlRelease :: "string \<Rightarrow> ttl_set \<Rightarrow> ttl_set" where
  "ttlRelease key s = (if blank key then s else s\<lparr>ts_items := gm_del key (ts_items s)\<rparr>)"

subsection \<open>Redis and composite dedupers\<close>

record 'r redis_io =
  rd_setnx :: "string \<Rightarrow> int \<Rightarrow> 'r \<Rightarrow> bool option \<times> 'r"
  rd_del :: "string \<Rightarrow> 'r \<Rightarrow> 'r"

record redis_deduper =
  rdd_redis :: bool
  rdd_prefix :: string
  rdd_ttl :: duration

definition NewRedisDeduper :: "bool \<Rightarrow> string \<Rightarrow> duration \<Rightarrow> redis_deduper" where
  "NewRedisDeduper redis pfx ttl =
     \<lparr>rdd_redis = redis, rdd_prefix = (if pfx = [] then ''opscaption:dedup:'' else pfx),
      rdd_ttl = (if ttl \<le> 0 then 600 * second else ttl)\<rparr>"

text \<open>\<open>int(d.Seconds())\<close> of a positive duration.\<close>

definition ttlSeconds :: "duration \<Rightarrow> int" where
  "ttlSeconds ttl = (let ttlSec = ttl div second in if ttlSec \<le> 0 then 1 else ttlSec)"

definition redisClaim :: "'r redis_io \<Rightarrow> string \<Rightarrow> redis_deduper \<Rightarrow> 'r \<Rightarrow> bool \<times> 'r" where
  "redisClaim io key0 d r =
     (if \<not> rdd_redis d then (True, r)
      else
        (let key = trim_space key0
         in if key = [] then (True, r)
            else case rd_setnx io (rdd_prefix d @ key) (ttlSeconds (rdd_ttl d)) r of
                   (None, r') \<Rightarrow> (True, r')
                 | (Some b, r') \<Rightarrow> (b, r')))"

definition redisRelease :: "'r redis_io \<Rightarrow> string \<Rightarrow> redis_deduper \<Rightarrow> 'r \<Rightarrow> 'r" where
  "redisRelease io key d r = (if \<not> rdd_redis d \<or> blank key then r else rd_del io (rdd_prefix d @ key) r)"

datatype deduper = DTTL ttl_set | DRedis redis_deduper | DComposite "deduper option list"

fun Claim :: "'r redis_io \<Rightarrow> gotime \<Rightarrow> string \<Rightarrow> deduper \<Rightarrow> 'r \<Rightarrow> bool \<times> deduper \<times> 'r"
and claimParts :: "'r redis_io \<Rightarrow> gotime \<Rightarrow> string \<Rightarrow> deduper option list \<Rightarrow> 'r \<Rightarrow> bool \<times> deduper option list \<times> 'r" where
  "Claim io now key (DTTL s) r = (let (b, s') = ttlClaim now key s in (b, DTTL s', r))"
| "Claim io now key (DRedis d) r = (let (b, r') = redisClaim io key d r in (b, DRedis d, r'))"
| "Claim io now key (DComposite parts) r =
     (let (b, parts', r') = claimParts io now key parts r in (b, DComposite parts', r'))"
| "claimParts io now key [] r = (True, [], r)"
| "claimParts io now key (None # ps) r =
     (let (b, ps', r') = claimParts io now key ps r in (b, None # ps', r'))"
| "claimParts io now key (Some p # ps) r =
     (case Claim io now key p r of
        (False, p', r') \<Rightarrow> (False, Some p' # ps, r')
      | (True, p', r') \<Rightarrow> (let (b, ps', r'') = claimParts io now key ps r' in (b, Some p' # ps', r'')))"

fun Release :: "'r redis_io \<Rightarrow> string \<Rightarrow> deduper \<Rightarrow> 'r \<Rightarrow> deduper \<times> 'r"
and releaseParts :: "'r redis_io \<Rightarrow> string \<Rightarrow> deduper option list \<Rightarrow> 'r \<Rightarrow> deduper option list \<times> 'r" where
  "Release io key (DTTL s) r = (DTTL (ttlRelease key s), r)"
| "Release io key (DRedis d) r = (DRedis d, redisRelease io key d r)"
| "Release io key (DComposite parts) r = (let (parts', r') = releaseParts io key parts r in (DComposite parts', r'))"
| "releaseParts io key [] r = ([], r)"
| "releaseParts io key (None # ps) r = (let (ps', r') = releaseParts io key ps r in (None # ps', r'))"
| "releaseParts io key (Some p # ps) r =
     (let (p', r1) = Release io key p r; (ps', r2) = releaseParts io key ps r1 in (Some p' # ps', r2))"

subsection \<open>The contract\<close>

locale dedup =
  fixes claim :: "gotime \<Rightarrow> string \<Rightarrow> 's \<Rightarrow> bool \<times> 's"
    and release :: "string \<Rightarrow> 's \<Rightarrow> 's"
    and held :: "gotime \<Rightarrow> string \<Rightarrow> 's \<Rightarrow> bool"
    and room :: "nat \<Rightarrow> 's \<Rightarrow> bool"
    and ok :: "'s \<Rightarrow> bool"
    and ttl :: duration
  assumes claim_ok: "ok s \<Longrightarrow> ok (snd (claim t k s))"
    and release_ok: "ok s \<Longrightarrow> ok (release k s)"
    and refuse: "ok s \<Longrightarrow> \<not> blank k \<Longrightarrow> held t k s \<Longrightarrow> \<not> fst (claim t k s)"
    and taken: "ok s \<Longrightarrow> \<not> blank k \<Longrightarrow> fst (claim t k s) \<Longrightarrow> t \<le> t' \<Longrightarrow> t' < t + ttl \<Longrightarrow> held t' k (snd (claim t k s))"
    and keep: "ok s \<Longrightarrow> room (Suc n) s \<Longrightarrow> held t' k' s \<Longrightarrow> t \<le> t' \<Longrightarrow> held t' k' (snd (claim t k s))"
    and claim_room: "ok s \<Longrightarrow> room (Suc n) s \<Longrightarrow> room n (snd (claim t k s))"
    and less_room: "room (Suc n) s \<Longrightarrow> room n s"
    and release_room: "ok s \<Longrightarrow> room n s \<Longrightarrow> room n (release k s)"
    and release_keep: "ok s \<Longrightarrow> k' \<noteq> k \<Longrightarrow> held t k' s \<Longrightarrow> held t k' (release k s)"

locale dedup_exact = dedup +
  assumes grant: "ok s \<Longrightarrow> \<not> held t k s \<Longrightarrow> fst (claim t k s)"
    and dropped: "ok s \<Longrightarrow> \<not> blank k \<Longrightarrow> \<not> held t k (release k s)"
    and claim_other: "ok s \<Longrightarrow> k' \<noteq> k \<Longrightarrow> \<not> held t' k' s \<Longrightarrow> \<not> held t' k' (snd (claim t k s))"
    and release_other: "ok s \<Longrightarrow> \<not> held t' k' s \<Longrightarrow> \<not> held t' k' (release k s)"

subsection \<open>TTLSet meets the exact contract\<close>

definition ttlHeld :: "gotime \<Rightarrow> string \<Rightarrow> ttl_set \<Rightarrow> bool" where
  "ttlHeld t k s \<longleftrightarrow> (case gm_get (ts_items s) k of None \<Rightarrow> False | Some e \<Rightarrow> t < e)"

definition ttlRoom :: "nat \<Rightarrow> ttl_set \<Rightarrow> bool" where
  "ttlRoom n s \<longleftrightarrow> ts_maxEntries s \<le> 0 \<or> int (length (ts_items s)) + int n \<le> ts_maxEntries s"

definition ttlOk :: "duration \<Rightarrow> ttl_set \<Rightarrow> bool" where
  "ttlOk ttl s \<longleftrightarrow> gm_ok (ts_items s) \<and> ttl \<le> ts_ttl s"

lemma gm_ok_filter: "gm_ok m \<Longrightarrow> gm_ok (filter P m)"
  by (induction m) (auto simp: gm_ok_def)

lemma gm_get_filter:
  "gm_ok m \<Longrightarrow> gm_get (filter (\<lambda>(k, v). P v) m) k = (case gm_get m k of Some v \<Rightarrow> if P v then Some v else None | None \<Rightarrow> None)"
  by (induction m) (auto simp: gm_ok_def map_of_eq_None_iff split: option.splits)

lemma gm_get_del: "gm_get (gm_del k m) k' = (if k' = k then None else gm_get m k')"
  by (simp add: delete_conv')

lemma length_del_le: "length (gm_del k m) \<le> length m"
  by (induction m) auto

lemma prune_get:
  "gm_ok (ts_items s) \<Longrightarrow> gm_get (ts_items (pruneExpiredLocked now s)) k =
     (case gm_get (ts_items s) k of Some e \<Rightarrow> if e < now then None else Some e | None \<Rightarrow> None)"
  by (simp add: pruneExpiredLocked_def gm_get_filter split: option.splits)

lemma prune_fields [simp]:
  "ts_ttl (pruneExpiredLocked now s) = ts_ttl s" "ts_maxEntries (pruneExpiredLocked now s) = ts_maxEntries s"
  "gm_ok (ts_items s) \<Longrightarrow> gm_ok (ts_items (pruneExpiredLocked now s))"
  by (simp_all add: pruneExpiredLocked_def gm_ok_filter)

lemma length_prune: "length (ts_items (pruneExpiredLocked now s)) \<le> length (ts_items s)"
  by (simp add: pruneExpiredLocked_def)

lemma prune_held: "gm_ok (ts_items s) \<Longrightarrow> t \<le> t' \<Longrightarrow> ttlHeld t' k (pruneExpiredLocked t s) = ttlHeld t' k s"
  by (simp add: ttlHeld_def prune_get split: option.splits)

lemma evict_fields [simp]:
  "ts_ttl (evictOldestLocked s) = ts_ttl s" "ts_maxEntries (evictOldestLocked s) = ts_maxEntries s"
  "gm_ok (ts_items s) \<Longrightarrow> gm_ok (ts_items (evictOldestLocked s))"
  "length (ts_items (evictOldestLocked s)) \<le> length (ts_items s)"
  by (auto simp: evictOldestLocked_def length_del_le split: option.splits prod.splits)

lemma claim_cases:
  assumes "ttlOk ttl s" "\<not> blank k"
  obtains (refused) "ttlHeld t k s" "ttlClaim t k s = (False, pruneExpiredLocked t s)"
  | (granted) s2 where "\<not> ttlHeld t k s"
      "s2 = (if ts_maxEntries s > 0 \<and> int (length (ts_items (pruneExpiredLocked t s))) \<ge> ts_maxEntries s
             then evictOldestLocked (pruneExpiredLocked t s) else pruneExpiredLocked t s)"
      "ttlClaim t k s = (True, s2\<lparr>ts_items := gm_put k (t + ts_ttl s) (ts_items s2)\<rparr>)"
proof -
  have ok: "gm_ok (ts_items s)" using assms by (simp add: ttlOk_def)
  have h: "(case gm_get (ts_items (pruneExpiredLocked t s)) k of None \<Rightarrow> False | Some e \<Rightarrow> t < e) = ttlHeld t k s"
    using prune_held [OF ok order_refl] by (simp add: ttlHeld_def)
  show thesis
  proof (cases "ttlHeld t k s")
    case True
    with assms refused show thesis by (simp add: ttlClaim_def h Let_def)
  next
    case False
    then show thesis
      using assms granted by (simp add: ttlClaim_def h Let_def)
  qed
qed

lemma ttlClaim_blank: "blank k \<Longrightarrow> ttlClaim t k s = (True, s)"
  by (simp add: ttlClaim_def)

lemma ttlClaim_ok: "ttlOk ttl s \<Longrightarrow> ttlOk ttl (snd (ttlClaim t k s))"
  by (simp add: ttlOk_def ttlClaim_def Let_def)

lemma ttlClaim_granted_iff: "ttlOk ttl s \<Longrightarrow> \<not> blank k \<Longrightarrow> fst (ttlClaim t k s) \<longleftrightarrow> \<not> ttlHeld t k s"
  by (erule claim_cases [where t = t], assumption) auto

lemma ttlClaim_take:
  assumes "ttlOk ttl s" "\<not> blank k" "fst (ttlClaim t k s)" "t' < t + ttl"
  shows "ttlHeld t' k (snd (ttlClaim t k s))"
  using assms(1,2)
proof (cases rule: claim_cases [where t = t])
  case refused
  with assms show ?thesis by simp
next
  case granted
  with assms show ?thesis by (simp add: ttlHeld_def gm_get_put ttlOk_def)
qed

lemma ttlClaim_room: "ttlOk ttl s \<Longrightarrow> ttlRoom (Suc n) s \<Longrightarrow> ttlRoom n (snd (ttlClaim t k s))"
proof (cases "blank k")
  case True
  then show "ttlRoom (Suc n) s \<Longrightarrow> ?thesis" by (auto simp: ttlClaim_blank ttlRoom_def)
next
  case False
  assume s: "ttlOk ttl s" "ttlRoom (Suc n) s"
  show ?thesis
    using s(1) False
  proof (cases rule: claim_cases [where t = t])
    case refused
    with s(2) length_prune [of t s] show ?thesis by (auto simp: ttlRoom_def)
  next
    case (granted s2)
    have "length (ts_items s2) \<le> length (ts_items s)"
      using granted(2) length_prune [of t s] order_trans [OF evict_fields(4) length_prune [of t s]]
      by simp
    with s(2) granted length_put_le [of k "t + ts_ttl s" "ts_items s2"] show ?thesis
      by (auto simp: ttlRoom_def)
  qed
qed

lemma ttlClaim_keep:
  assumes "ttlOk ttl s" "ttlRoom (Suc n) s" "ttlHeld t' k' s" "t \<le> t'"
  shows "ttlHeld t' k' (snd (ttlClaim t k s))"
proof (cases "blank k")
  case True
  with assms show ?thesis by (simp add: ttlClaim_blank)
next
  case False
  have ok: "gm_ok (ts_items s)" using assms by (simp add: ttlOk_def)
  show ?thesis
    using assms(1) False
  proof (cases rule: claim_cases [where t = t])
    case refused
    with prune_held [OF ok assms(4)] assms(3) show ?thesis by simp
  next
    case (granted s2)
    have "s2 = pruneExpiredLocked t s"
      using granted(2) assms(2) length_prune [of t s] by (auto simp: ttlRoom_def)
    moreover have "k' \<noteq> k"
      using granted(1) assms(3,4) by (auto simp: ttlHeld_def split: option.splits)
    ultimately show ?thesis
      using granted(3) prune_held [OF ok assms(4), of k'] assms(3) by (simp add: ttlHeld_def gm_get_put)
  qed
qed

lemma ttlHeld_entry: "gm_ok (ts_items s) \<Longrightarrow> ttlHeld t k s \<longleftrightarrow> (\<exists>e. (k, e) \<in> set (ts_items s) \<and> t < e)"
  by (auto simp: ttlHeld_def gm_in_iff split: option.splits)

lemma ttlClaim_other:
  assumes "ttlOk ttl s" "k' \<noteq> k" "\<not> ttlHeld t' k' s"
  shows "\<not> ttlHeld t' k' (snd (ttlClaim t k s))"
proof (cases "blank k")
  case True
  with assms show ?thesis by (simp add: ttlClaim_blank)
next
  case False
  have ok: "gm_ok (ts_items s)" using assms by (simp add: ttlOk_def)
  have sub: "set (ts_items (pruneExpiredLocked t s)) \<subseteq> set (ts_items s)" by (auto simp: pruneExpiredLocked_def)
  then have sub2: "set (ts_items (evictOldestLocked (pruneExpiredLocked t s))) \<subseteq> set (ts_items s)"
    by (auto simp: evictOldestLocked_def AList.delete_eq split: option.splits)
  show ?thesis
    using assms(1) False
  proof (cases rule: claim_cases [where t = t])
    case refused
    with assms(3) sub show ?thesis by (auto simp: ttlHeld_entry ok)
  next
    case (granted s2)
    have s2: "gm_ok (ts_items s2)" "set (ts_items s2) \<subseteq> set (ts_items s)"
      using granted(2) sub sub2 ok by (auto split: if_splits)
    have "\<not> ttlHeld t' k' s2" using assms(3) s2 by (auto simp: ttlHeld_entry ok)
    with granted(3) assms(2) show ?thesis by (simp add: ttlHeld_def gm_get_put)
  qed
qed

lemma ttlRelease_held: "ttlHeld t k' (ttlRelease k s) \<longleftrightarrow> ttlHeld t k' s \<and> (blank k \<or> k' \<noteq> k)"
  by (simp add: ttlRelease_def ttlHeld_def gm_get_del)

lemma ttlRelease_ok: "ttlOk ttl s \<Longrightarrow> ttlOk ttl (ttlRelease k s)"
  by (simp add: ttlRelease_def ttlOk_def)

lemma ttlRelease_room: "ttlRoom n s \<Longrightarrow> ttlRoom n (ttlRelease k s)"
  using length_del_le [of k "ts_items s"] by (auto simp: ttlRelease_def ttlRoom_def)

lemma room_Suc: "ttlRoom (Suc n) s \<Longrightarrow> ttlRoom n s"
  by (auto simp: ttlRoom_def)

interpretation ttl: dedup_exact ttlClaim ttlRelease ttlHeld ttlRoom "ttlOk ttl" ttl for ttl
proof
  show "\<And>s t k. ttlOk ttl s \<Longrightarrow> \<not> ttlHeld t k s \<Longrightarrow> fst (ttlClaim t k s)"
    by (metis fst_conv ttlClaim_blank ttlClaim_granted_iff)
qed (simp_all add: ttlClaim_other ttlClaim_ok ttlRelease_ok ttlClaim_granted_iff ttlClaim_take ttlClaim_keep
    ttlClaim_room ttlRelease_room ttlRelease_held room_Suc)

subsection \<open>Composite dedupers meet the contract whatever Redis answers\<close>

fun dHeld :: "gotime \<Rightarrow> string \<Rightarrow> deduper \<Rightarrow> bool"
and partsHeld :: "gotime \<Rightarrow> string \<Rightarrow> deduper option list \<Rightarrow> bool" where
  "dHeld t k (DTTL s) = ttlHeld t k s"
| "dHeld t k (DRedis d) = False"
| "dHeld t k (DComposite ps) = partsHeld t k ps"
| "partsHeld t k [] = False"
| "partsHeld t k (None # ps) = partsHeld t k ps"
| "partsHeld t k (Some p # ps) = (dHeld t k p \<or> partsHeld t k ps)"

fun dAll :: "(ttl_set \<Rightarrow> bool) \<Rightarrow> deduper \<Rightarrow> bool" and partsAll :: "(ttl_set \<Rightarrow> bool) \<Rightarrow> deduper option list \<Rightarrow> bool" where
  "dAll P (DTTL s) = P s"
| "dAll P (DRedis d) = True"
| "dAll P (DComposite ps) = partsAll P ps"
| "partsAll P [] = True"
| "partsAll P (None # ps) = partsAll P ps"
| "partsAll P (Some p # ps) = (dAll P p \<and> partsAll P ps)"

text \<open>There is a local set among the parts.\<close>

fun hasLocal :: "deduper \<Rightarrow> bool" and partsLocal :: "deduper option list \<Rightarrow> bool" where
  "hasLocal (DTTL s) = True"
| "hasLocal (DRedis d) = False"
| "hasLocal (DComposite ps) = partsLocal ps"
| "partsLocal [] = False"
| "partsLocal (None # ps) = partsLocal ps"
| "partsLocal (Some p # ps) = (hasLocal p \<or> partsLocal ps)"

text \<open>The results by projections, so that the induction hypotheses apply.\<close>

lemma Claim_proj [simp]:
  "fst (Claim io t k (DTTL s) r) = fst (ttlClaim t k s)"
  "fst (snd (Claim io t k (DTTL s) r)) = DTTL (snd (ttlClaim t k s))"
  "fst (snd (Claim io t k (DRedis d) r)) = DRedis d"
  "fst (Claim io t k (DComposite ps) r) = fst (claimParts io t k ps r)"
  "fst (snd (Claim io t k (DComposite ps) r)) = DComposite (fst (snd (claimParts io t k ps r)))"
  "fst (claimParts io t k (None # ps) r) = fst (claimParts io t k ps r)"
  "fst (snd (claimParts io t k (None # ps) r)) = None # fst (snd (claimParts io t k ps r))"
  "fst (claimParts io t k (Some p # ps) r) \<longleftrightarrow>
     fst (Claim io t k p r) \<and> fst (claimParts io t k ps (snd (snd (Claim io t k p r))))"
  "fst (snd (claimParts io t k (Some p # ps) r)) =
     Some (fst (snd (Claim io t k p r))) #
       (if fst (Claim io t k p r) then fst (snd (claimParts io t k ps (snd (snd (Claim io t k p r))))) else ps)"
  by (simp_all add: split_beta split: prod.splits bool.splits)

lemma Release_proj [simp]:
  "fst (Release io k (DComposite ps) r) = DComposite (fst (releaseParts io k ps r))"
  "fst (releaseParts io k (None # ps) r) = None # fst (releaseParts io k ps r)"
  "fst (releaseParts io k (Some p # ps) r) =
     Some (fst (Release io k p r)) # fst (releaseParts io k ps (snd (Release io k p r)))"
  by (simp_all add: split_beta)

lemmas [simp del] = Claim.simps(1,2,3) claimParts.simps(2,3) Release.simps(3) releaseParts.simps(2,3)

lemma all_weaken:
  assumes "\<And>s. P s \<Longrightarrow> Q s"
  shows "dAll P d \<Longrightarrow> dAll Q d" and "partsAll P ps \<Longrightarrow> partsAll Q ps"
  by (induction d and ps rule: hasLocal_partsLocal.induct) (use assms in auto)

lemma Claim_all:
  assumes "\<And>s. P s \<Longrightarrow> Q (snd (ttlClaim t k s))" "\<And>s. P s \<Longrightarrow> Q s"
  shows "dAll P d \<Longrightarrow> dAll Q (fst (snd (Claim io t k d r)))"
    and "partsAll P ps \<Longrightarrow> partsAll Q (fst (snd (claimParts io t k ps r)))"
  by (induction d and ps arbitrary: r and r rule: hasLocal_partsLocal.induct)
    (use assms all_weaken [of P Q] in auto)

lemma Release_all:
  assumes "\<And>s. P s \<Longrightarrow> Q (ttlRelease k s)"
  shows "dAll P d \<Longrightarrow> dAll Q (fst (Release io k d r))"
    and "partsAll P ps \<Longrightarrow> partsAll Q (fst (releaseParts io k ps r))"
  by (induction d and ps arbitrary: r and r rule: hasLocal_partsLocal.induct)
    (use assms in auto)

lemma Claim_local:
  "hasLocal (fst (snd (Claim io t k d r))) = hasLocal d"
  "partsLocal (fst (snd (claimParts io t k ps r))) = partsLocal ps"
  by (induction d and ps arbitrary: r and r rule: hasLocal_partsLocal.induct)
    auto

lemma Release_local:
  "hasLocal (fst (Release io k d r)) = hasLocal d"
  "partsLocal (fst (releaseParts io k ps r)) = partsLocal ps"
  by (induction d and ps arbitrary: r and r rule: hasLocal_partsLocal.induct)
    auto

lemma Claim_refuse:
  assumes "\<not> blank k"
  shows "dAll (ttlOk ttl) d \<Longrightarrow> dHeld t k d \<Longrightarrow> \<not> fst (Claim io t k d r)"
    and "partsAll (ttlOk ttl) ps \<Longrightarrow> partsHeld t k ps \<Longrightarrow> \<not> fst (claimParts io t k ps r)"
  using assms
  by (induction d and ps arbitrary: r and r rule: hasLocal_partsLocal.induct)
    (auto simp: ttlClaim_granted_iff)

lemma Claim_take:
  assumes "\<not> blank k" "t' < t + ttl"
  shows "dAll (ttlOk ttl) d \<Longrightarrow> hasLocal d \<Longrightarrow> fst (Claim io t k d r) \<Longrightarrow> dHeld t' k (fst (snd (Claim io t k d r)))"
    and "partsAll (ttlOk ttl) ps \<Longrightarrow> partsLocal ps \<Longrightarrow> fst (claimParts io t k ps r) \<Longrightarrow>
      partsHeld t' k (fst (snd (claimParts io t k ps r)))"
  using assms
  by (induction d and ps arbitrary: r and r rule: hasLocal_partsLocal.induct)
    (auto simp: ttlClaim_take)

lemma Claim_keep:
  assumes "t \<le> t'"
  shows "dAll (\<lambda>s. ttlOk ttl s \<and> ttlRoom (Suc n) s) d \<Longrightarrow> dHeld t' k' d \<Longrightarrow> dHeld t' k' (fst (snd (Claim io t k d r)))"
    and "partsAll (\<lambda>s. ttlOk ttl s \<and> ttlRoom (Suc n) s) ps \<Longrightarrow> partsHeld t' k' ps \<Longrightarrow>
      partsHeld t' k' (fst (snd (claimParts io t k ps r)))"
  using assms
  by (induction d and ps arbitrary: r and r rule: hasLocal_partsLocal.induct)
    (auto simp: ttlClaim_keep)

lemma Release_keep:
  assumes "k' \<noteq> k"
  shows "dHeld t k' d \<Longrightarrow> dHeld t k' (fst (Release io k d r))"
    and "partsHeld t k' ps \<Longrightarrow> partsHeld t k' (fst (releaseParts io k ps r))"
  using assms
  by (induction d and ps arbitrary: r and r rule: hasLocal_partsLocal.induct)
    (auto simp: ttlRelease_held)

lemma all_and: "dAll P d \<Longrightarrow> dAll Q d \<Longrightarrow> dAll (\<lambda>s. P s \<and> Q s) d"
  "partsAll P ps \<Longrightarrow> partsAll Q ps \<Longrightarrow> partsAll (\<lambda>s. P s \<and> Q s) ps"
  by (induction d and ps rule: hasLocal_partsLocal.induct) auto

text \<open>The consumers see one state: the dedupers of this process and Redis.\<close>

definition dedupClaim :: "'r redis_io \<Rightarrow> gotime \<Rightarrow> string \<Rightarrow> deduper \<times> 'r \<Rightarrow> bool \<times> (deduper \<times> 'r)" where
  "dedupClaim io now key s = Claim io now key (fst s) (snd s)"

definition dedupRelease :: "'r redis_io \<Rightarrow> string \<Rightarrow> deduper \<times> 'r \<Rightarrow> deduper \<times> 'r" where
  "dedupRelease io key s = Release io key (fst s) (snd s)"

definition dedupHeld :: "gotime \<Rightarrow> string \<Rightarrow> deduper \<times> 'r \<Rightarrow> bool" where
  "dedupHeld t k s = dHeld t k (fst s)"

definition dedupRoom :: "nat \<Rightarrow> deduper \<times> 'r \<Rightarrow> bool" where
  "dedupRoom n s = dAll (ttlRoom n) (fst s)"

definition dedupOk :: "duration \<Rightarrow> deduper \<times> 'r \<Rightarrow> bool" where
  "dedupOk ttl s \<longleftrightarrow> dAll (ttlOk ttl) (fst s) \<and> hasLocal (fst s)"

interpretation composite: dedup "dedupClaim io" "dedupRelease io" dedupHeld dedupRoom "dedupOk ttl" ttl
  for io :: "'r redis_io" and ttl
proof
  fix s :: "deduper \<times> 'r" and t t' k k' n
  show "dedupOk ttl s \<Longrightarrow> dedupOk ttl (snd (dedupClaim io t k s))"
    by (simp add: dedupOk_def dedupClaim_def Claim_local Claim_all [where P = "ttlOk ttl"] ttlClaim_ok)
  show "dedupOk ttl s \<Longrightarrow> dedupOk ttl (dedupRelease io k s)"
    by (simp add: dedupOk_def dedupRelease_def Release_local Release_all [where P = "ttlOk ttl"] ttlRelease_ok)
  show "dedupOk ttl s \<Longrightarrow> \<not> blank k \<Longrightarrow> dedupHeld t k s \<Longrightarrow> \<not> fst (dedupClaim io t k s)"
    using Claim_refuse(1) [of k ttl "fst s" t io "snd s"] by (simp add: dedupOk_def dedupClaim_def dedupHeld_def)
  show "dedupOk ttl s \<Longrightarrow> \<not> blank k \<Longrightarrow> fst (dedupClaim io t k s) \<Longrightarrow> t \<le> t' \<Longrightarrow> t' < t + ttl \<Longrightarrow>
      dedupHeld t' k (snd (dedupClaim io t k s))"
    by (simp add: dedupOk_def dedupClaim_def dedupHeld_def Claim_take)
  show "dedupOk ttl s \<Longrightarrow> dedupRoom (Suc n) s \<Longrightarrow> dedupHeld t' k' s \<Longrightarrow> t \<le> t' \<Longrightarrow>
      dedupHeld t' k' (snd (dedupClaim io t k s))"
    using Claim_keep(1) [of t t' ttl n "fst s" k' io k "snd s"] all_and(1) [of "ttlOk ttl" "fst s" "ttlRoom (Suc n)"]
    by (simp add: dedupOk_def dedupClaim_def dedupHeld_def dedupRoom_def)
  show "dedupOk ttl s \<Longrightarrow> dedupRoom (Suc n) s \<Longrightarrow> dedupRoom n (snd (dedupClaim io t k s))"
    unfolding dedupOk_def dedupClaim_def dedupRoom_def
    by (rule Claim_all [where P = "\<lambda>s. ttlOk ttl s \<and> ttlRoom (Suc n) s"])
      (auto intro: ttlClaim_room room_Suc all_and)
  show "dedupRoom (Suc n) s \<Longrightarrow> dedupRoom n s"
    by (simp add: dedupRoom_def) (rule all_weaken(1) [OF room_Suc])
  show "dedupOk ttl s \<Longrightarrow> dedupRoom n s \<Longrightarrow> dedupRoom n (dedupRelease io k s)"
    by (simp add: dedupRelease_def dedupRoom_def Release_all [where P = "ttlRoom n"] ttlRelease_room)
  show "dedupOk ttl s \<Longrightarrow> k' \<noteq> k \<Longrightarrow> dedupHeld t k' s \<Longrightarrow> dedupHeld t k' (dedupRelease io k s)"
    by (simp add: dedupRelease_def dedupHeld_def Release_keep)
qed

subsection \<open>The list of the latest claims\<close>

datatype dedup_event = EClaim gotime string | ERelease string

fun answers :: "(gotime \<Rightarrow> string \<Rightarrow> 's \<Rightarrow> bool \<times> 's) \<Rightarrow> (string \<Rightarrow> 's \<Rightarrow> 's) \<Rightarrow> 's \<Rightarrow> dedup_event list \<Rightarrow> bool list" where
  "answers cl rl s [] = []"
| "answers cl rl s (EClaim t k # evs) = fst (cl t k s) # answers cl rl (snd (cl t k s)) evs"
| "answers cl rl s (ERelease k # evs) = answers cl rl (rl k s) evs"

fun claim_times :: "dedup_event list \<Rightarrow> gotime list" where
  "claim_times [] = []"
| "claim_times (EClaim t k # evs) = t # claim_times evs"
| "claim_times (ERelease k # evs) = claim_times evs"

text \<open>The list of the claims that count, the latest first: a claim drops those whose time is over and, when there is no room,
  the oldest one.\<close>

type_synonym claims = "(string \<times> gotime) list"

definition liveAt :: "gotime \<Rightarrow> claims \<Rightarrow> claims" where
  "liveAt t cs = filter (\<lambda>(k, e). t < e) cs"

definition latest :: "int \<Rightarrow> claims \<Rightarrow> claims" where
  "latest n cs = (if n > 0 then take (nat n) cs else cs)"

definition specClaim :: "duration \<Rightarrow> int \<Rightarrow> gotime \<Rightarrow> string \<Rightarrow> claims \<Rightarrow> bool \<times> claims" where
  "specClaim ttl n t k cs =
     (if blank k then (True, cs)
      else if list_ex (\<lambda>(k', e). k' = k) (liveAt t cs) then (False, cs)
      else (True, latest n ((k, t + ttl) # liveAt t cs)))"

definition specRelease :: "string \<Rightarrow> claims \<Rightarrow> claims" where
  "specRelease k cs = (if blank k then cs else filter (\<lambda>(k', e). k' \<noteq> k) cs)"

text \<open>After the last claim, at time \<open>now\<close>, the set holds the same live entries as the list.\<close>

definition alive :: "gotime \<Rightarrow> claims \<Rightarrow> (string \<times> gotime) set" where
  "alive now cs = {p \<in> set cs. now < snd p}"

definition list_wf :: "duration \<Rightarrow> int \<Rightarrow> gotime \<Rightarrow> claims \<Rightarrow> bool" where
  "list_wf ttl n now cs \<longleftrightarrow>
     sorted_wrt (\<lambda>a b. snd b < snd a) cs \<and> distinct (map fst cs) \<and>
     (\<forall>p\<in>set cs. snd p \<le> now + ttl) \<and> (n > 0 \<longrightarrow> int (length cs) \<le> n)"

definition simulates :: "duration \<Rightarrow> int \<Rightarrow> gotime \<Rightarrow> ttl_set \<Rightarrow> claims \<Rightarrow> bool" where
  "simulates ttl n now s cs \<longleftrightarrow>
     gm_ok (ts_items s) \<and> ts_ttl s = ttl \<and> ts_maxEntries s = n \<and> (\<forall>p\<in>set (ts_items s). fst p \<noteq> []) \<and>
     alive now (ts_items s) = alive now cs \<and> list_wf ttl n now cs"

lemma set_put: "gm_ok m \<Longrightarrow> set (gm_put k v m) = insert (k, v) {p \<in> set m. fst p \<noteq> k}"
  by (auto simp: put_in_iff split: if_splits)

lemma set_del: "set (gm_del k m) = {p \<in> set m. fst p \<noteq> k}"
  by (auto simp: AList.delete_eq)

lemma oldest_found:
  assumes "m \<noteq> []"
  obtains k e where "foldl olderEntry None m = Some (k, e)" "(k, e) \<in> set m" "\<forall>p\<in>set m. e \<le> snd p"
proof -
  have f: "\<exists>k e. foldl olderEntry (Some q) m = Some (k, e) \<and> (k, e) \<in> insert q (set m) \<and> e \<le> snd q \<and> (\<forall>p\<in>set m. e \<le> snd p)"
    for q :: "string \<times> gotime" and m
  proof (induction m arbitrary: q)
    case (Cons a m)
    define q' where "q' = (if snd a < snd q then a else q)"
    have q': "olderEntry (Some q) a = Some q'" "q' = a \<or> q' = q" "snd q' \<le> snd q" "snd q' \<le> snd a"
      by (cases q; simp add: olderEntry_def q'_def)+
    obtain k e where e: "foldl olderEntry (Some q') m = Some (k, e)" "(k, e) \<in> insert q' (set m)" "e \<le> snd q'"
      "\<forall>p\<in>set m. e \<le> snd p" using Cons.IH [of q'] by blast
    have "foldl olderEntry (Some q) (a # m) = Some (k, e)" using e(1) q'(1) by simp
    moreover have "(k, e) \<in> insert q (set (a # m))" using e(2) q'(2) by auto
    moreover have "e \<le> snd q" "\<forall>p\<in>set (a # m). e \<le> snd p" using e(3,4) q'(3,4) by auto
    ultimately show ?case by blast
  next
    case Nil
    show ?case by (intro exI [of _ "fst q"] exI [of _ "snd q"]) simp
  qed
  obtain q m' where m: "m = q # m'" using assms by (cases m) auto
  have "olderEntry None q = Some q" by (simp add: olderEntry_def)
  with f [of q m'] that show thesis unfolding m by auto
qed

text \<open>When the expiry times differ, what is evicted is the entry that expires first.\<close>

lemma evicted_last:
  assumes "gm_ok (ts_items s)" "\<forall>p\<in>set (ts_items s). fst p \<noteq> []" "set (ts_items s) = set cs" "cs \<noteq> []"
    and "sorted_wrt (\<lambda>a b. snd b < snd a) cs" "distinct (map fst cs)"
  shows "set (ts_items (evictOldestLocked s)) = set (butlast cs)"
proof -
  obtain q where cs: "cs = butlast cs @ [q]" using assms(4) by (metis append_butlast_last_id)
  have lower: "snd q < snd p" if "p \<in> set (butlast cs)" for p
    using assms(5) that by (subst (asm) cs) (simp add: sorted_wrt_append)
  have keys: "fst p \<noteq> fst q" if "p \<in> set (butlast cs)" for p
  proof -
    have "distinct (map fst (butlast cs @ [q]))" using assms(6) by (subst (asm) cs)
    then have "fst q \<notin> fst ` set (butlast cs)" by simp
    then show ?thesis using that by (metis imageI)
  qed
  have ne: "ts_items s \<noteq> []" using assms(3,4) by auto
  then obtain k e where o: "foldl olderEntry None (ts_items s) = Some (k, e)" "(k, e) \<in> set (ts_items s)"
    "\<forall>p\<in>set (ts_items s). e \<le> snd p" by (rule oldest_found)
  have "(k, e) \<in> set cs" using o(2) assms(3) by simp
  then have "(k, e) \<in> set (butlast cs @ [q])" by (subst (asm) cs)
  then have mem: "(k, e) \<in> set (butlast cs) \<or> (k, e) = q"
    by (auto simp only: set_append Un_iff list.set insert_iff empty_iff)
  have "q \<in> set (butlast cs @ [q])" by simp
  then have "q \<in> set (ts_items s)" unfolding assms(3) by (subst cs)
  with o(3) have "e \<le> snd q" by blast
  with mem lower have q: "(k, e) = q" by fastforce
  have "k \<noteq> []" using assms(2) o(2) by force
  then have "set (ts_items (evictOldestLocked s)) = {p \<in> set (ts_items s). fst p \<noteq> k}"
    by (simp add: evictOldestLocked_def o(1) set_del)
  also have "\<dots> = {p \<in> set (butlast cs @ [q]). fst p \<noteq> fst q}" using assms(3) cs q by auto
  also have "\<dots> = set (butlast cs)" using keys by auto
  finally show ?thesis .
qed

lemma liveAt_wf: "list_wf ttl n now cs \<Longrightarrow> sorted_wrt (\<lambda>a b. snd b < snd a) (filter P cs) \<and> distinct (map fst (filter P cs))"
  by (auto simp: list_wf_def sorted_wrt_filter distinct_map_filter)

lemma spec_claim_wf:
  assumes "list_wf ttl n now cs" "now < t" "\<not> list_ex (\<lambda>(k', e). k' = k) (liveAt t cs)"
  shows "list_wf ttl n t (latest n ((k, t + ttl) # liveAt t cs))"
proof -
  let ?l = "(k, t + ttl) # liveAt t cs"
  have l: "sorted_wrt (\<lambda>a b. snd b < snd a) (liveAt t cs)" "distinct (map fst (liveAt t cs))"
    using liveAt_wf [OF assms(1), of "\<lambda>(k, e). t < e"] by (simp_all add: liveAt_def)
  have b: "snd p < t + ttl" if "p \<in> set (liveAt t cs)" for p
  proof -
    have "snd p \<le> now + ttl" using that assms(1) by (auto simp: liveAt_def list_wf_def)
    then show ?thesis using assms(2) by simp
  qed
  have "k \<notin> fst ` set (liveAt t cs)" using assms(3) by (auto simp: list_ex_iff)
  with l have w: "sorted_wrt (\<lambda>a b. snd b < snd a) ?l" "distinct (map fst ?l)" using b by simp_all
  have h: "\<forall>p\<in>set ?l. snd p \<le> t + ttl" using b by (auto intro: less_imp_le)
  have "sorted_wrt (\<lambda>a b. snd b < snd a) (take m ?l)" "distinct (map fst (take m ?l))" "\<forall>p\<in>set (take m ?l). snd p \<le> t + ttl" for m
    using sorted_wrt_take [OF w(1), of m] distinct_take [OF w(2), of m] h in_set_takeD [of _ m ?l]
    by (simp only:, simp only: take_map, blast)
  with w h show ?thesis by (simp add: list_wf_def latest_def min_def) linarith
qed

text \<open>At most one claim expires at a given time: it is the last of those that have not been pruned.\<close>

lemma due_last:
  assumes "sorted_wrt (\<lambda>a b. snd b < snd a) cs"
  shows "filter (\<lambda>p. t \<le> snd p) cs = liveAt t cs \<or> (\<exists>x. filter (\<lambda>p. t \<le> snd p) cs = liveAt t cs @ [(x, t)])"
  using assms
proof (induction cs)
  case (Cons a cs)
  have ih: "filter (\<lambda>p. t \<le> snd p) cs = liveAt t cs \<or> (\<exists>x. filter (\<lambda>p. t \<le> snd p) cs = liveAt t cs @ [(x, t)])"
    using Cons by simp
  have low: "filter (\<lambda>p. t \<le> snd p) cs = []" "liveAt t cs = []" if "snd a \<le> t"
    using Cons.prems that by (fastforce simp: filter_empty_conv liveAt_def)+
  consider "t < snd a" | "snd a = t" | "snd a < t" by linarith
  then show ?case
  proof cases
    case 1
    then have "liveAt t (a # cs) = a # liveAt t cs" by (cases a) (simp add: liveAt_def)
    with ih 1 show ?thesis by auto
  next
    case 2
    then have "liveAt t (a # cs) = []" using low by (cases a) (simp add: liveAt_def)
    with 2 low show ?thesis by (cases a) simp
  next
    case 3
    then have "liveAt t (a # cs) = []" using low by (cases a) (simp add: liveAt_def)
    with 3 low show ?thesis by simp
  qed
qed (simp add: liveAt_def)

lemma kept_claims:
  assumes "sorted_wrt (\<lambda>a b. snd b < snd a) cs" "n > 0 \<longrightarrow> int (length cs) \<le> n"
  shows "alive t (if n > 0 \<and> int (length (filter (\<lambda>p. t \<le> snd p) cs)) \<ge> n
      then butlast (filter (\<lambda>p. t \<le> snd p) cs) else filter (\<lambda>p. t \<le> snd p) cs) =
    set (if n > 0 then take (nat n - 1) (liveAt t cs) else liveAt t cs)"
proof -
  let ?F = "filter (\<lambda>p. t \<le> snd p) cs" and ?L = "liveAt t cs"
  have F: "alive t ?F = set ?L" by (auto simp: alive_def liveAt_def)
  have sub: "alive t xs = set xs" if "set xs \<subseteq> set ?L" for xs using that by (auto simp: alive_def liveAt_def)
  have b: "n > 0 \<Longrightarrow> length ?F \<le> nat n" using assms(2) length_filter_le [of "\<lambda>p. t \<le> snd p" cs] by linarith
  show ?thesis
  proof (cases "n > 0 \<and> int (length ?F) \<ge> n")
    case True
    then have len: "length ?F = nat n" "n > 0" using b by linarith+
    from due_last [OF assms(1), of t] show ?thesis
    proof
      assume "?F = ?L"
      with len have "butlast ?F = take (nat n - 1) ?L" by (simp add: butlast_conv_take)
      moreover have "set (take (nat n - 1) ?L) \<subseteq> set ?L" by (rule set_take_subset)
      ultimately show ?thesis using True sub by simp
    next
      assume "\<exists>x. ?F = ?L @ [(x, t)]"
      then obtain x where x: "?F = ?L @ [(x, t)]" by blast
      with len have "butlast ?F = ?L" "take (nat n - 1) ?L = ?L" by simp_all
      with True sub [of ?L] show ?thesis by simp
    qed
  next
    case False
    have "length ?L \<le> length ?F" using due_last [OF assms(1), of t] by auto
    with False have "n > 0 \<Longrightarrow> take (nat n - 1) ?L = ?L" by simp
    with False F show ?thesis by auto
  qed
qed

lemma simulates_claim:
  assumes "simulates ttl n now s cs" "now < t"
  shows "fst (ttlClaim t k s) = fst (specClaim ttl n t k cs) \<and>
    (simulates ttl n now (snd (ttlClaim t k s)) (snd (specClaim ttl n t k cs)) \<or>
     simulates ttl n t (snd (ttlClaim t k s)) (snd (specClaim ttl n t k cs)))"
proof (cases "blank k")
  case True
  with assms show ?thesis by (simp add: ttlClaim_blank specClaim_def)
next
  case False
  have s: "gm_ok (ts_items s)" "ts_ttl s = ttl" "ts_maxEntries s = n" "\<forall>p\<in>set (ts_items s). fst p \<noteq> []"
    "alive now (ts_items s) = alive now cs" and wf: "list_wf ttl n now cs"
    using assms(1) by (simp_all add: simulates_def)
  let ?s1 = "pruneExpiredLocked t s" and ?F = "filter (\<lambda>p. t \<le> snd p) cs"
  have same: "(k', e) \<in> set (ts_items s) \<longleftrightarrow> (k', e) \<in> set cs" if "now < e" for k' e
    using s(5) that by (auto simp: alive_def set_eq_iff)
  have items1: "set (ts_items ?s1) = set ?F"
    using same assms(2) by (auto simp: pruneExpiredLocked_def not_less)
  have ok: "ttlOk ttl s" using s by (simp add: ttlOk_def)
  have held: "ttlHeld t k s \<longleftrightarrow> list_ex (\<lambda>(k', e). k' = k) (liveAt t cs)"
  proof -
    have "ttlHeld t k s \<longleftrightarrow> (\<exists>e. (k, e) \<in> set (ts_items s) \<and> t < e)"
      by (auto simp: ttlHeld_def gm_in_iff [OF s(1)] split: option.splits)
    also have "\<dots> \<longleftrightarrow> (\<exists>e. (k, e) \<in> set cs \<and> t < e)" using same assms(2) by (meson order.strict_trans)
    finally show ?thesis by (auto simp: liveAt_def list_ex_iff)
  qed
  have Fwf: "sorted_wrt (\<lambda>a b. snd b < snd a) ?F" "distinct (map fst ?F)" using liveAt_wf [OF wf] by blast+
  from ok False show ?thesis
  proof (cases rule: claim_cases [where t = t])
    case refused
    have "alive t (ts_items ?s1) = alive t cs" unfolding alive_def items1 by auto
    moreover have "list_wf ttl n t cs" using wf assms(2) by (fastforce simp: list_wf_def)
    moreover have "\<forall>p\<in>set (ts_items ?s1). fst p \<noteq> []" using s(4) by (auto simp: pruneExpiredLocked_def)
    ultimately have "simulates ttl n t ?s1 cs" using s by (simp add: simulates_def)
    with refused False held show ?thesis by (simp add: specClaim_def)
  next
    case (granted s2)
    let ?full = "n > 0 \<and> int (length ?F) \<ge> n"
    have len: "length (ts_items ?s1) = length ?F"
    proof -
      have "distinct (ts_items ?s1)" "distinct ?F"
        using s(1) Fwf(2) by (auto simp: gm_ok_def distinct_map pruneExpiredLocked_def)
      then show ?thesis using items1 by (metis distinct_card)
    qed
    have s2: "s2 = (if ?full then evictOldestLocked ?s1 else ?s1)"
      using granted(2) s(3) len by simp
    have ne1: "\<forall>p\<in>set (ts_items ?s1). fst p \<noteq> []" using s(4) by (auto simp: pruneExpiredLocked_def)
    have items2: "set (ts_items s2) = set (if ?full then butlast ?F else ?F)"
    proof (cases ?full)
      case True
      then have "?F \<noteq> []" by auto
      from evicted_last [OF _ ne1 items1 this Fwf] True s(1) show ?thesis by (simp add: s2)
    next
      case False
      show ?thesis unfolding s2 if_not_P [OF False] by (rule items1)
    qed
    have ok2: "gm_ok (ts_items s2)" "ts_ttl s2 = ttl" "ts_maxEntries s2 = n" using s by (simp_all add: s2)
    let ?s' = "s2\<lparr>ts_items := gm_put k (t + ts_ttl s) (ts_items s2)\<rparr>" and ?cs' = "latest n ((k, t + ttl) # liveAt t cs)"
    have out: "\<not> list_ex (\<lambda>(k', e). k' = k) (liveAt t cs)" using granted(1) held by simp
    have items': "set (ts_items ?s') = insert (k, t + ttl) {p \<in> set (if ?full then butlast ?F else ?F). fst p \<noteq> k}"
      using s(2) by (simp add: set_put [OF ok2(1)] items2)
    have notk: "fst p \<noteq> k" if "p \<in> set cs" "t < snd p" for p
      using out that by (auto simp: list_ex_iff liveAt_def)
    let ?Y = "if n > 0 then take (nat n - 1) (liveAt t cs) else liveAt t cs"
    have kept: "alive t (if ?full then butlast ?F else ?F) = set ?Y"
      using wf by (intro kept_claims) (simp_all add: list_wf_def)
    have Y: "?cs' = (k, t + ttl) # ?Y" by (simp add: latest_def take_Cons')
    have Yk: "fst p \<noteq> k \<and> t < snd p" if "p \<in> set ?Y" for p
    proof -
      have "p \<in> set (liveAt t cs)" using that by (auto dest: in_set_takeD split: if_splits)
      then have "p \<in> set cs" "t < snd p" by (auto simp: liveAt_def)
      with notk show ?thesis by blast
    qed
    have "p \<in> alive t (ts_items ?s') \<longleftrightarrow> p \<in> alive t ?cs'" for p
    proof -
      have "p \<in> alive t (ts_items ?s') \<longleftrightarrow> t < snd p \<and> (p = (k, t + ttl) \<or> fst p \<noteq> k \<and> p \<in> alive t (if ?full then butlast ?F else ?F))"
        unfolding alive_def [of t "ts_items ?s'"] items' by (auto simp: alive_def)
      also have "\<dots> \<longleftrightarrow> t < snd p \<and> (p = (k, t + ttl) \<or> p \<in> set ?Y)" unfolding kept using Yk by blast
      also have "\<dots> \<longleftrightarrow> p \<in> alive t ?cs'" unfolding Y alive_def by auto
      finally show ?thesis .
    qed
    then have "alive t (ts_items ?s') = alive t ?cs'" by blast
    moreover have "\<forall>p\<in>set (ts_items ?s'). fst p \<noteq> []"
    proof -
      have "blank []" by code_simp
      with False have "k \<noteq> []" by auto
      moreover have "fst p \<noteq> []" if "p \<in> set (if ?full then butlast ?F else ?F)" for p
      proof -
        have "p \<in> set ?F" using that in_set_butlastD [of p ?F] by (cases ?full) simp_all
        then have "p \<in> set (ts_items ?s1)" unfolding items1 .
        with ne1 show ?thesis by blast
      qed
      ultimately show ?thesis unfolding items' by auto
    qed
    ultimately have "simulates ttl n t ?s' ?cs'"
      using spec_claim_wf [OF wf assms(2) out] ok2 s(2) by (simp add: simulates_def)
    with granted False out show ?thesis by (simp add: specClaim_def)
  qed
qed

lemma simulates_release: "simulates ttl n now s cs \<Longrightarrow> simulates ttl n now (ttlRelease k s) (specRelease k cs)"
proof -
  assume s: "simulates ttl n now s cs"
  have "n > 0 \<longrightarrow> int (length (filter (\<lambda>(k', e). k' \<noteq> k) cs)) \<le> n"
  proof
    assume "n > 0"
    with s have "int (length cs) \<le> n" by (simp add: simulates_def list_wf_def)
    moreover have "length (filter (\<lambda>(k', e). k' \<noteq> k) cs) \<le> length cs" by simp
    ultimately show "int (length (filter (\<lambda>(k', e). k' \<noteq> k) cs)) \<le> n" by linarith
  qed
  with s show ?thesis
    by (cases "blank k")
      (auto simp: simulates_def ttlRelease_def specRelease_def set_del alive_def list_wf_def sorted_wrt_filter distinct_map_filter
        set_eq_iff)
qed

lemma simulates_answers:
  "simulates ttl n now s cs \<Longrightarrow> sorted_wrt (<) (now # claim_times evs) \<Longrightarrow>
   answers ttlClaim ttlRelease s evs = answers (specClaim ttl n) specRelease cs evs"
proof (induction evs arbitrary: now s cs)
  case Nil
  then show ?case by simp
next
  case (Cons ev evs)
  show ?case
  proof (cases ev)
    case (EClaim t k)
    with Cons.prems(2) have t: "now < t" "sorted_wrt (<) (t # claim_times evs)" "sorted_wrt (<) (now # claim_times evs)" by auto
    from simulates_claim [OF Cons.prems(1) t(1), of k] Cons.IH t(2,3) EClaim show ?thesis by auto
  next
    case (ERelease k)
    with Cons.prems Cons.IH [OF simulates_release [OF Cons.prems(1), of k]] show ?thesis by simp
  qed
qed

text \<open>C39: A TTL set answers every sequence of claims and releases, at claim times that increase, as the list of its latest
  claims does: a claim is refused exactly if the key is among the claims that have not expired and have not been
  released, and when there is no room for another claim the oldest one, and no other, is forgotten. When the pruning
  happens cannot be observed.\<close>

theorem ttl_refines_list:
  assumes "sorted_wrt (<) (claim_times evs)"
  shows "answers ttlClaim ttlRelease (NewTTLSet ttl maxEntries) evs = answers (specClaim ttl maxEntries) specRelease [] evs"
proof -
  define now where "now = (case claim_times evs of [] \<Rightarrow> 0 | t # ts \<Rightarrow> t - 1)"
  have "simulates ttl maxEntries now (NewTTLSet ttl maxEntries) []"
    by (simp add: simulates_def NewTTLSet_def list_wf_def)
  moreover have "sorted_wrt (<) (now # claim_times evs)"
    using assms by (cases "claim_times evs") (fastforce simp: now_def)+
  ultimately show ?thesis by (rule simulates_answers)
qed

text \<open>In a set of one entry the second claim makes the set forget the first one.\<close>

theorem ttl_refines_list_witness:
  "answers ttlClaim ttlRelease (NewTTLSet 10 1) [EClaim 0 ''a'', EClaim 1 ''a'', EClaim 2 ''b'', EClaim 3 ''b'', EClaim 4 ''a''] =
   [True, False, True, False, True]"
proof -
  have nb: "\<not> blank ''a''" "\<not> blank ''b''" by code_simp+
  have "answers ttlClaim ttlRelease (NewTTLSet 10 1) [EClaim 0 ''a'', EClaim 1 ''a'', EClaim 2 ''b'', EClaim 3 ''b'', EClaim 4 ''a''] =
      answers (specClaim 10 1) specRelease [] [EClaim 0 ''a'', EClaim 1 ''a'', EClaim 2 ''b'', EClaim 3 ''b'', EClaim 4 ''a'']"
    by (rule ttl_refines_list) simp
  then show ?thesis by (simp add: specClaim_def liveAt_def latest_def nb)
qed

subsection \<open>The set stays small\<close>

definition ttlBounded :: "ttl_set \<Rightarrow> bool" where
  "ttlBounded s \<longleftrightarrow> gm_ok (ts_items s) \<and> 0 < ts_maxEntries s \<and> int (length (ts_items s)) \<le> ts_maxEntries s \<and>
     list_all (\<lambda>(k, e). \<not> blank k) (ts_items s)"

datatype ttl_op = OpHas gotime string | OpMark gotime string | OpClaim gotime string | OpRelease string

fun ttlStep :: "ttl_set \<Rightarrow> ttl_op \<Rightarrow> ttl_set" where
  "ttlStep s (OpHas t k) = snd (ttlHas t k s)"
| "ttlStep s (OpMark t k) = ttlMark t k s"
| "ttlStep s (OpClaim t k) = snd (ttlClaim t k s)"
| "ttlStep s (OpRelease k) = ttlRelease k s"

lemma olderEntry_mem: "foldl olderEntry (Some e) m = Some x \<Longrightarrow> x = e \<or> x \<in> set m"
  by (induction m arbitrary: e) (auto simp: olderEntry_def split: if_splits)

lemma olderEntry_some: "foldl olderEntry (Some e) m \<noteq> None"
  by (induction m arbitrary: e) (auto simp: olderEntry_def)

lemma length_del: "gm_ok m \<Longrightarrow> gm_get m k \<noteq> None \<Longrightarrow> Suc (length (gm_del k m)) = length m"
proof (induction m)
  case (Cons e m)
  have "gm_del k m = m" if "k \<notin> fst ` set m"
    using that by (induction m) auto
  with Cons show ?case
    by (cases e) (auto simp: gm_ok_Cons split: if_splits)
qed simp

lemma evict_shrinks:
  assumes "gm_ok (ts_items s)" "ts_items s \<noteq> []" "list_all (\<lambda>(k, e). \<not> blank k) (ts_items s)"
  shows "Suc (length (ts_items (evictOldestLocked s))) = length (ts_items s)"
proof -
  obtain e m where m: "ts_items s = e # m" using assms(2) by (cases "ts_items s") auto
  obtain k t where kt: "foldl olderEntry None (ts_items s) = Some (k, t)"
    using olderEntry_some [of e m] m by (auto simp: olderEntry_def)
  then have mem: "(k, t) \<in> set (ts_items s)"
    using olderEntry_mem [of e m "(k, t)"] m by (auto simp: olderEntry_def)
  have "blank []" by (simp add: blank_def) (code_simp)
  with mem have "k \<noteq> []" using assms(3) by (auto simp: list_all_iff)
  with kt length_del [OF assms(1), of k] mem assms(1) show ?thesis
    by (simp add: evictOldestLocked_def gm_in_iff)
qed

lemma all_del: "list_all P m \<Longrightarrow> list_all P (gm_del k m)"
  by (induction m) auto

lemma all_put: "list_all (\<lambda>(k, e). \<not> blank k) m \<Longrightarrow> \<not> blank k \<Longrightarrow> list_all (\<lambda>(k, e). \<not> blank k) (gm_put k e m)"
  by (induction m) auto

lemma prune_bounded: "ttlBounded s \<Longrightarrow> ttlBounded (pruneExpiredLocked t s)"
  using order_trans [OF of_nat_mono [OF length_prune [of t s]]]
  by (auto simp: ttlBounded_def list_all_iff pruneExpiredLocked_def gm_ok_filter)

lemma del_bounded: "ttlBounded s \<Longrightarrow> ttlBounded (s\<lparr>ts_items := gm_del k (ts_items s)\<rparr>)"
  using length_del_le [of k "ts_items s"] by (auto simp: ttlBounded_def all_del)

lemma put_bounded:
  "ttlBounded s \<Longrightarrow> int (length (ts_items s)) < ts_maxEntries s \<Longrightarrow> \<not> blank k \<Longrightarrow>
   ttlBounded (s\<lparr>ts_items := gm_put k e (ts_items s)\<rparr>)"
  using length_put_le [of k e "ts_items s"] by (auto simp: ttlBounded_def all_put)

lemma evict_bounded:
  assumes "ttlBounded s"
  shows "ttlBounded (evictOldestLocked s)"
proof -
  have "list_all P (ts_items (evictOldestLocked s))" if "list_all P (ts_items s)" for P
    using that by (auto simp: evictOldestLocked_def all_del split: option.splits prod.splits)
  with assms order_trans [OF of_nat_mono [OF evict_fields(4) [of s]]] show ?thesis
    by (auto simp: ttlBounded_def)
qed

lemma deleteFirst_bounded:
  assumes "ttlBounded s" "ts_maxEntries s \<le> int (length (ts_items s))"
  shows "ttlBounded (s\<lparr>ts_items := deleteFirst (ts_items s)\<rparr>) \<and>
    int (length (deleteFirst (ts_items s))) < ts_maxEntries s"
proof -
  obtain k e m where m: "ts_items s = (k, e) # m"
    using assms by (cases "ts_items s") (auto simp: ttlBounded_def)
  have "Suc (length (gm_del k (ts_items s))) = length (ts_items s)"
    using assms(1) m by (intro length_del) (auto simp: ttlBounded_def)
  with assms m del_bounded [OF assms(1), of k] show ?thesis
    by (auto simp: ttlBounded_def deleteFirst_def)
qed

lemma claim_bounded: "ttlBounded s \<Longrightarrow> ttlBounded (snd (ttlClaim t k s))"
proof -
  assume s: "ttlBounded s"
  let ?s1 = "pruneExpiredLocked t s"
  have s1: "ttlBounded ?s1" using s by (rule prune_bounded)
  show ?thesis
  proof (cases "blank k \<or> (case gm_get (ts_items ?s1) k of None \<Rightarrow> False | Some e \<Rightarrow> t < e)")
    case True
    with s s1 show ?thesis by (auto simp: ttlClaim_def Let_def)
  next
    case False
    show ?thesis
    proof (cases "ts_maxEntries ?s1 \<le> int (length (ts_items ?s1))")
      case True
      have "ts_items ?s1 \<noteq> []" using True s1 by (auto simp: ttlBounded_def)
      then have "Suc (length (ts_items (evictOldestLocked ?s1))) = length (ts_items ?s1)"
        using s1 by (intro evict_shrinks) (auto simp: ttlBounded_def)
      with True s1 have "int (length (ts_items (evictOldestLocked ?s1))) < ts_maxEntries (evictOldestLocked ?s1)"
        by (auto simp: ttlBounded_def)
      with put_bounded [OF evict_bounded [OF s1]] False True s1 show ?thesis
        by (simp add: ttlClaim_def Let_def ttlBounded_def)
    next
      case room: False
      with put_bounded [OF s1] False show ?thesis
        by (simp add: ttlClaim_def Let_def)
    qed
  qed
qed

lemma mark_bounded: "ttlBounded s \<Longrightarrow> ttlBounded (ttlMark t k s)"
proof -
  assume s: "ttlBounded s"
  let ?s1 = "pruneExpiredLocked t s"
  have s1: "ttlBounded ?s1" using s by (rule prune_bounded)
  show ?thesis
  proof (cases "blank k")
    case True
    with s show ?thesis by (simp add: ttlMark_def)
  next
    case False
    show ?thesis
    proof (cases "ts_maxEntries ?s1 \<le> int (length (ts_items ?s1))")
      case True
      with put_bounded [of "?s1\<lparr>ts_items := deleteFirst (ts_items ?s1)\<rparr>" k] deleteFirst_bounded [OF s1] False
      show ?thesis by (simp add: ttlMark_def Let_def)
    next
      case room: False
      with put_bounded [OF s1] False show ?thesis by (simp add: ttlMark_def Let_def)
    qed
  qed
qed

lemma step_bounded: "ttlBounded s \<Longrightarrow> ttlBounded (ttlStep s op1)"
  by (cases op1)
    (auto simp: claim_bounded mark_bounded ttlHas_def Let_def prune_bounded del_bounded ttlRelease_def split: option.splits)

text \<open>Whatever is asked of a TTL set in whatever order and at whatever times, it never holds more
  entries than its maximum, its keys are distinct and none is blank.\<close>

theorem ttl_set_bounded:
  assumes "0 < maxEntries"
  shows "ttlBounded (foldl ttlStep (NewTTLSet ttl maxEntries) ops)"
proof (induction ops rule: rev_induct)
  case Nil
  show ?case using assms by (simp add: ttlBounded_def NewTTLSet_def)
next
  case (snoc op1 ops)
  then show ?case by (simp add: step_bounded)
qed

theorem ttl_set_bounded_witness:
  "ttlBounded (foldl ttlStep (NewTTLSet 10 1) [OpClaim 0 ''a'', OpMark 1 ''b'', OpHas 2 ''b''])"
  by (rule ttl_set_bounded) simp

end
