(* ===== verification/Svc_Queue.thy ===== *)
theory Svc_Queue
  imports Svc_Dedup
begin

text \<open>
  The asynchronous chat tasks and memory extractions of internal/ai/service (chat_task_queue.go,
  chat_task_client.go, chat_task_record.go, memory_queue_client.go): the submission of a task, the
  execution of a task event and the two consumers' handlers of a delivery.

  A handler is a function of the deduper's state; it takes the deduper's operations as arguments, as the code
  takes the interface. What it does otherwise is its result: how the delivery was settled, the messages
  that were published, the records it tried to store, and how often the executor ran. The decoder, the
  broker, Redis, the executor and the clock answer by the records \<open>chat_io\<close> and \<open>memory_io\<close>. A failing ack
  is only logged by the code and is not modelled, nor are metrics and logs.
\<close>

subsection \<open>Data\<close>

datatype chat_task_status = TaskQueued | TaskRunning | TaskSucceeded | TaskFailed

record chat_task_record =
  tr_ID :: string
  tr_SessionID :: string
  tr_Query :: string
  tr_Status :: chat_task_status
  tr_Answer :: string
  tr_Detail :: "string list"
  tr_TraceID :: string
  tr_Mode :: string
  tr_Degraded :: bool
  tr_DegradationReason :: string
  tr_Error :: "goerr option"
  tr_CreatedAt :: int
  tr_UpdatedAt :: int
  tr_StartedAt :: int
  tr_FinishedAt :: int

definition emptyTaskRecord :: chat_task_record where
  "emptyTaskRecord =
     \<lparr>tr_ID = [], tr_SessionID = [], tr_Query = [], tr_Status = TaskQueued, tr_Answer = [], tr_Detail = [],
      tr_TraceID = [], tr_Mode = [], tr_Degraded = False, tr_DegradationReason = [], tr_Error = None,
      tr_CreatedAt = 0, tr_UpdatedAt = 0, tr_StartedAt = 0, tr_FinishedAt = 0\<rparr>"

record chat_task_result =
  tx_Answer :: string
  tx_Detail :: "string list"
  tx_TraceID :: string
  tx_Mode :: string
  tx_Degraded :: bool
  tx_DegradationReason :: string

record chat_task_event =
  te_TaskID :: string
  te_SessionID :: string
  te_Query :: string
  te_RequestedAt :: int
  te_Attempt :: int

record chat_task_config =
  qc_Enabled :: bool
  qc_URL :: string
  qc_Exchange :: string
  qc_RoutingKey :: string
  qc_RetryRoutingKey :: string
  qc_DLQRoutingKey :: string
  qc_Queue :: string
  qc_RetryQueue :: string
  qc_DLQ :: string
  qc_Prefetch :: int
  qc_MaxRetries :: int
  qc_RetryDelay :: duration
  qc_ReconnectDelay :: duration
  qc_PublishTimeout :: duration
  qc_ExecuteTimeout :: duration
  qc_ConsumerEnabled :: bool
  qc_TaskTTL :: duration
  qc_RedisKeyPrefix :: string
  qc_ConnectionTimeout :: duration

text \<open>\<open>qi_decode\<close> is the JSON of the body, \<open>qi_publish key event\<close> and \<open>qi_publishRaw key\<close> the broker's answers,
  \<open>qi_load\<close> and \<open>qi_save n record\<close> the answers of Redis to the load and to the n-th save, \<open>qi_unix n\<close> the n-th
  reading of the clock in seconds.\<close>

record chat_io =
  qi_now :: gotime
  qi_decode :: "goerr + chat_task_event"
  qi_publishRaw :: "string \<Rightarrow> goerr option"
  qi_publish :: "string \<Rightarrow> chat_task_event \<Rightarrow> goerr option"
  qi_executor :: "(string \<Rightarrow> string \<Rightarrow> goerr + chat_task_result) option"
  qi_load :: "goerr + chat_task_record"
  qi_save :: "nat \<Rightarrow> chat_task_record \<Rightarrow> goerr option"
  qi_unix :: "nat \<Rightarrow> int"

datatype delivery_end = Acked | Requeued

datatype 'e sent = SentRaw string | SentEvent string 'e

record handled =
  hd_end :: delivery_end
  hd_sent :: "chat_task_event sent list"
  hd_runs :: nat
  hd_saves :: "chat_task_record list"

definition settled :: "delivery_end \<Rightarrow> chat_task_event sent list \<Rightarrow> handled" where
  "settled e sent = \<lparr>hd_end = e, hd_sent = sent, hd_runs = 0, hd_saves = []\<rparr>"

subsection \<open>Executing a task\<close>

definition decodeChatTaskEvent :: "goerr + chat_task_event \<Rightarrow> goerr + chat_task_event" where
  "decodeChatTaskEvent body =
     (case body of
        Inl err \<Rightarrow> Inl err
      | Inr event \<Rightarrow>
          if blank (te_TaskID event) \<or> blank (te_SessionID event) \<or> blank (te_Query event)
          then Inl (Errorf ''invalid chat task event'' []) else Inr event)"

text \<open>The first component is the error, then whether the executor ran, then the records given to Redis.\<close>

definition processEvent :: "chat_io \<Rightarrow> chat_task_event \<Rightarrow> goerr option \<times> nat \<times> chat_task_record list" where
  "processEvent io event =
     (case qi_executor io of
        None \<Rightarrow> (Some (Errorf ''chat task executor is not registered'' []), 0, [])
      | Some exec \<Rightarrow>
          (let now = qi_unix io 0;
               record0 =
                 (case qi_load io of
                    Inl err \<Rightarrow> emptyTaskRecord\<lparr>tr_ID := te_TaskID event, tr_SessionID := te_SessionID event,
                                 tr_Query := te_Query event, tr_CreatedAt := now\<rparr>
                  | Inr r \<Rightarrow> r);
               record1 = record0\<lparr>tr_Status := TaskRunning, tr_StartedAt := now, tr_UpdatedAt := now, tr_Error := None\<rparr>
           in case qi_save io 0 record1 of
                Some err \<Rightarrow> (Some err, 0, [record1])
              | None \<Rightarrow>
                  (let record2 = record1\<lparr>tr_UpdatedAt := qi_unix io 1, tr_FinishedAt := qi_unix io 1\<rparr>
                   in case exec (te_SessionID event) (te_Query event) of
                        Inl err \<Rightarrow>
                          (let record3 = record2\<lparr>tr_Status := TaskFailed, tr_Error := Some err\<rparr>
                           in (Some (case qi_save io 1 record3 of Some saveErr \<Rightarrow> saveErr | None \<Rightarrow> err),
                               1, [record1, record3]))
                      | Inr result \<Rightarrow>
                          (let record3 = record2\<lparr>tr_Status := TaskSucceeded, tr_Answer := tx_Answer result,
                                 tr_Detail := tx_Detail result, tr_TraceID := tx_TraceID result,
                                 tr_Mode := tx_Mode result, tr_Degraded := tx_Degraded result,
                                 tr_DegradationReason := tx_DegradationReason result, tr_Error := None\<rparr>
                           in (qi_save io 1 record3, 1, [record1, record3])))))"

subsection \<open>The consumer of chat tasks\<close>

definition toDLQ :: "chat_task_config \<Rightarrow> chat_io \<Rightarrow> chat_task_event \<Rightarrow> handled \<Rightarrow> handled" where
  "toDLQ cfg io event h =
     (case qi_publish io (qc_DLQRoutingKey cfg) event of
        None \<Rightarrow> h\<lparr>hd_end := Acked, hd_sent := [SentEvent (qc_DLQRoutingKey cfg) event]\<rparr>
      | Some dlqErr \<Rightarrow> h\<lparr>hd_end := Requeued\<rparr>)"

definition handleDelivery ::
    "(gotime \<Rightarrow> string \<Rightarrow> 's \<Rightarrow> bool \<times> 's) \<Rightarrow> (string \<Rightarrow> 's \<Rightarrow> 's) \<Rightarrow> chat_task_config \<Rightarrow> chat_io \<Rightarrow> 's \<Rightarrow> handled \<times> 's" where
  "handleDelivery claim release cfg io s =
     (case decodeChatTaskEvent (qi_decode io) of
        Inl err \<Rightarrow>
          (case qi_publishRaw io (qc_DLQRoutingKey cfg) of
             Some publishErr \<Rightarrow> (settled Requeued [], s)
           | None \<Rightarrow> (settled Acked [SentRaw (qc_DLQRoutingKey cfg)], s))
      | Inr event \<Rightarrow>
          (let (claimed, s1) = claim (qi_now io) (te_TaskID event) s
           in if \<not> claimed then (settled Acked [], s1)
              else
                (let (err, runs, saves) = processEvent io event;
                     h = (settled Acked [])\<lparr>hd_runs := runs, hd_saves := saves\<rparr>
                 in if err = None then (h, s1)
                    else if te_Attempt event < qc_MaxRetries cfg
                    then
                      (let event1 = event\<lparr>te_Attempt := te_Attempt event + 1\<rparr>
                       in case qi_publish io (qc_RetryRoutingKey cfg) event1 of
                            None \<Rightarrow> (h\<lparr>hd_sent := [SentEvent (qc_RetryRoutingKey cfg) event1]\<rparr>, release (te_TaskID event1) s1)
                          | Some publishErr \<Rightarrow> (toDLQ cfg io event1 h, s1))
                    else (toDLQ cfg io event h, s1))))"

text \<open>The consumer calls its handler on one delivery after the other.\<close>

fun consume ::
    "(gotime \<Rightarrow> string \<Rightarrow> 's \<Rightarrow> bool \<times> 's) \<Rightarrow> (string \<Rightarrow> 's \<Rightarrow> 's) \<Rightarrow> chat_task_config \<Rightarrow> chat_io list \<Rightarrow> 's \<Rightarrow> handled list \<times> 's" where
  "consume claim release cfg [] s = ([], s)"
| "consume claim release cfg (io # ios) s =
     (let (h, s1) = handleDelivery claim release cfg io s; (hs, s2) = consume claim release cfg ios s1 in (h # hs, s2))"

subsection \<open>Submitting a task\<close>

text \<open>\<open>si_id\<close> is the new UUID, \<open>si_client\<close> whether the pipeline is connected.\<close>

record submit_io =
  si_id :: string
  si_unix :: "nat \<Rightarrow> int"
  si_millis :: int
  si_save :: "nat \<Rightarrow> chat_task_record \<Rightarrow> goerr option"
  si_client :: "chat_task_config option"
  si_publish :: "string \<Rightarrow> chat_task_event \<Rightarrow> goerr option"

text \<open>The second component is the records given to Redis, the third the messages published.\<close>

definition SubmitChatTask ::
    "submit_io \<Rightarrow> chat_task_config \<Rightarrow> goerr option \<Rightarrow> string \<Rightarrow> string
     \<Rightarrow> (goerr + chat_task_record) \<times> chat_task_record list \<times> chat_task_event sent list" where
  "SubmitChatTask io cfg invalid sessionID query =
     (case invalid of
        Some err \<Rightarrow> (Inl err, [], [])
      | None \<Rightarrow>
          if \<not> qc_Enabled cfg then (Inl (Errorf ''chat async queue is not enabled'' []), [], [])
          else
            (let now = si_unix io 0;
                 record0 = emptyTaskRecord\<lparr>tr_ID := si_id io, tr_SessionID := trim_space sessionID,
                   tr_Query := trim_space query, tr_Status := TaskQueued, tr_CreatedAt := now, tr_UpdatedAt := now\<rparr>
             in if tr_SessionID record0 = [] then (Inl (Errorf ''session id is empty'' []), [], [])
                else if tr_Query record0 = [] then (Inl (Errorf ''query is empty'' []), [], [])
                else case si_save io 0 record0 of
                  Some err \<Rightarrow> (Inl err, [record0], [])
                | None \<Rightarrow>
                    (case si_client io of
                       None \<Rightarrow>
                         (let err = Errorf ''chat task queue is not ready'' []
                          in (Inl err, [record0, record0\<lparr>tr_Status := TaskFailed, tr_Error := Some err,
                                tr_UpdatedAt := si_unix io 1\<rparr>], []))
                     | Some ccfg \<Rightarrow>
                         (let event = \<lparr>te_TaskID = tr_ID record0, te_SessionID = tr_SessionID record0,
                                te_Query = tr_Query record0, te_RequestedAt = si_millis io, te_Attempt = 0\<rparr>
                          in case si_publish io (qc_RoutingKey ccfg) event of
                               Some err \<Rightarrow>
                                 (Inl err, [record0, record0\<lparr>tr_Status := TaskFailed, tr_Error := Some err,
                                    tr_UpdatedAt := si_unix io 1\<rparr>], [])
                             | None \<Rightarrow> (Inr record0, [record0], [SentEvent (qc_RoutingKey ccfg) event])))))"

subsection \<open>The consumer of memory extractions\<close>

record memory_event =
  me_EventID :: string
  me_SessionID :: string
  me_UserID :: string
  me_ProjectID :: string
  me_TraceID :: string
  me_Query :: string
  me_Summary :: string
  me_RequestedAt :: int
  me_Attempt :: int

record memory_config =
  mc_Enabled :: bool
  mc_URL :: string
  mc_Exchange :: string
  mc_RoutingKey :: string
  mc_RetryRoutingKey :: string
  mc_DLQRoutingKey :: string
  mc_Queue :: string
  mc_RetryQueue :: string
  mc_DLQ :: string
  mc_Prefetch :: int
  mc_MaxRetries :: int
  mc_RetryDelay :: duration
  mc_PublishTimeout :: duration
  mc_Timeout :: duration
  mc_DedupTTL :: duration
  mc_DedupMaxEntries :: int
  mc_ConsumerEnabled :: bool
  mc_ReconnectDelay :: duration

text \<open>\<open>mi_now n\<close> is the clock at the n-th claim, \<open>mi_sha256\<close> the hexadecimal digest, \<open>mi_consume\<close> the error
  of the extraction (a panic or the end of the context included).\<close>

record memory_io =
  mi_now :: "nat \<Rightarrow> gotime"
  mi_decode :: "goerr + memory_event"
  mi_publishRaw :: "string \<Rightarrow> goerr option"
  mi_publish :: "string \<Rightarrow> memory_event \<Rightarrow> goerr option"
  mi_sha256 :: "string \<Rightarrow> string"
  mi_consume :: "memory_event \<Rightarrow> goerr option"

record memory_handled =
  mh_end :: delivery_end
  mh_sent :: "memory_event sent list"
  mh_runs :: nat

definition decodeMemoryExtractionEvent :: "goerr + memory_event \<Rightarrow> goerr + memory_event" where
  "decodeMemoryExtractionEvent body =
     (case body of
        Inl err \<Rightarrow> Inl err
      | Inr event \<Rightarrow>
          if blank (me_SessionID event) \<or> blank (me_Query event) \<or> blank (me_Summary event)
          then Inl (Errorf ''invalid memory extraction event'' []) else Inr event)"

definition buildMemoryExtractionEventID :: "(string \<Rightarrow> string) \<Rightarrow> string \<Rightarrow> string \<Rightarrow> string \<Rightarrow> string" where
  "buildMemoryExtractionEventID sha256 sessionID query summary =
     sha256 (sessionID @ [CHR 0x00] @ query @ [CHR 0x00] @ summary)"

definition withEventID :: "memory_io \<Rightarrow> memory_event \<Rightarrow> memory_event" where
  "withEventID io event =
     (if blank (me_EventID event)
      then event\<lparr>me_EventID := buildMemoryExtractionEventID (mi_sha256 io) (me_SessionID event) (me_Query event) (me_Summary event)\<rparr>
      else event)"

definition handleMemoryDelivery ::
    "(gotime \<Rightarrow> string \<Rightarrow> 's \<Rightarrow> bool \<times> 's) \<Rightarrow> (string \<Rightarrow> 's \<Rightarrow> 's) \<Rightarrow> memory_config \<Rightarrow> memory_io \<Rightarrow> 's \<Rightarrow> memory_handled \<times> 's" where
  "handleMemoryDelivery claim release cfg io s =
     (case decodeMemoryExtractionEvent (mi_decode io) of
        Inl err \<Rightarrow>
          (case mi_publishRaw io (mc_DLQRoutingKey cfg) of
             Some publishErr \<Rightarrow> (\<lparr>mh_end = Requeued, mh_sent = [], mh_runs = 0\<rparr>, s)
           | None \<Rightarrow> (\<lparr>mh_end = Acked, mh_sent = [SentRaw (mc_DLQRoutingKey cfg)], mh_runs = 0\<rparr>, s))
      | Inr event0 \<Rightarrow>
          (let event = withEventID io event0; (claimed, s1) = claim (mi_now io 0) (me_EventID event) s
           in if \<not> claimed then (\<lparr>mh_end = Acked, mh_sent = [], mh_runs = 0\<rparr>, s1)
              else if mi_consume io event = None then (\<lparr>mh_end = Acked, mh_sent = [], mh_runs = 1\<rparr>, s1)
              else if me_Attempt event < mc_MaxRetries cfg
              then
                (let event1 = event\<lparr>me_Attempt := me_Attempt event + 1\<rparr>
                 in case mi_publish io (mc_RetryRoutingKey cfg) event1 of
                      None \<Rightarrow> (\<lparr>mh_end = Acked, mh_sent = [SentEvent (mc_RetryRoutingKey cfg) event1], mh_runs = 1\<rparr>,
                               release (me_EventID event1) s1)
                    | Some publishErr \<Rightarrow>
                        (let (again, s2) = claim (mi_now io 1) (me_EventID event1) s1
                         in case mi_publish io (mc_DLQRoutingKey cfg) event1 of
                              None \<Rightarrow> (\<lparr>mh_end = Acked, mh_sent = [SentEvent (mc_DLQRoutingKey cfg) event1], mh_runs = 1\<rparr>, s2)
                            | Some dlqErr \<Rightarrow> (\<lparr>mh_end = Requeued, mh_sent = [], mh_runs = 1\<rparr>, s2)))
              else (case mi_publish io (mc_DLQRoutingKey cfg) event of
                      None \<Rightarrow> (\<lparr>mh_end = Acked, mh_sent = [SentEvent (mc_DLQRoutingKey cfg) event], mh_runs = 1\<rparr>, s1)
                    | Some dlqErr \<Rightarrow> (\<lparr>mh_end = Requeued, mh_sent = [], mh_runs = 1\<rparr>, s1))))"

end
