(* ===== verification/Svc_Queue_Properties.thy ===== *)
theory Svc_Queue_Properties
  imports Svc_Queue
begin

text \<open>
  What the consumers of Svc_Queue guarantee over the contract of the dedupers (locale \<open>dedup\<close>, proved once
  there and read off for the local set and for the composite with Redis): a task that succeeded is not
  executed again, a retry is executed, retries end, every settled delivery is accounted for, and a
  delivery that is put back into the queue is lost.
\<close>

definition taskOf :: "chat_io \<Rightarrow> string option" where
  "taskOf io = (case decodeChatTaskEvent (qi_decode io) of Inl err \<Rightarrow> None | Inr event \<Rightarrow> Some (te_TaskID event))"

lemma taskOf_Some:
  assumes "taskOf io = Some k"
  obtains event where "decodeChatTaskEvent (qi_decode io) = Inr event" "te_TaskID event = k" "\<not> blank k"
  using assms that
  by (auto simp: taskOf_def decodeChatTaskEvent_def split: sum.splits if_splits)

lemma decoded_event:
  "decodeChatTaskEvent d = Inr event \<longleftrightarrow>
     d = Inr event \<and> \<not> blank (te_TaskID event) \<and> \<not> blank (te_SessionID event) \<and> \<not> blank (te_Query event)"
  by (auto simp: decodeChatTaskEvent_def split: sum.splits)

lemma toDLQ_fields [simp]:
  "hd_runs (toDLQ cfg io event h) = hd_runs h" "hd_saves (toDLQ cfg io event h) = hd_saves h"
  by (simp_all add: toDLQ_def split: option.splits)

lemma settled_fields [simp]:
  "hd_end (settled e m) = e" "hd_sent (settled e m) = m" "hd_runs (settled e m) = 0" "hd_saves (settled e m) = []"
  by (simp_all add: settled_def)

text \<open>A delivery of a decodable event is refused, succeeds, is retried, or is given to the dead letters.\<close>

lemma handle_cases:
  assumes "decodeChatTaskEvent (qi_decode io) = Inr event"
  obtains (refused) "\<not> fst (cl (qi_now io) (te_TaskID event) s)"
      "handleDelivery cl rl cfg io s = (settled Acked [], snd (cl (qi_now io) (te_TaskID event) s))"
  | (finished) runs saves where "fst (cl (qi_now io) (te_TaskID event) s)" "processEvent io event = (None, runs, saves)"
      "handleDelivery cl rl cfg io s =
         ((settled Acked [])\<lparr>hd_runs := runs, hd_saves := saves\<rparr>, snd (cl (qi_now io) (te_TaskID event) s))"
  | (retried) err runs saves event1 where "fst (cl (qi_now io) (te_TaskID event) s)"
      "processEvent io event = (Some err, runs, saves)" "te_Attempt event < qc_MaxRetries cfg"
      "event1 = event\<lparr>te_Attempt := te_Attempt event + 1\<rparr>" "qi_publish io (qc_RetryRoutingKey cfg) event1 = None"
      "handleDelivery cl rl cfg io s =
         ((settled Acked [SentEvent (qc_RetryRoutingKey cfg) event1])\<lparr>hd_runs := runs, hd_saves := saves\<rparr>,
          rl (te_TaskID event) (snd (cl (qi_now io) (te_TaskID event) s)))"
  | (dead) err runs saves event1 where "fst (cl (qi_now io) (te_TaskID event) s)"
      "processEvent io event = (Some err, runs, saves)"
      "event1 = (if te_Attempt event < qc_MaxRetries cfg then event\<lparr>te_Attempt := te_Attempt event + 1\<rparr> else event)"
      "te_Attempt event < qc_MaxRetries cfg \<Longrightarrow> qi_publish io (qc_RetryRoutingKey cfg) event1 \<noteq> None"
      "handleDelivery cl rl cfg io s =
         (toDLQ cfg io event1 ((settled Acked [])\<lparr>hd_runs := runs, hd_saves := saves\<rparr>),
          snd (cl (qi_now io) (te_TaskID event) s))"
proof (cases "fst (cl (qi_now io) (te_TaskID event) s)")
  case False
  then show thesis
    using assms by (intro refused) (simp_all add: handleDelivery_def split_beta)
next
  case True
  obtain err runs saves where p: "processEvent io event = (err, runs, saves)"
    by (cases "processEvent io event") auto
  show thesis
  proof (cases err)
    case None
    with True p assms show thesis
      by (intro finished) (simp_all add: handleDelivery_def split_beta)
  next
    case (Some er)
    show thesis
    proof (cases "te_Attempt event < qc_MaxRetries cfg \<and>
        qi_publish io (qc_RetryRoutingKey cfg) (event\<lparr>te_Attempt := te_Attempt event + 1\<rparr>) = None")
      case retry: True
      with True p Some assms show thesis
        by (intro retried [of er runs saves, OF _ _ _ refl]) (simp_all add: handleDelivery_def split_beta Let_def settled_def)
    next
      case no: False
      with True p Some assms show thesis
        by (intro dead [of er runs saves, OF _ _ refl]) (auto simp: handleDelivery_def split_beta Let_def split: option.splits)
    qed
  qed
qed

lemma toDLQ_end:
  "hd_end (toDLQ cfg io event h) =
     (if qi_publish io (qc_DLQRoutingKey cfg) event = None then Acked else Requeued)"
  "hd_sent (toDLQ cfg io event h) =
     (if qi_publish io (qc_DLQRoutingKey cfg) event = None then [SentEvent (qc_DLQRoutingKey cfg) event] else hd_sent h)"
  by (auto simp: toDLQ_def split: option.splits)

subsection \<open>Over the contract\<close>

context dedup
begin

lemma handle_held:
  assumes "ok s" "taskOf io = Some k" "held (qi_now io) k s"
  shows "handleDelivery claim release cfg io s = (settled Acked [], snd (claim (qi_now io) k s))"
proof -
  obtain event where ev: "decodeChatTaskEvent (qi_decode io) = Inr event" "te_TaskID event = k" "\<not> blank k"
    using taskOf_Some [OF assms(2)] by metis
  have "\<not> fst (claim (qi_now io) k s)" by (rule refuse [OF assms(1) ev(3) assms(3)])
  with ev show ?thesis by (simp add: handleDelivery_def split_beta)
qed

lemma handle_inv:
  assumes "ok s" "room (Suc n) s"
  shows "ok (snd (handleDelivery claim release cfg io s)) \<and> room n (snd (handleDelivery claim release cfg io s))"
proof (cases "decodeChatTaskEvent (qi_decode io)")
  case (Inl err)
  with assms less_room show ?thesis
    by (auto simp: handleDelivery_def split: option.splits)
next
  case (Inr event)
  let ?s1 = "snd (claim (qi_now io) (te_TaskID event) s)"
  have s1: "ok ?s1" "room n ?s1" using assms claim_ok claim_room by auto
  then have "ok (release (te_TaskID event) ?s1)" "room n (release (te_TaskID event) ?s1)"
    using release_ok release_room by auto
  with s1 show ?thesis
    by (cases rule: handle_cases [OF Inr, of claim s release cfg]) auto
qed

lemma handle_keeps:
  assumes "ok s" "room (Suc n) s" "held t' k s" "qi_now io \<le> t'" "held (qi_now io) k s"
  shows "held t' k (snd (handleDelivery claim release cfg io s))"
proof (cases "decodeChatTaskEvent (qi_decode io)")
  case (Inl err)
  with assms show ?thesis by (auto simp: handleDelivery_def split: option.splits)
next
  case (Inr event)
  let ?k = "te_TaskID event"
  let ?s1 = "snd (claim (qi_now io) ?k s)"
  have s1: "ok ?s1" "held t' k ?s1" using assms claim_ok keep by auto
  from Inr show ?thesis
  proof (cases rule: handle_cases [where cl = claim and s = s and rl = release and cfg = cfg])
    case retried
    have "\<not> blank ?k" using Inr by (simp add: decoded_event)
    with refuse assms(1,5) retried(1) have "k \<noteq> ?k" by blast
    with retried release_keep [OF s1(1)] s1(2) show ?thesis by simp
  qed (use s1 in auto)
qed

lemma consume_quiet:
  assumes "ok s" "room (length ios) s" "\<And>t'. t0 \<le> t' \<Longrightarrow> t' < t1 \<Longrightarrow> held t' k s"
    and "sorted (t0 # map qi_now ios)" "list_all (\<lambda>i. qi_now i < t1) ios"
  shows "list_all2 (\<lambda>i h. taskOf i = Some k \<longrightarrow> h = settled Acked []) ios (fst (consume claim release cfg ios s))"
  using assms
proof (induction ios arbitrary: s t0)
  case Nil
  then show ?case by simp
next
  case (Cons io ios)
  let ?s1 = "snd (handleDelivery claim release cfg io s)"
  have inv: "ok ?s1" "room (length ios) ?s1"
    using handle_inv [of s "length ios" cfg io] Cons.prems by simp_all
  have held: "held t' k ?s1" if "qi_now io \<le> t'" "t' < t1" for t'
    using handle_keeps [of s "length ios" t' k io cfg] Cons.prems that by simp
  have rest: "list_all2 (\<lambda>i h. taskOf i = Some k \<longrightarrow> h = settled Acked []) ios (fst (consume claim release cfg ios ?s1))"
    by (rule Cons.IH [OF inv held]) (use Cons.prems in auto)
  show ?case
    using Cons.prems rest handle_held [of s io k cfg] by (auto simp: split_beta)
qed

lemma claimed_held:
  assumes "ok s" "taskOf io = Some k" "handleDelivery claim release cfg io s = (h, s1)"
    and "fst (claim (qi_now io) k s)" "hd_end h = Acked \<Longrightarrow> hd_sent h = []"
    and "qi_now io \<le> t'" "t' < qi_now io + ttl"
  shows "held t' k s1"
proof -
  obtain event where ev: "decodeChatTaskEvent (qi_decode io) = Inr event" "te_TaskID event = k" "\<not> blank k"
    using taskOf_Some [OF assms(2)] by metis
  have "held t' k (snd (claim (qi_now io) k s))"
    by (rule taken [OF assms(1) ev(3) assms(4,6,7)])
  moreover have "s1 = snd (claim (qi_now io) k s)"
    by (cases rule: handle_cases [OF ev(1), of claim s release cfg]) (use assms(3,5) ev(2) in auto)
  ultimately show ?thesis by simp
qed

lemma succeeded_quiet:
  assumes "ok s" "room (Suc (length ios)) s" "decodeChatTaskEvent (qi_decode io) = Inr event"
    and "fst (claim (qi_now io) (te_TaskID event) s)" "fst (processEvent io event) = None"
    and "handleDelivery claim release cfg io s = (h, s1)"
    and "sorted (map qi_now (io # ios))" "list_all (\<lambda>i. qi_now i < qi_now io + ttl) ios"
  shows "hd_end h = Acked \<and> hd_sent h = [] \<and>
    list_all2 (\<lambda>i h. taskOf i = Some (te_TaskID event) \<longrightarrow> h = settled Acked []) ios (fst (consume claim release cfg ios s1))"
proof -
  have task: "taskOf io = Some (te_TaskID event)" using assms(3) by (simp add: taskOf_def)
  have h: "hd_end h = Acked" "hd_sent h = []"
    by (cases rule: handle_cases [OF assms(3), of claim s release cfg]; use assms(4-6) in simp)+
  have inv: "ok s1" "room (length ios) s1"
    using handle_inv [OF assms(1,2), of cfg io] assms(6) by simp_all
  have "list_all2 (\<lambda>i h. taskOf i = Some (te_TaskID event) \<longrightarrow> h = settled Acked []) ios (fst (consume claim release cfg ios s1))"
  proof (rule consume_quiet [OF inv _ _ assms(8)])
    show "\<And>t'. qi_now io \<le> t' \<Longrightarrow> t' < qi_now io + ttl \<Longrightarrow> held t' (te_TaskID event) s1"
      by (rule claimed_held [OF assms(1) task assms(6,4)]) (use h in simp_all)
    show "sorted (qi_now io # map qi_now ios)" using assms(7) by simp
  qed
  with h show ?thesis by blast
qed

lemma requeued_lost:
  assumes "ok s" "decodeChatTaskEvent (qi_decode io) = Inr event"
    and "handleDelivery claim release cfg io s = (h, s1)" "hd_end h = Requeued"
    and "taskOf io2 = Some (te_TaskID event)" "qi_now io \<le> qi_now io2" "qi_now io2 < qi_now io + ttl"
  shows "fst (processEvent io event) \<noteq> None \<and> hd_sent h = [] \<and>
    fst (handleDelivery claim release cfg io2 s1) = settled Acked []"
proof -
  have task: "taskOf io = Some (te_TaskID event)" using assms(2) by (simp add: taskOf_def)
  have claimed: "fst (claim (qi_now io) (te_TaskID event) s)" and failed: "fst (processEvent io event) \<noteq> None \<and> hd_sent h = []"
    by (cases rule: handle_cases [OF assms(2), of claim s release cfg]; use assms(3,4) in \<open>auto simp: toDLQ_end split: if_splits\<close>)+
  have "ok s1" using claim_ok release_ok assms(1,3)
    by (cases rule: handle_cases [OF assms(2), of claim s release cfg]) auto
  moreover have "held (qi_now io2) (te_TaskID event) s1"
    by (rule claimed_held [OF assms(1) task assms(3) claimed _ assms(6,7)]) (use assms(4) in simp)
  ultimately show ?thesis
    using failed handle_held [OF _ assms(5)] by simp
qed

end

context dedup_exact
begin

text \<open>Deliveries of other tasks leave a free key free.\<close>

lemma handle_other:
  assumes "ok s" "taskOf io \<noteq> Some k" "\<And>t. \<not> held t k s"
  shows "\<not> held t k (snd (handleDelivery claim release cfg io s))"
proof (cases "decodeChatTaskEvent (qi_decode io)")
  case (Inl err)
  with assms(3) show ?thesis by (auto simp: handleDelivery_def split: option.splits)
next
  case (Inr event)
  let ?s1 = "snd (claim (qi_now io) (te_TaskID event) s)"
  have "k \<noteq> te_TaskID event" using assms(2) Inr by (simp add: taskOf_def)
  from claim_other [OF assms(1) this] assms(3) have f: "\<not> held t k ?s1" for t by blast
  with release_other [OF claim_ok [OF assms(1)]] have "\<not> held t k (release (te_TaskID event) ?s1)" by blast
  with f show ?thesis by (cases rule: handle_cases [OF Inr, of claim s release cfg]) auto
qed

lemma handle_ok: "ok s \<Longrightarrow> ok (snd (handleDelivery claim release cfg io s))"
proof (cases "decodeChatTaskEvent (qi_decode io)")
  case (Inr event)
  assume "ok s"
  then show ?thesis using claim_ok release_ok
    by (cases rule: handle_cases [OF Inr, of claim s release cfg]) auto
qed (auto simp: handleDelivery_def split: option.splits)

lemma consume_other:
  assumes "ok s" "list_all (\<lambda>i. taskOf i \<noteq> Some k) ios" "\<And>t. \<not> held t k s"
  shows "ok (snd (consume claim release cfg ios s)) \<and> (\<forall>t. \<not> held t k (snd (consume claim release cfg ios s)))"
  using assms
proof (induction ios arbitrary: s)
  case (Cons io ios)
  let ?s1 = "snd (handleDelivery claim release cfg io s)"
  have "ok ?s1" "\<And>t. \<not> held t k ?s1" using handle_ok handle_other Cons.prems by auto
  from Cons.IH [OF this(1) _ this(2)] Cons.prems(2) show ?case by (simp add: split_beta)
qed simp

lemma retry_runs:
  assumes "ok s" "decodeChatTaskEvent (qi_decode io) = Inr event" "fst (claim (qi_now io) (te_TaskID event) s)"
    and "fst (processEvent io event) \<noteq> None" "te_Attempt event < qc_MaxRetries cfg"
    and "event1 = event\<lparr>te_Attempt := te_Attempt event + 1\<rparr>" "qi_publish io (qc_RetryRoutingKey cfg) event1 = None"
    and "handleDelivery claim release cfg io s = (h, s1)"
    and "list_all (\<lambda>i. taskOf i \<noteq> Some (te_TaskID event)) ios" "consume claim release cfg ios s1 = (hs, s2)"
    and "qi_decode io2 = Inr event1" "handleDelivery claim release cfg io2 s2 = (h2, s3)"
  shows "hd_end h = Acked \<and> hd_sent h = [SentEvent (qc_RetryRoutingKey cfg) event1] \<and>
    (hd_runs h2, hd_saves h2) = snd (processEvent io2 event1)"
proof -
  let ?k = "te_TaskID event"
  let ?s = "snd (claim (qi_now io) ?k s)"
  have h: "h = (settled Acked [SentEvent (qc_RetryRoutingKey cfg) event1])\<lparr>hd_runs := fst (snd (processEvent io event)),
      hd_saves := snd (snd (processEvent io event))\<rparr> \<and> s1 = release ?k ?s"
    by (cases rule: handle_cases [OF assms(2), of claim s release cfg]) (use assms(2-8) in auto)
  have nb: "\<not> blank ?k" using assms(2) by (simp add: decoded_event)
  have ok: "ok ?s" "ok s1" using h claim_ok release_ok assms(1) by auto
  have "\<And>t. \<not> held t ?k s1" using h dropped [OF ok(1) nb] by simp
  from consume_other [OF ok(2) assms(9) this, of cfg] assms(10) have s2: "ok s2" "\<not> held (qi_now io2) ?k s2" by simp_all
  then have free: "fst (claim (qi_now io2) (te_TaskID event1) s2)"
    using grant [OF s2(1)] assms(6) by simp
  have ev1: "decodeChatTaskEvent (qi_decode io2) = Inr event1"
    using assms(2,6,11) by (simp add: decoded_event)
  have "(hd_runs h2, hd_saves h2) = snd (processEvent io2 event1)"
    by (cases rule: handle_cases [OF ev1, of claim s2 release cfg]) (use assms(12) free in auto)
  with h show ?thesis by simp
qed

end

subsection \<open>Examples\<close>

text \<open>An executor that fails, a broker that takes nothing but the given routing keys, a Redis that is down.\<close>

definition demo_queue_config :: chat_task_config where
  "demo_queue_config =
     \<lparr>qc_Enabled = True, qc_URL = ''u'', qc_Exchange = ''e'', qc_RoutingKey = ''request'', qc_RetryRoutingKey = ''retry'',
      qc_DLQRoutingKey = ''dlq'', qc_Queue = ''q'', qc_RetryQueue = ''q.retry'', qc_DLQ = ''q.dlq'', qc_Prefetch = 4,
      qc_MaxRetries = 3, qc_RetryDelay = second, qc_ReconnectDelay = second, qc_PublishTimeout = second,
      qc_ExecuteTimeout = second, qc_ConsumerEnabled = True, qc_TaskTTL = second, qc_RedisKeyPrefix = ''p'',
      qc_ConnectionTimeout = second\<rparr>"

definition demo_event :: "int \<Rightarrow> chat_task_event" where
  "demo_event n = \<lparr>te_TaskID = ''t'', te_SessionID = ''s'', te_Query = ''q'', te_RequestedAt = 0, te_Attempt = n\<rparr>"

definition demo_result :: chat_task_result where
  "demo_result = \<lparr>tx_Answer = ''a'', tx_Detail = [], tx_TraceID = [], tx_Mode = [], tx_Degraded = False, tx_DegradationReason = []\<rparr>"

definition demo_delivery :: "gotime \<Rightarrow> int \<Rightarrow> string list \<Rightarrow> goerr + chat_task_result \<Rightarrow> chat_io" where
  "demo_delivery t n keys res =
     \<lparr>qi_now = t, qi_decode = Inr (demo_event n), qi_publishRaw = (\<lambda>key. None),
      qi_publish = (\<lambda>key event. if key \<in> set keys then None else Some (Errorf ''closed'' [])),
      qi_executor = Some (\<lambda>session query. res), qi_load = Inl (Errorf ''not found'' []),
      qi_save = (\<lambda>n r. None), qi_unix = (\<lambda>n. 0)\<rparr>"

definition demo_redis :: "unit redis_io" where
  "demo_redis = \<lparr>rd_setnx = (\<lambda>key seconds r. (None, r)), rd_del = (\<lambda>key r. r)\<rparr>"

definition demo_deduper :: "deduper \<times> unit" where
  "demo_deduper = (DComposite [Some (DRedis (NewRedisDeduper True [] 10)), Some (DTTL (NewTTLSet 10 5))], ())"

lemma not_blank_letters: "\<not> blank ''t''" "\<not> blank ''s''" "\<not> blank ''q''"
  by code_simp+

lemma demo_fields [simp]:
  "te_TaskID (demo_event n) = ''t''" "te_Attempt (demo_event n) = n" "qi_now (demo_delivery t n keys res) = t"
  "qi_publish (demo_delivery t n keys res) key event = (if key \<in> set keys then None else Some (Errorf ''closed'' []))"
  by (simp_all add: demo_event_def demo_delivery_def)

lemma demo_decoded: "decodeChatTaskEvent (qi_decode (demo_delivery t n keys res)) = Inr (demo_event n)"
  by (simp add: decodeChatTaskEvent_def demo_delivery_def demo_event_def not_blank_letters)

lemma demo_task: "taskOf (demo_delivery t n keys res) = Some ''t''"
  by (simp add: taskOf_def demo_decoded)

lemma demo_ok: "dedupOk 10 demo_deduper" "dedupRoom 4 demo_deduper"
  by (simp_all add: dedupOk_def dedupRoom_def demo_deduper_def ttlOk_def ttlRoom_def NewTTLSet_def)

lemma demo_claim: "fst (dedupClaim demo_redis t ''t'' demo_deduper)"
  by (simp add: dedupClaim_def demo_deduper_def Claim.simps claimParts.simps redisClaim_def NewRedisDeduper_def
      demo_redis_def ttlClaim_def NewTTLSet_def pruneExpiredLocked_def not_blank_letters Let_def)

lemma demo_task_succeeded:
  assumes "handleDelivery (dedupClaim demo_redis) (dedupRelease demo_redis) demo_queue_config
      (demo_delivery 0 0 [] (Inr demo_result)) demo_deduper = (h, s1)"
  shows "hd_runs h = 1 \<and> hd_end h = Acked \<and> hd_sent h = []"
proof -
  have "fst (processEvent (demo_delivery 0 0 [] (Inr demo_result)) (demo_event 0)) = None"
    "fst (snd (processEvent (demo_delivery 0 0 [] (Inr demo_result)) (demo_event 0))) = 1"
    by (simp_all add: processEvent_def demo_delivery_def Let_def)
  then show ?thesis
    using demo_claim [of 0] assms
    by (cases rule: handle_cases [OF demo_decoded, of "dedupClaim demo_redis" 0 0 "[]" "Inr demo_result"
        demo_deduper "dedupRelease demo_redis" demo_queue_config])
      auto
qed

lemma demo_requeued:
  assumes "handleDelivery (dedupClaim demo_redis) (dedupRelease demo_redis) demo_queue_config
      (demo_delivery 0 0 [] (Inl (Errorf ''failed'' []))) demo_deduper = (h, s1)"
  shows "hd_end h = Requeued"
proof -
  have "fst (processEvent (demo_delivery 0 0 [] (Inl (Errorf ''failed'' []))) (demo_event 0)) \<noteq> None"
    by (simp add: processEvent_def demo_delivery_def Let_def)
  then show ?thesis
    using demo_claim [of 0] assms
    by (cases rule: handle_cases [OF demo_decoded, of "dedupClaim demo_redis" 0 0 "[]" "Inl (Errorf ''failed'' [])"
        demo_deduper "dedupRelease demo_redis" demo_queue_config])
      (auto simp: toDLQ_end)
qed

subsection \<open>Properties\<close>

text \<open>C17: Whatever Redis answers, a chat task that this consumer has claimed and processed without an error (it
  was executed with success, and the record of the success was saved) is acknowledged without publishing
  anything, and it is not executed again by this consumer: every later delivery of the task within the
  time to live of its claim, among deliveries of any tasks that leave room in the local set, is
  acknowledged without running the executor and without publishing anything.\<close>

theorem task_not_executed_twice:
  assumes "dedupOk ttl s" "dedupRoom (Suc (length ios)) s" "decodeChatTaskEvent (qi_decode io) = Inr event"
    and "fst (dedupClaim rio (qi_now io) (te_TaskID event) s)" "fst (processEvent io event) = None"
    and "handleDelivery (dedupClaim rio) (dedupRelease rio) cfg io s = (h, s1)"
    and "sorted (map qi_now (io # ios))" "list_all (\<lambda>i. qi_now i < qi_now io + ttl) ios"
  shows "hd_end h = Acked \<and> hd_sent h = [] \<and>
    list_all2 (\<lambda>i h. taskOf i = Some (te_TaskID event) \<longrightarrow> h = settled Acked []) ios
      (fst (consume (dedupClaim rio) (dedupRelease rio) cfg ios s1))"
  by (rule composite.succeeded_quiet [OF assms])

theorem task_not_executed_twice_witness:
  "\<exists>h s1. handleDelivery (dedupClaim demo_redis) (dedupRelease demo_redis) demo_queue_config
      (demo_delivery 0 0 [] (Inr demo_result)) demo_deduper = (h, s1) \<and> hd_runs h = 1 \<and> hd_sent h = [] \<and>
    list_all2 (\<lambda>i h. taskOf i = Some ''t'' \<longrightarrow> h = settled Acked []) [demo_delivery 3 0 [] (Inr demo_result)]
    (fst (consume (dedupClaim demo_redis) (dedupRelease demo_redis) demo_queue_config
      [demo_delivery 3 0 [] (Inr demo_result)] s1))"
proof -
  obtain s1 h where h: "handleDelivery (dedupClaim demo_redis) (dedupRelease demo_redis) demo_queue_config
      (demo_delivery 0 0 [] (Inr demo_result)) demo_deduper = (h, s1)"
    by (rule prod.exhaust)
  have done1: "fst (processEvent (demo_delivery 0 0 [] (Inr demo_result)) (demo_event 0)) = None"
    by (simp add: processEvent_def demo_delivery_def Let_def)
  have claimed: "fst (dedupClaim demo_redis (qi_now (demo_delivery 0 0 [] (Inr demo_result))) (te_TaskID (demo_event 0)) demo_deduper)"
    using demo_claim [of 0] by simp
  have room: "dedupRoom (Suc (length [demo_delivery 3 0 [] (Inr demo_result)])) demo_deduper"
    by (simp add: dedupRoom_def demo_deduper_def ttlRoom_def NewTTLSet_def)
  have times: "sorted (map qi_now [demo_delivery 0 0 [] (Inr demo_result), demo_delivery 3 0 [] (Inr demo_result)])"
    "list_all (\<lambda>i. qi_now i < qi_now (demo_delivery 0 0 [] (Inr demo_result)) + 10) [demo_delivery 3 0 [] (Inr demo_result)]"
    by (simp_all add: demo_delivery_def)
  have "hd_runs h = 1" using demo_task_succeeded [OF h] by blast
  with task_not_executed_twice [OF demo_ok(1) room demo_decoded claimed done1 h times] h show ?thesis
    by (intro exI [of _ h] exI [of _ s1]) simp
qed

text \<open>C31: A chat task that is put back into the queue is lost: its processing ended with an error, no message with
  it was published, neither a retry nor a dead letter, and its claim is not released, so if the broker
  delivers it again within the time to live, to the same deduper, that delivery is acknowledged as a
  duplicate without being executed and without publishing anything.\<close>

theorem requeued_task_lost:
  assumes "dedupOk ttl s" "decodeChatTaskEvent (qi_decode io) = Inr event"
    and "handleDelivery (dedupClaim rio) (dedupRelease rio) cfg io s = (h, s1)" "hd_end h = Requeued"
    and "taskOf io2 = Some (te_TaskID event)" "qi_now io \<le> qi_now io2" "qi_now io2 < qi_now io + ttl"
  shows "fst (processEvent io event) \<noteq> None \<and> hd_sent h = [] \<and>
    fst (handleDelivery (dedupClaim rio) (dedupRelease rio) cfg io2 s1) = settled Acked []"
  by (rule composite.requeued_lost [OF assms])

theorem requeued_task_lost_witness:
  "\<exists>h s1. handleDelivery (dedupClaim demo_redis) (dedupRelease demo_redis) demo_queue_config
      (demo_delivery 0 0 [] (Inl (Errorf ''failed'' []))) demo_deduper = (h, s1) \<and> hd_end h = Requeued \<and> hd_sent h = [] \<and>
    fst (handleDelivery (dedupClaim demo_redis) (dedupRelease demo_redis) demo_queue_config
    (demo_delivery 3 0 [''retry'', ''dlq''] (Inr demo_result)) s1) = settled Acked []"
proof -
  obtain s1 h where h: "handleDelivery (dedupClaim demo_redis) (dedupRelease demo_redis) demo_queue_config
      (demo_delivery 0 0 [] (Inl (Errorf ''failed'' []))) demo_deduper = (h, s1)"
    by (rule prod.exhaust)
  then have h2: "hd_end h = Requeued"
    by (rule demo_requeued)
  have task: "taskOf (demo_delivery 3 0 [''retry'', ''dlq''] (Inr demo_result)) = Some (te_TaskID (demo_event 0))"
    by (simp add: demo_task)
  have times: "qi_now (demo_delivery 0 0 [] (Inl (Errorf ''failed'' []))) \<le> qi_now (demo_delivery 3 0 [''retry'', ''dlq''] (Inr demo_result))"
    "qi_now (demo_delivery 3 0 [''retry'', ''dlq''] (Inr demo_result)) < qi_now (demo_delivery 0 0 [] (Inl (Errorf ''failed'' []))) + 10"
    by (simp_all add: demo_delivery_def)
  from requeued_task_lost [OF demo_ok(1) demo_decoded h h2 task times] h h2 show ?thesis by blast
qed

text \<open>C40: With the local deduper a retry is not mistaken for a duplicate: if the processing of a claimed task ends with
  an error (also that of an execution with success whose record could not be saved), attempts are left and
  the broker takes the retry, then the delivery is acknowledged, exactly the retry with the next attempt
  number was published, and the delivery of the retry is processed like that of a new task, at whatever
  time and after whatever deliveries of other tasks it comes.\<close>

theorem retry_is_executed:
  assumes "ttlOk ttl s" "decodeChatTaskEvent (qi_decode io) = Inr event" "fst (ttlClaim (qi_now io) (te_TaskID event) s)"
    and "fst (processEvent io event) \<noteq> None" "te_Attempt event < qc_MaxRetries cfg"
    and "event1 = event\<lparr>te_Attempt := te_Attempt event + 1\<rparr>" "qi_publish io (qc_RetryRoutingKey cfg) event1 = None"
    and "handleDelivery ttlClaim ttlRelease cfg io s = (h, s1)"
    and "list_all (\<lambda>i. taskOf i \<noteq> Some (te_TaskID event)) ios" "consume ttlClaim ttlRelease cfg ios s1 = (hs, s2)"
    and "qi_decode io2 = Inr event1" "handleDelivery ttlClaim ttlRelease cfg io2 s2 = (h2, s3)"
  shows "hd_end h = Acked \<and> hd_sent h = [SentEvent (qc_RetryRoutingKey cfg) event1] \<and>
    (hd_runs h2, hd_saves h2) = snd (processEvent io2 event1)"
  by (rule ttl.retry_runs [OF assms])

text \<open>Another task comes between the failure and the retry, in a set that has room for one key only.\<close>

definition demo_other :: chat_io where
  "demo_other = (demo_delivery 1 0 [] (Inr demo_result))\<lparr>qi_decode := Inr ((demo_event 0)\<lparr>te_TaskID := ''s''\<rparr>)\<rparr>"

theorem retry_is_executed_witness:
  "\<exists>(h :: handled) s1 hs s2 h2 s3. hd_end h = Acked \<and> hd_sent h = [SentEvent ''retry'' (demo_event 1)] \<and>
    consume ttlClaim ttlRelease demo_queue_config [demo_other] s1 = (hs, s2) \<and>
    handleDelivery ttlClaim ttlRelease demo_queue_config (demo_delivery 1 1 [] (Inr demo_result)) s2 = (h2, s3) \<and>
    (hd_runs h2, hd_saves h2) = snd (processEvent (demo_delivery 1 1 [] (Inr demo_result)) (demo_event 1))"
proof -
  let ?io = "demo_delivery 0 0 [''retry''] (Inl (Errorf ''failed'' []))"
  let ?io2 = "demo_delivery 1 1 [] (Inr demo_result)"
  obtain h s1 where h: "handleDelivery ttlClaim ttlRelease demo_queue_config ?io (NewTTLSet 10 1) = (h, s1)"
    by (cases "handleDelivery ttlClaim ttlRelease demo_queue_config ?io (NewTTLSet 10 1)") auto
  obtain hs s2 where hs: "consume ttlClaim ttlRelease demo_queue_config [demo_other] s1 = (hs, s2)"
    by (cases "consume ttlClaim ttlRelease demo_queue_config [demo_other] s1") auto
  obtain h2 s3 where h2: "handleDelivery ttlClaim ttlRelease demo_queue_config ?io2 s2 = (h2, s3)"
    by (cases "handleDelivery ttlClaim ttlRelease demo_queue_config ?io2 s2") auto
  have ok: "ttlOk 10 (NewTTLSet 10 1)" by (simp add: ttlOk_def NewTTLSet_def)
  have free: "fst (ttlClaim (qi_now ?io) (te_TaskID (demo_event 0)) (NewTTLSet 10 1))"
    by (simp add: ttlClaim_def NewTTLSet_def pruneExpiredLocked_def demo_event_def Let_def)
  have failed: "fst (processEvent ?io (demo_event 0)) \<noteq> None"
    by (simp add: processEvent_def demo_delivery_def Let_def)
  have left: "te_Attempt (demo_event 0) < qc_MaxRetries demo_queue_config"
    "demo_event 1 = (demo_event 0)\<lparr>te_Attempt := te_Attempt (demo_event 0) + 1\<rparr>"
    "qi_publish ?io (qc_RetryRoutingKey demo_queue_config) (demo_event 1) = None" "qi_decode ?io2 = Inr (demo_event 1)"
    by (simp_all add: demo_event_def demo_queue_config_def demo_delivery_def)
  have other: "list_all (\<lambda>i. taskOf i \<noteq> Some (te_TaskID (demo_event 0))) [demo_other]"
    by (simp add: taskOf_def demo_other_def demo_event_def decodeChatTaskEvent_def not_blank_letters)
  have key: "qc_RetryRoutingKey demo_queue_config = ''retry''" by (simp add: demo_queue_config_def)
  have r: "hd_end h = Acked \<and> hd_sent h = [SentEvent ''retry'' (demo_event 1)] \<and>
      (hd_runs h2, hd_saves h2) = snd (processEvent ?io2 (demo_event 1))"
    using retry_is_executed [OF ok demo_decoded free failed left(1,2,3) h other hs left(4) h2] unfolding key .
  show ?thesis
    by (rule exI [of _ h], rule exI [of _ s1], rule exI [of _ hs], rule exI [of _ s2], rule exI [of _ h2], rule exI [of _ s3])
      (use r hs h2 in blast)
qed

text \<open>An acknowledged delivery is accounted for: it was no task (and went to the dead letters), it was a
  duplicate, its execution succeeded, or exactly one message with the same task and request was
  published, as a retry with the next attempt number, at most the maximum, or to the dead letters. A
  delivery put back published nothing.\<close>

theorem acked_is_accounted:
  "case decodeChatTaskEvent (qi_decode io) of
     Inl err \<Rightarrow> hd_sent (fst (handleDelivery cl rl cfg io s)) =
       (if hd_end (fst (handleDelivery cl rl cfg io s)) = Acked then [SentRaw (qc_DLQRoutingKey cfg)] else [])
   | Inr event \<Rightarrow>
       (if hd_end (fst (handleDelivery cl rl cfg io s)) = Requeued then hd_sent (fst (handleDelivery cl rl cfg io s)) = []
        else if hd_sent (fst (handleDelivery cl rl cfg io s)) = []
        then (if fst (cl (qi_now io) (te_TaskID event) s) then fst (processEvent io event) = None
              else hd_runs (fst (handleDelivery cl rl cfg io s)) = 0)
        else \<exists>key event1. hd_sent (fst (handleDelivery cl rl cfg io s)) = [SentEvent key event1] \<and>
          event1 = event\<lparr>te_Attempt := te_Attempt event1\<rparr> \<and> qi_publish io key event1 = None \<and>
          fst (processEvent io event) \<noteq> None \<and>
          (key = qc_RetryRoutingKey cfg \<and> te_Attempt event1 = te_Attempt event + 1 \<and> te_Attempt event1 \<le> qc_MaxRetries cfg \<or>
           key = qc_DLQRoutingKey cfg))"
proof (cases "decodeChatTaskEvent (qi_decode io)")
  case (Inl err)
  then show ?thesis by (auto simp: handleDelivery_def split: option.splits)
next
  case (Inr event)
  show ?thesis
    by (cases rule: handle_cases [OF Inr, of cl s rl cfg]) (auto simp: Inr toDLQ_end)
qed

text \<open>A chain of deliveries in which each event after the first is the retry the one before it published.\<close>

fun retry_chain ::
    "(gotime \<Rightarrow> string \<Rightarrow> 's \<Rightarrow> bool \<times> 's) \<Rightarrow> (string \<Rightarrow> 's \<Rightarrow> 's) \<Rightarrow> chat_task_config \<Rightarrow> chat_task_event \<Rightarrow> (chat_io \<times> 's) list \<Rightarrow> bool" where
  "retry_chain cl rl cfg event [] = True"
| "retry_chain cl rl cfg event ((io, s) # rest) =
     (decodeChatTaskEvent (qi_decode io) = Inr event \<and>
      (rest = [] \<or> (\<exists>event1. hd_sent (fst (handleDelivery cl rl cfg io s)) = [SentEvent (qc_RetryRoutingKey cfg) event1] \<and>
         retry_chain cl rl cfg event1 rest)))"

lemma retry_attempt:
  assumes "qc_RetryRoutingKey cfg \<noteq> qc_DLQRoutingKey cfg" "decodeChatTaskEvent (qi_decode io) = Inr event"
    and "hd_sent (fst (handleDelivery cl rl cfg io s)) = [SentEvent (qc_RetryRoutingKey cfg) event1]"
  shows "te_Attempt event1 = te_Attempt event + 1 \<and> te_Attempt event1 \<le> qc_MaxRetries cfg"
  by (cases rule: handle_cases [OF assms(2), of cl s rl cfg]) (use assms(1,3) in \<open>auto simp: toDLQ_end split: if_splits\<close>)

text \<open>Retries end: whatever fails, and whatever the deduper holds in between, a chain of retries has at
  most one delivery more than there are attempts left.\<close>

theorem retries_end:
  assumes "qc_RetryRoutingKey cfg \<noteq> qc_DLQRoutingKey cfg" "retry_chain cl rl cfg event runs"
  shows "int (length runs) \<le> 1 + max 0 (qc_MaxRetries cfg - te_Attempt event)"
  using assms(2)
proof (induction runs arbitrary: event)
  case Nil
  then show ?case by simp
next
  case (Cons r rest)
  obtain io s where r: "r = (io, s)" by (cases r) auto
  show ?case
  proof (cases rest)
    case Nil
    then show ?thesis by simp
  next
    case (Cons r' rest')
    with Cons.prems r obtain event1 where e: "decodeChatTaskEvent (qi_decode io) = Inr event"
      "hd_sent (fst (handleDelivery cl rl cfg io s)) = [SentEvent (qc_RetryRoutingKey cfg) event1]"
      "retry_chain cl rl cfg event1 rest" by auto
    with Cons.IH [OF e(3)] retry_attempt [OF assms(1) e(1,2)] show ?thesis by simp
  qed
qed

theorem retries_end_witness: "int (length [(demo_delivery 0 3 [] (Inr demo_result), NewTTLSet 10 5)]) \<le> 1 + max 0 (3 - 3)"
proof -
  have "retry_chain ttlClaim ttlRelease demo_queue_config (demo_event 3) [(demo_delivery 0 3 [] (Inr demo_result), NewTTLSet 10 5)]"
    by (simp add: demo_decoded)
  moreover have "qc_RetryRoutingKey demo_queue_config \<noteq> qc_DLQRoutingKey demo_queue_config"
    by (simp add: demo_queue_config_def)
  ultimately have "int (length [(demo_delivery 0 3 [] (Inr demo_result), NewTTLSet 10 5)]) \<le>
      1 + max 0 (qc_MaxRetries demo_queue_config - te_Attempt (demo_event 3))"
    by (rule retries_end [rotated])
  then show ?thesis by (simp add: demo_queue_config_def demo_event_def)
qed

end
