(* ===== verification/Svc_Queue_Config.thy ===== *)
theory Svc_Queue_Config
  imports Svc_Queue_Properties
begin

text \<open>
  The configuration of the two queue pipelines (chat_task_config.go, memory_queue_config.go) and the dedupers
  that the clients build from it (chat_task_client.go, memory_queue_client.go).

  A configuration source answers a key with nothing (the lookup failed) or with a value that can be read as
  a flag, a number or a text, as a configuration variable of the framework can; it and the resolution of
  environment references are parameters.
\<close>

record cfg_var =
  v_Bool :: bool
  v_Int64 :: int
  v_Int :: int
  v_String :: string

type_synonym cfg_source = "string \<Rightarrow> cfg_var option"

definition cfgBool :: "cfg_source \<Rightarrow> string \<Rightarrow> bool \<Rightarrow> bool" where
  "cfgBool conf key dflt = (case conf key of None \<Rightarrow> dflt | Some v \<Rightarrow> v_Bool v)"

definition cfgString :: "(string \<Rightarrow> string \<Rightarrow> string) \<Rightarrow> cfg_source \<Rightarrow> string \<Rightarrow> string \<Rightarrow> string" where
  "cfgString resolve conf key dflt = (case conf key of None \<Rightarrow> dflt | Some v \<Rightarrow> resolve (v_String v) dflt)"

text \<open>A number that must be positive, or at least 0, to replace the default.\<close>

definition cfgPos :: "cfg_source \<Rightarrow> string \<Rightarrow> int \<Rightarrow> int" where
  "cfgPos conf key dflt = (case conf key of None \<Rightarrow> dflt | Some v \<Rightarrow> if v_Int v > 0 then v_Int v else dflt)"

definition cfgNonneg :: "cfg_source \<Rightarrow> string \<Rightarrow> int \<Rightarrow> int" where
  "cfgNonneg conf key dflt = (case conf key of None \<Rightarrow> dflt | Some v \<Rightarrow> if v_Int v \<ge> 0 then v_Int v else dflt)"

text \<open>A number of units, multiplied in 64 bits.\<close>

definition cfgPosUnits :: "cfg_source \<Rightarrow> string \<Rightarrow> duration \<Rightarrow> duration \<Rightarrow> duration" where
  "cfgPosUnits conf key unit dflt =
     (case conf key of None \<Rightarrow> dflt | Some v \<Rightarrow> if v_Int64 v > 0 then wrap64 (v_Int64 v * unit) else dflt)"

definition cfgNonnegUnits :: "cfg_source \<Rightarrow> string \<Rightarrow> duration \<Rightarrow> duration \<Rightarrow> duration" where
  "cfgNonnegUnits conf key unit dflt =
     (case conf key of None \<Rightarrow> dflt | Some v \<Rightarrow> if v_Int64 v \<ge> 0 then wrap64 (v_Int64 v * unit) else dflt)"

definition millisecond :: duration where "millisecond = 1000000"

definition defaultResolveQueueString :: "string \<Rightarrow> string \<Rightarrow> string" where
  "defaultResolveQueueString raw fallback = (let trimmed = trim_space raw in if trimmed = [] then fallback else trimmed)"

subsection \<open>Chat tasks\<close>

definition orSuffixed :: "string \<Rightarrow> string \<Rightarrow> string \<Rightarrow> string" where
  "orSuffixed name queue suffix1 = (if blank name then queue @ suffix1 else name)"

definition loadRabbitMQChatTaskConfig :: "(string \<Rightarrow> string \<Rightarrow> string) \<Rightarrow> cfg_source \<Rightarrow> chat_task_config" where
  "loadRabbitMQChatTaskConfig resolve conf =
     (let queue = cfgString resolve conf ''rabbitmq.chat_task_queue'' ''opscaption.chat.task''
      in \<lparr>qc_Enabled = cfgBool conf ''chat_async.enabled'' False,
          qc_URL = cfgString resolve conf ''rabbitmq.url'' [],
          qc_Exchange = cfgString resolve conf ''rabbitmq.exchange'' ''opscaption.events'',
          qc_RoutingKey = cfgString resolve conf ''rabbitmq.chat_task_routing_key'' ''chat.task.request'',
          qc_RetryRoutingKey = cfgString resolve conf ''rabbitmq.chat_task_retry_routing_key'' ''chat.task.retry'',
          qc_DLQRoutingKey = cfgString resolve conf ''rabbitmq.chat_task_dlq_routing_key'' ''chat.task.dlq'',
          qc_Queue = queue,
          qc_RetryQueue = orSuffixed (cfgString resolve conf ''rabbitmq.chat_task_retry_queue'' []) queue ''.retry'',
          qc_DLQ = orSuffixed (cfgString resolve conf ''rabbitmq.chat_task_dlq'' []) queue ''.dlq'',
          qc_Prefetch = cfgPos conf ''rabbitmq.chat_task_prefetch'' 4,
          qc_MaxRetries = cfgNonneg conf ''rabbitmq.chat_task_max_retries'' 3,
          qc_RetryDelay = cfgNonnegUnits conf ''rabbitmq.chat_task_retry_delay_ms'' millisecond (2 * second),
          qc_ReconnectDelay = cfgPosUnits conf ''rabbitmq.reconnect_delay_ms'' millisecond (2 * second),
          qc_PublishTimeout = cfgPosUnits conf ''rabbitmq.publish_timeout_ms'' millisecond (2 * second),
          qc_ExecuteTimeout = cfgPosUnits conf ''chat_async.execute_timeout_ms'' millisecond (120 * second),
          qc_ConsumerEnabled = cfgBool conf ''rabbitmq.chat_task_consumer_enabled'' True,
          qc_TaskTTL = cfgPosUnits conf ''chat_async.task_ttl_seconds'' second (86400 * second),
          qc_RedisKeyPrefix = cfgString resolve conf ''chat_async.redis_key_prefix'' ''opscaptionai:chat_task'',
          qc_ConnectionTimeout = 5 * second\<rparr>)"

definition validateRabbitMQChatTaskConfig :: "bool \<Rightarrow> chat_task_config \<Rightarrow> goerr option" where
  "validateRabbitMQChatTaskConfig redisConfigured cfg =
     (if \<not> qc_Enabled cfg then None
      else if blank (qc_URL cfg) then Some (Errorf ''chat_async.enabled=true but rabbitmq.url is empty'' [])
      else if qc_Prefetch cfg \<le> 0 then Some (Errorf ''rabbitmq.chat_task_prefetch must be > 0'' [])
      else if qc_MaxRetries cfg < 0 then Some (Errorf ''rabbitmq.chat_task_max_retries must be >= 0'' [])
      else if qc_RetryDelay cfg < 0 then Some (Errorf ''rabbitmq.chat_task_retry_delay_ms must be >= 0'' [])
      else if qc_PublishTimeout cfg < 0 then Some (Errorf ''rabbitmq.publish_timeout_ms must be >= 0'' [])
      else if qc_ReconnectDelay cfg < 0 then Some (Errorf ''rabbitmq.reconnect_delay_ms must be >= 0'' [])
      else if qc_TaskTTL cfg \<le> 0 then Some (Errorf ''chat_async.task_ttl_seconds must be > 0'' [])
      else if \<not> redisConfigured then Some (Errorf ''chat_async.enabled=true requires redis.default.address'' [])
      else None)"

definition buildChatTaskDeduper :: "bool \<Rightarrow> chat_task_config \<Rightarrow> deduper" where
  "buildChatTaskDeduper redis cfg =
     (let local = DTTL (NewTTLSet (600 * second) 20000)
      in if \<not> redis then local
         else
           (let pfx = trim_space (qc_RedisKeyPrefix cfg);
                pfx1 = (if pfx = [] then ''chat_task:'' else pfx)
            in DComposite [Some (DRedis (NewRedisDeduper True (''opscaption:dedup:'' @ pfx1) (600 * second))), Some local]))"

subsection \<open>Memory extractions\<close>

definition loadRabbitMQMemoryConfig :: "(string \<Rightarrow> string \<Rightarrow> string) \<Rightarrow> cfg_source \<Rightarrow> duration \<Rightarrow> memory_config" where
  "loadRabbitMQMemoryConfig resolve conf extractionTimeout =
     (let queue = cfgString resolve conf ''rabbitmq.memory_extract_queue'' ''opscaption.memory.extract''
      in \<lparr>mc_Enabled = cfgBool conf ''rabbitmq.enabled'' False,
          mc_URL = cfgString resolve conf ''rabbitmq.url'' [],
          mc_Exchange = cfgString resolve conf ''rabbitmq.exchange'' ''opscaption.events'',
          mc_RoutingKey = cfgString resolve conf ''rabbitmq.memory_extract_routing_key'' ''memory.extract.request'',
          mc_RetryRoutingKey = cfgString resolve conf ''rabbitmq.memory_extract_retry_routing_key'' ''memory.extract.retry'',
          mc_DLQRoutingKey = cfgString resolve conf ''rabbitmq.memory_extract_dlq_routing_key'' ''memory.extract.dlq'',
          mc_Queue = queue,
          mc_RetryQueue = orSuffixed (cfgString resolve conf ''rabbitmq.memory_extract_retry_queue'' []) queue ''.retry'',
          mc_DLQ = orSuffixed (cfgString resolve conf ''rabbitmq.memory_extract_dlq'' []) queue ''.dlq'',
          mc_Prefetch = cfgPos conf ''rabbitmq.prefetch'' 8,
          mc_MaxRetries = cfgNonneg conf ''rabbitmq.max_retries'' 3,
          mc_RetryDelay = cfgPosUnits conf ''rabbitmq.retry_delay_ms'' millisecond (2 * second),
          mc_PublishTimeout = cfgPosUnits conf ''rabbitmq.publish_timeout_ms'' millisecond (2 * second),
          mc_Timeout = extractionTimeout,
          mc_DedupTTL = cfgPosUnits conf ''rabbitmq.memory_extract_dedup_ttl_ms'' millisecond (600 * second),
          mc_DedupMaxEntries = cfgPos conf ''rabbitmq.memory_extract_dedup_max_entries'' 20000,
          mc_ConsumerEnabled = cfgBool conf ''rabbitmq.memory_extract_consumer_enabled'' True,
          mc_ReconnectDelay = cfgPosUnits conf ''rabbitmq.reconnect_delay_ms'' millisecond (2 * second)\<rparr>)"

definition validateRabbitMQMemoryConfig :: "memory_config \<Rightarrow> goerr option" where
  "validateRabbitMQMemoryConfig cfg =
     (if \<not> mc_Enabled cfg then None
      else if blank (mc_URL cfg) then Some (Errorf ''rabbitmq.enabled=true but rabbitmq.url is empty'' [])
      else if mc_RetryDelay cfg < 0 then Some (Errorf ''rabbitmq.retry_delay_ms must be >= 0'' [])
      else if mc_ReconnectDelay cfg < 0 then Some (Errorf ''rabbitmq.reconnect_delay_ms must be >= 0'' [])
      else if mc_PublishTimeout cfg < 0 then Some (Errorf ''rabbitmq.publish_timeout_ms must be >= 0'' [])
      else if mc_MaxRetries cfg < 0 then Some (Errorf ''rabbitmq.max_retries must be >= 0'' [])
      else if mc_Prefetch cfg \<le> 0 then Some (Errorf ''rabbitmq.prefetch must be > 0'' [])
      else None)"

definition buildMemoryDeduper :: "bool \<Rightarrow> duration \<Rightarrow> int \<Rightarrow> deduper" where
  "buildMemoryDeduper redis ttl maxEntries =
     (let local = DTTL (NewTTLSet ttl maxEntries)
      in if \<not> redis then local
         else DComposite [Some (DRedis (NewRedisDeduper True ''opscaption:dedup:memory_extract:'' ttl)), Some local])"

text \<open>The deduper of a new memory client.\<close>

definition memoryClientDeduper :: "bool \<Rightarrow> memory_config \<Rightarrow> deduper" where
  "memoryClientDeduper redis cfg =
     (let dedupTTL = (if mc_DedupTTL cfg \<le> 0 then 600 * second else mc_DedupTTL cfg);
          dedupMax = (if mc_DedupMaxEntries cfg \<le> 0 then 20000 else mc_DedupMaxEntries cfg)
      in buildMemoryDeduper redis dedupTTL dedupMax)"

subsection \<open>Lemmas\<close>

lemma wrap64_id: "- (2 ^ 63) \<le> x \<Longrightarrow> x < 2 ^ 63 \<Longrightarrow> wrap64 x = x"
  by (simp add: wrap64_def)

text \<open>Numbers of seconds up to this bound do not overflow a duration.\<close>

definition small_source :: "cfg_source \<Rightarrow> bool" where
  "small_source conf \<longleftrightarrow> (\<forall>key v. conf key = Some v \<longrightarrow> v_Int64 v \<le> 9223372036)"

lemma units_fit:
  assumes "small_source conf" "conf key = Some v" "0 \<le> v_Int64 v" "0 \<le> unit" "unit \<le> second"
  shows "wrap64 (v_Int64 v * unit) = v_Int64 v * unit"
proof (rule wrap64_id)
  have "v_Int64 v \<le> 9223372036" using assms by (simp add: small_source_def)
  then have "v_Int64 v * unit \<le> 9223372036 * 1000000000"
    using assms by (intro mult_mono) (auto simp: second_def)
  then show "v_Int64 v * unit < 2 ^ 63" by simp
  show "- (2 ^ 63) \<le> v_Int64 v * unit"
    by (rule order_trans [OF _ mult_nonneg_nonneg [OF assms(3,4)]]) simp
qed

lemma cfgPosUnits_pos:
  "small_source conf \<Longrightarrow> 0 < unit \<Longrightarrow> unit \<le> second \<Longrightarrow> 0 < dflt \<Longrightarrow> 0 < cfgPosUnits conf key unit dflt"
  by (auto simp: cfgPosUnits_def units_fit split: option.splits)

lemma cfgNonnegUnits_nonneg:
  "small_source conf \<Longrightarrow> 0 < unit \<Longrightarrow> unit \<le> second \<Longrightarrow> 0 \<le> dflt \<Longrightarrow> 0 \<le> cfgNonnegUnits conf key unit dflt"
  by (auto simp: cfgNonnegUnits_def units_fit split: option.splits)

lemma cfgPos_pos: "0 < dflt \<Longrightarrow> 0 < cfgPos conf key dflt"
  by (simp add: cfgPos_def split: option.splits)

lemma cfgNonneg_nonneg: "0 \<le> dflt \<Longrightarrow> 0 \<le> cfgNonneg conf key dflt"
  by (simp add: cfgNonneg_def split: option.splits)

lemma units: "0 < millisecond" "millisecond \<le> second" "0 < second" "0 \<le> second"
  by (simp_all add: millisecond_def second_def)

subsection \<open>Properties\<close>

text \<open>A loaded configuration of the chat pipeline is well formed, whatever the source contains, as long as
  its numbers do not overflow a duration: it is rejected exactly if the pipeline is enabled without a
  broker URL or without Redis. Each of the two dedupers built for it holds every claim for ten minutes.\<close>

theorem chat_config_well_formed:
  assumes "small_source conf" "cfg = loadRabbitMQChatTaskConfig resolve conf"
  shows "(validateRabbitMQChatTaskConfig redis cfg = None \<longleftrightarrow> qc_Enabled cfg \<longrightarrow> \<not> blank (qc_URL cfg) \<and> redis) \<and>
    0 < qc_Prefetch cfg \<and> 0 \<le> qc_MaxRetries cfg \<and> 0 \<le> qc_RetryDelay cfg \<and> 0 < qc_ReconnectDelay cfg \<and>
    0 < qc_PublishTimeout cfg \<and> 0 < qc_ExecuteTimeout cfg \<and> 0 < qc_TaskTTL cfg \<and>
    dedupOk (600 * second) (buildChatTaskDeduper redis cfg, r) \<and> dedupRoom 20000 (buildChatTaskDeduper redis cfg, r)"
proof -
  have pos: "0 < qc_Prefetch cfg" "0 \<le> qc_MaxRetries cfg" "0 \<le> qc_RetryDelay cfg" "0 < qc_ReconnectDelay cfg"
    "0 < qc_PublishTimeout cfg" "0 < qc_ExecuteTimeout cfg" "0 < qc_TaskTTL cfg"
    unfolding assms(2) loadRabbitMQChatTaskConfig_def Let_def
    by (simp_all add: cfgPos_pos cfgNonneg_nonneg cfgPosUnits_pos cfgNonnegUnits_nonneg assms(1) units)
  have "validateRabbitMQChatTaskConfig redis cfg = None \<longleftrightarrow> qc_Enabled cfg \<longrightarrow> \<not> blank (qc_URL cfg) \<and> redis"
    using pos by (auto simp: validateRabbitMQChatTaskConfig_def)
  moreover have "dedupOk (600 * second) (buildChatTaskDeduper redis cfg, r) \<and> dedupRoom 20000 (buildChatTaskDeduper redis cfg, r)"
    by (simp add: buildChatTaskDeduper_def dedupOk_def dedupRoom_def ttlOk_def ttlRoom_def NewTTLSet_def Let_def)
  ultimately show ?thesis using pos by blast
qed

theorem chat_config_well_formed_witness:
  "0 < qc_TaskTTL (loadRabbitMQChatTaskConfig defaultResolveQueueString
    (\<lambda>key. if key = ''chat_async.task_ttl_seconds'' then Some \<lparr>v_Bool = False, v_Int64 = -1, v_Int = -1, v_String = []\<rparr> else None))"
proof -
  have "small_source (\<lambda>key. if key = ''chat_async.task_ttl_seconds''
      then Some \<lparr>v_Bool = False, v_Int64 = -1, v_Int = -1, v_String = []\<rparr> else None)"
    by (simp add: small_source_def)
  from chat_config_well_formed [OF this refl, where resolve = defaultResolveQueueString and redis = True and r = "()"]
  show ?thesis
    by (elim conjE)
qed

end
