(* ===== verification/Go_Time.thy ===== *)
theory Go_Time
  imports Go_Float "HOL-Library.Signed_Division"
begin

text \<open>
  The parts of package \<open>time\<close> that the memory and the context engine compute with: a time is a number of
  nanoseconds since the Unix epoch, a duration a number of nanoseconds in the range of \<open>int64\<close>.
\<close>

definition max_duration :: duration where "max_duration = 2 ^ 63 - 1"
definition min_duration :: duration where "min_duration = - (2 ^ 63)"

text \<open>\<open>t.Sub(u)\<close> saturates.\<close>

definition time_sub :: "gotime \<Rightarrow> gotime \<Rightarrow> duration" where
  "time_sub t u = (let d = t - u in if d > max_duration then max_duration else if d < min_duration then min_duration else d)"

text \<open>\<open>t.UnixMilli()\<close>.\<close>

definition unix_milli :: "gotime \<Rightarrow> int" where
  "unix_milli t = t div 1000000"

definition f64_of_int :: "int \<Rightarrow> f64" where
  "f64_of_int i = rnd (of_int i)"

text \<open>\<open>int(x)\<close> drops the fraction.\<close>

definition f64_to_int :: "f64 \<Rightarrow> int" where
  "f64_to_int x = (if x < 0 then \<lceil>x\<rceil> else \<lfloor>x\<rfloor>)"

text \<open>\<open>d.Hours()\<close>: the whole hours and the rest, the division of integers rounding to zero.\<close>

definition hour :: duration where "hour = 3600000000000"

definition duration_hours :: "duration \<Rightarrow> f64" where
  "duration_hours d = fadd (f64_of_int (d sdiv hour)) (fdiv (f64_of_int (d smod hour)) 3600000000000)"

lemma sdiv_nonneg: "0 \<le> d \<Longrightarrow> 0 < (k::int) \<Longrightarrow> d sdiv k = d div k"
  by (auto simp: signed_divide_int_def sgn_if)

lemma smod_nonneg: "0 \<le> d \<Longrightarrow> 0 < (k::int) \<Longrightarrow> d smod k = d mod k"
  by (cases "d = 0") (auto simp: signed_modulo_int_def sdiv_nonneg minus_div_mult_eq_mod sgn_if)

lemma f64_of_int_nonneg: "0 \<le> i \<Longrightarrow> 0 \<le> f64_of_int i"
  by (simp add: f64_of_int_def rnd_nonneg)

lemma f64_of_int_mono: "i \<le> j \<Longrightarrow> f64_of_int i \<le> f64_of_int j"
  by (simp add: f64_of_int_def rnd_mono)

lemma duration_hours_nonneg: "0 \<le> d \<Longrightarrow> 0 \<le> duration_hours d"
  unfolding duration_hours_def fadd_def fdiv_def
  by (intro rnd_nonneg add_nonneg_nonneg divide_nonneg_nonneg f64_of_int_nonneg)
    (simp_all add: sdiv_nonneg smod_nonneg hour_def)

lemma time_sub_nonneg: "u \<le> t \<Longrightarrow> 0 \<le> time_sub t u"
  by (simp add: time_sub_def Let_def max_duration_def min_duration_def)

lemma time_sub_self [simp]: "time_sub t t = 0"
  by (simp add: time_sub_def max_duration_def min_duration_def)

lemma duration_hours_0 [simp]: "duration_hours 0 = 0"
  by (simp add: duration_hours_def f64_of_int_def fadd_def fdiv_def)

end
