(* ===== verification/Ctx_Tokens.thy ===== *)
theory Ctx_Tokens
  imports Go_Format Go_Time
begin

text \<open>
  internal/ai/memory/token_budget.go: the estimate of the tokens of a text, the cutting of a text to a
  number of tokens and the shares of the context window. Counts are converted to \<open>float64\<close> and back as the
  code does; the lemmas show that the estimate loses nothing by it, and which cuts keep their promise.
\<close>

record token_budget =
  tb_MaxTokens :: int
  tb_SystemReserve :: int
  tb_MemoryReserve :: int
  tb_HistoryReserve :: int
  tb_DocumentReserve :: int

text \<open>\<open>int(float64(n) * share)\<close>, the share a decimal literal.\<close>

definition shareOf :: "int \<Rightarrow> rat \<Rightarrow> int" where
  "shareOf n share = f64_to_int (fmul (f64_of_int n) (rnd share))"

text \<open>The configured number of tokens, if there is a positive one.\<close>

definition GetTokenBudget :: "int option \<Rightarrow> token_budget" where
  "GetTokenBudget configured =
     (let maxTokens = (case configured of None \<Rightarrow> 8000 | Some v \<Rightarrow> if v > 0 then v else 8000)
      in \<lparr>tb_MaxTokens = maxTokens, tb_SystemReserve = shareOf maxTokens (20 / 100),
          tb_MemoryReserve = shareOf maxTokens (20 / 100), tb_HistoryReserve = shareOf maxTokens (40 / 100),
          tb_DocumentReserve = shareOf maxTokens (15 / 100)\<rparr>)"

subsection \<open>Estimating\<close>

definition cjk_rune :: "string \<Rightarrow> bool" where
  "cjk_rune r \<longleftrightarrow> 0x4E00 \<le> rune_value r \<and> rune_value r \<le> 0x9FFF"

definition ascii_rune :: "string \<Rightarrow> bool" where
  "ascii_rune r \<longleftrightarrow> 32 < rune_value r \<and> rune_value r < 127"

definition cjkCount :: "string \<Rightarrow> int" where
  "cjkCount text1 = count_if cjk_rune (runes text1)"

definition asciiCount :: "string \<Rightarrow> int" where
  "asciiCount text1 = count_if ascii_rune (runes text1)"

definition estimateOf :: "int \<Rightarrow> int \<Rightarrow> int \<Rightarrow> int" where
  "estimateOf cjk ascii len =
     (let cjkTokens = fmul (f64_of_int cjk) (3 / 2);
          asciiTokens = fdiv (f64_of_int ascii) 4;
          overhead = fmul (f64_of_int (len - cjk - ascii)) (1 / 2);
          total1 = f64_to_int (fadd (fadd cjkTokens asciiTokens) overhead)
      in if total1 < 1 \<and> len > 0 then 1 else total1)"

definition EstimateTokens :: "string \<Rightarrow> int" where
  "EstimateTokens text1 =
     (if text1 = [] then 0 else estimateOf (cjkCount text1) (asciiCount text1) (int (length text1)))"

subsection \<open>Cutting\<close>

text \<open>\<open>strings.LastIndex(s, "\n")\<close>, -1 if there is none.\<close>

fun lastNewline :: "string \<Rightarrow> int" where
  "lastNewline [] = -1"
| "lastNewline (c # cs) =
     (let i = lastNewline cs in if i \<ge> 0 then i + 1 else if c = CHR 0x0A then 0 else -1)"

definition targetLength :: "int \<Rightarrow> int \<Rightarrow> int \<Rightarrow> int" where
  "targetLength len maxTokens current =
     (let ratio = fdiv (f64_of_int maxTokens) (f64_of_int current)
      in f64_to_int (fmul (fmul (f64_of_int len) ratio) (rnd (9 / 10))))"

definition cutAtNewline :: "string \<Rightarrow> string" where
  "cutAtNewline trimmed =
     (let idx = lastNewline trimmed
      in if idx > int (length trimmed) div 2 then take (nat idx) trimmed else trimmed)"

definition TrimToTokenBudget :: "string \<Rightarrow> int \<Rightarrow> string" where
  "TrimToTokenBudget text1 maxTokens =
     (if maxTokens \<le> 0 then text1
      else
        (let current = EstimateTokens text1
         in if current \<le> maxTokens then text1
            else
              (let targetLen = targetLength (int (length text1)) maxTokens current
               in if targetLen \<le> 0 then []
                  else if targetLen \<ge> int (length text1) then text1
                  else if targetLen > int (length (runes text1)) then text1
                  else cutAtNewline (concat (take (nat targetLen) (runes text1))) @ ''...'')))"

subsection \<open>The estimate is exact integer arithmetic\<close>

lemma rnd_quarters:
  assumes "4 * x = of_int m" "0 \<le> m" "m < 2 ^ 53"
  shows "rnd x = x"
proof (cases "m = 0")
  case True
  with assms(1) show ?thesis by simp
next
  case False
  then have "0 < m" using assms(2) by simp
  have x: "x = of_int m * pow2 (-2)" using assms(1) by (simp add: pow2_def)
  have "rnd_pos x = x"
    by (rule rnd_pos_exact [OF \<open>0 < m\<close> assms(3) _ x]) simp
  moreover have "0 < x" using x \<open>0 < m\<close> by simp
  ultimately show ?thesis by (simp add: rnd_def)
qed

lemma estimateOf_exact:
  assumes "0 \<le> cjk" "0 \<le> ascii" "cjk + ascii \<le> len" "len < 2 ^ 49"
  shows "estimateOf cjk ascii len =
    (let t = (6 * cjk + ascii + 2 * (len - cjk - ascii)) div 4 in if t < 1 \<and> 0 < len then 1 else t)"
proof -
  define w where "w = len - cjk - ascii"
  define q where "q = 6 * cjk + ascii + 2 * w"
  have p: "(2::int) ^ 49 = 562949953421312" "(2::int) ^ 53 = 9007199254740992" by simp_all
  have l: "len < 562949953421312" using assms(4) p by simp
  have w: "0 \<le> w" "w \<le> len" "cjk \<le> len" "ascii \<le> len" using assms unfolding w_def by simp_all
  have "0 \<le> q" "q \<le> 9 * len" using w assms(1,2) unfolding q_def by simp_all
  then have b: "cjk < 2 ^ 49" "ascii < 2 ^ 49" "w < 2 ^ 49" "0 \<le> w" "q < 2 ^ 53" "0 \<le> q"
    using w l unfolding p by simp_all
  have i: "f64_of_int cjk = of_int cjk" "f64_of_int ascii = of_int ascii" "f64_of_int w = of_int w"
    unfolding f64_of_int_def by (rule rnd_of_int, use b assms in simp)+
  have c: "fmul (of_int cjk) (3 / 2) = of_int cjk * (3 / 2)"
    unfolding fmul_def by (rule rnd_quarters [of _ "6 * cjk"]) (use b assms in simp_all)
  have a: "fdiv (of_int ascii) 4 = of_int ascii / 4"
    unfolding fdiv_def by (rule rnd_quarters [of _ ascii]) (use b assms in simp_all)
  have o: "fmul (of_int w) (1 / 2) = of_int w * (1 / 2)"
    unfolding fmul_def by (rule rnd_quarters [of _ "2 * w"]) (use b in simp_all)
  have ca: "fadd (of_int cjk * (3 / 2)) (of_int ascii / 4) = of_int cjk * (3 / 2) + of_int ascii / 4"
    unfolding fadd_def by (rule rnd_quarters [of _ "6 * cjk + ascii"]) (use b assms in \<open>simp_all add: algebra_simps\<close>)
  have cao: "fadd (of_int cjk * (3 / 2) + of_int ascii / 4) (of_int w * (1 / 2)) = of_int q / 4"
  proof -
    have e: "of_int cjk * (3 / 2) + of_int ascii / 4 + of_int w * (1 / 2) = (of_int q / 4 :: rat)"
      by (simp add: q_def algebra_simps)
    show ?thesis
      unfolding fadd_def e by (rule rnd_quarters [of _ q]) (use b in simp_all)
  qed
  have "f64_to_int (of_int q / 4) = q div 4"
    using floor_divide_of_int_eq [of q 4, where 'a = rat] b(6) by (auto simp: f64_to_int_def divide_less_0_iff)
  then show ?thesis
    unfolding estimateOf_def Let_def w_def [symmetric] i c a o ca cao q_def [symmetric] by simp
qed

lemma count_two:
  assumes "\<And>x. P x \<Longrightarrow> \<not> Q x"
  shows "count_if P xs + count_if Q xs \<le> int (length xs)"
  by (induction xs) (use assms in auto)

lemma counts_fit: "cjkCount s + asciiCount s \<le> int (length s)"
proof -
  have "cjkCount s + asciiCount s \<le> int (length (runes s))"
    unfolding cjkCount_def asciiCount_def by (rule count_two) (auto simp: cjk_rune_def ascii_rune_def)
  with length_runes [of s] show ?thesis by simp
qed

lemma EstimateTokens_exact:
  assumes "int (length s) < 2 ^ 49" "s \<noteq> []"
  shows "EstimateTokens s =
    max 1 ((6 * cjkCount s + asciiCount s + 2 * (int (length s) - cjkCount s - asciiCount s)) div 4)"
proof -
  have "EstimateTokens s = (let t = (6 * cjkCount s + asciiCount s + 2 * (int (length s) - cjkCount s - asciiCount s)) div 4
      in if t < 1 \<and> 0 < int (length s) then 1 else t)"
    using estimateOf_exact [of "cjkCount s" "asciiCount s" "int (length s)"] counts_fit [of s] assms
    by (simp add: EstimateTokens_def cjkCount_def asciiCount_def)
  then show ?thesis
    using assms(2) by (simp add: Let_def max_def)
qed

text \<open>To evaluate the counts of a literal of ASCII characters.\<close>

lemmas count_literal = asciiCount_def cjkCount_def runes_ascii byte_def ascii_rune_def cjk_rune_def

lemma f64_to_int_nonneg: "0 \<le> x \<Longrightarrow> 0 \<le> f64_to_int x"
  by (simp add: f64_to_int_def)

lemma fmul_unfold_nonneg: "0 \<le> x \<Longrightarrow> 0 \<le> y \<Longrightarrow> 0 \<le> fdiv x y"
  by (simp add: fdiv_def rnd_nonneg)

lemma EstimateTokens_nonneg [simp]: "0 \<le> EstimateTokens s"
proof -
  have "0 \<le> f64_of_int i" if "0 \<le> i" for i
    using that by (simp add: f64_of_int_def rnd_nonneg)
  then have "0 \<le> estimateOf (cjkCount s) (asciiCount s) (int (length s))"
    using counts_fit [of s]
    by (auto simp: estimateOf_def Let_def fadd_def intro!: f64_to_int_nonneg rnd_nonneg add_nonneg_nonneg
        fmul_nonneg fmul_unfold_nonneg) (auto simp: cjkCount_def asciiCount_def)
  then show ?thesis by (simp add: EstimateTokens_def)
qed

lemma EstimateTokens_pos: "s \<noteq> [] \<Longrightarrow> 1 \<le> EstimateTokens s"
  by (simp add: EstimateTokens_def estimateOf_def Let_def)

subsection \<open>Wide texts\<close>

text \<open>Trimming to a token budget on texts whose characters are three bytes wide.\<close>

lemma representable_dyadic:
  assumes "0 < m" "m < 2 ^ 53" "n \<le> 1074"
  shows "representable (of_int m / 2 ^ n)"
proof -
  have "pow2 (- int n) = 1 / 2 ^ n"
    using pow2_add_nat [of "- int n" n] by (simp add: field_simps)
  then have "rnd_pos (of_int m / 2 ^ n) = of_int m / 2 ^ n"
    using assms by (intro rnd_pos_exact [of m "- int n"]) simp_all
  moreover have "0 < of_int m / (2 ^ n :: rat)" using assms(1) by simp
  ultimately show ?thesis unfolding representable_def rnd_def by simp
qed

lemma target_of_wide_text:
  assumes "14 \<le> k" "k < 2 ^ 30" "k \<le> m"
  shows "k < targetLength (3 * k) m (5 * k div 2)"
proof -
  let ?c = "5 * k div 2"
  have c: "0 < ?c" "?c < 2 ^ 53" "of_int ?c \<le> (5 * of_int k / 2 :: rat)"
  proof -
    show "0 < ?c" using assms by linarith
    show "?c < 2 ^ 53" using assms(2) by simp
    have "2 * ?c \<le> 5 * k" by linarith
    then have "of_int (2 * ?c) \<le> (of_int (5 * k) :: rat)" by (simp only: of_int_le_iff)
    then show "of_int ?c \<le> (5 * of_int k / 2 :: rat)" by simp
  qed
  have rk: "rnd (of_int k) = of_int k" "rnd (of_int ?c) = of_int ?c" "rnd (of_int (3 * k)) = of_int (3 * k)"
    using assms c(1,2) by (intro rnd_of_int; simp)+
  have m: "of_int k \<le> f64_of_int m"
    using rnd_mono [of "of_int k" "of_int m"] assms(3) rk(1) by (simp add: f64_of_int_def)
  have "2 / 5 \<le> f64_of_int m / of_int ?c"
  proof -
    have "2 / 5 * of_int ?c \<le> (of_int k :: rat)" using c(3) by (simp add: field_simps)
    then have "2 / 5 * of_int ?c \<le> f64_of_int m" using m by linarith
    moreover have "(0 :: rat) < of_int ?c" using c(1) by (simp only: of_int_0_less_iff)
    ultimately show ?thesis by (simp add: le_divide_eq)
  qed
  then have "51 / 2 ^ 7 \<le> f64_of_int m / of_int ?c" by simp
  then have ratio: "51 / 2 ^ 7 \<le> fdiv (f64_of_int m) (f64_of_int ?c)"
    unfolding fdiv_def using representable_dyadic [of 51 7] rk(2) by (intro rnd_ge_rep) (simp_all add: f64_of_int_def)
  have nine: "115 / 2 ^ 7 \<le> rnd (9 / 10)"
    using representable_dyadic [of 115 7] by (intro rnd_ge_rep) simp_all
  let ?r = "fdiv (f64_of_int m) (f64_of_int ?c)"
  have k0: "(0 :: rat) \<le> of_int (3 * k)" using assms by simp
  have "of_int (3 * k * 51) / 2 ^ 7 \<le> of_int (3 * k) * ?r"
    using mult_left_mono [OF ratio k0] by simp
  then have x: "of_int (3 * k * 51) / 2 ^ 7 \<le> fmul (f64_of_int (3 * k)) ?r"
    unfolding fmul_def using representable_dyadic [of "3 * k * 51" 7] assms rk(3)
    by (intro rnd_ge_rep) (simp_all add: f64_of_int_def)
  let ?x = "fmul (f64_of_int (3 * k)) ?r"
  have "of_int (3 * k * 51) / 2 ^ 7 * (115 / 2 ^ 7) \<le> ?x * rnd (9 / 10)"
    by (rule mult_mono [OF x nine]) (use x assms in \<open>auto intro: order_trans [rotated]\<close>)
  then have "of_int (3 * k * 51 * 115) / 2 ^ 14 \<le> fmul ?x (rnd (9 / 10))"
    unfolding fmul_def [of ?x] using representable_dyadic [of "3 * k * 51 * 115" 14] assms
    by (intro rnd_ge_rep) simp_all
  moreover have "of_int (k + 1) \<le> (of_int (3 * k * 51 * 115) / 2 ^ 14 :: rat)"
  proof -
    have "(k + 1) * 2 ^ 14 \<le> 3 * k * 51 * 115" using assms by simp
    then have "of_int ((k + 1) * 2 ^ 14) \<le> (of_int (3 * k * 51 * 115) :: rat)" by (simp only: of_int_le_iff)
    then show ?thesis by (simp add: field_simps)
  qed
  ultimately have "of_int (k + 1) \<le> fmul ?x (rnd (9 / 10))" by linarith
  then show ?thesis
    using assms by (simp add: targetLength_def Let_def f64_to_int_def le_floor_iff) linarith
qed

lemma wide_estimate:
  assumes "cjkCount s = int k" "length s = 3 * k" "length (runes s) = k" "0 < k" "k < 2 ^ 30"
  shows "EstimateTokens s = 5 * int k div 2"
proof -
  have "cjkCount s + asciiCount s \<le> int (length (runes s))"
    unfolding cjkCount_def asciiCount_def by (rule count_two) (auto simp: cjk_rune_def ascii_rune_def)
  then have a: "asciiCount s = 0" using assms count_if_nonneg [of ascii_rune "runes s"] by (simp add: asciiCount_def)
  have "s \<noteq> []" using assms by auto
  then have "EstimateTokens s = max 1 (10 * int k div 4)"
    using EstimateTokens_exact [of s] a assms by simp
  then show ?thesis using assms(4) by linarith
qed

text \<open>Trimming takes the number of bytes to keep for a number of characters. A text of \<open>k\<close> CJK characters, three bytes
  and two and a half tokens each, is returned whole for every budget of \<open>k\<close> tokens or more, at up to two and a
  half times the budget.\<close>

theorem wide_text_not_trimmed:
  assumes "cjkCount s = int k" "length s = 3 * k" "length (runes s) = k" "14 \<le> k" "k < 2 ^ 30" "int k \<le> maxTokens"
  shows "TrimToTokenBudget s maxTokens = s \<and> EstimateTokens s = 5 * int k div 2"
proof -
  have e: "EstimateTokens s = 5 * int k div 2" using wide_estimate [OF assms(1-3)] assms(4,5) by simp
  have "int k < targetLength (3 * int k) maxTokens (5 * int k div 2)"
    by (rule target_of_wide_text) (use assms in simp_all)
  then show ?thesis
    using assms by (auto simp: TrimToTokenBudget_def Let_def e)
qed

theorem wide_text_not_trimmed_witness:
  "let s = concat (replicate 16 [CHR 0xE4, CHR 0xB8, CHR 0xAD])
   in TrimToTokenBudget s 16 = s \<and> EstimateTokens s = 40"
proof -
  let ?s = "concat (replicate 16 [CHR 0xE4, CHR 0xB8, CHR 0xAD])"
  have r: "runes (concat (replicate n [CHR 0xE4, CHR 0xB8, CHR 0xAD])) = replicate n [CHR 0xE4, CHR 0xB8, CHR 0xAD]" for n
    by (induction n) (simp, subst runes.simps, simp add: byte_def tail_byte_def)
  have l: "length (concat (replicate n [CHR 0xE4, CHR 0xB8, CHR 0xAD])) = 3 * n" for n
    by (induction n) simp_all
  have "count_if cjk_rune (replicate n [CHR 0xE4, CHR 0xB8, CHR 0xAD]) = int n" for n
    by (induction n) (simp_all add: cjk_rune_def byte_def)
  then have c: "cjkCount ?s = int 16" unfolding cjkCount_def r by simp
  from wide_text_not_trimmed [OF c l, of 16] show ?thesis by (simp add: r Let_def)
qed

end
