(* ===== verification/Go_Split.thy ===== *)
theory Go_Split
  imports Go_Strings
begin

text \<open>Functions of package \<open>strings\<close> around separators and positions.\<close>

text \<open>\<open>strings.Split(s, sep)\<close> for a separator that is not empty; \<open>cur\<close> is the current part, reversed.\<close>

function split_loop :: "string \<Rightarrow> string \<Rightarrow> string \<Rightarrow> string list" where
  "split_loop sep cur s =
     (if s = [] then [rev cur]
      else if sep \<noteq> [] \<and> prefix sep s then rev cur # split_loop sep [] (drop (length sep) s)
      else split_loop sep (hd s # cur) (tl s))"
  by pat_completeness auto
termination
  by (relation "measure (\<lambda>(sep, cur, s). length s)") auto

declare split_loop.simps [simp del]

definition str_split :: "string \<Rightarrow> string \<Rightarrow> string list" where
  "str_split s sep = split_loop sep [] s"

text \<open>\<open>strings.Count(s, sub)\<close> for a text that is not empty.\<close>

definition str_count :: "string \<Rightarrow> string \<Rightarrow> int" where
  "str_count s sub = int (length (str_split s sub)) - 1"

text \<open>The position of the first and of the last byte \<open>c\<close>, -1 for none.\<close>

fun index_byte :: "string \<Rightarrow> char \<Rightarrow> int" where
  "index_byte [] c = -1"
| "index_byte (x # xs) c = (if x = c then 0 else let i = index_byte xs c in if i < 0 then -1 else i + 1)"

fun last_index_byte :: "string \<Rightarrow> char \<Rightarrow> int" where
  "last_index_byte [] c = -1"
| "last_index_byte (x # xs) c =
     (let i = last_index_byte xs c in if i \<ge> 0 then i + 1 else if x = c then 0 else -1)"

text \<open>The distinct items in the order they first occur (the map \<open>seen\<close> of the source).\<close>

fun dedup_from :: "'a list \<Rightarrow> 'a list \<Rightarrow> 'a list" where
  "dedup_from seen [] = []"
| "dedup_from seen (x # xs) = (if x \<in> set seen then dedup_from seen xs else x # dedup_from (x # seen) xs)"

lemma set_dedup_from: "set (dedup_from seen xs) = set xs - set seen"
  by (induction seen xs rule: dedup_from.induct) auto

lemma distinct_dedup_from: "distinct (dedup_from seen xs)"
  by (induction seen xs rule: dedup_from.induct) (auto simp: set_dedup_from)

text \<open>A part of a split text occurs in it.\<close>

lemma contains_sublist: "contains sub s \<longleftrightarrow> sublist sub s"
proof (induction s)
  case (Cons c s)
  then show ?case by (auto simp: sublist_Cons_right)
qed simp

lemma split_loop_sublist: "p \<in> set (split_loop sep cur s) \<Longrightarrow> sublist p (rev cur @ s)"
proof (induction sep cur s arbitrary: p rule: split_loop.induct)
  case (1 sep cur s)
  show ?case
  proof (cases "s = []")
    case True
    then show ?thesis using "1.prems" by (subst (asm) split_loop.simps) simp
  next
    case False
    show ?thesis
    proof (cases "sep \<noteq> [] \<and> prefix sep s")
      case True
      from "1.prems" False True have "p = rev cur \<or> p \<in> set (split_loop sep [] (drop (length sep) s))"
        by (subst (asm) split_loop.simps) simp
      then show ?thesis
      proof
        assume "p \<in> set (split_loop sep [] (drop (length sep) s))"
        from "1.IH"(1) [OF False True this] have "sublist p (drop (length sep) s)" by simp
        moreover have "sublist (drop (length sep) s) (rev cur @ s)"
          by (metis append_assoc append_take_drop_id sublist_append_leftI sublist_appendI sublist_order.order_refl suffix_drop suffix_imp_sublist)
        ultimately show ?thesis by (rule sublist_order.order_trans)
      qed simp
    next
      case False': False
      from "1.prems" False False' have "p \<in> set (split_loop sep (hd s # cur) (tl s))"
        by (subst (asm) split_loop.simps) simp
      from "1.IH"(2) [OF False False' this] show ?thesis using False by simp
    qed
  qed
qed

lemma str_split_contains: "p \<in> set (str_split s sep) \<Longrightarrow> contains p s"
  using split_loop_sublist [of p sep "[]" s] by (simp add: str_split_def contains_sublist)

lemma contains_trans: "contains a b \<Longrightarrow> contains b c \<Longrightarrow> contains a c"
  unfolding contains_sublist by (rule sublist_order.order_trans)

lemma contains_trim: "contains (trim_space s) s"
proof -
  have "prefix (trim_space s) (trim_left s)" by (simp add: trim_space_def trim_right_prefix)
  moreover have "suffix (trim_left s) s" by (simp add: trim_left_def trim_by_suffix)
  ultimately show ?thesis
    unfolding contains_sublist by (meson prefix_imp_sublist suffix_imp_sublist sublist_order.order_trans)
qed

text \<open>Splitting and joining.\<close>

lemma split_loop_ne [simp]: "split_loop sep cur s \<noteq> []"
  by (induction sep cur s rule: split_loop.induct) (subst split_loop.simps, auto)

lemma join_Cons: "ys \<noteq> [] \<Longrightarrow> join sep (x # ys) = x @ sep @ join sep ys"
  by (cases ys) simp_all

lemma join_split_loop: "join sep (split_loop sep cur s) = rev cur @ s"
proof (induction sep cur s rule: split_loop.induct)
  case (1 sep cur s)
  consider "s = []" | "s \<noteq> []" "sep \<noteq> [] \<and> prefix sep s" | "s \<noteq> []" "\<not> (sep \<noteq> [] \<and> prefix sep s)" by blast
  then show ?case
  proof cases
    case 1
    then show ?thesis by (subst split_loop.simps) simp
  next
    case 2
    then have "split_loop sep cur s = rev cur # split_loop sep [] (drop (length sep) s)"
      by (subst split_loop.simps) simp
    then show ?thesis using "1.IH"(1) [OF 2] 2 by (auto simp: join_Cons prefix_def)
  next
    case 3
    then have "split_loop sep cur s = split_loop sep (hd s # cur) (tl s)"
      by (subst split_loop.simps) (simp only: if_False)
    then show ?thesis using "1.IH"(2) [OF 3] 3 by simp
  qed
qed

lemma join_str_split: "join sep (str_split s sep) = s"
  by (simp add: str_split_def join_split_loop)

lemma str_split_ne [simp]: "str_split s sep \<noteq> []"
  by (simp add: str_split_def)

text \<open>Around a separator of one byte the parts are free of it, and such parts are what a join is split into.\<close>

lemma split_loop_byte:
  "split_loop [c] cur [] = [rev cur]"
  "split_loop [c] cur (x # xs) = (if x = c then rev cur # split_loop [c] [] xs else split_loop [c] (x # cur) xs)"
  by (subst split_loop.simps, simp)+

lemma split_byte_free: "c \<notin> set cur \<Longrightarrow> p \<in> set (split_loop [c] cur s) \<Longrightarrow> c \<notin> set p"
proof (induction s arbitrary: cur)
  case (Cons x xs)
  then show ?case using Cons.IH [of "[]"] Cons.IH [of "x # cur"] by (auto simp: split_loop_byte split: if_splits)
qed (simp add: split_loop_byte)

lemma str_split_free: "p \<in> set (str_split s [c]) \<Longrightarrow> c \<notin> set p"
  using split_byte_free [of c "[]" p s] by (simp add: str_split_def)

lemma split_loop_run: "c \<notin> set p \<Longrightarrow> split_loop [c] cur (p @ s) = split_loop [c] (rev p @ cur) s"
  by (induction p arbitrary: cur) (auto simp: split_loop_byte)

lemma str_split_join: "ls \<noteq> [] \<Longrightarrow> (\<And>l. l \<in> set ls \<Longrightarrow> c \<notin> set l) \<Longrightarrow> str_split (join [c] ls) [c] = ls"
proof (induction ls)
  case (Cons l ls)
  show ?case
  proof (cases "ls = []")
    case True
    then show ?thesis
      using Cons.prems split_loop_run [of c l "[]" "[]"] by (simp add: str_split_def split_loop_byte)
  next
    case False
    then show ?thesis
      using Cons split_loop_run [of c l "[]" "c # join [c] ls"]
      by (simp add: str_split_def split_loop_byte join_Cons)
  qed
qed simp

end
