(* ===== verification/Ctx_Compress.thy ===== *)
theory Ctx_Compress
  imports Ctx_Tokens Go_Split
begin

text \<open>
  internal/ai/contextcompression: shortening the output of tools and retrieved documents before they enter a
  prompt. \<open>compressor.go\<close> (the entry point and its report), \<open>log_compressor.go\<close> (which lines of a log stay),
  \<open>json_compressor.go\<close> (which items of an array stay), \<open>config.go\<close>. \<open>lower\<close> is \<open>strings.ToLower\<close>; the decoder and
  the encoder of JSON are the fields of a record. \<open>latency\<close> is the time the call took, read from the clock.
\<close>

subsection \<open>Configuration and data\<close>

abbreviation ModeOff :: string where "ModeOff \<equiv> ''off''"
abbreviation ModeAudit :: string where "ModeAudit \<equiv> ''audit''"
abbreviation ModeOptimize :: string where "ModeOptimize \<equiv> ''optimize''"

abbreviation SourceTool :: string where "SourceTool \<equiv> ''tool''"
abbreviation SourceRAG :: string where "SourceRAG \<equiv> ''rag''"

record compression_config =
  cz_Enabled :: bool
  cz_Mode :: string
  cz_MinTokens :: int
  cz_PreserveFirst :: int
  cz_PreserveLast :: int
  cz_LogContextLines :: int
  cz_SourceTypes :: "string list"

definition defaultConfig :: compression_config where
  "defaultConfig =
     \<lparr>cz_Enabled = False, cz_Mode = ModeOff, cz_MinTokens = 300, cz_PreserveFirst = 3, cz_PreserveLast = 2,
      cz_LogContextLines = 1, cz_SourceTypes = [''tool'', ''rag'']\<rparr>"

text \<open>What \<open>g.Cfg().Get\<close> answers for the seven keys: \<open>None\<close> for an error. A key that is absent reads as the zero
  value of its type.\<close>

record compression_settings =
  cg_enabled :: "bool option"
  cg_mode :: "string option"
  cg_min_tokens :: "int option"
  cg_preserve_first :: "int option"
  cg_preserve_last :: "int option"
  cg_log_context_lines :: "int option"
  cg_source_types :: "string list option"

definition LoadConfig :: "compression_settings \<Rightarrow> compression_config" where
  "LoadConfig s =
     defaultConfig
      \<lparr>cz_Enabled := (case cg_enabled s of Some b \<Rightarrow> b | None \<Rightarrow> cz_Enabled defaultConfig),
       cz_Mode := (case cg_mode s of Some m \<Rightarrow> if m \<noteq> [] then m else cz_Mode defaultConfig
                   | None \<Rightarrow> cz_Mode defaultConfig),
       cz_MinTokens := (case cg_min_tokens s of Some n \<Rightarrow> if n > 0 then n else cz_MinTokens defaultConfig
                        | None \<Rightarrow> cz_MinTokens defaultConfig),
       cz_PreserveFirst := (case cg_preserve_first s of Some n \<Rightarrow> if n > 0 then n else cz_PreserveFirst defaultConfig
                            | None \<Rightarrow> cz_PreserveFirst defaultConfig),
       cz_PreserveLast := (case cg_preserve_last s of Some n \<Rightarrow> if n > 0 then n else cz_PreserveLast defaultConfig
                           | None \<Rightarrow> cz_PreserveLast defaultConfig),
       cz_LogContextLines := (case cg_log_context_lines s of
                                Some n \<Rightarrow> if n \<ge> 0 then n else cz_LogContextLines defaultConfig
                              | None \<Rightarrow> cz_LogContextLines defaultConfig),
       cz_SourceTypes := (case cg_source_types s of
                            Some ts \<Rightarrow> if ts \<noteq> [] then ts else cz_SourceTypes defaultConfig
                          | None \<Rightarrow> cz_SourceTypes defaultConfig)\<rparr>"

definition SourceTypeAllowed :: "compression_config \<Rightarrow> string \<Rightarrow> bool" where
  "SourceTypeAllowed c st \<longleftrightarrow> cz_SourceTypes c = [] \<or> st \<in> set (cz_SourceTypes c)"

record compress_request =
  cq_SourceType :: string
  cq_SourceID :: string
  cq_Query :: string
  cq_Content :: string

record compress_report =
  cp_Enabled :: bool
  cp_Mode :: string
  cp_SourceType :: string
  cp_SourceID :: string
  cp_Strategy :: string
  cp_TokensBefore :: int
  cp_TokensAfter :: int
  cp_CompressionRatio :: f64
  cp_LatencyMs :: int
  cp_Degraded :: bool
  cp_DegradationReason :: string

record compress_result =
  cs_Content :: string
  cs_CandidateContent :: string
  cs_Report :: compress_report

subsection \<open>Keywords\<close>

definition errorKeywords :: "string list" where \<comment> \<open>words of errors and of failing releases\<close>
  "errorKeywords =
     [''error'', ''warning'', ''failure'', ''fail'', ''failed'', ''timeout'', ''exception'', ''panic'',
      ''oom'', ''killed'', ''5xx'', ''500'', ''502'', ''503'', ''504'', ''4xx'', ''400'', ''401'',
      ''403'', ''404'', ''fatal'', ''critical'', ''severe'', ''crashloopbackoff'', ''imagepullbackoff'',
      ''errimagepull'', ''back-off'', ''oomkilled'', ''failedscheduling'', ''failedmount'',
      ''unhealthy'', ''failedcreatepodsandbox'', ''manifest unknown'', ''imagepullsecrets'',
      ''readiness probe failed'', ''liveness probe failed'', [CHR 0xE5, CHR 0x91, CHR 0x8A, CHR 0xE8,
      CHR 0xAD, CHR 0xA6], [CHR 0xE8, CHR 0xB6, CHR 0x85, CHR 0xE6, CHR 0x97, CHR 0xB6], [CHR 0xE5, CHR
      0xBC, CHR 0x82, CHR 0xE5, CHR 0xB8, CHR 0xB8], [CHR 0xE6, CHR 0x95, CHR 0x85, CHR 0xE9, CHR 0x9A,
      CHR 0x9C], [CHR 0xE9, CHR 0x94, CHR 0x99, CHR 0xE8, CHR 0xAF, CHR 0xAF], [CHR 0xE5, CHR 0xA4, CHR
      0xB1, CHR 0xE8, CHR 0xB4, CHR 0xA5], [CHR 0xE6, CHR 0xBA, CHR 0xA2, CHR 0xE5, CHR 0x87, CHR 0xBA],
      [CHR 0xE8, CHR 0x80, CHR 0x97, CHR 0xE5, CHR 0xB0, CHR 0xBD]]"

definition logErrorPatterns :: "string list" where \<comment> \<open>signs of an error in a line of a log\<close>
  "logErrorPatterns =
     [''ERROR'', ''FATAL'', ''PANIC'', ''OOM'', ''KILLED'', ''Exception'', ''Traceback'',
      ''StackOverflow'', ''error:'', ''fatal:'', ''panic:'', ''5xx'', ''500'', ''502'', ''503'',
      ''504'', ''crashloopbackoff'', ''imagepullbackoff'', ''errimagepull'', ''back-off'',
      ''oomkilled'', ''failedscheduling'', ''failedmount'', ''unhealthy'', ''failedcreatepodsandbox'',
      ''manifest unknown'', ''imagepullsecrets'', ''readiness probe failed'', ''liveness probe failed'',
      [CHR 0xE5, CHR 0x91, CHR 0x8A, CHR 0xE8, CHR 0xAD, CHR 0xA6], [CHR 0xE8, CHR 0xB6, CHR 0x85, CHR
      0xE6, CHR 0x97, CHR 0xB6], [CHR 0xE5, CHR 0xBC, CHR 0x82, CHR 0xE5, CHR 0xB8, CHR 0xB8], [CHR
      0xE6, CHR 0x95, CHR 0x85, CHR 0xE9, CHR 0x9A, CHR 0x9C], [CHR 0xE9, CHR 0x94, CHR 0x99, CHR 0xE8,
      CHR 0xAF, CHR 0xAF], [CHR 0xE5, CHR 0xA4, CHR 0xB1, CHR 0xE8, CHR 0xB4, CHR 0xA5], [CHR 0xE6, CHR
      0xBA, CHR 0xA2, CHR 0xE5, CHR 0x87, CHR 0xBA], [CHR 0xE8, CHR 0x80, CHR 0x97, CHR 0xE5, CHR 0xB0,
      CHR 0xBD], [CHR 0xE5, CHR 0xAE, CHR 0x95, CHR 0xE6, CHR 0x9C, CHR 0xBA], [CHR 0xE5, CHR 0xB4, CHR
      0xA9, CHR 0xE6, CHR 0xBA, CHR 0x83], [CHR 0xE4, CHR 0xB8, CHR 0xAD, CHR 0xE6, CHR 0x96, CHR 0xAD]]"

definition logWarnPatterns :: "string list" where \<comment> \<open>signs of a warning\<close>
  "logWarnPatterns =
     [''WARN'', ''WARNING'', ''ALERT'', ''warn:'', ''warning:'', [CHR 0xE5, CHR 0x91, CHR 0x8A, CHR
      0xE8, CHR 0xAD, CHR 0xA6], [CHR 0xE6, CHR 0xB3, CHR 0xA8, CHR 0xE6, CHR 0x84, CHR 0x8F], [CHR
      0xE8, CHR 0xAD, CHR 0xA6, CHR 0xE5, CHR 0x91, CHR 0x8A]]"

definition querySeparators :: "string list" where \<comment> \<open>ASCII and full-width separators\<close>
  "querySeparators =
     ['' '', '','', '';'', ''|'', [CHR 0xEF, CHR 0xBC, CHR 0x8C], [CHR 0xEF, CHR 0xBC, CHR 0x9B]]"

definition errorKeys :: "string list" where \<comment> \<open>the fields of an object that stay\<close>
  "errorKeys =
     [''error'', ''err'', ''message'', ''msg'', ''status'', ''code'', ''reason'', ''detail'', ''stack'',
      ''stacktrace'', ''trace'', ''data'', ''result'', ''response'']"

definition containsAny :: "string \<Rightarrow> string list \<Rightarrow> bool" where
  "containsAny s keywords \<longleftrightarrow> list_ex (\<lambda>kw. contains kw s) keywords"

definition extractQueryTerms :: "string \<Rightarrow> string list" where
  "extractQueryTerms queryLower =
     (let terms = fold (\<lambda>sep ts. concat (map (\<lambda>t. str_split t sep) ts)) querySeparators [queryLower]
      in filter (\<lambda>t. length t \<ge> 2) (map trim_space terms))"

definition hitsTerm :: "string list \<Rightarrow> string \<Rightarrow> bool" where
  "hitsTerm terms s \<longleftrightarrow> list_ex (\<lambda>t. length t \<ge> 2 \<and> contains t s) terms"

subsection \<open>Logs\<close>

abbreviation nl :: string where "nl \<equiv> [CHR 0x0A]"

definition errorLine :: "(string \<Rightarrow> string) \<Rightarrow> string \<Rightarrow> bool" where
  "errorLine lower line \<longleftrightarrow>
     containsAny (lower line) logErrorPatterns \<or> containsAny (trim_space line) logErrorPatterns"

definition warnLine :: "(string \<Rightarrow> string) \<Rightarrow> string \<Rightarrow> bool" where
  "warnLine lower line \<longleftrightarrow>
     containsAny (lower line) logWarnPatterns \<or> containsAny (trim_space line) logWarnPatterns"

text \<open>The loop over the window around line \<open>i\<close>.\<close>

definition markWindow :: "int \<Rightarrow> int \<Rightarrow> bool list \<Rightarrow> bool list" where
  "markWindow contextLines i keep =
     map (\<lambda>(j, k). k \<or> (max 0 (i - contextLines) \<le> int j \<and> int j \<le> min (int (length keep) - 1) (i + contextLines)))
       (enumerate 0 keep)"

definition markLine :: "(string \<Rightarrow> string) \<Rightarrow> string list \<Rightarrow> int \<Rightarrow> nat \<times> string \<Rightarrow> bool list \<Rightarrow> bool list" where
  "markLine lower queryTerms contextLines = (\<lambda>(i, line) keep.
     if trim_space line = [] then keep
     else if errorLine lower line then markWindow contextLines (int i) (keep[i := True])
     else if warnLine lower line then keep[i := True]
     else if hitsTerm queryTerms (lower line) then markWindow contextLines (int i) (keep[i := True])
     else keep)"

definition markEnds :: "bool list \<Rightarrow> bool list" where
  "markEnds keep =
     (let keep1 = (if length keep > 0 then keep[0 := True] else keep)
      in if length keep > 1 then keep1[length keep - 1 := True] else keep1)"

text \<open>The kept lines without those equal, up to white space, to the kept line before.\<close>

fun keptLines :: "string \<Rightarrow> (bool \<times> string) list \<Rightarrow> string list" where
  "keptLines lastLine [] = []"
| "keptLines lastLine ((k, line) # rest) =
     (if \<not> k then keptLines lastLine rest
      else if trim_space line = lastLine then keptLines lastLine rest
      else line # keptLines (trim_space line) rest)"

definition keepFlags :: "(string \<Rightarrow> string) \<Rightarrow> string \<Rightarrow> int \<Rightarrow> string list \<Rightarrow> bool list" where
  "keepFlags lower query contextLines lines =
     markEnds (fold (markLine lower (extractQueryTerms (lower query)) contextLines) (enumerate 0 lines)
                 (replicate (length lines) False))"

definition compressLog :: "(string \<Rightarrow> string) \<Rightarrow> string \<Rightarrow> string \<Rightarrow> int \<Rightarrow> string" where
  "compressLog lower content query contextLines =
     (let lines = str_split content nl
      in if length lines \<le> 3 then content
         else (let result = keptLines [] (zip (keepFlags lower query contextLines lines) lines)
               in if result = [] then content else join nl result))"

subsection \<open>JSON\<close>

text \<open>A value of a JSON object is a text or, undecoded, something else. The four fields are \<open>json.Unmarshal\<close> into a list of
  raw items and into a map, and \<open>json.Marshal\<close> of both; \<open>None\<close> is an error.\<close>

datatype json_value = JText string | JOther string

record json_codec =
  jc_array :: "string \<Rightarrow> string list option"
  jc_array_text :: "string list \<Rightarrow> string option"
  jc_object :: "string \<Rightarrow> (string, json_value) gomap option"
  jc_object_text :: "(string, json_value) gomap \<Rightarrow> string option"

definition keepItem :: "(string \<Rightarrow> string) \<Rightarrow> string list \<Rightarrow> int \<Rightarrow> int \<Rightarrow> int \<Rightarrow> nat \<times> string \<Rightarrow> bool" where
  "keepItem lower queryTerms preserveFirst preserveLast n = (\<lambda>(i, item).
     int i < preserveFirst \<or> n - preserveLast \<le> int i \<or>
     containsAny (lower item) errorKeywords \<or> hitsTerm queryTerms (lower item))"

definition compressJSON :: "(string \<Rightarrow> string) \<Rightarrow> json_codec \<Rightarrow> string \<Rightarrow> string \<Rightarrow> int \<Rightarrow> int \<Rightarrow> string option" where
  "compressJSON lower jc content query preserveFirst preserveLast =
     (case jc_array jc content of
        None \<Rightarrow> None
      | Some items \<Rightarrow>
          (let n = int (length items)
           in if n = 0 then Some content
              else if n \<le> preserveFirst + preserveLast then Some content
              else (let queryTerms = extractQueryTerms (lower query);
                        result = map snd (filter (keepItem lower queryTerms preserveFirst preserveLast n) (enumerate 0 items))
                    in if int (length result) = n then Some content
                       else jc_array_text jc (if result = [] then [hd items] else result))))"

definition keepField :: "(string \<Rightarrow> string) \<Rightarrow> string \<Rightarrow> string \<times> json_value \<Rightarrow> bool" where
  "keepField lower queryLower = (\<lambda>(key, val).
     lower key \<in> set errorKeys \<or>
     (case val of JText s \<Rightarrow> containsAny (lower s) errorKeywords \<or> contains queryLower (lower s) | JOther _ \<Rightarrow> False))"

definition extractKeyFields :: "(string \<Rightarrow> string) \<Rightarrow> (string, json_value) gomap \<Rightarrow> string \<Rightarrow> (string, json_value) gomap" where
  "extractKeyFields lower obj query = filter (keepField lower (lower query)) obj"

definition compressJSONObject :: "(string \<Rightarrow> string) \<Rightarrow> json_codec \<Rightarrow> string \<Rightarrow> string \<Rightarrow> string option" where
  "compressJSONObject lower jc content query =
     (case jc_object jc content of
        None \<Rightarrow> None
      | Some obj \<Rightarrow>
          (let extracted = extractKeyFields lower obj query
           in if extracted = [] then None else jc_object_text jc extracted))"

definition delimited :: "char \<Rightarrow> char \<Rightarrow> string \<Rightarrow> bool" where
  "delimited a z content \<longleftrightarrow> (let s = trim_space content in length s > 1 \<and> hd s = a \<and> last s = z)"

definition isJSONArray :: "string \<Rightarrow> bool" where
  "isJSONArray = delimited (CHR 0x5B) (CHR 0x5D)"

definition isJSONObject :: "string \<Rightarrow> bool" where
  "isJSONObject = delimited (CHR 0x7B) (CHR 0x7D)"

subsection \<open>The entry point\<close>

definition compressByStrategy ::
  "(string \<Rightarrow> string) \<Rightarrow> json_codec \<Rightarrow> compress_request \<Rightarrow> compression_config \<Rightarrow> string \<times> string \<times> bool \<times> string" where
  "compressByStrategy lower jc req cfg =
     (let content = cq_Content req; query = cq_Query req;
          log = compressLog lower content query (cz_LogContextLines cfg)
      in if isJSONArray content
         then (case compressJSON lower jc content query (cz_PreserveFirst cfg) (cz_PreserveLast cfg) of
                 Some compressed \<Rightarrow> (compressed, ''json_array'', False, [])
               | None \<Rightarrow> (log, ''log_fallback'', False, []))
         else if isJSONObject content
         then (case compressJSONObject lower jc content query of
                 Some compressed \<Rightarrow> (compressed, ''json_object'', False, [])
               | None \<Rightarrow> (log, ''log_fallback'', False, []))
         else (log, ''log'', False, []))"

text \<open>The result before a strategy has been chosen, and the result that leaves the content alone.\<close>

definition freshResult :: "compress_request \<Rightarrow> compression_config \<Rightarrow> compress_result" where
  "freshResult req cfg =
     \<lparr>cs_Content = cq_Content req, cs_CandidateContent = cq_Content req,
      cs_Report = \<lparr>cp_Enabled = cz_Enabled cfg, cp_Mode = cz_Mode cfg, cp_SourceType = cq_SourceType req,
                   cp_SourceID = cq_SourceID req, cp_Strategy = [], cp_TokensBefore = EstimateTokens (cq_Content req),
                   cp_TokensAfter = 0, cp_CompressionRatio = 0, cp_LatencyMs = 0, cp_Degraded = False,
                   cp_DegradationReason = []\<rparr>\<rparr>"

definition unchanged :: "string \<Rightarrow> int \<Rightarrow> compress_result \<Rightarrow> compress_result" where
  "unchanged strategy latency r =
     r\<lparr>cs_Report := (cs_Report r)\<lparr>cp_Strategy := strategy, cp_TokensAfter := cp_TokensBefore (cs_Report r),
                                cp_CompressionRatio := 1, cp_LatencyMs := latency\<rparr>\<rparr>"

definition Compress ::
  "(string \<Rightarrow> string) \<Rightarrow> json_codec \<Rightarrow> int \<Rightarrow> compress_request \<Rightarrow> compression_config option \<Rightarrow> compress_result" where
  "Compress lower jc latency req cfg0 =
     (let cfg = (case cfg0 of None \<Rightarrow> defaultConfig | Some c \<Rightarrow> c);
          r = freshResult req cfg;
          tokensBefore = EstimateTokens (cq_Content req)
      in if \<not> cz_Enabled cfg \<or> cz_Mode cfg = ModeOff then unchanged ''disabled'' latency r
         else if \<not> SourceTypeAllowed cfg (cq_SourceType req) then unchanged ''source_type_excluded'' latency r
         else if tokensBefore < cz_MinTokens cfg then unchanged ''below_min_tokens'' latency r
         else (let (compressed, strategy, degraded, reason) = compressByStrategy lower jc req cfg
               in if degraded
                  then (let r1 = unchanged strategy latency r
                        in r1\<lparr>cs_Report := (cs_Report r1)\<lparr>cp_Degraded := True, cp_DegradationReason := reason\<rparr>\<rparr>)
                  else (let tokensAfter = EstimateTokens compressed;
                            ratio = (if tokensBefore > 0 then fdiv (f64_of_int tokensAfter) (f64_of_int tokensBefore) else 0);
                            r1 = r\<lparr>cs_CandidateContent := compressed,
                                   cs_Report := (cs_Report r)\<lparr>cp_Strategy := strategy, cp_LatencyMs := latency,
                                       cp_TokensAfter := tokensAfter, cp_CompressionRatio := ratio\<rparr>\<rparr>
                        in if cz_Mode cfg = ModeAudit then r1
                           else if tokensAfter \<ge> tokensBefore
                           then (unchanged (strategy @ ''_no_savings'') latency r1)\<lparr>cs_CandidateContent := cq_Content req\<rparr>
                           else r1\<lparr>cs_Content := compressed\<rparr>)))"

end
