(* ===== verification/Ctx_Compress_Properties.thy ===== *)
theory Ctx_Compress_Properties
  imports Ctx_Compress
begin

text \<open>
  The compression of content: what it promises of the tokens and of its report, which lines of a log and which
  items of a JSON array survive.
\<close>

subsection \<open>Lines of a log\<close>

text \<open>That line \<open>k\<close> makes line \<open>j\<close> stay: an error or, unless it is a warning, a hit of the query keeps the lines around it,
  a warning keeps itself.\<close>

definition marks :: "(string \<Rightarrow> string) \<Rightarrow> string list \<Rightarrow> int \<Rightarrow> nat \<times> string \<Rightarrow> nat \<Rightarrow> bool" where
  "marks lower terms c = (\<lambda>(k, line) j.
     trim_space line \<noteq> [] \<and>
     (j = k \<and> (errorLine lower line \<or> warnLine lower line \<or> hitsTerm terms (lower line)) \<or>
      \<bar>int j - int k\<bar> \<le> c \<and> (errorLine lower line \<or> \<not> warnLine lower line \<and> hitsTerm terms (lower line))))"

lemma length_markWindow [simp]: "length (markWindow c i keep) = length keep"
  by (simp add: markWindow_def)

lemma markWindow_nth:
  "j < length keep \<Longrightarrow> markWindow c (int k) keep ! j \<longleftrightarrow> keep ! j \<or> \<bar>int j - int k\<bar> \<le> c"
  by (auto simp: markWindow_def nth_enumerate_eq)

lemma length_markLine [simp]: "length (markLine lower terms c x keep) = length keep"
  by (cases x) (simp add: markLine_def)

lemma nth_set_true: "j < length ks \<Longrightarrow> ks[a := True] ! j \<longleftrightarrow> ks ! j \<or> j = a"
  by (cases "a < length ks") (auto simp: nth_list_update)

lemma markLine_nth:
  assumes "j < length keep"
  shows "markLine lower terms c x keep ! j \<longleftrightarrow> keep ! j \<or> marks lower terms c x j"
  using assms by (cases x) (auto simp: markLine_def marks_def markWindow_nth nth_set_true)

lemma length_fold_markLine [simp]: "length (fold (markLine lower terms c) xs keep) = length keep"
  by (induction xs arbitrary: keep) simp_all

lemma fold_markLine_nth:
  "j < length keep \<Longrightarrow>
     fold (markLine lower terms c) xs keep ! j \<longleftrightarrow> keep ! j \<or> (\<exists>x \<in> set xs. marks lower terms c x j)"
  by (induction xs arbitrary: keep) (auto simp: markLine_nth)

lemma length_markEnds [simp]: "length (markEnds keep) = length keep"
  by (simp add: markEnds_def Let_def)

lemma markEnds_nth: "j < length keep \<Longrightarrow> markEnds keep ! j \<longleftrightarrow> keep ! j \<or> j = 0 \<or> j = length keep - 1"
  by (auto simp: markEnds_def Let_def nth_list_update)

lemma length_keepFlags [simp]: "length (keepFlags lower query c ls) = length ls"
  by (simp add: keepFlags_def)

lemma keepFlags_nth:
  assumes "j < length ls"
  shows "keepFlags lower query c ls ! j \<longleftrightarrow>
    j = 0 \<or> j = length ls - 1 \<or> (\<exists>k < length ls. marks lower (extractQueryTerms (lower query)) c (k, ls ! k) j)"
  using assms by (auto simp: keepFlags_def markEnds_nth fold_markLine_nth in_set_enumerate_eq)

lemma keptLines_subseq: "subseq (keptLines prev ps) (map snd (filter fst ps))"
  by (induction prev ps rule: keptLines.induct) auto

lemma keptLines_represent:
  "(True, l) \<in> set ps \<Longrightarrow> trim_space l = prev \<or> (\<exists>l' \<in> set (keptLines prev ps). trim_space l' = trim_space l)"
  by (induction prev ps rule: keptLines.induct) auto

lemma subseq_filter_zip: "length ks = length xs \<Longrightarrow> subseq (map snd (filter fst (zip ks xs))) xs"
  by (induction ks xs rule: list_induct2) auto

text \<open>The lines of the compressed log.\<close>

definition loggedLines :: "(string \<Rightarrow> string) \<Rightarrow> string \<Rightarrow> string \<Rightarrow> int \<Rightarrow> string list" where
  "loggedLines lower content query c = str_split (compressLog lower content query c) nl"

definition chosenLines :: "(string \<Rightarrow> string) \<Rightarrow> string \<Rightarrow> int \<Rightarrow> string list \<Rightarrow> string list" where
  "chosenLines lower query c ls = keptLines [] (zip (keepFlags lower query c ls) ls)"

lemma chosenLines_subseq: "subseq (chosenLines lower query c ls) ls"
  unfolding chosenLines_def by (rule subseq_order.order_trans [OF keptLines_subseq subseq_filter_zip]) simp

lemma loggedLines_eq:
  assumes "3 < length (str_split content nl)"
  shows "loggedLines lower content query c =
    (if chosenLines lower query c (str_split content nl) = [] then str_split content nl
     else chosenLines lower query c (str_split content nl))"
proof -
  let ?ks = "chosenLines lower query c (str_split content nl)"
  have "set ?ks \<subseteq> set (str_split content nl)"
    using chosenLines_subseq set_nths_subset by (metis subseq_conv_nths)
  then have "?ks \<noteq> [] \<Longrightarrow> str_split (join nl ?ks) nl = ?ks"
    by (intro str_split_join) (auto dest: str_split_free)
  then show ?thesis
    using assms(1) by (simp add: loggedLines_def compressLog_def Let_def chosenLines_def)
qed

lemma loggedLines_short: "length (str_split content nl) \<le> 3 \<Longrightarrow> loggedLines lower content query c = str_split content nl"
  by (simp add: loggedLines_def compressLog_def Let_def)

lemma loggedLines_subseq: "subseq (loggedLines lower content query c) (str_split content nl)"
proof (cases "length (str_split content nl) \<le> 3")
  case False
  then show ?thesis
    using loggedLines_eq [of content lower query c] chosenLines_subseq by simp
qed (simp add: loggedLines_short)

lemma loggedLines_keep:
  assumes "i < length (str_split content nl)" "keepFlags lower query c (str_split content nl) ! i"
    "trim_space (str_split content nl ! i) \<noteq> []"
  shows "\<exists>l \<in> set (loggedLines lower content query c). trim_space l = trim_space (str_split content nl ! i)"
proof (cases "length (str_split content nl) \<le> 3")
  case True
  then show ?thesis using assms(1) by (auto simp: loggedLines_short)
next
  case False
  let ?ls = "str_split content nl"
  have "(True, ?ls ! i) \<in> set (zip (keepFlags lower query c ?ls) ?ls)"
    using assms(1,2) by (auto simp: in_set_zip intro!: exI [of _ i])
  from keptLines_represent [OF this, of "[]"] assms(3)
  have "\<exists>l \<in> set (keptLines [] (zip (keepFlags lower query c ?ls) ?ls)). trim_space l = trim_space (?ls ! i)"
    by blast
  then show ?thesis
    using False loggedLines_eq [of content lower query c] by (auto simp: chosenLines_def)
qed

text \<open>C28: A compressed log loses no sign of trouble: its lines are lines of the original in their order, and of
  every line that is not blank and is an error, a warning, a hit of the query, the first or the last line, it has one
  that is equal up to surrounding white space. So it has of every line that is not blank in the window around an error,
  or around a hit of the query that is not itself a warning; a hit that is a warning line keeps itself and no window.\<close>

theorem log_signs_survive:
  assumes "i < length (str_split content nl)" "trim_space (str_split content nl ! i) \<noteq> []"
    and "i = 0 \<or> i = length (str_split content nl) - 1 \<or>
      (\<exists>k < length (str_split content nl). marks lower (extractQueryTerms (lower query)) c (k, str_split content nl ! k) i)"
  shows "subseq (str_split (compressLog lower content query c) nl) (str_split content nl) \<and>
    (\<exists>l \<in> set (str_split (compressLog lower content query c) nl). trim_space l = trim_space (str_split content nl ! i))"
  using loggedLines_subseq [of lower content query c]
    loggedLines_keep [OF assms(1) _ assms(2), of lower query c] keepFlags_nth [OF assms(1), of lower query c] assms(3)
  unfolding loggedLines_def by blast

theorem log_signs_survive_witness:
  "\<exists>l \<in> set (str_split (compressLog (\<lambda>x. x) (join nl [''a'', ''b'', ''x 503'', ''d'', ''e'']) [] 0) nl). trim_space l = ''x 503''"
proof -
  have s: "str_split (join nl [''a'', ''b'', ''x 503'', ''d'', ''e'']) nl = [''a'', ''b'', ''x 503'', ''d'', ''e'']"
    by (rule str_split_join) auto
  have t: "trim_space ''x 503'' = ''x 503''" by code_simp
  have "errorLine (\<lambda>x. x) ''x 503''" by code_simp
  then have m: "marks (\<lambda>x. x) (extractQueryTerms []) 0 (2, ''x 503'') 2" by (simp add: marks_def t)
  let ?ls = "[''a'', ''b'', ''x 503'', ''d'', ''e'']"
  have "\<exists>k < length ?ls. marks (\<lambda>x. x) (extractQueryTerms []) 0 (k, ?ls ! k) 2"
    using m by (intro exI [of _ 2]) simp
  then show ?thesis
    using log_signs_survive [where content = "join nl ?ls" and i = 2 and lower = "\<lambda>x. x" and query = "[]" and c = 0]
    unfolding s by (simp only: length_Cons list.size nth_Cons_numeral t) (simp add: t)
qed

subsection \<open>JSON arrays\<close>

lemma map_snd_filter_enumerate: "subseq (map snd (filter P (enumerate n xs))) xs"
  by (induction xs arbitrary: n) auto

lemma filter_enumerate_keeps:
  "j < length xs \<Longrightarrow> P (j, xs ! j) \<Longrightarrow> xs ! j \<in> set (map snd (filter P (enumerate 0 xs)))"
  by (force simp: in_set_enumerate_eq)

text \<open>When an array is compressed to another text, that text is the encoding of a selection of its items in their order,
  with at least the first and the last ones the configuration preserves and every item in which a sign of an error or
  a term of the query occurs.\<close>

theorem json_items_survive:
  assumes "jc_array jc content = Some items" "compressJSON lower jc content query a z = Some out" "out \<noteq> content"
  shows "\<exists>kept. jc_array_text jc kept = Some out \<and> subseq kept items \<and> kept \<noteq> [] \<and>
    (\<forall>j < length items. int j < a \<or> int (length items) - z \<le> int j \<or> containsAny (lower (items ! j)) errorKeywords \<or>
        hitsTerm (extractQueryTerms (lower query)) (lower (items ! j)) \<longrightarrow> items ! j \<in> set kept)"
proof -
  define P where "P = keepItem lower (extractQueryTerms (lower query)) a z (int (length items))"
  define result where "result = map snd (filter P (enumerate 0 items))"
  have sub: "subseq result items" unfolding result_def by (rule map_snd_filter_enumerate)
  have keeps: "items ! j \<in> set result" if "j < length items" "P (j, items ! j)" for j
    unfolding result_def by (rule filter_enumerate_keeps [of j items P]) (use that in blast)+
  have ne: "items \<noteq> []" and out: "jc_array_text jc (if result = [] then [hd items] else result) = Some out"
    using assms unfolding compressJSON_def result_def P_def by (auto simp: Let_def split: if_splits)
  have "subseq (if result = [] then [hd items] else result) items"
    using sub ne by (cases items) auto
  moreover have "items ! j \<in> set (if result = [] then [hd items] else result)" if "j < length items" "P (j, items ! j)" for j
    using keeps [OF that] by auto
  ultimately show ?thesis
    using out by (intro exI [of _ "if result = [] then [hd items] else result"]) (auto simp: P_def keepItem_def)
qed

definition demo_codec :: json_codec where
  "demo_codec = \<lparr>jc_array = (\<lambda>s. Some [''1'', ''2'', ''error'', ''4'']), jc_array_text = (\<lambda>xs. Some (concat xs)),
                 jc_object = (\<lambda>s. None), jc_object_text = (\<lambda>m. None)\<rparr>"

theorem json_items_survive_witness:
  "\<exists>kept. jc_array_text demo_codec kept = Some ''1error4'' \<and> ''error'' \<in> set kept"
proof -
  have a: "jc_array demo_codec ''x'' = Some [''1'', ''2'', ''error'', ''4'']" by (simp add: demo_codec_def)
  have c: "compressJSON (\<lambda>x. x) demo_codec ''x'' [] 1 1 = Some ''1error4''" by code_simp
  have e: "containsAny ([''1'', ''2'', ''error'', ''4''] ! 2) errorKeywords" by code_simp
  from json_items_survive [OF a c] obtain kept where
    "jc_array_text demo_codec kept = Some ''1error4''"
    "\<forall>j < length [''1'', ''2'', ''error'', ''4'']. containsAny ([''1'', ''2'', ''error'', ''4''] ! j) errorKeywords \<longrightarrow>
       [''1'', ''2'', ''error'', ''4''] ! j \<in> set kept" by auto
  then show ?thesis using e by (intro exI [of _ kept]) (auto dest: spec [of _ 2])
qed

subsection \<open>The contract of a compression\<close>

lemma unchanged_simps [simp]:
  "cs_Content (unchanged st l r) = cs_Content r" "cs_CandidateContent (unchanged st l r) = cs_CandidateContent r"
  "cp_TokensAfter (cs_Report (unchanged st l r)) = cp_TokensBefore (cs_Report r)"
  "cp_TokensBefore (cs_Report (unchanged st l r)) = cp_TokensBefore (cs_Report r)"
  "cp_CompressionRatio (cs_Report (unchanged st l r)) = 1"
  by (simp_all add: unchanged_def)

lemma freshResult_simps [simp]:
  "cs_Content (freshResult req cfg) = cq_Content req" "cs_CandidateContent (freshResult req cfg) = cq_Content req"
  "cp_TokensBefore (cs_Report (freshResult req cfg)) = EstimateTokens (cq_Content req)"
  by (simp_all add: freshResult_def)

text \<open>C32: A compression never costs tokens: the content handed on is the original, or, only when compression is on, the mode
  is neither off nor audit, the kind of source is allowed and the content has the required size, the compressed
  text with strictly fewer tokens. The report counts the tokens of the original and of the candidate.\<close>

theorem compress_contract:
  "let r = Compress lower jc latency req (Some cfg)
   in cp_TokensBefore (cs_Report r) = EstimateTokens (cq_Content req) \<and>
      cp_TokensAfter (cs_Report r) = EstimateTokens (cs_CandidateContent r) \<and>
      (cs_Content r \<noteq> cq_Content req \<longrightarrow>
         cz_Enabled cfg \<and> cz_Mode cfg \<noteq> ModeOff \<and> cz_Mode cfg \<noteq> ModeAudit \<and>
         SourceTypeAllowed cfg (cq_SourceType req) \<and> cz_MinTokens cfg \<le> EstimateTokens (cq_Content req) \<and>
         cs_Content r = fst (compressByStrategy lower jc req cfg) \<and>
         EstimateTokens (cs_Content r) < EstimateTokens (cq_Content req))"
proof -
  obtain compressed strategy degraded reason where
    c: "compressByStrategy lower jc req cfg = (compressed, strategy, degraded, reason)" by (metis prod_cases4)
  show ?thesis
    unfolding Compress_def Let_def option.case c prod.case
    by (simp add: c not_le not_less)
qed

definition demo_config :: compression_config where
  "demo_config = defaultConfig\<lparr>cz_Enabled := True, cz_Mode := ModeOptimize, cz_MinTokens := 1,
                               cz_PreserveFirst := 1, cz_PreserveLast := 1\<rparr>"

definition demo_array :: string where "demo_array = ''[1,2,error,4,more,items]''"

definition demo_request :: compress_request where
  "demo_request = \<lparr>cq_SourceType = ''tool'', cq_SourceID = [], cq_Query = [], cq_Content = demo_array\<rparr>"

lemma demo_estimates: "EstimateTokens demo_array = 6" "EstimateTokens ''1error4'' = 1"
proof -
  have "cjkCount demo_array = 0" "asciiCount demo_array = 24" "cjkCount ''1error4'' = 0" "asciiCount ''1error4'' = 7"
    by (simp_all add: demo_array_def count_literal)
  then show "EstimateTokens demo_array = 6" "EstimateTokens ''1error4'' = 1"
    using EstimateTokens_exact [of demo_array] EstimateTokens_exact [of "''1error4''"]
    by (simp_all add: demo_array_def)
qed

theorem compress_contract_witness:
  "cs_Content (Compress (\<lambda>x. x) demo_codec 0 demo_request (Some demo_config)) = ''1error4'' \<and>
   EstimateTokens (cs_Content (Compress (\<lambda>x. x) demo_codec 0 demo_request (Some demo_config))) < EstimateTokens demo_array"
proof -
  have s: "compressByStrategy (\<lambda>x. x) demo_codec demo_request demo_config = (''1error4'', ''json_array'', False, [])"
    by code_simp
  have d: "cz_Enabled demo_config" "cz_Mode demo_config = ''optimize''" "cz_MinTokens demo_config = 1"
    "SourceTypeAllowed demo_config (cq_SourceType demo_request)" "cq_Content demo_request = demo_array"
    by (simp_all add: demo_config_def defaultConfig_def demo_request_def SourceTypeAllowed_def)
  have c: "cs_Content (Compress (\<lambda>x. x) demo_codec 0 demo_request (Some demo_config)) = ''1error4''"
    using demo_estimates d by (simp add: Compress_def Let_def s)
  have ne: "''1error4'' \<noteq> demo_array" by (simp add: demo_array_def)
  show ?thesis
    using compress_contract [of "\<lambda>x. x" demo_codec 0 demo_request demo_config] ne
    unfolding Let_def c d(5) by blast
qed

end
