(* ===== verification/Rag_Tokens.thy ===== *)
theory Rag_Tokens
  imports Go_Format
begin

text \<open>
  The tokenizer of internal/ai/rag/bm25.go, shared by the index of documents and by the long-term memory:
  words of two or more letters, digits and \<open>_-./:\<close> that are no stop words, every CJK character, and every
  pair of adjacent CJK characters. \<open>lower\<close> is \<open>strings.ToLower\<close>.
\<close>

definition RetrievalStopwords :: "string list" where
  "RetrievalStopwords =
     [''a'', ''an'', ''and'', ''are'', ''as'', ''at'', ''be'', ''by'',
      ''for'', ''from'', ''in'', ''into'', ''is'', ''of'', ''on'', ''or'',
      ''the'', ''to'', ''with'', ''without'', ''service'', ''instance'', ''type'']"

definition IsCJK :: "string \<Rightarrow> bool" where
  "IsCJK r \<longleftrightarrow> (0x4e00 \<le> rune_value r \<and> rune_value r \<le> 0x9fff) \<or> (0x3400 \<le> rune_value r \<and> rune_value r \<le> 0x4dbf)"

definition word_rune :: "string \<Rightarrow> bool" where
  "word_rune r \<longleftrightarrow>
     (let v = rune_value r
      in (0x61 \<le> v \<and> v \<le> 0x7A) \<or> (0x30 \<le> v \<and> v \<le> 0x39) \<or> r \<in> {''_'', ''-'', ''.'', ''/'', '':''})"

text \<open>The closure \<open>flush\<close>: the token it appends, if any.\<close>

definition flush :: "string \<Rightarrow> string list" where
  "flush buf = (if length buf < 2 then [] else if buf \<in> set RetrievalStopwords then [] else [buf])"

text \<open>The loop over the runes, \<open>buf\<close> the word so far and \<open>prevCJK\<close> the CJK character before (empty for
  \<open>0\<close>), which a flush that appends a token resets.\<close>

fun bm25_loop :: "string \<Rightarrow> string \<Rightarrow> string list \<Rightarrow> string list" where
  "bm25_loop buf prevCJK [] = flush buf"
| "bm25_loop buf prevCJK (r # rs) =
     (if IsCJK r
      then (let prev = (if flush buf = [] then prevCJK else [])
            in flush buf @ [r] @ (if prev \<noteq> [] then [prev @ r] else []) @ bm25_loop [] r rs)
      else if word_rune r then bm25_loop (buf @ r) [] rs
      else flush buf @ bm25_loop [] [] rs)"

definition BM25Tokenize :: "(string \<Rightarrow> string) \<Rightarrow> string \<Rightarrow> string list" where
  "BM25Tokenize lower text1 = bm25_loop [] [] (runes (lower text1))"

lemma flush_ne: "t \<in> set (flush buf) \<Longrightarrow> t \<noteq> [] \<and> t \<notin> set RetrievalStopwords"
  by (auto simp: flush_def split: if_splits)

lemma rune_value_Nil: "IsCJK r \<Longrightarrow> r \<noteq> []"
  by (cases r) (auto simp: IsCJK_def)

text \<open>No token is empty.\<close>

lemma bm25_loop_ne: "t \<in> set (bm25_loop buf prev rs) \<Longrightarrow> t \<noteq> []"
  by (induction buf prev rs rule: bm25_loop.induct)
    (auto dest: flush_ne rune_value_Nil simp: Let_def split: if_splits)

end
