(* ===== verification/Mem_Types.thy ===== *)
theory Mem_Types
  imports Go_Strings Go_Time Rag_Tokens
begin

text \<open>
  The data of the long-term memory (internal/ai/memory/long_term.go, memory_types.go) and the pure helpers of
  long_term_helpers.go. \<open>MemoryType\<close>, \<open>MemoryScope\<close> and \<open>MemoryActionOp\<close> are strings with named constants, as
  in the code, since they are also read from JSON. \<open>hash8\<close> is the hexadecimal form of the first eight bytes
  of a text's SHA-256 and \<open>now\<close> the clock: one reading per operation.
\<close>

abbreviation MemoryTypeFact :: string where "MemoryTypeFact \<equiv> ''fact''"
abbreviation MemoryTypePreference :: string where "MemoryTypePreference \<equiv> ''preference''"
abbreviation MemoryTypeProcedure :: string where "MemoryTypeProcedure \<equiv> ''procedure''"
abbreviation MemoryTypeEpisode :: string where "MemoryTypeEpisode \<equiv> ''episode''"

abbreviation MemoryScopeSession :: string where "MemoryScopeSession \<equiv> ''session''"
abbreviation MemoryScopeUser :: string where "MemoryScopeUser \<equiv> ''user''"
abbreviation MemoryScopeProject :: string where "MemoryScopeProject \<equiv> ''project''"
abbreviation MemoryScopeGlobal :: string where "MemoryScopeGlobal \<equiv> ''global''"

record memory_entry =
  me_ID :: string
  me_SessionID :: string
  me_Type :: string
  me_Content :: string
  me_Source :: string
  me_Scope :: string
  me_ScopeID :: string
  me_Confidence :: f64
  me_SafetyLabel :: string
  me_Provenance :: string
  me_ConflictGroup :: string
  me_ExpiresAt :: int
  me_Relevance :: f64
  me_AccessCnt :: int
  me_CreatedAt :: gotime
  me_UpdatedAt :: gotime
  me_LastUsed :: gotime

record store_options =
  so_Scope :: string
  so_ScopeID :: string
  so_Confidence :: f64
  so_SafetyLabel :: string
  so_Provenance :: string
  so_ConflictGroup :: string
  so_ExpiresAt :: int

record scope_ref =
  sr_Scope :: string
  sr_ScopeID :: string

record retrieve_policy =
  rp_IncludeExpired :: bool
  rp_ReadOnly :: bool
  rp_ScopeRefs :: "scope_ref list"

record pending_changes =
  pc_upserts :: "memory_entry list"
  pc_deletes :: "string list"

definition generateMemoryID :: "(string \<Rightarrow> string) \<Rightarrow> string \<Rightarrow> string \<Rightarrow> string \<Rightarrow> string" where
  "generateMemoryID hash8 scope scopeID content = hash8 (scope @ '':'' @ scopeID @ '':'' @ content)"

definition computeRelevance :: "gotime \<Rightarrow> memory_entry \<Rightarrow> f64" where
  "computeRelevance now entry =
     (let hoursSinceUse = duration_hours (time_sub now (me_LastUsed entry));
          decay = fdiv 1 (fadd 1 (fdiv hoursSinceUse 24));
          frequency = fadd 1 (fmul (f64_of_int (me_AccessCnt entry - 1)) (rnd (3 / 10)))
      in fmul decay (if frequency > 3 then 3 else frequency))"

definition defaultMemoryConfidence :: "string \<Rightarrow> f64" where
  "defaultMemoryConfidence memType =
     (if memType = MemoryTypePreference then rnd (85 / 100)
      else if memType = MemoryTypeProcedure then rnd (75 / 100)
      else if memType = MemoryTypeFact then rnd (70 / 100)
      else if memType = MemoryTypeEpisode then rnd (50 / 100)
      else rnd (50 / 100))"

definition normalizeMemoryStoreOptions :: "string \<Rightarrow> string \<Rightarrow> string \<Rightarrow> store_options \<Rightarrow> store_options" where
  "normalizeMemoryStoreOptions sessionID memType source opts =
     (let scope = (if so_Scope opts = [] then MemoryScopeSession else so_Scope opts);
          scopeID = (if trim_space (so_ScopeID opts) = []
                     then (if scope = MemoryScopeGlobal then ''global'' else sessionID)
                     else so_ScopeID opts);
          confidence = (if so_Confidence opts \<le> 0 then defaultMemoryConfidence memType else so_Confidence opts)
      in \<lparr>so_Scope = scope, so_ScopeID = scopeID,
          so_Confidence = (if confidence > 1 then 1 else confidence),
          so_SafetyLabel = (if so_SafetyLabel opts = [] then ''internal'' else so_SafetyLabel opts),
          so_Provenance = (if so_Provenance opts = [] then source else so_Provenance opts),
          so_ConflictGroup = trim_space (so_ConflictGroup opts),
          so_ExpiresAt = so_ExpiresAt opts\<rparr>)"

definition cloneMemoryEntry :: "memory_entry \<Rightarrow> f64 \<Rightarrow> memory_entry" where
  "cloneMemoryEntry entry relevance =
     (let scope = (if me_Scope entry = [] then MemoryScopeSession else me_Scope entry);
          scopeID = trim_space (me_ScopeID entry)
      in entry\<lparr>me_Scope := scope,
               me_Confidence := (if me_Confidence entry \<le> 0 then defaultMemoryConfidence (me_Type entry)
                                 else me_Confidence entry),
               me_SafetyLabel := (if me_SafetyLabel entry = [] then ''internal'' else me_SafetyLabel entry),
               me_Provenance := (if me_Provenance entry = [] then me_Source entry else me_Provenance entry),
               me_ScopeID := (if scopeID = []
                              then (if scope = MemoryScopeGlobal then ''global'' else me_SessionID entry)
                              else scopeID),
               me_Relevance := relevance\<rparr>)"

definition memoryExpired :: "gotime \<Rightarrow> memory_entry \<Rightarrow> bool" where
  "memoryExpired now entry \<longleftrightarrow> me_ExpiresAt entry > 0 \<and> me_ExpiresAt entry \<le> unix_milli now"

text \<open>The sets of tokens are Go maps, written as lists without repetitions.\<close>

definition tokenOverlap :: "string list \<Rightarrow> string list \<Rightarrow> f64" where
  "tokenOverlap a b =
     (if a = [] \<or> b = [] then 0
      else (let (smaller, larger) = (if length a > length b then (b, a) else (a, b));
                intersection = count_if (\<lambda>t. t \<in> set larger) smaller;
                union = int (length a) + int (length b) - intersection
            in if union = 0 then 0 else fdiv (f64_of_int intersection) (f64_of_int union)))"

text \<open>The scope an entry is filed under, and the one a reference asks for.\<close>

definition entryScope :: "memory_entry \<Rightarrow> string" where
  "entryScope entry = (if me_Scope entry = [] then MemoryScopeSession else me_Scope entry)"

definition entryScopeID :: "memory_entry \<Rightarrow> string" where
  "entryScopeID entry =
     (if trim_space (me_ScopeID entry) = []
      then (if entryScope entry = MemoryScopeGlobal then ''global'' else me_SessionID entry)
      else trim_space (me_ScopeID entry))"

fun memoryInScope :: "memory_entry \<Rightarrow> scope_ref list \<Rightarrow> bool" where
  "memoryInScope entry [] = False"
| "memoryInScope entry (ref # refs) =
     (let scope = (if sr_Scope ref = [] then MemoryScopeSession else sr_Scope ref);
          scopeID = trim_space (sr_ScopeID ref)
      in if scopeID = [] \<and> scope \<noteq> MemoryScopeGlobal then memoryInScope entry refs
         else if entryScope entry = scope \<and> entryScopeID entry = (if scopeID = [] then ''global'' else scopeID)
         then True
         else memoryInScope entry refs)"

definition containsString :: "string list \<Rightarrow> string \<Rightarrow> bool" where
  "containsString items target \<longleftrightarrow> target \<in> set items"

subsection \<open>Facts\<close>

lemma clone_simps [simp]:
  "me_ID (cloneMemoryEntry e r) = me_ID e"
  "me_SessionID (cloneMemoryEntry e r) = me_SessionID e"
  "me_Type (cloneMemoryEntry e r) = me_Type e"
  "me_Content (cloneMemoryEntry e r) = me_Content e"
  "me_ExpiresAt (cloneMemoryEntry e r) = me_ExpiresAt e"
  "me_Relevance (cloneMemoryEntry e r) = r"
  "me_LastUsed (cloneMemoryEntry e r) = me_LastUsed e"
  "me_UpdatedAt (cloneMemoryEntry e r) = me_UpdatedAt e"
  "me_AccessCnt (cloneMemoryEntry e r) = me_AccessCnt e"
  "me_ConflictGroup (cloneMemoryEntry e r) = me_ConflictGroup e"
  by (simp_all add: cloneMemoryEntry_def Let_def)

lemma expired_clone [simp]: "memoryExpired now (cloneMemoryEntry e r) = memoryExpired now e"
  by (simp add: memoryExpired_def)

lemma entryScope_clone [simp]: "entryScope (cloneMemoryEntry e r) = entryScope e"
  by (simp add: entryScope_def cloneMemoryEntry_def Let_def)

lemma clone_relevance [simp]: "(cloneMemoryEntry e r)\<lparr>me_Relevance := r'\<rparr> = cloneMemoryEntry e r'"
  by (simp add: cloneMemoryEntry_def Let_def)

lemma clone_of_relevance [simp]: "cloneMemoryEntry (e\<lparr>me_Relevance := x\<rparr>) r = cloneMemoryEntry e r"
  by (simp add: cloneMemoryEntry_def Let_def)

lemma clone_scope_ID [simp]: "me_Scope (cloneMemoryEntry e r) = entryScope e" "me_ScopeID (cloneMemoryEntry e r) = entryScopeID e"
  by (simp_all add: cloneMemoryEntry_def Let_def entryScope_def entryScopeID_def)

end
