(* ===== verification/Mem_LongTerm.thy ===== *)
theory Mem_LongTerm
  imports Mem_Types Go_Sort "HOL-Library.While_Combinator"
begin

text \<open>
  The long-term memory: internal/ai/memory/long_term.go and long_term_eviction.go.

  The state is the map of entries by identifier and, per session, the list of the identifiers stored for it.
  Every operation holds the lock for its whole body, so it is one step of the state; what it hands to the
  persistent store is part of its result (pending\_changes). The two eviction loops run while a limit is
  exceeded and are \<open>while_option\<close>: \<open>None\<close> would be a loop that never ends.
\<close>

record long_term =
  lt_entries :: "(string, memory_entry) gomap"
  lt_index :: "(string, string list) gomap"

definition noChanges :: pending_changes where
  "noChanges = \<lparr>pc_upserts = [], pc_deletes = []\<rparr>"

definition loadLongTermMaxEntries :: "int option \<Rightarrow> int" where
  "loadLongTermMaxEntries v = (case v of Some n \<Rightarrow> if n > 0 then n else 1000 | None \<Rightarrow> 1000)"

definition loadLongTermMaxEntriesPerSession :: "int option \<Rightarrow> int" where
  "loadLongTermMaxEntriesPerSession v = (case v of Some n \<Rightarrow> if n > 0 then n else 100 | None \<Rightarrow> 100)"

text \<open>\<open>ltm.index[sessionID]\<close>, nil when the session has none.\<close>

definition sessionIDs :: "(string, string list) gomap \<Rightarrow> string \<Rightarrow> string list" where
  "sessionIDs index sessionID = (case gm_get index sessionID of None \<Rightarrow> [] | Some ids \<Rightarrow> ids)"

subsection \<open>Removing and evicting\<close>

definition removeEntryLocked :: "string \<Rightarrow> long_term \<Rightarrow> long_term" where
  "removeEntryLocked eid ltm =
     (case gm_get (lt_entries ltm) eid of
        None \<Rightarrow> ltm
      | Some entry \<Rightarrow>
          (let s = me_SessionID entry;
               ids = sessionIDs (lt_index ltm) s;
               index1 = (if eid \<in> set ids then gm_put s (remove1 eid ids) (lt_index ltm) else lt_index ltm);
               index2 = (if sessionIDs index1 s = [] then gm_del s index1 else index1)
           in \<lparr>lt_entries = gm_del eid (lt_entries ltm), lt_index = index2\<rparr>))"

text \<open>The comparison of \<open>evictOneLocked\<close>; an identifier with no entry reads as nil.\<close>

definition evictLess :: "gotime \<Rightarrow> (string, memory_entry) gomap \<Rightarrow> string \<Rightarrow> string \<Rightarrow> bool" where
  "evictLess now entries i j =
     (case gm_get entries i of
        None \<Rightarrow> False
      | Some left \<Rightarrow>
          (case gm_get entries j of
             None \<Rightarrow> True
           | Some right \<Rightarrow>
               (let leftScore = computeRelevance now left;
                    rightScore = computeRelevance now right
                in if leftScore = rightScore then me_LastUsed left < me_LastUsed right
                   else leftScore < rightScore)))"

definition evictOneLocked :: "gotime \<Rightarrow> string list \<Rightarrow> long_term \<Rightarrow> string \<times> long_term" where
  "evictOneLocked now candidateIDs ltm =
     (if candidateIDs = [] then ([], ltm)
      else (let evictedID = hd (sort_slice (evictLess now (lt_entries ltm)) candidateIDs)
            in (evictedID, removeEntryLocked evictedID ltm)))"

text \<open>\<open>sort.Slice\<close> on \<open>ltm.index[sessionID]\<close> orders the slice the index holds.\<close>

definition sortIndexed :: "gotime \<Rightarrow> string \<Rightarrow> long_term \<Rightarrow> long_term" where
  "sortIndexed now sessionID ltm =
     ltm\<lparr>lt_index := gm_put sessionID (sort_slice (evictLess now (lt_entries ltm)) (sessionIDs (lt_index ltm) sessionID))
                            (lt_index ltm)\<rparr>"

definition appendID :: "string list \<Rightarrow> string \<Rightarrow> string list" where
  "appendID evicted eid = (if eid \<noteq> [] then evicted @ [eid] else evicted)"

definition evictFromSession :: "gotime \<Rightarrow> string \<Rightarrow> string list \<times> long_term \<Rightarrow> string list \<times> long_term" where
  "evictFromSession now sessionID = (\<lambda>(evicted, ltm).
     let (eid, ltm') = evictOneLocked now (sessionIDs (lt_index ltm) sessionID) (sortIndexed now sessionID ltm)
     in (appendID evicted eid, ltm'))"

definition evictFromAll :: "gotime \<Rightarrow> string list \<times> long_term \<Rightarrow> string list \<times> long_term" where
  "evictFromAll now = (\<lambda>(evicted, ltm).
     let (eid, ltm') = evictOneLocked now (map fst (lt_entries ltm)) ltm
     in (appendID evicted eid, ltm'))"

record memory_limits =
  ml_MaxEntries :: int
  ml_MaxPerSession :: int

definition sessionFull :: "memory_limits \<Rightarrow> string \<Rightarrow> string list \<times> long_term \<Rightarrow> bool" where
  "sessionFull limits sessionID = (\<lambda>(evicted, ltm).
     ml_MaxPerSession limits > 0 \<and> int (length (sessionIDs (lt_index ltm) sessionID)) \<ge> ml_MaxPerSession limits)"

definition memoryFull :: "memory_limits \<Rightarrow> string list \<times> long_term \<Rightarrow> bool" where
  "memoryFull limits = (\<lambda>(evicted, ltm).
     ml_MaxEntries limits > 0 \<and> int (length (lt_entries ltm)) \<ge> ml_MaxEntries limits)"

definition evictIfNeededLocked :: "memory_limits \<Rightarrow> gotime \<Rightarrow> string \<Rightarrow> long_term \<Rightarrow> (string list \<times> long_term) option" where
  "evictIfNeededLocked limits now sessionID ltm =
     (case while_option (sessionFull limits sessionID) (evictFromSession now sessionID) ([], ltm) of
        None \<Rightarrow> None
      | Some st \<Rightarrow> while_option (memoryFull limits) (evictFromAll now) st)"

subsection \<open>Storing\<close>

definition retires :: "string \<Rightarrow> string \<Rightarrow> store_options \<Rightarrow> string \<Rightarrow> memory_entry \<Rightarrow> bool" where
  "retires eid memType opts existingID entry \<longleftrightarrow>
     existingID \<noteq> eid \<and> me_Type entry = memType \<and> me_ConflictGroup entry = so_ConflictGroup opts \<and>
     me_Scope entry = so_Scope opts \<and> me_ScopeID entry = so_ScopeID opts"

definition retired :: "gotime \<Rightarrow> memory_entry \<Rightarrow> memory_entry" where
  "retired now entry =
     entry\<lparr>me_SafetyLabel := ''superseded'', me_ExpiresAt := unix_milli now,
           me_Confidence := fmul (me_Confidence entry) (1 / 2), me_UpdatedAt := now\<rparr>"

definition retireConflictingMemoriesLocked ::
  "gotime \<Rightarrow> string \<Rightarrow> string \<Rightarrow> store_options \<Rightarrow> (string, memory_entry) gomap \<Rightarrow>
     (string, memory_entry) gomap \<times> memory_entry list" where
  "retireConflictingMemoriesLocked now eid memType opts entries =
     (if so_ConflictGroup opts = [] then (entries, [])
      else (gm_map (\<lambda>k e. if retires eid memType opts k e then retired now e else e) entries,
            map (\<lambda>(k, e). cloneMemoryEntry (retired now e) (me_Relevance e))
              (filter (\<lambda>(k, e). retires eid memType opts k e) entries)))"

definition reinforced :: "gotime \<Rightarrow> store_options \<Rightarrow> memory_entry \<Rightarrow> memory_entry" where
  "reinforced now opts existing =
     (let e = existing\<lparr>me_AccessCnt := me_AccessCnt existing + 1, me_UpdatedAt := now, me_LastUsed := now,
                me_Scope := so_Scope opts, me_ScopeID := so_ScopeID opts,
                me_Confidence := (if so_Confidence opts > me_Confidence existing then so_Confidence opts
                                  else me_Confidence existing),
                me_SafetyLabel := so_SafetyLabel opts, me_Provenance := so_Provenance opts,
                me_ConflictGroup := so_ConflictGroup opts,
                me_ExpiresAt := (if so_ExpiresAt opts > 0 then so_ExpiresAt opts else me_ExpiresAt existing)\<rparr>
      in e\<lparr>me_Relevance := computeRelevance now e\<rparr>)"

definition newEntry :: "gotime \<Rightarrow> string \<Rightarrow> string \<Rightarrow> string \<Rightarrow> string \<Rightarrow> string \<Rightarrow> store_options \<Rightarrow> memory_entry" where
  "newEntry now eid sessionID memType content source opts =
     \<lparr>me_ID = eid, me_SessionID = sessionID, me_Type = memType, me_Content = content, me_Source = source,
      me_Scope = so_Scope opts, me_ScopeID = so_ScopeID opts, me_Confidence = so_Confidence opts,
      me_SafetyLabel = so_SafetyLabel opts, me_Provenance = so_Provenance opts,
      me_ConflictGroup = so_ConflictGroup opts, me_ExpiresAt = so_ExpiresAt opts, me_Relevance = 1,
      me_AccessCnt = 1, me_CreatedAt = now, me_UpdatedAt = now, me_LastUsed = now\<rparr>"

text \<open>What the environment supplies: the limits, the hash and \<open>strings.ToLower\<close>.\<close>

record memory_env =
  mv_limits :: memory_limits
  mv_hash8 :: "string \<Rightarrow> string"
  mv_lower :: "string \<Rightarrow> string"

definition StoreWithOptions ::
  "memory_env \<Rightarrow> gotime \<Rightarrow> string \<Rightarrow> string \<Rightarrow> string \<Rightarrow> string \<Rightarrow> store_options \<Rightarrow> long_term \<Rightarrow>
     (string \<times> pending_changes \<times> long_term) option" where
  "StoreWithOptions env now sessionID memType content source opts0 ltm =
     (let opts = normalizeMemoryStoreOptions sessionID memType source opts0;
          eid = generateMemoryID (mv_hash8 env) (so_Scope opts) (so_ScopeID opts) content
      in case gm_get (lt_entries ltm) eid of
           Some existing \<Rightarrow>
             (let e = reinforced now opts existing;
                  (entries, rs) = retireConflictingMemoriesLocked now eid memType opts (gm_put eid e (lt_entries ltm))
              in Some (eid, \<lparr>pc_upserts = cloneMemoryEntry e (me_Relevance e) # rs, pc_deletes = []\<rparr>,
                       ltm\<lparr>lt_entries := entries\<rparr>))
         | None \<Rightarrow>
             (case evictIfNeededLocked (mv_limits env) now sessionID ltm of
                None \<Rightarrow> None
              | Some (evicted, ltm1) \<Rightarrow>
                  (let (entries, rs) = retireConflictingMemoriesLocked now eid memType opts (lt_entries ltm1);
                       entry = newEntry now eid sessionID memType content source opts
                   in Some (eid, \<lparr>pc_upserts = cloneMemoryEntry entry (me_Relevance entry) # rs, pc_deletes = evicted\<rparr>,
                            \<lparr>lt_entries = gm_put eid entry entries,
                             lt_index = gm_put sessionID (sessionIDs (lt_index ltm1) sessionID @ [eid]) (lt_index ltm1)\<rparr>))))"

definition emptyOptions :: store_options where
  "emptyOptions = \<lparr>so_Scope = [], so_ScopeID = [], so_Confidence = 0, so_SafetyLabel = [], so_Provenance = [],
     so_ConflictGroup = [], so_ExpiresAt = 0\<rparr>"

definition Store ::
  "memory_env \<Rightarrow> gotime \<Rightarrow> string \<Rightarrow> string \<Rightarrow> string \<Rightarrow> string \<Rightarrow> long_term \<Rightarrow>
     (string \<times> pending_changes \<times> long_term) option" where
  "Store env now sessionID memType content source ltm =
     StoreWithOptions env now sessionID memType content source emptyOptions ltm"

subsection \<open>Retrieving\<close>

definition tokenSet :: "memory_env \<Rightarrow> string \<Rightarrow> string list" where
  "tokenSet env content = remdups (BM25Tokenize (mv_lower env) content)"

definition retrievalScore :: "memory_env \<Rightarrow> gotime \<Rightarrow> string list \<Rightarrow> memory_entry \<Rightarrow> f64" where
  "retrievalScore env now queryTokens entry =
     (let relevance = computeRelevance now entry
      in if queryTokens = [] then relevance
         else (let contentSet = tokenSet env (me_Content entry);
                   matchCount = count_if (\<lambda>qt. qt \<in> set contentSet) queryTokens
               in fadd relevance (fmul (fdiv (f64_of_int matchCount) (f64_of_int (int (length queryTokens)))) 2)))"

record scored_memory =
  sm_id :: string
  sm_entry :: memory_entry
  sm_score :: f64

definition retrievable :: "gotime \<Rightarrow> retrieve_policy \<Rightarrow> memory_entry \<Rightarrow> bool" where
  "retrievable now policy entry \<longleftrightarrow>
     \<not> (rp_ScopeRefs policy \<noteq> [] \<and> \<not> memoryInScope entry (rp_ScopeRefs policy)) \<and>
     \<not> (\<not> rp_IncludeExpired policy \<and> memoryExpired now entry) \<and>
     \<not> computeRelevance now entry < rnd (1 / 10)"

definition retrievalCandidates :: "memory_env \<Rightarrow> gotime \<Rightarrow> string \<Rightarrow> retrieve_policy \<Rightarrow> long_term \<Rightarrow> scored_memory list" where
  "retrievalCandidates env now query policy ltm =
     (let queryTokens = BM25Tokenize (mv_lower env) query
      in map (\<lambda>(k, e). \<lparr>sm_id = k, sm_entry = cloneMemoryEntry e (computeRelevance now e),
                        sm_score = retrievalScore env now queryTokens e\<rparr>)
           (filter (\<lambda>(k, e). retrievable now policy e) (lt_entries ltm)))"

text \<open>The loop over the sorted candidates; one whose tokens overlap those of a candidate already taken is
  passed over.\<close>

fun selectCandidates :: "memory_env \<Rightarrow> int \<Rightarrow> string list list \<Rightarrow> scored_memory list \<Rightarrow> scored_memory list" where
  "selectCandidates env limit sets [] = []"
| "selectCandidates env limit sets (cand # cs) =
     (if int (length sets) \<ge> limit then []
      else (let candSet = tokenSet env (me_Content (sm_entry cand))
            in if list_ex (\<lambda>existing. tokenOverlap candSet existing > rnd (8 / 10)) sets
               then selectCandidates env limit sets cs
               else cand # selectCandidates env limit (sets @ [candSet]) cs))"

definition used :: "gotime \<Rightarrow> memory_entry \<Rightarrow> memory_entry" where
  "used now entry = entry\<lparr>me_AccessCnt := me_AccessCnt entry + 1, me_LastUsed := now\<rparr>"

definition touched :: "gotime \<Rightarrow> memory_entry \<Rightarrow> memory_entry" where
  "touched now entry = (let e = used now entry in e\<lparr>me_Relevance := computeRelevance now e\<rparr>)"

definition touchEntry :: "gotime \<Rightarrow> string \<Rightarrow> (string, memory_entry) gomap \<Rightarrow> (string, memory_entry) gomap" where
  "touchEntry now eid entries =
     (case gm_get entries eid of None \<Rightarrow> entries | Some orig \<Rightarrow> gm_put eid (touched now orig) entries)"

definition upsertsOf :: "(string, memory_entry) gomap \<Rightarrow> memory_entry list \<Rightarrow> memory_entry list" where
  "upsertsOf entries result =
     concat (map (\<lambda>e. case gm_get entries (me_ID e) of
                        None \<Rightarrow> [] | Some orig \<Rightarrow> [cloneMemoryEntry orig (me_Relevance orig)]) result)"

definition RetrieveScoped ::
  "memory_env \<Rightarrow> gotime \<Rightarrow> string \<Rightarrow> int \<Rightarrow> retrieve_policy \<Rightarrow> long_term \<Rightarrow>
     memory_entry list \<times> pending_changes \<times> long_term" where
  "RetrieveScoped env now query limit policy ltm =
     (if lt_entries ltm = [] then ([], noChanges, ltm)
      else (let candidates = sort_slice (\<lambda>a b. sm_score a > sm_score b) (retrievalCandidates env now query policy ltm);
                picked = selectCandidates env limit [] candidates;
                result = map (\<lambda>c. used now (sm_entry c)) picked;
                entries = (if rp_ReadOnly policy then lt_entries ltm
                           else fold (touchEntry now) (map sm_id picked) (lt_entries ltm));
                upserts = (if rp_ReadOnly policy then [] else upsertsOf entries result)
            in (result, \<lparr>pc_upserts = upserts, pc_deletes = []\<rparr>, ltm\<lparr>lt_entries := entries\<rparr>)))"

definition RetrieveWithPolicy ::
  "memory_env \<Rightarrow> gotime \<Rightarrow> string \<Rightarrow> string \<Rightarrow> int \<Rightarrow> retrieve_policy \<Rightarrow> long_term \<Rightarrow>
     memory_entry list \<times> pending_changes \<times> long_term" where
  "RetrieveWithPolicy env now sessionID query limit policy ltm =
     RetrieveScoped env now query limit
       (if rp_ScopeRefs policy = []
        then policy\<lparr>rp_ScopeRefs := [\<lparr>sr_Scope = MemoryScopeSession, sr_ScopeID = sessionID\<rparr>]\<rparr> else policy) ltm"

definition Retrieve ::
  "memory_env \<Rightarrow> gotime \<Rightarrow> string \<Rightarrow> string \<Rightarrow> int \<Rightarrow> long_term \<Rightarrow>
     memory_entry list \<times> pending_changes \<times> long_term" where
  "Retrieve env now sessionID query limit ltm =
     RetrieveWithPolicy env now sessionID query limit
       \<lparr>rp_IncludeExpired = False, rp_ReadOnly = False, rp_ScopeRefs = []\<rparr> ltm"

subsection \<open>Forgetting, reading and changing entries\<close>

definition Forget :: "gotime \<Rightarrow> f64 \<Rightarrow> long_term \<Rightarrow> int \<times> pending_changes \<times> long_term" where
  "Forget now threshold ltm =
     (let entries = gm_map (\<lambda>k e. e\<lparr>me_Relevance := computeRelevance now e\<rparr>) (lt_entries ltm);
          toRemove = map fst (filter (\<lambda>(k, e). me_Relevance e < threshold) entries)
      in (int (length toRemove), \<lparr>pc_upserts = [], pc_deletes = toRemove\<rparr>,
          fold removeEntryLocked toRemove (ltm\<lparr>lt_entries := entries\<rparr>)))"

definition Count :: "long_term \<Rightarrow> int" where
  "Count ltm = int (length (lt_entries ltm))"

definition CountBySession :: "string \<Rightarrow> long_term \<Rightarrow> int" where
  "CountBySession sessionID ltm = int (length (sessionIDs (lt_index ltm) sessionID))"

definition GetAllBySession :: "gotime \<Rightarrow> string \<Rightarrow> long_term \<Rightarrow> memory_entry list" where
  "GetAllBySession now sessionID ltm =
     concat (map (\<lambda>eid. case gm_get (lt_entries ltm) eid of
                          None \<Rightarrow> [] | Some e \<Rightarrow> [cloneMemoryEntry e (computeRelevance now e)])
               (sessionIDs (lt_index ltm) sessionID))"

definition Get :: "gotime \<Rightarrow> string \<Rightarrow> long_term \<Rightarrow> memory_entry option" where
  "Get now eid ltm =
     map_option (\<lambda>e. cloneMemoryEntry e (computeRelevance now e)) (gm_get (lt_entries ltm) (trim_space eid))"

definition List :: "gotime \<Rightarrow> scope_ref list \<Rightarrow> bool \<Rightarrow> long_term \<Rightarrow> memory_entry list" where
  "List now scopeRefs includeExpired ltm =
     sort_slice (\<lambda>a b. me_UpdatedAt a > me_UpdatedAt b)
       (map (\<lambda>(k, e). cloneMemoryEntry e (computeRelevance now e))
          (filter (\<lambda>(k, e). \<not> (scopeRefs \<noteq> [] \<and> \<not> memoryInScope e scopeRefs) \<and>
                             \<not> (\<not> includeExpired \<and> memoryExpired now e)) (lt_entries ltm)))"

definition Delete :: "string \<Rightarrow> long_term \<Rightarrow> bool \<times> pending_changes \<times> long_term" where
  "Delete eid ltm =
     (case gm_get (lt_entries ltm) eid of
        None \<Rightarrow> (False, noChanges, ltm)
      | Some entry \<Rightarrow> (True, \<lparr>pc_upserts = [], pc_deletes = [eid]\<rparr>, removeEntryLocked eid ltm))"

text \<open>An entry is changed in place and a copy of it handed to the store.\<close>

definition writeEntry :: "string \<Rightarrow> memory_entry \<Rightarrow> long_term \<Rightarrow> bool \<times> pending_changes \<times> long_term" where
  "writeEntry eid e ltm =
     (True, \<lparr>pc_upserts = [cloneMemoryEntry e (me_Relevance e)], pc_deletes = []\<rparr>,
      ltm\<lparr>lt_entries := gm_put eid e (lt_entries ltm)\<rparr>)"

definition Disable :: "gotime \<Rightarrow> string \<Rightarrow> long_term \<Rightarrow> bool \<times> pending_changes \<times> long_term" where
  "Disable now eid ltm =
     (case gm_get (lt_entries ltm) eid of
        None \<Rightarrow> (False, noChanges, ltm)
      | Some entry \<Rightarrow>
          writeEntry eid
            (entry\<lparr>me_SafetyLabel := ''disabled'', me_ExpiresAt := unix_milli now, me_UpdatedAt := now\<rparr>) ltm)"

definition promoted :: "gotime \<Rightarrow> string \<Rightarrow> string \<Rightarrow> f64 \<Rightarrow> memory_entry \<Rightarrow> memory_entry" where
  "promoted now scope scopeID confidence entry =
     (let scopeID1 = (if trim_space scopeID \<noteq> [] then trim_space scopeID else me_ScopeID entry)
      in entry\<lparr>me_Scope := (if scope \<noteq> [] then scope else me_Scope entry),
               me_ScopeID := (if scopeID1 = [] then me_SessionID entry else scopeID1),
               me_Confidence := (if confidence > 0 then (if confidence > 1 then 1 else confidence)
                                 else me_Confidence entry),
               me_SafetyLabel := ''internal'', me_UpdatedAt := now, me_LastUsed := now\<rparr>)"

definition Promote :: "gotime \<Rightarrow> string \<Rightarrow> string \<Rightarrow> string \<Rightarrow> f64 \<Rightarrow> long_term \<Rightarrow> bool \<times> pending_changes \<times> long_term" where
  "Promote now eid scope scopeID confidence ltm =
     (case gm_get (lt_entries ltm) eid of
        None \<Rightarrow> (False, noChanges, ltm)
      | Some entry \<Rightarrow> writeEntry eid (promoted now scope scopeID confidence entry) ltm)"

definition snapshotLocked :: "long_term \<Rightarrow> memory_entry list" where
  "snapshotLocked ltm =
     sort_slice (\<lambda>a b. lexordp (\<lambda>c d. (of_char c :: nat) < of_char d) (me_ID a) (me_ID b))
       (map (\<lambda>(k, e). cloneMemoryEntry e (me_Relevance e)) (lt_entries ltm))"

subsection \<open>Loading\<close>

definition addLoadedEntryLocked :: "(string \<Rightarrow> string) \<Rightarrow> memory_entry \<Rightarrow> long_term \<Rightarrow> long_term" where
  "addLoadedEntryLocked hash8 entry ltm =
     (let c0 = cloneMemoryEntry entry (me_Relevance entry);
          c1 = (if me_ID c0 = [] then c0\<lparr>me_ID := generateMemoryID hash8 (me_Scope c0) (me_ScopeID c0) (me_Content c0)\<rparr> else c0);
          cloned = (if me_SessionID c1 = [] then c1\<lparr>me_SessionID := me_ScopeID c1\<rparr> else c1);
          s = me_SessionID cloned;
          ids = sessionIDs (lt_index ltm) s
      in \<lparr>lt_entries = gm_put (me_ID cloned) cloned (lt_entries ltm),
          lt_index = (if s \<noteq> [] \<and> \<not> containsString ids (me_ID cloned)
                      then gm_put s (ids @ [me_ID cloned]) (lt_index ltm) else lt_index ltm)\<rparr>)"

text \<open>\<open>NewLongTermMemoryWithStore\<close>: \<open>loaded\<close> is what the store's \<open>LoadAll\<close> answers, \<open>None\<close> for no store or an error.\<close>

definition NewLongTermMemoryWithStore :: "(string \<Rightarrow> string) \<Rightarrow> memory_entry list option \<Rightarrow> long_term" where
  "NewLongTermMemoryWithStore hash8 loaded =
     (case loaded of
        None \<Rightarrow> \<lparr>lt_entries = [], lt_index = []\<rparr>
      | Some entries \<Rightarrow> fold (addLoadedEntryLocked hash8) entries \<lparr>lt_entries = [], lt_index = []\<rparr>)"

end
