(* ===== verification/Mem_Session.thy ===== *)
theory Mem_Session
  imports Go_Format Go_Split Go_Time Prelude
begin

text \<open>
  The short-term memory of conversations: internal/ai/memory/session.go and the wire format of
  session_store.go. A session keeps a window of messages and a summary of those that left it. The map of
  sessions is under one lock; what a session store answers (\<open>loadFromStore\<close>) is an argument, \<open>None\<close> for no store, no
  session or an error. JSON is not modelled: a store gives back the wire value it was given.
\<close>

record chat_message =
  cm_Role :: string
  cm_Content :: string

definition UserMessage :: "string \<Rightarrow> chat_message" where
  "UserMessage content = \<lparr>cm_Role = ''user'', cm_Content = content\<rparr>"

definition AssistantMessage :: "string \<Rightarrow> chat_message" where
  "AssistantMessage content = \<lparr>cm_Role = ''assistant'', cm_Content = content\<rparr>"

record simple_memory =
  ss_ID :: string
  ss_Messages :: "chat_message list"
  ss_Summary :: string
  ss_MaxWindowSize :: int
  ss_turnCount :: int
  ss_createdAt :: gotime

record session_entry =
  se_memory :: simple_memory
  se_lastAccess :: gotime

definition maxSessions :: int where "maxSessions = 500"
definition sessionTTL :: duration where "sessionTTL = 2 * hour"
definition defaultMaxWindowSize :: int where "defaultMaxWindowSize = 20"
definition maxSummaryLen :: int where "maxSummaryLen = 2000"
definition maxSummaryItemLen :: int where "maxSummaryItemLen = 200"

definition t_summary_tag :: string where \<comment> \<open>the tag of a summary of the conversation so far\<close>
  "t_summary_tag =
     ''['' @ [CHR 0xE5, CHR 0xAF, CHR 0xB9, CHR 0xE8, CHR 0xAF, CHR 0x9D, CHR 0xE5, CHR 0x8E, CHR
      0x86, CHR 0xE5, CHR 0x8F, CHR 0xB2, CHR 0xE6, CHR 0x91, CHR 0x98, CHR 0xE8, CHR 0xA6, CHR
      0x81] @ ''] ''"

definition t_summary_ack :: string where \<comment> \<open>the assistant acknowledges the background\<close>
  "t_summary_ack =
     [CHR 0xE5, CHR 0xA5, CHR 0xBD, CHR 0xE7, CHR 0x9A, CHR 0x84, CHR 0xEF, CHR 0xBC, CHR 0x8C, CHR
      0xE6, CHR 0x88, CHR 0x91, CHR 0xE5, CHR 0xB7, CHR 0xB2, CHR 0xE4, CHR 0xBA, CHR 0x86, CHR
      0xE8, CHR 0xA7, CHR 0xA3, CHR 0xE4, CHR 0xB9, CHR 0x8B, CHR 0xE5, CHR 0x89, CHR 0x8D, CHR
      0xE7, CHR 0x9A, CHR 0x84, CHR 0xE5, CHR 0xAF, CHR 0xB9, CHR 0xE8, CHR 0xAF, CHR 0x9D, CHR
      0xE8, CHR 0x83, CHR 0x8C, CHR 0xE6, CHR 0x99, CHR 0xAF, CHR 0xEF, CHR 0xBC, CHR 0x8C, CHR
      0xE8, CHR 0xAF, CHR 0xB7, CHR 0xE7, CHR 0xBB, CHR 0xA7, CHR 0xE7, CHR 0xBB, CHR 0xAD, CHR
      0xE3, CHR 0x80, CHR 0x82]"

definition t_summary_gap :: string where \<comment> \<open>the mark of the omitted middle of a summary\<close>
  "t_summary_gap =
     [CHR 0x0A] @ ''[...'' @ [CHR 0xE7, CHR 0x9C, CHR 0x81, CHR 0xE7, CHR 0x95, CHR 0xA5] @ ''...]''
      @ [CHR 0x0A]"

subsection \<open>Identifiers\<close>

definition sessionRune :: "string \<Rightarrow> bool" where
  "sessionRune r \<longleftrightarrow>
     (let v = rune_value r
      in (0x61 \<le> v \<and> v \<le> 0x7A) \<or> (0x41 \<le> v \<and> v \<le> 0x5A) \<or> (0x30 \<le> v \<and> v \<le> 0x39) \<or> r = ''-'' \<or> r = ''_'')"

definition ValidateSessionID :: "string \<Rightarrow> string option" where
  "ValidateSessionID sid =
     (if sid = [] then Some ''session ID cannot be empty''
      else if length sid > 128 then Some ''session ID too long (max 128)''
      else (case filter (\<lambda>r. \<not> sessionRune r) (runes sid) of
              [] \<Rightarrow> None
            | r # rs \<Rightarrow> Some (''session ID contains invalid character: '' @ r)))"

definition loadWindowSize :: "int option \<Rightarrow> int" where
  "loadWindowSize v = (case v of Some n \<Rightarrow> if n > 0 then n else defaultMaxWindowSize | None \<Rightarrow> defaultMaxWindowSize)"

subsection \<open>The window and the summary\<close>

definition summaryItem :: "chat_message \<Rightarrow> string" where
  "summaryItem m =
     ''['' @ cm_Role m @ ''] '' @
     (if int (length (cm_Content m)) > maxSummaryItemLen then take (nat maxSummaryItemLen) (cm_Content m) @ ''...''
      else cm_Content m)"

definition summarizeMessages :: "chat_message list \<Rightarrow> string" where
  "summarizeMessages msgs =
     (let parts = map summaryItem (filter (\<lambda>m. cm_Content m \<noteq> []) msgs)
      in if parts = [] then [] else join ''; '' parts)"

definition truncateSummary :: "string \<Rightarrow> int \<Rightarrow> string" where
  "truncateSummary summary maxLen =
     (let rs = runes summary;
          headLen = f64_to_int (fmul (f64_of_int maxLen) (rnd (6 / 10)));
          tailLen = f64_to_int (fmul (f64_of_int maxLen) (rnd (3 / 10)))
      in if int (length rs) \<le> maxLen then summary
         else if headLen + tailLen > int (length rs) then summary
         else (let head0 = concat (take (nat headLen) rs);
                   i = last_index_byte head0 (CHR 0x0A);
                   head1 = (if i > headLen div 2 then take (nat i) head0 else head0);
                   tail0 = concat (drop (length rs - nat tailLen) rs);
                   j = index_byte tail0 (CHR 0x0A);
                   tail1 = (if j \<ge> 0 \<and> j < int (length tail0) - 1 then drop (nat (j + 1)) tail0 else tail0)
               in head1 @ t_summary_gap @ tail1))"

definition windowExcess :: "int \<Rightarrow> int \<Rightarrow> int" where
  "windowExcess n windowSize = (let excess = n - windowSize in if excess mod 2 \<noteq> 0 then excess + 1 else excess)"

definition addSummary :: "string \<Rightarrow> string \<Rightarrow> string" where
  "addSummary summary newSummary =
     (if newSummary = [] then summary
      else (let s = (if summary = [] then newSummary else summary @ [CHR 0x0A] @ newSummary)
            in if int (length s) > maxSummaryLen then truncateSummary s maxSummaryLen else s))"

definition trimWindow :: "simple_memory \<Rightarrow> simple_memory" where
  "trimWindow c =
     (let windowSize = (if ss_MaxWindowSize c \<le> 0 then defaultMaxWindowSize else ss_MaxWindowSize c);
          n = int (length (ss_Messages c));
          excess = windowExcess n windowSize
      in if n > windowSize \<and> excess < n
         then c\<lparr>ss_Summary := addSummary (ss_Summary c) (summarizeMessages (take (nat excess) (ss_Messages c))),
                ss_Messages := drop (nat excess) (ss_Messages c)\<rparr>
         else c)"

definition AddUserAssistantPair :: "string \<Rightarrow> string \<Rightarrow> simple_memory \<Rightarrow> simple_memory" where
  "AddUserAssistantPair userMsg assistantMsg c =
     trimWindow (c\<lparr>ss_Messages := ss_Messages c @ [UserMessage userMsg, AssistantMessage assistantMsg],
                   ss_turnCount := ss_turnCount c + 1\<rparr>)"

definition SetMessages :: "chat_message \<Rightarrow> simple_memory \<Rightarrow> simple_memory" where
  "SetMessages msg c = trimWindow (c\<lparr>ss_Messages := ss_Messages c @ [msg]\<rparr>)"

definition GetContextMessages :: "simple_memory \<Rightarrow> chat_message list" where
  "GetContextMessages c =
     (if ss_Summary c \<noteq> [] then [UserMessage (t_summary_tag @ ss_Summary c), AssistantMessage t_summary_ack] else []) @
     ss_Messages c"

definition Reset :: "simple_memory \<Rightarrow> simple_memory" where
  "Reset c = c\<lparr>ss_Messages := [], ss_Summary := [], ss_turnCount := 0\<rparr>"

subsection \<open>The map of sessions\<close>

type_synonym sessions = "(string, session_entry) gomap"

text \<open>The loop that looks for the session least recently used: the one found first, or later a strictly older one.\<close>

definition oldestSession :: "sessions \<Rightarrow> (string \<times> gotime) option" where
  "oldestSession m =
     fold (\<lambda>(sid, e) best. case best of
             None \<Rightarrow> Some (sid, se_lastAccess e)
           | Some (o1, t) \<Rightarrow> if se_lastAccess e < t then Some (sid, se_lastAccess e) else Some (o1, t)) m None"

definition newSession :: "gotime \<Rightarrow> int \<Rightarrow> string \<Rightarrow> simple_memory" where
  "newSession now windowSize sid =
     \<lparr>ss_ID = sid, ss_Messages = [], ss_Summary = [], ss_MaxWindowSize = windowSize, ss_turnCount = 0, ss_createdAt = now\<rparr>"

definition GetSimpleMemory :: "gotime \<Rightarrow> int \<Rightarrow> simple_memory option \<Rightarrow> string \<Rightarrow> sessions \<Rightarrow> simple_memory \<times> sessions" where
  "GetSimpleMemory now windowSize loaded sid m =
     (case gm_get m sid of
        Some entry \<Rightarrow> (se_memory entry, gm_put sid (entry\<lparr>se_lastAccess := now\<rparr>) m)
      | None \<Rightarrow>
          (case loaded of
             Some mem \<Rightarrow> (mem, gm_put sid \<lparr>se_memory = mem, se_lastAccess = now\<rparr> m)
           | None \<Rightarrow>
               (let m1 = (if int (length m) \<ge> maxSessions
                          then (case oldestSession m of
                                  None \<Rightarrow> m
                                | Some (oldestID, t) \<Rightarrow> if oldestID \<noteq> [] then gm_del oldestID m else m)
                          else m);
                    mem = newSession now windowSize sid
                in (mem, gm_put sid \<lparr>se_memory = mem, se_lastAccess = now\<rparr> m1))))"

definition ClearSession :: "string \<Rightarrow> sessions \<Rightarrow> sessions" where
  "ClearSession sid m = gm_del sid m"

definition SessionCount :: "sessions \<Rightarrow> int" where
  "SessionCount m = int (length m)"

text \<open>One tick of the cleaner.\<close>

definition cleanupSessions :: "gotime \<Rightarrow> sessions \<Rightarrow> sessions" where
  "cleanupSessions now m = filter (\<lambda>(sid, e). \<not> time_sub now (se_lastAccess e) > sessionTTL) m"

record session_stats =
  st_TurnCount :: int
  st_MessageCount :: int
  st_HasSummary :: bool
  st_SummaryLen :: int
  st_CreatedAt :: gotime
  st_LastAccess :: gotime

definition GetSessionStats :: "sessions \<Rightarrow> (string, session_stats) gomap" where
  "GetSessionStats m =
     gm_map (\<lambda>sid e. \<lparr>st_TurnCount = ss_turnCount (se_memory e), st_MessageCount = int (length (ss_Messages (se_memory e))),
        st_HasSummary = (ss_Summary (se_memory e) \<noteq> []), st_SummaryLen = int (length (ss_Summary (se_memory e))),
        st_CreatedAt = ss_createdAt (se_memory e), st_LastAccess = se_lastAccess e\<rparr>) m"

subsection \<open>The wire format\<close>

record session_wire =
  sw_ID :: string
  sw_Messages :: "chat_message list"
  sw_Summary :: string
  sw_MaxWindowSize :: int
  sw_TurnCount :: int
  sw_CreatedAt :: int

definition toWire :: "simple_memory \<Rightarrow> session_wire" where
  "toWire mem =
     \<lparr>sw_ID = ss_ID mem, sw_Messages = ss_Messages mem, sw_Summary = ss_Summary mem, sw_MaxWindowSize = ss_MaxWindowSize mem,
      sw_TurnCount = ss_turnCount mem, sw_CreatedAt = ss_createdAt mem div second\<rparr>"

definition fromWire :: "gotime \<Rightarrow> session_wire \<Rightarrow> simple_memory" where
  "fromWire now w =
     \<lparr>ss_ID = sw_ID w, ss_Messages = sw_Messages w, ss_Summary = sw_Summary w,
      ss_MaxWindowSize = (if sw_MaxWindowSize w \<le> 0 then defaultMaxWindowSize else sw_MaxWindowSize w),
      ss_turnCount = sw_TurnCount w,
      ss_createdAt = (if sw_CreatedAt w = 0 then now else sw_CreatedAt w * second)\<rparr>"

text \<open>The Redis store: a value per session that expires \<open>ttl\<close> after it was written (\<open>EX\<close>, in whole seconds).\<close>

record session_redis =
  sr_prefix :: string
  sr_ttl :: duration
  sr_values :: "(string, session_wire \<times> gotime) gomap"

definition newRedisSessionStore :: "string \<Rightarrow> duration \<Rightarrow> session_redis" where
  "newRedisSessionStore prefix0 ttl =
     (let p0 = (if prefix0 = [] then ''opscaption:session:'' else prefix0);
          p1 = (if suffix '':'' p0 then p0 else p0 @ '':'')
      in \<lparr>sr_prefix = p1, sr_ttl = (if ttl \<le> 0 then sessionTTL else ttl), sr_values = []\<rparr>)"

definition sessionKey :: "session_redis \<Rightarrow> string \<Rightarrow> string" where
  "sessionKey s sid = sr_prefix s @ sid"

text \<open>\<open>int(d.Seconds())\<close>.\<close>

definition ttlSeconds :: "duration \<Rightarrow> int" where
  "ttlSeconds d = f64_to_int (fadd (f64_of_int (d sdiv second)) (fdiv (f64_of_int (d smod second)) 1000000000))"

definition sessionSave :: "gotime \<Rightarrow> simple_memory \<Rightarrow> session_redis \<Rightarrow> session_redis" where
  "sessionSave now mem s =
     (if ss_ID mem = [] then s
      else (let secs0 = ttlSeconds (sr_ttl s);
                secs = (if secs0 \<le> 0 then ttlSeconds sessionTTL else secs0)
            in s\<lparr>sr_values := gm_put (sessionKey s (ss_ID mem)) (toWire mem, now + secs * second) (sr_values s)\<rparr>))"

text \<open>\<open>None\<close>: no session, or the error for an empty identifier, which \<open>loadFromStore\<close> logs.\<close>

definition sessionLoad :: "gotime \<Rightarrow> string \<Rightarrow> session_redis \<Rightarrow> simple_memory option" where
  "sessionLoad now sid s =
     (if sid = [] then None
      else (case gm_get (sr_values s) (sessionKey s sid) of
              None \<Rightarrow> None
            | Some (w, expires) \<Rightarrow> if now < expires then Some (fromWire now w) else None))"

definition sessionDelete :: "string \<Rightarrow> session_redis \<Rightarrow> session_redis" where
  "sessionDelete sid s = (if sid = [] then s else s\<lparr>sr_values := gm_del (sessionKey s sid) (sr_values s)\<rparr>)"

subsection \<open>The window is kept\<close>

lemma windowExcess_even: "even (windowExcess n w)"
  unfolding windowExcess_def Let_def by presburger

lemma windowExcess_bounds: "n - w \<le> windowExcess n w \<and> windowExcess n w \<le> n - w + 1"
  by (simp add: windowExcess_def Let_def)

definition effectiveWindow :: "simple_memory \<Rightarrow> int" where
  "effectiveWindow c = (if ss_MaxWindowSize c \<le> 0 then defaultMaxWindowSize else ss_MaxWindowSize c)"

lemma trimWindow_kept:
  assumes "2 \<le> effectiveWindow c"
  shows "int (length (ss_Messages (trimWindow c))) \<le> effectiveWindow c \<and>
    (\<exists>n. even n \<and> n \<le> length (ss_Messages c) \<and> ss_Messages (trimWindow c) = drop n (ss_Messages c))"
proof -
  let ?n = "int (length (ss_Messages c))" and ?w = "effectiveWindow c"
  let ?x = "windowExcess ?n ?w"
  have b: "?n - ?w \<le> ?x" "?x \<le> ?n - ?w + 1" using windowExcess_bounds by auto
  show ?thesis
  proof (cases "?n > ?w")
    case True
    then have x: "?x < ?n" "0 \<le> ?x" using b assms by linarith+
    have m: "ss_Messages (trimWindow c) = drop (nat ?x) (ss_Messages c)"
      using True x by (simp add: trimWindow_def Let_def effectiveWindow_def)
    moreover have "even (nat ?x)" using windowExcess_even [of ?n ?w] x(2) by (simp add: even_nat_iff)
    moreover have "int (length (drop (nat ?x) (ss_Messages c))) \<le> ?w" using b x by simp
    moreover have "nat ?x \<le> length (ss_Messages c)" using x by simp
    ultimately show ?thesis by (intro conjI exI [of _ "nat ?x"]) simp_all
  next
    case False
    then have "trimWindow c = c" by (simp add: trimWindow_def Let_def effectiveWindow_def)
    then show ?thesis using False by (intro conjI exI [of _ 0]) simp_all
  qed
qed

lemma trimWindow_fields [simp]:
  "ss_MaxWindowSize (trimWindow c) = ss_MaxWindowSize c" "ss_turnCount (trimWindow c) = ss_turnCount c"
  "ss_ID (trimWindow c) = ss_ID c" "ss_createdAt (trimWindow c) = ss_createdAt c"
  by (simp_all add: trimWindow_def Let_def)

fun addTurns :: "(string \<times> string) list \<Rightarrow> simple_memory \<Rightarrow> simple_memory" where
  "addTurns [] c = c"
| "addTurns ((u, a) # turns) c = addTurns turns (AddUserAssistantPair u a c)"

fun turnMessages :: "(string \<times> string) list \<Rightarrow> chat_message list" where
  "turnMessages [] = []"
| "turnMessages ((u, a) # turns) = [UserMessage u, AssistantMessage a] @ turnMessages turns"

lemma addTurns_window: "effectiveWindow (addTurns turns c) = effectiveWindow c"
  by (induction turns c rule: addTurns.induct) (simp_all add: effectiveWindow_def AddUserAssistantPair_def)

lemma addTurns_count: "ss_turnCount (addTurns turns c) = ss_turnCount c + int (length turns)"
  by (induction turns c rule: addTurns.induct) (simp_all add: AddUserAssistantPair_def)

lemma addTurns_kept:
  assumes "2 \<le> effectiveWindow c" "int (length (ss_Messages c)) \<le> effectiveWindow c"
  shows "int (length (ss_Messages (addTurns turns c))) \<le> effectiveWindow c \<and>
    (\<exists>n. even n \<and> ss_Messages (addTurns turns c) = drop n (ss_Messages c @ turnMessages turns))"
  using assms
proof (induction turns c rule: addTurns.induct)
  case (1 c)
  then show ?case by (intro conjI exI [of _ 0]) simp_all
next
  case (2 u a turns c)
  let ?c = "AddUserAssistantPair u a c"
  let ?m = "ss_Messages c @ [UserMessage u, AssistantMessage a]"
  let ?base = "c\<lparr>ss_Messages := ?m, ss_turnCount := ss_turnCount c + 1\<rparr>"
  have w: "effectiveWindow ?c = effectiveWindow c" "effectiveWindow ?base = effectiveWindow c"
    by (simp_all add: effectiveWindow_def AddUserAssistantPair_def)
  have "2 \<le> effectiveWindow ?base" using 2(2) w(2) by simp
  note t = trimWindow_kept [OF this]
  have c: "?c = trimWindow ?base" by (rule AddUserAssistantPair_def)
  have m0: "ss_Messages ?base = ?m" by simp
  from t obtain n where n: "even n" "n \<le> length ?m" "ss_Messages ?c = drop n ?m"
    unfolding c m0 by blast
  have l: "int (length (ss_Messages ?c)) \<le> effectiveWindow ?c"
    using conjunct1 [OF t] unfolding c [symmetric] w .
  have "2 \<le> effectiveWindow ?c" using 2(2) w(1) by simp
  from 2(1) [OF this l] obtain k where k: "even k"
      "ss_Messages (addTurns turns ?c) = drop k (ss_Messages ?c @ turnMessages turns)"
      "int (length (ss_Messages (addTurns turns ?c))) \<le> effectiveWindow c"
    unfolding w(1) by blast
  have "drop k (drop n ?m @ turnMessages turns) = drop (k + n) (?m @ turnMessages turns)"
    using n(2) by (metis drop_append diff_is_0_eq drop_0 drop_drop)
  then have "ss_Messages (addTurns turns ?c) = drop (k + n) (?m @ turnMessages turns)"
    unfolding k(2) n(3) .
  moreover have "ss_Messages c @ turnMessages ((u, a) # turns) = ?m @ turnMessages turns" by simp
  moreover have "even (k + n)" using k(1) n(1) by simp
  ultimately show ?case using k(3) unfolding addTurns.simps by metis
qed

end
