(* ===== verification/Ctx_Types.thy ===== *)
theory Ctx_Types
  imports Mem_LongTerm Mem_Session Ctx_Compress
begin

text \<open>
  The data of the context engine (internal/ai/contextengine/types.go, resolver.go, assembler_helpers.go): a request, the
  profile that says what its context may hold and how many tokens each part may cost, the items, and the trace of
  an assembly. A message of a history is a pointer; its identity is the number \<open>hm_Ref\<close>.
\<close>

subsection \<open>Requests, profiles, items\<close>

record context_item =
  ci_ID :: string
  ci_SourceType :: string
  ci_SourceID :: string
  ci_Title :: string
  ci_Content :: string
  ci_Score :: f64
  ci_TrustLevel :: string
  ci_TokenEstimate :: int
  ci_Selected :: bool
  ci_DroppedReason :: string
  ci_Timestamp :: int
  ci_FreshnessScore :: f64
  ci_OriginAgent :: string
  ci_SafetyLabel :: string
  ci_UpdatePolicy :: string
  ci_ConflictGroup :: string
  ci_CompressionLevel :: string
  ci_Scope :: string
  ci_Confidence :: f64
  ci_Provenance :: string
  ci_ExpiresAt :: int

definition emptyItem :: context_item where
  "emptyItem =
     \<lparr>ci_ID = [], ci_SourceType = [], ci_SourceID = [], ci_Title = [], ci_Content = [], ci_Score = 0, ci_TrustLevel = [],
      ci_TokenEstimate = 0, ci_Selected = False, ci_DroppedReason = [], ci_Timestamp = 0, ci_FreshnessScore = 0,
      ci_OriginAgent = [], ci_SafetyLabel = [], ci_UpdatePolicy = [], ci_ConflictGroup = [], ci_CompressionLevel = [],
      ci_Scope = [], ci_Confidence = 0, ci_Provenance = [], ci_ExpiresAt = 0\<rparr>"

record context_request =
  cr_SessionID :: string
  cr_UserID :: string
  cr_ProjectID :: string
  cr_TraceID :: string
  cr_Mode :: string
  cr_Intent :: string
  cr_Query :: string
  cr_ToolItems :: "context_item list"

record context_budget =
  cb_MaxTotalTokens :: int
  cb_SystemTokens :: int
  cb_HistoryTokens :: int
  cb_MemoryTokens :: int
  cb_DocumentTokens :: int
  cb_ToolTokens :: int
  cb_ReservedTokens :: int

record context_profile =
  cf_Name :: string
  cf_AllowHistory :: bool
  cf_AllowMemory :: bool
  cf_AllowDocs :: bool
  cf_AllowToolResults :: bool
  cf_Staged :: bool
  cf_MaxHistoryMessages :: int
  cf_MaxMemoryItems :: int
  cf_MaxToolItems :: int
  cf_MinMemoryConfidence :: f64
  cf_AllowedMemoryScopes :: "string list"
  cf_Budget :: context_budget

record budget_snapshot =
  bs_HistoryTokens :: int
  bs_MemoryTokens :: int
  bs_DocumentTokens :: int
  bs_ToolTokens :: int

record recall_metrics =
  rm_CacheHits :: int
  rm_Embedded :: int
  rm_LatencyMs :: int
  rm_Degraded :: bool

record retrieval_metrics =
  rt_CacheKey :: string
  rt_CacheHit :: bool
  rt_InitFailureCached :: bool
  rt_InitLatencyMs :: int
  rt_RetrieveLatencyMs :: int
  rt_RewriteLatencyMs :: int
  rt_RerankLatencyMs :: int
  rt_OriginalQuery :: string
  rt_RewrittenQuery :: string
  rt_RawResultCount :: int
  rt_ResultCount :: int
  rt_RerankEnabled :: bool

record stage_trace =
  sg_Name :: string
  sg_SelectedCount :: int
  sg_DroppedCount :: int
  sg_Notes :: "string list"
  sg_Retrieval :: "retrieval_metrics option"
  sg_Recall :: "recall_metrics option"

definition stage :: "string \<Rightarrow> int \<Rightarrow> int \<Rightarrow> string list \<Rightarrow> stage_trace" where
  "stage nm selected dropped notes =
     \<lparr>sg_Name = nm, sg_SelectedCount = selected, sg_DroppedCount = dropped, sg_Notes = notes,
      sg_Retrieval = None, sg_Recall = None\<rparr>"

record history_message =
  hm_Ref :: nat
  hm_Msg :: chat_message

abbreviation hm_Role :: "history_message \<Rightarrow> string" where "hm_Role m \<equiv> cm_Role (hm_Msg m)"
abbreviation hm_Content :: "history_message \<Rightarrow> string" where "hm_Content m \<equiv> cm_Content (hm_Msg m)"

subsection \<open>Resolving a profile\<close>

text \<open>What the configuration answers: an integer or a number for a key, \<open>None\<close> for an error.\<close>

record context_settings =
  sx_max_context_tokens :: "int option"
  sx_chat_max_history_messages :: "int option"
  sx_chat_max_memory_items :: "int option"
  sx_aiops_max_memory_items :: "int option"
  sx_reporter_max_tool_items :: "int option"
  sx_min_memory_confidence :: "f64 option"

definition loadPositiveInt :: "int option \<Rightarrow> int \<Rightarrow> int" where
  "loadPositiveInt v fallback = (case v of Some n \<Rightarrow> if n > 0 then n else fallback | None \<Rightarrow> fallback)"

definition normalizeUnitFloat :: "f64 \<Rightarrow> f64 \<Rightarrow> f64" where
  "normalizeUnitFloat value fallback = (if value \<le> 0 \<or> value > 1 then fallback else value)"

definition loadPositiveFloat :: "f64 option \<Rightarrow> f64 \<Rightarrow> f64" where
  "loadPositiveFloat v fallback =
     (case v of Some x \<Rightarrow> if x > 0 then normalizeUnitFloat x fallback else fallback | None \<Rightarrow> fallback)"

definition baseBudget :: "token_budget \<Rightarrow> context_budget" where
  "baseBudget budget =
     \<lparr>cb_MaxTotalTokens = tb_MaxTokens budget, cb_SystemTokens = tb_SystemReserve budget,
      cb_HistoryTokens = tb_HistoryReserve budget, cb_MemoryTokens = tb_MemoryReserve budget,
      cb_DocumentTokens = tb_DocumentReserve budget, cb_ToolTokens = shareOf (tb_MaxTokens budget) (10 / 100),
      cb_ReservedTokens = tb_MaxTokens budget - tb_SystemReserve budget - tb_HistoryReserve budget -
        tb_MemoryReserve budget - tb_DocumentReserve budget - shareOf (tb_MaxTokens budget) (10 / 100)\<rparr>"

definition baseProfile :: "context_settings \<Rightarrow> token_budget \<Rightarrow> context_profile" where
  "baseProfile s budget =
     \<lparr>cf_Name = ''chat-default'', cf_AllowHistory = True, cf_AllowMemory = True, cf_AllowDocs = True,
      cf_AllowToolResults = False, cf_Staged = True,
      cf_MaxHistoryMessages = loadPositiveInt (sx_chat_max_history_messages s) 10,
      cf_MaxMemoryItems = loadPositiveInt (sx_chat_max_memory_items s) 5, cf_MaxToolItems = 0,
      cf_MinMemoryConfidence = loadPositiveFloat (sx_min_memory_confidence s) (1 / 2),
      cf_AllowedMemoryScopes = [''session'', ''user'', ''project'', ''global''],
      cf_Budget = baseBudget budget\<rparr>"

definition Resolve :: "context_settings \<Rightarrow> context_request \<Rightarrow> context_profile" where
  "Resolve s req =
     (let budget = GetTokenBudget (sx_max_context_tokens s);
          base = baseProfile s budget
      in if cr_Mode req = ''aiops'' \<or> cr_Mode req = ''specialist''
         then base\<lparr>cf_Name := ''aiops-default'', cf_AllowHistory := False, cf_AllowDocs := False,
                   cf_AllowToolResults := False, cf_Staged := False, cf_MaxHistoryMessages := 0,
                   cf_MaxMemoryItems := loadPositiveInt (sx_aiops_max_memory_items s) 5,
                   cf_Budget := (cf_Budget base)\<lparr>cb_HistoryTokens := 0, cb_ToolTokens := 0\<rparr>\<rparr>
         else if cr_Mode req = ''aiops_diagnosis''
         then base\<lparr>cf_Name := ''aiops-diagnosis'', cf_AllowHistory := True, cf_AllowDocs := True,
                   cf_AllowToolResults := True, cf_Staged := True,
                   cf_MaxHistoryMessages := loadPositiveInt (sx_chat_max_history_messages s) 10,
                   cf_MaxMemoryItems := loadPositiveInt (sx_aiops_max_memory_items s) 5,
                   cf_MaxToolItems := loadPositiveInt (sx_reporter_max_tool_items s) 8,
                   cf_Budget := (cf_Budget base)\<lparr>cb_ToolTokens := shareOf (tb_MaxTokens budget) (15 / 100)\<rparr>\<rparr>
         else base)"

definition ResolveByProfile :: "context_settings \<Rightarrow> context_request \<Rightarrow> string \<Rightarrow> context_profile" where
  "ResolveByProfile s req profileName = Resolve s (req\<lparr>cr_Mode := profileName\<rparr>)"

end
