(* ===== verification/Ctx_Select.thy ===== *)
theory Ctx_Select
  imports Ctx_Types
begin

text \<open>
  Selecting what enters a context: assembler_select.go (tool results, history, memories), assembler_helpers.go,
  documents.go and tool_items.go of internal/ai/contextengine. A selection keeps the items taken and the items
  dropped with their reason, the tokens used and those that remain. \<open>lower\<close> is \<open>strings.ToLower\<close>; the clock is read once per
  operation. That the loop over tool results also writes the reason into the caller's slice is not modelled.
\<close>

subsection \<open>Helpers\<close>

definition t_key_memories :: string where \<comment> \<open>the heading of the key memories\<close>
  "t_key_memories =
     ''['' @ [CHR 0xE5, CHR 0x85, CHR 0xB3, CHR 0xE9, CHR 0x94, CHR 0xAE, CHR 0xE8, CHR 0xAE, CHR
      0xB0, CHR 0xE5, CHR 0xBF, CHR 0x86] @ '']'' @ [CHR 0x0A]"

definition t_memory_ack :: string where \<comment> \<open>the assistant acknowledges the background\<close>
  "t_memory_ack =
     [CHR 0xE5, CHR 0xA5, CHR 0xBD, CHR 0xE7, CHR 0x9A, CHR 0x84, CHR 0xEF, CHR 0xBC, CHR 0x8C, CHR
      0xE6, CHR 0x88, CHR 0x91, CHR 0xE5, CHR 0xB7, CHR 0xB2, CHR 0xE4, CHR 0xBA, CHR 0x86, CHR
      0xE8, CHR 0xA7, CHR 0xA3, CHR 0xE8, CHR 0xBF, CHR 0x99, CHR 0xE4, CHR 0xBA, CHR 0x9B, CHR
      0xE8, CHR 0x83, CHR 0x8C, CHR 0xE6, CHR 0x99, CHR 0xAF, CHR 0xE4, CHR 0xBF, CHR 0xA1, CHR
      0xE6, CHR 0x81, CHR 0xAF, CHR 0xE3, CHR 0x80, CHR 0x82]"

definition t_summary_prefix :: string where \<comment> \<open>the tag of a summary of the conversation so far\<close>
  "t_summary_prefix =
     ''['' @ [CHR 0xE5, CHR 0xAF, CHR 0xB9, CHR 0xE8, CHR 0xAF, CHR 0x9D, CHR 0xE5, CHR 0x8E, CHR
      0x86, CHR 0xE5, CHR 0x8F, CHR 0xB2, CHR 0xE6, CHR 0x91, CHR 0x98, CHR 0xE8, CHR 0xA6, CHR
      0x81] @ '']''"

definition t_no_summary :: string where \<comment> \<open>no summary\<close>
  "t_no_summary =
     [CHR 0xE6, CHR 0x97, CHR 0xA0, CHR 0xE6, CHR 0x91, CHR 0x98, CHR 0xE8, CHR 0xA6, CHR 0x81]"

definition t_label_colon :: string where \<comment> \<open>a full-width colon\<close>
  "t_label_colon =
     [CHR 0xEF, CHR 0xBC, CHR 0x9A]"

definition memoryScopeRefs :: "context_request \<Rightarrow> scope_ref list" where
  "memoryScopeRefs req =
     [\<lparr>sr_Scope = MemoryScopeSession, sr_ScopeID = cr_SessionID req\<rparr>, \<lparr>sr_Scope = MemoryScopeGlobal, sr_ScopeID = ''global''\<rparr>] @
     (if trim_space (cr_UserID req) \<noteq> [] then [\<lparr>sr_Scope = MemoryScopeUser, sr_ScopeID = trim_space (cr_UserID req)\<rparr>] else []) @
     (if trim_space (cr_ProjectID req) \<noteq> []
      then [\<lparr>sr_Scope = MemoryScopeProject, sr_ScopeID = trim_space (cr_ProjectID req)\<rparr>] else [])"

definition memoryTrustLevel :: "memory_entry \<Rightarrow> string" where
  "memoryTrustLevel entry = (if me_SafetyLabel entry \<noteq> [] then me_SafetyLabel entry else ''internal'')"

text \<open>\<open>1 / (1 + hours / 24)\<close> for the hours since the last use.\<close>

definition freshness :: "gotime \<Rightarrow> memory_entry \<Rightarrow> f64" where
  "freshness now entry = fdiv 1 (fadd 1 (fdiv (duration_hours (time_sub now (me_LastUsed entry))) 24))"

definition newMemoryItem :: "gotime \<Rightarrow> memory_entry \<Rightarrow> context_item" where
  "newMemoryItem now entry =
     emptyItem\<lparr>ci_ID := me_ID entry, ci_SourceType := ''memory'', ci_SourceID := me_SessionID entry,
       ci_Title := me_Type entry, ci_Content := me_Content entry, ci_Score := me_Relevance entry,
       ci_TrustLevel := memoryTrustLevel entry, ci_TokenEstimate := EstimateTokens (me_Content entry),
       ci_Timestamp := unix_milli (me_UpdatedAt entry), ci_FreshnessScore := freshness now entry,
       ci_SafetyLabel := me_SafetyLabel entry, ci_Scope := me_Scope entry, ci_Confidence := me_Confidence entry,
       ci_Provenance := me_Provenance entry, ci_ExpiresAt := me_ExpiresAt entry\<rparr>"

definition memoryItemExpired :: "context_item \<Rightarrow> gotime \<Rightarrow> bool" where
  "memoryItemExpired item now \<longleftrightarrow> ci_ExpiresAt item > 0 \<and> ci_ExpiresAt item \<le> unix_milli now"

definition memoryScopeAllowed :: "string \<Rightarrow> string list \<Rightarrow> bool" where
  "memoryScopeAllowed scope allowed \<longleftrightarrow>
     allowed = [] \<or> (if scope = [] then MemoryScopeSession else scope) \<in> set allowed"

definition memorySafetyAllowed :: "(string \<Rightarrow> string) \<Rightarrow> string \<Rightarrow> bool" where
  "memorySafetyAllowed lower label \<longleftrightarrow>
     trim_space (lower label) \<in> {[], ''internal'', ''trusted_internal'', ''safe''}"

definition memoryLine :: "context_item \<Rightarrow> string" where
  "memoryLine item = ''- ['' @ ci_Title item @ ''] '' @ ci_Content item"

definition memoryItemsAsMessages :: "context_item list \<Rightarrow> chat_message list" where
  "memoryItemsAsMessages items =
     (if items = [] then []
      else [UserMessage (t_key_memories @ join nl (map memoryLine items)), AssistantMessage t_memory_ack])"

definition historyID :: "nat \<Rightarrow> string" where
  "historyID idx = ''history-'' @ itoa (int idx)"

definition newDroppedHistoryItem :: "nat \<Rightarrow> chat_message \<Rightarrow> string \<Rightarrow> context_item" where
  "newDroppedHistoryItem idx msg reason =
     emptyItem\<lparr>ci_ID := historyID idx, ci_SourceType := ''history'', ci_SourceID := itoa (int idx),
       ci_Content := cm_Content msg, ci_TokenEstimate := EstimateTokens (cm_Content msg), ci_DroppedReason := reason\<rparr>"

definition containsDroppedHistory :: "context_item list \<Rightarrow> nat \<Rightarrow> bool" where
  "containsDroppedHistory items idx \<longleftrightarrow> list_ex (\<lambda>item. ci_ID item = historyID idx) items"

definition hasSummaryPrefix :: "chat_message \<Rightarrow> bool" where
  "hasSummaryPrefix msg \<longleftrightarrow> prefix t_summary_prefix (trim_space (cm_Content msg))"

definition scopePriority :: "string \<Rightarrow> f64" where
  "scopePriority scope =
     (if scope = MemoryScopeSession then rnd (4 / 10) else if scope = MemoryScopeUser then rnd (3 / 10)
      else if scope = MemoryScopeProject then rnd (2 / 10) else if scope = MemoryScopeGlobal then rnd (1 / 10) else 0)"

definition memoryCompositeScore :: "gotime \<Rightarrow> memory_entry \<Rightarrow> f64" where
  "memoryCompositeScore now entry =
     fadd (fadd (fmul (me_Confidence entry) (rnd (5 / 10))) (fmul (freshness now entry) (rnd (3 / 10))))
          (fmul (scopePriority (me_Scope entry)) (rnd (2 / 10)))"

definition rankMemoryEntries :: "gotime \<Rightarrow> memory_entry list \<Rightarrow> memory_entry list" where
  "rankMemoryEntries now entries =
     (if length entries \<le> 1 then entries
      else map fst (sort_slice (\<lambda>a b. snd a > snd b) (map (\<lambda>e. (e, memoryCompositeScore now e)) entries)))"

subsection \<open>Memories\<close>

record selection =
  sl_selected :: "context_item list"
  sl_dropped :: "context_item list"
  sl_used :: int
  sl_remaining :: int

definition startSelection :: "int \<Rightarrow> selection" where
  "startSelection budget = \<lparr>sl_selected = [], sl_dropped = [], sl_used = 0, sl_remaining = budget\<rparr>"

definition dropItem :: "string \<Rightarrow> context_item \<Rightarrow> selection \<Rightarrow> selection" where
  "dropItem reason item st = st\<lparr>sl_dropped := sl_dropped st @ [item\<lparr>ci_DroppedReason := reason\<rparr>]\<rparr>"

definition takeItem :: "context_item \<Rightarrow> selection \<Rightarrow> selection" where
  "takeItem item st =
     st\<lparr>sl_selected := sl_selected st @ [item\<lparr>ci_Selected := True\<rparr>],
        sl_remaining := sl_remaining st - ci_TokenEstimate item, sl_used := sl_used st + ci_TokenEstimate item\<rparr>"

definition selectMemory :: "(string \<Rightarrow> string) \<Rightarrow> context_profile \<Rightarrow> gotime \<Rightarrow> memory_entry \<Rightarrow> selection \<Rightarrow> selection" where
  "selectMemory lower profile now entry st =
     (let item = newMemoryItem now entry
      in if memoryItemExpired item now then dropItem ''memory_expired'' item st
         else if \<not> memoryScopeAllowed (ci_Scope item) (cf_AllowedMemoryScopes profile) then dropItem ''memory_scope'' item st
         else if ci_Confidence item < cf_MinMemoryConfidence profile then dropItem ''memory_confidence'' item st
         else if \<not> memorySafetyAllowed lower (ci_SafetyLabel item) then dropItem ''memory_safety'' item st
         else if int (length (sl_selected st)) \<ge> cf_MaxMemoryItems profile then dropItem ''memory_window'' item st
         else if ci_TokenEstimate item > sl_remaining st then dropItem ''memory_budget'' item st
         else takeItem item st)"

definition tokenNote :: "int \<Rightarrow> int \<Rightarrow> string" where
  "tokenNote n budget = ''tokens='' @ itoa n @ ''/'' @ itoa budget"

definition selectMemories ::
  "(string \<Rightarrow> string) \<Rightarrow> memory_entry list \<Rightarrow> context_profile \<Rightarrow> gotime \<Rightarrow>
     context_item list \<times> context_item list \<times> int \<times> string list" where
  "selectMemories lower entries profile now =
     (if entries = [] \<or> cf_MaxMemoryItems profile = 0 \<or> cb_MemoryTokens (cf_Budget profile) = 0
      then ([], [], 0, [''memory disabled or empty''])
      else (let st = fold (selectMemory lower profile now) entries (startSelection (cb_MemoryTokens (cf_Budget profile)))
            in (sl_selected st, sl_dropped st, sl_used st,
                [tokenNote (sl_used st) (cb_MemoryTokens (cf_Budget profile)),
                 ''min_confidence='' @ fmt_fixed 2 (cf_MinMemoryConfidence profile)])))"

subsection \<open>Tool results and documents\<close>

definition shouldRecordCompressionReport :: "compress_report \<Rightarrow> bool" where
  "shouldRecordCompressionReport report \<longleftrightarrow>
     cp_Strategy report \<notin> {[], ''disabled'', ''source_type_excluded'', ''below_min_tokens''}"

text \<open>What compression makes of an item; \<open>compress\<close> is \<open>Compress\<close> on the item's content.\<close>

definition compressItem ::
  "(compress_request \<Rightarrow> compression_config option \<Rightarrow> compress_result) \<Rightarrow> compression_config option \<Rightarrow> string \<Rightarrow> string \<Rightarrow>
     context_item \<Rightarrow> context_item \<times> compress_report list" where
  "compressItem compress compCfg sourceType query item =
     (case compCfg of
        None \<Rightarrow> (item, [])
      | Some cfg \<Rightarrow>
          if cz_Enabled cfg \<and> cz_Mode cfg \<noteq> ModeOff
          then (let compResult = compress \<lparr>cq_SourceType = sourceType, cq_SourceID = ci_SourceID item, cq_Query = query,
                                           cq_Content = ci_Content item\<rparr> (Some cfg);
                    report = cs_Report compResult;
                    item1 = (if cz_Mode cfg = ModeOptimize \<and> \<not> cp_Degraded report \<and> cp_CompressionRatio report < 1
                             then item\<lparr>ci_Content := cs_Content compResult,
                                       ci_TokenEstimate := EstimateTokens (cs_Content compResult),
                                       ci_CompressionLevel := ''compressed''\<rparr>
                             else if cz_Mode cfg = ModeAudit \<and> shouldRecordCompressionReport report
                             then item\<lparr>ci_CompressionLevel := ''audit''\<rparr>
                             else item)
                in (item1, if shouldRecordCompressionReport report then [report] else []))
          else (item, []))"

text \<open>An item cut to the tokens that remain, \<open>None\<close> if nothing of it is left.\<close>

definition fitItem :: "int \<Rightarrow> context_item \<Rightarrow> context_item option" where
  "fitItem remaining item =
     (if ci_TokenEstimate item > remaining
      then (let trimmed = TrimToTokenBudget (ci_Content item) remaining
            in if trim_space trimmed = [] then None
               else Some (item\<lparr>ci_Content := trimmed, ci_TokenEstimate := EstimateTokens trimmed,
                               ci_CompressionLevel := (if ci_CompressionLevel item \<in> {[], ''audit''} then ''trimmed''
                                                       else ci_CompressionLevel item)\<rparr>))
      else Some item)"

fun toolLoop ::
  "(context_item \<Rightarrow> context_item \<times> compress_report list) \<Rightarrow> context_profile \<Rightarrow> nat \<Rightarrow> context_item list \<Rightarrow>
     selection \<Rightarrow> compress_report list \<Rightarrow> selection \<times> compress_report list" where
  "toolLoop compf profile idx [] st reports = (st, reports)"
| "toolLoop compf profile idx (item0 # items) st reports =
     (let item = item0\<lparr>ci_TokenEstimate := EstimateTokens (ci_Content item0)\<rparr>
      in if int idx \<ge> cf_MaxToolItems profile
         then toolLoop compf profile (Suc idx) items (dropItem ''tool_window'' item st) reports
         else (let (item1, rs) = compf item
               in case fitItem (sl_remaining st) item1 of
                    None \<Rightarrow> toolLoop compf profile (Suc idx) items (dropItem ''tool_budget'' item1 st) (reports @ rs)
                  | Some item2 \<Rightarrow>
                      (let st1 = takeItem item2 st
                       in if sl_remaining st1 \<le> 0
                          then (fold (dropItem ''tool_budget'') items st1, reports @ rs)
                          else toolLoop compf profile (Suc idx) items st1 (reports @ rs))))"

definition selectToolItemsWithCompression ::
  "(compress_request \<Rightarrow> compression_config option \<Rightarrow> compress_result) \<Rightarrow> context_item list \<Rightarrow> context_profile \<Rightarrow> string \<Rightarrow>
     compression_config option \<Rightarrow> context_item list \<times> context_item list \<times> int \<times> string list \<times> compress_report list" where
  "selectToolItemsWithCompression compress items profile query compCfg =
     (if items = [] \<or> cf_MaxToolItems profile = 0 \<or> cb_ToolTokens (cf_Budget profile) = 0
      then ([], [], 0, [''tool results empty or disabled''], [])
      else (let (st, reports) = toolLoop (compressItem compress compCfg SourceTool query) profile 0 items
                                  (startSelection (cb_ToolTokens (cf_Budget profile))) []
            in (sl_selected st, sl_dropped st, sl_used st, [tokenNote (sl_used st) (cb_ToolTokens (cf_Budget profile))], reports)))"

definition selectToolItems ::
  "(compress_request \<Rightarrow> compression_config option \<Rightarrow> compress_result) \<Rightarrow> context_item list \<Rightarrow> context_profile \<Rightarrow>
     context_item list \<times> context_item list \<times> int \<times> string list" where
  "selectToolItems compress items profile =
     (let (selected, dropped, n, notes, reports) = selectToolItemsWithCompression compress items profile [] None
      in (selected, dropped, n, notes))"

text \<open>A retrieved document; \<open>dc_Score\<close> is \<open>Score()\<close> and a value of the metadata that is no text reads as \<open>None\<close>.\<close>

record document =
  dc_ID :: string
  dc_Content :: string
  dc_Score :: f64
  dc_MetaData :: "(string, string option) gomap"

fun titleOf :: "(string, string option) gomap \<Rightarrow> string list \<Rightarrow> string \<Rightarrow> string" where
  "titleOf meta [] title = title"
| "titleOf meta (key # keys) title =
     (case gm_get meta key of
        Some (Some value) \<Rightarrow> if value \<noteq> [] then value else titleOf meta keys title
      | _ \<Rightarrow> titleOf meta keys title)"

definition newDocumentItem :: "document option \<Rightarrow> nat \<Rightarrow> context_item" where
  "newDocumentItem doc idx =
     (let title0 = ''document-'' @ itoa (int idx + 1);
          (sourceID, content, score, title) =
            (case doc of
               None \<Rightarrow> (title0, [], 0, title0)
             | Some d \<Rightarrow> (if dc_ID d \<noteq> [] then dc_ID d else title0, dc_Content d, dc_Score d,
                          titleOf (dc_MetaData d) [''title'', ''file_name'', ''filename'', ''source''] title0))
      in emptyItem\<lparr>ci_ID := sourceID, ci_SourceType := ''doc'', ci_SourceID := sourceID, ci_Title := title,
           ci_Content := content, ci_Score := score, ci_TrustLevel := ''retrieved'',
           ci_TokenEstimate := EstimateTokens content, ci_SafetyLabel := ''retrieved_doc'',
           ci_UpdatePolicy := ''refresh_on_retrieval''\<rparr>)"

definition newDroppedDocumentItem :: "document option \<Rightarrow> nat \<Rightarrow> string \<Rightarrow> context_item" where
  "newDroppedDocumentItem doc idx reason = (newDocumentItem doc idx)\<lparr>ci_DroppedReason := reason\<rparr>"

fun documentLoop ::
  "(context_item \<Rightarrow> context_item \<times> compress_report list) \<Rightarrow> nat \<Rightarrow> document option list \<Rightarrow>
     selection \<Rightarrow> compress_report list \<Rightarrow> selection \<times> compress_report list" where
  "documentLoop compf idx [] st reports = (st, reports)"
| "documentLoop compf idx (doc # docs) st reports =
     (let (item1, rs) = compf (newDocumentItem doc idx)
      in case fitItem (sl_remaining st) item1 of
           None \<Rightarrow> documentLoop compf (Suc idx) docs (dropItem ''document_budget'' item1 st) (reports @ rs)
         | Some item2 \<Rightarrow>
             (let st1 = takeItem item2 st
              in if sl_remaining st1 \<le> 0
                 then (st1\<lparr>sl_dropped := sl_dropped st1 @
                           map (\<lambda>(j, d). newDroppedDocumentItem d j ''document_budget'') (enumerate (Suc idx) docs)\<rparr>,
                       reports @ rs)
                 else documentLoop compf (Suc idx) docs st1 (reports @ rs)))"

text \<open>The trace of a query of the retrieval, and the note on it.\<close>

definition retrievalMetricsFromQueryTrace :: "retrieval_metrics \<Rightarrow> retrieval_metrics option" where
  "retrievalMetricsFromQueryTrace trace =
     (if rt_CacheKey trace = [] \<and> \<not> rt_CacheHit trace \<and> \<not> rt_InitFailureCached trace \<and>
         rt_InitLatencyMs trace = 0 \<and> rt_RetrieveLatencyMs trace = 0 \<and> rt_ResultCount trace = 0
      then None else Some trace)"

definition boolText :: "bool \<Rightarrow> string" where
  "boolText b = (if b then ''true'' else ''false'')"

definition formatRetrievalTraceNote :: "retrieval_metrics option \<Rightarrow> string" where
  "formatRetrievalTraceNote metrics =
     (case metrics of
        None \<Rightarrow> ''retrieval_trace unavailable''
      | Some m \<Rightarrow>
          ''retrieval cache_hit='' @ boolText (rt_CacheHit m) @ '' init_ms='' @ itoa (rt_InitLatencyMs m) @
          '' rewrite_ms='' @ itoa (rt_RewriteLatencyMs m) @ '' retrieve_ms='' @ itoa (rt_RetrieveLatencyMs m) @
          '' rerank_ms='' @ itoa (rt_RerankLatencyMs m) @ '' raw='' @ itoa (rt_RawResultCount m) @
          '' final='' @ itoa (rt_ResultCount m) @ '' rerank='' @ boolText (rt_RerankEnabled m))"

record document_selection =
  ds_selected :: "context_item list"
  ds_dropped :: "context_item list"
  ds_used :: int
  ds_notes :: "string list"
  ds_metrics :: "retrieval_metrics option"
  ds_reports :: "compress_report list"

definition noDocuments :: "string list \<Rightarrow> retrieval_metrics option \<Rightarrow> document_selection" where
  "noDocuments notes metrics =
     \<lparr>ds_selected = [], ds_dropped = [], ds_used = 0, ds_notes = notes, ds_metrics = metrics, ds_reports = []\<rparr>"

text \<open>\<open>answer\<close> is what \<open>rag.Query\<close> returns: its trace and either the text of an error or the documents.\<close>

definition selectDocuments ::
  "(compress_request \<Rightarrow> compression_config option \<Rightarrow> compress_result) \<Rightarrow> compression_config \<Rightarrow>
     (string \<Rightarrow> retrieval_metrics \<times> (string + document option list)) \<Rightarrow> string \<Rightarrow> context_profile \<Rightarrow> document_selection" where
  "selectDocuments compress compCfg answer query profile =
     (if trim_space query = [] \<or> \<not> cf_AllowDocs profile \<or> cb_DocumentTokens (cf_Budget profile) = 0
      then noDocuments [''documents disabled''] None
      else (let (trace, res) = answer query; metrics = retrievalMetricsFromQueryTrace trace;
                budget = cb_DocumentTokens (cf_Budget profile)
            in case res of
                 Inl err \<Rightarrow> noDocuments [''documents unavailable: '' @ err, formatRetrievalTraceNote metrics] metrics
               | Inr docs \<Rightarrow>
                   if docs = [] then noDocuments [''documents empty'', formatRetrievalTraceNote metrics] metrics
                   else (let (st, reports) = documentLoop (compressItem compress (Some compCfg) SourceRAG query) 0 docs
                                               (startSelection budget) []
                         in \<lparr>ds_selected = sl_selected st, ds_dropped = sl_dropped st, ds_used = sl_used st,
                             ds_notes = [tokenNote (sl_used st) budget, formatRetrievalTraceNote metrics],
                             ds_metrics = metrics, ds_reports = reports\<rparr>)))"

subsection \<open>History\<close>

record history_selection =
  hs_selectedIdx :: "nat list"
  hs_dropped :: "context_item list"
  hs_used :: int
  hs_remaining :: int

text \<open>The loop from the newest message to the oldest; \<open>ms\<close> are the messages not yet seen, the newest first.\<close>

fun historyLoop :: "int \<Rightarrow> chat_message list \<Rightarrow> history_selection \<Rightarrow> history_selection" where
  "historyLoop maxMessages [] st = st"
| "historyLoop maxMessages (msg # ms) st =
     (let i = length ms; tokens = EstimateTokens (cm_Content msg)
      in historyLoop maxMessages ms
           (if int (length (hs_selectedIdx st)) \<ge> maxMessages
            then st\<lparr>hs_dropped := hs_dropped st @ [newDroppedHistoryItem i msg ''history_window'']\<rparr>
            else if tokens > hs_remaining st
            then st\<lparr>hs_dropped := hs_dropped st @ [newDroppedHistoryItem i msg ''history_budget'']\<rparr>
            else st\<lparr>hs_selectedIdx := hs_selectedIdx st @ [i], hs_remaining := hs_remaining st - tokens,
                    hs_used := hs_used st + tokens\<rparr>))"

text \<open>A message that is taken if it is not yet selected and there are tokens left for it.\<close>

definition rescue :: "nat \<Rightarrow> chat_message \<Rightarrow> history_selection \<Rightarrow> history_selection" where
  "rescue i msg st =
     (let tokens = EstimateTokens (cm_Content msg)
      in if i \<notin> set (hs_selectedIdx st) \<and> tokens \<le> hs_remaining st
         then st\<lparr>hs_selectedIdx := hs_selectedIdx st @ [i], hs_remaining := hs_remaining st - tokens,
                 hs_used := hs_used st + tokens\<rparr>
         else st)"

definition rescueSummary :: "chat_message list \<Rightarrow> history_selection \<Rightarrow> history_selection" where
  "rescueSummary history st =
     (if history \<noteq> [] \<and> hasSummaryPrefix (history ! 0) \<and> 0 \<notin> set (hs_selectedIdx st)
      then (let st1 = rescue 0 (history ! 0) st
            in if length history > 1 then rescue 1 (history ! 1) st1 else st1)
      else st)"

definition collectHistory :: "nat list \<Rightarrow> nat \<times> chat_message \<Rightarrow> chat_message list \<times> context_item list \<Rightarrow>
     chat_message list \<times> context_item list" where
  "collectHistory selectedIdx = (\<lambda>(idx, msg) (selected, dropped).
     if idx \<in> set selectedIdx then (selected @ [msg], dropped)
     else if \<not> containsDroppedHistory dropped idx
     then (selected, dropped @ [newDroppedHistoryItem idx msg ''history_window''])
     else (selected, dropped))"

definition selectHistory ::
  "chat_message list \<Rightarrow> context_profile \<Rightarrow> chat_message list \<times> context_item list \<times> int \<times> string list" where
  "selectHistory history profile =
     (if history = [] \<or> cf_MaxHistoryMessages profile = 0 \<or> cb_HistoryTokens (cf_Budget profile) = 0
      then ([], [], 0, [''history disabled''])
      else (let st = rescueSummary history (historyLoop (cf_MaxHistoryMessages profile) (rev history)
                       \<lparr>hs_selectedIdx = [], hs_dropped = [], hs_used = 0,
                        hs_remaining = cb_HistoryTokens (cf_Budget profile)\<rparr>);
                (selected, dropped) = fold (collectHistory (hs_selectedIdx st)) (enumerate 0 history) ([], hs_dropped st)
            in (selected, dropped, hs_used st, [tokenNote (hs_used st) (cb_HistoryTokens (cf_Budget profile))])))"

subsection \<open>Tool items\<close>

record evidence_snippet =
  es_SourceType :: string
  es_SourceID :: string
  es_Title :: string
  es_Snippet :: string
  es_Score :: f64

record task_result =
  tr_TaskID :: string
  tr_Agent :: string
  tr_Summary :: string
  tr_Confidence :: f64
  tr_Evidence :: "evidence_snippet list"

definition fallbackString :: "string \<Rightarrow> string \<Rightarrow> string" where
  "fallbackString value alt = (if trim_space value \<noteq> [] then value else alt)"

definition itemID :: "string list \<Rightarrow> string" where
  "itemID parts =
     (let filtered = filter (\<lambda>p. trim_space p \<noteq> []) parts
      in if filtered = [] then ''context-item'' else join '':'' filtered)"

definition normalizeSourceType :: "string \<Rightarrow> string" where
  "normalizeSourceType value = (if trim_space value = [] then ''tool_result'' else value)"

definition toolItem :: "string \<Rightarrow> context_item \<Rightarrow> context_item" where
  "toolItem agent item =
     item\<lparr>ci_TokenEstimate := EstimateTokens (ci_Content item), ci_OriginAgent := agent, ci_SafetyLabel := ''tool_output'',
          ci_UpdatePolicy := ''ephemeral'', ci_ConflictGroup := agent\<rparr>"

definition evidenceItem :: "task_result \<Rightarrow> evidence_snippet \<Rightarrow> context_item list" where
  "evidenceItem result evidence =
     (let content = trim_space (es_Snippet evidence)
      in if content = [] then []
         else [toolItem (tr_Agent result)
                 (emptyItem\<lparr>ci_ID := itemID [tr_Agent result, es_SourceID evidence, es_Title evidence],
                    ci_SourceType := normalizeSourceType (es_SourceType evidence),
                    ci_SourceID := fallbackString (es_SourceID evidence) (es_Title evidence),
                    ci_Title := fallbackString (es_Title evidence) (tr_Agent result @ '' evidence''),
                    ci_Content := content, ci_Score := es_Score evidence, ci_TrustLevel := ''tool_evidence''\<rparr>)])"

definition resultItems :: "task_result option \<Rightarrow> context_item list" where
  "resultItems result0 =
     (case result0 of
        None \<Rightarrow> []
      | Some result \<Rightarrow>
          if tr_Evidence result \<noteq> [] then concat (map (evidenceItem result) (tr_Evidence result))
          else (let summary = trim_space (tr_Summary result)
                in if summary = [] then []
                   else [toolItem (tr_Agent result)
                           (emptyItem\<lparr>ci_ID := itemID [tr_Agent result, tr_TaskID result, ''summary''],
                              ci_SourceType := ''tool_result'', ci_SourceID := tr_TaskID result,
                              ci_Title := tr_Agent result @ '' summary'', ci_Content := summary,
                              ci_Score := tr_Confidence result, ci_TrustLevel := ''tool_result''\<rparr>)]))"

definition ToolItemsFromResults :: "task_result option list \<Rightarrow> context_item list" where
  "ToolItemsFromResults results = concat (map resultItems results)"

definition ToolItemSnippets :: "context_item list \<Rightarrow> int \<Rightarrow> string list" where
  "ToolItemSnippets items limit =
     (if limit \<le> 0 then []
      else map (\<lambda>item. fallbackString (ci_Title item) (ci_SourceID item) @ t_label_colon @
                        fallbackString (trim_space (ci_Content item)) t_no_summary)
             (take (nat limit) items))"

end
