(* ===== verification/Ctx_Recall.thy ===== *)
theory Ctx_Recall
  imports Ctx_Select
begin

text \<open>
  Recalling what is relevant to a query (internal/ai/contextengine): history_recall.go (messages of the history by the
  similarity of their embeddings, with the cache of embeddings), tool_recall.go (tool results by keywords) and
  tool_reranker.go (tool results by the scores of a model).

  The embedder, the model and the decoder of its answer are parameters. So are the results of \<open>regexp\<close> (the texts
  each pattern finds) and the functions \<open>Sqrt\<close> and \<open>Pow\<close> of \<open>math\<close>. \<open>hash8\<close> is the hexadecimal form of the first
  eight bytes of a text's SHA-256.
\<close>

record recall_env =
  rv_lower :: "string \<Rightarrow> string"
  rv_hash8 :: "string \<Rightarrow> string"
  rv_services :: "string \<Rightarrow> string list"
  rv_errorCodes :: "string \<Rightarrow> string list"
  rv_metrics :: "string \<Rightarrow> string list"
  rv_entities :: "string \<Rightarrow> string list"
  rv_sqrt :: "f64 \<Rightarrow> f64"
  rv_pow :: "f64 \<Rightarrow> f64 \<Rightarrow> f64"

subsection \<open>The cache of embeddings\<close>

type_synonym vector = "f64 list"

record cache_entry =
  ce_vec :: vector
  ce_expiresAt :: gotime

record embedding_cache =
  ec_items :: "(string, cache_entry) gomap"
  ec_order :: "string list"
  ec_maxSize :: int
  ec_ttl :: duration

definition newEmbeddingCache :: "int \<Rightarrow> duration \<Rightarrow> embedding_cache" where
  "newEmbeddingCache maxSize ttl = \<lparr>ec_items = [], ec_order = [], ec_maxSize = maxSize, ec_ttl = ttl\<rparr>"

definition cacheGet :: "gotime \<Rightarrow> string \<Rightarrow> embedding_cache \<Rightarrow> vector option" where
  "cacheGet now key c =
     (case gm_get (ec_items c) key of
        None \<Rightarrow> None
      | Some entry \<Rightarrow> if now > ce_expiresAt entry then None else Some (ce_vec entry))"

text \<open>The loop that makes room; \<open>None\<close> is the panic of reading the first key of an empty order.\<close>

fun evictOldest :: "int \<Rightarrow> string list \<Rightarrow> (string, cache_entry) gomap \<Rightarrow> (string list \<times> (string, cache_entry) gomap) option" where
  "evictOldest maxSize [] items = (if 0 \<ge> maxSize then None else Some ([], items))"
| "evictOldest maxSize (oldest # order) items =
     (if int (length (oldest # order)) \<ge> maxSize then evictOldest maxSize order (gm_del oldest items)
      else Some (oldest # order, items))"

definition cacheSet :: "gotime \<Rightarrow> string \<Rightarrow> vector \<Rightarrow> embedding_cache \<Rightarrow> embedding_cache option" where
  "cacheSet now key vec c =
     (let entry = \<lparr>ce_vec = vec, ce_expiresAt = now + ec_ttl c\<rparr>
      in if gm_get (ec_items c) key \<noteq> None
         then Some (c\<lparr>ec_items := gm_put key entry (ec_items c), ec_order := remove1 key (ec_order c) @ [key]\<rparr>)
         else (case evictOldest (ec_maxSize c) (ec_order c) (ec_items c) of
                 None \<Rightarrow> None
               | Some (order, items) \<Rightarrow> Some (c\<lparr>ec_items := gm_put key entry items, ec_order := order @ [key]\<rparr>)))"

subsection \<open>Scores\<close>

definition truncateForEmbedding :: "string \<Rightarrow> int \<Rightarrow> string" where
  "truncateForEmbedding t maxLen = (if int (length t) \<le> maxLen then t else take (nat maxLen) t @ ''...'')"

definition assistantTruncateLen :: int where "assistantTruncateLen = 200"

definition dotProduct :: "vector \<Rightarrow> vector \<Rightarrow> f64" where
  "dotProduct a b = fold (\<lambda>(x, y) s. fadd s (fmul x y)) (zip a b) 0"

definition cosineSimilarity :: "recall_env \<Rightarrow> vector \<Rightarrow> vector \<Rightarrow> f64" where
  "cosineSimilarity rv a b =
     (if length a \<noteq> length b \<or> a = [] then 0
      else (let dot = dotProduct a b; normA = dotProduct a a; normB = dotProduct b b
            in if normA = 0 \<or> normB = 0 then 0 else fdiv dot (fmul (rv_sqrt rv normA) (rv_sqrt rv normB))))"

definition historyRecencyBoost :: "recall_env \<Rightarrow> int \<Rightarrow> int \<Rightarrow> f64" where
  "historyRecencyBoost rv position n =
     (if n \<le> 1 then 0 else fmul (rnd (3 / 10)) (rv_pow rv (rnd (9 / 10)) (f64_of_int (n - 1 - position))))"

definition historyRoleBoost :: "chat_message \<Rightarrow> f64" where
  "historyRoleBoost msg = (if cm_Role msg = ''user'' then rnd (2 / 10) else 0)"

definition sharesText :: "string list \<Rightarrow> string list \<Rightarrow> bool" where
  "sharesText xs ys \<longleftrightarrow> list_ex (\<lambda>x. x \<in> set ys) xs"

definition historyEntityBoost :: "recall_env \<Rightarrow> chat_message \<Rightarrow> string \<Rightarrow> f64" where
  "historyEntityBoost rv msg query =
     (let lowerQuery = rv_lower rv query; lowerContent = rv_lower rv (cm_Content msg)
      in if sharesText (rv_services rv lowerQuery) (rv_services rv lowerContent) then rnd (3 / 10)
         else if sharesText (rv_entities rv lowerQuery) (rv_entities rv lowerContent) then rnd (3 / 10)
         else 0)"

definition combinedHistoryScore :: "recall_env \<Rightarrow> f64 \<Rightarrow> int \<Rightarrow> int \<Rightarrow> chat_message \<Rightarrow> string \<Rightarrow> f64" where
  "combinedHistoryScore rv cosine position n msg query =
     fmul cosine (fadd 1 (fadd (fadd (historyRecencyBoost rv position n) (historyRoleBoost msg))
                               (historyEntityBoost rv msg query)))"

subsection \<open>Choosing messages\<close>

record scored_message =
  sc_message :: history_message
  sc_score :: f64
  sc_position :: nat

fun topKLoop :: "int \<Rightarrow> f64 \<Rightarrow> scored_message list \<Rightarrow> scored_message list \<Rightarrow> scored_message list" where
  "topKLoop topK threshold [] selected = selected"
| "topKLoop topK threshold (s # ss) selected =
     (if int (length selected) \<ge> topK then selected
      else if sc_score s < threshold then selected
      else topKLoop topK threshold ss (selected @ [s]))"

definition topKWithThreshold :: "scored_message list \<Rightarrow> int \<Rightarrow> f64 \<Rightarrow> scored_message list" where
  "topKWithThreshold scored topK threshold =
     (let selected = topKLoop topK threshold scored []
      in if selected = [] \<and> scored \<noteq> [] then [hd scored] else selected)"

text \<open>The partner of a scored message: the answer after a user's message, the user's message before an answer.\<close>

definition partnerOf :: "history_message list \<Rightarrow> scored_message \<Rightarrow> scored_message list" where
  "partnerOf history s =
     (let p = sc_position s
      in (if hm_Role (sc_message s) = ''user'' \<and> p + 1 < length history \<and> hm_Role (history ! (p + 1)) = ''assistant''
          then [\<lparr>sc_message = history ! (p + 1), sc_score = sc_score s, sc_position = p + 1\<rparr>] else []) @
         (if hm_Role (sc_message s) = ''assistant'' \<and> p \<ge> 1 \<and> hm_Role (history ! (p - 1)) = ''user''
          then [\<lparr>sc_message = history ! (p - 1), sc_score = sc_score s, sc_position = p - 1\<rparr>] else []))"

text \<open>The positions in use are those of the messages selected.\<close>

definition pairStep :: "history_message list \<Rightarrow> scored_message \<Rightarrow> scored_message list \<Rightarrow> scored_message list" where
  "pairStep history s selected =
     (if sc_position s \<in> sc_position ` set selected \<or> sc_position s \<ge> length history then selected
      else selected @ [s] @ filter (\<lambda>q. sc_position q \<notin> sc_position ` set selected) (partnerOf history s))"

definition pairAwareSelect :: "scored_message list \<Rightarrow> history_message list \<Rightarrow> scored_message list" where
  "pairAwareSelect scored history =
     sort_slice (\<lambda>a b. sc_position a < sc_position b) (fold (pairStep history) scored [])"

fun findPosition :: "history_message \<Rightarrow> history_message list \<Rightarrow> nat" where
  "findPosition msg [] = 0"
| "findPosition msg (m # ms) = (if hm_Ref m = hm_Ref msg then 0 else Suc (findPosition msg ms))"

definition addUnseen :: "history_message \<Rightarrow> history_message list \<Rightarrow> history_message list" where
  "addUnseen msg merged = (if hm_Ref msg \<in> hm_Ref ` set merged then merged else merged @ [msg])"

definition mergeAndSort :: "history_message list \<Rightarrow> history_message list \<Rightarrow> history_message list \<Rightarrow> history_message list" where
  "mergeAndSort recalled recent history =
     sort_slice (\<lambda>a b. findPosition a history < findPosition b history) (fold addUnseen (recalled @ recent) [])"

subsection \<open>Recalling history\<close>

text \<open>How a call ends: in a panic, with an error, or with a result.\<close>

datatype 'a ended = Panic | Failed | Done 'a

record recaller =
  rc_cache :: embedding_cache
  rc_recentKeep :: int
  rc_threshold :: f64

definition NewHistoryRecaller :: recaller where
  "NewHistoryRecaller =
     \<lparr>rc_cache = newEmbeddingCache 1000 (600 * second), rc_recentKeep = 3, rc_threshold = rnd (3 / 10)\<rparr>"

record recall_result =
  rr_Messages :: "history_message list"
  rr_Scores :: "f64 list"
  rr_CacheHits :: int
  rr_Embedded :: int
  rr_LatencyMs :: int
  rr_Degraded :: bool

definition embedText :: "history_message \<Rightarrow> string" where
  "embedText msg = truncateForEmbedding (hm_Content msg) assistantTruncateLen"

definition cachedVector :: "recall_env \<Rightarrow> gotime \<Rightarrow> embedding_cache \<Rightarrow> history_message \<Rightarrow> vector option" where
  "cachedVector rv now c msg = cacheGet now (rv_hash8 rv (embedText msg)) c"

text \<open>The vectors of the messages: those in the cache, and for the others the vectors of one call of the embedder in
  the order of the messages. Too few vectors are an index out of range.\<close>

fun fillVectors :: "vector option list \<Rightarrow> vector list \<Rightarrow> vector list option" where
  "fillVectors [] vs = Some []"
| "fillVectors (Some v # cs) vs = map_option (\<lambda>r. v # r) (fillVectors cs vs)"
| "fillVectors (None # cs) [] = None"
| "fillVectors (None # cs) (v # vs) = map_option (\<lambda>r. v # r) (fillVectors cs vs)"

fun storeVectors :: "recall_env \<Rightarrow> gotime \<Rightarrow> (string \<times> vector) list \<Rightarrow> embedding_cache \<Rightarrow> embedding_cache option" where
  "storeVectors rv now [] c = Some c"
| "storeVectors rv now ((t, v) # tvs) c =
     (case cacheSet now (rv_hash8 rv t) v c of None \<Rightarrow> None | Some c' \<Rightarrow> storeVectors rv now tvs c')"

definition getEmbeddings ::
  "recall_env \<Rightarrow> (string list \<Rightarrow> vector list option) \<Rightarrow> gotime \<Rightarrow> history_message list \<Rightarrow> embedding_cache \<Rightarrow>
     (vector list \<times> int) ended \<times> embedding_cache" where
  "getEmbeddings rv embedder now messages c =
     (let cached = map (cachedVector rv now c) messages;
          cacheHits = int (length (filter (\<lambda>v. v \<noteq> None) cached));
          missing = filter (\<lambda>m. cachedVector rv now c m = None) messages;
          texts = map embedText missing
      in if texts = [] then (Done (map the cached, cacheHits), c)
         else (case embedder texts of
                 None \<Rightarrow> (Failed, c)
               | Some vs \<Rightarrow>
                   (case fillVectors cached vs of
                      None \<Rightarrow> (Panic, c)
                    | Some vecs \<Rightarrow>
                        (case storeVectors rv now (zip texts vs) c of
                           None \<Rightarrow> (Panic, c)
                         | Some c' \<Rightarrow> (Done (vecs, cacheHits), c')))))"

definition scoreMessages :: "recall_env \<Rightarrow> vector \<Rightarrow> string \<Rightarrow> history_message list \<Rightarrow> vector list \<Rightarrow> scored_message list" where
  "scoreMessages rv queryVec query candidates vecs =
     map (\<lambda>(i, msg, vec). \<lparr>sc_message = msg,
            sc_score = combinedHistoryScore rv (cosineSimilarity rv queryVec vec) (int i) (int (length candidates)) (hm_Msg msg) query,
            sc_position = i\<rparr>)
       (enumerate 0 (zip candidates vecs))"

definition recallByEmbedding ::
  "recall_env \<Rightarrow> (string list \<Rightarrow> vector list option) \<Rightarrow> gotime \<Rightarrow> string \<Rightarrow> history_message list \<Rightarrow> int \<Rightarrow> recaller \<Rightarrow>
     (scored_message list \<times> int \<times> int) ended \<times> recaller" where
  "recallByEmbedding rv embedder now query candidates topK r =
     (if candidates = [] \<or> topK \<le> 0 then (Done ([], 0, 0), r)
      else (case embedder [truncateForEmbedding query assistantTruncateLen] of
              None \<Rightarrow> (Failed, r)
            | Some [] \<Rightarrow> (Failed, r)
            | Some (queryVec # _) \<Rightarrow>
                (let (res, c') = getEmbeddings rv embedder now candidates (rc_cache r); r' = r\<lparr>rc_cache := c'\<rparr>
                 in case res of
                      Panic \<Rightarrow> (Panic, r')
                    | Failed \<Rightarrow> (Failed, r')
                    | Done (vecs, cacheHits) \<Rightarrow>
                        (let scored = sort_slice (\<lambda>a b. sc_score a > sc_score b) (scoreMessages rv queryVec query candidates vecs);
                             paired = pairAwareSelect (topKWithThreshold scored topK (rc_threshold r)) candidates
                         in (Done (paired, cacheHits, int (length candidates) - cacheHits), r')))))"

definition fallbackPositional :: "history_message list \<Rightarrow> int \<Rightarrow> history_message list" where
  "fallbackPositional history topK =
     (if int (length history) \<le> topK then history else drop (nat (int (length history) - topK)) history)"

text \<open>A negative \<open>topK\<close> is a length of a slice that does not exist.\<close>

definition degradedResult :: "int \<Rightarrow> history_message list \<Rightarrow> int \<Rightarrow> recall_result ended" where
  "degradedResult latency history topK =
     (if topK < 0 then Panic
      else Done \<lparr>rr_Messages = fallbackPositional history topK,
                 rr_Scores = replicate (nat (min topK (int (length history)))) 0,
                 rr_CacheHits = 0, rr_Embedded = 0, rr_LatencyMs = latency, rr_Degraded = True\<rparr>)"

text \<open>\<open>Recall\<close>; \<open>ready\<close> is whether there is an embedder.\<close>

definition historyRecall ::
  "recall_env \<Rightarrow> bool \<Rightarrow> (string list \<Rightarrow> vector list option) \<Rightarrow> gotime \<Rightarrow> int \<Rightarrow> string \<Rightarrow> history_message list \<Rightarrow> int \<Rightarrow> recaller \<Rightarrow>
     recall_result ended \<times> recaller" where
  "historyRecall rv ready embedder now latency query history topK r =
     (if int (length history) \<le> topK
      then (Done \<lparr>rr_Messages = history, rr_Scores = replicate (length history) 0, rr_CacheHits = 0, rr_Embedded = 0,
                  rr_LatencyMs = latency, rr_Degraded = False\<rparr>, r)
      else if \<not> ready then (degradedResult latency history topK, r)
      else (let recentCount = min (rc_recentKeep r) (int (length history));
                split = nat (int (length history) - recentCount);
                (res, r') = recallByEmbedding rv embedder now query (take split history) (topK - recentCount) r
            in case res of
                 Panic \<Rightarrow> (Panic, r')
               | Failed \<Rightarrow> (degradedResult latency history topK, r')
               | Done (paired, cacheHits, embedded) \<Rightarrow>
                   (Done \<lparr>rr_Messages = mergeAndSort (map sc_message paired) (drop split history) history,
                          rr_Scores = map sc_score paired, rr_CacheHits = cacheHits, rr_Embedded = embedded,
                          rr_LatencyMs = latency, rr_Degraded = False\<rparr>, r')))"

subsection \<open>Recalling tool results\<close>

text \<open>The terms of operations in Chinese with their English keywords. The source keeps them in a map; the order of the
  keywords does not matter to a score.\<close>

definition cnKeywordsMap :: "(string \<times> string) list" where
  "cnKeywordsMap =
     [([CHR 0xE8, CHR 0xB6, CHR 0x85, CHR 0xE6, CHR 0x97, CHR 0xB6], ''timeout''),
      ([CHR 0xE8, CHR 0xBF, CHR 0x9E, CHR 0xE6, CHR 0x8E, CHR 0xA5], ''connection''),
      ([CHR 0xE6, CHR 0x8B, CHR 0x92, CHR 0xE7, CHR 0xBB, CHR 0x9D], ''refused''),
      ([CHR 0xE5, CHR 0xBB, CHR 0xB6, CHR 0xE8, CHR 0xBF, CHR 0x9F], ''latency''),
      ([CHR 0xE6, CHR 0x8C, CHR 0x82, CHR 0xE4, CHR 0xBA, CHR 0x86], ''down''),
      ([CHR 0xE5, CHR 0xBC, CHR 0x82, CHR 0xE5, CHR 0xB8, CHR 0xB8], ''error''),
      ([CHR 0xE5, CHR 0x91, CHR 0x8A, CHR 0xE8, CHR 0xAD, CHR 0xA6], ''alert''),
      ([CHR 0xE6, CHR 0x95, CHR 0x85, CHR 0xE9, CHR 0x9A, CHR 0x9C], ''failure''),
      ([CHR 0xE5, CHR 0xAE, CHR 0x95, CHR 0xE6, CHR 0x9C, CHR 0xBA], ''down''),
      ([CHR 0xE6, CHR 0x85, CHR 0xA2, CHR 0xE6, CHR 0x9F, CHR 0xA5, CHR 0xE8, CHR 0xAF, CHR 0xA2], ''slow query''),
      ([CHR 0xE7, CHR 0x93, CHR 0xB6, CHR 0xE9, CHR 0xA2, CHR 0x88], ''bottleneck''),
      ([CHR 0xE6, CHR 0x8A, CHR 0x96, CHR 0xE5, CHR 0x8A, CHR 0xA8], ''jitter''),
      ([CHR 0xE9, CHR 0xA3, CHR 0x99, CHR 0xE5, CHR 0x8D, CHR 0x87], ''spike''),
      ([CHR 0xE6, CHR 0x89, CHR 0x93, CHR 0xE6, CHR 0xBB, CHR 0xA1], ''full''),
      ([CHR 0xE8, CHR 0x80, CHR 0x97, CHR 0xE5, CHR 0xB0, CHR 0xBD], ''exhausted''),
      ([CHR 0xE5, CHR 0xA0, CHR 0x86, CHR 0xE7, CHR 0xA7, CHR 0xAF], ''backlog''),
      ([CHR 0xE9, CHR 0x98, CHR 0xBB, CHR 0xE5, CHR 0xA1, CHR 0x9E], ''block''),
      ([CHR 0xE6, CHR 0xBA, CHR 0xA2, CHR 0xE5, CHR 0x87, CHR 0xBA], ''overflow''),
      ([CHR 0xE9, CHR 0x87, CHR 0x8D, CHR 0xE5, CHR 0x90, CHR 0xAF], ''restart''),
      ([CHR 0xE5, CHR 0xB4, CHR 0xA9, CHR 0xE6, CHR 0xBA, CHR 0x83], ''crash''),
      (''OOM'', ''oom'')]"

definition uniqueStrings :: "string list \<Rightarrow> string list" where
  "uniqueStrings strs = dedup_from [] (filter (\<lambda>s. s \<noteq> []) (map trim_space strs))"

definition extractKeywords :: "recall_env \<Rightarrow> string \<Rightarrow> string list" where
  "extractKeywords rv query =
     (let lowerQuery = rv_lower rv query
      in uniqueStrings
           (rv_services rv lowerQuery @ rv_errorCodes rv lowerQuery @ rv_metrics rv lowerQuery @ rv_entities rv lowerQuery @
            concat (map (\<lambda>(cn, en). if contains cn query then [en, cn] else []) cnKeywordsMap)))"

definition matchScore :: "recall_env \<Rightarrow> string list \<Rightarrow> context_item \<Rightarrow> f64" where
  "matchScore rv keywords item =
     (if keywords = [] then 0
      else (let metaText = rv_lower rv (ci_Title item @ '' '' @ ci_SourceType item @ '' '' @ ci_SourceID item);
                content = rv_lower rv (ci_Content item);
                meta = fold (\<lambda>kw s. if contains (rv_lower rv kw) metaText then fadd s 2 else s) keywords 0
            in fold (\<lambda>kw s. if contains (rv_lower rv kw) content then fadd s 1 else s) keywords meta))"

record tool_recall_result =
  tl_Items :: "context_item list"
  tl_LatencyMs :: int

definition byScore :: "(context_item \<times> f64) list \<Rightarrow> (context_item \<times> f64) list" where
  "byScore xs = sort_slice (\<lambda>a b. snd a > snd b) xs"

definition toolRecall :: "recall_env \<Rightarrow> int \<Rightarrow> string \<Rightarrow> context_item list \<Rightarrow> int \<Rightarrow> tool_recall_result" where
  "toolRecall rv latency query items topK =
     (if int (length items) \<le> topK then \<lparr>tl_Items = items, tl_LatencyMs = latency\<rparr>
      else (let keywords = extractKeywords rv query;
                scored = byScore (map (\<lambda>item. (item, matchScore rv keywords item)) items)
            in \<lparr>tl_Items = map fst (take (nat topK) scored), tl_LatencyMs = latency\<rparr>))"

subsection \<open>Reranking tool results\<close>

record rerank_config =
  rk_Enabled :: bool
  rk_MinCandidates :: int
  rk_CandidateLimit :: int
  rk_TimeoutMs :: int
  rk_Profiles :: "string list"
  rk_CacheTTLSecs :: int
  rk_Model :: string

definition NewToolReranker :: "rerank_config option \<Rightarrow> rerank_config" where
  "NewToolReranker config0 =
     (let config = (case config0 of Some c \<Rightarrow> c
                    | None \<Rightarrow> \<lparr>rk_Enabled = False, rk_MinCandidates = 0, rk_CandidateLimit = 0, rk_TimeoutMs = 0,
                                rk_Profiles = [], rk_CacheTTLSecs = 0, rk_Model = []\<rparr>)
      in config\<lparr>rk_CandidateLimit := (if rk_CandidateLimit config \<le> 0 then 20 else rk_CandidateLimit config),
                rk_MinCandidates := (if rk_MinCandidates config \<le> 0 then 6 else rk_MinCandidates config),
                rk_TimeoutMs := (if rk_TimeoutMs config \<le> 0 then 2000 else rk_TimeoutMs config)\<rparr>)"

record rerank_outcome =
  ro_Items :: "context_item list"
  ro_Enabled :: bool
  ro_Degraded :: bool
  ro_Reason :: string
  ro_CandidateCount :: int
  ro_LatencyMs :: int
  ro_Scores :: "f64 list"

definition takeTopK :: "context_item list \<Rightarrow> int \<Rightarrow> context_item list" where
  "takeTopK items topK = (if int (length items) \<le> topK then items else take (nat topK) items)"

definition truncateSnippetText :: "string \<Rightarrow> int \<Rightarrow> string" where
  "truncateSnippetText content limit =
     (if limit \<le> 0 \<or> int (length (runes content)) \<le> limit then content
      else concat (take (nat limit) (runes content)) @ ''...'')"

text \<open>\<open>redact\<close> stands for the replacements of the seven patterns.\<close>

definition sanitizeSnippets :: "(string \<Rightarrow> string) \<Rightarrow> context_item list \<Rightarrow> context_item list" where
  "sanitizeSnippets redact items =
     map (\<lambda>item. item\<lparr>ci_Content := truncateSnippetText (redact (ci_Content item)) 200\<rparr>) items"

text \<open>The scores of an answer: \<open>decoded\<close> are the entries of its JSON, \<open>None\<close> if it is none, \<open>found\<close> those the pattern finds.\<close>

definition setScores :: "int \<Rightarrow> (int \<times> f64) list \<Rightarrow> f64 list" where
  "setScores expectedCount entries =
     fold (\<lambda>(eid, score) scores. let idx = eid - 1
             in if idx \<ge> 0 \<and> idx < expectedCount then scores[nat idx := min 10 (max 0 score)] else scores)
       entries (replicate (nat expectedCount) 0)"

record score_parser =
  sp_decoded :: "string \<Rightarrow> (int \<times> f64) list option"
  sp_found :: "string \<Rightarrow> (int \<times> f64) list"

definition parseRerankScores :: "score_parser \<Rightarrow> string \<Rightarrow> int \<Rightarrow> f64 list option" where
  "parseRerankScores sp resp expectedCount =
     (case sp_decoded sp resp of
        Some (e # es) \<Rightarrow> Some (setScores expectedCount (e # es))
      | _ \<Rightarrow> if sp_found sp resp = [] then None else Some (setScores expectedCount (sp_found sp resp)))"

definition selectByScore :: "context_item list \<Rightarrow> f64 list \<Rightarrow> int \<Rightarrow> context_item list" where
  "selectByScore items scores topK =
     map fst (take (nat topK) (byScore (map (\<lambda>(i, item). (item, if i < length scores then scores ! i else 0)) (enumerate 0 items))))"

definition t_rerank_head :: string where \<comment> \<open>the task: judge the tool results\<close>
  "t_rerank_head =
     [CHR 0xE4, CHR 0xBD, CHR 0xA0, CHR 0xE6, CHR 0x98, CHR 0xAF, CHR 0xE8, CHR 0xBF, CHR 0x90, CHR
      0xE7, CHR 0xBB, CHR 0xB4, CHR 0xE4, CHR 0xB8, CHR 0x93, CHR 0xE5, CHR 0xAE, CHR 0xB6, CHR
      0xE3, CHR 0x80, CHR 0x82, CHR 0xE5, CHR 0x88, CHR 0xA4, CHR 0xE6, CHR 0x96, CHR 0xAD, CHR
      0xE4, CHR 0xBB, CHR 0xA5, CHR 0xE4, CHR 0xB8, CHR 0x8B, CHR 0xE5, CHR 0xB7, CHR 0xA5, CHR
      0xE5, CHR 0x85, CHR 0xB7, CHR 0xE7, CHR 0xBB, CHR 0x93, CHR 0xE6, CHR 0x9E, CHR 0x9C, CHR
      0xE5, CHR 0x92, CHR 0x8C, CHR 0xE7, CHR 0x94, CHR 0xA8, CHR 0xE6, CHR 0x88, CHR 0xB7, CHR
      0xE9, CHR 0x97, CHR 0xAE, CHR 0xE9, CHR 0xA2, CHR 0x98, CHR 0xE7, CHR 0x9A, CHR 0x84, CHR
      0xE7, CHR 0x9B, CHR 0xB8, CHR 0xE5, CHR 0x85, CHR 0xB3, CHR 0xE6, CHR 0x80, CHR 0xA7, CHR
      0xE3, CHR 0x80, CHR 0x82, CHR 0x0A, CHR 0x0A]"

definition t_rerank_question :: string where \<comment> \<open>the question of the user\<close>
  "t_rerank_question =
     [CHR 0xE7, CHR 0x94, CHR 0xA8, CHR 0xE6, CHR 0x88, CHR 0xB7, CHR 0xE9, CHR 0x97, CHR 0xAE, CHR
      0xE9, CHR 0xA2, CHR 0x98, CHR 0xEF, CHR 0xBC, CHR 0x9A]"

definition t_rerank_tools :: string where \<comment> \<open>the tool results, redacted and cut\<close>
  "t_rerank_tools =
     [CHR 0xE5, CHR 0xB7, CHR 0xA5, CHR 0xE5, CHR 0x85, CHR 0xB7, CHR 0xE7, CHR 0xBB, CHR 0x93, CHR
      0xE6, CHR 0x9E, CHR 0x9C, CHR 0xEF, CHR 0xBC, CHR 0x88, CHR 0xE5, CHR 0xB7, CHR 0xB2, CHR
      0xE8, CHR 0x84, CHR 0xB1, CHR 0xE6, CHR 0x95, CHR 0x8F, CHR 0xE5, CHR 0x92, CHR 0x8C, CHR
      0xE8, CHR 0xA3, CHR 0x81, CHR 0xE5, CHR 0x89, CHR 0xAA, CHR 0xEF, CHR 0xBC, CHR 0x89, CHR
      0xEF, CHR 0xBC, CHR 0x9A, CHR 0x0A]"

definition t_rerank_format :: string where \<comment> \<open>the form of the answer\<close>
  "t_rerank_format =
     [CHR 0x0A, CHR 0xE4, CHR 0xB8, CHR 0xA5, CHR 0xE6, CHR 0xA0, CHR 0xBC, CHR 0xE6, CHR 0x8C, CHR
      0x89, CHR 0xE4, CHR 0xBB, CHR 0xA5, CHR 0xE4, CHR 0xB8, CHR 0x8B] @ '' JSON '' @ [CHR 0xE6,
      CHR 0xA0, CHR 0xBC, CHR 0xE5, CHR 0xBC, CHR 0x8F, CHR 0xE8, CHR 0xBE, CHR 0x93, CHR 0xE5, CHR
      0x87, CHR 0xBA, CHR 0xEF, CHR 0xBC, CHR 0x8C, CHR 0xE4, CHR 0xB8, CHR 0x8D, CHR 0xE8, CHR
      0xA6, CHR 0x81, CHR 0xE6, CHR 0xB7, CHR 0xBB, CHR 0xE5, CHR 0x8A, CHR 0xA0, CHR 0xE4, CHR
      0xBB, CHR 0xBB, CHR 0xE4, CHR 0xBD, CHR 0x95, CHR 0xE5, CHR 0x85, CHR 0xB6, CHR 0xE4, CHR
      0xBB, CHR 0x96, CHR 0xE6, CHR 0x96, CHR 0x87, CHR 0xE5, CHR 0xAD, CHR 0x97, CHR 0xEF, CHR
      0xBC, CHR 0x9A, CHR 0x0A] @
     ''{'' @ [CHR 0x22] @ ''scores'' @ [CHR 0x22] @ '': [{'' @ [CHR 0x22] @ ''id'' @ [CHR 0x22] @
      '': 1, '' @ [CHR 0x22] @ ''score'' @ [CHR 0x22] @ '': 9}, {'' @ [CHR 0x22] @ ''id'' @ [CHR
      0x22] @ '': 2, '' @ [CHR 0x22] @ ''score'' @ [CHR 0x22] @ '': 2}]}''"

definition promptLine :: "nat \<times> context_item \<Rightarrow> string" where
  "promptLine = (\<lambda>(i, item).
     ''['' @ itoa (int i + 1) @ ''] source='' @ ci_SourceType item @ '' title='' @ ci_Title item @ '' content='' @
     truncateSnippetText (ci_Content item) 200 @ nl)"

definition buildRerankPrompt :: "string \<Rightarrow> context_item list \<Rightarrow> string" where
  "buildRerankPrompt query items =
     t_rerank_head @ t_rerank_question @ query @ nl @ nl @ t_rerank_tools @
     concat (map promptLine (enumerate 0 items)) @ t_rerank_format"

text \<open>\<open>generate\<close> is the model's answer to a prompt, a text or an error.\<close>

definition scoreCandidates ::
  "score_parser \<Rightarrow> (string \<Rightarrow> string + string) \<Rightarrow> string \<Rightarrow> context_item list \<Rightarrow> string + f64 list" where
  "scoreCandidates sp generate query items =
     (case generate (buildRerankPrompt query items) of
        Inl err \<Rightarrow> Inl err
      | Inr resp \<Rightarrow>
          (case parseRerankScores sp resp (int (length items)) of
             None \<Rightarrow> Inl ''parse_rerank_scores_failed''
           | Some scores \<Rightarrow> Inr scores))"

text \<open>\<open>model\<close> is \<open>None\<close> if it cannot be made.\<close>

definition Rerank ::
  "(string \<Rightarrow> string) \<Rightarrow> score_parser \<Rightarrow> (string \<Rightarrow> string + string) option \<Rightarrow> int \<Rightarrow> rerank_config \<Rightarrow>
     string \<Rightarrow> context_item list \<Rightarrow> int \<Rightarrow> rerank_outcome" where
  "Rerank redact sp model latency config query items topK =
     (let outcome = \<lparr>ro_Items = [], ro_Enabled = False, ro_Degraded = False, ro_Reason = [],
                     ro_CandidateCount = 0, ro_LatencyMs = 0, ro_Scores = []\<rparr>;
          failed = outcome\<lparr>ro_Items := takeTopK items topK, ro_Enabled := True, ro_Degraded := True, ro_LatencyMs := latency\<rparr>
      in if items = [] then outcome\<lparr>ro_Reason := ''empty_candidates''\<rparr>
         else if \<not> rk_Enabled config \<or> int (length items) < rk_MinCandidates config
         then outcome\<lparr>ro_Items := takeTopK items topK, ro_Reason := ''disabled_or_too_few''\<rparr>
         else (case model of
                 None \<Rightarrow> failed\<lparr>ro_Reason := ''model_init_failed''\<rparr>
               | Some generate \<Rightarrow>
                   (let candidates = (if int (length items) > rk_CandidateLimit config
                                      then take (nat (rk_CandidateLimit config)) items else items)
                    in case scoreCandidates sp generate query (sanitizeSnippets redact candidates) of
                         Inl err \<Rightarrow> failed\<lparr>ro_Reason := err, ro_CandidateCount := int (length candidates)\<rparr>
                       | Inr scores \<Rightarrow>
                           outcome\<lparr>ro_Items := selectByScore candidates scores topK, ro_Enabled := True,
                             ro_CandidateCount := int (length candidates), ro_LatencyMs := latency, ro_Scores := scores\<rparr>)))"

end
