(* ===== verification/Ctx_Assemble.thy ===== *)
theory Ctx_Assemble
  imports Ctx_Recall
begin

text \<open>
  Assembling a context (internal/ai/contextengine): intent_recognizer.go, assembler.go, the configuration of the
  reranker (resolver.go) and the texts made of a package (DocumentsContent in documents.go, TraceDetails in
  assembler_helpers.go). The state of an assembler is its recaller of the history with the cache of embeddings; the
  memory is only read. An assembly that panics (the recall of a history can) has no package, \<open>None\<close>.

  The model of the intent, the CMDB and the retrieval of documents are parameters. The clock is read once for an
  assembly and once for the retrieval of memories.
\<close>

subsection \<open>Intents\<close>

abbreviation IntentFaultDiagnosis :: string where "IntentFaultDiagnosis \<equiv> ''fault_diagnosis''"
abbreviation IntentKnowledgeQuery :: string where "IntentKnowledgeQuery \<equiv> ''knowledge_query''"
abbreviation IntentChat :: string where "IntentChat \<equiv> ''chat''"
abbreviation IntentUnknown :: string where "IntentUnknown \<equiv> []"

record intent_result =
  it_Type :: string
  it_Degraded :: bool
  it_LatencyMs :: int

definition intentProfileMap :: "(string, string) gomap" where
  "intentProfileMap =
     [(IntentFaultDiagnosis, ''aiops_diagnosis''), (IntentKnowledgeQuery, ''chat''), (IntentChat, ''chat''),
      (IntentUnknown, ''chat'')]"

definition ProfileForIntent :: "string \<Rightarrow> string" where
  "ProfileForIntent intent = (case gm_get intentProfileMap intent of Some p \<Rightarrow> p | None \<Rightarrow> ''chat'')"

definition t_intent_prompt :: string where \<comment> \<open>asks for the type of a question\<close>
  "t_intent_prompt =
     [CHR 0xE5, CHR 0x88, CHR 0xA4, CHR 0xE6, CHR 0x96, CHR 0xAD, CHR 0xE4, CHR 0xBB, CHR 0xA5, CHR
      0xE4, CHR 0xB8, CHR 0x8B, CHR 0xE9, CHR 0x97, CHR 0xAE, CHR 0xE9, CHR 0xA2, CHR 0x98, CHR
      0xE7, CHR 0x9A, CHR 0x84, CHR 0xE7, CHR 0xB1, CHR 0xBB, CHR 0xE5, CHR 0x9E, CHR 0x8B, CHR
      0xEF, CHR 0xBC, CHR 0x8C, CHR 0xE5, CHR 0x8F, CHR 0xAA, CHR 0xE8, CHR 0xBE, CHR 0x93, CHR
      0xE5, CHR 0x87, CHR 0xBA] @ '' JSON'' @ [CHR 0xEF, CHR 0xBC, CHR 0x8C, CHR 0xE4, CHR 0xB8, CHR
      0x8D, CHR 0xE8, CHR 0xA6, CHR 0x81, CHR 0xE6, CHR 0xB7, CHR 0xBB, CHR 0xE5, CHR 0x8A, CHR
      0xA0, CHR 0xE5, CHR 0x85, CHR 0xB6, CHR 0xE4, CHR 0xBB, CHR 0x96, CHR 0xE6, CHR 0x96, CHR
      0x87, CHR 0xE5, CHR 0xAD, CHR 0x97, CHR 0xEF, CHR 0xBC, CHR 0x9A, CHR 0x0A] @ ''{'' @ [CHR
      0x22] @ ''type'' @ [CHR 0x22] @ '': '' @ [CHR 0x22] @ ''fault_diagnosis'' @ [CHR 0x22] @ ''}''
      @ [CHR 0x0A, CHR 0x0A, CHR 0xE5, CHR 0x8F, CHR 0xAF, CHR 0xE9, CHR 0x80, CHR 0x89, CHR 0xE7,
      CHR 0xB1, CHR 0xBB, CHR 0xE5, CHR 0x9E, CHR 0x8B, CHR 0xEF, CHR 0xBC, CHR 0x9A, CHR 0x0A] @
      ''- fault_diagnosis'' @ [CHR 0xEF, CHR 0xBC, CHR 0x9A, CHR 0xE6, CHR 0x95, CHR 0x85, CHR 0xE9,
      CHR 0x9A, CHR 0x9C, CHR 0xE6, CHR 0x8E, CHR 0x92, CHR 0xE6, CHR 0x9F, CHR 0xA5, CHR 0xEF, CHR
      0xBC, CHR 0x88, CHR 0xE7, CHR 0x94, CHR 0xA8, CHR 0xE6, CHR 0x88, CHR 0xB7, CHR 0xE9, CHR
      0x81, CHR 0x87, CHR 0xE5, CHR 0x88, CHR 0xB0, CHR 0xE4, CHR 0xBA, CHR 0x86, CHR 0xE9, CHR
      0x97, CHR 0xAE, CHR 0xE9, CHR 0xA2, CHR 0x98, CHR 0xEF, CHR 0xBC, CHR 0x8C, CHR 0xE9, CHR
      0x9C, CHR 0x80, CHR 0xE8, CHR 0xA6, CHR 0x81, CHR 0xE8, CHR 0xAF, CHR 0x8A, CHR 0xE6, CHR
      0x96, CHR 0xAD, CHR 0xEF, CHR 0xBC, CHR 0x89, CHR 0x0A] @ ''- knowledge_query'' @ [CHR 0xEF,
      CHR 0xBC, CHR 0x9A, CHR 0xE7, CHR 0x9F, CHR 0xA5, CHR 0xE8, CHR 0xAF, CHR 0x86, CHR 0xE6, CHR
      0x9F, CHR 0xA5, CHR 0xE8, CHR 0xAF, CHR 0xA2, CHR 0xEF, CHR 0xBC, CHR 0x88, CHR 0xE7, CHR
      0x94, CHR 0xA8, CHR 0xE6, CHR 0x88, CHR 0xB7, CHR 0xE6, CHR 0x83, CHR 0xB3, CHR 0xE4, CHR
      0xBA, CHR 0x86, CHR 0xE8, CHR 0xA7, CHR 0xA3, CHR 0xE6, CHR 0x9F, CHR 0x90, CHR 0xE4, CHR
      0xB8, CHR 0xAA, CHR 0xE6, CHR 0xA6, CHR 0x82, CHR 0xE5, CHR 0xBF, CHR 0xB5, CHR 0xE6, CHR
      0x88, CHR 0x96, CHR 0xE9, CHR 0x85, CHR 0x8D, CHR 0xE7, CHR 0xBD, CHR 0xAE, CHR 0xEF, CHR
      0xBC, CHR 0x89, CHR 0x0A] @ ''- chat'' @ [CHR 0xEF, CHR 0xBC, CHR 0x9A, CHR 0xE9, CHR 0x97,
      CHR 0xB2, CHR 0xE8, CHR 0x81, CHR 0x8A, CHR 0xEF, CHR 0xBC, CHR 0x88, CHR 0xE7, CHR 0x94, CHR
      0xA8, CHR 0xE6, CHR 0x88, CHR 0xB7, CHR 0xE5, CHR 0x9C, CHR 0xA8, CHR 0xE9, CHR 0x97, CHR
      0xB2, CHR 0xE8, CHR 0x81, CHR 0x8A, CHR 0xE6, CHR 0x88, CHR 0x96, CHR 0xE9, CHR 0x97, CHR
      0xAE, CHR 0xE5, CHR 0x80, CHR 0x99, CHR 0xEF, CHR 0xBC, CHR 0x89, CHR 0x0A, CHR 0x0A, CHR
      0xE9, CHR 0x97, CHR 0xAE, CHR 0xE9, CHR 0xA2, CHR 0x98, CHR 0xEF, CHR 0xBC, CHR 0x9A]"

definition t_word_fault :: string where \<comment> \<open>fault\<close>
  "t_word_fault =
     [CHR 0xE6, CHR 0x95, CHR 0x85, CHR 0xE9, CHR 0x9A, CHR 0x9C]"

definition t_word_knowledge :: string where \<comment> \<open>knowledge\<close>
  "t_word_knowledge =
     [CHR 0xE7, CHR 0x9F, CHR 0xA5, CHR 0xE8, CHR 0xAF, CHR 0x86]"

definition t_word_chat :: string where \<comment> \<open>small talk\<close>
  "t_word_chat =
     [CHR 0xE9, CHR 0x97, CHR 0xB2, CHR 0xE8, CHR 0x81, CHR 0x8A]"

definition parseText :: "(string \<Rightarrow> string) \<Rightarrow> string \<Rightarrow> string \<times> bool" where
  "parseText tolower resp =
     (let low = tolower resp
      in if contains ''fault_diagnosis'' low \<or> contains t_word_fault low then (IntentFaultDiagnosis, True)
         else if contains ''knowledge_query'' low \<or> contains t_word_knowledge low then (IntentKnowledgeQuery, True)
         else if contains ''chat'' low \<or> contains t_word_chat low then (IntentChat, True)
         else (IntentUnknown, False))"

definition buildIntentPrompt :: "string \<Rightarrow> string" where
  "buildIntentPrompt query = t_intent_prompt @ query"

text \<open>\<open>decoded\<close> is the type in the JSON of an answer, \<open>None\<close> if it is none.\<close>

definition parseIntent :: "(string \<Rightarrow> string) \<Rightarrow> (string \<Rightarrow> string option) \<Rightarrow> string \<Rightarrow> string \<times> bool" where
  "parseIntent tolower decoded resp =
     (case decoded resp of
        Some ty \<Rightarrow>
          if ty = IntentFaultDiagnosis \<or> ty = IntentKnowledgeQuery \<or> ty = IntentChat then (ty, True)
          else parseText tolower resp
      | None \<Rightarrow> parseText tolower resp)"

text \<open>The model is made once: \<open>None\<close> is an error of making it, which stays.\<close>

definition Recognize ::
  "(string \<Rightarrow> string) \<Rightarrow> (string \<Rightarrow> string option) \<Rightarrow> (string \<Rightarrow> string option) option \<Rightarrow> int \<Rightarrow> string \<Rightarrow> intent_result" where
  "Recognize tolower decoded model latency query =
     (let degraded = \<lparr>it_Type = IntentKnowledgeQuery, it_Degraded = True, it_LatencyMs = latency\<rparr>
      in case model of
           None \<Rightarrow> degraded
         | Some generate \<Rightarrow>
             (case generate (buildIntentPrompt query) of
                None \<Rightarrow> degraded
              | Some resp \<Rightarrow>
                  (let (intent, ok) = parseIntent tolower decoded resp
                   in if \<not> ok then degraded else \<lparr>it_Type = intent, it_Degraded = False, it_LatencyMs = latency\<rparr>)))"

subsection \<open>The configuration of the reranker\<close>

text \<open>What the configuration answers, \<open>None\<close> for an error or no value; a missing number reads as 0.\<close>

record rerank_settings =
  rx_enabled :: "bool option"
  rx_min_candidates :: "int option"
  rx_candidate_limit :: "int option"
  rx_timeout_ms :: "int option"
  rx_cache_ttl_seconds :: "int option"
  rx_model :: "string option"
  rx_profiles :: "string list option"

definition LoadToolRerankConfig :: "rerank_settings \<Rightarrow> rerank_config" where
  "LoadToolRerankConfig s =
     \<lparr>rk_Enabled = (case rx_enabled s of Some b \<Rightarrow> b | None \<Rightarrow> False),
      rk_MinCandidates = loadPositiveInt (rx_min_candidates s) 6,
      rk_CandidateLimit = loadPositiveInt (rx_candidate_limit s) 20,
      rk_TimeoutMs = loadPositiveInt (rx_timeout_ms s) 2000,
      rk_Profiles = (case rx_profiles s of Some ps \<Rightarrow> ps | None \<Rightarrow> []),
      rk_CacheTTLSecs = loadPositiveInt (rx_cache_ttl_seconds s) 300,
      rk_Model = (case rx_model s of Some m \<Rightarrow> if m \<noteq> [] then m else ''chat_model_fast'' | None \<Rightarrow> ''chat_model_fast'')\<rparr>"

subsection \<open>Packages\<close>

record assembly_trace =
  ax_Profile :: string
  ax_Stages :: "stage_trace list"
  ax_SourcesConsidered :: int
  ax_SourcesSelected :: int
  ax_DroppedItems :: "context_item list"
  ax_BudgetBefore :: budget_snapshot
  ax_BudgetAfter :: budget_snapshot
  ax_LatencyMs :: int
  ax_HistoryRecall :: "recall_result option"
  ax_ToolRecall :: "tool_recall_result option"
  ax_ToolRerank :: "rerank_outcome option"
  ax_Intent :: "intent_result option"
  ax_CompressionReports :: "compress_report list"

record context_package =
  pk_Request :: context_request
  pk_Profile :: context_profile
  pk_Query :: string
  pk_HistoryMessages :: "chat_message list"
  pk_MemoryItems :: "context_item list"
  pk_DocumentItems :: "context_item list"
  pk_ToolItems :: "context_item list"
  pk_Trace :: assembly_trace

text \<open>What an assembly asks of its surroundings; \<open>None\<close> for a recognizer, an enricher or a reranker that is not set.\<close>

record assembly_env =
  ae_settings :: context_settings
  ae_memory :: memory_env
  ae_recall :: recall_env
  ae_ready :: bool
  ae_embedder :: "string list \<Rightarrow> vector list option"
  ae_json :: json_codec
  ae_compression :: compression_config
  ae_documents :: "string \<Rightarrow> retrieval_metrics \<times> (string + document option list)"
  ae_cmdb :: "(string \<Rightarrow> context_item list) option"
  ae_intent :: "((string \<Rightarrow> string option) \<times> (string \<Rightarrow> string option) option) option"
  ae_redact :: "string \<Rightarrow> string"
  ae_scores :: score_parser
  ae_reranker :: "(rerank_config \<times> (string \<Rightarrow> string + string) option) option"
  ae_latency :: int
  ae_now :: gotime
  ae_retrievedAt :: gotime

abbreviation ae_lower :: "assembly_env \<Rightarrow> string \<Rightarrow> string" where "ae_lower env \<equiv> rv_lower (ae_recall env)"

definition ae_compress :: "assembly_env \<Rightarrow> compress_request \<Rightarrow> compression_config option \<Rightarrow> compress_result" where
  "ae_compress env = Compress (ae_lower env) (ae_json env) (ae_latency env)"

definition emptyBudget :: budget_snapshot where
  "emptyBudget = \<lparr>bs_HistoryTokens = 0, bs_MemoryTokens = 0, bs_DocumentTokens = 0, bs_ToolTokens = 0\<rparr>"

definition startTrace :: "context_profile \<Rightarrow> assembly_trace" where
  "startTrace profile =
     \<lparr>ax_Profile = cf_Name profile, ax_Stages = [], ax_SourcesConsidered = 0, ax_SourcesSelected = 0, ax_DroppedItems = [],
      ax_BudgetBefore = \<lparr>bs_HistoryTokens = cb_HistoryTokens (cf_Budget profile),
        bs_MemoryTokens = cb_MemoryTokens (cf_Budget profile), bs_DocumentTokens = cb_DocumentTokens (cf_Budget profile),
        bs_ToolTokens = cb_ToolTokens (cf_Budget profile)\<rparr>,
      ax_BudgetAfter = emptyBudget, ax_LatencyMs = 0, ax_HistoryRecall = None, ax_ToolRecall = None, ax_ToolRerank = None,
      ax_Intent = None, ax_CompressionReports = []\<rparr>"

text \<open>A stage enters the trace: the sources it looked at, those it took and those it dropped.\<close>

definition addStage :: "stage_trace \<Rightarrow> int \<Rightarrow> context_item list \<Rightarrow> assembly_trace \<Rightarrow> assembly_trace" where
  "addStage sg considered dropped t =
     t\<lparr>ax_SourcesConsidered := ax_SourcesConsidered t + considered,
       ax_SourcesSelected := ax_SourcesSelected t + sg_SelectedCount sg,
       ax_DroppedItems := ax_DroppedItems t @ dropped, ax_Stages := ax_Stages t @ [sg]\<rparr>"

subsection \<open>The stages\<close>

definition chooseProfile :: "assembly_env \<Rightarrow> context_request \<Rightarrow> context_profile \<times> assembly_trace" where
  "chooseProfile env req =
     (let profile = Resolve (ae_settings env) req; trace = startTrace profile
      in case ae_intent env of
           None \<Rightarrow> (profile, trace)
         | Some (decoded, model) \<Rightarrow>
             (let intent = Recognize (ae_lower env) decoded model (ae_latency env) (cr_Query req);
                  trace1 = trace\<lparr>ax_Intent := Some intent\<rparr>
              in if \<not> it_Degraded intent \<and> it_Type intent \<noteq> IntentUnknown
                 then (let overridden = ResolveByProfile (ae_settings env) req (ProfileForIntent (it_Type intent))
                       in if cf_Name overridden \<noteq> [] then (overridden, trace1\<lparr>ax_Profile := cf_Name overridden\<rparr>)
                          else (profile, trace1))
                 else (profile, trace1)))"

definition historyStage ::
  "assembly_env \<Rightarrow> history_message list \<Rightarrow> recaller \<Rightarrow> context_package \<Rightarrow> context_package option \<times> recaller" where
  "historyStage env history r pkg =
     (let profile = pk_Profile pkg
      in if cf_AllowHistory profile \<and> history \<noteq> []
         then (case historyRecall (ae_recall env) (ae_ready env) (ae_embedder env) (ae_now env) (ae_latency env)
                      (cr_Query (pk_Request pkg)) history (cf_MaxHistoryMessages profile) r of
                 (Done recall, r') \<Rightarrow>
                   (let (selected, dropped, n, ns) = selectHistory (map hm_Msg (rr_Messages recall)) profile;
                        sg = (stage ''history'' (int (length selected)) (int (length dropped)) ns)
                               \<lparr>sg_Recall := Some \<lparr>rm_CacheHits = rr_CacheHits recall, rm_Embedded = rr_Embedded recall,
                                                 rm_LatencyMs = rr_LatencyMs recall, rm_Degraded = rr_Degraded recall\<rparr>\<rparr>;
                        t1 = addStage sg (int (length history)) dropped (pk_Trace pkg)
                    in (Some (pkg\<lparr>pk_HistoryMessages := selected,
                                  pk_Trace := t1\<lparr>ax_HistoryRecall := Some recall,
                                                 ax_BudgetAfter := (ax_BudgetAfter t1)\<lparr>bs_HistoryTokens := n\<rparr>\<rparr>\<rparr>), r'))
               | (_, r') \<Rightarrow> (None, r'))
         else (Some pkg, r))"

definition memoriesFor :: "assembly_env \<Rightarrow> long_term \<Rightarrow> context_request \<Rightarrow> context_profile \<Rightarrow> memory_entry list" where
  "memoriesFor env ltm req profile =
     (let retrieveLimit = max 1 (cf_MaxMemoryItems profile)
      in rankMemoryEntries (ae_now env)
           (fst (RetrieveScoped (ae_memory env) (ae_retrievedAt env) (cr_Query req) (retrieveLimit * 3)
             \<lparr>rp_IncludeExpired = False, rp_ReadOnly = True, rp_ScopeRefs = memoryScopeRefs req\<rparr> ltm)))"

definition memoryStage :: "assembly_env \<Rightarrow> long_term \<Rightarrow> context_package \<Rightarrow> context_package" where
  "memoryStage env ltm pkg =
     (let profile = pk_Profile pkg; req = pk_Request pkg
      in if cf_AllowMemory profile \<and> cr_SessionID req \<noteq> []
         then (let entries = memoriesFor env ltm req profile;
                   (selected, dropped, n, ns) = selectMemories (ae_lower env) entries profile (ae_now env);
                   t1 = addStage (stage ''memory'' (int (length selected)) (int (length dropped)) ns)
                          (int (length entries)) dropped (pk_Trace pkg)
               in pkg\<lparr>pk_MemoryItems := selected,
                      pk_Trace := t1\<lparr>ax_BudgetAfter := (ax_BudgetAfter t1)\<lparr>bs_MemoryTokens := n\<rparr>\<rparr>\<rparr>)
         else pkg)"

definition cmdbStage :: "assembly_env \<Rightarrow> context_package \<Rightarrow> context_package" where
  "cmdbStage env pkg =
     (case ae_cmdb env of
        None \<Rightarrow> pkg
      | Some enrich \<Rightarrow>
          (let items = enrich (cr_Query (pk_Request pkg)); n = int (length items)
           in if items = [] then pkg
              else pkg\<lparr>pk_DocumentItems := pk_DocumentItems pkg @ items,
                       pk_Trace := addStage (stage ''cmdb'' n 0 [''enriched '' @ itoa n @ '' CMDB items'']) n [] (pk_Trace pkg)\<rparr>))"

definition documentStage :: "assembly_env \<Rightarrow> context_package \<Rightarrow> context_package" where
  "documentStage env pkg =
     (if cf_AllowDocs (pk_Profile pkg)
      then (let ds = selectDocuments (ae_compress env) (ae_compression env) (ae_documents env) (cr_Query (pk_Request pkg)) (pk_Profile pkg);
                n = int (length (ds_selected ds)); d = int (length (ds_dropped ds));
                t1 = addStage ((stage ''documents'' n d (ds_notes ds))\<lparr>sg_Retrieval := ds_metrics ds\<rparr>) (n + d) (ds_dropped ds) (pk_Trace pkg)
            in pkg\<lparr>pk_DocumentItems := ds_selected ds @ pk_DocumentItems pkg,
                   pk_Trace := t1\<lparr>ax_BudgetAfter := (ax_BudgetAfter t1)\<lparr>bs_DocumentTokens := ds_used ds\<rparr>,
                                  ax_CompressionReports := ax_CompressionReports t1 @ ds_reports ds\<rparr>\<rparr>)
      else pkg)"

text \<open>The tool results that are recalled, and what reranking makes of them.\<close>

definition toolCandidates ::
  "assembly_env \<Rightarrow> string \<Rightarrow> context_item list \<Rightarrow> int \<Rightarrow> tool_recall_result \<times> rerank_outcome option \<times> context_item list" where
  "toolCandidates env query items topK =
     (let recall = toolRecall (ae_recall env) (ae_latency env) query items topK
      in case ae_reranker env of
           None \<Rightarrow> (recall, None, tl_Items recall)
         | Some (config, model) \<Rightarrow>
             (let outcome = Rerank (ae_redact env) (ae_scores env) model (ae_latency env) config query (tl_Items recall) topK
              in (recall, Some outcome, if \<not> ro_Degraded outcome then ro_Items outcome else tl_Items recall)))"

definition toolStage :: "assembly_env \<Rightarrow> context_package \<Rightarrow> context_package" where
  "toolStage env pkg =
     (let profile = pk_Profile pkg; req = pk_Request pkg
      in if cf_AllowToolResults profile \<and> cr_ToolItems req \<noteq> []
         then (let (recall, outcome, items) = toolCandidates env (cr_Query req) (cr_ToolItems req) (cf_MaxToolItems profile);
                   (selected, dropped, n, ns, reports) =
                     selectToolItemsWithCompression (ae_compress env) items profile (cr_Query req) (Some (ae_compression env));
                   k = int (length selected); d = int (length dropped);
                   sg = (stage ''tool_results'' k d ns)
                          \<lparr>sg_Recall := Some \<lparr>rm_CacheHits = 0, rm_Embedded = 0, rm_LatencyMs = tl_LatencyMs recall, rm_Degraded = False\<rparr>\<rparr>;
                   t1 = addStage sg (k + d) dropped (pk_Trace pkg)
               in pkg\<lparr>pk_ToolItems := selected,
                      pk_Trace := t1\<lparr>ax_ToolRecall := Some recall, ax_ToolRerank := outcome,
                                     ax_CompressionReports := ax_CompressionReports t1 @ reports,
                                     ax_BudgetAfter := (ax_BudgetAfter t1)\<lparr>bs_ToolTokens := n\<rparr>\<rparr>\<rparr>)
         else pkg)"

definition showMemories :: "context_package \<Rightarrow> context_package" where
  "showMemories pkg =
     (if cf_Staged (pk_Profile pkg) \<and> pk_MemoryItems pkg \<noteq> []
      then pkg\<lparr>pk_HistoryMessages := memoryItemsAsMessages (pk_MemoryItems pkg) @ pk_HistoryMessages pkg\<rparr>
      else pkg)"

subsection \<open>Assemble\<close>

definition startPackage :: "assembly_env \<Rightarrow> context_request \<Rightarrow> context_package" where
  "startPackage env req =
     (let (profile, trace) = chooseProfile env req
      in \<lparr>pk_Request = req, pk_Profile = profile, pk_Query = trim_space (cr_Query req), pk_HistoryMessages = [],
          pk_MemoryItems = [], pk_DocumentItems = [], pk_ToolItems = [], pk_Trace = trace\<rparr>)"

definition Assemble ::
  "assembly_env \<Rightarrow> long_term \<Rightarrow> context_request \<Rightarrow> history_message list \<Rightarrow> recaller \<Rightarrow> context_package option \<times> recaller" where
  "Assemble env ltm req history r =
     (case historyStage env history r (startPackage env req) of
        (None, r') \<Rightarrow> (None, r')
      | (Some pkg, r') \<Rightarrow>
          (let pkg1 = showMemories (toolStage env (documentStage env (cmdbStage env (memoryStage env ltm pkg))))
           in (Some (pkg1\<lparr>pk_Trace := (pk_Trace pkg1)\<lparr>ax_LatencyMs := ae_latency env\<rparr>\<rparr>), r')))"

subsection \<open>Texts of a package\<close>

definition MemoryContext :: "context_package option \<Rightarrow> string" where
  "MemoryContext pkg =
     (case pkg of
        None \<Rightarrow> []
      | Some p \<Rightarrow> if pk_MemoryItems p = [] then [] else join nl (map memoryLine (pk_MemoryItems p)))"

definition documentText :: "nat \<times> context_item \<Rightarrow> string" where
  "documentText = (\<lambda>(idx, item).
     ''[ctx-doc-'' @ itoa (int idx + 1) @ ''] title: '' @ ci_Title item @
     (if ci_SourceID item \<noteq> [] \<and> ci_SourceID item \<noteq> ci_Title item then nl @ ''source: '' @ ci_SourceID item else []) @
     (if ci_Score item > 0 then nl @ ''score: '' @ fmt_fixed 2 (ci_Score item) else []) @
     nl @ ''content:'' @ nl @ ci_Content item)"

definition DocumentsContent :: "context_package option \<Rightarrow> string" where
  "DocumentsContent pkg =
     (case pkg of
        None \<Rightarrow> []
      | Some p \<Rightarrow> if pk_DocumentItems p = [] then []
                   else join (nl @ nl) (map documentText (enumerate 0 (pk_DocumentItems p))))"

definition stageLine :: "stage_trace \<Rightarrow> string" where
  "stageLine sg =
     sg_Name sg @ '' selected='' @ itoa (sg_SelectedCount sg) @ '' dropped='' @ itoa (sg_DroppedCount sg) @
     (if sg_Notes sg \<noteq> [] then '' ('' @ join ''; '' (sg_Notes sg) @ '')'' else []) @
     (case sg_Retrieval sg of
        None \<Rightarrow> []
      | Some m \<Rightarrow>
          '' [cache_hit='' @ boolText (rt_CacheHit m) @ '' init_cached_error='' @ boolText (rt_InitFailureCached m) @
          '' init_ms='' @ itoa (rt_InitLatencyMs m) @ '' retrieve_ms='' @ itoa (rt_RetrieveLatencyMs m) @
          '' hits='' @ itoa (rt_ResultCount m) @ '']'')"

definition dropReason :: "context_item \<Rightarrow> string" where
  "dropReason item = (if ci_DroppedReason item = [] then ''unspecified'' else ci_DroppedReason item)"

definition droppedLine :: "context_item list \<Rightarrow> string" where
  "droppedLine items =
     (let reasons = map dropReason items
      in ''context dropped '' @
         join '', '' (sort_strings (map (\<lambda>reason. reason @ ''='' @ itoa (int (count_list reasons reason))) (remdups reasons))))"

definition TraceDetails :: "assembly_trace \<Rightarrow> string list" where
  "TraceDetails trace =
     [''context profile='' @ ax_Profile trace,
      ''context sources selected='' @ itoa (ax_SourcesSelected trace) @ ''/'' @ itoa (ax_SourcesConsidered trace)] @
     map stageLine (filter (\<lambda>sg. sg_Name sg \<noteq> []) (ax_Stages trace)) @
     (if ax_DroppedItems trace \<noteq> [] then [droppedLine (ax_DroppedItems trace)] else []) @
     (let reports = ax_CompressionReports trace;
          totalBefore = sum_list (map cp_TokensBefore reports);
          totalAfter = sum_list (map cp_TokensAfter reports);
          ratio = (if totalBefore > 0 then fdiv (f64_of_int totalAfter) (f64_of_int totalBefore) else 1)
      in if reports \<noteq> []
         then [''compression items='' @ itoa (int (length reports)) @ '' before='' @ itoa totalBefore @
               '' after='' @ itoa totalAfter @ '' ratio='' @ fmt_fixed 2 ratio]
         else [])"

end
