(* ===== verification/Ctx_Recall_Properties.thy ===== *)
theory Ctx_Recall_Properties
  imports Ctx_Recall
begin

text \<open>
  What recalling promises: what the cache of embeddings holds, which messages of the history are recalled and in which
  order, which tool results are best, and what reranking may answer.
\<close>

subsection \<open>The cache of embeddings\<close>

text \<open>The last \<open>n\<close> elements of a list.\<close>

definition lastn :: "int \<Rightarrow> 'a list \<Rightarrow> 'a list" where
  "lastn n xs = drop (nat (int (length xs) - n)) xs"

lemma lastn_snoc: "1 \<le> n \<Longrightarrow> lastn n (xs @ [x]) = lastn (n - 1) xs @ [x]"
  by (auto simp: lastn_def nat_diff_distrib' algebra_simps)

lemma lastn_all: "int (length xs) \<le> n \<Longrightarrow> lastn n xs = xs"
  by (simp add: lastn_def)

lemma length_lastn: "0 \<le> n \<Longrightarrow> int (length (lastn n xs)) = min n (int (length xs))"
  by (auto simp: lastn_def)

lemma lastn_lastn: "0 \<le> m \<Longrightarrow> m \<le> n \<Longrightarrow> lastn m (lastn n xs) = lastn m xs"
  by (auto simp: lastn_def nat_diff_distrib' intro!: arg_cong [where f = "\<lambda>k. drop k xs"])

lemma lastn_append: "m \<le> int (length ys) \<Longrightarrow> lastn m (xs @ ys) = lastn m ys"
proof -
  assume "m \<le> int (length ys)"
  then have "nat (int (length xs) + int (length ys) - m) - length xs = nat (int (length ys) - m)"
    "length xs \<le> nat (int (length xs) + int (length ys) - m)" by linarith+
  then show ?thesis by (simp add: lastn_def)
qed

lemma lastn_split: "\<exists>as. xs = as @ lastn n xs \<and> (int (length (lastn n xs)) < n \<longrightarrow> as = [])"
  by (intro exI [of _ "take (nat (int (length xs) - n)) xs"]) (auto simp: lastn_def)

lemma set_lastn: "set (lastn n xs) \<subseteq> set xs"
  unfolding lastn_def by (rule set_drop_subset)

lemma removeAll_as_filter: "removeAll k xs = filter (\<lambda>x. x \<noteq> k) xs"
  by (induction xs) auto

lemma lastn_filter_in:
  assumes "distinct xs" "k \<in> set (lastn n xs)" "1 \<le> n"
  shows "filter (\<lambda>x. x \<noteq> k) (lastn n xs) = lastn (n - 1) (filter (\<lambda>x. x \<noteq> k) xs)"
proof -
  define bs where "bs = lastn n xs"
  obtain as where as: "xs = as @ bs" "int (length bs) < n \<longrightarrow> as = []"
    using lastn_split [of xs n] unfolding bs_def by blast
  have kb: "k \<in> set bs" using assms(2) by (simp add: bs_def)
  have k: "k \<in> set bs" "k \<notin> set as" "distinct bs" using assms(1) kb by (auto simp: as(1))
  have len: "int (length bs) \<le> n" using length_lastn [of n xs] assms(3) by (simp add: bs_def)
  have f: "filter (\<lambda>x. x \<noteq> k) xs = as @ filter (\<lambda>x. x \<noteq> k) bs"
    using k(2) by (auto simp: as(1) filter_id_conv)
  have lf: "length (filter (\<lambda>x. x \<noteq> k) bs) = length bs - 1"
    using k(1,3) by (metis distinct_remove1_removeAll length_remove1 removeAll_as_filter)
  show ?thesis
  proof (cases "int (length bs) < n")
    case True
    then show ?thesis unfolding bs_def [symmetric] f using as(2) lf by (simp add: lastn_all)
  next
    case False
    moreover have "0 < length bs" using k(1) by auto
    ultimately have "int (length (filter (\<lambda>x. x \<noteq> k) bs)) = n - 1" using len lf by linarith
    then show ?thesis unfolding bs_def [symmetric] f by (simp add: lastn_append lastn_all)
  qed
qed

lemma lastn_filter_out:
  assumes "k \<notin> set (lastn n xs)" "1 \<le> n"
  shows "lastn (n - 1) (lastn n xs) = lastn (n - 1) (filter (\<lambda>x. x \<noteq> k) xs)"
proof -
  define bs where "bs = lastn n xs"
  obtain as where as: "xs = as @ bs" "int (length bs) < n \<longrightarrow> as = []"
    using lastn_split [of xs n] unfolding bs_def by blast
  have "k \<notin> set bs" using assms(1) by (simp add: bs_def)
  then have f: "filter (\<lambda>x. x \<noteq> k) xs = filter (\<lambda>x. x \<noteq> k) as @ bs"
    by (auto simp: as(1) filter_id_conv)
  show ?thesis
    unfolding bs_def [symmetric] f using as(2) by (cases "int (length bs) < n") (auto simp: lastn_append)
qed

lemma remdups_snoc: "remdups (xs @ [x]) = filter (\<lambda>y. y \<noteq> x) (remdups xs) @ [x]"
  by (induction xs) auto

lemma evictOldest_lastn:
  "1 \<le> n \<Longrightarrow> evictOldest n order items =
     Some (lastn (n - 1) order, foldl (\<lambda>m k. gm_del k m) items (take (nat (int (length order) - (n - 1))) order))"
proof (induction n order items rule: evictOldest.induct)
  case (2 n k order items)
  show ?case
  proof (cases "n \<le> int (length (k # order))")
    case True
    then have "nat (int (length (k # order)) - (n - 1)) = Suc (nat (int (length order) - (n - 1)))" by simp
    then show ?thesis using 2 True by (simp add: lastn_def)
  next
    case False
    then show ?thesis by (simp add: lastn_def)
  qed
qed (simp add: lastn_def)

lemma get_dels: "gm_get (foldl (\<lambda>m k. gm_del k m) m ks) k = (if k \<in> set ks then None else gm_get m k)"
  by (induction ks arbitrary: m) (auto simp: delete_conv')

text \<open>A sequence of writes, each with its time, key and vector, and what was written last under a key.\<close>

definition cacheSets :: "(gotime \<times> string \<times> vector) list \<Rightarrow> embedding_cache \<Rightarrow> embedding_cache option" where
  "cacheSets ws c = foldl (\<lambda>r (now, key, vec). Option.bind r (cacheSet now key vec)) (Some c) ws"

definition lastWrite :: "duration \<Rightarrow> (gotime \<times> string \<times> vector) list \<Rightarrow> string \<Rightarrow> cache_entry option" where
  "lastWrite ttl ws = map_of (rev (map (\<lambda>(now, key, vec). (key, \<lparr>ce_vec = vec, ce_expiresAt = now + ttl\<rparr>)) ws))"

abbreviation keysOf :: "(gotime \<times> string \<times> vector) list \<Rightarrow> string list" where
  "keysOf ws \<equiv> map (\<lambda>(now, key, vec). key) ws"

definition cacheHolds :: "int \<Rightarrow> duration \<Rightarrow> (gotime \<times> string \<times> vector) list \<Rightarrow> embedding_cache \<Rightarrow> bool" where
  "cacheHolds n ttl ws c \<longleftrightarrow>
     ec_maxSize c = n \<and> ec_ttl c = ttl \<and> ec_order c = lastn n (remdups (keysOf ws)) \<and>
     (\<forall>k. gm_get (ec_items c) k = (if k \<in> set (ec_order c) then lastWrite ttl ws k else None))"

lemma lastWrite_snoc:
  "lastWrite ttl (ws @ [(now, key, vec)]) k =
     (if k = key then Some \<lparr>ce_vec = vec, ce_expiresAt = now + ttl\<rparr> else lastWrite ttl ws k)"
  by (simp add: lastWrite_def)

lemma lastWrite_None: "lastWrite ttl ws k = None \<longleftrightarrow> k \<notin> set (keysOf ws)"
  by (force simp: lastWrite_def map_of_eq_None_iff)

lemma cacheSet_holds:
  assumes "1 \<le> n" "cacheHolds n ttl ws c"
  shows "\<exists>c'. cacheSet now key vec c = Some c' \<and> cacheHolds n ttl (ws @ [(now, key, vec)]) c'"
proof -
  define L where "L = remdups (keysOf ws)"
  have o1: "ec_order c = lastn n L" "distinct (ec_order c)" "set (ec_order c) \<subseteq> set (keysOf ws)"
    using assms(2) set_lastn [of n L] distinct_remdups [of "keysOf ws"]
    by (auto simp: cacheHolds_def L_def lastn_def distinct_drop simp del: distinct_remdups)
  have items: "gm_get (ec_items c) k = (if k \<in> set (ec_order c) then lastWrite ttl ws k else None)" for k
    using assms(2) by (simp add: cacheHolds_def)
  have L': "lastn n (remdups (keysOf (ws @ [(now, key, vec)]))) = lastn (n - 1) (filter (\<lambda>y. y \<noteq> key) L) @ [key]"
    using lastn_snoc [OF assms(1)] by (simp add: L_def remdups_snoc)
  have tag: "ec_maxSize c = n" "ec_ttl c = ttl" using assms(2) by (simp_all add: cacheHolds_def)
  show ?thesis
  proof (cases "key \<in> set (ec_order c)")
    case True
    then have some: "gm_get (ec_items c) key \<noteq> None"
      using items [of key] lastWrite_None [of ttl ws key] o1(3) by auto
    have r1: "remove1 key (ec_order c) = lastn (n - 1) (filter (\<lambda>y. y \<noteq> key) L)"
      using lastn_filter_in [of L key n] True assms(1) o1 distinct_remdups [of "keysOf ws"]
      by (simp add: distinct_remove1_removeAll removeAll_as_filter L_def)
    moreover have "set (lastn (n - 1) (filter (\<lambda>y. y \<noteq> key) L)) = set (ec_order c) - {key}"
      using set_remove1_eq [OF o1(2), of key] unfolding r1 .
    ultimately show ?thesis
      using some True items tag L'
      by (auto simp: cacheSet_def cacheHolds_def Let_def lastWrite_snoc gm_get_put removeAll_as_filter)
  next
    case False
    then have none: "gm_get (ec_items c) key = None" using items by simp
    define gone where "gone = take (nat (int (length (ec_order c)) - (n - 1))) (ec_order c)"
    have ev: "evictOldest n (ec_order c) (ec_items c) =
        Some (lastn (n - 1) (ec_order c), foldl (\<lambda>m k. gm_del k m) (ec_items c) gone)"
      using evictOldest_lastn [OF assms(1)] by (simp add: gone_def)
    have split: "set (ec_order c) = set gone \<union> set (lastn (n - 1) (ec_order c))" "set gone \<inter> set (lastn (n - 1) (ec_order c)) = {}"
      using o1(2) unfolding gone_def lastn_def
      by (metis append_take_drop_id set_append, metis append_take_drop_id distinct_append)
    have dis: "k \<notin> set gone" if "k \<in> set (lastn (n - 1) (ec_order c))" for k using split that by blast
    have "lastn (n - 1) (ec_order c) = lastn (n - 1) (filter (\<lambda>y. y \<noteq> key) L)"
      using lastn_filter_out [of key n L] False assms(1) o1(1) by simp
    then show ?thesis
      using none ev items tag L' split(1) dis False
      by (auto simp: cacheSet_def cacheHolds_def Let_def lastWrite_snoc get_dels gm_get_put)
  qed
qed

text \<open>The cache of embeddings is the table of the keys written last: after any sequence of writes none of which panics, it holds
  exactly the \<open>n\<close> most recently written different keys, each with the vector written last, which a lookup
  returns until it expires.\<close>

theorem embedding_cache_recent:
  assumes "1 \<le> n"
  shows "\<exists>c. cacheSets ws (newEmbeddingCache n ttl) = Some c \<and> int (length (ec_order c)) \<le> n \<and>
    ec_order c = lastn n (remdups (keysOf ws)) \<and>
    (\<forall>now key. cacheGet now key c =
       (if key \<in> set (ec_order c)
        then (case lastWrite ttl ws key of Some e \<Rightarrow> if now > ce_expiresAt e then None else Some (ce_vec e) | None \<Rightarrow> None)
        else None))"
proof -
  have "\<exists>c. cacheSets ws (newEmbeddingCache n ttl) = Some c \<and> cacheHolds n ttl ws c"
  proof (induction ws rule: rev_induct)
    case Nil
    then show ?case by (simp add: cacheSets_def cacheHolds_def newEmbeddingCache_def lastn_def)
  next
    case (snoc w ws)
    then obtain c where c: "cacheSets ws (newEmbeddingCache n ttl) = Some c" "cacheHolds n ttl ws c" by blast
    obtain now key vec where w: "w = (now, key, vec)" by (cases w) auto
    from cacheSet_holds [OF assms c(2), of now key vec] c(1) show ?case by (auto simp: cacheSets_def w)
  qed
  then obtain c where c: "cacheSets ws (newEmbeddingCache n ttl) = Some c" "cacheHolds n ttl ws c" by blast
  then have "int (length (ec_order c)) \<le> n" using length_lastn [of n "remdups (keysOf ws)"] assms by (simp add: cacheHolds_def)
  then show ?thesis using c by (auto simp: cacheHolds_def cacheGet_def split: option.split)
qed

theorem embedding_cache_recent_witness:
  "\<exists>c. cacheSets [(0, ''a'', [1]), (0, ''b'', [2]), (0, ''a'', [3]), (0, ''c'', [4])] (newEmbeddingCache 2 10) = Some c \<and>
     ec_order c = [''a'', ''c''] \<and> cacheGet 5 ''a'' c = Some [3] \<and> cacheGet 5 ''b'' c = None"
proof -
  let ?ws = "[(0, ''a'', [1]), (0, ''b'', [2]), (0, ''a'', [3]), (0, ''c'', [4])] :: (gotime \<times> string \<times> vector) list"
  have o1: "lastn 2 (remdups (keysOf ?ws)) = [''a'', ''c'']" by (simp add: lastn_def)
  have w: "lastWrite 10 ?ws ''a'' = Some \<lparr>ce_vec = [3], ce_expiresAt = 10\<rparr>" by (simp add: lastWrite_def)
  from embedding_cache_recent [of 2 ?ws 10] show ?thesis unfolding o1 by (auto simp: w)
qed

subsection \<open>Recalled history\<close>

text \<open>Sorting by a number.\<close>

interpretation nat_key: comparator "\<lambda>a b. (f a :: nat) < f b" f for f
  by unfold_locales auto

definition placed :: "history_message list \<Rightarrow> scored_message \<Rightarrow> bool" where
  "placed cs s \<longleftrightarrow> sc_position s < length cs \<and> sc_message s = cs ! sc_position s"

text \<open>A set of positions that holds with a user's message the answer that follows, and with an answer the message before.\<close>

definition pairClosed :: "history_message list \<Rightarrow> nat set \<Rightarrow> bool" where
  "pairClosed cs P \<longleftrightarrow>
     (\<forall>p. Suc p < length cs \<longrightarrow> hm_Role (cs ! p) = ''user'' \<longrightarrow> hm_Role (cs ! Suc p) = ''assistant'' \<longrightarrow> (p \<in> P \<longleftrightarrow> Suc p \<in> P))"

definition pairInv :: "history_message list \<Rightarrow> scored_message list \<Rightarrow> bool" where
  "pairInv cs sel \<longleftrightarrow>
     (\<forall>s \<in> set sel. placed cs s) \<and> distinct (map sc_position sel) \<and> pairClosed cs (sc_position ` set sel)"

lemma roles_differ: "''user'' \<noteq> ''assistant''" by simp

lemma partnerOf_placed: "placed cs s \<Longrightarrow> q \<in> set (partnerOf cs s) \<Longrightarrow> placed cs q \<and> sc_position q \<noteq> sc_position s"
  by (auto simp: partnerOf_def placed_def Let_def split: if_splits)

lemma partnerOf_single: "length (partnerOf cs s) \<le> 1"
  using roles_differ by (auto simp: partnerOf_def Let_def)

lemma pairStep_inv:
  assumes inv: "pairInv cs sel" and s: "placed cs s"
  shows "pairInv cs (pairStep cs s sel) \<and> length (pairStep cs s sel) \<le> length sel + 2"
proof (cases "sc_position s \<in> sc_position ` set sel")
  case True
  then show ?thesis using inv by (simp add: pairStep_def)
next
  case False
  define fresh where "fresh = filter (\<lambda>q. sc_position q \<notin> sc_position ` set sel) (partnerOf cs s)"
  have step: "pairStep cs s sel = sel @ [s] @ fresh"
    using False s by (simp add: pairStep_def fresh_def placed_def)
  have one: "length fresh \<le> 1"
    unfolding fresh_def by (rule le_trans [OF length_filter_le partnerOf_single])
  have fp: "placed cs q \<and> sc_position q \<noteq> sc_position s \<and> sc_position q \<notin> sc_position ` set sel" if "q \<in> set fresh" for q
    using that partnerOf_placed [OF s, of q] by (auto simp: fresh_def)
  have "distinct (map sc_position fresh)" using one by (cases fresh) auto
  then have d: "distinct (map sc_position (sel @ [s] @ fresh))"
    using inv False fp [THEN conjunct2] by (fastforce simp: pairInv_def image_iff)
  have "pairClosed cs (sc_position ` set (sel @ [s] @ fresh))"
    unfolding pairClosed_def
  proof (intro allI impI)
    fix p assume p: "Suc p < length cs" "hm_Role (cs ! p) = ''user''" "hm_Role (cs ! Suc p) = ''assistant''"
    have old: "p \<in> sc_position ` set sel \<longleftrightarrow> Suc p \<in> sc_position ` set sel"
      using inv p by (simp add: pairInv_def pairClosed_def)
    have sm: "sc_message s = cs ! sc_position s" "sc_position s < length cs" using s by (simp_all add: placed_def)
    have up: "Suc p \<in> sc_position ` set (sel @ [s] @ fresh)" if "sc_position s = p"
      using that p sm by (force simp: fresh_def partnerOf_def Let_def)
    have down: "p \<in> sc_position ` set (sel @ [s] @ fresh)" if "sc_position s = Suc p"
      using that p sm by (force simp: fresh_def partnerOf_def Let_def)
    have fu: "sc_position s = Suc p" if "q \<in> set fresh" "sc_position q = p" for q
      using that p sm by (auto simp: fresh_def partnerOf_def Let_def split: if_splits)
    have fd: "sc_position s = p" if "q \<in> set fresh" "sc_position q = Suc p" for q
      using that p sm by (auto simp: fresh_def partnerOf_def Let_def split: if_splits)
    show "p \<in> sc_position ` set (sel @ [s] @ fresh) \<longleftrightarrow> Suc p \<in> sc_position ` set (sel @ [s] @ fresh)"
      using old up down fu fd by auto
  qed
  then show ?thesis
    using inv s fp d one by (auto simp: pairInv_def step)
qed

lemma pairFold_inv:
  "pairInv cs sel \<Longrightarrow> (\<And>s. s \<in> set ss \<Longrightarrow> placed cs s) \<Longrightarrow>
     pairInv cs (fold (pairStep cs) ss sel) \<and> length (fold (pairStep cs) ss sel) \<le> length sel + 2 * length ss"
proof (induction ss arbitrary: sel)
  case (Cons s ss)
  have "pairInv cs (pairStep cs s sel)" "length (pairStep cs s sel) \<le> length sel + 2"
    using pairStep_inv [OF Cons.prems(1)] Cons.prems(2) by auto
  with Cons.IH [of "pairStep cs s sel"] Cons.prems(2) show ?case by fastforce
qed simp

lemma pairAwareSelect_inv:
  assumes "\<And>s. s \<in> set ss \<Longrightarrow> placed cs s"
  shows "pairInv cs (pairAwareSelect ss cs) \<and> length (pairAwareSelect ss cs) \<le> 2 * length ss"
proof -
  have "pairInv cs []" by (simp add: pairInv_def pairClosed_def)
  note f = pairFold_inv [OF this assms]
  have "distinct (map sc_position (pairAwareSelect ss cs)) = distinct (map sc_position (fold (pairStep cs) ss []))"
    unfolding pairAwareSelect_def by (metis mset_eq_imp_distinct_iff mset_map mset_sort_slice)
  then show ?thesis using f by (simp add: pairInv_def pairAwareSelect_def)
qed

lemma topKLoop_bounds:
  "set (topKLoop k t ss sel) \<subseteq> set sel \<union> set ss \<and> int (length (topKLoop k t ss sel)) \<le> max k (int (length sel))"
  by (induction k t ss sel rule: topKLoop.induct) auto

lemma topKWithThreshold_bounds:
  "1 \<le> k \<Longrightarrow> set (topKWithThreshold ss k t) \<subseteq> set ss \<and> int (length (topKWithThreshold ss k t)) \<le> k"
  using topKLoop_bounds [of k t ss "[]"] by (cases ss) (auto simp: topKWithThreshold_def Let_def)

lemma scoreMessages_placed: "s \<in> set (scoreMessages rv qv query cs vs) \<Longrightarrow> placed cs s"
  by (auto simp: scoreMessages_def placed_def in_set_enumerate_eq)

text \<open>Merging keeps the order of the history.\<close>

lemma findPosition_nth: "distinct (map hm_Ref hs) \<Longrightarrow> i < length hs \<Longrightarrow> findPosition (hs ! i) hs = i"
proof (induction hs arbitrary: i)
  case (Cons h hs)
  then show ?case by (cases i) (auto simp: image_iff dest: nth_mem)
qed simp

lemma fold_addUnseen:
  "distinct (map hm_Ref acc) \<Longrightarrow>
     distinct (map hm_Ref (fold addUnseen xs acc)) \<and> set (fold addUnseen xs acc) \<subseteq> set acc \<union> set xs \<and>
     hm_Ref ` set (fold addUnseen xs acc) = hm_Ref ` (set acc \<union> set xs)"
proof (induction xs arbitrary: acc)
  case (Cons x xs)
  have "distinct (map hm_Ref (addUnseen x acc))" "set (addUnseen x acc) \<subseteq> insert x (set acc)"
    "hm_Ref ` set (addUnseen x acc) = hm_Ref ` insert x (set acc)"
    using Cons.prems by (auto simp: addUnseen_def)
  with Cons.IH [of "addUnseen x acc"] show ?case by auto
qed simp

lemma mergeAndSort_filter:
  assumes d: "distinct (map hm_Ref history)" and sub: "set (recalled @ recent) \<subseteq> set history"
  shows "mergeAndSort recalled recent history = filter (\<lambda>m. m \<in> set (recalled @ recent)) history"
proof -
  define merged where "merged = fold addUnseen (recalled @ recent) []"
  have m: "distinct (map hm_Ref merged)" "set merged \<subseteq> set (recalled @ recent)"
    "hm_Ref ` set merged = hm_Ref ` set (recalled @ recent)"
    using fold_addUnseen [of "[]" "recalled @ recent"] by (auto simp: merged_def)
  have inj: "inj_on hm_Ref (set history)" using d by (simp add: distinct_map)
  have sm: "set merged = set (recalled @ recent)"
    using inj_on_image_eq_iff [OF inj, of "set merged" "set (recalled @ recent)"] m sub by blast
  let ?f = "\<lambda>m. findPosition m history"
  have sorted: "sorted_wrt (\<lambda>a b. ?f a < ?f b) history"
    unfolding sorted_wrt_iff_nth_less using findPosition_nth [OF d] by simp
  have injf: "inj_on ?f (set history)"
    by (intro inj_onI) (metis findPosition_nth [OF d] in_set_conv_nth)
  have "distinct merged" using m(1) by (simp add: distinct_map)
  then have "distinct (map ?f merged)"
    using inj_on_subset [OF injf, of "set recalled \<union> set recent"] sm sub by (simp add: distinct_map)
  then have "sorted_wrt (\<lambda>a b. ?f a < ?f b) (sort_slice (\<lambda>a b. ?f a < ?f b) merged)"
    by (intro nat_key.strict_sort_slice) (simp add: nat_key.dk_def)
  moreover have "sorted_wrt (\<lambda>a b. ?f a < ?f b) (filter (\<lambda>m. m \<in> set (recalled @ recent)) history)"
    by (rule sorted_wrt_filter [OF sorted])
  moreover have "mset merged = mset (filter (\<lambda>m. m \<in> set (recalled @ recent)) history)"
    using \<open>distinct merged\<close> d [unfolded distinct_map] sm sub
    by (intro set_eq_iff_mset_eq_distinct [THEN iffD1]) auto
  ultimately show ?thesis
    unfolding mergeAndSort_def merged_def [symmetric] by (intro nat_key.strict_unique [where f = ?f]) simp_all
qed

text \<open>What recalling answers when it neither fails nor panics.\<close>

lemma recallByEmbedding_inv:
  assumes "recallByEmbedding rv embedder now query cs k r = (Done (paired, hits, n), r')"
  shows "pairInv cs paired \<and> int (length paired) \<le> max 0 (2 * k)"
proof (cases "cs = [] \<or> k \<le> 0")
  case True
  then have "paired = []" using assms by (simp add: recallByEmbedding_def)
  then show ?thesis by (simp add: pairInv_def pairClosed_def)
next
  case False
  then obtain qv vecs where "paired = pairAwareSelect (topKWithThreshold (sort_slice (\<lambda>a b. sc_score a > sc_score b)
      (scoreMessages rv qv query cs vecs)) k (rc_threshold r)) cs"
    using assms by (auto simp: recallByEmbedding_def Let_def split: option.splits list.splits prod.splits ended.splits)
  moreover define top where "top = topKWithThreshold (sort_slice (\<lambda>a b. sc_score a > sc_score b)
      (scoreMessages rv qv query cs vecs)) k (rc_threshold r)"
  ultimately have p: "paired = pairAwareSelect top cs" by simp
  have t: "set top \<subseteq> set (scoreMessages rv qv query cs vecs)" "int (length top) \<le> k"
    using topKWithThreshold_bounds [of k "sort_slice (\<lambda>a b. sc_score a > sc_score b) (scoreMessages rv qv query cs vecs)" "rc_threshold r"] False
    by (simp_all add: top_def)
  then have "\<And>s. s \<in> set top \<Longrightarrow> placed cs s" using scoreMessages_placed by blast
  from pairAwareSelect_inv [OF this] t(2) show ?thesis unfolding p by fastforce
qed

lemma placed_history:
  assumes "distinct (map hm_Ref history)" "\<forall>s \<in> set paired. placed (take n history) s" "i < n" "n \<le> length history"
  shows "history ! i \<in> sc_message ` set paired \<longleftrightarrow> i \<in> sc_position ` set paired"
proof -
  have dh: "distinct history" using assms(1) by (simp add: distinct_map)
  have "sc_message s = history ! i \<longleftrightarrow> sc_position s = i" if "s \<in> set paired" for s
    using assms(2-4) that nth_eq_iff_index_eq [OF dh, of "sc_position s" i] by (auto simp: placed_def)
  then show ?thesis by (simp add: image_iff) metis
qed

definition recalledBy :: "history_message list \<Rightarrow> int \<Rightarrow> int \<Rightarrow> recall_result \<Rightarrow> (history_message \<Rightarrow> bool) \<Rightarrow> bool" where
  "recalledBy history keep topK res P \<longleftrightarrow>
     rr_Messages res = filter P history \<and>
     (\<forall>i < length history. int (length history) - min keep topK \<le> int i \<longrightarrow> P (history ! i)) \<and>
     (\<not> rr_Degraded res \<longrightarrow> (\<forall>i. int (Suc i) < int (length history) - keep \<longrightarrow>
        hm_Role (history ! i) = ''user'' \<longrightarrow> hm_Role (history ! Suc i) = ''assistant'' \<longrightarrow>
        (P (history ! i) \<longleftrightarrow> P (history ! Suc i)))) \<and>
     int (length (rr_Messages res)) \<le> max keep (2 * topK - keep)"

lemma degraded_recalled:
  assumes "degradedResult latency history topK = Done res" "distinct history" "0 \<le> keep" "0 \<le> topK"
  shows "\<exists>P. recalledBy history keep topK res P"
proof -
  have r: "rr_Messages res = fallbackPositional history topK" "rr_Degraded res"
    using assms(1) by (auto simp: degradedResult_def split: if_splits)
  define n where "n = nat (int (length history) - topK)"
  have m: "rr_Messages res = drop n history" by (auto simp: r(1) fallbackPositional_def n_def)
  have "filter (\<lambda>m. m \<in> set (drop n history)) (take n history) = []"
    using set_take_disj_set_drop_if_distinct [OF assms(2), of n n] by (auto simp: filter_empty_conv)
  moreover have "filter (\<lambda>m. m \<in> set (drop n history)) (drop n history) = drop n history"
    by (simp add: filter_id_conv)
  ultimately have "drop n history = filter (\<lambda>m. m \<in> set (drop n history)) history"
    by (metis (no_types) append_Nil append_take_drop_id filter_append)
  moreover have "history ! i \<in> set (drop n history)" if "i < length history" "n \<le> i" for i
    using that by (auto simp: in_set_conv_nth intro!: exI [of _ "i - n"])
  moreover have "int (length (drop n history)) \<le> topK" using assms(4) by (auto simp: n_def)
  ultimately show ?thesis
    using r(2) m assms(3,4) unfolding recalledBy_def by (intro exI [of _ "\<lambda>m. m \<in> set (drop n history)"]) (auto simp: n_def)
qed

lemma length_merged:
  assumes "distinct history" "rr = filter (\<lambda>m. m \<in> set xs) history"
  shows "length rr \<le> length xs"
proof -
  have "card (set rr) \<le> card (set xs)" by (rule card_mono) (auto simp: assms(2))
  also have "\<dots> \<le> length xs" by (rule card_length)
  finally show ?thesis using distinct_card [of rr] assms by simp
qed

lemma merged_recalled:
  assumes d: "distinct (map hm_Ref history)" and inv: "pairInv (take n history) paired"
    and n: "n \<le> length history" "int n = int (length history) - rk" "rk = min keep (int (length history))"
    and len: "int (length paired) \<le> max 0 (2 * (topK - rk))" and topK: "topK < int (length history)" "0 \<le> keep"
    and m: "rr_Messages res = mergeAndSort (map sc_message paired) (drop n history) history"
  shows "\<exists>P. recalledBy history keep topK res P"
proof -
  have dh: "distinct history" using d by (simp add: distinct_map)
  have pl: "\<forall>s \<in> set paired. placed (take n history) s" using inv by (simp add: pairInv_def)
  have sub: "set (map sc_message paired @ drop n history) \<subseteq> set history"
    using pl by (auto simp: placed_def dest: in_set_dropD)
  define P where "P = (\<lambda>m. m \<in> set (map sc_message paired @ drop n history))"
  have eq: "rr_Messages res = filter P history"
    unfolding m P_def by (rule mergeAndSort_filter [OF d sub])
  have recent: "P (history ! i)" if "i < length history" "n \<le> i" for i
    using that unfolding P_def by (auto simp: in_set_conv_nth intro!: disjI2 exI [of _ "i - n"])
  have early: "P (history ! i) \<longleftrightarrow> i \<in> sc_position ` set paired" if "i < n" for i
  proof -
    have "history ! i \<notin> set (drop n history)"
      using that n(1) dh by (auto simp: in_set_conv_nth nth_eq_iff_index_eq)
    then show ?thesis using placed_history [OF d pl that n(1)] by (auto simp: P_def)
  qed
  have pairs: "P (history ! i) \<longleftrightarrow> P (history ! Suc i)"
    if "Suc i < n" "hm_Role (history ! i) = ''user''" "hm_Role (history ! Suc i) = ''assistant''" for i
    using inv that n(1) early by (auto simp: pairInv_def pairClosed_def)
  have "length (rr_Messages res) \<le> length (map sc_message paired @ drop n history)"
    by (rule length_merged [OF dh]) (simp add: eq P_def)
  then have "length (rr_Messages res) \<le> length paired + (length history - n)" by simp
  then have "int (length (rr_Messages res)) \<le> max 0 (2 * (topK - rk)) + rk" using len n(1,2) by linarith
  then have "int (length (rr_Messages res)) \<le> max keep (2 * topK - keep)"
    using topK n(3) by (auto simp: max_def min_def split: if_splits)
  then show ?thesis
    using eq recent pairs n unfolding recalledBy_def by (intro exI [of _ P]) auto
qed

text \<open>What is recalled of a history is a part of it in its order. The most recent messages, as many as are always kept, are in it
  as far as \<open>topK\<close> allows. Unless the recall was degraded, a question and the answer that follows it are recalled both
  or not at all (before the recent ones). At most twice \<open>topK\<close> messages less those always kept are recalled.\<close>

theorem history_recalled:
  assumes "historyRecall rv ready embedder now latency query history topK r = (Done res, r')"
    and "distinct (map hm_Ref history)" "0 \<le> rc_recentKeep r" "0 \<le> topK"
  shows "\<exists>P. rr_Messages res = filter P history \<and>
    (\<forall>i < length history. int (length history) - min (rc_recentKeep r) topK \<le> int i \<longrightarrow> P (history ! i)) \<and>
    (\<not> rr_Degraded res \<longrightarrow> (\<forall>i. int (Suc i) < int (length history) - rc_recentKeep r \<longrightarrow>
       hm_Role (history ! i) = ''user'' \<longrightarrow> hm_Role (history ! Suc i) = ''assistant'' \<longrightarrow>
       (P (history ! i) \<longleftrightarrow> P (history ! Suc i)))) \<and>
    int (length (rr_Messages res)) \<le> max (rc_recentKeep r) (2 * topK - rc_recentKeep r)"
proof -
  have dh: "distinct history" using assms(2) by (simp add: distinct_map)
  note fall = degraded_recalled [OF _ dh assms(3,4)]
  consider (whole) "int (length history) \<le> topK" | (unready) "\<not> int (length history) \<le> topK" "\<not> ready"
    | (go) "\<not> int (length history) \<le> topK" "ready" by blast
  then have "\<exists>P. recalledBy history (rc_recentKeep r) topK res P"
  proof cases
    case whole
    then have "rr_Messages res = history" using assms(1) by (auto simp: historyRecall_def)
    then show ?thesis using whole assms(3,4) unfolding recalledBy_def by (intro exI [of _ "\<lambda>_. True"]) auto
  next
    case unready
    then show ?thesis using assms(1) fall by (auto simp: historyRecall_def)
  next
    case go
    define rk where "rk = min (rc_recentKeep r) (int (length history))"
    define n where "n = nat (int (length history) - rk)"
    obtain out r2 where e: "recallByEmbedding rv embedder now query (take n history) (topK - rk) r = (out, r2)" by fastforce
    have n: "n \<le> length history" "int n = int (length history) - rk" using assms(3) by (auto simp: n_def rk_def)
    show ?thesis
    proof (cases out)
      case Panic
      then show ?thesis using assms(1) go e by (simp add: historyRecall_def Let_def rk_def n_def)
    next
      case Failed
      then have "degradedResult latency history topK = Done res"
        using assms(1) go e by (simp add: historyRecall_def Let_def rk_def n_def)
      then show ?thesis by (rule fall)
    next
      case (Done x)
      obtain paired hits emb where x: "x = (paired, hits, emb)" by (cases x) auto
      note inv = recallByEmbedding_inv [OF e [unfolded Done x]]
      show ?thesis
        by (rule merged_recalled [OF assms(2) _ n rk_def, where paired = paired])
           (use inv go assms(1,3) e Done x in \<open>auto simp: historyRecall_def Let_def rk_def n_def\<close>)
    qed
  qed
  then show ?thesis unfolding recalledBy_def .
qed

definition demo_recall_env :: recall_env where
  "demo_recall_env = \<lparr>rv_lower = (\<lambda>x. x), rv_hash8 = (\<lambda>x. x), rv_services = (\<lambda>_. []), rv_errorCodes = (\<lambda>_. []),
     rv_metrics = (\<lambda>_. []), rv_entities = (\<lambda>_. []), rv_sqrt = (\<lambda>x. x), rv_pow = (\<lambda>x y. 1)\<rparr>"

definition demo_history :: "history_message list" where
  "demo_history = map (\<lambda>i. \<lparr>hm_Ref = i, hm_Msg = UserMessage ''q''\<rparr>) [0..<6]"

theorem history_recalled_witness:
  "\<exists>res r'. historyRecall demo_recall_env True (\<lambda>_. None) 0 0 ''q'' demo_history 4 NewHistoryRecaller = (Done res, r') \<and>
     int (length (rr_Messages res)) \<le> 5"
proof -
  have "\<exists>res r'. historyRecall demo_recall_env True (\<lambda>_. None) 0 0 ''q'' demo_history 4 NewHistoryRecaller = (Done res, r')"
    by (simp add: historyRecall_def demo_history_def NewHistoryRecaller_def Let_def recallByEmbedding_def degradedResult_def)
  then obtain res r' where
    h: "historyRecall demo_recall_env True (\<lambda>_. None) 0 0 ''q'' demo_history 4 NewHistoryRecaller = (Done res, r')" by blast
  have d: "distinct (map hm_Ref demo_history)" by (simp add: demo_history_def comp_def)
  have k: "rc_recentKeep NewHistoryRecaller = 3" by (simp add: NewHistoryRecaller_def)
  from history_recalled [OF h d] have "int (length (rr_Messages res)) \<le> 5" by (simp add: k) blast
  with h show ?thesis by blast
qed

subsection \<open>Recalled tool results\<close>

lemma byScore_split:
  assumes "byScore xs = as @ bs" "a \<in> set as" "b \<in> set bs"
  shows "snd b \<le> snd a"
proof -
  have "sorted_wrt (\<lambda>x y. \<not> snd y > snd x) (byScore xs)"
    unfolding byScore_def by (rule sort_slice_sorted [OF weak_order_key])
  then show ?thesis using assms by (auto simp: sorted_wrt_append not_less)
qed

text \<open>When there are more tool results than may be kept, the ones recalled are \<open>topK\<close> of them, and none of those left out matches
  the query better than one that was kept.\<close>

theorem best_tools_recalled:
  assumes "0 \<le> topK" "topK < int (length items)"
  shows "\<exists>kept left_out. mset items = mset (map fst kept) + mset (map fst left_out) \<and>
    tl_Items (toolRecall rv latency query items topK) = map fst kept \<and> int (length kept) = topK \<and>
    (\<forall>a \<in> set kept. \<forall>b \<in> set left_out. snd b \<le> snd a) \<and>
    (\<forall>x \<in> set kept \<union> set left_out. snd x = matchScore rv (extractKeywords rv query) (fst x))"
proof -
  define scored where "scored = map (\<lambda>item. (item, matchScore rv (extractKeywords rv query) item)) items"
  define kept where "kept = take (nat topK) (byScore scored)"
  define left_out where "left_out = drop (nat topK) (byScore scored)"
  have split: "byScore scored = kept @ left_out" by (simp add: kept_def left_out_def)
  have ms: "mset (kept @ left_out) = mset scored" unfolding split [symmetric] by (simp add: byScore_def)
  have items: "map fst scored = items" by (simp add: scored_def comp_def)
  have "mset (map fst (kept @ left_out)) = mset (map fst scored)" using ms by (metis mset_map)
  then have parts: "mset items = mset (map fst kept) + mset (map fst left_out)" unfolding items map_append by simp
  have "set scored = set kept \<union> set left_out" using ms by (metis set_append set_mset_mset)
  moreover have "\<forall>x \<in> set scored. snd x = matchScore rv (extractKeywords rv query) (fst x)" by (auto simp: scored_def)
  ultimately have score: "\<forall>x \<in> set kept \<union> set left_out. snd x = matchScore rv (extractKeywords rv query) (fst x)" by simp
  have len: "int (length kept) = topK" using assms by (simp add: kept_def byScore_def scored_def)
  have res: "tl_Items (toolRecall rv latency query items topK) = map fst kept"
    using assms by (simp add: toolRecall_def Let_def kept_def scored_def)
  have "\<forall>a \<in> set kept. \<forall>b \<in> set left_out. snd b \<le> snd a" using byScore_split [OF split] by blast
  with parts res len score show ?thesis by blast
qed

subsection \<open>Reranking\<close>

lemma setScores_bounds:
  "length (setScores n es) = nat n \<and> (\<forall>x \<in> set (setScores n es). 0 \<le> x \<and> x \<le> 10)"
proof -
  let ?f = "\<lambda>(eid, score :: f64) scores. let idx = eid - 1
      in if idx \<ge> 0 \<and> idx < n then scores[nat idx := min 10 (max 0 score)] else scores"
  have "length (fold ?f es ss) = length ss \<and> (\<forall>x \<in> set (fold ?f es ss). 0 \<le> x \<and> x \<le> 10)"
    if "\<forall>x \<in> set ss. 0 \<le> x \<and> x \<le> 10" for ss
    using that
  proof (induction es arbitrary: ss)
    case (Cons e es)
    obtain eid score where e: "e = (eid, score)" by (cases e)
    have "\<forall>x \<in> set (?f e ss). 0 \<le> x \<and> x \<le> 10" "length (?f e ss) = length ss"
      using Cons.prems by (auto simp: e Let_def dest!: set_update_subset_insert [THEN subsetD])
    with Cons.IH [of "?f e ss"] show ?case by simp
  qed simp
  from this [of "replicate (nat n) 0"] show ?thesis by (simp add: setScores_def)
qed

end
