(* ===== verification/Ctx_Select_Properties.thy ===== *)
theory Ctx_Select_Properties
  imports Ctx_Select
begin

text \<open>
  What the selections promise: which memories, tool results, documents and messages enter a context, how many and at
  what cost in tokens, and that every candidate is either taken or dropped with a reason.
\<close>

abbreviation tokensOf :: "context_item list \<Rightarrow> int" where
  "tokensOf items \<equiv> sum_list (map ci_TokenEstimate items)"

text \<open>The account of a selection that started with \<open>budget\<close> tokens.\<close>

definition accounted :: "int \<Rightarrow> selection \<Rightarrow> bool" where
  "accounted budget st \<longleftrightarrow> sl_used st = tokensOf (sl_selected st) \<and> sl_remaining st = budget - sl_used st"

lemma startSelection_simps [simp]:
  "sl_selected (startSelection b) = []" "sl_dropped (startSelection b) = []" "sl_used (startSelection b) = 0"
  "sl_remaining (startSelection b) = b"
  by (simp_all add: startSelection_def)

lemma takeItem_simps [simp]:
  "sl_selected (takeItem i st) = sl_selected st @ [i\<lparr>ci_Selected := True\<rparr>]" "sl_dropped (takeItem i st) = sl_dropped st"
  "sl_used (takeItem i st) = sl_used st + ci_TokenEstimate i" "sl_remaining (takeItem i st) = sl_remaining st - ci_TokenEstimate i"
  by (simp_all add: takeItem_def)

lemma dropItem_simps [simp]:
  "sl_selected (dropItem r i st) = sl_selected st" "sl_dropped (dropItem r i st) = sl_dropped st @ [i\<lparr>ci_DroppedReason := r\<rparr>]"
  "sl_used (dropItem r i st) = sl_used st" "sl_remaining (dropItem r i st) = sl_remaining st"
  by (simp_all add: dropItem_def)

lemma accounted_start [simp]: "accounted b (startSelection b)"
  by (simp add: accounted_def)

lemma accounted_take [simp]: "accounted b (takeItem i st) = accounted b st"
  by (auto simp: accounted_def)

lemma accounted_drop [simp]: "accounted b (dropItem r i st) = accounted b st"
  by (auto simp: accounted_def)

subsection \<open>Memories\<close>

definition admissible :: "(string \<Rightarrow> string) \<Rightarrow> context_profile \<Rightarrow> gotime \<Rightarrow> memory_entry \<Rightarrow> bool" where
  "admissible lower profile now e \<longleftrightarrow>
     \<not> (0 < me_ExpiresAt e \<and> me_ExpiresAt e \<le> unix_milli now) \<and>
     memoryScopeAllowed (me_Scope e) (cf_AllowedMemoryScopes profile) \<and>
     cf_MinMemoryConfidence profile \<le> me_Confidence e \<and> memorySafetyAllowed lower (me_SafetyLabel e)"

lemma newMemoryItem_simps [simp]:
  "ci_ID (newMemoryItem now e) = me_ID e" "ci_Content (newMemoryItem now e) = me_Content e"
  "ci_TokenEstimate (newMemoryItem now e) = EstimateTokens (me_Content e)" "ci_Scope (newMemoryItem now e) = me_Scope e"
  "ci_Confidence (newMemoryItem now e) = me_Confidence e" "ci_SafetyLabel (newMemoryItem now e) = me_SafetyLabel e"
  "ci_ExpiresAt (newMemoryItem now e) = me_ExpiresAt e" "ci_Title (newMemoryItem now e) = me_Type e"
  by (simp_all add: newMemoryItem_def)

text \<open>One entry is taken, if it is admissible and fits, or dropped with a reason.\<close>

lemma selectMemory_cases:
  obtains (taken) "admissible lower profile now e" "int (length (sl_selected st)) < cf_MaxMemoryItems profile"
      "EstimateTokens (me_Content e) \<le> sl_remaining st" "selectMemory lower profile now e st = takeItem (newMemoryItem now e) st"
  | (dropped) r where "r \<noteq> []" "selectMemory lower profile now e st = dropItem r (newMemoryItem now e) st"
proof -
  let ?i = "newMemoryItem now e"
  consider (e) "memoryItemExpired ?i now"
    | (s) "\<not> memoryItemExpired ?i now" "\<not> memoryScopeAllowed (me_Scope e) (cf_AllowedMemoryScopes profile)"
    | (c) "\<not> memoryItemExpired ?i now" "memoryScopeAllowed (me_Scope e) (cf_AllowedMemoryScopes profile)"
        "me_Confidence e < cf_MinMemoryConfidence profile"
    | (l) "\<not> memoryItemExpired ?i now" "memoryScopeAllowed (me_Scope e) (cf_AllowedMemoryScopes profile)"
        "\<not> me_Confidence e < cf_MinMemoryConfidence profile" "\<not> memorySafetyAllowed lower (me_SafetyLabel e)"
    | (ok) "\<not> memoryItemExpired ?i now" "memoryScopeAllowed (me_Scope e) (cf_AllowedMemoryScopes profile)"
        "\<not> me_Confidence e < cf_MinMemoryConfidence profile" "memorySafetyAllowed lower (me_SafetyLabel e)"
    by blast
  then show thesis
  proof cases
    case e
    show thesis by (rule dropped [of "''memory_expired''"]) (simp_all add: selectMemory_def Let_def e)
  next
    case s
    show thesis by (rule dropped [of "''memory_scope''"]) (simp_all add: selectMemory_def Let_def s)
  next
    case c
    show thesis by (rule dropped [of "''memory_confidence''"]) (simp_all add: selectMemory_def Let_def c)
  next
    case l
    show thesis by (rule dropped [of "''memory_safety''"]) (simp_all add: selectMemory_def Let_def l)
  next
    case ok
    consider (w) "cf_MaxMemoryItems profile \<le> int (length (sl_selected st))"
      | (b) "\<not> cf_MaxMemoryItems profile \<le> int (length (sl_selected st))" "sl_remaining st < EstimateTokens (me_Content e)"
      | (t) "\<not> cf_MaxMemoryItems profile \<le> int (length (sl_selected st))" "\<not> sl_remaining st < EstimateTokens (me_Content e)"
      by blast
    then show thesis
    proof cases
      case w
      show thesis by (rule dropped [of "''memory_window''"]) (simp_all add: selectMemory_def Let_def ok w)
    next
      case b
      show thesis by (rule dropped [of "''memory_budget''"]) (simp_all add: selectMemory_def Let_def ok b)
    next
      case t
      have "admissible lower profile now e" using ok by (simp add: admissible_def memoryItemExpired_def)
      then show thesis by (rule taken) (use t in \<open>simp_all add: selectMemory_def Let_def ok\<close>)
    qed
  qed
qed

definition memoryInv :: "(string \<Rightarrow> string) \<Rightarrow> context_profile \<Rightarrow> gotime \<Rightarrow> int \<Rightarrow> memory_entry list \<Rightarrow> selection \<Rightarrow> bool" where
  "memoryInv lower profile now budget es st \<longleftrightarrow>
     accounted budget st \<and> 0 \<le> sl_remaining st \<and> int (length (sl_selected st)) \<le> max 0 (cf_MaxMemoryItems profile) \<and>
     (\<forall>item \<in> set (sl_selected st). \<exists>e \<in> set es. admissible lower profile now e \<and> item = (newMemoryItem now e)\<lparr>ci_Selected := True\<rparr>) \<and>
     (\<forall>item \<in> set (sl_dropped st). ci_DroppedReason item \<noteq> []) \<and>
     mset (map ci_ID (sl_selected st @ sl_dropped st)) = mset (map me_ID es)"

lemma memoryInv_fold:
  assumes "0 \<le> budget"
  shows "memoryInv lower profile now budget es (fold (selectMemory lower profile now) es (startSelection budget))"
proof (induction es rule: rev_induct)
  case Nil
  then show ?case using assms by (simp add: memoryInv_def)
next
  case (snoc e es)
  let ?st = "fold (selectMemory lower profile now) es (startSelection budget)"
  have step: "fold (selectMemory lower profile now) (es @ [e]) (startSelection budget) = selectMemory lower profile now e ?st"
    by simp
  show ?case
  proof (cases rule: selectMemory_cases [of lower profile now e ?st])
    case taken
    then show ?thesis using snoc unfolding step by (auto simp: memoryInv_def)
  next
    case (dropped r)
    then show ?thesis using snoc unfolding step by (auto simp: memoryInv_def)
  qed
qed

text \<open>Only memories that may be shown enter a context: each one selected is an entry that has not expired, is of an allowed
  scope, is at least as confident as the profile asks and has a safe label. There are at most as many as the profile
  allows, they cost at most the tokens of the memory budget, and every entry is either selected or dropped with a
  reason.\<close>

theorem memories_selected:
  assumes "selectMemories lower entries profile now = (selected, dropped, n, ns)" "0 \<le> cb_MemoryTokens (cf_Budget profile)"
  shows "(\<forall>item \<in> set selected. \<exists>e \<in> set entries. admissible lower profile now e \<and>
      item = (newMemoryItem now e)\<lparr>ci_Selected := True\<rparr>) \<and>
    int (length selected) \<le> max 0 (cf_MaxMemoryItems profile) \<and>
    n = tokensOf selected \<and> n \<le> cb_MemoryTokens (cf_Budget profile) \<and>
    (\<forall>item \<in> set dropped. ci_DroppedReason item \<noteq> []) \<and>
    (mset (map ci_ID (selected @ dropped)) = mset (map me_ID entries) \<or>
     selected = [] \<and> ns = [''memory disabled or empty''])"
proof (cases "entries = [] \<or> cf_MaxMemoryItems profile = 0 \<or> cb_MemoryTokens (cf_Budget profile) = 0")
  case True
  then have "selected = [] \<and> dropped = [] \<and> n = 0 \<and> ns = [''memory disabled or empty'']"
    using assms(1) by (simp add: selectMemories_def)
  then show ?thesis using assms(2) by simp
next
  case False
  define st where "st = fold (selectMemory lower profile now) entries (startSelection (cb_MemoryTokens (cf_Budget profile)))"
  have "selected = sl_selected st \<and> dropped = sl_dropped st \<and> n = sl_used st"
    using assms(1) False by (simp add: selectMemories_def st_def Let_def)
  moreover have "memoryInv lower profile now (cb_MemoryTokens (cf_Budget profile)) entries st"
    unfolding st_def by (rule memoryInv_fold [OF assms(2)])
  ultimately show ?thesis by (simp add: memoryInv_def accounted_def)
qed

definition demo_budget :: context_budget where
  "demo_budget = \<lparr>cb_MaxTotalTokens = 40, cb_SystemTokens = 4, cb_HistoryTokens = 4, cb_MemoryTokens = 4, cb_DocumentTokens = 4,
                  cb_ToolTokens = 4, cb_ReservedTokens = 4\<rparr>"

definition demo_profile :: context_profile where
  "demo_profile = \<lparr>cf_Name = ''demo'', cf_AllowHistory = True, cf_AllowMemory = True, cf_AllowDocs = True, cf_AllowToolResults = True,
     cf_Staged = True, cf_MaxHistoryMessages = 2, cf_MaxMemoryItems = 1, cf_MaxToolItems = 1, cf_MinMemoryConfidence = 0,
     cf_AllowedMemoryScopes = [], cf_Budget = demo_budget\<rparr>"

definition demo_entry :: memory_entry where
  "demo_entry = \<lparr>me_ID = ''m'', me_SessionID = ''s'', me_Type = ''fact'', me_Content = ''abcd'', me_Source = [], me_Scope = ''session'',
     me_ScopeID = ''s'', me_Confidence = 1, me_SafetyLabel = ''internal'', me_Provenance = [], me_ConflictGroup = [],
     me_ExpiresAt = 0, me_Relevance = 1, me_AccessCnt = 1, me_CreatedAt = 0, me_UpdatedAt = 0, me_LastUsed = 0\<rparr>"

theorem memories_selected_witness:
  "let (selected, dropped, n, ns) = selectMemories (\<lambda>x. x) [demo_entry, demo_entry] demo_profile 0
   in length selected \<le> 1 \<and> n \<le> 4"
proof -
  obtain selected dropped n ns where
    r: "selectMemories (\<lambda>x. x) [demo_entry, demo_entry] demo_profile 0 = (selected, dropped, n, ns)" by (metis prod_cases4)
  have p: "cb_MemoryTokens (cf_Budget demo_profile) = 4" "cf_MaxMemoryItems demo_profile = 1"
    by (simp_all add: demo_profile_def demo_budget_def)
  show ?thesis using memories_selected [OF r] p by (simp add: r)
qed

subsection \<open>Tool results and documents\<close>

text \<open>A selection in which only the item taken last may have gone beyond the budget.\<close>

definition budgeted :: "int \<Rightarrow> selection \<Rightarrow> bool" where
  "budgeted budget st \<longleftrightarrow>
     accounted budget st \<and> (sl_selected st \<noteq> [] \<longrightarrow> tokensOf (butlast (sl_selected st)) < budget) \<and>
     (\<forall>item \<in> set (sl_dropped st). ci_DroppedReason item \<noteq> [])"

lemma budgeted_start [simp]: "budgeted b (startSelection b)"
  by (simp add: budgeted_def)

lemma budgeted_drop: "r \<noteq> [] \<Longrightarrow> budgeted b st \<Longrightarrow> budgeted b (dropItem r i st)"
  by (auto simp: budgeted_def)

lemma budgeted_take: "0 < sl_remaining st \<Longrightarrow> budgeted b st \<Longrightarrow> budgeted b (takeItem i st)"
  by (auto simp: budgeted_def accounted_def)

lemma budgeted_drops: "r \<noteq> [] \<Longrightarrow> budgeted b st \<Longrightarrow> budgeted b (fold (dropItem r) items st)"
  by (induction items arbitrary: st) (simp_all add: budgeted_drop)

definition idsOf :: "selection \<Rightarrow> string multiset" where
  "idsOf st = mset (map ci_ID (sl_selected st @ sl_dropped st))"

lemma idsOf_simps [simp]:
  "idsOf (takeItem i st) = add_mset (ci_ID i) (idsOf st)" "idsOf (dropItem r i st) = add_mset (ci_ID i) (idsOf st)"
  "idsOf (startSelection b) = {#}"
  by (simp_all add: idsOf_def)

lemma drops_simps [simp]:
  "sl_selected (fold (dropItem r) items st) = sl_selected st"
  "idsOf (fold (dropItem r) items st) = mset (map ci_ID items) + idsOf st"
  by (induction items arbitrary: st) simp_all

lemma compressItem_ID: "ci_ID (fst (compressItem compress cfg src query item)) = ci_ID item"
  by (cases cfg) (simp_all add: compressItem_def Let_def)

lemma fitItem_ID: "fitItem n item = Some item' \<Longrightarrow> ci_ID item' = ci_ID item"
  by (auto simp: fitItem_def Let_def split: if_splits)

lemma toolLoop_inv:
  assumes "\<And>item. ci_ID (fst (compf item)) = ci_ID item"
  shows "budgeted b st \<Longrightarrow> 0 < sl_remaining st \<Longrightarrow> length (sl_selected st) \<le> idx \<Longrightarrow>
      int (length (sl_selected st)) \<le> max 0 (cf_MaxToolItems profile) \<Longrightarrow>
      toolLoop compf profile idx items st reports = (st', reports') \<Longrightarrow>
    budgeted b st' \<and> idsOf st' = idsOf st + mset (map ci_ID items) \<and>
    int (length (sl_selected st')) \<le> max 0 (cf_MaxToolItems profile)"
proof (induction items arbitrary: idx st reports)
  case Nil
  then show ?case by simp
next
  case (Cons item0 items)
  define item where "item = item0\<lparr>ci_TokenEstimate := EstimateTokens (ci_Content item0)\<rparr>"
  have iid: "ci_ID item = ci_ID item0" by (simp add: item_def)
  obtain item1 rs where c: "compf item = (item1, rs)" by fastforce
  then have i1: "ci_ID item1 = ci_ID item0" using assms [of item] iid by simp
  consider (w) "cf_MaxToolItems profile \<le> int idx"
    | (n) "\<not> cf_MaxToolItems profile \<le> int idx" "fitItem (sl_remaining st) item1 = None"
    | (t) item2 where "\<not> cf_MaxToolItems profile \<le> int idx" "fitItem (sl_remaining st) item1 = Some item2"
    by fastforce
  then show ?case
  proof cases
    case w
    have "toolLoop compf profile (Suc idx) items (dropItem ''tool_window'' item st) reports = (st', reports')"
      using Cons.prems(5) w by (simp add: item_def Let_def)
    from Cons.IH [OF _ _ _ _ this] Cons.prems show ?thesis by (simp add: budgeted_drop iid)
  next
    case n
    have "toolLoop compf profile (Suc idx) items (dropItem ''tool_budget'' item1 st) (reports @ rs) = (st', reports')"
      using Cons.prems(5) n c by (simp add: item_def [symmetric] Let_def)
    from Cons.IH [OF _ _ _ _ this] Cons.prems show ?thesis by (simp add: budgeted_drop i1)
  next
    case t
    have id2: "ci_ID item2 = ci_ID item0" using fitItem_ID [OF t(2)] i1 by simp
    have b1: "budgeted b (takeItem item2 st)" by (rule budgeted_take [OF Cons.prems(2,1)])
    have len: "int (length (sl_selected (takeItem item2 st))) \<le> max 0 (cf_MaxToolItems profile)"
      using Cons.prems(3) t(1) by simp
    show ?thesis
    proof (cases "sl_remaining (takeItem item2 st) \<le> 0")
      case True
      have "st' = fold (dropItem ''tool_budget'') items (takeItem item2 st)"
        using Cons.prems(5) t c True by (simp add: item_def [symmetric] Let_def)
      then show ?thesis using budgeted_drops [OF _ b1] len by (simp add: id2)
    next
      case False
      have "toolLoop compf profile (Suc idx) items (takeItem item2 st) (reports @ rs) = (st', reports')"
        using Cons.prems(5) t c False by (simp add: item_def [symmetric] Let_def)
      from Cons.IH [OF b1 _ _ len this] False Cons.prems(3) show ?thesis by (simp add: id2)
    qed
  qed
qed

text \<open>Tool results are never lost without a trace: each one is selected or dropped with a reason. At most the profile's number of
  them is selected, and all but the last one selected together cost less than the budget: only the item that was
  cut to fit may exceed it.\<close>

theorem tools_selected:
  assumes "selectToolItemsWithCompression compress items profile query cfg = (selected, dropped, n, ns, reports)"
    and "0 \<le> cb_ToolTokens (cf_Budget profile)"
  shows "n = tokensOf selected \<and> int (length selected) \<le> max 0 (cf_MaxToolItems profile) \<and>
    (selected \<noteq> [] \<longrightarrow> tokensOf (butlast selected) < cb_ToolTokens (cf_Budget profile)) \<and>
    (\<forall>item \<in> set dropped. ci_DroppedReason item \<noteq> []) \<and>
    (mset (map ci_ID (selected @ dropped)) = mset (map ci_ID items) \<or>
     selected = [] \<and> ns = [''tool results empty or disabled''])"
proof (cases "items = [] \<or> cf_MaxToolItems profile = 0 \<or> cb_ToolTokens (cf_Budget profile) = 0")
  case True
  then have "selected = [] \<and> dropped = [] \<and> n = 0 \<and> ns = [''tool results empty or disabled'']"
    using assms(1) by (simp add: selectToolItemsWithCompression_def)
  then show ?thesis by simp
next
  case False
  define b where "b = cb_ToolTokens (cf_Budget profile)"
  obtain st rs where l: "toolLoop (compressItem compress cfg SourceTool query) profile 0 items (startSelection b) [] = (st, rs)"
    by fastforce
  have "selected = sl_selected st \<and> dropped = sl_dropped st \<and> n = sl_used st"
    using assms(1) False l by (simp add: selectToolItemsWithCompression_def b_def)
  moreover have "budgeted b st \<and> idsOf st = idsOf (startSelection b) + mset (map ci_ID items) \<and>
      int (length (sl_selected st)) \<le> max 0 (cf_MaxToolItems profile)"
    by (rule toolLoop_inv [OF compressItem_ID _ _ _ _ l]) (use False assms(2) in \<open>simp_all add: b_def\<close>)
  ultimately show ?thesis by (simp add: budgeted_def accounted_def idsOf_def b_def)
qed

theorem tools_selected_witness:
  "let (selected, dropped, n, ns, reports) =
     selectToolItemsWithCompression (\<lambda>req cfg. freshResult req defaultConfig)
       [emptyItem\<lparr>ci_ID := ''a'', ci_Content := ''x''\<rparr>, emptyItem\<lparr>ci_ID := ''b'', ci_Content := ''y''\<rparr>] demo_profile ''q'' None
   in int (length selected) \<le> 1 \<and> (selected \<noteq> [] \<longrightarrow> tokensOf (butlast selected) < 4)"
proof -
  obtain selected dropped n ns reports where
    r: "selectToolItemsWithCompression (\<lambda>req cfg. freshResult req defaultConfig)
       [emptyItem\<lparr>ci_ID := ''a'', ci_Content := ''x''\<rparr>, emptyItem\<lparr>ci_ID := ''b'', ci_Content := ''y''\<rparr>] demo_profile ''q'' None =
       (selected, dropped, n, ns, reports)" by (metis prod_cases5)
  have p: "cb_ToolTokens (cf_Budget demo_profile) = 4" "cf_MaxToolItems demo_profile = 1"
    by (simp_all add: demo_profile_def demo_budget_def)
  show ?thesis using tools_selected [OF r] p by (simp add: r)
qed

lemma dropped_docs_ID:
  "ci_ID \<circ> (\<lambda>(j, d). newDroppedDocumentItem d j r) = (\<lambda>(j, d). ci_ID (newDocumentItem d j))"
  by (auto simp: newDroppedDocumentItem_def)

lemma documentLoop_inv:
  assumes "\<And>item. ci_ID (fst (compf item)) = ci_ID item"
  shows "budgeted b st \<Longrightarrow> 0 < sl_remaining st \<Longrightarrow> documentLoop compf idx docs st reports = (st', reports') \<Longrightarrow>
    budgeted b st' \<and> idsOf st' = idsOf st + mset (map (\<lambda>(j, d). ci_ID (newDocumentItem d j)) (enumerate idx docs))"
proof (induction docs arbitrary: idx st reports)
  case Nil
  then show ?case by simp
next
  case (Cons doc docs)
  obtain item1 rs where c: "compf (newDocumentItem doc idx) = (item1, rs)" by fastforce
  then have i1: "ci_ID item1 = ci_ID (newDocumentItem doc idx)" using assms [of "newDocumentItem doc idx"] by simp
  show ?case
  proof (cases "fitItem (sl_remaining st) item1")
    case None
    then have "documentLoop compf (Suc idx) docs (dropItem ''document_budget'' item1 st) (reports @ rs) = (st', reports')"
      using Cons.prems(3) c by simp
    from Cons.IH [OF _ _ this] Cons.prems show ?thesis by (simp add: budgeted_drop i1)
  next
    case (Some item2)
    have id2: "ci_ID item2 = ci_ID (newDocumentItem doc idx)" using fitItem_ID [OF Some] i1 by simp
    have b1: "budgeted b (takeItem item2 st)" by (rule budgeted_take [OF Cons.prems(2,1)])
    show ?thesis
    proof (cases "sl_remaining (takeItem item2 st) \<le> 0")
      case True
      have st': "st' = (takeItem item2 st)\<lparr>sl_dropped := sl_dropped (takeItem item2 st) @
          map (\<lambda>(j, d). newDroppedDocumentItem d j ''document_budget'') (enumerate (Suc idx) docs)\<rparr>"
        using Cons.prems(3) Some c True by (simp add: Let_def)
      have "budgeted b st'"
        using b1 unfolding st' by (auto simp: budgeted_def accounted_def newDroppedDocumentItem_def)
      moreover have "idsOf st' = add_mset (ci_ID item2) (idsOf st) +
          mset (map (\<lambda>(j, d). ci_ID (newDocumentItem d j)) (enumerate (Suc idx) docs))"
        unfolding st' by (simp add: idsOf_def dropped_docs_ID)
      ultimately show ?thesis by (simp add: id2)
    next
      case False
      have "documentLoop compf (Suc idx) docs (takeItem item2 st) (reports @ rs) = (st', reports')"
        using Cons.prems(3) Some c False by (simp add: Let_def)
      from Cons.IH [OF b1 _ this] False show ?thesis by (simp add: id2)
    qed
  qed
qed

text \<open>The same of documents.\<close>

theorem documents_selected:
  assumes "selectDocuments compress cfg answer query profile = ds" "0 \<le> cb_DocumentTokens (cf_Budget profile)"
  shows "ds_used ds = tokensOf (ds_selected ds) \<and>
    (ds_selected ds \<noteq> [] \<longrightarrow> tokensOf (butlast (ds_selected ds)) < cb_DocumentTokens (cf_Budget profile)) \<and>
    (\<forall>docs. snd (answer query) = Inr docs \<longrightarrow> trim_space query \<noteq> [] \<longrightarrow> cf_AllowDocs profile \<longrightarrow>
       cb_DocumentTokens (cf_Budget profile) \<noteq> 0 \<longrightarrow>
       mset (map ci_ID (ds_selected ds @ ds_dropped ds)) = mset (map (\<lambda>(j, d). ci_ID (newDocumentItem d j)) (enumerate 0 docs)))"
proof (cases "trim_space query = [] \<or> \<not> cf_AllowDocs profile \<or> cb_DocumentTokens (cf_Budget profile) = 0")
  case True
  then have "ds_selected ds = []" "ds_used ds = 0"
    using assms(1) by (auto simp: selectDocuments_def noDocuments_def)
  then show ?thesis using True by auto
next
  case False
  define b where "b = cb_DocumentTokens (cf_Budget profile)"
  obtain trace res where a: "answer query = (trace, res)" by fastforce
  show ?thesis
  proof (cases "res = Inr [] \<or> isl res")
    case True
    then have "ds_selected ds = []" "ds_dropped ds = []" "ds_used ds = 0"
      using assms(1) False a by (auto simp: selectDocuments_def noDocuments_def Let_def isl_def)
    then show ?thesis using True a by auto
  next
    case docs: False
    then obtain docs where d: "res = Inr docs" "docs \<noteq> []" by (cases res) auto
    obtain st rs where l: "documentLoop (compressItem compress (Some cfg) SourceRAG query) 0 docs (startSelection b) [] = (st, rs)"
      by fastforce
    have "ds_selected ds = sl_selected st \<and> ds_dropped ds = sl_dropped st \<and> ds_used ds = sl_used st"
      using assms(1) False a d l by (auto simp: selectDocuments_def b_def Let_def)
    moreover have "budgeted b st \<and> idsOf st = idsOf (startSelection b) +
        mset (map (\<lambda>(j, d). ci_ID (newDocumentItem d j)) (enumerate 0 docs))"
      by (rule documentLoop_inv [OF compressItem_ID _ _ l]) (use False assms(2) in \<open>simp_all add: b_def\<close>)
    ultimately show ?thesis using a d by (simp add: budgeted_def accounted_def idsOf_def b_def)
  qed
qed

subsection \<open>History\<close>

abbreviation messageTokens :: "chat_message list \<Rightarrow> nat \<Rightarrow> int" where
  "messageTokens history i \<equiv> EstimateTokens (cm_Content (history ! i))"

text \<open>The account of the indices selected so far, all of them at least \<open>m\<close>.\<close>

definition indexed :: "chat_message list \<Rightarrow> int \<Rightarrow> history_selection \<Rightarrow> bool" where
  "indexed history budget st \<longleftrightarrow>
     distinct (hs_selectedIdx st) \<and> (\<forall>i \<in> set (hs_selectedIdx st). i < length history) \<and>
     hs_used st = (\<Sum>i \<leftarrow> hs_selectedIdx st. messageTokens history i) \<and>
     hs_remaining st = budget - hs_used st \<and> 0 \<le> hs_remaining st"

definition historyInv :: "chat_message list \<Rightarrow> int \<Rightarrow> int \<Rightarrow> nat \<Rightarrow> history_selection \<Rightarrow> bool" where
  "historyInv history budget maxMessages m st \<longleftrightarrow>
     indexed history budget st \<and> (\<forall>i \<in> set (hs_selectedIdx st). m \<le> i) \<and>
     int (length (hs_selectedIdx st)) \<le> max 0 maxMessages \<and>
     (\<forall>i. m \<le> i \<longrightarrow> i < length history \<longrightarrow> i \<notin> set (hs_selectedIdx st) \<longrightarrow> containsDroppedHistory (hs_dropped st) i)"

lemma contains_dropped_append [simp]:
  "containsDroppedHistory (ds @ es) i \<longleftrightarrow> containsDroppedHistory ds i \<or> containsDroppedHistory es i"
  by (simp add: containsDroppedHistory_def)

lemma contains_dropped_self [simp]: "containsDroppedHistory [newDroppedHistoryItem i msg r] i"
  by (simp add: containsDroppedHistory_def newDroppedHistoryItem_def)

lemma historyLoop_inv:
  "historyInv history budget maxMessages (length ms) st \<Longrightarrow> (\<And>i. i < length ms \<Longrightarrow> ms ! i = history ! (length ms - 1 - i)) \<Longrightarrow>
     length ms \<le> length history \<Longrightarrow> historyInv history budget maxMessages 0 (historyLoop maxMessages ms st)"
proof (induction ms arbitrary: st)
  case Nil
  then show ?case by simp
next
  case (Cons msg ms)
  let ?m = "length ms"
  have msg: "msg = history ! ?m" using Cons.prems(2) [of 0] by simp
  have rest: "ms ! i = history ! (?m - 1 - i)" if "i < ?m" for i
    using Cons.prems(2) [of "Suc i"] that by simp
  have le: "?m < length history" using Cons.prems(3) by simp
  define st1 where "st1 = (if int (length (hs_selectedIdx st)) \<ge> maxMessages
            then st\<lparr>hs_dropped := hs_dropped st @ [newDroppedHistoryItem ?m msg ''history_window'']\<rparr>
            else if EstimateTokens (cm_Content msg) > hs_remaining st
            then st\<lparr>hs_dropped := hs_dropped st @ [newDroppedHistoryItem ?m msg ''history_budget'']\<rparr>
            else st\<lparr>hs_selectedIdx := hs_selectedIdx st @ [?m],
                    hs_remaining := hs_remaining st - EstimateTokens (cm_Content msg),
                    hs_used := hs_used st + EstimateTokens (cm_Content msg)\<rparr>)"
  have step: "historyLoop maxMessages (msg # ms) st = historyLoop maxMessages ms st1"
    by (simp add: st1_def Let_def)
  have inv: "indexed history budget st" "\<And>i. i \<in> set (hs_selectedIdx st) \<Longrightarrow> Suc ?m \<le> i"
    "int (length (hs_selectedIdx st)) \<le> max 0 maxMessages"
    "\<And>i. Suc ?m \<le> i \<Longrightarrow> i < length history \<Longrightarrow> i \<notin> set (hs_selectedIdx st) \<Longrightarrow> containsDroppedHistory (hs_dropped st) i"
    using Cons.prems(1) by (simp_all add: historyInv_def)
  have new: "?m \<notin> set (hs_selectedIdx st)" using inv(2) by fastforce
  have split: "?m \<le> i \<Longrightarrow> i = ?m \<or> Suc ?m \<le> i" for i by linarith
  have "historyInv history budget maxMessages ?m st1"
  proof (cases "int (length (hs_selectedIdx st)) \<ge> maxMessages \<or> EstimateTokens (cm_Content msg) > hs_remaining st")
    case True
    then obtain r where "st1 = st\<lparr>hs_dropped := hs_dropped st @ [newDroppedHistoryItem ?m msg r]\<rparr>"
      unfolding st1_def by metis
    then have d: "hs_selectedIdx st1 = hs_selectedIdx st" "indexed history budget st1"
      "hs_dropped st1 = hs_dropped st @ [newDroppedHistoryItem ?m msg r]"
      using inv(1) by (simp_all add: indexed_def)
    have "containsDroppedHistory (hs_dropped st1) i"
      if "?m \<le> i" "i < length history" "i \<notin> set (hs_selectedIdx st)" for i
      using split [OF that(1)] inv(4) [OF _ that(2,3)] by (auto simp: d(3))
    then show ?thesis
      using inv d unfolding historyInv_def by (auto dest: Suc_leD)
  next
    case False
    then have "st1 = st\<lparr>hs_selectedIdx := hs_selectedIdx st @ [?m],
                    hs_remaining := hs_remaining st - EstimateTokens (cm_Content msg),
                    hs_used := hs_used st + EstimateTokens (cm_Content msg)\<rparr>" by (simp add: st1_def)
    then show ?thesis
      using inv split False new le unfolding historyInv_def indexed_def by (auto simp: msg dest: Suc_leD)
  qed
  from Cons.IH [OF this rest] le show ?case unfolding step by simp
qed

lemma rescue_indexed:
  assumes "indexed history budget st" "i < length history"
  shows "indexed history budget (rescue i (history ! i) st) \<and>
    set (hs_selectedIdx st) \<subseteq> set (hs_selectedIdx (rescue i (history ! i) st)) \<and>
    length (hs_selectedIdx (rescue i (history ! i) st)) \<le> Suc (length (hs_selectedIdx st)) \<and>
    hs_dropped (rescue i (history ! i) st) = hs_dropped st"
  using assms by (auto simp: rescue_def indexed_def Let_def)

lemma rescueSummary_indexed:
  assumes "indexed history budget st"
  shows "indexed history budget (rescueSummary history st) \<and>
    set (hs_selectedIdx st) \<subseteq> set (hs_selectedIdx (rescueSummary history st)) \<and>
    length (hs_selectedIdx (rescueSummary history st)) \<le> length (hs_selectedIdx st) + 2 \<and>
    hs_dropped (rescueSummary history st) = hs_dropped st"
proof (cases "history \<noteq> [] \<and> hasSummaryPrefix (history ! 0) \<and> 0 \<notin> set (hs_selectedIdx st)")
  case True
  then have l: "0 < length history" by simp
  note r0 = rescue_indexed [OF assms l]
  show ?thesis
  proof (cases "1 < length history")
    case t: True
    note r1 = rescue_indexed [OF conjunct1 [OF r0] t]
    have e: "rescueSummary history st = rescue 1 (history ! 1) (rescue 0 (history ! 0) st)"
      using True t by (simp add: rescueSummary_def Let_def)
    show ?thesis using r0 r1 unfolding e by (auto intro: order_trans)
  next
    case False
    then have e: "rescueSummary history st = rescue 0 (history ! 0) st"
      using True by (simp add: rescueSummary_def Let_def)
    show ?thesis using r0 unfolding e by auto
  qed
next
  case False
  then have e: "rescueSummary history st = st" by (auto simp: rescueSummary_def)
  show ?thesis using assms unfolding e by simp
qed

lemma collectHistory_fold:
  "fold (collectHistory I) (enumerate k ms) (sel, drp) = (sel', drp') \<Longrightarrow>
     sel' = sel @ map snd (filter (\<lambda>(i, m). i \<in> set I) (enumerate k ms)) \<and>
     (\<forall>i. containsDroppedHistory drp i \<longrightarrow> containsDroppedHistory drp' i) \<and>
     (\<forall>i. k \<le> i \<longrightarrow> i < k + length ms \<longrightarrow> i \<notin> set I \<longrightarrow> containsDroppedHistory drp' i)"
proof (induction ms arbitrary: k sel drp)
  case Nil
  then show ?case by simp
next
  case (Cons msg ms)
  have split: "k \<le> i \<Longrightarrow> i = k \<or> Suc k \<le> i" for i by linarith
  consider (s) "k \<in> set I" | (d) "k \<notin> set I" "containsDroppedHistory drp k" | (n) "k \<notin> set I" "\<not> containsDroppedHistory drp k"
    by blast
  then show ?case
  proof cases
    case s
    then have "fold (collectHistory I) (enumerate (Suc k) ms) (sel @ [msg], drp) = (sel', drp')"
      using Cons.prems by (simp add: collectHistory_def)
    from Cons.IH [OF this] s split show ?thesis by auto
  next
    case d
    then have "fold (collectHistory I) (enumerate (Suc k) ms) (sel, drp) = (sel', drp')"
      using Cons.prems by (simp add: collectHistory_def)
    from Cons.IH [OF this] d split show ?thesis by auto
  next
    case n
    then have "fold (collectHistory I) (enumerate (Suc k) ms) (sel, drp @ [newDroppedHistoryItem k msg ''history_window'']) = (sel', drp')"
      using Cons.prems by (simp add: collectHistory_def)
    note ih = Cons.IH [OF this]
    from ih have k: "containsDroppedHistory drp' k" by simp
    have "containsDroppedHistory drp' i" if "k \<le> i" "i < Suc (k + length ms)" "i \<notin> set I" for i
      using split [OF that(1)] ih k that(2,3) by auto
    with ih n show ?thesis by simp
  qed
qed

lemma selected_messages:
  assumes "distinct I" "\<And>i. i \<in> set I \<Longrightarrow> i < length history"
  shows "map snd (filter (\<lambda>(i, m). i \<in> set I) (enumerate 0 history)) = nths history (set I)"
    "(\<Sum>m \<leftarrow> nths history (set I). EstimateTokens (cm_Content m)) = (\<Sum>i \<leftarrow> I. messageTokens history i)"
    "length (nths history (set I)) = length I"
proof -
  have gen: "map snd (filter (\<lambda>(i, m). i \<in> S) (enumerate k xs)) = nths xs {i. i + k \<in> S}" for S k and xs :: "chat_message list"
    by (induction xs arbitrary: k) (simp_all add: nths_Cons)
  from gen [of "set I" 0 history] show eq: "map snd (filter (\<lambda>(i, m). i \<in> set I) (enumerate 0 history)) = nths history (set I)"
    by simp
  have idx: "nths history (set I) = map ((!) history) (filter (\<lambda>i. i \<in> set I) [0..<length history])"
    unfolding eq [symmetric] by (subst (2) map_nth [symmetric], subst enumerate_map_upt) (simp add: filter_map comp_def)
  have m: "mset (filter (\<lambda>i. i \<in> set I) [0..<length history]) = mset I"
    using assms by (intro set_eq_iff_mset_eq_distinct [THEN iffD1]) auto
  have "mset (map (messageTokens history) (filter (\<lambda>i. i \<in> set I) [0..<length history])) = mset (map (messageTokens history) I)"
    using m by simp
  then have "sum_list (map (messageTokens history) (filter (\<lambda>i. i \<in> set I) [0..<length history])) = sum_list (map (messageTokens history) I)"
    by (metis sum_mset_sum_list)
  then show "(\<Sum>m \<leftarrow> nths history (set I). EstimateTokens (cm_Content m)) = (\<Sum>i \<leftarrow> I. messageTokens history i)"
    unfolding idx by (simp add: comp_def)
  show "length (nths history (set I)) = length I"
    unfolding idx using m by (metis length_map size_mset)
qed

text \<open>The history of a context is a part of the messages in their order that costs at most the history budget. At most two
  messages beyond the window are in it, the summary of what came before and the answer to it, and every message that is
  left out is recorded as dropped.\<close>

theorem history_selected:
  assumes "selectHistory history profile = (selected, dropped, n, ns)" "0 \<le> cb_HistoryTokens (cf_Budget profile)"
    and "history \<noteq> []" "cf_MaxHistoryMessages profile \<noteq> 0" "cb_HistoryTokens (cf_Budget profile) \<noteq> 0"
  shows "\<exists>S. selected = nths history S \<and> n = (\<Sum>m \<leftarrow> selected. EstimateTokens (cm_Content m)) \<and>
    n \<le> cb_HistoryTokens (cf_Budget profile) \<and> int (length selected) \<le> max 0 (cf_MaxHistoryMessages profile) + 2 \<and>
    (\<forall>i < length history. i \<notin> S \<longrightarrow> (\<exists>d \<in> set dropped. ci_ID d = historyID i))"
proof -
  define b where "b = cb_HistoryTokens (cf_Budget profile)"
  define st0 where "st0 = \<lparr>hs_selectedIdx = [], hs_dropped = [], hs_used = 0, hs_remaining = b\<rparr>"
  define st1 where "st1 = historyLoop (cf_MaxHistoryMessages profile) (rev history) st0"
  define st where "st = rescueSummary history st1"
  obtain sel drp where c: "fold (collectHistory (hs_selectedIdx st)) (enumerate 0 history) ([], hs_dropped st) = (sel, drp)"
    by fastforce
  have r: "selected = sel" "dropped = drp" "n = hs_used st"
    using assms(1,3-5) c by (simp_all add: selectHistory_def Let_def st_def st1_def st0_def b_def)
  have "historyInv history b (cf_MaxHistoryMessages profile) 0 st1"
    unfolding st1_def
    by (rule historyLoop_inv) (use assms(2) in \<open>auto simp: historyInv_def indexed_def st0_def b_def rev_nth\<close>)
  then have i1: "indexed history b st1" "int (length (hs_selectedIdx st1)) \<le> max 0 (cf_MaxHistoryMessages profile)"
    by (simp_all add: historyInv_def)
  note r2 = rescueSummary_indexed [OF i1(1), folded st_def]
  have ix: "distinct (hs_selectedIdx st)" "\<And>i. i \<in> set (hs_selectedIdx st) \<Longrightarrow> i < length history"
    using r2 by (simp_all add: indexed_def)
  note col = collectHistory_fold [OF c] and sm = selected_messages [OF ix]
  have sel: "sel = nths history (set (hs_selectedIdx st))" using col sm(1) by simp
  have "int (length sel) \<le> max 0 (cf_MaxHistoryMessages profile) + 2"
    using r2 i1(2) sm(3) unfolding sel by linarith
  moreover have "n = (\<Sum>m \<leftarrow> sel. EstimateTokens (cm_Content m))" "n \<le> b"
    using r2 sm(2) unfolding sel r(3) by (simp_all add: indexed_def)
  moreover have "\<exists>d \<in> set drp. ci_ID d = historyID i" if "i < length history" "i \<notin> set (hs_selectedIdx st)" for i
    using col that by (auto simp: containsDroppedHistory_def list_ex_iff)
  ultimately show ?thesis
    using sel r(1,2) by (intro exI [of _ "set (hs_selectedIdx st)"]) (simp add: b_def)
qed

theorem history_selected_witness:
  "let (selected, dropped, n, ns) = selectHistory [UserMessage ''a'', AssistantMessage ''b'', UserMessage ''c''] demo_profile
   in n \<le> 4 \<and> length selected \<le> 4"
proof -
  let ?h = "[UserMessage ''a'', AssistantMessage ''b'', UserMessage ''c'']"
  obtain selected dropped n ns where r: "selectHistory ?h demo_profile = (selected, dropped, n, ns)" by (metis prod_cases4)
  have p: "cb_HistoryTokens (cf_Budget demo_profile) = 4" "cf_MaxHistoryMessages demo_profile = 2"
    by (simp_all add: demo_profile_def demo_budget_def)
  show ?thesis using history_selected [OF r] p by (auto simp add: r)
qed

end
