(* ===== verification/Mem_Store.thy ===== *)
theory Mem_Store
  imports Mem_Types
begin

text \<open>
  The persistent stores behind the long-term memory: the interface \<open>LongTermMemoryStore\<close> of long_term.go as a
  locale, and its two implementations, the JSON file (long_term_file_store.go) and Redis (redis_store.go).
  The encoding of an entry as JSON is not modelled: what is written is what is read back.
\<close>

subsection \<open>The interface\<close>

definition heldBy :: "memory_entry list \<Rightarrow> string \<Rightarrow> memory_entry option" where
  "heldBy es = map_of (map (\<lambda>e. (me_ID e, e)) es)"

definition upserted :: "memory_entry list \<Rightarrow> (string \<Rightarrow> memory_entry option) \<Rightarrow> string \<Rightarrow> memory_entry option" where
  "upserted es m = fold (\<lambda>e m. m(me_ID e \<mapsto> e)) es m"

lemma upserted_Nil [simp]: "upserted [] m = m"
  by (simp add: upserted_def)

lemma upserted_Cons [simp]: "upserted (e # es) m = upserted es (m(me_ID e \<mapsto> e))"
  by (simp add: upserted_def)

lemma upserted_other: "k \<notin> me_ID ` set es \<Longrightarrow> upserted es m k = m k"
  by (induction es arbitrary: m) auto

lemma upserted_put: "k \<notin> me_ID ` set es \<Longrightarrow> (upserted es m)(k \<mapsto> x) = upserted es (m(k \<mapsto> x))"
proof (induction es arbitrary: m)
  case (Cons e es)
  then have "me_ID e \<noteq> k" by auto
  then have tw: "m(k \<mapsto> x, me_ID e \<mapsto> e) = m(me_ID e \<mapsto> e, k \<mapsto> x)" by (rule fun_upd_twist [symmetric])
  have "k \<notin> me_ID ` set es" using Cons.prems by simp
  from Cons.IH [OF this, of "m(me_ID e \<mapsto> e)"] show ?case unfolding upserted_Cons tw .
qed (simp add: upserted_def)

definition persistChangesLocked ::
  "(memory_entry list \<Rightarrow> 'st \<Rightarrow> 'st) \<Rightarrow> (string list \<Rightarrow> 'st \<Rightarrow> 'st) \<Rightarrow> pending_changes \<Rightarrow> 'st \<Rightarrow> 'st" where
  "persistChangesLocked save delete changes st =
     (let st1 = (if pc_upserts changes \<noteq> [] then save (pc_upserts changes) st else st)
      in if pc_deletes changes \<noteq> [] then delete (pc_deletes changes) st1 else st1)"

locale memory_store =
  fixes load :: "'st \<Rightarrow> memory_entry list"
    and save :: "memory_entry list \<Rightarrow> 'st \<Rightarrow> 'st"
    and delete :: "string list \<Rightarrow> 'st \<Rightarrow> 'st"
    and ok :: "'st \<Rightarrow> bool"
  assumes ok_save: "ok st \<Longrightarrow> ok (save es st)"
    and ok_delete: "ok st \<Longrightarrow> ok (delete ids st)"
    and held_save: "ok st \<Longrightarrow> heldBy (load (save es st)) = upserted es (heldBy (load st))"
    and held_delete: "ok st \<Longrightarrow> heldBy (load (delete ids st)) k = (if k \<in> set ids then None else heldBy (load st) k)"
begin

lemma ok_persist: "ok st \<Longrightarrow> ok (persistChangesLocked save delete changes st)"
  by (simp add: persistChangesLocked_def ok_save ok_delete)

lemma held_persist:
  assumes "ok st"
  shows "heldBy (load (persistChangesLocked save delete changes st)) k =
           (if k \<in> set (pc_deletes changes) then None else upserted (pc_upserts changes) (heldBy (load st)) k)"
  using assms by (simp add: persistChangesLocked_def Let_def held_save held_delete ok_save)

end

subsection \<open>The file\<close>

text \<open>What the path holds (\<open>None\<close>: no such file) and what is left in the temporary file beside it. A fault
  is what goes wrong during a call, if anything.\<close>

record file_store =
  fs_body :: "memory_entry list option"
  fs_tmp :: "memory_entry list option"

datatype file_fault = NoFault | ContextDone | ReadFault | DirFault | WriteFault | RenameFault

definition fileLoadAll :: "file_store \<Rightarrow> memory_entry list" where
  "fileLoadAll s = (case fs_body s of None \<Rightarrow> [] | Some es \<Rightarrow> es)"

definition writeAll :: "file_fault \<Rightarrow> memory_entry list \<Rightarrow> file_store \<Rightarrow> bool \<times> file_store" where
  "writeAll fault es s =
     (if fault = DirFault then (False, s)
      else if fault = WriteFault then (False, s\<lparr>fs_tmp := Some []\<rparr>)
      else if fault = RenameFault then (False, s\<lparr>fs_tmp := Some es\<rparr>)
      else (True, \<lparr>fs_body = Some es, fs_tmp = None\<rparr>))"

definition byID :: "memory_entry list \<Rightarrow> memory_entry list \<Rightarrow> (string, memory_entry) gomap" where
  "byID existing es = fold (\<lambda>e m. gm_put (me_ID e) e m) es (fold (\<lambda>e m. gm_put (me_ID e) e m) existing [])"

definition fileSaveEntries :: "file_fault \<Rightarrow> memory_entry list \<Rightarrow> file_store \<Rightarrow> bool \<times> file_store" where
  "fileSaveEntries fault es s =
     (if fault = ContextDone \<or> fault = ReadFault then (False, s)
      else writeAll fault (map snd (byID (fileLoadAll s) es)) s)"

definition fileDeleteEntries :: "file_fault \<Rightarrow> string list \<Rightarrow> file_store \<Rightarrow> bool \<times> file_store" where
  "fileDeleteEntries fault ids s =
     (if fault = ContextDone \<or> fault = ReadFault then (False, s)
      else writeAll fault (filter (\<lambda>e. me_ID e \<notin> set ids) (fileLoadAll s)) s)"

definition fileOk :: "file_store \<Rightarrow> bool" where
  "fileOk s \<longleftrightarrow> distinct (map me_ID (fileLoadAll s))"

definition keyed :: "(string, memory_entry) gomap \<Rightarrow> bool" where
  "keyed m \<longleftrightarrow> (\<forall>(k, e) \<in> set m. me_ID e = k)"

lemma keyed_put: "keyed m \<Longrightarrow> keyed (gm_put (me_ID e) e m)"
  unfolding keyed_def using set_put_subset [of "me_ID e" e m] by fastforce

lemma fold_put_ok: "gm_ok m \<Longrightarrow> gm_ok (fold (\<lambda>e m. gm_put (me_ID e) e m) es m)"
  by (induction es arbitrary: m) auto

lemma fold_put_keyed: "keyed m \<Longrightarrow> keyed (fold (\<lambda>e m. gm_put (me_ID e) e m) es m)"
  by (induction es arbitrary: m) (auto simp: keyed_put)

lemma fold_put_get: "gm_get (fold (\<lambda>e m. gm_put (me_ID e) e m) es m) = upserted es (gm_get m)"
  by (induction es arbitrary: m) (auto simp: gm_get_put)

lemma keyed_values: "keyed m \<Longrightarrow> map (\<lambda>e. (me_ID e, e)) (map snd m) = m"
  by (induction m) (auto simp: keyed_def)

lemma keyed_IDs: "keyed m \<Longrightarrow> map me_ID (map snd m) = map fst m"
  by (induction m) (auto simp: keyed_def)

lemma heldBy_Cons [simp]: "heldBy (e # es) k = (if k = me_ID e then Some e else heldBy es k)"
  by (simp add: heldBy_def)

lemma heldBy_Nil [simp]: "heldBy [] k = None"
  by (simp add: heldBy_def)

lemma heldBy_None: "k \<notin> me_ID ` set es \<Longrightarrow> heldBy es k = None"
  by (induction es) auto

lemma upserted_distinct:
  "distinct (map me_ID es) \<Longrightarrow> upserted es m k = (case heldBy es k of None \<Rightarrow> m k | Some e \<Rightarrow> Some e)"
proof (induction es arbitrary: m)
  case (Cons e es)
  then show ?case by (auto simp: heldBy_None split: option.splits)
qed simp

lemma byID_facts: "gm_ok (byID es fs)" "keyed (byID es fs)"
  unfolding byID_def by (intro fold_put_ok fold_put_keyed, simp add: keyed_def)+

lemma byID_merged: "distinct (map me_ID es) \<Longrightarrow> gm_get (byID es fs) = upserted fs (heldBy es)"
proof -
  assume "distinct (map me_ID es)"
  then have "upserted es (gm_get []) = heldBy es"
    by (auto simp: upserted_distinct split: option.splits)
  then show ?thesis by (simp add: byID_def fold_put_get)
qed

lemma held_filter: "heldBy (filter (\<lambda>e. me_ID e \<notin> A) es) k = (if k \<in> A then None else heldBy es k)"
  by (induction es) (auto simp: heldBy_def)

interpretation file_backend: memory_store fileLoadAll "\<lambda>es s. snd (fileSaveEntries NoFault es s)"
  "\<lambda>ids s. snd (fileDeleteEntries NoFault ids s)" fileOk
proof
  fix st :: file_store and es ids k
  assume ok: "fileOk st"
  show "fileOk (snd (fileSaveEntries NoFault es st))"
    by (simp add: fileOk_def fileSaveEntries_def writeAll_def fileLoadAll_def keyed_IDs [OF byID_facts(2), unfolded map_map]
        byID_facts(1) [unfolded gm_ok_def])
  show "fileOk (snd (fileDeleteEntries NoFault ids st))"
    using ok by (simp add: fileOk_def fileDeleteEntries_def writeAll_def fileLoadAll_def distinct_map_filter)
  show "heldBy (fileLoadAll (snd (fileSaveEntries NoFault es st))) = upserted es (heldBy (fileLoadAll st))"
    using ok by (simp add: fileSaveEntries_def writeAll_def fileLoadAll_def heldBy_def [of "map snd _"]
        keyed_values [OF byID_facts(2), unfolded map_map] byID_merged fileOk_def)
  show "heldBy (fileLoadAll (snd (fileDeleteEntries NoFault ids st))) k =
      (if k \<in> set ids then None else heldBy (fileLoadAll st) k)"
    by (simp add: fileDeleteEntries_def writeAll_def fileLoadAll_def held_filter)
qed

subsection \<open>Redis\<close>

text \<open>The keys that hold a value and the set of identifiers, a Redis set being a list without repetitions. An
  argument of a script is a text or an encoded entry; the loops of the two Lua scripts are folds over
  \<open>1..n\<close>, whose indices are those of Lua.\<close>

datatype redis_arg = Txt string | Json memory_entry

record redis_db =
  rd_values :: "(string, redis_arg) gomap"
  rd_sets :: "(string, string list) gomap"

definition entryKey :: "string \<Rightarrow> string \<Rightarrow> string" where
  "entryKey prefix1 eid = prefix1 @ '':memory:entry:'' @ eid"

definition idsKey :: "string \<Rightarrow> string" where
  "idsKey prefix1 = prefix1 @ '':memory:ids''"

fun argText :: "redis_arg \<Rightarrow> string" where
  "argText (Txt t) = t"
| "argText (Json e) = []"

definition members :: "string \<Rightarrow> redis_db \<Rightarrow> string list" where
  "members key db = (case gm_get (rd_sets db) key of None \<Rightarrow> [] | Some xs \<Rightarrow> xs)"

definition sadd :: "string \<Rightarrow> string \<Rightarrow> redis_db \<Rightarrow> redis_db" where
  "sadd key x db = db\<lparr>rd_sets := gm_put key (List.insert x (members key db)) (rd_sets db)\<rparr>"

definition srem :: "string \<Rightarrow> string \<Rightarrow> redis_db \<Rightarrow> redis_db" where
  "srem key x db = db\<lparr>rd_sets := gm_put key (remove1 x (members key db)) (rd_sets db)\<rparr>"

definition lua :: "'a list \<Rightarrow> nat \<Rightarrow> 'a" where
  "lua xs i = xs ! (i - 1)"

definition redisSaveEntriesScript :: "nat \<Rightarrow> string list \<Rightarrow> redis_arg list \<Rightarrow> redis_db \<Rightarrow> redis_db" where
  "redisSaveEntriesScript n ks argv db =
     fold (\<lambda>i. sadd (lua ks (n + 1)) (argText (lua argv (n + 1 + i)))) [1..<n + 1]
       (fold (\<lambda>i db. db\<lparr>rd_values := gm_put (lua ks i) (lua argv (i + 1)) (rd_values db)\<rparr>) [1..<n + 1] db)"

definition redisDeleteEntriesScript :: "nat \<Rightarrow> string list \<Rightarrow> redis_arg list \<Rightarrow> redis_db \<Rightarrow> redis_db" where
  "redisDeleteEntriesScript n ks argv db =
     fold (\<lambda>i. srem (lua ks (n + 1)) (argText (lua argv (i + 1)))) [1..<n + 1]
       (fold (\<lambda>i db. db\<lparr>rd_values := gm_del (lua ks i) (rd_values db)\<rparr>) [1..<n + 1] db)"

text \<open>\<open>reply\<close> is whether the command succeeds; a failed script leaves the database as it was.\<close>

definition redisSaveEntries :: "bool \<Rightarrow> string \<Rightarrow> memory_entry list \<Rightarrow> redis_db \<Rightarrow> bool \<times> redis_db" where
  "redisSaveEntries reply prefix1 entries db =
     (if entries = [] then (True, db)
      else if \<not> reply then (False, db)
      else (let n = length entries;
                ks = map (\<lambda>e. entryKey prefix1 (me_ID e)) entries @ [idsKey prefix1];
                argv = [Txt (nat_digits n)] @ map Json entries @ map (\<lambda>e. Txt (me_ID e)) entries
            in (True, redisSaveEntriesScript (read_nat (argText (lua argv 1))) ks argv db)))"

definition redisDeleteEntries :: "bool \<Rightarrow> string \<Rightarrow> string list \<Rightarrow> redis_db \<Rightarrow> bool \<times> redis_db" where
  "redisDeleteEntries reply prefix1 ids db =
     (if ids = [] then (True, db)
      else if \<not> reply then (False, db)
      else (let n = length ids;
                ks = map (entryKey prefix1) ids @ [idsKey prefix1];
                argv = [Txt (nat_digits n)] @ map Txt ids
            in (True, redisDeleteEntriesScript (read_nat (argText (lua argv 1))) ks argv db)))"

definition redisLoadAll :: "string \<Rightarrow> redis_db \<Rightarrow> memory_entry list" where
  "redisLoadAll prefix1 db =
     concat (map (\<lambda>eid. case gm_get (rd_values db) (entryKey prefix1 eid) of Some (Json e) \<Rightarrow> [e] | _ \<Rightarrow> [])
       (members (idsKey prefix1) db))"

lemma fold_lua:
  "(\<And>i. i < length xs \<Longrightarrow> f (Suc i) = g (xs ! i)) \<Longrightarrow> fold f [1..<length xs + 1] = fold g xs"
proof -
  assume h: "\<And>i. i < length xs \<Longrightarrow> f (Suc i) = g (xs ! i)"
  have "fold f [1..<length xs + 1] = fold f (map Suc [0..<length xs])"
    by (simp add: map_Suc_upt)
  also have "\<dots> = fold (\<lambda>i. g (xs ! i)) [0..<length xs]"
    unfolding fold_map by (intro ext fold_cong) (auto simp: h)
  also have "\<dots> = fold g (map ((!) xs) [0..<length xs])"
    by (simp add: fold_map comp_def)
  finally show ?thesis by (simp add: map_nth)
qed

text \<open>The scripts do to every entry what one command would do to it.\<close>

lemma save_script:
  assumes "entries \<noteq> []"
  shows "snd (redisSaveEntries True p entries db) =
    fold (\<lambda>e. sadd (idsKey p) (me_ID e)) entries
      (fold (\<lambda>e db. db\<lparr>rd_values := gm_put (entryKey p (me_ID e)) (Json e) (rd_values db)\<rparr>) entries db)"
proof -
  let ?n = "length entries"
  let ?ks = "map (\<lambda>e. entryKey p (me_ID e)) entries @ [idsKey p]"
  let ?argv = "[Txt (nat_digits ?n)] @ map Json entries @ map (\<lambda>e. Txt (me_ID e)) entries"
  have "fold (\<lambda>i (db :: redis_db). db\<lparr>rd_values := gm_put (lua ?ks i) (lua ?argv (i + 1)) (rd_values db)\<rparr>) [1..<?n + 1] =
      fold (\<lambda>e (db :: redis_db). db\<lparr>rd_values := gm_put (entryKey p (me_ID e)) (Json e) (rd_values db)\<rparr>) entries"
    by (rule fold_lua) (simp add: lua_def nth_append)
  moreover have "fold (\<lambda>i. sadd (lua ?ks (?n + 1)) (argText (lua ?argv (?n + 1 + i)))) [1..<?n + 1] =
      fold (\<lambda>e. sadd (idsKey p) (me_ID e)) entries"
    by (rule fold_lua) (simp add: lua_def nth_append)
  moreover have c: "read_nat (argText (lua ?argv 1)) = ?n"
    by (simp add: lua_def read_nat_digits)
  ultimately show ?thesis
    unfolding redisSaveEntries_def Let_def c redisSaveEntriesScript_def
    using assms by (simp only: if_False snd_conv not_True_eq_False)
qed

lemma delete_script:
  assumes "ids \<noteq> []"
  shows "snd (redisDeleteEntries True p ids db) =
    fold (srem (idsKey p)) ids
      (fold (\<lambda>eid db. db\<lparr>rd_values := gm_del (entryKey p eid) (rd_values db)\<rparr>) ids db)"
proof -
  let ?n = "length ids"
  let ?ks = "map (entryKey p) ids @ [idsKey p]"
  let ?argv = "[Txt (nat_digits ?n)] @ map Txt ids"
  have "fold (\<lambda>i (db :: redis_db). db\<lparr>rd_values := gm_del (lua ?ks i) (rd_values db)\<rparr>) [1..<?n + 1] =
      fold (\<lambda>eid (db :: redis_db). db\<lparr>rd_values := gm_del (entryKey p eid) (rd_values db)\<rparr>) ids"
    by (rule fold_lua) (simp add: lua_def nth_append)
  moreover have "fold (\<lambda>i. srem (lua ?ks (?n + 1)) (argText (lua ?argv (i + 1)))) [1..<?n + 1] =
      fold (srem (idsKey p)) ids"
    by (rule fold_lua) (simp add: lua_def nth_append)
  moreover have c: "read_nat (argText (lua ?argv 1)) = ?n"
    by (simp add: lua_def read_nat_digits)
  ultimately show ?thesis
    unfolding redisDeleteEntries_def Let_def c redisDeleteEntriesScript_def
    using assms by (simp only: if_False snd_conv not_True_eq_False)
qed

lemma entryKey_inject [simp]: "entryKey p a = entryKey p b \<longleftrightarrow> a = b"
  by (simp add: entryKey_def)

definition redisOk :: "string \<Rightarrow> redis_db \<Rightarrow> bool" where
  "redisOk p db \<longleftrightarrow> distinct (members (idsKey p) db) \<and>
     (\<forall>eid v. gm_get (rd_values db) (entryKey p eid) = Some v \<longrightarrow> (\<exists>e. v = Json e \<and> me_ID e = eid))"

definition redisHeld :: "string \<Rightarrow> redis_db \<Rightarrow> string \<Rightarrow> memory_entry option" where
  "redisHeld p db k =
     (if k \<in> set (members (idsKey p) db)
      then (case gm_get (rd_values db) (entryKey p k) of Some (Json e) \<Rightarrow> Some e | _ \<Rightarrow> None) else None)"

lemma load_held:
  assumes "redisOk p db"
  shows "heldBy (redisLoadAll p db) k = redisHeld p db k"
proof -
  define item where "item eid = (case gm_get (rd_values db) (entryKey p eid) of Some (Json e) \<Rightarrow> [e] | _ \<Rightarrow> [])" for eid
  define val where "val eid = (case gm_get (rd_values db) (entryKey p eid) of Some (Json e) \<Rightarrow> Some e | _ \<Rightarrow> None)" for eid
  have i: "heldBy (item eid @ es) k = (if eid = k \<and> val eid \<noteq> None then val eid else heldBy es k)" for eid es
  proof (cases "gm_get (rd_values db) (entryKey p eid)")
    case (Some v)
    then obtain e where "v = Json e" "me_ID e = eid" using assms unfolding redisOk_def by blast
    with Some show ?thesis by (auto simp: item_def val_def)
  qed (simp add: item_def val_def)
  have "heldBy (concat (map item xs)) k = (if k \<in> set xs then val k else None)" for xs
  proof (induction xs)
    case (Cons x xs)
    then show ?case by (auto simp: i)
  qed simp
  then show ?thesis
    unfolding redisLoadAll_def redisHeld_def item_def [abs_def] val_def [abs_def] .
qed

definition valuesOk :: "string \<Rightarrow> redis_db \<Rightarrow> bool" where
  "valuesOk p db \<longleftrightarrow> (\<forall>eid v. gm_get (rd_values db) (entryKey p eid) = Some v \<longrightarrow> (\<exists>e. v = Json e \<and> me_ID e = eid))"

definition valueOf :: "string \<Rightarrow> redis_db \<Rightarrow> string \<Rightarrow> memory_entry option" where
  "valueOf p db k = (case gm_get (rd_values db) (entryKey p k) of Some (Json e) \<Rightarrow> Some e | _ \<Rightarrow> None)"

lemma redisOk_alt: "redisOk p db \<longleftrightarrow> distinct (members (idsKey p) db) \<and> valuesOk p db"
  by (simp add: redisOk_def valuesOk_def)

lemma redisHeld_alt: "redisHeld p db k = (if k \<in> set (members (idsKey p) db) then valueOf p db k else None)"
  by (simp add: redisHeld_def valueOf_def)

lemma members_values [simp]: "members key (db\<lparr>rd_values := v\<rparr>) = members key db"
  by (simp add: members_def)

lemma fold_set_values:
  fixes db :: redis_db
  shows "members key (fold (\<lambda>e db. db\<lparr>rd_values := gm_put (entryKey p (me_ID e)) (Json e) (rd_values db)\<rparr>) es db) = members key db"
    and "valuesOk p db \<Longrightarrow> valuesOk p (fold (\<lambda>e db. db\<lparr>rd_values := gm_put (entryKey p (me_ID e)) (Json e) (rd_values db)\<rparr>) es db)"
    and "valueOf p (fold (\<lambda>e db. db\<lparr>rd_values := gm_put (entryKey p (me_ID e)) (Json e) (rd_values db)\<rparr>) es db) =
         upserted es (valueOf p db)"
proof (induction es arbitrary: db)
  case (Cons e es)
  let ?put = "\<lambda>db :: redis_db. db\<lparr>rd_values := gm_put (entryKey p (me_ID e)) (Json e) (rd_values db)\<rparr>"
  have v: "valueOf p (?put db) = (valueOf p db)(me_ID e \<mapsto> e)" for db
    by (auto simp: valueOf_def gm_get_put fun_eq_iff)
  have ok: "valuesOk p (?put db)" if "valuesOk p db" for db
    using that by (auto simp: valuesOk_def gm_get_put)
  { case 1 show ?case using Cons.IH(1) by simp }
  { case 2 show ?case using Cons.IH(2) [OF ok [OF 2]] by simp }
  { case 3 show ?case by (simp only: fold_Cons comp_apply Cons.IH(3) v upserted_Cons) }
qed simp_all

lemma fold_del_values:
  fixes db :: redis_db
  shows "members key (fold (\<lambda>eid db. db\<lparr>rd_values := gm_del (entryKey p eid) (rd_values db)\<rparr>) ids db) = members key db"
    and "valuesOk p db \<Longrightarrow> valuesOk p (fold (\<lambda>eid db. db\<lparr>rd_values := gm_del (entryKey p eid) (rd_values db)\<rparr>) ids db)"
    and "k \<notin> set ids \<Longrightarrow>
         valueOf p (fold (\<lambda>eid db. db\<lparr>rd_values := gm_del (entryKey p eid) (rd_values db)\<rparr>) ids db) k = valueOf p db k"
proof (induction ids arbitrary: db)
  case (Cons i ids)
  let ?del = "\<lambda>db :: redis_db. db\<lparr>rd_values := gm_del (entryKey p i) (rd_values db)\<rparr>"
  have v: "k \<noteq> i \<Longrightarrow> valueOf p (?del db) k = valueOf p db k" for db
    by (simp add: valueOf_def delete_conv)
  have ok: "valuesOk p (?del db)" if "valuesOk p db" for db
    using that by (auto simp: valuesOk_def delete_conv fun_upd_def split: if_splits)
  { case 1 show ?case using Cons.IH(1) by simp }
  { case 2 show ?case using Cons.IH(2) [OF ok [OF 2]] by simp }
  { case 3 show ?case using Cons.IH(3) v 3 by simp }
qed simp_all

lemma fold_sadd:
  "valueOf p (fold (\<lambda>e. sadd key (f e)) es db) = valueOf p db"
  "valuesOk p (fold (\<lambda>e. sadd key (f e)) es db) = valuesOk p db"
  "set (members key (fold (\<lambda>e. sadd key (f e)) es db)) = set (members key db) \<union> f ` set es"
  "distinct (members key db) \<Longrightarrow> distinct (members key (fold (\<lambda>e. sadd key (f e)) es db))"
proof (induction es arbitrary: db)
  case (Cons e es)
  have m: "members key (sadd key (f e) db) = List.insert (f e) (members key db)" for db
    by (simp add: sadd_def members_def gm_get_put)
  { case 1 show ?case using Cons.IH(1) by (simp add: sadd_def valueOf_def fun_eq_iff) }
  { case 2 show ?case using Cons.IH(2) by (simp add: sadd_def valuesOk_def) }
  { case 3 show ?case using Cons.IH(3) m by simp }
  { case 4 show ?case using Cons.IH(4) m 4 by simp }
qed simp_all

lemma fold_srem:
  "valueOf p (fold (srem key) ids db) = valueOf p db"
  "valuesOk p (fold (srem key) ids db) = valuesOk p db"
  "distinct (members key db) \<Longrightarrow> set (members key (fold (srem key) ids db)) = set (members key db) - set ids \<and>
     distinct (members key (fold (srem key) ids db))"
proof (induction ids arbitrary: db)
  case (Cons i ids)
  have m: "members key (srem key i db) = remove1 i (members key db)" for db
    by (simp add: srem_def members_def gm_get_put)
  { case 1 show ?case using Cons.IH(1) by (simp add: srem_def valueOf_def fun_eq_iff) }
  { case 2 show ?case using Cons.IH(2) by (simp add: srem_def valuesOk_def) }
  { case 3
    then have "distinct (members key (srem key i db))" using m by simp
    from Cons.IH(3) [OF this] show ?case using 3 m by auto }
qed simp_all

lemma upserted_in: "k \<in> me_ID ` set es \<Longrightarrow> upserted es m k = upserted es m' k"
proof (induction es arbitrary: m m')
  case (Cons e es)
  then show ?case by (cases "k \<in> me_ID ` set es") (auto simp: upserted_other)
qed simp

lemma redis_save_facts:
  assumes "redisOk p db"
  shows "redisOk p (snd (redisSaveEntries True p es db)) \<and>
    redisHeld p (snd (redisSaveEntries True p es db)) = upserted es (redisHeld p db)"
proof (cases "es = []")
  case True
  then show ?thesis using assms by (simp add: redisSaveEntries_def)
next
  case False
  let ?db = "fold (\<lambda>e (db :: redis_db). db\<lparr>rd_values := gm_put (entryKey p (me_ID e)) (Json e) (rd_values db)\<rparr>) es db"
  let ?m = "members (idsKey p)"
  have m: "set (?m (fold (\<lambda>e. sadd (idsKey p) (me_ID e)) es ?db)) = set (?m db) \<union> me_ID ` set es"
    by (simp add: fold_sadd fold_set_values)
  have "redisHeld p (fold (\<lambda>e. sadd (idsKey p) (me_ID e)) es ?db) k = upserted es (redisHeld p db) k" for k
  proof (cases "k \<in> me_ID ` set es")
    case True
    then show ?thesis
      unfolding redisHeld_alt m fold_sadd fold_set_values using upserted_in [OF True] by simp
  next
    case False
    then show ?thesis
      unfolding redisHeld_alt m fold_sadd fold_set_values by (simp add: upserted_other redisHeld_alt)
  qed
  then show ?thesis
    using assms unfolding save_script [OF False] redisOk_alt
    by (simp add: fold_sadd fold_set_values fun_eq_iff)
qed

lemma redis_delete_facts:
  assumes "redisOk p db"
  shows "redisOk p (snd (redisDeleteEntries True p ids db)) \<and>
    redisHeld p (snd (redisDeleteEntries True p ids db)) k = (if k \<in> set ids then None else redisHeld p db k)"
proof (cases "ids = []")
  case True
  then show ?thesis using assms by (simp add: redisDeleteEntries_def)
next
  case False
  let ?db = "fold (\<lambda>eid (db :: redis_db). db\<lparr>rd_values := gm_del (entryKey p eid) (rd_values db)\<rparr>) ids db"
  let ?m = "members (idsKey p)"
  have "distinct (?m ?db)" using assms by (simp add: redisOk_alt fold_del_values)
  from fold_srem(3) [OF this, of ids]
  have m: "set (?m (fold (srem (idsKey p)) ids ?db)) = set (?m db) - set ids" "distinct (?m (fold (srem (idsKey p)) ids ?db))"
    by (simp_all add: fold_del_values)
  have "redisHeld p (fold (srem (idsKey p)) ids ?db) k = (if k \<in> set ids then None else redisHeld p db k)"
    unfolding redisHeld_alt m fold_srem(1) by (auto simp: fold_del_values)
  then show ?thesis
    using assms m unfolding delete_script [OF False] redisOk_alt
    by (simp add: fold_srem fold_del_values)
qed

interpretation redis_backend: memory_store "redisLoadAll p" "\<lambda>es db. snd (redisSaveEntries True p es db)"
  "\<lambda>ids db. snd (redisDeleteEntries True p ids db)" "redisOk p" for p
proof
  fix st :: redis_db and es :: "memory_entry list" and ids :: "string list" and k
  assume ok: "redisOk p st"
  note s = redis_save_facts [OF ok, of es] and d = redis_delete_facts [OF ok, of ids]
  show s1: "redisOk p (snd (redisSaveEntries True p es st))" and d1: "redisOk p (snd (redisDeleteEntries True p ids st))"
    using s d by simp_all
  have h: "heldBy (redisLoadAll p db) = redisHeld p db" if "redisOk p db" for db
    by (rule ext) (rule load_held [OF that])
  show "heldBy (redisLoadAll p (snd (redisSaveEntries True p es st))) = upserted es (heldBy (redisLoadAll p st))"
    unfolding h [OF s1] h [OF ok] by (rule conjunct2 [OF s])
  show "heldBy (redisLoadAll p (snd (redisDeleteEntries True p ids st))) k =
      (if k \<in> set ids then None else heldBy (redisLoadAll p st) k)"
    unfolding h [OF d1] h [OF ok] by (rule conjunct2 [OF d])
qed

end
