(* ===== verification/Mem_LongTerm_Facts.thy ===== *)
theory Mem_LongTerm_Facts
  imports Mem_LongTerm Mem_Store
begin

text \<open>
  The invariant of the long-term memory and that every operation keeps it: the index lists exactly the
  entries of each session, entries are filed under their own identifier. Only the identifier and the session of an entry
  matter to it, which is what \<open>shape\<close> keeps of the map.
\<close>

definition shape :: "(string, memory_entry) gomap \<Rightarrow> string \<Rightarrow> (string \<times> string) option" where
  "shape entries k = map_option (\<lambda>e. (me_ID e, me_SessionID e)) (gm_get entries k)"

definition shape_ok :: "(string \<Rightarrow> (string \<times> string) option) \<Rightarrow> (string, string list) gomap \<Rightarrow> bool" where
  "shape_ok sh index \<longleftrightarrow>
     (\<forall>k i s. sh k = Some (i, s) \<longrightarrow> i = k \<and> k \<noteq> [] \<and> (s \<noteq> [] \<longrightarrow> k \<in> set (sessionIDs index s))) \<and>
     (\<forall>s. distinct (sessionIDs index s)) \<and>
     (\<forall>s k. k \<in> set (sessionIDs index s) \<longrightarrow> sh k = Some (k, s))"

definition ltm_inv :: "long_term \<Rightarrow> bool" where
  "ltm_inv ltm \<longleftrightarrow> gm_ok (lt_entries ltm) \<and> gm_ok (lt_index ltm) \<and> shape_ok (shape (lt_entries ltm)) (lt_index ltm)"

lemma sessionIDs_put [simp]: "sessionIDs (gm_put s ids index) s' = (if s' = s then ids else sessionIDs index s')"
  by (simp add: sessionIDs_def gm_get_put)

lemma sessionIDs_del [simp]: "sessionIDs (gm_del s index) s' = (if s' = s then [] else sessionIDs index s')"
  by (simp add: sessionIDs_def delete_conv)

lemma shape_put: "shape (gm_put k e entries) = (shape entries)(k \<mapsto> (me_ID e, me_SessionID e))"
  by (auto simp: shape_def gm_get_put fun_eq_iff)

lemma shape_put_same:
  "gm_get entries k = Some e0 \<Longrightarrow> me_ID e = me_ID e0 \<Longrightarrow> me_SessionID e = me_SessionID e0 \<Longrightarrow>
     shape (gm_put k e entries) = shape entries"
  by (auto simp: shape_def gm_get_put fun_eq_iff)

lemma shape_map:
  "(\<And>k e. me_ID (f k e) = me_ID e \<and> me_SessionID (f k e) = me_SessionID e) \<Longrightarrow> shape (gm_map f entries) = shape entries"
  by (auto simp: shape_def gm_get_map fun_eq_iff option.map_comp comp_def)

lemma shape_del: "shape (gm_del k entries) = (shape entries)(k := None)"
  by (auto simp: shape_def delete_conv fun_eq_iff)

lemma shape_okD:
  "shape_ok sh index \<Longrightarrow> sh k = Some (i, s) \<Longrightarrow> i = k \<and> k \<noteq> [] \<and> (s \<noteq> [] \<longrightarrow> k \<in> set (sessionIDs index s))"
  "shape_ok sh index \<Longrightarrow> distinct (sessionIDs index s)"
  "shape_ok sh index \<Longrightarrow> k \<in> set (sessionIDs index s) \<Longrightarrow> sh k = Some (k, s)"
  by (simp_all add: shape_ok_def)

lemma shape_some: "gm_get m k = Some e \<Longrightarrow> shape m k = Some (me_ID e, me_SessionID e)"
  by (simp add: shape_def)

lemma ltm_inv_get:
  assumes "ltm_inv ltm" "gm_get (lt_entries ltm) k = Some e"
  shows "me_ID e = k \<and> k \<noteq> []"
proof -
  have "shape_ok (shape (lt_entries ltm)) (lt_index ltm)" using assms(1) by (simp add: ltm_inv_def)
  from shape_okD(1) [OF this shape_some [OF assms(2)]] show ?thesis by simp
qed

lemma ltm_inv_keyed:
  assumes "ltm_inv ltm" "(k, e) \<in> set (lt_entries ltm)"
  shows "me_ID e = k \<and> k \<noteq> []"
  using gm_in_get [of "lt_entries ltm"] assms ltm_inv_get [OF assms(1)] by (simp add: ltm_inv_def)

lemma ltm_inv_listed:
  assumes "ltm_inv ltm" "k \<in> set (sessionIDs (lt_index ltm) s)"
  shows "\<exists>e. gm_get (lt_entries ltm) k = Some e \<and> me_SessionID e = s"
proof -
  have "shape (lt_entries ltm) k = Some (k, s)"
    using assms(1) by (intro shape_okD(3) [where index = "lt_index ltm"] assms(2)) (simp add: ltm_inv_def)
  then show ?thesis by (auto simp: shape_def)
qed

lemma ltm_inv_distinct: "ltm_inv ltm \<Longrightarrow> distinct (sessionIDs (lt_index ltm) s)"
  by (simp add: ltm_inv_def shape_ok_def)

lemma ltm_inv_entries:
  "ltm_inv ltm \<Longrightarrow> gm_ok es \<Longrightarrow> shape es = shape (lt_entries ltm) \<Longrightarrow> ltm_inv (ltm\<lparr>lt_entries := es\<rparr>)"
  by (simp add: ltm_inv_def)

subsection \<open>Removing\<close>

lemma remove_entries: "lt_entries (removeEntryLocked k ltm) = gm_del k (lt_entries ltm)"
  by (auto simp: removeEntryLocked_def Let_def gm_none_iff delete_id split: option.splits)

lemma remove_index:
  assumes "ltm_inv ltm"
  shows "sessionIDs (lt_index (removeEntryLocked k ltm)) s = remove1 k (sessionIDs (lt_index ltm) s)"
proof (cases "gm_get (lt_entries ltm) k")
  case None
  then have "k \<notin> set (sessionIDs (lt_index ltm) s)" using ltm_inv_listed [OF assms] by fastforce
  with None show ?thesis by (simp add: removeEntryLocked_def remove1_idem)
next
  case (Some e)
  have "k \<notin> set (sessionIDs (lt_index ltm) s)" if "s \<noteq> me_SessionID e"
    using ltm_inv_listed [OF assms, of k s] Some that by auto
  with Some show ?thesis
    by (auto simp: removeEntryLocked_def Let_def remove1_idem)
qed

lemma remove_inv: "ltm_inv ltm \<Longrightarrow> ltm_inv (removeEntryLocked k ltm)"
proof -
  assume i: "ltm_inv ltm"
  have "gm_ok (lt_index (removeEntryLocked k ltm))"
    using i by (auto simp: removeEntryLocked_def Let_def ltm_inv_def split: option.splits)
  moreover have "shape_ok ((shape (lt_entries ltm))(k := None)) (lt_index (removeEntryLocked k ltm))"
    using i unfolding shape_ok_def remove_index [OF i] ltm_inv_def by (auto simp: in_set_remove1)
  ultimately show ?thesis
    using i by (simp add: ltm_inv_def remove_entries shape_del)
qed

lemma remove_length: "gm_get (lt_entries ltm) k \<noteq> None \<Longrightarrow> gm_ok (lt_entries ltm) \<Longrightarrow>
   Suc (length (lt_entries (removeEntryLocked k ltm))) = length (lt_entries ltm)"
proof -
  have "k \<in> fst ` set m \<Longrightarrow> distinct (map fst m) \<Longrightarrow> Suc (length (gm_del k m)) = length m" for m :: "(string, memory_entry) gomap"
    by (induction m) (auto simp: delete_id)
  then show "gm_get (lt_entries ltm) k \<noteq> None \<Longrightarrow> gm_ok (lt_entries ltm) \<Longrightarrow>
     Suc (length (lt_entries (removeEntryLocked k ltm))) = length (lt_entries ltm)"
    unfolding remove_entries gm_ok_def gm_none_iff by blast
qed

subsection \<open>Evicting\<close>

lemma sortIndexed_inv: "ltm_inv ltm \<Longrightarrow> ltm_inv (sortIndexed now s ltm)"
  by (simp add: ltm_inv_def shape_ok_def sortIndexed_def mset_eq_imp_distinct_iff [OF mset_sort_slice])

lemma sortIndexed_fields [simp]:
  "lt_entries (sortIndexed now s ltm) = lt_entries ltm"
  "length (sessionIDs (lt_index (sortIndexed now s ltm)) s') = length (sessionIDs (lt_index ltm) s')"
  "set (sessionIDs (lt_index (sortIndexed now s ltm)) s') = set (sessionIDs (lt_index ltm) s')"
  by (simp_all add: sortIndexed_def)

lemma evicted_in: "ids \<noteq> [] \<Longrightarrow> hd (sort_slice lt ids) \<in> set ids"
  by (metis hd_in_set set_sort_slice sort_slice_eq_Nil)

text \<open>What the eviction loops do to the memory: some entries go, and their identifiers are the result.\<close>

definition evicts :: "long_term \<Rightarrow> string list \<times> long_term \<Rightarrow> bool" where
  "evicts ltm st \<longleftrightarrow>
     ltm_inv (snd st) \<and>
     (\<forall>k. gm_get (lt_entries (snd st)) k = (if k \<in> set (fst st) then None else gm_get (lt_entries ltm) k)) \<and>
     (\<forall>k \<in> set (fst st). k \<noteq> [] \<and> gm_get (lt_entries ltm) k \<noteq> None) \<and>
     (\<forall>s. length (sessionIDs (lt_index (snd st)) s) \<le> length (sessionIDs (lt_index ltm) s)) \<and>
     length (lt_entries (snd st)) \<le> length (lt_entries ltm)"

lemma evicts_start: "ltm_inv ltm \<Longrightarrow> evicts ltm ([], ltm)"
  by (simp add: evicts_def)

lemma evicts_step:
  assumes e: "evicts ltm (ev, m)" and m': "ltm_inv m'" "lt_entries m' = lt_entries m"
      "\<And>s. length (sessionIDs (lt_index m') s) = length (sessionIDs (lt_index m) s)"
    and k: "gm_get (lt_entries m) k \<noteq> None"
  shows "evicts ltm (appendID ev k, removeEntryLocked k m')"
proof -
  have inv: "ltm_inv m" and ev: "\<And>k. gm_get (lt_entries m) k = (if k \<in> set ev then None else gm_get (lt_entries ltm) k)"
    "\<And>k. k \<in> set ev \<Longrightarrow> k \<noteq> [] \<and> gm_get (lt_entries ltm) k \<noteq> None"
    "\<And>s. length (sessionIDs (lt_index m) s) \<le> length (sessionIDs (lt_index ltm) s)"
    "length (lt_entries m) \<le> length (lt_entries ltm)"
    using e by (simp_all add: evicts_def)
  have ne: "k \<noteq> []" using k ltm_inv_get [OF inv] by fastforce
  have kl: "gm_get (lt_entries ltm) k \<noteq> None" using k ev(1) by (auto split: if_splits)
  have len: "length (sessionIDs (lt_index (removeEntryLocked k m')) s) \<le> length (sessionIDs (lt_index ltm) s)" for s
    unfolding remove_index [OF m'(1)] using ev(3) [of s] m'(3) [of s] by (auto simp: length_remove1)
  have "length (gm_del k (lt_entries m)) \<le> length (lt_entries ltm)"
    using length_delete_le [of k "lt_entries m"] ev(4) by simp
  then show ?thesis
    using ne kl len remove_inv [OF m'(1)] ev(1,2)
    by (simp add: evicts_def appendID_def remove_entries m'(2) delete_conv)
qed

lemma evictFromSession_step:
  assumes e: "evicts ltm st" and f: "sessionFull limits s st"
  shows "evicts ltm (evictFromSession now s st) \<and>
    length (sessionIDs (lt_index (snd (evictFromSession now s st))) s) < length (sessionIDs (lt_index (snd st)) s)"
proof -
  obtain ev m where st: "st = (ev, m)" by (cases st)
  let ?ids = "sessionIDs (lt_index m) s" and ?m = "sortIndexed now s m"
  have inv: "ltm_inv m" using e st by (simp add: evicts_def)
  have ne: "?ids \<noteq> []" using f st by (auto simp: sessionFull_def)
  define k where "k = hd (sort_slice (evictLess now (lt_entries m)) ?ids)"
  have k: "k \<in> set ?ids" unfolding k_def by (rule evicted_in [OF ne])
  have some: "gm_get (lt_entries m) k \<noteq> None" using ltm_inv_listed [OF inv k] by auto
  have r: "evictFromSession now s st = (appendID ev k, removeEntryLocked k ?m)"
    using ne by (simp add: st evictFromSession_def evictOneLocked_def Let_def k_def)
  have l: "length (sessionIDs (lt_index (removeEntryLocked k ?m)) s) < length ?ids"
    unfolding remove_index [OF sortIndexed_inv [OF inv]] using length_pos_if_in_set [OF k] k by (simp add: length_remove1)
  show ?thesis
    unfolding r using evicts_step [OF e [unfolded st] sortIndexed_inv [OF inv] _ _ some] l by (simp add: st)
qed

lemma evictFromAll_step:
  assumes e: "evicts ltm st" and f: "memoryFull limits st"
  shows "evicts ltm (evictFromAll now st) \<and>
    length (lt_entries (snd (evictFromAll now st))) < length (lt_entries (snd st))"
proof -
  obtain ev m where st: "st = (ev, m)" by (cases st)
  have inv: "ltm_inv m" using e st by (simp add: evicts_def)
  have ne: "map fst (lt_entries m) \<noteq> []" using f st by (auto simp: memoryFull_def)
  define k where "k = hd (sort_slice (evictLess now (lt_entries m)) (map fst (lt_entries m)))"
  have "k \<in> fst ` set (lt_entries m)" using evicted_in [OF ne] unfolding k_def by simp
  then have some: "gm_get (lt_entries m) k \<noteq> None" by (simp add: gm_none_iff)
  have r: "evictFromAll now st = (appendID ev k, removeEntryLocked k m)"
    using ne by (simp add: st evictFromAll_def evictOneLocked_def Let_def k_def)
  have "length (lt_entries (removeEntryLocked k m)) < length (lt_entries m)"
    using remove_length [OF some] inv by (simp add: ltm_inv_def)
  then show ?thesis
    unfolding r using evicts_step [OF e [unfolded st] inv refl refl some] by (simp add: st)
qed

text \<open>Both loops end, with the limits respected.\<close>

lemma evict_facts:
  assumes "ltm_inv ltm" "0 < ml_MaxEntries limits" "0 < ml_MaxPerSession limits"
  shows "\<exists>ev m. evictIfNeededLocked limits now s ltm = Some (ev, m) \<and> evicts ltm (ev, m) \<and>
    int (length (sessionIDs (lt_index m) s)) < ml_MaxPerSession limits \<and>
    int (length (lt_entries m)) < ml_MaxEntries limits"
proof -
  let ?b1 = "sessionFull limits s" and ?c1 = "evictFromSession now s"
  have "\<exists>t. while_option ?b1 ?c1 ([], ltm) = Some t"
    by (rule measure_while_option_Some [where P = "evicts ltm" and f = "\<lambda>st. length (sessionIDs (lt_index (snd st)) s)"])
      (simp_all add: evictFromSession_step evicts_start assms(1))
  then obtain st1 where st1: "while_option ?b1 ?c1 ([], ltm) = Some st1" by blast
  have e1: "evicts ltm st1"
    by (rule while_option_rule [OF _ st1, where P = "evicts ltm"]) (simp_all add: evictFromSession_step evicts_start assms(1))
  have f1: "\<not> ?b1 st1" by (rule while_option_stop [OF st1])
  let ?b2 = "memoryFull limits" and ?c2 = "evictFromAll now"
  let ?P = "\<lambda>st. evicts ltm st \<and> \<not> ?b1 st"
  have p: "?P (?c2 st) \<and> length (lt_entries (snd (?c2 st))) < length (lt_entries (snd st))" if "?P st" "?b2 st" for st
  proof -
    obtain ev m where st: "st = (ev, m)" by (cases st)
    have inv: "ltm_inv m" using that(1) st by (simp add: evicts_def)
    have ne: "map fst (lt_entries m) \<noteq> []" using that(2) st by (auto simp: memoryFull_def)
    then have "length (sessionIDs (lt_index (snd (?c2 st))) s) \<le> length (sessionIDs (lt_index m) s)"
      by (simp add: st evictFromAll_def evictOneLocked_def Let_def remove_index [OF inv] length_remove1)
    then have "\<not> ?b1 (?c2 st)"
      using that(1) st by (auto simp: sessionFull_def split: prod.splits)
    then show ?thesis using evictFromAll_step [of ltm st] that by blast
  qed
  have "\<exists>t. while_option ?b2 ?c2 st1 = Some t"
    by (rule measure_while_option_Some [where P = ?P and f = "\<lambda>st. length (lt_entries (snd st))"]) (use p e1 f1 in blast)+
  then obtain st2 where st2: "while_option ?b2 ?c2 st1 = Some st2" by blast
  have "?P st2"
    by (rule while_option_rule [OF _ st2, where P = ?P]) (use p e1 f1 in blast)+
  moreover have "\<not> ?b2 st2" by (rule while_option_stop [OF st2])
  ultimately show ?thesis
    using assms(2,3) st1 st2
    by (cases st2) (auto simp: evictIfNeededLocked_def sessionFull_def memoryFull_def)
qed

subsection \<open>The store mirrors the memory\<close>

text \<open>The relevance of an entry is a cache the operations refresh without saving it: a store mirrors the memory
  when it holds, up to that field, the copy \<open>cloneMemoryEntry\<close> makes of every entry and nothing else.\<close>

definition unranked :: "memory_entry \<Rightarrow> memory_entry" where
  "unranked e = e\<lparr>me_Relevance := 0\<rparr>"

definition mirrors :: "long_term \<Rightarrow> (string \<Rightarrow> memory_entry option) \<Rightarrow> bool" where
  "mirrors ltm held \<longleftrightarrow>
     (\<forall>k. map_option unranked (held k) = map_option (\<lambda>e. cloneMemoryEntry e 0) (gm_get (lt_entries ltm) k))"

definition persisted :: "pending_changes \<Rightarrow> (string \<Rightarrow> memory_entry option) \<Rightarrow> string \<Rightarrow> memory_entry option" where
  "persisted ch held k = (if k \<in> set (pc_deletes ch) then None else upserted (pc_upserts ch) held k)"

lemma unranked_clone [simp]: "unranked (cloneMemoryEntry e r) = cloneMemoryEntry e 0"
  by (simp add: unranked_def)

lemma persisted_none [simp]: "persisted noChanges held = held"
  by (simp add: persisted_def noChanges_def fun_eq_iff)

lemma upserted_copies:
  assumes "\<And>u. u \<in> set ups \<Longrightarrow> map_option (\<lambda>e. cloneMemoryEntry e 0) (get (me_ID u)) = Some (unranked u)"
  shows "map_option unranked (upserted ups held k) =
    (if k \<in> me_ID ` set ups then map_option (\<lambda>e. cloneMemoryEntry e 0) (get k) else map_option unranked (held k))"
  using assms
proof (induction ups arbitrary: held)
  case (Cons u ups)
  have ih: "map_option unranked (upserted ups (held(me_ID u \<mapsto> u)) k) =
      (if k \<in> me_ID ` set ups then map_option (\<lambda>e. cloneMemoryEntry e 0) (get k)
       else map_option unranked ((held(me_ID u \<mapsto> u)) k))"
    by (rule Cons.IH) (simp add: Cons.prems)
  show ?case
    unfolding upserted_Cons ih using Cons.prems [of u] by auto
qed simp

lemma mirrors_persisted:
  assumes "mirrors ltm held"
    and "\<And>u. u \<in> set (pc_upserts ch) \<Longrightarrow>
           map_option (\<lambda>e. cloneMemoryEntry e 0) (gm_get (lt_entries ltm') (me_ID u)) = Some (unranked u)"
    and "\<And>k. k \<in> set (pc_deletes ch) \<Longrightarrow> gm_get (lt_entries ltm') k = None"
    and "\<And>k. k \<notin> set (pc_deletes ch) \<Longrightarrow> k \<notin> me_ID ` set (pc_upserts ch) \<Longrightarrow>
           map_option (\<lambda>e. cloneMemoryEntry e 0) (gm_get (lt_entries ltm') k) =
           map_option (\<lambda>e. cloneMemoryEntry e 0) (gm_get (lt_entries ltm) k)"
  shows "mirrors ltm' (persisted ch held)"
  unfolding mirrors_def persisted_def
  using assms(3,4) upserted_copies [OF assms(2), of _ held] assms(1) [unfolded mirrors_def] by simp

text \<open>What an operation is good for: it keeps the invariant, and the store that gets its changes still mirrors
  the memory.\<close>

definition good_step :: "long_term \<Rightarrow> pending_changes \<times> long_term \<Rightarrow> bool" where
  "good_step ltm res \<longleftrightarrow>
     ltm_inv (snd res) \<and> (\<forall>held. mirrors ltm held \<longrightarrow> mirrors (snd res) (persisted (fst res) held))"

lemma good_stepI:
  assumes "ltm_inv ltm'"
    and "\<And>u. u \<in> set (pc_upserts ch) \<Longrightarrow>
           map_option (\<lambda>e. cloneMemoryEntry e 0) (gm_get (lt_entries ltm') (me_ID u)) = Some (unranked u)"
    and "\<And>k. k \<in> set (pc_deletes ch) \<Longrightarrow> gm_get (lt_entries ltm') k = None"
    and "\<And>k. k \<notin> set (pc_deletes ch) \<Longrightarrow> k \<notin> me_ID ` set (pc_upserts ch) \<Longrightarrow>
           map_option (\<lambda>e. cloneMemoryEntry e 0) (gm_get (lt_entries ltm') k) =
           map_option (\<lambda>e. cloneMemoryEntry e 0) (gm_get (lt_entries ltm) k)"
  shows "good_step ltm (ch, ltm')"
  unfolding good_step_def using assms mirrors_persisted [of ltm _ ch ltm'] by simp

lemma good_step_none: "ltm_inv ltm \<Longrightarrow> good_step ltm (noChanges, ltm)"
  by (simp add: good_step_def)

subsection \<open>Storing\<close>

lemma retires_self [simp]: "\<not> retires k t opts k e"
  by (simp add: retires_def)

lemma retired_fields [simp]:
  "me_ID (retired now e) = me_ID e" "me_SessionID (retired now e) = me_SessionID e"
  "me_ExpiresAt (retired now e) = unix_milli now"
  by (simp_all add: retired_def)

lemma reinforced_fields [simp]:
  "me_ID (reinforced now opts e) = me_ID e" "me_SessionID (reinforced now opts e) = me_SessionID e"
  by (simp_all add: reinforced_def Let_def)

lemma newEntry_fields [simp]:
  "me_ID (newEntry now k s t c src opts) = k" "me_SessionID (newEntry now k s t c src opts) = s"
  by (simp_all add: newEntry_def)

definition retiredIn :: "gotime \<Rightarrow> string \<Rightarrow> string \<Rightarrow> store_options \<Rightarrow> string \<Rightarrow> memory_entry \<Rightarrow> memory_entry" where
  "retiredIn now eid t opts k e =
     (if so_ConflictGroup opts \<noteq> [] \<and> retires eid t opts k e then retired now e else e)"

lemma retiredIn_fields [simp]:
  "me_ID (retiredIn now eid t opts k e) = me_ID e" "me_SessionID (retiredIn now eid t opts k e) = me_SessionID e"
  by (simp_all add: retiredIn_def)

lemma retiredIn_self [simp]: "retiredIn now eid t opts eid e = e"
  by (simp add: retiredIn_def retires_def)

lemma retire_entries:
  "fst (retireConflictingMemoriesLocked now eid t opts es) = gm_map (retiredIn now eid t opts) es"
  by (auto simp: retireConflictingMemoriesLocked_def gm_map_def retiredIn_def split: prod.splits)

lemma retire_rest:
  assumes "gm_ok es" "keyed es"
  shows "u \<in> set (snd (retireConflictingMemoriesLocked now eid t opts es)) \<longleftrightarrow>
    (\<exists>e. gm_get es (me_ID u) = Some e \<and> so_ConflictGroup opts \<noteq> [] \<and> retires eid t opts (me_ID u) e \<and>
         u = cloneMemoryEntry (retired now e) (me_Relevance e))"
proof
  assume u: "u \<in> set (snd (retireConflictingMemoriesLocked now eid t opts es))"
  then have c: "so_ConflictGroup opts \<noteq> []" by (auto simp: retireConflictingMemoriesLocked_def)
  with u obtain k e where e: "(k, e) \<in> set es" "retires eid t opts k e"
      "u = cloneMemoryEntry (retired now e) (me_Relevance e)"
    by (auto simp: retireConflictingMemoriesLocked_def)
  have "me_ID e = k" using assms(2) e(1) by (auto simp: keyed_def)
  then have "me_ID u = k" using e(3) by simp
  with e c gm_in_get [OF assms(1) e(1)] show "\<exists>e. gm_get es (me_ID u) = Some e \<and> so_ConflictGroup opts \<noteq> [] \<and>
      retires eid t opts (me_ID u) e \<and> u = cloneMemoryEntry (retired now e) (me_Relevance e)"
    by (intro exI [of _ e]) simp
next
  assume "\<exists>e. gm_get es (me_ID u) = Some e \<and> so_ConflictGroup opts \<noteq> [] \<and>
      retires eid t opts (me_ID u) e \<and> u = cloneMemoryEntry (retired now e) (me_Relevance e)"
  then obtain e where e: "gm_get es (me_ID u) = Some e" "so_ConflictGroup opts \<noteq> []"
      "retires eid t opts (me_ID u) e" "u = cloneMemoryEntry (retired now e) (me_Relevance e)"
    by blast
  from e(1) have "(me_ID u, e) \<in> set (filter (\<lambda>(k, e). retires eid t opts k e) es)"
    using gm_get_in [OF e(1)] e(3) by simp
  then have "(\<lambda>(k, e). cloneMemoryEntry (retired now e) (me_Relevance e)) (me_ID u, e)
      \<in> (\<lambda>(k, e). cloneMemoryEntry (retired now e) (me_Relevance e)) ` set (filter (\<lambda>(k, e). retires eid t opts k e) es)"
    by (rule imageI)
  then show "u \<in> set (snd (retireConflictingMemoriesLocked now eid t opts es))"
    using e(2,4) by (simp add: retireConflictingMemoriesLocked_def)
qed

lemma not_retired:
  assumes "gm_ok es" "keyed es" "gm_get es k = Some e"
    and "k \<notin> me_ID ` set (snd (retireConflictingMemoriesLocked now eid t opts es))"
  shows "retiredIn now eid t opts k e = e"
proof (rule ccontr)
  assume "retiredIn now eid t opts k e \<noteq> e"
  then have c: "so_ConflictGroup opts \<noteq> []" "retires eid t opts k e" by (auto simp: retiredIn_def split: if_splits)
  have i: "me_ID e = k" using assms(2) gm_get_in [OF assms(3)] by (auto simp: keyed_def)
  let ?u = "cloneMemoryEntry (retired now e) (me_Relevance e)"
  have "?u \<in> set (snd (retireConflictingMemoriesLocked now eid t opts es))"
    unfolding retire_rest [OF assms(1,2)] using c i assms(3) by (intro exI [of _ e]) simp
  then have "me_ID ?u \<in> me_ID ` set (snd (retireConflictingMemoriesLocked now eid t opts es))"
    by (rule imageI)
  then show False using assms(4) i by simp
qed

lemma inv_keyed: "ltm_inv ltm \<Longrightarrow> keyed (lt_entries ltm)"
  unfolding keyed_def using ltm_inv_keyed by fast

definition withinLimits :: "memory_limits \<Rightarrow> long_term \<Rightarrow> bool" where
  "withinLimits limits ltm \<longleftrightarrow>
     int (length (lt_entries ltm)) \<le> ml_MaxEntries limits \<and>
     (\<forall>s. int (length (sessionIDs (lt_index ltm) s)) \<le> ml_MaxPerSession limits)"

definition env_ok :: "memory_env \<Rightarrow> bool" where
  "env_ok env \<longleftrightarrow> 0 < ml_MaxEntries (mv_limits env) \<and> 0 < ml_MaxPerSession (mv_limits env) \<and> (\<forall>x. mv_hash8 env x \<noteq> [])"

lemma same_entries_step:
  assumes i: "ltm_inv ltm" and e: "gm_get (lt_entries ltm) k = Some e0" "me_ID e = me_ID e0" "me_SessionID e = me_SessionID e0"
  shows "ltm_inv (ltm\<lparr>lt_entries := gm_put k e (lt_entries ltm)\<rparr>)"
  using i shape_put_same [OF e] by (intro ltm_inv_entries) (auto simp: ltm_inv_def)

lemma store_existing:
  assumes i: "ltm_inv ltm" and ex: "gm_get (lt_entries ltm) k = Some ex"
    and r: "retireConflictingMemoriesLocked now k t opts (gm_put k e (lt_entries ltm)) = (es, rs)"
    and e: "me_ID e = me_ID ex" "me_SessionID e = me_SessionID ex"
  shows "good_step ltm (\<lparr>pc_upserts = cloneMemoryEntry e (me_Relevance e) # rs, pc_deletes = []\<rparr>, ltm\<lparr>lt_entries := es\<rparr>)"
proof (rule good_stepI)
  let ?m = "gm_put k e (lt_entries ltm)"
  have i1: "ltm_inv (ltm\<lparr>lt_entries := ?m\<rparr>)" by (rule same_entries_step [OF i ex e])
  then have ok: "gm_ok ?m" "keyed ?m" using inv_keyed [OF i1] by (simp_all add: ltm_inv_def)
  have es: "es = gm_map (retiredIn now k t opts) ?m" using retire_entries [of now k t opts ?m] r by simp
  have rs: "u \<in> set rs \<longleftrightarrow> (\<exists>e. gm_get ?m (me_ID u) = Some e \<and> so_ConflictGroup opts \<noteq> [] \<and>
      retires k t opts (me_ID u) e \<and> u = cloneMemoryEntry (retired now e) (me_Relevance e))" for u
    using retire_rest [OF ok, of u now k t opts] r by simp
  have k: "me_ID ex = k" using ltm_inv_get [OF i ex] by simp
  show "ltm_inv (ltm\<lparr>lt_entries := es\<rparr>)"
    using ltm_inv_entries [OF i1, of es] ok(1) unfolding es by (simp add: shape_map)
  show "map_option (\<lambda>e. cloneMemoryEntry e 0) (gm_get (lt_entries (ltm\<lparr>lt_entries := es\<rparr>)) (me_ID u)) = Some (unranked u)"
    if "u \<in> set (pc_upserts \<lparr>pc_upserts = cloneMemoryEntry e (me_Relevance e) # rs, pc_deletes = []\<rparr>)" for u
    using that unfolding es by (auto simp: gm_get_map gm_get_put rs e(1) k retiredIn_def split: if_splits)
  show "map_option (\<lambda>e. cloneMemoryEntry e 0) (gm_get (lt_entries (ltm\<lparr>lt_entries := es\<rparr>)) k') =
      map_option (\<lambda>e. cloneMemoryEntry e 0) (gm_get (lt_entries ltm) k')"
    if n: "k' \<notin> me_ID ` set (pc_upserts \<lparr>pc_upserts = cloneMemoryEntry e (me_Relevance e) # rs, pc_deletes = []\<rparr>)" for k'
  proof (cases "gm_get (lt_entries ltm) k'")
    case (Some e')
    have k': "k' \<noteq> k" using n by (auto simp: e(1) k)
    have id': "me_ID e' = k'" using ltm_inv_get [OF i Some] by simp
    have "retiredIn now k t opts k' e' = e'"
      by (rule not_retired [OF ok]) (use n r k' Some in \<open>simp_all add: gm_get_put\<close>)
    then show ?thesis using k' Some by (simp add: es gm_get_map gm_get_put)
  qed (use n in \<open>auto simp: es gm_get_map gm_get_put e(1) k\<close>)
qed simp

lemma shape_ok_add:
  assumes so: "shape_ok sh index" and nl: "\<And>s'. k \<notin> set (sessionIDs index s')" and k: "k \<noteq> []"
  shows "shape_ok (sh(k \<mapsto> (k, s))) (gm_put s (sessionIDs index s @ [k]) index)"
  unfolding shape_ok_def
proof (intro conjI allI impI)
  fix k' i s'
  assume "(sh(k \<mapsto> (k, s))) k' = Some (i, s')"
  then have "k' = k \<and> i = k \<and> s' = s \<or> k' \<noteq> k \<and> sh k' = Some (i, s')" by (auto split: if_splits)
  then show "i = k'" "k' \<noteq> []" and "s' \<noteq> [] \<Longrightarrow> k' \<in> set (sessionIDs (gm_put s (sessionIDs index s @ [k]) index) s')"
    using shape_okD(1) [OF so, of k' i s'] k by auto
next
  fix s'
  show "distinct (sessionIDs (gm_put s (sessionIDs index s @ [k]) index) s')"
    using shape_okD(2) [OF so] nl by simp
next
  fix s' k'
  assume "k' \<in> set (sessionIDs (gm_put s (sessionIDs index s @ [k]) index) s')"
  then have "k' = k \<and> s' = s \<or> k' \<in> set (sessionIDs index s')" by (auto split: if_splits)
  then show "(sh(k \<mapsto> (k, s))) k' = Some (k', s')"
    using shape_okD(3) [OF so, of k' s'] nl [of s'] by auto
qed

lemma store_new:
  assumes i: "ltm_inv ltm" and no: "gm_get (lt_entries ltm) k = None" and k: "k \<noteq> []"
    and ev: "evicts ltm (ev, m)"
    and r: "retireConflictingMemoriesLocked now k t opts (lt_entries m) = (es, rs)"
    and e: "me_ID e = k" "me_SessionID e = s"
  defines "ltm' \<equiv> \<lparr>lt_entries = gm_put k e es, lt_index = gm_put s (sessionIDs (lt_index m) s @ [k]) (lt_index m)\<rparr>"
  shows "good_step ltm (\<lparr>pc_upserts = cloneMemoryEntry e (me_Relevance e) # rs, pc_deletes = ev\<rparr>, ltm')"
    and "length (lt_entries ltm') = Suc (length (lt_entries m))"
proof -
  let ?ch = "\<lparr>pc_upserts = cloneMemoryEntry e (me_Relevance e) # rs, pc_deletes = ev\<rparr>"
  have im: "ltm_inv m" and evd: "gm_get (lt_entries m) k' = (if k' \<in> set ev then None else gm_get (lt_entries ltm) k')"
    and evk: "k' \<in> set ev \<Longrightarrow> gm_get (lt_entries ltm) k' \<noteq> None" for k'
    using ev by (simp_all add: evicts_def)
  have ok: "gm_ok (lt_entries m)" "keyed (lt_entries m)" using im inv_keyed [OF im] by (simp_all add: ltm_inv_def)
  have es: "es = gm_map (retiredIn now k t opts) (lt_entries m)"
    using retire_entries [of now k t opts "lt_entries m"] r by simp
  have rs: "u \<in> set rs \<longleftrightarrow> (\<exists>e. gm_get (lt_entries m) (me_ID u) = Some e \<and> so_ConflictGroup opts \<noteq> [] \<and>
      retires k t opts (me_ID u) e \<and> u = cloneMemoryEntry (retired now e) (me_Relevance e))" for u
    using retire_rest [OF ok, of u now k t opts] r by simp
  have nm: "gm_get (lt_entries m) k = None" using evd [of k] no by simp
  have sh: "shape es = shape (lt_entries m)" unfolding es by (rule shape_map) simp
  have so: "shape_ok (shape (lt_entries m)) (lt_index m)" using im by (simp add: ltm_inv_def)
  have nl: "k \<notin> set (sessionIDs (lt_index m) s')" for s' using ltm_inv_listed [OF im, of k s'] nm by auto
  have "shape_ok ((shape (lt_entries m))(k \<mapsto> (k, s))) (gm_put s (sessionIDs (lt_index m) s @ [k]) (lt_index m))"
    by (rule shape_ok_add [OF so nl k])
  then have inv': "ltm_inv ltm'"
    using im ok(1) sh by (simp add: ltm'_def ltm_inv_def shape_put e) (simp add: es)
  show "good_step ltm (?ch, ltm')"
  proof (rule good_stepI [OF inv'])
    show "map_option (\<lambda>e. cloneMemoryEntry e 0) (gm_get (lt_entries ltm') (me_ID u)) = Some (unranked u)"
      if u: "u \<in> set (pc_upserts ?ch)" for u
    proof (cases "u \<in> set rs")
      case True
      then obtain e' where e': "gm_get (lt_entries m) (me_ID u) = Some e'" "so_ConflictGroup opts \<noteq> []"
          "retires k t opts (me_ID u) e'" "u = cloneMemoryEntry (retired now e') (me_Relevance e')"
        unfolding rs by blast
      then have "me_ID u \<noteq> k" using nm by auto
      moreover have "unranked u = cloneMemoryEntry (retired now e') 0" by (subst e'(4)) simp
      ultimately show ?thesis
        using e'(1-3) by (simp add: ltm'_def es gm_get_map gm_get_put retiredIn_def)
    next
      case False
      with u have "u = cloneMemoryEntry e (me_Relevance e)" by simp
      then show ?thesis by (simp add: ltm'_def e)
    qed
    show "gm_get (lt_entries ltm') k' = None" if "k' \<in> set (pc_deletes ?ch)" for k'
      using that evk [of k'] evd [of k'] no by (auto simp: ltm'_def es gm_get_map gm_get_put)
    show "map_option (\<lambda>e. cloneMemoryEntry e 0) (gm_get (lt_entries ltm') k') =
        map_option (\<lambda>e. cloneMemoryEntry e 0) (gm_get (lt_entries ltm) k')"
      if d: "k' \<notin> set (pc_deletes ?ch)" and n: "k' \<notin> me_ID ` set (pc_upserts ?ch)" for k'
    proof (cases "gm_get (lt_entries ltm) k'")
      case (Some e')
      have k': "k' \<noteq> k" using Some no by auto
      have id': "me_ID e' = k'" using ltm_inv_get [OF i Some] by simp
      have sm: "gm_get (lt_entries m) k' = Some e'" using d Some evd [of k'] by simp
      have "retiredIn now k t opts k' e' = e'"
        by (rule not_retired [OF ok sm]) (use n r in simp)
      then show ?thesis using k' Some sm by (simp add: ltm'_def es gm_get_map gm_get_put)
    qed (use n evd [of k'] in \<open>auto simp: ltm'_def es gm_get_map gm_get_put e\<close>)
  qed
  show "length (lt_entries ltm') = Suc (length (lt_entries m))"
    using nm by (simp add: ltm'_def es length_put gm_get_map)
qed

lemma store_facts:
  assumes i: "ltm_inv ltm" and env: "env_ok env"
  shows "\<exists>k ch ltm'. StoreWithOptions env now s t c src opts ltm = Some (k, ch, ltm') \<and>
    good_step ltm (ch, ltm') \<and> (withinLimits (mv_limits env) ltm \<longrightarrow> withinLimits (mv_limits env) ltm') \<and>
    gm_get (lt_entries ltm') k \<noteq> None"
proof -
  define o1 where "o1 = normalizeMemoryStoreOptions s t src opts"
  define k where "k = generateMemoryID (mv_hash8 env) (so_Scope o1) (so_ScopeID o1) c"
  show ?thesis
  proof (cases "gm_get (lt_entries ltm) k")
    case (Some ex)
    let ?e = "reinforced now o1 ex"
    obtain es rs where r: "retireConflictingMemoriesLocked now k t o1 (gm_put k ?e (lt_entries ltm)) = (es, rs)"
      by (cases "retireConflictingMemoriesLocked now k t o1 (gm_put k ?e (lt_entries ltm))") auto
    have es: "es = gm_map (retiredIn now k t o1) (gm_put k ?e (lt_entries ltm))"
      using retire_entries [of now k t o1 "gm_put k ?e (lt_entries ltm)"] r by simp
    have "StoreWithOptions env now s t c src opts ltm =
        Some (k, \<lparr>pc_upserts = cloneMemoryEntry ?e (me_Relevance ?e) # rs, pc_deletes = []\<rparr>, ltm\<lparr>lt_entries := es\<rparr>)"
      using Some r by (simp add: StoreWithOptions_def Let_def o1_def [symmetric] k_def [symmetric])
    moreover have "length es = length (lt_entries ltm)"
      using Some by (simp add: es length_put)
    moreover have "gm_get es k \<noteq> None" by (simp add: es gm_get_map gm_get_put)
    ultimately show ?thesis
      using store_existing [OF i Some r] by (simp add: withinLimits_def)
  next
    case None
    have kne: "k \<noteq> []" using env by (simp add: k_def generateMemoryID_def env_ok_def)
    from evict_facts [OF i, of "mv_limits env" now s] env obtain ev m where
      m: "evictIfNeededLocked (mv_limits env) now s ltm = Some (ev, m)" "evicts ltm (ev, m)"
        "int (length (sessionIDs (lt_index m) s)) < ml_MaxPerSession (mv_limits env)"
        "int (length (lt_entries m)) < ml_MaxEntries (mv_limits env)"
      by (auto simp: env_ok_def)
    obtain es rs where r: "retireConflictingMemoriesLocked now k t o1 (lt_entries m) = (es, rs)"
      by (cases "retireConflictingMemoriesLocked now k t o1 (lt_entries m)") auto
    let ?e = "newEntry now k s t c src o1"
    let ?l = "\<lparr>lt_entries = gm_put k ?e es, lt_index = gm_put s (sessionIDs (lt_index m) s @ [k]) (lt_index m)\<rparr>"
    have st: "StoreWithOptions env now s t c src opts ltm =
        Some (k, \<lparr>pc_upserts = cloneMemoryEntry ?e (me_Relevance ?e) # rs, pc_deletes = ev\<rparr>, ?l)"
      using None m(1) r by (simp add: StoreWithOptions_def Let_def o1_def [symmetric] k_def [symmetric])
    note n = store_new [OF i None kne m(2) r, of ?e s]
    have "withinLimits (mv_limits env) ltm \<longrightarrow> withinLimits (mv_limits env) ?l"
    proof
      assume w: "withinLimits (mv_limits env) ltm"
      have "int (length (sessionIDs (lt_index m) s')) \<le> ml_MaxPerSession (mv_limits env)" for s'
      proof -
        have "length (sessionIDs (lt_index m) s') \<le> length (sessionIDs (lt_index ltm) s')"
          using m(2) by (simp add: evicts_def)
        moreover have "int (length (sessionIDs (lt_index ltm) s')) \<le> ml_MaxPerSession (mv_limits env)"
          using w by (simp add: withinLimits_def)
        ultimately show ?thesis by linarith
      qed
      then show "withinLimits (mv_limits env) ?l"
        using n(2) m(3,4) by (simp add: withinLimits_def)
    qed
    then show ?thesis using st n(1) by simp
  qed
qed

subsection \<open>The other operations\<close>

lemma touchEntry_get:
  "gm_get (touchEntry now k es) k' =
     (if k' = k then map_option (touched now) (gm_get es k) else gm_get es k')"
  by (auto simp: touchEntry_def gm_get_put split: option.splits)

lemma touched_fields [simp]: "me_ID (touched now e) = me_ID e" "me_SessionID (touched now e) = me_SessionID e"
  by (simp_all add: touched_def used_def Let_def)

lemma touchEntry_shape: "shape (touchEntry now k es) = shape es"
  by (auto simp: shape_def touchEntry_get option.map_comp comp_def fun_eq_iff)

lemma touchEntry_ok: "gm_ok es \<Longrightarrow> gm_ok (touchEntry now k es)"
  by (simp add: touchEntry_def split: option.split)

lemma touchEntry_length: "length (touchEntry now k es) = length es"
  by (auto simp: touchEntry_def length_put split: option.splits)

lemma fold_touch:
  "gm_ok es \<Longrightarrow> gm_ok (fold (touchEntry now) ks es) \<and> shape (fold (touchEntry now) ks es) = shape es \<and>
     length (fold (touchEntry now) ks es) = length es"
  by (induction ks arbitrary: es) (simp_all add: touchEntry_ok touchEntry_shape touchEntry_length)

lemma fold_touch_other: "k \<notin> set ks \<Longrightarrow> gm_get (fold (touchEntry now) ks es) k = gm_get es k"
  by (induction ks arbitrary: es) (simp_all add: touchEntry_get)

lemma select_sub: "set (selectCandidates env limit sets cs) \<subseteq> set cs"
  by (induction env limit sets cs rule: selectCandidates.induct) (auto simp: Let_def)

lemma candidate_props:
  assumes "c \<in> set (retrievalCandidates env now query policy ltm)"
  shows "\<exists>e. (sm_id c, e) \<in> set (lt_entries ltm) \<and> retrievable now policy e \<and>
    sm_entry c = cloneMemoryEntry e (computeRelevance now e)"
  using assms by (auto simp: retrievalCandidates_def Let_def)

lemma used_fields [simp]: "me_ID (used now e) = me_ID e"
  by (simp add: used_def)

lemma upsertsOf_in:
  "u \<in> set (upsertsOf es result) \<longleftrightarrow>
     (\<exists>x \<in> set result. \<exists>e. gm_get es (me_ID x) = Some e \<and> u = cloneMemoryEntry e (me_Relevance e))"
proof (induction result)
  case (Cons x result)
  then show ?case
    by (cases "gm_get es (me_ID x)") (simp_all add: upsertsOf_def)
qed (simp add: upsertsOf_def)

lemma retrieve_facts:
  assumes i: "ltm_inv ltm" and r: "RetrieveScoped env now query limit policy ltm = (res, ch, ltm')"
  shows "good_step ltm (ch, ltm') \<and> length (lt_entries ltm') = length (lt_entries ltm) \<and> lt_index ltm' = lt_index ltm"
proof (cases "lt_entries ltm = [] \<or> rp_ReadOnly policy")
  case True
  then have "pc_upserts ch = []" "pc_deletes ch = []" "ltm' = ltm"
    using r by (auto simp: RetrieveScoped_def Let_def noChanges_def split: if_splits)
  moreover from this have "persisted ch held = held" for held by (simp add: persisted_def fun_eq_iff)
  ultimately show ?thesis using i by (simp add: good_step_def)
next
  case False
  define picked where "picked = selectCandidates env limit []
    (sort_slice (\<lambda>a b. sm_score a > sm_score b) (retrievalCandidates env now query policy ltm))"
  define es where "es = fold (touchEntry now) (map sm_id picked) (lt_entries ltm)"
  have res: "res = map (\<lambda>c. used now (sm_entry c)) picked" "pc_upserts ch = upsertsOf es res" "pc_deletes ch = []"
    "ltm' = ltm\<lparr>lt_entries := es\<rparr>"
    using r False by (auto simp: RetrieveScoped_def Let_def picked_def es_def)
  have es: "gm_ok es" "shape es = shape (lt_entries ltm)" "length es = length (lt_entries ltm)"
    using fold_touch [of "lt_entries ltm" now] i by (simp_all add: es_def ltm_inv_def)
  have pid: "me_ID (sm_entry c) = sm_id c" if "c \<in> set picked" for c
  proof -
    have "c \<in> set (retrievalCandidates env now query policy ltm)"
      using that select_sub unfolding picked_def by (metis set_sort_slice subsetD)
    from candidate_props [OF this] show ?thesis using ltm_inv_keyed [OF i] by auto
  qed
  have inv': "ltm_inv ltm'" unfolding res(4) by (rule ltm_inv_entries [OF i es(1,2)])
  have up: "u \<in> set (pc_upserts ch) \<longleftrightarrow> (\<exists>c \<in> set picked. \<exists>e. gm_get es (sm_id c) = Some e \<and> u = cloneMemoryEntry e (me_Relevance e))" for u
    unfolding res(1,2) upsertsOf_in by (simp add: pid)
  have "good_step ltm (ch, ltm')"
  proof (rule good_stepI [OF inv'])
    show "map_option (\<lambda>e. cloneMemoryEntry e 0) (gm_get (lt_entries ltm') (me_ID u)) = Some (unranked u)"
      if u: "u \<in> set (pc_upserts ch)" for u
    proof -
      from u obtain c :: scored_memory and e where e: "gm_get es (sm_id c) = Some e" "u = cloneMemoryEntry e (me_Relevance e)"
        unfolding up by blast
      have "me_ID e = sm_id c" using ltm_inv_get [OF inv', of "sm_id c" e] e(1) res(4) by simp
      then show ?thesis using e res(4) by simp
    qed
    show "map_option (\<lambda>e. cloneMemoryEntry e 0) (gm_get (lt_entries ltm') k) =
        map_option (\<lambda>e. cloneMemoryEntry e 0) (gm_get (lt_entries ltm) k)"
      if n: "k \<notin> me_ID ` set (pc_upserts ch)" for k
    proof (cases "k \<in> set (map sm_id picked)")
      case True
      then obtain c where c: "c \<in> set picked" "k = sm_id c" by auto
      have "gm_get es k = None"
      proof (rule ccontr)
        assume "gm_get es k \<noteq> None"
        then obtain e where e: "gm_get es k = Some e" by auto
        then have u: "cloneMemoryEntry e (me_Relevance e) \<in> set (pc_upserts ch)" unfolding up using c by blast
        have "me_ID e = k" using ltm_inv_get [OF inv', of k e] e res(4) by simp
        then show False using n imageI [OF u, of me_ID] by simp
      qed
      moreover from this have "gm_get (lt_entries ltm) k = None"
        using fun_cong [OF es(2), of k] by (simp add: shape_def)
      ultimately show ?thesis by (simp add: res(4))
    next
      case False
      then show ?thesis by (simp add: res(4) es_def fold_touch_other)
    qed
  qed (simp add: res(3))
  then show ?thesis by (simp add: res(4) es(3))
qed

lemma fold_remove:
  "ltm_inv ltm \<Longrightarrow> ltm_inv (fold removeEntryLocked ks ltm) \<and>
     (\<forall>k. gm_get (lt_entries (fold removeEntryLocked ks ltm)) k = (if k \<in> set ks then None else gm_get (lt_entries ltm) k)) \<and>
     length (lt_entries (fold removeEntryLocked ks ltm)) \<le> length (lt_entries ltm) \<and>
     (\<forall>s. length (sessionIDs (lt_index (fold removeEntryLocked ks ltm)) s) \<le> length (sessionIDs (lt_index ltm) s))"
proof (induction ks arbitrary: ltm)
  case (Cons k ks)
  note r = Cons.IH [OF remove_inv [OF Cons.prems, of k]]
  have "length (sessionIDs (lt_index (removeEntryLocked k ltm)) s) \<le> length (sessionIDs (lt_index ltm) s)" for s
    by (simp add: remove_index [OF Cons.prems] length_remove1)
  moreover have "length (lt_entries (removeEntryLocked k ltm)) \<le> length (lt_entries ltm)"
    by (simp add: remove_entries length_delete_le)
  ultimately show ?case
    using r by (auto simp: remove_entries delete_conv intro: le_trans)
qed simp

lemma forget_facts:
  assumes i: "ltm_inv ltm" and f: "Forget now threshold ltm = (n, ch, ltm')"
  shows "good_step ltm (ch, ltm') \<and> length (lt_entries ltm') \<le> length (lt_entries ltm) \<and>
    (\<forall>s. length (sessionIDs (lt_index ltm') s) \<le> length (sessionIDs (lt_index ltm) s))"
proof -
  define es where "es = gm_map (\<lambda>k e. e\<lparr>me_Relevance := computeRelevance now e\<rparr>) (lt_entries ltm)"
  define ks where "ks = map fst (filter (\<lambda>(k, e). me_Relevance e < threshold) es)"
  have d: "ch = \<lparr>pc_upserts = [], pc_deletes = ks\<rparr>" "ltm' = fold removeEntryLocked ks (ltm\<lparr>lt_entries := es\<rparr>)"
    using f by (simp_all add: Forget_def Let_def es_def ks_def)
  have "gm_ok es" using i by (simp add: es_def ltm_inv_def)
  moreover have "shape es = shape (lt_entries ltm)" unfolding es_def by (rule shape_map) simp
  ultimately have i1: "ltm_inv (ltm\<lparr>lt_entries := es\<rparr>)" by (rule ltm_inv_entries [OF i])
  note r = fold_remove [OF i1, of ks]
  have "good_step ltm (ch, ltm')"
    by (rule good_stepI) (use r in \<open>simp_all add: d es_def gm_get_map option.map_comp comp_def\<close>)
  then show ?thesis using r by (simp add: d es_def)
qed

lemma delete_facts:
  assumes i: "ltm_inv ltm" and f: "Delete k ltm = (b, ch, ltm')"
  shows "good_step ltm (ch, ltm') \<and> length (lt_entries ltm') \<le> length (lt_entries ltm) \<and>
    (\<forall>s. length (sessionIDs (lt_index ltm') s) \<le> length (sessionIDs (lt_index ltm) s))"
proof (cases "gm_get (lt_entries ltm) k")
  case None
  then show ?thesis using f i good_step_none by (simp add: Delete_def)
next
  case (Some e)
  then have d: "ch = \<lparr>pc_upserts = [], pc_deletes = [k]\<rparr>" "ltm' = removeEntryLocked k ltm"
    using f by (simp_all add: Delete_def)
  have "good_step ltm (ch, ltm')"
    by (rule good_stepI) (simp_all add: d remove_inv i remove_entries delete_conv)
  then show ?thesis using fold_remove [OF i, of "[k]"] by (simp add: d)
qed

lemma write_facts:
  assumes i: "ltm_inv ltm" and e0: "gm_get (lt_entries ltm) k = Some e0"
    and e: "me_ID e = me_ID e0" "me_SessionID e = me_SessionID e0" and f: "writeEntry k e ltm = (b, ch, ltm')"
  shows "good_step ltm (ch, ltm') \<and> length (lt_entries ltm') = length (lt_entries ltm) \<and> lt_index ltm' = lt_index ltm"
proof -
  have d: "ch = \<lparr>pc_upserts = [cloneMemoryEntry e (me_Relevance e)], pc_deletes = []\<rparr>"
    "ltm' = ltm\<lparr>lt_entries := gm_put k e (lt_entries ltm)\<rparr>"
    using f by (simp_all add: writeEntry_def)
  have "me_ID e = k" using ltm_inv_get [OF i e0] e(1) by simp
  then have "good_step ltm (ch, ltm')"
    by (intro good_stepI) (simp_all add: d same_entries_step [OF i e0 e] gm_get_put)
  then show ?thesis using e0 by (simp add: d length_put)
qed

lemma disable_facts:
  assumes i: "ltm_inv ltm" and f: "Disable now k ltm = (b, ch, ltm')"
  shows "good_step ltm (ch, ltm') \<and> length (lt_entries ltm') = length (lt_entries ltm) \<and> lt_index ltm' = lt_index ltm"
proof (cases "gm_get (lt_entries ltm) k")
  case None
  then show ?thesis using f i good_step_none by (simp add: Disable_def)
next
  case (Some e)
  show ?thesis
    by (rule write_facts [OF i Some, where e = "e\<lparr>me_SafetyLabel := ''disabled'', me_ExpiresAt := unix_milli now, me_UpdatedAt := now\<rparr>"])
      (use f Some in \<open>simp_all add: Disable_def\<close>)
qed

lemma promoted_fields [simp]:
  "me_ID (promoted now sc sid c e) = me_ID e" "me_SessionID (promoted now sc sid c e) = me_SessionID e"
  by (simp_all add: promoted_def Let_def)

lemma promote_facts:
  assumes i: "ltm_inv ltm" and f: "Promote now k sc sid c ltm = (b, ch, ltm')"
  shows "good_step ltm (ch, ltm') \<and> length (lt_entries ltm') = length (lt_entries ltm) \<and> lt_index ltm' = lt_index ltm"
proof (cases "gm_get (lt_entries ltm) k")
  case None
  then show ?thesis using f i good_step_none by (simp add: Promote_def)
next
  case (Some e)
  show ?thesis
    by (rule write_facts [OF i Some, where e = "promoted now sc sid c e"])
      (use f Some in \<open>simp_all add: Promote_def\<close>)
qed

end
