(* ===== verification/Mem_LongTerm_Properties.thy ===== *)
theory Mem_LongTerm_Properties
  imports Mem_LongTerm_Facts
begin

text \<open>
  What the long-term memory promises over any sequence of calls: it stays well formed and within its limits,
  every call returns, the persistent store mirrors it and restores it, retrieval stays within the scopes it was
  asked for, eviction takes the least relevant entry, and one behaviour that loses memories.
\<close>

subsection \<open>Sequences of calls\<close>

datatype memory_call =
    CallStore string string string string store_options
  | CallRetrieve string int retrieve_policy
  | CallForget f64
  | CallDelete string
  | CallDisable string
  | CallPromote string string string f64

definition memoryCall :: "memory_env \<Rightarrow> gotime \<Rightarrow> memory_call \<Rightarrow> long_term \<Rightarrow> (pending_changes \<times> long_term) option" where
  "memoryCall env now call ltm =
     (case call of
        CallStore s t c src opts \<Rightarrow> map_option snd (StoreWithOptions env now s t c src opts ltm)
      | CallRetrieve q limit policy \<Rightarrow> Some (snd (RetrieveScoped env now q limit policy ltm))
      | CallForget threshold \<Rightarrow> Some (snd (Forget now threshold ltm))
      | CallDelete k \<Rightarrow> Some (snd (Delete k ltm))
      | CallDisable k \<Rightarrow> Some (snd (Disable now k ltm))
      | CallPromote k scope scopeID confidence \<Rightarrow> Some (snd (Promote now k scope scopeID confidence ltm)))"

text \<open>Each call hands its changes to the store before the next one starts, since it holds the lock.\<close>

fun memoryRun :: "memory_env \<Rightarrow> (pending_changes \<Rightarrow> 'st \<Rightarrow> 'st) \<Rightarrow> (gotime \<times> memory_call) list \<Rightarrow>
    long_term \<times> 'st \<Rightarrow> (long_term \<times> 'st) option" where
  "memoryRun env persist [] st = Some st"
| "memoryRun env persist ((now, call) # calls) (ltm, st) =
     (case memoryCall env now call ltm of
        None \<Rightarrow> None
      | Some (ch, ltm') \<Rightarrow> memoryRun env persist calls (ltm', persist ch st))"

lemma memoryCall_good:
  assumes i: "ltm_inv ltm" and env: "env_ok env"
  shows "\<exists>ch ltm'. memoryCall env now call ltm = Some (ch, ltm') \<and> good_step ltm (ch, ltm') \<and>
    (withinLimits (mv_limits env) ltm \<longrightarrow> withinLimits (mv_limits env) ltm')"
proof -
  have shrink: "withinLimits (mv_limits env) ltm \<longrightarrow> withinLimits (mv_limits env) m"
    if "length (lt_entries m) \<le> length (lt_entries ltm)"
      "\<And>s. length (sessionIDs (lt_index m) s) \<le> length (sessionIDs (lt_index ltm) s)" for m
  proof
    assume "withinLimits (mv_limits env) ltm"
    then have w: "int (length (lt_entries ltm)) \<le> ml_MaxEntries (mv_limits env)"
      and "int (length (sessionIDs (lt_index ltm) s)) \<le> ml_MaxPerSession (mv_limits env)" for s
      by (simp_all add: withinLimits_def)
    then have "int (length (sessionIDs (lt_index m) s)) \<le> ml_MaxPerSession (mv_limits env)" for s
      using order_trans [OF of_nat_mono [OF that(2) [of s]]] by blast
    then show "withinLimits (mv_limits env) m"
      using that(1) w by (simp add: withinLimits_def)
  qed
  show ?thesis
  proof (cases call)
    case (CallStore s t c src opts)
    then show ?thesis using store_facts [OF i env, of now s t c src opts] by (auto simp: memoryCall_def)
  next
    case (CallRetrieve q limit policy)
    obtain res ch m where r: "RetrieveScoped env now q limit policy ltm = (res, ch, m)" by (metis prod_cases3)
    from retrieve_facts [OF i r] shrink [of m] show ?thesis by (simp add: CallRetrieve memoryCall_def r)
  next
    case (CallForget threshold)
    obtain n ch m where r: "Forget now threshold ltm = (n, ch, m)" by (metis prod_cases3)
    from forget_facts [OF i r] shrink [of m] show ?thesis by (simp add: CallForget memoryCall_def r)
  next
    case (CallDelete k)
    obtain b ch m where r: "Delete k ltm = (b, ch, m)" by (metis prod_cases3)
    from delete_facts [OF i r] shrink [of m] show ?thesis by (simp add: CallDelete memoryCall_def r)
  next
    case (CallDisable k)
    obtain b ch m where r: "Disable now k ltm = (b, ch, m)" by (metis prod_cases3)
    from disable_facts [OF i r] shrink [of m] show ?thesis by (simp add: CallDisable memoryCall_def r)
  next
    case (CallPromote k scope scopeID confidence)
    obtain b ch m where r: "Promote now k scope scopeID confidence ltm = (b, ch, m)" by (metis prod_cases3)
    from promote_facts [OF i r] shrink [of m] show ?thesis by (simp add: CallPromote memoryCall_def r)
  qed
qed


context memory_store
begin

lemma held_persisted: "ok st \<Longrightarrow> heldBy (load (persistChangesLocked save delete ch st)) = persisted ch (heldBy (load st))"
  by (rule ext) (simp add: held_persist persisted_def)

lemma memoryRun_sound:
  assumes "env_ok env" "ltm_inv ltm" "withinLimits (mv_limits env) ltm" "ok st" "mirrors ltm (heldBy (load st))"
  shows "\<exists>ltm' st'. memoryRun env (persistChangesLocked save delete) calls (ltm, st) = Some (ltm', st') \<and>
    ltm_inv ltm' \<and> withinLimits (mv_limits env) ltm' \<and> ok st' \<and> mirrors ltm' (heldBy (load st'))"
  using assms(2-5)
proof (induction calls arbitrary: ltm st)
  case (Cons c calls)
  obtain now call where c: "c = (now, call)" by (cases c)
  from memoryCall_good [OF Cons.prems(1) assms(1), of now call] Cons.prems(2) obtain ch ltm1 where
    m: "memoryCall env now call ltm = Some (ch, ltm1)" "good_step ltm (ch, ltm1)" "withinLimits (mv_limits env) ltm1"
    by blast
  let ?st = "persistChangesLocked save delete ch st"
  have "ltm_inv ltm1" "mirrors ltm1 (heldBy (load ?st))"
    using m(2) Cons.prems(4) held_persisted [OF Cons.prems(3)] by (simp_all add: good_step_def)
  from Cons.IH [OF this(1) m(3) ok_persist [OF Cons.prems(3)] this(2)] show ?case
    by (simp add: c m(1))
qed simp

end

text \<open>Each write to the file meets the next of the given faults, and none once they are used up. A call that
  fails is only logged (the state is whatever it left behind), and a failed save does not stop the deletions.\<close>

fun nextFault :: "file_fault list \<Rightarrow> file_fault \<times> file_fault list" where
  "nextFault [] = (NoFault, [])"
| "nextFault (f # fs) = (f, fs)"

definition saveOrLog :: "memory_entry list \<Rightarrow> file_fault list \<times> file_store \<Rightarrow> file_fault list \<times> file_store" where
  "saveOrLog es = (\<lambda>(fs, s). (snd (nextFault fs), snd (fileSaveEntries (fst (nextFault fs)) es s)))"

definition deleteOrLog :: "string list \<Rightarrow> file_fault list \<times> file_store \<Rightarrow> file_fault list \<times> file_store" where
  "deleteOrLog ids = (\<lambda>(fs, s). (snd (nextFault fs), snd (fileDeleteEntries (fst (nextFault fs)) ids s)))"

definition persistToFile :: "pending_changes \<Rightarrow> file_fault list \<times> file_store \<Rightarrow> file_fault list \<times> file_store" where
  "persistToFile = persistChangesLocked saveOrLog deleteOrLog"

definition faultless :: "file_fault list \<Rightarrow> bool" where
  "faultless = list_all (\<lambda>f. f = NoFault)"

lemma nextFault_faultless: "faultless fs \<Longrightarrow> fst (nextFault fs) = NoFault \<and> faultless (snd (nextFault fs))"
  by (cases fs) (simp_all add: faultless_def)

lemma fileSave_whole: "fileOk s \<Longrightarrow> fileOk (snd (fileSaveEntries f es s))"
  using file_backend.ok_save [of s es]
  by (cases f) (simp_all add: fileSaveEntries_def writeAll_def fileOk_def fileLoadAll_def)

lemma fileDelete_whole: "fileOk s \<Longrightarrow> fileOk (snd (fileDeleteEntries f ids s))"
  using file_backend.ok_delete [of s ids]
  by (cases f) (simp_all add: fileDeleteEntries_def writeAll_def fileOk_def fileLoadAll_def)


interpretation faultless_file: memory_store "\<lambda>st. fileLoadAll (snd st)" saveOrLog deleteOrLog
  "\<lambda>st. faultless (fst st) \<and> fileOk (snd st)"
proof
  fix st :: "file_fault list \<times> file_store" and es ids k
  obtain fs s where st: "st = (fs, s)" by (cases st)
  assume "faultless (fst st) \<and> fileOk (snd st)"
  then have f: "fst (nextFault fs) = NoFault" "faultless (snd (nextFault fs))" and ok: "fileOk s"
    using nextFault_faultless [of fs] by (simp_all add: st)
  show "faultless (fst (saveOrLog es st)) \<and> fileOk (snd (saveOrLog es st))"
    by (simp add: st saveOrLog_def f fileSave_whole [OF ok])
  show "faultless (fst (deleteOrLog ids st)) \<and> fileOk (snd (deleteOrLog ids st))"
    by (simp add: st deleteOrLog_def f fileDelete_whole [OF ok])
  show "heldBy (fileLoadAll (snd (saveOrLog es st))) = upserted es (heldBy (fileLoadAll (snd st)))"
    by (simp add: st saveOrLog_def f file_backend.held_save [OF ok])
  show "heldBy (fileLoadAll (snd (deleteOrLog ids st))) k = (if k \<in> set ids then None else heldBy (fileLoadAll (snd st)) k)"
    by (simp add: st deleteOrLog_def f file_backend.held_delete [OF ok])
qed

abbreviation noFile :: file_store where
  "noFile \<equiv> \<lparr>fs_body = None, fs_tmp = None\<rparr>"

definition persistToRedis :: "string \<Rightarrow> pending_changes \<Rightarrow> redis_db \<Rightarrow> redis_db" where
  "persistToRedis p = persistChangesLocked (\<lambda>es db. snd (redisSaveEntries True p es db)) (\<lambda>ids db. snd (redisDeleteEntries True p ids db))"

definition emptyMemory :: long_term where
  "emptyMemory = \<lparr>lt_entries = [], lt_index = []\<rparr>"

lemma emptyMemory_ok: "ltm_inv emptyMemory" "env_ok env \<Longrightarrow> withinLimits (mv_limits env) emptyMemory"
  by (simp_all add: emptyMemory_def ltm_inv_def shape_ok_def shape_def sessionIDs_def withinLimits_def env_ok_def)

lemma empty_mirrored: "fileOk noFile" "mirrors emptyMemory (heldBy (fileLoadAll noFile))"
  by (simp_all add: fileOk_def fileLoadAll_def mirrors_def emptyMemory_def)

lemma faultless_run:
  assumes "env_ok env" "faultless faults"
  shows "\<exists>ltm fs s. memoryRun env persistToFile calls (emptyMemory, faults, noFile) = Some (ltm, fs, s) \<and>
    ltm_inv ltm \<and> withinLimits (mv_limits env) ltm \<and> fileOk s \<and> mirrors ltm (heldBy (fileLoadAll s))"
  using faultless_file.memoryRun_sound [OF assms(1) emptyMemory_ok(1) emptyMemory_ok(2) [OF assms(1)],
      of "(faults, noFile)" calls] assms(2) empty_mirrored
  unfolding persistToFile_def by fastforce


definition demo_env :: memory_env where
  "demo_env = \<lparr>mv_limits = \<lparr>ml_MaxEntries = 2, ml_MaxPerSession = 1\<rparr>, mv_hash8 = (\<lambda>x. ''h'' @ x), mv_lower = (\<lambda>x. x)\<rparr>"

lemma demo_env_ok: "env_ok demo_env"
  by (simp add: env_ok_def demo_env_def)


text \<open>The same over Redis, whose two scripts write and remove all the entries of one call in one go.\<close>

theorem memory_redis_mirrored:
  assumes "env_ok env"
  shows "\<exists>ltm db. memoryRun env (persistToRedis p) calls (emptyMemory, \<lparr>rd_values = [], rd_sets = []\<rparr>) = Some (ltm, db) \<and>
    ltm_inv ltm \<and> withinLimits (mv_limits env) ltm \<and> mirrors ltm (heldBy (redisLoadAll p db))"
proof -
  have "redisOk p \<lparr>rd_values = [], rd_sets = []\<rparr>" "mirrors emptyMemory (heldBy (redisLoadAll p \<lparr>rd_values = [], rd_sets = []\<rparr>))"
    by (simp_all add: redisOk_def redisLoadAll_def members_def mirrors_def emptyMemory_def)
  from redis_backend.memoryRun_sound [OF assms emptyMemory_ok(1) emptyMemory_ok(2) [OF assms] this, of calls]
  show ?thesis unfolding persistToRedis_def by blast
qed

theorem memory_redis_mirrored_witness:
  "\<exists>ltm db. memoryRun demo_env (persistToRedis ''p'') [(0, CallStore ''s'' ''fact'' ''a'' [] emptyOptions),
       (1, CallStore ''s'' ''fact'' ''b'' [] emptyOptions)] (emptyMemory, \<lparr>rd_values = [], rd_sets = []\<rparr>) = Some (ltm, db) \<and>
    ltm_inv ltm \<and> withinLimits (mv_limits demo_env) ltm \<and> mirrors ltm (heldBy (redisLoadAll ''p'' db))"
  by (rule memory_redis_mirrored [OF demo_env_ok])

subsection \<open>Retrieval\<close>

definition refMatches :: "memory_entry \<Rightarrow> scope_ref \<Rightarrow> bool" where
  "refMatches e ref \<longleftrightarrow>
     entryScope e = (if sr_Scope ref = [] then MemoryScopeSession else sr_Scope ref) \<and>
     (if trim_space (sr_ScopeID ref) \<noteq> [] then entryScopeID e = trim_space (sr_ScopeID ref)
      else entryScope e = MemoryScopeGlobal \<and> entryScopeID e = ''global'')"

lemma memoryInScope_ref: "memoryInScope e refs \<longleftrightarrow> (\<exists>ref \<in> set refs. refMatches e ref)"
proof (induction refs)
  case (Cons ref refs)
  have "memoryInScope e (ref # refs) \<longleftrightarrow> refMatches e ref \<or> memoryInScope e refs"
    by (simp only: memoryInScope.simps Let_def refMatches_def) (auto split: if_split)
  with Cons show ?case by simp
qed simp

lemma select_length: "int (length (selectCandidates env limit sets cs)) \<le> max 0 (limit - int (length sets))"
  by (induction env limit sets cs rule: selectCandidates.induct) (auto simp: Let_def)

definition alike :: "memory_env \<Rightarrow> memory_entry \<Rightarrow> memory_entry \<Rightarrow> bool" where
  "alike env a b \<longleftrightarrow> tokenOverlap (tokenSet env (me_Content a)) (tokenSet env (me_Content b)) > rnd (8 / 10)"

lemma select_unlike:
  "sorted_wrt (\<lambda>a b. \<not> alike env (sm_entry b) (sm_entry a)) (selectCandidates env limit sets cs) \<and>
   (\<forall>c \<in> set (selectCandidates env limit sets cs). \<forall>s \<in> set sets. \<not> tokenOverlap (tokenSet env (me_Content (sm_entry c))) s > rnd (8 / 10))"
proof (induction env limit sets cs rule: selectCandidates.induct)
  case (2 env limit sets cand cs)
  let ?set = "tokenSet env (me_Content (sm_entry cand))"
  show ?case
  proof (cases "int (length sets) \<ge> limit")
    case False
    show ?thesis
    proof (cases "list_ex (\<lambda>existing. tokenOverlap ?set existing > rnd (8 / 10)) sets")
      case True
      with 2(1) [OF False refl True] False show ?thesis by simp
    next
      case False': False
      note ih = 2(2) [OF False refl False']
      have "selectCandidates env limit sets (cand # cs) = cand # selectCandidates env limit (sets @ [?set]) cs"
        using False False' by (simp add: Let_def)
      then show ?thesis using ih False' by (auto simp: alike_def list_ex_iff)
    qed
  qed simp
qed simp

text \<open>C6: Retrieval restricted to scopes stays within them: whatever the query, every memory it answers is a
  stored one filed under one of the requested scopes with the requested scope identifier (an empty one
  counts only for the global scope), it has not expired unless expired ones are asked for, there are at
  most \<open>limit\<close> of them, and none is, by its tokens, a near copy of one before it.\<close>

theorem retrieval_scoped:
  assumes "RetrieveScoped env now query limit policy ltm = (res, ch, ltm')" "rp_ScopeRefs policy \<noteq> []" "0 \<le> limit"
  shows "int (length res) \<le> limit \<and> sorted_wrt (\<lambda>a b. \<not> alike env b a) res \<and>
    (\<forall>r \<in> set res. \<exists>k e. (k, e) \<in> set (lt_entries ltm) \<and> me_ID r = me_ID e \<and> me_Content r = me_Content e \<and>
       (rp_IncludeExpired policy \<or> \<not> memoryExpired now e) \<and>
       (\<exists>ref \<in> set (rp_ScopeRefs policy). refMatches e ref))"
proof (cases "lt_entries ltm = []")
  case True
  then have "res = []" using assms(1) by (simp add: RetrieveScoped_def)
  then show ?thesis using assms(3) by simp
next
  case False
  define cs where "cs = sort_slice (\<lambda>a b. sm_score a > sm_score b) (retrievalCandidates env now query policy ltm)"
  let ?sel = "selectCandidates env limit [] cs"
  have res: "res = map (\<lambda>c. used now (sm_entry c)) ?sel"
    using assms(1) False by (simp add: RetrieveScoped_def Let_def cs_def)
  have u: "alike env (used now a) (used now b) = alike env a b" for a b
    by (simp add: alike_def used_def)
  have "int (length ?sel) \<le> limit" using select_length [of env limit "[]" cs] assms(3) by simp
  moreover have "sorted_wrt (\<lambda>a b. \<not> alike env b a) res"
    unfolding res sorted_wrt_map u using select_unlike [of env limit "[]" cs] by simp
  moreover have "\<exists>k e. (k, e) \<in> set (lt_entries ltm) \<and> me_ID (used now (sm_entry c)) = me_ID e \<and>
      me_Content (used now (sm_entry c)) = me_Content e \<and> (rp_IncludeExpired policy \<or> \<not> memoryExpired now e) \<and>
      (\<exists>ref \<in> set (rp_ScopeRefs policy). refMatches e ref)" if c: "c \<in> set ?sel" for c
  proof -
    have "c \<in> set (retrievalCandidates env now query policy ltm)"
      using c select_sub unfolding cs_def by (metis set_sort_slice subsetD)
    from candidate_props [OF this] obtain e where e: "(sm_id c, e) \<in> set (lt_entries ltm)" "retrievable now policy e"
        "sm_entry c = cloneMemoryEntry e (computeRelevance now e)"
      by blast
    have "rp_IncludeExpired policy \<or> \<not> memoryExpired now e" "memoryInScope e (rp_ScopeRefs policy)"
      using e(2) assms(2) unfolding retrievable_def by blast+
    then show ?thesis
      using e(1,3) unfolding memoryInScope_ref by (intro exI [of _ "sm_id c"] exI [of _ e]) (simp add: used_def)
  qed
  ultimately show ?thesis
    unfolding res by (simp add: used_def)
qed

definition demo_entry :: memory_entry where
  "demo_entry = \<lparr>me_ID = ''k'', me_SessionID = ''s'', me_Type = ''fact'', me_Content = ''port 8080'', me_Source = [],
     me_Scope = ''session'', me_ScopeID = ''s'', me_Confidence = 1 / 2, me_SafetyLabel = ''superseded'', me_Provenance = [],
     me_ConflictGroup = ''port'', me_ExpiresAt = 5, me_Relevance = 1, me_AccessCnt = 1, me_CreatedAt = 0,
     me_UpdatedAt = 5000000, me_LastUsed = 0\<rparr>"

definition demo_memory :: long_term where
  "demo_memory = \<lparr>lt_entries = [(''k'', demo_entry)], lt_index = [(''s'', [''k''])]\<rparr>"

lemma demo_memory_inv: "ltm_inv demo_memory"
  by (simp add: ltm_inv_def demo_memory_def shape_ok_def shape_def demo_entry_def sessionIDs_def gm_ok_def)

theorem retrieval_scoped_witness:
  "\<exists>res. res = fst (RetrieveScoped demo_env 0 ''port'' 1
      \<lparr>rp_IncludeExpired = False, rp_ReadOnly = True, rp_ScopeRefs = [\<lparr>sr_Scope = ''session'', sr_ScopeID = ''s''\<rparr>]\<rparr> demo_memory) \<and>
    int (length res) \<le> 1 \<and> sorted_wrt (\<lambda>a b. \<not> alike demo_env b a) res"
proof -
  let ?p = "\<lparr>rp_IncludeExpired = False, rp_ReadOnly = True, rp_ScopeRefs = [\<lparr>sr_Scope = ''session'', sr_ScopeID = ''s''\<rparr>]\<rparr>"
  obtain res ch m where r: "RetrieveScoped demo_env 0 ''port'' 1 ?p demo_memory = (res, ch, m)" by (metis prod_cases3)
  from retrieval_scoped [OF r] r show ?thesis by auto
qed

subsection \<open>Eviction\<close>

text \<open>The comparison on stored identifiers: by relevance, then by last use.\<close>

definition evictOrder :: "gotime \<Rightarrow> (string, memory_entry) gomap \<Rightarrow> string \<Rightarrow> string \<Rightarrow> bool" where
  "evictOrder now es i j \<longleftrightarrow>
     (let a = the (gm_get es i); b = the (gm_get es j)
      in computeRelevance now a < computeRelevance now b \<or>
         (computeRelevance now a = computeRelevance now b \<and> me_LastUsed a < me_LastUsed b))"

lemma evictOrder_weak: "weak_order (evictOrder now es)"
  unfolding weak_order_def evictOrder_def Let_def by (intro conjI allI impI) linarith+

lemma evictLess_order:
  "gm_get es i \<noteq> None \<Longrightarrow> gm_get es j \<noteq> None \<Longrightarrow> evictLess now es i j = evictOrder now es i j"
  by (auto simp: evictLess_def evictOrder_def Let_def)

lemma insert_by_cong: "(\<And>y. y \<in> set ys \<Longrightarrow> lt y x = lt' y x) \<Longrightarrow> insert_by lt x ys = insert_by lt' x ys"
proof (induction ys)
  case (Cons y ys)
  have "insert_by lt x ys = insert_by lt' x ys" by (rule Cons.IH) (rule Cons.prems, simp)
  moreover have "lt y x = lt' y x" by (rule Cons.prems) simp
  ultimately show ?case by simp
qed simp

lemma sort_slice_cong:
  "(\<And>x y. x \<in> set xs \<Longrightarrow> y \<in> set xs \<Longrightarrow> lt x y = lt' x y) \<Longrightarrow> sort_slice lt xs = sort_slice lt' xs"
proof (induction xs)
  case (Cons x xs)
  have ih: "sort_slice lt xs = sort_slice lt' xs" by (rule Cons.IH) (rule Cons.prems, simp_all)
  show ?case
    unfolding sort_slice_Cons ih by (rule insert_by_cong) (rule Cons.prems, simp_all)
qed simp

text \<open>What is evicted is the least relevant: of the candidates, all of them stored, the entry that goes has
  no greater relevance than any other, and among those of its relevance it is the one least recently used.
  Exactly that entry leaves the memory.\<close>

theorem eviction_least_relevant:
  assumes "ltm_inv ltm" "ids \<noteq> []" "\<And>i. i \<in> set ids \<Longrightarrow> gm_get (lt_entries ltm) i \<noteq> None"
    and "evictOneLocked now ids ltm = (k, ltm')"
  shows "k \<in> set ids \<and> lt_entries ltm' = gm_del k (lt_entries ltm) \<and>
    (\<forall>i \<in> set ids. computeRelevance now (the (gm_get (lt_entries ltm) k)) < computeRelevance now (the (gm_get (lt_entries ltm) i)) \<or>
       (computeRelevance now (the (gm_get (lt_entries ltm) k)) = computeRelevance now (the (gm_get (lt_entries ltm) i)) \<and>
        me_LastUsed (the (gm_get (lt_entries ltm) k)) \<le> me_LastUsed (the (gm_get (lt_entries ltm) i))))"
proof -
  let ?es = "lt_entries ltm"
  have k: "k = hd (sort_slice (evictLess now ?es) ids)" "ltm' = removeEntryLocked k ltm"
    using assms(2,4) by (auto simp: evictOneLocked_def Let_def)
  have s: "sort_slice (evictLess now ?es) ids = sort_slice (evictOrder now ?es) ids"
    by (rule sort_slice_cong) (rule evictLess_order [OF assms(3) assms(3)])
  have kin: "k \<in> set ids" unfolding k(1) by (rule evicted_in [OF assms(2)])
  have "\<not> evictOrder now ?es i k" if "i \<in> set ids" for i
    unfolding k(1) s by (rule sort_slice_min [OF evictOrder_weak that])
  then have "computeRelevance now (the (gm_get ?es k)) < computeRelevance now (the (gm_get ?es i)) \<or>
      (computeRelevance now (the (gm_get ?es k)) = computeRelevance now (the (gm_get ?es i)) \<and>
       me_LastUsed (the (gm_get ?es k)) \<le> me_LastUsed (the (gm_get ?es i)))" if "i \<in> set ids" for i
    using that unfolding evictOrder_def Let_def by (meson linorder_not_less linorder_neqE)
  then show ?thesis using kin by (simp add: k(2) remove_entries)
qed

theorem eviction_least_relevant_witness:
  "\<exists>ltm'. evictOneLocked 0 [''k''] demo_memory = (''k'', ltm') \<and> lt_entries ltm' = []"
proof -
  obtain k ltm' where e: "evictOneLocked 0 [''k''] demo_memory = (k, ltm')" by (cases "evictOneLocked 0 [''k''] demo_memory")
  have "k \<in> set [''k''] \<and> lt_entries ltm' = gm_del k (lt_entries demo_memory)"
    using eviction_least_relevant [OF demo_memory_inv _ _ e] by (simp add: demo_memory_def)
  then show ?thesis using e by (simp add: demo_memory_def)
qed

subsection \<open>Storing a superseded memory again\<close>

lemma unix_milli_mono: "t \<le> t' \<Longrightarrow> unix_milli t \<le> unix_milli t'"
  by (simp add: unix_milli_def zdiv_mono1)

lemma expired_later: "memoryExpired now e \<Longrightarrow> now \<le> now' \<Longrightarrow> memoryExpired now' e"
  using unix_milli_mono [of now now'] by (simp add: memoryExpired_def)

lemma expired_hidden:
  assumes i: "ltm_inv ltm" and e: "gm_get (lt_entries ltm) k = Some e" "memoryExpired now e" and p: "\<not> rp_IncludeExpired policy"
  shows "k \<notin> me_ID ` set (fst (RetrieveScoped env now query limit policy ltm))"
proof
  assume "k \<in> me_ID ` set (fst (RetrieveScoped env now query limit policy ltm))"
  then obtain c where c: "c \<in> set (retrievalCandidates env now query policy ltm)" "me_ID (sm_entry c) = k"
    using select_sub by (fastforce simp: RetrieveScoped_def Let_def split: if_splits)
  from candidate_props [OF c(1)] obtain e' where e': "(sm_id c, e') \<in> set (lt_entries ltm)"
      "retrievable now policy e'" "sm_entry c = cloneMemoryEntry e' (computeRelevance now e')" by blast
  have "sm_id c = k" using ltm_inv_keyed [OF i e'(1)] c(2) e'(3) by simp
  then have "gm_get (lt_entries ltm) k = Some e'" using gm_in_get e'(1) i by (auto simp: ltm_inv_def)
  then show False using e e'(2) p by (simp add: retrievable_def)
qed

text \<open>C36: A memory that was superseded cannot be made current again. When a text is stored whose entry is already
  there and has expired, as it has once a memory of the same conflict group replaced it, and no expiry is given,
  as the extractor gives none, the entry is reinforced but keeps its old expiry; and it retires every other
  memory of its group. From then on neither it nor the memory it replaces is retrieved: stating a fact,
  its correction and the fact again leaves the memory knowing neither.\<close>

theorem restated_memory_hidden:
  fixes opts0 :: store_options
  assumes "ltm_inv ltm" "gm_get (lt_entries ltm) k = Some ex" "memoryExpired now ex" "so_ExpiresAt opts0 \<le> 0"
    and "opts = normalizeMemoryStoreOptions s t src opts0"
    and "k = generateMemoryID (mv_hash8 env) (so_Scope opts) (so_ScopeID opts) c"
  shows "\<exists>ch ltm'. StoreWithOptions env now s t c src opts0 ltm = Some (k, ch, ltm') \<and>
    (\<forall>k' e' now' query limit policy.
       gm_get (lt_entries ltm) k' = Some e' \<and> (k' = k \<or> so_ConflictGroup opts \<noteq> [] \<and> retires k t opts k' e') \<and>
       now \<le> now' \<and> \<not> rp_IncludeExpired policy \<longrightarrow>
       k' \<notin> me_ID ` set (fst (RetrieveScoped env now' query limit policy ltm')))"
proof -
  let ?e = "reinforced now opts ex"
  obtain es rs where r: "retireConflictingMemoriesLocked now k t opts (gm_put k ?e (lt_entries ltm)) = (es, rs)"
    by (cases "retireConflictingMemoriesLocked now k t opts (gm_put k ?e (lt_entries ltm))") auto
  let ?ch = "\<lparr>pc_upserts = cloneMemoryEntry ?e (me_Relevance ?e) # rs, pc_deletes = []\<rparr>"
  let ?l = "ltm\<lparr>lt_entries := es\<rparr>"
  have st: "StoreWithOptions env now s t c src opts0 ltm = Some (k, ?ch, ?l)"
    using assms(2) r by (simp add: StoreWithOptions_def Let_def assms(5,6) [symmetric])
  have inv: "ltm_inv ?l"
    using store_existing [OF assms(1,2) r] by (simp add: good_step_def)
  have es: "es = gm_map (retiredIn now k t opts) (gm_put k ?e (lt_entries ltm))"
    using retire_entries [of now k t opts "gm_put k ?e (lt_entries ltm)"] r by simp
  have x: "0 < me_ExpiresAt ex" "me_ExpiresAt ex \<le> unix_milli now"
    using assms(3) by (simp_all add: memoryExpired_def)
  have "so_ExpiresAt opts \<le> 0" using assms(4,5) by (simp add: normalizeMemoryStoreOptions_def Let_def)
  then have ek: "memoryExpired now ?e"
    using assms(3) by (simp add: reinforced_def Let_def memoryExpired_def)
  have "k' \<notin> me_ID ` set (fst (RetrieveScoped env now' query limit policy ?l))"
    if a: "gm_get (lt_entries ltm) k' = Some e'" "k' = k \<or> so_ConflictGroup opts \<noteq> [] \<and> retires k t opts k' e'"
      "now \<le> now'" "\<not> rp_IncludeExpired policy" for k' e' now' query limit policy
  proof (cases "k' = k")
    case True
    have "gm_get (lt_entries ?l) k = Some ?e" by (simp add: es gm_get_map gm_get_put)
    from expired_hidden [OF inv this expired_later [OF ek a(3)] a(4)] True show ?thesis by simp
  next
    case False
    have "gm_get (lt_entries ?l) k' = Some (retired now e')"
      using False a(1,2) by (simp add: es gm_get_map gm_get_put retiredIn_def)
    moreover have "memoryExpired now (retired now e')" using x by (simp add: memoryExpired_def)
    ultimately show ?thesis using expired_hidden [OF inv] expired_later [OF _ a(3)] a(4) by blast
  qed
  with st show ?thesis by (intro exI [of _ ?ch] exI [of _ ?l]) blast
qed

definition demo_corrected :: long_term where
  "demo_corrected = \<lparr>lt_entries = [(''k'', demo_entry), (''m'', demo_entry\<lparr>me_ID := ''m'', me_Content := ''port 9090'', me_ExpiresAt := 0\<rparr>)],
     lt_index = [(''s'', [''k'', ''m''])]\<rparr>"

lemma demo_corrected_inv: "ltm_inv demo_corrected"
proof -
  have sh: "shape (lt_entries demo_corrected) k =
      (if k = ''k'' then Some (''k'', ''s'') else if k = ''m'' then Some (''m'', ''s'') else None)" for k
    by (simp add: shape_def demo_corrected_def demo_entry_def)
  have ids: "sessionIDs (lt_index demo_corrected) s = (if s = ''s'' then [''k'', ''m''] else [])" for s
    by (simp add: sessionIDs_def demo_corrected_def)
  have "gm_ok (lt_entries demo_corrected)" "gm_ok (lt_index demo_corrected)"
    by (simp_all add: demo_corrected_def gm_ok_def)
  moreover have "shape_ok (shape (lt_entries demo_corrected)) (lt_index demo_corrected)"
    unfolding shape_ok_def sh ids by (simp split: if_split)
  ultimately show ?thesis by (simp add: ltm_inv_def)
qed

definition demo_hash_env :: memory_env where
  "demo_hash_env = demo_env\<lparr>mv_hash8 := (\<lambda>x. if x = ''session:s:port 8080'' then ''k'' else ''m'')\<rparr>"

theorem restated_memory_hidden_witness:
  "\<exists>ch ltm'. StoreWithOptions demo_hash_env 6000000 ''s'' ''fact'' ''port 8080'' [] (emptyOptions\<lparr>so_ConflictGroup := ''port''\<rparr>)
      demo_corrected = Some (''k'', ch, ltm') \<and>
    ''k'' \<notin> me_ID ` set (fst (RetrieveScoped demo_hash_env 6000000 ''port'' 5
        \<lparr>rp_IncludeExpired = False, rp_ReadOnly = True, rp_ScopeRefs = []\<rparr> ltm')) \<and>
    ''m'' \<notin> me_ID ` set (fst (RetrieveScoped demo_hash_env 6000000 ''port'' 5
        \<lparr>rp_IncludeExpired = False, rp_ReadOnly = True, rp_ScopeRefs = []\<rparr> ltm'))"
proof -
  let ?o = "emptyOptions\<lparr>so_ConflictGroup := ''port''\<rparr>"
  let ?on = "normalizeMemoryStoreOptions ''s'' ''fact'' [] ?o"
  let ?p = "\<lparr>rp_IncludeExpired = False, rp_ReadOnly = True, rp_ScopeRefs = []\<rparr>"
  let ?m = "demo_entry\<lparr>me_ID := ''m'', me_Content := ''port 9090'', me_ExpiresAt := 0\<rparr>"
  have on: "so_Scope ?on = ''session''" "so_ScopeID ?on = ''s''" "so_ConflictGroup ?on = ''port''"
    by code_simp+
  note inv = demo_corrected_inv
  have k: "gm_get (lt_entries demo_corrected) ''k'' = Some demo_entry" "gm_get (lt_entries demo_corrected) ''m'' = Some ?m"
    by (simp_all add: demo_corrected_def)
  have ex: "memoryExpired 6000000 demo_entry" "so_ExpiresAt ?o \<le> 0"
    by (simp_all add: memoryExpired_def unix_milli_def demo_entry_def emptyOptions_def)
  have id: "''k'' = generateMemoryID (mv_hash8 demo_hash_env) (so_Scope ?on) (so_ScopeID ?on) ''port 8080''"
    by (simp add: generateMemoryID_def demo_hash_env_def on)
  have rt: "retires ''k'' ''fact'' ?on ''m'' ?m"
    by (simp add: retires_def on demo_entry_def)
  from restated_memory_hidden [OF inv k(1) ex refl id] obtain ch ltm' where
    st: "StoreWithOptions demo_hash_env 6000000 ''s'' ''fact'' ''port 8080'' [] ?o demo_corrected = Some (''k'', ch, ltm')" and
    h: "\<forall>k' e' now' query limit policy.
       gm_get (lt_entries demo_corrected) k' = Some e' \<and>
       (k' = ''k'' \<or> so_ConflictGroup ?on \<noteq> [] \<and> retires ''k'' ''fact'' ?on k' e') \<and>
       6000000 \<le> now' \<and> \<not> rp_IncludeExpired policy \<longrightarrow>
       k' \<notin> me_ID ` set (fst (RetrieveScoped demo_hash_env now' query limit policy ltm'))"
    by (elim exE conjE) (rule that)
  note h' = h [THEN spec, THEN spec, THEN spec [of _ 6000000], THEN spec [of _ "''port''"], THEN spec [of _ 5],
      THEN spec [of _ ?p], THEN mp]
  have "so_ConflictGroup ?on \<noteq> []" unfolding on by simp
  then have "''m'' \<notin> me_ID ` set (fst (RetrieveScoped demo_hash_env 6000000 ''port'' 5 ?p ltm'))"
    by (intro h' [of "''m''" ?m] conjI k(2) disjI2 rt) simp_all
  moreover have "''k'' \<notin> me_ID ` set (fst (RetrieveScoped demo_hash_env 6000000 ''port'' 5 ?p ltm'))"
    by (intro h' [of "''k''" demo_entry] conjI k(1) disjI1 refl) simp_all
  ultimately show ?thesis using st by (intro exI [of _ ch] exI [of _ ltm'] conjI)
qed

subsection \<open>Restarting\<close>

definition loadedForm :: "memory_entry \<Rightarrow> memory_entry" where
  "loadedForm e =
     (let c = cloneMemoryEntry e (me_Relevance e)
      in if me_SessionID c = [] then c\<lparr>me_SessionID := me_ScopeID c\<rparr> else c)"

lemma loadedForm_fields [simp]:
  "me_ID (loadedForm e) = me_ID e" "me_Type (loadedForm e) = me_Type e" "me_Content (loadedForm e) = me_Content e"
  "me_Scope (loadedForm e) = entryScope e" "me_ExpiresAt (loadedForm e) = me_ExpiresAt e"
  "me_ConflictGroup (loadedForm e) = me_ConflictGroup e" "me_AccessCnt (loadedForm e) = me_AccessCnt e"
  "me_LastUsed (loadedForm e) = me_LastUsed e"
  "me_SessionID e \<noteq> [] \<Longrightarrow> me_SessionID (loadedForm e) = me_SessionID e"
  by (simp_all add: loadedForm_def Let_def)

lemma shape_ok_unlisted:
  assumes so: "shape_ok sh index" and no: "sh k = None" and k: "k \<noteq> []"
  shows "shape_ok (sh(k \<mapsto> (k, []))) index"
  unfolding shape_ok_def
proof (intro conjI allI impI)
  fix k' i s'
  assume "(sh(k \<mapsto> (k, []))) k' = Some (i, s')"
  then have "k' = k \<and> i = k \<and> s' = [] \<or> sh k' = Some (i, s')" by (auto split: if_splits)
  then show "i = k'" "k' \<noteq> []" and "s' \<noteq> [] \<Longrightarrow> k' \<in> set (sessionIDs index s')"
    using shape_okD(1) [OF so, of k' i s'] k by auto
next
  fix s' k'
  assume "k' \<in> set (sessionIDs index s')"
  with shape_okD(3) [OF so this] no show "(sh(k \<mapsto> (k, []))) k' = Some (k', s')" by auto
qed (rule shape_okD(2) [OF so])

lemma load_step:
  assumes i: "ltm_inv ltm" and k: "me_ID e \<noteq> []" "gm_get (lt_entries ltm) (me_ID e) = None"
  shows "ltm_inv (addLoadedEntryLocked hash8 e ltm)"
    and "lt_entries (addLoadedEntryLocked hash8 e ltm) = gm_put (me_ID e) (loadedForm e) (lt_entries ltm)"
proof -
  let ?k = "me_ID e" and ?s = "me_SessionID (loadedForm e)"
  let ?ids = "sessionIDs (lt_index ltm) ?s"
  have nl: "?k \<notin> set (sessionIDs (lt_index ltm) s)" for s using ltm_inv_listed [OF i, of ?k s] k(2) by auto
  have st: "addLoadedEntryLocked hash8 e ltm =
      \<lparr>lt_entries = gm_put ?k (loadedForm e) (lt_entries ltm),
       lt_index = (if ?s \<noteq> [] then gm_put ?s (?ids @ [?k]) (lt_index ltm) else lt_index ltm)\<rparr>"
    using k(1) nl by (simp add: addLoadedEntryLocked_def Let_def loadedForm_def containsString_def)
  then show "lt_entries (addLoadedEntryLocked hash8 e ltm) = gm_put ?k (loadedForm e) (lt_entries ltm)" by simp
  have so: "shape_ok (shape (lt_entries ltm)) (lt_index ltm)" and ok: "gm_ok (lt_entries ltm)" "gm_ok (lt_index ltm)"
    using i by (simp_all add: ltm_inv_def)
  have no: "shape (lt_entries ltm) ?k = None" using k(2) by (simp add: shape_def)
  have "shape_ok ((shape (lt_entries ltm))(?k \<mapsto> (?k, ?s))) (if ?s \<noteq> [] then gm_put ?s (?ids @ [?k]) (lt_index ltm) else lt_index ltm)"
    using shape_ok_add [OF so nl k(1), of ?s] shape_ok_unlisted [OF so no k(1)] by (cases "?s = []") simp_all
  then show "ltm_inv (addLoadedEntryLocked hash8 e ltm)"
    unfolding ltm_inv_def st using ok by (simp add: shape_put)
qed

lemma load_facts:
  "ltm_inv ltm \<Longrightarrow> distinct (map me_ID es) \<Longrightarrow> \<forall>e \<in> set es. me_ID e \<noteq> [] \<and> gm_get (lt_entries ltm) (me_ID e) = None \<Longrightarrow>
     ltm_inv (fold (addLoadedEntryLocked hash8) es ltm) \<and>
     (\<forall>k. gm_get (lt_entries (fold (addLoadedEntryLocked hash8) es ltm)) k =
            (case heldBy es k of Some e \<Rightarrow> Some (loadedForm e) | None \<Rightarrow> gm_get (lt_entries ltm) k))"
proof (induction es arbitrary: ltm)
  case Nil
  then show ?case by simp
next
  case (Cons e es)
  let ?l = "addLoadedEntryLocked hash8 e ltm"
  have k: "me_ID e \<noteq> []" "gm_get (lt_entries ltm) (me_ID e) = None" using Cons.prems(3) by simp_all
  note s = load_step [OF Cons.prems(1) k, of hash8]
  have n: "me_ID e \<notin> me_ID ` set es" using Cons.prems(2) by simp
  have "\<forall>x \<in> set es. me_ID x \<noteq> [] \<and> gm_get (lt_entries ?l) (me_ID x) = None"
  proof
    fix x assume x: "x \<in> set es"
    then have "me_ID x \<noteq> me_ID e" using n imageI [OF x, of me_ID] by metis
    then show "me_ID x \<noteq> [] \<and> gm_get (lt_entries ?l) (me_ID x) = None"
      using Cons.prems(3) x by (simp add: s(2) gm_get_put)
  qed
  from Cons.IH [OF s(1) _ this] Cons.prems(2)
  have ih: "ltm_inv (fold (addLoadedEntryLocked hash8) es ?l)"
    "\<And>k. gm_get (lt_entries (fold (addLoadedEntryLocked hash8) es ?l)) k =
       (case heldBy es k of Some e \<Rightarrow> Some (loadedForm e) | None \<Rightarrow> gm_get (lt_entries ?l) k)"
    by simp_all
  show ?case
    unfolding fold_Cons comp_apply ih(2) using ih(1) heldBy_None [OF n] by (auto simp: s(2) gm_get_put split: option.split)
qed

text \<open>What every reader is shown of an entry is a copy with the defaults filled in; the scope identifier is
  trimmed, and a session identifier used in its place is trimmed when the copy is read back.\<close>

definition shownScopeID :: "memory_entry \<Rightarrow> string" where
  "shownScopeID e = (if trim_space (entryScopeID e) = [] then entryScopeID e else trim_space (entryScopeID e))"

definition sameMemory :: "memory_entry \<Rightarrow> memory_entry \<Rightarrow> bool" where
  "sameMemory e e' \<longleftrightarrow>
     (let c = cloneMemoryEntry e 0
      in me_ID e' = me_ID e \<and> me_Type e' = me_Type e \<and> me_Content e' = me_Content e \<and> me_Source e' = me_Source e \<and>
         me_Scope e' = me_Scope c \<and> me_ScopeID e' = shownScopeID e \<and>
         me_Confidence e' = me_Confidence c \<and> me_SafetyLabel e' = me_SafetyLabel c \<and> me_Provenance e' = me_Provenance c \<and>
         me_ConflictGroup e' = me_ConflictGroup e \<and> me_ExpiresAt e' = me_ExpiresAt e \<and> me_AccessCnt e' = me_AccessCnt e \<and>
         me_CreatedAt e' = me_CreatedAt e \<and> me_UpdatedAt e' = me_UpdatedAt e \<and> me_LastUsed e' = me_LastUsed e \<and>
         (\<forall>now. computeRelevance now e' = computeRelevance now e) \<and>
         (me_SessionID e \<noteq> [] \<longrightarrow> me_SessionID e' = me_SessionID e))"

lemma defaultConfidence_pos: "\<not> defaultMemoryConfidence t \<le> 0"
proof -
  have "\<not> rnd (85 / 100) \<le> 0" "\<not> rnd (75 / 100) \<le> 0" "\<not> rnd (70 / 100) \<le> 0" "\<not> rnd (50 / 100) \<le> 0" by code_simp+
  then show ?thesis by (simp add: defaultMemoryConfidence_def)
qed

lemma clone_origin [simp]:
  "me_Source (cloneMemoryEntry e r) = me_Source e" "me_CreatedAt (cloneMemoryEntry e r) = me_CreatedAt e"
  by (simp_all add: cloneMemoryEntry_def Let_def)

lemma clone_twice:
  "me_Confidence (cloneMemoryEntry (cloneMemoryEntry e r) r') = me_Confidence (cloneMemoryEntry e r)"
  "me_SafetyLabel (cloneMemoryEntry (cloneMemoryEntry e r) r') = me_SafetyLabel (cloneMemoryEntry e r)"
  "me_Provenance (cloneMemoryEntry (cloneMemoryEntry e r) r') = me_Provenance (cloneMemoryEntry e r)"
  by (simp_all add: cloneMemoryEntry_def Let_def defaultConfidence_pos)

lemma trim_global [simp]: "trim_space ''global'' = ''global''"
  by code_simp

lemma entryScopeID_clone: "entryScopeID (cloneMemoryEntry e r) = shownScopeID e"
proof (cases "trim_space (entryScopeID e) = []")
  case True
  then have "entryScopeID e = me_SessionID e \<and> entryScope e \<noteq> MemoryScopeGlobal"
    by (auto simp: entryScopeID_def split: if_splits)
  with True show ?thesis by (simp add: entryScopeID_def [of "cloneMemoryEntry e r"] shownScopeID_def)
qed (simp add: entryScopeID_def [of "cloneMemoryEntry e r"] shownScopeID_def)

lemma sameMemory_loaded:
  assumes u: "unranked u = cloneMemoryEntry e 0"
  shows "sameMemory e (loadedForm u)"
proof -
  have c: "cloneMemoryEntry u r = cloneMemoryEntry (cloneMemoryEntry e 0) r" for r
    unfolding u [symmetric] unranked_def by simp
  have "loadedForm u = (let c = cloneMemoryEntry (cloneMemoryEntry e 0) (me_Relevance u)
      in if me_SessionID c = [] then c\<lparr>me_SessionID := me_ScopeID c\<rparr> else c)"
    by (simp only: loadedForm_def c)
  then show ?thesis
    unfolding sameMemory_def Let_def
    by (simp add: clone_twice entryScopeID_clone computeRelevance_def)
qed

text \<open>C29: A restart loses nothing, as long as no write of the file failed and what is written as JSON is read back
  as it was written: after any sequence of calls over a file, a new memory built from what the file holds is
  sound and has exactly the same identifiers, each with the same type, text, source, expiry, conflict group,
  access count and times, the scope, scope identifier, confidence, safety label and provenance it was shown
  with (defaults filled in, the scope identifier trimmed), at every time the same relevance, and the same
  session where it has one.\<close>

theorem memory_restart:
  assumes "env_ok env" "faultless faults"
    and "memoryRun env persistToFile calls (emptyMemory, faults, noFile) = Some (ltm, fs, s)"
    and "ltm' = NewLongTermMemoryWithStore (mv_hash8 env) (Some (fileLoadAll s))"
  shows "ltm_inv ltm' \<and> (\<forall>k. rel_option sameMemory (gm_get (lt_entries ltm) k) (gm_get (lt_entries ltm') k))"
proof -
  have r: "ltm_inv ltm" "fileOk s" "mirrors ltm (heldBy (fileLoadAll s))"
    using faultless_run [OF assms(1,2), of calls] assms(3) by simp_all
  let ?es = "fileLoadAll s"
  have d: "distinct (map me_ID ?es)" using r(2) by (simp add: fileOk_def)
  have h: "heldBy ?es (me_ID u) = Some u" if "u \<in> set ?es" for u
    using that d by (induction ?es) (auto simp: heldBy_def map_of_eq_Some_iff comp_def)
  have ne: "me_ID u \<noteq> []" if "u \<in> set ?es" for u
  proof -
    have "gm_get (lt_entries ltm) (me_ID u) \<noteq> None" using r(3) [unfolded mirrors_def, THEN spec, of "me_ID u"] h [OF that]
      by (cases "gm_get (lt_entries ltm) (me_ID u)") simp_all
    then show ?thesis using ltm_inv_get [OF r(1)] by blast
  qed
  have "ltm_inv ltm'" and g: "gm_get (lt_entries ltm') k = map_option loadedForm (heldBy ?es k)" for k
    using load_facts [OF emptyMemory_ok(1) d, of "mv_hash8 env"] ne
    by (simp_all add: assms(4) NewLongTermMemoryWithStore_def emptyMemory_def map_option_case split: option.split)
  moreover have "rel_option sameMemory (gm_get (lt_entries ltm) k) (gm_get (lt_entries ltm') k)" for k
  proof -
    have m: "map_option unranked (heldBy ?es k) = map_option (\<lambda>e. cloneMemoryEntry e 0) (gm_get (lt_entries ltm) k)"
      using r(3) by (simp add: mirrors_def)
    show ?thesis
      using m by (cases "gm_get (lt_entries ltm) k"; cases "heldBy ?es k") (simp_all add: g sameMemory_loaded)
  qed
  ultimately show ?thesis by blast
qed

theorem memory_restart_witness:
  "\<exists>ltm fs s. memoryRun demo_env persistToFile [(0, CallStore ''s'' ''fact'' ''a'' [] emptyOptions)]
       (emptyMemory, [], noFile) = Some (ltm, fs, s) \<and>
    ltm_inv (NewLongTermMemoryWithStore (mv_hash8 demo_env) (Some (fileLoadAll s)))"
proof -
  have f: "faultless []" by (simp add: faultless_def)
  obtain ltm fs s where "memoryRun demo_env persistToFile [(0, CallStore ''s'' ''fact'' ''a'' [] emptyOptions)]
       (emptyMemory, [], noFile) = Some (ltm, fs, s)"
    using faultless_run [OF demo_env_ok f, of "[(0, CallStore ''s'' ''fact'' ''a'' [] emptyOptions)]"] by blast
  with memory_restart [OF demo_env_ok f this refl] show ?thesis by blast
qed

end
