(* ===== verification/Ctx_Assemble_Properties.thy ===== *)
theory Ctx_Assemble_Properties
  imports Ctx_Assemble Ctx_Compress_Properties Ctx_Recall_Properties Ctx_Select_Properties Mem_LongTerm_Properties
begin

text \<open>
  What an assembled context promises, end to end: which memories can be in it, whose they are and what they cost, that
  its trace accounts for what happened, and two mechanisms that have no effect: the freshness of memories and the
  reranking of tool results.
\<close>

subsection \<open>Profiles\<close>

lemma shareOf_nonneg: "0 \<le> n \<Longrightarrow> 0 \<le> s \<Longrightarrow> 0 \<le> shareOf n s"
  by (simp add: shareOf_def f64_of_int_def f64_to_int_nonneg fmul_nonneg rnd_nonneg)

lemma budget_nonneg:
  "0 \<le> tb_MaxTokens (GetTokenBudget c)" "0 \<le> tb_MemoryReserve (GetTokenBudget c)" "0 \<le> tb_HistoryReserve (GetTokenBudget c)"
  "0 \<le> tb_DocumentReserve (GetTokenBudget c)"
  by (auto simp: GetTokenBudget_def Let_def split: option.splits intro!: shareOf_nonneg)

definition soundBudget :: "context_profile \<Rightarrow> bool" where
  "soundBudget p \<longleftrightarrow> 0 \<le> cb_MemoryTokens (cf_Budget p) \<and> 0 \<le> cb_HistoryTokens (cf_Budget p) \<and>
     0 \<le> cb_DocumentTokens (cf_Budget p) \<and> 0 \<le> cb_ToolTokens (cf_Budget p) \<and> 0 < cf_MaxMemoryItems p"

lemma loadPositiveInt_pos: "0 < d \<Longrightarrow> 0 < loadPositiveInt v d"
  by (simp add: loadPositiveInt_def split: option.split)

lemma Resolve_sound: "soundBudget (Resolve s req)"
  using budget_nonneg shareOf_nonneg [OF budget_nonneg(1)]
  by (simp add: soundBudget_def Resolve_def Let_def baseProfile_def baseBudget_def loadPositiveInt_pos)

lemma chooseProfile_sound:
  assumes "chooseProfile env req = (profile, trace)"
  shows "soundBudget profile \<and> ax_Profile trace = cf_Name profile \<and> ax_Stages trace = [] \<and> ax_SourcesSelected trace = 0 \<and>
    ax_DroppedItems trace = [] \<and> ax_BudgetAfter trace = emptyBudget"
  using assms Resolve_sound
  by (auto simp: chooseProfile_def startTrace_def ResolveByProfile_def Let_def split: option.splits prod.splits if_splits)

subsection \<open>The stages\<close>

lemma memoryStage_keeps [simp]:
  "pk_Request (memoryStage env ltm pkg) = pk_Request pkg" "pk_Profile (memoryStage env ltm pkg) = pk_Profile pkg"
  "pk_ToolItems (memoryStage env ltm pkg) = pk_ToolItems pkg"
  by (simp_all add: memoryStage_def Let_def split: prod.split)

lemma cmdbStage_keeps [simp]:
  "pk_Request (cmdbStage env pkg) = pk_Request pkg" "pk_Profile (cmdbStage env pkg) = pk_Profile pkg"
  "pk_MemoryItems (cmdbStage env pkg) = pk_MemoryItems pkg" "pk_ToolItems (cmdbStage env pkg) = pk_ToolItems pkg"
  by (simp_all add: cmdbStage_def Let_def split: option.split)

lemma documentStage_keeps [simp]:
  "pk_Request (documentStage env pkg) = pk_Request pkg" "pk_Profile (documentStage env pkg) = pk_Profile pkg"
  "pk_MemoryItems (documentStage env pkg) = pk_MemoryItems pkg" "pk_ToolItems (documentStage env pkg) = pk_ToolItems pkg"
  by (simp_all add: documentStage_def Let_def)

lemma toolStage_keeps [simp]:
  "pk_Request (toolStage env pkg) = pk_Request pkg" "pk_Profile (toolStage env pkg) = pk_Profile pkg"
  "pk_MemoryItems (toolStage env pkg) = pk_MemoryItems pkg"
  by (simp_all add: toolStage_def Let_def split: prod.split)

lemma showMemories_keeps [simp]:
  "pk_Request (showMemories pkg) = pk_Request pkg" "pk_Profile (showMemories pkg) = pk_Profile pkg"
  "pk_MemoryItems (showMemories pkg) = pk_MemoryItems pkg" "pk_ToolItems (showMemories pkg) = pk_ToolItems pkg"
  "pk_Trace (showMemories pkg) = pk_Trace pkg"
  by (simp_all add: showMemories_def)

lemma historyStage_keeps:
  assumes "historyStage env history r pkg = (Some pkg', r')"
  shows "pk_Request pkg' = pk_Request pkg \<and> pk_Profile pkg' = pk_Profile pkg \<and> pk_MemoryItems pkg' = pk_MemoryItems pkg \<and>
    pk_ToolItems pkg' = pk_ToolItems pkg"
  using assms by (auto simp: historyStage_def Let_def split: if_splits ended.splits prod.splits)

lemma startPackage_simps [simp]:
  "pk_Request (startPackage env req) = req" "pk_Profile (startPackage env req) = fst (chooseProfile env req)"
  "pk_MemoryItems (startPackage env req) = []" "pk_ToolItems (startPackage env req) = []"
  "pk_Trace (startPackage env req) = snd (chooseProfile env req)"
  by (simp_all add: startPackage_def split: prod.split)

text \<open>An assembled package, taken apart.\<close>

lemma Assemble_cases:
  assumes "Assemble env ltm req history r = (Some pkg, r')"
  obtains pkg0 where "historyStage env history r (startPackage env req) = (Some pkg0, r')"
    "pkg = (let pkg1 = showMemories (toolStage env (documentStage env (cmdbStage env (memoryStage env ltm pkg0))))
            in pkg1\<lparr>pk_Trace := (pk_Trace pkg1)\<lparr>ax_LatencyMs := ae_latency env\<rparr>\<rparr>)"
    "pk_Request pkg0 = req" "pk_Profile pkg0 = fst (chooseProfile env req)" "pk_MemoryItems pkg0 = []" "pk_ToolItems pkg0 = []"
proof -
  obtain res where h: "historyStage env history r (startPackage env req) = (res, r')"
    using assms by (auto simp: Assemble_def split: prod.splits option.splits)
  then obtain pkg0 where res: "res = Some pkg0" using assms by (cases res) (auto simp: Assemble_def)
  show thesis
    by (rule that [of pkg0]) (use h assms historyStage_keeps [OF h [unfolded res]] in \<open>auto simp: res Assemble_def\<close>)
qed

subsection \<open>Memories\<close>

lemma retrieved_from:
  assumes "x \<in> set (fst (RetrieveScoped env now query limit policy ltm))"
  shows "\<exists>k e. (k, e) \<in> set (lt_entries ltm) \<and> retrievable now policy e \<and>
    x = used now (cloneMemoryEntry e (computeRelevance now e))"
proof -
  define cs where "cs = sort_slice (\<lambda>a b. sm_score a > sm_score b) (retrievalCandidates env now query policy ltm)"
  have "lt_entries ltm \<noteq> []" using assms by (auto simp: RetrieveScoped_def)
  then obtain c where c: "c \<in> set (selectCandidates env limit [] cs)" "x = used now (sm_entry c)"
    using assms by (auto simp: RetrieveScoped_def Let_def cs_def)
  then have "c \<in> set (retrievalCandidates env now query policy ltm)"
    using select_sub unfolding cs_def by (metis set_sort_slice subsetD)
  from candidate_props [OF this] c(2) show ?thesis by metis
qed

lemma set_rankMemoryEntries [simp]: "set (rankMemoryEntries now es) = set es"
  by (simp add: rankMemoryEntries_def image_image)

lemma memory_from:
  assumes "x \<in> set (memoriesFor env ltm req profile)"
  shows "\<exists>k e. (k, e) \<in> set (lt_entries ltm) \<and> \<not> memoryExpired (ae_retrievedAt env) e \<and>
    (\<exists>ref \<in> set (memoryScopeRefs req). refMatches e ref) \<and>
    x = used (ae_retrievedAt env) (cloneMemoryEntry e (computeRelevance (ae_retrievedAt env) e))"
proof -
  have "memoryScopeRefs req \<noteq> []" by (simp add: memoryScopeRefs_def)
  then show ?thesis
    using retrieved_from assms unfolding memoriesFor_def Let_def set_rankMemoryEntries
    by (fastforce simp: retrievable_def memoryInScope_ref)
qed

text \<open>The memories of a package: those of the entries the request may see that are admissible, within the budget.\<close>

lemma memoryStage_items:
  assumes "pk_MemoryItems pkg = []" "soundBudget (pk_Profile pkg)"
  shows "\<exists>es st. memoryInv (ae_lower env) (pk_Profile pkg) (ae_now env) (cb_MemoryTokens (cf_Budget (pk_Profile pkg))) es st \<and>
    pk_MemoryItems (memoryStage env ltm pkg) = sl_selected st \<and>
    set es \<subseteq> set (memoriesFor env ltm (pk_Request pkg) (pk_Profile pkg))"
proof -
  define p where "p = pk_Profile pkg"
  define b where "b = cb_MemoryTokens (cf_Budget p)"
  have b: "0 \<le> b" using assms(2) by (simp add: b_def p_def soundBudget_def)
  have empty: "memoryInv (ae_lower env) p (ae_now env) b [] (startSelection b)"
    using memoryInv_fold [OF b, of _ _ _ "[]"] by simp
  define es where "es = memoriesFor env ltm (pk_Request pkg) p"
  let ?st = "fold (selectMemory (ae_lower env) p (ae_now env)) es (startSelection b)"
  consider "pk_MemoryItems (memoryStage env ltm pkg) = []"
    | "pk_MemoryItems (memoryStage env ltm pkg) = sl_selected ?st"
    using assms(1) by (fastforce simp: memoryStage_def selectMemories_def Let_def es_def p_def b_def split: if_splits)
  then show ?thesis
  proof cases
    case 1
    then show ?thesis using empty unfolding p_def [symmetric] b_def [symmetric]
      by (intro exI [of _ "[]"] exI [of _ "startSelection b"]) simp
  next
    case 2
    then show ?thesis using memoryInv_fold [OF b] unfolding p_def [symmetric] b_def [symmetric] es_def [symmetric]
      by (intro exI [of _ es] exI [of _ ?st]) simp
  qed
qed

lemma assembled_memory_items:
  assumes "Assemble env ltm req history r = (Some pkg, r')"
  shows "soundBudget (pk_Profile pkg) \<and>
    (\<exists>es st. memoryInv (ae_lower env) (pk_Profile pkg) (ae_now env) (cb_MemoryTokens (cf_Budget (pk_Profile pkg))) es st \<and>
       pk_MemoryItems pkg = sl_selected st \<and> set es \<subseteq> set (memoriesFor env ltm req (pk_Profile pkg)))"
proof (rule Assemble_cases [OF assms])
  fix pkg0
  assume pkg: "pkg = (let pkg1 = showMemories (toolStage env (documentStage env (cmdbStage env (memoryStage env ltm pkg0))))
            in pkg1\<lparr>pk_Trace := (pk_Trace pkg1)\<lparr>ax_LatencyMs := ae_latency env\<rparr>\<rparr>)"
    and req: "pk_Request pkg0 = req" "pk_Profile pkg0 = fst (chooseProfile env req)" "pk_MemoryItems pkg0 = []"
  have p: "pk_MemoryItems pkg = pk_MemoryItems (memoryStage env ltm pkg0)" "pk_Profile pkg = pk_Profile pkg0"
    by (simp_all add: pkg Let_def)
  have sound: "soundBudget (pk_Profile pkg0)"
    unfolding req(2) using chooseProfile_sound [of env req] by (cases "chooseProfile env req") simp
  from memoryStage_items [OF req(3) sound] show ?thesis using sound unfolding p req(1) by blast
qed

text \<open>C8: Whatever the memory holds, every memory in an assembled context comes from an entry that is stored under one of
  the scopes of the request (its session, its user, its project, or the global one), had not expired, is of a scope the
  profile allows, is confident enough and has a safe label. There are at most as many as the profile allows, and
  together they cost at most its memory budget.\<close>

theorem assembled_memories:
  assumes "Assemble env ltm req history r = (Some pkg, r')"
  shows "(\<forall>item \<in> set (pk_MemoryItems pkg). \<exists>k e. (k, e) \<in> set (lt_entries ltm) \<and>
      ci_ID item = me_ID e \<and> ci_Content item = me_Content e \<and> \<not> memoryExpired (ae_retrievedAt env) e \<and>
      (\<exists>ref \<in> set (memoryScopeRefs req). refMatches e ref) \<and>
      memoryScopeAllowed (ci_Scope item) (cf_AllowedMemoryScopes (pk_Profile pkg)) \<and>
      cf_MinMemoryConfidence (pk_Profile pkg) \<le> ci_Confidence item \<and> memorySafetyAllowed (ae_lower env) (ci_SafetyLabel item)) \<and>
    int (length (pk_MemoryItems pkg)) \<le> cf_MaxMemoryItems (pk_Profile pkg) \<and>
    tokensOf (pk_MemoryItems pkg) \<le> cb_MemoryTokens (cf_Budget (pk_Profile pkg))"
proof -
  let ?p = "pk_Profile pkg"
  obtain es st where st: "memoryInv (ae_lower env) ?p (ae_now env) (cb_MemoryTokens (cf_Budget ?p)) es st"
    "pk_MemoryItems pkg = sl_selected st" "set es \<subseteq> set (memoriesFor env ltm req ?p)" and sound: "soundBudget ?p"
    using assembled_memory_items [OF assms] by blast
  have "\<exists>k e. (k, e) \<in> set (lt_entries ltm) \<and> ci_ID item = me_ID e \<and> ci_Content item = me_Content e \<and>
      \<not> memoryExpired (ae_retrievedAt env) e \<and> (\<exists>ref \<in> set (memoryScopeRefs req). refMatches e ref) \<and>
      memoryScopeAllowed (ci_Scope item) (cf_AllowedMemoryScopes ?p) \<and>
      cf_MinMemoryConfidence ?p \<le> ci_Confidence item \<and> memorySafetyAllowed (ae_lower env) (ci_SafetyLabel item)"
    if "item \<in> set (sl_selected st)" for item
  proof -
    obtain x where x: "x \<in> set es" "admissible (ae_lower env) ?p (ae_now env) x"
      "item = (newMemoryItem (ae_now env) x)\<lparr>ci_Selected := True\<rparr>"
      using st(1) \<open>item \<in> set (sl_selected st)\<close> unfolding memoryInv_def by blast
    obtain k e where e: "(k, e) \<in> set (lt_entries ltm)" "\<not> memoryExpired (ae_retrievedAt env) e"
      "\<exists>ref \<in> set (memoryScopeRefs req). refMatches e ref"
      "x = used (ae_retrievedAt env) (cloneMemoryEntry e (computeRelevance (ae_retrievedAt env) e))"
      using memory_from [of x env ltm req ?p] x(1) st(3) by blast
    have "me_ID x = me_ID e" "me_Content x = me_Content e" by (simp_all add: e(4) used_def cloneMemoryEntry_def Let_def)
    then show ?thesis using e(1-3) x(2,3) by (intro exI [of _ k] exI [of _ e]) (simp add: admissible_def)
  qed
  moreover have "int (length (sl_selected st)) \<le> cf_MaxMemoryItems ?p"
    "tokensOf (sl_selected st) \<le> cb_MemoryTokens (cf_Budget ?p)"
    using st(1) sound by (auto simp: memoryInv_def soundBudget_def accounted_def)
  ultimately show ?thesis unfolding st(2) by blast
qed

definition demo_parser :: score_parser where
  "demo_parser = \<lparr>sp_decoded = (\<lambda>s. Some [(1, 2), (2, 9)]), sp_found = (\<lambda>s. [])\<rparr>"

definition demo_metrics :: retrieval_metrics where
  "demo_metrics = \<lparr>rt_CacheKey = [], rt_CacheHit = False, rt_InitFailureCached = False, rt_InitLatencyMs = 0,
     rt_RetrieveLatencyMs = 0, rt_RewriteLatencyMs = 0, rt_RerankLatencyMs = 0, rt_OriginalQuery = [], rt_RewrittenQuery = [],
     rt_RawResultCount = 0, rt_ResultCount = 0, rt_RerankEnabled = False\<rparr>"

definition demo_assembly_env :: assembly_env where
  "demo_assembly_env =
     \<lparr>ae_settings = \<lparr>sx_max_context_tokens = None, sx_chat_max_history_messages = None, sx_chat_max_memory_items = None,
        sx_aiops_max_memory_items = None, sx_reporter_max_tool_items = None, sx_min_memory_confidence = None\<rparr>,
      ae_memory = demo_env, ae_recall = demo_recall_env, ae_ready = False, ae_embedder = (\<lambda>_. None), ae_json = demo_codec,
      ae_compression = defaultConfig, ae_documents = (\<lambda>q. (demo_metrics, Inr [])), ae_cmdb = None, ae_intent = None,
      ae_redact = (\<lambda>x. x), ae_scores = demo_parser,
      ae_reranker = Some (NewToolReranker (Some \<lparr>rk_Enabled = True, rk_MinCandidates = 2, rk_CandidateLimit = 20,
        rk_TimeoutMs = 0, rk_Profiles = [], rk_CacheTTLSecs = 0, rk_Model = []\<rparr>), Some (\<lambda>p. Inr ''answer'')),
      ae_latency = 0, ae_now = 1, ae_retrievedAt = 0\<rparr>"

definition demo_request :: context_request where
  "demo_request = \<lparr>cr_SessionID = ''s'', cr_UserID = [], cr_ProjectID = [], cr_TraceID = [], cr_Mode = ''chat'', cr_Intent = [],
     cr_Query = ''port'', cr_ToolItems = []\<rparr>"

lemma demo_assembled:
  "\<exists>pkg r'. Assemble demo_assembly_env demo_memory demo_request [] NewHistoryRecaller = (Some pkg, r')"
  by (simp add: Assemble_def historyStage_def Let_def)

theorem assembled_memories_witness:
  "\<exists>pkg r'. Assemble demo_assembly_env demo_memory demo_request [] NewHistoryRecaller = (Some pkg, r') \<and>
     int (length (pk_MemoryItems pkg)) \<le> cf_MaxMemoryItems (pk_Profile pkg) \<and>
     tokensOf (pk_MemoryItems pkg) \<le> cb_MemoryTokens (cf_Budget (pk_Profile pkg))"
proof -
  obtain pkg r' where a: "Assemble demo_assembly_env demo_memory demo_request [] NewHistoryRecaller = (Some pkg, r')"
    using demo_assembled by blast
  from assembled_memories [OF a] a show ?thesis by blast
qed

text \<open>The freshness of memories has no effect: retrieving a memory sets the time it was last used, so all memories of a context
  have the same freshness, that of the time between retrieving and ranking, however long ago they were used.\<close>

theorem freshness_uniform:
  assumes "Assemble env ltm req history r = (Some pkg, r')"
  shows "\<forall>item \<in> set (pk_MemoryItems pkg).
    ci_FreshnessScore item = fdiv 1 (fadd 1 (fdiv (duration_hours (time_sub (ae_now env) (ae_retrievedAt env))) 24))"
proof -
  let ?p = "pk_Profile pkg"
  obtain es st where st: "memoryInv (ae_lower env) ?p (ae_now env) (cb_MemoryTokens (cf_Budget ?p)) es st"
    "pk_MemoryItems pkg = sl_selected st" "set es \<subseteq> set (memoriesFor env ltm req ?p)"
    using assembled_memory_items [OF assms] by blast
  show ?thesis
  proof
    fix item assume "item \<in> set (pk_MemoryItems pkg)"
    then obtain x where x: "x \<in> set es" "item = (newMemoryItem (ae_now env) x)\<lparr>ci_Selected := True\<rparr>"
      using st(1) unfolding st(2) memoryInv_def by blast
    then have "x \<in> set (memoriesFor env ltm req ?p)" using st(3) by blast
    from memory_from [OF this] have "me_LastUsed x = ae_retrievedAt env" by (auto simp: used_def)
    then show "ci_FreshnessScore item = fdiv 1 (fadd 1 (fdiv (duration_hours (time_sub (ae_now env) (ae_retrievedAt env))) 24))"
      by (simp add: x(2) newMemoryItem_def freshness_def)
  qed
qed

theorem freshness_uniform_witness:
  "\<exists>pkg r'. Assemble demo_assembly_env demo_memory demo_request [] NewHistoryRecaller = (Some pkg, r') \<and>
     list_all (\<lambda>item. ci_FreshnessScore item =
       fdiv 1 (fadd 1 (fdiv (duration_hours (time_sub (ae_now demo_assembly_env) (ae_retrievedAt demo_assembly_env))) 24)))
       (pk_MemoryItems pkg)"
proof -
  obtain pkg r' where a: "Assemble demo_assembly_env demo_memory demo_request [] NewHistoryRecaller = (Some pkg, r')"
    using demo_assembled by blast
  from freshness_uniform [OF a] a show ?thesis unfolding list_all_iff by blast
qed

subsection \<open>Reranking\<close>

lemma toolRecall_length: "0 \<le> topK \<Longrightarrow> int (length (tl_Items (toolRecall rv latency query items topK))) \<le> topK"
  by (auto simp: toolRecall_def Let_def min_def)

lemma selectByScore_facts:
  "set (selectByScore items scores topK) \<subseteq> set items"
  "0 \<le> topK \<Longrightarrow> int (length (selectByScore items scores topK)) \<le> topK"
  "int (length items) \<le> topK \<Longrightarrow> mset (selectByScore items scores topK) = mset items"
proof -
  define xs where "xs = map (\<lambda>(i, item). (item, if i < length scores then scores ! i else 0)) (enumerate 0 items)"
  have fst_xs: "map fst xs = items" by (simp add: xs_def case_prod_beta comp_def)
  have sel: "selectByScore items scores topK = map fst (take (nat topK) (byScore xs))"
    unfolding selectByScore_def xs_def ..
  have "set (take (nat topK) (byScore xs)) \<subseteq> set xs"
    using set_take_subset [of "nat topK" "byScore xs"] by (simp add: byScore_def)
  then have "fst ` set (take (nat topK) (byScore xs)) \<subseteq> set (map fst xs)" by auto
  then show "set (selectByScore items scores topK) \<subseteq> set items" unfolding sel fst_xs by simp
  show "int (length (selectByScore items scores topK)) \<le> topK" if "0 \<le> topK" using that by (simp add: sel)
  have len: "length (byScore xs) = length items" using fst_xs by (simp add: byScore_def xs_def)
  show "mset (selectByScore items scores topK) = mset items" if "int (length items) \<le> topK"
  proof -
    have "take (nat topK) (byScore xs) = byScore xs" using that len by simp
    then have "mset (selectByScore items scores topK) = image_mset fst (mset (byScore xs))" by (simp add: sel)
    also have "\<dots> = mset (map fst xs)" by (simp add: byScore_def)
    finally show ?thesis unfolding fst_xs .
  qed
qed

text \<open>Whatever the model answers, reranking selects at most \<open>topK\<close> of the items, by scores from 0 to 10.\<close>

lemma Rerank_cases:
  fixes redact sp model latency config query and topK :: int and items :: "context_item list"
  defines "out \<equiv> Rerank redact sp model latency config query items topK"
  obtains (plain) "ro_Items out = [] \<or> ro_Items out = takeTopK items topK" "ro_Scores out = []"
  | (scored) generate cs cs' scores where "ro_Items out = selectByScore cs scores topK" "ro_Scores out = scores"
      "set cs \<subseteq> set items" "scoreCandidates sp generate query cs' = Inr scores"
proof (cases "items = [] \<or> \<not> rk_Enabled config \<or> int (length items) < rk_MinCandidates config \<or> model = None")
  case True
  then show thesis using plain by (auto simp: out_def Rerank_def Let_def)
next
  case False
  then obtain generate where g: "model = Some generate" by blast
  define cs where "cs = (if int (length items) > rk_CandidateLimit config then take (nat (rk_CandidateLimit config)) items else items)"
  have sub: "set cs \<subseteq> set items" using set_take_subset by (auto simp: cs_def dest: in_set_takeD)
  show thesis
  proof (cases "scoreCandidates sp generate query (sanitizeSnippets redact cs)")
    case (Inl err)
    then show thesis using plain False g by (auto simp: out_def Rerank_def Let_def cs_def [symmetric])
  next
    case (Inr scores)
    show thesis
      by (rule scored [OF _ _ sub Inr]) (use Inr False g in \<open>auto simp: out_def Rerank_def Let_def cs_def [symmetric]\<close>)
  qed
qed

theorem rerank_within:
  assumes "0 \<le> topK"
  shows "set (ro_Items (Rerank redact sp model latency config query items topK)) \<subseteq> set items \<and>
    int (length (ro_Items (Rerank redact sp model latency config query items topK))) \<le> topK \<and>
    (\<forall>x \<in> set (ro_Scores (Rerank redact sp model latency config query items topK)). 0 \<le> x \<and> x \<le> 10)"
proof (cases rule: Rerank_cases [of redact sp model latency config query items topK])
  case plain
  have "set (takeTopK items topK) \<subseteq> set items" "int (length (takeTopK items topK)) \<le> topK"
    using assms set_take_subset [of "nat topK" items] by (auto simp: takeTopK_def)
  then show ?thesis using plain assms by auto
next
  case (scored generate cs cs' scores)
  have "\<forall>x \<in> set scores. 0 \<le> x \<and> x \<le> 10"
    using scored(4) setScores_bounds
    by (auto simp: scoreCandidates_def parseRerankScores_def split: sum.splits option.splits list.splits if_splits)
  then show ?thesis using scored selectByScore_facts(1) [of cs scores topK] selectByScore_facts(2) [OF assms] by auto
qed

text \<open>Reranking does not choose which tool results enter a context: only as many as may be selected are recalled, before any of
  them is scored, so what the model answers decides nothing but their order.\<close>

theorem reranking_only_reorders:
  assumes "toolCandidates env query items topK = (recall, outcome, picked)" "0 \<le> topK"
    and "ae_reranker env = Some (config, model)" "topK \<le> rk_CandidateLimit config"
  shows "mset picked = mset (tl_Items (toolRecall (ae_recall env) (ae_latency env) query items topK))"
proof -
  define xs where "xs = tl_Items (toolRecall (ae_recall env) (ae_latency env) query items topK)"
  define out where "out = Rerank (ae_redact env) (ae_scores env) model (ae_latency env) config query xs topK"
  have len: "int (length xs) \<le> topK" using toolRecall_length [OF assms(2)] by (simp add: xs_def)
  have picked: "picked = (if \<not> ro_Degraded out then ro_Items out else xs)"
    using assms(1,3) by (auto simp: toolCandidates_def Let_def xs_def out_def)
  have whole: "takeTopK xs topK = xs" "\<not> int (length xs) > rk_CandidateLimit config"
    using len assms(4) by (simp_all add: takeTopK_def)
  have "ro_Degraded out \<or> mset (ro_Items out) = mset xs"
    unfolding out_def Rerank_def Let_def
    using whole selectByScore_facts(3) [OF len] by (simp split: option.split sum.split)
  then show ?thesis unfolding picked xs_def [symmetric] by auto
qed

definition demo_tools :: "context_item list" where
  "demo_tools = [emptyItem\<lparr>ci_ID := ''a''\<rparr>, emptyItem\<lparr>ci_ID := ''b''\<rparr>, emptyItem\<lparr>ci_ID := ''c''\<rparr>]"

theorem reranking_only_reorders_witness:
  "mset (snd (snd (toolCandidates demo_assembly_env ''port'' demo_tools 8))) = mset demo_tools"
proof -
  obtain config model where r: "ae_reranker demo_assembly_env = Some (config, model)" "rk_CandidateLimit config = 20"
    by (simp add: demo_assembly_env_def NewToolReranker_def Let_def)
  obtain recall outcome picked where t: "toolCandidates demo_assembly_env ''port'' demo_tools 8 = (recall, outcome, picked)"
    by (metis prod_cases3)
  have "tl_Items (toolRecall (ae_recall demo_assembly_env) (ae_latency demo_assembly_env) ''port'' demo_tools 8) = demo_tools"
    by (simp add: toolRecall_def demo_tools_def)
  then show ?thesis using reranking_only_reorders [OF t _ r(1)] r(2) t by simp
qed

subsection \<open>The trace\<close>

lemma addStage_simps [simp]:
  "ax_Profile (addStage sg n ds t) = ax_Profile t"
  "ax_Stages (addStage sg n ds t) = ax_Stages t @ [sg]"
  "ax_SourcesSelected (addStage sg n ds t) = ax_SourcesSelected t + sg_SelectedCount sg"
  "ax_DroppedItems (addStage sg n ds t) = ax_DroppedItems t @ ds"
  "ax_BudgetAfter (addStage sg n ds t) = ax_BudgetAfter t"
  by (simp_all add: addStage_def)

lemma stage_simps [simp]:
  "sg_SelectedCount (stage nm s d ns) = s" "sg_DroppedCount (stage nm s d ns) = d" "sg_Name (stage nm s d ns) = nm"
  by (simp_all add: stage_def)

text \<open>What the trace says of the package: the profile, the sums of the stages, and the tokens of memories and tool results.\<close>

definition traceAccounts :: "context_package \<Rightarrow> bool" where
  "traceAccounts pkg \<longleftrightarrow>
     (let t = pk_Trace pkg
      in ax_Profile t = cf_Name (pk_Profile pkg) \<and>
         ax_SourcesSelected t = sum_list (map sg_SelectedCount (ax_Stages t)) \<and>
         int (length (ax_DroppedItems t)) = sum_list (map sg_DroppedCount (ax_Stages t)) \<and>
         bs_MemoryTokens (ax_BudgetAfter t) = tokensOf (pk_MemoryItems pkg) \<and>
         bs_ToolTokens (ax_BudgetAfter t) = tokensOf (pk_ToolItems pkg))"

lemma start_accounts: "traceAccounts (startPackage env req)"
  using chooseProfile_sound [of env req]
  by (cases "chooseProfile env req") (simp add: traceAccounts_def Let_def emptyBudget_def)

lemma historyStage_accounts:
  assumes "historyStage env history r pkg = (Some pkg', r')" "traceAccounts pkg"
  shows "traceAccounts pkg'"
  using assms by (auto simp: historyStage_def traceAccounts_def Let_def split: if_splits ended.splits prod.splits)

lemma selectMemories_tokens:
  "selectMemories lower entries profile now = (selected, dropped, n, ns) \<Longrightarrow> 0 \<le> cb_MemoryTokens (cf_Budget profile) \<Longrightarrow>
     n = tokensOf selected"
  using memoryInv_fold [of "cb_MemoryTokens (cf_Budget profile)" lower profile now entries]
  by (auto simp: selectMemories_def Let_def memoryInv_def accounted_def split: if_splits)

lemma selectToolItems_tokens:
  assumes "selectToolItemsWithCompression compress items profile query cfg = (selected, dropped, n, ns, reports)"
    "0 \<le> cb_ToolTokens (cf_Budget profile)"
  shows "n = tokensOf selected"
proof (cases "items = [] \<or> cf_MaxToolItems profile = 0 \<or> cb_ToolTokens (cf_Budget profile) = 0")
  case True
  then show ?thesis using assms(1) by (auto simp: selectToolItemsWithCompression_def)
next
  case False
  define b where "b = cb_ToolTokens (cf_Budget profile)"
  obtain st rs where l: "toolLoop (compressItem compress cfg SourceTool query) profile 0 items (startSelection b) [] = (st, rs)"
    by fastforce
  have "budgeted b st"
    using toolLoop_inv [OF compressItem_ID budgeted_start _ _ _ l] False assms(2) by (simp add: b_def)
  then show ?thesis using assms(1) False l by (auto simp: selectToolItemsWithCompression_def b_def budgeted_def accounted_def)
qed

lemma memoryStage_accounts:
  "traceAccounts pkg \<Longrightarrow> soundBudget (pk_Profile pkg) \<Longrightarrow> traceAccounts (memoryStage env ltm pkg)"
  by (auto simp: memoryStage_def traceAccounts_def soundBudget_def Let_def dest!: selectMemories_tokens split: prod.split)

lemma cmdbStage_accounts: "traceAccounts pkg \<Longrightarrow> traceAccounts (cmdbStage env pkg)"
  by (simp add: cmdbStage_def traceAccounts_def Let_def split: option.split)

lemma documentStage_accounts: "traceAccounts pkg \<Longrightarrow> traceAccounts (documentStage env pkg)"
  by (simp add: documentStage_def traceAccounts_def Let_def)

lemma toolStage_accounts:
  "traceAccounts pkg \<Longrightarrow> soundBudget (pk_Profile pkg) \<Longrightarrow> traceAccounts (toolStage env pkg)"
  by (auto simp: toolStage_def traceAccounts_def soundBudget_def Let_def dest!: selectToolItems_tokens split: prod.split)

text \<open>The trace of an assembled context accounts for it: it names the profile that was used, the sources it counts as selected and
  the items it lists as dropped are those of its stages, and the tokens it reports for memories and for tool
  results are what the package holds.\<close>

theorem assembly_traced:
  assumes "Assemble env ltm req history r = (Some pkg, r')"
  shows "ax_Profile (pk_Trace pkg) = cf_Name (pk_Profile pkg) \<and>
    ax_SourcesSelected (pk_Trace pkg) = sum_list (map sg_SelectedCount (ax_Stages (pk_Trace pkg))) \<and>
    int (length (ax_DroppedItems (pk_Trace pkg))) = sum_list (map sg_DroppedCount (ax_Stages (pk_Trace pkg))) \<and>
    bs_MemoryTokens (ax_BudgetAfter (pk_Trace pkg)) = tokensOf (pk_MemoryItems pkg) \<and>
    bs_ToolTokens (ax_BudgetAfter (pk_Trace pkg)) = tokensOf (pk_ToolItems pkg)"
proof (rule Assemble_cases [OF assms])
  fix pkg0
  assume h: "historyStage env history r (startPackage env req) = (Some pkg0, r')"
    and pkg: "pkg = (let pkg1 = showMemories (toolStage env (documentStage env (cmdbStage env (memoryStage env ltm pkg0))))
            in pkg1\<lparr>pk_Trace := (pk_Trace pkg1)\<lparr>ax_LatencyMs := ae_latency env\<rparr>\<rparr>)"
    and prof: "pk_Profile pkg0 = fst (chooseProfile env req)"
  have sound: "soundBudget (pk_Profile pkg0)"
    unfolding prof using chooseProfile_sound [of env req] by (cases "chooseProfile env req") simp
  have "traceAccounts (toolStage env (documentStage env (cmdbStage env (memoryStage env ltm pkg0))))"
    using historyStage_accounts [OF h start_accounts] sound
    by (simp add: toolStage_accounts documentStage_accounts cmdbStage_accounts memoryStage_accounts)
  then show ?thesis unfolding pkg by (simp add: traceAccounts_def Let_def)
qed

theorem assembly_traced_witness:
  "\<exists>pkg r'. Assemble demo_assembly_env demo_memory demo_request [] NewHistoryRecaller = (Some pkg, r') \<and>
     bs_MemoryTokens (ax_BudgetAfter (pk_Trace pkg)) = tokensOf (pk_MemoryItems pkg)"
proof -
  obtain pkg r' where a: "Assemble demo_assembly_env demo_memory demo_request [] NewHistoryRecaller = (Some pkg, r')"
    using demo_assembled by blast
  from assembly_traced [OF a] a show ?thesis by blast
qed

end
