(* ===== verification/Rag_Index.thy ===== *)
theory Rag_Index
  imports Rag_Tokens Go_Sort Go_Split Go_Time
begin

text \<open>
  The index of documents by their words: BM25Index of internal/ai/rag/bm25.go. An index keeps the documents in the order of
  their first insertion and, rebuilt after each insertion, the number of documents that hold each word in their text
  (\<open>df\<close>) and in their fields (\<open>fieldDF\<close>). \<open>logf\<close> is \<open>math.Log\<close>, \<open>tolower\<close> is
  \<open>strings.ToLower\<close>; a Go map is iterated in insertion order. An insertion is one critical section.
\<close>

subsection \<open>Data\<close>

record bm25_doc =
  bd_id :: string
  bd_bodyTokens :: "string list"
  bd_fieldTokens :: "(string, string list) gomap"
  bd_tokenLen :: int
  bd_content :: string
  bd_meta :: "(string, string) gomap"

record bm25_index =
  bi_k1 :: f64
  bi_b :: f64
  bi_docs :: "bm25_doc list"
  bi_df :: "(string, int) gomap"
  bi_fieldDF :: "(string, int) gomap"
  bi_avgDL :: f64
  bi_totalDoc :: int

record search_options =
  so_MetadataWeight :: f64
  so_KnowledgeFieldBoost :: "(string, f64) gomap"

record bm25_hit =
  bh_DocID :: string
  bh_Score :: f64
  bh_Content :: string
  bh_Meta :: "(string, string) gomap"

definition NewBM25Index :: bm25_index where
  "NewBM25Index =
     \<lparr>bi_k1 = rnd (12 / 10), bi_b = 3 / 4, bi_docs = [], bi_df = [], bi_fieldDF = [], bi_avgDL = 0, bi_totalDoc = 0\<rparr>"

subsection \<open>Adding a document\<close>

definition bm25DocOf :: "(string \<Rightarrow> string) \<Rightarrow> string \<Rightarrow> string \<Rightarrow> (string, string) gomap \<Rightarrow> bm25_doc" where
  "bm25DocOf tolower docID content meta =
     (let bodyTokens = BM25Tokenize tolower content
      in \<lparr>bd_id = docID, bd_bodyTokens = bodyTokens,
          bd_fieldTokens = filter (\<lambda>(k, ts). ts \<noteq> []) (map (\<lambda>(k, v). (k, BM25Tokenize tolower v)) meta),
          bd_tokenLen = int (length bodyTokens), bd_content = content, bd_meta = meta\<rparr>)"

text \<open>The document of the same identifier is replaced in its place; otherwise the document is appended.\<close>

fun putDoc :: "bm25_doc \<Rightarrow> bm25_doc list \<Rightarrow> bm25_doc list" where
  "putDoc doc [] = [doc]"
| "putDoc doc (d # ds) = (if bd_id d = bd_id doc then doc # ds else d # putDoc doc ds)"

definition countTokens :: "string list \<Rightarrow> (string, int) gomap \<Rightarrow> (string, int) gomap" where
  "countTokens ts df = fold (\<lambda>t m. gm_put t (gm_int m t + 1) m) (dedup_from [] ts) df"

definition fieldTokensOf :: "bm25_doc \<Rightarrow> string list" where
  "fieldTokensOf doc = concat (map snd (bd_fieldTokens doc))"

definition rebuildStatsLocked :: "bm25_index \<Rightarrow> bm25_index" where
  "rebuildStatsLocked idx =
     (let n = int (length (bi_docs idx)); idx0 = idx\<lparr>bi_df := [], bi_fieldDF := [], bi_totalDoc := n\<rparr>
      in if n = 0 then idx0\<lparr>bi_avgDL := 0\<rparr>
         else idx0\<lparr>bi_df := fold (\<lambda>doc. countTokens (bd_bodyTokens doc)) (bi_docs idx) [],
                   bi_fieldDF := fold (\<lambda>doc. countTokens (fieldTokensOf doc)) (bi_docs idx) [],
                   bi_avgDL := fdiv (f64_of_int (sum_list (map bd_tokenLen (bi_docs idx)))) (f64_of_int n)\<rparr>)"

definition AddDocument :: "(string \<Rightarrow> string) \<Rightarrow> string \<Rightarrow> string \<Rightarrow> (string, string) gomap \<Rightarrow> bm25_index \<Rightarrow> bm25_index" where
  "AddDocument tolower docID content meta idx =
     rebuildStatsLocked (idx\<lparr>bi_docs := putDoc (bm25DocOf tolower docID content meta) (bi_docs idx)\<rparr>)"

definition Size :: "bm25_index \<Rightarrow> int" where
  "Size idx = bi_totalDoc idx"

subsection \<open>Searching\<close>

definition isKnowledgeField :: "string \<Rightarrow> bool" where
  "isKnowledgeField field \<longleftrightarrow> field \<in> {''knowledge_doc_id'', ''title'', ''tags'', ''provider''}"

text \<open>\<open>math.Log(1 + (n - freq + 0.5) / (freq + 0.5))\<close>.\<close>

definition idf :: "(f64 \<Rightarrow> f64) \<Rightarrow> int \<Rightarrow> int \<Rightarrow> f64" where
  "idf logf n freq =
     logf (fadd 1 (fdiv (fadd (fsub (f64_of_int n) (f64_of_int freq)) (1 / 2)) (fadd (f64_of_int freq) (1 / 2))))"

definition tfNorm :: "bm25_index \<Rightarrow> f64 \<Rightarrow> f64 \<Rightarrow> f64" where
  "tfNorm idx termFreq dl =
     fdiv (fmul termFreq (fadd (bi_k1 idx) 1))
       (fadd termFreq (fmul (bi_k1 idx) (fadd (fsub 1 (bi_b idx)) (fdiv (fmul (bi_b idx) dl) (bi_avgDL idx)))))"

definition fieldWeight :: "search_options \<Rightarrow> string \<Rightarrow> f64" where
  "fieldWeight opts field =
     (if isKnowledgeField field
      then (case gm_get (so_KnowledgeFieldBoost opts) field of Some w \<Rightarrow> w | None \<Rightarrow> 0)
      else so_MetadataWeight opts)"

definition addField :: "search_options \<Rightarrow> string \<Rightarrow> f64 \<Rightarrow> string \<times> string list \<Rightarrow> f64 \<Rightarrow> f64" where
  "addField opts qt fieldIDF = (\<lambda>(field, tokens) score.
     if qt \<notin> set tokens then score
     else if fieldWeight opts field > 0 then fadd score (fmul fieldIDF (fieldWeight opts field)) else score)"

definition scoreTerm :: "(f64 \<Rightarrow> f64) \<Rightarrow> bm25_index \<Rightarrow> search_options \<Rightarrow> bm25_doc \<Rightarrow> string \<Rightarrow> f64 \<Rightarrow> f64" where
  "scoreTerm logf idx opts doc qt score =
     (let n = bi_totalDoc idx; docFreq = gm_int (bi_df idx) qt; fieldFreq = gm_int (bi_fieldDF idx) qt;
          score1 = (if docFreq > 0 \<and> bd_tokenLen doc > 0 \<and> bi_avgDL idx > 0
                    then fadd score (fmul (idf logf n docFreq)
                           (tfNorm idx (f64_of_int (int (count_list (bd_bodyTokens doc) qt))) (f64_of_int (bd_tokenLen doc))))
                    else score)
      in if fieldFreq = 0 then score1
         else fold (addField opts qt (idf logf n fieldFreq)) (bd_fieldTokens doc) score1)"

definition scoreDoc :: "(f64 \<Rightarrow> f64) \<Rightarrow> bm25_index \<Rightarrow> search_options \<Rightarrow> string list \<Rightarrow> bm25_doc \<Rightarrow> f64" where
  "scoreDoc logf idx opts queryTokens doc = fold (scoreTerm logf idx opts doc) queryTokens 0"

definition hitOf :: "bm25_doc \<times> f64 \<Rightarrow> bm25_hit" where
  "hitOf = (\<lambda>(doc, score). \<lparr>bh_DocID = bd_id doc, bh_Score = score, bh_Content = bd_content doc, bh_Meta = bd_meta doc\<rparr>)"

definition SearchWithOptions ::
  "(string \<Rightarrow> string) \<Rightarrow> (f64 \<Rightarrow> f64) \<Rightarrow> string \<Rightarrow> int \<Rightarrow> search_options \<Rightarrow> bm25_index \<Rightarrow> bm25_hit list" where
  "SearchWithOptions tolower logf query topK opts idx =
     (let queryTokens = BM25Tokenize tolower query
      in if queryTokens = [] \<or> topK \<le> 0 then []
         else if bi_totalDoc idx = 0 then []
         else (let scored = map (\<lambda>doc. (doc, scoreDoc logf idx opts queryTokens doc)) (bi_docs idx);
                   results = sort_slice (\<lambda>a b. snd a > snd b) (filter (\<lambda>r. snd r > 0) scored)
               in map hitOf (take (nat topK) results)))"

definition Search :: "(string \<Rightarrow> string) \<Rightarrow> (f64 \<Rightarrow> f64) \<Rightarrow> string \<Rightarrow> int \<Rightarrow> bm25_index \<Rightarrow> bm25_hit list" where
  "Search tolower logf query topK idx =
     SearchWithOptions tolower logf query topK \<lparr>so_MetadataWeight = 1, so_KnowledgeFieldBoost = []\<rparr> idx"

subsection \<open>The statistics are those of the documents\<close>

text \<open>The number of documents whose words hold \<open>t\<close>.\<close>

definition docsWith :: "(bm25_doc \<Rightarrow> string list) \<Rightarrow> bm25_doc list \<Rightarrow> string \<Rightarrow> int" where
  "docsWith ts ds t = int (length (filter (\<lambda>d. t \<in> set (ts d)) ds))"

definition index_inv :: "bm25_index \<Rightarrow> bool" where
  "index_inv idx \<longleftrightarrow>
     distinct (map bd_id (bi_docs idx)) \<and> bi_totalDoc idx = int (length (bi_docs idx)) \<and>
     (\<forall>t. gm_int (bi_df idx) t = docsWith bd_bodyTokens (bi_docs idx) t) \<and>
     (\<forall>t. gm_int (bi_fieldDF idx) t = docsWith fieldTokensOf (bi_docs idx) t)"

lemma gm_int_Nil: "gm_int [] t = 0"
  by (simp add: gm_int_def)

lemma docsWith_Nil: "docsWith ts [] t = 0"
  by (simp add: docsWith_def)

lemma index_int_put: "gm_int (gm_put k v m) t = (if t = k then v else gm_int m t)"
  by (simp add: gm_int_def gm_get_put)

lemma countTokens_int: "gm_int (countTokens ts df) t = gm_int df t + (if t \<in> set ts then 1 else 0)"
proof -
  have "gm_int (fold (\<lambda>t m. gm_put t (gm_int m t + 1) m) xs df) t = gm_int df t + (if t \<in> set xs then 1 else 0)"
    if "distinct xs" for xs using that
    by (induction xs arbitrary: df) (auto simp: index_int_put)
  from this [OF distinct_dedup_from] show ?thesis by (simp add: countTokens_def set_dedup_from)
qed

lemma countDocs_int: "gm_int (fold (\<lambda>doc. countTokens (ts doc)) ds df) t = gm_int df t + docsWith ts ds t"
  by (induction ds arbitrary: df) (simp_all add: countTokens_int docsWith_def)

lemma rebuild_docs [simp]: "bi_docs (rebuildStatsLocked idx) = bi_docs idx"
  by (simp add: rebuildStatsLocked_def Let_def)

lemma rebuild_inv: "distinct (map bd_id (bi_docs idx)) \<Longrightarrow> index_inv (rebuildStatsLocked idx)"
  by (simp add: index_inv_def rebuildStatsLocked_def Let_def countDocs_int gm_int_Nil docsWith_Nil)

lemma putDoc_ids: "set (map bd_id (putDoc doc ds)) = insert (bd_id doc) (set (map bd_id ds))"
  by (induction ds) auto

lemma putDoc_distinct: "distinct (map bd_id ds) \<Longrightarrow> distinct (map bd_id (putDoc doc ds))"
proof (induction ds)
  case (Cons d ds)
  then show ?case using putDoc_ids [of doc ds] by auto
qed simp

text \<open>The documents by their identifiers.\<close>

abbreviation docTable :: "bm25_doc list \<Rightarrow> string \<Rightarrow> bm25_doc option" where
  "docTable ds \<equiv> map_of (map (\<lambda>d. (bd_id d, d)) ds)"

lemma putDoc_table: "docTable (putDoc doc ds) = (docTable ds)(bd_id doc \<mapsto> doc)"
  by (induction ds) (auto simp: fun_upd_twist)

text \<open>An index after a sequence of insertions.\<close>

definition addAll :: "(string \<Rightarrow> string) \<Rightarrow> (string \<times> string \<times> (string, string) gomap) list \<Rightarrow> bm25_index" where
  "addAll tolower adds = fold (\<lambda>(docID, content, meta). AddDocument tolower docID content meta) adds NewBM25Index"

lemma AddDocument_docs: "bi_docs (AddDocument tolower k c m idx) = putDoc (bm25DocOf tolower k c m) (bi_docs idx)"
  by (simp add: AddDocument_def)

lemma bm25DocOf_id [simp]: "bd_id (bm25DocOf tolower k c m) = k"
  by (simp add: bm25DocOf_def Let_def)

lemma NewBM25Index_inv: "index_inv NewBM25Index"
  by (simp add: index_inv_def NewBM25Index_def gm_int_Nil docsWith_Nil)

lemma addAll_facts:
  "index_inv (addAll tolower adds) \<and>
   docTable (bi_docs (addAll tolower adds)) = map_of (rev (map (\<lambda>(k, c, m). (k, bm25DocOf tolower k c m)) adds))"
proof (induction adds rule: rev_induct)
  case Nil
  then show ?case using NewBM25Index_inv by (simp add: addAll_def) (simp add: NewBM25Index_def)
next
  case (snoc a adds)
  obtain k c m where a: "a = (k, c, m)" by (cases a) auto
  have step: "addAll tolower (adds @ [a]) = AddDocument tolower k c m (addAll tolower adds)" by (simp add: addAll_def a)
  have "distinct (map bd_id (bi_docs (addAll tolower adds)))" using snoc by (simp add: index_inv_def)
  then have "index_inv (addAll tolower (adds @ [a]))"
    unfolding step AddDocument_def by (intro rebuild_inv) (simp add: putDoc_distinct)
  then show ?case using snoc unfolding step AddDocument_docs putDoc_table by (simp add: a)
qed

text \<open>C22: However documents are added, the index is the table of the documents added last under each identifier, and its statistics
  are exact: it counts every document once, and for every word the documents whose text and whose fields hold it.\<close>

theorem index_is_table:
  "docTable (bi_docs (addAll tolower adds)) = map_of (rev (map (\<lambda>(k, c, m). (k, bm25DocOf tolower k c m)) adds)) \<and>
   distinct (map bd_id (bi_docs (addAll tolower adds))) \<and>
   Size (addAll tolower adds) = int (card (set (map fst adds))) \<and>
   (\<forall>t. gm_int (bi_df (addAll tolower adds)) t = docsWith bd_bodyTokens (bi_docs (addAll tolower adds)) t \<and>
        gm_int (bi_fieldDF (addAll tolower adds)) t = docsWith fieldTokensOf (bi_docs (addAll tolower adds)) t)"
proof -
  let ?i = "addAll tolower adds"
  have inv: "index_inv ?i"
    and t: "docTable (bi_docs ?i) = map_of (rev (map (\<lambda>(k, c, m). (k, bm25DocOf tolower k c m)) adds))"
    using addAll_facts by auto
  have "set (map bd_id (bi_docs ?i)) = dom (docTable (bi_docs ?i))" by (simp add: dom_map_of_conv_image_fst image_image)
  also have "\<dots> = set (map fst adds)" unfolding t by (force simp: dom_map_of_conv_image_fst image_image)
  finally have "card (set (map fst adds)) = length (bi_docs ?i)"
    using inv distinct_card [of "map bd_id (bi_docs ?i)"] by (simp add: index_inv_def)
  then show ?thesis using inv t by (simp add: index_inv_def Size_def)
qed

lemma scoreDoc_Nil: "scoreDoc logf idx opts [] doc = 0"
  by (simp add: scoreDoc_def)

text \<open>A search finds the best documents: its hits are those of positive score, in the order of their scores and at most
  \<open>topK\<close> of them, and no document left out scores higher than a hit.\<close>

theorem search_best:
  "\<exists>kept left_out. SearchWithOptions tolower logf query topK opts (addAll tolower adds) = map hitOf kept \<and>
     mset (kept @ left_out) =
       mset (filter (\<lambda>r. snd r > 0)
         (map (\<lambda>doc. (doc, scoreDoc logf (addAll tolower adds) opts (BM25Tokenize tolower query) doc)) (bi_docs (addAll tolower adds)))) \<and>
     sorted_wrt (\<lambda>a b. snd b \<le> snd a) (kept @ left_out) \<and> length kept = min (nat topK) (length kept + length left_out)"
proof -
  let ?i = "addAll tolower adds" and ?q = "BM25Tokenize tolower query"
  define results where "results = sort_slice (\<lambda>a b. snd a > snd b)
    (filter (\<lambda>r. snd r > 0) (map (\<lambda>doc. (doc, scoreDoc logf ?i opts ?q doc)) (bi_docs ?i)))"
  have "SearchWithOptions tolower logf query topK opts ?i = map hitOf (take (nat topK) results)"
  proof (cases "?q = [] \<or> topK \<le> 0 \<or> bi_totalDoc ?i = 0")
    case True
    have "bi_totalDoc ?i = 0 \<Longrightarrow> bi_docs ?i = []" using addAll_facts [of tolower adds] by (simp add: index_inv_def)
    then have "take (nat topK) results = []" using True by (auto simp: results_def scoreDoc_Nil)
    then show ?thesis using True by (auto simp: SearchWithOptions_def Let_def)
  next
    case False
    then show ?thesis by (simp add: SearchWithOptions_def Let_def results_def)
  qed
  moreover have "sorted_wrt (\<lambda>a b. snd b \<le> snd a) results"
    using sort_slice_sorted [OF weak_order_key [of snd]] unfolding results_def not_less .
  moreover have "mset results = mset (filter (\<lambda>r. snd r > 0) (map (\<lambda>doc. (doc, scoreDoc logf ?i opts ?q doc)) (bi_docs ?i)))"
    by (simp add: results_def)
  moreover have "length (take (nat topK) results) =
      min (nat topK) (length (take (nat topK) results) + length (drop (nat topK) results))" by (simp add: min_def)
  ultimately show ?thesis
    by (intro exI [of _ "take (nat topK) results"] exI [of _ "drop (nat topK) results"], unfold append_take_drop_id)
      (intro conjI)
qed

end
