(* ===== verification/Rag_Docs.thy ===== *)
theory Rag_Docs
  imports Rag_Index
begin

text \<open>
  Retrieved documents and what the retrieval reads of them: the accessors of metadata and the sets of words of
  retrieve_refine.go, the keys and the source scopes of hybrid.go and the identifiers of evaluator.go
  (internal/ai/rag). The sets of words are lists without duplicates. A document is never nil here; where the source
  tests for nil, its argument is an option.
\<close>

subsection \<open>Documents\<close>

text \<open>A value of the metadata: a text, texts (\<open>[]string\<close>), a list of anything (a member that is no text is \<open>None\<close>),
  an integer, a number, or something else.\<close>

datatype meta_value = MStr string | MStrs "string list" | MAnys "string option list" | MInt int | MNum f64 | MOther

record rag_document =
  rd_ID :: string
  rd_Content :: string
  rd_Score :: f64
  rd_Meta :: "(string, meta_value) gomap"

definition setMeta :: "string \<Rightarrow> meta_value \<Rightarrow> rag_document \<Rightarrow> rag_document" where
  "setMeta key v doc = doc\<lparr>rd_Meta := gm_put key v (rd_Meta doc)\<rparr>"

definition stringMetadata :: "(string, meta_value) gomap \<Rightarrow> string \<Rightarrow> string" where
  "stringMetadata meta key = (case gm_get meta key of Some (MStr s) \<Rightarrow> s | _ \<Rightarrow> [])"

fun firstStringMetadata :: "(string, meta_value) gomap \<Rightarrow> string list \<Rightarrow> string" where
  "firstStringMetadata meta [] = []"
| "firstStringMetadata meta (key # keys) =
     (if stringMetadata meta key \<noteq> [] then stringMetadata meta key else firstStringMetadata meta keys)"

definition metadataString :: "(string, meta_value) gomap \<Rightarrow> string \<Rightarrow> string" where
  "metadataString meta key = trim_space (stringMetadata meta key)"

text \<open>The first value that is not blank, trimmed.\<close>

fun extractMetaField :: "(string, meta_value) gomap \<Rightarrow> string list \<Rightarrow> string" where
  "extractMetaField meta [] = []"
| "extractMetaField meta (key # keys) =
     (if metadataString meta key \<noteq> [] then metadataString meta key else extractMetaField meta keys)"

definition docFusionKey :: "rag_document \<Rightarrow> string" where
  "docFusionKey doc =
     (let k = extractMetaField (rd_Meta doc) [''case_id'', ''caseid'', ''doc_id'']
      in if k \<noteq> [] then k else trim_space (rd_ID doc))"

definition canonicalDocID :: "rag_document option \<Rightarrow> string" where
  "canonicalDocID doc = (case doc of None \<Rightarrow> [] | Some d \<Rightarrow> docFusionKey d)"

text \<open>The identifier under which a document is fused and indexed, empty if it has none.\<close>

definition fusionID :: "rag_document \<Rightarrow> string" where
  "fusionID doc = (if docFusionKey doc \<noteq> [] then docFusionKey doc else rd_ID doc)"

subsection \<open>Words\<close>

text \<open>The functions of \<open>unicode\<close> and \<open>strings\<close> on letters: \<open>rg_letter\<close> is \<open>IsLetter\<close> or \<open>IsDigit\<close>
  on a rune, \<open>rg_lowerRune\<close> is \<open>unicode.ToLower\<close>, \<open>rg_lower\<close> is \<open>strings.ToLower\<close>; and \<open>math.Log\<close>.\<close>

record rag_env =
  rg_lower :: "string \<Rightarrow> string"
  rg_lowerRune :: "string \<Rightarrow> string"
  rg_letter :: "string \<Rightarrow> bool"
  rg_log :: "f64 \<Rightarrow> f64"

definition normalizeValue :: "rag_env \<Rightarrow> string \<Rightarrow> string" where
  "normalizeValue rg value = rg_lower rg (trim_space value)"

definition flushToken :: "rag_env \<Rightarrow> string \<Rightarrow> string list" where
  "flushToken rg buf =
     (if buf = [] then []
      else (let token = normalizeValue rg buf
            in if length token < 2 \<or> token \<in> set RetrievalStopwords then [] else [token]))"

fun tokenLoop :: "rag_env \<Rightarrow> string \<Rightarrow> string list \<Rightarrow> string list" where
  "tokenLoop rg buf [] = flushToken rg buf"
| "tokenLoop rg buf (r # rs) =
     (if rg_letter rg r \<or> r \<in> {''_'', ''-'', ''.'', ''/'', '':''} then tokenLoop rg (buf @ rg_lowerRune rg r) rs
      else flushToken rg buf @ tokenLoop rg [] rs)"

definition tokenizeToSet :: "rag_env \<Rightarrow> string \<Rightarrow> string list" where
  "tokenizeToSet rg value = dedup_from [] (tokenLoop rg [] (runes value))"

definition mergeTokenSets :: "string list list \<Rightarrow> string list" where
  "mergeTokenSets sets = dedup_from [] (concat sets)"

definition anySliceToSet :: "rag_env \<Rightarrow> meta_value option \<Rightarrow> string list" where
  "anySliceToSet rg value =
     (case value of
        Some (MStrs items) \<Rightarrow> mergeTokenSets (map (tokenizeToSet rg) items)
      | Some (MAnys items) \<Rightarrow> mergeTokenSets (map (\<lambda>i. case i of Some s \<Rightarrow> tokenizeToSet rg s | None \<Rightarrow> []) items)
      | _ \<Rightarrow> [])"

definition overlapCount :: "string list \<Rightarrow> string list \<Rightarrow> int" where
  "overlapCount left right = int (length (filter (\<lambda>t. t \<in> set right) left))"

fun overlapLoop :: "string list \<Rightarrow> int \<Rightarrow> int \<Rightarrow> int \<Rightarrow> string list \<Rightarrow> int" where
  "overlapLoop docTokens weight capScore score [] = score"
| "overlapLoop docTokens weight capScore score (t # ts) =
     (if t \<in> set docTokens
      then if score + weight \<ge> capScore then capScore else overlapLoop docTokens weight capScore (score + weight) ts
      else overlapLoop docTokens weight capScore score ts)"

definition overlapScore :: "string list \<Rightarrow> string list \<Rightarrow> int \<Rightarrow> int \<Rightarrow> int" where
  "overlapScore queryTokens docTokens weight capScore =
     (if queryTokens = [] \<or> docTokens = [] \<or> weight \<le> 0 \<or> capScore \<le> 0 then 0
      else overlapLoop docTokens weight capScore 0 queryTokens)"

definition exactFieldBoost :: "string \<Rightarrow> string \<Rightarrow> int \<Rightarrow> int" where
  "exactFieldBoost queryLower value weight =
     (if queryLower = [] \<or> value = [] \<or> weight \<le> 0 then 0 else if contains value queryLower then weight else 0)"

subsection \<open>Source scopes\<close>

abbreviation KnowledgeSourceBase :: string where "KnowledgeSourceBase \<equiv> ''upload://''"

text \<open>\<open>hash8\<close> is the hexadecimal form of the first eight bytes of a text's SHA-256.\<close>

definition KnowledgeSourcePrefixForUser :: "(string \<Rightarrow> string) \<Rightarrow> string \<Rightarrow> string" where
  "KnowledgeSourcePrefixForUser hash8 userID0 =
     (let userID = trim_space userID0
      in if userID = [] then KnowledgeSourceBase else KnowledgeSourceBase @ ''users/'' @ hash8 userID @ ''/'')"

text \<open>A scope is the prefix of the sources of a user, \<open>None\<close> if it is not enabled.\<close>

definition sourceScopeFromContext :: "(string \<Rightarrow> string) \<Rightarrow> string \<Rightarrow> string option" where
  "sourceScopeFromContext hash8 userID =
     (let p = KnowledgeSourcePrefixForUser hash8 userID in if p = KnowledgeSourceBase then None else Some p)"

definition sourceAllowedByScope :: "string \<Rightarrow> string option \<Rightarrow> bool" where
  "sourceAllowedByScope source0 scope =
     (case scope of
        None \<Rightarrow> True
      | Some p \<Rightarrow>
          (let source = trim_space source0
           in if source = [] then True
              else if prefix p source then True
              else if prefix (KnowledgeSourceBase @ ''users/'') source then False
              else True))"

definition filterDocsBySourceScope :: "rag_document option list \<Rightarrow> string option \<Rightarrow> rag_document option list" where
  "filterDocsBySourceScope docs scope =
     (if scope = None \<or> docs = [] then docs
      else filter (\<lambda>doc. case doc of None \<Rightarrow> True
                         | Some d \<Rightarrow> sourceAllowedByScope (metadataString (rd_Meta d) ''_source'') scope) docs)"

definition hitSource :: "bm25_hit \<Rightarrow> string" where
  "hitSource hit = trim_space (case gm_get (bh_Meta hit) ''_source'' of Some s \<Rightarrow> s | None \<Rightarrow> [])"

definition filterBM25HitsBySourceScope :: "bm25_hit list \<Rightarrow> string option \<Rightarrow> bm25_hit list" where
  "filterBM25HitsBySourceScope hits scope =
     (if scope = None \<or> hits = [] then hits else filter (\<lambda>hit. sourceAllowedByScope (hitSource hit) scope) hits)"

end
