(* ===== verification/Rag_Intent.thy ===== *)
theory Rag_Intent
  imports Rag_Docs
begin

text \<open>
  What a query wants and what it does not want (internal/ai/rag/query\_intent.go): a query of the form \<open>A instead of B\<close>
  is split at the connector into terms that are wanted and terms that are excluded. The position of the connector is
  that in the lower-cased query but is used to cut the query itself; a cut beyond its end is a panic, \<open>None\<close>.
\<close>

text \<open>\<open>strings.Index\<close>, the needle first, and the slices \<open>s[:i]\<close> and \<open>s[i:]\<close>, \<open>None\<close> out of range.\<close>

fun str_index :: "string \<Rightarrow> string \<Rightarrow> int" where
  "str_index sub [] = (if sub = [] then 0 else -1)"
| "str_index sub (c # cs) =
     (if prefix sub (c # cs) then 0 else let i = str_index sub cs in if i < 0 then -1 else i + 1)"

definition sliceTo :: "string \<Rightarrow> int \<Rightarrow> string option" where
  "sliceTo s i = (if 0 \<le> i \<and> i \<le> int (length s) then Some (take (nat i) s) else None)"

definition sliceFrom :: "string \<Rightarrow> int \<Rightarrow> string option" where
  "sliceFrom s i = (if 0 \<le> i \<and> i \<le> int (length s) then Some (drop (nat i) s) else None)"

text \<open>\<open>strings.Trim\<close> by a set of runes, \<open>strings.TrimPrefix\<close> and \<open>strings.TrimSuffix\<close>.\<close>

definition trim_set :: "string list \<Rightarrow> string \<Rightarrow> string" where
  "trim_set rs s = rev (trim_by (map rev rs) (rev (trim_by rs s)))"

definition trim_prefix :: "string \<Rightarrow> string \<Rightarrow> string" where
  "trim_prefix p s = (if prefix p s then drop (length p) s else s)"

definition trim_suffix :: "string \<Rightarrow> string \<Rightarrow> string" where
  "trim_suffix p s = (if suffix p s then take (length s - length p) s else s)"

subsection \<open>Intents\<close>

record query_intent =
  qi_PositiveTerms :: "string list"
  qi_ExcludedTerms :: "string list"
  qi_Rule :: string
  qi_ContrastClause :: string

definition noIntent :: query_intent where
  "noIntent = \<lparr>qi_PositiveTerms = [], qi_ExcludedTerms = [], qi_Rule = [], qi_ContrastClause = []\<rparr>"

definition intentCueTerms :: "string list" where \<comment> \<open>words that introduce a wish\<close>
  "intentCueTerms =
     [[CHR 0xE4, CHR 0xBA, CHR 0x86, CHR 0xE8, CHR 0xA7, CHR 0xA3],
      [CHR 0xE6, CHR 0x9F, CHR 0xA5, CHR 0xE8, CHR 0xAF, CHR 0xA2],
      [CHR 0xE8, CHR 0xAE, CHR 0xA8, CHR 0xE8, CHR 0xAE, CHR 0xBA],
      [CHR 0xE5, CHR 0x8F, CHR 0xAA, CHR 0xE6, CHR 0x83, CHR 0xB3],
      [CHR 0xE5, CHR 0x8F, CHR 0xAA, CHR 0xE6, CHR 0x9F, CHR 0xA5],
      [CHR 0xE5, CHR 0x8F, CHR 0xAA, CHR 0xE8, CHR 0xAE, CHR 0xA8, CHR 0xE8, CHR 0xAE, CHR 0xBA],
      [CHR 0xE6, CHR 0x88, CHR 0x91, CHR 0xE5, CHR 0x8F, CHR 0xAA],
      [CHR 0xE6, CHR 0x83, CHR 0xB3, CHR 0xE7, CHR 0x9C, CHR 0x8B],
      [CHR 0xE6, CHR 0x88, CHR 0x91, CHR 0xE6, CHR 0x83, CHR 0xB3],
      [CHR 0xE6, CHR 0x9A, CHR 0x82, CHR 0xE6, CHR 0x97, CHR 0xB6],
      ''please'',
      ''show'']"

definition intentPrefixes :: "string list" where \<comment> \<open>beginnings that are cut off\<close>
  "intentPrefixes =
     [[CHR 0xE6, CHR 0x88, CHR 0x91, CHR 0xE5, CHR 0x8F, CHR 0xAA, CHR 0xE6, CHR 0x83, CHR 0xB3],
      [CHR 0xE6, CHR 0x88, CHR 0x91, CHR 0xE5, CHR 0x8F, CHR 0xAA, CHR 0xE6, CHR 0x9F, CHR 0xA5],
      [CHR 0xE6, CHR 0x88, CHR 0x91, CHR 0xE5, CHR 0x8F, CHR 0xAA, CHR 0xE8, CHR 0xAE, CHR 0xA8, CHR
       0xE8, CHR 0xAE, CHR 0xBA],
      [CHR 0xE5, CHR 0x8F, CHR 0xAA, CHR 0xE6, CHR 0x83, CHR 0xB3],
      [CHR 0xE5, CHR 0x8F, CHR 0xAA, CHR 0xE6, CHR 0x9F, CHR 0xA5],
      [CHR 0xE5, CHR 0x8F, CHR 0xAA, CHR 0xE8, CHR 0xAE, CHR 0xA8, CHR 0xE8, CHR 0xAE, CHR 0xBA],
      [CHR 0xE6, CHR 0x88, CHR 0x91, CHR 0xE6, CHR 0x83, CHR 0xB3],
      [CHR 0xE6, CHR 0x83, CHR 0xB3, CHR 0xE7, CHR 0x9C, CHR 0x8B],
      ''please show'']"

definition intentSuffixes :: "string list" where \<comment> \<open>endings that are cut off\<close>
  "intentSuffixes =
     [[CHR 0xE6, CHR 0x9A, CHR 0x82, CHR 0xE6, CHR 0x97, CHR 0xB6],
      [CHR 0xE4, CHR 0xB8, CHR 0x80, CHR 0xE4, CHR 0xB8, CHR 0x8B]]"

definition intentCutset :: "string list" where \<comment> \<open>white space and punctuation\<close>
  "intentCutset =
     ['' '',
      [CHR 0x09],
      [CHR 0x0D],
      [CHR 0x0A],
      [CHR 0xEF, CHR 0xBC, CHR 0x8C],
      [CHR 0xE3, CHR 0x80, CHR 0x82],
      [CHR 0xEF, CHR 0xBC, CHR 0x81],
      [CHR 0xEF, CHR 0xBC, CHR 0x9F],
      [CHR 0xEF, CHR 0xBC, CHR 0x9B],
      [CHR 0xEF, CHR 0xBC, CHR 0x9A],
      '','',
      ''.'',
      ''!'',
      ''?'',
      '';'',
      '':'']"

definition connectorsOf :: "rag_env \<Rightarrow> string list \<Rightarrow> string list" where
  "connectorsOf rg connectors = filter (\<lambda>c. c \<noteq> []) (map (normalizeValue rg) connectors)"

definition containsIntentConnector :: "rag_env \<Rightarrow> string \<Rightarrow> string list \<Rightarrow> bool" where
  "containsIntentConnector rg value connectors \<longleftrightarrow>
     list_ex (\<lambda>c. contains c (rg_lower rg value)) (connectorsOf rg connectors)"

definition trimIntentCue :: "rag_env \<Rightarrow> string \<Rightarrow> string" where
  "trimIntentCue rg value =
     (let v0 = trim_set intentCutset value;
          v1 = fold (\<lambda>p v. trim_space (trim_prefix p (rg_lower rg v))) intentPrefixes v0;
          v2 = fold (\<lambda>p v. trim_space (trim_suffix p v)) intentSuffixes v1
      in trim_set intentCutset v2)"

text \<open>The terms of a text, at most \<open>maxTerms\<close>; \<open>out\<close> is what is taken so far.\<close>

fun intentTermLoop :: "rag_env \<Rightarrow> int \<Rightarrow> string list \<Rightarrow> string list \<Rightarrow> string list" where
  "intentTermLoop rg maxTerms out [] = out"
| "intentTermLoop rg maxTerms out (t # ts) =
     (let token = normalizeValue rg t
      in if token = [] \<or> length (runes token) = 1 \<or> token \<in> set RetrievalStopwords \<or> token \<in> set intentCueTerms \<or>
            token \<in> set out
         then intentTermLoop rg maxTerms out ts
         else if int (length out) + 1 = maxTerms then out @ [token]
         else intentTermLoop rg maxTerms (out @ [token]) ts)"

definition intentTerms :: "rag_env \<Rightarrow> string \<Rightarrow> int \<Rightarrow> string list" where
  "intentTerms rg value maxTerms =
     (if maxTerms \<le> 0 then [] else intentTermLoop rg maxTerms [] (BM25Tokenize (rg_lower rg) value))"

definition removeSharedIntentTerms :: "string list \<Rightarrow> string list \<Rightarrow> string list \<times> string list" where
  "removeSharedIntentTerms positive excluded =
     (filter (\<lambda>t. t \<notin> set excluded) positive, filter (\<lambda>t. t \<notin> set positive) excluded)"

text \<open>The connectors found with their positions, the leftmost first and of those at one position the longest.\<close>

definition connectorMatches :: "rag_env \<Rightarrow> string list \<Rightarrow> string \<Rightarrow> (string \<times> int) list" where
  "connectorMatches rg connectors query =
     sort_slice (\<lambda>a b. if snd a = snd b then length (fst a) > length (fst b) else snd a < snd b)
       (filter (\<lambda>m. snd m \<ge> 0) (map (\<lambda>c. (c, str_index c (rg_lower rg query))) (connectorsOf rg connectors)))"

definition intentOf :: "rag_env \<Rightarrow> string list \<Rightarrow> int \<Rightarrow> string \<Rightarrow> string \<Rightarrow> string \<Rightarrow> query_intent" where
  "intentOf rg connectors maxTerms connector left0 right0 =
     (let left = trim_space left0; right = trim_space right0
      in if left = [] \<or> right = [] \<or> containsIntentConnector rg left connectors \<or> containsIntentConnector rg right connectors
         then noIntent
         else (let l = trimIntentCue rg left; r = trimIntentCue rg right;
                   (positive, excluded) = removeSharedIntentTerms (intentTerms rg l maxTerms) (intentTerms rg r maxTerms)
               in if positive = [] \<or> excluded = [] then noIntent
                  else \<lparr>qi_PositiveTerms = positive, qi_ExcludedTerms = excluded, qi_Rule = ''contrast:'' @ connector,
                        qi_ContrastClause = trim_space r\<rparr>))"

definition ParseQueryIntent :: "rag_env \<Rightarrow> string list \<Rightarrow> int \<Rightarrow> string \<Rightarrow> query_intent option" where
  "ParseQueryIntent rg connectors maxTerms query0 =
     (let query = trim_space query0
      in if query = [] \<or> connectors = [] then Some noIntent
         else (case connectorMatches rg connectors query of
                 [] \<Rightarrow> Some noIntent
               | (connector, position) # _ \<Rightarrow>
                   (case (sliceTo query position, sliceFrom query (position + int (length connector))) of
                      (Some left, Some right) \<Rightarrow> Some (intentOf rg connectors maxTerms connector left right)
                    | _ \<Rightarrow> None)))"

end
