(* ===== verification/Rag_Refine.thy ===== *)
theory Rag_Refine
  imports Rag_Intent
begin

text \<open>
  Ordering the documents of a retrieval by what they say of the query (internal/ai/rag/retrieve\_refine.go, the scores of
  query\_intent.go and the configuration of hybrid.go) and choosing the final ones so that they cover its words. The
  source writes positions and scores into the metadata of the documents; so does the model.
\<close>

subsection \<open>Configuration\<close>

record hybrid_config =
  hc_DenseTopK :: int
  hc_LexicalTopK :: int
  hc_FusionK :: int
  hc_CandidateTopK :: int
  hc_FinalTopK :: int
  hc_DenseWeight :: f64
  hc_LexicalWeight :: f64
  hc_MetadataBoostEnabled :: bool
  hc_KnowledgeFieldBoostEnabled :: bool
  hc_KnowledgeDocIDBoost :: int
  hc_KnowledgeTitleBoost :: int
  hc_KnowledgeTagsBoost :: int
  hc_KnowledgeProviderBoost :: int
  hc_KnowledgeFieldBoostCap :: int
  hc_CoverageEnabled :: bool
  hc_CoverageMaxPositionGain :: int
  hc_IntentRefinementEnabled :: bool
  hc_IntentConnectors :: "string list"
  hc_IntentMaxTerms :: int
  hc_IntentPositiveBonus :: int
  hc_IntentExcludedPenalty :: int

text \<open>What the configuration answers for a key, \<open>None\<close> for an error. A missing value reads as 0, false or no text.\<close>

record config_reader =
  cn_int :: "string \<Rightarrow> int option"
  cn_num :: "string \<Rightarrow> f64 option"
  cn_bool :: "string \<Rightarrow> bool option"
  cn_texts :: "string \<Rightarrow> string list option"

definition readPositiveInt :: "config_reader \<Rightarrow> string \<Rightarrow> int \<Rightarrow> int" where
  "readPositiveInt cn key target = (case cn_int cn key of Some v \<Rightarrow> if v > 0 then v else target | None \<Rightarrow> target)"

definition readBool :: "config_reader \<Rightarrow> string \<Rightarrow> bool \<Rightarrow> bool" where
  "readBool cn key target = (case cn_bool cn key of Some v \<Rightarrow> v | None \<Rightarrow> target)"

definition readWeight :: "config_reader \<Rightarrow> string \<Rightarrow> f64 \<Rightarrow> f64" where
  "readWeight cn key target = (case cn_num cn key of Some v \<Rightarrow> if v \<ge> 0 then v else target | None \<Rightarrow> target)"

definition defaultConnectors :: "string list" where \<comment> \<open>words between what is wanted and what is not\<close>
  "defaultConnectors =
     [[CHR 0xE8, CHR 0x80, CHR 0x8C, CHR 0xE4, CHR 0xB8, CHR 0x8D, CHR 0xE6, CHR 0x98, CHR 0xAF],
      [CHR 0xE4, CHR 0xB8, CHR 0x8D, CHR 0xE9, CHR 0x9C, CHR 0x80, CHR 0xE8, CHR 0xA6, CHR 0x81],
      [CHR 0xE4, CHR 0xB8, CHR 0x8D, CHR 0xE6, CHR 0x89, CHR 0xA7, CHR 0xE8, CHR 0xA1, CHR 0x8C],
      [CHR 0xE4, CHR 0xB8, CHR 0x8D, CHR 0xE6, CHR 0x98, CHR 0xAF],
      ''instead of'']"

definition baseHybridConfig :: "int \<Rightarrow> hybrid_config" where
  "baseHybridConfig topK =
     \<lparr>hc_DenseTopK = 50, hc_LexicalTopK = 50, hc_FusionK = 60, hc_CandidateTopK = topK, hc_FinalTopK = topK,
      hc_DenseWeight = 1, hc_LexicalWeight = 1, hc_MetadataBoostEnabled = True, hc_KnowledgeFieldBoostEnabled = False,
      hc_KnowledgeDocIDBoost = 8, hc_KnowledgeTitleBoost = 6, hc_KnowledgeTagsBoost = 4, hc_KnowledgeProviderBoost = 2,
      hc_KnowledgeFieldBoostCap = 12, hc_CoverageEnabled = False, hc_CoverageMaxPositionGain = 2,
      hc_IntentRefinementEnabled = False, hc_IntentConnectors = defaultConnectors, hc_IntentMaxTerms = 8,
      hc_IntentPositiveBonus = 4, hc_IntentExcludedPenalty = 8\<rparr>"

text \<open>\<open>override\<close> is the configuration put into the context, if any.\<close>

definition DefaultHybridConfig :: "config_reader \<Rightarrow> int \<Rightarrow> hybrid_config option \<Rightarrow> hybrid_config" where
  "DefaultHybridConfig cn topK override =
     (case override of
        Some cfg \<Rightarrow> cfg
      | None \<Rightarrow>
          (let cfg = baseHybridConfig topK;
               dw = readWeight cn ''rag.hybrid_dense_weight'' (hc_DenseWeight cfg);
               lw = readWeight cn ''rag.hybrid_lexical_weight'' (hc_LexicalWeight cfg);
               (dw1, lw1) = (if dw = 0 \<and> lw = 0 then (1, 1) else (dw, lw));
               connectors = (case cn_texts cn ''rag.intent_connectors'' of Some (c # cs) \<Rightarrow> c # cs | _ \<Rightarrow> hc_IntentConnectors cfg)
           in \<lparr>hc_DenseTopK = readPositiveInt cn ''rag.hybrid_dense_top_k'' (hc_DenseTopK cfg),
               hc_LexicalTopK = readPositiveInt cn ''rag.hybrid_lexical_top_k'' (hc_LexicalTopK cfg),
               hc_FusionK = readPositiveInt cn ''rag.hybrid_fusion_k'' (hc_FusionK cfg),
               hc_CandidateTopK = readPositiveInt cn ''rag.hybrid_candidate_top_k'' (hc_CandidateTopK cfg),
               hc_FinalTopK = readPositiveInt cn ''rag.hybrid_final_top_k'' (hc_FinalTopK cfg),
               hc_DenseWeight = dw1, hc_LexicalWeight = lw1,
               hc_MetadataBoostEnabled = readBool cn ''rag.hybrid_metadata_boost_enabled'' (hc_MetadataBoostEnabled cfg),
               hc_KnowledgeFieldBoostEnabled = readBool cn ''rag.knowledge_field_boost_enabled'' (hc_KnowledgeFieldBoostEnabled cfg),
               hc_KnowledgeDocIDBoost = readPositiveInt cn ''rag.knowledge_doc_id_boost'' (hc_KnowledgeDocIDBoost cfg),
               hc_KnowledgeTitleBoost = readPositiveInt cn ''rag.knowledge_title_boost'' (hc_KnowledgeTitleBoost cfg),
               hc_KnowledgeTagsBoost = readPositiveInt cn ''rag.knowledge_tags_boost'' (hc_KnowledgeTagsBoost cfg),
               hc_KnowledgeProviderBoost = readPositiveInt cn ''rag.knowledge_provider_boost'' (hc_KnowledgeProviderBoost cfg),
               hc_KnowledgeFieldBoostCap = readPositiveInt cn ''rag.knowledge_field_boost_cap'' (hc_KnowledgeFieldBoostCap cfg),
               hc_CoverageEnabled = readBool cn ''rag.coverage_enabled'' (hc_CoverageEnabled cfg),
               hc_CoverageMaxPositionGain = readPositiveInt cn ''rag.coverage_max_position_gain'' (hc_CoverageMaxPositionGain cfg),
               hc_IntentRefinementEnabled = readBool cn ''rag.intent_refinement_enabled'' (hc_IntentRefinementEnabled cfg),
               hc_IntentConnectors = connectors,
               hc_IntentMaxTerms = readPositiveInt cn ''rag.intent_max_terms'' (hc_IntentMaxTerms cfg),
               hc_IntentPositiveBonus = readPositiveInt cn ''rag.intent_positive_bonus'' (hc_IntentPositiveBonus cfg),
               hc_IntentExcludedPenalty = readPositiveInt cn ''rag.intent_excluded_penalty'' (hc_IntentExcludedPenalty cfg)\<rparr>))"

subsection \<open>Profiles and scores\<close>

record query_profile =
  qp_rawLower :: string
  qp_tokens :: "string list"

record doc_profile =
  dp_contentTokens :: "string list"
  dp_documentID :: string
  dp_title :: string
  dp_provider :: string
  dp_titleTokens :: "string list"
  dp_tagTokens :: "string list"
  dp_providerTokens :: "string list"
  dp_service :: string
  dp_instanceType :: string
  dp_source :: string
  dp_destination :: string
  dp_serviceTokens :: "string list"
  dp_podTokens :: "string list"
  dp_nodeTokens :: "string list"
  dp_namespaceTokens :: "string list"
  dp_metricNames :: "string list"
  dp_traceServices :: "string list"
  dp_traceOperations :: "string list"

definition buildRetrievalQueryProfile :: "rag_env \<Rightarrow> string \<Rightarrow> query_profile" where
  "buildRetrievalQueryProfile rg query =
     \<lparr>qp_rawLower = rg_lower rg (trim_space query), qp_tokens = tokenizeToSet rg query\<rparr>"

definition buildRetrievalDocProfile :: "rag_env \<Rightarrow> rag_document \<Rightarrow> doc_profile" where
  "buildRetrievalDocProfile rg doc =
     (let meta = rd_Meta doc; text1 = stringMetadata meta; norm = (\<lambda>k. normalizeValue rg (stringMetadata meta k));
          tokens = (\<lambda>k. anySliceToSet rg (gm_get meta k));
          title = firstStringMetadata meta [''title'', ''file_name'', ''filename'']
      in \<lparr>dp_contentTokens = tokenizeToSet rg (rd_Content doc),
          dp_documentID = normalizeValue rg (firstStringMetadata meta [''knowledge_doc_id'', ''doc_id'', ''case_id'']),
          dp_title = normalizeValue rg title, dp_provider = norm ''provider'', dp_titleTokens = tokenizeToSet rg title,
          dp_tagTokens = tokens ''tags'', dp_providerTokens = tokenizeToSet rg (text1 ''provider''),
          dp_service = norm ''service'', dp_instanceType = norm ''instance_type'', dp_source = norm ''source'',
          dp_destination = norm ''destination'',
          dp_serviceTokens = mergeTokenSets [tokenizeToSet rg (text1 ''service''), tokens ''service_tokens''],
          dp_podTokens = tokens ''pod_tokens'', dp_nodeTokens = tokens ''node_tokens'',
          dp_namespaceTokens = tokens ''namespace_tokens'', dp_metricNames = tokens ''metric_names'',
          dp_traceServices = tokens ''trace_services'', dp_traceOperations = tokens ''trace_operations''\<rparr>)"

definition scoreRetrievedDocument :: "rag_env \<Rightarrow> query_profile \<Rightarrow> rag_document \<Rightarrow> nat \<Rightarrow> nat \<Rightarrow> int" where
  "scoreRetrievedDocument rg query doc idx n =
     (let p = buildRetrievalDocProfile rg doc; q = qp_tokens query; raw = qp_rawLower query
      in (int n - int idx) * 2 +
         overlapScore q (dp_contentTokens p) 1 6 + overlapScore q (dp_metricNames p) 3 9 +
         overlapScore q (dp_traceOperations p) 3 9 + overlapScore q (dp_traceServices p) 3 6 +
         overlapScore q (dp_serviceTokens p) 4 12 + overlapScore q (dp_podTokens p) 4 12 +
         overlapScore q (dp_nodeTokens p) 4 12 + overlapScore q (dp_namespaceTokens p) 2 4 +
         exactFieldBoost raw (dp_service p) 8 + exactFieldBoost raw (dp_instanceType p) 5 +
         exactFieldBoost raw (dp_source p) 6 + exactFieldBoost raw (dp_destination p) 6)"

text \<open>The boost of the fields of a document, with the names of the fields that match.\<close>

definition knowledgeFieldScore :: "rag_env \<Rightarrow> query_profile \<Rightarrow> rag_document \<Rightarrow> hybrid_config \<Rightarrow> int \<times> string list" where
  "knowledgeFieldScore rg query doc cfg =
     (if \<not> hc_KnowledgeFieldBoostEnabled cfg then (0, [])
      else (let p = buildRetrievalDocProfile rg doc; q = qp_tokens query; raw = qp_rawLower query;
                idBoost = (if exactFieldBoost raw (dp_documentID p) (hc_KnowledgeDocIDBoost cfg) > 0
                           then (hc_KnowledgeDocIDBoost cfg, [''document_id'']) else (0, []));
                titleBoost = (if exactFieldBoost raw (dp_title p) (hc_KnowledgeTitleBoost cfg) > 0 then hc_KnowledgeTitleBoost cfg
                              else min (hc_KnowledgeTitleBoost cfg) (overlapCount q (dp_titleTokens p) * 2));
                title = (if titleBoost > 0 then (titleBoost, [''title'']) else (0, []));
                tagOverlap = overlapCount q (dp_tagTokens p);
                tags = (if tagOverlap > 0 then (min (hc_KnowledgeTagsBoost cfg) (tagOverlap * hc_KnowledgeTagsBoost cfg), [''tags''])
                        else (0, []));
                provider = (if overlapCount q (dp_providerTokens p) > 0 \<or>
                               exactFieldBoost raw (dp_provider p) (hc_KnowledgeProviderBoost cfg) > 0
                            then (hc_KnowledgeProviderBoost cfg, [''provider'']) else (0, []));
                score = fst idBoost + fst title + fst tags + fst provider
            in (if hc_KnowledgeFieldBoostCap cfg > 0 \<and> score > hc_KnowledgeFieldBoostCap cfg then hc_KnowledgeFieldBoostCap cfg else score,
                snd idBoost @ snd title @ snd tags @ snd provider)))"

definition documentCoverageTokens :: "rag_env \<Rightarrow> rag_document \<Rightarrow> string list" where
  "documentCoverageTokens rg doc =
     (let p = buildRetrievalDocProfile rg doc
      in mergeTokenSets [dp_contentTokens p, dp_titleTokens p, dp_tagTokens p, dp_providerTokens p,
                         tokenizeToSet rg (dp_documentID p)])"

record intent_score =
  is_positiveHits :: "string list"
  is_excludedHits :: "string list"
  is_bonus :: int
  is_penalty :: int

definition matchingTerms :: "string list \<Rightarrow> string list \<Rightarrow> string list" where
  "matchingTerms terms tokens = filter (\<lambda>t. t \<in> set tokens) terms"

definition intentDocumentTokens :: "rag_env \<Rightarrow> rag_document \<Rightarrow> string list" where
  "intentDocumentTokens rg doc =
     (let p = buildRetrievalDocProfile rg doc;
          values = [rd_Content doc, dp_documentID p, dp_title p, dp_provider p,
                    firstStringMetadata (rd_Meta doc) [''tags'', ''service'', ''source'', ''destination'']];
          words = concat (map (BM25Tokenize (rg_lower rg)) values)
      in map (normalizeValue rg) (filter (\<lambda>t. length (runes t) > 1) words) @ documentCoverageTokens rg doc)"

definition scoreDocumentIntent :: "rag_env \<Rightarrow> query_intent \<Rightarrow> rag_document \<Rightarrow> hybrid_config \<Rightarrow> intent_score" where
  "scoreDocumentIntent rg intent doc cfg =
     (if qi_Rule intent = [] then \<lparr>is_positiveHits = [], is_excludedHits = [], is_bonus = 0, is_penalty = 0\<rparr>
      else (let tokens = intentDocumentTokens rg doc;
                positive = matchingTerms (qi_PositiveTerms intent) tokens;
                excluded = matchingTerms (qi_ExcludedTerms intent) tokens
            in \<lparr>is_positiveHits = positive, is_excludedHits = excluded,
                is_bonus = (if positive \<noteq> [] then min (hc_IntentPositiveBonus cfg) (int (length positive)) else 0),
                is_penalty = (if positive = [] \<and> excluded \<noteq> []
                              then min (hc_IntentExcludedPenalty cfg) (int (length excluded) * 2) else 0)\<rparr>))"

subsection \<open>Refining\<close>

record intent_trace =
  nt_Parsed :: bool
  nt_Applied :: bool
  nt_Rule :: string
  nt_PositiveTerms :: "string list"
  nt_ExcludedTerms :: "string list"
  nt_PenalizedDocs :: int

definition noTrace :: intent_trace where
  "noTrace = \<lparr>nt_Parsed = False, nt_Applied = False, nt_Rule = [], nt_PositiveTerms = [], nt_ExcludedTerms = [], nt_PenalizedDocs = 0\<rparr>"

definition intentTraceOf :: "query_intent \<Rightarrow> intent_trace" where
  "intentTraceOf intent =
     \<lparr>nt_Parsed = (qi_Rule intent \<noteq> []), nt_Applied = False, nt_Rule = qi_Rule intent,
      nt_PositiveTerms = qi_PositiveTerms intent, nt_ExcludedTerms = qi_ExcludedTerms intent, nt_PenalizedDocs = 0\<rparr>"

record scored_document =
  sd_doc :: rag_document
  sd_score :: int
  sd_fieldBoost :: int
  sd_fieldMatches :: "string list"
  sd_intent :: intent_score
  sd_idx :: nat

definition scoreDocument ::
  "rag_env \<Rightarrow> query_profile \<Rightarrow> query_intent \<Rightarrow> hybrid_config \<Rightarrow> nat \<Rightarrow> nat \<times> rag_document \<Rightarrow> scored_document" where
  "scoreDocument rg profile intent cfg n = (\<lambda>(idx, doc).
     (let (fieldBoost, fieldMatches) = knowledgeFieldScore rg profile doc cfg; si = scoreDocumentIntent rg intent doc cfg
      in \<lparr>sd_doc = doc,
          sd_score = scoreRetrievedDocument rg profile doc idx n + fieldBoost + is_bonus si - is_penalty si,
          sd_fieldBoost = fieldBoost, sd_fieldMatches = fieldMatches, sd_intent = si, sd_idx = idx\<rparr>))"

definition annotateRefined :: "intent_trace \<Rightarrow> nat \<times> scored_document \<Rightarrow> rag_document" where
  "annotateRefined trace = (\<lambda>(position, item).
     (let d0 = setMeta ''_trace_refine_position'' (MInt (int position + 1)) (sd_doc item);
          d1 = (if sd_fieldBoost item > 0
                then setMeta ''_trace_field_matches'' (MStrs (sd_fieldMatches item))
                       (setMeta ''_trace_field_boost'' (MNum (f64_of_int (sd_fieldBoost item))) d0)
                else d0);
          si = sd_intent item
      in if nt_Parsed trace
         then setMeta ''_trace_intent_net_score'' (MNum (f64_of_int (is_bonus si - is_penalty si)))
               (setMeta ''_trace_intent_penalty'' (MNum (f64_of_int (is_penalty si)))
                 (setMeta ''_trace_intent_bonus'' (MNum (f64_of_int (is_bonus si)))
                   (setMeta ''_trace_intent_excluded_hits'' (MStrs (is_excludedHits si))
                     (setMeta ''_trace_intent_positive_hits'' (MStrs (is_positiveHits si))
                       (setMeta ''_trace_intent_rule'' (MStr (nt_Rule trace)) d1)))))
         else d1))"

definition annotateFinalPositions :: "rag_document list \<Rightarrow> rag_document list" where
  "annotateFinalPositions docs =
     map (\<lambda>(position, doc). setMeta ''_trace_final_position'' (MInt (int position + 1)) doc) (enumerate 0 docs)"

definition scoredLess :: "scored_document \<Rightarrow> scored_document \<Rightarrow> bool" where
  "scoredLess a b \<longleftrightarrow> (if sd_score a = sd_score b then sd_idx a < sd_idx b else sd_score a > sd_score b)"

text \<open>\<open>None\<close> is the panic of parsing the intent.\<close>

definition refineRetrievedDocsWithTrace ::
  "rag_env \<Rightarrow> string \<Rightarrow> rag_document list \<Rightarrow> hybrid_config \<Rightarrow> (rag_document list \<times> intent_trace) option" where
  "refineRetrievedDocsWithTrace rg query docs cfg =
     (case (if hc_IntentRefinementEnabled cfg then ParseQueryIntent rg (hc_IntentConnectors cfg) (hc_IntentMaxTerms cfg) query
            else Some noIntent) of
        None \<Rightarrow> None
      | Some intent \<Rightarrow>
          (let trace = (if hc_IntentRefinementEnabled cfg then intentTraceOf intent else noTrace);
               profile = buildRetrievalQueryProfile rg query
           in if length docs \<le> 1 then Some (annotateFinalPositions docs, trace)
              else if qp_tokens profile = [] \<and> trim_space (qp_rawLower profile) = [] then Some (docs, trace)
              else (let scored = map (scoreDocument rg profile intent cfg (length docs)) (enumerate 0 docs);
                        trace1 = trace\<lparr>nt_Applied := list_ex (\<lambda>s. is_bonus (sd_intent s) > 0 \<or> is_penalty (sd_intent s) > 0) scored,
                                       nt_PenalizedDocs := int (length (filter (\<lambda>s. is_penalty (sd_intent s) > 0) scored))\<rparr>
                    in Some (map (annotateRefined trace1) (enumerate 0 (sort_slice scoredLess scored)), trace1))))"

definition trimRetrievedDocs :: "rag_document list \<Rightarrow> int \<Rightarrow> rag_document list" where
  "trimRetrievedDocs docs topK = (if topK \<le> 0 \<or> int (length docs) \<le> topK then docs else take (nat topK) docs)"

subsection \<open>Choosing the final documents\<close>

definition newCoverageCount :: "rag_env \<Rightarrow> string list \<Rightarrow> string list \<Rightarrow> rag_document \<Rightarrow> int" where
  "newCoverageCount rg queryTokens covered doc =
     int (length (filter (\<lambda>t. t \<in> set queryTokens \<and> t \<notin> set covered) (documentCoverageTokens rg doc)))"

definition addCoveredTokens :: "rag_env \<Rightarrow> string list \<Rightarrow> rag_document \<Rightarrow> string list \<Rightarrow> string list" where
  "addCoveredTokens rg queryTokens doc covered =
     filter (\<lambda>t. t \<in> set queryTokens) (documentCoverageTokens rg doc) @ covered"

text \<open>The first of the candidates that adds most words; \<open>gains\<close> are those of the documents that may move up.\<close>

definition bestIndex :: "int list \<Rightarrow> nat" where
  "bestIndex gains =
     fst (fold (\<lambda>(i, gain) (bi, bg). if gain > bg then (i, gain) else (bi, bg)) (enumerate 1 (tl gains)) (0, hd gains))"

fun coverLoop :: "rag_env \<Rightarrow> int \<Rightarrow> string list \<Rightarrow> nat \<Rightarrow> string list \<Rightarrow> rag_document list \<Rightarrow> rag_document list" where
  "coverLoop rg maxGain queryTokens 0 covered remaining = []"
| "coverLoop rg maxGain queryTokens (Suc k) covered remaining =
     (let maxIndex = min maxGain (int (length remaining) - 1);
          b = bestIndex (map (newCoverageCount rg queryTokens covered) (take (nat (maxIndex + 1)) remaining));
          chosen = (if b > 0 then setMeta ''_trace_coverage_boost'' (MNum (f64_of_int (int b))) (remaining ! b)
                    else remaining ! b)
      in chosen # coverLoop rg maxGain queryTokens k (addCoveredTokens rg queryTokens chosen covered)
                    (take b remaining @ drop (Suc b) remaining))"

definition selectFinalDocs :: "rag_env \<Rightarrow> string \<Rightarrow> rag_document list \<Rightarrow> hybrid_config \<Rightarrow> rag_document list" where
  "selectFinalDocs rg query docs cfg =
     (let topK = (if hc_FinalTopK cfg \<le> 0 then 10 else hc_FinalTopK cfg); queryTokens = tokenizeToSet rg query
      in if \<not> hc_CoverageEnabled cfg \<or> length docs \<le> 1 \<or> length queryTokens < 2
         then annotateFinalPositions (trimRetrievedDocs docs topK)
         else (let k = nat (min topK (int (length docs)))
               in annotateFinalPositions
                    (hd docs # coverLoop rg (hc_CoverageMaxPositionGain cfg) queryTokens (k - 1)
                                 (addCoveredTokens rg queryTokens (hd docs) []) (tl docs))))"

end
