(* ===== verification/Rag_Hybrid.thy ===== *)
theory Rag_Hybrid
  imports Rag_Refine
begin

text \<open>
  The hybrid retrieval (internal/ai/rag/hybrid.go): fusing the documents of the vector store with the hits of the index of
  words, the documents of the index, the source scopes, the identifiers of a trace and the retrieval. What the vector
  store answers and the encoder of numbers are parameters. The two searches run concurrently but only read; they are two
  arguments. A Go map is iterated in insertion order: the source visits the fused documents in an order that changes from
  run to run, so equal scores may come in any order there.
\<close>

subsection \<open>Fusing\<close>

record fused_doc =
  fz_doc :: rag_document
  fz_score :: f64
  fz_denseRank :: int
  fz_lexRank :: int

type_synonym fusion = "(string, fused_doc) gomap"

definition lexHitToDoc :: "bm25_hit \<Rightarrow> rag_document" where
  "lexHitToDoc hit =
     \<lparr>rd_ID = bh_DocID hit, rd_Content = bh_Content hit, rd_Score = 0, rd_Meta = map (\<lambda>(k, v). (k, MStr v)) (bh_Meta hit)\<rparr>"

definition entryFor :: "string \<Rightarrow> rag_document \<Rightarrow> fusion \<Rightarrow> fused_doc" where
  "entryFor k doc byID =
     (case gm_get byID k of Some e \<Rightarrow> e | None \<Rightarrow> \<lparr>fz_doc = doc, fz_score = 0, fz_denseRank = 0, fz_lexRank = 0\<rparr>)"

definition addDense :: "f64 \<Rightarrow> f64 \<Rightarrow> nat \<times> rag_document option \<Rightarrow> fusion \<Rightarrow> fusion" where
  "addDense kf weight = (\<lambda>(i, doc) byID.
     (case doc of
        None \<Rightarrow> byID
      | Some d \<Rightarrow>
          (let k = fusionID d; rank = int i + 1; e = entryFor k d byID
           in if k = [] then byID
              else gm_put k (e\<lparr>fz_denseRank := rank,
                               fz_score := fadd (fz_score e) (fdiv weight (fadd kf (f64_of_int rank)))\<rparr>) byID)))"

definition addLexical :: "f64 \<Rightarrow> f64 \<Rightarrow> nat \<times> bm25_hit \<Rightarrow> fusion \<Rightarrow> fusion" where
  "addLexical kf weight = (\<lambda>(i, hit) byID.
     (let k = bh_DocID hit; rank = int i + 1; e = entryFor k (lexHitToDoc hit) byID
      in if k = [] then byID
         else gm_put k (e\<lparr>fz_lexRank := rank,
                          fz_score := fadd (fz_score e) (fdiv weight (fadd kf (f64_of_int rank)))\<rparr>) byID))"

definition annotateFused :: "nat \<times> fused_doc \<Rightarrow> fused_doc" where
  "annotateFused = (\<lambda>(i, r). r\<lparr>fz_doc :=
     setMeta ''_trace_fusion_position'' (MInt (int i + 1))
       (setMeta ''_trace_fusion_score'' (MNum (fz_score r))
         (setMeta ''_trace_lexical_rank'' (MInt (fz_lexRank r))
           (setMeta ''_trace_dense_rank'' (MInt (fz_denseRank r)) (fz_doc r))))\<rparr>)"

definition fuse :: "rag_document option list \<Rightarrow> bm25_hit list \<Rightarrow> f64 \<Rightarrow> f64 \<Rightarrow> f64 \<Rightarrow> fusion" where
  "fuse denseDocs lexHits kf dw lw =
     fold (addLexical kf lw) (enumerate 0 lexHits) (fold (addDense kf dw) (enumerate 0 denseDocs) [])"

definition rrfFusionWeighted :: "rag_document option list \<Rightarrow> bm25_hit list \<Rightarrow> int \<Rightarrow> f64 \<Rightarrow> f64 \<Rightarrow> fused_doc list" where
  "rrfFusionWeighted denseDocs lexHits k dw lw =
     (let kf = f64_of_int (if k \<le> 0 then 60 else k);
          results = map snd (fuse denseDocs lexHits kf dw lw)
      in map annotateFused (enumerate 0 (sort_slice (\<lambda>a b. fz_score a > fz_score b) results)))"

definition hybridWeights :: "hybrid_config \<Rightarrow> (f64 \<times> f64) option" where
  "hybridWeights cfg =
     (let dw = hc_DenseWeight cfg; lw = hc_LexicalWeight cfg
      in if dw = 0 \<and> lw = 0 then Some (1, 1) else if dw < 0 \<or> lw < 0 then None else Some (dw, lw))"

subsection \<open>The documents of the index\<close>

definition bm25TextKeys :: "string list" where
  "bm25TextKeys =
     [''case_id'', ''caseid'', ''doc_id'', ''knowledge_doc_id'', ''_source'', ''source'', ''source_uri'', ''file_path'',
      ''file_name'', ''filename'', ''title'', ''provider'', ''service'', ''instance_type'', ''destination'']"

definition bm25ListKeys :: "string list" where
  "bm25ListKeys =
     [''tags'', ''service_tokens'', ''metric_names'', ''trace_operations'', ''trace_services'', ''log_keywords'',
      ''pod_tokens'', ''node_tokens'']"

definition listText :: "meta_value option \<Rightarrow> string option" where
  "listText v =
     (case v of
        Some (MStrs items) \<Rightarrow> Some (join '' '' items)
      | Some (MAnys items) \<Rightarrow>
          (let parts = concat (map (\<lambda>i. case i of Some s \<Rightarrow> [s] | None \<Rightarrow> []) items)
           in if parts = [] then None else Some (join '' '' parts))
      | _ \<Rightarrow> None)"

definition extractBM25Meta :: "rag_document \<Rightarrow> (string, string) gomap" where
  "extractBM25Meta doc =
     (let m = rd_Meta doc
      in concat (map (\<lambda>k. if metadataString m k \<noteq> [] then [(k, stringMetadata m k)] else []) bm25TextKeys) @
         concat (map (\<lambda>k. case listText (gm_get m k) of Some t \<Rightarrow> [(k, t)] | None \<Rightarrow> []) bm25ListKeys))"

definition AddDocToBM25Index :: "rag_env \<Rightarrow> rag_document option \<Rightarrow> bm25_index \<Rightarrow> bm25_index" where
  "AddDocToBM25Index rg doc idx =
     (case doc of
        None \<Rightarrow> idx
      | Some d \<Rightarrow> if fusionID d = [] then idx else AddDocument (rg_lower rg) (fusionID d) (rd_Content d) (extractBM25Meta d) idx)"

definition BuildBM25IndexFromDocs :: "rag_env \<Rightarrow> rag_document option list \<Rightarrow> bm25_index" where
  "BuildBM25IndexFromDocs rg docs = fold (AddDocToBM25Index rg) docs NewBM25Index"

subsection \<open>Identifiers of a trace\<close>

text \<open>\<open>path.Base\<close> and the extension of a name (\<open>path.Ext\<close>) on paths with slashes.\<close>

definition path_base :: "string \<Rightarrow> string" where
  "path_base p =
     (let q = rev (dropWhile (\<lambda>c. c = CHR 0x2F) (rev p))
      in if p = [] then ''.'' else if q = [] then ''/'' else rev (takeWhile (\<lambda>c. c \<noteq> CHR 0x2F) (rev q)))"

definition path_ext :: "string \<Rightarrow> string" where
  "path_ext name =
     (let r = rev name; e = takeWhile (\<lambda>c. c \<noteq> CHR 0x2E \<and> c \<noteq> CHR 0x2F) r
      in if length e < length r \<and> r ! length e = CHR 0x2E then CHR 0x2E # rev e else [])"

definition canonicalTraceSourceID :: "string \<Rightarrow> string" where
  "canonicalTraceSourceID value0 =
     (let value = map (\<lambda>c. if c = CHR 0x5C then CHR 0x2F else c) (trim_space value0);
          base = path_base value
      in if value = [] then [] else if path_ext base \<noteq> [] then trim_suffix (path_ext base) base else base)"

fun firstTraceSource :: "(string, meta_value) gomap \<Rightarrow> string list \<Rightarrow> string" where
  "firstTraceSource meta [] = []"
| "firstTraceSource meta (key # keys) =
     (let sid = canonicalTraceSourceID (stringMetadata meta key)
      in if sid \<noteq> [] then sid else firstTraceSource meta keys)"

definition traceDocumentID :: "rag_document \<Rightarrow> string" where
  "traceDocumentID doc =
     (let m = rd_Meta doc; k1 = extractMetaField m [''case_id'', ''caseid'', ''doc_id'', ''knowledge_doc_id''];
          k2 = firstTraceSource m [''_source'', ''source'', ''file_name'', ''filename'', ''title'']
      in if k1 \<noteq> [] then k1 else if k2 \<noteq> [] then k2 else canonicalTraceSourceID (docFusionKey doc))"

definition traceDocumentIDs :: "rag_document list \<Rightarrow> string list" where
  "traceDocumentIDs docs = filter (\<lambda>i. i \<noteq> []) (map traceDocumentID docs)"

text \<open>A document that is nil has the empty key.\<close>

definition traceOptionalIDs :: "rag_document option list \<Rightarrow> string list" where
  "traceOptionalIDs docs =
     filter (\<lambda>i. i \<noteq> []) (map (\<lambda>d. case d of Some doc \<Rightarrow> traceDocumentID doc | None \<Rightarrow> canonicalTraceSourceID []) docs)"

definition traceBM25HitIDs :: "bm25_hit list \<Rightarrow> string list" where
  "traceBM25HitIDs hits =
     filter (\<lambda>i. i \<noteq> [])
       (map (\<lambda>hit. let k = trim_space (case gm_get (bh_Meta hit) ''knowledge_doc_id'' of Some s \<Rightarrow> s | None \<Rightarrow> [])
                   in if k \<noteq> [] then k else trim_space (bh_DocID hit)) hits)"

subsection \<open>Hybrid retrieval\<close>

record hybrid_trace =
  ht_DenseCount :: int
  ht_LexicalCount :: int
  ht_FusedCount :: int
  ht_CandidateCount :: int
  ht_TotalLatencyMs :: int
  ht_DenseLatencyMs :: int
  ht_LexicalLatencyMs :: int
  ht_FusionLatencyMs :: int
  ht_DenseOnlyHits :: int
  ht_LexicalOnlyHits :: int
  ht_BothHits :: int
  ht_DenseIDs :: "string list"
  ht_LexicalIDs :: "string list"
  ht_FusionIDs :: "string list"
  ht_CandidateIDs :: "string list"
  ht_FinalIDs :: "string list"
  ht_Intent :: intent_trace

definition emptyHybridTrace :: hybrid_trace where
  "emptyHybridTrace =
     \<lparr>ht_DenseCount = 0, ht_LexicalCount = 0, ht_FusedCount = 0, ht_CandidateCount = 0, ht_TotalLatencyMs = 0,
      ht_DenseLatencyMs = 0, ht_LexicalLatencyMs = 0, ht_FusionLatencyMs = 0, ht_DenseOnlyHits = 0, ht_LexicalOnlyHits = 0,
      ht_BothHits = 0, ht_DenseIDs = [], ht_LexicalIDs = [], ht_FusionIDs = [], ht_CandidateIDs = [], ht_FinalIDs = [],
      ht_Intent = noTrace\<rparr>"

definition lexicalOptions :: "hybrid_config \<Rightarrow> search_options" where
  "lexicalOptions cfg =
     \<lparr>so_MetadataWeight = 1,
      so_KnowledgeFieldBoost =
        (if hc_KnowledgeFieldBoostEnabled cfg
         then [(''knowledge_doc_id'', f64_of_int (hc_KnowledgeDocIDBoost cfg)), (''title'', f64_of_int (hc_KnowledgeTitleBoost cfg)),
               (''tags'', f64_of_int (hc_KnowledgeTagsBoost cfg)), (''provider'', f64_of_int (hc_KnowledgeProviderBoost cfg))]
         else [])\<rparr>"

definition lexicalHits :: "rag_env \<Rightarrow> bm25_index option \<Rightarrow> string \<Rightarrow> hybrid_config \<Rightarrow> bm25_hit list" where
  "lexicalHits rg idx query cfg =
     (case idx of
        None \<Rightarrow> []
      | Some i \<Rightarrow> SearchWithOptions (rg_lower rg) (rg_log rg) query (hc_LexicalTopK cfg) (lexicalOptions cfg) i)"

text \<open>The positions before and after refining, as the metadata of the refined documents; \<open>pre\<close> are the keys before.\<close>

definition markRefined :: "bool \<Rightarrow> (string, int) gomap \<Rightarrow> nat \<times> rag_document \<Rightarrow> rag_document" where
  "markRefined boosted pre = (\<lambda>(i, d).
     (case gm_get pre (docFusionKey d) of
        None \<Rightarrow> d
      | Some p \<Rightarrow>
          (let d1 = setMeta ''_trace_refine_position'' (MInt (int i + 1)) d; boost = p - int i
           in if boosted \<and> boost > 0 then setMeta ''_trace_metadata_boost'' (MNum (f64_of_int boost)) d1 else d1)))"

definition refinePositions :: "rag_document list \<Rightarrow> (string, int) gomap" where
  "refinePositions docs = fold (\<lambda>(i, d) m. gm_put (docFusionKey d) (int i) m) (enumerate 0 docs) []"

definition refineStage :: "rag_env \<Rightarrow> string \<Rightarrow> rag_document list \<Rightarrow> hybrid_config \<Rightarrow> (rag_document list \<times> intent_trace) option" where
  "refineStage rg intentQuery docs cfg =
     (if hc_MetadataBoostEnabled cfg \<or> hc_IntentRefinementEnabled cfg
      then (case refineRetrievedDocsWithTrace rg intentQuery docs cfg of
              None \<Rightarrow> None
            | Some (refined, trace) \<Rightarrow>
                Some (map (markRefined (hc_MetadataBoostEnabled cfg) (refinePositions docs)) (enumerate 0 refined), trace))
      else Some (docs, noTrace))"

definition countHits :: "fused_doc list \<Rightarrow> hybrid_trace \<Rightarrow> hybrid_trace" where
  "countHits fused t =
     t\<lparr>ht_BothHits := int (length (filter (\<lambda>f. fz_denseRank f > 0 \<and> fz_lexRank f > 0) fused)),
       ht_DenseOnlyHits := int (length (filter (\<lambda>f. fz_denseRank f > 0 \<and> \<not> fz_lexRank f > 0) fused)),
       ht_LexicalOnlyHits := int (length (filter (\<lambda>f. \<not> fz_denseRank f > 0) fused))\<rparr>"

text \<open>\<open>dense\<close> is what the vector store answers: the text of an error or documents. \<open>scope\<close> and \<open>rawQuery\<close> come
  from the context. \<open>None\<close> is a panic.\<close>

definition HybridRetrieveWithRetriever ::
  "rag_env \<Rightarrow> int \<Rightarrow> string option \<Rightarrow> string \<Rightarrow> string + rag_document option list \<Rightarrow> bm25_index option \<Rightarrow> string \<Rightarrow> hybrid_config \<Rightarrow>
     ((string + rag_document list) \<times> hybrid_trace) option" where
  "HybridRetrieveWithRetriever rg latency scope rawQuery dense idx query cfg =
     (let t0 = emptyHybridTrace\<lparr>ht_DenseLatencyMs := latency, ht_LexicalLatencyMs := latency\<rparr>
      in case dense of
           Inl err \<Rightarrow> Some (Inl err, t0\<lparr>ht_TotalLatencyMs := latency\<rparr>)
         | Inr docs0 \<Rightarrow>
             (let docs = filterDocsBySourceScope docs0 scope;
                  hits = filterBM25HitsBySourceScope (lexicalHits rg idx query cfg) scope;
                  t1 = t0\<lparr>ht_DenseCount := int (length docs), ht_LexicalCount := int (length hits),
                          ht_DenseIDs := traceOptionalIDs docs, ht_LexicalIDs := traceBM25HitIDs hits\<rparr>
              in case hybridWeights cfg of
                   None \<Rightarrow> Some (Inl ''hybrid weights must be non-negative'', t1)
                 | Some (dw, lw) \<Rightarrow>
                     (let fused = rrfFusionWeighted docs hits (hc_FusionK cfg) dw lw;
                          t2 = countHits fused (t1\<lparr>ht_FusionLatencyMs := latency, ht_FusedCount := int (length fused),
                                                  ht_FusionIDs := traceDocumentIDs (map fz_doc fused)\<rparr>);
                          intentQuery = (if trim_space rawQuery \<noteq> [] then rawQuery else query)
                      in case refineStage rg intentQuery (map fz_doc fused) cfg of
                           None \<Rightarrow> None
                         | Some (refined, intent) \<Rightarrow>
                             (let topK = (if hc_CandidateTopK cfg > 0 then hc_CandidateTopK cfg
                                          else if hc_FinalTopK cfg > 0 then hc_FinalTopK cfg else 10);
                                  out = trimRetrievedDocs refined topK
                              in Some (Inr out, t2\<lparr>ht_Intent := intent, ht_CandidateCount := int (length out),
                                                  ht_CandidateIDs := traceDocumentIDs out, ht_TotalLatencyMs := latency\<rparr>)))))"

end
