(* ===== verification/Rag_Query.thy ===== *)
theory Rag_Query
  imports Rag_Hybrid
begin

text \<open>
  A whole query of the retrieval (internal/ai/rag): the pool that keeps the retriever or the failure to make one
  (retriever\_pool.go), rewriting the query (query\_rewrite.go) and reranking the documents (rerank.go) by a model, the
  query itself (query.go, config.go) and the citations made of its documents (citation.go). What the models answer, what
  the vector store retrieves, how the factory of retrievers ends and how a number is read are parameters; a number that
  is no rational (NaN, an infinity) is not among what \<open>ParseFloat\<close> answers. All latencies are one parameter.
\<close>

subsection \<open>Models\<close>

text \<open>How a call of a model ends: it cannot be made, it fails (by its deadline, by a cancellation or otherwise), or it
  answers a text. Failures carry their messages.\<close>

datatype call_failure = DeadlineExceeded | Canceled | OtherFailure

datatype model_reply = ModelInitFailed string | ModelCallFailed call_failure string | ModelSays string

type_synonym chat_messages = "(string \<times> string) list" \<comment> \<open>role and text\<close>

fun modelFailureReason :: "call_failure \<Rightarrow> string" where
  "modelFailureReason DeadlineExceeded = ''timeout''"
| "modelFailureReason Canceled = ''canceled''"
| "modelFailureReason OtherFailure = ''model_call_failed''"

definition RAGRewrite :: string where \<comment> \<open>the file rag\_rewrite.txt\<close>
  "RAGRewrite =
     ''You are a search query optimizer for an IT operations knowledge base.'' @ [CHR 0x0A] @
      ''Your job: rewrite the user'' @ [CHR 0x27] @
      ''s question into a concise, keyword-rich search query that maximizes retrieval recall.'' @
      [CHR 0x0A] @ ''Rules:'' @ [CHR 0x0A] @ ''- Output ONLY the rewritten query, nothing else.'' @
      [CHR 0x0A] @ ''- Keep technical terms, error codes, and proper nouns unchanged.'' @ [CHR 0x0A]
      @ ''- Expand abbreviations and slang into standard terms.'' @ [CHR 0x0A] @
      ''- Use Chinese if the original is Chinese, English if English.'' @ [CHR 0x0A] @
      ''- Maximum 50 characters.''"

definition RAGRerank :: string where \<comment> \<open>the file rag\_rerank.txt\<close>
  "RAGRerank =
     ''You are a document relevance judge for IT operations.'' @ [CHR 0x0A] @
      ''Given a query and a list of documents, rate each document'' @ [CHR 0x27] @
      ''s relevance to the query on a scale of 0-10.'' @ [CHR 0x0A] @
      ''Output ONLY a comma-separated list of scores in the same order as the documents.'' @ [CHR
      0x0A] @ ''Example output: 9,3,7,1,8'' @ [CHR 0x0A] @ ''Do not output anything else.''"

subsection \<open>Rewriting\<close>

record rewrite_result =
  rw_Query :: string
  rw_Attempted :: bool
  rw_Applied :: bool
  rw_Degraded :: bool
  rw_Reason :: string

definition RewriteQueryWithResult :: "(chat_messages \<Rightarrow> model_reply) \<Rightarrow> string \<Rightarrow> rewrite_result" where
  "RewriteQueryWithResult model query =
     (let trimmed = trim_space query;
          r = \<lparr>rw_Query = query, rw_Attempted = True, rw_Applied = False, rw_Degraded = False, rw_Reason = []\<rparr>
      in if trimmed = [] then r\<lparr>rw_Attempted := False, rw_Reason := ''empty_query''\<rparr>
         else (case model [(''system'', trim_space RAGRewrite), (''user'', trimmed)] of
                 ModelInitFailed msg \<Rightarrow> r\<lparr>rw_Degraded := True, rw_Reason := ''model_init_failed''\<rparr>
               | ModelCallFailed f msg \<Rightarrow> r\<lparr>rw_Degraded := True, rw_Reason := modelFailureReason f\<rparr>
               | ModelSays answer \<Rightarrow>
                   (if trim_space answer = [] then r\<lparr>rw_Degraded := True, rw_Reason := ''empty_response''\<rparr>
                    else r\<lparr>rw_Query := trim_space answer, rw_Applied := True\<rparr>)))"

definition RewriteQuery :: "(chat_messages \<Rightarrow> model_reply) \<Rightarrow> string \<Rightarrow> string" where
  "RewriteQuery model query = rw_Query (RewriteQueryWithResult model query)"

definition multiPrompt :: "int \<Rightarrow> string" where
  "multiPrompt n =
     ''You are a search query optimizer. Generate '' @ itoa n @ '' diverse search queries for the following question.'' @ [CHR 0x0A] @
     ''Each query should capture a different angle or use different keywords.'' @ [CHR 0x0A] @
     ''Output one query per line, no numbering, no explanation.''"

definition RewriteQueryMulti :: "(chat_messages \<Rightarrow> model_reply) \<Rightarrow> string \<Rightarrow> int \<Rightarrow> string list" where
  "RewriteQueryMulti model query n =
     (let trimmed = trim_space query
      in if trimmed = [] \<or> n \<le> 1 then [query]
         else (case model [(''system'', multiPrompt n), (''user'', trimmed)] of
                 ModelSays answer \<Rightarrow>
                   query # filter (\<lambda>l. l \<noteq> [] \<and> l \<noteq> query) (map trim_space (str_split (trim_space answer) [CHR 0x0A]))
               | _ \<Rightarrow> [query]))"

subsection \<open>Reranking\<close>

record rerank_result =
  rk_Docs :: "rag_document list"
  rk_Scores :: "f64 list"
  rk_Attempted :: bool
  rk_Enabled :: bool
  rk_Degraded :: bool
  rk_Reason :: string

definition docTitle :: "rag_document \<Rightarrow> string" where
  "docTitle doc = firstStringMetadata (rd_Meta doc) [''title'', ''file_name'', ''filename'', ''source'']"

text \<open>The first \<open>n\<close> runes of a text, with an ellipsis if there are more.\<close>

definition clipRunes :: "nat \<Rightarrow> string \<Rightarrow> string" where
  "clipRunes n s = (if length (runes s) > n then concat (take n (runes s)) @ ''...'' else s)"

definition rerankEntry :: "nat \<times> rag_document \<Rightarrow> string" where
  "rerankEntry = (\<lambda>(i, doc).
     ''['' @ itoa (int i + 1) @ ''] '' @ docTitle doc @ [CHR 0x0A] @ clipRunes 100 (rd_Content doc) @ [CHR 0x0A, CHR 0x0A])"

definition rerankMessage :: "string \<Rightarrow> rag_document list \<Rightarrow> string" where
  "rerankMessage query docs =
     ''Query: '' @ query @ [CHR 0x0A, CHR 0x0A] @ ''Documents:'' @ [CHR 0x0A] @ concat (map rerankEntry (enumerate 0 docs))"

definition parseScores :: "(string \<Rightarrow> f64 option) \<Rightarrow> string \<Rightarrow> int \<Rightarrow> f64 list option" where
  "parseScores parseFloat raw expected =
     (let parts = str_split (trim_set [''['', '']''] (trim_space raw)) '',''
      in if int (length parts) \<noteq> expected then None else those (map (\<lambda>p. parseFloat (trim_space p)) parts))"

definition Rerank ::
  "(chat_messages \<Rightarrow> model_reply) \<Rightarrow> (string \<Rightarrow> f64 option) \<Rightarrow> string \<Rightarrow> rag_document list \<Rightarrow> int \<Rightarrow> rerank_result" where
  "Rerank model parseFloat query docs topK =
     (let r = \<lparr>rk_Docs = docs, rk_Scores = [], rk_Attempted = False, rk_Enabled = False, rk_Degraded = False, rk_Reason = []\<rparr>;
          failed = (\<lambda>reason. r\<lparr>rk_Attempted := True, rk_Degraded := True, rk_Reason := reason\<rparr>)
      in if length docs \<le> 1 then r\<lparr>rk_Reason := ''insufficient_candidates''\<rparr>
         else (case model [(''system'', trim_space RAGRerank), (''user'', rerankMessage query docs)] of
                 ModelInitFailed msg \<Rightarrow> failed ''model_init_failed''
               | ModelCallFailed f msg \<Rightarrow> failed (modelFailureReason f)
               | ModelSays answer \<Rightarrow>
                   (case parseScores parseFloat answer (int (length docs)) of
                      None \<Rightarrow> failed ''invalid_scores''
                    | Some scores \<Rightarrow>
                        (let items = sort_slice (\<lambda>a b. snd a > snd b) (zip docs scores);
                             limit = (if topK \<le> 0 \<or> topK > int (length items) then length items else nat topK)
                         in \<lparr>rk_Docs = map fst (take limit items), rk_Scores = map snd (take limit items), rk_Attempted = True,
                             rk_Enabled = True, rk_Degraded = False, rk_Reason = []\<rparr>))))"

subsection \<open>The pool\<close>

record 'r cached_retriever =
  cr_key :: string
  cr_rr :: "'r option"
  cr_lastErr :: "string option"
  cr_failedAt :: gotime

definition emptyPool :: "'r cached_retriever" where
  "emptyPool = \<lparr>cr_key = [], cr_rr = None, cr_lastErr = None, cr_failedAt = 0\<rparr>"

record acquisition =
  aq_CacheKey :: string
  aq_CacheHit :: bool
  aq_InitFailureCached :: bool
  aq_InitLatencyMs :: int
  aq_FailureTTL :: duration

definition noAcquisition :: acquisition where
  "noAcquisition = \<lparr>aq_CacheKey = [], aq_CacheHit = False, aq_InitFailureCached = False, aq_InitLatencyMs = 0, aq_FailureTTL = 0\<rparr>"

text \<open>What a call of the pool meets: the factory (\<open>None\<close> if there is none, else how it ends now), the key and the time
  to live of a failure by the context, the time, and how long the factory takes.\<close>

record 'r pool_call =
  pc_factory :: "(string + 'r) option"
  pc_key :: string
  pc_ttl :: duration
  pc_now :: gotime
  pc_takes :: nat

text \<open>Does a call reach the factory?\<close>

definition needsFactory :: "'r pool_call \<Rightarrow> 'r cached_retriever \<Rightarrow> bool" where
  "needsFactory c st \<longleftrightarrow>
     \<not> (cr_rr st \<noteq> None \<and> cr_key st = pc_key c) \<and>
     \<not> (cr_key st = pc_key c \<and> cr_lastErr st \<noteq> None \<and> time_sub (pc_now c) (cr_failedAt st) < pc_ttl c)"

definition createRetriever ::
  "'r pool_call \<Rightarrow> string + 'r \<Rightarrow> acquisition \<Rightarrow> ((string + 'r) \<times> acquisition) \<times> 'r cached_retriever" where
  "createRetriever c answer aq =
     (let aq1 = aq\<lparr>aq_InitLatencyMs := int (pc_takes c) div 1000000\<rparr>
      in case answer of
           Inl err \<Rightarrow> ((Inl err, aq1), \<lparr>cr_key = pc_key c, cr_rr = None, cr_lastErr = Some err,
                                        cr_failedAt = pc_now c + int (pc_takes c)\<rparr>)
         | Inr rr \<Rightarrow> ((Inr rr, aq1), \<lparr>cr_key = pc_key c, cr_rr = Some rr, cr_lastErr = None, cr_failedAt = 0\<rparr>))"

definition GetOrCreate :: "'r pool_call \<Rightarrow> 'r cached_retriever \<Rightarrow> ((string + 'r) \<times> acquisition) \<times> 'r cached_retriever" where
  "GetOrCreate c st =
     (case pc_factory c of
        None \<Rightarrow> ((Inl ''retriever pool factory is nil'', noAcquisition), st)
      | Some answer \<Rightarrow>
          (let aq = noAcquisition\<lparr>aq_CacheKey := pc_key c, aq_FailureTTL := pc_ttl c\<rparr>
           in if needsFactory c st then createRetriever c answer aq
              else (case cr_rr st of
                      Some rr \<Rightarrow> ((Inr rr, aq\<lparr>aq_CacheHit := True\<rparr>), st)
                    | None \<Rightarrow> ((Inl (case cr_lastErr st of Some e \<Rightarrow> e | None \<Rightarrow> []), aq\<lparr>aq_InitFailureCached := True\<rparr>), st))))"

definition ResetPool :: "'r cached_retriever \<Rightarrow> 'r cached_retriever" where
  "ResetPool st = emptyPool"

subsection \<open>Configuration\<close>

definition GetRetrieverTopK :: "config_reader \<Rightarrow> int" where
  "GetRetrieverTopK cn = readPositiveInt cn ''retriever.top_k'' 3"

definition RetrieverCandidateTopK :: "config_reader \<Rightarrow> int" where
  "RetrieverCandidateTopK cn =
     (let topK = GetRetrieverTopK cn; v = readPositiveInt cn ''retriever.candidate_top_k'' 0
      in if v > 0 then (if v < topK then topK else v)
         else (let c0 = topK * 4; c1 = (if c0 < 20 then 20 else c0); c2 = (if c1 > 50 then 50 else c1)
               in if c2 < topK then topK else c2))"

definition RerankMaxCandidates :: "config_reader \<Rightarrow> int" where
  "RerankMaxCandidates cn = readPositiveInt cn ''rag.rerank_max_candidates'' 10"

text \<open>The first of the keys that has a positive number of milliseconds.\<close>

fun DurationFromConfig :: "config_reader \<Rightarrow> duration \<Rightarrow> string list \<Rightarrow> duration" where
  "DurationFromConfig cn fallback [] = fallback"
| "DurationFromConfig cn fallback (key # keys) =
     (if key = [] then DurationFromConfig cn fallback keys
      else (case cn_int cn key of
              Some v \<Rightarrow> if v > 0 then wrap64 (v * 1000000) else DurationFromConfig cn fallback keys
            | None \<Rightarrow> DurationFromConfig cn fallback keys))"

definition sharedInitFailureTTL :: "config_reader \<Rightarrow> duration" where
  "sharedInitFailureTTL cn =
     DurationFromConfig cn (15 * second)
       [''chat.rag_init_failure_ttl_ms'', ''context.docs_init_failure_ttl_ms'', ''multi_agent.knowledge_init_failure_ttl_ms'']"

text \<open>An override in the context, if any, or the configuration.\<close>

definition ragConfigBool :: "config_reader \<Rightarrow> bool option \<Rightarrow> string \<Rightarrow> bool" where
  "ragConfigBool cn override key = (case override of Some v \<Rightarrow> v | None \<Rightarrow> (case cn_bool cn key of Some v \<Rightarrow> v | None \<Rightarrow> False))"

subsection \<open>Queries\<close>

text \<open>What a query finds in its context, the configuration and the world. \<open>qc_retrieve\<close> is the answer of a retriever
  to a text and a number of documents; \<open>qc_index\<close> is the shared index of words.\<close>

record 'r query_context =
  qc_config :: config_reader
  qc_rewrite :: "bool option"
  qc_rerank :: "bool option"
  qc_hybrid :: "hybrid_config option"
  qc_userID :: string
  qc_hash8 :: "string \<Rightarrow> string"
  qc_model :: "chat_messages \<Rightarrow> model_reply"
  qc_parseFloat :: "string \<Rightarrow> f64 option"
  qc_pool :: "'r pool_call"
  qc_retrieve :: "'r \<Rightarrow> string \<Rightarrow> int \<Rightarrow> string + rag_document option list"
  qc_index :: bm25_index
  qc_latency :: int

record query_trace =
  qt_Hybrid :: "hybrid_trace option"
  qt_Mode :: string
  qt_CacheKey :: string
  qt_CacheHit :: bool
  qt_InitFailureCached :: bool
  qt_InitLatencyMs :: int
  qt_RetrieveLatencyMs :: int
  qt_RewriteLatencyMs :: int
  qt_RerankLatencyMs :: int
  qt_OriginalQuery :: string
  qt_RewrittenQuery :: string
  qt_RawResultCount :: int
  qt_ResultCount :: int
  qt_RewriteAttempted :: bool
  qt_RewriteApplied :: bool
  qt_RewriteDegraded :: bool
  qt_RewriteReason :: string
  qt_RerankAttempted :: bool
  qt_RerankEnabled :: bool
  qt_RerankDegraded :: bool
  qt_RerankReason :: string

definition emptyQueryTrace :: query_trace where
  "emptyQueryTrace =
     \<lparr>qt_Hybrid = None, qt_Mode = [], qt_CacheKey = [], qt_CacheHit = False, qt_InitFailureCached = False,
      qt_InitLatencyMs = 0, qt_RetrieveLatencyMs = 0, qt_RewriteLatencyMs = 0, qt_RerankLatencyMs = 0,
      qt_OriginalQuery = [], qt_RewrittenQuery = [], qt_RawResultCount = 0, qt_ResultCount = 0,
      qt_RewriteAttempted = False, qt_RewriteApplied = False, qt_RewriteDegraded = False, qt_RewriteReason = [],
      qt_RerankAttempted = False, qt_RerankEnabled = False, qt_RerankDegraded = False, qt_RerankReason = []\<rparr>"

definition traceRewrite :: "int \<Rightarrow> rewrite_result \<Rightarrow> query_trace \<Rightarrow> query_trace" where
  "traceRewrite latency r t =
     t\<lparr>qt_RewriteLatencyMs := latency, qt_RewriteAttempted := rw_Attempted r, qt_RewriteApplied := rw_Applied r,
       qt_RewriteDegraded := rw_Degraded r, qt_RewriteReason := rw_Reason r\<rparr>"

definition traceAcquisition :: "acquisition \<Rightarrow> query_trace \<Rightarrow> query_trace" where
  "traceAcquisition aq t =
     t\<lparr>qt_CacheKey := aq_CacheKey aq, qt_CacheHit := aq_CacheHit aq, qt_InitFailureCached := aq_InitFailureCached aq,
       qt_InitLatencyMs := aq_InitLatencyMs aq\<rparr>"

definition traceRerank :: "int \<Rightarrow> rerank_result \<Rightarrow> query_trace \<Rightarrow> query_trace" where
  "traceRerank latency r t =
     t\<lparr>qt_RerankLatencyMs := latency, qt_RerankAttempted := rk_Attempted r, qt_RerankEnabled := rk_Enabled r,
       qt_RerankDegraded := rk_Degraded r, qt_RerankReason := rk_Reason r\<rparr>"

definition rewriteStage :: "'r query_context \<Rightarrow> string \<Rightarrow> query_trace \<Rightarrow> string \<times> query_trace" where
  "rewriteStage qc query t =
     (if ragConfigBool (qc_config qc) (qc_rewrite qc) ''rag.rewrite_enabled''
      then (let r = RewriteQueryWithResult (qc_model qc) query; q = (if rw_Query r \<noteq> [] then rw_Query r else query)
            in (q, (traceRewrite (qc_latency qc) r t)\<lparr>qt_RewrittenQuery := q\<rparr>))
      else (query, t))"

text \<open>The candidates reranked and given their scores, if the model ranked them.\<close>

definition rerankStage :: "'r query_context \<Rightarrow> string \<Rightarrow> hybrid_config \<Rightarrow> rag_document list \<Rightarrow> query_trace \<Rightarrow> rag_document list \<times> query_trace" where
  "rerankStage qc query cfg docs t =
     (if ragConfigBool (qc_config qc) (qc_rerank qc) ''rag.rerank_enabled''
      then (let topK = (if hc_FinalTopK cfg \<le> 0 then 10 else hc_FinalTopK cfg);
                cands = take (nat (RerankMaxCandidates (qc_config qc))) docs;
                r = Rerank (qc_model qc) (qc_parseFloat qc) query cands topK;
                docs1 = (if rk_Enabled r
                         then map (\<lambda>(d, s). setMeta ''_trace_rerank_score'' (MNum s) d) (zip (rk_Docs r) (rk_Scores r))
                         else cands)
            in (docs1, traceRerank (qc_latency qc) r t))
      else (docs, t))"

definition Query ::
  "rag_env \<Rightarrow> 'r query_context \<Rightarrow> string \<Rightarrow> 'r cached_retriever \<Rightarrow>
     ((string + rag_document list) \<times> query_trace) option \<times> 'r cached_retriever" where
  "Query rg qc query st =
     (if trim_space query = [] then (Some (Inr [], emptyQueryTrace), st)
      else (let t0 = emptyQueryTrace\<lparr>qt_Mode := ''hybrid'', qt_OriginalQuery := query, qt_RewrittenQuery := query\<rparr>;
                (searchQuery, t1) = rewriteStage qc query t0;
                ((acquired, aq), st1) = GetOrCreate (qc_pool qc) st;
                t2 = traceAcquisition aq t1
            in case acquired of
                 Inl err \<Rightarrow> (Some (Inl err, t2), st1)
               | Inr rr \<Rightarrow>
                   (let cfg = DefaultHybridConfig (qc_config qc) (GetRetrieverTopK (qc_config qc)) (qc_hybrid qc);
                        dense = qc_retrieve qc rr searchQuery (hc_DenseTopK cfg);
                        scope = sourceScopeFromContext (qc_hash8 qc) (qc_userID qc)
                    in case HybridRetrieveWithRetriever rg (qc_latency qc) scope query dense (Some (qc_index qc)) searchQuery cfg of
                         None \<Rightarrow> (None, st1)
                       | Some (Inl err, ht) \<Rightarrow>
                           (Some (Inl err, t2\<lparr>qt_Hybrid := Some ht, qt_RetrieveLatencyMs := ht_TotalLatencyMs ht,
                                             qt_RawResultCount := ht_FusedCount ht\<rparr>), st1)
                       | Some (Inr docs, ht) \<Rightarrow>
                           (let t3 = t2\<lparr>qt_RetrieveLatencyMs := ht_TotalLatencyMs ht, qt_RawResultCount := ht_FusedCount ht\<rparr>;
                                (docs1, t4) = rerankStage qc query cfg docs t3;
                                out = selectFinalDocs rg query docs1 cfg
                            in (Some (Inr out, t4\<lparr>qt_Hybrid := Some (ht\<lparr>ht_FinalIDs := traceDocumentIDs out\<rparr>),
                                                 qt_ResultCount := int (length out)\<rparr>), st1)))))"

text \<open>A query for an evaluation searches the vector store only. The documents it answers are taken not to be nil.\<close>

definition zeroHybridConfig :: hybrid_config where
  "zeroHybridConfig =
     \<lparr>hc_DenseTopK = 0, hc_LexicalTopK = 0, hc_FusionK = 0, hc_CandidateTopK = 0, hc_FinalTopK = 0,
      hc_DenseWeight = 0, hc_LexicalWeight = 0, hc_MetadataBoostEnabled = False, hc_KnowledgeFieldBoostEnabled = False,
      hc_KnowledgeDocIDBoost = 0, hc_KnowledgeTitleBoost = 0, hc_KnowledgeTagsBoost = 0, hc_KnowledgeProviderBoost = 0,
      hc_KnowledgeFieldBoostCap = 0, hc_CoverageEnabled = False, hc_CoverageMaxPositionGain = 0,
      hc_IntentRefinementEnabled = False, hc_IntentConnectors = [], hc_IntentMaxTerms = 0,
      hc_IntentPositiveBonus = 0, hc_IntentExcludedPenalty = 0\<rparr>"

definition refineRetrievedDocs :: "rag_env \<Rightarrow> string \<Rightarrow> rag_document list \<Rightarrow> rag_document list option" where
  "refineRetrievedDocs rg query docs = map_option fst (refineRetrievedDocsWithTrace rg query docs zeroHybridConfig)"

definition scopedDocs :: "rag_document list \<Rightarrow> string option \<Rightarrow> rag_document list" where
  "scopedDocs docs scope = concat (map (\<lambda>d. case d of Some x \<Rightarrow> [x] | None \<Rightarrow> []) (filterDocsBySourceScope (map Some docs) scope))"

definition QueryForEval ::
  "rag_env \<Rightarrow> 'r query_context \<Rightarrow> ('r \<Rightarrow> string \<Rightarrow> int \<Rightarrow> string + rag_document list) \<Rightarrow> string \<Rightarrow> bool \<Rightarrow> bool \<Rightarrow> 'r cached_retriever \<Rightarrow>
     ((string + rag_document list) \<times> query_trace) option \<times> 'r cached_retriever" where
  "QueryForEval rg qc retrieve query wantRewrite wantRerank st =
     (if trim_space query = [] then (Some (Inr [], emptyQueryTrace), st)
      else (let cn = qc_config qc; topK = GetRetrieverTopK cn;
                t0 = emptyQueryTrace\<lparr>qt_Mode := ''eval'', qt_OriginalQuery := query, qt_RewrittenQuery := query\<rparr>;
                r = RewriteQueryWithResult (qc_model qc) query;
                (rewritten, t1) = (if wantRewrite then (rw_Query r, (traceRewrite (qc_latency qc) r t0)\<lparr>qt_RewrittenQuery := rw_Query r\<rparr>)
                                   else (query, t0));
                ((acquired, aq), st1) = GetOrCreate (qc_pool qc) st;
                t2 = traceAcquisition aq t1
            in case acquired of
                 Inl err \<Rightarrow> (Some (Inl err, t2), st1)
               | Inr rr \<Rightarrow>
                   (let t3 = t2\<lparr>qt_RetrieveLatencyMs := qc_latency qc\<rparr>
                    in case retrieve rr rewritten (RetrieverCandidateTopK cn) of
                         Inl err \<Rightarrow> (Some (Inl err, t3), st1)
                       | Inr docs0 \<Rightarrow>
                           (let docs = scopedDocs docs0 (sourceScopeFromContext (qc_hash8 qc) (qc_userID qc));
                                t4 = t3\<lparr>qt_RawResultCount := int (length docs)\<rparr>
                            in case refineRetrievedDocs rg query docs of
                                 None \<Rightarrow> (None, st1)
                               | Some refined \<Rightarrow>
                                   (if \<not> wantRerank
                                    then (let out = trimRetrievedDocs refined topK
                                          in (Some (Inr out, t4\<lparr>qt_ResultCount := int (length out)\<rparr>), st1))
                                    else (let k = Rerank (qc_model qc) (qc_parseFloat qc) query refined topK
                                          in (Some (Inr (rk_Docs k),
                                                (traceRerank (qc_latency qc) k t4)\<lparr>qt_ResultCount := int (length (rk_Docs k))\<rparr>), st1)))))))"

subsection \<open>Citations\<close>

record citation_trace =
  ct_DenseRank :: int
  ct_LexicalRank :: int
  ct_FusionScore :: f64
  ct_MetadataBoost :: f64
  ct_RerankScore :: f64
  ct_FusionPosition :: int
  ct_RefinePosition :: int
  ct_FinalPosition :: int
  ct_FieldBoost :: f64
  ct_FieldMatches :: "string list"
  ct_CoverageBoost :: f64
  ct_IntentRule :: string
  ct_IntentPositiveHits :: "string list"
  ct_IntentExcludedHits :: "string list"
  ct_IntentBonus :: f64
  ct_IntentPenalty :: f64
  ct_IntentNetScore :: f64

record citation =
  cit_ID :: string
  cit_Source :: string
  cit_Title :: string
  cit_Score :: f64
  cit_Snippet :: string
  cit_Trace :: "citation_trace option"

text \<open>A value of the metadata if it has the type that is asked for.\<close>

definition metaInt :: "(string, meta_value) gomap \<Rightarrow> string \<Rightarrow> int option" where
  "metaInt meta key = (case gm_get meta key of Some (MInt i) \<Rightarrow> Some i | _ \<Rightarrow> None)"

definition metaNum :: "(string, meta_value) gomap \<Rightarrow> string \<Rightarrow> f64 option" where
  "metaNum meta key = (case gm_get meta key of Some (MNum x) \<Rightarrow> Some x | _ \<Rightarrow> None)"

definition metaStrs :: "(string, meta_value) gomap \<Rightarrow> string \<Rightarrow> string list option" where
  "metaStrs meta key = (case gm_get meta key of Some (MStrs xs) \<Rightarrow> Some xs | _ \<Rightarrow> None)"

definition orZero :: "'a \<Rightarrow> 'a option \<Rightarrow> 'a" where
  "orZero z v = (case v of Some x \<Rightarrow> x | None \<Rightarrow> z)"

definition citationTraceFromMeta :: "(string, meta_value) gomap \<Rightarrow> citation_trace option" where
  "citationTraceFromMeta meta =
     (let i = metaInt meta; x = metaNum meta; ss = metaStrs meta; rule = stringMetadata meta ''_trace_intent_rule'';
          ints = [''_trace_dense_rank'', ''_trace_lexical_rank'', ''_trace_fusion_position'', ''_trace_refine_position'',
                  ''_trace_final_position''];
          nums = [''_trace_fusion_score'', ''_trace_metadata_boost'', ''_trace_rerank_score'', ''_trace_field_boost'',
                  ''_trace_coverage_boost'', ''_trace_intent_bonus'', ''_trace_intent_penalty'', ''_trace_intent_net_score''];
          texts = [''_trace_field_matches'', ''_trace_intent_positive_hits'', ''_trace_intent_excluded_hits'']
      in if list_ex (\<lambda>k. i k \<noteq> None) ints \<or> list_ex (\<lambda>k. x k \<noteq> None) nums \<or> list_ex (\<lambda>k. ss k \<noteq> None) texts \<or> rule \<noteq> []
         then Some \<lparr>ct_DenseRank = orZero 0 (i ''_trace_dense_rank''), ct_LexicalRank = orZero 0 (i ''_trace_lexical_rank''),
                    ct_FusionScore = orZero 0 (x ''_trace_fusion_score''), ct_MetadataBoost = orZero 0 (x ''_trace_metadata_boost''),
                    ct_RerankScore = orZero 0 (x ''_trace_rerank_score''),
                    ct_FusionPosition = orZero 0 (i ''_trace_fusion_position''),
                    ct_RefinePosition = orZero 0 (i ''_trace_refine_position''),
                    ct_FinalPosition = orZero 0 (i ''_trace_final_position''), ct_FieldBoost = orZero 0 (x ''_trace_field_boost''),
                    ct_FieldMatches = orZero [] (ss ''_trace_field_matches''),
                    ct_CoverageBoost = orZero 0 (x ''_trace_coverage_boost''), ct_IntentRule = rule,
                    ct_IntentPositiveHits = orZero [] (ss ''_trace_intent_positive_hits''),
                    ct_IntentExcludedHits = orZero [] (ss ''_trace_intent_excluded_hits''),
                    ct_IntentBonus = orZero 0 (x ''_trace_intent_bonus''), ct_IntentPenalty = orZero 0 (x ''_trace_intent_penalty''),
                    ct_IntentNetScore = orZero 0 (x ''_trace_intent_net_score'')\<rparr>
         else None)"

definition truncateSnippet :: "string \<Rightarrow> string" where
  "truncateSnippet content = clipRunes 300 (trim_space content)"

definition CitationFromDocument :: "rag_document option \<Rightarrow> string \<Rightarrow> citation" where
  "CitationFromDocument doc cid =
     (case doc of
        None \<Rightarrow> \<lparr>cit_ID = cid, cit_Source = [], cit_Title = cid, cit_Score = 0, cit_Snippet = [], cit_Trace = None\<rparr>
      | Some d \<Rightarrow>
          (let source = extractMetaField (rd_Meta d) [''_source'', ''source'', ''source_uri'', ''file_path'', ''file_name'', ''filename''];
               title = extractMetaField (rd_Meta d) [''title'', ''file_name'', ''filename'', ''source'']
           in \<lparr>cit_ID = cid, cit_Source = (if source = [] then rd_ID d else source),
               cit_Title = (if title \<noteq> [] then title else if rd_ID d \<noteq> [] then rd_ID d else cid),
               cit_Score = rd_Score d, cit_Snippet = truncateSnippet (rd_Content d),
               cit_Trace = citationTraceFromMeta (rd_Meta d)\<rparr>))"

record citation_evidence =
  ev_CitationID :: string
  ev_Text :: string

definition EvidenceFromCitation :: "citation \<Rightarrow> citation_evidence" where
  "EvidenceFromCitation c = \<lparr>ev_CitationID = cit_ID c, ev_Text = cit_Snippet c\<rparr>"

definition BuildCitations :: "rag_document option list \<Rightarrow> string \<Rightarrow> citation list \<times> citation_evidence list" where
  "BuildCitations docs pre =
     (let cs = map (\<lambda>(i, doc). CitationFromDocument doc (pre @ ''-'' @ itoa (int i + 1))) (enumerate 0 docs)
      in (cs, map EvidenceFromCitation cs))"

end
