(* ===== verification/Rag_Agent.thy ===== *)
theory Rag_Agent
  imports Rag_Query
begin

text \<open>
  Retrieval in several queries and several rounds (internal/ai/rag): the planner that splits a question, runs the parts
  and merges what they find (planner.go, planner\_config.go), the evaluator of what was found (evaluator.go), the
  planner of the next round (retrieval\_planner.go) and the agent that repeats retrieving until the evaluator is content
  (agent\_rag.go, agent\_config.go). What the decoder of JSON answers is a parameter, and so is what each sub-query and
  each round meets. Every caller passes the shared pool, which is the one the sub-queries use; they run concurrently in
  the source, here one after the other in their order. The map of the merged documents is visited in insertion order.
\<close>

subsection \<open>Planning\<close>

record planner_config =
  pn_Enabled :: bool
  pn_Model :: string
  pn_TimeoutMs :: int
  pn_MaxSubQueries :: int
  pn_MinQueryLength :: int
  pn_ExecTimeoutMs :: int
  pn_DecompositionKeywords :: "string list"

definition DefaultPlannerConfig :: planner_config where
  "DefaultPlannerConfig =
     \<lparr>pn_Enabled = False, pn_Model = ''chat_model_fast'', pn_TimeoutMs = 5000, pn_MaxSubQueries = 4, pn_MinQueryLength = 15,
      pn_ExecTimeoutMs = 5000,
      pn_DecompositionKeywords =
        [[CHR 0xE5, CHR 0x92, CHR 0x8C],
         [CHR 0xE4, CHR 0xBB, CHR 0xA5, CHR 0xE5, CHR 0x8F, CHR 0x8A],
         [CHR 0xE8, CHR 0xBF, CHR 0x98, CHR 0xE6, CHR 0x9C, CHR 0x89],
         [CHR 0xE8, CHR 0xB7, CHR 0x9F],
         [CHR 0xE4, CHR 0xB8, CHR 0xBA, CHR 0xE4, CHR 0xBB, CHR 0x80, CHR 0xE4, CHR 0xB9, CHR 0x88],
         [CHR 0xE6, CHR 0x80, CHR 0x8E, CHR 0xE4, CHR 0xB9, CHR 0x88, CHR 0xE5, CHR 0x9B, CHR 0x9E, CHR 0xE4, CHR 0xBA, CHR 0x8B],
         [CHR 0xE5, CHR 0xAF, CHR 0xBC, CHR 0xE8, CHR 0x87, CHR 0xB4],
         [CHR 0xE5, CHR 0x85, CHR 0xB3, CHR 0xE7, CHR 0xB3, CHR 0xBB]]\<rparr>"

text \<open>\<open>texts\<close> are the texts the configuration has by their keys, empty if there is none. A switch that is missing
  keeps its default.\<close>

definition LoadPlannerConfig :: "config_reader \<Rightarrow> (string \<Rightarrow> string) \<Rightarrow> planner_config" where
  "LoadPlannerConfig cn texts =
     (let cfg = DefaultPlannerConfig; m = texts ''rag.planner.model''
      in \<lparr>pn_Enabled = readBool cn ''rag.planner.enabled'' (pn_Enabled cfg),
          pn_Model = (if m \<noteq> [] then m else pn_Model cfg),
          pn_TimeoutMs = readPositiveInt cn ''rag.planner.timeout_ms'' (pn_TimeoutMs cfg),
          pn_MaxSubQueries = readPositiveInt cn ''rag.planner.max_sub_queries'' (pn_MaxSubQueries cfg),
          pn_MinQueryLength = readPositiveInt cn ''rag.planner.min_query_length'' (pn_MinQueryLength cfg),
          pn_ExecTimeoutMs = readPositiveInt cn ''rag.planner.exec_timeout_ms'' (pn_ExecTimeoutMs cfg),
          pn_DecompositionKeywords =
            (case cn_texts cn ''rag.planner.decomposition_keywords'' of Some (k # ks) \<Rightarrow> k # ks | _ \<Rightarrow> pn_DecompositionKeywords cfg)\<rparr>)"

definition needsDecomposition :: "string \<Rightarrow> planner_config \<Rightarrow> bool" where
  "needsDecomposition query cfg \<longleftrightarrow>
     \<not> int (length (runes query)) < pn_MinQueryLength cfg \<and> list_ex (\<lambda>kw. contains kw query) (pn_DecompositionKeywords cfg)"

definition plannerDecomposePrompt :: "int \<Rightarrow> string \<Rightarrow> string" where
  "plannerDecomposePrompt n query =
     [CHR 0xE4, CHR 0xBD, CHR 0xA0, CHR 0xE6, CHR 0x98, CHR 0xAF, CHR 0xE8, CHR 0xBF, CHR 0x90, CHR 0xE7, CHR
      0xBB, CHR 0xB4, CHR 0xE6, CHR 0x9F, CHR 0xA5, CHR 0xE8, CHR 0xAF, CHR 0xA2, CHR 0xE5, CHR 0x88, CHR 0x86,
      CHR 0xE6, CHR 0x9E, CHR 0x90, CHR 0xE5, CHR 0x99, CHR 0xA8, CHR 0xE3, CHR 0x80, CHR 0x82, CHR 0xE5, CHR
      0xB0, CHR 0x86, CHR 0xE7, CHR 0x94, CHR 0xA8, CHR 0xE6, CHR 0x88, CHR 0xB7, CHR 0xE9, CHR 0x97, CHR 0xAE,
      CHR 0xE9, CHR 0xA2, CHR 0x98, CHR 0xE6, CHR 0x8B, CHR 0x86, CHR 0xE8, CHR 0xA7, CHR 0xA3, CHR 0xE4, CHR
      0xB8, CHR 0xBA, CHR 0xE7, CHR 0x8B, CHR 0xAC, CHR 0xE7, CHR 0xAB, CHR 0x8B, CHR 0xE7, CHR 0x9A, CHR 0x84,
      CHR 0xE6, CHR 0xA3, CHR 0x80, CHR 0xE7, CHR 0xB4, CHR 0xA2, CHR 0xE5, CHR 0xAD, CHR 0x90, CHR 0xE6, CHR
      0x9F, CHR 0xA5, CHR 0xE8, CHR 0xAF, CHR 0xA2, CHR 0xE3, CHR 0x80, CHR 0x82, CHR 0x0A, CHR 0x0A, CHR 0xE8,
      CHR 0xA7, CHR 0x84, CHR 0xE5, CHR 0x88, CHR 0x99, CHR 0xEF, CHR 0xBC, CHR 0x9A, CHR 0x0A] @ ''1. '' @ [CHR
      0xE6, CHR 0xAF, CHR 0x8F, CHR 0xE4, CHR 0xB8, CHR 0xAA, CHR 0xE5, CHR 0xAD, CHR 0x90, CHR 0xE6, CHR 0x9F,
      CHR 0xA5, CHR 0xE8, CHR 0xAF, CHR 0xA2, CHR 0xE8, CHR 0x81, CHR 0x9A, CHR 0xE7, CHR 0x84, CHR 0xA6, CHR
      0xE4, CHR 0xB8, CHR 0x80, CHR 0xE4, CHR 0xB8, CHR 0xAA, CHR 0xE5, CHR 0x85, CHR 0xB7, CHR 0xE4, CHR 0xBD,
      CHR 0x93, CHR 0xE4, CHR 0xBF, CHR 0xA1, CHR 0xE6, CHR 0x81, CHR 0xAF, CHR 0xE7, CHR 0x82, CHR 0xB9, CHR
      0x0A] @ ''2. '' @ [CHR 0xE6, CHR 0x9C, CHR 0x80, CHR 0xE5, CHR 0xA4, CHR 0x9A] @ '' '' @ itoa n @ '' '' @
      [CHR 0xE4, CHR 0xB8, CHR 0xAA, CHR 0xE5, CHR 0xAD, CHR 0x90, CHR 0xE6, CHR 0x9F, CHR 0xA5, CHR 0xE8, CHR
      0xAF, CHR 0xA2, CHR 0x0A] @ ''3. '' @ [CHR 0xE4, CHR 0xBF, CHR 0x9D, CHR 0xE7, CHR 0x95, CHR 0x99, CHR
      0xE5, CHR 0x8E, CHR 0x9F, CHR 0xE5, CHR 0xA7, CHR 0x8B] @ '' query '' @ [CHR 0xE7, CHR 0x9A, CHR 0x84, CHR
      0xE8, CHR 0xAF, CHR 0xAD, CHR 0xE4, CHR 0xB9, CHR 0x89, CHR 0xE5, CHR 0x85, CHR 0xB3, CHR 0xE9, CHR 0x94,
      CHR 0xAE, CHR 0xE8, CHR 0xAF, CHR 0x8D, CHR 0x0A] @ ''4. '' @ [CHR 0xE5, CHR 0xA6, CHR 0x82, CHR 0xE6, CHR
      0x9E, CHR 0x9C, CHR 0xE9, CHR 0x97, CHR 0xAE, CHR 0xE9, CHR 0xA2, CHR 0x98, CHR 0xE5, CHR 0xB7, CHR 0xB2,
      CHR 0xE7, CHR 0xBB, CHR 0x8F, CHR 0xE6, CHR 0x98, CHR 0xAF, CHR 0xE5, CHR 0x8D, CHR 0x95, CHR 0xE4, CHR
      0xB8, CHR 0x80, CHR 0xE4, CHR 0xB8, CHR 0xBB, CHR 0xE9, CHR 0xA2, CHR 0x98, CHR 0xEF, CHR 0xBC, CHR 0x8C,
      CHR 0xE8, CHR 0xBF, CHR 0x94, CHR 0xE5, CHR 0x9B, CHR 0x9E, CHR 0xE7, CHR 0xA9, CHR 0xBA, CHR 0xE6, CHR
      0x95, CHR 0xB0, CHR 0xE7, CHR 0xBB, CHR 0x84] @ '' []'' @ [CHR 0x0A] @ ''5. '' @ [CHR 0xE5, CHR 0x8F, CHR
      0xAA, CHR 0xE8, CHR 0xBE, CHR 0x93, CHR 0xE5, CHR 0x87, CHR 0xBA] @ '' JSON '' @ [CHR 0xE6, CHR 0x95, CHR
      0xB0, CHR 0xE7, CHR 0xBB, CHR 0x84, CHR 0xEF, CHR 0xBC, CHR 0x8C, CHR 0xE4, CHR 0xB8, CHR 0x8D, CHR 0xE8,
      CHR 0xA6, CHR 0x81, CHR 0xE5, CHR 0x85, CHR 0xB6, CHR 0xE4, CHR 0xBB, CHR 0x96, CHR 0xE6, CHR 0x96, CHR
      0x87, CHR 0xE5, CHR 0xAD, CHR 0x97, CHR 0x0A, CHR 0x0A, CHR 0xE7, CHR 0xA4, CHR 0xBA, CHR 0xE4, CHR 0xBE,
      CHR 0x8B, CHR 0xEF, CHR 0xBC, CHR 0x9A, CHR 0x0A, CHR 0xE7, CHR 0x94, CHR 0xA8, CHR 0xE6, CHR 0x88, CHR
      0xB7] @ '': '' @ [CHR 0x22] @ ''payment '' @ [CHR 0xE6, CHR 0x9C, CHR 0x8D, CHR 0xE5, CHR 0x8A, CHR 0xA1,
      CHR 0xE6, CHR 0x9C, CHR 0x80, CHR 0xE8, CHR 0xBF, CHR 0x91, CHR 0xE4, CHR 0xB8, CHR 0xBA, CHR 0xE4, CHR
      0xBB, CHR 0x80, CHR 0xE4, CHR 0xB9, CHR 0x88, CHR 0xE5, CHR 0xBB, CHR 0xB6, CHR 0xE8, CHR 0xBF, CHR 0x9F,
      CHR 0xE5, CHR 0x8D, CHR 0x87, CHR 0xE9, CHR 0xAB, CHR 0x98, CHR 0xEF, CHR 0xBC, CHR 0x8C, CHR 0xE8, CHR
      0xB7, CHR 0x9F] @ '' Redis '' @ [CHR 0xE6, CHR 0x9C, CHR 0x89, CHR 0xE6, CHR 0xB2, CHR 0xA1, CHR 0xE6, CHR
      0x9C, CHR 0x89, CHR 0xE5, CHR 0x85, CHR 0xB3, CHR 0xE7, CHR 0xB3, CHR 0xBB, CHR 0xEF, CHR 0xBC, CHR 0x9F,
      CHR 0x22, CHR 0x0A, CHR 0xE8, CHR 0xBE, CHR 0x93, CHR 0xE5, CHR 0x87, CHR 0xBA] @ '': ['' @ [CHR 0x22] @
      ''payment '' @ [CHR 0xE6, CHR 0x9C, CHR 0x8D, CHR 0xE5, CHR 0x8A, CHR 0xA1, CHR 0xE5, CHR 0xBB, CHR 0xB6,
      CHR 0xE8, CHR 0xBF, CHR 0x9F, CHR 0xE5, CHR 0x8D, CHR 0x87, CHR 0xE9, CHR 0xAB, CHR 0x98, CHR 0xE6, CHR
      0x8C, CHR 0x87, CHR 0xE6, CHR 0xA0, CHR 0x87, CHR 0x22] @ '', '' @ [CHR 0x22] @ ''payment '' @ [CHR 0xE6,
      CHR 0x9C, CHR 0x8D, CHR 0xE5, CHR 0x8A, CHR 0xA1, CHR 0xE9, CHR 0x94, CHR 0x99, CHR 0xE8, CHR 0xAF, CHR
      0xAF, CHR 0xE6, CHR 0x97, CHR 0xA5, CHR 0xE5, CHR 0xBF, CHR 0x97, CHR 0x22] @ '', '' @ [CHR 0x22] @
      ''Redis '' @ [CHR 0xE6, CHR 0x80, CHR 0xA7, CHR 0xE8, CHR 0x83, CHR 0xBD, CHR 0xE5, CHR 0xBC, CHR 0x82,
      CHR 0xE5, CHR 0xB8, CHR 0xB8, CHR 0x22] @ '', '' @ [CHR 0x22] @ ''payment Redis '' @ [CHR 0xE8, CHR 0xBF,
      CHR 0x9E, CHR 0xE6, CHR 0x8E, CHR 0xA5, CHR 0x22] @ '']'' @ [CHR 0x0A, CHR 0x0A, CHR 0xE7, CHR 0x94, CHR
      0xA8, CHR 0xE6, CHR 0x88, CHR 0xB7] @ '': '' @ [CHR 0x22] @ ''Prometheus '' @ [CHR 0xE5, CHR 0x91, CHR
      0x8A, CHR 0xE8, CHR 0xAD, CHR 0xA6, CHR 0xE5, CHR 0x85, CHR 0x88, CHR 0xE7, CHR 0x9C, CHR 0x8B, CHR 0xE4,
      CHR 0xBB, CHR 0x80, CHR 0xE4, CHR 0xB9, CHR 0x88, CHR 0x22, CHR 0x0A, CHR 0xE8, CHR 0xBE, CHR 0x93, CHR
      0xE5, CHR 0x87, CHR 0xBA] @ '': []'' @ [CHR 0x0A, CHR 0x0A, CHR 0xE7, CHR 0x94, CHR 0xA8, CHR 0xE6, CHR
      0x88, CHR 0xB7] @ '': '' @ query @ [CHR 0x0A, CHR 0xE8, CHR 0xBE, CHR 0x93, CHR 0xE5, CHR 0x87, CHR 0xBA]
      @ '':''"

definition uniqueQueries :: "string list \<Rightarrow> string list" where
  "uniqueQueries qs = dedup_from [] (filter (\<lambda>q. q \<noteq> []) (map trim_space qs))"

text \<open>\<open>parseList\<close> is the decoder of a JSON list of texts, the text of its error or the list.\<close>

definition decomposeQuery ::
  "(chat_messages \<Rightarrow> model_reply) \<Rightarrow> (string \<Rightarrow> string + string list) \<Rightarrow> string \<Rightarrow> planner_config \<Rightarrow> string + string list" where
  "decomposeQuery model parseList query cfg =
     (case model [(''user'', plannerDecomposePrompt (pn_MaxSubQueries cfg) query)] of
        ModelInitFailed msg \<Rightarrow> Inl (''planner model init failed: '' @ msg)
      | ModelCallFailed f msg \<Rightarrow> Inl (''planner LLM call failed: '' @ msg)
      | ModelSays answer \<Rightarrow>
          (case parseList (trim_space answer) of
             Inl msg \<Rightarrow> Inl (''planner parse failed: '' @ msg)
           | Inr qs \<Rightarrow>
               (let unique = uniqueQueries qs
                in if length unique < 2 then Inr []
                   else Inr (if int (length unique) > pn_MaxSubQueries cfg then take (nat (pn_MaxSubQueries cfg)) unique else unique))))"

record plan_result =
  pl_Decomposed :: bool
  pl_SubQueries :: "string list"
  pl_Reason :: string
  pl_LatencyMs :: int

definition Analyze ::
  "(chat_messages \<Rightarrow> model_reply) \<Rightarrow> (string \<Rightarrow> string + string list) \<Rightarrow> int \<Rightarrow> string \<Rightarrow> planner_config \<Rightarrow> plan_result" where
  "Analyze model parseList latency query cfg =
     (let no = (\<lambda>reason. \<lparr>pl_Decomposed = False, pl_SubQueries = [], pl_Reason = reason, pl_LatencyMs = latency\<rparr>)
      in if \<not> pn_Enabled cfg then no ''planner_disabled''
         else if \<not> needsDecomposition query cfg then no ''no_decomposition_needed''
         else (case decomposeQuery model parseList query cfg of
                 Inl err \<Rightarrow> no (''decompose_error: '' @ err)
               | Inr [] \<Rightarrow> no ''decompose_returned_empty''
               | Inr qs \<Rightarrow> \<lparr>pl_Decomposed = True, pl_SubQueries = qs, pl_Reason = ''decomposed'', pl_LatencyMs = latency\<rparr>))"

subsection \<open>Running the parts and merging\<close>

text \<open>One part after the other, \<open>qcs i\<close> what the part at \<open>i\<close> meets; a part that fails finds nothing, a panic ends all.\<close>

fun Execute ::
  "rag_env \<Rightarrow> (nat \<Rightarrow> 'r query_context) \<Rightarrow> nat \<Rightarrow> string list \<Rightarrow> 'r cached_retriever \<Rightarrow> rag_document list list option \<times> 'r cached_retriever" where
  "Execute rg qcs i [] st = (Some [], st)"
| "Execute rg qcs i (q # qs) st =
     (case Query rg (qcs i) q st of
        (None, st1) \<Rightarrow> (None, st1)
      | (Some (answer, _), st1) \<Rightarrow>
          (case Execute rg qcs (Suc i) qs st1 of
             (None, st2) \<Rightarrow> (None, st2)
           | (Some rest, st2) \<Rightarrow> (Some ((case answer of Inl _ \<Rightarrow> [] | Inr docs \<Rightarrow> docs) # rest), st2)))"

record merge_entry =
  me_doc :: rag_document
  me_score :: f64
  me_subQueries :: "string list"

definition mergeDoc :: "string \<Rightarrow> nat \<times> rag_document option \<Rightarrow> (string, merge_entry) gomap \<Rightarrow> (string, merge_entry) gomap" where
  "mergeDoc sq = (\<lambda>(rank, doc) byID.
     (case doc of
        None \<Rightarrow> byID
      | Some d \<Rightarrow>
          (let k = fusionID d;
               e = (case gm_get byID k of Some e \<Rightarrow> e | None \<Rightarrow> \<lparr>me_doc = d, me_score = 0, me_subQueries = []\<rparr>)
           in if k = [] then byID
              else gm_put k (e\<lparr>me_score := fadd (me_score e) (fdiv 1 (fadd 60 (f64_of_int (int rank + 1)))),
                               me_subQueries := (if sq \<in> set (me_subQueries e) then me_subQueries e else me_subQueries e @ [sq])\<rparr>) byID)))"

definition mergeAll :: "rag_document option list list \<Rightarrow> string list \<Rightarrow> (string, merge_entry) gomap" where
  "mergeAll results subQueries =
     fold (\<lambda>(docs, sq). fold (mergeDoc sq) (enumerate 0 docs)) (zip results subQueries) []"

definition MergeResults ::
  "rag_document option list list \<Rightarrow> string list \<Rightarrow> int \<Rightarrow> rag_document list \<times> (string, string list) gomap" where
  "MergeResults results subQueries finalTopK =
     (let entries = sort_slice (\<lambda>a b. me_score a > me_score b) (map snd (mergeAll results subQueries));
          limit = (if finalTopK \<le> 0 \<or> finalTopK > int (length entries) then length entries else nat finalTopK);
          chosen = take limit entries
      in (map me_doc chosen, fold (\<lambda>e. gm_put (fusionID (me_doc e)) (me_subQueries e)) chosen []))"

record planner_trace =
  pt_Analyzed :: bool
  pt_SubQueryCount :: int
  pt_PlanLatencyMs :: int
  pt_ExecLatencyMs :: int
  pt_MergeLatencyMs :: int
  pt_FallbackReason :: string

text \<open>What a query with a planner meets: the whole query in the context \<open>pw_whole\<close>, the parts in the contexts
  \<open>pw_parts\<close>, and the decoder.\<close>

record 'r planner_world =
  pw_whole :: "'r query_context"
  pw_parts :: "nat \<Rightarrow> 'r query_context"
  pw_parseList :: "string \<Rightarrow> string + string list"

definition markSubQueries :: "(string, string list) gomap \<Rightarrow> rag_document \<Rightarrow> rag_document" where
  "markSubQueries m doc =
     (case gm_get m (fusionID doc) of Some sqs \<Rightarrow> setMeta ''_planner_sub_queries'' (MStrs sqs) doc | None \<Rightarrow> doc)"

definition QueryWithPlanner ::
  "rag_env \<Rightarrow> 'r planner_world \<Rightarrow> string \<Rightarrow> planner_config \<Rightarrow> 'r cached_retriever \<Rightarrow>
     ((string + rag_document list) \<times> planner_trace) option \<times> 'r cached_retriever" where
  "QueryWithPlanner rg w query cfg st =
     (let t0 = \<lparr>pt_Analyzed = True, pt_SubQueryCount = 0, pt_PlanLatencyMs = 0, pt_ExecLatencyMs = 0, pt_MergeLatencyMs = 0,
                pt_FallbackReason = []\<rparr>;
          qc = pw_whole w; latency = qc_latency qc
      in if trim_space query = [] then (Some (Inr [], t0), st)
         else (let plan = Analyze (qc_model qc) (pw_parseList w) latency query cfg; t1 = t0\<lparr>pt_PlanLatencyMs := pl_LatencyMs plan\<rparr>
               in if \<not> pl_Decomposed plan
                  then (case Query rg qc query st of
                          (None, st1) \<Rightarrow> (None, st1)
                        | (Some (answer, _), st1) \<Rightarrow> (Some (answer, t1\<lparr>pt_FallbackReason := pl_Reason plan\<rparr>), st1))
                  else (case Execute rg (pw_parts w) 0 (pl_SubQueries plan) st of
                          (None, st1) \<Rightarrow> (None, st1)
                        | (Some results, st1) \<Rightarrow>
                            (let (docs, m) = MergeResults (map (map Some) results) (pl_SubQueries plan) (GetRetrieverTopK (qc_config qc))
                             in (Some (Inr (map (markSubQueries m) docs),
                                       t1\<lparr>pt_SubQueryCount := int (length (pl_SubQueries plan)), pt_ExecLatencyMs := latency,
                                          pt_MergeLatencyMs := latency\<rparr>), st1)))))"

subsection \<open>Evaluating what was found\<close>

record eval_result =
  er_Confidence :: f64
  er_Sufficient :: bool
  er_MissingInfo :: "string list"
  er_NextStrategy :: string
  er_Reason :: string

text \<open>A confidence the evaluator falls back on if it cannot judge.\<close>

definition unjudged :: "string \<Rightarrow> eval_result" where
  "unjudged reason = \<lparr>er_Confidence = 1 / 2, er_Sufficient = False, er_MissingInfo = [], er_NextStrategy = ''none'', er_Reason = reason\<rparr>"

definition stripFence :: "string \<Rightarrow> string" where
  "stripFence raw =
     (let fence = [CHR 0x60, CHR 0x60, CHR 0x60]
      in trim_space (trim_suffix fence (trim_prefix fence (trim_prefix (fence @ ''json'') (trim_space raw)))))"

text \<open>\<open>decode\<close> is the decoder of the JSON of a result, with the zero value for a member that is missing.\<close>

definition parseEvalResult :: "(string \<Rightarrow> eval_result option) \<Rightarrow> string \<Rightarrow> eval_result" where
  "parseEvalResult decode raw =
     (case decode (stripFence raw) of
        None \<Rightarrow> unjudged ''parse failed''
      | Some r \<Rightarrow>
          r\<lparr>er_Confidence := (if er_Confidence r < 0 \<or> er_Confidence r > 1 then 1 / 2 else er_Confidence r),
            er_NextStrategy := (if er_NextStrategy r = [] then ''none'' else er_NextStrategy r)\<rparr>)"

definition evalEntry :: "nat \<times> rag_document option \<Rightarrow> string" where
  "evalEntry = (\<lambda>(i, doc).
     (case doc of
        None \<Rightarrow> []
      | Some d \<Rightarrow>
          (let t = firstStringMetadata (rd_Meta d) [''title'', ''file_name'', ''source'']
           in ''['' @ itoa (int i + 1) @ ''] '' @ (if t = [] then rd_ID d else t) @ [CHR 0x0A] @
              clipRunes 200 (rd_Content d) @ [CHR 0x0A, CHR 0x0A])))"

definition formatDocsForEval :: "rag_document option list \<Rightarrow> string" where
  "formatDocsForEval docs = concat (map evalEntry (enumerate 0 docs))"

definition evaluatorPrompt :: "string \<Rightarrow> string \<Rightarrow> int \<Rightarrow> int \<Rightarrow> string" where
  "evaluatorPrompt query summaries round0 maxRounds =
     [CHR 0xE4, CHR 0xBD, CHR 0xA0, CHR 0xE6, CHR 0x98, CHR 0xAF, CHR 0xE8, CHR 0xBF, CHR 0x90, CHR 0xE7, CHR
      0xBB, CHR 0xB4, CHR 0xE7, CHR 0x9F, CHR 0xA5, CHR 0xE8, CHR 0xAF, CHR 0x86, CHR 0xE6, CHR 0xA3, CHR 0x80,
      CHR 0xE7, CHR 0xB4, CHR 0xA2, CHR 0xE8, CHR 0xB4, CHR 0xA8, CHR 0xE9, CHR 0x87, CHR 0x8F, CHR 0xE8, CHR
      0xAF, CHR 0x84, CHR 0xE4, CHR 0xBC, CHR 0xB0, CHR 0xE5, CHR 0x99, CHR 0xA8, CHR 0xE3, CHR 0x80, CHR 0x82,
      CHR 0xE7, CHR 0xBB, CHR 0x99, CHR 0xE5, CHR 0xAE, CHR 0x9A, CHR 0xE7, CHR 0x94, CHR 0xA8, CHR 0xE6, CHR
      0x88, CHR 0xB7, CHR 0xE9, CHR 0x97, CHR 0xAE, CHR 0xE9, CHR 0xA2, CHR 0x98, CHR 0xE5, CHR 0x92, CHR 0x8C,
      CHR 0xE6, CHR 0xA3, CHR 0x80, CHR 0xE7, CHR 0xB4, CHR 0xA2, CHR 0xE7, CHR 0xBB, CHR 0x93, CHR 0xE6, CHR
      0x9E, CHR 0x9C, CHR 0xEF, CHR 0xBC, CHR 0x8C, CHR 0xE5, CHR 0x88, CHR 0xA4, CHR 0xE6, CHR 0x96, CHR 0xAD,
      CHR 0xE6, CHR 0x98, CHR 0xAF, CHR 0xE5, CHR 0x90, CHR 0xA6, CHR 0xE8, CHR 0xB6, CHR 0xB3, CHR 0xE5, CHR
      0xA4, CHR 0x9F, CHR 0xE5, CHR 0x9B, CHR 0x9E, CHR 0xE7, CHR 0xAD, CHR 0x94, CHR 0xE3, CHR 0x80, CHR 0x82,
      CHR 0x0A, CHR 0x0A, CHR 0xE7, CHR 0x94, CHR 0xA8, CHR 0xE6, CHR 0x88, CHR 0xB7, CHR 0xE9, CHR 0x97, CHR
      0xAE, CHR 0xE9, CHR 0xA2, CHR 0x98] @ '': '' @ query @ [CHR 0x0A, CHR 0xE5, CHR 0xB7, CHR 0xB2, CHR 0xE6,
      CHR 0xA3, CHR 0x80, CHR 0xE7, CHR 0xB4, CHR 0xA2, CHR 0xE6, CHR 0x96, CHR 0x87, CHR 0xE6, CHR 0xA1, CHR
      0xA3] @ '':'' @ [CHR 0x0A] @ summaries @ [CHR 0x0A, CHR 0xE5, CHR 0xB7, CHR 0xB2, CHR 0xE5, CHR 0xB0, CHR
      0x9D, CHR 0xE8, CHR 0xAF, CHR 0x95, CHR 0xE8, CHR 0xBD, CHR 0xAE, CHR 0xE6, CHR 0x95, CHR 0xB0] @ '': '' @
      itoa round0 @ ''/'' @ itoa maxRounds @ [CHR 0x0A, CHR 0x0A, CHR 0xE8, CHR 0xAF, CHR 0x84, CHR 0xE4, CHR
      0xBC, CHR 0xB0, CHR 0xE7, CHR 0xBB, CHR 0xB4, CHR 0xE5, CHR 0xBA, CHR 0xA6] @ '':'' @ [CHR 0x0A] @ ''1. ''
      @ [CHR 0xE6, CHR 0x98, CHR 0xAF, CHR 0xE5, CHR 0x90, CHR 0xA6, CHR 0xE8, CHR 0xA6, CHR 0x86, CHR 0xE7, CHR
      0x9B, CHR 0x96, CHR 0xE4, CHR 0xBA, CHR 0x86, CHR 0xE9, CHR 0x97, CHR 0xAE, CHR 0xE9, CHR 0xA2, CHR 0x98,
      CHR 0xE7, CHR 0x9A, CHR 0x84, CHR 0xE6, CHR 0x89, CHR 0x80, CHR 0xE6, CHR 0x9C, CHR 0x89, CHR 0xE6, CHR
      0x96, CHR 0xB9, CHR 0xE9, CHR 0x9D, CHR 0xA2, CHR 0xEF, CHR 0xBC, CHR 0x9F, CHR 0x0A] @ ''2. '' @ [CHR
      0xE7, CHR 0xBB, CHR 0x93, CHR 0xE6, CHR 0x9E, CHR 0x9C, CHR 0xE4, CHR 0xB8, CHR 0x8E, CHR 0xE9, CHR 0x97,
      CHR 0xAE, CHR 0xE9, CHR 0xA2, CHR 0x98, CHR 0xE7, CHR 0x9A, CHR 0x84, CHR 0xE7, CHR 0x9B, CHR 0xB8, CHR
      0xE5, CHR 0x85, CHR 0xB3, CHR 0xE6, CHR 0x80, CHR 0xA7, CHR 0xE5, CHR 0xA6, CHR 0x82, CHR 0xE4, CHR 0xBD,
      CHR 0x95, CHR 0xEF, CHR 0xBC, CHR 0x9F, CHR 0x0A] @ ''3. '' @ [CHR 0xE6, CHR 0x98, CHR 0xAF, CHR 0xE5, CHR
      0x90, CHR 0xA6, CHR 0xE6, CHR 0x9C, CHR 0x89, CHR 0xE6, CHR 0x98, CHR 0x8E, CHR 0xE7, CHR 0xA1, CHR 0xAE,
      CHR 0xE7, CHR 0x9A, CHR 0x84, CHR 0xE8, CHR 0xAF, CHR 0x81, CHR 0xE6, CHR 0x8D, CHR 0xAE, CHR 0xE6, CHR
      0x94, CHR 0xAF, CHR 0xE6, CHR 0x8C, CHR 0x81, CHR 0xE7, CHR 0xBB, CHR 0x93, CHR 0xE8, CHR 0xAE, CHR 0xBA,
      CHR 0xEF, CHR 0xBC, CHR 0x9F, CHR 0x0A, CHR 0x0A, CHR 0xE8, CHR 0xBE, CHR 0x93, CHR 0xE5, CHR 0x87, CHR
      0xBA] @ '' JSON:'' @ [CHR 0x0A] @ ''{'' @ [CHR 0x0A] @ ''  '' @ [CHR 0x22] @ ''confidence'' @ [CHR 0x22] @
      '': 0.0-1.0,'' @ [CHR 0x0A] @ ''  '' @ [CHR 0x22] @ ''sufficient'' @ [CHR 0x22] @ '': true/false,'' @ [CHR
      0x0A] @ ''  '' @ [CHR 0x22] @ ''missing_info'' @ [CHR 0x22] @ '': ['' @ [CHR 0x22, CHR 0xE7, CHR 0xBC, CHR
      0xBA, CHR 0xE5, CHR 0xA4, CHR 0xB1, CHR 0xE7, CHR 0x82, CHR 0xB9] @ ''1'' @ [CHR 0x22] @ ''],'' @ [CHR
      0x0A] @ ''  '' @ [CHR 0x22] @ ''next_strategy'' @ [CHR 0x22] @ '': '' @ [CHR 0x22] @
      ''expand_scope|refine_query|add_angle|none'' @ [CHR 0x22] @ '','' @ [CHR 0x0A] @ ''  '' @ [CHR 0x22] @
      ''reason'' @ [CHR 0x22] @ '': '' @ [CHR 0x22, CHR 0xE8, CHR 0xAF, CHR 0x84, CHR 0xE4, CHR 0xBC, CHR 0xB0,
      CHR 0xE7, CHR 0x90, CHR 0x86, CHR 0xE7, CHR 0x94, CHR 0xB1, CHR 0x22, CHR 0x0A] @ ''}''"

definition Evaluate ::
  "(chat_messages \<Rightarrow> model_reply) \<Rightarrow> (string \<Rightarrow> eval_result option) \<Rightarrow> string \<Rightarrow> rag_document option list \<Rightarrow> int \<Rightarrow> int \<Rightarrow> eval_result" where
  "Evaluate model decode query docs round0 maxRounds =
     (case model [(''user'', evaluatorPrompt query (formatDocsForEval docs) round0 maxRounds)] of
        ModelInitFailed msg \<Rightarrow> unjudged ''model init failed''
      | ModelCallFailed f msg \<Rightarrow> unjudged ''LLM call failed''
      | ModelSays answer \<Rightarrow> parseEvalResult decode answer)"

subsection \<open>Planning the next round\<close>

record retrieval_plan =
  rp_SubQueries :: "string list"
  rp_Strategy :: string
  rp_Reason :: string

definition noPlan :: "string \<Rightarrow> retrieval_plan" where
  "noPlan reason = \<lparr>rp_SubQueries = [], rp_Strategy = ''none'', rp_Reason = reason\<rparr>"

definition parseRetrievalPlan :: "(string \<Rightarrow> retrieval_plan option) \<Rightarrow> string \<Rightarrow> retrieval_plan" where
  "parseRetrievalPlan decode raw =
     (case decode (stripFence raw) of
        None \<Rightarrow> noPlan ''parse failed''
      | Some r \<Rightarrow> r\<lparr>rp_Strategy := (if rp_Strategy r = [] then ''none'' else rp_Strategy r)\<rparr>)"

definition extractDocIDs :: "rag_document option list \<Rightarrow> string" where
  "extractDocIDs docs = join '', '' (dedup_from [] (filter (\<lambda>i. i \<noteq> []) (map canonicalDocID docs)))"

definition fmtBool :: "bool \<Rightarrow> string" where
  "fmtBool b = (if b then ''true'' else ''false'')"

definition noMissingInfo :: string where
  "noMissingInfo = [CHR 0xE6, CHR 0x97, CHR 0xA0]"

definition retrievalPlannerPrompt :: "string \<Rightarrow> eval_result \<Rightarrow> string \<Rightarrow> string \<Rightarrow> string" where
  "retrievalPlannerPrompt query r missing docIDs =
     [CHR 0xE4, CHR 0xBD, CHR 0xA0, CHR 0xE6, CHR 0x98, CHR 0xAF, CHR 0xE8, CHR 0xBF, CHR 0x90, CHR 0xE7, CHR
      0xBB, CHR 0xB4, CHR 0xE6, CHR 0xA3, CHR 0x80, CHR 0xE7, CHR 0xB4, CHR 0xA2, CHR 0xE7, CHR 0xAD, CHR 0x96,
      CHR 0xE7, CHR 0x95, CHR 0xA5, CHR 0xE8, CHR 0xA7, CHR 0x84, CHR 0xE5, CHR 0x88, CHR 0x92, CHR 0xE5, CHR
      0x99, CHR 0xA8, CHR 0xE3, CHR 0x80, CHR 0x82, CHR 0xE6, CHR 0xA0, CHR 0xB9, CHR 0xE6, CHR 0x8D, CHR 0xAE,
      CHR 0xE8, CHR 0xAF, CHR 0x84, CHR 0xE4, CHR 0xBC, CHR 0xB0, CHR 0xE7, CHR 0xBB, CHR 0x93, CHR 0xE6, CHR
      0x9E, CHR 0x9C, CHR 0xE5, CHR 0x92, CHR 0x8C, CHR 0xE5, CHR 0xB7, CHR 0xB2, CHR 0xE6, CHR 0xA3, CHR 0x80,
      CHR 0xE7, CHR 0xB4, CHR 0xA2, CHR 0xE6, CHR 0x96, CHR 0x87, CHR 0xE6, CHR 0xA1, CHR 0xA3, CHR 0xEF, CHR
      0xBC, CHR 0x8C, CHR 0xE8, CHR 0xA7, CHR 0x84, CHR 0xE5, CHR 0x88, CHR 0x92, CHR 0xE4, CHR 0xB8, CHR 0x8B,
      CHR 0xE4, CHR 0xB8, CHR 0x80, CHR 0xE8, CHR 0xBD, CHR 0xAE, CHR 0xE6, CHR 0xA3, CHR 0x80, CHR 0xE7, CHR
      0xB4, CHR 0xA2, CHR 0xE3, CHR 0x80, CHR 0x82, CHR 0x0A, CHR 0x0A, CHR 0xE7, CHR 0x94, CHR 0xA8, CHR 0xE6,
      CHR 0x88, CHR 0xB7, CHR 0xE9, CHR 0x97, CHR 0xAE, CHR 0xE9, CHR 0xA2, CHR 0x98] @ '': '' @ query @ [CHR
      0x0A, CHR 0xE8, CHR 0xAF, CHR 0x84, CHR 0xE4, CHR 0xBC, CHR 0xB0, CHR 0xE7, CHR 0xBB, CHR 0x93, CHR 0xE6,
      CHR 0x9E, CHR 0x9C] @ '':'' @ [CHR 0x0A] @ ''- '' @ [CHR 0xE7, CHR 0xBD, CHR 0xAE, CHR 0xE4, CHR 0xBF, CHR
      0xA1, CHR 0xE5, CHR 0xBA, CHR 0xA6] @ '': '' @ fmt_fixed 2 (er_Confidence r) @ [CHR 0x0A] @ ''- '' @ [CHR
      0xE6, CHR 0x98, CHR 0xAF, CHR 0xE5, CHR 0x90, CHR 0xA6, CHR 0xE5, CHR 0x85, CHR 0x85, CHR 0xE5, CHR 0x88,
      CHR 0x86] @ '': '' @ fmtBool (er_Sufficient r) @ [CHR 0x0A] @ ''- '' @ [CHR 0xE7, CHR 0xBC, CHR 0xBA, CHR
      0xE5, CHR 0xA4, CHR 0xB1, CHR 0xE4, CHR 0xBF, CHR 0xA1, CHR 0xE6, CHR 0x81, CHR 0xAF] @ '': '' @ missing @
      [CHR 0x0A] @ ''- '' @ [CHR 0xE5, CHR 0xBB, CHR 0xBA, CHR 0xE8, CHR 0xAE, CHR 0xAE, CHR 0xE7, CHR 0xAD, CHR
      0x96, CHR 0xE7, CHR 0x95, CHR 0xA5] @ '': '' @ er_NextStrategy r @ [CHR 0x0A, CHR 0x0A, CHR 0xE5, CHR
      0xB7, CHR 0xB2, CHR 0xE6, CHR 0xA3, CHR 0x80, CHR 0xE7, CHR 0xB4, CHR 0xA2, CHR 0xE6, CHR 0x96, CHR 0x87,
      CHR 0xE6, CHR 0xA1, CHR 0xA3] @ '' ID: '' @ docIDs @ [CHR 0x0A, CHR 0x0A, CHR 0xE8, CHR 0xA7, CHR 0x84,
      CHR 0xE5, CHR 0x88, CHR 0x99] @ '':'' @ [CHR 0x0A] @ ''1. '' @ [CHR 0xE9, CHR 0x92, CHR 0x88, CHR 0xE5,
      CHR 0xAF, CHR 0xB9] @ '' missing_info '' @ [CHR 0xE5, CHR 0x88, CHR 0xB6, CHR 0xE5, CHR 0xAE, CHR 0x9A,
      CHR 0xE6, CHR 0xA3, CHR 0x80, CHR 0xE7, CHR 0xB4, CHR 0xA2, CHR 0xE5, CHR 0xAD, CHR 0x90, CHR 0xE6, CHR
      0x9F, CHR 0xA5, CHR 0xE8, CHR 0xAF, CHR 0xA2, CHR 0x0A] @ ''2. '' @ [CHR 0xE6, CHR 0x9C, CHR 0x80, CHR
      0xE5, CHR 0xA4, CHR 0x9A] @ '' 3 '' @ [CHR 0xE4, CHR 0xB8, CHR 0xAA, CHR 0xE5, CHR 0xAD, CHR 0x90, CHR
      0xE6, CHR 0x9F, CHR 0xA5, CHR 0xE8, CHR 0xAF, CHR 0xA2, CHR 0x0A] @ ''3. '' @ [CHR 0xE4, CHR 0xB8, CHR
      0x8D, CHR 0xE8, CHR 0xA6, CHR 0x81, CHR 0xE9, CHR 0x87, CHR 0x8D, CHR 0xE5, CHR 0xA4, CHR 0x8D, CHR 0xE5,
      CHR 0xB7, CHR 0xB2, CHR 0xE6, CHR 0xA3, CHR 0x80, CHR 0xE7, CHR 0xB4, CHR 0xA2, CHR 0xE7, CHR 0x9A, CHR
      0x84, CHR 0xE6, CHR 0x96, CHR 0x87, CHR 0xE6, CHR 0xA1, CHR 0xA3] @ '' ID'' @ [CHR 0xEF, CHR 0xBC, CHR
      0x88, CHR 0xE7, CHR 0xA8, CHR 0x8B, CHR 0xE5, CHR 0xBA, CHR 0x8F, CHR 0xE4, CHR 0xBC, CHR 0x9A, CHR 0xE8,
      CHR 0x87, CHR 0xAA, CHR 0xE5, CHR 0x8A, CHR 0xA8, CHR 0xE8, CHR 0xBF, CHR 0x87, CHR 0xE6, CHR 0xBB, CHR
      0xA4, CHR 0xEF, CHR 0xBC, CHR 0x8C, CHR 0xE4, CHR 0xBD, CHR 0x86, CHR 0xE8, CHR 0xAF, CHR 0xB7, CHR 0xE5,
      CHR 0xB0, CHR 0xBD, CHR 0xE9, CHR 0x87, CHR 0x8F, CHR 0xE9, CHR 0x81, CHR 0xBF, CHR 0xE5, CHR 0x85, CHR
      0x8D, CHR 0xEF, CHR 0xBC, CHR 0x89, CHR 0x0A, CHR 0x0A, CHR 0xE8, CHR 0xBE, CHR 0x93, CHR 0xE5, CHR 0x87,
      CHR 0xBA] @ '' JSON:'' @ [CHR 0x0A] @ ''{'' @ [CHR 0x0A] @ ''  '' @ [CHR 0x22] @ ''sub_queries'' @ [CHR
      0x22] @ '': ['' @ [CHR 0x22, CHR 0xE5, CHR 0xAD, CHR 0x90, CHR 0xE6, CHR 0x9F, CHR 0xA5, CHR 0xE8, CHR
      0xAF, CHR 0xA2] @ ''1'' @ [CHR 0x22] @ '', '' @ [CHR 0x22, CHR 0xE5, CHR 0xAD, CHR 0x90, CHR 0xE6, CHR
      0x9F, CHR 0xA5, CHR 0xE8, CHR 0xAF, CHR 0xA2] @ ''2'' @ [CHR 0x22] @ ''],'' @ [CHR 0x0A] @ ''  '' @ [CHR
      0x22] @ ''strategy'' @ [CHR 0x22] @ '': '' @ [CHR 0x22] @ ''expand_scope|refine_query|add_angle'' @ [CHR
      0x22] @ '','' @ [CHR 0x0A] @ ''  '' @ [CHR 0x22] @ ''reason'' @ [CHR 0x22] @ '': '' @ [CHR 0x22, CHR 0xE8,
      CHR 0xA7, CHR 0x84, CHR 0xE5, CHR 0x88, CHR 0x92, CHR 0xE7, CHR 0x90, CHR 0x86, CHR 0xE7, CHR 0x94, CHR
      0xB1, CHR 0x22, CHR 0x0A] @ ''}''"

definition PlanRetrieval ::
  "(chat_messages \<Rightarrow> model_reply) \<Rightarrow> (string \<Rightarrow> retrieval_plan option) \<Rightarrow> string \<Rightarrow> eval_result \<Rightarrow> rag_document option list \<Rightarrow> retrieval_plan" where
  "PlanRetrieval model decode query r docs =
     (let missing = (if er_MissingInfo r \<noteq> [] then join '', '' (er_MissingInfo r) else noMissingInfo)
      in case model [(''user'', retrievalPlannerPrompt query r missing (extractDocIDs docs))] of
           ModelInitFailed msg \<Rightarrow> noPlan ''model init failed''
         | ModelCallFailed f msg \<Rightarrow> noPlan ''LLM call failed''
         | ModelSays answer \<Rightarrow> parseRetrievalPlan decode answer)"

subsection \<open>Rounds\<close>

record agent_config =
  ac_Enabled :: bool
  ac_Model :: string
  ac_MaxRounds :: int
  ac_ConfidenceThreshold :: f64
  ac_EvalTimeoutMs :: int
  ac_PlanTimeoutMs :: int
  ac_TotalTimeoutMs :: int
  ac_MaxTotalTokens :: int

definition DefaultAgentConfig :: agent_config where
  "DefaultAgentConfig =
     \<lparr>ac_Enabled = False, ac_Model = ''chat_model_fast'', ac_MaxRounds = 2, ac_ConfidenceThreshold = rnd (7 / 10),
      ac_EvalTimeoutMs = 10000, ac_PlanTimeoutMs = 10000, ac_TotalTimeoutMs = 8000, ac_MaxTotalTokens = 8000\<rparr>"

definition LoadAgentConfig :: "config_reader \<Rightarrow> (string \<Rightarrow> string) \<Rightarrow> agent_config" where
  "LoadAgentConfig cn texts =
     (let cfg = DefaultAgentConfig; m = texts ''rag.agent.model''
      in \<lparr>ac_Enabled = readBool cn ''rag.agent.enabled'' (ac_Enabled cfg),
          ac_Model = (if m \<noteq> [] then m else ac_Model cfg),
          ac_MaxRounds = readPositiveInt cn ''rag.agent.max_rounds'' (ac_MaxRounds cfg),
          ac_ConfidenceThreshold =
            (case cn_num cn ''rag.agent.confidence_threshold'' of Some v \<Rightarrow> if v > 0 then v else ac_ConfidenceThreshold cfg
             | None \<Rightarrow> ac_ConfidenceThreshold cfg),
          ac_EvalTimeoutMs = readPositiveInt cn ''rag.agent.eval_timeout_ms'' (ac_EvalTimeoutMs cfg),
          ac_PlanTimeoutMs = readPositiveInt cn ''rag.agent.plan_timeout_ms'' (ac_PlanTimeoutMs cfg),
          ac_TotalTimeoutMs = readPositiveInt cn ''rag.agent.total_timeout_ms'' (ac_TotalTimeoutMs cfg),
          ac_MaxTotalTokens = readPositiveInt cn ''rag.agent.max_total_tokens'' (ac_MaxTotalTokens cfg)\<rparr>)"

definition buildNextQuery :: "string \<Rightarrow> eval_result \<Rightarrow> string" where
  "buildNextQuery originalQuery r =
     (if er_MissingInfo r = [] then []
      else join '' '' (originalQuery # filter (\<lambda>i. i \<noteq> []) (map trim_space (er_MissingInfo r))))"

text \<open>The documents not seen before, and what is seen then.\<close>

fun filterNewDocs :: "rag_document list \<Rightarrow> string list \<Rightarrow> rag_document list \<times> string list" where
  "filterNewDocs [] seen = ([], seen)"
| "filterNewDocs (doc # docs) seen =
     (let k = docFusionKey doc
      in if k = [] \<or> k \<in> set seen then filterNewDocs docs seen
         else (let (out, seen1) = filterNewDocs docs (k # seen) in (doc # out, seen1)))"

fun mergeDedupLoop :: "string list \<Rightarrow> rag_document list \<Rightarrow> rag_document list" where
  "mergeDedupLoop seen [] = []"
| "mergeDedupLoop seen (doc # docs) =
     (let k = fusionID doc
      in if k \<in> set seen then mergeDedupLoop seen docs else doc # mergeDedupLoop (k # seen) docs)"

definition mergeAndDedup :: "rag_document list \<Rightarrow> rag_document list" where
  "mergeAndDedup docs = mergeDedupLoop [] docs"

record round_trace =
  rt_Round :: int
  rt_SubQueryCount :: int
  rt_DocCount :: int
  rt_NewDocCount :: int
  rt_Confidence :: f64
  rt_Strategy :: string
  rt_LatencyMs :: int

record agent_trace =
  at_Rounds :: int
  at_FinalConfidence :: f64
  at_TotalLatencyMs :: int
  at_RoundTraces :: "round_trace list"

text \<open>What the agent meets in the round at \<open>i\<close>: the time since the start when the round begins, the contexts of its
  queries, and the decoder of the evaluator's JSON.\<close>

record 'r agent_world =
  aw_elapsed :: "nat \<Rightarrow> duration"
  aw_planner :: "nat \<Rightarrow> 'r planner_world"
  aw_decode :: "string \<Rightarrow> eval_result option"

text \<open>The rounds from \<open>round0\<close>, at most \<open>fuel\<close>; all documents, those seen and the trace so far. \<open>None\<close> is a panic.\<close>

fun roundsLoop ::
  "rag_env \<Rightarrow> 'r agent_world \<Rightarrow> agent_config \<Rightarrow> planner_config \<Rightarrow> string \<Rightarrow> nat \<Rightarrow> nat \<Rightarrow> string \<Rightarrow> rag_document list \<Rightarrow>
     string list \<Rightarrow> agent_trace \<Rightarrow> 'r cached_retriever \<Rightarrow> (rag_document list \<times> agent_trace) option \<times> 'r cached_retriever" where
  "roundsLoop rg w cfg pcfg query 0 round0 current docs seen t st = (Some (docs, t), st)"
| "roundsLoop rg w cfg pcfg query (Suc fuel) round0 current docs seen t st =
     (if aw_elapsed w round0 \<ge> wrap64 (ac_TotalTimeoutMs cfg * 1000000) then (Some (docs, t), st)
      else (case QueryWithPlanner rg (aw_planner w round0) current pcfg st of
              (None, st1) \<Rightarrow> (None, st1)
            | (Some (Inl err, _), st1) \<Rightarrow> (Some (docs, t), st1)
            | (Some (Inr found, pt), st1) \<Rightarrow>
                (let (newDocs, seen1) = filterNewDocs found seen
                 in if newDocs = [] \<and> round0 > 0 then (Some (docs, t), st1)
                    else (let docs1 = docs @ newDocs; qc = pw_whole (aw_planner w round0);
                              r = Evaluate (qc_model qc) (aw_decode w) query (map Some (mergeAndDedup docs1)) (int round0 + 1) (ac_MaxRounds cfg);
                              rt = \<lparr>rt_Round = int round0 + 1, rt_SubQueryCount = pt_SubQueryCount pt, rt_DocCount = int (length found),
                                    rt_NewDocCount = int (length newDocs), rt_Confidence = er_Confidence r,
                                    rt_Strategy = er_NextStrategy r, rt_LatencyMs = qc_latency qc\<rparr>;
                              t1 = t\<lparr>at_RoundTraces := at_RoundTraces t @ [rt], at_Rounds := int round0 + 1,
                                     at_FinalConfidence := er_Confidence r\<rparr>;
                              nextQuery = buildNextQuery query r
                          in if er_Sufficient r \<or> er_Confidence r \<ge> ac_ConfidenceThreshold cfg then (Some (docs1, t1), st1)
                             else if fuel = 0 then (Some (docs1, t1), st1)
                             else if nextQuery = [] then (Some (docs1, t1), st1)
                             else roundsLoop rg w cfg pcfg query fuel (Suc round0) nextQuery docs1 seen1 t1 st1))))"

definition AgentQuery ::
  "rag_env \<Rightarrow> 'r agent_world \<Rightarrow> int \<Rightarrow> agent_config \<Rightarrow> planner_config \<Rightarrow> string \<Rightarrow> 'r cached_retriever \<Rightarrow>
     ((string + rag_document list) \<times> agent_trace) option \<times> 'r cached_retriever" where
  "AgentQuery rg w latency cfg pcfg query st =
     (let t0 = \<lparr>at_Rounds = 0, at_FinalConfidence = 0, at_TotalLatencyMs = 0, at_RoundTraces = []\<rparr>
      in if \<not> ac_Enabled cfg
         then (case QueryWithPlanner rg (aw_planner w 0) query pcfg st of
                 (None, st1) \<Rightarrow> (None, st1)
               | (Some (answer, _), st1) \<Rightarrow> (Some (answer, t0), st1))
         else (case roundsLoop rg w cfg pcfg query (nat (ac_MaxRounds cfg)) 0 query [] [] t0 st of
                 (None, st1) \<Rightarrow> (None, st1)
               | (Some (docs, t), st1) \<Rightarrow> (Some (Inr (mergeAndDedup docs), t\<lparr>at_TotalLatencyMs := latency\<rparr>), st1)))"

end
