(* ===== verification/Rag_Facts.thy ===== *)
theory Rag_Facts
  imports Rag_Agent
begin

text \<open>
  What the stages of a retrieval do to documents: they write traces into the metadata and leave the rest alone, so what
  comes out are documents that went in. The essence of a document is all of it but its traces; every stage is shown to
  hand on a part of the essences it is given, and fusing keeps what the filters of the source scope let through.
\<close>

definition trace_key :: "string \<Rightarrow> bool" where
  "trace_key k \<longleftrightarrow> prefix ''_trace_'' k \<or> k = ''_planner_sub_queries''"

definition essence :: "rag_document \<Rightarrow> string \<times> string \<times> f64 \<times> (string \<Rightarrow> meta_value option)" where
  "essence d = (rd_ID d, rd_Content d, rd_Score d, \<lambda>k. if trace_key k then None else gm_get (rd_Meta d) k)"

definition docSource :: "rag_document \<Rightarrow> string" where
  "docSource d = metadataString (rd_Meta d) ''_source''"

definition essences :: "rag_document list \<Rightarrow> (string \<times> string \<times> f64 \<times> (string \<Rightarrow> meta_value option)) multiset" where
  "essences ds = mset (map essence ds)"

named_theorems trace_simps "traces leave the essence of a document alone"

lemma essence_setMeta: "trace_key k \<Longrightarrow> essence (setMeta k v d) = essence d"
  by (auto simp: essence_def setMeta_def gm_get_put fun_eq_iff)

lemma trace_key_trace: "trace_key (''_trace_'' @ k)"
  by (simp add: trace_key_def)

lemma essence_trace [trace_simps]:
  "essence (setMeta ''_trace_dense_rank'' v d) = essence d"
  "essence (setMeta ''_trace_lexical_rank'' v d) = essence d"
  "essence (setMeta ''_trace_fusion_score'' v d) = essence d"
  "essence (setMeta ''_trace_fusion_position'' v d) = essence d"
  "essence (setMeta ''_trace_refine_position'' v d) = essence d"
  "essence (setMeta ''_trace_final_position'' v d) = essence d"
  "essence (setMeta ''_trace_metadata_boost'' v d) = essence d"
  "essence (setMeta ''_trace_rerank_score'' v d) = essence d"
  "essence (setMeta ''_trace_coverage_boost'' v d) = essence d"
  "essence (setMeta ''_trace_field_boost'' v d) = essence d"
  "essence (setMeta ''_trace_field_matches'' v d) = essence d"
  "essence (setMeta ''_trace_intent_rule'' v d) = essence d"
  "essence (setMeta ''_trace_intent_positive_hits'' v d) = essence d"
  "essence (setMeta ''_trace_intent_excluded_hits'' v d) = essence d"
  "essence (setMeta ''_trace_intent_bonus'' v d) = essence d"
  "essence (setMeta ''_trace_intent_penalty'' v d) = essence d"
  "essence (setMeta ''_trace_intent_net_score'' v d) = essence d"
  "essence (setMeta ''_planner_sub_queries'' v d) = essence d"
  by (rule essence_setMeta, simp add: trace_key_def)+

lemma essence_get: "essence d = essence e \<Longrightarrow> \<not> trace_key k \<Longrightarrow> gm_get (rd_Meta d) k = gm_get (rd_Meta e) k"
proof -
  assume e: "essence d = essence e" and k: "\<not> trace_key k"
  have "snd (snd (snd (essence d))) k = snd (snd (snd (essence e))) k" by (simp only: e)
  then show ?thesis using k by (simp add: essence_def)
qed

lemma essence_text: "essence d = essence e \<Longrightarrow> \<not> trace_key k \<Longrightarrow> metadataString (rd_Meta d) k = metadataString (rd_Meta e) k"
  by (drule (1) essence_get) (simp add: metadataString_def stringMetadata_def)

lemma not_trace_key [simp]:
  "\<not> trace_key ''_source''" "\<not> trace_key ''case_id''" "\<not> trace_key ''caseid''" "\<not> trace_key ''doc_id''"
  by (simp_all add: trace_key_def)

lemma essence_source: "essence d = essence e \<Longrightarrow> docSource d = docSource e"
  unfolding docSource_def by (erule essence_text) simp

lemma essence_fusionID: "essence d = essence e \<Longrightarrow> fusionID d = fusionID e"
proof -
  assume e: "essence d = essence e"
  then have "rd_ID d = rd_ID e" by (simp add: essence_def)
  then show ?thesis by (simp add: fusionID_def docFusionKey_def essence_text [OF e])
qed

subsection \<open>Enumerations\<close>

lemma map_enumerate_const:
  "(\<And>i x. g (f (i, x)) = h x) \<Longrightarrow> map g (map f (enumerate n xs)) = map h xs"
  by (induction xs arbitrary: n) auto

lemma essences_enumerate: "(\<And>i x. essence (f (i, x)) = essence (h x)) \<Longrightarrow> essences (map f (enumerate n xs)) = essences (map h xs)"
  using map_enumerate_const [of essence f "\<lambda>x. essence (h x)" n xs] by (simp add: essences_def comp_def)

subsection \<open>Refining and choosing\<close>

lemma essence_annotateRefined: "essence (annotateRefined t (i, s)) = essence (sd_doc s)"
  by (simp add: annotateRefined_def Let_def trace_simps)

lemma essences_final [simp]: "essences (annotateFinalPositions ds) = essences ds"
  using essences_enumerate [of "\<lambda>(i, d). setMeta ''_trace_final_position'' (MInt (int i + 1)) d" "\<lambda>d. d" 0 ds]
  by (simp add: annotateFinalPositions_def trace_simps)

lemma essences_refined:
  assumes "refineRetrievedDocsWithTrace rg query docs cfg = Some (out, t)"
  shows "essences out = essences docs"
proof -
  have sorted: "essences (map (annotateRefined tr) (enumerate 0 (sort_slice scoredLess (map (scoreDocument rg p i cfg n) (enumerate 0 docs)))))
      = essences docs" for tr p i n
  proof -
    have "essences (map (annotateRefined tr) (enumerate 0 (sort_slice scoredLess (map (scoreDocument rg p i cfg n) (enumerate 0 docs)))))
        = essences (map sd_doc (sort_slice scoredLess (map (scoreDocument rg p i cfg n) (enumerate 0 docs))))"
      by (rule essences_enumerate) (simp add: essence_annotateRefined)
    also have "\<dots> = image_mset essence (image_mset sd_doc (mset (map (scoreDocument rg p i cfg n) (enumerate 0 docs))))"
      unfolding essences_def by (simp add: multiset.map_comp comp_assoc)
    also have "\<dots> = essences (map (\<lambda>x. x) docs)"
      using map_enumerate_const [of sd_doc "scoreDocument rg p i cfg n" "\<lambda>x. x" 0 docs]
      by (simp add: essences_def scoreDocument_def Let_def split: prod.splits) (metis map_map mset_map)
    finally show ?thesis by simp
  qed
  show ?thesis using assms unfolding refineRetrievedDocsWithTrace_def
    by (auto simp: Let_def sorted split: option.splits if_splits)
qed

lemma essence_markRefined: "essence (markRefined b pre (i, d)) = essence d"
  by (simp add: markRefined_def Let_def trace_simps split: option.splits)

lemma essences_refineStage:
  assumes "refineStage rg q docs cfg = Some (out, t)"
  shows "essences out = essences docs"
proof (cases "hc_MetadataBoostEnabled cfg \<or> hc_IntentRefinementEnabled cfg")
  case True
  then obtain refined where r: "refineRetrievedDocsWithTrace rg q docs cfg = Some (refined, t)"
    and out: "out = map (markRefined (hc_MetadataBoostEnabled cfg) (refinePositions docs)) (enumerate 0 refined)"
    using assms by (auto simp: refineStage_def split: option.splits)
  have "essences out = essences (map (\<lambda>d. d) refined)"
    unfolding out by (rule essences_enumerate) (rule essence_markRefined)
  then show ?thesis using essences_refined [OF r] by simp
next
  case False
  then show ?thesis using assms by (simp add: refineStage_def)
qed

lemma essences_mono: "mset xs \<subseteq># mset ys \<Longrightarrow> essences xs \<subseteq># essences ys"
  by (simp add: essences_def image_mset_subseteq_mono)

lemma mset_take_sub: "mset (take n xs) \<subseteq># mset xs"
  by (metis append_take_drop_id mset_append mset_subset_eq_add_left)

lemma essences_take: "essences (take n ds) \<subseteq># essences ds"
  by (rule essences_mono) (rule mset_take_sub)

lemma essences_trim: "essences (trimRetrievedDocs ds k) \<subseteq># essences ds"
  by (simp add: trimRetrievedDocs_def essences_take)

lemma best_in:
  "fst (fold (\<lambda>(i, gain) (bi, bg). if gain > bg then (i, gain) else (bi, bg)) (enumerate m gs) (b, g)) \<in> insert b {m..<m + length gs}"
proof (induction gs arbitrary: m b g)
  case (Cons a gs)
  show ?case using Cons.IH [of "Suc m" m a] Cons.IH [of "Suc m" b g] by auto
qed simp

lemma bestIndex_in: "xs \<noteq> [] \<Longrightarrow> length gains \<le> length xs \<Longrightarrow> bestIndex gains < length xs"
  using best_in [of 1 "tl gains" 0 "hd gains"] by (cases gains) (auto simp: bestIndex_def)

lemma essences_pick: "b < length ds \<Longrightarrow> add_mset (essence (ds ! b)) (essences (take b ds @ drop (Suc b) ds)) = essences ds"
  by (subst (3) id_take_nth_drop [of b ds]) (simp_all add: essences_def)

lemma length_pick: "b < length ds \<Longrightarrow> Suc (length (take b ds @ drop (Suc b) ds)) = length ds"
  by simp

lemma coverLoop_essences:
  "k \<le> length ds \<Longrightarrow> essences (coverLoop rg g q k cov ds) \<subseteq># essences ds \<and> length (coverLoop rg g q k cov ds) = k"
proof (induction k arbitrary: cov ds)
  case 0
  then show ?case by (simp add: essences_def)
next
  case (Suc k)
  define gains where "gains = map (newCoverageCount rg q cov) (take (nat (min g (int (length ds) - 1) + 1)) ds)"
  define b where "b = bestIndex gains"
  define d where "d = (if b > 0 then setMeta ''_trace_coverage_boost'' (MNum (f64_of_int (int b))) (ds ! b) else ds ! b)"
  define rest where "rest = coverLoop rg g q k (addCoveredTokens rg q d cov) (take b ds @ drop (Suc b) ds)"
  have b: "b < length ds" unfolding b_def using Suc.prems by (intro bestIndex_in) (auto simp: gains_def)
  have l: "coverLoop rg g q (Suc k) cov ds = d # rest"
    by (simp add: rest_def d_def b_def gains_def Let_def)
  have e: "essence d = essence (ds ! b)" by (simp add: d_def trace_simps)
  have "k \<le> length (take b ds @ drop (Suc b) ds)" using length_pick [OF b] Suc.prems by simp
  from Suc.IH [OF this, of "addCoveredTokens rg q d cov"]
  have r: "essences rest \<subseteq># essences (take b ds @ drop (Suc b) ds)" "length rest = k" by (simp_all add: rest_def)
  then have "add_mset (essence d) (essences rest) \<subseteq># essences ds"
    unfolding essences_pick [OF b, symmetric] e by simp
  then show ?case using r(2) unfolding l by (simp add: essences_def)
qed

lemma coverLoop_sub: "k \<le> length ds \<Longrightarrow> essences (coverLoop rg g q k cov ds) \<subseteq># essences ds"
  using coverLoop_essences by blast

lemma length_coverLoop: "k \<le> length ds \<Longrightarrow> length (coverLoop rg g q k cov ds) = k"
  using coverLoop_essences by blast

definition finalTopK :: "hybrid_config \<Rightarrow> int" where
  "finalTopK cfg = (if hc_FinalTopK cfg \<le> 0 then 10 else hc_FinalTopK cfg)"

lemma length_final [simp]: "length (annotateFinalPositions ds) = length ds"
  by (simp add: annotateFinalPositions_def)

lemma finalTopK_pos: "0 < finalTopK cfg"
  by (simp add: finalTopK_def)

lemma selectFinalDocs_facts:
  "essences (selectFinalDocs rg q ds cfg) \<subseteq># essences ds \<and>
   int (length (selectFinalDocs rg q ds cfg)) = min (finalTopK cfg) (int (length ds))"
proof (cases "\<not> hc_CoverageEnabled cfg \<or> length ds \<le> 1 \<or> length (tokenizeToSet rg q) < 2")
  case True
  then have "selectFinalDocs rg q ds cfg = annotateFinalPositions (trimRetrievedDocs ds (finalTopK cfg))"
    by (simp add: selectFinalDocs_def Let_def finalTopK_def)
  then show ?thesis using finalTopK_pos [of cfg] by (simp add: essences_trim) (simp add: trimRetrievedDocs_def)
next
  case False
  let ?k = "nat (min (finalTopK cfg) (int (length ds)))"
  let ?rest = "coverLoop rg (hc_CoverageMaxPositionGain cfg) (tokenizeToSet rg q) (?k - 1)
                 (addCoveredTokens rg (tokenizeToSet rg q) (hd ds) []) (tl ds)"
  have s: "selectFinalDocs rg q ds cfg = annotateFinalPositions (hd ds # ?rest)"
    using False by (simp add: selectFinalDocs_def Let_def finalTopK_def)
  have ds: "ds = hd ds # tl ds" using False by (cases ds) auto
  have k: "?k - 1 \<le> length (tl ds)" "0 < ?k" using False finalTopK_pos [of cfg] by (cases ds; auto)+
  have "essences (hd ds # ?rest) \<subseteq># essences (hd ds # tl ds)"
    using coverLoop_sub [OF k(1)] by (simp add: essences_def)
  then show ?thesis unfolding s using length_coverLoop [OF k(1)] k(2) ds by simp
qed

subsection \<open>Reranking\<close>

lemma those_length: "those xs = Some ys \<Longrightarrow> length ys = length xs"
  by (induction xs arbitrary: ys) (auto split: option.splits)

lemma mset_map_fst_zip: "length xs = length ys \<Longrightarrow> mset (map fst (zip xs ys)) = mset xs"
  by simp

lemma Rerank_facts:
  "mset (rk_Docs (Rerank model pf q ds k)) \<subseteq># mset ds \<and>
   (rk_Enabled (Rerank model pf q ds k) \<longrightarrow> length (rk_Scores (Rerank model pf q ds k)) = length (rk_Docs (Rerank model pf q ds k)))"
proof -
  have "mset (map fst (take n (sort_slice (\<lambda>a b. snd a > snd b) (zip ds scores)))) \<subseteq># mset ds"
    if "parseScores pf answer (int (length ds)) = Some scores" for n answer scores
  proof -
    have "length scores = length ds"
      using that by (auto simp: parseScores_def Let_def dest!: those_length split: if_splits)
    then have "mset (map fst (sort_slice (\<lambda>a b. snd a > snd b) (zip ds scores))) = mset ds"
      by (metis mset_map mset_map_fst_zip mset_sort_slice)
    then show ?thesis by (metis mset_take_sub take_map)
  qed
  then show ?thesis
    by (auto simp: Rerank_def Let_def split: model_reply.splits option.splits)
qed

lemma Rerank_sub: "mset (rk_Docs (Rerank model pf q ds k)) \<subseteq># mset ds"
  using Rerank_facts by blast

lemma essences_scored:
  "length ds = length ss \<Longrightarrow> essences (map (\<lambda>(d, s). setMeta ''_trace_rerank_score'' (MNum s) d) (zip ds ss)) = essences ds"
  by (induction ds ss rule: list_induct2) (simp_all add: essences_def trace_simps)

lemma essences_rerankStage:
  assumes "rerankStage qc q cfg ds t = (out, t')"
  shows "essences out \<subseteq># essences ds"
proof (cases "ragConfigBool (qc_config qc) (qc_rerank qc) ''rag.rerank_enabled''")
  case True
  define cands where "cands = take (nat (RerankMaxCandidates (qc_config qc))) ds"
  define r where "r = Rerank (qc_model qc) (qc_parseFloat qc) q cands (finalTopK cfg)"
  have out: "out = (if rk_Enabled r then map (\<lambda>(d, s). setMeta ''_trace_rerank_score'' (MNum s) d) (zip (rk_Docs r) (rk_Scores r))
                    else cands)"
    using assms True unfolding rerankStage_def Let_def finalTopK_def [symmetric] cands_def [symmetric] r_def [symmetric] by simp
  have c: "essences cands \<subseteq># essences ds" by (simp add: cands_def essences_take)
  have "essences (map (\<lambda>(d, s). setMeta ''_trace_rerank_score'' (MNum s) d) (zip (rk_Docs r) (rk_Scores r)))
      = essences (rk_Docs r)" if "rk_Enabled r"
  proof -
    have "length (rk_Docs r) = length (rk_Scores r)" using that Rerank_facts unfolding r_def by metis
    then show ?thesis by (rule essences_scored)
  qed
  moreover have "essences (rk_Docs r) \<subseteq># essences cands" unfolding r_def by (rule essences_mono) (rule Rerank_sub)
  ultimately show ?thesis using c unfolding out by (auto intro: subset_mset.trans)
next
  case False
  then show ?thesis using assms by (simp add: rerankStage_def)
qed

subsection \<open>Fusing\<close>

text \<open>What a fusion is made of: a property of every document that goes in is one of every document that comes out.\<close>

definition all_docs :: "(rag_document \<Rightarrow> bool) \<Rightarrow> fusion \<Rightarrow> bool" where
  "all_docs P m \<longleftrightarrow> list_all (\<lambda>e. P (fz_doc (snd e))) m"

lemma list_all_put: "list_all Q m \<Longrightarrow> Q (k, e) \<Longrightarrow> list_all Q (gm_put k e m)"
  by (induction m) auto

lemma all_docs_put: "all_docs P m \<Longrightarrow> P (fz_doc e) \<Longrightarrow> all_docs P (gm_put k e m)"
  unfolding all_docs_def by (rule list_all_put) simp_all

lemma all_docs_entry:
  assumes "all_docs P m" "P d"
  shows "P (fz_doc (entryFor k d m))"
proof (cases "gm_get m k")
  case None
  then show ?thesis using assms(2) by (simp add: entryFor_def)
next
  case (Some e)
  then have "(k, e) \<in> set m" by (rule gm_get_in)
  then have "P (fz_doc (snd (k, e)))" using assms(1) unfolding all_docs_def list_all_iff by blast
  then show ?thesis using Some by (simp add: entryFor_def)
qed

lemma all_docs_dense:
  assumes "all_docs P m" "\<And>d. x = Some d \<Longrightarrow> P d"
  shows "all_docs P (addDense kf w (i, x) m)"
proof (cases x)
  case None
  then show ?thesis using assms(1) by (simp add: addDense_def)
next
  case (Some d)
  have "P (fz_doc (entryFor (fusionID d) d m))" by (rule all_docs_entry [OF assms(1) assms(2) [OF Some]])
  then have "all_docs P (gm_put (fusionID d) (e\<lparr>fz_denseRank := r, fz_score := q\<rparr>) m)"
    if "e = entryFor (fusionID d) d m" for e r q
    using that by (intro all_docs_put [OF assms(1)]) simp
  then show ?thesis using assms(1) by (simp add: addDense_def Let_def Some)
qed

lemma all_docs_lexical: "all_docs P m \<Longrightarrow> P (lexHitToDoc h) \<Longrightarrow> all_docs P (addLexical kf w (i, h) m)"
  using all_docs_entry [of P m "lexHitToDoc h" "bh_DocID h"] by (simp add: addLexical_def Let_def all_docs_put)

lemma fold_all:
  assumes "\<And>i x m. all_docs P m \<Longrightarrow> x \<in> set xs \<Longrightarrow> all_docs P (f (i, x) m)"
  shows "all_docs P m \<Longrightarrow> all_docs P (fold f (enumerate n xs) m)"
  using assms
proof (induction xs arbitrary: n m)
  case (Cons x xs)
  have "all_docs P (f (n, x) m)" using Cons.prems by simp
  then show ?case using Cons.IH Cons.prems(2) by simp
qed simp

lemma fuse_all:
  assumes "\<And>d. Some d \<in> set dense \<Longrightarrow> P d" "\<And>h. h \<in> set hits \<Longrightarrow> P (lexHitToDoc h)"
  shows "all_docs P (fuse dense hits kf dw lw)"
  unfolding fuse_def
proof (rule fold_all)
  show "all_docs P (fold (addDense kf dw) (enumerate 0 dense) [])"
    using assms(1) by (intro fold_all all_docs_dense) (auto simp: all_docs_def)
qed (auto intro: all_docs_lexical assms(2))

lemma essence_annotateFused: "essence (fz_doc (annotateFused (i, r))) = essence (fz_doc r)"
  by (simp add: annotateFused_def trace_simps)

lemma essences_annotateFused: "essences (map fz_doc (map annotateFused (enumerate 0 rs))) = essences (map fz_doc rs)"
  using map_enumerate_const [of "essence \<circ> fz_doc" annotateFused "essence \<circ> fz_doc" 0 rs]
  by (simp add: essences_def essence_annotateFused comp_assoc)

lemma essences_fused:
  "\<exists>kf. essences (map fz_doc (rrfFusionWeighted dense hits k dw lw)) = essences (map fz_doc (map snd (fuse dense hits kf dw lw)))"
  unfolding rrfFusionWeighted_def Let_def essences_annotateFused
  by (intro exI) (simp only: essences_def mset_map mset_sort_slice)

lemma essence_in: "d \<in> set out \<Longrightarrow> essences out \<subseteq># essences ds \<Longrightarrow> \<exists>e \<in> set ds. essence d = essence e"
proof -
  assume "d \<in> set out" "essences out \<subseteq># essences ds"
  moreover have "essence d \<in># essences out" using calculation(1) by (simp add: essences_def)
  ultimately have "essence d \<in># essences ds" by (meson mset_subset_eqD)
  then show ?thesis by (auto simp: essences_def)
qed

lemma fused_source:
  assumes "d \<in> set out" "essences out \<subseteq># essences (map fz_doc (rrfFusionWeighted dense hits k dw lw))"
  shows "(\<exists>e. Some e \<in> set dense \<and> essence d = essence e) \<or> (\<exists>h \<in> set hits. essence d = essence (lexHitToDoc h))"
proof -
  obtain kf where "essences out \<subseteq># essences (map fz_doc (map snd (fuse dense hits kf dw lw)))"
    using assms(2) essences_fused by metis
  from essence_in [OF assms(1) this] obtain e
    where "e \<in> snd ` set (fuse dense hits kf dw lw)" and "essence d = essence (fz_doc e)" by auto
  moreover have "all_docs (\<lambda>d. Some d \<in> set dense \<or> (\<exists>h \<in> set hits. d = lexHitToDoc h)) (fuse dense hits kf dw lw)"
    by (rule fuse_all) auto
  ultimately have "Some (fz_doc e) \<in> set dense \<or> (\<exists>h \<in> set hits. fz_doc e = lexHitToDoc h)" and "essence d = essence (fz_doc e)"
    unfolding all_docs_def list_all_iff by blast+
  then show ?thesis by metis
qed

end
