(* ===== verification/Rag_Merge.thy ===== *)
theory Rag_Merge
  imports Rag_Facts
begin

text \<open>
  Merging what the parts of a question found (planner.go), and what the agent merges over its rounds (agent\_rag.go):
  each document once, under one identifier, with the parts that found it.
\<close>

definition merge_inv :: "(rag_document \<times> string) set \<Rightarrow> (string, merge_entry) gomap \<Rightarrow> bool" where
  "merge_inv S m \<longleftrightarrow> gm_ok m \<and>
     (\<forall>k e. gm_get m k = Some e \<longrightarrow> k \<noteq> [] \<and> fusionID (me_doc e) = k \<and> me_doc e \<in> fst ` S \<and>
        set (me_subQueries e) = {sq. \<exists>d. (d, sq) \<in> S \<and> fusionID d = k}) \<and>
     (\<forall>d sq. (d, sq) \<in> S \<longrightarrow> fusionID d \<noteq> [] \<longrightarrow> gm_get m (fusionID d) \<noteq> None)"

lemma merge_invD:
  assumes "merge_inv S m" "gm_get m k = Some e"
  shows "k \<noteq> []" "fusionID (me_doc e) = k" "me_doc e \<in> fst ` S" "set (me_subQueries e) = {sq. \<exists>d. (d, sq) \<in> S \<and> fusionID d = k}"
  using assms unfolding merge_inv_def by blast+

lemma merge_inv_missing: "merge_inv S m \<Longrightarrow> gm_get m k = None \<Longrightarrow> k \<noteq> [] \<Longrightarrow> (d, sq) \<in> S \<Longrightarrow> fusionID d \<noteq> k"
  unfolding merge_inv_def by blast

lemma merge_inv_empty: "merge_inv {} []"
  by (simp add: merge_inv_def)

lemma merge_inv_put:
  assumes inv: "merge_inv S m" and k: "k \<noteq> []" and d: "fusionID d = k" and e: "fusionID (me_doc e) = k"
    and doc: "me_doc e = d \<or> me_doc e \<in> fst ` S"
    and sq: "set (me_subQueries e) = insert sq {sq. \<exists>d. (d, sq) \<in> S \<and> fusionID d = k}"
  shows "merge_inv (insert (d, sq) S) (gm_put k e m)"
  unfolding merge_inv_def
proof (intro conjI allI impI)
  show "gm_ok (gm_put k e m)" using inv by (simp add: merge_inv_def)
next
  fix k' e' assume g: "gm_get (gm_put k e m) k' = Some e'"
  have *: "k' \<noteq> [] \<and> fusionID (me_doc e') = k' \<and> me_doc e' \<in> fst ` insert (d, sq) S \<and>
      set (me_subQueries e') = {s. \<exists>d'. (d', s) \<in> insert (d, sq) S \<and> fusionID d' = k'}"
  proof (cases "k' = k")
    case True
    then have "e' = e" using g by (simp add: gm_get_put)
    then show ?thesis using True k d e doc sq by auto
  next
    case False
    then have "gm_get m k' = Some e'" using g by (simp add: gm_get_put)
    then show ?thesis using merge_invD [OF inv] False d by auto
  qed
  then show "k' \<noteq> []" "fusionID (me_doc e') = k'" "me_doc e' \<in> fst ` insert (d, sq) S"
    "set (me_subQueries e') = {s. \<exists>d'. (d', s) \<in> insert (d, sq) S \<and> fusionID d' = k'}" by blast+
next
  fix d' s assume "(d', s) \<in> insert (d, sq) S" "fusionID d' \<noteq> []"
  then show "gm_get (gm_put k e m) (fusionID d') \<noteq> None"
    using inv d by (auto simp: gm_get_put merge_inv_def)
qed

lemma merge_inv_step:
  assumes inv: "merge_inv S m"
  shows "merge_inv (S \<union> {(d, sq) | d. x = Some d}) (mergeDoc sq (i, x) m)"
proof (cases x)
  case None
  then show ?thesis using inv by (simp add: mergeDoc_def)
next
  case (Some d)
  let ?k = "fusionID d"
  show ?thesis
  proof (cases "?k = []")
    case True
    have "merge_inv (insert (d, sq) S) m" using inv True unfolding merge_inv_def by auto
    then show ?thesis using True Some by (simp add: mergeDoc_def Let_def)
  next
    case False
    define e0 where "e0 = (case gm_get m ?k of Some e \<Rightarrow> e | None \<Rightarrow> \<lparr>me_doc = d, me_score = 0, me_subQueries = []\<rparr>)"
    have e0: "fusionID (me_doc e0) = ?k" "me_doc e0 = d \<or> me_doc e0 \<in> fst ` S"
      "set (me_subQueries e0) = {sq. \<exists>d'. (d', sq) \<in> S \<and> fusionID d' = ?k}"
      using merge_invD [OF inv] merge_inv_missing [OF inv _ False]
      by (cases "gm_get m ?k"; auto simp: e0_def)+
    define e1 where "e1 = e0\<lparr>me_score := fadd (me_score e0) (fdiv 1 (fadd 60 (f64_of_int (int i + 1)))),
      me_subQueries := (if sq \<in> set (me_subQueries e0) then me_subQueries e0 else me_subQueries e0 @ [sq])\<rparr>"
    have "merge_inv (insert (d, sq) S) (gm_put ?k e1 m)"
      using e0 by (intro merge_inv_put [OF inv False refl]) (auto simp: e1_def)
    moreover have "mergeDoc sq (i, x) m = gm_put ?k e1 m"
      using False by (simp only: mergeDoc_def Let_def e1_def e0_def Some prod.case option.case if_False)
    moreover have "S \<union> {(d, sq) | d. x = Some d} = insert (d, sq) S" by (auto simp: Some)
    ultimately show ?thesis by simp
  qed
qed

lemma merge_inv_docs:
  "merge_inv S m \<Longrightarrow> merge_inv (S \<union> {(d, sq) | d. Some d \<in> set docs}) (fold (mergeDoc sq) (enumerate i docs) m)"
proof (induction docs arbitrary: i m S)
  case (Cons x docs)
  have "S \<union> {(d, sq) | d. Some d \<in> set (x # docs)} = (S \<union> {(d, sq) | d. x = Some d}) \<union> {(d, sq) | d. Some d \<in> set docs}"
    by auto
  then show ?case using Cons.IH [OF merge_inv_step [OF Cons.prems]] by simp
qed simp

definition foundBy :: "(rag_document option list \<times> string) list \<Rightarrow> (rag_document \<times> string) set" where
  "foundBy parts = {(d, sq). \<exists>docs. (docs, sq) \<in> set parts \<and> Some d \<in> set docs}"

lemma merge_inv_parts:
  "merge_inv S m \<Longrightarrow> merge_inv (S \<union> foundBy parts) (fold (\<lambda>(docs, sq). fold (mergeDoc sq) (enumerate 0 docs)) parts m)"
proof (induction parts arbitrary: m S)
  case (Cons p parts)
  obtain docs sq where p: "p = (docs, sq)" by (cases p)
  have "S \<union> foundBy (p # parts) = (S \<union> {(d, sq) | d. Some d \<in> set docs}) \<union> foundBy parts"
    by (auto simp: foundBy_def p)
  then show ?case using Cons.IH [OF merge_inv_docs [OF Cons.prems]] by (simp add: p)
qed (simp add: foundBy_def)

lemma mergeAll_inv: "merge_inv (foundBy (zip results sqs)) (mergeAll results sqs)"
  using merge_inv_parts [OF merge_inv_empty, of "zip results sqs"] by (simp add: mergeAll_def)

lemma fold_key_other:
  "k \<notin> key ` set xs \<Longrightarrow> gm_get (fold (\<lambda>e. gm_put (key e) (v e)) xs m) k = gm_get m k"
  by (induction xs arbitrary: m) (auto simp: gm_get_put)

lemma fold_key_get:
  "distinct (map key xs) \<Longrightarrow> x \<in> set xs \<Longrightarrow> gm_get (fold (\<lambda>e. gm_put (key e) (v e)) xs m) (key x) = Some (v x)"
proof (induction xs arbitrary: m)
  case (Cons y ys)
  show ?case
  proof (cases "x \<in> set ys")
    case True
    then show ?thesis using Cons by simp
  next
    case False
    then have "x = y" using Cons.prems(2) by simp
    moreover have "key y \<notin> key ` set ys" using Cons.prems(1) by simp
    ultimately show ?thesis by (simp add: fold_key_other)
  qed
qed simp

lemma merged_entries:
  assumes "MergeResults results sqs k = (docs, m)"
  obtains es :: "merge_entry list" where "docs = map me_doc es" "distinct (map (fusionID \<circ> me_doc) es)"
    "\<And>e. e \<in> set es \<Longrightarrow> me_doc e \<in> fst ` foundBy (zip results sqs) \<and> fusionID (me_doc e) \<noteq> [] \<and>
       set (me_subQueries e) = {sq. \<exists>d. (d, sq) \<in> foundBy (zip results sqs) \<and> fusionID d = fusionID (me_doc e)} \<and>
       gm_get m (fusionID (me_doc e)) = Some (me_subQueries e)"
    "0 < k \<Longrightarrow> int (length es) \<le> k"
proof -
  let ?all = "mergeAll results sqs"
  define sorted where "sorted = sort_slice (\<lambda>a b. me_score a > me_score b) (map snd ?all)"
  define es where "es = take (if k \<le> 0 \<or> k > int (length sorted) then length sorted else nat k) sorted"
  have out: "docs = map me_doc es" "m = fold (\<lambda>e. gm_put (fusionID (me_doc e)) (me_subQueries e)) es []"
    using assms by (auto simp: MergeResults_def Let_def es_def sorted_def)
  have ok: "gm_ok ?all" using mergeAll_inv by (auto simp: merge_inv_def)
  have key: "fusionID (me_doc (snd p)) = fst p" if "p \<in> set ?all" for p
    using merge_invD(2) [OF mergeAll_inv gm_in_get [OF ok]] that by (cases p) auto
  have "map (fusionID \<circ> me_doc) (map snd ?all) = map fst ?all" unfolding map_map comp_def by (rule map_cong) (simp_all add: key)
  then have "distinct (map (fusionID \<circ> me_doc) (map snd ?all))" using ok by (simp only: gm_ok_def)
  then have "distinct (map (fusionID \<circ> me_doc) sorted)"
    unfolding sorted_def by (metis mset_eq_imp_distinct_iff mset_map mset_sort_slice)
  then have dist: "distinct (map (fusionID \<circ> me_doc) es)" unfolding es_def by (metis distinct_take take_map)
  have get: "gm_get ?all (fusionID (me_doc e)) = Some e" if "e \<in> set es" for e
  proof -
    have "e \<in> snd ` set ?all" using in_set_takeD that unfolding es_def sorted_def by force
    then obtain p where "p \<in> set ?all" "e = snd p" by auto
    then show ?thesis using key [of p] gm_in_get [OF ok, of "fst p" "snd p"] by simp
  qed
  show ?thesis
  proof (rule that [of es])
    show "docs = map me_doc es" "distinct (map (fusionID \<circ> me_doc) es)" by (fact out dist)+
    show "me_doc e \<in> fst ` foundBy (zip results sqs) \<and> fusionID (me_doc e) \<noteq> [] \<and>
       set (me_subQueries e) = {sq. \<exists>d. (d, sq) \<in> foundBy (zip results sqs) \<and> fusionID d = fusionID (me_doc e)} \<and>
       gm_get m (fusionID (me_doc e)) = Some (me_subQueries e)" if e: "e \<in> set es" for e
      using merge_invD [OF mergeAll_inv get [OF e]] fold_key_get [of "fusionID \<circ> me_doc" es e me_subQueries "[]"] dist e
      by (simp add: out(2))
    show "0 < k \<Longrightarrow> int (length es) \<le> k" by (auto simp add: es_def min_def)
  qed
qed

lemma merged_from:
  assumes "d \<in> set (fst (MergeResults results sqs k))"
  shows "\<exists>sq. (d, sq) \<in> foundBy (zip results sqs)"
proof (rule merged_entries [OF prod.collapse [symmetric, of "MergeResults results sqs k"]])
  fix es :: "merge_entry list"
  assume docs: "fst (MergeResults results sqs k) = map me_doc es"
    and facts: "\<And>e. e \<in> set es \<Longrightarrow> me_doc e \<in> fst ` foundBy (zip results sqs) \<and> fusionID (me_doc e) \<noteq> [] \<and>
       set (me_subQueries e) = {sq. \<exists>d. (d, sq) \<in> foundBy (zip results sqs) \<and> fusionID d = fusionID (me_doc e)} \<and>
       gm_get (snd (MergeResults results sqs k)) (fusionID (me_doc e)) = Some (me_subQueries e)"
  obtain e where "e \<in> set es" "d = me_doc e" using assms unfolding docs by auto
  then have "d \<in> fst ` foundBy (zip results sqs)" using facts by blast
  then show ?thesis by auto
qed

subsection \<open>The agent's merge\<close>

lemma mergeDedup_facts:
  "distinct (map fusionID (mergeDedupLoop seen ds)) \<and> set (map fusionID (mergeDedupLoop seen ds)) = set (map fusionID ds) - set seen \<and>
   set (mergeDedupLoop seen ds) \<subseteq> set ds"
  by (induction ds arbitrary: seen) (auto simp: Let_def)

lemma mergeAndDedup_facts:
  "distinct (map fusionID (mergeAndDedup ds))" "set (mergeAndDedup ds) \<subseteq> set ds"
  "fusionID ` set (mergeAndDedup ds) = fusionID ` set ds"
  using mergeDedup_facts [of "[]" ds] by (simp_all add: mergeAndDedup_def)

lemma filterNewDocs_sub: "set (fst (filterNewDocs docs seen)) \<subseteq> set docs"
  by (induction docs seen rule: filterNewDocs.induct) (auto simp: Let_def split: prod.splits)

text \<open>What is merged from the parts of a question is each document once: the identifiers of the merged documents are distinct,
  each of them was found by a part, no more than the configured number is kept, and the parts a document is marked with
  are exactly those that found a document of its identifier.\<close>

theorem merged_documents:
  assumes "MergeResults results sqs k = (docs, m)" "length results = length sqs" "0 < k"
  shows "distinct (map fusionID docs) \<and> int (length docs) \<le> k \<and>
    (\<forall>d \<in> set docs. (\<exists>i < length results. Some d \<in> set (results ! i)) \<and>
       (\<exists>qs. gm_get m (fusionID d) = Some qs \<and>
          set qs = {sqs ! i | i. i < length results \<and> (\<exists>e. Some e \<in> set (results ! i) \<and> fusionID e = fusionID d)}))"
proof -
  have found: "foundBy (zip results sqs) = {(d, sqs ! i) | d i. i < length results \<and> Some d \<in> set (results ! i)}"
    unfolding foundBy_def set_zip using assms(2) by auto
  have parts: "{sq. \<exists>d. (d, sq) \<in> foundBy (zip results sqs) \<and> fusionID d = f} =
      {sqs ! i | i. i < length results \<and> (\<exists>d. Some d \<in> set (results ! i) \<and> fusionID d = f)}" for f
    unfolding found by blast
  show ?thesis
  proof (rule merged_entries [OF assms(1)])
    fix es :: "merge_entry list"
    assume es: "docs = map me_doc es" "distinct (map (fusionID \<circ> me_doc) es)" "0 < k \<Longrightarrow> int (length es) \<le> k"
      and facts: "\<And>e. e \<in> set es \<Longrightarrow> me_doc e \<in> fst ` foundBy (zip results sqs) \<and> fusionID (me_doc e) \<noteq> [] \<and>
       set (me_subQueries e) = {sq. \<exists>d. (d, sq) \<in> foundBy (zip results sqs) \<and> fusionID d = fusionID (me_doc e)} \<and>
       gm_get m (fusionID (me_doc e)) = Some (me_subQueries e)"
    have "(\<exists>i < length results. Some d \<in> set (results ! i)) \<and>
       (\<exists>qs. gm_get m (fusionID d) = Some qs \<and>
          set qs = {sqs ! i | i. i < length results \<and> (\<exists>e. Some e \<in> set (results ! i) \<and> fusionID e = fusionID d)})"
      if d: "d \<in> set docs" for d
    proof -
      obtain e where e: "e \<in> set es" "d = me_doc e" using d es(1) by auto
      have "\<exists>i < length results. Some d \<in> set (results ! i)"
        using facts [OF e(1)] unfolding e(2) found by auto
      then show ?thesis using facts [OF e(1)] unfolding e(2) parts by blast
    qed
    then show ?thesis using es assms(3) by simp
  qed
qed

text \<open>Two parts that find the same document, and one that finds another.\<close>

definition part_doc :: "string \<Rightarrow> rag_document" where
  "part_doc k = \<lparr>rd_ID = k, rd_Content = [], rd_Score = 0, rd_Meta = []\<rparr>"

theorem merged_documents_witness:
  "\<exists>docs m. MergeResults [[Some (part_doc ''a'')], [None, Some (part_doc ''b''), Some (part_doc ''a'')]] [''p'', ''q''] 2 = (docs, m) \<and>
     distinct (map fusionID docs) \<and> int (length docs) \<le> 2"
proof -
  obtain docs m where
    "MergeResults [[Some (part_doc ''a'')], [None, Some (part_doc ''b''), Some (part_doc ''a'')]] [''p'', ''q''] 2 = (docs, m)"
    by (cases "MergeResults [[Some (part_doc ''a'')], [None, Some (part_doc ''b''), Some (part_doc ''a'')]] [''p'', ''q''] 2")
  then show ?thesis using merged_documents [of "[[Some (part_doc ''a'')], [None, Some (part_doc ''b''), Some (part_doc ''a'')]]" "[''p'', ''q'']" 2 docs m]
    by auto
qed

end
