(* ===== verification/Rag_Pool.thy ===== *)
theory Rag_Pool
  imports Rag_Query
begin

text \<open>
  What the pool of retrievers (retriever\_pool.go) promises over a sequence of calls, and where cutting a query at a
  connector (query\_intent.go) panics.
\<close>

subsection \<open>The pool\<close>

definition pool_after :: "'r pool_call list \<Rightarrow> 'r cached_retriever" where
  "pool_after cs = fold (\<lambda>c st. snd (GetOrCreate c st)) cs emptyPool"

text \<open>The calls that reach the factory.\<close>

fun reaching :: "'r pool_call list \<Rightarrow> 'r cached_retriever \<Rightarrow> 'r pool_call list" where
  "reaching [] st = []"
| "reaching (c # cs) st = (if needsFactory c st then [c] else []) @ reaching cs (snd (GetOrCreate c st))"

definition answerOf :: "'r pool_call \<Rightarrow> string + 'r" where
  "answerOf c = the (pc_factory c)"

text \<open>The calls of one key, with one time to live and a factory.\<close>

definition uniform_calls :: "string \<Rightarrow> duration \<Rightarrow> 'r pool_call list \<Rightarrow> bool" where
  "uniform_calls key ttl cs \<longleftrightarrow> list_all (\<lambda>c. pc_key c = key \<and> pc_ttl c = ttl \<and> pc_factory c \<noteq> None) cs"

definition stateOf :: "'r pool_call \<Rightarrow> 'r cached_retriever" where
  "stateOf c = snd (createRetriever c (answerOf c) noAcquisition)"

lemma pool_after_snoc: "pool_after (cs @ [c]) = snd (GetOrCreate c (pool_after cs))"
  by (simp add: pool_after_def)

lemma reaching_append: "reaching (cs @ ds) st = reaching cs st @ reaching ds (fold (\<lambda>c st. snd (GetOrCreate c st)) cs st)"
  by (induction cs arbitrary: st) auto

lemma reaching_snoc: "reaching (cs @ [c]) emptyPool = reaching cs emptyPool @ (if needsFactory c (pool_after cs) then [c] else [])"
  by (simp add: reaching_append pool_after_def)

lemma snd_create: "snd (createRetriever c a aq) = snd (createRetriever c a aq')"
  by (simp add: createRetriever_def Let_def split: sum.splits)

lemma GetOrCreate_reach:
  assumes "pc_factory c \<noteq> None" "needsFactory c st"
  shows "snd (GetOrCreate c st) = stateOf c" "fst (fst (GetOrCreate c st)) = answerOf c"
proof -
  obtain a where "pc_factory c = Some a" using assms(1) by auto
  then have eq: "GetOrCreate c st = createRetriever c (answerOf c) (noAcquisition\<lparr>aq_CacheKey := pc_key c, aq_FailureTTL := pc_ttl c\<rparr>)"
    using assms(2) by (simp add: GetOrCreate_def answerOf_def)
  show "snd (GetOrCreate c st) = stateOf c" unfolding eq stateOf_def by (rule snd_create)
  show "fst (fst (GetOrCreate c st)) = answerOf c"
    unfolding eq by (cases "answerOf c") (simp_all add: createRetriever_def Let_def)
qed

lemma GetOrCreate_keep: "\<not> needsFactory c st \<Longrightarrow> snd (GetOrCreate c st) = st"
  by (simp add: GetOrCreate_def Let_def split: option.splits)

lemma needsFactory_empty: "needsFactory c emptyPool"
  by (simp add: needsFactory_def emptyPool_def)

lemma stateOf_Inr: "answerOf p = Inr rr \<Longrightarrow> pc_key p = pc_key c \<Longrightarrow> \<not> needsFactory c (stateOf p)"
  by (simp add: stateOf_def createRetriever_def Let_def needsFactory_def)

lemma stateOf_Inl:
  "answerOf p = Inl err \<Longrightarrow> pc_key p = pc_key c \<Longrightarrow>
   needsFactory c (stateOf p) \<longleftrightarrow> pc_ttl c \<le> time_sub (pc_now c) (pc_now p + int (pc_takes p))"
  by (simp add: stateOf_def createRetriever_def Let_def needsFactory_def not_less)

lemma answer_kept:
  assumes "\<not> needsFactory c (stateOf p)" "pc_factory c \<noteq> None"
  shows "fst (fst (GetOrCreate c (stateOf p))) = answerOf p"
  using assms by (cases "answerOf p") (auto simp: GetOrCreate_def Let_def stateOf_def createRetriever_def)

lemma pool_state:
  "uniform_calls key ttl cs \<Longrightarrow>
   pool_after cs = (if reaching cs emptyPool = [] then emptyPool else stateOf (last (reaching cs emptyPool)))"
proof (induction cs rule: rev_induct)
  case (snoc c cs)
  then have ih: "pool_after cs = (if reaching cs emptyPool = [] then emptyPool else stateOf (last (reaching cs emptyPool)))"
    and c: "pc_factory c \<noteq> None" by (simp_all add: uniform_calls_def)
  show ?case
  proof (cases "needsFactory c (pool_after cs)")
    case True
    then show ?thesis using GetOrCreate_reach(1) [OF c True] by (simp add: pool_after_snoc reaching_snoc)
  next
    case False
    then have "pool_after (cs @ [c]) = pool_after cs" "reaching (cs @ [c]) emptyPool = reaching cs emptyPool"
      by (simp_all add: pool_after_snoc reaching_snoc GetOrCreate_keep)
    then show ?thesis using ih by simp
  qed
qed (simp add: pool_after_def)

lemma reaching_sub: "set (reaching cs st) \<subseteq> set cs"
  by (induction cs arbitrary: st) auto

lemma reaching_spaced:
  assumes "uniform_calls key ttl (cs @ [c])" "needsFactory c (pool_after cs)" "reaching cs emptyPool \<noteq> []"
  shows "\<exists>err. answerOf (last (reaching cs emptyPool)) = Inl err \<and>
    ttl \<le> time_sub (pc_now c) (pc_now (last (reaching cs emptyPool)) + int (pc_takes (last (reaching cs emptyPool))))"
proof -
  let ?p = "last (reaching cs emptyPool)"
  have u: "uniform_calls key ttl cs" "pc_key c = key" "pc_ttl c = ttl" using assms(1) by (simp_all add: uniform_calls_def)
  have "?p \<in> set cs" using reaching_sub assms(3) last_in_set by blast
  then have key: "pc_key ?p = pc_key c" using u by (simp add: uniform_calls_def list_all_iff)
  have need: "needsFactory c (stateOf ?p)" using assms(2,3) pool_state [OF u(1)] by simp
  then obtain err where err: "answerOf ?p = Inl err" using stateOf_Inr [OF _ key] by (cases "answerOf ?p") auto
  then show ?thesis using need stateOf_Inl [OF err key] u(3) by simp
qed

lemma time_sub_le: "0 \<le> ttl \<Longrightarrow> ttl \<le> max_duration \<Longrightarrow> ttl \<le> time_sub t u \<Longrightarrow> u + ttl \<le> t"
  by (auto simp: time_sub_def Let_def max_duration_def min_duration_def split: if_splits)

text \<open>The pool spares the factory. Over any sequence of calls for one key, each call is answered what the last call that
  reached the factory was, and a call reaches it again only if the one before failed, and not before the time to live of
  a failure has passed since then: once there is a retriever it is kept.\<close>

theorem factory_calls_spaced:
  assumes "uniform_calls key ttl cs" "0 \<le> ttl" "ttl \<le> max_duration" "cs \<noteq> []"
  shows "fst (fst (GetOrCreate (last cs) (pool_after (butlast cs)))) = answerOf (last (reaching cs emptyPool)) \<and>
    successively (\<lambda>p c. (\<exists>err. answerOf p = Inl err) \<and> pc_now p + int (pc_takes p) + ttl \<le> pc_now c) (reaching cs emptyPool)"
  using assms(1,4)
proof (induction cs rule: rev_induct)
  case (snoc c cs)
  have u: "uniform_calls key ttl cs" and c: "pc_factory c \<noteq> None" using snoc.prems(1) by (simp_all add: uniform_calls_def)
  let ?spaced = "successively (\<lambda>p c. (\<exists>err. answerOf p = Inl err) \<and> pc_now p + int (pc_takes p) + ttl \<le> pc_now c)"
  have ih: "?spaced (reaching cs emptyPool)" using snoc.IH [OF u] by (cases "cs = []") auto
  show ?case
  proof (cases "needsFactory c (pool_after cs)")
    case True
    have "?spaced (reaching cs emptyPool @ [c])"
      using ih reaching_spaced [OF snoc.prems(1) True] time_sub_le [OF assms(2,3)]
      by (cases "reaching cs emptyPool = []") (auto simp: successively_append_iff)
    then show ?thesis using True GetOrCreate_reach(2) [OF c True] by (simp add: reaching_snoc)
  next
    case False
    then have ne: "reaching cs emptyPool \<noteq> []" using pool_state [OF u] needsFactory_empty [of c] by auto
    then show ?thesis using False ih answer_kept [of c "last (reaching cs emptyPool)", OF _ c] pool_state [OF u]
      by (simp add: reaching_snoc)
  qed
qed simp

text \<open>One failure, one call too early, one retry, and a call that is answered from the pool.\<close>

definition pool_demo :: "nat pool_call list" where
  "pool_demo =
     [\<lparr>pc_factory = Some (Inl ''down''), pc_key = ''k'', pc_ttl = 15, pc_now = 0, pc_takes = 5\<rparr>,
      \<lparr>pc_factory = Some (Inr 1), pc_key = ''k'', pc_ttl = 15, pc_now = 10, pc_takes = 5\<rparr>,
      \<lparr>pc_factory = Some (Inr 2), pc_key = ''k'', pc_ttl = 15, pc_now = 20, pc_takes = 5\<rparr>,
      \<lparr>pc_factory = Some (Inl ''down''), pc_key = ''k'', pc_ttl = 15, pc_now = 90, pc_takes = 5\<rparr>]"

lemma pool_demo_reaching: "map pc_now (reaching pool_demo emptyPool) = [0, 20]"
  by (simp add: pool_demo_def needsFactory_def emptyPool_def GetOrCreate_def createRetriever_def time_sub_def
      max_duration_def min_duration_def noAcquisition_def)

theorem factory_calls_spaced_witness:
  "map pc_now (reaching pool_demo emptyPool) = [0, 20] \<and>
   fst (fst (GetOrCreate (last pool_demo) (pool_after (butlast pool_demo)))) = answerOf (last (reaching pool_demo emptyPool)) \<and>
   successively (\<lambda>p c. (\<exists>err. answerOf p = Inl err) \<and> pc_now p + int (pc_takes p) + 15 \<le> pc_now c) (reaching pool_demo emptyPool)"
  by (intro conjI pool_demo_reaching factory_calls_spaced [of "''k''" 15 pool_demo, THEN conjunct1]
      factory_calls_spaced [of "''k''" 15 pool_demo, THEN conjunct2])
    (simp_all add: pool_demo_def uniform_calls_def max_duration_def)

subsection \<open>Cutting a query\<close>

text \<open>C24: A query is cut where its lower-case form has a connector. It is a panic exactly if the end of the connector, counted
  in the bytes of the lower-case form, is beyond the end of the query itself: lower-casing may make a text longer.\<close>

theorem intent_cut_panics:
  assumes "connectorMatches rg connectors (trim_space query) = (connector, position) # rest" "trim_space query \<noteq> []"
  shows "ParseQueryIntent rg connectors maxTerms query = None \<longleftrightarrow>
     int (length (trim_space query)) < position + int (length connector)"
proof -
  have "connectors \<noteq> []" using assms(1) by (auto simp: connectorMatches_def connectorsOf_def)
  moreover have "(connector, position) \<in> set (connectorMatches rg connectors (trim_space query))" using assms(1) by simp
  then have "0 \<le> position" unfolding connectorMatches_def by auto
  ultimately show ?thesis using assms
    by (auto simp: ParseQueryIntent_def Let_def sliceTo_def sliceFrom_def)
qed

text \<open>U+023A has two bytes, its lower-case letter U+2C65 has three.\<close>

definition lower_demo :: "string \<Rightarrow> string" where
  "lower_demo s = (if prefix (concat (replicate 3 [CHR 0xC8, CHR 0xBA])) s
     then concat (replicate 3 [CHR 0xE2, CHR 0xB1, CHR 0xA5]) @ drop 6 s else s)"

definition query_demo :: string where
  "query_demo = concat (replicate 3 [CHR 0xC8, CHR 0xBA]) @ '' instead of x''"

definition rag_demo :: rag_env where
  "rag_demo = \<lparr>rg_lower = lower_demo, rg_lowerRune = (\<lambda>r. r), rg_letter = (\<lambda>r. r \<noteq> '' ''), rg_log = (\<lambda>x. x)\<rparr>"

lemma trim_demo: "trim_space query_demo = query_demo"
  by code_simp

lemma matches_demo: "connectorMatches rag_demo [''instead of''] query_demo = [(''instead of'', 10)]"
  by code_simp

theorem intent_cut_panics_witness:
  "length query_demo = 19 \<and> ParseQueryIntent rag_demo [''instead of''] 8 query_demo = None"
proof -
  have n: "length query_demo = 19" by (simp add: query_demo_def eval_nat_numeral)
  have "connectorMatches rag_demo [''instead of''] (trim_space query_demo) = (''instead of'', 10) # []"
    by (simp only: trim_demo matches_demo)
  from intent_cut_panics [OF this, of 8] n show ?thesis by (simp add: trim_demo) (simp add: query_demo_def)
qed

end
