(* ===== verification/Rag_Properties.thy ===== *)
theory Rag_Properties
  imports Rag_Merge Rag_Pool
begin

text \<open>
  What a retrieval shows: the documents of a query come from its sources, are within the scope of the user and are
  numbered; the pool reaches the factory no more often than the time to live of a failure allows; what is merged from
  the parts of a question is each document once, with the parts it answers; the agent's rounds end and hide failures;
  and cutting a query at a connector found in its lower-case form panics exactly when the cut is beyond its end.
\<close>

subsection \<open>Where documents come from\<close>

lemma hybrid_essences:
  assumes "HybridRetrieveWithRetriever rg latency scope raw dense idx query cfg = Some (Inr out, t)"
  obtains docs0 k dw lw where "dense = Inr docs0"
    "essences out \<subseteq># essences (map fz_doc (rrfFusionWeighted (filterDocsBySourceScope docs0 scope)
       (filterBM25HitsBySourceScope (lexicalHits rg idx query cfg) scope) k dw lw))"
proof (cases dense)
  case (Inl err)
  then show ?thesis using assms by (simp add: HybridRetrieveWithRetriever_def Let_def)
next
  case (Inr docs0)
  let ?f = "\<lambda>dw lw. rrfFusionWeighted (filterDocsBySourceScope docs0 scope)
    (filterBM25HitsBySourceScope (lexicalHits rg idx query cfg) scope) (hc_FusionK cfg) dw lw"
  obtain dw lw refined i k where "refineStage rg (if trim_space raw \<noteq> [] then raw else query) (map fz_doc (?f dw lw)) cfg = Some (refined, i)"
    and "out = trimRetrievedDocs refined k"
    using assms Inr
    by (simp add: HybridRetrieveWithRetriever_def Let_def del: map_map split: option.splits prod.splits) blast
  then have "essences out \<subseteq># essences (map fz_doc (?f dw lw))" using essences_trim essences_refineStage by metis
  then show ?thesis using that Inr by blast
qed

lemma Query_docs:
  assumes "Query rg qc query st = (Some (Inr docs, t), st1)" "trim_space query \<noteq> []"
  obtains rr q cfg ht cands where
    "cfg = DefaultHybridConfig (qc_config qc) (GetRetrieverTopK (qc_config qc)) (qc_hybrid qc)"
    "fst (fst (GetOrCreate (qc_pool qc) st)) = Inr rr"
    "\<exists>found. HybridRetrieveWithRetriever rg (qc_latency qc) (sourceScopeFromContext (qc_hash8 qc) (qc_userID qc)) query
       (qc_retrieve qc rr q (hc_DenseTopK cfg)) (Some (qc_index qc)) q cfg = Some (Inr found, ht) \<and> essences cands \<subseteq># essences found"
    "docs = selectFinalDocs rg query cands cfg" "qt_ResultCount t = int (length docs)"
proof -
  define cfg where "cfg = DefaultHybridConfig (qc_config qc) (GetRetrieverTopK (qc_config qc)) (qc_hybrid qc)"
  obtain q t1 where r: "rewriteStage qc query (emptyQueryTrace\<lparr>qt_Mode := ''hybrid'', qt_OriginalQuery := query, qt_RewrittenQuery := query\<rparr>) = (q, t1)"
    by (cases "rewriteStage qc query (emptyQueryTrace\<lparr>qt_Mode := ''hybrid'', qt_OriginalQuery := query, qt_RewrittenQuery := query\<rparr>)")
  obtain acquired aq st2 where g: "GetOrCreate (qc_pool qc) st = ((acquired, aq), st2)"
    by (cases "GetOrCreate (qc_pool qc) st") auto
  note step = assms(1) [unfolded Query_def Let_def cfg_def [symmetric] r g]
  obtain rr where rr: "acquired = Inr rr" using step assms(2) by (cases acquired) auto
  define h where "h = HybridRetrieveWithRetriever rg (qc_latency qc) (sourceScopeFromContext (qc_hash8 qc) (qc_userID qc)) query
       (qc_retrieve qc rr q (hc_DenseTopK cfg)) (Some (qc_index qc)) q cfg"
  obtain found ht where h1: "h = Some (Inr found, ht)"
    using step assms(2) unfolding rr by (auto simp: h_def split: option.splits sum.splits prod.splits)
  define t3 where "t3 = (traceAcquisition aq t1)\<lparr>qt_RetrieveLatencyMs := ht_TotalLatencyMs ht, qt_RawResultCount := ht_FusedCount ht\<rparr>"
  obtain cands t4 where c: "rerankStage qc query cfg found t3 = (cands, t4)" by (cases "rerankStage qc query cfg found t3")
  have "docs = selectFinalDocs rg query cands cfg" "qt_ResultCount t = int (length docs)"
    using step assms(2) h1 c unfolding rr h_def t3_def by auto
  moreover have "essences cands \<subseteq># essences found" using c by (rule essences_rerankStage)
  ultimately show ?thesis using that [of cfg rr q ht cands] h1 rr g unfolding h_def cfg_def by simp
qed

lemma Query_source:
  assumes "Query rg qc query st = (Some (Inr docs, t), st1)" "d \<in> set docs"
  obtains rr q k dense e where "qc_retrieve qc rr q k = Inr dense" "essence d = essence e"
    "Some e \<in> set (filterDocsBySourceScope dense (sourceScopeFromContext (qc_hash8 qc) (qc_userID qc)))"
  | q cfg h where "essence d = essence (lexHitToDoc h)"
    "h \<in> set (filterBM25HitsBySourceScope (lexicalHits rg (Some (qc_index qc)) q cfg) (sourceScopeFromContext (qc_hash8 qc) (qc_userID qc)))"
proof -
  let ?scope = "sourceScopeFromContext (qc_hash8 qc) (qc_userID qc)"
  have "trim_space query \<noteq> []" using assms by (auto simp: Query_def)
  from Query_docs [OF assms(1) this] obtain rr q cfg ht cands found where
    h: "HybridRetrieveWithRetriever rg (qc_latency qc) ?scope query (qc_retrieve qc rr q (hc_DenseTopK cfg)) (Some (qc_index qc)) q cfg
        = Some (Inr found, ht)" and c: "essences cands \<subseteq># essences found" and d: "docs = selectFinalDocs rg query cands cfg"
    by metis
  from hybrid_essences [OF h] obtain dense k dw lw where dense: "qc_retrieve qc rr q (hc_DenseTopK cfg) = Inr dense" and
    "essences found \<subseteq># essences (map fz_doc (rrfFusionWeighted (filterDocsBySourceScope dense ?scope)
       (filterBM25HitsBySourceScope (lexicalHits rg (Some (qc_index qc)) q cfg) ?scope) k dw lw))" .
  then have "essences docs \<subseteq># essences (map fz_doc (rrfFusionWeighted (filterDocsBySourceScope dense ?scope)
       (filterBM25HitsBySourceScope (lexicalHits rg (Some (qc_index qc)) q cfg) ?scope) k dw lw))"
    using c selectFinalDocs_facts unfolding d by (metis subset_mset.trans)
  from fused_source [OF assms(2) this] show ?thesis using that dense by blast
qed

subsection \<open>Scopes\<close>

lemma allowed_None: "sourceAllowedByScope source None"
  by (simp add: sourceAllowedByScope_def)

lemma filterDocs_allowed:
  "Some e \<in> set (filterDocsBySourceScope dense scope) \<Longrightarrow> sourceAllowedByScope (docSource e) scope"
  by (cases "scope = None") (auto simp: filterDocsBySourceScope_def docSource_def allowed_None split: if_splits)

lemma filterHits_allowed: "h \<in> set (filterBM25HitsBySourceScope hits scope) \<Longrightarrow> sourceAllowedByScope (hitSource h) scope"
  by (cases "scope = None") (auto simp: filterBM25HitsBySourceScope_def allowed_None split: if_splits)

lemma map_of_MStr: "gm_get (map (\<lambda>(k, v). (k, MStr v)) m) key = map_option MStr (gm_get m key)"
  by (induction m) auto

lemma docSource_hit: "docSource (lexHitToDoc h) = hitSource h"
proof -
  have "metadataString (map (\<lambda>(k, v). (k, MStr v)) m) key = trim_space (case gm_get m key of Some s \<Rightarrow> s | None \<Rightarrow> [])" for m key
    unfolding metadataString_def stringMetadata_def map_of_MStr by (cases "gm_get m key") simp_all
  then show ?thesis by (simp only: docSource_def lexHitToDoc_def hitSource_def rag_document.simps)
qed

lemma Query_allowed:
  assumes "Query rg qc query st = (Some (Inr docs, t), st1)" "d \<in> set docs"
  shows "sourceAllowedByScope (docSource d) (sourceScopeFromContext (qc_hash8 qc) (qc_userID qc))"
  using assms
proof (cases rule: Query_source)
  case (1 rr q k dense e)
  show ?thesis unfolding essence_source [OF 1(2)] by (rule filterDocs_allowed [OF 1(3)])
next
  case (2 q cfg h)
  show ?thesis unfolding essence_source [OF 2(1)] docSource_hit by (rule filterHits_allowed [OF 2(2)])
qed

lemma docSource_trim: "trim_space (docSource d) = docSource d"
  by (simp add: docSource_def metadataString_def)

text \<open>The sources of a user's own uploads.\<close>

definition ownPrefix :: "(string \<Rightarrow> string) \<Rightarrow> string \<Rightarrow> string" where
  "ownPrefix hash8 userID = ''upload://users/'' @ hash8 (trim_space userID) @ ''/''"

definition in_scope :: "(string \<Rightarrow> string) \<Rightarrow> string \<Rightarrow> rag_document \<Rightarrow> bool" where
  "in_scope hash8 userID d \<longleftrightarrow> prefix (ownPrefix hash8 userID) (docSource d) \<or> \<not> prefix ''upload://users/'' (docSource d)"

lemma allowed_in_scope:
  assumes "trim_space userID \<noteq> []" "sourceAllowedByScope (docSource d) (sourceScopeFromContext hash8 userID)"
  shows "in_scope hash8 userID d"
proof -
  have "sourceScopeFromContext hash8 userID = Some (ownPrefix hash8 userID)"
    using assms(1) by (simp add: sourceScopeFromContext_def KnowledgeSourcePrefixForUser_def ownPrefix_def)
  then show ?thesis using assms(2)
    by (simp add: sourceAllowedByScope_def in_scope_def Let_def docSource_trim split: if_splits)
qed

lemma in_scope_essence: "essence d = essence e \<Longrightarrow> in_scope h u d = in_scope h u e"
  by (drule essence_source) (simp only: in_scope_def)

lemma Query_in_scope:
  assumes "Query rg qc query st = (Some (Inr docs, t), st1)" "trim_space (qc_userID qc) \<noteq> []"
  shows "list_all (in_scope (qc_hash8 qc) (qc_userID qc)) docs"
  unfolding list_all_iff by (intro ballI allowed_in_scope [OF assms(2)] Query_allowed [OF assms(1)])

subsection \<open>Parts and rounds\<close>

lemma in_scope_mark: "in_scope h u (markSubQueries m d) = in_scope h u d"
proof -
  have "essence (markSubQueries m d) = essence d"
    by (cases "gm_get m (fusionID d)") (simp_all add: markSubQueries_def trace_simps)
  then show ?thesis by (rule in_scope_essence)
qed

definition of_user :: "(string \<Rightarrow> string) \<Rightarrow> string \<Rightarrow> 'r query_context \<Rightarrow> bool" where
  "of_user h u qc \<longleftrightarrow> qc_hash8 qc = h \<and> qc_userID qc = u"

definition world_of_user :: "(string \<Rightarrow> string) \<Rightarrow> string \<Rightarrow> 'r planner_world \<Rightarrow> bool" where
  "world_of_user h u w \<longleftrightarrow> of_user h u (pw_whole w) \<and> (\<forall>i. of_user h u (pw_parts w i))"

lemma Query_user:
  "of_user h u qc \<Longrightarrow> trim_space u \<noteq> [] \<Longrightarrow> Query rg qc q st = (Some (Inr docs, t), st1) \<Longrightarrow> list_all (in_scope h u) docs"
  using Query_in_scope [of rg qc q st docs t st1] by (simp add: of_user_def)

lemma Execute_in_scope:
  assumes u: "trim_space u \<noteq> []"
  shows "Execute rg qcs i qs st = (Some results, st1) \<Longrightarrow> \<forall>i. of_user h u (qcs i) \<Longrightarrow>
    list_all (list_all (in_scope h u)) results \<and> length results = length qs"
proof (induction rg qcs i qs st arbitrary: results st1 rule: Execute.induct)
  case (2 rg qcs i q qs st)
  obtain answer t st2 rest where q: "Query rg (qcs i) q st = (Some (answer, t), st2)"
    and r: "Execute rg qcs (Suc i) qs st2 = (Some rest, st1)"
    and res: "results = (case answer of Inl _ \<Rightarrow> [] | Inr docs \<Rightarrow> docs) # rest"
    using 2(2) by (auto split: prod.splits option.splits)
  have "list_all (in_scope h u) (case answer of Inl _ \<Rightarrow> [] | Inr docs \<Rightarrow> docs)"
  proof (cases answer)
    case (Inr docs)
    have "of_user h u (qcs i)" using 2(3) by simp
    from Query_user [OF this u q [unfolded Inr]] show ?thesis by (simp add: Inr)
  qed simp
  then show ?case using 2(1) [OF q [symmetric] refl refl r 2(3)] res by simp
qed simp

lemma Planner_in_scope:
  assumes "world_of_user h u w" "trim_space u \<noteq> []" "QueryWithPlanner rg w q cfg st = (Some (Inr docs, t), st1)"
  shows "list_all (in_scope h u) docs"
proof -
  define plan where "plan = Analyze (qc_model (pw_whole w)) (pw_parseList w) (qc_latency (pw_whole w)) q cfg"
  note step = assms(3) [unfolded QueryWithPlanner_def Let_def plan_def [symmetric]]
  consider "docs = []" | t' where "Query rg (pw_whole w) q st = (Some (Inr docs, t'), st1)"
    | results where "Execute rg (pw_parts w) 0 (pl_SubQueries plan) st = (Some results, st1)"
      "docs = map (markSubQueries (snd (MergeResults (map (map Some) results) (pl_SubQueries plan) (GetRetrieverTopK (qc_config (pw_whole w))))))
                (fst (MergeResults (map (map Some) results) (pl_SubQueries plan) (GetRetrieverTopK (qc_config (pw_whole w)))))"
    using step by (auto split: if_splits prod.splits option.splits)
  then show ?thesis
  proof cases
    case 2
    then show ?thesis using assms(1,2) by (auto simp: world_of_user_def intro: Query_user)
  next
    case 3
    let ?parts = "zip (map (map Some) results) (pl_SubQueries plan)"
    have all: "list_all (list_all (in_scope h u)) results"
      using Execute_in_scope [OF assms(2) 3(1)] assms(1) by (simp add: world_of_user_def)
    have parts: "in_scope h u d" if f: "(d, sq) \<in> foundBy ?parts" for d sq
    proof -
      obtain ds where "ds \<in> set results" "d \<in> set ds" using f by (auto simp: foundBy_def dest!: set_zip_leftD)
      then show ?thesis using all by (auto simp: list_all_iff)
    qed
    have "list_all (in_scope h u) (fst (MergeResults (map (map Some) results) (pl_SubQueries plan) (GetRetrieverTopK (qc_config (pw_whole w)))))"
      unfolding list_all_iff using merged_from parts by blast
    then show ?thesis unfolding 3(2) by (simp add: list.pred_map comp_def in_scope_mark)
  qed simp
qed

lemma roundsLoop_step:
  assumes "roundsLoop rg w cfg pcfg query (Suc fuel) r0 cur docs seen t st = (Some (out, t1), st1)"
  obtains (stop) "out = docs" "t1 = t"
  | (more) found pt st2 t2 rt nextq seen1 where
    "QueryWithPlanner rg (aw_planner w r0) cur pcfg st = (Some (Inr found, pt), st2)"
    "at_RoundTraces t2 = at_RoundTraces t @ [rt]" "at_Rounds t2 = int r0 + 1"
    "(out = docs @ fst (filterNewDocs found seen) \<and> t1 = t2) \<or>
     roundsLoop rg w cfg pcfg query fuel (Suc r0) nextq (docs @ fst (filterNewDocs found seen)) seen1 t2 st2 = (Some (out, t1), st1)"
proof (cases "aw_elapsed w r0 \<ge> wrap64 (ac_TotalTimeoutMs cfg * 1000000)")
  case True
  then show ?thesis using assms stop by simp
next
  case False
  note step = assms [unfolded roundsLoop.simps if_not_P [OF False]]
  obtain a st2 where q: "QueryWithPlanner rg (aw_planner w r0) cur pcfg st = (a, st2)"
    by (cases "QueryWithPlanner rg (aw_planner w r0) cur pcfg st")
  consider "a = None" | err pt where "a = Some (Inl err, pt)" | found pt where "a = Some (Inr found, pt)"
    by (metis (no_types) option.exhaust prod.exhaust sum.exhaust)
  then show ?thesis
  proof cases
    case 1
    then show ?thesis using step by (simp add: q)
  next
    case 2
    then show ?thesis using step stop by (simp add: q)
  next
    case (3 found pt)
    obtain new seen1 where f: "filterNewDocs found seen = (new, seen1)" by (cases "filterNewDocs found seen")
    show ?thesis
    proof (cases "new = [] \<and> r0 > 0")
      case True
      then show ?thesis using step stop by (simp add: q 3 f)
    next
      case False
      define r where "r = Evaluate (qc_model (pw_whole (aw_planner w r0))) (aw_decode w) query (map Some (mergeAndDedup (docs @ new)))
        (int r0 + 1) (ac_MaxRounds cfg)"
      define rt where "rt = \<lparr>rt_Round = int r0 + 1, rt_SubQueryCount = pt_SubQueryCount pt, rt_DocCount = int (length found),
        rt_NewDocCount = int (length new), rt_Confidence = er_Confidence r, rt_Strategy = er_NextStrategy r,
        rt_LatencyMs = qc_latency (pw_whole (aw_planner w r0))\<rparr>"
      define t2 where "t2 = t\<lparr>at_RoundTraces := at_RoundTraces t @ [rt], at_Rounds := int r0 + 1, at_FinalConfidence := er_Confidence r\<rparr>"
      note step2 = step [unfolded q 3 prod.case option.case sum.case Let_def f if_not_P [OF False], folded r_def, folded rt_def, folded t2_def]
      have "(out = docs @ fst (filterNewDocs found seen) \<and> t1 = t2) \<or>
          roundsLoop rg w cfg pcfg query fuel (Suc r0) (buildNextQuery query r) (docs @ fst (filterNewDocs found seen)) seen1 t2 st2
          = (Some (out, t1), st1)"
        using step2 by (simp add: f split: if_splits)
      then show ?thesis by (intro more [OF q [unfolded 3]]) (simp_all add: t2_def)
    qed
  qed
qed

lemma roundsLoop_bounds:
  assumes "roundsLoop rg w cfg pcfg query fuel r0 cur docs seen t st = (Some (out, t1), st1)"
    and "at_Rounds t = int r0" "length (at_RoundTraces t) = r0"
  shows "at_Rounds t1 = int (length (at_RoundTraces t1)) \<and> at_Rounds t1 \<le> int (r0 + fuel)"
  using assms
proof (induction fuel arbitrary: r0 cur docs seen t st)
  case (Suc fuel)
  from Suc.prems(1) show ?case
  proof (cases rule: roundsLoop_step)
    case stop
    then show ?thesis using Suc.prems by simp
  next
    case (more found pt st2 t2 rt nextq seen1)
    from more(4) show ?thesis
    proof
      assume "out = docs @ fst (filterNewDocs found seen) \<and> t1 = t2"
      then show ?thesis using more(2,3) Suc.prems by simp
    next
      assume "roundsLoop rg w cfg pcfg query fuel (Suc r0) nextq (docs @ fst (filterNewDocs found seen)) seen1 t2 st2 = (Some (out, t1), st1)"
      from Suc.IH [OF this] show ?thesis using more(2,3) Suc.prems by simp
    qed
  qed
qed simp

lemma roundsLoop_in_scope:
  assumes "roundsLoop rg w cfg pcfg query fuel r0 cur docs seen t st = (Some (out, t1), st1)"
    and "\<And>i. world_of_user h u (aw_planner w i)" "trim_space u \<noteq> []" "list_all (in_scope h u) docs"
  shows "list_all (in_scope h u) out"
  using assms(1,4)
proof (induction fuel arbitrary: r0 cur docs seen t st)
  case (Suc fuel)
  from Suc.prems(1) show ?case
  proof (cases rule: roundsLoop_step)
    case stop
    then show ?thesis using Suc.prems by simp
  next
    case (more found pt st2 t2 rt nextq seen1)
    have "list_all (in_scope h u) (docs @ fst (filterNewDocs found seen))"
      using Planner_in_scope [OF assms(2,3) more(1)] filterNewDocs_sub [of found seen] Suc.prems(2) by (auto simp: list_all_iff)
    then show ?thesis using more(4) Suc.IH by blast
  qed
qed simp

subsection \<open>An example\<close>

text \<open>A store that answers one document of the user and one of another; and one that cannot be reached.\<close>

definition env_demo :: rag_env where
  "env_demo = \<lparr>rg_lower = (\<lambda>s. s), rg_lowerRune = (\<lambda>r. r), rg_letter = (\<lambda>r. r \<noteq> '' ''), rg_log = (\<lambda>x. x)\<rparr>"

definition uploaded :: "string \<Rightarrow> string \<Rightarrow> rag_document" where
  "uploaded k source = \<lparr>rd_ID = k, rd_Content = ''text'', rd_Score = 0, rd_Meta = [(''_source'', MStr source)]\<rparr>"

definition context_demo :: "string + unit \<Rightarrow> unit query_context" where
  "context_demo made =
     \<lparr>qc_config = \<lparr>cn_int = (\<lambda>k. None), cn_num = (\<lambda>k. None), cn_bool = (\<lambda>k. None), cn_texts = (\<lambda>k. None)\<rparr>,
      qc_rewrite = None, qc_rerank = None, qc_hybrid = Some zeroHybridConfig, qc_userID = ''ann'', qc_hash8 = (\<lambda>s. s),
      qc_model = (\<lambda>m. ModelInitFailed ''no model''), qc_parseFloat = (\<lambda>s. None),
      qc_pool = \<lparr>pc_factory = Some made, pc_key = ''k'', pc_ttl = 15, pc_now = 0, pc_takes = 0\<rparr>,
      qc_retrieve = (\<lambda>r q k. Inr [Some (uploaded ''a'' ''upload://users/ann/x''), Some (uploaded ''b'' ''upload://users/bob/y'')]),
      qc_index = NewBM25Index, qc_latency = 0\<rparr>"

definition world_demo :: "string + unit \<Rightarrow> unit agent_world" where
  "world_demo made =
     \<lparr>aw_elapsed = (\<lambda>i. 0),
      aw_planner = (\<lambda>i. \<lparr>pw_whole = context_demo made, pw_parts = (\<lambda>j. context_demo made), pw_parseList = (\<lambda>s. Inl ''bad'')\<rparr>),
      aw_decode = (\<lambda>s. None)\<rparr>"

lemma demo_scope: "sourceScopeFromContext (\<lambda>s. s) ''ann'' = Some ''upload://users/ann/''"
  by code_simp

lemma demo_filter:
  "filterDocsBySourceScope [Some (uploaded ''a'' ''upload://users/ann/x''), Some (uploaded ''b'' ''upload://users/bob/y'')]
     (Some ''upload://users/ann/'') = [Some (uploaded ''a'' ''upload://users/ann/x'')]"
  by code_simp

lemma demo_lexical: "lexicalHits env_demo (Some NewBM25Index) q zeroHybridConfig = []"
  by (simp add: lexicalHits_def SearchWithOptions_def NewBM25Index_def Let_def)

lemma demo_key: "fusionID (uploaded ''a'' ''upload://users/ann/x'') = ''a''"
  by code_simp

lemma demo_hybrid:
  "\<exists>d ht. HybridRetrieveWithRetriever env_demo l (Some ''upload://users/ann/'') raw
     (Inr [Some (uploaded ''a'' ''upload://users/ann/x''), Some (uploaded ''b'' ''upload://users/bob/y'')])
     (Some NewBM25Index) q zeroHybridConfig = Some (Inr [d], ht) \<and> rd_ID d = ''a''"
proof -
  have f: "\<exists>e. rrfFusionWeighted [Some (uploaded ''a'' ''upload://users/ann/x'')] [] k dw lw = [e] \<and> rd_ID (fz_doc e) = ''a''" for k dw lw
    by (simp add: rrfFusionWeighted_def fuse_def addDense_def Let_def demo_key entryFor_def annotateFused_def setMeta_def)
      (simp add: uploaded_def)
  obtain e where e: "rrfFusionWeighted [Some (uploaded ''a'' ''upload://users/ann/x'')] [] 0 1 1 = [e]" "rd_ID (fz_doc e) = ''a''"
    using f by blast
  have h: "hc_MetadataBoostEnabled zeroHybridConfig = False" "hc_IntentRefinementEnabled zeroHybridConfig = False"
    "hc_FusionK zeroHybridConfig = 0" "hybridWeights zeroHybridConfig = Some (1, 1)"
    "hc_CandidateTopK zeroHybridConfig = 0" "hc_FinalTopK zeroHybridConfig = 0"
    by (simp_all add: zeroHybridConfig_def hybridWeights_def)
  show ?thesis
    unfolding HybridRetrieveWithRetriever_def Let_def sum.case demo_filter demo_lexical filterBM25HitsBySourceScope_def refineStage_def h
    by (simp add: e trimRetrievedDocs_def)
qed

lemma demo_blank: "trim_space ''redis'' = ''redis''"
  by code_simp

lemma query_demo_answer:
  "\<exists>d t st. Query env_demo (context_demo (Inr ())) ''redis'' emptyPool = (Some (Inr [d], t), st) \<and> rd_ID d = ''a''"
proof -
  obtain d ht where h: "HybridRetrieveWithRetriever env_demo 0 (Some ''upload://users/ann/'') ''redis''
     (Inr [Some (uploaded ''a'' ''upload://users/ann/x''), Some (uploaded ''b'' ''upload://users/bob/y'')])
     (Some NewBM25Index) ''redis'' zeroHybridConfig = Some (Inr [d], ht)" and d: "rd_ID d = ''a''"
    using demo_hybrid by blast
  have s: "selectFinalDocs env_demo ''redis'' [d] zeroHybridConfig = [setMeta ''_trace_final_position'' (MInt 1) d]"
    by (simp add: selectFinalDocs_def trimRetrievedDocs_def annotateFinalPositions_def zeroHybridConfig_def)
  show ?thesis using d
    by (simp add: Query_def demo_blank context_demo_def rewriteStage_def ragConfigBool_def GetOrCreate_def needsFactory_def
        emptyPool_def createRetriever_def DefaultHybridConfig_def demo_scope h rerankStage_def s) (simp add: setMeta_def Let_def)
qed

lemma demo_unplanned:
  assumes "Query env_demo (context_demo made) ''redis'' st = (Some (answer, qt), st1)"
  shows "\<exists>pt. QueryWithPlanner env_demo (aw_planner (world_demo made) 0) ''redis'' DefaultPlannerConfig st = (Some (answer, pt), st1)"
  using assms by (simp add: QueryWithPlanner_def world_demo_def demo_blank Analyze_def DefaultPlannerConfig_def Let_def)

lemma agent_demo_answer:
  "\<exists>d t st. AgentQuery env_demo (world_demo (Inr ())) 0 DefaultAgentConfig DefaultPlannerConfig ''redis'' emptyPool
     = (Some (Inr [d], t), st) \<and> rd_ID d = ''a''"
proof -
  obtain d qt st where "Query env_demo (context_demo (Inr ())) ''redis'' emptyPool = (Some (Inr [d], qt), st)" and d: "rd_ID d = ''a''"
    using query_demo_answer by blast
  from demo_unplanned [OF this(1)] obtain pt where
    "QueryWithPlanner env_demo (aw_planner (world_demo (Inr ())) 0) ''redis'' DefaultPlannerConfig emptyPool = (Some (Inr [d], pt), st)" by blast
  then show ?thesis using d by (simp add: AgentQuery_def DefaultAgentConfig_def)
qed

lemma demo_down:
  "\<exists>pt st. QueryWithPlanner env_demo (aw_planner (world_demo (Inl ''down'')) 0) ''redis'' DefaultPlannerConfig emptyPool
     = (Some (Inl ''down'', pt), st)"
proof -
  have "\<exists>qt st. Query env_demo (context_demo (Inl ''down'')) ''redis'' emptyPool = (Some (Inl ''down'', qt), st)"
    by (simp add: Query_def demo_blank context_demo_def rewriteStage_def ragConfigBool_def GetOrCreate_def needsFactory_def
        emptyPool_def createRetriever_def)
  then show ?thesis using demo_unplanned by blast
qed

abbreviation enabledAgent :: agent_config where
  "enabledAgent \<equiv> DefaultAgentConfig\<lparr>ac_Enabled := True\<rparr>"

lemma agent_demo_down:
  "\<exists>t st. AgentQuery env_demo (world_demo (Inl ''down'')) 0 enabledAgent DefaultPlannerConfig ''redis'' emptyPool = (Some (Inr [], t), st)"
proof -
  obtain pt st where q: "QueryWithPlanner env_demo (aw_planner (world_demo (Inl ''down'')) 0) ''redis'' DefaultPlannerConfig emptyPool
     = (Some (Inl ''down'', pt), st)" using demo_down by blast
  have n: "nat (ac_MaxRounds enabledAgent) = Suc (Suc 0)" by (simp add: DefaultAgentConfig_def)
  have e: "\<not> wrap64 (ac_TotalTimeoutMs enabledAgent * 1000000) \<le> aw_elapsed (world_demo (Inl ''down'')) 0"
    by (simp add: DefaultAgentConfig_def world_demo_def wrap64_def)
  show ?thesis
    by (simp only: AgentQuery_def Let_def n roundsLoop.simps if_not_P [OF e] q) (simp add: mergeAndDedup_def)
qed

subsection \<open>The agent\<close>

text \<open>C9: Retrieval stays within the scope of the user, however a question is split into parts, repeated over rounds, rewritten,
  fused, refined, reranked and chosen: for a user who is known, every document of the answer either comes from the user's
  own uploads or does not come from the uploads of users at all.\<close>

theorem agent_scoped:
  assumes "AgentQuery rg w latency cfg pcfg query st = (Some (Inr docs, t), st1)"
    and "\<And>i. world_of_user hash8 userID (aw_planner w i)" "trim_space userID \<noteq> []"
  shows "list_all (\<lambda>d. prefix ''upload://users/'' (docSource d) \<longrightarrow>
           prefix (''upload://users/'' @ hash8 (trim_space userID) @ ''/'') (docSource d)) docs"
proof -
  have "list_all (in_scope hash8 userID) docs"
  proof (cases "ac_Enabled cfg")
    case False
    then have "\<exists>pt. QueryWithPlanner rg (aw_planner w 0) query pcfg st = (Some (Inr docs, pt), st1)"
      using assms(1) by (auto simp: AgentQuery_def Let_def split: prod.splits option.splits)
    then show ?thesis using Planner_in_scope [OF assms(2,3)] by blast
  next
    case True
    let ?t0 = "\<lparr>at_Rounds = 0, at_FinalConfidence = 0, at_TotalLatencyMs = 0, at_RoundTraces = []\<rparr>"
    obtain out t1 where r: "roundsLoop rg w cfg pcfg query (nat (ac_MaxRounds cfg)) 0 query [] [] ?t0 st = (Some (out, t1), st1)"
      and docs: "docs = mergeAndDedup out"
      using assms(1) True by (auto simp: AgentQuery_def Let_def split: prod.splits option.splits)
    have "list_all (in_scope hash8 userID) out" by (rule roundsLoop_in_scope [OF r assms(2,3)]) simp
    then show ?thesis using mergeAndDedup_facts(2) [of out] by (auto simp: list_all_iff docs)
  qed
  then show ?thesis by (auto simp: list_all_iff in_scope_def ownPrefix_def)
qed

theorem agent_scoped_witness:
  "\<exists>d t st. AgentQuery env_demo (world_demo (Inr ())) 0 DefaultAgentConfig DefaultPlannerConfig ''redis'' emptyPool
     = (Some (Inr [d], t), st) \<and> rd_ID d = ''a'' \<and>
     list_all (\<lambda>d. prefix ''upload://users/'' (docSource d) \<longrightarrow> prefix ''upload://users/ann/'' (docSource d)) [d]"
proof -
  obtain d t st where a: "AgentQuery env_demo (world_demo (Inr ())) 0 DefaultAgentConfig DefaultPlannerConfig ''redis'' emptyPool
     = (Some (Inr [d], t), st)" "rd_ID d = ''a''" using agent_demo_answer by blast
  have w: "world_of_user (\<lambda>s. s) ''ann'' (aw_planner (world_demo (Inr ())) i)" for i
    by (simp add: world_of_user_def of_user_def world_demo_def context_demo_def)
  have t: "trim_space ''ann'' = ''ann''" by code_simp
  have "list_all (\<lambda>d. prefix ''upload://users/'' (docSource d) \<longrightarrow>
      prefix (''upload://users/'' @ trim_space ''ann'' @ ''/'') (docSource d)) [d]"
    using agent_scoped [OF a(1) w] t by simp
  then show ?thesis using a unfolding t by auto
qed

lemma rounds_panic:
  "fst (roundsLoop rg w cfg pcfg query fuel r0 cur docs seen t st) = None \<Longrightarrow>
    \<exists>r q st0. r < r0 + fuel \<and> fst (QueryWithPlanner rg (aw_planner w r) q pcfg st0) = None"
proof (induction fuel arbitrary: r0 cur docs seen t st)
  case (Suc fuel)
  obtain res st1 where q: "QueryWithPlanner rg (aw_planner w r0) cur pcfg st = (res, st1)" by (metis prod.collapse)
  show ?case
  proof (cases res)
    case None
    with q show ?thesis by (intro exI [of _ r0] exI [of _ cur] exI [of _ st]) simp
  next
    case (Some a)
    obtain ans pt where a: "a = (ans, pt)" by (cases a)
    have "\<exists>cur docs seen t st. fst (roundsLoop rg w cfg pcfg query fuel (Suc r0) cur docs seen t st) = None"
    proof (cases ans)
      case (Inr found)
      from Suc.prems show ?thesis
        by (simp add: q Some a Inr Let_def split: if_splits prod.splits) blast+
    qed (use Suc.prems in \<open>simp add: q Some a split: if_splits\<close>)
    then obtain cur docs seen t st where "fst (roundsLoop rg w cfg pcfg query fuel (Suc r0) cur docs seen t st) = None" by blast
    from Suc.IH [OF this] show ?thesis by simp
  qed
qed simp

text \<open>C23: An agent that is enabled hides failures. A call that returns answers no error, whatever its retrievals end
  with: it answers documents, each identifier once, after at most the configured number of rounds, each of them
  traced, and the failure of the first retrieval is answered like an empty result, with no documents and no rounds.
  A call that does not return has panicked, and so did a retrieval of one of its rounds.\<close>

theorem agent_hides_failures:
  assumes "ac_Enabled cfg"
  shows "(case AgentQuery rg w latency cfg pcfg query st of
      (None, st1) \<Rightarrow> \<exists>r q st0. r < nat (ac_MaxRounds cfg) \<and> fst (QueryWithPlanner rg (aw_planner w r) q pcfg st0) = None
    | (Some (answer, t), st1) \<Rightarrow> (\<exists>docs. answer = Inr docs \<and> distinct (map fusionID docs)) \<and>
        at_Rounds t = int (length (at_RoundTraces t)) \<and> at_Rounds t \<le> int (nat (ac_MaxRounds cfg)) \<and>
        (\<forall>err pt st2. QueryWithPlanner rg (aw_planner w 0) query pcfg st = (Some (Inl err, pt), st2) \<longrightarrow> answer = Inr [] \<and> at_Rounds t = 0))"
proof -
  let ?t0 = "\<lparr>at_Rounds = 0, at_FinalConfidence = 0, at_TotalLatencyMs = 0, at_RoundTraces = []\<rparr>"
  obtain res st1 where r0: "roundsLoop rg w cfg pcfg query (nat (ac_MaxRounds cfg)) 0 query [] [] ?t0 st = (res, st1)" by (metis prod.collapse)
  show ?thesis
  proof (cases res)
    case None
    with r0 rounds_panic [of rg w cfg pcfg query "nat (ac_MaxRounds cfg)" 0 query "[]" "[]" ?t0 st] assms show ?thesis
      by (simp add: AgentQuery_def)
  next
    case (Some o1)
    then obtain out t1 where r: "roundsLoop rg w cfg pcfg query (nat (ac_MaxRounds cfg)) 0 query [] [] ?t0 st = (Some (out, t1), st1)"
      using r0 by (cases o1) simp
    have "at_Rounds t1 = int (length (at_RoundTraces t1)) \<and> at_Rounds t1 \<le> int (0 + nat (ac_MaxRounds cfg))"
      by (rule roundsLoop_bounds [OF r]) simp_all
    moreover have "out = [] \<and> t1 = ?t0" if "QueryWithPlanner rg (aw_planner w 0) query pcfg st = (Some (Inl err, pt), st2)" for err pt st2
      using r that by (cases "nat (ac_MaxRounds cfg)") (auto split: if_splits)
    ultimately show ?thesis using mergeAndDedup_facts(1) [of out] assms r by (auto simp: AgentQuery_def mergeAndDedup_def)
  qed
qed

theorem agent_hides_failures_witness:
  "\<exists>t st. AgentQuery env_demo (world_demo (Inl ''down'')) 0 enabledAgent DefaultPlannerConfig ''redis'' emptyPool
     = (Some (Inr [], t), st) \<and> at_Rounds t = 0"
proof -
  obtain t st where a: "AgentQuery env_demo (world_demo (Inl ''down'')) 0 enabledAgent DefaultPlannerConfig ''redis'' emptyPool
     = (Some (Inr [], t), st)" using agent_demo_down by blast
  have "ac_Enabled enabledAgent" by simp
  from agent_hides_failures [where rg = env_demo and w = "world_demo (Inl ''down'')" and latency = 0 and
      pcfg = DefaultPlannerConfig and query = "''redis''" and st = emptyPool, OF this] a demo_down
  have "at_Rounds t = 0" by fastforce
  then show ?thesis using a by blast
qed

lemma final_positions:
  "map (\<lambda>d. gm_get (rd_Meta d) ''_trace_final_position'') (annotateFinalPositions ds) =
     map (\<lambda>i. Some (MInt (int i + 1))) [0..<length (annotateFinalPositions ds)]"
proof -
  have "map (\<lambda>d. gm_get (rd_Meta d) k) (map (\<lambda>(i, d). setMeta k (MInt (int i + 1)) d) (enumerate n ds)) =
      map (\<lambda>i. Some (MInt (int i + 1))) [n..<n + length ds]" for k n
    by (induction ds arbitrary: n) (simp_all add: setMeta_def upt_conv_Cons del: upt_Suc)
  from this [of _ 0] show ?thesis by (simp only: annotateFinalPositions_def length_map length_enumerate add_0)
qed

definition found_by_store :: "'r query_context \<Rightarrow> rag_document \<Rightarrow> bool" where
  "found_by_store qc d \<longleftrightarrow> (\<exists>rr q k dense e. qc_retrieve qc rr q k = Inr dense \<and> Some e \<in> set dense \<and> essence d = essence e)"

definition found_by_index :: "rag_env \<Rightarrow> 'r query_context \<Rightarrow> rag_document \<Rightarrow> bool" where
  "found_by_index rg qc d \<longleftrightarrow>
     (\<exists>q cfg h. h \<in> set (lexicalHits rg (Some (qc_index qc)) q cfg) \<and> essence d = essence (lexHitToDoc h))"

lemma Query_found:
  assumes "Query rg qc query st = (Some (Inr docs, t), st1)" "d \<in> set docs"
  shows "found_by_store qc d \<or> found_by_index rg qc d"
  using assms
proof (cases rule: Query_source)
  case (1 rr q k dense e)
  have "Some e \<in> set dense" using 1(3) by (auto simp: filterDocsBySourceScope_def split: if_splits)
  then show ?thesis using 1(1,2) unfolding found_by_store_def by blast
next
  case (2 q cfg h)
  have "h \<in> set (lexicalHits rg (Some (qc_index qc)) q cfg)"
    using 2(2) by (auto simp: filterBM25HitsBySourceScope_def split: if_splits)
  then show ?thesis using 2(1) unfolding found_by_index_def by blast
qed

text \<open>The documents of a query are those its sources found: each of them is, but for the traces in its metadata, one the vector
  store answered or one of the index of words; there are no more than asked for; and each is marked with its position.\<close>

theorem query_answer:
  assumes "Query rg qc query st = (Some (Inr docs, t), st1)"
  shows "list_all (\<lambda>d. found_by_store qc d \<or> found_by_index rg qc d) docs \<and>
    int (length docs) \<le> finalTopK (DefaultHybridConfig (qc_config qc) (GetRetrieverTopK (qc_config qc)) (qc_hybrid qc)) \<and>
    map (\<lambda>d. gm_get (rd_Meta d) ''_trace_final_position'') docs = map (\<lambda>i. Some (MInt (int i + 1))) [0..<length docs] \<and>
    qt_ResultCount t = int (length docs)"
proof (cases "trim_space query = []")
  case True
  then have "docs = []" "t = emptyQueryTrace" using assms by (simp_all add: Query_def)
  then show ?thesis using finalTopK_pos by (simp add: emptyQueryTrace_def less_imp_le)
next
  case False
  let ?cfg = "DefaultHybridConfig (qc_config qc) (GetRetrieverTopK (qc_config qc)) (qc_hybrid qc)"
  obtain cands where docs: "docs = selectFinalDocs rg query cands ?cfg" and n: "qt_ResultCount t = int (length docs)"
    using Query_docs [OF assms False] by metis
  have "map (\<lambda>d. gm_get (rd_Meta d) ''_trace_final_position'') docs = map (\<lambda>i. Some (MInt (int i + 1))) [0..<length docs]"
  proof -
    obtain ds where "docs = annotateFinalPositions ds" unfolding docs selectFinalDocs_def Let_def by metis
    then show ?thesis by (simp only: final_positions)
  qed
  moreover have "list_all (\<lambda>d. found_by_store qc d \<or> found_by_index rg qc d) docs"
    unfolding list_all_iff using Query_found [OF assms] by blast
  moreover have "int (length docs) \<le> finalTopK ?cfg"
    using selectFinalDocs_facts [of rg query cands ?cfg] by (simp add: docs)
  ultimately show ?thesis using n by blast
qed

theorem query_answer_witness:
  "\<exists>d t st. Query env_demo (context_demo (Inr ())) ''redis'' emptyPool = (Some (Inr [d], t), st) \<and> rd_ID d = ''a'' \<and>
     gm_get (rd_Meta d) ''_trace_final_position'' = Some (MInt 1) \<and> qt_ResultCount t = 1"
proof -
  obtain d t st where q: "Query env_demo (context_demo (Inr ())) ''redis'' emptyPool = (Some (Inr [d], t), st)" "rd_ID d = ''a''"
    using query_demo_answer by blast
  then show ?thesis using query_answer [OF q(1)] by simp
qed

end
