(* ===== verification/Ops_Approval.thy ===== *)
theory Ops_Approval
  imports Rag_Intent Go_Time
begin

text \<open>
  Approving risky operations (internal/ai/service): the gate that holds back a request that asks for a change
  (approval\_gate.go), the queue of held requests in Redis (approval\_queue.go) and the review that runs an approved
  request (ai\_ops\_approval.go, the entry of ai\_ops\_service.go).

  Redis keeps values with an expiry and sets; the commands are as Redis documents them and every command may fail: \<open>io
  n\<close> is the error of the n-th command of an operation, \<open>None\<close> if it succeeds. JSON is not modelled: what is written is
  what is read. \<open>strings.ToLower\<close>, the clock and the run of a request are parameters. The record of incidents is left out: its errors are ignored and it does not change the queue.
\<close>

subsection \<open>Redis\<close>

record 'v redis =
  rs_values :: "(string, 'v \<times> gotime) gomap"
  rs_sets :: "(string, string list) gomap"

definition rsGet :: "string \<Rightarrow> gotime \<Rightarrow> 'v redis \<Rightarrow> 'v option" where
  "rsGet key now db = (case gm_get (rs_values db) key of Some (v, expireAt) \<Rightarrow> if now < expireAt then Some v else None | None \<Rightarrow> None)"

definition rsSetEx :: "string \<Rightarrow> int \<Rightarrow> 'v \<Rightarrow> gotime \<Rightarrow> 'v redis \<Rightarrow> string + 'v redis" where
  "rsSetEx key seconds v now db =
     (if seconds \<le> 0 then Inl ''ERR invalid expire time in setex''
      else Inr (db\<lparr>rs_values := gm_put key (v, now + seconds * second) (rs_values db)\<rparr>))"

definition rsMembers :: "string \<Rightarrow> 'v redis \<Rightarrow> string list" where
  "rsMembers key db = (case gm_get (rs_sets db) key of Some ms \<Rightarrow> ms | None \<Rightarrow> [])"

definition rsAdd :: "string \<Rightarrow> string \<Rightarrow> 'v redis \<Rightarrow> 'v redis" where
  "rsAdd key m db = db\<lparr>rs_sets := gm_put key (List.insert m (rsMembers key db)) (rs_sets db)\<rparr>"

definition rsRem :: "string \<Rightarrow> string \<Rightarrow> 'v redis \<Rightarrow> 'v redis" where
  "rsRem key m db = db\<lparr>rs_sets := gm_put key (removeAll m (rsMembers key db)) (rs_sets db)\<rparr>"

subsection \<open>The queue\<close>

abbreviation ApprovalStatusPending :: string where "ApprovalStatusPending \<equiv> ''pending''"
abbreviation ApprovalStatusApproved :: string where "ApprovalStatusApproved \<equiv> ''approved''"
abbreviation ApprovalStatusRejected :: string where "ApprovalStatusRejected \<equiv> ''rejected''"
abbreviation ApprovalStatusExecuted :: string where "ApprovalStatusExecuted \<equiv> ''executed''"

record approval_request =
  ap_ID :: string
  ap_Query :: string
  ap_Reason :: string
  ap_Status :: string
  ap_SessionID :: string
  ap_UserID :: string
  ap_RequestedBy :: string
  ap_ReviewedBy :: string
  ap_ReviewReason :: string
  ap_ExecutionPlan :: "string list"
  ap_ResultTraceID :: string
  ap_CreatedAt :: int
  ap_UpdatedAt :: int
  ap_ApprovedAt :: int
  ap_RejectedAt :: int
  ap_ExecutionAt :: int

type_synonym approval_db = "approval_request redis"
type_synonym redis_errors = "nat \<Rightarrow> string option"

text \<open>What the configuration says: \<open>approval.enabled\<close> as a text and a flag, the address of Redis, the seconds a request
  is kept and the prefix of the keys, \<open>None\<close> for a lookup that fails; and \<open>ResolveEnv\<close> and \<open>IsEnvReference\<close>.\<close>

record approval_config =
  ag_enabled :: "(string \<times> bool) option"
  ag_address :: "string option"
  ag_ttlSeconds :: "int option"
  ag_prefix :: "string option"
  ag_resolveEnv :: "string \<Rightarrow> string"
  ag_isEnvReference :: "string \<Rightarrow> bool"

definition ResolveOptionalEnv :: "(string \<Rightarrow> string) \<Rightarrow> (string \<Rightarrow> bool) \<Rightarrow> string \<Rightarrow> string option" where
  "ResolveOptionalEnv resolveEnv isEnvReference val0 =
     (let val1 = trim_space val0; resolved = trim_space (resolveEnv val1)
      in if val1 = [] then None
         else if isEnvReference val1 \<and> resolved = val1 then None
         else if resolved = [] then None else Some resolved)"

definition approvalQueueEnabled :: "approval_config \<Rightarrow> bool" where
  "approvalQueueEnabled c \<longleftrightarrow>
     \<not> (case ag_enabled c of Some (t, b) \<Rightarrow> trim_space t \<noteq> [] \<and> \<not> b | None \<Rightarrow> False) \<and>
     (case ag_address c of None \<Rightarrow> False | Some addr \<Rightarrow> ResolveOptionalEnv (ag_resolveEnv c) (ag_isEnvReference c) addr \<noteq> None)"

definition approvalRequestTTL :: "approval_config \<Rightarrow> duration" where
  "approvalRequestTTL c =
     (case ag_ttlSeconds c of Some v \<Rightarrow> if v \<le> 0 then 24 * hour else wrap64 (v * second) | None \<Rightarrow> 24 * hour)"

text \<open>\<open>int(d.Seconds())\<close>.\<close>

definition wholeSeconds :: "duration \<Rightarrow> int" where
  "wholeSeconds d = f64_to_int (fadd (f64_of_int (d sdiv second)) (fdiv (f64_of_int (d smod second)) 1000000000))"

definition approvalKeyPrefix :: "approval_config \<Rightarrow> string" where
  "approvalKeyPrefix c =
     (case ag_prefix c of Some v \<Rightarrow> if trim_space v = [] then ''opscaptionai:approval'' else trim_space v
      | None \<Rightarrow> ''opscaptionai:approval'')"

definition requestKey :: "approval_config \<Rightarrow> string \<Rightarrow> string" where
  "requestKey c rid = approvalKeyPrefix c @ '':request:'' @ trim_space rid"

definition statusKey :: "approval_config \<Rightarrow> string \<Rightarrow> string" where
  "statusKey c status = approvalKeyPrefix c @ '':status:'' @ status"

text \<open>Storing a request: the commands from the \<open>n\<close>-th on. The result is the error, if any, and the database.\<close>

definition saveRequest ::
  "approval_config \<Rightarrow> gotime \<Rightarrow> redis_errors \<Rightarrow> nat \<Rightarrow> approval_request \<Rightarrow> string \<Rightarrow> approval_db \<Rightarrow> string option \<times> approval_db" where
  "saveRequest c now io n request previous db =
     (case io n of
        Some err \<Rightarrow> (Some err, db)
      | None \<Rightarrow>
          (case rsSetEx (requestKey c (ap_ID request)) (wholeSeconds (approvalRequestTTL c)) request now db of
             Inl err \<Rightarrow> (Some err, db)
           | Inr db1 \<Rightarrow>
               (let moved = previous \<noteq> [] \<and> previous \<noteq> ap_Status request
                in if moved \<and> io (n + 1) \<noteq> None then (io (n + 1), db1)
                   else (let db2 = (if moved then rsRem (statusKey c previous) (ap_ID request) db1 else db1)
                         in if io (n + 2) \<noteq> None then (io (n + 2), db2)
                            else (None, rsAdd (statusKey c (ap_Status request)) (ap_ID request) db2)))))"

text \<open>The session and the user of the context, \<open>None\<close> if it has none; \<open>uuid\<close> is the new identifier.\<close>

record approval_context =
  ax_session :: "string option"
  ax_user :: "string option"
  ax_bypass :: bool

definition orEmpty :: "string option \<Rightarrow> string" where
  "orEmpty v = (case v of Some s \<Rightarrow> trim_space s | None \<Rightarrow> [])"

definition unixSeconds :: "gotime \<Rightarrow> int" where
  "unixSeconds now = now div second"

definition newApprovalRequest :: "approval_context \<Rightarrow> string \<Rightarrow> gotime \<Rightarrow> string \<Rightarrow> string \<Rightarrow> string list \<Rightarrow> approval_request" where
  "newApprovalRequest ctx uuid now query reason plan =
     \<lparr>ap_ID = uuid, ap_Query = trim_space query, ap_Reason = trim_space reason, ap_Status = ApprovalStatusPending,
      ap_SessionID = orEmpty (ax_session ctx), ap_UserID = orEmpty (ax_user ctx), ap_RequestedBy = orEmpty (ax_user ctx),
      ap_ReviewedBy = [], ap_ReviewReason = [], ap_ExecutionPlan = plan, ap_ResultTraceID = [],
      ap_CreatedAt = unixSeconds now, ap_UpdatedAt = unixSeconds now, ap_ApprovedAt = 0, ap_RejectedAt = 0, ap_ExecutionAt = 0\<rparr>"

definition Enqueue ::
  "approval_config \<Rightarrow> approval_context \<Rightarrow> string \<Rightarrow> gotime \<Rightarrow> redis_errors \<Rightarrow> string \<Rightarrow> string \<Rightarrow> string list \<Rightarrow> approval_db \<Rightarrow>
     (string + approval_request) \<times> approval_db" where
  "Enqueue c ctx uuid now io query reason plan db =
     (if \<not> approvalQueueEnabled c then (Inl ''approval queue is not enabled'', db)
      else (let request = newApprovalRequest ctx uuid now query reason plan
            in case saveRequest c now io 0 request ApprovalStatusPending db of
                 (Some err, db1) \<Rightarrow> (Inl err, db1)
               | (None, db1) \<Rightarrow> (Inr request, db1)))"

definition GetRequest :: "approval_config \<Rightarrow> gotime \<Rightarrow> redis_errors \<Rightarrow> nat \<Rightarrow> string \<Rightarrow> approval_db \<Rightarrow> string + approval_request" where
  "GetRequest c now io n rid db =
     (case io n of
        Some err \<Rightarrow> Inl err
      | None \<Rightarrow> (case rsGet (requestKey c rid) now db of
                    None \<Rightarrow> Inl (''approval request '' @ rid @ '' not found'')
                  | Some r \<Rightarrow> Inr r))"

definition ListRequests :: "approval_config \<Rightarrow> gotime \<Rightarrow> redis_errors \<Rightarrow> string \<Rightarrow> approval_db \<Rightarrow> string + approval_request list" where
  "ListRequests c now io status0 db =
     (if \<not> approvalQueueEnabled c then Inr []
      else (let status = (if status0 = [] then ApprovalStatusPending else status0)
            in case io 0 of
                 Some err \<Rightarrow> Inl err
               | None \<Rightarrow>
                   Inr (concat (map (\<lambda>(i, rid). case GetRequest c now io (Suc i) rid db of Inr r \<Rightarrow> [r] | Inl _ \<Rightarrow> [])
                          (enumerate 0 (rsMembers (statusKey c status) db))))))"

text \<open>Reading a request, changing it and storing it.\<close>

definition reviewRequest ::
  "approval_config \<Rightarrow> gotime \<Rightarrow> redis_errors \<Rightarrow> string \<Rightarrow> (approval_request \<Rightarrow> approval_request) \<Rightarrow> string \<Rightarrow> approval_db \<Rightarrow>
     (string + approval_request) \<times> approval_db" where
  "reviewRequest c now io rid f previous db =
     (case GetRequest c now io 0 rid db of
        Inl err \<Rightarrow> (Inl err, db)
      | Inr r \<Rightarrow>
          (case saveRequest c now io 1 (f r) previous db of
             (Some err, db1) \<Rightarrow> (Inl err, db1)
           | (None, db1) \<Rightarrow> (Inr (f r), db1)))"

definition approved :: "gotime \<Rightarrow> string \<Rightarrow> approval_request \<Rightarrow> approval_request" where
  "approved now reviewer r =
     r\<lparr>ap_Status := ApprovalStatusApproved, ap_ReviewedBy := trim_space reviewer, ap_ApprovedAt := unixSeconds now,
       ap_UpdatedAt := unixSeconds now\<rparr>"

definition rejected :: "gotime \<Rightarrow> string \<Rightarrow> string \<Rightarrow> approval_request \<Rightarrow> approval_request" where
  "rejected now reviewer reviewReason r =
     r\<lparr>ap_Status := ApprovalStatusRejected, ap_ReviewedBy := trim_space reviewer, ap_ReviewReason := trim_space reviewReason,
       ap_RejectedAt := unixSeconds now, ap_UpdatedAt := unixSeconds now\<rparr>"

definition executed :: "gotime \<Rightarrow> string \<Rightarrow> approval_request \<Rightarrow> approval_request" where
  "executed now traceID r =
     r\<lparr>ap_Status := ApprovalStatusExecuted, ap_ResultTraceID := trim_space traceID, ap_ExecutionAt := unixSeconds now,
       ap_UpdatedAt := unixSeconds now\<rparr>"

definition Approve ::
  "approval_config \<Rightarrow> gotime \<Rightarrow> redis_errors \<Rightarrow> string \<Rightarrow> string \<Rightarrow> approval_db \<Rightarrow> (string + approval_request) \<times> approval_db" where
  "Approve c now io rid reviewer = reviewRequest c now io rid (approved now reviewer) ApprovalStatusPending"

definition Reject ::
  "approval_config \<Rightarrow> gotime \<Rightarrow> redis_errors \<Rightarrow> string \<Rightarrow> string \<Rightarrow> string \<Rightarrow> approval_db \<Rightarrow> (string + approval_request) \<times> approval_db" where
  "Reject c now io rid reviewer reviewReason =
     reviewRequest c now io rid (rejected now reviewer reviewReason) ApprovalStatusPending"

definition MarkExecuted ::
  "approval_config \<Rightarrow> gotime \<Rightarrow> redis_errors \<Rightarrow> string \<Rightarrow> string \<Rightarrow> approval_db \<Rightarrow> string option \<times> approval_db" where
  "MarkExecuted c now io rid traceID db =
     (case reviewRequest c now io rid (executed now traceID) ApprovalStatusApproved db of
        (Inl err, db1) \<Rightarrow> (Some err, db1)
      | (Inr _, db1) \<Rightarrow> (None, db1))"

subsection \<open>The gate\<close>

definition highRiskApprovalKeywords :: "string list" where \<comment> \<open>words of operations that change something\<close>
  "highRiskApprovalKeywords =
     [''delete'',
      ''drop'',
      ''update'',
      ''insert'',
      ''truncate'',
      ''alter'',
      ''rollback'',
      ''restart'',
      [CHR 0xE5, CHR 0x88, CHR 0xA0, CHR 0xE9, CHR 0x99, CHR 0xA4],
      [CHR 0xE4, CHR 0xBF, CHR 0xAE, CHR 0xE6, CHR 0x94, CHR 0xB9],
      [CHR 0xE5, CHR 0x9B, CHR 0x9E, CHR 0xE6, CHR 0xBB, CHR 0x9A],
      [CHR 0xE9, CHR 0x87, CHR 0x8D, CHR 0xE5, CHR 0x90, CHR 0xAF],
      [CHR 0xE5, CHR 0x86, CHR 0x99, CHR 0xE5, CHR 0x85, CHR 0xA5],
      [CHR 0xE5, CHR 0x8F, CHR 0x98, CHR 0xE6, CHR 0x9B, CHR 0xB4]]"

definition explicitExecutionKeywords :: "string list" where \<comment> \<open>words that ask for an execution\<close>
  "explicitExecutionKeywords =
     [''delete'',
      ''drop'',
      ''update'',
      ''insert'',
      ''truncate'',
      ''alter'',
      ''restart'',
      ''execute'',
      ''apply'',
      ''perform'',
      ''run rollback'',
      ''rollback '',
      [CHR 0xE6, CHR 0x89, CHR 0xA7, CHR 0xE8, CHR 0xA1, CHR 0x8C],
      [CHR 0xE7, CHR 0xAB, CHR 0x8B, CHR 0xE5, CHR 0x8D, CHR 0xB3],
      [CHR 0xE5, CHR 0x88, CHR 0xA0, CHR 0xE9, CHR 0x99, CHR 0xA4],
      [CHR 0xE4, CHR 0xBF, CHR 0xAE, CHR 0xE6, CHR 0x94, CHR 0xB9],
      [CHR 0xE5, CHR 0x86, CHR 0x99, CHR 0xE5, CHR 0x85, CHR 0xA5],
      [CHR 0xE5, CHR 0x8F, CHR 0x98, CHR 0xE6, CHR 0x9B, CHR 0xB4],
      [CHR 0xE9, CHR 0x87, CHR 0x8D, CHR 0xE5, CHR 0x90, CHR 0xAF],
      [CHR 0xE6, CHR 0x89, CHR 0xA7, CHR 0xE8, CHR 0xA1, CHR 0x8C, CHR 0xE5, CHR 0x9B, CHR 0x9E, CHR
       0xE6, CHR 0xBB, CHR 0x9A],
      [CHR 0xE7, CHR 0xAB, CHR 0x8B, CHR 0xE5, CHR 0x8D, CHR 0xB3, CHR 0xE5, CHR 0x9B, CHR 0x9E, CHR
       0xE6, CHR 0xBB, CHR 0x9A],
      [CHR 0xE5, CHR 0xAE, CHR 0x9E, CHR 0xE9, CHR 0x99, CHR 0x85, CHR 0xE5, CHR 0x9B, CHR 0x9E, CHR
       0xE6, CHR 0xBB, CHR 0x9A],
      [CHR 0xE5, CHR 0xB8, CHR 0xAE, CHR 0xE6, CHR 0x88, CHR 0x91, CHR 0xE5, CHR 0x9B, CHR 0x9E, CHR
       0xE6, CHR 0xBB, CHR 0x9A]]"

definition analysisOnlyKeywords :: "string list" where \<comment> \<open>words that ask for an analysis\<close>
  "analysisOnlyKeywords =
     [[CHR 0xE5, CHR 0x88, CHR 0x86, CHR 0xE6, CHR 0x9E, CHR 0x90],
      [CHR 0xE6, CHR 0x8E, CHR 0x92, CHR 0xE6, CHR 0x9F, CHR 0xA5],
      [CHR 0xE8, CHR 0xAF, CHR 0x8A, CHR 0xE6, CHR 0x96, CHR 0xAD],
      [CHR 0xE5, CHR 0xBB, CHR 0xBA, CHR 0xE8, CHR 0xAE, CHR 0xAE],
      [CHR 0xE6, CHR 0xAD, CHR 0xA5, CHR 0xE9, CHR 0xAA, CHR 0xA4],
      [CHR 0xE6, CHR 0x96, CHR 0xB9, CHR 0xE6, CHR 0xA1, CHR 0x88],
      [CHR 0xE5, CHR 0xA6, CHR 0x82, CHR 0xE4, CHR 0xBD, CHR 0x95],
      [CHR 0xE6, CHR 0x9F, CHR 0xA5, CHR 0xE8, CHR 0xAF, CHR 0xA2],
      [CHR 0xE6, CHR 0x9F, CHR 0xA5, CHR 0xE7, CHR 0x9C, CHR 0x8B],
      [CHR 0xE8, CHR 0xAF, CHR 0xB4, CHR 0xE6, CHR 0x98, CHR 0x8E],
      [CHR 0xE7, CHR 0x94, CHR 0x9F, CHR 0xE6, CHR 0x88, CHR 0x90],
      [CHR 0xE8, CHR 0xAF, CHR 0x84, CHR 0xE4, CHR 0xBC, CHR 0xB0],
      [CHR 0xE7, CHR 0xBB, CHR 0x99, CHR 0xE5, CHR 0x87, CHR 0xBA],
      [CHR 0xE5, CHR 0x88, CHR 0x97, CHR 0xE5, CHR 0x87, CHR 0xBA],
      [CHR 0xE6, CHR 0x80, CHR 0xBB, CHR 0xE7, CHR 0xBB, CHR 0x93],
      [CHR 0xE6, CHR 0x8A, CHR 0xA5, CHR 0xE5, CHR 0x91, CHR 0x8A],
      ''analyze'',
      ''diagnose'',
      ''summarize'',
      ''suggest'',
      ''recommend'',
      ''how to'',
      ''steps'',
      ''plan'']"

definition clauseSeparators :: "string list" where \<comment> \<open>what ends a clause\<close>
  "clauseSeparators =
     [[CHR 0xEF, CHR 0xBC, CHR 0x8C],
      '','',
      [CHR 0xE3, CHR 0x80, CHR 0x82],
      '';'',
      [CHR 0xEF, CHR 0xBC, CHR 0x9B],
      [CHR 0x0A],
      [CHR 0xE8, CHR 0x80, CHR 0x8C, CHR 0xE6, CHR 0x98, CHR 0xAF],
      [CHR 0xE4, CHR 0xBD, CHR 0x86, CHR 0xE6, CHR 0x98, CHR 0xAF],
      [CHR 0xE4, CHR 0xBD, CHR 0x86, CHR 0xE8, CHR 0xA6, CHR 0x81],
      ''however'',
      ''but '']"

text \<open>\<open>strings.LastIndex\<close>.\<close>

fun last_str_index :: "string \<Rightarrow> string \<Rightarrow> int" where
  "last_str_index sub [] = (if sub = [] then 0 else -1)"
| "last_str_index sub (c # cs) =
     (let i = last_str_index sub cs in if i \<ge> 0 then i + 1 else if prefix sub (c # cs) then 0 else -1)"

text \<open>A regular expression that is a sequence of alternatives of words, each of which has to or may occur; what is left of
  a text after a match at its beginning, and whether there is a match anywhere after which the rest is accepted. The
  words are encodings of whole characters, so bytes match where characters do.\<close>

datatype rx_piece = One "string list" | Maybe "string list"

primrec rx_rests :: "rx_piece list \<Rightarrow> string \<Rightarrow> string list" where
  "rx_rests [] s = [s]"
| "rx_rests (piece # pieces) s =
     (case piece of
        One alts \<Rightarrow> concat (map (\<lambda>a. if prefix a s then rx_rests pieces (drop (length a) s) else []) alts)
      | Maybe alts \<Rightarrow>
          concat (map (\<lambda>a. if prefix a s then rx_rests pieces (drop (length a) s) else []) alts) @ rx_rests pieces s)"

definition rx_match :: "rx_piece list \<Rightarrow> (string \<Rightarrow> bool) \<Rightarrow> string \<Rightarrow> bool" where
  "rx_match pieces ok s \<longleftrightarrow> list_ex (\<lambda>t. list_ex ok (rx_rests pieces t)) (suffixes s)"

text \<open>\<open>$\<close> and \<open>\s*$\<close>.\<close>

definition rx_end :: "string \<Rightarrow> bool" where
  "rx_end r \<longleftrightarrow> r = []"

definition rx_blank_end :: "string \<Rightarrow> bool" where
  "rx_blank_end r \<longleftrightarrow> list_all (\<lambda>c. c = CHR '' '' \<or> c = CHR 0x09 \<or> c = CHR 0x0A \<or> c = CHR 0x0C \<or> c = CHR 0x0D) r"

definition negatedPrefixZh :: "rx_piece list" where \<comment> \<open>before a negated word, in Chinese\<close>
  "negatedPrefixZh =
     [One [[CHR 0xE4, CHR 0xB8, CHR 0x8D, CHR 0xE8, CHR 0xA6, CHR 0x81], [CHR 0xE4, CHR 0xB8, CHR
       0x8D, CHR 0xE5, CHR 0xBE, CHR 0x97], [CHR 0xE7, CHR 0xA6, CHR 0x81, CHR 0xE6, CHR 0xAD, CHR
       0xA2], [CHR 0xE9, CHR 0x81, CHR 0xBF, CHR 0xE5, CHR 0x85, CHR 0x8D], [CHR 0xE6, CHR 0x97, CHR
       0xA0, CHR 0xE9, CHR 0x9C, CHR 0x80], [CHR 0xE4, CHR 0xB8, CHR 0x8D, CHR 0xE8, CHR 0x83, CHR
       0xBD], [CHR 0xE4, CHR 0xB8, CHR 0x8D, CHR 0xE5, CHR 0xBA, CHR 0x94], [CHR 0xE4, CHR 0xB8, CHR
       0x8D, CHR 0xE5, CHR 0x85, CHR 0x81, CHR 0xE8, CHR 0xAE, CHR 0xB8], [CHR 0xE4, CHR 0xB8, CHR
       0x8D, CHR 0xE9, CHR 0x9C, CHR 0x80, CHR 0xE8, CHR 0xA6, CHR 0x81], [CHR 0xE8, CHR 0xAF, CHR
       0xB7, CHR 0xE5, CHR 0x8B, CHR 0xBF], [CHR 0xE4, CHR 0xB8, CHR 0x8D]],
      Maybe [[CHR 0xE5, CHR 0x86, CHR 0x8D], [CHR 0xE7, CHR 0x9B, CHR 0xB4, CHR 0xE6, CHR 0x8E, CHR
       0xA5], [CHR 0xE7, CHR 0xAB, CHR 0x8B, CHR 0xE5, CHR 0x8D, CHR 0xB3], [CHR 0xE5, CHR 0xAE, CHR
       0x9E, CHR 0xE9, CHR 0x99, CHR 0x85]],
      Maybe [[CHR 0xE6, CHR 0x89, CHR 0xA7, CHR 0xE8, CHR 0xA1, CHR 0x8C], [CHR 0xE8, CHR 0xBF, CHR
       0x9B, CHR 0xE8, CHR 0xA1, CHR 0x8C], [CHR 0xE5, CHR 0x81, CHR 0x9A]],
      Maybe [[CHR 0xE4, CHR 0xBB, CHR 0xBB, CHR 0xE4, CHR 0xBD, CHR 0x95]]]"

definition negatedPrefixEn :: "rx_piece list" where \<comment> \<open>before a negated word, in English\<close>
  "negatedPrefixEn =
     [One [''do not'', ''don'' @ [CHR 0x27] @ ''t'', ''must not'', ''never'', ''without'', ''no''],
      Maybe ['' directly'', '' actually''],
      Maybe ['' execute'', '' perform'', '' apply'', '' make''],
      Maybe ['' any'']]"

definition negatedScopeZh :: "rx_piece list" where \<comment> \<open>a negation of what follows, in Chinese\<close>
  "negatedScopeZh =
     [One [[CHR 0xE4, CHR 0xB8, CHR 0x8D, CHR 0xE8, CHR 0xA6, CHR 0x81], [CHR 0xE4, CHR 0xB8, CHR
       0x8D, CHR 0xE5, CHR 0xBE, CHR 0x97], [CHR 0xE7, CHR 0xA6, CHR 0x81, CHR 0xE6, CHR 0xAD, CHR
       0xA2], [CHR 0xE9, CHR 0x81, CHR 0xBF, CHR 0xE5, CHR 0x85, CHR 0x8D], [CHR 0xE6, CHR 0x97, CHR
       0xA0, CHR 0xE9, CHR 0x9C, CHR 0x80], [CHR 0xE4, CHR 0xB8, CHR 0x8D, CHR 0xE8, CHR 0x83, CHR
       0xBD], [CHR 0xE4, CHR 0xB8, CHR 0x8D, CHR 0xE5, CHR 0xBA, CHR 0x94], [CHR 0xE4, CHR 0xB8, CHR
       0x8D, CHR 0xE5, CHR 0x85, CHR 0x81, CHR 0xE8, CHR 0xAE, CHR 0xB8], [CHR 0xE4, CHR 0xB8, CHR
       0x8D, CHR 0xE9, CHR 0x9C, CHR 0x80, CHR 0xE8, CHR 0xA6, CHR 0x81], [CHR 0xE8, CHR 0xAF, CHR
       0xB7, CHR 0xE5, CHR 0x8B, CHR 0xBF], [CHR 0xE4, CHR 0xB8, CHR 0x8D]],
      Maybe [[CHR 0xE5, CHR 0x86, CHR 0x8D], [CHR 0xE7, CHR 0x9B, CHR 0xB4, CHR 0xE6, CHR 0x8E, CHR
       0xA5], [CHR 0xE7, CHR 0xAB, CHR 0x8B, CHR 0xE5, CHR 0x8D, CHR 0xB3], [CHR 0xE5, CHR 0xAE, CHR
       0x9E, CHR 0xE9, CHR 0x99, CHR 0x85]],
      One [[CHR 0xE6, CHR 0x89, CHR 0xA7, CHR 0xE8, CHR 0xA1, CHR 0x8C], [CHR 0xE8, CHR 0xBF, CHR
       0x9B, CHR 0xE8, CHR 0xA1, CHR 0x8C], [CHR 0xE5, CHR 0x81, CHR 0x9A]]]"

definition negatedScopeEn :: "rx_piece list" where \<comment> \<open>a negation of what follows, in English\<close>
  "negatedScopeEn =
     [One [''do not'', ''don'' @ [CHR 0x27] @ ''t'', ''must not'', ''never'', ''without''],
      Maybe ['' directly'', '' actually''],
      One ['' execute'', '' perform'', '' apply'', '' make'']]"

definition negatedExecutionPrefix :: "string \<Rightarrow> bool" where
  "negatedExecutionPrefix s \<longleftrightarrow> rx_match negatedPrefixZh rx_end s \<or> rx_match negatedPrefixEn rx_blank_end s"

definition negatedExecutionScope :: "string \<Rightarrow> bool" where
  "negatedExecutionScope s \<longleftrightarrow> rx_match negatedScopeZh (\<lambda>r. True) s \<or> rx_match negatedScopeEn (\<lambda>r. True) s"

definition clauseStart :: "string \<Rightarrow> nat" where
  "clauseStart value =
     fold (\<lambda>sep start. let i = last_str_index sep value
                        in if i \<ge> 0 \<and> i + int (length sep) > int start then nat i + length sep else start) clauseSeparators 0"

definition currentExecutionClause :: "string \<Rightarrow> string" where
  "currentExecutionClause value = drop (clauseStart value) value"

definition keywordIsNegated :: "string \<Rightarrow> bool" where
  "keywordIsNegated pre \<longleftrightarrow> negatedExecutionPrefix pre \<or> negatedExecutionScope (currentExecutionClause pre)"

text \<open>One occurrence after the other of a keyword, which is never empty: is there one that is not negated by the text
  before it, from the end of the last occurrence on?\<close>

function scanKeyword :: "string \<Rightarrow> string \<Rightarrow> bool" where
  "scanKeyword keyword remaining =
     (let i = str_index keyword remaining
      in if keyword = [] \<or> i < 0 then False
         else if \<not> keywordIsNegated (take (nat i) remaining) then True
         else scanKeyword keyword (drop (nat i + length keyword) remaining))"
  by pat_completeness auto

termination
proof (relation "measure (\<lambda>(k, s). length s)")
  fix keyword remaining :: string and x
  assume "x = str_index keyword remaining" "\<not> (keyword = [] \<or> x < 0)"
  then have "remaining \<noteq> []" "keyword \<noteq> []" by (auto split: if_splits)
  then show "((keyword, drop (nat x + length keyword) remaining), keyword, remaining) \<in> measure (\<lambda>(k, s). length s)"
    by (cases remaining; cases keyword) auto
qed simp

declare scanKeyword.simps [simp del]

definition hasAnyUnnegatedKeyword :: "string \<Rightarrow> string list \<Rightarrow> bool" where
  "hasAnyUnnegatedKeyword action keywords \<longleftrightarrow> list_ex (\<lambda>k. scanKeyword k action) keywords"

definition hasAnyKeyword :: "string \<Rightarrow> string list \<Rightarrow> bool" where
  "hasAnyKeyword action keywords \<longleftrightarrow> list_ex (\<lambda>k. contains k action) keywords"

definition requiresApproval :: "string \<Rightarrow> bool" where
  "requiresApproval action \<longleftrightarrow>
     hasAnyUnnegatedKeyword action highRiskApprovalKeywords \<and>
     (let hasExecution = hasAnyUnnegatedKeyword action explicitExecutionKeywords
      in \<not> (hasAnyKeyword action analysisOnlyKeywords \<and> \<not> hasExecution) \<and> hasExecution)"

definition buildExecutionPlan :: "string \<Rightarrow> string list" where
  "buildExecutionPlan action =
     (let p = trim_space action; preview = (if length p > 160 then take 160 p @ ''...'' else p)
      in [''Review the requested operation scope and affected resources.'',
          ''Validate safety constraints and available rollback options.'',
          ''After approval, execute the original request: '' @ preview])"

record approval_decision =
  ad_Approved :: bool
  ad_Queued :: bool
  ad_Reason :: string
  ad_Request :: "approval_request option"

definition Check ::
  "(string \<Rightarrow> string) \<Rightarrow> approval_config \<Rightarrow> approval_context \<Rightarrow> string \<Rightarrow> gotime \<Rightarrow> redis_errors \<Rightarrow> string \<Rightarrow> approval_db \<Rightarrow>
     approval_decision \<times> approval_db" where
  "Check tolower c ctx uuid now io action db =
     (let yes = \<lparr>ad_Approved = True, ad_Queued = False, ad_Reason = [], ad_Request = None\<rparr>;
          reason = ''high-risk action queued for human approval''
      in if ax_bypass ctx then (yes, db)
         else if \<not> requiresApproval (tolower (trim_space action)) then (yes, db)
         else (case Enqueue c ctx uuid now io action reason (buildExecutionPlan action) db of
                 (Inl err, db1) \<Rightarrow>
                   (\<lparr>ad_Approved = False, ad_Queued = False,
                     ad_Reason = ''high-risk action detected but approval queue is unavailable'', ad_Request = None\<rparr>, db1)
               | (Inr r, db1) \<Rightarrow> (\<lparr>ad_Approved = False, ad_Queued = True, ad_Reason = reason, ad_Request = Some r\<rparr>, db1)))"

subsection \<open>Running and reviewing\<close>

text \<open>What a run meets: the lower-casing, the configuration, the switch and the engine of the AIOps, and what the run of a query by
  the engine answers: an error or the identifier of its trace.\<close>

record aiops_world =
  aw_lower :: "string \<Rightarrow> string"
  aw_config :: approval_config
  aw_enabled :: bool
  aw_available :: bool
  aw_degraded :: bool
  aw_run :: "string \<Rightarrow> string + string"

text \<open>How a request ends: it is refused by a switch, held back by the gate with its decision, or its query was run with an answer.\<close>

datatype run_outcome = Refused | Held approval_decision | Ran string "string + string"

text \<open>The entry of RunAIOpsMultiAgent: what is run, if anything, is the query.\<close>

definition RunAIOpsMultiAgent ::
  "aiops_world \<Rightarrow> approval_context \<Rightarrow> string \<Rightarrow> gotime \<Rightarrow> redis_errors \<Rightarrow> string \<Rightarrow> approval_db \<Rightarrow> run_outcome \<times> approval_db" where
  "RunAIOpsMultiAgent w ctx uuid now io query db =
     (if \<not> aw_enabled w then (Refused, db)
      else if \<not> aw_available w then (Refused, db)
      else (case Check (aw_lower w) (aw_config w) ctx uuid now io query db of
              (d, db1) \<Rightarrow>
                (if \<not> ad_Approved d then (Held d, db1)
                 else if aw_degraded w then (Refused, db1)
                 else (Ran query (aw_run w query), db1))))"

text \<open>The asynchronous entry has a gate of its own. How a call ends: refused by a switch, held back by the gate, without a
  runtime, or running: the engine was given the query in the background. \<open>runtime\<close> is the error of getOrCreateAIOpsRuntime, if any.\<close>

datatype async_outcome = AsyncRefused | AsyncHeld approval_decision | AsyncUnavailable string | AsyncRunning string

definition RunAIOpsAsync ::
  "aiops_world \<Rightarrow> approval_context \<Rightarrow> string \<Rightarrow> gotime \<Rightarrow> redis_errors \<Rightarrow> string option \<Rightarrow> string \<Rightarrow> approval_db \<Rightarrow>
     async_outcome \<times> approval_db" where
  "RunAIOpsAsync w ctx uuid now io runtime query db =
     (if \<not> aw_enabled w then (AsyncRefused, db)
      else if \<not> aw_available w then (AsyncRefused, db)
      else (case Check (aw_lower w) (aw_config w) ctx uuid now io query db of
              (d, db1) \<Rightarrow>
                (if \<not> ad_Approved d then (AsyncHeld d, db1)
                 else if aw_degraded w then (AsyncRefused, db1)
                 else (case runtime of
                         Some err \<Rightarrow> (AsyncUnavailable (''aiops runtime unavailable: '' @ err), db1)
                       | None \<Rightarrow> (AsyncRunning query, db1)))))"

definition reviewerIdentity :: "approval_context \<Rightarrow> string" where
  "reviewerIdentity ctx = (case ax_user ctx of Some u \<Rightarrow> if u \<noteq> [] then u else ''system'' | None \<Rightarrow> ''system'')"

definition parseApprovalStatus :: "(string \<Rightarrow> string) \<Rightarrow> string \<Rightarrow> string" where
  "parseApprovalStatus tolower status =
     (let s = tolower (trim_space status)
      in if s = ApprovalStatusApproved then ApprovalStatusApproved
         else if s = ApprovalStatusRejected then ApprovalStatusRejected
         else if s = ApprovalStatusExecuted then ApprovalStatusExecuted else ApprovalStatusPending)"

definition ListApprovalRequests ::
  "(string \<Rightarrow> string) \<Rightarrow> approval_config \<Rightarrow> gotime \<Rightarrow> redis_errors \<Rightarrow> string \<Rightarrow> approval_db \<Rightarrow> string + approval_request list" where
  "ListApprovalRequests tolower c now io status db = ListRequests c now io (parseApprovalStatus tolower status) db"

definition RejectQueuedAIOpsRequest ::
  "approval_config \<Rightarrow> approval_context \<Rightarrow> gotime \<Rightarrow> redis_errors \<Rightarrow> string \<Rightarrow> string \<Rightarrow> approval_db \<Rightarrow>
     (string + approval_request) \<times> approval_db" where
  "RejectQueuedAIOpsRequest c ctx now io rid reviewReason db = Reject c now io rid (reviewerIdentity ctx) reviewReason db"

text \<open>The review's outcome: the error of the queue, or the outcome of the run with the status it reports, none if the
  run failed. The three operations on the queue meet the errors \<open>io1\<close>, \<open>io2\<close> and \<open>io3\<close>.\<close>

datatype review_outcome = ReviewFailed string | Reviewed run_outcome string

definition runContext :: "approval_context \<Rightarrow> approval_request \<Rightarrow> approval_context" where
  "runContext ctx r =
     \<lparr>ax_session = (if ap_SessionID r \<noteq> [] then Some (ap_SessionID r) else ax_session ctx),
      ax_user = (if ap_UserID r \<noteq> [] then Some (ap_UserID r) else ax_user ctx), ax_bypass = True\<rparr>"

definition ApproveQueuedAIOpsRequest ::
  "aiops_world \<Rightarrow> approval_context \<Rightarrow> string \<Rightarrow> gotime \<Rightarrow> redis_errors \<Rightarrow> redis_errors \<Rightarrow> redis_errors \<Rightarrow> string \<Rightarrow> approval_db \<Rightarrow>
     review_outcome \<times> approval_db" where
  "ApproveQueuedAIOpsRequest w ctx uuid now io1 io2 io3 rid db =
     (case Approve (aw_config w) now io1 rid (reviewerIdentity ctx) db of
        (Inl err, db1) \<Rightarrow> (ReviewFailed err, db1)
      | (Inr r, db1) \<Rightarrow>
          (case RunAIOpsMultiAgent w (runContext ctx r) uuid now io2 (ap_Query r) db1 of
             (Ran q (Inl err), db2) \<Rightarrow> (Reviewed (Ran q (Inl err)) [], db2)
           | (Ran q (Inr traceID), db2) \<Rightarrow>
               (if traceID \<noteq> []
                then (case MarkExecuted (aw_config w) now io3 rid traceID db2 of
                        (None, db3) \<Rightarrow> (Reviewed (Ran q (Inr traceID)) ApprovalStatusExecuted, db3)
                      | (Some _, db3) \<Rightarrow> (Reviewed (Ran q (Inr traceID)) ApprovalStatusApproved, db3))
                else (Reviewed (Ran q (Inr traceID)) ApprovalStatusApproved, db2))
           | (outcome, db2) \<Rightarrow> (Reviewed outcome ApprovalStatusApproved, db2)))"

end
