(* ===== verification/Ops_Approval_Properties.thy ===== *)
theory Ops_Approval_Properties
  imports Ops_Approval
begin

text \<open>
  Approvals: what the engine runs was harmless or approved, what a review does with a rejected request, and what the
  gate takes for a negation.
\<close>

subsection \<open>What a run and a review leave behind\<close>

datatype approval_event = HeldBack string | Approval string string | Dispatched string

type_synonym approval_run = "approval_db \<times> approval_event list"

fun outcome_events :: "string \<Rightarrow> run_outcome \<Rightarrow> approval_event list" where
  "outcome_events query (Ran q answer) = [Dispatched q]"
| "outcome_events query (Held d) = [HeldBack query]"
| "outcome_events query Refused = []"

fun async_events :: "string \<Rightarrow> async_outcome \<Rightarrow> approval_event list" where
  "async_events query (AsyncRunning q) = [Dispatched q]"
| "async_events query (AsyncHeld d) = [HeldBack query]"
| "async_events query (AsyncUnavailable err) = []"
| "async_events query AsyncRefused = []"

text \<open>One call of the service: a query of a user, run at once or in the background, a review that approves a request or fails, or one that rejects it. The
  newest event stands first: a query held back, an approval of a reviewer and its query, a query that is run.\<close>

inductive approval_step :: "(string \<Rightarrow> string) \<Rightarrow> approval_run \<Rightarrow> approval_run \<Rightarrow> bool" for lower where
  submitted: "approval_step lower (db, events) (db', outcome_events query outcome @ events)"
    if "aw_lower w = lower" "\<not> ax_bypass ctx" "RunAIOpsMultiAgent w ctx uuid now io query db = (outcome, db')"
| submitted_async: "approval_step lower (db, events) (db', async_events query outcome @ events)"
    if "aw_lower w = lower" "\<not> ax_bypass ctx" "RunAIOpsAsync w ctx uuid now io runtime query db = (outcome, db')"
| reviewed: "approval_step lower (db, events) (db', outcome_events (ap_Query r) outcome @ Approval (reviewerIdentity ctx) (ap_Query r) # events)"
    if "aw_lower w = lower" "fst (Approve (aw_config w) now io1 rid (reviewerIdentity ctx) db) = Inr r"
      "ApproveQueuedAIOpsRequest w ctx uuid now io1 io2 io3 rid db = (Reviewed outcome status, db')"
| review_failed: "approval_step lower (db, events) (db', events)"
    if "aw_lower w = lower" "ApproveQueuedAIOpsRequest w ctx uuid now io1 io2 io3 rid db = (ReviewFailed err, db')"
| turned_down: "approval_step lower (db, events) (db', events)"
    if "RejectQueuedAIOpsRequest c ctx now io rid why db = (res, db')"

definition noRequests :: approval_db where
  "noRequests = \<lparr>rs_values = [], rs_sets = []\<rparr>"

subsection \<open>Only held-back queries are stored\<close>

definition held_back :: "(string \<Rightarrow> string) \<Rightarrow> approval_event list \<Rightarrow> string \<Rightarrow> bool" where
  "held_back lower events q \<longleftrightarrow>
     (\<exists>q'. HeldBack q' \<in> set events \<and> trim_space q' = q \<and> requiresApproval (lower (trim_space q')))"

lemma held_back_Cons: "held_back lower events q \<Longrightarrow> held_back lower (e # events) q"
  by (auto simp: held_back_def)

definition stored_queries :: "approval_db \<Rightarrow> string set" where
  "stored_queries db = {ap_Query v |key v e. gm_get (rs_values db) key = Some (v, e)}"

lemma stored_none [simp]: "stored_queries noRequests = {}"
  by (auto simp: stored_queries_def noRequests_def)

lemma stored_sets [simp]: "stored_queries (rsRem k m db) = stored_queries db" "stored_queries (rsAdd k m db) = stored_queries db"
  by (simp_all add: stored_queries_def rsRem_def rsAdd_def)

lemma stored_set: "rsSetEx key seconds v now db = Inr db' \<Longrightarrow> stored_queries db' \<subseteq> insert (ap_Query v) (stored_queries db)"
  by (fastforce simp: stored_queries_def rsSetEx_def gm_get_put split: if_splits)

lemma stored_save: "stored_queries (snd (saveRequest c now io n r previous db)) \<subseteq> insert (ap_Query r) (stored_queries db)"
  by (auto simp: saveRequest_def Let_def dest: stored_set [THEN subsetD] split: option.splits sum.splits)

lemma got_stored: "GetRequest c now io n rid db = Inr r \<Longrightarrow> ap_Query r \<in> stored_queries db"
  by (fastforce simp: GetRequest_def rsGet_def stored_queries_def split: option.splits if_splits)

lemma enqueue_stored:
  assumes "Enqueue c ctx uuid now io query reason plan db = (res, db')" "q \<in> stored_queries db'"
  shows "q = trim_space query \<or> q \<in> stored_queries db"
proof -
  have [simp]: "ap_Query (newApprovalRequest ctx uuid now query reason plan) = trim_space query"
    by (simp add: newApprovalRequest_def)
  show ?thesis
    using assms stored_save [of c now io 0 "newApprovalRequest ctx uuid now query reason plan" ApprovalStatusPending db]
    by (auto simp: Enqueue_def Let_def split: prod.splits option.splits if_splits)
qed

text \<open>A review that keeps the query stores nothing new.\<close>

lemma review_result:
  assumes "reviewRequest c now io rid f previous db = (res, db')" "\<And>r. ap_Query (f r) = ap_Query r"
  shows "stored_queries db' \<subseteq> stored_queries db" "res = Inr r \<Longrightarrow> ap_Query r \<in> stored_queries db"
proof -
  show "stored_queries db' \<subseteq> stored_queries db"
  proof (cases "GetRequest c now io 0 rid db")
    case (Inr r)
    from got_stored [OF this] have "ap_Query r \<in> stored_queries db" .
    with stored_save [of c now io 1 "f r" previous db] have "stored_queries (snd (saveRequest c now io 1 (f r) previous db)) \<subseteq> stored_queries db"
      by (simp add: assms(2) insert_absorb)
    with assms(1) Inr show ?thesis by (auto simp: reviewRequest_def split: prod.splits option.splits)
  qed (use assms(1) in \<open>simp add: reviewRequest_def\<close>)
  show "res = Inr r \<Longrightarrow> ap_Query r \<in> stored_queries db"
    using assms by (auto simp: reviewRequest_def dest: got_stored split: sum.splits prod.splits option.splits)
qed

lemma review_keeps_query [simp]: "ap_Query (approved now rv r) = ap_Query r" "ap_Query (rejected now rv why r) = ap_Query r"
  "ap_Query (executed now tr r) = ap_Query r"
  by (simp_all add: approved_def rejected_def executed_def)

lemma mark_stored:
  assumes "MarkExecuted c now io rid tr db = (res, db')"
  shows "stored_queries db' \<subseteq> stored_queries db"
  using assms review_result(1) [of c now io rid "executed now tr" ApprovalStatusApproved db]
  by (auto simp: MarkExecuted_def split: prod.splits sum.splits)

subsection \<open>The gate\<close>

lemma run_gated:
  assumes "RunAIOpsMultiAgent w ctx uuid now io query db = (outcome, db')" "\<not> ax_bypass ctx"
  shows "stored_queries db' \<subseteq> stored_queries db \<or>
      (\<exists>d. outcome = Held d) \<and> stored_queries db' \<subseteq> insert (trim_space query) (stored_queries db)"
    and "outcome = Held d \<Longrightarrow> requiresApproval (aw_lower w (trim_space query))"
    and "outcome = Ran q answer \<Longrightarrow> q = query \<and> \<not> requiresApproval (aw_lower w (trim_space query))"
proof -
  show "outcome = Held d \<Longrightarrow> requiresApproval (aw_lower w (trim_space query))"
    "outcome = Ran q answer \<Longrightarrow> q = query \<and> \<not> requiresApproval (aw_lower w (trim_space query))"
    using assms by (auto simp: RunAIOpsMultiAgent_def Check_def Let_def split: prod.splits sum.splits if_splits)
  show "stored_queries db' \<subseteq> stored_queries db \<or>
      (\<exists>d. outcome = Held d) \<and> stored_queries db' \<subseteq> insert (trim_space query) (stored_queries db)"
    using assms
    by (auto simp: RunAIOpsMultiAgent_def Check_def Let_def dest: enqueue_stored split: prod.splits sum.splits if_splits)
qed

lemma async_gated:
  assumes "RunAIOpsAsync w ctx uuid now io runtime query db = (outcome, db')" "\<not> ax_bypass ctx"
  shows "stored_queries db' \<subseteq> stored_queries db \<or>
      (\<exists>d. outcome = AsyncHeld d) \<and> stored_queries db' \<subseteq> insert (trim_space query) (stored_queries db)"
    and "outcome = AsyncHeld d \<Longrightarrow> requiresApproval (aw_lower w (trim_space query))"
    and "outcome = AsyncRunning q \<Longrightarrow> q = query \<and> \<not> requiresApproval (aw_lower w (trim_space query))"
proof -
  show "outcome = AsyncHeld d \<Longrightarrow> requiresApproval (aw_lower w (trim_space query))"
    "outcome = AsyncRunning q \<Longrightarrow> q = query \<and> \<not> requiresApproval (aw_lower w (trim_space query))"
    using assms by (auto simp: RunAIOpsAsync_def Check_def Let_def split: prod.splits sum.splits if_splits option.splits)
  show "stored_queries db' \<subseteq> stored_queries db \<or>
      (\<exists>d. outcome = AsyncHeld d) \<and> stored_queries db' \<subseteq> insert (trim_space query) (stored_queries db)"
    using assms
    by (auto simp: RunAIOpsAsync_def Check_def Let_def dest: enqueue_stored split: prod.splits sum.splits if_splits option.splits)
qed

lemma run_bypassed:
  assumes "RunAIOpsMultiAgent w ctx uuid now io query db = (outcome, db')" "ax_bypass ctx"
  shows "db' = db" "outcome = Refused \<or> outcome = Ran query (aw_run w query)"
  using assms by (auto simp: RunAIOpsMultiAgent_def Check_def Let_def split: if_splits)

lemma approve_stored:
  assumes "Approve c now io rid reviewer db = (res, db')"
  shows "stored_queries db' \<subseteq> stored_queries db" "res = Inr r \<Longrightarrow> ap_Query r \<in> stored_queries db"
  using review_result [OF assms [unfolded Approve_def]] by auto

lemma run_context_bypass [simp]: "ax_bypass (runContext ctx r)"
  by (simp add: runContext_def)

text \<open>A review stores no new query and runs nothing but the query of the request it approved.\<close>

lemma review_stored:
  assumes "ApproveQueuedAIOpsRequest w ctx uuid now io1 io2 io3 rid db = (res, db')"
  shows "stored_queries db' \<subseteq> stored_queries db"
proof -
  obtain a db1 where a: "Approve (aw_config w) now io1 rid (reviewerIdentity ctx) db = (a, db1)" by fastforce
  from approve_stored(1) [OF a] have db1: "stored_queries db1 \<subseteq> stored_queries db" .
  show ?thesis
  proof (cases a)
    case (Inr r)
    obtain outcome db2 where o: "RunAIOpsMultiAgent w (runContext ctx r) uuid now io2 (ap_Query r) db1 = (outcome, db2)" by fastforce
    from run_bypassed [OF o] have "db2 = db1" "outcome = Refused \<or> outcome = Ran (ap_Query r) (aw_run w (ap_Query r))" by simp_all
    with a Inr o assms have "db' = db1 \<or> (\<exists>tr res. MarkExecuted (aw_config w) now io3 rid tr db1 = (res, db'))"
      by (auto simp: ApproveQueuedAIOpsRequest_def split: prod.splits sum.splits if_splits option.splits)
    with db1 mark_stored show ?thesis by blast
  qed (use a assms db1 in \<open>simp add: ApproveQueuedAIOpsRequest_def\<close>)
qed

lemma review_runs:
  assumes "ApproveQueuedAIOpsRequest w ctx uuid now io1 io2 io3 rid db = (Reviewed outcome status, db')"
    "fst (Approve (aw_config w) now io1 rid (reviewerIdentity ctx) db) = Inr r"
  shows "ap_Query r \<in> stored_queries db" "outcome_events (ap_Query r) outcome \<in> {[], [Dispatched (ap_Query r)]}"
proof -
  from assms(2) obtain db1 where a: "Approve (aw_config w) now io1 rid (reviewerIdentity ctx) db = (Inr r, db1)"
    by (metis prod.collapse)
  from approve_stored(2) [OF a] show "ap_Query r \<in> stored_queries db" by simp
  obtain o2 db2 where o: "RunAIOpsMultiAgent w (runContext ctx r) uuid now io2 (ap_Query r) db1 = (o2, db2)" by fastforce
  from run_bypassed(2) [OF o] have "o2 = Refused \<or> o2 = Ran (ap_Query r) (aw_run w (ap_Query r))" by simp
  with a o assms(1) show "outcome_events (ap_Query r) outcome \<in> {[], [Dispatched (ap_Query r)]}"
    by (auto simp: ApproveQueuedAIOpsRequest_def split: sum.splits if_splits option.splits prod.splits)
qed

subsection \<open>What was run was harmless or approved\<close>

fun runs_justified :: "(string \<Rightarrow> string) \<Rightarrow> approval_event list \<Rightarrow> bool" where
  "runs_justified lower [] \<longleftrightarrow> True"
| "runs_justified lower (Dispatched q # older) \<longleftrightarrow>
     (requiresApproval (lower (trim_space q)) \<longrightarrow> held_back lower older q \<and> (\<exists>reviewer. Approval reviewer q \<in> set older)) \<and>
     runs_justified lower older"
| "runs_justified lower (e # older) \<longleftrightarrow> runs_justified lower older"

definition approval_inv :: "(string \<Rightarrow> string) \<Rightarrow> approval_run \<Rightarrow> bool" where
  "approval_inv lower s \<longleftrightarrow> (\<forall>q\<in>stored_queries (fst s). held_back lower (snd s) q) \<and> runs_justified lower (snd s)"

lemma approval_step_inv:
  assumes "approval_step lower s s'" "approval_inv lower s"
  shows "approval_inv lower s'"
  using assms
proof (induction rule: approval_step.induct)
  case (submitted w ctx uuid now io query db outcome db' events)
  note run = run_gated [OF submitted(3,2), unfolded submitted(1)]
  show ?case
  proof (cases outcome)
    case (Held d)
    from run(2) [OF Held] run(1) submitted(4) Held show ?thesis
      by (auto simp: approval_inv_def held_back_def)
  next
    case (Ran q answer)
    from run(3) [OF Ran] run(1) submitted(4) Ran show ?thesis
      by (auto simp: approval_inv_def intro!: held_back_Cons dest: subsetD)
  qed (use run(1) submitted(4) in \<open>auto simp: approval_inv_def\<close>)
next
  case (submitted_async w ctx uuid now io runtime query db outcome db' events)
  note run = async_gated [OF submitted_async(3,2), unfolded submitted_async(1)]
  show ?case
  proof (cases outcome)
    case (AsyncHeld d)
    from run(2) [OF AsyncHeld] run(1) submitted_async(4) AsyncHeld show ?thesis
      by (auto simp: approval_inv_def held_back_def)
  next
    case (AsyncRunning q)
    from run(3) [OF AsyncRunning] run(1) submitted_async(4) AsyncRunning show ?thesis
      by (auto simp: approval_inv_def intro!: held_back_Cons dest: subsetD)
  qed (use run(1) submitted_async(4) in \<open>auto simp: approval_inv_def\<close>)
next
  case (reviewed w now io1 rid ctx db r uuid io2 io3 outcome status db' events)
  from review_runs [OF reviewed(3,2)] review_stored [OF reviewed(3)] reviewed(4) show ?case
    by (auto simp: approval_inv_def intro!: held_back_Cons)
next
  case (review_failed w ctx uuid now io1 io2 io3 rid db err db' events)
  with review_stored [OF review_failed(2)] show ?case by (auto simp: approval_inv_def)
next
  case (turned_down c ctx now io rid why db res db' events)
  with review_result(1) [OF turned_down(1) [unfolded RejectQueuedAIOpsRequest_def Reject_def]] show ?case
    by (auto simp: approval_inv_def)
qed

lemma runs_justified_at:
  "runs_justified lower (newer @ Dispatched q # older) \<Longrightarrow> requiresApproval (lower (trim_space q)) \<Longrightarrow>
    held_back lower older q \<and> (\<exists>reviewer. Approval reviewer q \<in> set older)"
proof (induction newer)
  case (Cons e newer)
  then show ?case by (cases e) auto
qed simp

text \<open>C10: risky operations are approved. Over any sequence of calls of the service (queries run at once or in the
  background, and reviews), whatever Redis answers: a query given to the engine either needs no approval, or the gate held
  back a submission of this query before and a reviewer approved it before it ran.\<close>

theorem risky_runs_approved:
  assumes "(approval_step lower)\<^sup>*\<^sup>* (noRequests, []) (db, newer @ Dispatched q # older)"
    and "requiresApproval (lower (trim_space q))"
  shows "(\<exists>reviewer. Approval reviewer q \<in> set older) \<and> (\<exists>q'. HeldBack q' \<in> set older \<and> trim_space q' = q)"
proof -
  have "approval_inv lower (db, newer @ Dispatched q # older)"
    using assms(1)
  proof (induction rule: rtranclp_induct)
    case base
    show ?case by (simp add: approval_inv_def)
  qed (rule approval_step_inv)
  then have "runs_justified lower (newer @ Dispatched q # older)" by (simp add: approval_inv_def)
  from runs_justified_at [OF this assms(2)] show ?thesis by (auto simp: held_back_def)
qed

subsection \<open>Statuses\<close>

definition noErrors :: redis_errors where
  "noErrors n = None"

lemma statusKey_eq [simp]: "statusKey c s = statusKey c t \<longleftrightarrow> s = t"
  by (simp add: statusKey_def)

lemma members_add [simp]: "rsMembers key (rsAdd k m db) = (if key = k then List.insert m (rsMembers k db) else rsMembers key db)"
  by (simp add: rsMembers_def rsAdd_def gm_get_put)

lemma members_rem [simp]: "rsMembers key (rsRem k m db) = (if key = k then removeAll m (rsMembers k db) else rsMembers key db)"
  by (simp add: rsMembers_def rsRem_def gm_get_put)

lemma members_setex: "rsSetEx key seconds v now db = Inr db' \<Longrightarrow> rsMembers k db' = rsMembers k db"
  by (auto simp: rsSetEx_def rsMembers_def split: if_splits)

lemma get_sets [simp]: "rsGet key now (rsAdd k m db) = rsGet key now db" "rsGet key now (rsRem k m db) = rsGet key now db"
  by (simp_all add: rsGet_def rsAdd_def rsRem_def)

lemma get_setex:
  "rsSetEx key seconds v now db = Inr db' \<Longrightarrow> now' < now + seconds * second \<Longrightarrow> rsGet key now' db' = Some v"
  by (auto simp: rsGet_def rsSetEx_def gm_get_put split: if_splits)

text \<open>A request that is stored is found until its time is over; it is in the set of its status; and the sets of other
  statuses than the one it leaves keep it.\<close>

lemma save_done:
  assumes "saveRequest c now io n r previous db = (None, db')"
  obtains db1 db2 where "rsSetEx (requestKey c (ap_ID r)) (wholeSeconds (approvalRequestTTL c)) r now db = Inr db1"
    "db2 = db1 \<or> db2 = rsRem (statusKey c previous) (ap_ID r) db1" "db' = rsAdd (statusKey c (ap_Status r)) (ap_ID r) db2"
proof (cases "rsSetEx (requestKey c (ap_ID r)) (wholeSeconds (approvalRequestTTL c)) r now db")
  case (Inr db1)
  with assms that show thesis by (auto simp: saveRequest_def Let_def split: option.splits if_splits)
qed (use assms in \<open>simp add: saveRequest_def split: option.splits\<close>)

lemma saved:
  assumes "saveRequest c now io n r previous db = (None, db')"
  shows "now' < now + wholeSeconds (approvalRequestTTL c) * second \<Longrightarrow> rsGet (requestKey c (ap_ID r)) now' db' = Some r"
    and "ap_ID r \<in> set (rsMembers (statusKey c (ap_Status r)) db')" and "0 < wholeSeconds (approvalRequestTTL c)"
proof -
  from save_done [OF assms] obtain db1 db2 where
    set: "rsSetEx (requestKey c (ap_ID r)) (wholeSeconds (approvalRequestTTL c)) r now db = Inr db1" and
    db: "db2 = db1 \<or> db2 = rsRem (statusKey c previous) (ap_ID r) db1" "db' = rsAdd (statusKey c (ap_Status r)) (ap_ID r) db2" .
  from db show "now' < now + wholeSeconds (approvalRequestTTL c) * second \<Longrightarrow> rsGet (requestKey c (ap_ID r)) now' db' = Some r"
    using get_setex [OF set] by (elim disjE) simp_all
  from db show "ap_ID r \<in> set (rsMembers (statusKey c (ap_Status r)) db')" by auto
  from set show "0 < wholeSeconds (approvalRequestTTL c)" by (simp add: rsSetEx_def split: if_splits)
qed

lemma saved_elsewhere:
  assumes "s \<noteq> previous" "m \<in> set (rsMembers (statusKey c s) db)"
  shows "m \<in> set (rsMembers (statusKey c s) (snd (saveRequest c now io n r previous db)))"
proof (cases "rsSetEx (requestKey c (ap_ID r)) (wholeSeconds (approvalRequestTTL c)) r now db")
  case (Inr db1)
  from members_setex [OF this] assms(2) have "m \<in> set (rsMembers (statusKey c s) db1)" by simp
  with Inr assms show ?thesis by (auto simp: saveRequest_def Let_def split: option.split)
qed (use assms in \<open>simp add: saveRequest_def split: option.split\<close>)

lemma review_elsewhere:
  assumes "reviewRequest c now io rid f previous db = (res, db')" "s \<noteq> previous" "m \<in> set (rsMembers (statusKey c s) db)"
  shows "m \<in> set (rsMembers (statusKey c s) db')"
proof (cases "GetRequest c now io 0 rid db")
  case (Inr r)
  with assms(1) saved_elsewhere [OF assms(2,3), of now io 1 "f r"] show ?thesis
    by (auto simp: reviewRequest_def split: prod.splits option.splits)
qed (use assms in \<open>simp add: reviewRequest_def\<close>)

lemma save_ok:
  assumes "0 < wholeSeconds (approvalRequestTTL c)"
  shows "\<exists>db'. saveRequest c now noErrors n r previous db = (None, db')"
  using assms by (simp add: saveRequest_def rsSetEx_def noErrors_def Let_def)

lemma review_ok:
  assumes "rsGet (requestKey c rid) now db = Some r" "0 < wholeSeconds (approvalRequestTTL c)"
  shows "\<exists>db'. reviewRequest c now noErrors rid f previous db = (Inr (f r), db')"
proof -
  from save_ok [OF assms(2)] obtain db' where "saveRequest c now noErrors 1 (f r) previous db = (None, db')" by blast
  with assms(1) show ?thesis by (simp add: reviewRequest_def GetRequest_def noErrors_def [of 0])
qed

lemma review_saved:
  assumes "reviewRequest c now io rid f previous db = (Inr r, db')"
  shows "now' < now + wholeSeconds (approvalRequestTTL c) * second \<Longrightarrow> rsGet (requestKey c (ap_ID r)) now' db' = Some r"
    and "ap_ID r \<in> set (rsMembers (statusKey c (ap_Status r)) db')" and "\<exists>r0. r = f r0"
    and "0 < wholeSeconds (approvalRequestTTL c)"
proof -
  obtain r0 where "saveRequest c now io 1 (f r0) previous db = (None, db')" "r = f r0"
    using assms by (auto simp: reviewRequest_def split: sum.splits prod.splits option.splits)
  with saved [OF this(1)] show "now' < now + wholeSeconds (approvalRequestTTL c) * second \<Longrightarrow> rsGet (requestKey c (ap_ID r)) now' db' = Some r"
    "ap_ID r \<in> set (rsMembers (statusKey c (ap_Status r)) db')" "\<exists>r0. r = f r0" "0 < wholeSeconds (approvalRequestTTL c)"
    by blast+
qed

text \<open>The requests of a review are moved between the sets of other statuses only.\<close>

lemma mark_elsewhere:
  assumes "MarkExecuted c now io rid tr db = (res, db')" "s \<noteq> ApprovalStatusApproved" "m \<in> set (rsMembers (statusKey c s) db)"
  shows "m \<in> set (rsMembers (statusKey c s) db')"
  using assms review_elsewhere [of c now io rid "executed now tr" ApprovalStatusApproved db]
  by (auto simp: MarkExecuted_def split: prod.splits sum.splits)

text \<open>C11: the status of a request is not looked at. A request that was rejected is run all the same when it is approved
  before its time is over, and then its identifier is still listed among the rejected ones.\<close>

theorem rejected_request_runs:
  assumes "Reject (aw_config w) now io rid reviewer why db = (Inr r, db1)"
    and "trim_space (ap_ID r) = trim_space rid"
    and "now' < now + wholeSeconds (approvalRequestTTL (aw_config w)) * second"
    and "aw_enabled w" "aw_available w" "\<not> aw_degraded w"
  shows "ap_Status r = ApprovalStatusRejected \<and>
    (\<exists>status db2. ApproveQueuedAIOpsRequest w ctx uuid now' noErrors io2 io3 rid db1 =
         (Reviewed (Ran (ap_Query r) (aw_run w (ap_Query r))) status, db2) \<and>
       ap_ID r \<in> set (rsMembers (statusKey (aw_config w) ApprovalStatusRejected) db2))"
proof -
  let ?c = "aw_config w"
  note rej = review_saved [OF assms(1) [unfolded Reject_def]]
  from rej(3) have st: "ap_Status r = ApprovalStatusRejected" by (auto simp: rejected_def)
  from rej(1) [OF assms(3)] assms(2) have "rsGet (requestKey ?c rid) now' db1 = Some r" by (simp add: requestKey_def)
  from review_ok [OF this rej(4)] obtain db2 where
    a: "Approve ?c now' noErrors rid (reviewerIdentity ctx) db1 = (Inr (approved now' (reviewerIdentity ctx) r), db2)"
    unfolding Approve_def by blast
  let ?r = "approved now' (reviewerIdentity ctx) r"
  from rej(2) review_elsewhere [OF a [unfolded Approve_def]] st
  have m: "ap_ID r \<in> set (rsMembers (statusKey ?c ApprovalStatusRejected) db2)" by simp
  have run: "RunAIOpsMultiAgent w (runContext ctx ?r) uuid now' io2 (ap_Query r) db2 = (Ran (ap_Query r) (aw_run w (ap_Query r)), db2)"
    using assms(4-6) by (simp add: RunAIOpsMultiAgent_def Check_def)
  have "\<exists>status db3. ApproveQueuedAIOpsRequest w ctx uuid now' noErrors io2 io3 rid db1 =
      (Reviewed (Ran (ap_Query r) (aw_run w (ap_Query r))) status, db3) \<and>
      (db3 = db2 \<or> (\<exists>tr res. MarkExecuted ?c now' io3 rid tr db2 = (res, db3)))"
    using a run by (auto simp: ApproveQueuedAIOpsRequest_def split: sum.splits prod.splits option.splits)
  with m st mark_elsewhere show ?thesis by fastforce
qed

lemma whole_seconds: "0 \<le> n \<Longrightarrow> n < 2 ^ 53 \<Longrightarrow> wholeSeconds (n * second) = n"
  using rnd_of_int [of n]
  by (simp add: wholeSeconds_def sdiv_nonneg smod_nonneg second_def f64_of_int_def fadd_def fdiv_def f64_to_int_def)

subsection \<open>A held request is listed\<close>

lemma enqueue_ok:
  assumes "approvalQueueEnabled c" "0 < wholeSeconds (approvalRequestTTL c)"
  shows "\<exists>db'. Enqueue c ctx uuid now noErrors query reason plan db = (Inr (newApprovalRequest ctx uuid now query reason plan), db')"
proof -
  from save_ok [OF assms(2)] obtain db' where
    "saveRequest c now noErrors 0 (newApprovalRequest ctx uuid now query reason plan) ApprovalStatusPending db = (None, db')" by blast
  with assms(1) show ?thesis by (simp add: Enqueue_def Let_def)
qed

lemma enqueued:
  assumes "Enqueue c ctx uuid now io query reason plan db = (Inr r, db')"
  shows "now' < now + wholeSeconds (approvalRequestTTL c) * second \<Longrightarrow> rsGet (requestKey c (ap_ID r)) now' db' = Some r"
    and "ap_ID r \<in> set (rsMembers (statusKey c ApprovalStatusPending) db')" and "ap_Query r = trim_space query"
    and "ap_ID r = uuid" and "approvalQueueEnabled c"
proof -
  from assms have r: "r = newApprovalRequest ctx uuid now query reason plan"
    and save: "saveRequest c now io 0 r ApprovalStatusPending db = (None, db')" and en: "approvalQueueEnabled c"
    by (auto simp: Enqueue_def Let_def split: if_splits prod.splits option.splits)
  from r have f: "ap_Status r = ApprovalStatusPending" "ap_Query r = trim_space query" "ap_ID r = uuid"
    by (simp_all add: newApprovalRequest_def)
  from saved [OF save] f en show "now' < now + wholeSeconds (approvalRequestTTL c) * second \<Longrightarrow> rsGet (requestKey c (ap_ID r)) now' db' = Some r"
    "ap_ID r \<in> set (rsMembers (statusKey c ApprovalStatusPending) db')" "ap_Query r = trim_space query" "ap_ID r = uuid" "approvalQueueEnabled c"
    by simp_all
qed

text \<open>A request that is found under the identifier of a member is listed.\<close>

lemma listed:
  assumes "approvalQueueEnabled c" "rid \<in> set (rsMembers (statusKey c status) db)" "rsGet (requestKey c rid) now db = Some r" "status \<noteq> []"
  shows "\<exists>rs. ListRequests c now noErrors status db = Inr rs \<and> r \<in> set rs"
proof -
  from assms(2) obtain i where i: "i < length (rsMembers (statusKey c status) db)" "rsMembers (statusKey c status) db ! i = rid"
    by (auto simp: in_set_conv_nth)
  then have "(i, rid) \<in> set (enumerate 0 (rsMembers (statusKey c status) db))" by (simp add: in_set_enumerate_eq)
  let ?got = "\<lambda>(i, rid). case GetRequest c now noErrors (Suc i) rid db of Inr r \<Rightarrow> [r] | Inl _ \<Rightarrow> []"
  have "GetRequest c now noErrors (Suc i) rid db = Inr r" using assms(3) by (simp add: GetRequest_def noErrors_def)
  then have "r \<in> set (?got (i, rid))" by simp
  with \<open>(i, rid) \<in> _\<close> have "r \<in> set (concat (map ?got (enumerate 0 (rsMembers (statusKey c status) db))))"
    unfolding set_concat set_map by blast
  moreover have "ListRequests c now noErrors status db = Inr (concat (map ?got (enumerate 0 (rsMembers (statusKey c status) db))))"
    using assms(1,4) by (simp add: ListRequests_def noErrors_def [of 0])
  ultimately show ?thesis by blast
qed

text \<open>what the gate holds back reaches the reviewers. When the gate answers that an action is queued, its request is
  for this action, and until its time is over it is among the pending requests that are listed.\<close>

theorem held_request_listed:
  assumes "Check tolower c ctx uuid now io action db = (d, db')" "ad_Queued d"
    and "now' < now + wholeSeconds (approvalRequestTTL c) * second"
  shows "\<exists>r rs. ad_Request d = Some r \<and> ap_Query r = trim_space action \<and>
      ListRequests c now' noErrors ApprovalStatusPending db' = Inr rs \<and> r \<in> set rs"
proof -
  obtain r reason plan where e: "Enqueue c ctx uuid now io action reason plan db = (Inr r, db')" "ad_Request d = Some r"
    using assms(1,2) by (auto simp: Check_def Let_def split: if_splits prod.splits sum.splits)
  note en = enqueued [OF e(1)]
  from listed [OF en(5,2) en(1) [OF assms(3)]] e(2) en(3) show ?thesis by auto
qed

subsection \<open>What counts as a negation\<close>

lemma scan_absent: "str_index k s < 0 \<Longrightarrow> \<not> scanKeyword k s"
  by (simp add: scanKeyword.simps)

lemma scan_once:
  assumes "str_index k (h @ k @ post) = int (length h)" "k \<noteq> []" "keywordIsNegated h" "str_index k post < 0"
  shows "\<not> scanKeyword k (h @ k @ post)"
  using assms scan_absent [OF assms(4)] by (subst scanKeyword.simps) simp

lemma rx_match_here: "r \<in> set (rx_rests pieces t) \<Longrightarrow> ok r \<Longrightarrow> rx_match pieces ok (pre @ t)"
  by (auto simp: rx_match_def list_ex_iff suffix_def)

lemma no_negates: "keywordIsNegated (pre @ ''no '')"
proof -
  have "'' '' \<in> set (rx_rests negatedPrefixEn ''no '')" by (simp add: negatedPrefixEn_def)
  from rx_match_here [OF this] show ?thesis
    by (simp add: keywordIsNegated_def negatedExecutionPrefix_def rx_blank_end_def)
qed

text \<open>C12: a negation is seen inside words. If the only risky word of an action is a single ``delete'' and the word
  before it ends with ``no'', as in ``on domino delete all logs'', the gate takes it for negated and lets the action
  through without an approval.\<close>

theorem word_ending_in_no_passes:
  fixes pre post :: string
  defines "action \<equiv> pre @ ''no '' @ ''delete'' @ post"
  assumes "tolower (trim_space action) = action"
    and "str_index ''delete'' action = int (length (pre @ ''no ''))" "str_index ''delete'' post < 0"
    and "\<forall>k\<in>set highRiskApprovalKeywords. k \<noteq> ''delete'' \<longrightarrow> str_index k action < 0"
  shows "ad_Approved (fst (Check tolower c ctx uuid now io action db)) \<and> snd (Check tolower c ctx uuid now io action db) = db"
proof -
  from scan_once [of "''delete''" "pre @ ''no ''" post] assms(3,4) no_negates
  have "\<not> scanKeyword ''delete'' action" by (simp add: action_def)
  then have "\<not> scanKeyword k action" if "k \<in> set highRiskApprovalKeywords" for k
    using assms(5) that scan_absent by (cases "k = ''delete''") blast+
  then have "\<not> requiresApproval action"
    by (auto simp: requiresApproval_def hasAnyUnnegatedKeyword_def list_ex_iff)
  with assms(2) show ?thesis by (simp add: Check_def Let_def)
qed

subsection \<open>Examples\<close>

definition demo_approvals :: approval_config where
  "demo_approvals = \<lparr>ag_enabled = None, ag_address = Some ''redis'', ag_ttlSeconds = Some 60, ag_prefix = None,
     ag_resolveEnv = (\<lambda>s. s), ag_isEnvReference = (\<lambda>s. False)\<rparr>"

definition demo_ops :: aiops_world where
  "demo_ops = \<lparr>aw_lower = (\<lambda>s. s), aw_config = demo_approvals, aw_enabled = True, aw_available = True, aw_degraded = False,
     aw_run = (\<lambda>q. Inr ''t'')\<rparr>"

definition demo_user :: approval_context where
  "demo_user = \<lparr>ax_session = None, ax_user = Some ''u'', ax_bypass = False\<rparr>"

lemma trim_redis [simp]: "trim_space ''redis'' = ''redis''"
  by code_simp

lemma demo_config [simp]: "aw_config demo_ops = demo_approvals" "aw_run demo_ops q = Inr ''t''"
  by (simp_all add: demo_ops_def)

lemma demo_enabled: "approvalQueueEnabled demo_approvals"
  by (simp add: approvalQueueEnabled_def demo_approvals_def ResolveOptionalEnv_def)

lemma demo_ttl: "wholeSeconds (approvalRequestTTL demo_approvals) = 60"
  using whole_seconds [of 60] by (simp add: approvalRequestTTL_def demo_approvals_def wrap64_def second_def)

lemma trim_delete [simp]: "trim_space ''delete all'' = ''delete all''"
  by code_simp

lemma not_negated_start: "\<not> keywordIsNegated []"
  by (simp add: keywordIsNegated_def negatedExecutionPrefix_def negatedExecutionScope_def currentExecutionClause_def rx_match_def
    negatedPrefixZh_def negatedPrefixEn_def negatedScopeZh_def negatedScopeEn_def)

lemma delete_risky: "requiresApproval ''delete all''"
  by (simp add: requiresApproval_def hasAnyUnnegatedKeyword_def highRiskApprovalKeywords_def explicitExecutionKeywords_def
    scanKeyword.simps [of "''delete''"] not_negated_start)

text \<open>A user's command is held back.\<close>

lemma demo_check:
  obtains db r where "Check (\<lambda>s. s) demo_approvals demo_user uuid now noErrors ''delete all'' noRequests =
      (\<lparr>ad_Approved = False, ad_Queued = True, ad_Reason = ''high-risk action queued for human approval'', ad_Request = Some r\<rparr>, db)"
    "rsGet (requestKey demo_approvals uuid) now db = Some r" "ap_Query r = ''delete all''" "ap_ID r = uuid"
proof -
  let ?reason = "''high-risk action queued for human approval''" and ?plan = "buildExecutionPlan ''delete all''"
  obtain r db where e: "Enqueue demo_approvals demo_user uuid now noErrors ''delete all'' ?reason ?plan noRequests = (Inr r, db)"
    using enqueue_ok [OF demo_enabled, unfolded demo_ttl] by fastforce
  note en = enqueued [OF e]
  have "Check (\<lambda>s. s) demo_approvals demo_user uuid now noErrors ''delete all'' noRequests =
      (\<lparr>ad_Approved = False, ad_Queued = True, ad_Reason = ?reason, ad_Request = Some r\<rparr>, db)"
    by (simp add: Check_def demo_user_def [THEN arg_cong [of _ _ ax_bypass]] delete_risky e)
  with en(1) [of now] en(3,4) show thesis by (intro that) (simp_all add: demo_ttl second_def)
qed

text \<open>It is held back, approved and run.\<close>

theorem risky_runs_approved_witness:
  "\<exists>db older. (approval_step (\<lambda>s. s))\<^sup>*\<^sup>* (noRequests, []) (db, [] @ Dispatched ''delete all'' # older) \<and>
     (\<exists>reviewer. Approval reviewer ''delete all'' \<in> set older) \<and> (\<exists>q'. HeldBack q' \<in> set older \<and> trim_space q' = ''delete all'')"
proof -
  obtain d db1 r where c: "Check (\<lambda>s. s) demo_approvals demo_user ''1'' 0 noErrors ''delete all'' noRequests = (d, db1)" "\<not> ad_Approved d"
    and got: "rsGet (requestKey demo_approvals ''1'') 0 db1 = Some r" and q: "ap_Query r = ''delete all''"
    by (rule demo_check [of "''1''" 0]) auto
  have "RunAIOpsMultiAgent demo_ops demo_user ''1'' 0 noErrors ''delete all'' noRequests = (Held d, db1)"
    using c by (simp add: RunAIOpsMultiAgent_def demo_ops_def)
  from approval_step.submitted [OF _ _ this, of "\<lambda>s. s" "[]"]
  have one: "approval_step (\<lambda>s. s) (noRequests, []) (db1, [HeldBack ''delete all''])" by (simp add: demo_ops_def demo_user_def)
  let ?r = "approved 0 (reviewerIdentity demo_user) r"
  from review_ok [OF got, of "approved 0 (reviewerIdentity demo_user)" ApprovalStatusPending] obtain db2 where
    a: "Approve demo_approvals 0 noErrors ''1'' (reviewerIdentity demo_user) db1 = (Inr ?r, db2)"
    unfolding Approve_def demo_ttl by auto
  have "RunAIOpsMultiAgent demo_ops (runContext demo_user ?r) ''1'' 0 noErrors (ap_Query ?r) db2 = (Ran ''delete all'' (Inr ''t''), db2)"
    by (simp add: RunAIOpsMultiAgent_def Check_def demo_ops_def q)
  moreover obtain m db3' where "MarkExecuted demo_approvals 0 noErrors ''1'' ''t'' db2 = (m, db3')" by (rule prod.exhaust)
  ultimately obtain status db3 where
    "ApproveQueuedAIOpsRequest demo_ops demo_user ''1'' 0 noErrors noErrors noErrors ''1'' db1 = (Reviewed (Ran ''delete all'' (Inr ''t'')) status, db3)"
    using a by (cases m) (auto simp: ApproveQueuedAIOpsRequest_def)
  from approval_step.reviewed [OF _ _ this, of "\<lambda>s. s" ?r "[HeldBack ''delete all'']"] a
  have "approval_step (\<lambda>s. s) (db1, [HeldBack ''delete all''])
      (db3, [] @ Dispatched ''delete all'' # [Approval (reviewerIdentity demo_user) ''delete all'', HeldBack ''delete all''])"
    by (simp add: demo_ops_def q)
  with one have steps: "(approval_step (\<lambda>s. s))\<^sup>*\<^sup>* (noRequests, [])
      (db3, [] @ Dispatched ''delete all'' # [Approval (reviewerIdentity demo_user) ''delete all'', HeldBack ''delete all''])"
    by (meson converse_rtranclp_into_rtranclp r_into_rtranclp)
  from risky_runs_approved [OF this] delete_risky steps show ?thesis by (metis trim_delete)
qed

text \<open>It is held back, rejected, and run all the same.\<close>

theorem rejected_request_runs_witness:
  "\<exists>db0 db1 r status db2. Reject demo_approvals 0 noErrors ''1'' ''u'' ''no'' db0 = (Inr r, db1) \<and> ap_Query r = ''delete all'' \<and>
     ApproveQueuedAIOpsRequest demo_ops demo_user ''1'' 0 noErrors noErrors noErrors ''1'' db1 = (Reviewed (Ran ''delete all'' (Inr ''t'')) status, db2)"
proof -
  obtain db0 :: approval_db and r0 where got: "rsGet (requestKey demo_approvals ''1'') 0 db0 = Some r0" and q: "ap_Query r0 = ''delete all''" and i: "ap_ID r0 = ''1''"
    by (rule demo_check [of "''1''" 0]) blast
  let ?r = "rejected 0 ''u'' ''no'' r0"
  from review_ok [OF got, of "rejected 0 ''u'' ''no''" ApprovalStatusPending] obtain db1 where
    rj: "Reject demo_approvals 0 noErrors ''1'' ''u'' ''no'' db0 = (Inr ?r, db1)"
    unfolding Reject_def demo_ttl by auto
  have "ap_ID ?r = ''1''" "aw_enabled demo_ops" "aw_available demo_ops" "\<not> aw_degraded demo_ops"
    by (simp_all add: rejected_def i demo_ops_def)
  with rejected_request_runs [of demo_ops 0 noErrors "''1''" "''u''" "''no''" db0 ?r db1 0 demo_user "''1''" noErrors noErrors] rj q
  obtain status db2 where
    "ApproveQueuedAIOpsRequest demo_ops demo_user ''1'' 0 noErrors noErrors noErrors ''1'' db1 = (Reviewed (Ran ''delete all'' (Inr ''t'')) status, db2)"
    by (auto simp: demo_ttl second_def)
  with rj q show ?thesis by (intro exI conjI) (assumption | simp)+
qed

theorem held_request_listed_witness:
  "\<exists>d db' r rs. Check (\<lambda>s. s) demo_approvals demo_user ''1'' 0 noErrors ''delete all'' noRequests = (d, db') \<and> ad_Request d = Some r \<and>
     ap_Query r = ''delete all'' \<and> ListRequests demo_approvals 5 noErrors ApprovalStatusPending db' = Inr rs \<and> r \<in> set rs"
proof -
  obtain d db' where c: "Check (\<lambda>s. s) demo_approvals demo_user ''1'' 0 noErrors ''delete all'' noRequests = (d, db')" "ad_Queued d"
    by (rule demo_check [of "''1''" 0]) auto
  from held_request_listed [OF this, of 5] c show ?thesis by (auto simp: demo_ttl second_def)
qed

theorem word_ending_in_no_passes_witness:
  "ad_Approved (fst (Check (\<lambda>s. s) demo_approvals demo_user ''1'' 0 noErrors ''on domino delete all logs'' noRequests))"
proof -
  have t: "trim_space ''on domino delete all logs'' = ''on domino delete all logs''" by code_simp
  show ?thesis
    using word_ending_in_no_passes [of "\<lambda>s. s" "''on domi''" "'' all logs''" demo_approvals demo_user "''1''" 0 noErrors noRequests] t
    by (simp add: highRiskApprovalKeywords_def)
qed

end
