(* ===== verification/App_Route.thy ===== *)
theory App_Route
  imports Rag_Query Go_Time
begin

text \<open>
  The data of the agent router (internal/app): what a route is, the configuration of the router and how it is loaded
  (agent\_router.go), the data of the intent funnel (agent\_router\_funnel.go), and the experiment around it
  (route\_experiment.go). Modes, decisions, strategies, intents and risks are strings as in the source. A map is the list
  of its entries in the order in which it is iterated; a nil map or slice is the empty one. SHA-256 and HMAC are
  parameters.
\<close>

subsection \<open>Routes\<close>

abbreviation AgentRouteModeAuto :: string where "AgentRouteModeAuto \<equiv> ''auto''"
abbreviation AgentRouteModeReact :: string where "AgentRouteModeReact \<equiv> ''react''"
abbreviation AgentRouteModeDiagnosis :: string where "AgentRouteModeDiagnosis \<equiv> ''diagnosis''"
abbreviation AgentDiagnosisStrategyAuto :: string where "AgentDiagnosisStrategyAuto \<equiv> ''auto''"
abbreviation AgentDiagnosisStrategyPlan :: string where "AgentDiagnosisStrategyPlan \<equiv> ''plan_execute_replan''"
abbreviation AgentDiagnosisStrategyGoS :: string where "AgentDiagnosisStrategyGoS \<equiv> ''gos_engine''"
abbreviation AgentRouteDecisionChat :: string where "AgentRouteDecisionChat \<equiv> ''chat''"
abbreviation AgentRouteDecisionIncident :: string where "AgentRouteDecisionIncident \<equiv> ''incident''"
abbreviation AgentRouteDecisionConfirm :: string where "AgentRouteDecisionConfirm \<equiv> ''confirm''"
abbreviation AgentRouteIntentKnowledgeQA :: string where "AgentRouteIntentKnowledgeQA \<equiv> ''knowledge_qa''"
abbreviation AgentRouteIntentIncidentDiagnosis :: string where "AgentRouteIntentIncidentDiagnosis \<equiv> ''incident_diagnosis''"
abbreviation AgentRouteIntentIncidentFollowup :: string where "AgentRouteIntentIncidentFollowup \<equiv> ''incident_followup''"
abbreviation AgentRouteIntentResourceQuery :: string where "AgentRouteIntentResourceQuery \<equiv> ''resource_query''"
abbreviation AgentRouteIntentActionRequest :: string where "AgentRouteIntentActionRequest \<equiv> ''action_request''"
abbreviation AgentRouteIntentOutOfScope :: string where "AgentRouteIntentOutOfScope \<equiv> ''out_of_scope''"
abbreviation AgentRouteRiskLow :: string where "AgentRouteRiskLow \<equiv> ''low''"
abbreviation AgentRouteRiskMedium :: string where "AgentRouteRiskMedium \<equiv> ''medium''"
abbreviation AgentRouteRiskHigh :: string where "AgentRouteRiskHigh \<equiv> ''high''"

record route_candidate =
  rc_Intent :: string
  rc_Confidence :: f64
  rc_ReasonCodes :: "string list"

text \<open>The zero time is \<open>None\<close>.\<close>

record routing_snapshot =
  sn_ActiveRoute :: string
  sn_ActiveIncidentID :: string
  sn_LastConfirmedIntent :: string
  sn_ConfirmedEntities :: "(string, string) gomap"
  sn_PendingSlots :: "string list"
  sn_StateVersion :: string
  sn_UpdatedAt :: "gotime option"

record route_clarification =
  cl_ID :: string
  cl_Question :: string
  cl_MissingSlots :: "string list"
  cl_Candidates :: "string list"
  cl_StateVersion :: string
  cl_Round :: int
  cl_ExpiresAt :: gotime

record clarification_answer =
  ca_ID :: string
  ca_Slot :: string
  ca_Value :: string
  ca_StateVersion :: string
  ca_Round :: int

record layer_trace =
  lt_Layer :: string
  lt_Outcome :: string
  lt_ReasonCodes :: "string list"
  lt_LatencyMS :: int

record route_trace =
  rt_PolicyVersion :: string
  rt_QueryHash :: string
  rt_ContextFingerprint :: string
  rt_ContextUsed :: bool
  rt_ContextReason :: string
  rt_DependencyStatus :: string
  rt_Layers :: "layer_trace list"
  rt_TotalLatencyMS :: int

record route_input =
  ri_Query :: string
  ri_RouteMode :: string
  ri_DiagnosisStrategy :: string
  ri_RoutingContext :: "routing_snapshot option"
  ri_Clarification :: "clarification_answer option"
  ri_AssignmentKey :: string

record route_result =
  rr_Decision :: string
  rr_Strategy :: string
  rr_Confidence :: f64
  rr_Reason :: string
  rr_Source :: string
  rr_Degraded :: bool
  rr_Candidates :: "route_candidate list"
  rr_Entities :: "(string, string) gomap"
  rr_MissingSlots :: "string list"
  rr_RiskHint :: string
  rr_Clarification :: "route_clarification option"
  rr_Trace :: "route_trace option"

record flash_output =
  fo_Intent :: string
  fo_RecommendedStrategy :: string
  fo_Confidence :: f64
  fo_Reason :: string
  fo_Candidates :: "route_candidate list"
  fo_Entities :: "(string, string) gomap"
  fo_RequiredSlots :: "string list"
  fo_RiskHint :: string

text \<open>A result of which only the decision, the confidence, the reason and the source are set.\<close>

definition plainRoute :: "string \<Rightarrow> f64 \<Rightarrow> string \<Rightarrow> string \<Rightarrow> route_result" where
  "plainRoute decision confidence reason source =
     \<lparr>rr_Decision = decision, rr_Strategy = [], rr_Confidence = confidence, rr_Reason = reason, rr_Source = source,
      rr_Degraded = False, rr_Candidates = [], rr_Entities = [], rr_MissingSlots = [], rr_RiskHint = [],
      rr_Clarification = None, rr_Trace = None\<rparr>"

definition confirmRoute :: "string \<Rightarrow> route_result" where
  "confirmRoute reason = (plainRoute AgentRouteDecisionConfirm 0 reason ''fallback'')\<lparr>rr_Degraded := True\<rparr>"

datatype route_error = QueryRequired | UnsupportedMode string | StrategyUnavailable string

definition normalizeAgentRouteMode :: "string \<Rightarrow> route_error + string" where
  "normalizeAgentRouteMode mode =
     (if mode = [] then Inr AgentRouteModeAuto
      else if mode \<in> set [AgentRouteModeAuto, AgentRouteModeReact, AgentRouteModeDiagnosis] then Inr mode
      else Inl (UnsupportedMode mode))"

definition normalizeAgentDiagnosisStrategy :: "string \<Rightarrow> route_error + string" where
  "normalizeAgentDiagnosisStrategy strategy0 =
     (if strategy0 = [] then Inr AgentDiagnosisStrategyAuto
      else (let strategy = (if strategy0 = ''gos'' then AgentDiagnosisStrategyGoS else strategy0)
            in if strategy \<in> set [AgentDiagnosisStrategyAuto, AgentDiagnosisStrategyPlan, AgentDiagnosisStrategyGoS]
               then Inr strategy else Inl (StrategyUnavailable strategy)))"

definition normalizedKeywords :: "(string \<Rightarrow> string) \<Rightarrow> string list \<Rightarrow> string list" where
  "normalizedKeywords tolower values = filter (\<lambda>v. v \<noteq> []) (map (\<lambda>v. trim_space (tolower v)) values)"

subsection \<open>The experiment\<close>

abbreviation RouteExperimentA :: string where "RouteExperimentA \<equiv> ''A''"
abbreviation RouteExperimentB :: string where "RouteExperimentB \<equiv> ''B''"

record experiment_config =
  xc_Enabled :: bool
  xc_ExperimentID :: string
  xc_Version :: string
  xc_Salt :: string
  xc_RolloutStage :: string
  xc_RolloutPercent :: int
  xc_ShadowEnabled :: bool
  xc_ShadowTimeout :: duration
  xc_ShadowMaxConcurrency :: int
  xc_ShadowTokenBudget :: int
  xc_HighRiskExcluded :: bool
  xc_OODExcluded :: bool
  xc_MaxErrorRate :: f64
  xc_MaxTimeoutRate :: f64
  xc_MaxP95Latency :: duration
  xc_MaxHighRiskFalseRoute :: int

definition Normalize :: "experiment_config \<Rightarrow> experiment_config" where
  "Normalize c =
     c\<lparr>xc_ExperimentID := (if xc_ExperimentID c = [] then ''agent-router-funnel'' else xc_ExperimentID c),
       xc_Version := (if xc_Version c = [] then ''v1'' else xc_Version c),
       xc_RolloutPercent := (if xc_RolloutPercent c < 0 then 0 else if xc_RolloutPercent c > 100 then 100 else xc_RolloutPercent c),
       xc_ShadowMaxConcurrency := (if xc_ShadowMaxConcurrency c \<le> 0 then 1 else xc_ShadowMaxConcurrency c),
       xc_ShadowTimeout := (if xc_ShadowTimeout c \<le> 0 then 300000000 else xc_ShadowTimeout c),
       xc_MaxP95Latency := (if xc_MaxP95Latency c \<le> 0 then second else xc_MaxP95Latency c),
       xc_MaxErrorRate := (if xc_MaxErrorRate c < 0 then rnd (5 / 100) else xc_MaxErrorRate c),
       xc_MaxTimeoutRate := (if xc_MaxTimeoutRate c < 0 then rnd (2 / 100) else xc_MaxTimeoutRate c)\<rparr>"

record experiment_assignment =
  xa_ExperimentID :: string
  xa_Version :: string
  xa_AssignmentHash :: string
  xa_Variant :: string
  xa_ServedVariant :: string
  xa_Shadow :: bool
  xa_Excluded :: bool
  xa_ExclusionReason :: string

text \<open>The two leading bytes of a digest, as an unsigned number of 16 bits, modulo 100.\<close>

definition digestBucket :: "string \<Rightarrow> int" where
  "digestBucket digest = int ((byte (digest ! 0) * 256 + byte (digest ! 1)) mod 100)"

definition stableBucket :: "(string \<Rightarrow> string \<Rightarrow> string) \<Rightarrow> string \<Rightarrow> string \<Rightarrow> int" where
  "stableBucket hmac salt assignmentKey = digestBucket (hmac salt assignmentKey)"

definition AssignRouteExperiment ::
  "(string \<Rightarrow> string \<Rightarrow> string) \<Rightarrow> (string \<Rightarrow> string) \<Rightarrow> experiment_config \<Rightarrow> string \<Rightarrow> string \<Rightarrow> bool \<Rightarrow> experiment_assignment" where
  "AssignRouteExperiment hmac hashKey cfg0 assignmentKey risk ood =
     (let cfg = Normalize cfg0;
          a = \<lparr>xa_ExperimentID = xc_ExperimentID cfg, xa_Version = xc_Version cfg, xa_AssignmentHash = hashKey (trim_space assignmentKey),
               xa_Variant = RouteExperimentA, xa_ServedVariant = RouteExperimentA, xa_Shadow = False, xa_Excluded = False,
               xa_ExclusionReason = []\<rparr>
      in if \<not> xc_Enabled cfg \<or> xc_RolloutStage cfg = ''off'' \<or> trim_space assignmentKey = []
         then a\<lparr>xa_Excluded := True, xa_ExclusionReason := ''experiment_disabled_or_missing_key''\<rparr>
         else if (xc_HighRiskExcluded cfg \<and> risk = AgentRouteRiskHigh) \<or> (xc_OODExcluded cfg \<and> ood)
         then a\<lparr>xa_Excluded := True, xa_ExclusionReason := ''risk_or_ood_excluded''\<rparr>
         else if xc_RolloutStage cfg = ''shadow'' \<or> xc_ShadowEnabled cfg
         then a\<lparr>xa_Shadow := True, xa_Variant := RouteExperimentB\<rparr>
         else if stableBucket hmac (xc_Salt cfg) assignmentKey < xc_RolloutPercent cfg
         then a\<lparr>xa_Variant := RouteExperimentB, xa_ServedVariant := RouteExperimentB\<rparr>
         else a)"

text \<open>The shadow run; \<open>answer\<close> is what the classification, if any, returns before the time is over, \<open>None\<close> if it does
  not.\<close>

record shadow_result =
  sh_Assignment :: experiment_assignment
  sh_BResult :: "route_result option"
  sh_TimedOut :: bool
  sh_Error :: string

definition RunRouteShadow ::
  "experiment_assignment \<Rightarrow> (route_result option \<times> string) option option \<Rightarrow> string \<Rightarrow> shadow_result" where
  "RunRouteShadow assignment classify deadlineErr =
     (let r = \<lparr>sh_Assignment = assignment, sh_BResult = None, sh_TimedOut = False, sh_Error = []\<rparr>
      in if \<not> xa_Shadow assignment then r
         else (case classify of
                 None \<Rightarrow> r
               | Some (Some (value, err)) \<Rightarrow> r\<lparr>sh_BResult := value, sh_Error := err\<rparr>
               | Some None \<Rightarrow> r\<lparr>sh_TimedOut := True, sh_Error := deadlineErr\<rparr>))"

record guardrail_observation =
  go_ErrorRate :: f64
  go_TimeoutRate :: f64
  go_P95Latency :: duration
  go_HighRiskFalseRoutes :: int

record guardrail =
  gr_config :: experiment_config
  gr_stopped :: bool
  gr_reason :: string

definition NewRouteGuardrail :: "experiment_config \<Rightarrow> guardrail" where
  "NewRouteGuardrail config = \<lparr>gr_config = Normalize config, gr_stopped = False, gr_reason = []\<rparr>"

definition violation :: "experiment_config \<Rightarrow> guardrail_observation \<Rightarrow> string option" where
  "violation cfg ob =
     (if go_HighRiskFalseRoutes ob > xc_MaxHighRiskFalseRoute cfg then Some ''high_risk_false_route''
      else if go_ErrorRate ob > xc_MaxErrorRate cfg then Some ''error_rate''
      else if go_TimeoutRate ob > xc_MaxTimeoutRate cfg then Some ''timeout_rate''
      else if go_P95Latency ob > xc_MaxP95Latency cfg then Some ''p95_latency''
      else None)"

definition Observe :: "guardrail_observation \<Rightarrow> guardrail \<Rightarrow> bool \<times> guardrail" where
  "Observe ob g =
     (if gr_stopped g then (True, g)
      else (case violation (Normalize (gr_config g)) ob of
              Some reason \<Rightarrow> (True, g\<lparr>gr_stopped := True, gr_reason := reason\<rparr>)
            | None \<Rightarrow> (False, g)))"

definition Stopped :: "guardrail \<Rightarrow> bool \<times> string" where
  "Stopped g = (gr_stopped g, gr_reason g)"

definition Reset :: "guardrail \<Rightarrow> guardrail" where
  "Reset g = g\<lparr>gr_stopped := False, gr_reason := []\<rparr>"

text \<open>The deduper of feedback: the requests and kinds it has seen.\<close>

definition feedbackKey :: "string \<Rightarrow> string \<Rightarrow> string" where
  "feedbackKey requestID kind = requestID @ [CHR 0x00] @ kind"

definition Accept :: "string \<Rightarrow> string \<Rightarrow> string list \<Rightarrow> bool \<times> string list" where
  "Accept requestID kind seen =
     (if trim_space requestID = [] \<or> trim_space kind = [] then (False, seen)
      else if feedbackKey requestID kind \<in> set seen then (False, seen)
      else (True, feedbackKey requestID kind # seen))"

subsection \<open>The configuration\<close>

record router_config =
  rg_Enabled :: bool
  rg_Timeout :: duration
  rg_ConfidenceThreshold :: f64
  rg_DefaultDiagnosisStrategy :: string
  rg_AllowedDiagnosisStrategies :: "string list"
  rg_RouteCacheTTL :: duration
  rg_RouteCacheMaxEntries :: int
  rg_HighConfidenceKeywords :: "string list"
  rg_IntentFunnelEnabled :: bool
  rg_IntentFunnelTopK :: int
  rg_IntentFunnelAcceptThreshold :: f64
  rg_IntentFunnelMarginThreshold :: f64
  rg_IntentFunnelContextTTL :: duration
  rg_IntentFunnelMaxClarifications :: int
  rg_IntentFunnelContextBudget :: int
  rg_IntentFunnelPolicyVersion :: string
  rg_HighRiskActionKeywords :: "string list"
  rg_InjectionKeywords :: "string list"
  rg_Experiment :: experiment_config

text \<open>What the configuration answers for a key: an error, or a value with its readings. A key that is missing is a nil
  value, which reads as false, 0 and no text.\<close>

record config_value =
  cv_IsNil :: bool
  cv_Bool :: bool
  cv_Int :: int
  cv_Float64 :: f64
  cv_String :: string
  cv_Strings :: "string list"

type_synonym config_source = "string \<Rightarrow> config_value option"

definition nilValue :: config_value where
  "nilValue = \<lparr>cv_IsNil = True, cv_Bool = False, cv_Int = 0, cv_Float64 = 0, cv_String = [], cv_Strings = []\<rparr>"

text \<open>The value of a key, if it is accepted, or the default.\<close>

definition readValue :: "config_source \<Rightarrow> string \<Rightarrow> (config_value \<Rightarrow> bool) \<Rightarrow> (config_value \<Rightarrow> 'a) \<Rightarrow> 'a \<Rightarrow> 'a" where
  "readValue conf key ok get dflt = (case conf key of Some v \<Rightarrow> if ok v then get v else dflt | None \<Rightarrow> dflt)"

definition readSwitch :: "config_source \<Rightarrow> string \<Rightarrow> bool \<Rightarrow> bool" where
  "readSwitch conf key = readValue conf key (\<lambda>v. \<not> cv_IsNil v) cv_Bool"

definition unitRange :: "f64 \<Rightarrow> bool" where
  "unitRange x \<longleftrightarrow> x > 0 \<and> x \<le> 1"

definition diagnosisStrategy :: "string \<Rightarrow> string option" where
  "diagnosisStrategy raw =
     (case normalizeAgentDiagnosisStrategy raw of
        Inr s \<Rightarrow> if s \<noteq> AgentDiagnosisStrategyAuto then Some s else None
      | Inl _ \<Rightarrow> None)"

definition allowedStrategies :: "string list \<Rightarrow> string list" where
  "allowedStrategies raws = remdups (concat (map (\<lambda>raw. case diagnosisStrategy raw of Some s \<Rightarrow> [s] | None \<Rightarrow> []) raws))"

definition loadExperiment :: "config_source \<Rightarrow> experiment_config" where
  "loadExperiment conf =
     (let key = (\<lambda>s. ''agent_router.experimentation.'' @ s);
          text1 = (\<lambda>k. readValue conf (key k) (\<lambda>v. trim_space (cv_String v) \<noteq> []) (\<lambda>v. trim_space (cv_String v)) []);
          ms = (\<lambda>k. readValue conf (key k) (\<lambda>v. cv_Int v > 0) (\<lambda>v. wrap64 (cv_Int v * 1000000)) 0);
          pos = (\<lambda>k. readValue conf (key k) (\<lambda>v. cv_Int v > 0) cv_Int 0);
          every = (\<lambda>v. True)
      in Normalize
        \<lparr>xc_Enabled = readSwitch conf (key ''enabled'') False,
         xc_ExperimentID = text1 ''experiment_id'', xc_Version = text1 ''version'',
         xc_Salt = readValue conf (key ''salt'') every cv_String [],
         xc_RolloutStage = readValue conf (key ''rollout_stage'') every (\<lambda>v. trim_space (cv_String v)) ''off'',
         xc_RolloutPercent = readValue conf (key ''rollout_percent'') every cv_Int 0,
         xc_ShadowEnabled = readSwitch conf (key ''shadow_enabled'') False,
         xc_ShadowTimeout = ms ''shadow_timeout_ms'',
         xc_ShadowMaxConcurrency = pos ''shadow_max_concurrency'',
         xc_ShadowTokenBudget = pos ''shadow_token_budget'',
         xc_HighRiskExcluded = readSwitch conf (key ''high_risk_excluded'') False,
         xc_OODExcluded = readSwitch conf (key ''ood_excluded'') False,
         xc_MaxErrorRate = readValue conf (key ''guardrails.max_error_rate'') every cv_Float64 0,
         xc_MaxTimeoutRate = readValue conf (key ''guardrails.max_timeout_rate'') every cv_Float64 0,
         xc_MaxP95Latency = ms ''guardrails.max_p95_latency_ms'',
         xc_MaxHighRiskFalseRoute = readValue conf (key ''guardrails.max_high_risk_false_route'') every cv_Int 0\<rparr>)"

text \<open>The configuration before the default strategy is checked.\<close>

definition readRouterConfig :: "(string \<Rightarrow> string) \<Rightarrow> config_source \<Rightarrow> router_config" where
  "readRouterConfig tolower conf =
     (let key = (\<lambda>s. ''agent_router.'' @ s); fkey = (\<lambda>s. ''agent_router.intent_funnel.'' @ s);
          seconds = (\<lambda>k dflt. readValue conf k (\<lambda>v. cv_Int v \<ge> 0) (\<lambda>v. wrap64 (cv_Int v * second)) dflt);
          nonneg = (\<lambda>k dflt. readValue conf k (\<lambda>v. cv_Int v \<ge> 0) cv_Int dflt);
          pos = (\<lambda>k dflt. readValue conf k (\<lambda>v. cv_Int v > 0) cv_Int dflt)
      in \<lparr>rg_Enabled = readSwitch conf (key ''enabled'') True,
          rg_Timeout = readValue conf (key ''timeout_ms'') (\<lambda>v. cv_Int v > 0) (\<lambda>v. wrap64 (cv_Int v * 1000000)) (5 * second),
          rg_ConfidenceThreshold = readValue conf (key ''confidence_threshold'') (\<lambda>v. unitRange (cv_Float64 v)) cv_Float64 (rnd (75 / 100)),
          rg_DefaultDiagnosisStrategy =
            readValue conf (key ''default_diagnosis_strategy'') (\<lambda>v. diagnosisStrategy (cv_String v) \<noteq> None)
              (\<lambda>v. the (diagnosisStrategy (cv_String v))) AgentDiagnosisStrategyPlan,
          rg_AllowedDiagnosisStrategies =
            readValue conf (key ''allowed_diagnosis_strategies'') (\<lambda>v. allowedStrategies (cv_Strings v) \<noteq> [])
              (\<lambda>v. allowedStrategies (cv_Strings v)) [AgentDiagnosisStrategyPlan, AgentDiagnosisStrategyGoS],
          rg_RouteCacheTTL = seconds (key ''route_cache_ttl_seconds'') (5 * 60 * second),
          rg_RouteCacheMaxEntries = nonneg (key ''route_cache_max_entries'') 256,
          rg_HighConfidenceKeywords =
            readValue conf (key ''high_confidence_incident_keywords'') (\<lambda>v. True)
              (\<lambda>v. filter (\<lambda>k. k \<noteq> []) (map trim_space (cv_Strings v))) [],
          rg_IntentFunnelEnabled = readSwitch conf (fkey ''enabled'') False,
          rg_IntentFunnelTopK = pos (fkey ''top_k'') 2,
          rg_IntentFunnelAcceptThreshold = readValue conf (fkey ''accept_threshold'') (\<lambda>v. unitRange (cv_Float64 v)) cv_Float64 (rnd (75 / 100)),
          rg_IntentFunnelMarginThreshold =
            readValue conf (fkey ''margin_threshold'') (\<lambda>v. cv_Float64 v \<ge> 0 \<and> cv_Float64 v \<le> 1) cv_Float64 (rnd (15 / 100)),
          rg_IntentFunnelContextTTL = seconds (fkey ''context_ttl_seconds'') (15 * 60 * second),
          rg_IntentFunnelMaxClarifications = nonneg (fkey ''max_clarifications'') 1,
          rg_IntentFunnelContextBudget = pos (fkey ''context_budget_tokens'') 512,
          rg_IntentFunnelPolicyVersion =
            readValue conf (fkey ''policy_version'') (\<lambda>v. trim_space (cv_String v) \<noteq> []) (\<lambda>v. trim_space (cv_String v)) ''v1'',
          rg_HighRiskActionKeywords =
            readValue conf (fkey ''high_risk_action_keywords'') (\<lambda>v. True) (\<lambda>v. normalizedKeywords tolower (cv_Strings v)) [],
          rg_InjectionKeywords =
            readValue conf (fkey ''injection_keywords'') (\<lambda>v. True) (\<lambda>v. normalizedKeywords tolower (cv_Strings v)) [],
          rg_Experiment = loadExperiment conf\<rparr>)"

definition isAllowed :: "router_config \<Rightarrow> string \<Rightarrow> bool" where
  "isAllowed cfg strategy \<longleftrightarrow> strategy \<in> set (rg_AllowedDiagnosisStrategies cfg)"

text \<open>If the default strategy is not allowed, it becomes the one that the iteration of the allowed ones meets first.\<close>

definition LoadAgentRouterConfig :: "(string \<Rightarrow> string) \<Rightarrow> config_source \<Rightarrow> router_config" where
  "LoadAgentRouterConfig tolower conf =
     (let cfg = readRouterConfig tolower conf
      in if isAllowed cfg (rg_DefaultDiagnosisStrategy cfg) then cfg
         else (case rg_AllowedDiagnosisStrategies cfg of
                 s # _ \<Rightarrow> cfg\<lparr>rg_DefaultDiagnosisStrategy := s\<rparr>
               | [] \<Rightarrow> cfg))"

definition matchesHighConfidenceKeyword :: "(string \<Rightarrow> string) \<Rightarrow> router_config \<Rightarrow> string \<Rightarrow> bool" where
  "matchesHighConfidenceKeyword tolower cfg query \<longleftrightarrow>
     list_ex (\<lambda>k. contains (tolower k) (tolower (trim_space query))) (rg_HighConfidenceKeywords cfg)"

end
