(* ===== verification/App_Router.thy ===== *)
theory App_Router
  imports App_Route
begin

text \<open>
  The intent funnel (internal/app/agent\_router\_funnel.go): a guard of rules, the candidates of a classifier, and the
  choice among them with the confirmed state of the conversation. What is outside is in an environment: \<open>strings.ToLower\<close>,
  SHA-256, the JSON of a snapshot, the decoder of JSON, the answer of the classifier, and the clock, of which \<open>re_now n\<close>
  is the reading at the place of the code that is numbered n. \<open>re_pick\<close> is the choice of an iteration of a map.
\<close>

record router_env =
  re_lower :: "string \<Rightarrow> string"
  re_sha256 :: "string \<Rightarrow> string"
  re_snapshotJSON :: "routing_snapshot \<Rightarrow> string"
  re_decode :: "string \<Rightarrow> flash_output option"
  re_generate :: "string \<Rightarrow> string option"
  re_now :: "nat \<Rightarrow> gotime"
  re_pick :: "string list \<Rightarrow> nat"

subsection \<open>Texts\<close>

definition hexDigit :: "nat \<Rightarrow> char" where
  "hexDigit n = (if n < 10 then char_of (48 + n) else char_of (87 + n))"

definition hexString :: "string \<Rightarrow> string" where
  "hexString s = concat (map (\<lambda>c. [hexDigit (byte c div 16), hexDigit (byte c mod 16)]) s)"

definition routeQueryHash :: "router_env \<Rightarrow> string \<Rightarrow> string" where
  "routeQueryHash env query = hexString (re_sha256 env (trim_space query))"

definition routingContextFingerprint :: "router_env \<Rightarrow> routing_snapshot option \<Rightarrow> string" where
  "routingContextFingerprint env snapshot =
     (case snapshot of None \<Rightarrow> ''none'' | Some sn \<Rightarrow> hexString (take 8 (re_sha256 env (re_snapshotJSON env sn))))"

definition clarificationID :: "router_env \<Rightarrow> string \<Rightarrow> string \<Rightarrow> int \<Rightarrow> string" where
  "clarificationID env query stateVersion rnd1 =
     hexString (take 8 (re_sha256 env (trim_space query @ [CHR 0x00] @ stateVersion @ [CHR 0x00] @ itoa rnd1)))"

definition clarificationQuestion :: "string \<Rightarrow> string" where
  "clarificationQuestion slot =
     (if slot = ''service'' then [CHR 0xE9, CHR 0x9C, CHR 0x80, CHR 0xE8, CHR 0xA6, CHR 0x81, CHR 0xE6, CHR 0x8E, CHR 0x92, CHR 0xE6, CHR 0x9F, CHR 0xA5, CHR 0xE5, CHR 0x93, CHR 0xAA, CHR 0xE4, CHR 0xB8, CHR 0xAA, CHR 0xE6, CHR 0x9C, CHR 0x8D, CHR 0xE5, CHR 0x8A, CHR 0xA1, CHR 0xEF, CHR 0xBC, CHR 0x9F]
      else if slot = ''time_range'' then [CHR 0xE9, CHR 0x9C, CHR 0x80, CHR 0xE8, CHR 0xA6, CHR 0x81, CHR 0xE6, CHR 0x9F, CHR 0xA5, CHR 0xE7, CHR 0x9C, CHR 0x8B, CHR 0xE5, CHR 0x93, CHR 0xAA, CHR 0xE4, CHR 0xB8, CHR 0xAA, CHR 0xE6, CHR 0x97, CHR 0xB6, CHR 0xE9, CHR 0x97, CHR 0xB4, CHR 0xE8, CHR 0x8C, CHR 0x83, CHR 0xE5, CHR 0x9B, CHR 0xB4, CHR 0xEF, CHR 0xBC, CHR 0x9F]
      else if slot = ''task_id'' then ([CHR 0xE8, CHR 0xAF, CHR 0xB7, CHR 0xE6, CHR 0x8F, CHR 0x90, CHR 0xE4, CHR 0xBE, CHR 0x9B, CHR 0xE9, CHR 0x9C, CHR 0x80, CHR 0xE8, CHR 0xA6, CHR 0x81, CHR 0xE6, CHR 0x9F, CHR 0xA5, CHR 0xE8, CHR 0xAF, CHR 0xA2, CHR 0xE7, CHR 0x9A, CHR 0x84, CHR 0xE4, CHR 0xBB, CHR 0xBB, CHR 0xE5, CHR 0x8A, CHR 0xA1] @ '' ID'' @ [CHR 0xE3, CHR 0x80, CHR 0x82])
      else [CHR 0xE8, CHR 0xAF, CHR 0xB7, CHR 0xE8, CHR 0xA1, CHR 0xA5, CHR 0xE5, CHR 0x85, CHR 0x85, CHR 0xE7, CHR 0xBB, CHR 0xA7, CHR 0xE7, CHR 0xBB, CHR 0xAD, CHR 0xE5, CHR 0xA4, CHR 0x84, CHR 0xE7, CHR 0x90, CHR 0x86, CHR 0xE6, CHR 0x89, CHR 0x80, CHR 0xE9, CHR 0x9C, CHR 0x80, CHR 0xE7, CHR 0x9A, CHR 0x84, CHR 0xE5, CHR 0x85, CHR 0xB3, CHR 0xE9, CHR 0x94, CHR 0xAE, CHR 0xE4, CHR 0xBF, CHR 0xA1, CHR 0xE6, CHR 0x81, CHR 0xAF, CHR 0xE3, CHR 0x80, CHR 0x82])"

definition legacyIntentToInternal :: "string \<Rightarrow> string option" where
  "legacyIntentToInternal intent =
     (if intent = AgentRouteDecisionChat then Some AgentRouteIntentKnowledgeQA
      else if intent = AgentRouteDecisionIncident then Some AgentRouteIntentIncidentDiagnosis
      else None)"

definition validAgentRouteIntent :: "string \<Rightarrow> bool" where
  "validAgentRouteIntent intent \<longleftrightarrow>
     intent \<in> set [AgentRouteIntentKnowledgeQA, AgentRouteIntentIncidentDiagnosis, AgentRouteIntentIncidentFollowup,
       AgentRouteIntentResourceQuery, AgentRouteIntentActionRequest, AgentRouteIntentOutOfScope]"

definition entitySlots :: "string list" where
  "entitySlots = [''service'', ''task_id'', ''time_range'']"

definition normalizedEntities :: "(string \<Rightarrow> string) \<Rightarrow> (string, string) gomap \<Rightarrow> (string, string) gomap" where
  "normalizedEntities tolower entities =
     fold (\<lambda>(key, value) m.
            if trim_space (tolower key) \<in> set entitySlots \<and> trim_space value \<noteq> []
            then gm_put (trim_space (tolower key)) (trim_space value) m else m) entities []"

definition normalizedReasonCodes :: "(string \<Rightarrow> string) \<Rightarrow> string list \<Rightarrow> string list" where
  "normalizedReasonCodes tolower values = dedup_from [] (filter (\<lambda>v. v \<noteq> []) (map (\<lambda>v. trim_space (tolower v)) values))"

definition candidateReasonCodes :: "(string \<Rightarrow> string) \<Rightarrow> route_candidate list \<Rightarrow> string list" where
  "candidateReasonCodes tolower candidates = normalizedReasonCodes tolower (concat (map rc_ReasonCodes candidates))"

definition containsAny :: "string \<Rightarrow> string list \<Rightarrow> bool" where
  "containsAny query keywords \<longleftrightarrow> list_ex (\<lambda>k. k \<noteq> [] \<and> contains k query) keywords"

definition hasExplicitTopicSwitch :: "(string \<Rightarrow> string) \<Rightarrow> string \<Rightarrow> bool" where
  "hasExplicitTopicSwitch tolower query \<longleftrightarrow>
     containsAny (tolower (trim_space query))
       [[CHR 0xE6, CHR 0x8D, CHR 0xA2, CHR 0xE4, CHR 0xB8, CHR 0xAA, CHR 0xE9, CHR 0x97, CHR 0xAE, CHR 0xE9, CHR 0xA2, CHR 0x98], [CHR 0xE5, CHR 0x8F, CHR 0xA6, CHR 0xE4, CHR 0xB8, CHR 0x80, CHR 0xE4, CHR 0xB8, CHR 0xAA, CHR 0xE9, CHR 0x97, CHR 0xAE, CHR 0xE9, CHR 0xA2, CHR 0x98], [CHR 0xE5, CHR 0x8F, CHR 0xA6, CHR 0xE5, CHR 0xA4, CHR 0x96, CHR 0xE9, CHR 0x97, CHR 0xAE], ''new topic'', ''unrelated'']"

definition isEllipticalQuery :: "(string \<Rightarrow> string) \<Rightarrow> string \<Rightarrow> bool" where
  "isEllipticalQuery tolower query \<longleftrightarrow>
     length (runes (trim_space query)) \<le> 12 \<or>
     containsAny (tolower (trim_space query)) [[CHR 0xE9, CHR 0x82, CHR 0xA3, CHR 0xE5, CHR 0xAE, CHR 0x83], [CHR 0xE9, CHR 0x82, CHR 0xA3, CHR 0xE8, CHR 0xBF, CHR 0x99, CHR 0xE4, CHR 0xB8, CHR 0xAA], [CHR 0xE7, CHR 0xBB, CHR 0xA7, CHR 0xE7, CHR 0xBB, CHR 0xAD, CHR 0xE7, CHR 0x9C, CHR 0x8B], [CHR 0xE7, CHR 0x84, CHR 0xB6, CHR 0xE5, CHR 0x90, CHR 0x8E, CHR 0xE5, CHR 0x91, CHR 0xA2], ''what about'']"

definition conflictsWithConfirmedEntities :: "(string \<Rightarrow> string) \<Rightarrow> string \<Rightarrow> (string, string) gomap \<Rightarrow> bool" where
  "conflictsWithConfirmedEntities tolower query entities \<longleftrightarrow>
     (let service = tolower (trim_space (case gm_get entities ''service'' of Some v \<Rightarrow> v | None \<Rightarrow> []))
      in service \<noteq> [] \<and> \<not> contains service (tolower query) \<and>
         containsAny (tolower query) [[CHR 0xE5, CHR 0x8F, CHR 0xA6, CHR 0xE4, CHR 0xB8, CHR 0x80, CHR 0xE4, CHR 0xB8, CHR 0xAA, CHR 0xE6, CHR 0x9C, CHR 0x8D, CHR 0xE5, CHR 0x8A, CHR 0xA1], [CHR 0xE5, CHR 0x85, CHR 0xB6, CHR 0xE4, CHR 0xBB, CHR 0x96, CHR 0xE6, CHR 0x9C, CHR 0x8D, CHR 0xE5, CHR 0x8A, CHR 0xA1], [CHR 0xE6, CHR 0x8D, CHR 0xA2, CHR 0xE6, CHR 0x88, CHR 0x90], ''instead''])"

definition durationMS :: "duration \<Rightarrow> int" where
  "durationMS d = d sdiv 1000000"

definition routeLayerTrace :: "(string \<Rightarrow> string) \<Rightarrow> string \<Rightarrow> string \<Rightarrow> string list \<Rightarrow> duration \<Rightarrow> layer_trace" where
  "routeLayerTrace tolower layer outcome reasonCodes latency =
     \<lparr>lt_Layer = layer, lt_Outcome = outcome, lt_ReasonCodes = normalizedReasonCodes tolower reasonCodes, lt_LatencyMS = durationMS latency\<rparr>"

definition finishFunnelResult :: "route_result \<Rightarrow> route_trace \<Rightarrow> gotime \<Rightarrow> gotime \<Rightarrow> route_result" where
  "finishFunnelResult result trace startedAt finishedAt =
     result\<lparr>rr_Trace := Some (trace\<lparr>rt_TotalLatencyMS := durationMS (time_sub finishedAt startedAt)\<rparr>)\<rparr>"

subsection \<open>The guard\<close>

definition applyDeterministicRouteGuard :: "router_env \<Rightarrow> route_input \<Rightarrow> string \<Rightarrow> router_config \<Rightarrow> route_result option" where
  "applyDeterministicRouteGuard env input strategy cfg =
     (let query = re_lower env (trim_space (ri_Query input))
      in if containsAny query (rg_InjectionKeywords cfg)
         then Some ((confirmRoute [CHR 0xE8, CHR 0xAF, CHR 0xB7, CHR 0xE6, CHR 0xB1, CHR 0x82, CHR 0xE5, CHR 0x8C, CHR 0x85, CHR 0xE5, CHR 0x90, CHR 0xAB, CHR 0xE4, CHR 0xB8, CHR 0x8D, CHR 0xE5, CHR 0xAE, CHR 0x89, CHR 0xE5, CHR 0x85, CHR 0xA8, CHR 0xE7, CHR 0x9A, CHR 0x84, CHR 0xE6, CHR 0x8C, CHR 0x87, CHR 0xE4, CHR 0xBB, CHR 0xA4, CHR 0xE8, CHR 0xA6, CHR 0x86, CHR 0xE7, CHR 0x9B, CHR 0x96, CHR 0xE5, CHR 0x86, CHR 0x85, CHR 0xE5, CHR 0xAE, CHR 0xB9, CHR 0xEF, CHR 0xBC, CHR 0x8C, CHR 0xE6, CHR 0x97, CHR 0xA0, CHR 0xE6, CHR 0xB3, CHR 0x95, CHR 0xE8, CHR 0x87, CHR 0xAA, CHR 0xE5, CHR 0x8A, CHR 0xA8, CHR 0xE8, CHR 0xB7, CHR 0xAF, CHR 0xE7, CHR 0x94, CHR 0xB1])
                     \<lparr>rr_RiskHint := AgentRouteRiskHigh, rr_Source := ''funnel.layer1.safety''\<rparr>)
         else if containsAny query (rg_HighRiskActionKeywords cfg)
         then Some ((plainRoute AgentRouteDecisionConfirm 1 [CHR 0xE6, CHR 0xA3, CHR 0x80, CHR 0xE6, CHR 0xB5, CHR 0x8B, CHR 0xE5, CHR 0x88, CHR 0xB0, CHR 0xE5, CHR 0x8F, CHR 0xAF, CHR 0xE8, CHR 0x83, CHR 0xBD, CHR 0xE6, CHR 0x94, CHR 0xB9, CHR 0xE5, CHR 0x8F, CHR 0x98, CHR 0xE7, CHR 0xB3, CHR 0xBB, CHR 0xE7, CHR 0xBB, CHR 0x9F, CHR 0xE7, CHR 0x8A, CHR 0xB6, CHR 0xE6, CHR 0x80, CHR 0x81, CHR 0xE7, CHR 0x9A, CHR 0x84, CHR 0xE6, CHR 0x93, CHR 0x8D, CHR 0xE4, CHR 0xBD, CHR 0x9C, CHR 0xEF, CHR 0xBC, CHR 0x8C, CHR 0xE9, CHR 0x9C, CHR 0x80, CHR 0xE8, CHR 0xA6, CHR 0x81, CHR 0xE7, CHR 0xA1, CHR 0xAE, CHR 0xE8, CHR 0xAE, CHR 0xA4, CHR 0xE5, CHR 0x92, CHR 0x8C, CHR 0xE5, CHR 0xAE, CHR 0xA1, CHR 0xE6, CHR 0x89, CHR 0xB9] ''funnel.layer1.risk'')
                     \<lparr>rr_RiskHint := AgentRouteRiskHigh,
                      rr_Candidates := [\<lparr>rc_Intent = AgentRouteIntentActionRequest, rc_Confidence = 1, rc_ReasonCodes = [''high_risk_action'']\<rparr>]\<rparr>)
         else if matchesHighConfidenceKeyword (re_lower env) cfg query
         then (let selected = (if strategy = AgentDiagnosisStrategyAuto then rg_DefaultDiagnosisStrategy cfg else strategy)
               in if \<not> isAllowed cfg selected then Some (confirmRoute ([CHR 0xE9, CHR 0xBB, CHR 0x98, CHR 0xE8, CHR 0xAE, CHR 0xA4, CHR 0xE8, CHR 0xAF, CHR 0x8A, CHR 0xE6, CHR 0x96, CHR 0xAD, CHR 0xE7, CHR 0xAD, CHR 0x96, CHR 0xE7, CHR 0x95, CHR 0xA5, CHR 0xE5, CHR 0xBD, CHR 0x93, CHR 0xE5, CHR 0x89, CHR 0x8D, CHR 0xE4, CHR 0xB8, CHR 0x8D, CHR 0xE5, CHR 0x8F, CHR 0xAF, CHR 0xE7, CHR 0x94, CHR 0xA8, CHR 0xEF, CHR 0xBC, CHR 0x8C, CHR 0xE8, CHR 0xAF, CHR 0xB7, CHR 0xE9, CHR 0x80, CHR 0x89, CHR 0xE6, CHR 0x8B, CHR 0xA9] @ '' Plan '' @ [CHR 0xE6, CHR 0x88, CHR 0x96] @ '' GoS''))
                  else Some ((plainRoute AgentRouteDecisionIncident 1 [CHR 0xE5, CHR 0x91, CHR 0xBD, CHR 0xE4, CHR 0xB8, CHR 0xAD, CHR 0xE9, CHR 0xAB, CHR 0x98, CHR 0xE7, CHR 0xB2, CHR 0xBE, CHR 0xE5, CHR 0xBA, CHR 0xA6, CHR 0xE6, CHR 0x95, CHR 0x85, CHR 0xE9, CHR 0x9A, CHR 0x9C, CHR 0xE8, CHR 0xA7, CHR 0x84, CHR 0xE5, CHR 0x88, CHR 0x99, CHR 0xEF, CHR 0xBC, CHR 0x8C, CHR 0xE8, CHR 0xBF, CHR 0x9B, CHR 0xE5, CHR 0x85, CHR 0xA5, CHR 0xE8, CHR 0xAF, CHR 0x8A, CHR 0xE6, CHR 0x96, CHR 0xAD, CHR 0xE8, CHR 0xB7, CHR 0xAF, CHR 0xE5, CHR 0xBE, CHR 0x84] ''funnel.layer1.rule'')
                              \<lparr>rr_Strategy := selected, rr_RiskHint := AgentRouteRiskLow,
                               rr_Candidates := [\<lparr>rc_Intent = AgentRouteIntentIncidentDiagnosis, rc_Confidence = 1, rc_ReasonCodes = [''strong_incident_rule'']\<rparr>]\<rparr>))
         else None)"

subsection \<open>The candidates\<close>

text \<open>The text between code fences. The error of a classifier's answer is \<open>None\<close>: its text is not used.\<close>

definition unfence :: "string \<Rightarrow> string" where
  "unfence raw = (let fence = replicate 3 (CHR 0x60)
                  in trim_space (trim_suffix fence (trim_prefix fence (trim_prefix (fence @ ''json'') (trim_space raw)))))"

definition validCandidate :: "route_candidate \<Rightarrow> bool" where
  "validCandidate c \<longleftrightarrow> validAgentRouteIntent (rc_Intent c) \<and> \<not> rc_Confidence c < 0 \<and> \<not> rc_Confidence c > 1"

definition topCandidates :: "(string \<Rightarrow> string) \<Rightarrow> int \<Rightarrow> route_candidate list \<Rightarrow> route_candidate list" where
  "topCandidates tolower topK cands =
     take (nat (if topK \<le> 0 then 2 else topK))
       (sort_key (\<lambda>c. - rc_Confidence c) (map (\<lambda>c. c\<lparr>rc_ReasonCodes := normalizedReasonCodes tolower (rc_ReasonCodes c)\<rparr>) cands))"

definition givenCandidates :: "flash_output \<Rightarrow> route_candidate list option" where
  "givenCandidates out =
     (if fo_Candidates out = []
      then map_option (\<lambda>i. [\<lparr>rc_Intent = i, rc_Confidence = fo_Confidence out, rc_ReasonCodes = [''legacy_classifier_output'']\<rparr>])
             (legacyIntentToInternal (trim_space (fo_Intent out)))
      else Some (fo_Candidates out))"

definition parseFunnelRouteOutput :: "router_env \<Rightarrow> string \<Rightarrow> int \<Rightarrow> flash_output option" where
  "parseFunnelRouteOutput env raw topK =
     (case re_decode env (unfence raw) of
        None \<Rightarrow> None
      | Some out \<Rightarrow>
          (case givenCandidates out of
             None \<Rightarrow> None
           | Some cands \<Rightarrow>
               (let risk = (if fo_RiskHint out = [] then AgentRouteRiskLow else fo_RiskHint out)
                in if \<not> list_all validCandidate cands then None
                   else if risk \<notin> set [AgentRouteRiskLow, AgentRouteRiskMedium, AgentRouteRiskHigh] then None
                   else Some (out\<lparr>fo_Candidates := topCandidates (re_lower env) topK cands, fo_RiskHint := risk,
                                  fo_Entities := normalizedEntities (re_lower env) (fo_Entities out),
                                  fo_RequiredSlots := normalizedReasonCodes (re_lower env) (fo_RequiredSlots out)\<rparr>))))"

subsection \<open>The cache of candidates\<close>

record router_state =
  ra_cache :: "(string, route_result \<times> gotime) gomap"
  ra_candidates :: "(string, flash_output \<times> gotime) gomap"

definition candidateCacheKey :: "router_env \<Rightarrow> string \<Rightarrow> string \<Rightarrow> string" where
  "candidateCacheKey env query version = version @ '':'' @ hexString (re_sha256 env (re_lower env (join '' '' (str_fields query))))"

definition cloneFlashRouteOutput :: "(string \<Rightarrow> string) \<Rightarrow> flash_output \<Rightarrow> flash_output" where
  "cloneFlashRouteOutput tolower out = out\<lparr>fo_Entities := normalizedEntities tolower (fo_Entities out)\<rparr>"

definition cachingOff :: "router_config \<Rightarrow> bool" where
  "cachingOff cfg \<longleftrightarrow> rg_RouteCacheTTL cfg \<le> 0 \<or> rg_RouteCacheMaxEntries cfg \<le> 0"

definition loadCandidateCache :: "router_env \<Rightarrow> gotime \<Rightarrow> router_config \<Rightarrow> string \<Rightarrow> router_state \<Rightarrow> flash_output option \<times> router_state" where
  "loadCandidateCache env now cfg query st =
     (if cachingOff cfg then (None, st)
      else (let key = candidateCacheKey env query (rg_IntentFunnelPolicyVersion cfg)
            in case gm_get (ra_candidates st) key of
                 Some (out, expiresAt) \<Rightarrow>
                   (if expiresAt > now then (Some (cloneFlashRouteOutput (re_lower env) out), st)
                    else (None, st\<lparr>ra_candidates := gm_del key (ra_candidates st)\<rparr>))
               | None \<Rightarrow> (None, st)))"

text \<open>Room for one more entry: whichever entry the iteration of the map meets first is deleted.\<close>

definition evictOne :: "(string list \<Rightarrow> nat) \<Rightarrow> int \<Rightarrow> string \<Rightarrow> (string, 'v) gomap \<Rightarrow> (string, 'v) gomap" where
  "evictOne pick maxEntries key m =
     (if gm_get m key = None \<and> int (length m) \<ge> maxEntries \<and> m \<noteq> []
      then gm_del (map fst m ! (pick (map fst m) mod length m)) m else m)"

definition cacheCandidates :: "router_env \<Rightarrow> gotime \<Rightarrow> router_config \<Rightarrow> string \<Rightarrow> flash_output \<Rightarrow> router_state \<Rightarrow> router_state" where
  "cacheCandidates env now cfg query out st =
     (if cachingOff cfg \<or> fo_RiskHint out = AgentRouteRiskHigh then st
      else (let key = candidateCacheKey env query (rg_IntentFunnelPolicyVersion cfg)
            in st\<lparr>ra_candidates :=
                    gm_put key (cloneFlashRouteOutput (re_lower env) out, now + rg_RouteCacheTTL cfg)
                      (evictOne (re_pick env) (rg_RouteCacheMaxEntries cfg) key (ra_candidates st))\<rparr>))"

subsection \<open>The choice\<close>

definition selectCandidateWithContext ::
  "(string \<Rightarrow> string) \<Rightarrow> string \<Rightarrow> route_candidate list \<Rightarrow> routing_snapshot option \<Rightarrow> duration \<Rightarrow> gotime \<Rightarrow>
     route_candidate \<times> bool \<times> string" where
  "selectCandidateWithContext tolower query candidates snapshot ttl now =
     (let selected = hd candidates
      in case snapshot of
           None \<Rightarrow> (selected, False, [])
         | Some sn \<Rightarrow>
             (if hasExplicitTopicSwitch tolower query then (selected, False, ''topic_switch'')
              else (case sn_UpdatedAt sn of
                      None \<Rightarrow> (selected, False, ''context_version_missing'')
                    | Some updated \<Rightarrow>
                        (if sn_StateVersion sn = [] then (selected, False, ''context_version_missing'')
                         else if ttl > 0 \<and> time_sub now updated > ttl then (selected, False, ''context_expired'')
                         else if sn_PendingSlots sn \<noteq> [] \<and> isEllipticalQuery tolower query then (selected, True, ''pending_slot_answer'')
                         else if conflictsWithConfirmedEntities tolower query (sn_ConfirmedEntities sn)
                         then (selected, False, ''context_entity_conflict'')
                         else if rc_Intent selected = AgentRouteIntentIncidentFollowup \<and> sn_ActiveIncidentID sn = []
                         then (selected, False, ''active_incident_missing'')
                         else if sn_ActiveIncidentID sn \<noteq> [] \<and> isEllipticalQuery tolower query
                         then (case find (\<lambda>c. rc_Intent c = AgentRouteIntentIncidentFollowup) candidates of
                                 Some c \<Rightarrow> (c, True, [])
                               | None \<Rightarrow> (selected, False, ''context_candidate_missing''))
                         else (selected, False, [])))))"

definition newClarificationResult ::
  "router_env \<Rightarrow> route_input \<Rightarrow> flash_output \<Rightarrow> router_config \<Rightarrow> string \<Rightarrow> gotime \<Rightarrow> route_result" where
  "newClarificationResult env input out cfg reason0 now =
     (let rnd1 = (case ri_Clarification input of Some a \<Rightarrow> ca_Round a + 1 | None \<Rightarrow> 1);
          stateVersion = (case ri_RoutingContext input of Some sn \<Rightarrow> sn_StateVersion sn | None \<Rightarrow> []);
          reason = (case (ri_Clarification input, ri_RoutingContext input) of
                      (Some a, Some sn) \<Rightarrow>
                        if ca_StateVersion a \<noteq> [] \<and> ca_StateVersion a \<noteq> sn_StateVersion sn then ''clarification_state_changed'' else reason0
                    | _ \<Rightarrow> reason0);
          result = (plainRoute AgentRouteDecisionConfirm (rc_Confidence (hd (fo_Candidates out))) reason ''funnel.layer3.clarify'')
                     \<lparr>rr_Candidates := fo_Candidates out, rr_Entities := fo_Entities out, rr_MissingSlots := fo_RequiredSlots out,
                      rr_RiskHint := fo_RiskHint out\<rparr>
      in if rg_IntentFunnelMaxClarifications cfg = 0 \<or> rnd1 > rg_IntentFunnelMaxClarifications cfg
         then result\<lparr>rr_Reason := [CHR 0xE8, CHR 0x87, CHR 0xAA, CHR 0xE5, CHR 0x8A, CHR 0xA8, CHR 0xE6, CHR 0xBE, CHR 0x84, CHR 0xE6, CHR 0xB8, CHR 0x85, CHR 0xE8, CHR 0xBD, CHR 0xAE, CHR 0xE6, CHR 0xAC, CHR 0xA1, CHR 0xE5, CHR 0xB7, CHR 0xB2, CHR 0xE7, CHR 0x94, CHR 0xA8, CHR 0xE5, CHR 0xB0, CHR 0xBD, CHR 0xEF, CHR 0xBC, CHR 0x8C, CHR 0xE8, CHR 0xAF, CHR 0xB7, CHR 0xE6, CHR 0x89, CHR 0x8B, CHR 0xE5, CHR 0x8A, CHR 0xA8, CHR 0xE9, CHR 0x80, CHR 0x89, CHR 0xE6, CHR 0x8B, CHR 0xA9, CHR 0xE6, CHR 0x89, CHR 0xA7, CHR 0xE8, CHR 0xA1, CHR 0x8C, CHR 0xE6, CHR 0x96, CHR 0xB9, CHR 0xE5, CHR 0xBC, CHR 0x8F]\<rparr>
         else result\<lparr>rr_Clarification := Some
                \<lparr>cl_ID = clarificationID env (ri_Query input) stateVersion rnd1,
                 cl_Question = (case fo_RequiredSlots out of s # _ \<Rightarrow> clarificationQuestion s
                                | [] \<Rightarrow> [CHR 0xE4, CHR 0xBD, CHR 0xA0, CHR 0xE5, CHR 0xB8, CHR 0x8C, CHR 0xE6, CHR 0x9C, CHR 0x9B, CHR 0xE7, CHR 0xBB, CHR 0xA7, CHR 0xE7, CHR 0xBB, CHR 0xAD, CHR 0xE7, CHR 0x9F, CHR 0xA5, CHR 0xE8, CHR 0xAF, CHR 0x86, CHR 0xE9, CHR 0x97, CHR 0xAE, CHR 0xE7, CHR 0xAD, CHR 0x94, CHR 0xEF, CHR 0xBC, CHR 0x8C, CHR 0xE8, CHR 0xBF, CHR 0x98, CHR 0xE6, CHR 0x98, CHR 0xAF, CHR 0xE5, CHR 0x90, CHR 0xAF, CHR 0xE5, CHR 0x8A, CHR 0xA8, CHR 0xE6, CHR 0x95, CHR 0x85, CHR 0xE9, CHR 0x9A, CHR 0x9C, CHR 0xE8, CHR 0xAF, CHR 0x8A, CHR 0xE6, CHR 0x96, CHR 0xAD, CHR 0xEF, CHR 0xBC, CHR 0x9F]),
                 cl_MissingSlots = fo_RequiredSlots out, cl_Candidates = map rc_Intent (fo_Candidates out),
                 cl_StateVersion = stateVersion, cl_Round = rnd1, cl_ExpiresAt = now + rg_IntentFunnelContextTTL cfg\<rparr>\<rparr>)"

definition applyClarificationAnswer :: "(string \<Rightarrow> string) \<Rightarrow> flash_output \<Rightarrow> clarification_answer option \<Rightarrow> flash_output" where
  "applyClarificationAnswer tolower out answer =
     (case answer of
        None \<Rightarrow> out
      | Some a \<Rightarrow>
          (let slot0 = trim_space (tolower (ca_Slot a));
               slot = (case fo_RequiredSlots out of [s] \<Rightarrow> if slot0 = [] then s else slot0 | _ \<Rightarrow> slot0)
           in if trim_space (ca_Value a) = [] \<or> slot = [] then out
              else out\<lparr>fo_Entities :=
                         (case normalizedEntities tolower [(slot, ca_Value a)] of
                            [] \<Rightarrow> fo_Entities out
                          | m \<Rightarrow> gm_put slot (case gm_get m slot of Some v \<Rightarrow> v | None \<Rightarrow> []) (fo_Entities out)),
                       fo_RequiredSlots := filter (\<lambda>s. s \<noteq> slot) (fo_RequiredSlots out)\<rparr>))"

text \<open>The route of the incident decision: the strategy that was asked for or the recommended one, if it is allowed.\<close>

definition incidentRoute :: "router_config \<Rightarrow> string \<Rightarrow> string \<Rightarrow> route_result \<Rightarrow> route_result" where
  "incidentRoute cfg strategy recommended result =
     (let chosen = (if strategy = AgentDiagnosisStrategyAuto then recommended else strategy)
      in if isAllowed cfg chosen then result\<lparr>rr_Decision := AgentRouteDecisionIncident, rr_Strategy := chosen\<rparr>
         else result\<lparr>rr_Decision := AgentRouteDecisionConfirm, rr_Strategy := [], rr_Reason := [CHR 0xE6, CHR 0x8E, CHR 0xA8, CHR 0xE8, CHR 0x8D, CHR 0x90, CHR 0xE8, CHR 0xAF, CHR 0x8A, CHR 0xE6, CHR 0x96, CHR 0xAD, CHR 0xE7, CHR 0xAD, CHR 0x96, CHR 0xE7, CHR 0x95, CHR 0xA5, CHR 0xE5, CHR 0xBD, CHR 0x93, CHR 0xE5, CHR 0x89, CHR 0x8D, CHR 0xE4, CHR 0xB8, CHR 0x8D, CHR 0xE5, CHR 0x8F, CHR 0xAF, CHR 0xE7, CHR 0x94, CHR 0xA8]\<rparr>)"

definition runnerUp :: "route_candidate \<Rightarrow> route_candidate list \<Rightarrow> f64" where
  "runnerUp candidate others =
     fold (\<lambda>other best. if rc_Intent other \<noteq> rc_Intent candidate \<and> rc_Confidence other > best then rc_Confidence other else best) others 0"

definition routeCandidateResult ::
  "route_candidate \<Rightarrow> flash_output \<Rightarrow> string \<Rightarrow> string \<Rightarrow> router_config \<Rightarrow> route_result" where
  "routeCandidateResult candidate out mode strategy cfg =
     (let result = (plainRoute [] (rc_Confidence candidate) [CHR 0xE6, CHR 0x84, CHR 0x8F, CHR 0xE5, CHR 0x9B, CHR 0xBE, CHR 0xE5, CHR 0x80, CHR 0x99, CHR 0xE9, CHR 0x80, CHR 0x89, CHR 0xE9, CHR 0x80, CHR 0x9A, CHR 0xE8, CHR 0xBF, CHR 0x87, CHR 0xE7, CHR 0xBD, CHR 0xAE, CHR 0xE4, CHR 0xBF, CHR 0xA1, CHR 0xE5, CHR 0xBA, CHR 0xA6, CHR 0xE4, CHR 0xB8, CHR 0x8E, CHR 0xE4, CHR 0xB8, CHR 0x8A, CHR 0xE4, CHR 0xB8, CHR 0x8B, CHR 0xE6, CHR 0x96, CHR 0x87, CHR 0xE6, CHR 0xA0, CHR 0xA1, CHR 0xE9, CHR 0xAA, CHR 0x8C] ''funnel.layer3'')
                     \<lparr>rr_Candidates := fo_Candidates out, rr_Entities := fo_Entities out, rr_MissingSlots := fo_RequiredSlots out,
                      rr_RiskHint := fo_RiskHint out\<rparr>;
          refuse = (\<lambda>reason. result\<lparr>rr_Decision := AgentRouteDecisionConfirm, rr_Reason := reason\<rparr>);
          margin = fsub (rc_Confidence candidate) (runnerUp candidate (fo_Candidates out))
      in if fo_RiskHint out = AgentRouteRiskHigh \<or> rc_Intent candidate = AgentRouteIntentActionRequest
         then (refuse [CHR 0xE9, CHR 0xAB, CHR 0x98, CHR 0xE9, CHR 0xA3, CHR 0x8E, CHR 0xE9, CHR 0x99, CHR 0xA9, CHR 0xE6, CHR 0x93, CHR 0x8D, CHR 0xE4, CHR 0xBD, CHR 0x9C, CHR 0xE5, CHR 0x8F, CHR 0xAA, CHR 0xE5, CHR 0x85, CHR 0x81, CHR 0xE8, CHR 0xAE, CHR 0xB8, CHR 0xE8, CHR 0xBF, CHR 0x9B, CHR 0xE5, CHR 0x85, CHR 0xA5, CHR 0xE7, CHR 0xA1, CHR 0xAE, CHR 0xE8, CHR 0xAE, CHR 0xA4, CHR 0xE5, CHR 0x92, CHR 0x8C, CHR 0xE5, CHR 0xAE, CHR 0xA1, CHR 0xE6, CHR 0x89, CHR 0xB9, CHR 0xE8, CHR 0xB7, CHR 0xAF, CHR 0xE5, CHR 0xBE, CHR 0x84])\<lparr>rr_RiskHint := AgentRouteRiskHigh\<rparr>
         else if rc_Intent candidate = AgentRouteIntentOutOfScope then refuse [CHR 0xE8, CHR 0xAF, CHR 0xB7, CHR 0xE6, CHR 0xB1, CHR 0x82, CHR 0xE8, CHR 0xB6, CHR 0x85, CHR 0xE5, CHR 0x87, CHR 0xBA, CHR 0xE5, CHR 0xBD, CHR 0x93, CHR 0xE5, CHR 0x89, CHR 0x8D, CHR 0xE8, CHR 0xB7, CHR 0xAF, CHR 0xE7, CHR 0x94, CHR 0xB1, CHR 0xE8, CHR 0x83, CHR 0xBD, CHR 0xE5, CHR 0x8A, CHR 0x9B, CHR 0xE8, CHR 0x8C, CHR 0x83, CHR 0xE5, CHR 0x9B, CHR 0xB4]
         else if rc_Confidence candidate < rg_IntentFunnelAcceptThreshold cfg then refuse [CHR 0xE6, CHR 0x9C, CHR 0x80, CHR 0xE9, CHR 0xAB, CHR 0x98, CHR 0xE5, CHR 0x80, CHR 0x99, CHR 0xE9, CHR 0x80, CHR 0x89, CHR 0xE7, CHR 0xBD, CHR 0xAE, CHR 0xE4, CHR 0xBF, CHR 0xA1, CHR 0xE5, CHR 0xBA, CHR 0xA6, CHR 0xE4, CHR 0xB8, CHR 0x8D, CHR 0xE8, CHR 0xB6, CHR 0xB3]
         else if length (fo_Candidates out) > 1 \<and> margin < rg_IntentFunnelMarginThreshold cfg then refuse [CHR 0xE5, CHR 0x89, CHR 0x8D, CHR 0xE4, CHR 0xB8, CHR 0xA4, CHR 0xE4, CHR 0xB8, CHR 0xAA, CHR 0xE6, CHR 0x84, CHR 0x8F, CHR 0xE5, CHR 0x9B, CHR 0xBE, CHR 0xE5, CHR 0x80, CHR 0x99, CHR 0xE9, CHR 0x80, CHR 0x89, CHR 0xE8, CHR 0xBF, CHR 0x87, CHR 0xE4, CHR 0xBA, CHR 0x8E, CHR 0xE6, CHR 0x8E, CHR 0xA5, CHR 0xE8, CHR 0xBF, CHR 0x91]
         else if fo_RequiredSlots out \<noteq> [] then refuse [CHR 0xE7, CHR 0xBC, CHR 0xBA, CHR 0xE5, CHR 0xB0, CHR 0x91, CHR 0xE7, CHR 0xBB, CHR 0xA7, CHR 0xE7, CHR 0xBB, CHR 0xAD, CHR 0xE8, CHR 0xB7, CHR 0xAF, CHR 0xE7, CHR 0x94, CHR 0xB1, CHR 0xE6, CHR 0x89, CHR 0x80, CHR 0xE9, CHR 0x9C, CHR 0x80, CHR 0xE7, CHR 0x9A, CHR 0x84, CHR 0xE4, CHR 0xBF, CHR 0xA1, CHR 0xE6, CHR 0x81, CHR 0xAF]
         else if mode = AgentRouteModeDiagnosis then incidentRoute cfg strategy (fo_RecommendedStrategy out) result
         else if rc_Intent candidate \<in> set [AgentRouteIntentKnowledgeQA, AgentRouteIntentResourceQuery]
         then result\<lparr>rr_Decision := AgentRouteDecisionChat\<rparr>
         else if rc_Intent candidate \<in> set [AgentRouteIntentIncidentDiagnosis, AgentRouteIntentIncidentFollowup]
         then incidentRoute cfg strategy (fo_RecommendedStrategy out) result
         else refuse [CHR 0xE6, CHR 0x84, CHR 0x8F, CHR 0xE5, CHR 0x9B, CHR 0xBE, CHR 0xE6, CHR 0x97, CHR 0xA0, CHR 0xE6, CHR 0xB3, CHR 0x95, CHR 0xE6, CHR 0x98, CHR 0xA0, CHR 0xE5, CHR 0xB0, CHR 0x84, CHR 0xE5, CHR 0x88, CHR 0xB0, CHR 0xE5, CHR 0x85, CHR 0xAC, CHR 0xE5, CHR 0xBC, CHR 0x80, CHR 0xE8, CHR 0xB7, CHR 0xAF, CHR 0xE7, CHR 0x94, CHR 0xB1])"

subsection \<open>The funnel\<close>

text \<open>The candidates of a query: cached, or those of the classifier; or the trace and the reason of a failure.\<close>

datatype classification = Unclassified string string string | Candidates flash_output bool

definition classify :: "router_env \<Rightarrow> router_config \<Rightarrow> string \<Rightarrow> router_state \<Rightarrow> classification \<times> router_state" where
  "classify env cfg query st =
     (case loadCandidateCache env (re_now env 4) cfg query st of
        (Some out, st1) \<Rightarrow> (Candidates out True, st1)
      | (None, st1) \<Rightarrow>
          (case re_generate env (trim_space query) of
             None \<Rightarrow> (Unclassified ''degraded'' ''classifier_unavailable'' [CHR 0xE6, CHR 0x99, CHR 0xBA, CHR 0xE8, CHR 0x83, CHR 0xBD, CHR 0xE8, CHR 0xB7, CHR 0xAF, CHR 0xE7, CHR 0x94, CHR 0xB1, CHR 0xE6, CHR 0x9A, CHR 0x82, CHR 0xE4, CHR 0xB8, CHR 0x8D, CHR 0xE5, CHR 0x8F, CHR 0xAF, CHR 0xE7, CHR 0x94, CHR 0xA8, CHR 0xEF, CHR 0xBC, CHR 0x8C, CHR 0xE8, CHR 0xAF, CHR 0xB7, CHR 0xE6, CHR 0x89, CHR 0x8B, CHR 0xE5, CHR 0x8A, CHR 0xA8, CHR 0xE9, CHR 0x80, CHR 0x89, CHR 0xE6, CHR 0x8B, CHR 0xA9, CHR 0xE6, CHR 0x89, CHR 0xA7, CHR 0xE8, CHR 0xA1, CHR 0x8C, CHR 0xE6, CHR 0x96, CHR 0xB9, CHR 0xE5, CHR 0xBC, CHR 0x8F], st1)
           | Some raw \<Rightarrow>
               (case parseFunnelRouteOutput env raw (rg_IntentFunnelTopK cfg) of
                  None \<Rightarrow> (Unclassified ''invalid_schema'' ''invalid_classifier_schema'' [CHR 0xE8, CHR 0xB7, CHR 0xAF, CHR 0xE7, CHR 0x94, CHR 0xB1, CHR 0xE7, CHR 0xBB, CHR 0x93, CHR 0xE6, CHR 0x9E, CHR 0x9C, CHR 0xE6, CHR 0x97, CHR 0xA0, CHR 0xE6, CHR 0xB3, CHR 0x95, CHR 0xE7, CHR 0xA1, CHR 0xAE, CHR 0xE8, CHR 0xAE, CHR 0xA4, CHR 0xEF, CHR 0xBC, CHR 0x8C, CHR 0xE8, CHR 0xAF, CHR 0xB7, CHR 0xE6, CHR 0x89, CHR 0x8B, CHR 0xE5, CHR 0x8A, CHR 0xA8, CHR 0xE9, CHR 0x80, CHR 0x89, CHR 0xE6, CHR 0x8B, CHR 0xA9, CHR 0xE6, CHR 0x89, CHR 0xA7, CHR 0xE8, CHR 0xA1, CHR 0x8C, CHR 0xE6, CHR 0x96, CHR 0xB9, CHR 0xE5, CHR 0xBC, CHR 0x8F], st1)
                | Some out \<Rightarrow> (Candidates out False, cacheCandidates env (re_now env 5) cfg query out st1))))"

text \<open>What is made of the candidates.\<close>

definition stateChanged :: "route_input \<Rightarrow> bool" where
  "stateChanged input \<longleftrightarrow>
     (case (ri_Clarification input, ri_RoutingContext input) of
        (Some a, Some sn) \<Rightarrow> ca_StateVersion a \<noteq> [] \<and> ca_StateVersion a \<noteq> sn_StateVersion sn
      | _ \<Rightarrow> False)"

text \<open>A confirmation that is neither risky nor out of scope asks for a clarification.\<close>

definition settle :: "router_env \<Rightarrow> route_input \<Rightarrow> string \<Rightarrow> string \<Rightarrow> router_config \<Rightarrow> flash_output \<Rightarrow> route_candidate \<Rightarrow> route_result" where
  "settle env input mode strategy cfg out selected =
     (let result = routeCandidateResult selected out mode strategy cfg
      in if rr_Decision result = AgentRouteDecisionConfirm \<and> rr_Clarification result = None \<and>
            rr_RiskHint result \<noteq> AgentRouteRiskHigh \<and> rc_Intent selected \<noteq> AgentRouteIntentOutOfScope
         then newClarificationResult env input out cfg (rr_Reason result) (re_now env 10) else result)"

definition addLayer :: "layer_trace \<Rightarrow> route_trace \<Rightarrow> route_trace" where
  "addLayer l t = t\<lparr>rt_Layers := rt_Layers t @ [l]\<rparr>"

definition chooseRoute ::
  "router_env \<Rightarrow> route_input \<Rightarrow> string \<Rightarrow> string \<Rightarrow> router_config \<Rightarrow> flash_output \<Rightarrow> bool \<Rightarrow> route_trace \<Rightarrow> route_result" where
  "chooseRoute env input mode strategy cfg out0 cacheHit trace0 =
     (let lower = re_lower env; finish = (\<lambda>r t. finishFunnelResult r t (re_now env 0) (re_now env 12))
      in if stateChanged input
         then finish (newClarificationResult env input out0 cfg ''clarification_state_changed'' (re_now env 7))
                (addLayer (routeLayerTrace lower ''layer3'' ''clarify'' [''clarification_state_changed''] 0)
                   (trace0\<lparr>rt_ContextReason := ''clarification_state_changed''\<rparr>))
         else (let out = applyClarificationAnswer lower out0 (ri_Clarification input);
                   trace1 = addLayer (routeLayerTrace lower ''layer2'' ''candidates'' (candidateReasonCodes lower (fo_Candidates out))
                                        (time_sub (re_now env 8) (re_now env 3)))
                              (trace0\<lparr>rt_DependencyStatus := (if cacheHit then ''candidate_cache'' else ''ok'')\<rparr>);
                   (selected0, contextUsed, contextReason) =
                     selectCandidateWithContext lower (ri_Query input) (fo_Candidates out) (ri_RoutingContext input)
                       (rg_IntentFunnelContextTTL cfg) (re_now env 13);
                   trace2 = trace1\<lparr>rt_ContextUsed := contextUsed, rt_ContextReason := contextReason\<rparr>;
                   latency = time_sub (re_now env 11) (re_now env 9)
               in if contextReason \<noteq> [] \<and> contextReason \<noteq> ''topic_switch''
                  then finish (newClarificationResult env input out cfg contextReason (re_now env 10))
                         (addLayer (routeLayerTrace lower ''layer3'' ''clarify'' [contextReason] latency) trace2)
                  else (let selected = (if contextUsed \<and> rc_Confidence selected0 < rg_IntentFunnelAcceptThreshold cfg
                                        then selected0\<lparr>rc_Confidence := rg_IntentFunnelAcceptThreshold cfg\<rparr> else selected0);
                            result = settle env input mode strategy cfg out selected
                        in finish result
                             (addLayer (routeLayerTrace lower ''layer3'' (rr_Decision result) (candidateReasonCodes lower [selected]) latency) trace2))))"

definition decideIntentFunnel ::
  "router_env \<Rightarrow> route_input \<Rightarrow> string \<Rightarrow> string \<Rightarrow> router_config \<Rightarrow> router_state \<Rightarrow> route_result \<times> router_state" where
  "decideIntentFunnel env input mode strategy cfg st =
     (let lower = re_lower env; finish = (\<lambda>r t. finishFunnelResult r t (re_now env 0) (re_now env 12));
          trace0 = \<lparr>rt_PolicyVersion = rg_IntentFunnelPolicyVersion cfg, rt_QueryHash = routeQueryHash env (ri_Query input),
                    rt_ContextFingerprint = routingContextFingerprint env (ri_RoutingContext input), rt_ContextUsed = False,
                    rt_ContextReason = [], rt_DependencyStatus = ''not_called'', rt_Layers = [], rt_TotalLatencyMS = 0\<rparr>;
          layer1 = (\<lambda>outcome codes. addLayer (routeLayerTrace lower ''layer1'' outcome codes (time_sub (re_now env 2) (re_now env 1))) trace0)
      in case applyDeterministicRouteGuard env input strategy cfg of
           Some result \<Rightarrow> (finish result (layer1 ''terminal'' [rr_Reason result]), st)
         | None \<Rightarrow>
             (case classify env cfg (ri_Query input) st of
                (Unclassified status code reason, st1) \<Rightarrow>
                  (finish (confirmRoute reason)
                     (addLayer (routeLayerTrace lower ''layer2'' ''degraded'' [code] (time_sub (re_now env 6) (re_now env 3)))
                        ((layer1 ''continue'' [])\<lparr>rt_DependencyStatus := status\<rparr>)), st1)
              | (Candidates out cacheHit, st1) \<Rightarrow>
                  (chooseRoute env input mode strategy cfg out cacheHit (layer1 ''continue'' []), st1)))"

text \<open>
  Deciding a route (internal/app/agent\_router.go): what the caller fixes, the intent funnel if it is on, and otherwise the
  cache of routes, the rules and the classifier.
\<close>

definition parseFlashRouteOutput :: "router_env \<Rightarrow> string \<Rightarrow> flash_output option" where
  "parseFlashRouteOutput env raw =
     (case re_decode env (unfence raw) of
        None \<Rightarrow> None
      | Some out0 \<Rightarrow>
          (let out = out0\<lparr>fo_Intent := trim_space (fo_Intent out0), fo_RecommendedStrategy := trim_space (fo_RecommendedStrategy out0),
                          fo_Reason := trim_space (fo_Reason out0)\<rparr>
           in if fo_Intent out \<noteq> AgentRouteDecisionChat \<and> fo_Intent out \<noteq> AgentRouteDecisionIncident then None
              else (case normalizeAgentDiagnosisStrategy (fo_RecommendedStrategy out) of
                      Inl _ \<Rightarrow> None
                    | Inr _ \<Rightarrow>
                        if fo_RecommendedStrategy out = AgentDiagnosisStrategyAuto then None
                        else if fo_Confidence out < 0 \<or> fo_Confidence out > 1 \<or> fo_Reason out = [] then None
                        else Some out)))"

subsection \<open>The cache of routes\<close>

definition routeCacheKey :: "router_env \<Rightarrow> route_input \<Rightarrow> string" where
  "routeCacheKey env input =
     (let mode = (if ri_RouteMode input = [] then AgentRouteModeAuto else ri_RouteMode input);
          strategy = (if ri_DiagnosisStrategy input = [] then AgentDiagnosisStrategyAuto else ri_DiagnosisStrategy input);
          normalized = re_lower env (join '' '' (str_fields (ri_Query input)))
      in mode @ '':'' @ strategy @ '':'' @ routingContextFingerprint env (ri_RoutingContext input) @ '':v1:'' @
         hexString (re_sha256 env normalized))"

definition loadCachedRoute :: "router_env \<Rightarrow> gotime \<Rightarrow> router_config \<Rightarrow> route_input \<Rightarrow> router_state \<Rightarrow> route_result option \<times> router_state" where
  "loadCachedRoute env now cfg input st =
     (if cachingOff cfg then (None, st)
      else (let key = routeCacheKey env input
            in case gm_get (ra_cache st) key of
                 None \<Rightarrow> (None, st)
               | Some (result, expiresAt) \<Rightarrow>
                   (if expiresAt > now then (Some (result\<lparr>rr_Source := ''cache''\<rparr>), st)
                    else (None, st\<lparr>ra_cache := gm_del key (ra_cache st)\<rparr>))))"

text \<open>Entries that have expired are deleted, then room is made, then the route is put in.\<close>

definition cacheRoute :: "router_env \<Rightarrow> gotime \<Rightarrow> router_config \<Rightarrow> route_input \<Rightarrow> route_result \<Rightarrow> router_state \<Rightarrow> router_state" where
  "cacheRoute env now cfg input result st =
     (if cachingOff cfg \<or> rr_Decision result = AgentRouteDecisionConfirm \<or> rr_Degraded result \<or>
         rr_Clarification result \<noteq> None \<or> rr_RiskHint result = AgentRouteRiskHigh then st
      else (let key = routeCacheKey env input;
                live = filter (\<lambda>(k, r, expiresAt). expiresAt > now) (ra_cache st)
            in st\<lparr>ra_cache := gm_put key (result, now + rg_RouteCacheTTL cfg)
                                  (evictOne (re_pick env) (rg_RouteCacheMaxEntries cfg) key live)\<rparr>))"

subsection \<open>Deciding\<close>

text \<open>What the caller has fixed, \<open>None\<close> if the router has to decide.\<close>

definition manualRoute :: "router_config \<Rightarrow> string \<Rightarrow> string \<Rightarrow> (route_error + route_result) option" where
  "manualRoute cfg mode strategy =
     (if mode = AgentRouteModeReact then Some (Inr (plainRoute AgentRouteDecisionChat 0 ([CHR 0xE5, CHR 0xB7, CHR 0xB2, CHR 0xE6, CHR 0x8C, CHR 0x89] @ '' ReAct '' @ [CHR 0xE9, CHR 0x97, CHR 0xAE, CHR 0xE7, CHR 0xAD, CHR 0x94, CHR 0xE6, CHR 0x96, CHR 0xB9, CHR 0xE5, CHR 0xBC, CHR 0x8F, CHR 0xE5, CHR 0xA4, CHR 0x84, CHR 0xE7, CHR 0x90, CHR 0x86]) ''manual''))
      else if mode = AgentRouteModeDiagnosis \<and> strategy \<noteq> AgentDiagnosisStrategyAuto
      then (if \<not> isAllowed cfg strategy then Some (Inl (StrategyUnavailable strategy))
            else Some (Inr ((plainRoute AgentRouteDecisionIncident 0 [CHR 0xE5, CHR 0xB7, CHR 0xB2, CHR 0xE6, CHR 0x8C, CHR 0x89, CHR 0xE6, CHR 0x8C, CHR 0x87, CHR 0xE5, CHR 0xAE, CHR 0x9A, CHR 0xE8, CHR 0xAF, CHR 0x8A, CHR 0xE6, CHR 0x96, CHR 0xAD, CHR 0xE7, CHR 0xAD, CHR 0x96, CHR 0xE7, CHR 0x95, CHR 0xA5, CHR 0xE5, CHR 0xA4, CHR 0x84, CHR 0xE7, CHR 0x90, CHR 0x86] ''manual'')\<lparr>rr_Strategy := strategy\<rparr>)))
      else None)"

text \<open>The keyword rule of the automatic mode, and whether its route is cached.\<close>

definition keywordRoute :: "router_env \<Rightarrow> router_config \<Rightarrow> string \<Rightarrow> string \<Rightarrow> route_result option" where
  "keywordRoute env cfg query strategy =
     (if \<not> matchesHighConfidenceKeyword (re_lower env) cfg query then None
      else (let selected = (if strategy = AgentDiagnosisStrategyAuto then rg_DefaultDiagnosisStrategy cfg else strategy)
            in if \<not> isAllowed cfg selected then Some (confirmRoute ([CHR 0xE9, CHR 0xBB, CHR 0x98, CHR 0xE8, CHR 0xAE, CHR 0xA4, CHR 0xE8, CHR 0xAF, CHR 0x8A, CHR 0xE6, CHR 0x96, CHR 0xAD, CHR 0xE7, CHR 0xAD, CHR 0x96, CHR 0xE7, CHR 0x95, CHR 0xA5, CHR 0xE5, CHR 0xBD, CHR 0x93, CHR 0xE5, CHR 0x89, CHR 0x8D, CHR 0xE4, CHR 0xB8, CHR 0x8D, CHR 0xE5, CHR 0x8F, CHR 0xAF, CHR 0xE7, CHR 0x94, CHR 0xA8, CHR 0xEF, CHR 0xBC, CHR 0x8C, CHR 0xE8, CHR 0xAF, CHR 0xB7, CHR 0xE9, CHR 0x80, CHR 0x89, CHR 0xE6, CHR 0x8B, CHR 0xA9] @ '' Plan '' @ [CHR 0xE6, CHR 0x88, CHR 0x96] @ '' GoS''))
               else Some ((plainRoute AgentRouteDecisionIncident 1 [CHR 0xE5, CHR 0x91, CHR 0xBD, CHR 0xE4, CHR 0xB8, CHR 0xAD, CHR 0xE9, CHR 0xAB, CHR 0x98, CHR 0xE7, CHR 0xBD, CHR 0xAE, CHR 0xE4, CHR 0xBF, CHR 0xA1, CHR 0xE6, CHR 0x95, CHR 0x85, CHR 0xE9, CHR 0x9A, CHR 0x9C, CHR 0xE8, CHR 0xA7, CHR 0x84, CHR 0xE5, CHR 0x88, CHR 0x99, CHR 0xEF, CHR 0xBC, CHR 0x8C, CHR 0xE5, CHR 0xB7, CHR 0xB2, CHR 0xE7, CHR 0x9B, CHR 0xB4, CHR 0xE6, CHR 0x8E, CHR 0xA5, CHR 0xE5, CHR 0x90, CHR 0xAF, CHR 0xE5, CHR 0x8A, CHR 0xA8, CHR 0xE8, CHR 0xAF, CHR 0x8A, CHR 0xE6, CHR 0x96, CHR 0xAD] ''keyword'')\<lparr>rr_Strategy := selected\<rparr>)))"

text \<open>The route of the classifier's output.\<close>

definition modelRoute :: "router_config \<Rightarrow> string \<Rightarrow> string \<Rightarrow> flash_output \<Rightarrow> route_result" where
  "modelRoute cfg mode strategy out =
     (let route = (\<lambda>decision s. (plainRoute decision (fo_Confidence out) (fo_Reason out) ''model'')\<lparr>rr_Strategy := s\<rparr>);
          unavailable = confirmRoute ([CHR 0xE6, CHR 0x8E, CHR 0xA8, CHR 0xE8, CHR 0x8D, CHR 0x90, CHR 0xE7, CHR 0xAD, CHR 0x96, CHR 0xE7, CHR 0x95, CHR 0xA5, CHR 0xE5, CHR 0xBD, CHR 0x93, CHR 0xE5, CHR 0x89, CHR 0x8D, CHR 0xE4, CHR 0xB8, CHR 0x8D, CHR 0xE5, CHR 0x8F, CHR 0xAF, CHR 0xE7, CHR 0x94, CHR 0xA8, CHR 0xEF, CHR 0xBC, CHR 0x8C, CHR 0xE8, CHR 0xAF, CHR 0xB7, CHR 0xE9, CHR 0x80, CHR 0x89, CHR 0xE6, CHR 0x8B, CHR 0xA9] @ '' Plan '' @ [CHR 0xE6, CHR 0x88, CHR 0x96] @ '' GoS'')
      in if fo_Confidence out < rg_ConfidenceThreshold cfg
         then (confirmRoute [CHR 0xE8, CHR 0xB7, CHR 0xAF, CHR 0xE7, CHR 0x94, CHR 0xB1, CHR 0xE7, CHR 0xBD, CHR 0xAE, CHR 0xE4, CHR 0xBF, CHR 0xA1, CHR 0xE5, CHR 0xBA, CHR 0xA6, CHR 0xE4, CHR 0xB8, CHR 0x8D, CHR 0xE8, CHR 0xB6, CHR 0xB3, CHR 0xEF, CHR 0xBC, CHR 0x8C, CHR 0xE8, CHR 0xAF, CHR 0xB7, CHR 0xE7, CHR 0xA1, CHR 0xAE, CHR 0xE8, CHR 0xAE, CHR 0xA4, CHR 0xE6, CHR 0x9C, CHR 0xAC, CHR 0xE6, CHR 0xAC, CHR 0xA1, CHR 0xE8, CHR 0xAF, CHR 0xB7, CHR 0xE6, CHR 0xB1, CHR 0x82, CHR 0xE7, CHR 0x9A, CHR 0x84, CHR 0xE6, CHR 0x89, CHR 0xA7, CHR 0xE8, CHR 0xA1, CHR 0x8C, CHR 0xE6, CHR 0x96, CHR 0xB9, CHR 0xE5, CHR 0xBC, CHR 0x8F])\<lparr>rr_Confidence := fo_Confidence out\<rparr>
         else if mode = AgentRouteModeDiagnosis
         then (if isAllowed cfg (fo_RecommendedStrategy out) then route AgentRouteDecisionIncident (fo_RecommendedStrategy out) else unavailable)
         else if fo_Intent out = AgentRouteDecisionChat then route AgentRouteDecisionChat []
         else if fo_Intent out = AgentRouteDecisionIncident
         then (let selected = (if strategy = AgentDiagnosisStrategyAuto then fo_RecommendedStrategy out else strategy)
               in if isAllowed cfg selected then route AgentRouteDecisionIncident selected else unavailable)
         else confirmRoute [CHR 0xE8, CHR 0xB7, CHR 0xAF, CHR 0xE7, CHR 0x94, CHR 0xB1, CHR 0xE6, CHR 0x84, CHR 0x8F, CHR 0xE5, CHR 0x9B, CHR 0xBE, CHR 0xE6, CHR 0x97, CHR 0xA0, CHR 0xE6, CHR 0xB3, CHR 0x95, CHR 0xE7, CHR 0xA1, CHR 0xAE, CHR 0xE8, CHR 0xAE, CHR 0xA4, CHR 0xEF, CHR 0xBC, CHR 0x8C, CHR 0xE8, CHR 0xAF, CHR 0xB7, CHR 0xE6, CHR 0x89, CHR 0x8B, CHR 0xE5, CHR 0x8A, CHR 0xA8, CHR 0xE9, CHR 0x80, CHR 0x89, CHR 0xE6, CHR 0x8B, CHR 0xA9, CHR 0xE6, CHR 0x89, CHR 0xA7, CHR 0xE8, CHR 0xA1, CHR 0x8C, CHR 0xE6, CHR 0x96, CHR 0xB9, CHR 0xE5, CHR 0xBC, CHR 0x8F])"

text \<open>The classifier decides. A route of the automatic mode is offered to the cache, which keeps no confirmation.\<close>

definition classifierRoute ::
  "router_env \<Rightarrow> route_input \<Rightarrow> string \<Rightarrow> string \<Rightarrow> router_config \<Rightarrow> router_state \<Rightarrow> route_result \<times> router_state" where
  "classifierRoute env input mode strategy cfg st =
     (case re_generate env (trim_space (ri_Query input)) of
        None \<Rightarrow> (confirmRoute [CHR 0xE6, CHR 0x99, CHR 0xBA, CHR 0xE8, CHR 0x83, CHR 0xBD, CHR 0xE8, CHR 0xB7, CHR 0xAF, CHR 0xE7, CHR 0x94, CHR 0xB1, CHR 0xE6, CHR 0x9A, CHR 0x82, CHR 0xE4, CHR 0xB8, CHR 0x8D, CHR 0xE5, CHR 0x8F, CHR 0xAF, CHR 0xE7, CHR 0x94, CHR 0xA8, CHR 0xEF, CHR 0xBC, CHR 0x8C, CHR 0xE8, CHR 0xAF, CHR 0xB7, CHR 0xE6, CHR 0x89, CHR 0x8B, CHR 0xE5, CHR 0x8A, CHR 0xA8, CHR 0xE9, CHR 0x80, CHR 0x89, CHR 0xE6, CHR 0x8B, CHR 0xA9, CHR 0xE6, CHR 0x89, CHR 0xA7, CHR 0xE8, CHR 0xA1, CHR 0x8C, CHR 0xE6, CHR 0x96, CHR 0xB9, CHR 0xE5, CHR 0xBC, CHR 0x8F], st)
      | Some raw \<Rightarrow>
          (case parseFlashRouteOutput env raw of
             None \<Rightarrow> (confirmRoute [CHR 0xE8, CHR 0xB7, CHR 0xAF, CHR 0xE7, CHR 0x94, CHR 0xB1, CHR 0xE7, CHR 0xBB, CHR 0x93, CHR 0xE6, CHR 0x9E, CHR 0x9C, CHR 0xE6, CHR 0x97, CHR 0xA0, CHR 0xE6, CHR 0xB3, CHR 0x95, CHR 0xE7, CHR 0xA1, CHR 0xAE, CHR 0xE8, CHR 0xAE, CHR 0xA4, CHR 0xEF, CHR 0xBC, CHR 0x8C, CHR 0xE8, CHR 0xAF, CHR 0xB7, CHR 0xE6, CHR 0x89, CHR 0x8B, CHR 0xE5, CHR 0x8A, CHR 0xA8, CHR 0xE9, CHR 0x80, CHR 0x89, CHR 0xE6, CHR 0x8B, CHR 0xA9, CHR 0xE6, CHR 0x89, CHR 0xA7, CHR 0xE8, CHR 0xA1, CHR 0x8C, CHR 0xE6, CHR 0x96, CHR 0xB9, CHR 0xE5, CHR 0xBC, CHR 0x8F], st)
           | Some out \<Rightarrow>
               (let result = modelRoute cfg mode strategy out
                in (result, if mode = AgentRouteModeDiagnosis then st else cacheRoute env (re_now env 2) cfg input result st))))"

definition decideWithoutFunnel ::
  "router_env \<Rightarrow> route_input \<Rightarrow> string \<Rightarrow> string \<Rightarrow> router_config \<Rightarrow> router_state \<Rightarrow> route_result \<times> router_state" where
  "decideWithoutFunnel env input mode strategy cfg st =
     (if mode \<noteq> AgentRouteModeAuto then classifierRoute env input mode strategy cfg st
      else (case loadCachedRoute env (re_now env 0) cfg input st of
              (Some cached, st1) \<Rightarrow> (cached, st1)
            | (None, st1) \<Rightarrow>
                (case keywordRoute env cfg (ri_Query input) strategy of
                   Some result \<Rightarrow> (result, cacheRoute env (re_now env 1) cfg input result st1)
                 | None \<Rightarrow> classifierRoute env input mode strategy cfg st1)))"

definition Decide ::
  "router_env \<Rightarrow> router_config \<Rightarrow> route_input option \<Rightarrow> router_state \<Rightarrow> (route_error + route_result) \<times> router_state" where
  "Decide env cfg input0 st =
     (case input0 of
        None \<Rightarrow> (Inl QueryRequired, st)
      | Some input \<Rightarrow>
          (if trim_space (ri_Query input) = [] then (Inl QueryRequired, st)
           else (case (normalizeAgentRouteMode (ri_RouteMode input), normalizeAgentDiagnosisStrategy (ri_DiagnosisStrategy input)) of
                   (Inl err, _) \<Rightarrow> (Inl err, st)
                 | (Inr _, Inl err) \<Rightarrow> (Inl err, st)
                 | (Inr mode, Inr strategy) \<Rightarrow>
                     (case manualRoute cfg mode strategy of
                        Some answer \<Rightarrow> (answer, st)
                      | None \<Rightarrow>
                          (if \<not> rg_Enabled cfg then (Inr (confirmRoute [CHR 0xE6, CHR 0x99, CHR 0xBA, CHR 0xE8, CHR 0x83, CHR 0xBD, CHR 0xE8, CHR 0xB7, CHR 0xAF, CHR 0xE7, CHR 0x94, CHR 0xB1, CHR 0xE6, CHR 0x9A, CHR 0x82, CHR 0xE4, CHR 0xB8, CHR 0x8D, CHR 0xE5, CHR 0x8F, CHR 0xAF, CHR 0xE7, CHR 0x94, CHR 0xA8, CHR 0xEF, CHR 0xBC, CHR 0x8C, CHR 0xE8, CHR 0xAF, CHR 0xB7, CHR 0xE9, CHR 0x80, CHR 0x89, CHR 0xE6, CHR 0x8B, CHR 0xA9, CHR 0xE7, CHR 0xBB, CHR 0xA7, CHR 0xE7, CHR 0xBB, CHR 0xAD, CHR 0xE9, CHR 0x97, CHR 0xAE, CHR 0xE7, CHR 0xAD, CHR 0x94, CHR 0xE6, CHR 0x88, CHR 0x96, CHR 0xE5, CHR 0x90, CHR 0xAF, CHR 0xE5, CHR 0x8A, CHR 0xA8, CHR 0xE6, CHR 0x8E, CHR 0x92, CHR 0xE9, CHR 0x9A, CHR 0x9C]), st)
                           else (let (result, st1) =
                                       (if rg_IntentFunnelEnabled cfg then decideIntentFunnel env input mode strategy cfg st
                                        else decideWithoutFunnel env input mode strategy cfg st)
                                 in (Inr result, st1)))))))"

text \<open>\<open>NewAgentRouterApp\<close>.\<close>

definition newRouter :: router_state where
  "newRouter = \<lparr>ra_cache = [], ra_candidates = []\<rparr>"

end
