(* ===== verification/App_Router_Properties.thy ===== *)
theory App_Router_Properties
  imports App_Router
begin

text \<open>
  The router: which routes it gives, what its caches hold, how an answer to a pending question fares, what the experiment
  serves and what the configuration reads when keys are missing.
\<close>

subsection \<open>The configuration\<close>

definition strategies :: "string set" where
  "strategies = {AgentDiagnosisStrategyPlan, AgentDiagnosisStrategyGoS}"

definition config_ok :: "router_config \<Rightarrow> bool" where
  "config_ok cfg \<longleftrightarrow> unitRange (rg_ConfidenceThreshold cfg) \<and> unitRange (rg_IntentFunnelAcceptThreshold cfg) \<and>
     rg_AllowedDiagnosisStrategies cfg \<noteq> [] \<and> set (rg_AllowedDiagnosisStrategies cfg) \<subseteq> strategies \<and>
     isAllowed cfg (rg_DefaultDiagnosisStrategy cfg)"

lemma diagnosisStrategy_in: "diagnosisStrategy raw = Some s \<Longrightarrow> s \<in> strategies"
  by (auto simp: diagnosisStrategy_def normalizeAgentDiagnosisStrategy_def strategies_def Let_def split: if_splits)

lemma allowedStrategies_in: "set (allowedStrategies raws) \<subseteq> strategies"
  using diagnosisStrategy_in by (fastforce simp: allowedStrategies_def split: option.splits)

lemma readValue_cases:
  "(\<And>v. conf key = Some v \<Longrightarrow> ok v \<Longrightarrow> P (get v)) \<Longrightarrow> P dflt \<Longrightarrow> P (readValue conf key ok get dflt)"
  by (simp add: readValue_def split: option.split)

lemma unit_default: "unitRange (rnd (75 / 100))"
proof -
  have "0 < rnd (75 / 100)" by code_simp
  then show ?thesis using rnd_le_1 [of "75 / 100"] by (simp add: unitRange_def)
qed

lemma config_loaded: "config_ok (LoadAgentRouterConfig tolower conf)"
proof -
  let ?c = "readRouterConfig tolower conf"
  have f: "unitRange (rg_ConfidenceThreshold ?c)" "unitRange (rg_IntentFunnelAcceptThreshold ?c)"
    using unit_default by (auto simp: readRouterConfig_def Let_def readValue_def split: option.split)
  have a: "rg_AllowedDiagnosisStrategies ?c \<noteq> []" "set (rg_AllowedDiagnosisStrategies ?c) \<subseteq> strategies"
    using allowedStrategies_in
    by (auto simp: readRouterConfig_def Let_def readValue_def strategies_def split: option.split)
  from f a show ?thesis
    by (cases "rg_AllowedDiagnosisStrategies ?c") (auto simp: LoadAgentRouterConfig_def config_ok_def Let_def isAllowed_def)
qed

subsection \<open>The funnel\<close>

text \<open>A route that is followed without asking: its decision is known and an incident is diagnosed by an allowed
  strategy.\<close>

definition known_route :: "router_config \<Rightarrow> route_result \<Rightarrow> bool" where
  "known_route cfg r \<longleftrightarrow>
     rr_Decision r \<in> set [AgentRouteDecisionChat, AgentRouteDecisionIncident, AgentRouteDecisionConfirm] \<and>
     (rr_Decision r = AgentRouteDecisionIncident \<longrightarrow> isAllowed cfg (rr_Strategy r))"

definition risky_query :: "router_env \<Rightarrow> router_config \<Rightarrow> string \<Rightarrow> bool" where
  "risky_query env cfg query \<longleftrightarrow>
     containsAny (re_lower env (trim_space query)) (rg_InjectionKeywords cfg) \<or>
     containsAny (re_lower env (trim_space query)) (rg_HighRiskActionKeywords cfg)"

definition sure_route :: "router_config \<Rightarrow> route_result \<Rightarrow> bool" where
  "sure_route cfg r \<longleftrightarrow>
     (rr_Decision r \<noteq> AgentRouteDecisionConfirm \<longrightarrow>
       rr_RiskHint r \<noteq> AgentRouteRiskHigh \<and> rg_IntentFunnelAcceptThreshold cfg \<le> rr_Confidence r \<and> rr_MissingSlots r = [])"

lemmas plain_routes = plainRoute_def confirmRoute_def

lemma finish_fields [simp]:
  "rr_Decision (finishFunnelResult r t s e) = rr_Decision r" "rr_Strategy (finishFunnelResult r t s e) = rr_Strategy r"
  "rr_RiskHint (finishFunnelResult r t s e) = rr_RiskHint r" "rr_Confidence (finishFunnelResult r t s e) = rr_Confidence r"
  "rr_MissingSlots (finishFunnelResult r t s e) = rr_MissingSlots r"
  by (simp_all add: finishFunnelResult_def)

lemma finish_known [simp]: "known_route cfg (finishFunnelResult r t s e) = known_route cfg r"
  "sure_route cfg (finishFunnelResult r t s e) = sure_route cfg r"
  by (simp_all add: known_route_def sure_route_def)


lemma confirm_decision [simp]: "rr_Decision (confirmRoute reason) = AgentRouteDecisionConfirm"
  by (simp add: plain_routes)

lemma clarify_confirms [simp]: "rr_Decision (newClarificationResult env input out cfg reason now) = AgentRouteDecisionConfirm"
  by (simp add: newClarificationResult_def Let_def plain_routes)

text \<open>Both, branch by branch.\<close>

definition ok_route :: "router_config \<Rightarrow> route_result \<Rightarrow> bool" where
  "ok_route cfg r \<longleftrightarrow> known_route cfg r \<and> sure_route cfg r"

lemma ok_finish [simp]: "ok_route cfg (finishFunnelResult r t s e) = ok_route cfg r"
  by (simp add: ok_route_def)

lemma ok_if: "(b \<Longrightarrow> ok_route cfg r) \<Longrightarrow> (\<not> b \<Longrightarrow> ok_route cfg r') \<Longrightarrow> ok_route cfg (if b then r else r')"
  by simp

lemma ok_confirm: "rr_Decision r = AgentRouteDecisionConfirm \<Longrightarrow> ok_route cfg r"
  by (simp add: ok_route_def known_route_def sure_route_def)

lemma ok_incident:
  "rr_RiskHint r \<noteq> AgentRouteRiskHigh \<Longrightarrow> rg_IntentFunnelAcceptThreshold cfg \<le> rr_Confidence r \<Longrightarrow> rr_MissingSlots r = [] \<Longrightarrow>
    ok_route cfg (incidentRoute cfg strategy recommended r)"
  by (simp add: ok_route_def known_route_def sure_route_def incidentRoute_def Let_def)

lemma ok_chat:
  "rr_RiskHint r \<noteq> AgentRouteRiskHigh \<Longrightarrow> rg_IntentFunnelAcceptThreshold cfg \<le> rr_Confidence r \<Longrightarrow> rr_MissingSlots r = [] \<Longrightarrow>
    ok_route cfg (r\<lparr>rr_Decision := AgentRouteDecisionChat\<rparr>)"
  by (simp add: ok_route_def known_route_def sure_route_def)

lemma candidate_known: "ok_route cfg (routeCandidateResult c out mode strategy cfg)"
  unfolding routeCandidateResult_def Let_def
  by (intro ok_if ok_incident ok_chat ok_confirm) (simp_all add: plain_routes)

lemma settle_known: "ok_route cfg (settle env input mode strategy cfg out c)"
  unfolding settle_def Let_def by (intro ok_if candidate_known ok_confirm clarify_confirms)

lemma choose_known: "ok_route cfg (chooseRoute env input mode strategy cfg out hit t)"
  using settle_known ok_confirm [OF clarify_confirms]
  by (simp add: chooseRoute_def Let_def split: prod.split)

lemma guard_known:
  assumes "applyDeterministicRouteGuard env input strategy cfg = Some r" "config_ok cfg"
  shows "ok_route cfg r"
    and "risky_query env cfg (ri_Query input) \<Longrightarrow> rr_Decision r = AgentRouteDecisionConfirm \<and> rr_RiskHint r = AgentRouteRiskHigh"
proof -
  have u: "rg_IntentFunnelAcceptThreshold cfg \<le> 1" using assms(2) by (simp add: config_ok_def unitRange_def)
  have risky: "rr_Decision r = AgentRouteDecisionConfirm \<and> rr_RiskHint r = AgentRouteRiskHigh" if "risky_query env cfg (ri_Query input)"
    using assms(1) that unfolding applyDeterministicRouteGuard_def Let_def risky_query_def by (auto simp: plain_routes split: if_split_asm)
  then show "risky_query env cfg (ri_Query input) \<Longrightarrow> rr_Decision r = AgentRouteDecisionConfirm \<and> rr_RiskHint r = AgentRouteRiskHigh" .
  show "ok_route cfg r"
  proof (cases "risky_query env cfg (ri_Query input)")
    case False
    with assms(1) u show ?thesis
      by (auto simp: applyDeterministicRouteGuard_def Let_def risky_query_def plain_routes ok_route_def known_route_def sure_route_def split: if_split_asm)
  qed (use risky ok_confirm in blast)
qed

lemma guard_catches: "risky_query env cfg (ri_Query input) \<Longrightarrow> applyDeterministicRouteGuard env input strategy cfg \<noteq> None"
  by (auto simp: applyDeterministicRouteGuard_def risky_query_def Let_def)

lemma funnel_known:
  assumes "decideIntentFunnel env input mode strategy cfg st = (r, st')" "config_ok cfg"
  shows "ok_route cfg r"
    and "risky_query env cfg (ri_Query input) \<Longrightarrow> rr_Decision r = AgentRouteDecisionConfirm \<and> rr_RiskHint r = AgentRouteRiskHigh \<and> st' = st"
proof -
  show "ok_route cfg r"
  proof (cases "applyDeterministicRouteGuard env input strategy cfg")
    case (Some g)
    with assms(1) have "\<exists>t. r = finishFunnelResult g t (re_now env 0) (re_now env 12)"
      by (auto simp: decideIntentFunnel_def Let_def)
    with guard_known(1) [OF Some assms(2)] show ?thesis by auto
  next
    case None
    obtain c st1 where "classify env cfg (ri_Query input) st = (c, st1)" by fastforce
    with assms(1) None show ?thesis
      by (cases c) (auto simp: decideIntentFunnel_def Let_def choose_known ok_confirm)
  qed
  assume risky: "risky_query env cfg (ri_Query input)"
  from guard_catches [OF this] obtain g where g: "applyDeterministicRouteGuard env input strategy cfg = Some g" by blast
  with assms(1) guard_known(2) [OF g assms(2) risky]
  show "rr_Decision r = AgentRouteDecisionConfirm \<and> rr_RiskHint r = AgentRouteRiskHigh \<and> st' = st"
    by (auto simp: decideIntentFunnel_def Let_def)
qed

subsection \<open>Deciding\<close>

text \<open>A route of the router without the funnel: known, and confident unless it is a confirmation.\<close>

definition firm_route :: "router_config \<Rightarrow> route_result \<Rightarrow> bool" where
  "firm_route cfg r \<longleftrightarrow> known_route cfg r \<and> (rr_Decision r \<noteq> AgentRouteDecisionConfirm \<longrightarrow> rg_ConfidenceThreshold cfg \<le> rr_Confidence r)"

lemma firm_confirm: "rr_Decision r = AgentRouteDecisionConfirm \<Longrightarrow> firm_route cfg r"
  by (simp add: firm_route_def known_route_def)

lemma firm_if: "(b \<Longrightarrow> firm_route cfg r) \<Longrightarrow> (\<not> b \<Longrightarrow> firm_route cfg r') \<Longrightarrow> firm_route cfg (if b then r else r')"
  by simp

lemma firm_plain:
  "rg_ConfidenceThreshold cfg \<le> c \<Longrightarrow> isAllowed cfg s \<Longrightarrow> firm_route cfg ((plainRoute AgentRouteDecisionIncident c reason source)\<lparr>rr_Strategy := s\<rparr>)"
  "rg_ConfidenceThreshold cfg \<le> c \<Longrightarrow> firm_route cfg ((plainRoute AgentRouteDecisionChat c reason source)\<lparr>rr_Strategy := s\<rparr>)"
  by (simp_all add: firm_route_def known_route_def plainRoute_def)

lemma model_firm: "firm_route cfg (modelRoute cfg mode strategy out)"
  unfolding modelRoute_def Let_def
  by (intro firm_if firm_plain firm_confirm) (simp_all add: plain_routes)

lemma keyword_firm: "keywordRoute env cfg query strategy = Some r \<Longrightarrow> config_ok cfg \<Longrightarrow> firm_route cfg r"
  by (auto simp: keywordRoute_def Let_def config_ok_def unitRange_def firm_confirm firm_plain split: if_split_asm)

subsection \<open>The caches\<close>

text \<open>The configuration is loaded anew at every call. What the caches hold after calls with the configurations \<open>cfgs\<close>: no
  key twice, never more entries than the largest of them allows, and only routes that are no confirmations and were firm
  for one of them, one without the funnel.\<close>

fun roomFor :: "router_config list \<Rightarrow> int" where
  "roomFor [] = 0"
| "roomFor (cfg # cfgs) = max (rg_RouteCacheMaxEntries cfg) (roomFor cfgs)"

definition cached_ok :: "router_config list \<Rightarrow> route_result \<Rightarrow> bool" where
  "cached_ok cfgs r \<longleftrightarrow> rr_Decision r \<noteq> AgentRouteDecisionConfirm \<and>
     (\<exists>cfg\<in>set cfgs. \<not> rg_IntentFunnelEnabled cfg \<and> firm_route cfg r)"

definition caches_ok :: "router_config list \<Rightarrow> router_state \<Rightarrow> bool" where
  "caches_ok cfgs st \<longleftrightarrow>
     gm_ok (ra_cache st) \<and> gm_ok (ra_candidates st) \<and>
     int (length (ra_cache st)) \<le> roomFor cfgs \<and> int (length (ra_candidates st)) \<le> roomFor cfgs \<and>
     (\<forall>(k, r, e)\<in>set (ra_cache st). cached_ok cfgs r)"

lemma roomFor_nonneg [simp]: "0 \<le> roomFor cfgs"
  by (induction cfgs) auto

lemma roomFor_member: "cfg \<in> set cfgs \<Longrightarrow> rg_RouteCacheMaxEntries cfg \<le> roomFor cfgs"
  by (induction cfgs) auto

lemma caches_more: "caches_ok cfgs st \<Longrightarrow> caches_ok (cfg # cfgs) st"
  by (fastforce simp: caches_ok_def cached_ok_def)

lemma evicted: "set (evictOne pick n key m) \<subseteq> set m" "gm_ok m \<Longrightarrow> gm_ok (evictOne pick n key m)"
  by (auto simp: evictOne_def AList.delete_eq) (simp add: AList.delete_eq [symmetric])

lemma evict_deletes:
  assumes "m \<noteq> []"
  shows "length (gm_del (map fst m ! (pick (map fst m) mod length m)) m) < length m"
proof -
  from assms have "map fst m ! (pick (map fst m) mod length m) \<in> set (map fst m)"
    by (metis length_greater_0_conv length_map mod_less_divisor nth_mem)
  then show ?thesis by (auto simp: AList.delete_eq intro: length_filter_less)
qed

lemma evict_room:
  assumes "int (length m) \<le> room" "n \<le> room" "0 < n"
  shows "int (length (gm_put key v (evictOne pick n key m))) \<le> room"
proof (cases "gm_get m key")
  case None
  then have "int (length (evictOne pick n key m)) < room"
    using evict_deletes [of m pick] assms by (cases "m = []") (auto simp: evictOne_def)
  then show ?thesis by (simp add: length_put)
next
  case (Some w)
  then show ?thesis using assms(1) by (simp add: evictOne_def length_put)
qed

lemma caches_start: "caches_ok cfgs newRouter"
  by (simp add: caches_ok_def newRouter_def)

lemma load_route_ok:
  assumes "loadCachedRoute env now cfg input st = (cached, st')" "caches_ok cfgs st"
  shows "caches_ok cfgs st'" "cached = Some r \<Longrightarrow> cached_ok cfgs r \<and> rr_Source r = ''cache''"
proof -
  have "caches_ok cfgs (st\<lparr>ra_cache := gm_del k (ra_cache st)\<rparr>)" for k
    using assms(2) length_delete_le [of k "ra_cache st"] by (auto simp: caches_ok_def) (auto simp: AList.delete_eq)
  with assms show "caches_ok cfgs st'"
    by (auto simp: loadCachedRoute_def Let_def split: if_split_asm option.splits)
  assume "cached = Some r"
  with assms(1) obtain r0 e where r: "(routeCacheKey env input, r0, e) \<in> set (ra_cache st)" "r = r0\<lparr>rr_Source := ''cache''\<rparr>"
    by (auto simp: loadCachedRoute_def Let_def dest: map_of_SomeD split: if_split_asm option.splits)
  with assms(2) have "cached_ok cfgs r0" by (auto simp: caches_ok_def)
  with r(2) show "cached_ok cfgs r \<and> rr_Source r = ''cache''" by (auto simp: cached_ok_def firm_route_def known_route_def)
qed

lemma cache_route_ok:
  assumes "caches_ok cfgs st" "firm_route cfg r" "cfg \<in> set cfgs" "\<not> rg_IntentFunnelEnabled cfg"
  shows "caches_ok cfgs (cacheRoute env now cfg input r st)"
proof (cases "cachingOff cfg \<or> rr_Decision r = AgentRouteDecisionConfirm \<or> rr_Degraded r \<or> rr_Clarification r \<noteq> None \<or> rr_RiskHint r = AgentRouteRiskHigh")
  case False
  define live where "live = filter (\<lambda>(k, r, expiresAt). expiresAt > now) (ra_cache st)"
  define n where "n = rg_RouteCacheMaxEntries cfg"
  define m where "m = evictOne (re_pick env) n (routeCacheKey env input) live"
  have n: "0 < n" using False by (simp add: cachingOff_def n_def)
  have "length live \<le> length (ra_cache st)" by (simp add: live_def)
  with assms(1) have len: "int (length live) \<le> roomFor cfgs" by (simp add: caches_ok_def)
  have "gm_ok live" using assms(1) by (auto simp: live_def caches_ok_def gm_ok_def distinct_map_filter)
  then have ok: "gm_ok m" unfolding m_def by (rule evicted(2))
  have "set m \<subseteq> set (ra_cache st)" using evicted(1) [of "re_pick env" n "routeCacheKey env input" live] by (auto simp: m_def live_def)
  moreover have "cached_ok cfgs r" using assms(2-4) False by (auto simp: cached_ok_def)
  ultimately have "\<forall>(k, r', e)\<in>set (gm_put (routeCacheKey env input) (r, now + rg_RouteCacheTTL cfg) m). cached_ok cfgs r'"
    using assms(1) set_put_subset [of "routeCacheKey env input" "(r, now + rg_RouteCacheTTL cfg)" m] by (fastforce simp: caches_ok_def)
  moreover have "cacheRoute env now cfg input r st = st\<lparr>ra_cache := gm_put (routeCacheKey env input) (r, now + rg_RouteCacheTTL cfg) m\<rparr>"
    using False by (simp add: cacheRoute_def Let_def live_def n_def m_def)
  moreover have "int (length (gm_put (routeCacheKey env input) (r, now + rg_RouteCacheTTL cfg) m)) \<le> roomFor cfgs"
    unfolding m_def using evict_room [OF len _ n] roomFor_member [OF assms(3)] by (simp add: n_def)
  ultimately show ?thesis using ok assms(1) by (simp add: caches_ok_def)
next
  case True
  then show ?thesis using assms(1) by (auto simp: cacheRoute_def)
qed

lemma load_candidates_ok:
  assumes "loadCandidateCache env now cfg query st = (hit, st')" "caches_ok cfgs st"
  shows "caches_ok cfgs st'"
proof -
  have "caches_ok cfgs (st\<lparr>ra_candidates := gm_del k (ra_candidates st)\<rparr>)" for k
    using assms(2) length_delete_le [of k "ra_candidates st"] by (auto simp: caches_ok_def)
  with assms show ?thesis
    by (auto simp: loadCandidateCache_def Let_def split: if_split_asm option.splits)
qed

lemma cache_candidates_ok:
  assumes ok: "caches_ok cfgs st" and c: "cfg \<in> set cfgs"
  shows "caches_ok cfgs (cacheCandidates env now cfg query out st)"
proof (cases "cachingOff cfg \<or> fo_RiskHint out = AgentRouteRiskHigh")
  case False
  from False have n: "0 < rg_RouteCacheMaxEntries cfg" by (simp add: cachingOff_def)
  from ok have len: "int (length (ra_candidates st)) \<le> roomFor cfgs" by (simp add: caches_ok_def)
  from False ok evict_room [OF len roomFor_member [OF c] n] show ?thesis by (simp add: cacheCandidates_def caches_ok_def Let_def evicted(2))
qed (simp add: cacheCandidates_def ok)

lemma funnel_caches:
  assumes "decideIntentFunnel env input mode strategy cfg st = (r, st')" "caches_ok cfgs st" "cfg \<in> set cfgs"
  shows "caches_ok cfgs st'"
proof (cases "applyDeterministicRouteGuard env input strategy cfg")
  case None
  obtain hit st1 where l: "loadCandidateCache env (re_now env 4) cfg (ri_Query input) st = (hit, st1)" by fastforce
  note ok1 = load_candidates_ok [OF l assms(2)]
  obtain c st2 where c: "classify env cfg (ri_Query input) st = (c, st2)" by fastforce
  with l ok1 have "caches_ok cfgs st2"
    by (auto simp: classify_def cache_candidates_ok assms(3) split: option.splits)
  moreover have "st' = st2" using assms(1) None c by (cases c) (auto simp: decideIntentFunnel_def Let_def)
  ultimately show ?thesis by simp
qed (use assms in \<open>auto simp: decideIntentFunnel_def Let_def\<close>)

lemma classifier_ok:
  assumes "classifierRoute env input mode strategy cfg st = (r, st')" "caches_ok cfgs st" "cfg \<in> set cfgs" "\<not> rg_IntentFunnelEnabled cfg"
  shows "firm_route cfg r" "caches_ok cfgs st'"
  using assms model_firm firm_confirm [OF confirm_decision] cache_route_ok
  by (auto simp: classifierRoute_def Let_def split: option.splits if_split_asm)

text \<open>A route is firm for the configuration of the call, or it comes from the cache.\<close>

lemma without_funnel_ok:
  assumes "decideWithoutFunnel env input mode strategy cfg st = (r, st')" "caches_ok cfgs st" "config_ok cfg"
    and new: "cfg \<in> set cfgs" "\<not> rg_IntentFunnelEnabled cfg"
  shows "(firm_route cfg r \<or> rr_Source r = ''cache'' \<and> (\<forall>cs. caches_ok cs st \<longrightarrow> cached_ok cs r)) \<and> caches_ok cfgs st'"
proof (cases "mode = AgentRouteModeAuto")
  case True
  obtain cached st1 where l: "loadCachedRoute env (re_now env 0) cfg input st = (cached, st1)" by fastforce
  note ok = load_route_ok(1) [OF l assms(2)]
  show ?thesis
  proof (cases cached)
    case None
    show ?thesis
    proof (cases "keywordRoute env cfg (ri_Query input) strategy")
      case (Some k)
      from keyword_firm [OF this assms(3)] have "firm_route cfg k" .
      with ok assms(1) True l None Some show ?thesis by (auto simp: decideWithoutFunnel_def intro: cache_route_ok [OF _ _ new])
    qed (use ok assms(1) True l None classifier_ok [OF _ _ new] in \<open>auto simp: decideWithoutFunnel_def\<close>)
  next
    case (Some c)
    with assms(1) True l have "c = r" "st1 = st'" by (simp_all add: decideWithoutFunnel_def)
    moreover have "cached_ok cs c \<and> rr_Source c = ''cache''" if "caches_ok cs st" for cs
      using load_route_ok(2) [OF l that Some] .
    ultimately show ?thesis using ok assms(2) by blast
  qed
qed (use assms(1,2) classifier_ok [OF _ _ new] in \<open>auto simp: decideWithoutFunnel_def\<close>)

lemma manual_known: "manualRoute cfg mode strategy = Some (Inr r) \<Longrightarrow> known_route cfg r \<and> rr_Source r = ''manual''"
  by (auto simp: manualRoute_def known_route_def plainRoute_def split: if_split_asm)

subsection \<open>Every route\<close>

text \<open>The calls of a router, with the configurations they have loaded, the latest first.\<close>

inductive router_run :: "router_config list \<Rightarrow> router_state \<Rightarrow> bool" where
  started: "router_run [] newRouter"
| decided: "router_run (LoadAgentRouterConfig tolower conf # cfgs) (snd (Decide env (LoadAgentRouterConfig tolower conf) input st))"
    if "router_run cfgs st"

text \<open>A call that is answered is answered by the caller's choice, by a confirmation that the router is off, or by one of
  the two ways to decide.\<close>

lemma decide_cases:
  assumes "Decide env cfg input0 st = (Inr r, st')"
  obtains "rr_Source r = ''manual''" "known_route cfg r" "st' = st"
  | "rr_Decision r = AgentRouteDecisionConfirm" "st' = st" "\<not> rg_Enabled cfg"
  | input mode strategy where "input0 = Some input" "rg_IntentFunnelEnabled cfg" "decideIntentFunnel env input mode strategy cfg st = (r, st')"
  | input mode strategy where "input0 = Some input" "\<not> rg_IntentFunnelEnabled cfg" "decideWithoutFunnel env input mode strategy cfg st = (r, st')"
proof -
  from assms obtain input mode strategy where i: "input0 = Some input" "trim_space (ri_Query input) \<noteq> []"
      "normalizeAgentRouteMode (ri_RouteMode input) = Inr mode" "normalizeAgentDiagnosisStrategy (ri_DiagnosisStrategy input) = Inr strategy"
    by (auto simp: Decide_def split: option.splits if_split_asm sum.splits)
  show thesis
  proof (cases "manualRoute cfg mode strategy")
    case (Some answer)
    with assms i manual_known [of cfg mode strategy r] show thesis by (intro that(1)) (auto simp: Decide_def)
  next
    case None
    show thesis
    proof (cases "rg_Enabled cfg")
      case True
      with assms i None that(3,4) show thesis by (auto simp: Decide_def split: prod.splits if_split_asm)
    qed (use assms i None that(2) in \<open>auto simp: Decide_def\<close>)
  qed
qed

lemma decide_caches:
  assumes "caches_ok cfgs st" "config_ok cfg" "cfg \<in> set cfgs"
  shows "caches_ok cfgs (snd (Decide env cfg input st))"
proof (cases "fst (Decide env cfg input st)")
  case (Inl e)
  then have "snd (Decide env cfg input st) = st"
    by (auto simp: Decide_def split: option.splits if_split_asm sum.splits prod.splits)
  with assms(1) show ?thesis by simp
next
  case (Inr r)
  then obtain st' where d: "Decide env cfg input st = (Inr r, st')" by (metis prod.collapse)
  from d show ?thesis
  proof (rule decide_cases)
    fix i mode strategy
    assume "\<not> rg_IntentFunnelEnabled cfg" "decideWithoutFunnel env i mode strategy cfg st = (r, st')"
    with without_funnel_ok [OF _ assms] d show ?thesis by simp
  qed (use d assms funnel_caches in auto)
qed

lemma run_caches: "router_run cfgs st \<Longrightarrow> caches_ok cfgs st"
proof (induction rule: router_run.induct)
  case (decided cfgs st tolower conf env input)
  show ?case by (rule decide_caches [OF caches_more [OF decided.IH] config_loaded]) simp
qed (rule caches_start)

text \<open>What a configuration asks of a route that is given under it.\<close>

definition route_allowed :: "router_config \<Rightarrow> route_result \<Rightarrow> bool" where
  "route_allowed cfg r \<longleftrightarrow>
     (rr_Decision r = AgentRouteDecisionIncident \<longrightarrow> isAllowed cfg (rr_Strategy r)) \<and>
     (rr_Decision r \<noteq> AgentRouteDecisionConfirm \<and> rr_Source r \<noteq> ''manual'' \<longrightarrow>
       (if rg_IntentFunnelEnabled cfg
        then rg_IntentFunnelAcceptThreshold cfg \<le> rr_Confidence r \<and> rr_RiskHint r \<noteq> AgentRouteRiskHigh \<and> rr_MissingSlots r = []
        else rg_ConfidenceThreshold cfg \<le> rr_Confidence r))"

lemma firm_allowed: "firm_route cfg r \<Longrightarrow> \<not> rg_IntentFunnelEnabled cfg \<Longrightarrow> route_allowed cfg r"
  by (simp add: firm_route_def known_route_def route_allowed_def)

lemma known_decision: "known_route cfg r \<Longrightarrow> rr_Decision r \<in> {AgentRouteDecisionChat, AgentRouteDecisionIncident, AgentRouteDecisionConfirm}"
  by (simp add: known_route_def)

text \<open>C13: the router never guesses. After any calls, each with the configuration it loads, a route is a chat, an incident or
  a confirmation, and it is one the configuration of its call allows, or it comes from the cache of routes and is no
  confirmation and one that the configuration of an earlier call allows. A configuration allows a route if an incident
  goes to a strategy that is allowed; if a route that the caller did not fix is followed without confirmation only with
  the confidence that is configured; and, with the funnel on, only if its risk is not high and nothing is missing. The
  cache answers only when the funnel is off.\<close>

theorem routes_sound:
  fixes tolower :: "string \<Rightarrow> string" and conf :: config_source
  defines "cfg \<equiv> LoadAgentRouterConfig tolower conf"
  assumes "router_run cfgs st" and "Decide env cfg input st = (Inr r, st')"
  shows "rr_Decision r \<in> {AgentRouteDecisionChat, AgentRouteDecisionIncident, AgentRouteDecisionConfirm} \<and>
    (route_allowed cfg r \<or>
     rr_Source r = ''cache'' \<and> \<not> rg_IntentFunnelEnabled cfg \<and> rr_Decision r \<noteq> AgentRouteDecisionConfirm \<and>
       (\<exists>earlier\<in>set cfgs. \<not> rg_IntentFunnelEnabled earlier \<and> route_allowed earlier r))"
proof -
  have ok: "config_ok cfg" unfolding cfg_def by (rule config_loaded)
  note caches = run_caches [OF assms(2)]
  from assms(3) show ?thesis
  proof (rule decide_cases)
    fix input mode strategy
    assume "rg_IntentFunnelEnabled cfg" "decideIntentFunnel env input mode strategy cfg st = (r, st')"
    then have "ok_route cfg r" "rg_IntentFunnelEnabled cfg" using funnel_known(1) [OF _ ok] by blast+
    then show ?thesis using known_decision by (auto simp: ok_route_def known_route_def sure_route_def route_allowed_def)
  next
    fix input mode strategy
    assume off: "\<not> rg_IntentFunnelEnabled cfg" and d: "decideWithoutFunnel env input mode strategy cfg st = (r, st')"
    from without_funnel_ok [OF d caches_more [OF caches, of cfg] ok _ off]
    consider "firm_route cfg r" | "rr_Source r = ''cache''" "cached_ok cfgs r" using caches by auto
    then show ?thesis
    proof cases
      case 1
      with firm_allowed [OF 1 off] known_decision show ?thesis by (auto simp: firm_route_def)
    next
      case 2
      then obtain earlier where e: "earlier \<in> set cfgs" "\<not> rg_IntentFunnelEnabled earlier" "firm_route earlier r"
        and n: "rr_Decision r \<noteq> AgentRouteDecisionConfirm" by (auto simp: cached_ok_def)
      have "known_route earlier r" using e(3) by (simp add: firm_route_def)
      with firm_allowed [OF e(3,2)] e(1,2) n 2(1) off known_decision show ?thesis by blast
    qed
  qed (auto simp: known_route_def route_allowed_def)
qed

text \<open>the caches are bounded. After any calls, neither cache holds more entries than the largest of the loaded
  configurations allows, no key stands in one twice, and no cached route is a confirmation.\<close>

theorem caches_bounded:
  assumes "router_run cfgs st"
  shows "int (length (ra_cache st)) \<le> roomFor cfgs \<and> int (length (ra_candidates st)) \<le> roomFor cfgs \<and>
    gm_ok (ra_cache st) \<and> gm_ok (ra_candidates st) \<and>
    list_all (\<lambda>(k, r, e). rr_Decision r \<noteq> AgentRouteDecisionConfirm) (ra_cache st)"
  using run_caches [OF assms] by (fastforce simp: caches_ok_def cached_ok_def list_all_iff)

text \<open>C14: a risky query is never routed. With the router and the funnel on, a query that holds a word of the injection or of the high-risk
  list ends with a confirmation of high risk, whatever the classifier, the caches and the state of the conversation say,
  and neither cache changes, unless the caller has fixed the route.\<close>

theorem risky_query_confirmed:
  fixes tolower :: "string \<Rightarrow> string" and conf :: config_source
  defines "cfg \<equiv> LoadAgentRouterConfig tolower conf"
  assumes "Decide env cfg (Some input) st = (Inr r, st')" "rg_IntentFunnelEnabled cfg" "rg_Enabled cfg" "rr_Source r \<noteq> ''manual''"
    and "containsAny (re_lower env (trim_space (ri_Query input))) (rg_InjectionKeywords cfg @ rg_HighRiskActionKeywords cfg)"
  shows "rr_Decision r = AgentRouteDecisionConfirm \<and> rr_RiskHint r = AgentRouteRiskHigh \<and> st' = st"
proof -
  have ok: "config_ok cfg" unfolding cfg_def by (rule config_loaded)
  have risky: "risky_query env cfg (ri_Query input)" using assms(6) by (simp add: risky_query_def containsAny_def)
  from assms(2) show ?thesis
  proof (rule decide_cases)
    fix i mode strategy
    assume "Some input = Some i" "decideIntentFunnel env i mode strategy cfg st = (r, st')"
    with funnel_known(2) [OF _ ok] risky show ?thesis by auto
  qed (use assms(3-5) in auto)
qed

subsection \<open>An answer to a pending question\<close>

lemma pending_choice:
  assumes "ri_RoutingContext input = Some sn" "sn_StateVersion sn \<noteq> []" "sn_UpdatedAt sn = Some t" "sn_PendingSlots sn \<noteq> []"
    and "\<not> rg_IntentFunnelContextTTL cfg > 0 \<or> time_sub (re_now env 13) t \<le> rg_IntentFunnelContextTTL cfg"
    and "length (runes (trim_space (ri_Query input))) \<le> 12" "\<not> hasExplicitTopicSwitch (re_lower env) (ri_Query input)"
  shows "rr_Decision (chooseRoute env input mode strategy cfg out hit trace) = AgentRouteDecisionConfirm"
proof -
  have "isEllipticalQuery (re_lower env) (ri_Query input)" using assms(6) by (simp add: isEllipticalQuery_def)
  then have "selectCandidateWithContext (re_lower env) (ri_Query input) cands (Some sn) (rg_IntentFunnelContextTTL cfg) (re_now env 13) =
      (hd cands, True, ''pending_slot_answer'')" for cands
    using assms(2-5,7) by (auto simp: selectCandidateWithContext_def Let_def)
  then show ?thesis by (simp add: chooseRoute_def Let_def assms(1))
qed

lemma guard_plain:
  assumes "applyDeterministicRouteGuard env input strategy cfg = Some r" "\<not> risky_query env cfg (ri_Query input)"
  shows "matchesHighConfidenceKeyword (re_lower env) cfg (re_lower env (trim_space (ri_Query input)))"
  using assms by (auto simp: applyDeterministicRouteGuard_def risky_query_def Let_def split: if_split_asm)

text \<open>C37: a short answer is not taken. With the funnel on, when the state of the conversation is fresh and has a pending
  slot, a query of at most twelve characters, which is what an answer to the question looks like, ends with a
  confirmation whatever the classifier and the caches say, unless the caller has fixed the route, the query holds a
  high-confidence word of an incident, or it names a switch of topic: the choice marks it as an answer, and every mark
  but a switch of topic asks for another clarification.\<close>

theorem pending_answer_asked_again:
  fixes tolower :: "string \<Rightarrow> string" and conf :: config_source
  defines "cfg \<equiv> LoadAgentRouterConfig tolower conf"
  assumes "Decide env cfg (Some input) st = (Inr r, st')" "rg_IntentFunnelEnabled cfg" "rr_Source r \<noteq> ''manual''"
    and "\<not> matchesHighConfidenceKeyword (re_lower env) cfg (re_lower env (trim_space (ri_Query input)))"
    and "ri_RoutingContext input = Some sn" "sn_StateVersion sn \<noteq> []" "sn_UpdatedAt sn = Some t" "sn_PendingSlots sn \<noteq> []"
    and "\<not> rg_IntentFunnelContextTTL cfg > 0 \<or> time_sub (re_now env 13) t \<le> rg_IntentFunnelContextTTL cfg"
    and "length (runes (trim_space (ri_Query input))) \<le> 12" "\<not> hasExplicitTopicSwitch (re_lower env) (ri_Query input)"
  shows "rr_Decision r = AgentRouteDecisionConfirm"
proof -
  have ok: "config_ok cfg" unfolding cfg_def by (rule config_loaded)
  note choice = pending_choice [OF assms(6-12)]
  from assms(2) show ?thesis
  proof (rule decide_cases)
    fix i mode strategy
    assume "Some input = Some i" "decideIntentFunnel env i mode strategy cfg st = (r, st')"
    then have d: "decideIntentFunnel env input mode strategy cfg st = (r, st')" by simp
    show ?thesis
    proof (cases "risky_query env cfg (ri_Query input)")
      case True
      with funnel_known(2) [OF d ok] show ?thesis by blast
    next
      case False
      with guard_plain assms(5) have g: "applyDeterministicRouteGuard env input strategy cfg = None" by fastforce
      obtain c st1 where c: "classify env cfg (ri_Query input) st = (c, st1)" by fastforce
      show ?thesis
      proof (cases c)
        case (Candidates out hit)
        with d g c have "\<exists>trace. r = chooseRoute env input mode strategy cfg out hit trace"
          by (auto simp: decideIntentFunnel_def Let_def)
        with choice show ?thesis by auto
      qed (use d g c in \<open>auto simp: decideIntentFunnel_def Let_def\<close>)
    qed
  qed (use assms(3,4) in auto)
qed

subsection \<open>Missing keys\<close>

text \<open>Zero replaces a default. A key that is missing reads as 0, and where 0 is accepted it replaces the default of the
  code; the defaults hold only where the configuration answers an error.\<close>

theorem missing_keys_zero:
  "(let cfg = LoadAgentRouterConfig tolower (\<lambda>key. Some nilValue) in
     rg_RouteCacheTTL cfg = 0 \<and> rg_RouteCacheMaxEntries cfg = 0 \<and> rg_IntentFunnelMarginThreshold cfg = 0 \<and>
     rg_IntentFunnelContextTTL cfg = 0 \<and> rg_IntentFunnelMaxClarifications cfg = 0 \<and> xc_MaxErrorRate (rg_Experiment cfg) = 0) \<and>
   (let cfg = LoadAgentRouterConfig tolower (\<lambda>key. None) in
     rg_RouteCacheTTL cfg = 5 * 60 * second \<and> rg_RouteCacheMaxEntries cfg = 256 \<and> rg_IntentFunnelMarginThreshold cfg = rnd (15 / 100) \<and>
     rg_IntentFunnelContextTTL cfg = 15 * 60 * second \<and> rg_IntentFunnelMaxClarifications cfg = 1)"
  by (simp add: LoadAgentRouterConfig_def readRouterConfig_def readValue_def loadExperiment_def Normalize_def nilValue_def Let_def
      isAllowed_def wrap64_def diagnosisStrategy_def normalizeAgentDiagnosisStrategy_def allowedStrategies_def second_def)

subsection \<open>The experiment\<close>

text \<open>who is served the new route. It is served only when the experiment is on and no shadow is run, never to an excluded
  request, and a request that is served it keeps it when the percentage grows: the bucket of a key does not depend on the
  configuration's percentage.\<close>

theorem experiment_served:
  assumes "xa_ServedVariant (AssignRouteExperiment hmac hashKey cfg key risk ood) = RouteExperimentB" and "xc_RolloutPercent cfg \<le> percent"
  shows "xc_Enabled cfg \<and> \<not> xc_ShadowEnabled cfg \<and> xc_RolloutStage cfg \<noteq> ''shadow'' \<and> xc_RolloutStage cfg \<noteq> ''off'' \<and>
      (xc_HighRiskExcluded cfg \<longrightarrow> risk \<noteq> AgentRouteRiskHigh) \<and> (xc_OODExcluded cfg \<longrightarrow> \<not> ood) \<and>
      xa_ServedVariant (AssignRouteExperiment hmac hashKey (cfg\<lparr>xc_RolloutPercent := percent\<rparr>) key risk ood) = RouteExperimentB"
  using assms by (auto simp: AssignRouteExperiment_def Let_def Normalize_def split: if_split_asm)

subsection \<open>Examples\<close>

definition demo_router :: router_env where
  "demo_router = \<lparr>re_lower = (\<lambda>s. s), re_sha256 = (\<lambda>s. s), re_snapshotJSON = (\<lambda>sn. []), re_decode = (\<lambda>s. None),
     re_generate = (\<lambda>q. None), re_now = (\<lambda>n. 0), re_pick = (\<lambda>ks. 0)\<rparr>"

definition demo_query :: "routing_snapshot option \<Rightarrow> string \<Rightarrow> route_input" where
  "demo_query sn q = \<lparr>ri_Query = q, ri_RouteMode = [], ri_DiagnosisStrategy = [], ri_RoutingContext = sn, ri_Clarification = None,
     ri_AssignmentKey = []\<rparr>"

text \<open>A configuration with one key.\<close>

definition demo_conf :: "string \<Rightarrow> config_value \<Rightarrow> config_source" where
  "demo_conf key v k = (if k = key then Some v else None)"

lemma trim_words [simp]: "trim_space ''down'' = ''down''" "trim_space ''restart'' = ''restart''"
  by code_simp+

theorem routes_sound_witness:
  "\<exists>r st'. Decide demo_router (LoadAgentRouterConfig (\<lambda>s. s)
       (demo_conf ''agent_router.high_confidence_incident_keywords'' (nilValue\<lparr>cv_Strings := [''down'']\<rparr>)))
       (Some (demo_query None ''down'')) newRouter = (Inr r, st') \<and>
     rr_Decision r = AgentRouteDecisionIncident \<and> isAllowed (LoadAgentRouterConfig (\<lambda>s. s)
       (demo_conf ''agent_router.high_confidence_incident_keywords'' (nilValue\<lparr>cv_Strings := [''down'']\<rparr>))) (rr_Strategy r)"
proof -
  let ?conf = "demo_conf ''agent_router.high_confidence_incident_keywords'' (nilValue\<lparr>cv_Strings := [''down'']\<rparr>)"
  let ?cfg = "LoadAgentRouterConfig (\<lambda>s. s) ?conf"
  have c: "rg_Enabled ?cfg" "\<not> rg_IntentFunnelEnabled ?cfg" "rg_HighConfidenceKeywords ?cfg = [''down'']"
    "rg_DefaultDiagnosisStrategy ?cfg = AgentDiagnosisStrategyPlan" "isAllowed ?cfg AgentDiagnosisStrategyPlan"
    by (simp_all add: LoadAgentRouterConfig_def readRouterConfig_def readValue_def readSwitch_def demo_conf_def Let_def isAllowed_def nilValue_def)
  have m: "manualRoute ?cfg AgentRouteModeAuto AgentDiagnosisStrategyAuto = None" by (simp add: manualRoute_def)
  have l: "loadCachedRoute env now cfg input newRouter = (None, newRouter)" for env now cfg input
    by (simp add: loadCachedRoute_def newRouter_def Let_def)
  obtain r st' where d: "Decide demo_router ?cfg (Some (demo_query None ''down'')) newRouter = (Inr r, st')"
    and i: "rr_Decision r = AgentRouteDecisionIncident"
    by (simp add: Decide_def demo_query_def normalizeAgentRouteMode_def normalizeAgentDiagnosisStrategy_def m c decideWithoutFunnel_def l
        keywordRoute_def matchesHighConfidenceKeyword_def demo_router_def plainRoute_def)
  from routes_sound [OF router_run.started d] d i show ?thesis by (auto simp: route_allowed_def)
qed

definition demo_guarded :: config_source where
  "demo_guarded key = Some (nilValue\<lparr>cv_IsNil := False, cv_Bool := True, cv_Strings := [''restart'']\<rparr>)"

theorem risky_query_confirmed_witness:
  "\<exists>r. Decide demo_router (LoadAgentRouterConfig (\<lambda>s. s) demo_guarded) (Some (demo_query None ''restart'')) newRouter = (Inr r, newRouter) \<and>
     rr_Decision r = AgentRouteDecisionConfirm \<and> rr_RiskHint r = AgentRouteRiskHigh"
proof -
  let ?cfg = "LoadAgentRouterConfig (\<lambda>s. s) demo_guarded"
  have c: "rg_Enabled ?cfg" "rg_IntentFunnelEnabled ?cfg" "rg_InjectionKeywords ?cfg = [''restart'']"
    by (simp_all add: LoadAgentRouterConfig_def readRouterConfig_def readValue_def readSwitch_def demo_guarded_def Let_def isAllowed_def
        nilValue_def normalizedKeywords_def allowedStrategies_def diagnosisStrategy_def normalizeAgentDiagnosisStrategy_def)
  have m: "manualRoute ?cfg AgentRouteModeAuto AgentDiagnosisStrategyAuto = None" by (simp add: manualRoute_def)
  obtain g where g: "applyDeterministicRouteGuard demo_router (demo_query None ''restart'') AgentDiagnosisStrategyAuto ?cfg = Some g"
    "rr_Source g = ''funnel.layer1.safety''"
    by (simp add: applyDeterministicRouteGuard_def demo_router_def demo_query_def c containsAny_def)
  obtain r st' where d: "Decide demo_router ?cfg (Some (demo_query None ''restart'')) newRouter = (Inr r, st')"
    and s: "rr_Source r \<noteq> ''manual''"
    using g by (simp add: Decide_def demo_query_def normalizeAgentRouteMode_def normalizeAgentDiagnosisStrategy_def m c
        decideIntentFunnel_def Let_def finishFunnelResult_def)
  have k: "containsAny (re_lower demo_router (trim_space (ri_Query (demo_query None ''restart''))))
      (rg_InjectionKeywords ?cfg @ rg_HighRiskActionKeywords ?cfg)"
    by (simp add: demo_router_def demo_query_def c containsAny_def)
  from risky_query_confirmed [OF d c(2,1) s k] d show ?thesis by auto
qed

definition demo_pending :: routing_snapshot where
  "demo_pending = \<lparr>sn_ActiveRoute = [], sn_ActiveIncidentID = [], sn_LastConfirmedIntent = [], sn_ConfirmedEntities = [],
     sn_PendingSlots = [''service''], sn_StateVersion = ''1'', sn_UpdatedAt = Some 0\<rparr>"

text \<open>A classifier that is sure of a chat.\<close>

definition demo_sure :: flash_output where
  "demo_sure = \<lparr>fo_Intent = [], fo_RecommendedStrategy = [], fo_Confidence = 1, fo_Reason = [],
     fo_Candidates = [\<lparr>rc_Intent = AgentRouteIntentKnowledgeQA, rc_Confidence = 1, rc_ReasonCodes = []\<rparr>], fo_Entities = [],
     fo_RequiredSlots = [], fo_RiskHint = []\<rparr>"

definition demo_classifier :: router_env where
  "demo_classifier = demo_router\<lparr>re_generate := (\<lambda>q. Some []), re_decode := (\<lambda>s. Some demo_sure)\<rparr>"

theorem pending_answer_asked_again_witness:
  "\<exists>r st'. Decide demo_classifier (LoadAgentRouterConfig (\<lambda>s. s) demo_guarded) (Some (demo_query (Some demo_pending) ''orders'')) newRouter = (Inr r, st') \<and>
     rr_Decision r = AgentRouteDecisionConfirm"
proof -
  let ?cfg = "LoadAgentRouterConfig (\<lambda>s. s) demo_guarded" and ?in = "demo_query (Some demo_pending) ''orders''"
  have c: "rg_Enabled ?cfg" "rg_IntentFunnelEnabled ?cfg" "rg_InjectionKeywords ?cfg = [''restart'']" "rg_HighRiskActionKeywords ?cfg = [''restart'']"
    "rg_HighConfidenceKeywords ?cfg = [''restart'']" "rg_IntentFunnelContextTTL ?cfg = 0"
    by (simp_all add: LoadAgentRouterConfig_def readRouterConfig_def readValue_def readSwitch_def demo_guarded_def Let_def isAllowed_def
        nilValue_def normalizedKeywords_def allowedStrategies_def diagnosisStrategy_def normalizeAgentDiagnosisStrategy_def wrap64_def)
  have t: "trim_space ''orders'' = ''orders''" "runes ''orders'' = [''o'', ''r'', ''d'', ''e'', ''r'', ''s'']" by code_simp+
  have m: "manualRoute ?cfg AgentRouteModeAuto AgentDiagnosisStrategyAuto = None" by (simp add: manualRoute_def)
  have k: "\<not> matchesHighConfidenceKeyword (re_lower demo_classifier) ?cfg (re_lower demo_classifier (trim_space (ri_Query ?in)))"
    by (simp add: matchesHighConfidenceKeyword_def c demo_router_def demo_classifier_def demo_query_def t)
  have g: "applyDeterministicRouteGuard demo_classifier ?in AgentDiagnosisStrategyAuto ?cfg = None"
    using k by (simp add: applyDeterministicRouteGuard_def demo_router_def demo_classifier_def demo_query_def c containsAny_def t)
  obtain out st1 where cl: "classify demo_classifier ?cfg (ri_Query ?in) newRouter = (Candidates out False, st1)"
    by (simp add: classify_def loadCandidateCache_def newRouter_def demo_classifier_def demo_router_def parseFunnelRouteOutput_def
        givenCandidates_def demo_sure_def validCandidate_def validAgentRouteIntent_def Let_def)
  have sel: "selectCandidateWithContext (re_lower demo_classifier) (ri_Query ?in) cands (ri_RoutingContext ?in)
      (rg_IntentFunnelContextTTL ?cfg) (re_now demo_classifier 13) = (hd cands, True, ''pending_slot_answer'')" for cands
    by (simp add: selectCandidateWithContext_def isEllipticalQuery_def demo_query_def demo_pending_def t c hasExplicitTopicSwitch_def
        containsAny_def demo_classifier_def demo_router_def)
  have src: "rr_Source (newClarificationResult env input out cfg reason now) \<noteq> ''manual''" for env input out cfg reason now
    by (simp add: newClarificationResult_def Let_def plain_routes)
  have "rr_Source (chooseRoute demo_classifier ?in mode strategy ?cfg out hit trace) \<noteq> ''manual''" for mode strategy hit trace
  proof -
    have "\<not> stateChanged ?in" by (simp add: stateChanged_def demo_query_def)
    then show ?thesis unfolding chooseRoute_def Let_def sel using src by (simp add: finishFunnelResult_def)
  qed
  then obtain r st' where d: "Decide demo_classifier ?cfg (Some ?in) newRouter = (Inr r, st')" and s: "rr_Source r \<noteq> ''manual''"
    using cl g by (simp add: Decide_def normalizeAgentRouteMode_def normalizeAgentDiagnosisStrategy_def m c t
        decideIntentFunnel_def Let_def demo_query_def)
  have "rr_Decision r = AgentRouteDecisionConfirm"
    by (rule pending_answer_asked_again [OF d c(2) s k, of demo_pending 0])
       (simp_all add: demo_query_def demo_router_def demo_classifier_def demo_pending_def t c hasExplicitTopicSwitch_def containsAny_def)
  with d show ?thesis by blast
qed

theorem caches_bounded_witness: "int (length (ra_cache newRouter)) \<le> roomFor []"
  using caches_bounded [OF router_run.started] by blast

end
