(* ===== verification/Cmdb_Store.thy ===== *)
theory Cmdb_Store
  imports Go_Split
begin

text \<open>
  The store of the CMDB (internal/infra/cmdb/store.go, types.go): services and hosts in lists with an index of their names
  and the table of dependents, kept in a YAML file that is replaced by renaming a temporary file. An operation is one
  critical section (it holds both locks from its check to the end). The YAML encoder and decoder are parameters; what goes
  wrong in a call of the operating system is an argument, with its error.
\<close>

subsection \<open>Data\<close>

record service_dto =
  sd_Name :: string
  sd_DisplayName :: string
  sd_Owner :: string
  sd_Team :: string
  sd_Cluster :: string
  sd_Env :: string
  sd_Region :: string
  sd_Language :: string
  sd_Port :: int
  sd_Dependencies :: "string list"
  sd_Description :: string
  sd_OnCall :: string
  sd_LastDeploy :: string
  sd_Tags :: "string list"

record host_dto =
  ho_Name :: string
  ho_Service :: string
  ho_IP :: string
  ho_Node :: string
  ho_Cluster :: string
  ho_Env :: string
  ho_Status :: string
  ho_LastRestart :: string
  ho_Tags :: "string list"

record cmdb_file =
  cf_Services :: "service_dto list"
  cf_Hosts :: "host_dto list"

record yaml_codec =
  yc_Marshal :: "cmdb_file \<Rightarrow> goerr + string"
  yc_Unmarshal :: "string \<Rightarrow> goerr + cmdb_file"

text \<open>What the path of the file and of the temporary file beside it hold.\<close>

record cmdb_disk =
  dk_file :: "string option"
  dk_tmp :: "string option"

record yaml_loader =
  yl_path :: string
  yl_services :: "service_dto list"
  yl_index :: "(string, nat) gomap"
  yl_reverseDeps :: "(string, string list) gomap"
  yl_hosts :: "host_dto list"
  yl_hostIndex :: "(string, nat) gomap"

subsection \<open>Index and dependents\<close>

definition indexBy :: "('a \<Rightarrow> string) \<Rightarrow> 'a list \<Rightarrow> (string, nat) gomap" where
  "indexBy f xs = fold (\<lambda>(i, x) m. gm_put (f x) i m) (enumerate 0 xs) []"

definition addDependent :: "string \<Rightarrow> string \<Rightarrow> (string, string list) gomap \<Rightarrow> (string, string list) gomap" where
  "addDependent svc dep m = gm_put dep ((case gm_get m dep of None \<Rightarrow> [] | Some ds \<Rightarrow> ds) @ [svc]) m"

definition reverseIndex :: "service_dto list \<Rightarrow> (string, string list) gomap" where
  "reverseIndex services = fold (\<lambda>svc m. fold (addDependent (sd_Name svc)) (sd_Dependencies svc) m) services []"

definition rebuildIndex :: "yaml_loader \<Rightarrow> yaml_loader" where
  "rebuildIndex l = l\<lparr>yl_index := indexBy sd_Name (yl_services l), yl_reverseDeps := reverseIndex (yl_services l),
                      yl_hostIndex := indexBy ho_Name (yl_hosts l)\<rparr>"

subsection \<open>Loading\<close>

text \<open>\<open>load\<close> reads and decodes the file first and takes the lock for what it then installs.\<close>

definition readFile :: "yaml_codec \<Rightarrow> goerr option \<Rightarrow> string \<Rightarrow> cmdb_disk \<Rightarrow> goerr + cmdb_file" where
  "readFile c fault path d =
     (case fault of
        Some e \<Rightarrow> Inl (Errorf ''read cmdb file: %w'' [AWrap e])
      | None \<Rightarrow>
          (case dk_file d of
             None \<Rightarrow> Inl (Errorf ''read cmdb file: %w'' [AWrap (ExtError (''open '' @ path @ '': no such file or directory''))])
           | Some data \<Rightarrow>
               (case yc_Unmarshal c data of
                  Inl e \<Rightarrow> Inl (Errorf ''parse cmdb yaml: %w'' [AWrap e])
                | Inr f \<Rightarrow> Inr f)))"

definition installFile :: "cmdb_file \<Rightarrow> yaml_loader \<Rightarrow> yaml_loader" where
  "installFile f l =
     l\<lparr>yl_services := cf_Services f, yl_index := indexBy sd_Name (cf_Services f), yl_reverseDeps := reverseIndex (cf_Services f),
       yl_hosts := cf_Hosts f, yl_hostIndex := indexBy ho_Name (cf_Hosts f)\<rparr>"

definition load :: "yaml_codec \<Rightarrow> goerr option \<Rightarrow> cmdb_disk \<Rightarrow> yaml_loader \<Rightarrow> goerr option \<times> yaml_loader" where
  "load c fault d l = (case readFile c fault (yl_path l) d of Inl e \<Rightarrow> (Some e, l) | Inr f \<Rightarrow> (None, installFile f l))"

definition NewYAMLLoader :: "yaml_codec \<Rightarrow> goerr option \<Rightarrow> cmdb_disk \<Rightarrow> string \<Rightarrow> goerr + yaml_loader" where
  "NewYAMLLoader c fault d path =
     (case load c fault d \<lparr>yl_path = path, yl_services = [], yl_index = [], yl_reverseDeps = [], yl_hosts = [], yl_hostIndex = []\<rparr> of
        (Some e, _) \<Rightarrow> Inl e
      | (None, l) \<Rightarrow> Inr l)"

definition Reload :: "yaml_codec \<Rightarrow> goerr option \<Rightarrow> cmdb_disk \<Rightarrow> yaml_loader \<Rightarrow> goerr option \<times> yaml_loader" where
  "Reload c fault d l = load c fault d l"

subsection \<open>Saving\<close>

text \<open>What fails after encoding, if anything; a failed write may leave any text in the temporary file.\<close>

datatype save_fault = SaveFine | WriteFail goerr "string option" | OpenFail goerr | SyncFail goerr | RenameFail goerr

definition saveTo ::
  "yaml_codec \<Rightarrow> save_fault \<Rightarrow> service_dto list \<Rightarrow> host_dto list \<Rightarrow> cmdb_disk \<Rightarrow> goerr option \<times> cmdb_disk" where
  "saveTo c fault services hosts d =
     (case yc_Marshal c \<lparr>cf_Services = services, cf_Hosts = hosts\<rparr> of
        Inl e \<Rightarrow> (Some (Errorf ''marshal cmdb yaml: %w'' [AWrap e]), d)
      | Inr data \<Rightarrow>
          (case fault of
             WriteFail e rest \<Rightarrow> (Some (Errorf ''write cmdb tmp: %w'' [AWrap e]), d\<lparr>dk_tmp := rest\<rparr>)
           | OpenFail e \<Rightarrow> (Some (Errorf ''open cmdb tmp: %w'' [AWrap e]), d\<lparr>dk_tmp := Some data\<rparr>)
           | SyncFail e \<Rightarrow> (Some (Errorf ''fsync cmdb: %w'' [AWrap e]), d\<lparr>dk_tmp := Some data\<rparr>)
           | RenameFail e \<Rightarrow> (Some (Errorf ''rename cmdb: %w'' [AWrap e]), d\<lparr>dk_tmp := Some data\<rparr>)
           | SaveFine \<Rightarrow> (None, \<lparr>dk_file = Some data, dk_tmp = None\<rparr>)))"

definition save :: "yaml_codec \<Rightarrow> save_fault \<Rightarrow> yaml_loader \<times> cmdb_disk \<Rightarrow> goerr option \<times> cmdb_disk" where
  "save c fault st = saveTo c fault (yl_services (fst st)) (yl_hosts (fst st)) (snd st)"

text \<open>The end of every operation: the new lists are saved and only then take the place of the old ones.\<close>

definition commitServices ::
  "yaml_codec \<Rightarrow> save_fault \<Rightarrow> service_dto list \<Rightarrow> yaml_loader \<times> cmdb_disk \<Rightarrow> goerr option \<times> yaml_loader \<times> cmdb_disk" where
  "commitServices c fault new st =
     (case saveTo c fault new (yl_hosts (fst st)) (snd st) of
        (Some e, d) \<Rightarrow> (Some e, fst st, d)
      | (None, d) \<Rightarrow> (None, rebuildIndex ((fst st)\<lparr>yl_services := new\<rparr>), d))"

definition commitHosts ::
  "yaml_codec \<Rightarrow> save_fault \<Rightarrow> host_dto list \<Rightarrow> yaml_loader \<times> cmdb_disk \<Rightarrow> goerr option \<times> yaml_loader \<times> cmdb_disk" where
  "commitHosts c fault new st =
     (case saveTo c fault (yl_services (fst st)) new (snd st) of
        (Some e, d) \<Rightarrow> (Some e, fst st, d)
      | (None, d) \<Rightarrow> (None, rebuildIndex ((fst st)\<lparr>yl_hosts := new\<rparr>), d))"

subsection \<open>Reading\<close>

text \<open>An index that is found lies within its list (\<open>index_in_range\<close>), so no read panics.\<close>

definition GetService :: "yaml_loader \<Rightarrow> string \<Rightarrow> service_dto option" where
  "GetService l name = (case gm_get (yl_index l) name of None \<Rightarrow> None | Some i \<Rightarrow> Some (yl_services l ! i))"

definition ListAll :: "yaml_loader \<Rightarrow> service_dto list" where
  "ListAll l = yl_services l"

definition serviceMatches :: "(string \<Rightarrow> string) \<Rightarrow> string \<Rightarrow> service_dto \<Rightarrow> bool" where
  "serviceMatches lower keyword svc \<longleftrightarrow>
     contains keyword (lower (sd_Name svc)) \<or> contains keyword (lower (sd_DisplayName svc)) \<or> contains keyword (lower (sd_Description svc)) \<or>
     list_ex (\<lambda>tag. contains keyword (lower tag)) (sd_Tags svc)"

fun searchLoop :: "(service_dto \<Rightarrow> bool) \<Rightarrow> int \<Rightarrow> service_dto list \<Rightarrow> service_dto list \<Rightarrow> service_dto list" where
  "searchLoop hit limit results [] = results"
| "searchLoop hit limit results (svc # svcs) =
     (if hit svc
      then (let results = results @ [svc]
            in if limit > 0 \<and> int (length results) \<ge> limit then results else searchLoop hit limit results svcs)
      else searchLoop hit limit results svcs)"

definition SearchServices :: "(string \<Rightarrow> string) \<Rightarrow> yaml_loader \<Rightarrow> string \<Rightarrow> int \<Rightarrow> service_dto list" where
  "SearchServices lower l keyword limit = searchLoop (serviceMatches lower (lower keyword)) limit [] (yl_services l)"

definition ListServicesByCluster :: "yaml_loader \<Rightarrow> string \<Rightarrow> service_dto list" where
  "ListServicesByCluster l cluster = filter (\<lambda>svc. sd_Cluster svc = cluster) (yl_services l)"

definition ListServicesByTeam :: "yaml_loader \<Rightarrow> string \<Rightarrow> service_dto list" where
  "ListServicesByTeam l team = filter (\<lambda>svc. sd_Team svc = team) (yl_services l)"

definition GetDependents :: "yaml_loader \<Rightarrow> string \<Rightarrow> string list" where
  "GetDependents l name = (case gm_get (yl_reverseDeps l) name of None \<Rightarrow> [] | Some ds \<Rightarrow> ds)"

definition GetHost :: "yaml_loader \<Rightarrow> string \<Rightarrow> host_dto option" where
  "GetHost l name = (case gm_get (yl_hostIndex l) name of None \<Rightarrow> None | Some i \<Rightarrow> Some (yl_hosts l ! i))"

definition ListHostsByService :: "yaml_loader \<Rightarrow> string \<Rightarrow> host_dto list" where
  "ListHostsByService l service = filter (\<lambda>h. ho_Service h = service) (yl_hosts l)"

definition ListHostsByCluster :: "yaml_loader \<Rightarrow> string \<Rightarrow> host_dto list" where
  "ListHostsByCluster l cluster = filter (\<lambda>h. ho_Cluster h = cluster) (yl_hosts l)"

definition ListAllHosts :: "yaml_loader \<Rightarrow> host_dto list" where
  "ListAllHosts l = yl_hosts l"

subsection \<open>Changing\<close>

definition CreateService ::
  "yaml_codec \<Rightarrow> save_fault \<Rightarrow> service_dto \<Rightarrow> yaml_loader \<times> cmdb_disk \<Rightarrow> goerr option \<times> yaml_loader \<times> cmdb_disk" where
  "CreateService c fault svc st =
     (if gm_get (yl_index (fst st)) (sd_Name svc) \<noteq> None then (Some (Errorf ''service %q already exists'' [AStr (sd_Name svc)]), st)
      else commitServices c fault (yl_services (fst st) @ [svc]) st)"

definition UpdateService ::
  "yaml_codec \<Rightarrow> save_fault \<Rightarrow> string \<Rightarrow> service_dto \<Rightarrow> yaml_loader \<times> cmdb_disk \<Rightarrow> goerr option \<times> yaml_loader \<times> cmdb_disk" where
  "UpdateService c fault name svc st =
     (case gm_get (yl_index (fst st)) name of
        None \<Rightarrow> (Some (Errorf ''service %q not found'' [AStr name]), st)
      | Some i \<Rightarrow> commitServices c fault ((yl_services (fst st))[i := svc\<lparr>sd_Name := name\<rparr>]) st)"

definition DeleteService ::
  "yaml_codec \<Rightarrow> save_fault \<Rightarrow> string \<Rightarrow> yaml_loader \<times> cmdb_disk \<Rightarrow> goerr option \<times> yaml_loader \<times> cmdb_disk" where
  "DeleteService c fault name st =
     (case gm_get (yl_index (fst st)) name of
        None \<Rightarrow> (Some (Errorf ''service %q not found'' [AStr name]), st)
      | Some i \<Rightarrow> commitServices c fault (take i (yl_services (fst st)) @ drop (Suc i) (yl_services (fst st))) st)"

definition CreateHost ::
  "yaml_codec \<Rightarrow> save_fault \<Rightarrow> host_dto \<Rightarrow> yaml_loader \<times> cmdb_disk \<Rightarrow> goerr option \<times> yaml_loader \<times> cmdb_disk" where
  "CreateHost c fault host st =
     (if gm_get (yl_hostIndex (fst st)) (ho_Name host) \<noteq> None then (Some (Errorf ''host %q already exists'' [AStr (ho_Name host)]), st)
      else commitHosts c fault (yl_hosts (fst st) @ [host]) st)"

definition UpdateHost ::
  "yaml_codec \<Rightarrow> save_fault \<Rightarrow> string \<Rightarrow> host_dto \<Rightarrow> yaml_loader \<times> cmdb_disk \<Rightarrow> goerr option \<times> yaml_loader \<times> cmdb_disk" where
  "UpdateHost c fault name host st =
     (case gm_get (yl_hostIndex (fst st)) name of
        None \<Rightarrow> (Some (Errorf ''host %q not found'' [AStr name]), st)
      | Some i \<Rightarrow> commitHosts c fault ((yl_hosts (fst st))[i := host\<lparr>ho_Name := name\<rparr>]) st)"

definition DeleteHost ::
  "yaml_codec \<Rightarrow> save_fault \<Rightarrow> string \<Rightarrow> yaml_loader \<times> cmdb_disk \<Rightarrow> goerr option \<times> yaml_loader \<times> cmdb_disk" where
  "DeleteHost c fault name st =
     (case gm_get (yl_hostIndex (fst st)) name of
        None \<Rightarrow> (Some (Errorf ''host %q not found'' [AStr name]), st)
      | Some i \<Rightarrow> commitHosts c fault (take i (yl_hosts (fst st)) @ drop (Suc i) (yl_hosts (fst st))) st)"

subsection \<open>Sequences of calls\<close>

datatype cmdb_call =
    CreateS service_dto | UpdateS string service_dto | DeleteS string
  | CreateH host_dto | UpdateH string host_dto | DeleteH string

definition cmdbCall :: "yaml_codec \<Rightarrow> cmdb_call \<times> save_fault \<Rightarrow> yaml_loader \<times> cmdb_disk \<Rightarrow> goerr option \<times> yaml_loader \<times> cmdb_disk" where
  "cmdbCall c cf st =
     (case cf of (call, fault) \<Rightarrow>
        (case call of
           CreateS s \<Rightarrow> CreateService c fault s st
         | UpdateS n s \<Rightarrow> UpdateService c fault n s st
         | DeleteS n \<Rightarrow> DeleteService c fault n st
         | CreateH h \<Rightarrow> CreateHost c fault h st
         | UpdateH n h \<Rightarrow> UpdateHost c fault n h st
         | DeleteH n \<Rightarrow> DeleteHost c fault n st))"

definition cmdbRun :: "yaml_codec \<Rightarrow> (cmdb_call \<times> save_fault) list \<Rightarrow> yaml_loader \<times> cmdb_disk \<Rightarrow> yaml_loader \<times> cmdb_disk" where
  "cmdbRun c calls st = fold (\<lambda>cf st. snd (cmdbCall c cf st)) calls st"

subsection \<open>Facts about lists of named things\<close>

definition tableOf :: "('a \<Rightarrow> string) \<Rightarrow> 'a list \<Rightarrow> string \<Rightarrow> 'a option" where
  "tableOf f xs = map_of (map (\<lambda>x. (f x, x)) xs)"

lemma index_append: "indexBy f (xs @ [x]) = gm_put (f x) (length xs) (indexBy f xs)"
  by (simp add: indexBy_def enumerate_append_eq)

lemma index_Nil [simp]: "indexBy f [] = []"
  by (simp add: indexBy_def)

lemma index_in_range: "gm_get (indexBy f xs) n = Some i \<Longrightarrow> i < length xs \<and> f (xs ! i) = n"
proof (induction xs rule: rev_induct)
  case (snoc x xs)
  then show ?case by (cases "f x = n") (auto simp: index_append gm_get_put nth_append)
qed simp

lemma index_keys: "fst ` set (indexBy f xs) = f ` set xs"
  by (induction xs rule: rev_induct) (simp_all add: index_append gm_keys_put)

lemma index_none: "gm_get (indexBy f xs) n = None \<longleftrightarrow> n \<notin> f ` set xs"
  by (simp add: gm_none_iff index_keys)

lemma table_iff: "distinct (map f xs) \<Longrightarrow> tableOf f xs n = Some x \<longleftrightarrow> x \<in> set xs \<and> f x = n"
  by (auto simp: tableOf_def map_of_eq_Some_iff comp_def)

lemma table_eqI:
  assumes "distinct (map f xs)" "\<And>n x. t n = Some x \<longleftrightarrow> x \<in> set xs \<and> f x = n"
  shows "tableOf f xs = t"
  by (rule ext) (metis assms not_Some_eq table_iff)

lemma index_table:
  assumes "distinct (map f xs)"
  shows "(case gm_get (indexBy f xs) n of None \<Rightarrow> None | Some i \<Rightarrow> Some (xs ! i)) = tableOf f xs n"
proof (cases "gm_get (indexBy f xs) n")
  case None
  then have "n \<notin> f ` set xs" unfolding index_none .
  then have "tableOf f xs n = None" by (simp add: tableOf_def map_of_eq_None_iff image_image)
  with None show ?thesis by simp
next
  case (Some i)
  from index_in_range [OF this] have "tableOf f xs n = Some (xs ! i)" by (auto simp: table_iff [OF assms])
  with Some show ?thesis by simp
qed

lemma split_at: "i < length xs \<Longrightarrow> \<exists>us vs. xs = us @ xs ! i # vs \<and> length us = i"
  by (metis id_take_nth_drop length_take min.absorb4)

lemma table_append:
  assumes "distinct (map f xs)" "f x \<notin> f ` set xs"
  shows "distinct (map f (xs @ [x])) \<and> tableOf f (xs @ [x]) = (tableOf f xs)(f x \<mapsto> x)"
proof
  show d: "distinct (map f (xs @ [x]))" using assms by simp
  show "tableOf f (xs @ [x]) = (tableOf f xs)(f x \<mapsto> x)"
    by (rule table_eqI [OF d]) (use assms in \<open>auto simp: table_iff image_iff\<close>)
qed

lemma table_update:
  assumes "distinct (map f xs)" "i < length xs" "f x = f (xs ! i)"
  shows "distinct (map f (xs[i := x])) \<and> tableOf f (xs[i := x]) = (tableOf f xs)(f x \<mapsto> x)"
proof -
  from split_at [OF assms(2)] obtain y us vs where s: "xs = us @ y # vs" "length us = i" "xs ! i = y" by blast
  have u: "xs[i := x] = us @ x # vs" using s(2) by (simp add: s(1) list_update_append)
  have d: "distinct (map f (xs[i := x]))" using assms(1,3) unfolding u s(3) by (simp add: s(1))
  have "tableOf f (xs[i := x]) = (tableOf f xs)(f x \<mapsto> x)"
  proof (rule table_eqI [OF d])
    fix n z
    show "((tableOf f xs)(f x \<mapsto> x)) n = Some z \<longleftrightarrow> z \<in> set (xs[i := x]) \<and> f z = n"
      using assms(1,3) s(3) unfolding u by (auto simp: table_iff s(1) rev_image_eqI)
  qed
  with d show ?thesis by simp
qed

lemma table_delete:
  assumes "distinct (map f xs)" "i < length xs"
  shows "distinct (map f (take i xs @ drop (Suc i) xs)) \<and> tableOf f (take i xs @ drop (Suc i) xs) = (tableOf f xs)(f (xs ! i) := None)"
proof -
  from split_at [OF assms(2)] obtain y us vs where s: "xs = us @ y # vs" "length us = i" "xs ! i = y" by blast
  have u: "take i xs @ drop (Suc i) xs = us @ vs" using s(2) by (simp add: s(1))
  have d: "distinct (map f (us @ vs))" using assms(1) by (simp add: s(1))
  have "tableOf f (us @ vs) = (tableOf f xs)(f (xs ! i) := None)"
  proof (rule table_eqI [OF d])
    fix n z
    show "((tableOf f xs)(f (xs ! i) := None)) n = Some z \<longleftrightarrow> z \<in> set (us @ vs) \<and> f z = n"
      using assms(1) unfolding s(3) by (auto simp: table_iff s(1) rev_image_eqI)
  qed
  with d show ?thesis unfolding u by simp
qed

text \<open>The loop with its early return is a filter, cut at the limit.\<close>

lemma search_loop:
  "(limit > 0 \<longrightarrow> int (length results) < limit) \<Longrightarrow>
    searchLoop hit limit results svcs =
      (if limit > 0 then take (nat limit) (results @ filter hit svcs) else results @ filter hit svcs)"
proof (induction hit limit results svcs rule: searchLoop.induct)
  case (2 hit limit results svc svcs)
  show ?case
  proof (cases "hit svc \<and> limit > 0 \<and> int (length (results @ [svc])) \<ge> limit")
    case True
    with "2.prems" have "limit = int (Suc (length results))" by simp
    then have "nat limit - length results = 1" by simp
    with True show ?thesis by (simp add: Let_def)
  next
    case False
    with 2 show ?thesis by (auto simp: Let_def)
  qed
qed auto

lemma SearchServices_take:
  "SearchServices lower l keyword limit =
     (let found = filter (serviceMatches lower (lower keyword)) (yl_services l) in if limit > 0 then take (nat limit) found else found)"
  by (simp add: SearchServices_def search_loop Let_def)

subsection \<open>The table of dependents\<close>

definition dependentsIn :: "(string, string list) gomap \<Rightarrow> string \<Rightarrow> string list" where
  "dependentsIn m a = (case gm_get m a of None \<Rightarrow> [] | Some ds \<Rightarrow> ds)"

lemma dependents_step: "set (dependentsIn (addDependent svc dep m) a) = set (dependentsIn m a) \<union> (if a = dep then {svc} else {})"
  by (auto simp: dependentsIn_def addDependent_def gm_get_put split: option.split)

lemma dependents_deps:
  "set (dependentsIn (fold (addDependent svc) deps m) a) = set (dependentsIn m a) \<union> (if a \<in> set deps then {svc} else {})"
  by (induction deps arbitrary: m) (auto simp: dependents_step)

lemma dependents_services:
  "set (dependentsIn (fold (\<lambda>svc m. fold (addDependent (sd_Name svc)) (sd_Dependencies svc) m) svcs m) a) =
     set (dependentsIn m a) \<union> {sd_Name s | s. s \<in> set svcs \<and> a \<in> set (sd_Dependencies s)}"
proof (induction svcs arbitrary: m)
  case (Cons s svcs)
  show ?case by (simp add: Cons.IH dependents_deps) blast
qed simp

lemma reverse_index: "set (dependentsIn (reverseIndex svcs) a) = {sd_Name s | s. s \<in> set svcs \<and> a \<in> set (sd_Dependencies s)}"
  using dependents_services [of svcs "[]" a] by (simp add: reverseIndex_def) (simp add: dependentsIn_def)

subsection \<open>The invariant\<close>

text \<open>A loader in use: its indexes are those of its lists, and a name stands once in its list.\<close>

definition loaderOk :: "yaml_loader \<Rightarrow> bool" where
  "loaderOk l \<longleftrightarrow> rebuildIndex l = l \<and> distinct (map sd_Name (yl_services l)) \<and> distinct (map ho_Name (yl_hosts l))"

definition fileOk :: "cmdb_file \<Rightarrow> bool" where
  "fileOk f \<longleftrightarrow> distinct (map sd_Name (cf_Services f)) \<and> distinct (map ho_Name (cf_Hosts f))"

definition cmdbTables :: "yaml_loader \<Rightarrow> (string \<Rightarrow> service_dto option) \<times> (string \<Rightarrow> host_dto option)" where
  "cmdbTables l = (tableOf sd_Name (yl_services l), tableOf ho_Name (yl_hosts l))"

lemma rebuild_fields [simp]:
  "yl_path (rebuildIndex l) = yl_path l" "yl_services (rebuildIndex l) = yl_services l" "yl_hosts (rebuildIndex l) = yl_hosts l"
  "rebuildIndex (rebuildIndex l) = rebuildIndex l"
  by (simp_all add: rebuildIndex_def)

lemma rebuilt:
  assumes "rebuildIndex l = l"
  shows "yl_index l = indexBy sd_Name (yl_services l)" "yl_hostIndex l = indexBy ho_Name (yl_hosts l)" "yl_reverseDeps l = reverseIndex (yl_services l)"
proof -
  have "yl_index (rebuildIndex l) = indexBy sd_Name (yl_services l)" "yl_hostIndex (rebuildIndex l) = indexBy ho_Name (yl_hosts l)"
    "yl_reverseDeps (rebuildIndex l) = reverseIndex (yl_services l)" by (simp_all add: rebuildIndex_def)
  with assms show "yl_index l = indexBy sd_Name (yl_services l)" "yl_hostIndex l = indexBy ho_Name (yl_hosts l)"
    "yl_reverseDeps l = reverseIndex (yl_services l)" by simp_all
qed

lemma install_ok: "fileOk f \<Longrightarrow> loaderOk (installFile f l)"
  by (simp add: loaderOk_def fileOk_def installFile_def rebuildIndex_def)

lemma GetService_table: "loaderOk l \<Longrightarrow> GetService l n = fst (cmdbTables l) n"
  by (simp add: loaderOk_def GetService_def rebuilt index_table cmdbTables_def)

lemma GetHost_table: "loaderOk l \<Longrightarrow> GetHost l n = snd (cmdbTables l) n"
  by (simp add: loaderOk_def GetHost_def rebuilt index_table cmdbTables_def)

lemma GetService_iff: "loaderOk l \<Longrightarrow> GetService l n = Some s \<longleftrightarrow> s \<in> set (yl_services l) \<and> sd_Name s = n"
  by (simp add: GetService_table cmdbTables_def table_iff loaderOk_def)

lemma GetDependents_set:
  assumes "loaderOk l"
  shows "b \<in> set (GetDependents l a) \<longleftrightarrow> (\<exists>s. GetService l b = Some s \<and> a \<in> set (sd_Dependencies s))"
proof -
  from assms have "rebuildIndex l = l" by (simp add: loaderOk_def)
  then have "set (GetDependents l a) = {sd_Name s | s. s \<in> set (yl_services l) \<and> a \<in> set (sd_Dependencies s)}"
    by (simp add: GetDependents_def rebuilt(3) flip: dependentsIn_def) (rule reverse_index)
  then show ?thesis by (auto simp: GetService_iff [OF assms])
qed

subsection \<open>One call\<close>

text \<open>What a call does to the tables when it succeeds, and when it may.\<close>

fun callAllowed :: "cmdb_call \<Rightarrow> (string \<Rightarrow> service_dto option) \<times> (string \<Rightarrow> host_dto option) \<Rightarrow> bool" where
  "callAllowed (CreateS s) (S, H) = (S (sd_Name s) = None)"
| "callAllowed (UpdateS n s) (S, H) = (S n \<noteq> None)"
| "callAllowed (DeleteS n) (S, H) = (S n \<noteq> None)"
| "callAllowed (CreateH h) (S, H) = (H (ho_Name h) = None)"
| "callAllowed (UpdateH n h) (S, H) = (H n \<noteq> None)"
| "callAllowed (DeleteH n) (S, H) = (H n \<noteq> None)"

fun callSpec ::
  "cmdb_call \<Rightarrow> (string \<Rightarrow> service_dto option) \<times> (string \<Rightarrow> host_dto option) \<Rightarrow>
     (string \<Rightarrow> service_dto option) \<times> (string \<Rightarrow> host_dto option)" where
  "callSpec (CreateS s) (S, H) = (S(sd_Name s \<mapsto> s), H)"
| "callSpec (UpdateS n s) (S, H) = (S(n \<mapsto> s\<lparr>sd_Name := n\<rparr>), H)"
| "callSpec (DeleteS n) (S, H) = (S(n := None), H)"
| "callSpec (CreateH h) (S, H) = (S, H(ho_Name h \<mapsto> h))"
| "callSpec (UpdateH n h) (S, H) = (S, H(n \<mapsto> h\<lparr>ho_Name := n\<rparr>))"
| "callSpec (DeleteH n) (S, H) = (S, H(n := None))"

text \<open>The file holds what the loader holds; so a restart finds it again.\<close>

definition diskOk :: "yaml_codec \<Rightarrow> yaml_loader \<times> cmdb_disk \<Rightarrow> bool" where
  "diskOk c st \<longleftrightarrow>
     (\<exists>data. dk_file (snd st) = Some data \<and> yc_Unmarshal c data = Inr \<lparr>cf_Services = yl_services (fst st), cf_Hosts = yl_hosts (fst st)\<rparr>)"

definition yamlLaw :: "yaml_codec \<Rightarrow> bool" where
  "yamlLaw c \<longleftrightarrow> (\<forall>f data. yc_Marshal c f = Inr data \<longrightarrow> yc_Unmarshal c data = Inr f)"

lemma saveTo_cases:
  "(fst (saveTo c fault ss hs d) = None \<and> (\<exists>data. yc_Marshal c \<lparr>cf_Services = ss, cf_Hosts = hs\<rparr> = Inr data \<and> dk_file (snd (saveTo c fault ss hs d)) = Some data)) \<or>
   (fst (saveTo c fault ss hs d) \<noteq> None \<and> dk_file (snd (saveTo c fault ss hs d)) = dk_file d)"
  by (cases "yc_Marshal c \<lparr>cf_Services = ss, cf_Hosts = hs\<rparr>"; cases fault) (simp_all add: saveTo_def)

lemma saveTo_fine: "(\<And>f. \<exists>data. yc_Marshal c f = Inr data) \<Longrightarrow> fst (saveTo c SaveFine ss hs d) = None"
proof -
  assume "\<And>f. \<exists>data. yc_Marshal c f = Inr data"
  then obtain data where "yc_Marshal c \<lparr>cf_Services = ss, cf_Hosts = hs\<rparr> = Inr data" by blast
  then show ?thesis by (simp add: saveTo_def)
qed

text \<open>A commit of new lists: either it fails and the loader and the file are as before, or both hold the new lists.\<close>

definition committed :: "yaml_codec \<Rightarrow> service_dto list \<Rightarrow> host_dto list \<Rightarrow> yaml_loader \<times> cmdb_disk \<Rightarrow> goerr option \<times> yaml_loader \<times> cmdb_disk \<Rightarrow> bool" where
  "committed c ss hs st r \<longleftrightarrow>
     (fst r \<noteq> None \<and> fst (snd r) = fst st \<and> dk_file (snd (snd r)) = dk_file (snd st)) \<or>
     (fst r = None \<and> rebuildIndex (fst (snd r)) = fst (snd r) \<and> yl_path (fst (snd r)) = yl_path (fst st) \<and>
      yl_services (fst (snd r)) = ss \<and> yl_hosts (fst (snd r)) = hs \<and>
      (\<exists>data. yc_Marshal c \<lparr>cf_Services = ss, cf_Hosts = hs\<rparr> = Inr data \<and> dk_file (snd (snd r)) = Some data))"

lemma commitServices_ok: "committed c new (yl_hosts (fst st)) st (commitServices c fault new st)"
  using saveTo_cases [of c fault new "yl_hosts (fst st)" "snd st"]
  by (cases "saveTo c fault new (yl_hosts (fst st)) (snd st)")
    (auto simp: commitServices_def committed_def split: option.split)

lemma commitHosts_ok: "committed c (yl_services (fst st)) new st (commitHosts c fault new st)"
  using saveTo_cases [of c fault "yl_services (fst st)" new "snd st"]
  by (cases "saveTo c fault (yl_services (fst st)) new (snd st)")
    (auto simp: commitHosts_def committed_def split: option.split)

definition callOk :: "yaml_codec \<Rightarrow> cmdb_call \<Rightarrow> yaml_loader \<times> cmdb_disk \<Rightarrow> goerr option \<times> yaml_loader \<times> cmdb_disk \<Rightarrow> bool" where
  "callOk c call st r \<longleftrightarrow>
     (if callAllowed call (cmdbTables (fst st))
      then \<exists>ss hs. committed c ss hs st r \<and> distinct (map sd_Name ss) \<and> distinct (map ho_Name hs) \<and>
             (tableOf sd_Name ss, tableOf ho_Name hs) = callSpec call (cmdbTables (fst st))
      else fst r \<noteq> None \<and> snd r = st)"

lemma callOk_refused: "\<not> callAllowed call (cmdbTables (fst st)) \<Longrightarrow> callOk c call st (Some e, st)"
  by (simp add: callOk_def)

lemma callOk_services:
  assumes "loaderOk (fst st)" "callAllowed call (cmdbTables (fst st))"
    "distinct (map sd_Name ss) \<and> tableOf sd_Name ss = S'" "callSpec call (cmdbTables (fst st)) = (S', snd (cmdbTables (fst st)))"
  shows "callOk c call st (commitServices c fault ss st)"
proof -
  have "distinct (map ho_Name (yl_hosts (fst st)))" using assms(1) by (simp add: loaderOk_def)
  moreover have "snd (cmdbTables (fst st)) = tableOf ho_Name (yl_hosts (fst st))" by (simp add: cmdbTables_def)
  ultimately show ?thesis using assms(2-4) commitServices_ok [of c ss st fault] unfolding callOk_def by auto
qed

lemma callOk_hosts:
  assumes "loaderOk (fst st)" "callAllowed call (cmdbTables (fst st))"
    "distinct (map ho_Name hs) \<and> tableOf ho_Name hs = H'" "callSpec call (cmdbTables (fst st)) = (fst (cmdbTables (fst st)), H')"
  shows "callOk c call st (commitHosts c fault hs st)"
proof -
  have "distinct (map sd_Name (yl_services (fst st)))" using assms(1) by (simp add: loaderOk_def)
  moreover have "fst (cmdbTables (fst st)) = tableOf sd_Name (yl_services (fst st))" by (simp add: cmdbTables_def)
  ultimately show ?thesis using assms(2-4) commitHosts_ok [of c st hs fault] unfolding callOk_def by auto
qed

lemma service_index:
  assumes "loaderOk l"
  shows "gm_get (yl_index l) n = None \<Longrightarrow> fst (cmdbTables l) n = None \<and> n \<notin> sd_Name ` set (yl_services l)"
    and "gm_get (yl_index l) n = Some i \<Longrightarrow> fst (cmdbTables l) n \<noteq> None \<and> i < length (yl_services l) \<and> sd_Name (yl_services l ! i) = n"
proof -
  have x: "yl_index l = indexBy sd_Name (yl_services l)" using assms rebuilt(1) by (simp add: loaderOk_def)
  have t: "fst (cmdbTables l) n = (case gm_get (yl_index l) n of None \<Rightarrow> None | Some i \<Rightarrow> Some (yl_services l ! i))" for n
    using GetService_table [OF assms, of n] by (simp add: GetService_def)
  show "gm_get (yl_index l) n = None \<Longrightarrow> fst (cmdbTables l) n = None \<and> n \<notin> sd_Name ` set (yl_services l)"
    using index_none unfolding t x by fastforce
  show "gm_get (yl_index l) n = Some i \<Longrightarrow> fst (cmdbTables l) n \<noteq> None \<and> i < length (yl_services l) \<and> sd_Name (yl_services l ! i) = n"
    unfolding t using index_in_range [of sd_Name "yl_services l" n i] by (simp add: x)
qed

lemma host_index:
  assumes "loaderOk l"
  shows "gm_get (yl_hostIndex l) n = None \<Longrightarrow> snd (cmdbTables l) n = None \<and> n \<notin> ho_Name ` set (yl_hosts l)"
    and "gm_get (yl_hostIndex l) n = Some i \<Longrightarrow> snd (cmdbTables l) n \<noteq> None \<and> i < length (yl_hosts l) \<and> ho_Name (yl_hosts l ! i) = n"
proof -
  have x: "yl_hostIndex l = indexBy ho_Name (yl_hosts l)" using assms rebuilt(2) by (simp add: loaderOk_def)
  have t: "snd (cmdbTables l) n = (case gm_get (yl_hostIndex l) n of None \<Rightarrow> None | Some i \<Rightarrow> Some (yl_hosts l ! i))" for n
    using GetHost_table [OF assms, of n] by (simp add: GetHost_def)
  show "gm_get (yl_hostIndex l) n = None \<Longrightarrow> snd (cmdbTables l) n = None \<and> n \<notin> ho_Name ` set (yl_hosts l)"
    using index_none unfolding t x by fastforce
  show "gm_get (yl_hostIndex l) n = Some i \<Longrightarrow> snd (cmdbTables l) n \<noteq> None \<and> i < length (yl_hosts l) \<and> ho_Name (yl_hosts l ! i) = n"
    unfolding t using index_in_range [of ho_Name "yl_hosts l" n i] by (simp add: x)
qed

lemma allowed_iff:
  "callAllowed (CreateS s) T \<longleftrightarrow> fst T (sd_Name s) = None" "callAllowed (UpdateS n s) T \<longleftrightarrow> fst T n \<noteq> None"
  "callAllowed (DeleteS n) T \<longleftrightarrow> fst T n \<noteq> None" "callAllowed (CreateH h) T \<longleftrightarrow> snd T (ho_Name h) = None"
  "callAllowed (UpdateH n h) T \<longleftrightarrow> snd T n \<noteq> None" "callAllowed (DeleteH n) T \<longleftrightarrow> snd T n \<noteq> None"
  by (cases T; simp)+

lemma spec_iff:
  "callSpec (CreateS s) T = ((fst T)(sd_Name s \<mapsto> s), snd T)" "callSpec (UpdateS n s) T = ((fst T)(n \<mapsto> s\<lparr>sd_Name := n\<rparr>), snd T)"
  "callSpec (DeleteS n) T = ((fst T)(n := None), snd T)" "callSpec (CreateH h) T = (fst T, (snd T)(ho_Name h \<mapsto> h))"
  "callSpec (UpdateH n h) T = (fst T, (snd T)(n \<mapsto> h\<lparr>ho_Name := n\<rparr>))" "callSpec (DeleteH n) T = (fst T, (snd T)(n := None))"
  by (cases T; simp)+

lemma service_calls:
  assumes ok: "loaderOk (fst st)"
  shows "callOk c (CreateS s) st (CreateService c fault s st)" "callOk c (UpdateS n s) st (UpdateService c fault n s st)"
    "callOk c (DeleteS n) st (DeleteService c fault n st)"
proof -
  let ?l = "fst st"
  have d: "distinct (map sd_Name (yl_services ?l))" using ok by (simp add: loaderOk_def)
  have S: "tableOf sd_Name (yl_services ?l) = fst (cmdbTables ?l)" by (simp add: cmdbTables_def)
  show "callOk c (CreateS s) st (CreateService c fault s st)"
  proof (cases "gm_get (yl_index ?l) (sd_Name s) = None")
    case True
    note i = service_index(1) [OF ok True]
    from table_append [OF d, of s] i have "callOk c (CreateS s) st (commitServices c fault (yl_services ?l @ [s]) st)"
      by (intro callOk_services [OF ok, where S' = "(fst (cmdbTables ?l))(sd_Name s \<mapsto> s)"]) (simp_all add: allowed_iff spec_iff S)
    with True show ?thesis by (simp add: CreateService_def)
  next
    case False
    then obtain i where "gm_get (yl_index ?l) (sd_Name s) = Some i" by blast
    from service_index(2) [OF ok this] have "\<not> callAllowed (CreateS s) (cmdbTables ?l)" by (simp add: allowed_iff)
    with False show ?thesis unfolding CreateService_def by (simp add: callOk_refused)
  qed
  show "callOk c (UpdateS n s) st (UpdateService c fault n s st)"
  proof (cases "gm_get (yl_index ?l) n")
    case None
    from service_index(1) [OF ok this] have "\<not> callAllowed (UpdateS n s) (cmdbTables ?l)" by (simp add: allowed_iff)
    with None show ?thesis unfolding UpdateService_def by (simp add: callOk_refused)
  next
    case (Some k)
    note i = service_index(2) [OF ok Some]
    from table_update [OF d, of k "s\<lparr>sd_Name := n\<rparr>"] i
    have "callOk c (UpdateS n s) st (commitServices c fault ((yl_services ?l)[k := s\<lparr>sd_Name := n\<rparr>]) st)"
      by (intro callOk_services [OF ok, where S' = "(fst (cmdbTables ?l))(n \<mapsto> s\<lparr>sd_Name := n\<rparr>)"]) (simp_all add: allowed_iff spec_iff S)
    with Some show ?thesis by (simp add: UpdateService_def)
  qed
  show "callOk c (DeleteS n) st (DeleteService c fault n st)"
  proof (cases "gm_get (yl_index ?l) n")
    case None
    from service_index(1) [OF ok this] have "\<not> callAllowed (DeleteS n) (cmdbTables ?l)" by (simp add: allowed_iff)
    with None show ?thesis unfolding DeleteService_def by (simp add: callOk_refused)
  next
    case (Some k)
    note i = service_index(2) [OF ok Some]
    from table_delete [OF d, of k] i
    have "callOk c (DeleteS n) st (commitServices c fault (take k (yl_services ?l) @ drop (Suc k) (yl_services ?l)) st)"
      by (intro callOk_services [OF ok, where S' = "(fst (cmdbTables ?l))(n := None)"]) (auto simp: allowed_iff spec_iff S)
    with Some show ?thesis by (simp add: DeleteService_def)
  qed
qed

lemma host_calls:
  assumes ok: "loaderOk (fst st)"
  shows "callOk c (CreateH h) st (CreateHost c fault h st)" "callOk c (UpdateH n h) st (UpdateHost c fault n h st)"
    "callOk c (DeleteH n) st (DeleteHost c fault n st)"
proof -
  let ?l = "fst st"
  have d: "distinct (map ho_Name (yl_hosts ?l))" using ok by (simp add: loaderOk_def)
  have H: "tableOf ho_Name (yl_hosts ?l) = snd (cmdbTables ?l)" by (simp add: cmdbTables_def)
  show "callOk c (CreateH h) st (CreateHost c fault h st)"
  proof (cases "gm_get (yl_hostIndex ?l) (ho_Name h) = None")
    case True
    note i = host_index(1) [OF ok True]
    from table_append [OF d, of h] i have "callOk c (CreateH h) st (commitHosts c fault (yl_hosts ?l @ [h]) st)"
      by (intro callOk_hosts [OF ok, where H' = "(snd (cmdbTables ?l))(ho_Name h \<mapsto> h)"]) (simp_all add: allowed_iff spec_iff H)
    with True show ?thesis by (simp add: CreateHost_def)
  next
    case False
    then obtain i where "gm_get (yl_hostIndex ?l) (ho_Name h) = Some i" by blast
    from host_index(2) [OF ok this] have "\<not> callAllowed (CreateH h) (cmdbTables ?l)" by (simp add: allowed_iff)
    with False show ?thesis unfolding CreateHost_def by (simp add: callOk_refused)
  qed
  show "callOk c (UpdateH n h) st (UpdateHost c fault n h st)"
  proof (cases "gm_get (yl_hostIndex ?l) n")
    case None
    from host_index(1) [OF ok this] have "\<not> callAllowed (UpdateH n h) (cmdbTables ?l)" by (simp add: allowed_iff)
    with None show ?thesis unfolding UpdateHost_def by (simp add: callOk_refused)
  next
    case (Some k)
    note i = host_index(2) [OF ok Some]
    from table_update [OF d, of k "h\<lparr>ho_Name := n\<rparr>"] i
    have "callOk c (UpdateH n h) st (commitHosts c fault ((yl_hosts ?l)[k := h\<lparr>ho_Name := n\<rparr>]) st)"
      by (intro callOk_hosts [OF ok, where H' = "(snd (cmdbTables ?l))(n \<mapsto> h\<lparr>ho_Name := n\<rparr>)"]) (simp_all add: allowed_iff spec_iff H)
    with Some show ?thesis by (simp add: UpdateHost_def)
  qed
  show "callOk c (DeleteH n) st (DeleteHost c fault n st)"
  proof (cases "gm_get (yl_hostIndex ?l) n")
    case None
    from host_index(1) [OF ok this] have "\<not> callAllowed (DeleteH n) (cmdbTables ?l)" by (simp add: allowed_iff)
    with None show ?thesis unfolding DeleteHost_def by (simp add: callOk_refused)
  next
    case (Some k)
    note i = host_index(2) [OF ok Some]
    from table_delete [OF d, of k] i
    have "callOk c (DeleteH n) st (commitHosts c fault (take k (yl_hosts ?l) @ drop (Suc k) (yl_hosts ?l)) st)"
      by (intro callOk_hosts [OF ok, where H' = "(snd (cmdbTables ?l))(n := None)"]) (auto simp: allowed_iff spec_iff H)
    with Some show ?thesis by (simp add: DeleteHost_def)
  qed
qed

lemma call_ok: "loaderOk (fst st) \<Longrightarrow> callOk c call st (cmdbCall c (call, fault) st)"
  by (cases call) (simp_all add: cmdbCall_def service_calls host_calls)

lemma call_keeps:
  assumes "loaderOk (fst st)"
  shows "loaderOk (fst (snd (cmdbCall c cf st)))" "yl_path (fst (snd (cmdbCall c cf st))) = yl_path (fst st)"
    "yamlLaw c \<Longrightarrow> diskOk c st \<Longrightarrow> diskOk c (snd (cmdbCall c cf st))"
proof -
  from call_ok [OF assms, of c "fst cf" "snd cf"] have ok: "callOk c (fst cf) st (cmdbCall c cf st)" by simp
  show "loaderOk (fst (snd (cmdbCall c cf st)))" using ok assms by (auto simp: callOk_def committed_def loaderOk_def split: if_splits)
  show "yl_path (fst (snd (cmdbCall c cf st))) = yl_path (fst st)" using ok by (auto simp: callOk_def committed_def split: if_splits)
  show "diskOk c (snd (cmdbCall c cf st))" if "yamlLaw c" "diskOk c st"
    using ok that by (auto simp: callOk_def committed_def diskOk_def yamlLaw_def split: if_splits)
qed

lemma run_keeps:
  assumes "loaderOk (fst st)"
  shows "loaderOk (fst (cmdbRun c calls st))" "yl_path (fst (cmdbRun c calls st)) = yl_path (fst st)"
    "yamlLaw c \<Longrightarrow> diskOk c st \<Longrightarrow> diskOk c (cmdbRun c calls st)"
proof -
  have "loaderOk (fst (cmdbRun c calls st)) \<and> yl_path (fst (cmdbRun c calls st)) = yl_path (fst st) \<and>
    (yamlLaw c \<longrightarrow> diskOk c st \<longrightarrow> diskOk c (cmdbRun c calls st))"
    using assms unfolding cmdbRun_def by (induction calls arbitrary: st) (auto simp: call_keeps)
  then show "loaderOk (fst (cmdbRun c calls st))" "yl_path (fst (cmdbRun c calls st)) = yl_path (fst st)"
    "yamlLaw c \<Longrightarrow> diskOk c st \<Longrightarrow> diskOk c (cmdbRun c calls st)" by blast+
qed

lemma load_ok:
  assumes "NewYAMLLoader c rf d path = Inr l"
  shows "rebuildIndex l = l" "yl_path l = path" "diskOk c (l, d)"
proof -
  from assms obtain f where f: "readFile c rf path d = Inr f" "l = installFile f \<lparr>yl_path = path, yl_services = [], yl_index = [], yl_reverseDeps = [], yl_hosts = [], yl_hostIndex = []\<rparr>"
    by (auto simp: NewYAMLLoader_def load_def split: sum.splits)
  then show "rebuildIndex l = l" "yl_path l = path" by (simp_all add: installFile_def rebuildIndex_def)
  from f(1) show "diskOk c (l, d)" unfolding f(2)
    by (auto simp: readFile_def diskOk_def installFile_def split: option.splits sum.splits)
qed

lemma loaded_ok:
  "NewYAMLLoader c rf d path = Inr l \<Longrightarrow> distinct (map sd_Name (ListAll l)) \<Longrightarrow> distinct (map ho_Name (ListAllHosts l)) \<Longrightarrow> loaderOk l"
  by (simp add: loaderOk_def load_ok ListAll_def ListAllHosts_def)

lemma reload_same:
  assumes "rebuildIndex l = l" "diskOk c (l, d)"
  shows "NewYAMLLoader c None d (yl_path l) = Inr l"
proof -
  from assms(2) obtain data where "dk_file d = Some data" "yc_Unmarshal c data = Inr \<lparr>cf_Services = yl_services l, cf_Hosts = yl_hosts l\<rparr>"
    by (auto simp: diskOk_def)
  then have "NewYAMLLoader c None d (yl_path l) = Inr (rebuildIndex l)"
    by (simp add: NewYAMLLoader_def load_def readFile_def installFile_def rebuildIndex_def)
  with assms(1) show ?thesis by simp
qed

lemma call_fine:
  assumes "loaderOk (fst st)" "callAllowed call (cmdbTables (fst st))" "\<And>f. \<exists>data. yc_Marshal c f = Inr data"
  shows "fst (cmdbCall c (call, SaveFine) st) = None"
proof -
  have fine: "fst (saveTo c SaveFine ss hs d) = None" for ss hs d using assms(3) by (rule saveTo_fine)
  have s: "fst (commitServices c SaveFine ss st) = None" for ss
    using fine [of ss "yl_hosts (fst st)" "snd st"]
    by (cases "saveTo c SaveFine ss (yl_hosts (fst st)) (snd st)") (simp add: commitServices_def)
  have s': "fst (commitHosts c SaveFine hs st) = None" for hs
    using fine [of "yl_services (fst st)" hs "snd st"]
    by (cases "saveTo c SaveFine (yl_services (fst st)) hs (snd st)") (simp add: commitHosts_def)
  have known: "\<exists>i. gm_get (yl_index (fst st)) n = Some i" if "fst (cmdbTables (fst st)) n \<noteq> None" for n
    using service_index(1) [OF assms(1)] that by (cases "gm_get (yl_index (fst st)) n") auto
  have known': "\<exists>i. gm_get (yl_hostIndex (fst st)) n = Some i" if "snd (cmdbTables (fst st)) n \<noteq> None" for n
    using host_index(1) [OF assms(1)] that by (cases "gm_get (yl_hostIndex (fst st)) n") auto
  show ?thesis
  proof (cases call)
    case (CreateS x)
    with assms(2) have "gm_get (yl_index (fst st)) (sd_Name x) = None"
      using service_index(2) [OF assms(1), of "sd_Name x"] by (cases "gm_get (yl_index (fst st)) (sd_Name x)") (auto simp: allowed_iff)
    then show ?thesis by (simp add: CreateS cmdbCall_def CreateService_def s)
  next
    case (CreateH x)
    with assms(2) have "gm_get (yl_hostIndex (fst st)) (ho_Name x) = None"
      using host_index(2) [OF assms(1), of "ho_Name x"] by (cases "gm_get (yl_hostIndex (fst st)) (ho_Name x)") (auto simp: allowed_iff)
    then show ?thesis by (simp add: CreateH cmdbCall_def CreateHost_def s')
  next
    case UpdateS: (UpdateS n x)
    with assms(2) obtain i where "gm_get (yl_index (fst st)) n = Some i" using known [of n] by (auto simp: allowed_iff)
    with UpdateS show ?thesis by (simp add: cmdbCall_def UpdateService_def s)
  next
    case DeleteS: (DeleteS n)
    with assms(2) obtain i where "gm_get (yl_index (fst st)) n = Some i" using known [of n] by (auto simp: allowed_iff)
    with DeleteS show ?thesis by (simp add: cmdbCall_def DeleteService_def s)
  next
    case UpdateH: (UpdateH n x)
    with assms(2) obtain i where "gm_get (yl_hostIndex (fst st)) n = Some i" using known' [of n] by (auto simp: allowed_iff)
    with UpdateH show ?thesis by (simp add: cmdbCall_def UpdateHost_def s')
  next
    case DeleteH: (DeleteH n)
    with assms(2) obtain i where "gm_get (yl_hostIndex (fst st)) n = Some i" using known' [of n] by (auto simp: allowed_iff)
    with DeleteH show ?thesis by (simp add: cmdbCall_def DeleteHost_def s')
  qed
qed

subsection \<open>The claims\<close>

text \<open>C19: the store is a table that is changed as a whole or not at all. After any calls on a loaded store with distinct names,
  whatever fails when saving, a lookup answers what the lists hold; a further call that succeeds was allowed (the name is
  free, or known) and changes the tables as it says, a call that fails leaves the loader and the file as they were, and an
  allowed call that is saved succeeds.\<close>

theorem cmdb_refines_table:
  assumes "NewYAMLLoader c rf d path = Inr l0" "distinct (map sd_Name (ListAll l0))" "distinct (map ho_Name (ListAllHosts l0))"
    and "cmdbRun c calls (l0, d) = (l, dk)" "cmdbCall c (call, fault) (l, dk) = (err, l', dk')"
  shows "GetService l = fst (cmdbTables l) \<and> GetHost l = snd (cmdbTables l) \<and>
    (err = None \<longrightarrow> callAllowed call (cmdbTables l) \<and> cmdbTables l' = callSpec call (cmdbTables l)) \<and>
    (err \<noteq> None \<longrightarrow> l' = l \<and> dk_file dk' = dk_file dk) \<and>
    (callAllowed call (cmdbTables l) \<and> fault = SaveFine \<and> (\<forall>f. \<exists>data. yc_Marshal c f = Inr data) \<longrightarrow> err = None)"
proof -
  from run_keeps(1) [of "(l0, d)" c calls] loaded_ok [OF assms(1-3)] assms(4) have ok: "loaderOk l" by simp
  have call: "callOk c call (l, dk) (err, l', dk')" using call_ok [of "(l, dk)" c call fault] ok by (simp add: assms(5))
  have "err = None" if "callAllowed call (cmdbTables l)" "fault = SaveFine" "\<forall>f. \<exists>data. yc_Marshal c f = Inr data"
    using call_fine [of "(l, dk)" call c] ok that assms(5) by simp
  moreover have "callAllowed call (cmdbTables l) \<and> cmdbTables l' = callSpec call (cmdbTables l)" if "err = None"
    using call that by (auto simp: callOk_def committed_def cmdbTables_def split: if_splits)
  moreover have "l' = l \<and> dk_file dk' = dk_file dk" if "err \<noteq> None"
    using call that by (auto simp: callOk_def committed_def split: if_splits)
  ultimately show ?thesis using GetService_table [OF ok] GetHost_table [OF ok] by blast
qed

text \<open>C25: a restart loses nothing. If what the encoder writes is what the decoder reads, then after any calls, successful or
  not, and at any failure of saving, a new loader on the file is the loader that was in use: the same services and hosts,
  the same indexes and dependents.\<close>

theorem cmdb_restart:
  assumes "\<And>f data. yc_Marshal c f = Inr data \<Longrightarrow> yc_Unmarshal c data = Inr f"
    and "NewYAMLLoader c rf d path = Inr l0" "distinct (map sd_Name (ListAll l0))" "distinct (map ho_Name (ListAllHosts l0))"
    and "cmdbRun c calls (l0, d) = (l, dk)"
  shows "NewYAMLLoader c None dk path = Inr l"
proof -
  have law: "yamlLaw c" using assms(1) by (simp add: yamlLaw_def)
  note k = run_keeps [of "(l0, d)" c calls, unfolded assms(5) fst_conv, OF loaded_ok [OF assms(2-4)]]
  from k(3) [OF law load_ok(3) [OF assms(2)]] k(1) have "NewYAMLLoader c None dk (yl_path l) = Inr l"
    by (intro reload_same) (simp_all add: loaderOk_def)
  then show ?thesis by (simp add: k(2) load_ok(2) [OF assms(2)])
qed

subsection \<open>Examples\<close>

definition demo_service :: service_dto where
  "demo_service = \<lparr>sd_Name = ''web'', sd_DisplayName = [], sd_Owner = ''o'', sd_Team = ''t'', sd_Cluster = ''c'', sd_Env = ''e'', sd_Region = [],
     sd_Language = [], sd_Port = 0, sd_Dependencies = [''db''], sd_Description = [], sd_OnCall = [], sd_LastDeploy = [], sd_Tags = []\<rparr>"

definition demo_file0 :: cmdb_file where "demo_file0 = \<lparr>cf_Services = [demo_service\<lparr>sd_Name := ''db'', sd_Dependencies := []\<rparr>], cf_Hosts = []\<rparr>"
definition demo_file1 :: cmdb_file where
  "demo_file1 = \<lparr>cf_Services = [demo_service\<lparr>sd_Name := ''db'', sd_Dependencies := []\<rparr>, demo_service], cf_Hosts = []\<rparr>"

text \<open>An encoder for two files.\<close>

definition demo_codec :: yaml_codec where
  "demo_codec =
     \<lparr>yc_Marshal = (\<lambda>f. if f = demo_file0 then Inr ''0'' else if f = demo_file1 then Inr ''1'' else Inl (ExtError ''no'')),
      yc_Unmarshal = (\<lambda>s. if s = ''0'' then Inr demo_file0 else if s = ''1'' then Inr demo_file1 else Inl (ExtError ''no''))\<rparr>"

definition demo_disk :: cmdb_disk where "demo_disk = \<lparr>dk_file = Some ''0'', dk_tmp = None\<rparr>"

definition demo_loader :: "cmdb_file \<Rightarrow> yaml_loader" where
  "demo_loader f = installFile f \<lparr>yl_path = ''cmdb.yaml'', yl_services = [], yl_index = [], yl_reverseDeps = [], yl_hosts = [], yl_hostIndex = []\<rparr>"

lemma demo_load: "NewYAMLLoader demo_codec None demo_disk ''cmdb.yaml'' = Inr (demo_loader demo_file0)"
  by (simp add: NewYAMLLoader_def load_def readFile_def demo_disk_def demo_codec_def demo_loader_def)

lemma demo_distinct: "distinct (map sd_Name (ListAll (demo_loader demo_file0)))" "distinct (map ho_Name (ListAllHosts (demo_loader demo_file0)))"
  by (simp_all add: demo_loader_def installFile_def ListAll_def ListAllHosts_def demo_file0_def)

lemma demo_files_differ: "demo_file1 \<noteq> demo_file0"
  by (simp add: demo_file0_def demo_file1_def)

lemma demo_create:
  "cmdbCall demo_codec (CreateS demo_service, SaveFine) (demo_loader demo_file0, demo_disk) = (None, demo_loader demo_file1, \<lparr>dk_file = Some ''1'', dk_tmp = None\<rparr>)"
proof -
  have "gm_get (yl_index (demo_loader demo_file0)) ''web'' = None"
    by (simp add: demo_loader_def installFile_def demo_file0_def indexBy_def)
  moreover have "\<lparr>cf_Services = yl_services (demo_loader demo_file0) @ [demo_service], cf_Hosts = yl_hosts (demo_loader demo_file0)\<rparr> = demo_file1"
    by (simp add: demo_loader_def installFile_def demo_file0_def demo_file1_def)
  moreover have "rebuildIndex ((demo_loader demo_file0)\<lparr>yl_services := yl_services (demo_loader demo_file0) @ [demo_service]\<rparr>) = demo_loader demo_file1"
    by (simp add: demo_loader_def installFile_def demo_file0_def demo_file1_def rebuildIndex_def)
  moreover have "sd_Name demo_service = ''web''" by (simp add: demo_service_def)
  ultimately show ?thesis
    by (simp add: cmdbCall_def CreateService_def commitServices_def saveTo_def) (simp add: demo_codec_def demo_files_differ)
qed

theorem cmdb_refines_table_witness:
  "callAllowed (CreateS demo_service) (cmdbTables (demo_loader demo_file0)) \<and>
   cmdbTables (demo_loader demo_file1) = callSpec (CreateS demo_service) (cmdbTables (demo_loader demo_file0))"
  using cmdb_refines_table [OF demo_load demo_distinct, of "[]", OF _ demo_create] by (simp add: cmdbRun_def)

theorem cmdb_restart_witness:
  "NewYAMLLoader demo_codec None \<lparr>dk_file = Some ''1'', dk_tmp = None\<rparr> ''cmdb.yaml'' = Inr (demo_loader demo_file1)"
proof (rule cmdb_restart [OF _ demo_load demo_distinct, of "[(CreateS demo_service, SaveFine)]"])
  show "yc_Unmarshal demo_codec data = Inr f" if "yc_Marshal demo_codec f = Inr data" for f data
    using that by (auto simp: demo_codec_def split: if_splits)
  show "cmdbRun demo_codec [(CreateS demo_service, SaveFine)] (demo_loader demo_file0, demo_disk) = (demo_loader demo_file1, \<lparr>dk_file = Some ''1'', dk_tmp = None\<rparr>)"
    by (simp add: cmdbRun_def demo_create)
qed

end
