(* ===== verification/Alert_Correlation.thy ===== *)
theory Alert_Correlation
  imports Rag_Query Go_Time
begin

text \<open>
  The correlation of alerts (internal/ai/alertcorrelation/engine.go): groups of alerts in time windows, propagation along the
  dependencies of services, and candidates for the root cause. The topology is an interface that may be nil; its answers
  are parameters, as are \<open>strings.ToLower\<close>, the texts of times and rounded durations, and the order in which the map of the
  services' first alerts is iterated. The engine only reads, so an analysis is a function; a panic is \<open>None\<close>.
\<close>

subsection \<open>Data\<close>

record alert =
  al_AlertName :: string
  al_Description :: string
  al_State :: string
  al_ActiveAt :: gotime
  al_Duration :: string
  al_Labels :: "(string, string) gomap"

record alert_group =
  agr_WindowStart :: gotime
  agr_WindowEnd :: gotime
  agr_Alerts :: "alert list"
  agr_Services :: "string list"

record propagation_chain =
  pch_Path :: "string list"
  pch_Direction :: string
  pch_Confidence :: f64
  pch_Evidence :: string

record root_cause =
  rtc_Service :: string
  rtc_AlertName :: string
  rtc_ActiveAt :: string
  rtc_Reason :: string
  rtc_Confidence :: f64

record correlation_result =
  cor_Success :: bool
  cor_AlertGroups :: "alert_group list"
  cor_Propagation :: "propagation_chain list"
  cor_RootCandidates :: "root_cause list"
  cor_Summary :: string
  cor_TotalAlerts :: int
  cor_TimeRange :: string

text \<open>\<open>GetUpstream\<close> answers the services a service depends on, \<open>GetDownstream\<close> those that depend on it.\<close>

record topology =
  tp_GetUpstream :: "string \<Rightarrow> string list"
  tp_GetDownstream :: "string \<Rightarrow> string list"
  tp_GetAllServices :: "string list"

record correlation_engine =
  ce_topology :: "topology option"
  ce_timeWindowMinutes :: int
  ce_propagationThreshold :: f64

record alert_world =
  awd_lower :: "string \<Rightarrow> string"
  awd_clock :: "gotime \<Rightarrow> string"
  awd_rfc3339 :: "gotime \<Rightarrow> string"
  awd_roundedSeconds :: "duration \<Rightarrow> string"
  awd_visit :: "(string, alert) gomap \<Rightarrow> (string, alert) gomap"

definition NewEngine :: "topology option \<Rightarrow> int \<Rightarrow> f64 \<Rightarrow> correlation_engine" where
  "NewEngine topo minutes threshold =
     \<lparr>ce_topology = topo, ce_timeWindowMinutes = (if minutes \<le> 0 then 5 else minutes),
      ce_propagationThreshold = (if threshold \<le> 0 \<or> threshold > 1 then rnd (7 / 10) else threshold)\<rparr>"

subsection \<open>Services\<close>

definition stripPort :: "string \<Rightarrow> string" where
  "stripPort v = (let i = last_index_byte v (CHR '':'') in if i > 0 then take (nat i) v else v)"

definition labelService :: "alert \<Rightarrow> string option" where
  "labelService a =
     (case find (\<lambda>k. case gm_get (al_Labels a) k of Some v \<Rightarrow> v \<noteq> [] | None \<Rightarrow> False) [''service'', ''instance'', ''job'', ''exported_service''] of
        Some k \<Rightarrow> Some (stripPort (the (gm_get (al_Labels a) k)))
      | None \<Rightarrow> None)"

definition inferService :: "alert_world \<Rightarrow> correlation_engine \<Rightarrow> alert \<Rightarrow> string" where
  "inferService w e a =
     (case labelService a of
        Some s \<Rightarrow> s
      | None \<Rightarrow>
          (case ce_topology e of
             None \<Rightarrow> []
           | Some t \<Rightarrow>
               (case find (\<lambda>svc. contains (awd_lower w svc) (awd_lower w (al_AlertName a)) \<or>
                                contains (awd_lower w svc) (awd_lower w (al_Description a))) (tp_GetAllServices t) of
                  Some svc \<Rightarrow> svc
                | None \<Rightarrow> [])))"

definition extractServices :: "alert_world \<Rightarrow> correlation_engine \<Rightarrow> alert list \<Rightarrow> string list" where
  "extractServices w e alerts = dedup_from [] (filter (\<lambda>s. s \<noteq> []) (map (inferService w e) alerts))"

subsection \<open>Windows\<close>

definition window :: "correlation_engine \<Rightarrow> duration" where
  "window e = wrap64 (ce_timeWindowMinutes e * (60 * second))"

definition startGroup :: "correlation_engine \<Rightarrow> alert \<Rightarrow> alert_group" where
  "startGroup e a = \<lparr>agr_WindowStart = al_ActiveAt a, agr_WindowEnd = al_ActiveAt a + window e, agr_Alerts = [a], agr_Services = []\<rparr>"

definition closeGroup :: "alert_world \<Rightarrow> correlation_engine \<Rightarrow> alert_group \<Rightarrow> alert_group" where
  "closeGroup w e g = g\<lparr>agr_Services := extractServices w e (agr_Alerts g)\<rparr>"

fun groupLoop :: "alert_world \<Rightarrow> correlation_engine \<Rightarrow> alert_group \<Rightarrow> alert list \<Rightarrow> alert_group list" where
  "groupLoop w e g [] = [closeGroup w e g]"
| "groupLoop w e g (a # as) =
     (if al_ActiveAt a < agr_WindowEnd g + window e
      then groupLoop w e (g\<lparr>agr_Alerts := agr_Alerts g @ [a],
                            agr_WindowEnd := (if al_ActiveAt a > agr_WindowEnd g then al_ActiveAt a else agr_WindowEnd g)\<rparr>) as
      else closeGroup w e g # groupLoop w e (startGroup e a) as)"

definition groupByTimeWindow :: "alert_world \<Rightarrow> correlation_engine \<Rightarrow> alert list \<Rightarrow> alert_group list" where
  "groupByTimeWindow w e alerts = (case alerts of [] \<Rightarrow> [] | a # as \<Rightarrow> groupLoop w e (startGroup e a) as)"

subsection \<open>Propagation\<close>

text \<open>The first alert of each service.\<close>

definition noteAlert :: "alert_world \<Rightarrow> correlation_engine \<Rightarrow> alert \<Rightarrow> (string, alert) gomap \<Rightarrow> (string, alert) gomap" where
  "noteAlert w e a m =
     (let svc = inferService w e a
      in if svc = [] then m
         else (case gm_get m svc of
                 None \<Rightarrow> gm_put svc a m
               | Some b \<Rightarrow> if al_ActiveAt a < al_ActiveAt b then gm_put svc a m else m))"

definition firstAlerts :: "alert_world \<Rightarrow> correlation_engine \<Rightarrow> alert list \<Rightarrow> (string, alert) gomap" where
  "firstAlerts w e alerts = fold (noteAlert w e) alerts []"

definition firstTime :: "(string, alert) gomap \<Rightarrow> string \<Rightarrow> gotime option" where
  "firstTime m svc = map_option al_ActiveAt (gm_get m svc)"

definition calculatePropagationConfidence :: "duration \<Rightarrow> f64" where
  "calculatePropagationConfidence delay =
     (if delay < 60 * second then rnd (95 / 100)
      else if delay < 5 * 60 * second then rnd (85 / 100)
      else if delay < 15 * 60 * second then rnd (75 / 100)
      else if delay < 30 * 60 * second then rnd (65 / 100)
      else rnd (5 / 10))"

text \<open>One pair of services: the keys that were seen and the chains found so far.\<close>

definition forwardPair ::
  "alert_world \<Rightarrow> correlation_engine \<Rightarrow> (string, alert) gomap \<Rightarrow> string \<times> string \<Rightarrow> string list \<times> propagation_chain list \<Rightarrow>
     string list \<times> propagation_chain list" where
  "forwardPair w e m pair st =
     (case (pair, st) of ((up, down), (seen, found)) \<Rightarrow>
        (case (firstTime m up, firstTime m down) of
           (Some ut, Some dt) \<Rightarrow>
             (if \<not> ut \<le> dt \<or> up @ ''->'' @ down \<in> set seen then (seen, found)
              else (let delay = time_sub dt ut; confidence = calculatePropagationConfidence delay
                    in ((up @ ''->'' @ down) # seen,
                        if confidence \<ge> ce_propagationThreshold e
                        then found @ [\<lparr>pch_Path = [up, down], pch_Direction = ''upstream_to_downstream'', pch_Confidence = confidence,
                                        pch_Evidence = up @ ('' '' @ [CHR 0xE5, CHR 0x85, CHR 0x88, CHR 0xE5, CHR 0x91, CHR 0x8A, CHR 0xE8, CHR 0xAD, CHR 0xA6, CHR 0xEF, CHR 0xBC, CHR 0x8C]) @ down @ '' '' @ awd_roundedSeconds w delay @ ('' '' @ [CHR 0xE5, CHR 0x90, CHR 0x8E, CHR 0xE5, CHR 0x91, CHR 0x8A, CHR 0xE8, CHR 0xAD, CHR 0xA6])\<rparr>]
                        else found)))
         | _ \<Rightarrow> (seen, found)))"

definition reversePair ::
  "alert_world \<Rightarrow> (string, alert) gomap \<Rightarrow> string \<times> string \<Rightarrow> string list \<times> propagation_chain list \<Rightarrow> string list \<times> propagation_chain list" where
  "reversePair w m pair st =
     (case (pair, st) of ((down, up), (seen, found)) \<Rightarrow>
        (case (firstTime m down, firstTime m up) of
           (Some dt, Some ut) \<Rightarrow>
             (if \<not> dt < ut \<or> down @ ''->'' @ up @ ''_reverse'' \<in> set seen then (seen, found)
              else ((down @ ''->'' @ up @ ''_reverse'') # seen,
                    found @ [\<lparr>pch_Path = [down, up], pch_Direction = ''downstream_to_upstream_unusual'', pch_Confidence = rnd (5 / 10),
                               pch_Evidence = down @ ('' '' @ [CHR 0xE5, CHR 0x85, CHR 0x88, CHR 0xE4, CHR 0xBA, CHR 0x8E, CHR 0xE4, CHR 0xB8, CHR 0x8A, CHR 0xE6, CHR 0xB8, CHR 0xB8] @ '' '') @ up @ ('' '' @ [CHR 0xE5, CHR 0x91, CHR 0x8A, CHR 0xE8, CHR 0xAD, CHR 0xA6, CHR 0xEF, CHR 0xBC, CHR 0x88]) @
                                 awd_roundedSeconds w (time_sub ut dt) @ [CHR 0xEF, CHR 0xBC, CHR 0x89, CHR 0xEF, CHR 0xBC, CHR 0x8C, CHR 0xE5, CHR 0x8F, CHR 0xAF, CHR 0xE8, CHR 0x83, CHR 0xBD, CHR 0xE6, CHR 0x98, CHR 0xAF, CHR 0xE7, CHR 0x8B, CHR 0xAC, CHR 0xE7, CHR 0xAB, CHR 0x8B, CHR 0xE6, CHR 0x95, CHR 0x85, CHR 0xE9, CHR 0x9A, CHR 0x9C]\<rparr>]))
         | _ \<Rightarrow> (seen, found)))"

definition pairsOf :: "(string \<Rightarrow> string list) \<Rightarrow> string list \<Rightarrow> (string \<times> string) list" where
  "pairsOf next1 services = concat (map (\<lambda>s. map (\<lambda>n. (s, n)) (next1 s)) services)"

definition detectPropagation :: "alert_world \<Rightarrow> correlation_engine \<Rightarrow> alert list \<Rightarrow> string list \<Rightarrow> propagation_chain list" where
  "detectPropagation w e alerts services =
     (case ce_topology e of
        None \<Rightarrow> []
      | Some t \<Rightarrow>
          (if length services < 2 then []
           else (let m = firstAlerts w e alerts
                 in snd (fold (reversePair w m) (pairsOf (tp_GetUpstream t) services)
                          (fold (forwardPair w e m) (pairsOf (tp_GetDownstream t) services) ([], []))))))"

subsection \<open>Root causes\<close>

text \<open>The score of a service and its reasons; nothing for a score of 0.\<close>

definition scoreService ::
  "correlation_engine \<Rightarrow> topology \<Rightarrow> alert list \<Rightarrow> propagation_chain list \<Rightarrow> (string, alert) gomap \<Rightarrow> string \<times> alert \<Rightarrow> (f64 \<times> string list)" where
  "scoreService e t alerts found m sa =
     (case sa of (svc, a) \<Rightarrow>
        (let (s1, r1) = (if al_ActiveAt a = al_ActiveAt (hd alerts) then (fadd 0 (rnd (3 / 10)), [[CHR 0xE6, CHR 0x9C, CHR 0x80, CHR 0xE6, CHR 0x97, CHR 0xA9, CHR 0xE5, CHR 0x91, CHR 0x8A, CHR 0xE8, CHR 0xAD, CHR 0xA6]]) else (0, []));
             causes = list_ex (\<lambda>c. pch_Direction c = ''upstream_to_downstream'' \<and> (case pch_Path c of p # _ \<Rightarrow> p = svc | [] \<Rightarrow> False)) found;
             (s2, r2) = (if causes then (fadd s1 (rnd (5 / 10)), r1 @ [[CHR 0xE4, CHR 0xBC, CHR 0xA0, CHR 0xE6, CHR 0x92, CHR 0xAD, CHR 0xE9, CHR 0x93, CHR 0xBE, CHR 0xE4, CHR 0xB8, CHR 0x8A, CHR 0xE6, CHR 0xB8, CHR 0xB8]]) else (s1, r1));
             ups = tp_GetUpstream t svc
         in if ups \<noteq> [] \<and> \<not> list_ex (\<lambda>up. gm_get m up \<noteq> None) ups
            then (fadd s2 (rnd (2 / 10)), r2 @ [[CHR 0xE4, CHR 0xB8, CHR 0x8A, CHR 0xE6, CHR 0xB8, CHR 0xB8, CHR 0xE6, CHR 0x97, CHR 0xA0, CHR 0xE5, CHR 0x91, CHR 0x8A, CHR 0xE8, CHR 0xAD, CHR 0xA6]]) else (s2, r2)))"

definition rootCandidate :: "alert_world \<Rightarrow> string \<times> alert \<Rightarrow> f64 \<times> string list \<Rightarrow> root_cause" where
  "rootCandidate w sa sr =
     \<lparr>rtc_Service = fst sa, rtc_AlertName = al_AlertName (snd sa), rtc_ActiveAt = awd_rfc3339 w (al_ActiveAt (snd sa)),
      rtc_Reason = join [CHR 0xEF, CHR 0xBC, CHR 0x9B] (snd sr), rtc_Confidence = fst sr\<rparr>"

text \<open>A call of a method of the nil topology is a panic; it happens for the first service of the map.\<close>

definition identifyRootCauses ::
  "alert_world \<Rightarrow> correlation_engine \<Rightarrow> alert list \<Rightarrow> propagation_chain list \<Rightarrow> root_cause list option" where
  "identifyRootCauses w e alerts found =
     (if alerts = [] then Some []
      else (let m = firstAlerts w e alerts
            in if m = [] then Some []
               else (case ce_topology e of
                       None \<Rightarrow> None
                     | Some t \<Rightarrow>
                         Some (take 3 (sort_slice (\<lambda>a b. rtc_Confidence a > rtc_Confidence b)
                           (map (\<lambda>sa. rootCandidate w sa (scoreService e t alerts found m sa))
                             (filter (\<lambda>sa. fst (scoreService e t alerts found m sa) > 0) (awd_visit w m))))))))"

subsection \<open>The analysis\<close>

definition percentText :: "f64 \<Rightarrow> string" where
  "percentText c = fmt_fixed 0 (fmul c 100)"

definition buildSummary :: "alert_group list \<Rightarrow> propagation_chain list \<Rightarrow> root_cause list \<Rightarrow> alert list \<Rightarrow> string" where
  "buildSummary groups found roots alerts =
     ([CHR 0xE5, CHR 0x85, CHR 0xB1] @ '' '') @ itoa (int (length alerts)) @ ('' '' @ [CHR 0xE4, CHR 0xB8, CHR 0xAA, CHR 0xE5, CHR 0x91, CHR 0x8A, CHR 0xE8, CHR 0xAD, CHR 0xA6]) @
     (if length groups > 1 then ([CHR 0xEF, CHR 0xBC, CHR 0x8C, CHR 0xE5, CHR 0x88, CHR 0x86, CHR 0xE5, CHR 0xB8, CHR 0x83, CHR 0xE5, CHR 0x9C, CHR 0xA8] @ '' '') @ itoa (int (length groups)) @ ('' '' @ [CHR 0xE4, CHR 0xB8, CHR 0xAA, CHR 0xE6, CHR 0x97, CHR 0xB6, CHR 0xE9, CHR 0x97, CHR 0xB4, CHR 0xE7, CHR 0xAA, CHR 0x97, CHR 0xE5, CHR 0x8F, CHR 0xA3]) else []) @ [CHR 0xE3, CHR 0x80, CHR 0x82] @
     (if found \<noteq> []
      then ([CHR 0x0A, CHR 0x0A, CHR 0xE6, CHR 0xA3, CHR 0x80, CHR 0xE6, CHR 0xB5, CHR 0x8B, CHR 0xE5, CHR 0x88, CHR 0xB0] @ '' '') @ itoa (int (length found)) @ ('' '' @ [CHR 0xE6, CHR 0x9D, CHR 0xA1, CHR 0xE4, CHR 0xBC, CHR 0xA0, CHR 0xE6, CHR 0x92, CHR 0xAD, CHR 0xE9, CHR 0x93, CHR 0xBE, CHR 0xEF, CHR 0xBC, CHR 0x9A]) @
        concat (map (\<lambda>(i, c). ([CHR 0x0A] @ ''  '') @ itoa (int i) @ ''. '' @ hd (pch_Path c) @ ('' '' @ [CHR 0xE2, CHR 0x86, CHR 0x92] @ '' '') @ last (pch_Path c) @
                               ([CHR 0xEF, CHR 0xBC, CHR 0x88, CHR 0xE7, CHR 0xBD, CHR 0xAE, CHR 0xE4, CHR 0xBF, CHR 0xA1, CHR 0xE5, CHR 0xBA, CHR 0xA6] @ '' '') @ percentText (pch_Confidence c) @ (''%'' @ [CHR 0xEF, CHR 0xBC, CHR 0x8C]) @ pch_Evidence c @ [CHR 0xEF, CHR 0xBC, CHR 0x89]) (enumerate 1 found))
      else []) @
     (if roots \<noteq> []
      then [CHR 0x0A, CHR 0x0A, CHR 0xE6, CHR 0xA0, CHR 0xB9, CHR 0xE5, CHR 0x9B, CHR 0xA0, CHR 0xE5, CHR 0x80, CHR 0x99, CHR 0xE9, CHR 0x80, CHR 0x89, CHR 0xEF, CHR 0xBC, CHR 0x88, CHR 0xE6, CHR 0x8C, CHR 0x89, CHR 0xE5, CHR 0x8F, CHR 0xAF, CHR 0xE8, CHR 0x83, CHR 0xBD, CHR 0xE6, CHR 0x80, CHR 0xA7, CHR 0xE6, CHR 0x8E, CHR 0x92, CHR 0xE5, CHR 0xBA, CHR 0x8F, CHR 0xEF, CHR 0xBC, CHR 0x89, CHR 0xEF, CHR 0xBC, CHR 0x9A] @
        concat (map (\<lambda>(i, r). ([CHR 0x0A] @ ''  '') @ itoa (int i) @ ''. '' @ rtc_Service r @ ('' '' @ [CHR 0xE2, CHR 0x80, CHR 0x94] @ '' '') @ rtc_AlertName r @
                               ([CHR 0xEF, CHR 0xBC, CHR 0x88, CHR 0xE7, CHR 0xBD, CHR 0xAE, CHR 0xE4, CHR 0xBF, CHR 0xA1, CHR 0xE5, CHR 0xBA, CHR 0xA6] @ '' '') @ percentText (rtc_Confidence r) @ (''%'' @ [CHR 0xEF, CHR 0xBC, CHR 0x8C]) @ rtc_Reason r @ [CHR 0xEF, CHR 0xBC, CHR 0x89]) (enumerate 1 roots))
      else [CHR 0x0A, CHR 0x0A, CHR 0xE6, CHR 0x9C, CHR 0xAA, CHR 0xE8, CHR 0x83, CHR 0xBD, CHR 0xE7, CHR 0xA1, CHR 0xAE, CHR 0xE5, CHR 0xAE, CHR 0x9A, CHR 0xE6, CHR 0xA0, CHR 0xB9, CHR 0xE5, CHR 0x9B, CHR 0xA0, CHR 0xE5, CHR 0x80, CHR 0x99, CHR 0xE9, CHR 0x80, CHR 0x89, CHR 0xEF, CHR 0xBC, CHR 0x8C, CHR 0xE5, CHR 0x91, CHR 0x8A, CHR 0xE8, CHR 0xAD, CHR 0xA6, CHR 0xE5, CHR 0x8F, CHR 0xAF, CHR 0xE8, CHR 0x83, CHR 0xBD, CHR 0xE6, CHR 0x98, CHR 0xAF, CHR 0xE7, CHR 0x8B, CHR 0xAC, CHR 0xE7, CHR 0xAB, CHR 0x8B, CHR 0xE4, CHR 0xBA, CHR 0x8B, CHR 0xE4, CHR 0xBB, CHR 0xB6, CHR 0xE3, CHR 0x80, CHR 0x82])"

definition sortedAlerts :: "alert list \<Rightarrow> alert list" where
  "sortedAlerts alerts = sort_slice (\<lambda>a b. al_ActiveAt a < al_ActiveAt b) alerts"

definition Analyze :: "alert_world \<Rightarrow> correlation_engine \<Rightarrow> alert list \<Rightarrow> correlation_result option" where
  "Analyze w e alerts =
     (if alerts = []
      then Some \<lparr>cor_Success = True, cor_AlertGroups = [], cor_Propagation = [], cor_RootCandidates = [],
                 cor_Summary = [CHR 0xE5, CHR 0xBD, CHR 0x93, CHR 0xE5, CHR 0x89, CHR 0x8D, CHR 0xE6, CHR 0xB2, CHR 0xA1, CHR 0xE6, CHR 0x9C, CHR 0x89, CHR 0xE6, CHR 0xB4, CHR 0xBB, CHR 0xE8, CHR 0xB7, CHR 0x83, CHR 0xE5, CHR 0x91, CHR 0x8A, CHR 0xE8, CHR 0xAD, CHR 0xA6, CHR 0xE3, CHR 0x80, CHR 0x82], cor_TotalAlerts = 0, cor_TimeRange = []\<rparr>
      else (let sorted1 = sortedAlerts alerts; groups = groupByTimeWindow w e sorted1;
                found = detectPropagation w e sorted1 (extractServices w e sorted1)
            in case identifyRootCauses w e sorted1 found of
                 None \<Rightarrow> None
               | Some roots \<Rightarrow>
                   Some \<lparr>cor_Success = True, cor_AlertGroups = groups, cor_Propagation = found, cor_RootCandidates = roots,
                         cor_Summary = buildSummary groups found roots sorted1, cor_TotalAlerts = int (length alerts),
                         cor_TimeRange = awd_clock w (al_ActiveAt (hd sorted1)) @ '' ~ '' @ awd_clock w (al_ActiveAt (last sorted1))\<rparr>))"

subsection \<open>Windows\<close>

lemma group_concat: "concat (map agr_Alerts (groupLoop w e g as)) = agr_Alerts g @ as"
  by (induction w e g as rule: groupLoop.induct) (simp_all add: closeGroup_def startGroup_def)

definition in_window :: "alert_group \<Rightarrow> bool" where
  "in_window g \<longleftrightarrow> agr_Alerts g \<noteq> [] \<and> list_all (\<lambda>a. agr_WindowStart g \<le> al_ActiveAt a \<and> al_ActiveAt a \<le> agr_WindowEnd g) (agr_Alerts g)"

definition apart :: "correlation_engine \<Rightarrow> alert_group \<Rightarrow> alert_group \<Rightarrow> bool" where
  "apart e g h \<longleftrightarrow> agr_WindowEnd g + window e \<le> agr_WindowStart h"

lemma group_head: "\<exists>h hs. groupLoop w e g as = h # hs \<and> agr_WindowStart h = agr_WindowStart g"
  by (induction w e g as rule: groupLoop.induct) (simp_all add: closeGroup_def)

lemma group_loop_ok:
  assumes "in_window g" "0 \<le> window e" "sorted (map al_ActiveAt as)" "\<forall>a\<in>set as. agr_WindowStart g \<le> al_ActiveAt a"
  shows "list_all in_window (groupLoop w e g as) \<and> successively (apart e) (groupLoop w e g as)"
  using assms
proof (induction w e g as rule: groupLoop.induct)
  case (1 w e g)
  then show ?case by (simp add: in_window_def closeGroup_def)
next
  case (2 w e g a as)
  show ?case
  proof (cases "al_ActiveAt a < agr_WindowEnd g + window e")
    case True
    let ?g = "g\<lparr>agr_Alerts := agr_Alerts g @ [a], agr_WindowEnd := (if al_ActiveAt a > agr_WindowEnd g then al_ActiveAt a else agr_WindowEnd g)\<rparr>"
    have "in_window ?g" using "2.prems"(1,4) by (auto simp: in_window_def list_all_iff)
    with "2.IH"(1) [OF True] "2.prems" True show ?thesis by simp
  next
    case False
    have "in_window (startGroup e a)" using "2.prems"(2) by (simp add: in_window_def startGroup_def)
    moreover have "\<forall>b\<in>set as. agr_WindowStart (startGroup e a) \<le> al_ActiveAt b" using "2.prems"(3) by (simp add: startGroup_def)
    ultimately have ih: "list_all in_window (groupLoop w e (startGroup e a) as) \<and> successively (apart e) (groupLoop w e (startGroup e a) as)"
      using "2.IH"(2) [OF False] "2.prems" by simp
    obtain h hs where "groupLoop w e (startGroup e a) as = h # hs" "agr_WindowStart h = al_ActiveAt a"
      using group_head [of w e "startGroup e a" as] by (auto simp: startGroup_def)
    moreover from this(2) False have "apart e (closeGroup w e g) h" by (simp add: closeGroup_def apart_def)
    moreover have "in_window (closeGroup w e g)" using "2.prems"(1) by (simp add: in_window_def closeGroup_def)
    ultimately show ?thesis using ih False by simp
  qed
qed

lemma weak_order_less: "weak_order (\<lambda>a b. (f a :: 'b :: linorder) < f b)"
  by (auto simp: weak_order_def)

lemma sortedAlerts_sorted: "sorted (map al_ActiveAt (sortedAlerts alerts))"
proof -
  have "sorted_wrt (\<lambda>x y. al_ActiveAt x \<le> al_ActiveAt y) (sortedAlerts alerts)"
    using sort_slice_sorted [OF weak_order_less, of al_ActiveAt alerts] by (simp add: sortedAlerts_def linorder_not_less)
  then show ?thesis by (simp add: sorted_wrt_map)
qed

text \<open>C38: every alert stands in one window. With a window of no negative length, the groups of an
  analysis of alerts are these in the order of their times, cut into windows: no alert is lost or doubled, each lies between the start and the end of its window, and between two windows
  lies at least the length of one.\<close>

theorem alert_windows:
  assumes "Analyze w e alerts = Some r" "alerts \<noteq> []" "0 \<le> window e"
  shows "mset (concat (map agr_Alerts (cor_AlertGroups r))) = mset alerts \<and>
    sorted (map al_ActiveAt (concat (map agr_Alerts (cor_AlertGroups r)))) \<and>
    list_all (\<lambda>g. agr_Alerts g \<noteq> [] \<and>
      list_all (\<lambda>a. agr_WindowStart g \<le> al_ActiveAt a \<and> al_ActiveAt a \<le> agr_WindowEnd g) (agr_Alerts g)) (cor_AlertGroups r) \<and>
    successively (\<lambda>g h. agr_WindowEnd g + window e \<le> agr_WindowStart h) (cor_AlertGroups r)"
proof -
  from assms(1,2) have g: "cor_AlertGroups r = groupByTimeWindow w e (sortedAlerts alerts)"
    by (auto simp: Analyze_def Let_def split: option.splits)
  from assms(2) have "sortedAlerts alerts \<noteq> []" by (simp add: sortedAlerts_def)
  then obtain a as where s: "sortedAlerts alerts = a # as" by (cases "sortedAlerts alerts") auto
  have c: "concat (map agr_Alerts (cor_AlertGroups r)) = sortedAlerts alerts"
    by (simp add: g s groupByTimeWindow_def group_concat) (simp add: startGroup_def)
  have "in_window (startGroup e a)" using assms(3) by (simp add: in_window_def startGroup_def)
  moreover have "sorted (map al_ActiveAt as)" "\<forall>b\<in>set as. agr_WindowStart (startGroup e a) \<le> al_ActiveAt b"
    using sortedAlerts_sorted [of alerts] by (simp_all add: s startGroup_def)
  ultimately have "list_all in_window (cor_AlertGroups r) \<and> successively (apart e) (cor_AlertGroups r)"
    using group_loop_ok [OF _ assms(3)] by (simp add: g s groupByTimeWindow_def)
  then show ?thesis
    using sortedAlerts_sorted [of alerts] by (simp add: c sortedAlerts_def in_window_def [abs_def] apart_def [abs_def])
qed

subsection \<open>First alerts\<close>

text \<open>What the table of first alerts holds for a service: an alert of this service, and none of it is earlier.\<close>

lemma first_alerts:
  "gm_get (fold (noteAlert w e) as m) svc = Some b \<Longrightarrow>
    (\<forall>s c. gm_get m s = Some c \<longrightarrow> inferService w e c = s \<and> s \<noteq> []) \<Longrightarrow>
    inferService w e b = svc \<and> svc \<noteq> [] \<and> (b \<in> set as \<or> gm_get m svc = Some b) \<and>
    (\<forall>a\<in>set as. inferService w e a = svc \<longrightarrow> al_ActiveAt b \<le> al_ActiveAt a) \<and>
    (\<forall>c. gm_get m svc = Some c \<longrightarrow> al_ActiveAt b \<le> al_ActiveAt c)"
proof (induction as arbitrary: m)
  case (Cons a as)
  have "\<forall>s c. gm_get (noteAlert w e a m) s = Some c \<longrightarrow> inferService w e c = s \<and> s \<noteq> []"
    using Cons.prems(2) by (auto simp: noteAlert_def Let_def gm_get_put split: option.split)
  from Cons.IH [OF _ this] Cons.prems
  have ih: "inferService w e b = svc \<and> svc \<noteq> [] \<and> (b \<in> set as \<or> gm_get (noteAlert w e a m) svc = Some b) \<and>
      (\<forall>a\<in>set as. inferService w e a = svc \<longrightarrow> al_ActiveAt b \<le> al_ActiveAt a) \<and>
      (\<forall>c. gm_get (noteAlert w e a m) svc = Some c \<longrightarrow> al_ActiveAt b \<le> al_ActiveAt c)" by simp
  show ?case
  proof (cases "inferService w e a = svc \<and> svc \<noteq> []")
    case False
    then have "gm_get (noteAlert w e a m) svc = gm_get m svc" by (auto simp: noteAlert_def Let_def gm_get_put split: option.split)
    with ih False show ?thesis by auto
  next
    case True
    show ?thesis
    proof (cases "gm_get m svc")
      case None
      with True have "gm_get (noteAlert w e a m) svc = Some a" by (simp add: noteAlert_def Let_def)
      with ih None True show ?thesis by auto
    next
      case (Some c)
      with True have "gm_get (noteAlert w e a m) svc = Some (if al_ActiveAt a < al_ActiveAt c then a else c)"
        by (simp add: noteAlert_def Let_def)
      with ih Some True show ?thesis by (auto split: if_splits)
    qed
  qed
qed auto

lemma first_time:
  assumes "firstTime (firstAlerts w e alerts) svc = Some x"
  shows "(\<exists>b\<in>set alerts. inferService w e b = svc \<and> al_ActiveAt b = x) \<and> (\<forall>a\<in>set alerts. inferService w e a = svc \<longrightarrow> x \<le> al_ActiveAt a)"
proof -
  from assms obtain b where b: "gm_get (fold (noteAlert w e) alerts []) svc = Some b" "x = al_ActiveAt b"
    by (auto simp: firstTime_def firstAlerts_def)
  from first_alerts [OF b(1)] b(2) show ?thesis by auto
qed

lemma first_alerts_empty: "firstAlerts w e alerts = [] \<longleftrightarrow> (\<forall>a\<in>set alerts. inferService w e a = [])"
proof -
  have put: "gm_put k v m \<noteq> []" for k :: string and v :: alert and m by (cases m) auto
  have note1: "noteAlert w e a m = [] \<longleftrightarrow> m = [] \<and> inferService w e a = []" for a m
    by (auto simp: noteAlert_def Let_def put split: option.splits if_splits)
  have "fold (noteAlert w e) as m = [] \<longleftrightarrow> m = [] \<and> (\<forall>a\<in>set as. inferService w e a = [])" for as m
    by (induction as arbitrary: m) (auto simp: note1)
  then show ?thesis by (simp add: firstAlerts_def)
qed

subsection \<open>Propagation\<close>

text \<open>A chain between two services of the table, in the order of their first alerts.\<close>

definition chain_ok :: "correlation_engine \<Rightarrow> topology \<Rightarrow> (string, alert) gomap \<Rightarrow> propagation_chain \<Rightarrow> bool" where
  "chain_ok e t m c \<longleftrightarrow>
     (\<exists>a b x y. pch_Path c = [a, b] \<and> firstTime m a = Some x \<and> firstTime m b = Some y \<and> x \<le> y \<and>
       (if pch_Direction c = ''upstream_to_downstream'' then b \<in> set (tp_GetDownstream t a) \<and> ce_propagationThreshold e \<le> pch_Confidence c
        else b \<in> set (tp_GetUpstream t a) \<and> x < y))"

lemma new_chain_ok:
  "firstTime m a = Some x \<Longrightarrow> firstTime m b = Some y \<Longrightarrow> x \<le> y \<Longrightarrow> b \<in> set (tp_GetDownstream t a) \<Longrightarrow> ce_propagationThreshold e \<le> q \<Longrightarrow>
    chain_ok e t m \<lparr>pch_Path = [a, b], pch_Direction = ''upstream_to_downstream'', pch_Confidence = q, pch_Evidence = ev\<rparr>"
  "firstTime m a = Some x \<Longrightarrow> firstTime m b = Some y \<Longrightarrow> x < y \<Longrightarrow> b \<in> set (tp_GetUpstream t a) \<Longrightarrow>
    chain_ok e t m \<lparr>pch_Path = [a, b], pch_Direction = ''downstream_to_upstream_unusual'', pch_Confidence = q, pch_Evidence = ev\<rparr>"
  by (simp_all add: chain_ok_def)

lemma forward_ok:
  "list_all (chain_ok e t m) (snd st) \<Longrightarrow> \<forall>(a, b)\<in>set pairs. b \<in> set (tp_GetDownstream t a) \<Longrightarrow>
    list_all (chain_ok e t m) (snd (fold (forwardPair w e m) pairs st))"
proof (induction pairs arbitrary: st)
  case (Cons p pairs)
  have "list_all (chain_ok e t m) (snd (forwardPair w e m p st))"
    using Cons.prems by (auto simp: forwardPair_def new_chain_ok(1) Let_def split: prod.splits option.splits)
  from Cons.IH [OF this] Cons.prems(2) show ?case by simp
qed simp

lemma reverse_ok:
  "list_all (chain_ok e t m) (snd st) \<Longrightarrow> \<forall>(a, b)\<in>set pairs. b \<in> set (tp_GetUpstream t a) \<Longrightarrow>
    list_all (chain_ok e t m) (snd (fold (reversePair w m) pairs st))"
proof (induction pairs arbitrary: st)
  case (Cons p pairs)
  have "list_all (chain_ok e t m) (snd (reversePair w m p st))"
    using Cons.prems by (auto simp: reversePair_def new_chain_ok(2) Let_def split: prod.splits option.splits)
  from Cons.IH [OF this] Cons.prems(2) show ?case by simp
qed simp

lemma pairsOf_in: "\<forall>(a, b)\<in>set (pairsOf f services). b \<in> set (f a)"
  by (auto simp: pairsOf_def)

lemma detected_ok:
  assumes "ce_topology e = Some t"
  shows "list_all (chain_ok e t (firstAlerts w e alerts)) (detectPropagation w e alerts services)"
proof (cases "length services < 2")
  case False
  with assms show ?thesis
    by (simp add: detectPropagation_def Let_def) (intro reverse_ok forward_ok pairsOf_in; simp)
qed (simp add: assms detectPropagation_def)

text \<open>Every chain of an analysis leads from one service to another, both of which alerted, in the order of their first alerts,
  along the topology.\<close>

lemma analyzed_chain:
  assumes "Analyze w e alerts = Some r" "chain \<in> set (cor_Propagation r)"
  shows "\<exists>t a b x y. ce_topology e = Some t \<and> pch_Path chain = [a, b] \<and>
    (\<exists>u\<in>set alerts. inferService w e u = a \<and> al_ActiveAt u = x) \<and> (\<forall>u\<in>set alerts. inferService w e u = a \<longrightarrow> x \<le> al_ActiveAt u) \<and>
    (\<exists>u\<in>set alerts. inferService w e u = b \<and> al_ActiveAt u = y) \<and> (\<forall>u\<in>set alerts. inferService w e u = b \<longrightarrow> y \<le> al_ActiveAt u) \<and>
    x \<le> y \<and>
    (if pch_Direction chain = ''upstream_to_downstream'' then b \<in> set (tp_GetDownstream t a) \<and> ce_propagationThreshold e \<le> pch_Confidence chain
     else b \<in> set (tp_GetUpstream t a) \<and> x < y)"
proof -
  let ?s = "sortedAlerts alerts"
  from assms have c: "chain \<in> set (detectPropagation w e ?s (extractServices w e ?s))"
    by (auto simp: Analyze_def Let_def split: if_split_asm option.splits)
  then obtain t where t: "ce_topology e = Some t" by (cases "ce_topology e") (simp_all add: detectPropagation_def)
  from detected_ok [OF t] c have "chain_ok e t (firstAlerts w e ?s) chain" by (auto simp: list_all_iff)
  then obtain a b x y where ok: "pch_Path chain = [a, b]" "firstTime (firstAlerts w e ?s) a = Some x" "firstTime (firstAlerts w e ?s) b = Some y"
    "x \<le> y" "if pch_Direction chain = ''upstream_to_downstream'' then b \<in> set (tp_GetDownstream t a) \<and> ce_propagationThreshold e \<le> pch_Confidence chain
     else b \<in> set (tp_GetUpstream t a) \<and> x < y"
    unfolding chain_ok_def by blast
  from first_time [OF ok(2)] first_time [OF ok(3)] have
    "(\<exists>u\<in>set alerts. inferService w e u = a \<and> al_ActiveAt u = x) \<and> (\<forall>u\<in>set alerts. inferService w e u = a \<longrightarrow> x \<le> al_ActiveAt u)"
    "(\<exists>u\<in>set alerts. inferService w e u = b \<and> al_ActiveAt u = y) \<and> (\<forall>u\<in>set alerts. inferService w e u = b \<longrightarrow> y \<le> al_ActiveAt u)"
    by (simp_all add: sortedAlerts_def)
  with t ok(1,4,5) show ?thesis by blast
qed

text \<open>Without a topology an analysis of a labelled alert panics, and nothing else does: the root causes are looked up in the
  topology without asking whether there is one, as the other two users of it do.\<close>

lemma nil_topology_iff: "Analyze w e alerts = None \<longleftrightarrow> ce_topology e = None \<and> (\<exists>a\<in>set alerts. inferService w e a \<noteq> [])"
proof (cases "alerts = []")
  case False
  then have n: "sortedAlerts alerts \<noteq> []" by (simp add: sortedAlerts_def)
  have s: "set (sortedAlerts alerts) = set alerts" by (simp add: sortedAlerts_def)
  have "Analyze w e alerts = None \<longleftrightarrow> identifyRootCauses w e (sortedAlerts alerts) (detectPropagation w e (sortedAlerts alerts) (extractServices w e (sortedAlerts alerts))) = None"
    using False by (simp add: Analyze_def Let_def split: option.split)
  also have "\<dots> \<longleftrightarrow> ce_topology e = None \<and> firstAlerts w e (sortedAlerts alerts) \<noteq> []"
    using n by (simp add: identifyRootCauses_def Let_def split: option.split)
  finally show ?thesis by (auto simp: first_alerts_empty s)
qed (simp add: Analyze_def)

subsection \<open>The contract of a topology\<close>

text \<open>What a provider of topologies owes the engine: the services downstream of a service are those it is upstream of.\<close>

locale service_topology =
  fixes up :: "'st \<Rightarrow> string \<Rightarrow> string list"
    and down :: "'st \<Rightarrow> string \<Rightarrow> string list"
    and every :: "'st \<Rightarrow> string list"
    and ok :: "'st \<Rightarrow> bool"
  assumes converse: "ok st \<Longrightarrow> b \<in> set (down st a) \<longleftrightarrow> a \<in> set (up st b)"
begin

lemma chain_follows_dependencies:
  assumes "ok st" "ce_topology e = Some \<lparr>tp_GetUpstream = up st, tp_GetDownstream = down st, tp_GetAllServices = every st\<rparr>"
    and "Analyze w e alerts = Some r" "chain \<in> set (cor_Propagation r)"
  shows "\<exists>a b x y. pch_Path chain = [a, b] \<and>
    (\<exists>u\<in>set alerts. inferService w e u = a \<and> al_ActiveAt u = x) \<and> (\<forall>u\<in>set alerts. inferService w e u = a \<longrightarrow> x \<le> al_ActiveAt u) \<and>
    (\<exists>u\<in>set alerts. inferService w e u = b \<and> al_ActiveAt u = y) \<and> (\<forall>u\<in>set alerts. inferService w e u = b \<longrightarrow> y \<le> al_ActiveAt u) \<and>
    x \<le> y \<and>
    (if pch_Direction chain = ''upstream_to_downstream'' then a \<in> set (up st b) \<and> ce_propagationThreshold e \<le> pch_Confidence chain
     else b \<in> set (up st a) \<and> x < y)"
proof -
  from analyzed_chain [OF assms(3,4)] obtain t a b x y where
    "ce_topology e = Some t" "pch_Path chain = [a, b]"
    "(\<exists>u\<in>set alerts. inferService w e u = a \<and> al_ActiveAt u = x) \<and> (\<forall>u\<in>set alerts. inferService w e u = a \<longrightarrow> x \<le> al_ActiveAt u) \<and>
     (\<exists>u\<in>set alerts. inferService w e u = b \<and> al_ActiveAt u = y) \<and> (\<forall>u\<in>set alerts. inferService w e u = b \<longrightarrow> y \<le> al_ActiveAt u)"
    "x \<le> y"
    "if pch_Direction chain = ''upstream_to_downstream'' then b \<in> set (tp_GetDownstream t a) \<and> ce_propagationThreshold e \<le> pch_Confidence chain
     else b \<in> set (tp_GetUpstream t a) \<and> x < y" by blast
  with assms(2) converse [OF assms(1)] show ?thesis by (intro exI [of _ a] exI [of _ b] exI [of _ x] exI [of _ y]) (auto split: if_splits)
qed

end

subsection \<open>Examples\<close>

definition demo_alert :: "string \<Rightarrow> gotime \<Rightarrow> alert" where
  "demo_alert svc t = \<lparr>al_AlertName = [], al_Description = [], al_State = [], al_ActiveAt = t, al_Duration = [], al_Labels = [(''service'', svc)]\<rparr>"

definition demo_alert_world :: alert_world where
  "demo_alert_world = \<lparr>awd_lower = (\<lambda>s. s), awd_clock = (\<lambda>t. []), awd_rfc3339 = (\<lambda>t. []), awd_roundedSeconds = (\<lambda>d. []), awd_visit = (\<lambda>m. m)\<rparr>"

definition demo_topology :: topology where
  "demo_topology = \<lparr>tp_GetUpstream = (\<lambda>s. []), tp_GetDownstream = (\<lambda>s. if s = ''db'' then [''web''] else []), tp_GetAllServices = []\<rparr>"

definition demo_engine :: correlation_engine where
  "demo_engine = NewEngine (Some demo_topology) 5 (1 / 2)"

definition demo_alerts :: "alert list" where
  "demo_alerts = [demo_alert ''db'' 0, demo_alert ''web'' 10]"

lemma demo_engine_fields: "ce_topology demo_engine = Some demo_topology" "ce_propagationThreshold demo_engine = 1 / 2" "window demo_engine = 300000000000"
  by (simp_all add: demo_engine_def NewEngine_def window_def wrap64_def second_def)

lemma demo_services [simp]: "inferService demo_alert_world demo_engine (demo_alert svc t) = stripPort svc" if "svc \<noteq> []"
  using that by (simp add: inferService_def labelService_def demo_alert_def)

lemma demo_strip [simp]: "stripPort ''db'' = ''db''" "stripPort ''web'' = ''web''"
  by (simp_all add: stripPort_def Let_def)

lemma demo_sorted: "sortedAlerts demo_alerts = demo_alerts"
  by (simp add: sortedAlerts_def demo_alerts_def demo_alert_def)

lemma demo_some: "\<exists>r. Analyze demo_alert_world demo_engine demo_alerts = Some r"
  using nil_topology_iff [of demo_alert_world demo_engine demo_alerts] demo_engine_fields(1)
  by (cases "Analyze demo_alert_world demo_engine demo_alerts") auto

theorem alert_windows_witness:
  "\<exists>r. Analyze demo_alert_world demo_engine demo_alerts = Some r \<and> mset (concat (map agr_Alerts (cor_AlertGroups r))) = mset demo_alerts"
proof -
  obtain r where r: "Analyze demo_alert_world demo_engine demo_alerts = Some r" using demo_some by blast
  have "demo_alerts \<noteq> []" "0 \<le> window demo_engine" by (simp_all add: demo_alerts_def demo_engine_fields)
  from alert_windows [OF r this] r show ?thesis by blast
qed

end
