(* ===== verification/Cmdb_App.thy ===== *)
theory Cmdb_App
  imports Cmdb_Store Alert_Correlation Ctx_Types
begin

text \<open>
  The users of the store of the CMDB: the adapter (internal/app/cmdb_adapter.go), the checks and operations of the
  application (internal/app/cmdb_app.go, cmdb_validation.go), the topology (internal/ai/cmdb/topology.go) with its cache,
  the texts and context items (service.go, enricher.go), and the correlation of alerts over the CMDB
  (internal/ai/tools/correlate_alerts.go). The repository is the adapter over the store, as main.go wires it; it is absent
  where the code has nil. \<open>net.ParseIP\<close>, \<open>strings.ToLower\<close>, the answers of the tracing service and of Prometheus and the order
  of a map are parameters. The answer of a method is an error or its value: the maps of the wire are not modelled.
\<close>

subsection \<open>The adapter\<close>

record service_info =
  si_Name :: string
  si_DisplayName :: string
  si_Owner :: string
  si_Team :: string
  si_Cluster :: string
  si_Env :: string
  si_Region :: string
  si_Language :: string
  si_Port :: int
  si_Dependencies :: "string list"
  si_Dependents :: "string list"
  si_Description :: string
  si_OnCall :: string
  si_LastDeploy :: string
  si_Tags :: "string list"

record host_info =
  hi_Name :: string
  hi_Service :: string
  hi_IP :: string
  hi_Node :: string
  hi_Cluster :: string
  hi_Env :: string
  hi_Status :: string
  hi_LastRestart :: string
  hi_Tags :: "string list"

definition dtoToInfo :: "yaml_loader \<Rightarrow> service_dto \<Rightarrow> service_info" where
  "dtoToInfo l d =
     \<lparr>si_Name = sd_Name d, si_DisplayName = sd_DisplayName d, si_Owner = sd_Owner d, si_Team = sd_Team d, si_Cluster = sd_Cluster d,
      si_Env = sd_Env d, si_Region = sd_Region d, si_Language = sd_Language d, si_Port = sd_Port d, si_Dependencies = sd_Dependencies d,
      si_Dependents = GetDependents l (sd_Name d), si_Description = sd_Description d, si_OnCall = sd_OnCall d,
      si_LastDeploy = sd_LastDeploy d, si_Tags = sd_Tags d\<rparr>"

definition infoToDTO :: "service_info \<Rightarrow> service_dto" where
  "infoToDTO i =
     \<lparr>sd_Name = si_Name i, sd_DisplayName = si_DisplayName i, sd_Owner = si_Owner i, sd_Team = si_Team i, sd_Cluster = si_Cluster i,
      sd_Env = si_Env i, sd_Region = si_Region i, sd_Language = si_Language i, sd_Port = si_Port i, sd_Dependencies = si_Dependencies i,
      sd_Description = si_Description i, sd_OnCall = si_OnCall i, sd_LastDeploy = si_LastDeploy i, sd_Tags = si_Tags i\<rparr>"

definition dtosToInfos :: "yaml_loader \<Rightarrow> service_dto list \<Rightarrow> service_info list" where
  "dtosToInfos l dtos = map (dtoToInfo l) dtos"

definition hostDTOToInfo :: "host_dto \<Rightarrow> host_info" where
  "hostDTOToInfo d =
     \<lparr>hi_Name = ho_Name d, hi_Service = ho_Service d, hi_IP = ho_IP d, hi_Node = ho_Node d, hi_Cluster = ho_Cluster d, hi_Env = ho_Env d,
      hi_Status = ho_Status d, hi_LastRestart = ho_LastRestart d, hi_Tags = ho_Tags d\<rparr>"

definition hostInfoToDTO :: "host_info \<Rightarrow> host_dto" where
  "hostInfoToDTO i =
     \<lparr>ho_Name = hi_Name i, ho_Service = hi_Service i, ho_IP = hi_IP i, ho_Node = hi_Node i, ho_Cluster = hi_Cluster i, ho_Env = hi_Env i,
      ho_Status = hi_Status i, ho_LastRestart = hi_LastRestart i, ho_Tags = hi_Tags i\<rparr>"

definition repoGetService :: "yaml_loader \<Rightarrow> string \<Rightarrow> service_info option" where
  "repoGetService l name = map_option (dtoToInfo l) (GetService l name)"

definition repoSearchServices :: "(string \<Rightarrow> string) \<Rightarrow> yaml_loader \<Rightarrow> string \<Rightarrow> int \<Rightarrow> service_info list" where
  "repoSearchServices lower l keyword limit = dtosToInfos l (SearchServices lower l keyword limit)"

definition repoListServicesByCluster :: "yaml_loader \<Rightarrow> string \<Rightarrow> service_info list" where
  "repoListServicesByCluster l cluster = dtosToInfos l (ListServicesByCluster l cluster)"

definition repoListServicesByTeam :: "yaml_loader \<Rightarrow> string \<Rightarrow> service_info list" where
  "repoListServicesByTeam l team = dtosToInfos l (ListServicesByTeam l team)"

definition repoListAll :: "yaml_loader \<Rightarrow> service_info list" where
  "repoListAll l = dtosToInfos l (ListAll l)"

definition repoGetHost :: "yaml_loader \<Rightarrow> string \<Rightarrow> host_info option" where
  "repoGetHost l name = map_option hostDTOToInfo (GetHost l name)"

definition repoListHostsByService :: "yaml_loader \<Rightarrow> string \<Rightarrow> host_info list" where
  "repoListHostsByService l service = map hostDTOToInfo (ListHostsByService l service)"

definition repoListHostsByCluster :: "yaml_loader \<Rightarrow> string \<Rightarrow> host_info list" where
  "repoListHostsByCluster l cluster = map hostDTOToInfo (ListHostsByCluster l cluster)"

definition repoListAllHosts :: "yaml_loader \<Rightarrow> host_info list" where
  "repoListAllHosts l = map hostDTOToInfo (ListAllHosts l)"

subsection \<open>Checks\<close>

definition nameChar :: "char \<Rightarrow> bool" where
  "nameChar ch \<longleftrightarrow> (byte CHR ''a'' \<le> byte ch \<and> byte ch \<le> byte CHR ''z'') \<or> (byte CHR ''0'' \<le> byte ch \<and> byte ch \<le> byte CHR ''9'')"

text \<open>The expression \<open>^[a-z0-9]([a-z0-9-]*[a-z0-9])?$\<close>.\<close>

definition validName :: "string \<Rightarrow> bool" where
  "validName s \<longleftrightarrow> s \<noteq> [] \<and> list_all (\<lambda>ch. nameChar ch \<or> ch = CHR ''-'') s \<and> nameChar (hd s) \<and> nameChar (last s)"

definition validateService :: "service_info \<Rightarrow> goerr option" where
  "validateService svc =
     (if blank (si_Name svc) then Some (Errorf ''name is required'' [])
      else if length (si_Name svc) > 128 then Some (Errorf ''name must be at most 128 characters'' [])
      else if \<not> validName (si_Name svc) then Some (Errorf ''name must be lowercase alphanumeric with hyphens, got %q'' [AStr (si_Name svc)])
      else if blank (si_Owner svc) then Some (Errorf ''owner is required'' [])
      else if blank (si_Team svc) then Some (Errorf ''team is required'' [])
      else if blank (si_Cluster svc) then Some (Errorf ''cluster is required'' [])
      else if blank (si_Env svc) then Some (Errorf ''env is required'' [])
      else if list_ex (\<lambda>dep. dep = si_Name svc) (si_Dependencies svc) then Some (Errorf ''service cannot depend on itself'' [])
      else None)"

definition validateServiceDeps :: "service_info \<Rightarrow> service_info list \<Rightarrow> goerr option" where
  "validateServiceDeps svc existing =
     (case find (\<lambda>dep. dep \<notin> set (map si_Name existing)) (si_Dependencies svc) of
        Some dep \<Rightarrow> Some (Errorf ''dependency %q does not exist'' [AStr dep])
      | None \<Rightarrow> None)"

definition validateHost :: "(string \<Rightarrow> bool) \<Rightarrow> host_info \<Rightarrow> goerr option" where
  "validateHost parseIP host =
     (if blank (hi_Name host) then Some (Errorf ''name is required'' [])
      else if blank (hi_Service host) then Some (Errorf ''service is required'' [])
      else if blank (hi_IP host) then Some (Errorf ''ip is required'' [])
      else if \<not> parseIP (hi_IP host) then Some (Errorf ''ip %q is not a valid IP address'' [AStr (hi_IP host)])
      else if blank (hi_Cluster host) then Some (Errorf ''cluster is required'' [])
      else if blank (hi_Env host) then Some (Errorf ''env is required'' [])
      else if hi_Status host \<noteq> [] \<and> hi_Status host \<notin> {''running'', ''stopped'', ''unhealthy''}
      then Some (Errorf ''status must be one of: running, stopped, unhealthy'' [])
      else None)"

definition validateHostService :: "host_info \<Rightarrow> service_info list \<Rightarrow> goerr option" where
  "validateHostService host existing =
     (if list_ex (\<lambda>s. si_Name s = hi_Service host) existing then None
      else Some (Errorf ''service %q does not exist'' [AStr (hi_Service host)]))"

subsection \<open>The application\<close>

text \<open>Which repositories the application was given.\<close>

record cmdb_app =
  ca_repo :: bool
  ca_hostRepo :: bool

type_synonym cmdb_state = "yaml_loader \<times> cmdb_disk"

definition noRepo :: goerr where "noRepo = Errorf ''CMDB repository not configured'' []"
definition noHostRepo :: goerr where "noHostRepo = Errorf ''host repository not configured'' []"

definition appListAll :: "cmdb_app \<Rightarrow> yaml_loader \<Rightarrow> goerr + service_info list" where
  "appListAll a l = (if \<not> ca_repo a then Inl noRepo else Inr (repoListAll l))"

definition appGetService :: "cmdb_app \<Rightarrow> yaml_loader \<Rightarrow> string \<Rightarrow> goerr + service_info" where
  "appGetService a l name =
     (if \<not> ca_repo a then Inl noRepo
      else (case repoGetService l name of None \<Rightarrow> Inl (Errorf ''service not found'' []) | Some svc \<Rightarrow> Inr svc))"

definition appGetDependencies :: "cmdb_app \<Rightarrow> yaml_loader \<Rightarrow> string \<Rightarrow> goerr + string list \<times> string list" where
  "appGetDependencies a l name =
     (if \<not> ca_repo a then Inl noRepo
      else (case repoGetService l name of
              None \<Rightarrow> Inl (Errorf ''service not found'' [])
            | Some svc \<Rightarrow> Inr (si_Dependencies svc, GetDependents l name)))"

definition appSearch :: "(string \<Rightarrow> string) \<Rightarrow> int \<Rightarrow> cmdb_app \<Rightarrow> yaml_loader \<Rightarrow> string \<Rightarrow> int \<Rightarrow> goerr + service_info list" where
  "appSearch lower maxResults a l keyword limit =
     (if \<not> ca_repo a then Inl noRepo
      else (let n = (if limit \<le> 0 then maxResults else limit); n = (if n > 50 then 50 else n)
            in Inr (repoSearchServices lower l keyword n)))"

definition appListByCluster :: "cmdb_app \<Rightarrow> yaml_loader \<Rightarrow> string \<Rightarrow> goerr + service_info list" where
  "appListByCluster a l cluster = (if \<not> ca_repo a then Inl noRepo else Inr (repoListServicesByCluster l cluster))"

definition appListByTeam :: "cmdb_app \<Rightarrow> yaml_loader \<Rightarrow> string \<Rightarrow> goerr + service_info list" where
  "appListByTeam a l team = (if \<not> ca_repo a then Inl noRepo else Inr (repoListServicesByTeam l team))"

definition appCreateService :: "yaml_codec \<Rightarrow> save_fault \<Rightarrow> cmdb_app \<Rightarrow> service_info \<Rightarrow> cmdb_state \<Rightarrow> (goerr + service_info option) \<times> cmdb_state" where
  "appCreateService c fault a svc st =
     (if \<not> ca_repo a then (Inl noRepo, st)
      else (case validateService svc of
              Some e \<Rightarrow> (Inl e, st)
            | None \<Rightarrow>
                (case validateServiceDeps svc (repoListAll (fst st)) of
                   Some e \<Rightarrow> (Inl e, st)
                 | None \<Rightarrow>
                     (case CreateService c fault (infoToDTO svc) st of
                        (Some e, st') \<Rightarrow> (Inl e, st')
                      | (None, st') \<Rightarrow> (Inr (repoGetService (fst st') (si_Name svc)), st')))))"

definition appUpdateService ::
  "yaml_codec \<Rightarrow> save_fault \<Rightarrow> cmdb_app \<Rightarrow> string \<Rightarrow> service_info \<Rightarrow> cmdb_state \<Rightarrow> (goerr + service_info option) \<times> cmdb_state" where
  "appUpdateService c fault a name svc st =
     (if \<not> ca_repo a then (Inl noRepo, st)
      else (case validateService svc of
              Some e \<Rightarrow> (Inl e, st)
            | None \<Rightarrow>
                (case validateServiceDeps svc (repoListAll (fst st)) of
                   Some e \<Rightarrow> (Inl e, st)
                 | None \<Rightarrow>
                     (case UpdateService c fault name (infoToDTO svc) st of
                        (Some e, st') \<Rightarrow> (Inl e, st')
                      | (None, st') \<Rightarrow> (Inr (repoGetService (fst st') name), st')))))"

definition appDeleteService :: "yaml_codec \<Rightarrow> save_fault \<Rightarrow> cmdb_app \<Rightarrow> string \<Rightarrow> cmdb_state \<Rightarrow> goerr option \<times> cmdb_state" where
  "appDeleteService c fault a name st = (if \<not> ca_repo a then (Some noRepo, st) else DeleteService c fault name st)"

definition appGetHost :: "cmdb_app \<Rightarrow> yaml_loader \<Rightarrow> string \<Rightarrow> goerr + host_info" where
  "appGetHost a l name =
     (if \<not> ca_hostRepo a then Inl noHostRepo
      else (case repoGetHost l name of None \<Rightarrow> Inl (Errorf ''host not found'' []) | Some h \<Rightarrow> Inr h))"

definition appListHostsByService :: "cmdb_app \<Rightarrow> yaml_loader \<Rightarrow> string \<Rightarrow> goerr + host_info list" where
  "appListHostsByService a l service = (if \<not> ca_hostRepo a then Inl noHostRepo else Inr (repoListHostsByService l service))"

definition appListHostsByCluster :: "cmdb_app \<Rightarrow> yaml_loader \<Rightarrow> string \<Rightarrow> goerr + host_info list" where
  "appListHostsByCluster a l cluster = (if \<not> ca_hostRepo a then Inl noHostRepo else Inr (repoListHostsByCluster l cluster))"

definition appListAllHosts :: "cmdb_app \<Rightarrow> yaml_loader \<Rightarrow> goerr + host_info list" where
  "appListAllHosts a l = (if \<not> ca_hostRepo a then Inl noHostRepo else Inr (repoListAllHosts l))"

text \<open>The service of a host is looked for only if there is a repository of services.\<close>

definition hostChecked :: "(string \<Rightarrow> bool) \<Rightarrow> cmdb_app \<Rightarrow> host_info \<Rightarrow> yaml_loader \<Rightarrow> goerr option" where
  "hostChecked parseIP a host l =
     (if \<not> ca_hostRepo a then Some noHostRepo
      else (case validateHost parseIP host of
              Some e \<Rightarrow> Some e
            | None \<Rightarrow> if ca_repo a then validateHostService host (repoListAll l) else None))"

definition appCreateHost ::
  "(string \<Rightarrow> bool) \<Rightarrow> yaml_codec \<Rightarrow> save_fault \<Rightarrow> cmdb_app \<Rightarrow> host_info \<Rightarrow> cmdb_state \<Rightarrow> (goerr + host_info option) \<times> cmdb_state" where
  "appCreateHost parseIP c fault a host st =
     (case hostChecked parseIP a host (fst st) of
        Some e \<Rightarrow> (Inl e, st)
      | None \<Rightarrow>
          (case CreateHost c fault (hostInfoToDTO host) st of
             (Some e, st') \<Rightarrow> (Inl e, st')
           | (None, st') \<Rightarrow> (Inr (repoGetHost (fst st') (hi_Name host)), st')))"

definition appUpdateHost ::
  "(string \<Rightarrow> bool) \<Rightarrow> yaml_codec \<Rightarrow> save_fault \<Rightarrow> cmdb_app \<Rightarrow> string \<Rightarrow> host_info \<Rightarrow> cmdb_state \<Rightarrow> (goerr + host_info option) \<times> cmdb_state" where
  "appUpdateHost parseIP c fault a name host st =
     (case hostChecked parseIP a host (fst st) of
        Some e \<Rightarrow> (Inl e, st)
      | None \<Rightarrow>
          (case UpdateHost c fault name (hostInfoToDTO host) st of
             (Some e, st') \<Rightarrow> (Inl e, st')
           | (None, st') \<Rightarrow> (Inr (repoGetHost (fst st') name), st')))"

definition appDeleteHost :: "yaml_codec \<Rightarrow> save_fault \<Rightarrow> cmdb_app \<Rightarrow> string \<Rightarrow> cmdb_state \<Rightarrow> goerr option \<times> cmdb_state" where
  "appDeleteHost c fault a name st = (if \<not> ca_hostRepo a then (Some noHostRepo, st) else DeleteHost c fault name st)"

subsection \<open>The topology\<close>

record dependency_edge =
  de_Parent :: string
  de_Child :: string
  de_CallCount :: int

record topology_node =
  tn_ID :: string
  tn_Label :: string
  tn_Type :: string
  tn_Cluster :: string
  tn_Owner :: string
  tn_Source :: string

record topology_edge =
  te_Source :: string
  te_Target :: string
  te_Type :: string
  te_CallCount :: int
  te_DataSource :: string

record topology_result =
  tr_Nodes :: "topology_node list"
  tr_Edges :: "topology_edge list"
  tr_UpdatedAt :: gotime

record topology_merger =
  tm_hasSource :: bool
  tm_cache :: "(topology_result \<times> gotime) option"
  tm_refreshInterval :: duration
  tm_lookbackHours :: int

definition zeroTime :: gotime where "zeroTime = - 62135596800 * second"

definition NewTopologyMerger :: "bool \<Rightarrow> duration \<Rightarrow> int \<Rightarrow> topology_merger" where
  "NewTopologyMerger hasSource interval hours =
     \<lparr>tm_hasSource = hasSource, tm_cache = None, tm_refreshInterval = interval, tm_lookbackHours = (if hours \<le> 0 then 24 else hours)\<rparr>"

text \<open>The services asked for; nothing for a service that is not known.\<close>

definition selectedServices :: "yaml_loader \<Rightarrow> string \<Rightarrow> string \<Rightarrow> service_info list option" where
  "selectedServices l cluster service =
     (if service \<noteq> [] then (case repoGetService l service of None \<Rightarrow> None | Some svc \<Rightarrow> Some [svc])
      else if cluster \<noteq> [] then Some (repoListServicesByCluster l cluster)
      else Some (repoListAll l))"

definition overrideDeps :: "service_info list \<Rightarrow> (string, string list) gomap" where
  "overrideDeps services = fold (\<lambda>s m. if si_Dependencies s \<noteq> [] then gm_put (si_Name s) (si_Dependencies s) m else m) services []"

definition knownServices :: "service_info list \<Rightarrow> (string, service_info) gomap" where
  "knownServices services = fold (\<lambda>s m. gm_put (si_Name s) s m) services []"

definition edgeKey :: "string \<Rightarrow> string \<Rightarrow> string" where
  "edgeKey parent child = parent @ ''->'' @ child"

definition addEdge :: "topology_edge \<Rightarrow> string list \<times> topology_edge list \<Rightarrow> string list \<times> topology_edge list" where
  "addEdge e st = (if edgeKey (te_Source e) (te_Target e) \<in> set (fst st) then st
                   else (edgeKey (te_Source e) (te_Target e) # fst st, snd st @ [e]))"

definition externalEdges :: "(string, string list) gomap \<Rightarrow> dependency_edge list \<Rightarrow> topology_edge list" where
  "externalEdges over deps =
     map (\<lambda>d. \<lparr>te_Source = de_Parent d, te_Target = de_Child d, te_Type = ''calls'', te_CallCount = de_CallCount d, te_DataSource = ''jaeger''\<rparr>)
       (filter (\<lambda>d. case gm_get over (de_Parent d) of None \<Rightarrow> True | Some ds \<Rightarrow> \<not> list_ex (\<lambda>x. x = de_Child d) ds) deps)"

definition declaredEdges :: "(string, string list) gomap \<Rightarrow> topology_edge list" where
  "declaredEdges over =
     concat (map (\<lambda>(parent, ds). map (\<lambda>dep. \<lparr>te_Source = parent, te_Target = dep, te_Type = ''depends_on'', te_CallCount = 0, te_DataSource = ''cmdb''\<rparr>) ds) over)"

definition addNode ::
  "(string, service_info) gomap \<Rightarrow> string \<times> string \<Rightarrow> string list \<times> topology_node list \<Rightarrow> string list \<times> topology_node list" where
  "addNode known node st =
     (case (node, st) of ((ident, source), (seen, nodes)) \<Rightarrow>
        (if ident \<in> set seen then st
         else (ident # seen,
               nodes @ [case gm_get known ident of
                          Some svc \<Rightarrow> \<lparr>tn_ID = si_Name svc, tn_Label = si_DisplayName svc, tn_Type = ''service'', tn_Cluster = si_Cluster svc,
                                       tn_Owner = si_Owner svc, tn_Source = source\<rparr>
                        | None \<Rightarrow> \<lparr>tn_ID = ident, tn_Label = ident, tn_Type = ''service'', tn_Cluster = [], tn_Owner = [], tn_Source = ''jaeger''\<rparr>])))"

definition wantedNodes :: "topology_edge list \<Rightarrow> service_info list \<Rightarrow> (string \<times> string) list" where
  "wantedNodes edges services =
     concat (map (\<lambda>e. [(te_Source e, te_DataSource e), (te_Target e, te_DataSource e)]) edges) @
     concat (map (\<lambda>s. (si_Name s, ''cmdb'') # map (\<lambda>dep. (dep, ''cmdb'')) (si_Dependencies s)) services)"

text \<open>\<open>visit\<close> is the order in which the declared dependencies are iterated, \<open>deps\<close> the answer of the data source.\<close>

definition mergeTopology ::
  "((string, string list) gomap \<Rightarrow> (string, string list) gomap) \<Rightarrow> topology_merger \<Rightarrow> yaml_loader \<Rightarrow> goerr + dependency_edge list \<Rightarrow> gotime \<Rightarrow>
     string \<Rightarrow> string \<Rightarrow> topology_result" where
  "mergeTopology visit m l deps now cluster service =
     (case selectedServices l cluster service of
        None \<Rightarrow> \<lparr>tr_Nodes = [], tr_Edges = [], tr_UpdatedAt = zeroTime\<rparr>
      | Some services \<Rightarrow>
          (let over = overrideDeps services;
               known = knownServices (services @ (if cluster = [] \<and> service = [] then repoListAll l else []));
               external = (if tm_hasSource m then (case deps of Inr es \<Rightarrow> es | Inl e \<Rightarrow> []) else []);
               edges = snd (fold addEdge (externalEdges over external @ declaredEdges (visit over)) ([], []));
               nodes = snd (fold (addNode known) (wantedNodes edges services) ([], []))
           in \<lparr>tr_Nodes = nodes, tr_Edges = edges, tr_UpdatedAt = now\<rparr>))"

definition keepOnly :: "string list \<Rightarrow> topology_result \<Rightarrow> topology_result" where
  "keepOnly idents r =
     \<lparr>tr_Nodes = filter (\<lambda>n. tn_ID n \<in> set idents) (tr_Nodes r),
      tr_Edges = filter (\<lambda>e. te_Source e \<in> set idents \<and> te_Target e \<in> set idents) (tr_Edges r), tr_UpdatedAt = tr_UpdatedAt r\<rparr>"

definition filterTopology :: "topology_result \<Rightarrow> string \<Rightarrow> string \<Rightarrow> topology_result" where
  "filterTopology r cluster service =
     (if cluster = [] \<and> service = [] then r
      else if service \<noteq> [] then keepOnly (service # map te_Target (filter (\<lambda>e. te_Source e = service) (tr_Edges r))) r
      else keepOnly (map tn_ID (filter (\<lambda>n. tn_Cluster n = cluster \<or> tn_Cluster n = []) (tr_Nodes r))) r)"

text \<open>The cache is written with a second reading of the clock.\<close>

definition refreshTopology ::
  "((string, string list) gomap \<Rightarrow> (string, string list) gomap) \<Rightarrow> yaml_loader \<Rightarrow> goerr + dependency_edge list \<Rightarrow> gotime \<times> gotime \<Rightarrow>
     topology_merger \<Rightarrow> topology_merger" where
  "refreshTopology visit l deps now m = m\<lparr>tm_cache := Some (mergeTopology visit m l deps (fst now) [] [], snd now)\<rparr>"

definition GetTopology ::
  "((string, string list) gomap \<Rightarrow> (string, string list) gomap) \<Rightarrow> yaml_loader \<Rightarrow> goerr + dependency_edge list \<Rightarrow> gotime \<Rightarrow> topology_merger \<Rightarrow>
     string \<Rightarrow> string \<Rightarrow> topology_result" where
  "GetTopology visit l deps now m cluster service =
     (case tm_cache m of
        Some (r, t) \<Rightarrow> filterTopology r cluster service
      | None \<Rightarrow> mergeTopology visit m l deps now cluster service)"

definition GetTopologyWithForce ::
  "((string, string list) gomap \<Rightarrow> (string, string list) gomap) \<Rightarrow> yaml_loader \<Rightarrow> goerr + dependency_edge list \<Rightarrow> gotime \<times> gotime \<Rightarrow>
     topology_merger \<Rightarrow> string \<Rightarrow> string \<Rightarrow> topology_result \<times> topology_merger" where
  "GetTopologyWithForce visit l deps now m cluster service =
     (let r = mergeTopology visit m l deps (fst now) [] []
      in (filterTopology r cluster service, m\<lparr>tm_cache := Some (r, snd now)\<rparr>))"

definition CacheInfo :: "topology_merger \<Rightarrow> bool \<times> gotime \<times> int \<times> int" where
  "CacheInfo m =
     (case tm_cache m of
        None \<Rightarrow> (False, zeroTime, 0, 0)
      | Some (r, t) \<Rightarrow> (True, t, int (length (tr_Nodes r)), int (length (tr_Edges r))))"

subsection \<open>The topology of the application\<close>

text \<open>Without a merger the application builds the graph of the declared dependencies itself.\<close>

definition declaredNode :: "yaml_loader \<Rightarrow> string \<Rightarrow> string list \<times> topology_node list \<Rightarrow> string list \<times> topology_node list" where
  "declaredNode l dep st =
     (if dep \<in> set (fst st) then st
      else (dep # fst st,
            snd st @ [case repoGetService l dep of
                        Some d \<Rightarrow> \<lparr>tn_ID = dep, tn_Label = si_DisplayName d, tn_Type = ''service'', tn_Cluster = si_Cluster d, tn_Owner = si_Owner d, tn_Source = []\<rparr>
                      | None \<Rightarrow> \<lparr>tn_ID = dep, tn_Label = dep, tn_Type = ''service'', tn_Cluster = [], tn_Owner = [], tn_Source = []\<rparr>]))"

definition ownNode :: "service_info \<Rightarrow> string list \<times> topology_node list \<Rightarrow> string list \<times> topology_node list" where
  "ownNode svc st =
     (if si_Name svc \<in> set (fst st) then st
      else (si_Name svc # fst st,
            snd st @ [\<lparr>tn_ID = si_Name svc, tn_Label = si_DisplayName svc, tn_Type = ''service'', tn_Cluster = si_Cluster svc,
                       tn_Owner = si_Owner svc, tn_Source = []\<rparr>]))"

definition appGetTopology ::
  "((string, string list) gomap \<Rightarrow> (string, string list) gomap) \<Rightarrow> cmdb_app \<Rightarrow> topology_merger option \<Rightarrow> yaml_loader \<Rightarrow>
     goerr + dependency_edge list \<Rightarrow> gotime \<Rightarrow> string \<Rightarrow> string \<Rightarrow> goerr + topology_node list \<times> topology_edge list" where
  "appGetTopology visit a merger l deps now cluster service =
     (if \<not> ca_repo a then Inl noRepo
      else (case merger of
              Some m \<Rightarrow> (let r = GetTopology visit l deps now m cluster service in Inr (tr_Nodes r, tr_Edges r))
            | None \<Rightarrow>
                (case selectedServices l cluster service of
                   None \<Rightarrow> Inl (Errorf ''service not found'' [])
                 | Some services \<Rightarrow>
                     Inr (snd (fold (\<lambda>svc st. fold (declaredNode l) (si_Dependencies svc) (ownNode svc st)) services ([], [])),
                          concat (map (\<lambda>svc. map (\<lambda>dep. \<lparr>te_Source = si_Name svc, te_Target = dep, te_Type = ''depends_on'', te_CallCount = 0, te_DataSource = []\<rparr>)
                                                (si_Dependencies svc)) services)))))"

subsection \<open>Texts\<close>

definition optionalLine :: "string \<Rightarrow> string \<Rightarrow> string" where
  "optionalLine label value = (if value = [] then [] else label @ value @ [CHR 0x0A])"

definition FormatServiceInfo :: "service_info \<Rightarrow> string" where
  "FormatServiceInfo svc =
     ([CHR 0xE6, CHR 0x9C, CHR 0x8D, CHR 0xE5, CHR 0x8A, CHR 0xA1] @ '': '') @ si_Name svc @ (if si_DisplayName svc = [] then [] else '' ('' @ si_DisplayName svc @ '')'') @ [CHR 0x0A] @
     (''  '' @ [CHR 0xE8, CHR 0xB4, CHR 0x9F, CHR 0xE8, CHR 0xB4, CHR 0xA3, CHR 0xE4, CHR 0xBA, CHR 0xBA] @ '': '') @ si_Owner svc @ [CHR 0x0A] @ (''  '' @ [CHR 0xE5, CHR 0x9B, CHR 0xA2, CHR 0xE9, CHR 0x98, CHR 0x9F] @ '': '') @ si_Team svc @ [CHR 0x0A] @ (''  '' @ [CHR 0xE9, CHR 0x9B, CHR 0x86, CHR 0xE7, CHR 0xBE, CHR 0xA4] @ '': '') @ si_Cluster svc @ [CHR 0x0A] @ (''  '' @ [CHR 0xE7, CHR 0x8E, CHR 0xAF, CHR 0xE5, CHR 0xA2, CHR 0x83] @ '': '') @ si_Env svc @ [CHR 0x0A] @
     optionalLine (''  '' @ [CHR 0xE5, CHR 0x9C, CHR 0xB0, CHR 0xE5, CHR 0x9F, CHR 0x9F] @ '': '') (si_Region svc) @ optionalLine (''  '' @ [CHR 0xE6, CHR 0x8A, CHR 0x80, CHR 0xE6, CHR 0x9C, CHR 0xAF, CHR 0xE6, CHR 0xA0, CHR 0x88] @ '': '') (si_Language svc) @
     (if si_Dependencies svc = [] then [] else (''  '' @ [CHR 0xE4, CHR 0xB8, CHR 0x8A, CHR 0xE6, CHR 0xB8, CHR 0xB8, CHR 0xE4, CHR 0xBE, CHR 0x9D, CHR 0xE8, CHR 0xB5, CHR 0x96] @ '': '') @ join '', '' (si_Dependencies svc) @ [CHR 0x0A]) @
     (if si_Dependents svc = [] then [] else (''  '' @ [CHR 0xE4, CHR 0xB8, CHR 0x8B, CHR 0xE6, CHR 0xB8, CHR 0xB8, CHR 0xE8, CHR 0xA2, CHR 0xAB, CHR 0xE4, CHR 0xBE, CHR 0x9D, CHR 0xE8, CHR 0xB5, CHR 0x96] @ '': '') @ join '', '' (si_Dependents svc) @ [CHR 0x0A]) @
     optionalLine (''  '' @ [CHR 0xE6, CHR 0x8F, CHR 0x8F, CHR 0xE8, CHR 0xBF, CHR 0xB0] @ '': '') (si_Description svc) @ optionalLine ''  On-Call: '' (si_OnCall svc) @ optionalLine (''  '' @ [CHR 0xE6, CHR 0x9C, CHR 0x80, CHR 0xE8, CHR 0xBF, CHR 0x91, CHR 0xE9, CHR 0x83, CHR 0xA8, CHR 0xE7, CHR 0xBD, CHR 0xB2] @ '': '') (si_LastDeploy svc) @
     (if si_Tags svc = [] then [] else (''  '' @ [CHR 0xE6, CHR 0xA0, CHR 0x87, CHR 0xE7, CHR 0xAD, CHR 0xBE] @ '': '') @ join '', '' (si_Tags svc) @ [CHR 0x0A])"

definition FormatServiceList :: "service_info list \<Rightarrow> string" where
  "FormatServiceList services =
     (if services = [] then [CHR 0xE6, CHR 0x9C, CHR 0xAA, CHR 0xE6, CHR 0x89, CHR 0xBE, CHR 0xE5, CHR 0x88, CHR 0xB0, CHR 0xE5, CHR 0x8C, CHR 0xB9, CHR 0xE9, CHR 0x85, CHR 0x8D, CHR 0xE7, CHR 0x9A, CHR 0x84, CHR 0xE6, CHR 0x9C, CHR 0x8D, CHR 0xE5, CHR 0x8A, CHR 0xA1]
      else ([CHR 0xE5, CHR 0x85, CHR 0xB1] @ '' '') @ itoa (int (length services)) @ ('' '' @ [CHR 0xE4, CHR 0xB8, CHR 0xAA, CHR 0xE6, CHR 0x9C, CHR 0x8D, CHR 0xE5, CHR 0x8A, CHR 0xA1] @ '':'' @ [CHR 0x0A]) @
        concat (map (\<lambda>(i, svc). itoa (int i) @ ''. '' @ si_Name svc @ (if si_DisplayName svc = [] then [] else '' ('' @ si_DisplayName svc @ '')'') @
                                ('' '' @ [CHR 0xE2, CHR 0x80, CHR 0x94] @ '' '') @ si_Owner svc @ '' / '' @ si_Team svc @
                                (if si_Tags svc = [] then [] else '' ['' @ join '', '' (si_Tags svc) @ '']'') @ [CHR 0x0A]) (enumerate 1 services)))"

text \<open>\<open>CMDBEnricherImpl.Enrich\<close>: an item for every service whose name stands in the query.\<close>

definition enrichItem :: "service_info \<Rightarrow> context_item" where
  "enrichItem svc =
     emptyItem\<lparr>ci_ID := ''cmdb-'' @ si_Name svc, ci_SourceType := ''cmdb'', ci_SourceID := si_Name svc, ci_Title := ''CMDB: '' @ si_Name svc,
       ci_Content := ''Service: '' @ si_Name svc @ '' ('' @ si_DisplayName svc @ ('')'' @ [CHR 0x0A] @ ''Owner: '') @ si_Owner svc @ '' | Team: '' @ si_Team svc @
         ([CHR 0x0A] @ ''Cluster: '') @ si_Cluster svc @ '' | Env: '' @ si_Env svc @ ([CHR 0x0A] @ ''Description: '') @ si_Description svc @
         (if si_Dependencies svc = [] then [] else ([CHR 0x0A] @ ''Dependencies: '') @ join '', '' (si_Dependencies svc)),
       ci_Score := 1, ci_TrustLevel := ''high''\<rparr>"

definition Enrich :: "(string \<Rightarrow> string) \<Rightarrow> yaml_loader option \<Rightarrow> string \<Rightarrow> context_item list" where
  "Enrich lower repo query =
     (case repo of
        None \<Rightarrow> []
      | Some l \<Rightarrow> map enrichItem (filter (\<lambda>svc. contains (lower (si_Name svc)) (lower query)) (repoListAll l)))"

subsection \<open>Correlating alerts over the CMDB\<close>

definition topologyUpstream :: "yaml_loader \<Rightarrow> string \<Rightarrow> string list" where
  "topologyUpstream l service = (case repoGetService l service of None \<Rightarrow> [] | Some svc \<Rightarrow> si_Dependencies svc)"

definition topologyDownstream :: "yaml_loader \<Rightarrow> string \<Rightarrow> string list" where
  "topologyDownstream l service = GetDependents l service"

definition topologyServices :: "yaml_loader \<Rightarrow> string list" where
  "topologyServices l = map si_Name (repoListAll l)"

record correlate_output =
  co_Success :: bool
  co_Degraded :: bool
  co_Result :: "correlation_result option"
  co_Message :: string
  co_Error :: string

text \<open>The tool: \<open>fetched\<close> is the answer of Prometheus (or the text of the error), \<open>now\<close> the clock of the cut. The filter of
  the cluster that the input declares is not read. A panic of the analysis would be \<open>None\<close>.\<close>

definition correlateAlerts ::
  "alert_world \<Rightarrow> yaml_loader option \<Rightarrow> int \<Rightarrow> gotime \<Rightarrow> string + alert list \<Rightarrow> correlate_output option" where
  "correlateAlerts w repo minutes now fetched =
     (case repo of
        None \<Rightarrow> Some \<lparr>co_Success = False, co_Degraded = True, co_Result = None,
                      co_Message = ([CHR 0xE5, CHR 0x91, CHR 0x8A, CHR 0xE8, CHR 0xAD, CHR 0xA6, CHR 0xE5, CHR 0x85, CHR 0xB3, CHR 0xE8, CHR 0x81, CHR 0x94, CHR 0xE5, CHR 0x88, CHR 0x86, CHR 0xE6, CHR 0x9E, CHR 0x90, CHR 0xE9, CHR 0x9C, CHR 0x80, CHR 0xE8, CHR 0xA6, CHR 0x81] @ '' CMDB '' @ [CHR 0xE6, CHR 0x9C, CHR 0x8D, CHR 0xE5, CHR 0x8A, CHR 0xA1, CHR 0xE6, CHR 0x8B, CHR 0x93, CHR 0xE6, CHR 0x89, CHR 0x91, CHR 0xE6, CHR 0x95, CHR 0xB0, CHR 0xE6, CHR 0x8D, CHR 0xAE, CHR 0xEF, CHR 0xBC, CHR 0x8C, CHR 0xE5, CHR 0xBD, CHR 0x93, CHR 0xE5, CHR 0x89, CHR 0x8D, CHR 0xE4, CHR 0xB8, CHR 0x8D, CHR 0xE5, CHR 0x8F, CHR 0xAF, CHR 0xE7, CHR 0x94, CHR 0xA8, CHR 0xE3, CHR 0x80, CHR 0x82]), co_Error = ''CMDB not available''\<rparr>
      | Some l \<Rightarrow>
          (let lookback = (if minutes \<le> 0 then 60 else minutes)
           in case fetched of
                Inl e \<Rightarrow> Some \<lparr>co_Success = False, co_Degraded = True, co_Result = None,
                               co_Message = ([CHR 0xE6, CHR 0x97, CHR 0xA0, CHR 0xE6, CHR 0xB3, CHR 0x95, CHR 0xE8, CHR 0x8E, CHR 0xB7, CHR 0xE5, CHR 0x8F, CHR 0x96] @ '' Prometheus '' @ [CHR 0xE5, CHR 0x91, CHR 0x8A, CHR 0xE8, CHR 0xAD, CHR 0xA6, CHR 0xE6, CHR 0x95, CHR 0xB0, CHR 0xE6, CHR 0x8D, CHR 0xAE, CHR 0xE3, CHR 0x80, CHR 0x82]), co_Error = ''failed to fetch alerts: '' @ e\<rparr>
              | Inr alerts \<Rightarrow>
                  (let cutoff = now + wrap64 (- lookback * (60 * second));
                       recent = filter (\<lambda>a. al_ActiveAt a > cutoff) alerts;
                       topo = \<lparr>tp_GetUpstream = topologyUpstream l, tp_GetDownstream = topologyDownstream l, tp_GetAllServices = topologyServices l\<rparr>
                   in map_option (\<lambda>r. \<lparr>co_Success = True, co_Degraded = False, co_Result = Some r, co_Message = cor_Summary r, co_Error = []\<rparr>)
                        (Analyze w (NewEngine (Some topo) 5 (rnd (7 / 10))) recent))))"

subsection \<open>The CMDB as a topology\<close>

lemma upstream_set: "loaderOk l \<Longrightarrow> set (topologyUpstream l b) = {a. \<exists>s. GetService l b = Some s \<and> a \<in> set (sd_Dependencies s)}"
  by (cases "GetService l b") (auto simp: topologyUpstream_def repoGetService_def dtoToInfo_def)

interpretation cmdb: service_topology topologyUpstream topologyDownstream topologyServices loaderOk
  by unfold_locales (simp add: upstream_set topologyDownstream_def GetDependents_set)

lemma correlate_total: "correlateAlerts w repo minutes now fetched \<noteq> None"
proof -
  have "\<exists>r. Analyze w (NewEngine (Some t) 5 q) as = Some r" for t q as
    using nil_topology_iff [of w "NewEngine (Some t) 5 q" as] by (cases "Analyze w (NewEngine (Some t) 5 q) as") (auto simp: NewEngine_def)
  then show ?thesis by (cases repo; cases fetched) (auto simp: correlateAlerts_def Let_def)
qed

lemma engine_threshold: "ce_propagationThreshold (NewEngine t 5 (rnd (7 / 10))) = rnd (7 / 10)"
  by (simp add: NewEngine_def)

text \<open>The engine of the tool, over the store, and the alerts of the time looked back; the first alert of a service among them.\<close>

definition toolEngine :: "yaml_loader \<Rightarrow> correlation_engine" where
  "toolEngine l = NewEngine (Some \<lparr>tp_GetUpstream = topologyUpstream l, tp_GetDownstream = topologyDownstream l, tp_GetAllServices = topologyServices l\<rparr>)
     5 (rnd (7 / 10))"

definition recentAlerts :: "int \<Rightarrow> gotime \<Rightarrow> alert list \<Rightarrow> alert list" where
  "recentAlerts minutes now = filter (\<lambda>a. al_ActiveAt a > now + wrap64 (- (if minutes \<le> 0 then 60 else minutes) * (60 * second)))"

definition first_of :: "alert_world \<Rightarrow> correlation_engine \<Rightarrow> alert list \<Rightarrow> string \<Rightarrow> alert \<Rightarrow> bool" where
  "first_of w e alerts svc u \<longleftrightarrow> u \<in> set alerts \<and> inferService w e u = svc \<and>
     (\<forall>v\<in>set alerts. inferService w e v = svc \<longrightarrow> al_ActiveAt u \<le> al_ActiveAt v)"

text \<open>C15: what is reported as a propagation follows the CMDB and the clock. The tool never panics, and on a store with distinct
  names every chain of its result leads between two services that alerted within the time looked back; the first alert of
  the one is not later than the first alert of the other; going downstream, the other service is in the CMDB and depends on
  the one, with a confidence of at least 0.7; otherwise the one depends on the other and alerted first strictly before it.\<close>

theorem correlation_follows_cmdb:
  assumes "NewYAMLLoader c rf d path = Inr l0" "distinct (map sd_Name (ListAll l0))" "distinct (map ho_Name (ListAllHosts l0))"
    and "cmdbRun c calls (l0, d) = (l, dk)"
  shows "\<exists>out. correlateAlerts w (Some l) minutes now (Inr alerts) = Some out \<and>
    (\<forall>r chain. co_Result out = Some r \<and> chain \<in> set (cor_Propagation r) \<longrightarrow>
      (\<exists>a b s u v. pch_Path chain = [a, b] \<and>
         first_of w (toolEngine l) (recentAlerts minutes now alerts) a u \<and> first_of w (toolEngine l) (recentAlerts minutes now alerts) b v \<and>
         al_ActiveAt u \<le> al_ActiveAt v \<and>
         (if pch_Direction chain = ''upstream_to_downstream''
          then GetService l b = Some s \<and> a \<in> set (sd_Dependencies s) \<and> rnd (7 / 10) \<le> pch_Confidence chain
          else GetService l a = Some s \<and> b \<in> set (sd_Dependencies s) \<and> al_ActiveAt u < al_ActiveAt v)))"
proof -
  from run_keeps(1) [of "(l0, d)" c calls] loaded_ok [OF assms(1-3)] assms(4) have ok: "loaderOk l" by simp
  let ?e = "toolEngine l" and ?recent = "recentAlerts minutes now alerts"
  from correlate_total obtain out where out: "correlateAlerts w (Some l) minutes now (Inr alerts) = Some out" by blast
  have e: "ce_topology ?e = Some \<lparr>tp_GetUpstream = topologyUpstream l, tp_GetDownstream = topologyDownstream l, tp_GetAllServices = topologyServices l\<rparr>"
    and q: "ce_propagationThreshold ?e = rnd (7 / 10)"
    by (simp_all add: toolEngine_def NewEngine_def)
  have "\<exists>a b s u v. pch_Path chain = [a, b] \<and> first_of w ?e ?recent a u \<and> first_of w ?e ?recent b v \<and> al_ActiveAt u \<le> al_ActiveAt v \<and>
         (if pch_Direction chain = ''upstream_to_downstream''
          then GetService l b = Some s \<and> a \<in> set (sd_Dependencies s) \<and> rnd (7 / 10) \<le> pch_Confidence chain
          else GetService l a = Some s \<and> b \<in> set (sd_Dependencies s) \<and> al_ActiveAt u < al_ActiveAt v)"
    if "co_Result out = Some r" "chain \<in> set (cor_Propagation r)" for r chain
  proof -
    from out that(1) have "Analyze w ?e ?recent = Some r" by (auto simp: correlateAlerts_def Let_def toolEngine_def recentAlerts_def)
    from cmdb.chain_follows_dependencies [OF ok e this that(2)] obtain a b x y where p: "pch_Path chain = [a, b]" "x \<le> y"
      and fa: "\<exists>u\<in>set ?recent. inferService w ?e u = a \<and> al_ActiveAt u = x" "\<forall>u\<in>set ?recent. inferService w ?e u = a \<longrightarrow> x \<le> al_ActiveAt u"
      and fb: "\<exists>u\<in>set ?recent. inferService w ?e u = b \<and> al_ActiveAt u = y" "\<forall>u\<in>set ?recent. inferService w ?e u = b \<longrightarrow> y \<le> al_ActiveAt u"
      and dir: "if pch_Direction chain = ''upstream_to_downstream'' then a \<in> set (topologyUpstream l b) \<and> ce_propagationThreshold ?e \<le> pch_Confidence chain
         else b \<in> set (topologyUpstream l a) \<and> x < y" by blast
    from fa obtain u where u: "first_of w ?e ?recent a u" "al_ActiveAt u = x" by (auto simp: first_of_def)
    from fb obtain v where v: "first_of w ?e ?recent b v" "al_ActiveAt v = y" by (auto simp: first_of_def)
    from dir obtain s where "if pch_Direction chain = ''upstream_to_downstream''
          then GetService l b = Some s \<and> a \<in> set (sd_Dependencies s) \<and> rnd (7 / 10) \<le> pch_Confidence chain
          else GetService l a = Some s \<and> b \<in> set (sd_Dependencies s) \<and> x < y"
      unfolding upstream_set [OF ok] q by (auto split: if_splits)
    with p u v show ?thesis
      by (intro exI [of _ a] exI [of _ b] exI [of _ s] exI [of _ u] exI [of _ v]) simp
  qed
  with out show ?thesis by blast
qed

subsection \<open>The graph\<close>

definition closedGraph :: "topology_result \<Rightarrow> bool" where
  "closedGraph r \<longleftrightarrow>
     distinct (map tn_ID (tr_Nodes r)) \<and> distinct (map (\<lambda>e. edgeKey (te_Source e) (te_Target e)) (tr_Edges r)) \<and>
     list_all (\<lambda>e. te_Source e \<in> set (map tn_ID (tr_Nodes r)) \<and> te_Target e \<in> set (map tn_ID (tr_Nodes r))) (tr_Edges r)"

definition named :: "(string, service_info) gomap \<Rightarrow> bool" where
  "named m \<longleftrightarrow> (\<forall>k s. gm_get m k = Some s \<longrightarrow> si_Name s = k)"

lemma named_put: "named m \<Longrightarrow> named (gm_put (si_Name s) s m)"
  unfolding named_def gm_get_put by simp

lemma named_fold: "named m \<Longrightarrow> named (fold (\<lambda>s m. gm_put (si_Name s) s m) services m)"
proof (induction services arbitrary: m)
  case (Cons s services)
  from Cons.IH [OF named_put [OF Cons.prems]] show ?case by simp
qed simp

lemma known_named: "gm_get (knownServices services) k = Some s \<Longrightarrow> si_Name s = k"
proof -
  have "named []" by (simp add: named_def)
  from named_fold [OF this, of services] show "gm_get (knownServices services) k = Some s \<Longrightarrow> si_Name s = k"
    unfolding named_def knownServices_def by blast
qed

lemma nodes_step:
  assumes "set (map tn_ID (snd st)) = set (fst st)" "distinct (map tn_ID (snd st))"
  shows "set (map tn_ID (snd (addNode (knownServices services) w st))) = set (fst (addNode (knownServices services) w st)) \<and>
    distinct (map tn_ID (snd (addNode (knownServices services) w st))) \<and> set (fst (addNode (knownServices services) w st)) = insert (fst w) (set (fst st))"
proof (cases "fst w \<in> set (fst st)")
  case True
  with assms show ?thesis by (cases w; cases st) (auto simp: addNode_def)
next
  case False
  obtain ident source seen nodes where w: "w = (ident, source)" "st = (seen, nodes)" by (cases w; cases st) auto
  have new: "ident \<notin> set seen" using False by (simp add: w)
  have "\<exists>n. addNode (knownServices services) w st = (ident # seen, nodes @ [n]) \<and> tn_ID n = ident"
  proof (cases "gm_get (knownServices services) ident")
    case None
    with new show ?thesis by (simp add: addNode_def w)
  next
    case (Some s)
    with new known_named [OF Some] show ?thesis by (simp add: addNode_def w)
  qed
  then obtain n where n: "addNode (knownServices services) w st = (ident # seen, nodes @ [n])" "tn_ID n = ident" by blast
  have "tn_ID ` set nodes = set seen" "distinct (map tn_ID nodes)" using assms by (simp_all add: w)
  with n(2) new show ?thesis unfolding n(1) by (simp add: w)
qed

lemma nodes_fold:
  "set (map tn_ID (snd st)) = set (fst st) \<Longrightarrow> distinct (map tn_ID (snd st)) \<Longrightarrow>
    set (map tn_ID (snd (fold (addNode (knownServices services)) ws st))) = set (fst st) \<union> fst ` set ws \<and>
    distinct (map tn_ID (snd (fold (addNode (knownServices services)) ws st)))"
proof (induction ws arbitrary: st)
  case (Cons w ws)
  note s = nodes_step [OF Cons.prems, of services w]
  from Cons.IH [of "addNode (knownServices services) w st"] s show ?case by auto
qed simp

lemma edges_fold:
  "set (fst st) = (\<lambda>e. edgeKey (te_Source e) (te_Target e)) ` set (snd st) \<Longrightarrow> distinct (map (\<lambda>e. edgeKey (te_Source e) (te_Target e)) (snd st)) \<Longrightarrow>
    (\<lambda>e. edgeKey (te_Source e) (te_Target e)) ` set (snd (fold addEdge es st)) =
      (\<lambda>e. edgeKey (te_Source e) (te_Target e)) ` (set (snd st) \<union> set es) \<and>
    distinct (map (\<lambda>e. edgeKey (te_Source e) (te_Target e)) (snd (fold addEdge es st)))"
proof (induction es arbitrary: st)
  case (Cons e es)
  have "set (fst (addEdge e st)) = (\<lambda>e. edgeKey (te_Source e) (te_Target e)) ` set (snd (addEdge e st))"
    "distinct (map (\<lambda>e. edgeKey (te_Source e) (te_Target e)) (snd (addEdge e st)))"
    "(\<lambda>e. edgeKey (te_Source e) (te_Target e)) ` set (snd (addEdge e st)) = insert (edgeKey (te_Source e) (te_Target e)) ((\<lambda>e. edgeKey (te_Source e) (te_Target e)) ` set (snd st))"
    using Cons.prems by (auto simp: addEdge_def)
  from Cons.IH [OF this(1,2)] this(3) show ?case by auto
qed auto

lemma wanted_ends:
  assumes "e \<in> set edges"
  shows "te_Source e \<in> fst ` set (wantedNodes edges services)" "te_Target e \<in> fst ` set (wantedNodes edges services)"
proof -
  from assms have "(te_Source e, te_DataSource e) \<in> set (wantedNodes edges services)" "(te_Target e, te_DataSource e) \<in> set (wantedNodes edges services)"
    unfolding wantedNodes_def by auto
  then show "te_Source e \<in> fst ` set (wantedNodes edges services)" "te_Target e \<in> fst ` set (wantedNodes edges services)"
    by (auto intro: rev_image_eqI)
qed

lemma built_closed:
  "closedGraph \<lparr>tr_Nodes = snd (fold (addNode (knownServices known)) (wantedNodes (snd (fold addEdge es ([], []))) services) ([], [])),
     tr_Edges = snd (fold addEdge es ([], [])), tr_UpdatedAt = now\<rparr>"
proof -
  let ?edges = "snd (fold addEdge es ([], []))"
  have "distinct (map (\<lambda>e. edgeKey (te_Source e) (te_Target e)) ?edges)" by (rule edges_fold [THEN conjunct2]) simp_all
  moreover note nodes_fold [of "([], [])" known "wantedNodes ?edges services"]
  ultimately show ?thesis using wanted_ends by (simp add: closedGraph_def list_all_iff del: set_map)
qed

lemma merge_closed: "closedGraph (mergeTopology visit m l deps now cluster service)"
proof (cases "selectedServices l cluster service")
  case (Some services)
  show ?thesis unfolding mergeTopology_def Some option.case Let_def by (rule built_closed)
qed (simp add: mergeTopology_def closedGraph_def)

lemma keep_closed: "closedGraph r \<Longrightarrow> closedGraph (keepOnly idents r)"
  by (auto simp: closedGraph_def keepOnly_def list_all_iff distinct_map_filter)

lemma filter_closed: "closedGraph r \<Longrightarrow> closedGraph (filterTopology r cluster service)"
  by (simp add: filterTopology_def keep_closed)

definition cacheOk :: "topology_merger \<Rightarrow> bool" where
  "cacheOk m \<longleftrightarrow> (case tm_cache m of None \<Rightarrow> True | Some (r, t) \<Rightarrow> closedGraph r)"

lemma refresh_ok: "cacheOk (refreshTopology visit l deps now m)"
  by (simp add: cacheOk_def refreshTopology_def merge_closed)

lemma refreshes_ok: "cacheOk m \<Longrightarrow> cacheOk (fold (\<lambda>(visit, l, deps, now). refreshTopology visit l deps now) events m)"
  by (induction events arbitrary: m) (auto simp: refresh_ok)

lemma get_closed: "cacheOk m \<Longrightarrow> closedGraph (GetTopology visit l deps now m cluster service)"
  by (auto simp: GetTopology_def cacheOk_def merge_closed filter_closed split: option.splits)

text \<open>C27: an answer is a graph. After any refreshes, on any stores and with any answers or errors of the data source, whatever the
  filter and the order of maps, the nodes of an answer have distinct identifiers, no edge stands twice, and both ends of
  every edge are nodes of the answer; also when the refresh is forced.\<close>

theorem topology_closed:
  "let m = fold (\<lambda>(visit, l, deps, now). refreshTopology visit l deps now) events (NewTopologyMerger hasSource interval hours)
   in list_all (\<lambda>r. distinct (map tn_ID (tr_Nodes r)) \<and> distinct (map (\<lambda>e. edgeKey (te_Source e) (te_Target e)) (tr_Edges r)) \<and>
          list_all (\<lambda>e. te_Source e \<in> set (map tn_ID (tr_Nodes r)) \<and> te_Target e \<in> set (map tn_ID (tr_Nodes r))) (tr_Edges r))
        [GetTopology visit l deps now m cluster service, fst (GetTopologyWithForce visit l deps clocks m cluster service)]"
proof -
  have "cacheOk (NewTopologyMerger hasSource interval hours)" by (simp add: cacheOk_def NewTopologyMerger_def)
  from get_closed [OF refreshes_ok [OF this, of events], of visit l deps now cluster service]
    filter_closed [OF merge_closed, of visit _ l deps "fst clocks" "[]" "[]" cluster service] show ?thesis
    by (simp add: Let_def GetTopologyWithForce_def closedGraph_def del: set_map)
qed

lemma override_single: "gm_get (overrideDeps [s]) p = (if p = si_Name s \<and> si_Dependencies s \<noteq> [] then Some (si_Dependencies s) else None)"
  by (simp add: overrideDeps_def)

text \<open>A call that is reported is an edge of the merged graph, as reported or as declared.\<close>

lemma reported_kept:
  assumes "e \<in> set es" "mset (visit over) = mset over" "gm_ok over"
  shows "\<exists>x \<in> set (externalEdges over es @ declaredEdges (visit over)). te_Source x = de_Parent e \<and> te_Target x = de_Child e"
proof (cases "case gm_get over (de_Parent e) of None \<Rightarrow> True | Some ds \<Rightarrow> \<not> list_ex (\<lambda>x. x = de_Child e) ds")
  case True
  let ?x = "\<lparr>te_Source = de_Parent e, te_Target = de_Child e, te_Type = ''calls'', te_CallCount = de_CallCount e, te_DataSource = ''jaeger''\<rparr>"
  have "?x \<in> set (externalEdges over es)"
    unfolding externalEdges_def set_map set_filter by (rule imageI) (use assms(1) True in simp)
  then show ?thesis by force
next
  case False
  then obtain ds where d: "gm_get over (de_Parent e) = Some ds" "de_Child e \<in> set ds"
    by (auto simp: list_ex_iff split: option.splits)
  have "(de_Parent e, ds) \<in> set (visit over)"
    using d(1) mset_eq_setD [OF assms(2)] by (simp add: gm_in_iff [OF assms(3)])
  with d(2) have "\<lparr>te_Source = de_Parent e, te_Target = de_Child e, te_Type = ''depends_on'', te_CallCount = 0, te_DataSource = ''cmdb''\<rparr> \<in> set (declaredEdges (visit over))"
    unfolding declaredEdges_def by force
  then show ?thesis by force
qed

lemma overrides_ok: "gm_ok m \<Longrightarrow> gm_ok (fold (\<lambda>s m. if si_Dependencies s \<noteq> [] then gm_put (si_Name s) (si_Dependencies s) m else m) services m)"
  by (induction services arbitrary: m) auto

lemma merged_key:
  assumes "selectedServices l cluster service = Some services" "tm_hasSource m" "e \<in> set es" "\<forall>over. mset (visit over) = mset over"
  shows "list_ex (\<lambda>y. edgeKey (te_Source y) (te_Target y) = edgeKey (de_Parent e) (de_Child e)) (tr_Edges (mergeTopology visit m l (Inr es) now cluster service))"
proof -
  let ?es = "externalEdges (overrideDeps services) es @ declaredEdges (visit (overrideDeps services))"
  have "gm_ok (overrideDeps services)" unfolding overrideDeps_def by (rule overrides_ok) simp
  with reported_kept [OF assms(3)] assms(4) have "edgeKey (de_Parent e) (de_Child e) \<in> (\<lambda>e. edgeKey (te_Source e) (te_Target e)) ` set ?es"
    by (metis (no_types, lifting) rev_image_eqI)
  also have "\<dots> = (\<lambda>e. edgeKey (te_Source e) (te_Target e)) ` set (snd (fold addEdge ?es ([], [])))"
    using edges_fold [of "([], [])" ?es] by simp
  finally show ?thesis using assms(1,2) by (auto simp: mergeTopology_def Let_def list_ex_iff)
qed

text \<open>C26: what the filter leaves depends on the cache. With a tracing service, for a service that is in the CMDB, an answer before
  the first refresh holds an edge for every call that the tracing service reported, also between services that the asked one has nothing to do with;
  after a refresh from the same data an edge of the answer starts at the service or at one that the service has an edge to.
  (The map of declared dependencies is visited in any order.)\<close>

theorem topology_filter_ignored:
  assumes "tm_hasSource m" "tm_cache m = None" "service \<noteq> []" "GetService l service = Some s" "\<forall>over. mset (visit over) = mset over"
  shows "list_all (\<lambda>e. list_ex (\<lambda>x. edgeKey (te_Source x) (te_Target x) = edgeKey (de_Parent e) (de_Child e))
        (tr_Edges (GetTopology visit l (Inr es) now m cluster service))) es \<and>
    list_all (\<lambda>x. te_Source x = service \<or>
          list_ex (\<lambda>y. te_Source y = service \<and> te_Target y = te_Source x) (tr_Edges (mergeTopology visit m l (Inr es) (fst clocks) [] [])))
      (tr_Edges (GetTopology visit l (Inr es) now (refreshTopology visit l (Inr es) clocks m) cluster service))"
proof
  from assms(3,4) have sel: "selectedServices l cluster service = Some [dtoToInfo l s]" by (simp add: selectedServices_def repoGetService_def)
  have "list_ex (\<lambda>x. edgeKey (te_Source x) (te_Target x) = edgeKey (de_Parent e) (de_Child e))
      (tr_Edges (GetTopology visit l (Inr es) now m cluster service))" if "e \<in> set es" for e
    using merged_key [OF sel assms(1) that assms(5), of now] by (simp add: GetTopology_def assms(2))
  then show "list_all (\<lambda>e. list_ex (\<lambda>x. edgeKey (te_Source x) (te_Target x) = edgeKey (de_Parent e) (de_Child e))
        (tr_Edges (GetTopology visit l (Inr es) now m cluster service))) es" by (simp add: list_all_iff)
next
  let ?r = "mergeTopology visit m l (Inr es) (fst clocks) [] []"
  have eq: "GetTopology visit l (Inr es) now (refreshTopology visit l (Inr es) clocks m) cluster service =
      keepOnly (service # map te_Target (filter (\<lambda>e. te_Source e = service) (tr_Edges ?r))) ?r"
    using assms(3) by (simp add: GetTopology_def refreshTopology_def filterTopology_def)
  show "list_all (\<lambda>x. te_Source x = service \<or> list_ex (\<lambda>y. te_Source y = service \<and> te_Target y = te_Source x) (tr_Edges ?r))
      (tr_Edges (GetTopology visit l (Inr es) now (refreshTopology visit l (Inr es) clocks m) cluster service))"
    unfolding eq by (auto simp: keepOnly_def list_all_iff list_ex_iff)
qed

subsection \<open>Examples\<close>

lemma demo_db: "GetService (demo_loader demo_file0) ''db'' = Some (demo_service\<lparr>sd_Name := ''db'', sd_Dependencies := []\<rparr>)"
  by (simp add: GetService_def demo_loader_def installFile_def demo_file0_def indexBy_def)

theorem topology_filter_ignored_witness:
  "tr_Edges (GetTopology (\<lambda>m. m) (demo_loader demo_file0) (Inr [\<lparr>de_Parent = ''x'', de_Child = ''y'', de_CallCount = 1\<rparr>]) 0 (NewTopologyMerger True 0 0) [] ''db'') \<noteq> [] \<and>
   list_all (\<lambda>x. te_Source x \<noteq> ''x'')
     (tr_Edges (GetTopology (\<lambda>m. m) (demo_loader demo_file0) (Inr [\<lparr>de_Parent = ''x'', de_Child = ''y'', de_CallCount = 1\<rparr>]) 0
        (refreshTopology (\<lambda>m. m) (demo_loader demo_file0) (Inr [\<lparr>de_Parent = ''x'', de_Child = ''y'', de_CallCount = 1\<rparr>]) (0, 0) (NewTopologyMerger True 0 0)) [] ''db''))"
proof -
  let ?e = "\<lparr>de_Parent = ''x'', de_Child = ''y'', de_CallCount = 1\<rparr>" and ?m = "NewTopologyMerger True 0 0"
  have m: "tm_hasSource ?m" "tm_cache ?m = None" by (simp_all add: NewTopologyMerger_def)
  have "overrideDeps (repoListAll (demo_loader demo_file0)) = []"
    by (simp add: repoListAll_def dtosToInfos_def ListAll_def demo_loader_def installFile_def demo_file0_def dtoToInfo_def overrideDeps_def)
  then have "list_all (\<lambda>x. te_Source x = ''x'') (tr_Edges (mergeTopology (\<lambda>m. m) ?m (demo_loader demo_file0) (Inr [?e]) (fst (0, 0)) [] []))"
    by (simp add: mergeTopology_def selectedServices_def Let_def m externalEdges_def declaredEdges_def addEdge_def)
  then show ?thesis
    using topology_filter_ignored [where now = 0 and cluster = "[]" and visit = "\<lambda>m. m" and es = "[?e]" and clocks = "(0, 0)", OF m _ demo_db]
    by (fastforce simp: list_all_iff list_ex_iff)
qed

lemma demo_edges: "topologyUpstream (demo_loader demo_file1) ''db'' = []" "topologyUpstream (demo_loader demo_file1) ''web'' = [''db'']"
  "topologyDownstream (demo_loader demo_file1) ''db'' = [''web'']" "topologyDownstream (demo_loader demo_file1) ''web'' = []"
  by (simp_all add: topologyUpstream_def topologyDownstream_def repoGetService_def GetService_def GetDependents_def demo_loader_def installFile_def
      demo_file1_def demo_service_def indexBy_def reverseIndex_def addDependent_def dtoToInfo_def)

theorem correlation_follows_cmdb_witness:
  "\<exists>out r chain. correlateAlerts demo_alert_world (Some (demo_loader demo_file1)) 5 100 (Inr demo_alerts) = Some out \<and> co_Result out = Some r \<and>
     chain \<in> set (cor_Propagation r) \<and> pch_Path chain = [''db'', ''web''] \<and> pch_Direction chain = ''upstream_to_downstream'' \<and>
     (\<exists>s u. GetService (demo_loader demo_file1) ''web'' = Some s \<and> ''db'' \<in> set (sd_Dependencies s) \<and>
        first_of demo_alert_world (toolEngine (demo_loader demo_file1)) (recentAlerts 5 100 demo_alerts) ''db'' u)"
proof -
  let ?l = "demo_loader demo_file1"
  let ?t = "\<lparr>tp_GetUpstream = topologyUpstream ?l, tp_GetDownstream = topologyDownstream ?l, tp_GetAllServices = topologyServices ?l\<rparr>"
  let ?e = "NewEngine (Some ?t) 5 (rnd (7 / 10))"
  have run: "cmdbRun demo_codec [(CreateS demo_service, SaveFine)] (demo_loader demo_file0, demo_disk) = (?l, \<lparr>dk_file = Some ''1'', dk_tmp = None\<rparr>)"
    by (simp add: cmdbRun_def demo_create)
  from correlation_follows_cmdb [OF demo_load demo_distinct run, of demo_alert_world 5 100 demo_alerts] obtain out where
    out: "correlateAlerts demo_alert_world (Some ?l) 5 100 (Inr demo_alerts) = Some out" and
    sound: "\<And>r chain. co_Result out = Some r \<Longrightarrow> chain \<in> set (cor_Propagation r) \<Longrightarrow> \<exists>a b s u. pch_Path chain = [a, b] \<and>
      first_of demo_alert_world (toolEngine ?l) (recentAlerts 5 100 demo_alerts) a u \<and>
      (pch_Direction chain = ''upstream_to_downstream'' \<longrightarrow> GetService ?l b = Some s \<and> a \<in> set (sd_Dependencies s))" by (metis (no_types, lifting))
  have recent: "filter (\<lambda>a. al_ActiveAt a > 100 + wrap64 (- 5 * (60 * second))) demo_alerts = demo_alerts"
    by (simp add: demo_alerts_def demo_alert_def wrap64_def second_def)
  from out recent obtain r where r: "Analyze demo_alert_world ?e demo_alerts = Some r" "co_Result out = Some r"
    by (auto simp: correlateAlerts_def Let_def)
  have infer: "inferService demo_alert_world ?e (demo_alert svc t) = stripPort svc" if "svc \<noteq> []" for svc t
    using that by (simp add: inferService_def labelService_def demo_alert_def)
  have first: "firstAlerts demo_alert_world ?e demo_alerts = [(''db'', demo_alert ''db'' 0), (''web'', demo_alert ''web'' 10)]"
    by (simp add: firstAlerts_def demo_alerts_def noteAlert_def Let_def infer)
  have services: "extractServices demo_alert_world ?e demo_alerts = [''db'', ''web'']"
    by (simp add: extractServices_def demo_alerts_def infer)
  have q: "ce_propagationThreshold ?e \<le> rnd (95 / 100)" unfolding engine_threshold by (rule rnd_mono) simp
  have t: "ce_topology ?e = Some ?t" by (simp add: NewEngine_def)
  obtain chain where chain: "detectPropagation demo_alert_world ?e demo_alerts [''db'', ''web''] = [chain]" "pch_Path chain = [''db'', ''web'']"
      "pch_Direction chain = ''upstream_to_downstream''"
    using q by (simp add: detectPropagation_def t first pairsOf_def demo_edges forwardPair_def reversePair_def firstTime_def demo_alert_def
        Let_def time_sub_def calculatePropagationConfidence_def second_def max_duration_def min_duration_def)
  from r(1) have "cor_Propagation r = detectPropagation demo_alert_world ?e demo_alerts [''db'', ''web'']"
    by (auto simp: Analyze_def Let_def demo_sorted services split: if_split_asm option.splits) (simp add: demo_alerts_def)
  with chain(1) have c: "chain \<in> set (cor_Propagation r)" by simp
  from sound [OF r(2) c] chain(2,3) out r(2) c show ?thesis by auto
qed

end
