(* ===== verification/Mem_Extract.thy ===== *)
theory Mem_Extract
  imports Mem_Types Go_Split
begin

text \<open>
  internal/ai/memory/extraction.go: which sentences of a conversation become candidates for the long-term
  memory, and which candidates are fit to be kept. \<open>lower\<close> is \<open>strings.ToLower\<close>. The Chinese markers are the UTF-8
  bytes of the source's literals.
\<close>

record memory_candidate =
  mc_Type :: string
  mc_Content :: string
  mc_Source :: string
  mc_Scope :: string
  mc_ScopeID :: string
  mc_Confidence :: f64
  mc_SafetyLabel :: string
  mc_Provenance :: string

subsection \<open>Markers\<close>

definition sentenceSeparators :: "string list" where \<comment> \<open>full stop, semicolon, exclamation and question mark, newline\<close>
  "sentenceSeparators =
     [[CHR 0xE3, CHR 0x80, CHR 0x82], [CHR 0xEF, CHR 0xBC, CHR 0x9B], [CHR 0xEF, CHR 0xBC, CHR 0x81],
      [CHR 0xEF, CHR 0xBC, CHR 0x9F], [CHR 0x0A], ''. '', ''; '']"

definition factIndicators :: "string list" where \<comment> \<open>names of services, addresses, ports, versions, owners, thresholds\<close>
  "factIndicators =
     [[CHR 0xE6, CHR 0x9C, CHR 0x8D, CHR 0xE5, CHR 0x8A, CHR 0xA1, CHR 0xE5, CHR 0x90, CHR 0x8D], [CHR
      0xE5, CHR 0xBA, CHR 0x94, CHR 0xE7, CHR 0x94, CHR 0xA8, CHR 0xE5, CHR 0x90, CHR 0x8D], (''IP'' @
      [CHR 0xE5, CHR 0x9C, CHR 0xB0, CHR 0xE5, CHR 0x9D, CHR 0x80]), [CHR 0xE7, CHR 0xAB, CHR 0xAF, CHR
      0xE5, CHR 0x8F, CHR 0xA3], [CHR 0xE6, CHR 0x95, CHR 0xB0, CHR 0xE6, CHR 0x8D, CHR 0xAE, CHR 0xE5,
      CHR 0xBA, CHR 0x93, CHR 0xE5, CHR 0x90, CHR 0x8D], [CHR 0xE9, CHR 0x9B, CHR 0x86, CHR 0xE7, CHR
      0xBE, CHR 0xA4, CHR 0xE5, CHR 0x90, CHR 0x8D], [CHR 0xE7, CHR 0x89, CHR 0x88, CHR 0xE6, CHR 0x9C,
      CHR 0xAC, CHR 0xE5, CHR 0x8F, CHR 0xB7], [CHR 0xE8, CHR 0xB4, CHR 0x9F, CHR 0xE8, CHR 0xB4, CHR
      0xA3, CHR 0xE4, CHR 0xBA, CHR 0xBA], [CHR 0xE5, CHR 0x91, CHR 0x8A, CHR 0xE8, CHR 0xAD, CHR 0xA6,
      CHR 0xE8, CHR 0xA7, CHR 0x84, CHR 0xE5, CHR 0x88, CHR 0x99], [CHR 0xE9, CHR 0x98, CHR 0x88, CHR
      0xE5, CHR 0x80, CHR 0xBC], ''SLA'', [CHR 0xE5, CHR 0x9F, CHR 0x9F, CHR 0xE5, CHR 0x90, CHR 0x8D]]"

definition prefIndicators :: "string list" where \<comment> \<open>I like, I hope, please use, do not use, always\<close>
  "prefIndicators =
     [[CHR 0xE6, CHR 0x88, CHR 0x91, CHR 0xE5, CHR 0x96, CHR 0x9C, CHR 0xE6, CHR 0xAC, CHR 0xA2], [CHR
      0xE6, CHR 0x88, CHR 0x91, CHR 0xE5, CHR 0xB8, CHR 0x8C, CHR 0xE6, CHR 0x9C, CHR 0x9B], [CHR 0xE8,
      CHR 0xAF, CHR 0xB7, CHR 0xE7, CHR 0x94, CHR 0xA8], [CHR 0xE4, CHR 0xB8, CHR 0x8D, CHR 0xE8, CHR
      0xA6, CHR 0x81, CHR 0xE7, CHR 0x94, CHR 0xA8], [CHR 0xE6, CHR 0x88, CHR 0x91, CHR 0xE5, CHR 0x80,
      CHR 0xBE, CHR 0xE5, CHR 0x90, CHR 0x91], [CHR 0xE6, CHR 0x88, CHR 0x91, CHR 0xE4, CHR 0xB9, CHR
      0xA0, CHR 0xE6, CHR 0x83, CHR 0xAF], [CHR 0xE5, CHR 0xB8, CHR 0xAE, CHR 0xE6, CHR 0x88, CHR 0x91],
      [CHR 0xE6, CHR 0x88, CHR 0x91, CHR 0xE9, CHR 0x9C, CHR 0x80, CHR 0xE8, CHR 0xA6, CHR 0x81], [CHR
      0xE6, CHR 0xAF, CHR 0x8F, CHR 0xE6, CHR 0xAC, CHR 0xA1, CHR 0xE9, CHR 0x83, CHR 0xBD], [CHR 0xE6,
      CHR 0x80, CHR 0xBB, CHR 0xE6, CHR 0x98, CHR 0xAF]]"

definition questionMarks :: "string list" where \<comment> \<open>full-width and ASCII question mark\<close>
  "questionMarks =
     [[CHR 0xEF, CHR 0xBC, CHR 0x9F], ''?'']"

definition questionMarkers :: "string list" where \<comment> \<open>question words\<close>
  "questionMarkers =
     [[CHR 0xE4, CHR 0xBB, CHR 0x80, CHR 0xE4, CHR 0xB9, CHR 0x88], [CHR 0xE5, CHR 0xA4, CHR 0x9A, CHR
      0xE5, CHR 0xB0, CHR 0x91], [CHR 0xE8, CHR 0xB0, CHR 0x81], [CHR 0xE5, CHR 0x93, CHR 0xAA], [CHR
      0xE6, CHR 0x80, CHR 0x8E, CHR 0xE4, CHR 0xB9, CHR 0x88], [CHR 0xE5, CHR 0xA6, CHR 0x82, CHR 0xE4,
      CHR 0xBD, CHR 0x95], [CHR 0xE6, CHR 0x98, CHR 0xAF, CHR 0xE5, CHR 0x90, CHR 0xA6], [CHR 0xE6, CHR
      0x9C, CHR 0x89, CHR 0xE6, CHR 0xB2, CHR 0xA1, CHR 0xE6, CHR 0x9C, CHR 0x89], [CHR 0xE5, CHR 0x90,
      CHR 0x97], ''what'', ''which'', ''who'', ''where'', ''when'', ''why'', ''how'', ''is there'',
      ''do we'', ''should we'']"

definition boilerplateMarkers :: "string list" where \<comment> \<open>phrases of an assistant\<close>
  "boilerplateMarkers =
     [([CHR 0xE4, CHR 0xBD, CHR 0x9C, CHR 0xE4, CHR 0xB8, CHR 0xBA] @ ''ai''), ([CHR 0xE4, CHR 0xBD, CHR
      0x9C, CHR 0xE4, CHR 0xB8, CHR 0xBA, CHR 0xE4, CHR 0xB8, CHR 0x80, CHR 0xE4, CHR 0xB8, CHR 0xAA] @
      ''ai''), [CHR 0xE6, CHR 0x8A, CHR 0xB1, CHR 0xE6, CHR 0xAD, CHR 0x89], [CHR 0xE5, CHR 0xAF, CHR
      0xB9, CHR 0xE4, CHR 0xB8, CHR 0x8D, CHR 0xE8, CHR 0xB5, CHR 0xB7], [CHR 0xE8, CHR 0xAF, CHR 0xB7,
      CHR 0xE6, CHR 0x8F, CHR 0x90, CHR 0xE4, CHR 0xBE, CHR 0x9B, CHR 0xE6, CHR 0x9B, CHR 0xB4, CHR
      0xE5, CHR 0xA4, CHR 0x9A, CHR 0xE4, CHR 0xBF, CHR 0xA1, CHR 0xE6, CHR 0x81, CHR 0xAF], [CHR 0xE6,
      CHR 0x97, CHR 0xA0, CHR 0xE6, CHR 0xB3, CHR 0x95, CHR 0xE7, CHR 0x9B, CHR 0xB4, CHR 0xE6, CHR
      0x8E, CHR 0xA5]]"

definition secretMarkers :: "string list" where \<comment> \<open>signs of a secret\<close>
  "secretMarkers =
     [''api_key'', ''apikey'', ''access_key'', ''secret_key'', ''password'', ''passwd'',
      ''authorization:'', ''bearer '', ''token='', ''token:'']"

subsection \<open>Sentences\<close>

definition splitSentences :: "string \<Rightarrow> string list" where
  "splitSentences text1 =
     (let parts = fold (\<lambda>sep ps. concat (map (\<lambda>p. str_split p sep) ps)) sentenceSeparators [text1]
      in filter (\<lambda>t. t \<noteq> []) (map trim_space parts))"

definition containsMarker :: "string \<Rightarrow> string list \<Rightarrow> bool" where
  "containsMarker s markers \<longleftrightarrow> list_ex (\<lambda>m. contains m s) markers"

definition looksLikeQuestion :: "(string \<Rightarrow> string) \<Rightarrow> string \<Rightarrow> bool" where
  "looksLikeQuestion lower sentence =
     (let normalized = trim_space (lower sentence)
      in if normalized = [] then False
         else if containsMarker normalized questionMarks then True
         else containsMarker normalized questionMarkers)"

definition factSentence :: "(string \<Rightarrow> string) \<Rightarrow> string \<Rightarrow> string \<Rightarrow> bool" where
  "factSentence lower indicator s \<longleftrightarrow>
     contains indicator s \<and> 5 < length s \<and> length s < 500 \<and> \<not> looksLikeQuestion lower s"

definition extractFacts :: "(string \<Rightarrow> string) \<Rightarrow> string \<Rightarrow> string \<Rightarrow> string list" where
  "extractFacts lower userMsg assistantMsg =
     dedup_from [] (concat (map (\<lambda>indicator.
        if contains indicator userMsg
        then map trim_space (filter (factSentence lower indicator) (splitSentences userMsg)) else [])
      factIndicators))"

definition prefSentence :: "string \<Rightarrow> string \<Rightarrow> bool" where
  "prefSentence indicator s \<longleftrightarrow> contains indicator s \<and> 3 < length s \<and> length s < 300"

definition extractPreferences :: "string \<Rightarrow> string list" where
  "extractPreferences userMsg =
     dedup_from [] (concat (map (\<lambda>indicator.
        if contains indicator userMsg
        then map trim_space (filter (prefSentence indicator) (splitSentences userMsg)) else [])
      prefIndicators))"

subsection \<open>Candidates\<close>

definition factCandidate :: "string \<Rightarrow> memory_candidate" where
  "factCandidate content =
     \<lparr>mc_Type = MemoryTypeFact, mc_Content = content, mc_Source = ''conversation'', mc_Scope = MemoryScopeSession,
      mc_ScopeID = [], mc_Confidence = rnd (70 / 100), mc_SafetyLabel = ''internal'',
      mc_Provenance = ''extractor:rule_fact''\<rparr>"

definition prefCandidate :: "string \<Rightarrow> memory_candidate" where
  "prefCandidate pref =
     \<lparr>mc_Type = MemoryTypePreference, mc_Content = pref, mc_Source = ''user_input'', mc_Scope = MemoryScopeSession,
      mc_ScopeID = [], mc_Confidence = rnd (85 / 100), mc_SafetyLabel = ''internal'',
      mc_Provenance = ''extractor:rule_preference''\<rparr>"

definition ExtractMemoryCandidates :: "(string \<Rightarrow> string) \<Rightarrow> string \<Rightarrow> string \<Rightarrow> memory_candidate list" where
  "ExtractMemoryCandidates lower userMsg assistantMsg =
     map factCandidate (extractFacts lower userMsg assistantMsg) @ map prefCandidate (extractPreferences userMsg)"

text \<open>The verdict on a text, and the reason for a refusal.\<close>

definition validateContent :: "(string \<Rightarrow> string) \<Rightarrow> string \<Rightarrow> bool \<times> string" where
  "validateContent lower raw =
     (let content = trim_space raw;
          lowered = lower content
      in if content = [] then (False, ''empty'')
         else if length content < 4 then (False, ''too_short'')
         else if length content > 500 then (False, ''too_long'')
         else if str_count content [CHR 0x0A] > 3 then (False, ''too_many_lines'')
         else if contains [CHR 0x60, CHR 0x60, CHR 0x60] content then (False, ''contains_code_block'')
         else if containsMarker lowered boilerplateMarkers then (False, ''assistant_boilerplate'')
         else if containsMarker lowered secretMarkers then (False, ''contains_secret_marker'')
         else (True, []))"

definition ValidateMemoryCandidate :: "(string \<Rightarrow> string) \<Rightarrow> memory_candidate \<Rightarrow> bool \<times> string" where
  "ValidateMemoryCandidate lower candidate = validateContent lower (mc_Content candidate)"

subsection \<open>Facts\<close>

lemma splitSentences_contains: "t \<in> set (splitSentences s) \<Longrightarrow> contains t s \<and> t \<noteq> []"
proof -
  have "\<forall>p \<in> set (fold (\<lambda>sep ps. concat (map (\<lambda>p. str_split p sep) ps)) seps ps). contains p s"
    if "\<forall>p \<in> set ps. contains p s" for seps ps
    using that
  proof (induction seps arbitrary: ps)
    case (Cons sep seps)
    have "\<forall>p \<in> set (concat (map (\<lambda>p. str_split p sep) ps)). contains p s"
      using Cons.prems str_split_contains contains_trans by fastforce
    from Cons.IH [OF this] show ?case by simp
  qed simp
  moreover have "\<forall>p \<in> set [s]. contains p s" by (simp add: contains_sublist)
  ultimately have p: "\<forall>p \<in> set (fold (\<lambda>sep ps. concat (map (\<lambda>p. str_split p sep) ps)) sentenceSeparators [s]). contains p s"
    by blast
  assume "t \<in> set (splitSentences s)"
  then show "contains t s \<and> t \<noteq> []"
    using p contains_trans [OF contains_trim] by (auto simp: splitSentences_def Let_def)
qed

lemma extractFacts_in:
  "f \<in> set (extractFacts lower u a) \<longleftrightarrow>
     (\<exists>i \<in> set factIndicators. contains i u \<and> (\<exists>s \<in> set (splitSentences u). factSentence lower i s \<and> f = trim_space s))"
  by (auto simp: extractFacts_def set_dedup_from)

lemma extractPreferences_in:
  "f \<in> set (extractPreferences u) \<longleftrightarrow>
     (\<exists>i \<in> set prefIndicators. contains i u \<and> (\<exists>s \<in> set (splitSentences u). prefSentence i s \<and> f = trim_space s))"
  by (auto simp: extractPreferences_def set_dedup_from)

lemma validate_secrets:
  "fst (validateContent lower raw) \<Longrightarrow> m \<in> set secretMarkers \<Longrightarrow> \<not> contains m (lower (trim_space raw))"
  by (auto simp: validateContent_def Let_def containsMarker_def list_ex_iff split: if_splits)

lemma validate_length:
  "fst (validateContent lower raw) \<Longrightarrow> 4 \<le> length (trim_space raw) \<and> length (trim_space raw) \<le> 500"
  by (auto simp: validateContent_def Let_def split: if_splits)

end
