(* ===== verification/Mem_Agent.thy ===== *)
theory Mem_Agent
  imports Mem_Extract Mem_LongTerm
begin

text \<open>
  Deciding what a conversation leaves in the long-term memory, and doing it: the rule agent and the model agent
  (internal/ai/memory/agent_rules.go, the parsing of agent_prompts.go), the cleaning of a model's decision
  (agent_sanitize.go) and the applier (agent_applier.go) over the data of memory_types.go.
\<close>

abbreviation MemoryActionSkip :: string where "MemoryActionSkip \<equiv> ''skip''"
abbreviation MemoryActionUpsert :: string where "MemoryActionUpsert \<equiv> ''upsert''"
abbreviation MemoryActionSupersede :: string where "MemoryActionSupersede \<equiv> ''supersede''"
abbreviation MemoryActionPromote :: string where "MemoryActionPromote \<equiv> ''promote''"

record memory_event =
  ev_SessionID :: string
  ev_UserID :: string
  ev_ProjectID :: string
  ev_Query :: string
  ev_Answer :: string
  ev_TraceID :: string
  ev_ExistingMemories :: "memory_entry list"

record memory_action =
  ma_Op :: string
  ma_TargetID :: string
  ma_Type :: string
  ma_Content :: string
  ma_Scope :: string
  ma_ScopeID :: string
  ma_Confidence :: f64
  ma_ConflictGroup :: string
  ma_ExpiresAt :: int
  ma_Reason :: string

record audit_record =
  au_ID :: string
  au_MemoryID :: string
  au_Op :: string
  au_Reason :: string
  au_TraceID :: string
  au_Actor :: string
  au_Before :: "memory_entry option"
  au_After :: "memory_entry option"
  au_CreatedAt :: int

record extraction_report =
  er_Candidates :: "memory_candidate list"
  er_StoredIDs :: "string list"
  er_Dropped :: "(memory_candidate option \<times> string) list"
  er_Actions :: "memory_action list"
  er_AuditRecords :: "audit_record list"

definition emptyReport :: extraction_report where
  "emptyReport = \<lparr>er_Candidates = [], er_StoredIDs = [], er_Dropped = [], er_Actions = [], er_AuditRecords = []\<rparr>"

definition bareAction :: "string \<Rightarrow> string \<Rightarrow> memory_action" where
  "bareAction op reason =
     \<lparr>ma_Op = op, ma_TargetID = [], ma_Type = [], ma_Content = [], ma_Scope = [], ma_ScopeID = [], ma_Confidence = 0,
      ma_ConflictGroup = [], ma_ExpiresAt = 0, ma_Reason = reason\<rparr>"

subsection \<open>The event\<close>

definition normalizeMemoryEvent :: "memory_event \<Rightarrow> memory_event" where
  "normalizeMemoryEvent event =
     event\<lparr>ev_SessionID := trim_space (ev_SessionID event), ev_UserID := trim_space (ev_UserID event),
           ev_ProjectID := trim_space (ev_ProjectID event), ev_Query := trim_space (ev_Query event),
           ev_Answer := trim_space (ev_Answer event), ev_TraceID := trim_space (ev_TraceID event)\<rparr>"

definition existingRefs :: "memory_event \<Rightarrow> scope_ref list" where
  "existingRefs event =
     (if ev_SessionID event \<noteq> [] then [\<lparr>sr_Scope = MemoryScopeSession, sr_ScopeID = ev_SessionID event\<rparr>] else []) @
     (if ev_UserID event \<noteq> [] then [\<lparr>sr_Scope = MemoryScopeUser, sr_ScopeID = ev_UserID event\<rparr>] else []) @
     (if ev_ProjectID event \<noteq> [] then [\<lparr>sr_Scope = MemoryScopeProject, sr_ScopeID = ev_ProjectID event\<rparr>] else []) @
     [\<lparr>sr_Scope = MemoryScopeGlobal, sr_ScopeID = ''global''\<rparr>]"

definition withExistingMemories :: "gotime \<Rightarrow> long_term \<Rightarrow> memory_event \<Rightarrow> memory_event" where
  "withExistingMemories now ltm event =
     (if ev_ExistingMemories event \<noteq> [] then event
      else event\<lparr>ev_ExistingMemories := take 20 (Mem_LongTerm.List now (existingRefs event) False ltm)\<rparr>)"

definition defaultActionScopeID :: "memory_event \<Rightarrow> string \<Rightarrow> string" where
  "defaultActionScopeID event scope =
     (if scope = MemoryScopeUser \<and> ev_UserID event \<noteq> [] then ev_UserID event
      else if scope = MemoryScopeProject \<and> ev_ProjectID event \<noteq> [] then ev_ProjectID event
      else if scope = MemoryScopeGlobal then ''global''
      else ev_SessionID event)"

subsection \<open>Conflict groups\<close>

definition preferenceMarkers :: "string list" where \<comment> \<open>Chinese, brief, detailed, conclusion first, do not use\<close>
  "preferenceMarkers =
     [[CHR 0xE4, CHR 0xB8, CHR 0xAD, CHR 0xE6, CHR 0x96, CHR 0x87], [CHR 0xE7, CHR 0xAE, CHR 0x80, CHR
      0xE6, CHR 0xB4, CHR 0x81], [CHR 0xE8, CHR 0xAF, CHR 0xA6, CHR 0xE7, CHR 0xBB, CHR 0x86], [CHR
      0xE5, CHR 0x85, CHR 0x88, CHR 0xE7, CHR 0xBB, CHR 0x99, CHR 0xE7, CHR 0xBB, CHR 0x93, CHR 0xE8,
      CHR 0xAE, CHR 0xBA], [CHR 0xE4, CHR 0xB8, CHR 0x8D, CHR 0xE8, CHR 0xA6, CHR 0x81, CHR 0xE7, CHR
      0x94, CHR 0xA8]]"

definition factMarkers :: "string list" where \<comment> \<open>the fact indicators in lower case\<close>
  "factMarkers =
     [[CHR 0xE6, CHR 0x9C, CHR 0x8D, CHR 0xE5, CHR 0x8A, CHR 0xA1, CHR 0xE5, CHR 0x90, CHR 0x8D], [CHR
      0xE5, CHR 0xBA, CHR 0x94, CHR 0xE7, CHR 0x94, CHR 0xA8, CHR 0xE5, CHR 0x90, CHR 0x8D], (''ip'' @
      [CHR 0xE5, CHR 0x9C, CHR 0xB0, CHR 0xE5, CHR 0x9D, CHR 0x80]), [CHR 0xE7, CHR 0xAB, CHR 0xAF, CHR
      0xE5, CHR 0x8F, CHR 0xA3], [CHR 0xE6, CHR 0x95, CHR 0xB0, CHR 0xE6, CHR 0x8D, CHR 0xAE, CHR 0xE5,
      CHR 0xBA, CHR 0x93, CHR 0xE5, CHR 0x90, CHR 0x8D], [CHR 0xE9, CHR 0x9B, CHR 0x86, CHR 0xE7, CHR
      0xBE, CHR 0xA4, CHR 0xE5, CHR 0x90, CHR 0x8D], [CHR 0xE7, CHR 0x89, CHR 0x88, CHR 0xE6, CHR 0x9C,
      CHR 0xAC, CHR 0xE5, CHR 0x8F, CHR 0xB7], [CHR 0xE8, CHR 0xB4, CHR 0x9F, CHR 0xE8, CHR 0xB4, CHR
      0xA3, CHR 0xE4, CHR 0xBA, CHR 0xBA], [CHR 0xE5, CHR 0x91, CHR 0x8A, CHR 0xE8, CHR 0xAD, CHR 0xA6,
      CHR 0xE8, CHR 0xA7, CHR 0x84, CHR 0xE5, CHR 0x88, CHR 0x99], [CHR 0xE9, CHR 0x98, CHR 0x88, CHR
      0xE5, CHR 0x80, CHR 0xBC], ''sla'', [CHR 0xE5, CHR 0x9F, CHR 0x9F, CHR 0xE5, CHR 0x90, CHR 0x8D]]"

fun firstMatchedMarker :: "(string \<Rightarrow> string) \<Rightarrow> string \<Rightarrow> string list \<Rightarrow> string" where
  "firstMatchedMarker lower content [] = ''general''"
| "firstMatchedMarker lower content (marker # ms) =
     (if contains (lower marker) content then marker else firstMatchedMarker lower content ms)"

definition inferMemoryConflictGroup :: "(string \<Rightarrow> string) \<Rightarrow> string \<Rightarrow> string \<Rightarrow> string" where
  "inferMemoryConflictGroup lower memType raw =
     (let content = lower raw
      in if memType = MemoryTypePreference then ''preference:'' @ firstMatchedMarker lower content preferenceMarkers
         else if memType = MemoryTypeFact then ''fact:'' @ firstMatchedMarker lower content factMarkers
         else [])"

subsection \<open>The rule agent\<close>

definition candidateAction :: "(string \<Rightarrow> string) \<Rightarrow> memory_event \<Rightarrow> memory_candidate \<Rightarrow> memory_action" where
  "candidateAction lower event candidate =
     (let personal = (mc_Type candidate = MemoryTypePreference \<and> trim_space (ev_UserID event) \<noteq> []);
          scope = (if personal then MemoryScopeUser else mc_Scope candidate);
          scopeID = (if personal then trim_space (ev_UserID event) else mc_ScopeID candidate)
      in \<lparr>ma_Op = MemoryActionUpsert, ma_TargetID = [], ma_Type = mc_Type candidate, ma_Content = mc_Content candidate,
          ma_Scope = scope,
          ma_ScopeID = (if trim_space scopeID = [] then defaultActionScopeID event scope else scopeID),
          ma_Confidence = mc_Confidence candidate,
          ma_ConflictGroup = inferMemoryConflictGroup lower (mc_Type candidate) (mc_Content candidate), ma_ExpiresAt = 0,
          ma_Reason = ''rule extractor produced a durable memory candidate''\<rparr>)"

definition ruleActions :: "(string \<Rightarrow> string) \<Rightarrow> memory_event \<Rightarrow> memory_action list" where
  "ruleActions lower event =
     (let actions = map (candidateAction lower event) (ExtractMemoryCandidates lower (ev_Query event) (ev_Answer event))
      in if actions = [] then [bareAction MemoryActionSkip ''no durable memory candidate found''] else actions)"

text \<open>\<open>Decide\<close> of the rule agent; \<open>None\<close> is the error of a context that is done.\<close>

definition ruleDecide :: "(string \<Rightarrow> string) \<Rightarrow> bool \<Rightarrow> memory_event \<Rightarrow> memory_action list option" where
  "ruleDecide lower ctxDone event = (if ctxDone then None else Some (ruleActions lower event))"

subsection \<open>Cleaning the decision of a model\<close>

definition normalizeMemoryActionOp :: "string \<Rightarrow> string" where
  "normalizeMemoryActionOp op =
     (if op \<in> {MemoryActionSkip, MemoryActionUpsert, MemoryActionSupersede, MemoryActionPromote} then op else [])"

definition normalizeMemoryType :: "string \<Rightarrow> string" where
  "normalizeMemoryType t =
     (if t \<in> {MemoryTypeFact, MemoryTypePreference, MemoryTypeProcedure, MemoryTypeEpisode} then t else MemoryTypeFact)"

definition normalizeMemoryScope :: "string \<Rightarrow> string \<Rightarrow> string" where
  "normalizeMemoryScope scope op =
     (if scope \<in> {MemoryScopeSession, MemoryScopeUser, MemoryScopeProject, MemoryScopeGlobal} then scope
      else if op = MemoryActionPromote then MemoryScopeProject else MemoryScopeSession)"

definition sanitizeMemoryAction :: "(string \<Rightarrow> string) \<Rightarrow> memory_event \<Rightarrow> memory_action \<Rightarrow> memory_action" where
  "sanitizeMemoryAction lower event action =
     (let op = normalizeMemoryActionOp (ma_Op action);
          target = trim_space (ma_TargetID action);
          content = trim_space (ma_Content action);
          reason0 = trim_space (ma_Reason action);
          reason = (if reason0 = [] then ''llm memory decision'' else reason0)
      in if op = MemoryActionSkip then bareAction MemoryActionSkip reason
         else (let t = normalizeMemoryType (ma_Type action);
                   scope = normalizeMemoryScope (ma_Scope action) op;
                   scopeID0 = trim_space (ma_ScopeID action);
                   scopeID = (if scopeID0 = [] then defaultActionScopeID event scope else scopeID0);
                   c0 = (if ma_Confidence action \<le> 0 then defaultMemoryConfidence t else ma_Confidence action);
                   confidence = (if c0 > 1 then 1 else c0);
                   op1 = (if op = MemoryActionSupersede \<and> target = [] then MemoryActionUpsert else op);
                   group0 = trim_space (ma_ConflictGroup action);
                   conflict = (if group0 = [] \<and> (op1 = MemoryActionUpsert \<or> op1 = MemoryActionSupersede)
                               then inferMemoryConflictGroup lower t content else group0)
               in \<lparr>ma_Op = op1, ma_TargetID = target, ma_Type = t, ma_Content = content, ma_Scope = scope,
                   ma_ScopeID = scopeID, ma_Confidence = confidence, ma_ConflictGroup = conflict,
                   ma_ExpiresAt = ma_ExpiresAt action, ma_Reason = reason\<rparr>))"

definition sanitizeMemoryDecision :: "(string \<Rightarrow> string) \<Rightarrow> memory_event \<Rightarrow> memory_action list option \<Rightarrow> memory_action list" where
  "sanitizeMemoryDecision lower event decision =
     (case decision of
        None \<Rightarrow> [bareAction MemoryActionSkip ''empty llm memory decision'']
      | Some raw \<Rightarrow>
          (let actions = filter (\<lambda>a. \<not> (ma_Op a = [] \<or> (ma_Op a = MemoryActionSkip \<and> length raw > 1)))
                           (map (sanitizeMemoryAction lower event) raw)
           in if actions = [] then [bareAction MemoryActionSkip ''no valid llm memory action''] else actions))"

subsection \<open>The model agent\<close>

text \<open>What \<open>json.Unmarshal\<close> makes of a text: a decision with its actions, whether the object has the key
  \<open>actions\<close>, a single action, a list of actions.\<close>

record json_decoders =
  jd_decision :: "string \<Rightarrow> memory_action list option"
  jd_has_actions :: "string \<Rightarrow> bool"
  jd_action :: "string \<Rightarrow> memory_action option"
  jd_actions :: "string \<Rightarrow> memory_action list option"

definition stripJSONFence :: "string \<Rightarrow> string" where
  "stripJSONFence content =
     (let trimmed = trim_space content;
          lines = str_split trimmed [CHR 0x0A]
      in if \<not> prefix [CHR 0x60, CHR 0x60, CHR 0x60] trimmed then trimmed
         else if length lines \<le> 2 then trimmed
         else trim_space (join [CHR 0x0A] (butlast (tl lines))))"

text \<open>The text from the first \<open>c\<close> to the last \<open>d\<close>, if they come in this order.\<close>

definition bracketed :: "string \<Rightarrow> char \<Rightarrow> char \<Rightarrow> string option" where
  "bracketed s c d =
     (let i = index_byte s c; j = last_index_byte s d
      in if i \<ge> 0 \<and> j > i then Some (take (nat (j + 1 - i)) (drop (nat i) s)) else None)"

definition decodeObject :: "json_decoders \<Rightarrow> string \<Rightarrow> memory_action list option" where
  "decodeObject jd body =
     (case jd_decision jd body of
        None \<Rightarrow> None
      | Some actions \<Rightarrow>
          if actions \<noteq> [] then Some actions
          else if jd_has_actions jd body then Some actions
          else (case jd_action jd body of
                  Some action \<Rightarrow> if ma_Op action \<noteq> [] then Some [action] else None
                | None \<Rightarrow> None))"

definition parseMemoryDecisionJSON :: "json_decoders \<Rightarrow> string \<Rightarrow> memory_action list option" where
  "parseMemoryDecisionJSON jd content =
     (let trimmed0 = trim_space content; trimmed = stripJSONFence trimmed0
      in if trimmed0 = [] then None
         else (case Option.bind (bracketed trimmed (CHR 0x7B) (CHR 0x7D)) (decodeObject jd) of
                 Some actions \<Rightarrow> Some actions
               | None \<Rightarrow> Option.bind (bracketed trimmed (CHR 0x5B) (CHR 0x5D)) (jd_actions jd)))"

text \<open>\<open>Decide\<close> of the model agent with the rule agent to fall back on. \<open>reply\<close> is the model's answer, \<open>None\<close>
  for an error or no answer; \<open>configured\<close> is whether there is a model. The fallback runs in a context that
  cannot be cancelled.\<close>

definition llmDecide ::
  "(string \<Rightarrow> string) \<Rightarrow> json_decoders \<Rightarrow> bool \<Rightarrow> (memory_event \<Rightarrow> string option) \<Rightarrow> bool \<Rightarrow> gotime \<Rightarrow> long_term \<Rightarrow>
     memory_event \<Rightarrow> memory_action list option" where
  "llmDecide lower jd configured reply ctxDone now ltm event0 =
     (if \<not> configured then ruleDecide lower ctxDone event0
      else if ctxDone then None
      else (let event = withExistingMemories now ltm (normalizeMemoryEvent event0)
            in case reply event of
                 None \<Rightarrow> ruleDecide lower False event
               | Some content \<Rightarrow>
                   (case parseMemoryDecisionJSON jd content of
                      None \<Rightarrow> ruleDecide lower False event
                    | Some actions \<Rightarrow> Some (sanitizeMemoryDecision lower event (Some actions)))))"

subsection \<open>The applier\<close>

record apply_state =
  as_ltm :: long_term
  as_changes :: "pending_changes list"
  as_report :: extraction_report

definition newMemoryAuditRecord ::
  "memory_env \<Rightarrow> gotime \<Rightarrow> string \<Rightarrow> memory_action \<Rightarrow> memory_event \<Rightarrow> memory_entry option \<Rightarrow> memory_entry option \<Rightarrow> audit_record" where
  "newMemoryAuditRecord env now memoryID action event before after =
     \<lparr>au_ID = mv_hash8 env (memoryID @ '':'' @ ma_Op action @ '':'' @ ma_Reason action @ '':'' @ itoa (unix_milli now)),
      au_MemoryID = memoryID, au_Op = ma_Op action, au_Reason = ma_Reason action, au_TraceID = ev_TraceID event,
      au_Actor = ''memory_agent'', au_Before = before, au_After = after, au_CreatedAt = unix_milli now\<rparr>"

definition addAudit :: "audit_record \<Rightarrow> extraction_report \<Rightarrow> extraction_report" where
  "addAudit a r = r\<lparr>er_AuditRecords := er_AuditRecords r @ [a]\<rparr>"

definition addDropped :: "memory_candidate option \<Rightarrow> string \<Rightarrow> extraction_report \<Rightarrow> extraction_report" where
  "addDropped c reason r = r\<lparr>er_Dropped := er_Dropped r @ [(c, reason)]\<rparr>"

definition addCandidate :: "memory_candidate \<Rightarrow> extraction_report \<Rightarrow> extraction_report" where
  "addCandidate c r = r\<lparr>er_Candidates := er_Candidates r @ [c]\<rparr>"

definition candidateFromAction :: "memory_action \<Rightarrow> memory_candidate" where
  "candidateFromAction action =
     \<lparr>mc_Type = ma_Type action, mc_Content = ma_Content action, mc_Source = ''memory_agent'', mc_Scope = ma_Scope action,
      mc_ScopeID = ma_ScopeID action, mc_Confidence = ma_Confidence action, mc_SafetyLabel = ''internal'',
      mc_Provenance = ''memory_agent''\<rparr>"

definition actionScopeID :: "memory_event \<Rightarrow> memory_action \<Rightarrow> string \<Rightarrow> string" where
  "actionScopeID event action scope =
     (if trim_space (ma_ScopeID action) = [] then defaultActionScopeID event scope else ma_ScopeID action)"

definition applyUpsert ::
  "memory_env \<Rightarrow> gotime \<Rightarrow> memory_event \<Rightarrow> memory_action \<Rightarrow> apply_state \<Rightarrow> apply_state option" where
  "applyUpsert env now event action st =
     (let candidate = candidateFromAction action;
          report = addCandidate candidate (as_report st);
          (valid, reason) = ValidateMemoryCandidate (mv_lower env) candidate
      in if \<not> valid then Some (st\<lparr>as_report := addDropped (Some candidate) reason report\<rparr>)
         else (let scope = (if ma_Scope action = [] then mc_Scope candidate else ma_Scope action)
               in case StoreWithOptions env now (ev_SessionID event) (mc_Type candidate) (mc_Content candidate)
                         (mc_Source candidate)
                         \<lparr>so_Scope = scope, so_ScopeID = actionScopeID event action scope,
                          so_Confidence = ma_Confidence action, so_SafetyLabel = mc_SafetyLabel candidate,
                          so_Provenance = mc_Provenance candidate,
                          so_ConflictGroup = trim_space (ma_ConflictGroup action),
                          so_ExpiresAt = ma_ExpiresAt action\<rparr> (as_ltm st) of
                    None \<Rightarrow> None
                  | Some (eid, ch, ltm) \<Rightarrow>
                      Some \<lparr>as_ltm = ltm, as_changes = as_changes st @ [ch],
                            as_report = addAudit (newMemoryAuditRecord env now eid action event None (Mem_LongTerm.Get now eid ltm))
                              (report\<lparr>er_StoredIDs := er_StoredIDs report @ [eid]\<rparr>)\<rparr>))"

definition applySupersede ::
  "memory_env \<Rightarrow> gotime \<Rightarrow> memory_event \<Rightarrow> memory_action \<Rightarrow> apply_state \<Rightarrow> apply_state option" where
  "applySupersede env now event action st =
     (let candidate = candidateFromAction action;
          (valid, reason) = ValidateMemoryCandidate (mv_lower env) candidate;
          target = ma_TargetID action
      in if \<not> valid then Some (st\<lparr>as_report := addDropped (Some candidate) reason (addCandidate candidate (as_report st))\<rparr>)
         else if trim_space target = [] then applyUpsert env now event action st
         else (let before = Mem_LongTerm.Get now target (as_ltm st);
                   (b, ch, ltm) = Disable now target (as_ltm st)
               in case applyUpsert env now event action (st\<lparr>as_ltm := ltm, as_changes := as_changes st @ [ch]\<rparr>) of
                    None \<Rightarrow> None
                  | Some st1 \<Rightarrow>
                      Some (st1\<lparr>as_report := addAudit (newMemoryAuditRecord env now target action event before
                                   (Mem_LongTerm.Get now target (as_ltm st1))) (as_report st1)\<rparr>)))"

definition applyPromote ::
  "memory_env \<Rightarrow> gotime \<Rightarrow> memory_event \<Rightarrow> memory_action \<Rightarrow> apply_state \<Rightarrow> apply_state" where
  "applyPromote env now event action st =
     (let target = ma_TargetID action
      in if trim_space target = [] then st\<lparr>as_report := addDropped None ''missing_target'' (as_report st)\<rparr>
         else (let before = Mem_LongTerm.Get now target (as_ltm st);
                   scope = (if ma_Scope action = [] then MemoryScopeProject else ma_Scope action);
                   (promoted1, ch, ltm) = Promote now target scope (actionScopeID event action scope) (ma_Confidence action) (as_ltm st)
               in if \<not> promoted1 then st\<lparr>as_report := addDropped None ''target_not_found'' (as_report st)\<rparr>
                  else \<lparr>as_ltm = ltm, as_changes = as_changes st @ [ch],
                        as_report = addAudit (newMemoryAuditRecord env now target action event before
                          (Mem_LongTerm.Get now target ltm)) (as_report st)\<rparr>))"

definition applyAction ::
  "memory_env \<Rightarrow> gotime \<Rightarrow> memory_event \<Rightarrow> memory_action \<Rightarrow> apply_state \<Rightarrow> apply_state option" where
  "applyAction env now event action st0 =
     (let st = st0\<lparr>as_report := (as_report st0)\<lparr>er_Actions := er_Actions (as_report st0) @ [action]\<rparr>\<rparr>
      in if ma_Op action = MemoryActionSkip
         then Some (st\<lparr>as_report := addAudit (newMemoryAuditRecord env now [] action event None None) (as_report st)\<rparr>)
         else if ma_Op action = MemoryActionUpsert then applyUpsert env now event action st
         else if ma_Op action = MemoryActionSupersede then applySupersede env now event action st
         else if ma_Op action = MemoryActionPromote then Some (applyPromote env now event action st)
         else Some (st\<lparr>as_report := addDropped None ''unsupported_action'' (as_report st)\<rparr>))"

text \<open>The loop of \<open>Apply\<close>: \<open>cancelled n\<close> is whether the context is done when \<open>n\<close> actions are left.\<close>

fun applyActions ::
  "memory_env \<Rightarrow> (nat \<Rightarrow> bool) \<Rightarrow> gotime \<Rightarrow> memory_event \<Rightarrow> memory_action list \<Rightarrow> apply_state \<Rightarrow> apply_state option" where
  "applyActions env cancelled now event [] st = Some st"
| "applyActions env cancelled now event (action # actions) st =
     (if cancelled (length (action # actions)) then Some st
      else (case applyAction env now event action st of
              None \<Rightarrow> None
            | Some st1 \<Rightarrow> applyActions env cancelled now event actions st1))"

definition Apply ::
  "memory_env \<Rightarrow> (nat \<Rightarrow> bool) \<Rightarrow> gotime \<Rightarrow> memory_event \<Rightarrow> memory_action list option \<Rightarrow> long_term \<Rightarrow> apply_state option" where
  "Apply env cancelled now event decision ltm =
     (let st = \<lparr>as_ltm = ltm, as_changes = [], as_report = emptyReport\<rparr>
      in case decision of
           None \<Rightarrow> Some st
         | Some actions \<Rightarrow> applyActions env cancelled now (normalizeMemoryEvent event) actions st)"

text \<open>\<open>ProcessMemoryEventWithAgent\<close>; \<open>decide\<close> is the agent, whose error is \<open>None\<close>, and \<open>failure\<close> the text of its
  error. A context that ends while the agent decides does not stop the applier.\<close>

definition ProcessMemoryEventWithAgent ::
  "memory_env \<Rightarrow> bool \<Rightarrow> (nat \<Rightarrow> bool) \<Rightarrow> gotime \<Rightarrow> (memory_event \<Rightarrow> memory_action list option) \<Rightarrow> string \<Rightarrow>
     memory_event \<Rightarrow> long_term \<Rightarrow> apply_state option" where
  "ProcessMemoryEventWithAgent env ctxDone cancelled now decide failure event0 ltm =
     (let st = \<lparr>as_ltm = ltm, as_changes = [], as_report = emptyReport\<rparr>;
          event = withExistingMemories now ltm (normalizeMemoryEvent event0)
      in if ctxDone then Some st
         else (case decide event of
                 None \<Rightarrow> Some (st\<lparr>as_report := addDropped None failure emptyReport\<rparr>)
               | Some actions \<Rightarrow> Apply env cancelled now event (Some actions) ltm))"

text \<open>\<open>doneLater\<close> is whether the context has ended by the time the rule agent looks at it.\<close>

definition ProcessMemoryEventWithReport ::
  "memory_env \<Rightarrow> bool \<Rightarrow> bool \<Rightarrow> (nat \<Rightarrow> bool) \<Rightarrow> gotime \<Rightarrow> string \<Rightarrow> memory_event \<Rightarrow> long_term \<Rightarrow> apply_state option" where
  "ProcessMemoryEventWithReport env ctxDone doneLater cancelled now failure event ltm =
     ProcessMemoryEventWithAgent env ctxDone cancelled now (ruleDecide (mv_lower env) doneLater) failure event ltm"

definition ExtractMemoriesWithReport ::
  "memory_env \<Rightarrow> bool \<Rightarrow> bool \<Rightarrow> (nat \<Rightarrow> bool) \<Rightarrow> gotime \<Rightarrow> string \<Rightarrow> string \<Rightarrow> string \<Rightarrow> string \<Rightarrow> long_term \<Rightarrow> apply_state option" where
  "ExtractMemoriesWithReport env ctxDone doneLater cancelled now failure sessionID userMsg assistantMsg ltm =
     ProcessMemoryEventWithReport env ctxDone doneLater cancelled now failure
       \<lparr>ev_SessionID = sessionID, ev_UserID = [], ev_ProjectID = [], ev_Query = userMsg, ev_Answer = assistantMsg,
        ev_TraceID = [], ev_ExistingMemories = []\<rparr> ltm"

end
