(* ===== verification/Mem_Agent_Properties.thy ===== *)
theory Mem_Agent_Properties
  imports Mem_Agent Mem_LongTerm_Properties
begin

text \<open>
  What enters the long-term memory: only texts that pass the validation, from the rule agent only the user's own
  words, and from a model only decisions that are well formed after cleaning.
\<close>

definition contentsOf :: "long_term \<Rightarrow> string set" where
  "contentsOf ltm = {c. \<exists>k e. gm_get (lt_entries ltm) k = Some e \<and> c = me_Content e}"

lemma contents_fields [simp]:
  "me_Content (retiredIn now k t opts k' e) = me_Content e" "me_Content (reinforced now opts e) = me_Content e"
  "me_Content (promoted now sc sid c e) = me_Content e" "me_Content (newEntry now k s t cc src opts) = cc"
  by (simp_all add: retiredIn_def retired_def reinforced_def promoted_def newEntry_def Let_def)

lemma contents_put_same:
  "gm_get (lt_entries ltm) k = Some e0 \<Longrightarrow> me_Content e = me_Content e0 \<Longrightarrow>
     contentsOf (ltm\<lparr>lt_entries := gm_put k e (lt_entries ltm)\<rparr>) \<subseteq> contentsOf ltm"
  by (force simp: contentsOf_def gm_get_put split: if_splits)

lemma write_contents:
  "gm_get (lt_entries ltm) k = Some e0 \<Longrightarrow> me_Content e = me_Content e0 \<Longrightarrow> writeEntry k e ltm = (b, ch, ltm') \<Longrightarrow>
     contentsOf ltm' \<subseteq> contentsOf ltm"
  using contents_put_same by (fastforce simp: writeEntry_def)

lemma disable_contents: "Disable now k ltm = (b, ch, ltm') \<Longrightarrow> contentsOf ltm' \<subseteq> contentsOf ltm"
  unfolding Disable_def by (auto split: option.splits dest!: write_contents [rotated 2])

lemma promote_contents: "Promote now k sc sid c ltm = (b, ch, ltm') \<Longrightarrow> contentsOf ltm' \<subseteq> contentsOf ltm"
  unfolding Promote_def by (auto split: option.splits dest!: write_contents [rotated 2])

lemma store_contents:
  assumes i: "ltm_inv ltm" and env: "env_ok env" and st: "StoreWithOptions env now s t c src opts0 ltm = Some (k', ch, ltm')"
  shows "contentsOf ltm' \<subseteq> insert c (contentsOf ltm)"
proof
  fix x assume x: "x \<in> contentsOf ltm'"
  define opts where "opts = normalizeMemoryStoreOptions s t src opts0"
  define k where "k = generateMemoryID (mv_hash8 env) (so_Scope opts) (so_ScopeID opts) c"
  show "x \<in> insert c (contentsOf ltm)"
  proof (cases "gm_get (lt_entries ltm) k")
    case (Some ex)
    have "lt_entries ltm' = gm_map (retiredIn now k t opts) (gm_put k (reinforced now opts ex) (lt_entries ltm))"
      using st Some retire_entries [of now k t opts "gm_put k (reinforced now opts ex) (lt_entries ltm)"]
      by (auto simp: StoreWithOptions_def Let_def opts_def [symmetric] k_def [symmetric] split: prod.splits)
    then have "gm_get (lt_entries ltm') k2 = Some e2 \<Longrightarrow> \<exists>k3 e3. gm_get (lt_entries ltm) k3 = Some e3 \<and> me_Content e2 = me_Content e3" for k2 e2
      using Some by (cases "k2 = k") (simp_all add: gm_get_map gm_get_put, force+)
    with x show ?thesis unfolding contentsOf_def by blast
  next
    case None
    from evict_facts [OF i, of "mv_limits env" now s] env obtain ev m where
      m: "evictIfNeededLocked (mv_limits env) now s ltm = Some (ev, m)" "evicts ltm (ev, m)"
      by (auto simp: env_ok_def)
    have "lt_entries ltm' = gm_put k (newEntry now k s t c src opts) (gm_map (retiredIn now k t opts) (lt_entries m))"
      using st None m(1) retire_entries [of now k t opts "lt_entries m"]
      by (auto simp: StoreWithOptions_def Let_def opts_def [symmetric] k_def [symmetric] split: prod.splits)
    moreover have "gm_get (lt_entries m) k2 = Some e \<Longrightarrow> gm_get (lt_entries ltm) k2 = Some e" for k2 e
      using m(2) by (auto simp: evicts_def split: if_splits)
    ultimately have "gm_get (lt_entries ltm') k2 = Some e2 \<Longrightarrow>
        me_Content e2 = c \<or> (\<exists>k3 e3. gm_get (lt_entries ltm) k3 = Some e3 \<and> me_Content e2 = me_Content e3)" for k2 e2
      by (cases "k2 = k") (simp_all add: gm_get_map gm_get_put, force+)
    with x show ?thesis unfolding contentsOf_def by blast
  qed
qed

subsection \<open>Applying a decision\<close>

text \<open>The memory after some actions: sound, and its texts are old ones or validated texts of the actions.\<close>

definition applied :: "memory_env \<Rightarrow> memory_action list \<Rightarrow> long_term \<Rightarrow> long_term \<Rightarrow> bool" where
  "applied env actions ltm ltm' \<longleftrightarrow>
     ltm_inv ltm' \<and> (withinLimits (mv_limits env) ltm \<longrightarrow> withinLimits (mv_limits env) ltm') \<and>
     contentsOf ltm' \<subseteq> contentsOf ltm \<union>
       {ma_Content a | a. a \<in> set actions \<and> fst (validateContent (mv_lower env) (ma_Content a))}"

lemma applied_refl: "ltm_inv ltm \<Longrightarrow> applied env actions ltm ltm"
  by (auto simp: applied_def)

lemma upsert_applied:
  assumes i: "ltm_inv (as_ltm st)" and env: "env_ok env"
  shows "\<exists>st'. applyUpsert env now event action st = Some st' \<and> applied env [action] (as_ltm st) (as_ltm st')"
proof -
  let ?c = "candidateFromAction action"
  obtain valid reason where v: "ValidateMemoryCandidate (mv_lower env) ?c = (valid, reason)" by fastforce
  show ?thesis
  proof (cases valid)
    case False
    then show ?thesis using v applied_refl [OF i] by (simp add: applyUpsert_def Let_def)
  next
    case True
    let ?scope = "if ma_Scope action = [] then mc_Scope ?c else ma_Scope action"
    let ?o = "\<lparr>so_Scope = ?scope, so_ScopeID = actionScopeID event action ?scope, so_Confidence = ma_Confidence action,
       so_SafetyLabel = mc_SafetyLabel ?c, so_Provenance = mc_Provenance ?c,
       so_ConflictGroup = trim_space (ma_ConflictGroup action), so_ExpiresAt = ma_ExpiresAt action\<rparr>"
    from store_facts [OF i env, of now "ev_SessionID event" "mc_Type ?c" "mc_Content ?c" "mc_Source ?c" ?o]
    obtain k ch ltm' where s: "StoreWithOptions env now (ev_SessionID event) (mc_Type ?c) (mc_Content ?c) (mc_Source ?c) ?o
        (as_ltm st) = Some (k, ch, ltm')" "good_step (as_ltm st) (ch, ltm')"
        "withinLimits (mv_limits env) (as_ltm st) \<longrightarrow> withinLimits (mv_limits env) ltm'"
      by blast
    have "contentsOf ltm' \<subseteq> insert (ma_Content action) (contentsOf (as_ltm st))"
      using store_contents [OF i env s(1)] by (simp add: candidateFromAction_def)
    moreover have "fst (validateContent (mv_lower env) (ma_Content action))"
      using v True by (simp add: ValidateMemoryCandidate_def candidateFromAction_def)
    ultimately have "applied env [action] (as_ltm st) ltm'"
      using s(2,3) by (auto simp: applied_def good_step_def)
    moreover have "\<exists>st'. applyUpsert env now event action st = Some st' \<and> as_ltm st' = ltm'"
      using v True s(1) by (simp add: applyUpsert_def Let_def)
    ultimately show ?thesis by blast
  qed
qed

lemma applied_trans:
  "applied env as ltm ltm1 \<Longrightarrow> applied env bs ltm1 ltm2 \<Longrightarrow> set as \<subseteq> A \<Longrightarrow> set bs \<subseteq> A \<Longrightarrow> set cs = A \<Longrightarrow> applied env cs ltm ltm2"
  unfolding applied_def by blast

lemma action_applied:
  assumes i: "ltm_inv (as_ltm st)" and env: "env_ok env"
  shows "\<exists>st'. applyAction env now event action st = Some st' \<and> applied env [action] (as_ltm st) (as_ltm st')"
proof -
  let ?st = "st\<lparr>as_report := (as_report st)\<lparr>er_Actions := er_Actions (as_report st) @ [action]\<rparr>\<rparr>"
  have i': "ltm_inv (as_ltm ?st)" using i by simp
  note up = upsert_applied [OF i' env, of now event action]
  have sup: "\<exists>st'. applySupersede env now event action ?st = Some st' \<and> applied env [action] (as_ltm ?st) (as_ltm st')"
  proof -
    obtain valid reason where v: "ValidateMemoryCandidate (mv_lower env) (candidateFromAction action) = (valid, reason)" by fastforce
    consider "\<not> valid" | "valid" "trim_space (ma_TargetID action) = []" | "valid" "trim_space (ma_TargetID action) \<noteq> []" by blast
    then show ?thesis
    proof cases
      case 1
      then show ?thesis using v applied_refl [OF i] by (simp add: applySupersede_def Let_def)
    next
      case 2
      then show ?thesis using v up by (simp add: applySupersede_def Let_def)
    next
      case 3
      obtain b ch ltm where d: "Disable now (ma_TargetID action) (as_ltm ?st) = (b, ch, ltm)" by (metis prod_cases3)
      note df = disable_facts [OF i' d]
      have il: "ltm_inv ltm" using df by (simp add: good_step_def)
      have a1: "applied env [action] (as_ltm ?st) ltm"
        using df disable_contents [OF d] by (auto simp: applied_def good_step_def withinLimits_def)
      let ?st1 = "?st\<lparr>as_ltm := ltm, as_changes := as_changes ?st @ [ch]\<rparr>"
      from upsert_applied [of ?st1, OF _ env, of now event action] il obtain st2 where
        st2: "applyUpsert env now event action ?st1 = Some st2" "applied env [action] ltm (as_ltm st2)" by auto
      then show ?thesis
        using v 3 d applied_trans [OF a1 st2(2), of "{action}"] by (simp add: applySupersede_def Let_def)
    qed
  qed
  have pro: "applied env [action] (as_ltm ?st) (as_ltm (applyPromote env now event action ?st))"
  proof -
    let ?scope = "if ma_Scope action = [] then MemoryScopeProject else ma_Scope action"
    obtain b ch ltm where d: "Promote now (ma_TargetID action) ?scope (actionScopeID event action ?scope)
        (ma_Confidence action) (as_ltm ?st) = (b, ch, ltm)" by (metis prod_cases3)
    have "applied env [action] (as_ltm ?st) ltm"
      using promote_facts [OF i' d] promote_contents [OF d] by (auto simp: applied_def good_step_def withinLimits_def)
    then show ?thesis using d applied_refl [OF i'] by (simp add: applyPromote_def Let_def)
  qed
  show ?thesis
    using up sup pro applied_refl [OF i] by (simp add: applyAction_def Let_def)
qed

lemma actions_applied:
  "ltm_inv (as_ltm st) \<Longrightarrow> env_ok env \<Longrightarrow>
     \<exists>st'. applyActions env cancelled now event actions st = Some st' \<and> applied env actions (as_ltm st) (as_ltm st')"
proof (induction actions arbitrary: st)
  case (Cons a as)
  from action_applied [OF Cons.prems, of now event a] obtain st1 where
    s1: "applyAction env now event a st = Some st1" "applied env [a] (as_ltm st) (as_ltm st1)" by blast
  have "ltm_inv (as_ltm st1)" using s1(2) by (simp add: applied_def)
  from Cons.IH [OF this Cons.prems(2)] obtain st2 where
    s2: "applyActions env cancelled now event as st1 = Some st2" "applied env as (as_ltm st1) (as_ltm st2)" by blast
  show ?case
    using s1 s2 applied_trans [OF s1(2) s2(2), of "set (a # as)" "a # as"] applied_refl [OF Cons.prems(1)] by auto
qed (simp add: applied_refl)

lemma apply_applied:
  assumes "ltm_inv ltm" "env_ok env"
  shows "\<exists>st. Apply env cancelled now event decision ltm = Some st \<and>
    applied env (case decision of None \<Rightarrow> [] | Some as \<Rightarrow> as) ltm (as_ltm st)"
proof (cases decision)
  case None
  then show ?thesis using applied_refl [OF assms(1)] by (simp add: Apply_def)
next
  case (Some as)
  from actions_applied [of "\<lparr>as_ltm = ltm, as_changes = [], as_report = emptyReport\<rparr>" env, OF _ assms(2),
      of cancelled now "normalizeMemoryEvent event" as] assms(1)
  show ?thesis by (simp add: Some Apply_def)
qed

text \<open>C7: Whatever decision an agent hands over, applying it returns, leaves the memory sound and within its limits,
  and if all the texts in the memory were fit to be kept they still are: between 4 and 500 bytes without the
  space around them, and none, in lower case, has a sign of a password, key or token.\<close>

theorem memories_validated:
  assumes "ltm_inv ltm" "env_ok env" "withinLimits (mv_limits env) ltm"
    and "\<And>c. c \<in> contentsOf ltm \<Longrightarrow> fst (validateContent (mv_lower env) c)"
  shows "\<exists>st. Apply env cancelled now event decision ltm = Some st \<and> ltm_inv (as_ltm st) \<and>
    withinLimits (mv_limits env) (as_ltm st) \<and>
    (\<forall>c \<in> contentsOf (as_ltm st). 4 \<le> length (trim_space c) \<and> length (trim_space c) \<le> 500 \<and>
       (\<forall>m \<in> set secretMarkers. \<not> contains m (mv_lower env (trim_space c))))"
proof -
  from apply_applied [OF assms(1,2)] obtain st where
    st: "Apply env cancelled now event decision ltm = Some st"
      "applied env (case decision of None \<Rightarrow> [] | Some as \<Rightarrow> as) ltm (as_ltm st)" by blast
  have "fst (validateContent (mv_lower env) c)" if "c \<in> contentsOf (as_ltm st)" for c
    using that st(2) assms(4) unfolding applied_def by blast
  then show ?thesis
    using st assms(3) validate_length validate_secrets unfolding applied_def by blast
qed

theorem memories_validated_witness:
  "\<exists>st. Apply demo_env (\<lambda>_. False) 0
      \<lparr>ev_SessionID = ''s'', ev_UserID = [], ev_ProjectID = [], ev_Query = [], ev_Answer = [], ev_TraceID = [], ev_ExistingMemories = []\<rparr>
      (Some [(bareAction MemoryActionUpsert [])\<lparr>ma_Content := ''password: x''\<rparr>]) emptyMemory = Some st \<and>
    (\<forall>c \<in> contentsOf (as_ltm st). \<forall>m \<in> set secretMarkers. \<not> contains m (mv_lower demo_env (trim_space c)))"
  using memories_validated [OF emptyMemory_ok(1) demo_env_ok emptyMemory_ok(2) [OF demo_env_ok]]
  by (force simp: contentsOf_def emptyMemory_def)

lemma ruleActions_content:
  "a \<in> set (ruleActions lower event) \<Longrightarrow> ma_Op a = MemoryActionUpsert \<Longrightarrow> contains (ma_Content a) (ev_Query event)"
proof -
  assume a: "a \<in> set (ruleActions lower event)" "ma_Op a = MemoryActionUpsert"
  then obtain c where c: "c \<in> set (ExtractMemoryCandidates lower (ev_Query event) (ev_Answer event))"
      "ma_Content a = mc_Content c"
    by (auto simp: ruleActions_def Let_def bareAction_def candidateAction_def split: if_splits)
  then have "mc_Content c \<in> set (extractFacts lower (ev_Query event) (ev_Answer event)) \<union> set (extractPreferences (ev_Query event))"
    by (auto simp: ExtractMemoryCandidates_def factCandidate_def prefCandidate_def)
  then obtain s where "s \<in> set (splitSentences (ev_Query event))" "mc_Content c = trim_space s"
    by (auto simp: extractFacts_in extractPreferences_in)
  then show ?thesis
    using c(2) splitSentences_contains contains_trans [OF contains_trim] by metis
qed

lemma ruleActions_ops:
  "a \<in> set (ruleActions lower event) \<Longrightarrow>
     ma_Op a = MemoryActionUpsert \<or> (ma_Op a = MemoryActionSkip \<and> ma_Content a = [])"
  by (auto simp: ruleActions_def Let_def bareAction_def candidateAction_def split: if_splits)

text \<open>The rule agent stores nothing but the user's words: every text in the memory after an event has been
  processed was there before or is a passage of the user's message that passes the validation. The assistant's
  answer contributes nothing.\<close>

theorem only_user_words:
  assumes "ltm_inv ltm" "env_ok env"
  shows "\<exists>st. ProcessMemoryEventWithReport env ctxDone doneLater cancelled now failure event ltm = Some st \<and>
    (\<forall>c \<in> contentsOf (as_ltm st). c \<in> contentsOf ltm \<or>
       (contains c (ev_Query event) \<and> fst (validateContent (mv_lower env) c)))"
proof -
  let ?ev = "withExistingMemories now ltm (normalizeMemoryEvent event)"
  have q: "ev_Query ?ev = trim_space (ev_Query event)"
    by (simp add: withExistingMemories_def normalizeMemoryEvent_def)
  have empty: "\<not> fst (validateContent (mv_lower env) [])"
  proof -
    have "trim_space [] = []" by code_simp
    then show ?thesis by (simp add: validateContent_def Let_def)
  qed
  show ?thesis
  proof (cases "ctxDone \<or> doneLater")
    case True
    then show ?thesis
      by (auto simp: ProcessMemoryEventWithReport_def ProcessMemoryEventWithAgent_def ruleDecide_def Let_def)
  next
    case False
    let ?as = "ruleActions (mv_lower env) ?ev"
    have p: "ProcessMemoryEventWithReport env ctxDone doneLater cancelled now failure event ltm =
        Apply env cancelled now ?ev (Some ?as) ltm"
      using False by (simp add: ProcessMemoryEventWithReport_def ProcessMemoryEventWithAgent_def ruleDecide_def Let_def)
    from apply_applied [OF assms] obtain st where
      st: "Apply env cancelled now ?ev (Some ?as) ltm = Some st" "applied env ?as ltm (as_ltm st)" by force
    have "c \<in> contentsOf ltm \<or> (contains c (ev_Query event) \<and> fst (validateContent (mv_lower env) c))"
      if "c \<in> contentsOf (as_ltm st)" for c
    proof -
      from that st(2) have "c \<in> contentsOf ltm \<or> (\<exists>a \<in> set ?as. c = ma_Content a \<and> fst (validateContent (mv_lower env) c))"
        unfolding applied_def by blast
      then show ?thesis
        using ruleActions_ops ruleActions_content empty contains_trans [OF _ contains_trim] unfolding q [symmetric]
        by (metis q)
    qed
    then show ?thesis using p st(1) by auto
  qed
qed

theorem only_user_words_witness:
  "\<exists>st. ProcessMemoryEventWithReport demo_env False False (\<lambda>_. False) 0 []
      \<lparr>ev_SessionID = ''s'', ev_UserID = [], ev_ProjectID = [], ev_Query = ''SLA is 99'', ev_Answer = ''SLA is 95'', ev_TraceID = [],
       ev_ExistingMemories = []\<rparr> emptyMemory = Some st \<and>
    (\<forall>c \<in> contentsOf (as_ltm st). contains c ''SLA is 99'')"
  using only_user_words [OF emptyMemory_ok(1) demo_env_ok, of False False "\<lambda>_. False" 0 "[]"
      "\<lparr>ev_SessionID = ''s'', ev_UserID = [], ev_ProjectID = [], ev_Query = ''SLA is 99'', ev_Answer = ''SLA is 95'', ev_TraceID = [],
       ev_ExistingMemories = []\<rparr>"]
  by (auto simp: contentsOf_def emptyMemory_def)

subsection \<open>Decisions of a model\<close>

definition cleanAction :: "memory_action \<Rightarrow> bool" where
  "cleanAction a \<longleftrightarrow>
     ma_Op a = MemoryActionSkip \<or>
     (ma_Op a \<in> {MemoryActionUpsert, MemoryActionSupersede, MemoryActionPromote} \<and>
      ma_Type a \<in> {MemoryTypeFact, MemoryTypePreference, MemoryTypeProcedure, MemoryTypeEpisode} \<and>
      ma_Scope a \<in> {MemoryScopeSession, MemoryScopeUser, MemoryScopeProject, MemoryScopeGlobal} \<and>
      0 < ma_Confidence a \<and> ma_Confidence a \<le> 1 \<and>
      (ma_Op a = MemoryActionSupersede \<longrightarrow> ma_TargetID a \<noteq> []) \<and>
      (ma_Op a \<noteq> MemoryActionPromote \<longrightarrow> ma_Type a \<in> {MemoryTypeFact, MemoryTypePreference} \<longrightarrow> ma_ConflictGroup a \<noteq> []))"

lemma default_confidence: "0 < defaultMemoryConfidence t \<and> defaultMemoryConfidence t \<le> 1"
proof -
  have "0 < rnd (85 / 100)" "0 < rnd (75 / 100)" "0 < rnd (70 / 100)" "0 < rnd (50 / 100)" by code_simp+
  moreover have "rnd (85 / 100) \<le> 1" "rnd (75 / 100) \<le> 1" "rnd (70 / 100) \<le> 1" "rnd (50 / 100) \<le> 1"
    by (simp_all add: rnd_le_1)
  ultimately show ?thesis unfolding defaultMemoryConfidence_def by (simp only: split: if_split) blast
qed

lemma sanitize_clean: "ma_Op (sanitizeMemoryAction lower event a) \<noteq> [] \<Longrightarrow> cleanAction (sanitizeMemoryAction lower event a)"
proof -
  assume ne: "ma_Op (sanitizeMemoryAction lower event a) \<noteq> []"
  let ?op = "normalizeMemoryActionOp (ma_Op a)"
  have ops: "?op = [] \<or> ?op = MemoryActionSkip \<or> ?op = MemoryActionUpsert \<or> ?op = MemoryActionSupersede \<or> ?op = MemoryActionPromote"
    unfolding normalizeMemoryActionOp_def by (simp only: split: if_split) blast
  have conf: "0 < (if c0 > 1 then 1 else c0) \<and> (if c0 > 1 then 1 else c0) \<le> (1 :: f64)"
    if "c0 = (if ma_Confidence a \<le> 0 then defaultMemoryConfidence t else ma_Confidence a)" for c0 t
    using that default_confidence [of t] by auto
  have types: "normalizeMemoryType (ma_Type a) \<in> {MemoryTypeFact, MemoryTypePreference, MemoryTypeProcedure, MemoryTypeEpisode}"
    unfolding normalizeMemoryType_def by (simp only: split: if_split) blast
  have scopes: "normalizeMemoryScope (ma_Scope a) ?op \<in> {MemoryScopeSession, MemoryScopeUser, MemoryScopeProject, MemoryScopeGlobal}"
    unfolding normalizeMemoryScope_def by (simp only: split: if_split) blast
  have group: "inferMemoryConflictGroup lower t c \<noteq> []" if "t \<in> {MemoryTypeFact, MemoryTypePreference}" for t c
    using that by (auto simp: inferMemoryConflictGroup_def Let_def)
  show ?thesis
  proof (cases "?op = MemoryActionSkip")
    case True
    then show ?thesis by (simp add: sanitizeMemoryAction_def Let_def cleanAction_def bareAction_def)
  next
    case False
    have f: "ma_Op (sanitizeMemoryAction lower event a) =
          (if ?op = MemoryActionSupersede \<and> trim_space (ma_TargetID a) = [] then MemoryActionUpsert else ?op)"
        "ma_TargetID (sanitizeMemoryAction lower event a) = trim_space (ma_TargetID a)"
        "ma_Type (sanitizeMemoryAction lower event a) = normalizeMemoryType (ma_Type a)"
        "ma_Scope (sanitizeMemoryAction lower event a) = normalizeMemoryScope (ma_Scope a) ?op"
      using False by (simp_all add: sanitizeMemoryAction_def Let_def)
    have fc: "0 < ma_Confidence (sanitizeMemoryAction lower event a) \<and> ma_Confidence (sanitizeMemoryAction lower event a) \<le> 1"
      using False conf [OF refl, of "normalizeMemoryType (ma_Type a)"] by (simp add: sanitizeMemoryAction_def Let_def)
    have fg: "ma_ConflictGroup (sanitizeMemoryAction lower event a) \<noteq> []"
      if "ma_Op (sanitizeMemoryAction lower event a) \<in> {MemoryActionUpsert, MemoryActionSupersede}"
        "normalizeMemoryType (ma_Type a) \<in> {MemoryTypeFact, MemoryTypePreference}"
      using False that group [OF that(2)] unfolding sanitizeMemoryAction_def Let_def by simp
    have o: "ma_Op (sanitizeMemoryAction lower event a) \<in> {MemoryActionUpsert, MemoryActionSupersede, MemoryActionPromote}"
      using ops False ne unfolding f(1) by (simp split: if_splits)
    have t: "ma_Op (sanitizeMemoryAction lower event a) = MemoryActionSupersede \<Longrightarrow> trim_space (ma_TargetID a) \<noteq> []"
      unfolding f(1) by (simp split: if_splits)
    show ?thesis
      unfolding cleanAction_def f(2-4) using fc fg o t types scopes by blast
  qed
qed

lemma skip_clean: "cleanAction (bareAction MemoryActionSkip r)"
  by (simp add: cleanAction_def bareAction_def)

lemma kept_actions:
  assumes "a \<in> set (filter (\<lambda>a. \<not> (ma_Op a = [] \<or> (ma_Op a = MemoryActionSkip \<and> n > 1)))
      (map (sanitizeMemoryAction lower event) raw))"
  shows "cleanAction a" and "ma_Op a = MemoryActionSkip \<Longrightarrow> \<not> n > (1 :: nat)"
proof -
  obtain b where b: "a = sanitizeMemoryAction lower event b" using assms by auto
  have "ma_Op a \<noteq> []" using assms by (simp only: set_filter mem_Collect_eq) blast
  then show "cleanAction a" unfolding b by (rule sanitize_clean)
  show "ma_Op a = MemoryActionSkip \<Longrightarrow> \<not> n > (1 :: nat)"
    using assms by (simp only: set_filter mem_Collect_eq) blast
qed

text \<open>After cleaning, a model's decision is well formed: it has at least one action; a skip appears only alone;
  every other action is an upsert, a supersede that names its target or a promotion, with a known type and scope
  and a confidence above 0 and at most 1, and facts and preferences have a conflict group.\<close>

theorem sanitized_decision:
  "sanitizeMemoryDecision lower event decision \<noteq> [] \<and>
   (\<forall>a \<in> set (sanitizeMemoryDecision lower event decision). cleanAction a) \<and>
   ((\<exists>a \<in> set (sanitizeMemoryDecision lower event decision). ma_Op a = MemoryActionSkip) \<longrightarrow>
      length (sanitizeMemoryDecision lower event decision) = 1)"
proof (cases decision)
  case None
  have "sanitizeMemoryDecision lower event decision = [bareAction MemoryActionSkip ''empty llm memory decision'']"
    unfolding None sanitizeMemoryDecision_def by (simp only: option.case)
  then show ?thesis using skip_clean by simp
next
  case (Some raw)
  define as where "as = filter (\<lambda>a. \<not> (ma_Op a = [] \<or> (ma_Op a = MemoryActionSkip \<and> length raw > 1)))
      (map (sanitizeMemoryAction lower event) raw)"
  have d: "sanitizeMemoryDecision lower event decision =
      (if as = [] then [bareAction MemoryActionSkip ''no valid llm memory action''] else as)"
    unfolding Some sanitizeMemoryDecision_def Let_def as_def option.case by (rule refl)
  show ?thesis
  proof (cases "as = []")
    case True
    then have "sanitizeMemoryDecision lower event decision = [bareAction MemoryActionSkip ''no valid llm memory action'']"
      unfolding d by (rule if_P)
    then show ?thesis using skip_clean by simp
  next
    case False
    have e: "sanitizeMemoryDecision lower event decision = as" unfolding d by (rule if_not_P [OF False])
    have one: "length as = 1" if "a \<in> set as" "ma_Op a = MemoryActionSkip" for a
    proof -
      have "length raw \<le> 1" using kept_actions(2) [OF that(1) [unfolded as_def] that(2)] by (simp only: not_less)
      moreover have "length as \<le> length raw" unfolding as_def by (rule le_trans [OF length_filter_le]) (simp only: length_map order_refl)
      moreover have "0 < length as" using that(1) by (cases as) simp_all
      ultimately show ?thesis by linarith
    qed
    show ?thesis
      unfolding e
    proof (intro conjI ballI impI)
      show "as \<noteq> []" by (rule False)
      show "cleanAction a" if "a \<in> set as" for a
        by (rule kept_actions(1) [OF that [unfolded as_def]])
      show "length as = 1" if "\<exists>a \<in> set as. ma_Op a = MemoryActionSkip"
        using that by (elim bexE) (rule one)
    qed
  qed
qed

theorem sanitized_decision_witness:
  "sanitizeMemoryDecision (\<lambda>x. x)
      \<lparr>ev_SessionID = ''s'', ev_UserID = [], ev_ProjectID = [], ev_Query = [], ev_Answer = [], ev_TraceID = [], ev_ExistingMemories = []\<rparr>
      (Some [bareAction ''erase'' []]) \<noteq> []"
  by (rule conjunct1 [OF sanitized_decision])

end
