(* ===== verification/Mem_Session_Properties.thy ===== *)
theory Mem_Session_Properties
  imports Mem_Session
begin

text \<open>
  What the session memory promises: the window, the limit on sessions, the store's round trip, the check of an
  identifier; and two ways in which a limit is not enforced.
\<close>

subsection \<open>The window\<close>

text \<open>C30: With a window of two or more messages, however many turns are added, the session never holds more messages
  than its window; what it holds are the latest messages, and whole turns are dropped, never half of one.
  Every turn is counted.\<close>

theorem window_kept:
  assumes "2 \<le> effectiveWindow c" "int (length (ss_Messages c)) \<le> effectiveWindow c"
  shows "int (length (ss_Messages (addTurns turns c))) \<le> effectiveWindow c \<and>
    (\<exists>n. even n \<and> ss_Messages (addTurns turns c) = drop n (ss_Messages c @ turnMessages turns)) \<and>
    ss_turnCount (addTurns turns c) = ss_turnCount c + int (length turns)"
  using addTurns_kept [OF assms, of turns] addTurns_count by blast

theorem window_kept_witness:
  "int (length (ss_Messages (addTurns [(''a'', ''b''), (''c'', ''d'')] (newSession 0 2 ''s'')))) \<le> 2"
proof -
  have "effectiveWindow (newSession 0 2 ''s'') = 2" by (simp add: effectiveWindow_def newSession_def)
  then show ?thesis
    using window_kept [of "newSession 0 2 ''s''" "[(''a'', ''b''), (''c'', ''d'')]"] by (simp add: newSession_def)
qed

text \<open>A configured window of one message is not enforced: the number to drop is rounded up to whole turns, which would
  be all the messages, and then nothing is dropped. The session keeps every turn ever added, and its summary stays empty.\<close>

theorem window_of_one_unbounded:
  assumes "effectiveWindow c = 1" "even (length (ss_Messages c))"
  shows "ss_Messages (addTurns turns c) = ss_Messages c @ turnMessages turns \<and>
    ss_Summary (addTurns turns c) = ss_Summary c"
  using assms
proof (induction turns c rule: addTurns.induct)
  case (2 u a turns c)
  let ?b = "c\<lparr>ss_Messages := ss_Messages c @ [UserMessage u, AssistantMessage a], ss_turnCount := ss_turnCount c + 1\<rparr>"
  have m: "ss_MaxWindowSize c = 1"
    using 2(2) by (auto simp: effectiveWindow_def defaultMaxWindowSize_def split: if_splits)
  then have w: "effectiveWindow ?b = 1" by (simp add: effectiveWindow_def)
  have "windowExcess (int (length (ss_Messages ?b))) 1 = int (length (ss_Messages ?b))"
    using 2(3) unfolding windowExcess_def Let_def by simp presburger
  then have "AddUserAssistantPair u a c = ?b"
    using m unfolding AddUserAssistantPair_def trimWindow_def Let_def by simp
  then show ?case using 2(1) 2(3) w by simp
qed simp

theorem window_of_one_unbounded_witness:
  "length (ss_Messages (addTurns [(''a'', ''b''), (''c'', ''d'')] (newSession 0 1 ''s''))) = 4"
  using window_of_one_unbounded [of "newSession 0 1 ''s''" "[(''a'', ''b''), (''c'', ''d'')]"]
  by (simp add: effectiveWindow_def newSession_def)

subsection \<open>The limit on sessions\<close>

lemma oldest_fold:
  "fold (\<lambda>(sid, e) best. case best of
             None \<Rightarrow> Some (sid, se_lastAccess e)
           | Some (o1, t) \<Rightarrow> if se_lastAccess e < t then Some (sid, se_lastAccess e) else Some (o1, t)) m (Some (s0, t0)) =
     Some (s1, t1) \<Longrightarrow>
   (s1 = s0 \<and> t1 = t0 \<or> (\<exists>e. (s1, e) \<in> set m \<and> t1 = se_lastAccess e)) \<and> t1 \<le> t0 \<and> (\<forall>(s, e) \<in> set m. t1 \<le> se_lastAccess e)"
proof (induction m arbitrary: s0 t0)
  case (Cons x m)
  obtain s e where x: "x = (s, e)" by (cases x)
  show ?case
  proof (cases "se_lastAccess e < t0")
    case True
    with Cons.prems x have "fold (\<lambda>(sid, e) best. case best of
             None \<Rightarrow> Some (sid, se_lastAccess e)
           | Some (o1, t) \<Rightarrow> if se_lastAccess e < t then Some (sid, se_lastAccess e) else Some (o1, t)) m (Some (s, se_lastAccess e)) =
        Some (s1, t1)" by simp
    from Cons.IH [OF this] show ?thesis using True x by auto
  next
    case False
    with Cons.prems x have "fold (\<lambda>(sid, e) best. case best of
             None \<Rightarrow> Some (sid, se_lastAccess e)
           | Some (o1, t) \<Rightarrow> if se_lastAccess e < t then Some (sid, se_lastAccess e) else Some (o1, t)) m (Some (s0, t0)) =
        Some (s1, t1)" by simp
    from Cons.IH [OF this] show ?thesis using False x by auto
  qed
qed simp

lemma oldest_some: "m \<noteq> [] \<Longrightarrow> \<exists>s t. oldestSession m = Some (s, t)"
proof -
  have "\<exists>s1 t1. fold (\<lambda>(sid, e) best. case best of
             None \<Rightarrow> Some (sid, se_lastAccess e)
           | Some (o1, t) \<Rightarrow> if se_lastAccess e < t then Some (sid, se_lastAccess e) else Some (o1, t)) m (Some (s0, t0)) =
     Some (s1, t1)" for m and s0 :: string and t0
    by (induction m arbitrary: s0 t0) (auto split: prod.split)
  then show "m \<noteq> [] \<Longrightarrow> \<exists>s t. oldestSession m = Some (s, t)"
    by (cases m) (auto simp: oldestSession_def)
qed

lemma oldestSession_min:
  assumes "oldestSession m = Some (s, t)"
  shows "\<exists>e. (s, e) \<in> set m \<and> t = se_lastAccess e \<and> (\<forall>(s', e') \<in> set m. t \<le> se_lastAccess e')"
proof (cases m)
  case Nil
  then show ?thesis using assms by (simp add: oldestSession_def)
next
  case (Cons x xs)
  obtain s0 e0 where x: "x = (s0, e0)" by (cases x)
  have "fold (\<lambda>(sid, e) best. case best of
             None \<Rightarrow> Some (sid, se_lastAccess e)
           | Some (o1, t) \<Rightarrow> if se_lastAccess e < t then Some (sid, se_lastAccess e) else Some (o1, t)) xs (Some (s0, se_lastAccess e0)) =
     Some (s, t)"
    using assms by (simp add: oldestSession_def Cons x)
  from oldest_fold [OF this] show ?thesis unfolding Cons x by auto
qed

lemma length_del_less: "(k, v) \<in> set m \<Longrightarrow> length (gm_del k m) < length m"
proof (induction m)
  case (Cons x m)
  then show ?case
    using length_delete_le [of k m] by (cases x) (auto simp: less_Suc_eq_le)
qed simp

text \<open>Without a session store the map of sessions never exceeds its limit: a new session at the limit takes the place
  of one whose last use lies furthest back, every other session stays as it is, and the memory answered is the one
  the map then holds under the identifier.\<close>

theorem session_limit:
  assumes "gm_ok m" "SessionCount m \<le> maxSessions" "\<And>s e. (s, e) \<in> set m \<Longrightarrow> s \<noteq> []"
    and "GetSimpleMemory now w None sid m = (mem, m')"
  shows "SessionCount m' \<le> maxSessions \<and> map_option se_memory (gm_get m' sid) = Some mem \<and>
    (\<exists>gone. (\<forall>s. s \<noteq> sid \<longrightarrow> s \<noteq> gone \<longrightarrow> gm_get m' s = gm_get m s) \<and>
       (gm_get m sid \<noteq> None \<or> SessionCount m < maxSessions \<longrightarrow> gone = sid) \<and>
       (gone \<noteq> sid \<longrightarrow> (\<exists>e. gm_get m gone = Some e \<and> (\<forall>(s, e') \<in> set m. se_lastAccess e \<le> se_lastAccess e'))))"
proof (cases "gm_get m sid")
  case (Some e)
  then have "mem = se_memory e" "m' = gm_put sid (e\<lparr>se_lastAccess := now\<rparr>) m"
    using assms(4) by (simp_all add: GetSimpleMemory_def)
  then show ?thesis
    using Some assms(2) by (intro conjI exI [of _ sid]) (simp_all add: SessionCount_def length_put gm_get_put)
next
  case None
  show ?thesis
  proof (cases "SessionCount m < maxSessions")
    case True
    then have "mem = newSession now w sid" "m' = gm_put sid \<lparr>se_memory = mem, se_lastAccess = now\<rparr> m"
      using assms(4) None by (auto simp: GetSimpleMemory_def SessionCount_def Let_def)
    then show ?thesis
      using None True by (intro conjI exI [of _ sid]) (simp_all add: SessionCount_def length_put gm_get_put)
  next
    case False
    then have "m \<noteq> []" by (auto simp: SessionCount_def maxSessions_def)
    from oldest_some [OF this] obtain g t where o1: "oldestSession m = Some (g, t)" by blast
    from oldestSession_min [OF o1] obtain e where e: "(g, e) \<in> set m" "t = se_lastAccess e"
        "\<forall>(s', e') \<in> set m. t \<le> se_lastAccess e'" by blast
    have g: "g \<noteq> []" "gm_get m g = Some e" using assms(3) e(1) gm_in_get [OF assms(1) e(1)] by auto
    have r: "mem = newSession now w sid" "m' = gm_put sid \<lparr>se_memory = mem, se_lastAccess = now\<rparr> (gm_del g m)"
      using assms(4) None False o1 g(1) by (auto simp: GetSimpleMemory_def SessionCount_def Let_def)
    have gs: "g \<noteq> sid" using g(2) None by auto
    have "length (gm_del g m) < length m" by (rule length_del_less [OF e(1)])
    then have "SessionCount m' \<le> maxSessions"
      using r(2) assms(2) length_put_le [of sid "\<lparr>se_memory = mem, se_lastAccess = now\<rparr>" "gm_del g m"]
      by (simp add: SessionCount_def)
    then show ?thesis
      using r None False g e(3) gs unfolding e(2)
      by (intro conjI exI [of _ g]) (simp_all add: gm_get_put delete_conv)
  qed
qed

theorem session_limit_witness:
  "SessionCount (snd (GetSimpleMemory 5 2 None ''b'' [(''a'', \<lparr>se_memory = newSession 0 2 ''a'', se_lastAccess = 0\<rparr>)])) \<le> maxSessions"
proof -
  let ?m = "[(''a'', \<lparr>se_memory = newSession 0 2 ''a'', se_lastAccess = 0\<rparr>)]"
  obtain mem m' where g: "GetSimpleMemory 5 2 None ''b'' ?m = (mem, m')" by fastforce
  have "gm_ok ?m" "SessionCount ?m \<le> maxSessions" by (simp_all add: gm_ok_def SessionCount_def maxSessions_def)
  from session_limit [OF this _ g] g show ?thesis by simp
qed

text \<open>A session that comes from the store is added without looking at the limit: nothing is evicted, so an instance
  that serves more sessions than the limit, all known to the store, holds them all.\<close>

theorem stored_session_exceeds_limit:
  assumes "gm_get m sid = None"
  shows "SessionCount (snd (GetSimpleMemory now w (Some mem) sid m)) = SessionCount m + 1"
  using assms by (simp add: GetSimpleMemory_def SessionCount_def length_put)

theorem stored_session_exceeds_limit_witness:
  "SessionCount (snd (GetSimpleMemory 5 2 (Some (newSession 0 2 ''b'')) ''b'' [(''a'', \<lparr>se_memory = newSession 0 2 ''a'', se_lastAccess = 0\<rparr>)])) =
     SessionCount [(''a'', \<lparr>se_memory = newSession 0 2 ''a'', se_lastAccess = 0\<rparr>)] + 1"
  by (rule stored_session_exceeds_limit) simp

subsection \<open>The store\<close>

text \<open>What is saved is what is loaded: until it expires, a session written to the store is read back with its
  messages, summary, window and count of turns, and with its creation time to the second; saving another session
  in between changes nothing.\<close>

theorem session_round_trip:
  assumes "ss_ID c \<noteq> []" "0 < ss_MaxWindowSize c" "second \<le> ss_createdAt c" "ss_ID d \<noteq> ss_ID c"
    and "0 < ttlSeconds (sr_ttl s)" "now' < now + ttlSeconds (sr_ttl s) * second"
  shows "sessionLoad now' (ss_ID c) (sessionSave now d (sessionSave now c s)) =
    Some (c\<lparr>ss_createdAt := ss_createdAt c div second * second\<rparr>)"
proof -
  have "0 < ss_createdAt c div second"
    using assms(3) by (simp add: pos_imp_zdiv_pos_iff second_def)
  moreover have "sessionKey s (ss_ID d) \<noteq> sessionKey s (ss_ID c)" using assms(4) by (simp add: sessionKey_def)
  ultimately show ?thesis
    using assms(1,2,5,6)
    by (cases c) (simp add: sessionLoad_def sessionSave_def Let_def sessionKey_def gm_get_put fromWire_def toWire_def)
qed

definition demo_session :: simple_memory where
  "demo_session = AddUserAssistantPair ''hi'' ''ok'' (newSession 5000000000 2 ''s'')"

theorem session_round_trip_witness:
  "sessionLoad 0 ''s'' (sessionSave 0 (newSession 0 2 ''t'') (sessionSave 0 demo_session (newRedisSessionStore [] 5000000000))) =
     Some demo_session"
proof -
  let ?s = "newRedisSessionStore [] 5000000000"
  have f: "ss_ID demo_session = ''s''" "ss_MaxWindowSize demo_session = 2" "ss_createdAt demo_session = 5000000000"
    by (simp_all add: demo_session_def AddUserAssistantPair_def newSession_def)
  have "ttlSeconds (sr_ttl ?s) = 5" by code_simp
  then show ?thesis
    using session_round_trip [of demo_session "newSession 0 2 ''t''" ?s 0 0] f
    by (simp add: second_def newSession_def demo_session_def AddUserAssistantPair_def)
qed

subsection \<open>Identifiers\<close>

definition sessionByte :: "char \<Rightarrow> bool" where
  "sessionByte c \<longleftrightarrow>
     (let v = byte c in (0x61 \<le> v \<and> v \<le> 0x7A) \<or> (0x41 \<le> v \<and> v \<le> 0x5A) \<or> (0x30 \<le> v \<and> v \<le> 0x39) \<or> c = CHR ''-'' \<or> c = CHR ''_'')"

lemma sessionByte_ascii: "sessionByte c \<Longrightarrow> byte c < 0x80"
proof -
  have "byte (CHR ''-'') < 0x80" "byte (CHR ''_'') < 0x80" by (simp_all add: byte_def)
  then show "sessionByte c \<Longrightarrow> byte c < 0x80" by (auto simp: sessionByte_def Let_def)
qed

lemma sessionRune_single: "sessionRune [c] = sessionByte c"
  by (simp add: sessionRune_def sessionByte_def Let_def)

lemma rune_length_kinds:
  "byte a < 0x80 \<Longrightarrow> rune_length (a # t) = 1"
  "0x80 \<le> byte a \<Longrightarrow> byte a < 0xC2 \<Longrightarrow> rune_length (a # t) = 0"
  "0xC2 \<le> byte a \<Longrightarrow> byte a \<le> 0xDF \<Longrightarrow>
     rune_length (a # t) = (case t of b # _ \<Rightarrow> if tail_byte b then 2 else 0 | _ \<Rightarrow> 0)"
  "0xE0 \<le> byte a \<Longrightarrow> byte a \<le> 0xEF \<Longrightarrow>
     rune_length (a # t) = (case t of b # c # _ \<Rightarrow>
       if tail_byte b \<and> tail_byte c \<and> (byte a = 0xE0 \<longrightarrow> 0xA0 \<le> byte b) \<and> (byte a = 0xED \<longrightarrow> byte b \<le> 0x9F) then 3 else 0
       | _ \<Rightarrow> 0)"
  "0xF0 \<le> byte a \<Longrightarrow> byte a \<le> 0xF4 \<Longrightarrow>
     rune_length (a # t) = (case t of b # c # d # _ \<Rightarrow>
       if tail_byte b \<and> tail_byte c \<and> tail_byte d \<and> (byte a = 0xF0 \<longrightarrow> 0x90 \<le> byte b) \<and> (byte a = 0xF4 \<longrightarrow> byte b \<le> 0x8F)
       then 4 else 0 | _ \<Rightarrow> 0)"
  "0xF4 < byte a \<Longrightarrow> rune_length (a # t) = 0"
  by simp_all

declare rune_length.simps [simp del]

lemma big_rune: "0x7A < rune_value r \<Longrightarrow> length r \<noteq> 1 \<Longrightarrow> \<not> sessionRune r"
  by (auto simp: sessionRune_def Let_def)

lemma tail_mod: "tail_byte b \<Longrightarrow> byte b mod 64 = byte b - 0x80"
proof -
  assume "tail_byte b"
  then have l: "64 \<le> byte b" "64 \<le> byte b - 64" "byte b - 64 - 64 < 64" unfolding tail_byte_def by linarith+
  show ?thesis unfolding le_mod_geq [OF l(1)] le_mod_geq [OF l(2)] mod_less [OF l(3)] by linarith
qed

lemma rune2:
  assumes k: "0xC2 \<le> byte a" "byte a \<le> 0xDF" and l: "1 < rune_length (a # t)"
  shows "\<not> sessionRune (take (rune_length (a # t)) (a # t))"
proof -
  note r = rune_length_kinds(3) [OF k, of t]
  obtain b u where t: "t = b # u" using l unfolding r by (cases t) auto
  have n: "rune_length (a # t) = 2" using l unfolding r unfolding t by (simp split: if_splits)
  have "2 \<le> byte a mod 32" using k by presburger
  then have "0x7A < rune_value [a, b]" by simp
  then have "\<not> sessionRune [a, b]" by (rule big_rune) simp
  then show ?thesis unfolding n by (simp add: t)
qed

lemma rune3:
  assumes k: "0xE0 \<le> byte a" "byte a \<le> 0xEF" and l: "1 < rune_length (a # t)"
  shows "\<not> sessionRune (take (rune_length (a # t)) (a # t))"
proof -
  note r = rune_length_kinds(4) [OF k, of t]
  obtain b c u where t: "t = b # c # u"
    using l unfolding r by (cases t; cases "tl t") auto
  have n: "tail_byte b \<and> (byte a = 0xE0 \<longrightarrow> 0xA0 \<le> byte b) \<and> rune_length (a # t) = 3"
    using l unfolding r unfolding t by (simp split: if_splits)
  have "1 \<le> byte a mod 16 \<or> 0x20 \<le> byte b mod 64"
  proof (cases "byte a = 0xE0")
    case True
    then have "0xA0 \<le> byte b" "byte b mod 64 = byte b - 0x80" using n tail_mod by blast+
    then show ?thesis by linarith
  next
    case False
    then show ?thesis using k by presburger
  qed
  then have "0x7A < rune_value [a, b, c]" by auto
  then have "\<not> sessionRune [a, b, c]" by (rule big_rune) simp
  moreover have "rune_length (a # t) = 3" using n by blast
  ultimately show ?thesis unfolding t by simp
qed

lemma rune4:
  assumes k: "0xF0 \<le> byte a" "byte a \<le> 0xF4" and l: "1 < rune_length (a # t)"
  shows "\<not> sessionRune (take (rune_length (a # t)) (a # t))"
proof -
  note r = rune_length_kinds(5) [OF k, of t]
  obtain b u1 where t1: "t = b # u1" using l unfolding r by (cases t) auto
  obtain c u2 where t2: "u1 = c # u2" using l unfolding r unfolding t1 by (cases u1) auto
  obtain d u where t3: "u2 = d # u" using l unfolding r unfolding t1 t2 by (cases u2) auto
  note t = t1 [unfolded t2 t3]
  have n: "tail_byte b \<and> (byte a = 0xF0 \<longrightarrow> 0x90 \<le> byte b) \<and> rune_length (a # t) = 4"
    using l unfolding r unfolding t by (simp split: if_splits)
  have "1 \<le> byte a mod 8 \<or> 0x10 \<le> byte b mod 64"
  proof (cases "byte a = 0xF0")
    case True
    then have "0x90 \<le> byte b" "byte b mod 64 = byte b - 0x80" using n tail_mod by blast+
    then show ?thesis by linarith
  next
    case False
    then show ?thesis using k by presburger
  qed
  then have "0x7A < rune_value [a, b, c, d]" by auto
  then have "\<not> sessionRune [a, b, c, d]" by (rule big_rune) simp
  moreover have "rune_length (a # t) = 4" using n by blast
  ultimately show ?thesis unfolding t by simp
qed

lemma long_rune:
  assumes "1 < rune_length (a # t)"
  shows "\<not> sessionRune (take (rune_length (a # t)) (a # t)) \<and> 0x80 \<le> byte a"
proof -
  have "byte a < 0x80 \<or> 0x80 \<le> byte a \<and> byte a < 0xC2 \<or> 0xC2 \<le> byte a \<and> byte a \<le> 0xDF \<or>
      0xE0 \<le> byte a \<and> byte a \<le> 0xEF \<or> 0xF0 \<le> byte a \<and> byte a \<le> 0xF4 \<or> 0xF4 < byte a" by linarith
  then show ?thesis
    using rune2 [OF _ _ assms] rune3 [OF _ _ assms] rune4 [OF _ _ assms] rune_length_kinds(1,2,6) [of a t] assms
    by (elim disjE conjE) simp_all
qed

lemma runes_cases:
  "s \<noteq> [] \<Longrightarrow> rune_length s = 0 \<Longrightarrow> runes s = [CHR 0xEF, CHR 0xBF, CHR 0xBD] # runes (tl s)"
  "s \<noteq> [] \<Longrightarrow> rune_length s \<noteq> 0 \<Longrightarrow> runes s = take (rune_length s) s # runes (drop (rune_length s) s)"
  by (rule trans [OF runes.simps], simp)+

lemma replacement_refused: "\<not> sessionRune [CHR 0xEF, CHR 0xBF, CHR 0xBD]"
  by (rule big_rune) (simp_all add: byte_def)

lemma not_ascii_refused: "rune_length (a # t) \<noteq> 1 \<Longrightarrow> \<not> sessionByte a"
  using rune_length_kinds(1) [of a t] sessionByte_ascii [of a] by blast

lemma runes_session: "(\<forall>r \<in> set (runes s). sessionRune r) \<longleftrightarrow> (\<forall>c \<in> set s. sessionByte c)"
proof (induction s rule: runes.induct)
  case (1 s)
  show ?case
  proof (cases s)
    case (Cons a t)
    then have ne: "s \<noteq> []" by simp
    show ?thesis
    proof (cases "rune_length s = 1")
      case True
      have "(\<forall>r \<in> set (runes t). sessionRune r) \<longleftrightarrow> (\<forall>c \<in> set t. sessionByte c)"
        using "1.IH"(2) [OF ne] True Cons by simp
      moreover have "runes s = [a] # runes t"
        using runes_cases(2) [OF ne] True Cons by simp
      ultimately show ?thesis using sessionRune_single [of a] unfolding Cons by simp
    next
      case False
      then have "\<not> sessionByte a" using not_ascii_refused [of a t] Cons by blast
      moreover have "\<exists>r \<in> set (runes s). \<not> sessionRune r"
      proof (cases "rune_length s = 0")
        case True
        then show ?thesis using runes_cases(1) [OF ne True] replacement_refused by simp
      next
        case False': False
        then have "1 < rune_length (a # t)" using False Cons by simp
        then show ?thesis using runes_cases(2) [OF ne False'] long_rune [of a t] Cons by simp
      qed
      ultimately show ?thesis unfolding Cons by (meson list.set_intros(1))
    qed
  qed simp
qed

text \<open>An identifier is accepted exactly when it has 1 to 128 bytes and each of them is an ASCII letter, a digit, a hyphen
  or an underscore: no separator of keys or paths and no part of another encoding passes.\<close>

theorem session_id_accepted:
  "ValidateSessionID sid = None \<longleftrightarrow> sid \<noteq> [] \<and> length sid \<le> 128 \<and> list_all sessionByte sid"
proof -
  have "filter (\<lambda>r. \<not> sessionRune r) (runes sid) = [] \<longleftrightarrow> list_all sessionByte sid"
    using runes_session [of sid] by (simp add: filter_empty_conv list_all_iff)
  then show ?thesis
    by (cases "filter (\<lambda>r. \<not> sessionRune r) (runes sid)") (auto simp: ValidateSessionID_def)
qed

end
