(* ===== verification/Spec2Isabelle.thy ===== *)
theory Spec2Isabelle
  imports Belief_Properties Gos_Converter_Properties Gos_Engine_Properties Svc_Breaker Svc_Queue_Config Ctx_Compress_Properties Ctx_Assemble_Properties Ctx_Select_Properties Rag_Properties Ops_Approval_Properties App_Router_Properties Cmdb_App Mem_Agent_Properties Mem_Session_Properties
begin

text \<open>
  A verification development for OpsCaptain, an assistant for operational incidents.

  The program.  A question or an alarm first meets the agent router (internal/app), which decides whether it is a chat, an
  incident or has to be confirmed.  An incident goes to the Graph-of-States engine (internal/ai/agent/gos_engine) over a
  belief graph (internal/ai/belief): a run ingests a symptom into a graph of signals, hypotheses and evidence, and then
  repeats rounds: it plans expert calls for the best hypothesis of the current level (the frontier), lets the experts act,
  writes their evidence back in one copy-on-write update, and lets the state converter decide whether to go on, refine,
  backtrack, report or give up.  A chat is answered from a context that is assembled (internal/ai/contextengine,
  contextcompression) out of the history, the memory (internal/ai/memory) and the documents of the retrieval
  (internal/ai/rag).  Requests that ask for a change are held back for an approval (internal/ai/service).  Chat tasks and
  memory extractions run behind queues (internal/ai/service, internal/infra/rabbitmq), calls of models behind circuit
  breakers (utility/resilience).

  Foundations.
    Prelude: insertion-ordered maps with distinct keys for Go maps (gomap), counting, results, options.
    Go_Strings, Go_Split, Go_Format: TrimSpace, Fields, Split, Contains, Sprintf, UTF-8 runes.  Go_Time: times, durations
      and conversions.  Go_Sort: sort.Slice as a sort that returns some sorted permutation, with the locale comparator.
    Go_Float: float64 as a rational with explicit rounding: every operation of the source that rounds is a named
      operation.  NaN and the infinities are not values of the type; where the source refuses them the check is true.
    Gos_Text: the literal texts of the engine.

  The belief graph (belief/types.go, graph.go, fsm.go).
    Belief_Types: nodes, edges, evidence sources, snapshots, deltas, policy and the controller's data.
    Belief_Graph: every method of BeliefGraph.  One function is one critical section of the mutex; the
      clock, the SHA-256 digests of nodes and edges and the JSON size are fields of the parameter
      record gort.  UpdateCopyOnWrite is split where it releases the lock (deepCopy, cowCheck, cowCommit),
      so that other updates may come between.
    Belief_Fsm: BeliefFSM with its thresholds, its history and its decision for a level.
    Belief_Invariants, Belief_History, Belief_Ranking: well-formedness of reachable graphs, the
      replay of snapshots and deltas, the ranking of hypotheses.  Belief_Properties: the claims.

  The engine (gos_engine/*.go, agent/experts/registry.go).
    Gos_Config: config.go.  Gos_Validate, Gos_Evidence: evidence_update.go.  Gos_Converter: state_converter.go.
    Gos_Json, Gos_Planner: structured_json.go and planner.go.  Gos_Ingestor: ingestor.go.
    Gos_Report: the counters of observability.go, report.go.
    Gos_Act, Gos_Engine: engine.go: the expert phase, one round, the run, its degraded results.
    Gos_Client states the contract of a graph client as a locale (graph_client); refinement, backtracking and ingest
    interpret it.

  Services.
    Svc_Breaker: resilience.go.  Svc_Dedup: ttl_set.go, deduper.go, with the locales dedup and dedup_exact, interpreted by
    the TTL set and by its composition with Redis.  Svc_Queue, Svc_Queue_Config: chat_task_*.go, memory_queue_*.go:
    submission, the handlers of deliveries, configuration; Svc_Queue_Properties is proved over the locale.
    Ops_Approval: approval_gate.go with its two regular expressions, approval_queue.go over a model of Redis,
    ai_ops_approval.go, and the two entries of ai_ops_service.go, waiting and asynchronous, up to the run.

  The router (internal/app).
    App_Route: routes, the configuration and how it is read, route_experiment.go.  App_Router: agent_router_funnel.go, with
    the clock readings numbered by their place, and agent_router.go.

  The CMDB and the correlation of alerts (internal/infra/cmdb, ai/cmdb, app, ai/alertcorrelation).
    Cmdb_Store: store.go: services and hosts, their indexes, the file.  Alert_Correlation: engine.go: windows of alerts,
    propagation along a topology, candidates for the root cause; the locale service_topology states what a topology owes.
    Cmdb_App: the adapter, which interprets the locale, the checks and operations of cmdb_app.go, topology.go with its
    cache, and the tool correlate_alerts.go but for its call of Prometheus.

  The memory (internal/ai/memory).
    Mem_Types: entries and helpers.  Mem_LongTerm: long_term.go, long_term_eviction.go, one step per operation, with the
    changes it hands to the store.  Mem_Store: the locale memory_store, interpreted by the file store and the Redis store.
    Mem_Extract, Mem_Agent: extraction.go and agent_*.go.  Mem_Session: session.go, session_store.go.

  The context (internal/ai/contextengine, contextcompression, memory/token_budget.go).
    Ctx_Tokens: estimates and trimming.  Ctx_Types, Ctx_Select: profiles, items, selection under budgets.
    Ctx_Compress: the compression of logs and JSON.  Ctx_Recall: recall of history and tools, the cache of embeddings.
    Ctx_Assemble: the stages of an assembly and its trace.

  The retrieval (internal/ai/rag).
    Rag_Tokens, Rag_Index: bm25.go.  Rag_Docs, Rag_Intent, Rag_Refine: documents, what a query wants, ordering and choosing.
    Rag_Hybrid: hybrid.go.  Rag_Query: the pool of retrievers, rewriting, reranking, the whole query, citations.
    Rag_Agent: planner, evaluator and the agent that repeats retrieving.  Rag_Facts: no stage changes the essence of a
    document; Rag_Merge, Rag_Pool: merging and the pool.

  The files named _Facts hold lemmas, the files named _Properties the claims.

  How the state corresponds.  A Go struct is a record with the same fields (with a prefix where two structs share a field
  name), a pointer an option, an enumeration a datatype or a string, an error a value.  A method that changes its receiver
  returns it.  A panic of the source (an index out of range, a nil map) is the value None.  The clock is an argument.

  What the theorems show.
    Graph and engine: reachable graphs are well formed; the history replays to the graph; the frontier is the best
      hypothesis; a copy-on-write update loses no other update; retracting a node isolates it; the validator equals its
      specification; evidence is counted once; decisions are accepted by the controller that asked for them; plans meet
      their contract; a run ends within its bound, and a successful result has the evidence that is demanded.
    Services: breakers refuse and recover as configured; the set of claims answers as the list of its latest claims, with
      eviction; a task that was handled successfully is not executed twice, a failed one is executed again when its retry
      comes, and one that is put back is not executed within the time of its claim; what is run without an approval needs
      none, at either entry, but a rejected request runs when it is approved afterwards, and the gate takes the end of a
      word for a negation.
    Router, whose configuration is loaded anew at every call: incidents go to strategies that the configuration allows, or
      come from the cache and were allowed when they were cached, routes are followed only with the configured
      confidence, risky queries end with a confirmation, the caches are bounded; an answer to a pending slot is asked
      again.  A library lemma shows that missing keys replace defaults by 0.
    CMDB and alerts: the store refines two tables whatever fails when it saves, and a restart loses nothing; the graph of
      the topology is closed, but its filter depends on the cache; every alert stands in one window, windows lie apart, and
      a reported propagation follows the dependencies of the CMDB and the order of the first alerts of the two services.
    Memory: a sequence of calls stays well formed and within its limits whatever writes fail, and its file mirrors it when
      none does, so that a restart then finds every entry; retrieval stays within its scopes; a session
      keeps its window and its wire format is read back; agents can only store what was validated.
    Context: what is selected is a part in order and within budget, memories come from stored entries in scope, compression
      never costs tokens and keeps the lines of errors, warnings and hits and the lines around errors,
      the trace accounts for the result.
    Retrieval: answers are documents of the sources, within the scope of the user over all rounds; the index is a table;
      merging keeps each document once; the agent hides the errors of its retrievals, and panics only where one of them does.

  Termination and bounds.  All definitions are total.  Loops whose end is not structural have measures: the report's scope
  by the edges not yet used, the run by the steps left below the session limit, the scan of keywords by the text left, the
  rounds of the retrieval agent by the rounds left.  The evictions of the long-term memory are while_option, and a claim
  shows that they end.  No fuel is used.

  Parameters.  Language models, embedders, vector stores, the JSON encoder and decoder, SHA-256 and HMAC, ToLower outside
  ASCII, square root, power and logarithm, the matches of the patterns of the recall, the clock, and the answers of the
  broker and of Redis are parameters of the definitions; no law is assumed of them but where a statement says so.  Which
  writes of the memory's file fail is a list of faults.  The file holds the entries themselves: that decoding gives back
  what was encoded as JSON is taken for granted there.

  Not modelled.  structured_generate.go, the experts' executors and the tools only call models and services.  The metrics,
  log lines and emitted events are written and never read.  The agent runtime, the skills, change events, the indexing of
  documents, the HTTP controllers, the wiring of the services and the evaluation harness are not part of this development;
  nor are the singletons of a process, which are the state a caller passes.
\<close>

end
